(* ===== verification/Prelude.thy ===== *)
theory Prelude
  imports Main "HOL-Library.Word" "HOL-Library.Signed_Division"
begin

text \<open>
  Shared vocabulary of the development: the fixed-width integer types of
  \<^verbatim>\<open>src/common/types.h\<close>, the bit-field accesses that the C unions with
  bit-fields compile to, the conversions between signed and unsigned values, and the
  generic lemmas on words and function updates the components share.  The collection
  \<open>eval_simps\<close> holds what a closed instance needs to evaluate.
\<close>

unbundle bit_operations_syntax

named_theorems eval_simps \<open>rewriting of closed terms in witnesses\<close>

type_synonym u8 = "8 word"
type_synonym u16 = "16 word"
type_synonym u32 = "32 word"
type_synonym u64 = "64 word"

text \<open>
  A value of a signed C type is an \<^typ>\<open>int\<close>; a cast to a signed type of width
  \<open>n\<close> is \<open>signed_take_bit (n - 1)\<close>, which is what the supported compilers do.
  \<open>tick_count_t\<close> is \<open>s32\<close>, \<open>global_ticks_t\<close> is \<open>u64\<close>.
\<close>

type_synonym tick_count = int
type_synonym global_ticks = u64

definition to_s16 :: "int \<Rightarrow> int" where
  "to_s16 v = signed_take_bit 15 v"

definition to_s32 :: "int \<Rightarrow> int" where
  "to_s32 v = signed_take_bit 31 v"

definition to_s64 :: "int \<Rightarrow> int" where
  "to_s64 v = signed_take_bit 63 v"

definition u32_of_bool :: "bool \<Rightarrow> u32" where
  "u32_of_bool b = (if b then 1 else 0)"

section \<open>Bit-fields\<close>

text \<open>Reading and writing the \<open>n\<close>-bit field at bit \<open>lo\<close> of a word.\<close>

definition bits_get :: "'a::len word \<Rightarrow> nat \<Rightarrow> nat \<Rightarrow> 'a word" where
  "bits_get w lo n = take_bit n (drop_bit lo w)"

definition bits_set :: "'a::len word \<Rightarrow> nat \<Rightarrow> nat \<Rightarrow> 'a word \<Rightarrow> 'a word" where
  "bits_set w lo n v = (w AND NOT (push_bit lo (mask n))) OR push_bit lo (take_bit n v)"

definition flag_put :: "nat \<Rightarrow> bool \<Rightarrow> 'a::len word \<Rightarrow> 'a word" where
  "flag_put i b w = (if b then set_bit i w else unset_bit i w)"

lemma bit_bits_get [simp]:
  "bit (bits_get w lo n) i \<longleftrightarrow> i < n \<and> bit w (lo + i)" for w :: "'a::len word"
  by (auto simp: bits_get_def bit_simps ac_simps)

lemma bit_bits_set [simp]:
  "bit (bits_set w lo n v) i \<longleftrightarrow>
     i < LENGTH('a) \<and> (if lo \<le> i \<and> i < lo + n then bit v (i - lo) else bit w i)"
  for w :: "'a::len word"
  by (auto simp: bits_set_def bit_simps)

lemma bits_get_set_same:
  "lo + n \<le> LENGTH('a) \<Longrightarrow> bits_get (bits_set w lo n v) lo n = take_bit n v"
  for w :: "'a::len word"
  by (rule bit_word_eqI) (auto simp: bit_simps)

lemma bits_get_set_other:
  "lo' + n' \<le> lo \<or> lo + n \<le> lo' \<Longrightarrow> bits_get (bits_set w lo n v) lo' n' = bits_get w lo' n'"
  for w :: "'a::len word"
  by (rule bit_word_eqI) (auto simp: bit_imp_le_length)

lemma bits_get_bound: "n < LENGTH('a) \<Longrightarrow> unat (bits_get w lo n) < 2 ^ n" for w :: "'a::len word"
  by (simp add: bits_get_def unsigned_take_bit_eq)

lemma bit_flag_put [simp]:
  "bit (flag_put i b w) j \<longleftrightarrow> j < LENGTH('a) \<and> (if j = i then b else bit w j)"
  for w :: "'a::len word"
  by (auto simp: flag_put_def bit_simps dest: bit_imp_le_length)

lemma flag_put_same [simp]: "flag_put i b (flag_put i c w) = flag_put i b w" for w :: "'a::len word"
  by (rule bit_word_eqI) auto

lemma word_and_nonzero_iff: "x AND y \<noteq> 0 \<longleftrightarrow> (\<exists>n. bit x n \<and> bit y n)" for x y :: "'a::len word"
  by (auto simp: bit_eq_iff bit_simps) (metis bit_imp_le_length)

text \<open>The update \<open>(w & ~(1 << i)) | (b ? 1 << i : 0)\<close> the code writes for one bit.\<close>

lemma one_bit_update:
  "flag_put i False w OR 2 ^ i = flag_put i True w"
  "w AND NOT (2 ^ i) = flag_put i False w"
  for w :: "'a::len word"
  by (rule bit_word_eqI; auto simp: bit_simps)+

lemma flag_put_eq_self_iff:
  "i < LENGTH('a) \<Longrightarrow> flag_put i b w = w \<longleftrightarrow> bit w i = b" for w :: "'a::len word"
  by (metis bit_flag_put bit_imp_le_length bit_word_eqI)

section \<open>Signed conversions\<close>

lemma to_s32_range: "- (2 ^ 31) \<le> to_s32 v" "to_s32 v < 2 ^ 31"
  unfolding to_s32_def
  using signed_take_bit_int_greater_eq_minus_exp [of 31 v] signed_take_bit_int_less_exp [of 31 v]
  by simp_all

lemma to_s16_range: "- (2 ^ 15) \<le> to_s16 v" "to_s16 v < 2 ^ 15"
  unfolding to_s16_def
  using signed_take_bit_int_greater_eq_minus_exp [of 15 v] signed_take_bit_int_less_exp [of 15 v]
  by simp_all

lemma to_s32_id: "- (2 ^ 31) \<le> v \<Longrightarrow> v < 2 ^ 31 \<Longrightarrow> to_s32 v = v"
  by (simp add: to_s32_def signed_take_bit_int_eq_self)

lemma to_s16_id: "- (2 ^ 15) \<le> v \<Longrightarrow> v < 2 ^ 15 \<Longrightarrow> to_s16 v = v"
  by (simp add: to_s16_def signed_take_bit_int_eq_self)

lemma to_s32_uint: "uint w < 2 ^ 31 \<Longrightarrow> to_s32 (uint w) = uint w"
  by (rule to_s32_id) (auto intro: order_trans [OF _ uint_ge_0])

lemma sint_word_of_int32: "sint (word_of_int v :: u32) = to_s32 v"
  by (simp add: to_s32_def signed_of_int)

section \<open>Masks\<close>

lemma unat_and_mask: "unat (w AND mask n) = unat w mod 2 ^ n" for w :: "'a::len word"
proof -
  have "unat (take_bit n w) = take_bit n (unat w)" by (rule unsigned_take_bit_eq)
  moreover have "take_bit n (unat w) = unat w mod 2 ^ n" by (rule take_bit_eq_mod)
  ultimately show ?thesis by (simp only: take_bit_eq_mask [of n w])
qed

section \<open>Leading zeros\<close>

text \<open>\<open>__builtin_clz\<close>, for a non-zero argument.\<close>

fun clz_from :: "nat \<Rightarrow> 'a::len word \<Rightarrow> nat" where
  "clz_from 0 w = 0"
| "clz_from (Suc n) w = (if bit w n then 0 else Suc (clz_from n w))"

definition word_clz :: "'a::len word \<Rightarrow> nat" where
  "word_clz w = clz_from LENGTH('a) w"

section \<open>Evaluation\<close>

lemmas [eval_simps] =
  bits_get_def bits_set_def flag_put_def to_s16_def to_s32_def to_s64_def u32_of_bool_def
  mask_eq_exp_minus_1 Let_def

end
