(* ===== verification/Cpu_State.thy ===== *)
theory Cpu_State
  imports Prelude
begin

text \<open>
  The R3000A state shared by every component: \<^verbatim>\<open>cpu_state_t\<close> of
  \<^verbatim>\<open>src/core/cpu/cpu_core.h\<close>, the COP0 registers of
  \<^verbatim>\<open>src/core/cpu/cpu_types.h\<close>, and the inline operations on the tick counters
  and the interrupt line that the scheduler, the interrupt controller and the timers call.

  An array of the code is a function from indices; \<open>regs\<close> holds the 35 slots of
  \<open>cpu_registers_t.r\<close> (32 general registers, hi at 32, lo at 33, and the dummy
  load-delay slot \<open>CPU_REG_COUNT\<close> at 34).  The bit-field unions are the raw words.
  Host-only members (fastmem base, handler tables, PGXP shadows, debug dispatcher flags)
  are left out.
\<close>

record cop0_registers =
  BPC :: u32
  BDA :: u32
  TAR :: u32
  BadVaddr :: u32
  BDAM :: u32
  BPCM :: u32
  EPC :: u32
  PRID :: u32
  sr :: u32
  cause :: u32
  dcic :: u32

record cpu_state =
  downcount :: u32
  pending_ticks :: u32
  gte_completion_tick :: u32
  muldiv_completion_tick :: u32
  regs :: "nat \<Rightarrow> u32"
  cop0_regs :: cop0_registers
  pc :: u32
  npc :: u32
  current_instruction :: u32
  current_instruction_pc :: u32
  current_instruction_in_branch_delay_slot :: bool
  current_instruction_was_branch_taken :: bool
  next_instruction_is_branch_delay_slot :: bool
  branch_was_taken :: bool
  exception_raised :: bool
  bus_error :: bool
  next_instruction_fetch_exception :: u8
  load_delay_reg :: nat
  next_load_delay_reg :: nat
  load_delay_value :: u32
  next_load_delay_value :: u32
  next_instruction :: u32
  cache_control :: u32
  gte_regs :: "nat \<Rightarrow> u32"
  icache_tags :: "nat \<Rightarrow> u32"
  icache_data :: "nat \<Rightarrow> u32"
  scratchpad :: "nat \<Rightarrow> u8"

definition CPU_REG_HI :: nat where "CPU_REG_HI = 32"
definition CPU_REG_LO :: nat where "CPU_REG_LO = 33"
definition CPU_REG_RA :: nat where "CPU_REG_RA = 31"
definition CPU_REG_COUNT :: nat where "CPU_REG_COUNT = 34"

text \<open>Bit positions of the COP0 status and cause registers.\<close>

definition sr_IEc :: "u32 \<Rightarrow> bool" where "sr_IEc w = bit w 0"
definition sr_KUc :: "u32 \<Rightarrow> bool" where "sr_KUc w = bit w 1"
definition sr_BEV :: "u32 \<Rightarrow> bool" where "sr_BEV w = bit w 22"
definition sr_CU0 :: "u32 \<Rightarrow> bool" where "sr_CU0 w = bit w 28"
definition sr_CE2 :: "u32 \<Rightarrow> bool" where "sr_CE2 w = bit w 30"
definition cause_BD :: "u32 \<Rightarrow> bool" where "cause_BD w = bit w 31"

section \<open>Tick counters\<close>

definition cpu_get_pending_ticks :: "cpu_state \<Rightarrow> u32" where
  "cpu_get_pending_ticks c = pending_ticks c"

definition cpu_reset_pending_ticks :: "cpu_state \<Rightarrow> cpu_state" where
  "cpu_reset_pending_ticks c = c\<lparr>
     gte_completion_tick :=
       (if pending_ticks c < gte_completion_tick c
        then gte_completion_tick c - pending_ticks c else 0),
     muldiv_completion_tick :=
       (if pending_ticks c < muldiv_completion_tick c
        then muldiv_completion_tick c - pending_ticks c else 0),
     pending_ticks := 0\<rparr>"

definition cpu_add_pending_ticks :: "tick_count \<Rightarrow> cpu_state \<Rightarrow> cpu_state" where
  "cpu_add_pending_ticks t c = c\<lparr>pending_ticks := pending_ticks c + word_of_int t\<rparr>"

definition cpu_add_gte_ticks :: "tick_count \<Rightarrow> cpu_state \<Rightarrow> cpu_state" where
  "cpu_add_gte_ticks t c = c\<lparr>gte_completion_tick := pending_ticks c + word_of_int t + 1\<rparr>"

definition cpu_stall_until_gte_complete :: "cpu_state \<Rightarrow> cpu_state" where
  "cpu_stall_until_gte_complete c = c\<lparr>pending_ticks :=
     (if gte_completion_tick c > pending_ticks c then gte_completion_tick c else pending_ticks c)\<rparr>"

definition cpu_add_muldiv_ticks :: "tick_count \<Rightarrow> cpu_state \<Rightarrow> cpu_state" where
  "cpu_add_muldiv_ticks t c = c\<lparr>muldiv_completion_tick := pending_ticks c + word_of_int t\<rparr>"

definition cpu_stall_until_muldiv_complete :: "cpu_state \<Rightarrow> cpu_state" where
  "cpu_stall_until_muldiv_complete c = c\<lparr>pending_ticks :=
     (if muldiv_completion_tick c > pending_ticks c then muldiv_completion_tick c
      else pending_ticks c)\<rparr>"

definition cpu_get_mult_ticks_signed :: "int \<Rightarrow> tick_count" where
  "cpu_get_mult_ticks_signed rs =
     (if rs < 0 then (if rs \<ge> -2048 then 6 - 1 else if rs \<ge> -1048576 then 9 - 1 else 13 - 1)
      else (if rs < 0x800 then 6 - 1 else if rs < 0x100000 then 9 - 1 else 13 - 1))"

definition cpu_get_mult_ticks_unsigned :: "u32 \<Rightarrow> tick_count" where
  "cpu_get_mult_ticks_unsigned rs =
     (if rs < 0x800 then 6 - 1 else if rs < 0x100000 then 9 - 1 else 13 - 1)"

definition cpu_get_div_ticks :: tick_count where
  "cpu_get_div_ticks = 36 - 1"

section \<open>The interrupt line\<close>

definition cpu_has_pending_interrupt :: "cpu_state \<Rightarrow> bool" where
  "cpu_has_pending_interrupt c \<longleftrightarrow>
     sr_IEc (sr (cop0_regs c)) \<and>
     (cause (cop0_regs c) AND sr (cop0_regs c)) AND 0xFF00 \<noteq> 0"

definition cpu_check_for_pending_interrupt :: "cpu_state \<Rightarrow> cpu_state" where
  "cpu_check_for_pending_interrupt c =
     (if cpu_has_pending_interrupt c then c\<lparr>downcount := 0\<rparr> else c)"

text \<open>
  \<open>IRQ_BIT = 1u << 10\<close>, so clearing it and or-ing in the new state is
  \<open>flag_put 10\<close>.
\<close>

definition cpu_set_irq_request :: "bool \<Rightarrow> cpu_state \<Rightarrow> cpu_state" where
  "cpu_set_irq_request state c =
     (let old_cause = cause (cop0_regs c);
          new_cause = flag_put 10 state old_cause;
          c' = c\<lparr>cop0_regs := (cop0_regs c)\<lparr>cause := new_cause\<rparr>\<rparr>
      in if old_cause XOR new_cause \<noteq> 0 \<and> state
         then cpu_check_for_pending_interrupt c' else c')"

lemma cpu_check_cop0 [simp]:
  "cop0_regs (cpu_check_for_pending_interrupt c) = cop0_regs c"
  by (simp add: cpu_check_for_pending_interrupt_def)

lemma cpu_set_irq_request_cause_bit:
  "bit (cause (cop0_regs (cpu_set_irq_request b c))) n \<longleftrightarrow>
     (if n = 10 then b else bit (cause (cop0_regs c)) n)"
  by (auto simp: cpu_set_irq_request_def Let_def dest: bit_imp_le_length)

lemma cpu_set_irq_request_frame [simp]:
  "pending_ticks (cpu_set_irq_request b c) = pending_ticks c"
  "regs (cpu_set_irq_request b c) = regs c"
  "pc (cpu_set_irq_request b c) = pc c"
  "npc (cpu_set_irq_request b c) = npc c"
  "sr (cop0_regs (cpu_set_irq_request b c)) = sr (cop0_regs c)"
  by (simp_all add: cpu_set_irq_request_def cpu_check_for_pending_interrupt_def Let_def)

text \<open>
  A stall never moves the clock back and always reaches the completion tick of the unit it
  waits for.
\<close>

lemma cpu_stall_gte_reaches:
  "pending_ticks c \<le> pending_ticks (cpu_stall_until_gte_complete c)"
  "gte_completion_tick c \<le> pending_ticks (cpu_stall_until_gte_complete c)"
  by (auto simp: cpu_stall_until_gte_complete_def)

lemma cpu_stall_muldiv_reaches:
  "pending_ticks c \<le> pending_ticks (cpu_stall_until_muldiv_complete c)"
  "muldiv_completion_tick c \<le> pending_ticks (cpu_stall_until_muldiv_complete c)"
  by (auto simp: cpu_stall_until_muldiv_complete_def)

lemmas [eval_simps] =
  sr_IEc_def sr_KUc_def sr_BEV_def sr_CU0_def sr_CE2_def cause_BD_def
  cpu_has_pending_interrupt_def cpu_check_for_pending_interrupt_def cpu_set_irq_request_def
  cpu_add_pending_ticks_def cpu_get_pending_ticks_def cpu_reset_pending_ticks_def
  CPU_REG_HI_def CPU_REG_LO_def CPU_REG_RA_def CPU_REG_COUNT_def

end
