(* ===== verification/Interrupts.thy ===== *)
theory Interrupts
  imports Cpu_State
begin

text \<open>
  The interrupt controller, \<^verbatim>\<open>src/core/interrupts/interrupt_controller.c\<close>:
  the status, mask and line registers, the edge-triggered line input and the register
  file.  The controller drives bit 10 of COP0 CAUSE through \<open>cpu_set_irq_request\<close>,
  so its operations act on a record that holds the CPU and the controller; components
  built on top extend that record.

  The controller's contract is the locale \<open>irq_line\<close>: the CPU line equals
  "status and mask intersect" after every operation.
\<close>

record intc_state =
  interrupt_status_register :: u32
  interrupt_mask_register :: u32
  interrupt_line_state :: u32
  dbg_irq_set_count :: "nat \<Rightarrow> u32"

record sys_core =
  cpu :: cpu_state
  intc :: intc_state

definition IRQ_REGISTER_WRITE_MASK :: u32 where
  "IRQ_REGISTER_WRITE_MASK = 0x7FF"

definition interrupt_controller_reset :: "'a sys_core_scheme \<Rightarrow> 'a sys_core_scheme" where
  "interrupt_controller_reset s = s\<lparr>intc := (intc s)\<lparr>
     interrupt_status_register := 0, interrupt_mask_register := 0, interrupt_line_state := 0\<rparr>\<rparr>"

definition interrupt_controller_update_cpu_request :: "'a sys_core_scheme \<Rightarrow> 'a sys_core_scheme" where
  "interrupt_controller_update_cpu_request s =
     s\<lparr>cpu := cpu_set_irq_request
        (interrupt_status_register (intc s) AND interrupt_mask_register (intc s) \<noteq> 0) (cpu s)\<rparr>"

definition interrupt_controller_set_line_state ::
  "nat \<Rightarrow> bool \<Rightarrow> 'a sys_core_scheme \<Rightarrow> 'a sys_core_scheme" where
  "interrupt_controller_set_line_state irq state s =
     (let s = (if state \<and> irq < 32
               then s\<lparr>intc := (intc s)\<lparr>dbg_irq_set_count :=
                      (dbg_irq_set_count (intc s))(irq := dbg_irq_set_count (intc s) irq + 1)\<rparr>\<rparr>
               else s);
          b = push_bit irq 1;
          prev_state = interrupt_line_state (intc s);
          line = (prev_state AND NOT b) OR (if state then b else 0);
          s = s\<lparr>intc := (intc s)\<lparr>interrupt_line_state := line\<rparr>\<rparr>
      in if line = prev_state then s
         else let status = interrupt_status_register (intc s) OR
                    ((if state then prev_state XOR line else 0) AND line)
              in interrupt_controller_update_cpu_request
                   (s\<lparr>intc := (intc s)\<lparr>interrupt_status_register := status\<rparr>\<rparr>))"

definition interrupt_controller_read_register :: "u32 \<Rightarrow> 'a sys_core_scheme \<Rightarrow> u32" where
  "interrupt_controller_read_register offset s =
     (if offset = 0 then interrupt_status_register (intc s)
      else if offset = 4 then interrupt_mask_register (intc s)
      else 0xFFFFFFFF)"

definition interrupt_controller_write_register ::
  "u32 \<Rightarrow> u32 \<Rightarrow> 'a sys_core_scheme \<Rightarrow> 'a sys_core_scheme" where
  "interrupt_controller_write_register offset value s =
     (if offset = 0 then
        interrupt_controller_update_cpu_request (s\<lparr>intc := (intc s)\<lparr>interrupt_status_register :=
          interrupt_status_register (intc s) AND (value AND IRQ_REGISTER_WRITE_MASK)\<rparr>\<rparr>)
      else if offset = 4 then
        interrupt_controller_update_cpu_request (s\<lparr>intc := (intc s)\<lparr>interrupt_mask_register :=
          value AND IRQ_REGISTER_WRITE_MASK\<rparr>\<rparr>)
      else s)"

section \<open>Bit-level behaviour\<close>

text \<open>The line, status and mask registers as the set of interrupt numbers they hold.\<close>

definition irq_pending :: "'a sys_core_scheme \<Rightarrow> nat \<Rightarrow> bool" where
  "irq_pending s n \<longleftrightarrow> bit (interrupt_status_register (intc s)) n"

definition irq_enabled :: "'a sys_core_scheme \<Rightarrow> nat \<Rightarrow> bool" where
  "irq_enabled s n \<longleftrightarrow> bit (interrupt_mask_register (intc s)) n"

definition irq_line_high :: "'a sys_core_scheme \<Rightarrow> nat \<Rightarrow> bool" where
  "irq_line_high s n \<longleftrightarrow> bit (interrupt_line_state (intc s)) n"

lemmas irq_view_defs = irq_pending_def irq_enabled_def irq_line_high_def

lemma update_cpu_request_view [simp]:
  "intc (interrupt_controller_update_cpu_request s) = intc s"
  "sys_core.more (interrupt_controller_update_cpu_request s) = sys_core.more s"
  by (simp_all add: interrupt_controller_update_cpu_request_def)

text \<open>The line input with its bit arithmetic resolved: a change of level, or nothing.\<close>

lemma set_line_state_alt:
  assumes "irq < 32"
  shows "interrupt_controller_set_line_state irq b s =
    (let s = (if b
              then s\<lparr>intc := (intc s)\<lparr>dbg_irq_set_count :=
                     (dbg_irq_set_count (intc s))(irq := dbg_irq_set_count (intc s) irq + 1)\<rparr>\<rparr>
              else s)
     in if irq_line_high s irq = b then s
        else interrupt_controller_update_cpu_request (s\<lparr>intc := (intc s)\<lparr>
               interrupt_line_state := flag_put irq b (interrupt_line_state (intc s)),
               interrupt_status_register :=
                 (if b then set_bit irq (interrupt_status_register (intc s))
                  else interrupt_status_register (intc s))\<rparr>\<rparr>))"
proof -
  let ?w = "interrupt_line_state (intc s)"
  have edge: "x OR ((?w XOR flag_put irq True ?w) AND flag_put irq True ?w) = set_bit irq x"
    if "\<not> bit ?w irq" for x
    using assms that by (intro bit_word_eqI) (auto simp: bit_simps)
  have same: "s\<lparr>intc := intc s\<lparr>interrupt_line_state := ?w\<rparr>\<rparr> = s"
    by simp
  have self: "flag_put irq b w = w \<longleftrightarrow> bit w irq = b" for w :: u32
    using assms by (simp add: flag_put_eq_self_iff)
  show ?thesis
  proof (cases "bit ?w irq = b")
    case True
    then have "flag_put irq b ?w = ?w" by (simp add: self)
    then show ?thesis using True assms
      by (cases b) (simp_all add: interrupt_controller_set_line_state_def Let_def
          irq_line_high_def one_bit_update same)
  next
    case False
    then have "flag_put irq b ?w \<noteq> ?w" by (simp add: self)
    with False assms edge show ?thesis
      by (cases b) (simp_all add: interrupt_controller_set_line_state_def Let_def
          irq_line_high_def one_bit_update)
  qed
qed

lemma set_line_state_line:
  "irq < 32 \<Longrightarrow> irq_line_high (interrupt_controller_set_line_state irq b s) n \<longleftrightarrow>
     (if n = irq then b else irq_line_high s n)"
  by (auto simp: set_line_state_alt irq_line_high_def Let_def dest: bit_imp_le_length)

lemma set_line_state_enabled:
  "irq < 32 \<Longrightarrow> irq_enabled (interrupt_controller_set_line_state irq b s) n = irq_enabled s n"
  by (simp add: set_line_state_alt irq_enabled_def Let_def)

lemma set_line_state_pending:
  "irq < 32 \<Longrightarrow> irq_pending (interrupt_controller_set_line_state irq b s) n \<longleftrightarrow>
     irq_pending s n \<or> (n = irq \<and> b \<and> \<not> irq_line_high s irq)"
  by (auto simp: set_line_state_alt irq_pending_def irq_line_high_def Let_def bit_simps)

lemma set_line_state_cpu:
  assumes "irq < 32"
  shows "cpu (interrupt_controller_set_line_state irq b s) =
     (if irq_line_high s irq = b then cpu s
      else cpu_set_irq_request
        (\<exists>n. irq_pending (interrupt_controller_set_line_state irq b s) n \<and> irq_enabled s n) (cpu s))"
  using assms
  by (simp add: set_line_state_alt irq_view_defs Let_def
      interrupt_controller_update_cpu_request_def word_and_nonzero_iff)


lemma write_status_pending:
  "irq_pending (interrupt_controller_write_register 0 v s) n \<longleftrightarrow>
     irq_pending s n \<and> bit v n \<and> n < 11"
proof -
  have "bit (0x7FF :: u32) n \<longleftrightarrow> n < 11"
    using bit_mask_iff [of 11 n, where 'a = "32 word"] by (auto simp: mask_eq_exp_minus_1)
  then show ?thesis
    by (auto simp: interrupt_controller_write_register_def irq_pending_def
        IRQ_REGISTER_WRITE_MASK_def bit_simps)
qed

lemma write_mask_enabled:
  "irq_enabled (interrupt_controller_write_register 4 v s) n \<longleftrightarrow> bit v n \<and> n < 11"
proof -
  have "bit (0x7FF :: u32) n \<longleftrightarrow> n < 11"
    using bit_mask_iff [of 11 n, where 'a = "32 word"] by (auto simp: mask_eq_exp_minus_1)
  then show ?thesis
    by (auto simp: interrupt_controller_write_register_def irq_enabled_def
        IRQ_REGISTER_WRITE_MASK_def bit_simps)
qed

lemma write_register_frame [simp]:
  "irq_enabled (interrupt_controller_write_register 0 v s) n = irq_enabled s n"
  "irq_pending (interrupt_controller_write_register 4 v s) n = irq_pending s n"
  "irq_line_high (interrupt_controller_write_register a v s) n = irq_line_high s n"
  by (simp_all add: interrupt_controller_write_register_def irq_view_defs)

lemma write_register_unknown:
  "a \<noteq> 0 \<Longrightarrow> a \<noteq> 4 \<Longrightarrow> interrupt_controller_write_register a v s = s"
  by (simp add: interrupt_controller_write_register_def)

text \<open>The CPU's view of the controller: bit 10 of CAUSE.\<close>

definition irq_cpu_line :: "'a sys_core_scheme \<Rightarrow> bool" where
  "irq_cpu_line s \<longleftrightarrow> bit (cause (cop0_regs (cpu s))) 10"

lemma update_cpu_request_line:
  "irq_cpu_line (interrupt_controller_update_cpu_request s) \<longleftrightarrow>
     (\<exists>n. irq_pending s n \<and> irq_enabled s n)"
  by (simp add: irq_cpu_line_def interrupt_controller_update_cpu_request_def
      cpu_set_irq_request_cause_bit word_and_nonzero_iff irq_view_defs)

lemma set_line_state_cpu_line:
  "irq < 32 \<Longrightarrow> irq_cpu_line (interrupt_controller_set_line_state irq b s) \<longleftrightarrow>
     (if irq_line_high s irq = b then irq_cpu_line s
      else \<exists>n. irq_pending (interrupt_controller_set_line_state irq b s) n \<and> irq_enabled s n)"
  by (simp add: irq_cpu_line_def set_line_state_cpu cpu_set_irq_request_cause_bit)

lemma write_register_cpu_line:
  "a = 0 \<or> a = 4 \<Longrightarrow> irq_cpu_line (interrupt_controller_write_register a v s) \<longleftrightarrow>
     (\<exists>n. irq_pending (interrupt_controller_write_register a v s) n \<and>
          irq_enabled (interrupt_controller_write_register a v s) n)"
  by (auto simp: interrupt_controller_write_register_def update_cpu_request_line irq_view_defs)

section \<open>The contract of the interrupt line\<close>

text \<open>
  What a device may rely on: the line input latches on a rising edge, the status register
  is cleared by writing zeros, and the CPU request equals "pending and enabled" once it did.
  \<open>irq_op\<close> is one action of the bus or of a device.
\<close>

datatype irq_op = Irq_Line nat bool | Irq_Ack u32 | Irq_Mask u32

definition irq_op_ok :: "irq_op \<Rightarrow> bool" where
  "irq_op_ok op = (case op of Irq_Line n b \<Rightarrow> n < 32 | _ \<Rightarrow> True)"

locale irq_line =
  fixes set_line :: "nat \<Rightarrow> bool \<Rightarrow> 's \<Rightarrow> 's"
    and ack :: "u32 \<Rightarrow> 's \<Rightarrow> 's"
    and set_enable :: "u32 \<Rightarrow> 's \<Rightarrow> 's"
    and pending :: "'s \<Rightarrow> nat \<Rightarrow> bool"
    and enabled :: "'s \<Rightarrow> nat \<Rightarrow> bool"
    and high :: "'s \<Rightarrow> nat \<Rightarrow> bool"
    and request :: "'s \<Rightarrow> bool"
  assumes pending_set_line: "n < 32 \<Longrightarrow>
      pending (set_line n b s) m \<longleftrightarrow> pending s m \<or> (m = n \<and> b \<and> \<not> high s n)"
    and high_set_line: "n < 32 \<Longrightarrow> high (set_line n b s) m \<longleftrightarrow> (if m = n then b else high s m)"
    and enabled_set_line: "n < 32 \<Longrightarrow> enabled (set_line n b s) m = enabled s m"
    and pending_ack: "pending (ack v s) m \<longleftrightarrow> pending s m \<and> bit v m \<and> m < 11"
    and frame_ack: "enabled (ack v s) m = enabled s m" "high (ack v s) m = high s m"
    and enabled_mask: "enabled (set_enable v s) m \<longleftrightarrow> bit v m \<and> m < 11"
    and frame_mask: "pending (set_enable v s) m = pending s m" "high (set_enable v s) m = high s m"
    and request_set_line: "n < 32 \<Longrightarrow> request s \<longleftrightarrow> (\<exists>k. pending s k \<and> enabled s k) \<Longrightarrow>
      request (set_line n b s) \<longleftrightarrow> (\<exists>k. pending (set_line n b s) k \<and> enabled (set_line n b s) k)"
    and request_ack: "request (ack v s) \<longleftrightarrow> (\<exists>k. pending (ack v s) k \<and> enabled (ack v s) k)"
    and request_mask: "request (set_enable v s) \<longleftrightarrow>
      (\<exists>k. pending (set_enable v s) k \<and> enabled (set_enable v s) k)"
begin

definition coherent :: "'s \<Rightarrow> bool" where
  "coherent s \<longleftrightarrow> (request s \<longleftrightarrow> (\<exists>k. pending s k \<and> enabled s k))"

definition exec :: "irq_op \<Rightarrow> 's \<Rightarrow> 's" where
  "exec op s = (case op of Irq_Line n b \<Rightarrow> set_line n b s | Irq_Ack v \<Rightarrow> ack v s
                | Irq_Mask v \<Rightarrow> set_enable v s)"

lemma exec_coherent: "irq_op_ok op \<Longrightarrow> coherent s \<Longrightarrow> coherent (exec op s)"
  by (cases op) (simp_all add: coherent_def exec_def irq_op_ok_def request_set_line request_ack
      request_mask)

lemma run_coherent: "list_all irq_op_ok ops \<Longrightarrow> coherent s \<Longrightarrow> coherent (fold exec ops s)"
  by (induction ops arbitrary: s) (simp_all add: exec_coherent)

lemma pulse_latches:
  "n < 32 \<Longrightarrow> pending (set_line n True (set_line n False s)) n"
  by (simp add: pending_set_line high_set_line)

lemma level_does_not_relatch:
  "n < 32 \<Longrightarrow> high s n \<Longrightarrow> pending (set_line n True (ack v s)) n = pending (ack v s) n"
  by (simp add: pending_set_line frame_ack)

lemma ack_clears: "\<not> bit v n \<Longrightarrow> \<not> pending (ack v s) n"
  by (simp add: pending_ack)

text \<open>An interrupt stays latched while no acknowledge clears its bit.\<close>

lemma pending_stable:
  "n < 11 \<Longrightarrow> list_all irq_op_ok ops \<Longrightarrow> list_all (\<lambda>op. \<forall>v. op = Irq_Ack v \<longrightarrow> bit v n) ops \<Longrightarrow>
     pending s n \<Longrightarrow> pending (fold exec ops s) n"
proof (induction ops arbitrary: s)
  case (Cons op ops)
  then have "pending (exec op s) n"
    by (cases op) (simp_all add: exec_def irq_op_ok_def pending_set_line pending_ack frame_mask)
  with Cons show ?case by simp
qed simp

end

interpretation intc: irq_line
  "interrupt_controller_set_line_state"
  "interrupt_controller_write_register 0"
  "interrupt_controller_write_register 4"
  irq_pending irq_enabled irq_line_high irq_cpu_line
  by unfold_locales
    (auto simp: set_line_state_pending set_line_state_line set_line_state_enabled
      write_status_pending write_mask_enabled set_line_state_cpu_line write_register_cpu_line)

text \<open>One action on the model, and the coherence of the two components.\<close>

definition irq_exec :: "irq_op \<Rightarrow> 'a sys_core_scheme \<Rightarrow> 'a sys_core_scheme" where
  "irq_exec op s = (case op of
     Irq_Line n b \<Rightarrow> interrupt_controller_set_line_state n b s
   | Irq_Ack v \<Rightarrow> interrupt_controller_write_register 0 v s
   | Irq_Mask v \<Rightarrow> interrupt_controller_write_register 4 v s)"

definition irq_coherent :: "'a sys_core_scheme \<Rightarrow> bool" where
  "irq_coherent s \<longleftrightarrow> irq_cpu_line s =
     (interrupt_status_register (intc s) AND interrupt_mask_register (intc s) \<noteq> 0)"

lemma irq_exec_intc: "irq_exec = intc.exec"
  by (intro ext) (simp add: irq_exec_def intc.exec_def)

lemma irq_coherent_intc: "irq_coherent = intc.coherent"
  by (intro ext) (simp add: irq_coherent_def intc.coherent_def word_and_nonzero_iff irq_view_defs)

lemma set_line_state_frame:
  "interrupt_line_state (intc (interrupt_controller_update_cpu_request s)) = interrupt_line_state (intc s)"
  by simp

lemma set_line_state_cpu_frame [simp]:
  "regs (cpu (interrupt_controller_set_line_state irq b s)) = regs (cpu s)"
  "pc (cpu (interrupt_controller_set_line_state irq b s)) = pc (cpu s)"
  "pending_ticks (cpu (interrupt_controller_set_line_state irq b s)) = pending_ticks (cpu s)"
  "sr (cop0_regs (cpu (interrupt_controller_set_line_state irq b s))) = sr (cop0_regs (cpu s))"
  by (simp_all add: interrupt_controller_set_line_state_def Let_def
      interrupt_controller_update_cpu_request_def)

lemma set_line_state_more [simp]:
  "sys_core.more (interrupt_controller_set_line_state irq b s) = sys_core.more s"
  by (simp add: interrupt_controller_set_line_state_def Let_def)

end
