(* ===== verification/Scheduler.thy ===== *)
theory Scheduler
  imports Interrupts "HOL-Library.Monad_Syntax"
begin

text \<open>
  The event scheduler, \<^verbatim>\<open>src/core/scheduler/timing_event.c\<close>: the active
  events form a doubly linked list sorted by \<open>next_run_time\<close>, held by prev/next
  pointers inside the events.  The model keeps the pointers: an event is a number, a pointer
  is \<open>nat option\<close> with \<open>None\<close> for NULL, and \<open>timing_events\<close>
  is the store.  \<open>None\<close> as the result of an operation is a NULL dereference, a
  Panic, a failed Assert or a loop that does not end.

  The abstract side is a list of events: \<open>sched_dll s xs\<close> says that the pointers of
  \<open>s\<close> spell \<open>xs\<close>, and every pointer operation refines a list operation
  (\<open>enqueue\<close>, \<open>resort\<close>, \<open>remove1\<close>) that keeps the list
  sorted.  DebugAsserts, which release builds drop, are not modelled.
\<close>

record timing_event =
  prev_event :: "nat option"
  next_event :: "nat option"
  next_run_time :: u64
  last_run_time :: u64
  period :: tick_count
  interval :: tick_count
  active :: bool

record timing_events_state =
  active_events_head :: "nat option"
  active_events_tail :: "nat option"
  current_event :: "nat option"
  active_event_count :: u32
  current_event_next_run_time :: u64
  global_tick_counter :: u64
  event_run_tick_counter :: u64

record sched_sys = sys_core +
  timing :: timing_events_state
  timing_events :: "nat \<Rightarrow> timing_event"

definition upd_event ::
  "nat \<Rightarrow> (timing_event \<Rightarrow> timing_event) \<Rightarrow> 'a sched_sys_scheme \<Rightarrow> 'a sched_sys_scheme" where
  "upd_event e f s = s\<lparr>timing_events := (timing_events s)(e := f (timing_events s e))\<rparr>"

definition set_head :: "nat option \<Rightarrow> 'a sched_sys_scheme \<Rightarrow> 'a sched_sys_scheme" where
  "set_head p s = s\<lparr>timing := (timing s)\<lparr>active_events_head := p\<rparr>\<rparr>"

definition set_tail :: "nat option \<Rightarrow> 'a sched_sys_scheme \<Rightarrow> 'a sched_sys_scheme" where
  "set_tail p s = s\<lparr>timing := (timing s)\<lparr>active_events_tail := p\<rparr>\<rparr>"

definition set_prev :: "nat option \<Rightarrow> nat \<Rightarrow> 'a sched_sys_scheme \<Rightarrow> 'a sched_sys_scheme" where
  "set_prev p e = upd_event e (\<lambda>ev. ev\<lparr>prev_event := p\<rparr>)"

definition set_next :: "nat option \<Rightarrow> nat \<Rightarrow> 'a sched_sys_scheme \<Rightarrow> 'a sched_sys_scheme" where
  "set_next p e = upd_event e (\<lambda>ev. ev\<lparr>next_event := p\<rparr>)"

section \<open>The pointer operations\<close>

definition timing_events_get_timestamp_for_new_event :: "'a sched_sys_scheme \<Rightarrow> u64" where
  "timing_events_get_timestamp_for_new_event s =
     global_tick_counter (timing s) + ucast (cpu_get_pending_ticks (cpu s))"

definition timing_events_reset :: "'a sched_sys_scheme \<Rightarrow> 'a sched_sys_scheme" where
  "timing_events_reset s = s\<lparr>timing := (timing s)\<lparr>
     global_tick_counter := 0, event_run_tick_counter := 0\<rparr>\<rparr>"

definition timing_events_update_cpu_downcount ::
  "'a sched_sys_scheme \<Rightarrow> 'a sched_sys_scheme option" where
  "timing_events_update_cpu_downcount s = (case active_events_head (timing s) of
     None \<Rightarrow> None
   | Some h \<Rightarrow>
       let event_downcount = ucast (next_run_time (timing_events s h) - global_tick_counter (timing s))
       in Some (s\<lparr>cpu := (cpu s)\<lparr>downcount :=
            (if cpu_has_pending_interrupt (cpu s) then 0 else event_downcount)\<rparr>\<rparr>))"

text \<open>The two halves of unlinking an event, and of splicing one in.\<close>

definition unlink_prev :: "nat \<Rightarrow> 'a sched_sys_scheme \<Rightarrow> 'a sched_sys_scheme" where
  "unlink_prev e s = (case prev_event (timing_events s e) of
     Some p \<Rightarrow> set_next (next_event (timing_events s e)) p s
   | None \<Rightarrow> set_head (next_event (timing_events s e)) s)"

definition unlink_next :: "nat \<Rightarrow> 'a sched_sys_scheme \<Rightarrow> 'a sched_sys_scheme" where
  "unlink_next e s = (case next_event (timing_events s e) of
     Some n \<Rightarrow> set_prev (prev_event (timing_events s e)) n s
   | None \<Rightarrow> set_tail (prev_event (timing_events s e)) s)"

partial_function (option) sort_walk_back ::
  "(nat \<Rightarrow> timing_event) \<Rightarrow> u64 \<Rightarrow> nat option \<Rightarrow> nat option option" where
  "sort_walk_back ev t current = (case current of
     None \<Rightarrow> Some None
   | Some c \<Rightarrow> if next_run_time (ev c) > t then sort_walk_back ev t (prev_event (ev c))
               else Some (Some c))"

partial_function (option) sort_walk_forward ::
  "(nat \<Rightarrow> timing_event) \<Rightarrow> u64 \<Rightarrow> nat option \<Rightarrow> nat option option" where
  "sort_walk_forward ev t current = (case current of
     None \<Rightarrow> Some None
   | Some c \<Rightarrow> if t > next_run_time (ev c) then sort_walk_forward ev t (next_event (ev c))
               else Some (Some c))"

text \<open>The four places a re-sorted event can be spliced in at.\<close>

definition splice_after :: "nat \<Rightarrow> nat \<Rightarrow> 'a sched_sys_scheme \<Rightarrow> 'a sched_sys_scheme" where
  "splice_after e c s =
     (let n = next_event (timing_events s c);
          s = set_next n e s;
          s = (case n of Some k \<Rightarrow> set_prev (Some e) k s | None \<Rightarrow> set_tail (Some e) s)
      in set_next (Some e) c (set_prev (Some c) e s))"

definition splice_front :: "nat \<Rightarrow> 'a sched_sys_scheme \<Rightarrow> 'a sched_sys_scheme option" where
  "splice_front e s = do {
     h \<leftarrow> active_events_head (timing s);
     let s = set_prev None e (set_prev (Some e) h s);
     let s = set_next (active_events_head (timing s)) e s;
     timing_events_update_cpu_downcount (set_head (Some e) s) }"

definition splice_before :: "nat \<Rightarrow> nat \<Rightarrow> 'a sched_sys_scheme \<Rightarrow> 'a sched_sys_scheme option" where
  "splice_before e c s = do {
     let s = set_next (Some c) e s;
     let p = prev_event (timing_events s c);
     let s = set_prev p e s;
     s \<leftarrow> (case p of
             Some q \<Rightarrow> Some (set_next (Some e) q s)
           | None \<Rightarrow> let s = set_head (Some e) s in
                     if current_event (timing s) = None
                     then timing_events_update_cpu_downcount s else Some s);
     Some (set_prev (Some e) c s) }"

definition splice_back :: "nat \<Rightarrow> 'a sched_sys_scheme \<Rightarrow> 'a sched_sys_scheme option" where
  "splice_back e s = do {
     t \<leftarrow> active_events_tail (timing s);
     let s = set_next None e (set_next (Some e) t s);
     let s = set_prev (active_events_tail (timing s)) e s;
     Some (set_tail (Some e) s) }"

definition sort_event_backwards :: "nat \<Rightarrow> 'a sched_sys_scheme \<Rightarrow> 'a sched_sys_scheme option" where
  "sort_event_backwards e s = do {
     current \<leftarrow> sort_walk_back (timing_events s) (next_run_time (timing_events s e))
                  (prev_event (timing_events s e));
     let s = unlink_next e (unlink_prev e s);
     case current of Some c \<Rightarrow> Some (splice_after e c s) | None \<Rightarrow> splice_front e s }"

definition sort_event_forwards :: "nat \<Rightarrow> 'a sched_sys_scheme \<Rightarrow> 'a sched_sys_scheme option" where
  "sort_event_forwards e s = do {
     current \<leftarrow> sort_walk_forward (timing_events s) (next_run_time (timing_events s e))
                  (next_event (timing_events s e));
     let was_head = (prev_event (timing_events s e) = None);
     let s = unlink_prev e s;
     s \<leftarrow> (if was_head \<and> current_event (timing s) = None
           then timing_events_update_cpu_downcount s else Some s);
     let s = unlink_next e s;
     case current of Some c \<Rightarrow> splice_before e c s | None \<Rightarrow> splice_back e s }"

definition timing_events_sort_event :: "nat \<Rightarrow> 'a sched_sys_scheme \<Rightarrow> 'a sched_sys_scheme option" where
  "timing_events_sort_event e s =
     (let ev = timing_events s; event_runtime = next_run_time (ev e) in
      if (case prev_event (ev e) of Some p \<Rightarrow> next_run_time (ev p) > event_runtime | None \<Rightarrow> False)
      then sort_event_backwards e s
      else if (case next_event (ev e) of Some n \<Rightarrow> event_runtime > next_run_time (ev n) | None \<Rightarrow> False)
      then sort_event_forwards e s
      else Some s)"

partial_function (option) add_active_walk ::
  "(nat \<Rightarrow> timing_event) \<Rightarrow> u64 \<Rightarrow> nat option \<Rightarrow> nat option \<Rightarrow> (nat option \<times> nat option) option" where
  "add_active_walk ev t current nxt = (case nxt of
     None \<Rightarrow> Some (current, None)
   | Some n \<Rightarrow> if t > next_run_time (ev n) then add_active_walk ev t nxt (next_event (ev n))
               else Some (current, nxt))"

definition timing_events_add_active :: "nat \<Rightarrow> 'a sched_sys_scheme \<Rightarrow> 'a sched_sys_scheme option" where
  "timing_events_add_active e s = do {
     let s = s\<lparr>timing := (timing s)\<lparr>active_event_count := active_event_count (timing s) + 1\<rparr>\<rparr>;
     (current, nxt) \<leftarrow> add_active_walk (timing_events s) (next_run_time (timing_events s e)) None
                        (active_events_head (timing s));
     case nxt of
       None \<Rightarrow>
         let s = set_prev (active_events_tail (timing s)) e s in
         (case active_events_tail (timing s) of
            Some t \<Rightarrow> Some (set_tail (Some e) (set_next (Some e) t s))
          | None \<Rightarrow> timing_events_update_cpu_downcount (set_head (Some e) (set_tail (Some e) s)))
     | Some n \<Rightarrow>
         (case current of
            None \<Rightarrow> do {
              let s = set_next (active_events_head (timing s)) e s;
              h \<leftarrow> active_events_head (timing s);
              timing_events_update_cpu_downcount (set_head (Some e) (set_prev (Some e) h s)) }
          | Some c \<Rightarrow>
              let s = set_next nxt e (set_prev current e s) in
              Some (set_prev (Some e) n (set_next (Some e) c s))) }"

definition timing_events_remove_active :: "nat \<Rightarrow> 'a sched_sys_scheme \<Rightarrow> 'a sched_sys_scheme option" where
  "timing_events_remove_active e s = do {
     let s = unlink_next e s;
     let was_head = (prev_event (timing_events s e) = None);
     let s = unlink_prev e s;
     s \<leftarrow> (if was_head \<and> active_events_head (timing s) \<noteq> None \<and> current_event (timing s) = None
           then timing_events_update_cpu_downcount s else Some s);
     let s = set_next None e (set_prev None e s);
     Some (s\<lparr>timing := (timing s)\<lparr>active_event_count := active_event_count (timing s) - 1\<rparr>\<rparr>) }"

text \<open>
  \<open>timing_events_sort_events\<close>: the snapshot walk unlinks every event; an array that
  is too short or only partly filled is undefined behaviour in C and \<open>None\<close> here.
\<close>

partial_function (option) sort_events_snapshot ::
  "nat option \<Rightarrow> 'a sched_sys_scheme \<Rightarrow> (nat list \<times> 'a sched_sys_scheme) option" where
  "sort_events_snapshot nxt s = (case nxt of
     None \<Rightarrow> Some ([], s)
   | Some c \<Rightarrow> do {
       let n = next_event (timing_events s c);
       (es, s) \<leftarrow> sort_events_snapshot n (set_next None c (set_prev None c s));
       Some (c # es, s) })"

fun add_active_all :: "nat list \<Rightarrow> 'a sched_sys_scheme \<Rightarrow> 'a sched_sys_scheme option" where
  "add_active_all [] s = Some s"
| "add_active_all (e # es) s = do { s \<leftarrow> timing_events_add_active e s; add_active_all es s }"

definition timing_events_sort_events :: "'a sched_sys_scheme \<Rightarrow> 'a sched_sys_scheme option" where
  "timing_events_sort_events s = do {
     (es, s) \<leftarrow> sort_events_snapshot (active_events_head (timing s)) s;
     if of_nat (List.length es) \<noteq> active_event_count (timing s) then None
     else add_active_all es (s\<lparr>timing := (timing s)\<lparr>
            active_events_head := None, active_events_tail := None, active_event_count := 0\<rparr>\<rparr>) }"

section \<open>The operations of an event\<close>

definition ticks_u64 :: "tick_count \<Rightarrow> u64" where
  "ticks_u64 t = ucast (word_of_int t :: u32)"

definition timing_event_init :: "nat \<Rightarrow> tick_count \<Rightarrow> tick_count \<Rightarrow> 'a sched_sys_scheme \<Rightarrow> 'a sched_sys_scheme" where
  "timing_event_init e per itv s =
     (let ts = timing_events_get_timestamp_for_new_event s in
      upd_event e (\<lambda>_. \<lparr>prev_event = None, next_event = None, next_run_time = ts + ticks_u64 itv,
        last_run_time = ts, period = per, interval = itv, active = False\<rparr>) s)"

definition timing_event_get_ticks_since_last_execution :: "nat \<Rightarrow> 'a sched_sys_scheme \<Rightarrow> tick_count" where
  "timing_event_get_ticks_since_last_execution e s =
     (let ts = timing_events_get_timestamp_for_new_event s in
      if ts \<ge> last_run_time (timing_events s e)
      then to_s32 (uint (ts - last_run_time (timing_events s e))) else 0)"

definition timing_event_get_ticks_until_next_execution :: "nat \<Rightarrow> 'a sched_sys_scheme \<Rightarrow> tick_count" where
  "timing_event_get_ticks_until_next_execution e s =
     (let ts = timing_events_get_timestamp_for_new_event s in
      if ts \<ge> next_run_time (timing_events s e) then 0
      else to_s32 (uint (next_run_time (timing_events s e) - ts)))"

text \<open>The tail every rescheduling shares: re-sort, and refresh the downcount of a new head.\<close>

definition resort_and_refresh :: "nat \<Rightarrow> 'a sched_sys_scheme \<Rightarrow> 'a sched_sys_scheme option" where
  "resort_and_refresh e s = do {
     s \<leftarrow> timing_events_sort_event e s;
     if active_events_head (timing s) = Some e then timing_events_update_cpu_downcount s
     else Some s }"

definition timing_event_delay :: "nat \<Rightarrow> tick_count \<Rightarrow> 'a sched_sys_scheme \<Rightarrow> 'a sched_sys_scheme option" where
  "timing_event_delay e ticks s =
     (if \<not> active (timing_events s e) then None
      else resort_and_refresh e
        (upd_event e (\<lambda>ev. ev\<lparr>next_run_time := next_run_time ev + ticks_u64 ticks\<rparr>) s))"

definition latch_current_next :: "nat \<Rightarrow> u64 \<Rightarrow> 'a sched_sys_scheme \<Rightarrow> 'a sched_sys_scheme" where
  "latch_current_next e t s = s\<lparr>timing := (timing s)\<lparr>current_event_next_run_time :=
     (if current_event (timing s) = Some e then t else current_event_next_run_time (timing s))\<rparr>\<rparr>"

definition timing_event_schedule :: "nat \<Rightarrow> tick_count \<Rightarrow> 'a sched_sys_scheme \<Rightarrow> 'a sched_sys_scheme option" where
  "timing_event_schedule e ticks s =
     (let ts = timing_events_get_timestamp_for_new_event s;
          nrt = ts + ticks_u64 ticks;
          s = latch_current_next e nrt s
      in if \<not> active (timing_events s e)
         then timing_events_add_active e (upd_event e (\<lambda>ev. ev\<lparr>next_run_time := nrt,
                last_run_time := ts, active := True\<rparr>) s)
         else if current_event (timing s) \<noteq> Some e
         then resort_and_refresh e (upd_event e (\<lambda>ev. ev\<lparr>next_run_time := nrt\<rparr>) s)
         else Some s)"

definition timing_event_set_interval :: "nat \<Rightarrow> tick_count \<Rightarrow> 'a sched_sys_scheme \<Rightarrow> 'a sched_sys_scheme" where
  "timing_event_set_interval e t = upd_event e (\<lambda>ev. ev\<lparr>interval := t\<rparr>)"

definition timing_event_set_period :: "nat \<Rightarrow> tick_count \<Rightarrow> 'a sched_sys_scheme \<Rightarrow> 'a sched_sys_scheme" where
  "timing_event_set_period e t = upd_event e (\<lambda>ev. ev\<lparr>period := t\<rparr>)"

definition timing_event_set_interval_and_schedule ::
  "nat \<Rightarrow> tick_count \<Rightarrow> 'a sched_sys_scheme \<Rightarrow> 'a sched_sys_scheme option" where
  "timing_event_set_interval_and_schedule e t s =
     timing_event_schedule e t (timing_event_set_interval e t s)"

definition timing_event_set_period_and_schedule ::
  "nat \<Rightarrow> tick_count \<Rightarrow> 'a sched_sys_scheme \<Rightarrow> 'a sched_sys_scheme option" where
  "timing_event_set_period_and_schedule e t s =
     timing_event_schedule e t (timing_event_set_interval e t (timing_event_set_period e t s))"

text \<open>
  A callback is a parameter: it gets the event, the ticks to execute and the ticks late, and
  may change every part of the state, or fail.
\<close>

type_synonym 's callback = "nat \<Rightarrow> tick_count \<Rightarrow> tick_count \<Rightarrow> 's \<Rightarrow> 's option"

definition timing_event_invoke_early ::
  "'a sched_sys_scheme callback \<Rightarrow> nat \<Rightarrow> bool \<Rightarrow> 'a sched_sys_scheme \<Rightarrow> 'a sched_sys_scheme option" where
  "timing_event_invoke_early cb e force s =
     (let ts = timing_events_get_timestamp_for_new_event s; ev = timing_events s e;
          ticks_to_execute = to_s32 (uint (ts - last_run_time ev)) in
      if \<not> active ev then Some s
      else if ts \<le> last_run_time ev then Some s
      else if current_event (timing s) = Some e then None
      else if \<not> force \<and> ticks_to_execute < period ev then Some s
      else do {
        s \<leftarrow> resort_and_refresh e (upd_event e (\<lambda>ev. ev\<lparr>next_run_time := ts + ticks_u64 (interval ev),
               last_run_time := ts\<rparr>) s);
        cb e ticks_to_execute 0 s })"

definition timing_event_activate :: "nat \<Rightarrow> 'a sched_sys_scheme \<Rightarrow> 'a sched_sys_scheme option" where
  "timing_event_activate e s =
     (if active (timing_events s e) then Some s
      else let ts = timing_events_get_timestamp_for_new_event s;
               nrt = ts + ticks_u64 (interval (timing_events s e));
               s = upd_event e (\<lambda>ev. ev\<lparr>next_run_time := nrt, last_run_time := ts\<rparr>) s;
               s = latch_current_next e nrt s
           in timing_events_add_active e (upd_event e (\<lambda>ev. ev\<lparr>active := True\<rparr>) s))"

definition timing_event_deactivate :: "nat \<Rightarrow> 'a sched_sys_scheme \<Rightarrow> 'a sched_sys_scheme option" where
  "timing_event_deactivate e s =
     (if \<not> active (timing_events s e) then Some s
      else timing_events_remove_active e (upd_event e (\<lambda>ev. ev\<lparr>active := False\<rparr>) s))"

definition timing_event_set_state :: "nat \<Rightarrow> bool \<Rightarrow> 'a sched_sys_scheme \<Rightarrow> 'a sched_sys_scheme option" where
  "timing_event_set_state e b s =
     (if b then timing_event_activate e s else timing_event_deactivate e s)"

section \<open>The event loop\<close>

definition settle_event :: "nat \<Rightarrow> 'a sched_sys_scheme \<Rightarrow> 'a sched_sys_scheme option" where
  "settle_event e s =
     (if active (timing_events s e)
      then timing_events_sort_event e
        (upd_event e (\<lambda>ev. ev\<lparr>next_run_time := current_event_next_run_time (timing s)\<rparr>) s)
      else Some s)"

definition timing_events_cancel_running_event :: "'a sched_sys_scheme \<Rightarrow> 'a sched_sys_scheme option" where
  "timing_events_cancel_running_event s = (case current_event (timing s) of
     None \<Rightarrow> Some s
   | Some e \<Rightarrow> do { s \<leftarrow> settle_event e s; Some (s\<lparr>timing := (timing s)\<lparr>current_event := None\<rparr>\<rparr>) })"

definition begin_event :: "nat \<Rightarrow> 'a sched_sys_scheme \<Rightarrow> 'a sched_sys_scheme" where
  "begin_event e s =
     (let ev = timing_events s e in
      upd_event e (\<lambda>ev. ev\<lparr>last_run_time := global_tick_counter (timing s)\<rparr>)
        (s\<lparr>timing := (timing s)\<lparr>current_event := Some e,
            current_event_next_run_time := next_run_time ev + ticks_u64 (interval ev)\<rparr>\<rparr>))"

definition fire_event ::
  "'a sched_sys_scheme callback \<Rightarrow> nat \<Rightarrow> 'a sched_sys_scheme \<Rightarrow> 'a sched_sys_scheme option" where
  "fire_event cb e s =
     (let ev = timing_events s e; g = global_tick_counter (timing s);
          ticks_late = to_s32 (uint (g - next_run_time ev));
          ticks_to_execute = to_s32 (uint (g - last_run_time ev))
      in do { s \<leftarrow> cb e ticks_to_execute ticks_late (begin_event e s); settle_event e s })"

partial_function (option) commit_due_events ::
  "'a sched_sys_scheme callback \<Rightarrow> 'a sched_sys_scheme \<Rightarrow> 'a sched_sys_scheme option" where
  "commit_due_events cb s = do {
     e \<leftarrow> active_events_head (timing s);
     if global_tick_counter (timing s) \<ge> next_run_time (timing_events s e)
     then do { s \<leftarrow> fire_event cb e s; commit_due_events cb s }
     else Some s }"

partial_function (option) commit_rounds ::
  "'a sched_sys_scheme callback \<Rightarrow> u64 \<Rightarrow> 'a sched_sys_scheme \<Rightarrow> 'a sched_sys_scheme option" where
  "commit_rounds cb new_global_ticks s = do {
     e \<leftarrow> active_events_head (timing s);
     let t = next_run_time (timing_events s e);
     s \<leftarrow> commit_due_events cb (s\<lparr>timing := (timing s)\<lparr>global_tick_counter :=
            (if new_global_ticks < t then new_global_ticks else t)\<rparr>\<rparr>);
     if new_global_ticks > global_tick_counter (timing s) then commit_rounds cb new_global_ticks s
     else Some s }"

definition timing_events_commit_global_ticks ::
  "'a sched_sys_scheme callback \<Rightarrow> u64 \<Rightarrow> 'a sched_sys_scheme \<Rightarrow> 'a sched_sys_scheme option" where
  "timing_events_commit_global_ticks cb new_global_ticks s = do {
     s \<leftarrow> commit_rounds cb new_global_ticks
            (s\<lparr>timing := (timing s)\<lparr>event_run_tick_counter := new_global_ticks\<rparr>\<rparr>);
     Some (s\<lparr>timing := (timing s)\<lparr>current_event := None\<rparr>\<rparr>) }"

text \<open>
  \<open>dispatch\<close> stands for \<open>cpu_dispatch_interrupt\<close>, which the CPU component
  provides.
\<close>

partial_function (option) timing_events_run_events ::
  "'a sched_sys_scheme callback \<Rightarrow> ('a sched_sys_scheme \<Rightarrow> 'a sched_sys_scheme) \<Rightarrow>
   'a sched_sys_scheme \<Rightarrow> 'a sched_sys_scheme option" where
  "timing_events_run_events cb dispatch s = do {
     let new_global_ticks = event_run_tick_counter (timing s) + ucast (cpu_get_pending_ticks (cpu s));
     h \<leftarrow> active_events_head (timing s);
     s \<leftarrow> (if new_global_ticks \<ge> next_run_time (timing_events s h)
           then timing_events_commit_global_ticks cb new_global_ticks
                  (s\<lparr>cpu := cpu_reset_pending_ticks (cpu s)\<rparr>)
           else Some s);
     let s = (if cpu_has_pending_interrupt (cpu s) then dispatch s else s);
     s \<leftarrow> timing_events_update_cpu_downcount s;
     if cpu_get_pending_ticks (cpu s) \<ge> downcount (cpu s)
     then timing_events_run_events cb dispatch s else Some s }"

definition timing_events_commit_leftover_ticks ::
  "'a sched_sys_scheme callback \<Rightarrow> ('a sched_sys_scheme \<Rightarrow> 'a sched_sys_scheme) \<Rightarrow>
   'a sched_sys_scheme \<Rightarrow> 'a sched_sys_scheme option" where
  "timing_events_commit_leftover_ticks cb dispatch s = do {
     s \<leftarrow> timing_events_commit_global_ticks cb (event_run_tick_counter (timing s)) s;
     let s = (if cpu_has_pending_interrupt (cpu s) then dispatch s else s);
     timing_events_update_cpu_downcount s }"

end
