(* ===== verification/Scheduler_Queue.thy ===== *)
theory Scheduler_Queue
  imports Scheduler "HOL-Library.Multiset"
begin

text \<open>
  The pointer list of the scheduler refines a sorted list of events.  \<open>seg ev p xs n\<close>
  is a doubly linked segment spelling \<open>xs\<close> between the neighbours \<open>p\<close> and
  \<open>n\<close>; \<open>sched_dll\<close> closes it with the head and tail pointers;
  \<open>sched_frame\<close> says what a list operation may not touch.  The three refinement
  lemmas (\<open>add_active_refines\<close>, \<open>sort_event_refines\<close>,
  \<open>remove_active_refines\<close>) are total: the walks end and no NULL is dereferenced.
\<close>

section \<open>Segments\<close>

definition first_or :: "nat list \<Rightarrow> nat option \<Rightarrow> nat option" where
  "first_or xs n = (case xs of [] \<Rightarrow> n | x # _ \<Rightarrow> Some x)"

definition last_or :: "nat option \<Rightarrow> nat list \<Rightarrow> nat option" where
  "last_or p xs = (if xs = [] then p else Some (last xs))"

lemma first_or_simps [simp]:
  "first_or [] n = n" "first_or (x # xs) n = Some x"
  "first_or (xs @ ys) n = first_or xs (first_or ys n)"
  by (simp_all add: first_or_def split: list.split)

lemma last_or_simps [simp]:
  "last_or p [] = p" "last_or p (x # xs) = last_or (Some x) xs"
  "last_or p (xs @ ys) = last_or (last_or p xs) ys"
  by (simp_all add: last_or_def)

lemma first_or_None_iff: "first_or xs n = None \<longleftrightarrow> xs = [] \<and> n = None"
  by (cases xs) simp_all

lemma last_or_None_iff: "last_or p xs = None \<longleftrightarrow> xs = [] \<and> p = None"
  by (simp add: last_or_def)

lemma first_or_Some: "first_or xs n = Some y \<longleftrightarrow> (xs \<noteq> [] \<and> hd xs = y) \<or> (xs = [] \<and> n = Some y)"
  by (cases xs) simp_all

lemma last_or_Some: "last_or p xs = Some y \<longleftrightarrow> (xs \<noteq> [] \<and> last xs = y) \<or> (xs = [] \<and> p = Some y)"
  by (auto simp: last_or_def)

primrec seg :: "(nat \<Rightarrow> timing_event) \<Rightarrow> nat option \<Rightarrow> nat list \<Rightarrow> nat option \<Rightarrow> bool" where
  "seg ev p [] n \<longleftrightarrow> True"
| "seg ev p (x # xs) n \<longleftrightarrow>
     prev_event (ev x) = p \<and> next_event (ev x) = first_or xs n \<and> seg ev (Some x) xs n"

lemma seg_append [simp]:
  "seg ev p (xs @ ys) n \<longleftrightarrow> seg ev p xs (first_or ys n) \<and> seg ev (last_or p xs) ys n"
  by (induction xs arbitrary: p) auto

lemma seg_cong:
  "(\<And>x. x \<in> set xs \<Longrightarrow> prev_event (ev' x) = prev_event (ev x)) \<Longrightarrow>
   (\<And>x. x \<in> set xs \<Longrightarrow> next_event (ev' x) = next_event (ev x)) \<Longrightarrow>
   seg ev' p xs n = seg ev p xs n"
  by (induction xs arbitrary: p) auto

lemma seg_upd_other [simp]: "x \<notin> set xs \<Longrightarrow> seg (ev(x := v)) p xs n = seg ev p xs n"
  by (rule seg_cong) auto

text \<open>Redirecting the outer neighbours of a segment.\<close>

lemma seg_set_next_last:
  "seg ev p (xs @ [x]) n \<Longrightarrow> x \<notin> set xs \<Longrightarrow>
   seg (ev(x := (ev x)\<lparr>next_event := n'\<rparr>)) p (xs @ [x]) n'"
  by simp

lemma seg_set_prev_first:
  "seg ev p (x # xs) n \<Longrightarrow> x \<notin> set xs \<Longrightarrow>
   seg (ev(x := (ev x)\<lparr>prev_event := p'\<rparr>)) p' (x # xs) n"
  by simp

section \<open>The queue of the scheduler\<close>

definition sched_dll :: "'a sched_sys_scheme \<Rightarrow> nat list \<Rightarrow> bool" where
  "sched_dll s xs \<longleftrightarrow> distinct xs \<and> seg (timing_events s) None xs None \<and>
     active_events_head (timing s) = first_or xs None \<and>
     active_events_tail (timing s) = last_or None xs \<and>
     active_event_count (timing s) = of_nat (List.length xs) \<and>
     (\<forall>x. x \<notin> set xs \<longrightarrow>
        prev_event (timing_events s x) = None \<and> next_event (timing_events s x) = None)"

abbreviation ev_time :: "'a sched_sys_scheme \<Rightarrow> nat \<Rightarrow> u64" where
  "ev_time s e \<equiv> next_run_time (timing_events s e)"

text \<open>The part of an event, and of the state, that list surgery leaves alone.\<close>

definition ev_data :: "timing_event \<Rightarrow> u64 \<times> u64 \<times> int \<times> int \<times> bool" where
  "ev_data v = (next_run_time v, last_run_time v, period v, interval v, active v)"

definition sched_frame :: "'a sched_sys_scheme \<Rightarrow> 'a sched_sys_scheme \<Rightarrow> bool" where
  "sched_frame s s' \<longleftrightarrow>
     (\<forall>x. ev_data (timing_events s' x) = ev_data (timing_events s x)) \<and>
     current_event (timing s') = current_event (timing s) \<and>
     current_event_next_run_time (timing s') = current_event_next_run_time (timing s) \<and>
     global_tick_counter (timing s') = global_tick_counter (timing s) \<and>
     event_run_tick_counter (timing s') = event_run_tick_counter (timing s) \<and>
     intc s' = intc s \<and> sched_sys.more s' = sched_sys.more s \<and>
     (cpu s')\<lparr>downcount := 0\<rparr> = (cpu s)\<lparr>downcount := 0\<rparr>"

lemma sched_frame_refl [simp]: "sched_frame s s"
  by (simp add: sched_frame_def)

lemma sched_frame_trans: "sched_frame a b \<Longrightarrow> sched_frame b c \<Longrightarrow> sched_frame a c"
  by (simp add: sched_frame_def)

lemma sched_frame_data:
  assumes "sched_frame s s'"
  shows "ev_time s' x = ev_time s x" "last_run_time (timing_events s' x) = last_run_time (timing_events s x)"
    "period (timing_events s' x) = period (timing_events s x)"
    "interval (timing_events s' x) = interval (timing_events s x)"
    "active (timing_events s' x) = active (timing_events s x)"
  using assms by (simp_all add: sched_frame_def ev_data_def)

lemma sched_frame_state:
  assumes "sched_frame s s'"
  shows "current_event (timing s') = current_event (timing s)"
    "current_event_next_run_time (timing s') = current_event_next_run_time (timing s)"
    "global_tick_counter (timing s') = global_tick_counter (timing s)"
    "event_run_tick_counter (timing s') = event_run_tick_counter (timing s)"
    "intc s' = intc s" "sched_sys.more s' = sched_sys.more s"
  using assms by (simp_all add: sched_frame_def)

lemma sched_frame_cpu:
  assumes "sched_frame s s'"
  shows "pending_ticks (cpu s') = pending_ticks (cpu s)" "cop0_regs (cpu s') = cop0_regs (cpu s)"
    "regs (cpu s') = regs (cpu s)" "pc (cpu s') = pc (cpu s)"
proof -
  have eq: "(cpu s')\<lparr>downcount := 0\<rparr> = (cpu s)\<lparr>downcount := 0\<rparr>"
    using assms by (simp add: sched_frame_def)
  show "pending_ticks (cpu s') = pending_ticks (cpu s)" "cop0_regs (cpu s') = cop0_regs (cpu s)"
    "regs (cpu s') = regs (cpu s)" "pc (cpu s') = pc (cpu s)"
    using arg_cong [OF eq, of pending_ticks] arg_cong [OF eq, of cop0_regs]
      arg_cong [OF eq, of regs] arg_cong [OF eq, of pc] by simp_all
qed

text \<open>
  Field updates as seen by the refinement proofs: how each primitive changes the store and
  the two anchors.
\<close>

lemmas link_defs = upd_event_def set_head_def set_tail_def set_prev_def set_next_def
  unlink_prev_def unlink_next_def

lemma frame_set_links [simp]:
  "sched_frame s (set_prev p e t) = sched_frame s t"
  "sched_frame s (set_next p e t) = sched_frame s t"
  "sched_frame s (set_head p t) = sched_frame s t"
  "sched_frame s (set_tail p t) = sched_frame s t"
  by (auto simp: sched_frame_def ev_data_def link_defs)

lemma frame_unlink [simp]:
  "sched_frame s (unlink_prev e t) = sched_frame s t"
  "sched_frame s (unlink_next e t) = sched_frame s t"
  by (simp_all add: unlink_prev_def unlink_next_def split: option.split)

lemma frame_count [simp]:
  "sched_frame s (t\<lparr>timing := (timing t)\<lparr>active_event_count := n\<rparr>\<rparr>) = sched_frame s t"
  by (simp add: sched_frame_def)

lemma update_cpu_downcount_Some:
  assumes "active_events_head (timing s) \<noteq> None"
  obtains s' where "timing_events_update_cpu_downcount s = Some s'"
    "timing s' = timing s" "timing_events s' = timing_events s" "sched_frame s s'"
  using assms that
  by (auto simp: timing_events_update_cpu_downcount_def Let_def sched_frame_def split: option.splits)

section \<open>The walks\<close>

lemma sort_walk_back_seg:
  "seg ev None xs n \<Longrightarrow>
   sort_walk_back ev t (last_or None xs) = Some (last_or None (rev (dropWhile (\<lambda>x. next_run_time (ev x) > t) (rev xs))))"
proof (induction xs arbitrary: n rule: rev_induct)
  case (snoc x xs)
  then show ?case
    by (subst sort_walk_back.simps) auto
qed (simp add: sort_walk_back.simps)

lemma sort_walk_forward_seg:
  "seg ev p xs None \<Longrightarrow>
   sort_walk_forward ev t (first_or xs None) =
     Some (first_or (dropWhile (\<lambda>x. t > next_run_time (ev x)) xs) None)"
proof (induction xs arbitrary: p)
  case (Cons x xs)
  then show ?case
    by (subst sort_walk_forward.simps) auto
qed (simp add: sort_walk_forward.simps)

lemma add_active_walk_seg:
  "seg ev p xs None \<Longrightarrow>
   add_active_walk ev t c (first_or xs None) =
     Some (last_or c (takeWhile (\<lambda>x. t > next_run_time (ev x)) xs),
           first_or (dropWhile (\<lambda>x. t > next_run_time (ev x)) xs) None)"
proof (induction xs arbitrary: p c)
  case (Cons x xs)
  then show ?case
    by (subst add_active_walk.simps) auto
qed (simp add: add_active_walk.simps)

section \<open>The list operations\<close>

definition enqueue :: "(nat \<Rightarrow> u64) \<Rightarrow> nat \<Rightarrow> nat list \<Rightarrow> nat list" where
  "enqueue f e xs = takeWhile (\<lambda>x. f e > f x) xs @ e # dropWhile (\<lambda>x. f e > f x) xs"

definition resort :: "(nat \<Rightarrow> u64) \<Rightarrow> nat \<Rightarrow> nat list \<Rightarrow> nat list" where
  "resort f e xs =
     (let us = takeWhile ((\<noteq>) e) xs; vs = tl (dropWhile ((\<noteq>) e) xs) in
      if us \<noteq> [] \<and> f (last us) > f e
      then rev (dropWhile (\<lambda>x. f x > f e) (rev us)) @ e # rev (takeWhile (\<lambda>x. f x > f e) (rev us)) @ vs
      else if vs \<noteq> [] \<and> f e > f (hd vs)
      then us @ takeWhile (\<lambda>x. f e > f x) vs @ e # dropWhile (\<lambda>x. f e > f x) vs
      else xs)"

lemma takeWhile_neq_split:
  "e \<notin> set us \<Longrightarrow> takeWhile ((\<noteq>) e) (us @ e # vs) = us"
  "e \<notin> set us \<Longrightarrow> dropWhile ((\<noteq>) e) (us @ e # vs) = e # vs"
  by (induction us) auto

lemma resort_split:
  assumes "e \<notin> set us"
  shows "resort f e (us @ e # vs) =
     (if us \<noteq> [] \<and> f (last us) > f e
      then rev (dropWhile (\<lambda>x. f x > f e) (rev us)) @ e # rev (takeWhile (\<lambda>x. f x > f e) (rev us)) @ vs
      else if vs \<noteq> [] \<and> f e > f (hd vs)
      then us @ takeWhile (\<lambda>x. f e > f x) vs @ e # dropWhile (\<lambda>x. f e > f x) vs
      else us @ e # vs)"
  using assms by (simp add: resort_def takeWhile_neq_split)

lemma mset_enqueue [simp]: "mset (enqueue f e xs) = add_mset e (mset xs)"
proof -
  have "mset (enqueue f e xs) =
      add_mset e (mset (takeWhile (\<lambda>x. f e > f x) xs @ dropWhile (\<lambda>x. f e > f x) xs))"
    by (simp add: enqueue_def del: takeWhile_dropWhile_id)
  then show ?thesis by (simp only: takeWhile_dropWhile_id)
qed

lemma mset_resort:
  assumes "e \<in> set xs"
  shows "mset (resort f e xs) = mset xs"
proof -
  obtain us vs where xs: "xs = us @ e # vs" "e \<notin> set us"
    using split_list_first [OF assms] by blast
  have bwd: "mset (rev (dropWhile P (rev us)) @ rev (takeWhile P (rev us))) = mset us" for P
    by (metis mset_append mset_rev takeWhile_dropWhile_id union_commute)
  have fwd: "mset (takeWhile P vs @ dropWhile P vs) = mset vs" for P
    by simp
  show ?thesis
    using bwd [of "\<lambda>x. f x > f e"] fwd [of "\<lambda>x. f e > f x"] xs(2)
    by (simp add: xs(1) resort_split del: takeWhile_dropWhile_id)
qed

lemma set_enqueue [simp]: "set (enqueue f e xs) = insert e (set xs)"
  by (metis mset_enqueue set_mset_add_mset_insert set_mset_mset)

lemma set_resort: "e \<in> set xs \<Longrightarrow> set (resort f e xs) = set xs"
  by (metis mset_resort set_mset_mset)

lemma distinct_enqueue: "distinct xs \<Longrightarrow> e \<notin> set xs \<Longrightarrow> distinct (enqueue f e xs)"
  by (metis distinct.simps(2) mset.simps(2) mset_enqueue mset_eq_imp_distinct_iff)

lemma distinct_resort: "e \<in> set xs \<Longrightarrow> distinct (resort f e xs) = distinct xs"
  by (metis mset_resort mset_eq_imp_distinct_iff)

text \<open>
  Both keep the list sorted.  A new event goes before the events with the same time; an
  event moved back goes after them.
\<close>

lemma takeWhile_less_sorted:
  "sorted (map f xs) \<Longrightarrow> takeWhile (\<lambda>x. f x < t) xs = filter (\<lambda>x. f x < t) xs" for t :: u64
  by (induction xs) (force intro!: filter_False [symmetric])+

lemma dropWhile_less_sorted:
  "sorted (map f xs) \<Longrightarrow> dropWhile (\<lambda>x. f x < t) xs = filter (\<lambda>x. f x \<ge> t) xs" for t :: u64
  by (induction xs) (auto intro!: filter_True [symmetric])

lemma sorted_snoc_iff: "sorted (map f (xs @ [x])) \<longleftrightarrow> sorted (map f xs) \<and> (\<forall>y\<in>set xs. f y \<le> f x)"
  for f :: "nat \<Rightarrow> u64"
  by (auto simp: sorted_append)

lemma rev_dropWhile_greater_sorted:
  "sorted (map f xs) \<Longrightarrow> rev (dropWhile (\<lambda>x. f x > t) (rev xs)) = filter (\<lambda>x. f x \<le> t) xs" for t :: u64
proof (induction xs rule: rev_induct)
  case (snoc x xs)
  show ?case
  proof (cases "f x > t")
    case False
    then have "\<forall>y \<in> set xs. f y \<le> t"
      using snoc.prems by (auto simp: sorted_append)
    then show ?thesis using False by simp
  qed (use snoc in \<open>simp add: sorted_append\<close>)
qed simp

lemma rev_takeWhile_greater_sorted:
  "sorted (map f xs) \<Longrightarrow> rev (takeWhile (\<lambda>x. f x > t) (rev xs)) = filter (\<lambda>x. f x > t) xs" for t :: u64
proof (induction xs rule: rev_induct)
  case (snoc x xs)
  show ?case
  proof (cases "f x > t")
    case False
    then have "\<forall>y \<in> set xs. \<not> t < f y"
      using snoc.prems by (auto simp: sorted_append)
    then show ?thesis using False by (simp add: filter_empty_conv)
  qed (use snoc in \<open>simp add: sorted_append\<close>)
qed simp

lemma enqueue_sorted_eq:
  "sorted (map f xs) \<Longrightarrow>
   enqueue f e xs = filter (\<lambda>x. f x < f e) xs @ e # filter (\<lambda>x. f x \<ge> f e) xs"
  by (simp add: enqueue_def takeWhile_less_sorted dropWhile_less_sorted)

lemma sorted_enqueue: "sorted (map f xs) \<Longrightarrow> sorted (map f (enqueue f e xs))"
  by (auto simp: enqueue_sorted_eq sorted_append sorted_filter)

lemma sorted_resort_split:
  assumes "e \<notin> set us" and s: "sorted (map f (us @ vs))"
  shows "sorted (map f (resort f e (us @ e # vs)))"
proof -
  have us: "sorted (map f us)" and vs: "sorted (map f vs)"
    and uv: "\<And>x y. x \<in> set us \<Longrightarrow> y \<in> set vs \<Longrightarrow> f x \<le> f y"
    using s by (auto simp: sorted_append)
  consider (bwd) "us \<noteq> []" "f (last us) > f e"
    | (fwd) "\<not> (us \<noteq> [] \<and> f (last us) > f e)" "vs \<noteq> []" "f e > f (hd vs)"
    | (stay) "\<not> (us \<noteq> [] \<and> f (last us) > f e)" "\<not> (vs \<noteq> [] \<and> f e > f (hd vs))"
    by blast
  then show ?thesis
  proof cases
    case bwd
    have "f e \<le> f y" if "y \<in> set vs" for y
      using uv [OF last_in_set [OF bwd(1)] that] bwd(2) by simp
    with bwd us vs uv show ?thesis
      by (auto simp: resort_split [OF assms(1)] rev_dropWhile_greater_sorted
          rev_takeWhile_greater_sorted sorted_append sorted_filter)
  next
    case fwd
    have "f x \<le> f e" if "x \<in> set us" for x
      using uv [OF that hd_in_set [OF fwd(2)]] fwd(3) by simp
    with fwd us vs uv show ?thesis
      by (auto simp: resort_split [OF assms(1)] takeWhile_less_sorted
          dropWhile_less_sorted sorted_append sorted_filter)
  next
    case stay
    have "f x \<le> f e" if "x \<in> set us" for x
    proof -
      have "f x \<le> f (last us)"
        using us that by (cases us rule: rev_cases) (auto simp: sorted_append)
      then show ?thesis using stay(1) that by (cases "us = []") auto
    qed
    moreover have "f e \<le> f y" if "y \<in> set vs" for y
      using vs that stay(2) by (cases vs) auto
    ultimately show ?thesis using stay us vs uv
      by (auto simp: resort_split [OF assms(1)] sorted_append)
  qed
qed

section \<open>The pointer operations refine the list operations\<close>

lemma list_ends_cases:
  obtains "xs = []" | ys y where "xs = ys @ [y]"
  by (cases xs rule: rev_cases) auto

lemma add_active_refines:
  assumes dll: "sched_dll s xs" and e: "e \<notin> set xs"
  shows "\<exists>s'. timing_events_add_active e s = Some s' \<and>
           sched_dll s' (enqueue (ev_time s) e xs) \<and> sched_frame s s'"
proof -
  let ?t = "ev_time s e"
  define us where "us = takeWhile (\<lambda>x. ?t > ev_time s x) xs"
  define vs where "vs = dropWhile (\<lambda>x. ?t > ev_time s x) xs"
  have xs: "xs = us @ vs" by (simp add: us_def vs_def)
  have enq: "enqueue (ev_time s) e xs = us @ e # vs" by (simp add: enqueue_def us_def vs_def)
  have d: "distinct (us @ vs)" "e \<notin> set us" "e \<notin> set vs" and
    sg: "seg (timing_events s) None us (first_or vs None)" "seg (timing_events s) (last_or None us) vs None"
    and hd: "active_events_head (timing s) = first_or us (first_or vs None)"
    and tl: "active_events_tail (timing s) = last_or (last_or None us) vs"
    and cnt: "active_event_count (timing s) = of_nat (List.length xs)"
    and nul: "\<And>x. x \<notin> set xs \<Longrightarrow> prev_event (timing_events s x) = None \<and> next_event (timing_events s x) = None"
    using dll e by (auto simp: sched_dll_def xs)
  have walk: "add_active_walk (timing_events s) ?t None (active_events_head (timing s)) =
      Some (last_or None us, first_or vs None)"
    using add_active_walk_seg [of "timing_events s" None xs ?t None] dll
    by (simp add: sched_dll_def us_def vs_def)
  have en: "prev_event (timing_events s e) = None" "next_event (timing_events s e) = None"
    using nul [of e] e by auto
  have "\<exists>s'. timing_events_add_active e s = Some s' \<and> sched_dll s' (us @ e # vs) \<and> sched_frame s s'"
    (is ?goal)
  proof (cases vs)
    case Nil
    show ?goal
      by (cases us rule: list_ends_cases)
        (use Nil d sg hd tl cnt nul en walk in \<open>auto simp: timing_events_add_active_def Let_def
          sched_dll_def xs link_defs timing_events_update_cpu_downcount_def sched_frame_def ev_data_def\<close>)
  next
    case (Cons v vs')
    show ?goal
      by (cases us rule: list_ends_cases)
        (use Cons d sg hd tl cnt nul en walk in \<open>auto simp: timing_events_add_active_def Let_def
          sched_dll_def xs link_defs timing_events_update_cpu_downcount_def sched_frame_def ev_data_def\<close>)
  qed
  then show ?thesis by (simp add: enq)
qed

lemma remove_active_refines:
  assumes dll: "sched_dll s xs" and e: "e \<in> set xs"
  shows "\<exists>s'. timing_events_remove_active e s = Some s' \<and>
           sched_dll s' (remove1 e xs) \<and> sched_frame s s'"
proof -
  obtain us vs where xs: "xs = us @ e # vs" "e \<notin> set us"
    using split_list_first [OF e] by blast
  have rm: "remove1 e xs = us @ vs" using xs by (simp add: remove1_append)
  have d: "distinct (us @ vs)" "e \<notin> set us" "e \<notin> set vs"
    and sg: "seg (timing_events s) None us (Some e)" "seg (timing_events s) (Some e) vs None"
    and en: "prev_event (timing_events s e) = last_or None us" "next_event (timing_events s e) = first_or vs None"
    and hd: "active_events_head (timing s) = first_or us (Some e)"
    and tl: "active_events_tail (timing s) = last_or (Some e) vs"
    and cnt: "active_event_count (timing s) = of_nat (List.length xs)"
    and nul: "\<And>x. x \<notin> set xs \<Longrightarrow> prev_event (timing_events s x) = None \<and> next_event (timing_events s x) = None"
    using dll e by (auto simp: sched_dll_def xs)
  have "\<exists>s'. timing_events_remove_active e s = Some s' \<and> sched_dll s' (us @ vs) \<and> sched_frame s s'"
    (is ?goal)
  proof (cases vs)
    case Nil
    show ?goal
      by (cases us rule: list_ends_cases)
        (use Nil d sg en hd tl cnt nul in \<open>auto simp: timing_events_remove_active_def Let_def
          sched_dll_def xs link_defs timing_events_update_cpu_downcount_def sched_frame_def ev_data_def\<close>)
  next
    case (Cons v vs')
    show ?goal
      by (cases us rule: list_ends_cases)
        (use Cons d sg en hd tl cnt nul in \<open>auto simp: timing_events_remove_active_def Let_def
          sched_dll_def xs link_defs timing_events_update_cpu_downcount_def sched_frame_def ev_data_def\<close>)
  qed
  then show ?thesis by (simp add: rm)
qed

text \<open>
  Re-sorting works on the links alone: \<open>sched_links\<close> forgets the count and what the
  pointers of events outside the list hold.
\<close>

definition sched_links :: "'a sched_sys_scheme \<Rightarrow> nat list \<Rightarrow> bool" where
  "sched_links s xs \<longleftrightarrow> distinct xs \<and> seg (timing_events s) None xs None \<and>
     active_events_head (timing s) = first_or xs None \<and>
     active_events_tail (timing s) = last_or None xs"

text \<open>What one link update does to the two anchors, the count and the other events.\<close>

definition link_frame :: "nat set \<Rightarrow> 'a sched_sys_scheme \<Rightarrow> 'a sched_sys_scheme \<Rightarrow> bool" where
  "link_frame A s s' \<longleftrightarrow> sched_frame s s' \<and>
     active_event_count (timing s') = active_event_count (timing s) \<and>
     (\<forall>x. x \<notin> A \<longrightarrow> timing_events s' x = timing_events s x)"

lemma link_frame_trans: "link_frame A r s \<Longrightarrow> link_frame A s t \<Longrightarrow> link_frame A r t"
  by (auto simp: link_frame_def intro: sched_frame_trans)

lemma unlink_links:
  assumes "sched_links s (us @ e # vs)" and "s' = unlink_next e (unlink_prev e s)"
  shows "sched_links s' (us @ vs)" "link_frame (set (us @ e # vs)) s s'"
  by (cases us rule: list_ends_cases; cases vs;
      use assms in \<open>auto simp: sched_links_def link_defs link_frame_def sched_frame_def ev_data_def\<close>)+

lemma unlink_swap: "sched_links s (us @ e # vs) \<Longrightarrow>
   unlink_next e (unlink_prev e s) = unlink_prev e (unlink_next e s)"
  by (cases us rule: list_ends_cases; cases vs)
    (auto simp: sched_links_def link_defs fun_upd_twist)

lemma splice_after_links:
  assumes "sched_links s (us @ c # vs)" "e \<notin> set us" "e \<noteq> c" "e \<notin> set vs"
  shows "sched_links (splice_after e c s) (us @ c # e # vs)"
    "link_frame (insert e (set (us @ c # vs))) s (splice_after e c s)"
  by (cases vs; use assms in \<open>auto simp: sched_links_def link_defs splice_after_def Let_def
      link_frame_def sched_frame_def ev_data_def\<close>)+

lemma splice_front_links:
  assumes "sched_links s vs" "vs \<noteq> []" "e \<notin> set vs"
  shows "\<exists>s'. splice_front e s = Some s' \<and> sched_links s' (e # vs) \<and> link_frame (insert e (set vs)) s s'"
  by (cases vs; use assms in \<open>auto simp: sched_links_def link_defs splice_front_def Let_def
      timing_events_update_cpu_downcount_def link_frame_def sched_frame_def ev_data_def\<close>)

lemma splice_back_links:
  assumes "sched_links s us" "us \<noteq> []" "e \<notin> set us"
  shows "\<exists>s'. splice_back e s = Some s' \<and> sched_links s' (us @ [e]) \<and> link_frame (insert e (set us)) s s'"
  by (cases us rule: list_ends_cases; use assms in \<open>auto simp: sched_links_def link_defs
      splice_back_def Let_def link_frame_def sched_frame_def ev_data_def\<close>)

lemma splice_before_links:
  assumes "sched_links s (us @ c # vs)" "e \<notin> set us" "e \<noteq> c" "e \<notin> set vs"
  shows "\<exists>s'. splice_before e c s = Some s' \<and> sched_links s' (us @ e # c # vs) \<and>
           link_frame (insert e (set (us @ c # vs))) s s'"
  by (cases us rule: list_ends_cases; use assms in \<open>auto simp: sched_links_def link_defs
      splice_before_def Let_def timing_events_update_cpu_downcount_def
      link_frame_def sched_frame_def ev_data_def\<close>)

lemma unlink_next_cpu: "unlink_next e (s\<lparr>cpu := c\<rparr>) = (unlink_next e s)\<lparr>cpu := c\<rparr>"
  by (simp add: link_defs split: option.split)

lemma sched_links_cpu [simp]: "sched_links (s\<lparr>cpu := c\<rparr>) xs = sched_links s xs"
  by (simp add: sched_links_def)

lemma unlink_cpu [simp]:
  "cpu (unlink_prev e s) = cpu s" "cpu (unlink_next e s) = cpu s"
  "current_event (timing (unlink_prev e s)) = current_event (timing s)"
  by (simp_all add: link_defs split: option.split)

lemma link_frame_downcount [simp]:
  "cpu t = c \<Longrightarrow> link_frame A s (t\<lparr>cpu := c\<lparr>downcount := d\<rparr>\<rparr>) = link_frame A s t"
  by (auto simp: link_frame_def sched_frame_def)

lemma link_frame_mono: "link_frame A s t \<Longrightarrow> A \<subseteq> B \<Longrightarrow> link_frame B s t"
  by (auto simp: link_frame_def)

lemma dll_links: "sched_dll s xs \<Longrightarrow> sched_links s xs"
  by (simp add: sched_dll_def sched_links_def)

lemma dll_of_links:
  "sched_dll s xs \<Longrightarrow> link_frame (set xs) s s' \<Longrightarrow> sched_links s' ys \<Longrightarrow> mset ys = mset xs \<Longrightarrow>
   sched_dll s' ys"
  by (auto simp: sched_dll_def sched_links_def link_frame_def dest: mset_eq_setD mset_eq_length)

text \<open>Backwards: the events \<open>ws\<close> that run later are passed over.\<close>

lemma sort_event_backwards_refines:
  assumes dll: "sched_dll s (us @ ws @ e # vs)" and ws: "ws \<noteq> []"
    and late: "\<forall>x\<in>set ws. ev_time s x > ev_time s e"
    and stop: "us = [] \<or> \<not> ev_time s (last us) > ev_time s e"
  shows "\<exists>s'. sort_event_backwards e s = Some s' \<and> sched_dll s' (us @ e # ws @ vs) \<and> sched_frame s s'"
proof -
  let ?xs = "us @ ws @ e # vs" and ?u = "unlink_next e (unlink_prev e s)"
  let ?P = "\<lambda>x. next_run_time (timing_events s x) > ev_time s e"
  have drop: "rev (dropWhile ?P (rev (us @ ws))) = us"
  proof -
    have "dropWhile ?P (rev us) = rev us" using stop by (cases us rule: rev_cases) auto
    moreover have "dropWhile ?P (rev ws @ rev us) = dropWhile ?P (rev us)"
      using late by (intro dropWhile_append2) simp
    ultimately show ?thesis by simp
  qed
  have sg: "seg (timing_events s) None (us @ ws) (Some e)" "prev_event (timing_events s e) = last_or None (us @ ws)"
    and fresh: "e \<notin> set us" "e \<notin> set ws" "e \<notin> set vs"
    using dll by (auto simp: sched_dll_def)
  have walk: "sort_walk_back (timing_events s) (ev_time s e) (prev_event (timing_events s e)) =
      Some (last_or None us)"
    using sort_walk_back_seg [OF sg(1), of "ev_time s e"] by (simp only: sg(2) drop)
  have u: "sched_links ?u (us @ ws @ vs)" "link_frame (set ?xs) s ?u"
    using unlink_links [of s "us @ ws" e vs] dll_links [OF dll] by simp_all
  have "\<exists>s'. sort_event_backwards e s = Some s' \<and> sched_links s' (us @ e # ws @ vs) \<and>
      link_frame (set ?xs) s s'"
  proof (cases us rule: rev_cases)
    case Nil
    obtain s' where "splice_front e ?u = Some s'" "sched_links s' (e # ws @ vs)"
      "link_frame (insert e (set (ws @ vs))) ?u s'"
      using splice_front_links [of ?u "ws @ vs" e] u(1) ws fresh Nil by auto
    then show ?thesis using u(2) walk Nil
      by (auto simp: sort_event_backwards_def elim!: link_frame_trans link_frame_mono)
  next
    case (snoc us' c)
    have "sched_links (splice_after e c ?u) (us @ e # ws @ vs)"
      "link_frame (insert e (set (us @ ws @ vs))) ?u (splice_after e c ?u)"
      using splice_after_links [of ?u us' c "ws @ vs" e] u(1) fresh snoc by simp_all
    then show ?thesis using u(2) walk snoc
      by (auto simp: sort_event_backwards_def elim!: link_frame_trans link_frame_mono)
  qed
  then show ?thesis
    using dll_of_links [OF dll] by (fastforce simp: link_frame_def)
qed

text \<open>Forwards: the events \<open>ws\<close> that run earlier are passed over.\<close>

lemma sort_event_forwards_refines:
  assumes dll: "sched_dll s (us @ e # ws @ vs)" and ws: "ws \<noteq> []"
    and early: "\<forall>x\<in>set ws. ev_time s e > ev_time s x"
    and stop: "vs = [] \<or> \<not> ev_time s e > ev_time s (hd vs)"
  shows "\<exists>s'. sort_event_forwards e s = Some s' \<and> sched_dll s' (us @ ws @ e # vs) \<and> sched_frame s s'"
proof -
  let ?xs = "us @ e # ws @ vs"
  let ?P = "\<lambda>x. ev_time s e > next_run_time (timing_events s x)"
  have drop: "dropWhile ?P (ws @ vs) = vs"
    using early stop by (cases vs) (auto simp: dropWhile_append2)
  have sg: "seg (timing_events s) (Some e) (ws @ vs) None"
    "next_event (timing_events s e) = first_or (ws @ vs) None"
    and fresh: "e \<notin> set us" "e \<notin> set ws" "e \<notin> set vs"
    using dll by (auto simp: sched_dll_def)
  have walk: "sort_walk_forward (timing_events s) (ev_time s e) (next_event (timing_events s e)) =
      Some (first_or vs None)"
    using sort_walk_forward_seg [OF sg(1), of "ev_time s e"] by (simp only: sg(2) drop)
  define v where "v = unlink_prev e s"
  obtain v' where v': "(if prev_event (timing_events s e) = None \<and> current_event (timing v) = None
      then timing_events_update_cpu_downcount v else Some v) = Some v'"
    and u: "sched_links (unlink_next e v') (us @ ws @ vs)" "link_frame (set ?xs) s (unlink_next e v')"
  proof -
    let ?u = "unlink_next e (unlink_prev e s)"
    have base: "sched_links ?u (us @ ws @ vs)" "link_frame (set ?xs) s ?u"
      using unlink_links [of s us e "ws @ vs"] dll_links [OF dll] by simp_all
    show thesis
    proof (cases "prev_event (timing_events s e) = None \<and> current_event (timing v) = None")
      case True
      have "active_events_head (timing v) \<noteq> None"
        using True ws sg(2) by (cases ws) (auto simp: v_def unlink_prev_def set_head_def)
      then obtain d where "timing_events_update_cpu_downcount v = Some (v\<lparr>cpu := (cpu v)\<lparr>downcount := d\<rparr>\<rparr>)"
        by (auto simp: timing_events_update_cpu_downcount_def Let_def)
      with True base show thesis
        by (intro that [of "v\<lparr>cpu := (cpu v)\<lparr>downcount := d\<rparr>\<rparr>"])
          (simp_all add: unlink_next_cpu v_def)
    qed (use base that [of v] in \<open>auto simp: v_def\<close>)
  qed
  have "\<exists>s'. sort_event_forwards e s = Some s' \<and> sched_links s' (us @ ws @ e # vs) \<and>
      link_frame (set ?xs) s s'"
  proof (cases vs)
    case Nil
    obtain s' where "splice_back e (unlink_next e v') = Some s'" "sched_links s' (us @ ws @ [e])"
      "link_frame (insert e (set (us @ ws))) (unlink_next e v') s'"
      using splice_back_links [of "unlink_next e v'" "us @ ws" e] u(1) ws fresh Nil by auto
    then show ?thesis using u(2) walk v' Nil
      by (auto simp: sort_event_forwards_def v_def [symmetric] elim!: link_frame_trans link_frame_mono)
  next
    case (Cons c vs')
    obtain s' where "splice_before e c (unlink_next e v') = Some s'"
      "sched_links s' (us @ ws @ e # vs)"
      "link_frame (insert e (set (us @ ws @ vs))) (unlink_next e v') s'"
      using splice_before_links [of "unlink_next e v'" "us @ ws" c vs' e] u(1) fresh Cons by auto
    then show ?thesis using u(2) walk v' Cons
      by (auto simp: sort_event_forwards_def v_def [symmetric] elim!: link_frame_trans link_frame_mono)
  qed
  then show ?thesis
    using dll_of_links [OF dll] by (fastforce simp: link_frame_def)
qed

lemma sort_event_refines:
  assumes dll: "sched_dll s xs" and e: "e \<in> set xs"
  shows "\<exists>s'. timing_events_sort_event e s = Some s' \<and>
           sched_dll s' (resort (ev_time s) e xs) \<and> sched_frame s s'"
proof -
  obtain us vs where xs: "xs = us @ e # vs" "e \<notin> set us"
    using split_list_first [OF e] by blast
  let ?later = "\<lambda>x. ev_time s x > ev_time s e" and ?earlier = "\<lambda>x. ev_time s e > ev_time s x"
  have en: "prev_event (timing_events s e) = last_or None us" "next_event (timing_events s e) = first_or vs None"
    using dll by (auto simp: sched_dll_def xs)
  have bwd_iff: "(case prev_event (timing_events s e) of Some p \<Rightarrow> ?later p | None \<Rightarrow> False) \<longleftrightarrow>
      us \<noteq> [] \<and> ?later (last us)"
    by (cases us rule: rev_cases) (simp_all add: en)
  have fwd_iff: "(case next_event (timing_events s e) of Some n \<Rightarrow> ?earlier n | None \<Rightarrow> False) \<longleftrightarrow>
      vs \<noteq> [] \<and> ?earlier (hd vs)"
    by (cases vs) (simp_all add: en)
  note resort = resort_split [OF xs(2), of "ev_time s" vs, folded xs(1)]
  consider (bwd) "us \<noteq> []" "?later (last us)"
    | (fwd) "\<not> (us \<noteq> [] \<and> ?later (last us))" "vs \<noteq> []" "?earlier (hd vs)"
    | (stay) "\<not> (us \<noteq> [] \<and> ?later (last us))" "\<not> (vs \<noteq> [] \<and> ?earlier (hd vs))"
    by blast
  then show ?thesis
  proof cases
    case bwd
    let ?k = "rev (dropWhile ?later (rev us))" and ?w = "rev (takeWhile ?later (rev us))"
    have us: "us = ?k @ ?w"
      by (simp flip: rev_append)
    have "?w \<noteq> []" using bwd by (cases us rule: rev_cases) auto
    moreover have "?k = [] \<or> \<not> ?later (last ?k)"
      using hd_dropWhile [of ?later "rev us"] by (auto simp: last_rev)
    moreover have "\<forall>x\<in>set ?w. ?later x" by (auto dest: set_takeWhileD)
    moreover have "sched_dll s (?k @ ?w @ e # vs)"
      using dll unfolding xs(1) by (subst (asm) us) simp
    ultimately have "\<exists>s'. sort_event_backwards e s = Some s' \<and> sched_dll s' (?k @ e # ?w @ vs) \<and> sched_frame s s'"
      by (intro sort_event_backwards_refines) assumption+
    moreover have "timing_events_sort_event e s = sort_event_backwards e s"
      using bwd bwd_iff by (simp add: timing_events_sort_event_def Let_def)
    moreover have "resort (ev_time s) e xs = ?k @ e # ?w @ vs"
      using bwd by (simp only: resort if_True simp_thms)
    ultimately show ?thesis by (simp only:)
  next
    case fwd
    let ?w = "takeWhile ?earlier vs" and ?k = "dropWhile ?earlier vs"
    have "?w \<noteq> []" using fwd by (cases vs) auto
    moreover have "?k = [] \<or> \<not> ?earlier (hd ?k)"
      using hd_dropWhile [of ?earlier vs] by auto
    moreover have "\<forall>x\<in>set ?w. ?earlier x" by (auto dest: set_takeWhileD)
    moreover have "sched_dll s (us @ e # ?w @ ?k)" using dll xs(1) by simp
    ultimately have "\<exists>s'. sort_event_forwards e s = Some s' \<and> sched_dll s' (us @ ?w @ e # ?k) \<and> sched_frame s s'"
      by (intro sort_event_forwards_refines) assumption+
    moreover have "timing_events_sort_event e s = sort_event_forwards e s"
      using fwd bwd_iff fwd_iff by (auto simp: timing_events_sort_event_def Let_def)
    moreover have "resort (ev_time s) e xs = us @ ?w @ e # ?k"
      using fwd by (simp only: resort if_False if_True simp_thms)
    ultimately show ?thesis by (simp only:)
  next
    case stay
    have "timing_events_sort_event e s = Some s"
      using stay bwd_iff fwd_iff by (auto simp: timing_events_sort_event_def Let_def)
    moreover have "resort (ev_time s) e xs = xs"
      using stay by (simp only: resort if_False)
    ultimately show ?thesis using dll by simp
  qed
qed

section \<open>The sorted queue\<close>

text \<open>
  The invariant of the active list: linked, sorted by \<open>next_run_time\<close>, and holding
  exactly the active events.
\<close>

definition sched_queue :: "'a sched_sys_scheme \<Rightarrow> nat list \<Rightarrow> bool" where
  "sched_queue s xs \<longleftrightarrow> sched_dll s xs \<and> sorted (map (ev_time s) xs) \<and>
     (\<forall>x. active (timing_events s x) \<longleftrightarrow> x \<in> set xs)"

lemma sched_queue_dll: "sched_queue s xs \<Longrightarrow> sched_dll s xs"
  by (simp add: sched_queue_def)

lemma sched_queue_distinct: "sched_queue s xs \<Longrightarrow> distinct xs"
  by (simp add: sched_queue_def sched_dll_def)

lemma sched_queue_active: "sched_queue s xs \<Longrightarrow> active (timing_events s x) \<longleftrightarrow> x \<in> set xs"
  by (simp add: sched_queue_def)

lemma sched_queue_head: "sched_queue s xs \<Longrightarrow> active_events_head (timing s) = first_or xs None"
  by (simp add: sched_queue_def sched_dll_def)

lemma sched_queue_head_least:
  "sched_queue s xs \<Longrightarrow> active_events_head (timing s) = Some h \<Longrightarrow>
   h \<in> set xs \<and> (\<forall>x\<in>set xs. ev_time s h \<le> ev_time s x)"
  by (cases xs) (auto simp: sched_queue_def sched_dll_def)

lemma upd_event_simps [simp]:
  "timing_events (upd_event e f s) = (timing_events s)(e := f (timing_events s e))"
  "timing (upd_event e f s) = timing s" "cpu (upd_event e f s) = cpu s"
  "intc (upd_event e f s) = intc s" "sched_sys.more (upd_event e f s) = sched_sys.more s"
  by (simp_all add: upd_event_def)

lemma sched_dll_upd:
  "prev_event (f (timing_events s e)) = prev_event (timing_events s e) \<Longrightarrow>
   next_event (f (timing_events s e)) = next_event (timing_events s e) \<Longrightarrow>
   sched_dll (upd_event e f s) xs = sched_dll s xs"
proof -
  assume f: "prev_event (f (timing_events s e)) = prev_event (timing_events s e)"
    "next_event (f (timing_events s e)) = next_event (timing_events s e)"
  have "seg (timing_events (upd_event e f s)) None xs None = seg (timing_events s) None xs None"
    by (rule seg_cong) (simp_all add: f)
  moreover have "prev_event (timing_events (upd_event e f s) x) = prev_event (timing_events s x)"
    "next_event (timing_events (upd_event e f s) x) = next_event (timing_events s x)" for x
    by (simp_all add: f)
  ultimately show ?thesis by (simp only: sched_dll_def upd_event_simps(2))
qed

lemma sched_dll_timing:
  "active_events_head t = active_events_head (timing s) \<Longrightarrow>
   active_events_tail t = active_events_tail (timing s) \<Longrightarrow>
   active_event_count t = active_event_count (timing s) \<Longrightarrow>
   sched_dll (s\<lparr>timing := t\<rparr>) xs = sched_dll s xs"
  by (simp add: sched_dll_def)

lemma sched_queue_timing [simp]:
  "sched_queue (s\<lparr>timing := (timing s)\<lparr>global_tick_counter := g\<rparr>\<rparr>) xs = sched_queue s xs"
  "sched_queue (s\<lparr>timing := (timing s)\<lparr>event_run_tick_counter := g\<rparr>\<rparr>) xs = sched_queue s xs"
  "sched_queue (s\<lparr>timing := (timing s)\<lparr>current_event := c\<rparr>\<rparr>) xs = sched_queue s xs"
  "sched_queue (s\<lparr>cpu := q\<rparr>) xs = sched_queue s xs"
  by (simp_all add: sched_queue_def sched_dll_def)

lemma sched_queue_latch [simp]: "sched_queue (latch_current_next e t s) xs = sched_queue s xs"
  by (simp add: sched_queue_def sched_dll_def latch_current_next_def)

lemma sched_queue_frame:
  assumes "sched_frame s s'" "sched_dll s' ys" "set ys = {x. active (timing_events s x)}"
    "sorted (map (ev_time s) ys)"
  shows "sched_queue s' ys"
  using assms by (auto simp: sched_queue_def sched_frame_data cong: map_cong)

text \<open>Giving one listed event a new time and re-sorting keeps the invariant.\<close>

lemma sorted_map_resort:
  assumes s: "sorted (map f xs)" and e: "e \<in> set xs" and d: "distinct xs"
    and g: "\<And>x. x \<noteq> e \<Longrightarrow> g x = f x"
  shows "sorted (map g (resort g e xs))"
proof -
  obtain us vs where xs: "xs = us @ e # vs" "e \<notin> set us"
    using split_list_first [OF e] by blast
  have "e \<notin> set (us @ vs)" using d xs by auto
  then have "map g (us @ vs) = map f (us @ vs)"
    by (intro map_cong refl g) auto
  moreover have "sorted (map f (us @ vs))"
    using s xs by (auto simp: sorted_append)
  ultimately have "sorted (map g (us @ vs))"
    by (simp only:)
  then show ?thesis
    using sorted_resort_split [OF xs(2)] xs(1) by simp
qed

lemma retime_refines:
  assumes q: "sched_queue s xs" and e: "e \<in> set xs"
    and f: "\<And>v. prev_event (f v) = prev_event v" "\<And>v. next_event (f v) = next_event v"
      "\<And>v. active (f v) = active v"
  shows "\<exists>s'. timing_events_sort_event e (upd_event e f s) = Some s' \<and>
    sched_queue s' (resort (ev_time (upd_event e f s)) e xs) \<and> sched_frame (upd_event e f s) s'"
proof -
  let ?u = "upd_event e f s"
  have dll: "sched_dll ?u xs"
    using q f by (simp add: sched_dll_upd sched_queue_def)
  obtain s' where s': "timing_events_sort_event e ?u = Some s'"
    "sched_dll s' (resort (ev_time ?u) e xs)" "sched_frame ?u s'"
    using sort_event_refines [OF dll e] by blast
  have "sorted (map (ev_time ?u) (resort (ev_time ?u) e xs))"
    using q e by (intro sorted_map_resort [of "ev_time s"]) (auto simp: sched_queue_def sched_dll_def)
  moreover have "set (resort (ev_time ?u) e xs) = {x. active (timing_events ?u x)}"
    using q e f by (auto simp: set_resort sched_queue_def)
  ultimately show ?thesis
    using s' by (blast intro: sched_queue_frame)
qed

text \<open>Making one inactive event active and adding it.\<close>

lemma activate_refines:
  assumes q: "sched_queue s xs" and e: "e \<notin> set xs"
    and f: "\<And>v. prev_event (f v) = prev_event v" "\<And>v. next_event (f v) = next_event v"
      "\<And>v. active (f v)"
  shows "\<exists>s'. timing_events_add_active e (upd_event e f s) = Some s' \<and>
    sched_queue s' (enqueue (ev_time (upd_event e f s)) e xs) \<and> sched_frame (upd_event e f s) s'"
proof -
  let ?u = "upd_event e f s"
  have dll: "sched_dll ?u xs"
    using q f by (simp add: sched_dll_upd sched_queue_def)
  obtain s' where s': "timing_events_add_active e ?u = Some s'"
    "sched_dll s' (enqueue (ev_time ?u) e xs)" "sched_frame ?u s'"
    using add_active_refines [OF dll e] by blast
  have "map (ev_time ?u) xs = map (ev_time s) xs"
    using e by (intro map_cong) auto
  then have "sorted (map (ev_time ?u) xs)"
    using q by (simp only: sched_queue_def)
  then have "sorted (map (ev_time ?u) (enqueue (ev_time ?u) e xs))"
    by (rule sorted_enqueue)
  moreover have "set (enqueue (ev_time ?u) e xs) = {x. active (timing_events ?u x)}"
    using q e f by (auto simp: sched_queue_def)
  ultimately show ?thesis
    using s' by (blast intro: sched_queue_frame)
qed

lemma deactivate_refines:
  assumes q: "sched_queue s xs" and e: "e \<in> set xs"
    and f: "\<And>v. prev_event (f v) = prev_event v" "\<And>v. next_event (f v) = next_event v"
      "\<And>v. next_run_time (f v) = next_run_time v" "\<And>v. \<not> active (f v)"
  shows "\<exists>s'. timing_events_remove_active e (upd_event e f s) = Some s' \<and>
    sched_queue s' (remove1 e xs) \<and> sched_frame (upd_event e f s) s'"
proof -
  let ?u = "upd_event e f s"
  have dll: "sched_dll ?u xs"
    using q f by (simp add: sched_dll_upd sched_queue_def)
  obtain s' where s': "timing_events_remove_active e ?u = Some s'"
    "sched_dll s' (remove1 e xs)" "sched_frame ?u s'"
    using remove_active_refines [OF dll e] by blast
  have "ev_time ?u = ev_time s" using f by auto
  then have "sorted (map (ev_time ?u) (remove1 e xs))"
    using q by (simp add: sched_queue_def sorted_map_remove1)
  moreover have "set (remove1 e xs) = {x. active (timing_events ?u x)}"
    using q f by (auto simp: sched_queue_def sched_dll_def set_remove1_eq)
  ultimately show ?thesis
    using s' by (blast intro: sched_queue_frame)
qed

end
