(* ===== verification/Scheduler_Ops.thy ===== *)
theory Scheduler_Ops
  imports Scheduler_Queue
begin

text \<open>
  The public operations of an event against the sorted queue: each one returns (no walk runs
  off the list, no NULL is dereferenced), keeps \<open>sched_queue\<close>, and changes exactly
  the run time it is asked to change.  The last section packages the queue as the locale
  \<open>timed_queue\<close>, the contract a device relies on.
\<close>

text \<open>
  What no rescheduling touches: the clock, the running event, the device state, the CPU apart
  from its downcount, and the period and interval of every event.
\<close>

definition sched_env :: "'a sched_sys_scheme \<Rightarrow> 'a sched_sys_scheme \<Rightarrow> bool" where
  "sched_env s s' \<longleftrightarrow>
     current_event (timing s') = current_event (timing s) \<and>
     global_tick_counter (timing s') = global_tick_counter (timing s) \<and>
     event_run_tick_counter (timing s') = event_run_tick_counter (timing s) \<and>
     intc s' = intc s \<and> sched_sys.more s' = sched_sys.more s \<and>
     (cpu s')\<lparr>downcount := 0\<rparr> = (cpu s)\<lparr>downcount := 0\<rparr> \<and>
     (\<forall>x. period (timing_events s' x) = period (timing_events s x) \<and>
          interval (timing_events s' x) = interval (timing_events s x))"

lemma sched_env_refl [simp]: "sched_env s s"
  by (simp add: sched_env_def)

lemma sched_env_trans: "sched_env a b \<Longrightarrow> sched_env b c \<Longrightarrow> sched_env a c"
  by (simp add: sched_env_def)

lemma sched_frame_env: "sched_frame s s' \<Longrightarrow> sched_env s s'"
  by (simp add: sched_frame_def sched_env_def ev_data_def)

lemma sched_env_latch [simp]: "sched_env s (latch_current_next e t s') = sched_env s s'"
  by (simp add: sched_env_def latch_current_next_def)

lemma sched_env_upd:
  "(\<And>v. period (f v) = period v) \<Longrightarrow> (\<And>v. interval (f v) = interval v) \<Longrightarrow>
   sched_env s (upd_event e f s') = sched_env s s'"
proof -
  assume f: "\<And>v. period (f v) = period v" "\<And>v. interval (f v) = interval v"
  have "period (timing_events (upd_event e f s') x) = period (timing_events s' x)"
    "interval (timing_events (upd_event e f s') x) = interval (timing_events s' x)" for x
    by (simp_all add: f)
  then show ?thesis by (simp only: sched_env_def upd_event_simps(2-))
qed

lemma latch_simps [simp]:
  "timing_events (latch_current_next e t s) = timing_events s"
  "current_event (timing (latch_current_next e t s)) = current_event (timing s)"
  "global_tick_counter (timing (latch_current_next e t s)) = global_tick_counter (timing s)"
  "current_event_next_run_time (timing (latch_current_next e t s)) =
     (if current_event (timing s) = Some e then t else current_event_next_run_time (timing s))"
  "cpu (latch_current_next e t s) = cpu s"
  by (simp_all add: latch_current_next_def)

lemma refresh_frame:
  assumes q: "sched_queue s ys" and h: "active_events_head (timing s) = Some e"
  shows "\<exists>s'. timing_events_update_cpu_downcount s = Some s' \<and> sched_queue s' ys \<and> sched_frame s s'"
  using assms
  by (auto simp: timing_events_update_cpu_downcount_def Let_def sched_frame_def)

lemma resort_and_refresh_refines:
  assumes q: "sched_queue s xs" and e: "e \<in> set xs"
    and f: "\<And>v. prev_event (f v) = prev_event v" "\<And>v. next_event (f v) = next_event v"
      "\<And>v. active (f v) = active v"
  shows "\<exists>s' ys. resort_and_refresh e (upd_event e f s) = Some s' \<and>
    sched_queue s' ys \<and> set ys = set xs \<and> sched_frame (upd_event e f s) s'"
proof -
  obtain t where t: "timing_events_sort_event e (upd_event e f s) = Some t"
    "sched_queue t (resort (ev_time (upd_event e f s)) e xs)" "sched_frame (upd_event e f s) t"
    using retime_refines [of s xs e f] assms by blast
  show ?thesis
  proof (cases "active_events_head (timing t) = Some e")
    case True
    then obtain s' where "timing_events_update_cpu_downcount t = Some s'"
      "sched_queue s' (resort (ev_time (upd_event e f s)) e xs)" "sched_frame t s'"
      using refresh_frame [OF t(2)] by blast
    with True t e show ?thesis
      by (auto simp: resort_and_refresh_def set_resort intro: sched_frame_trans)
  qed (use t e in \<open>auto simp: resort_and_refresh_def set_resort\<close>)
qed

text \<open>One summary of a rescheduling: event \<open>e\<close> now runs at \<open>t\<close>.\<close>

definition rescheduled :: "nat \<Rightarrow> u64 \<Rightarrow> nat list \<Rightarrow> 'a sched_sys_scheme \<Rightarrow> nat list \<Rightarrow> 'a sched_sys_scheme \<Rightarrow> bool" where
  "rescheduled e t xs s ys s' \<longleftrightarrow> sched_queue s' ys \<and> set ys = insert e (set xs) \<and> sched_env s s' \<and>
     (\<forall>x. x \<noteq> e \<longrightarrow> ev_time s' x = ev_time s x) \<and>
     (if current_event (timing s) = Some e \<and> e \<in> set xs
      then ev_time s' e = ev_time s e else ev_time s' e = t) \<and>
     current_event_next_run_time (timing s') =
       (if current_event (timing s) = Some e then t else current_event_next_run_time (timing s))"

theorem schedule_refines:
  assumes q: "sched_queue s xs"
  shows "\<exists>s' ys. timing_event_schedule e ticks s = Some s' \<and>
    rescheduled e (timing_events_get_timestamp_for_new_event s + ticks_u64 ticks) xs s ys s'"
proof -
  define ts where "ts = timing_events_get_timestamp_for_new_event s"
  define n where "n = ts + ticks_u64 ticks"
  define l where "l = latch_current_next e n s"
  have ql: "sched_queue l xs" using q by (simp add: l_def)
  note act = sched_queue_active [OF q]
  consider (new) "e \<notin> set xs" | (running) "e \<in> set xs" "current_event (timing s) = Some e"
    | (queued) "e \<in> set xs" "current_event (timing s) \<noteq> Some e" by blast
  then show ?thesis
  proof cases
    case new
    let ?f = "\<lambda>v. v\<lparr>next_run_time := n, last_run_time := ts, active := True\<rparr>"
    obtain s' where r: "timing_events_add_active e (upd_event e ?f l) = Some s'"
      "sched_queue s' (enqueue (ev_time (upd_event e ?f l)) e xs)" "sched_frame (upd_event e ?f l) s'"
      using activate_refines [OF ql new, of ?f] by auto
    have env: "sched_env s s'"
      by (rule sched_env_trans [OF _ sched_frame_env [OF r(3)]]) (simp add: sched_env_upd l_def)
    show ?thesis using r env new act
      by (auto simp: timing_event_schedule_def Let_def rescheduled_def sched_frame_data [OF r(3)]
          sched_frame_state [OF r(3)] ts_def [symmetric] n_def [symmetric] l_def)
  next
    case running
    then show ?thesis using act ql
      by (auto simp: timing_event_schedule_def Let_def rescheduled_def insert_absorb
          ts_def [symmetric] n_def [symmetric] l_def)
  next
    case queued
    let ?f = "\<lambda>v. v\<lparr>next_run_time := n\<rparr>"
    obtain s' ys where r: "resort_and_refresh e (upd_event e ?f l) = Some s'"
      "sched_queue s' ys" "set ys = set xs" "sched_frame (upd_event e ?f l) s'"
      using resort_and_refresh_refines [OF ql queued(1), of ?f] by auto
    have env: "sched_env s s'"
      by (rule sched_env_trans [OF _ sched_frame_env [OF r(4)]]) (simp add: sched_env_upd l_def)
    show ?thesis using r env queued act
      by (auto simp: timing_event_schedule_def Let_def rescheduled_def sched_frame_data [OF r(4)]
          sched_frame_state [OF r(4)] insert_absorb ts_def [symmetric] n_def [symmetric] l_def)
  qed
qed

theorem activate_queue:
  assumes q: "sched_queue s xs"
  shows "\<exists>s' ys. timing_event_activate e s = Some s' \<and> sched_queue s' ys \<and>
    set ys = insert e (set xs) \<and> sched_env s s' \<and> (\<forall>x. x \<noteq> e \<longrightarrow> ev_time s' x = ev_time s x) \<and>
    (e \<notin> set xs \<longrightarrow> ev_time s' e =
       timing_events_get_timestamp_for_new_event s + ticks_u64 (interval (timing_events s e)))"
proof (cases "e \<in> set xs")
  case True
  then show ?thesis using q sched_queue_active [OF q]
    by (auto simp: timing_event_activate_def insert_absorb)
next
  case False
  define ts where "ts = timing_events_get_timestamp_for_new_event s"
  define n where "n = ts + ticks_u64 (interval (timing_events s e))"
  let ?f = "\<lambda>v. v\<lparr>next_run_time := n, last_run_time := ts\<rparr>" and ?a = "\<lambda>v. v\<lparr>active := True\<rparr>"
  define l where "l = latch_current_next e n s"
  have ql: "sched_queue l xs" using q by (simp add: l_def)
  have comm: "upd_event e ?a (latch_current_next e n (upd_event e ?f s)) = upd_event e (?a \<circ> ?f) l"
    by (simp add: upd_event_def latch_current_next_def l_def)
  obtain s' where r: "timing_events_add_active e (upd_event e (?a \<circ> ?f) l) = Some s'"
    "sched_queue s' (enqueue (ev_time (upd_event e (?a \<circ> ?f) l)) e xs)"
    "sched_frame (upd_event e (?a \<circ> ?f) l) s'"
    using activate_refines [OF ql False, of "?a \<circ> ?f"] by auto
  have env: "sched_env s s'"
    by (rule sched_env_trans [OF _ sched_frame_env [OF r(3)]]) (simp add: sched_env_upd l_def)
  show ?thesis using r env False sched_queue_active [OF q]
    by (auto simp: timing_event_activate_def Let_def ts_def [symmetric] n_def [symmetric] comm
        sched_frame_data [OF r(3)] l_def)
qed

theorem deactivate_queue:
  assumes q: "sched_queue s xs"
  shows "\<exists>s'. timing_event_deactivate e s = Some s' \<and> sched_queue s' (remove1 e xs) \<and>
    sched_env s s' \<and> (\<forall>x. ev_time s' x = ev_time s x)"
proof (cases "e \<in> set xs")
  case False
  then show ?thesis using q sched_queue_active [OF q]
    by (auto simp: timing_event_deactivate_def remove1_idem)
next
  case True
  let ?f = "\<lambda>v. v\<lparr>active := False\<rparr>"
  obtain s' where r: "timing_events_remove_active e (upd_event e ?f s) = Some s'"
    "sched_queue s' (remove1 e xs)" "sched_frame (upd_event e ?f s) s'"
    using deactivate_refines [OF q True, of ?f] by auto
  have env: "sched_env s s'"
    by (rule sched_env_trans [OF _ sched_frame_env [OF r(3)]]) (simp add: sched_env_upd)
  show ?thesis using r env True sched_queue_active [OF q]
    by (auto simp: timing_event_deactivate_def sched_frame_data [OF r(3)])
qed

theorem delay_queue:
  assumes q: "sched_queue s xs" and e: "e \<in> set xs"
  shows "\<exists>s' ys. timing_event_delay e ticks s = Some s' \<and> sched_queue s' ys \<and> set ys = set xs \<and>
    sched_env s s' \<and> ev_time s' e = ev_time s e + ticks_u64 ticks \<and>
    (\<forall>x. x \<noteq> e \<longrightarrow> ev_time s' x = ev_time s x)"
proof -
  let ?f = "\<lambda>v. v\<lparr>next_run_time := next_run_time v + ticks_u64 ticks\<rparr>"
  obtain s' ys where r: "resort_and_refresh e (upd_event e ?f s) = Some s'"
    "sched_queue s' ys" "set ys = set xs" "sched_frame (upd_event e ?f s) s'"
    using resort_and_refresh_refines [OF q e, of ?f] by auto
  have env: "sched_env s s'"
    by (rule sched_env_trans [OF _ sched_frame_env [OF r(4)]]) (simp add: sched_env_upd)
  show ?thesis using r env e sched_queue_active [OF q]
    by (auto simp: timing_event_delay_def sched_frame_data [OF r(4)])
qed

lemma delay_inactive: "sched_queue s xs \<Longrightarrow> e \<notin> set xs \<Longrightarrow> timing_event_delay e ticks s = None"
  by (simp add: timing_event_delay_def sched_queue_active)

text \<open>Ending a callback: the event moves to its latched time, unless it was deactivated.\<close>

lemma settle_queue:
  assumes q: "sched_queue s xs"
  shows "\<exists>s' ys. settle_event e s = Some s' \<and> sched_queue s' ys \<and> set ys = set xs \<and> sched_env s s' \<and>
    (\<forall>x. x \<noteq> e \<longrightarrow> ev_time s' x = ev_time s x) \<and>
    (e \<in> set xs \<longrightarrow> ev_time s' e = current_event_next_run_time (timing s)) \<and>
    current_event_next_run_time (timing s') = current_event_next_run_time (timing s)"
proof (cases "e \<in> set xs")
  case False
  then show ?thesis using q sched_queue_active [OF q] by (auto simp: settle_event_def)
next
  case True
  let ?f = "\<lambda>v. v\<lparr>next_run_time := current_event_next_run_time (timing s)\<rparr>"
  obtain s' where r: "timing_events_sort_event e (upd_event e ?f s) = Some s'"
    "sched_queue s' (resort (ev_time (upd_event e ?f s)) e xs)" "sched_frame (upd_event e ?f s) s'"
    using retime_refines [OF q True, of ?f] by auto
  have env: "sched_env s s'"
    by (rule sched_env_trans [OF _ sched_frame_env [OF r(3)]]) (simp add: sched_env_upd)
  show ?thesis using r env True sched_queue_active [OF q]
    by (auto simp: settle_event_def sched_frame_data [OF r(3)] sched_frame_state [OF r(3)] set_resort)
qed

theorem cancel_running_queue:
  assumes q: "sched_queue s xs"
  shows "\<exists>s' ys. timing_events_cancel_running_event s = Some s' \<and> sched_queue s' ys \<and>
    set ys = set xs \<and> current_event (timing s') = None"
proof (cases "current_event (timing s)")
  case (Some e)
  then show ?thesis using settle_queue [OF q, of e]
    by (auto simp: timing_events_cancel_running_event_def)
qed (use q in \<open>auto simp: timing_events_cancel_running_event_def\<close>)

text \<open>
  Invoking an event early either does nothing, or restarts its interval and runs the callback
  on a state whose queue is intact.
\<close>

lemma invoke_early_cases:
  assumes q: "sched_queue s xs" and c: "current_event (timing s) \<noteq> Some e"
  shows "timing_event_invoke_early cb e force s = Some s \<or>
    (\<exists>r ys t. timing_event_invoke_early cb e force s = cb e t 0 r \<and> sched_queue r ys \<and>
       set ys = set xs \<and> sched_env s r \<and> e \<in> set xs)"
proof (cases "e \<in> set xs")
  case False
  then show ?thesis using sched_queue_active [OF q] by (simp add: timing_event_invoke_early_def)
next
  case True
  let ?ts = "timing_events_get_timestamp_for_new_event s"
  let ?f = "\<lambda>v. v\<lparr>next_run_time := ?ts + ticks_u64 (interval (timing_events s e)), last_run_time := ?ts\<rparr>"
  obtain r ys where r: "resort_and_refresh e (upd_event e ?f s) = Some r" "sched_queue r ys"
      "set ys = set xs" "sched_frame (upd_event e ?f s) r"
    using resort_and_refresh_refines [OF q True, of ?f] by auto
  have env: "sched_env s r"
    by (rule sched_env_trans [OF _ sched_frame_env [OF r(4)]]) (simp add: sched_env_upd)
  have upd: "upd_event e ?f s = upd_event e (\<lambda>ev. ev\<lparr>next_run_time := ?ts + ticks_u64 (interval ev),
      last_run_time := ?ts\<rparr>) s"
    by (simp add: upd_event_def)
  show ?thesis
    using r(1-3) env c True unfolding upd timing_event_invoke_early_def Let_def
    by (cases "?ts \<le> last_run_time (timing_events s e)";
        cases "\<not> force \<and> to_s32 (uint (?ts - last_run_time (timing_events s e))) < period (timing_events s e)")
      (auto simp: sched_queue_active [OF q] ac_simps)
qed

section \<open>The contract\<close>

text \<open>
  A timed queue: activating, rescheduling and deactivating an event changes the set of
  queued events and their times as expected, and the first event is one that is due first.
\<close>

locale timed_queue =
  fixes ok :: "'s \<Rightarrow> bool"
    and queued :: "'s \<Rightarrow> nat set"
    and due_at :: "'s \<Rightarrow> nat \<Rightarrow> u64"
    and now :: "'s \<Rightarrow> u64"
    and first :: "'s \<Rightarrow> nat option"
    and schedule :: "nat \<Rightarrow> tick_count \<Rightarrow> 's \<Rightarrow> 's option"
    and deactivate :: "nat \<Rightarrow> 's \<Rightarrow> 's option"
  assumes schedule_ok: "ok s \<Longrightarrow> \<exists>s'. schedule e t s = Some s' \<and> ok s' \<and>
      queued s' = insert e (queued s) \<and> due_at s' = (due_at s)(e := now s + ticks_u64 t) \<and> now s' = now s"
    and deactivate_ok: "ok s \<Longrightarrow> \<exists>s'. deactivate e s = Some s' \<and> ok s' \<and>
      queued s' = queued s - {e} \<and> due_at s' = due_at s \<and> now s' = now s"
    and first_None: "ok s \<Longrightarrow> first s = None \<longleftrightarrow> queued s = {}"
    and first_Some: "ok s \<Longrightarrow> first s = Some h \<Longrightarrow> h \<in> queued s \<and> (\<forall>x\<in>queued s. due_at s h \<le> due_at s x)"
begin

primrec schedule_all :: "(nat \<times> tick_count) list \<Rightarrow> 's \<Rightarrow> 's option" where
  "schedule_all [] s = Some s"
| "schedule_all (p # ps) s = Option.bind (schedule (fst p) (snd p) s) (schedule_all ps)"

text \<open>The last request for an event wins, and the first event is due no later than any.\<close>

lemma schedule_all_ok:
  "ok s \<Longrightarrow> \<exists>s'. schedule_all ps s = Some s' \<and> ok s' \<and> queued s' = queued s \<union> fst ` set ps \<and>
     now s' = now s \<and>
     due_at s' = (\<lambda>x. case map_of (rev ps) x of Some t \<Rightarrow> now s + ticks_u64 t | None \<Rightarrow> due_at s x)"
proof (induction ps arbitrary: s)
  case (Cons p ps)
  obtain s1 where s1: "schedule (fst p) (snd p) s = Some s1" "ok s1"
    "queued s1 = insert (fst p) (queued s)" "due_at s1 = (due_at s)(fst p := now s + ticks_u64 (snd p))"
    "now s1 = now s"
    using schedule_ok [OF Cons.prems] by blast
  obtain s' where s': "schedule_all ps s1 = Some s'" "ok s'" "queued s' = queued s1 \<union> fst ` set ps"
    "now s' = now s1"
    "due_at s' = (\<lambda>x. case map_of (rev ps) x of Some t \<Rightarrow> now s1 + ticks_u64 t | None \<Rightarrow> due_at s1 x)"
    using Cons.IH [OF s1(2)] by blast
  have "due_at s' x = (case map_of (rev (p # ps)) x of Some t \<Rightarrow> now s + ticks_u64 t | None \<Rightarrow> due_at s x)" for x
    using s'(5) s1(4,5) by (cases p) (simp add: map_add_def split: option.split)
  then show ?case using s1 s' by auto
qed simp

lemma cancel_unqueues: "ok s \<Longrightarrow> schedule e t s = Some s1 \<Longrightarrow> deactivate e s1 = Some s2 \<Longrightarrow>
  queued s2 = queued s - {e} \<and> ok s2"
  using schedule_ok [of s e t] deactivate_ok [of s1 e] by auto

lemma first_after_schedule:
  assumes "ok s" and "\<forall>x\<in>queued s. now s + ticks_u64 t < due_at s x" and "schedule e t s = Some s'"
  shows "first s' = Some e"
proof -
  have s': "ok s'" "queued s' = insert e (queued s)"
    "due_at s' = (due_at s)(e := now s + ticks_u64 t)"
    using schedule_ok [OF assms(1), of e t] assms(3) by auto
  then obtain h where h: "first s' = Some h"
    using first_None [OF s'(1)] by auto
  have "h = e"
  proof (rule ccontr)
    assume "h \<noteq> e"
    then have "h \<in> queued s" "due_at s h \<le> now s + ticks_u64 t"
      using first_Some [OF s'(1) h] s'(2,3) by auto
    then show False using assms(2) by (meson not_le)
  qed
  then show ?thesis using h by simp
qed

end

text \<open>Outside the event loop the scheduler is a timed queue.\<close>

definition sched_idle :: "'a sched_sys_scheme \<Rightarrow> bool" where
  "sched_idle s \<longleftrightarrow> (\<exists>xs. sched_queue s xs) \<and> current_event (timing s) = None"

lemma timestamp_env:
  "sched_env s s' \<Longrightarrow> timing_events_get_timestamp_for_new_event s' =
     timing_events_get_timestamp_for_new_event s"
proof -
  assume e: "sched_env s s'"
  then have "(cpu s')\<lparr>downcount := 0\<rparr> = (cpu s)\<lparr>downcount := 0\<rparr>" by (simp add: sched_env_def)
  from arg_cong [OF this, of pending_ticks] e show ?thesis
    by (simp add: timing_events_get_timestamp_for_new_event_def cpu_get_pending_ticks_def sched_env_def)
qed

interpretation sched: timed_queue
  sched_idle
  "\<lambda>s. {x. active (timing_events s x)}"
  ev_time
  timing_events_get_timestamp_for_new_event
  "\<lambda>s. active_events_head (timing s)"
  timing_event_schedule
  timing_event_deactivate
proof
  fix s :: "'a sched_sys_scheme" and e t
  assume "sched_idle s"
  then obtain xs where q: "sched_queue s xs" and c: "current_event (timing s) = None"
    by (auto simp: sched_idle_def)
  have eq: "f = g" if "\<forall>x. x \<noteq> e \<longrightarrow> f x = g x" "f e = g e" for f g :: "nat \<Rightarrow> u64"
    using that by (intro ext) metis
  show "\<exists>s'. timing_event_schedule e t s = Some s' \<and> sched_idle s' \<and>
      {x. active (timing_events s' x)} = insert e {x. active (timing_events s x)} \<and>
      ev_time s' = (ev_time s)(e := timing_events_get_timestamp_for_new_event s + ticks_u64 t) \<and>
      timing_events_get_timestamp_for_new_event s' = timing_events_get_timestamp_for_new_event s"
    using schedule_refines [OF q, of e t] c q
    by (fastforce simp: rescheduled_def sched_idle_def sched_env_def sched_queue_active
        intro!: eq timestamp_env)
  show "\<exists>s'. timing_event_deactivate e s = Some s' \<and> sched_idle s' \<and>
      {x. active (timing_events s' x)} = {x. active (timing_events s x)} - {e} \<and>
      ev_time s' = ev_time s \<and>
      timing_events_get_timestamp_for_new_event s' = timing_events_get_timestamp_for_new_event s"
    using deactivate_queue [OF q, of e] c q sched_queue_distinct [OF q]
    by (fastforce simp: sched_idle_def sched_env_def sched_queue_active intro!: timestamp_env)
next
  fix s :: "'a sched_sys_scheme" and h
  assume "sched_idle s"
  then obtain xs where q: "sched_queue s xs" by (auto simp: sched_idle_def)
  show "active_events_head (timing s) = None \<longleftrightarrow> {x. active (timing_events s x)} = {}"
    using sched_queue_head [OF q] sched_queue_active [OF q] by (auto simp: first_or_None_iff)
  assume "active_events_head (timing s) = Some h"
  then show "h \<in> {x. active (timing_events s x)} \<and>
      (\<forall>x\<in>{x. active (timing_events s x)}. ev_time s h \<le> ev_time s x)"
    using sched_queue_head_least [OF q] sched_queue_active [OF q] by auto
qed

end
