(* ===== verification/Scheduler_Loop.thy ===== *)
theory Scheduler_Loop
  imports Scheduler_Ops
begin

text \<open>
  The event loop \<open>timing_events_commit_global_ticks\<close> terminates and leaves nothing
  overdue, for every callback that keeps the contract \<open>event_callbacks\<close>: it may
  activate, deactivate and reschedule any event, but what it (re)schedules runs strictly
  after the current time.  The inner loop is bounded by the number of due events, the outer
  one by the distance to the target time.
\<close>

section \<open>The contract of a callback\<close>

text \<open>Every listed event repeats after at least one tick.\<close>

definition sched_inv :: "'a sched_sys_scheme \<Rightarrow> nat list \<Rightarrow> bool" where
  "sched_inv s xs \<longleftrightarrow> sched_queue s xs \<and> xs \<noteq> [] \<and>
     (\<forall>x\<in>set xs. 0 < interval (timing_events s x) \<and> interval (timing_events s x) < 2 ^ 31)"

text \<open>Nothing listed lies in the past, and the clock is far from wrapping.\<close>

definition on_time :: "'a sched_sys_scheme \<Rightarrow> nat list \<Rightarrow> bool" where
  "on_time s xs \<longleftrightarrow> (\<forall>x\<in>set xs. global_tick_counter (timing s) \<le> ev_time s x) \<and>
     global_tick_counter (timing s) < 2 ^ 63"

definition clock_same :: "'a sched_sys_scheme \<Rightarrow> 'a sched_sys_scheme \<Rightarrow> bool" where
  "clock_same s s' \<longleftrightarrow> global_tick_counter (timing s') = global_tick_counter (timing s) \<and>
     event_run_tick_counter (timing s') = event_run_tick_counter (timing s)"

definition callback_pre :: "nat \<Rightarrow> 'a sched_sys_scheme \<Rightarrow> nat list \<Rightarrow> bool" where
  "callback_pre e s xs \<longleftrightarrow> sched_inv s xs \<and> on_time s xs \<and> e \<in> set xs \<and>
     current_event (timing s) = Some e \<and>
     global_tick_counter (timing s) < current_event_next_run_time (timing s)"

text \<open>
  What must hold when the callback returns: every listed event runs later than now, or is an
  event the callback left alone.
\<close>

definition callback_post ::
  "nat \<Rightarrow> 'a sched_sys_scheme \<Rightarrow> nat list \<Rightarrow> 'a sched_sys_scheme \<Rightarrow> nat list \<Rightarrow> bool" where
  "callback_post e s xs s' ys \<longleftrightarrow> sched_inv s' ys \<and> clock_same s s' \<and>
     (\<forall>x\<in>set ys. global_tick_counter (timing s) < ev_time s' x \<or>
        (x \<in> set xs \<and> ev_time s' x = ev_time s x)) \<and>
     (e \<in> set ys \<longrightarrow> global_tick_counter (timing s) < current_event_next_run_time (timing s'))"

definition due_events :: "'a sched_sys_scheme \<Rightarrow> nat list \<Rightarrow> nat set" where
  "due_events s xs = {x \<in> set xs. ev_time s x \<le> global_tick_counter (timing s)}"

lemma finite_due [simp]: "finite (due_events s xs)"
  by (simp add: due_events_def)

lemma ticks_u64_pos_less:
  assumes "0 < t" "t < 2 ^ 31" "g < 2 ^ 63"
  shows "g < g + ticks_u64 t"
proof -
  have "uint (ticks_u64 t) = t"
    using assms by (simp add: ticks_u64_def unsigned_ucast_eq uint_word_of_int_eq take_bit_int_eq_self
        min_def unsigned_of_int)
  moreover have "uint g < 2 ^ 63"
    using assms(3) by (simp add: word_less_alt)
  ultimately show ?thesis
    using assms by (simp add: word_less_alt uint_word_ariths)
qed

lemma ticks_pending_less:
  assumes "0 < t" "t < 2 ^ 31" "g < 2 ^ 63"
  shows "g < g + ucast (p :: u32) + ticks_u64 t"
proof -
  have "uint (ticks_u64 t) = t"
    using assms by (simp add: ticks_u64_def unsigned_ucast_eq uint_word_of_int_eq take_bit_int_eq_self
        min_def unsigned_of_int)
  moreover have "uint g < 2 ^ 63"
    using assms(3) by (simp add: word_less_alt)
  moreover have "uint (ucast p :: u64) = uint p" "uint p < 2 ^ 32"
    using uint_lt2p [of p] by (simp_all add: unsigned_ucast_eq take_bit_int_eq_self)
  ultimately show ?thesis
    using assms by (simp add: word_less_alt uint_word_ariths add_nonneg_pos)
qed

lemma sched_inv_env:
  assumes i: "sched_inv s xs" and q: "sched_queue s' ys" "set ys = set xs" and env: "sched_env s s'"
  shows "sched_inv s' ys"
  using assms by (auto simp: sched_inv_def sched_env_def)

lemma sched_inv_timing [simp]:
  "sched_inv (s\<lparr>timing := (timing s)\<lparr>global_tick_counter := g\<rparr>\<rparr>) xs = sched_inv s xs"
  "sched_inv (s\<lparr>timing := (timing s)\<lparr>event_run_tick_counter := g\<rparr>\<rparr>) xs = sched_inv s xs"
  "sched_inv (s\<lparr>timing := (timing s)\<lparr>current_event := c\<rparr>\<rparr>) xs = sched_inv s xs"
  "sched_inv (s\<lparr>cpu := q\<rparr>) xs = sched_inv s xs"
  by (simp_all add: sched_inv_def)

lemma begin_event_simps [simp]:
  "ev_time (begin_event e s) x = ev_time s x"
  "interval (timing_events (begin_event e s) x) = interval (timing_events s x)"
  "global_tick_counter (timing (begin_event e s)) = global_tick_counter (timing s)"
  "event_run_tick_counter (timing (begin_event e s)) = event_run_tick_counter (timing s)"
  "current_event (timing (begin_event e s)) = Some e"
  "current_event_next_run_time (timing (begin_event e s)) =
     ev_time s e + ticks_u64 (interval (timing_events s e))"
  "sched_sys.more (begin_event e s) = sched_sys.more s" "cpu (begin_event e s) = cpu s"
  "intc (begin_event e s) = intc s"
  by (simp_all add: begin_event_def Let_def)

lemma begin_event_queue: "sched_queue s xs \<Longrightarrow> sched_queue (begin_event e s) xs"
proof -
  assume q: "sched_queue s xs"
  let ?t = "s\<lparr>timing := (timing s)\<lparr>current_event := Some e,
      current_event_next_run_time := ev_time s e + ticks_u64 (interval (timing_events s e))\<rparr>\<rparr>"
  have "sched_dll (upd_event e (\<lambda>ev. ev\<lparr>last_run_time := global_tick_counter (timing s)\<rparr>) ?t) xs =
      sched_dll s xs"
    by (subst sched_dll_upd) (simp_all add: sched_dll_def)
  then have "sched_dll (begin_event e s) xs"
    using q by (simp add: begin_event_def Let_def sched_queue_def)
  moreover have "active (timing_events (begin_event e s) x) = active (timing_events s x)" for x
    by (simp add: begin_event_def Let_def)
  ultimately show ?thesis using q by (simp add: sched_queue_def cong: map_cong)
qed

lemma begin_event_pre:
  assumes "sched_inv s xs" "on_time s xs" "e \<in> set xs" "ev_time s e = global_tick_counter (timing s)"
  shows "callback_pre e (begin_event e s) xs"
  using assms begin_event_queue [of s xs e]
  by (auto simp: callback_pre_def sched_inv_def on_time_def ticks_u64_pos_less)

text \<open>
  \<open>dev_inv\<close> is the callbacks' own invariant; it may only look at the device state,
  which extends the scheduler's record.
\<close>

locale event_callbacks =
  fixes cb :: "'a sched_sys_scheme callback"
    and dev_inv :: "'a sched_sys_scheme \<Rightarrow> bool"
  assumes dev_frame: "sched_sys.more s' = sched_sys.more s \<Longrightarrow> dev_inv s' = dev_inv s"
    and callback_ok: "callback_pre e s xs \<Longrightarrow> dev_inv s \<Longrightarrow>
    \<exists>s' ys. cb e ticks late s = Some s' \<and> callback_post e s xs s' ys \<and> dev_inv s'"
begin

lemma dev_timing [simp]: "dev_inv (s\<lparr>timing := t\<rparr>) = dev_inv s"
  by (rule dev_frame) simp

definition ready :: "'a sched_sys_scheme \<Rightarrow> nat list \<Rightarrow> bool" where
  "ready s xs \<longleftrightarrow> sched_inv s xs \<and> on_time s xs \<and> dev_inv s"

lemma fire_ok:
  assumes r: "ready s xs" and e: "e \<in> set xs" and due: "ev_time s e \<le> global_tick_counter (timing s)"
  shows "\<exists>s' ys. fire_event cb e s = Some s' \<and> ready s' ys \<and> clock_same s s' \<and>
    due_events s' ys \<subseteq> due_events s xs - {e}"
proof -
  let ?g = "global_tick_counter (timing s)"
  have now: "ev_time s e = ?g"
    using r e due by (auto simp: ready_def on_time_def)
  have dev: "dev_inv (begin_event e s)"
    using r dev_frame [of "begin_event e s" s] by (simp add: ready_def)
  have "callback_pre e (begin_event e s) xs"
    using r e now by (intro begin_event_pre) (auto simp: ready_def)
  then obtain t zs where t: "cb e (to_s32 (uint (?g - last_run_time (timing_events s e))))
        (to_s32 (uint (?g - ev_time s e))) (begin_event e s) = Some t"
      "callback_post e (begin_event e s) xs t zs" "dev_inv t"
    using callback_ok [OF _ dev, where ticks = "to_s32 (uint (?g - last_run_time (timing_events s e)))"
        and late = "to_s32 (uint (?g - ev_time s e))"] by blast
  have gt: "global_tick_counter (timing t) = ?g" and inv: "sched_inv t zs"
    using t(2) by (auto simp: callback_post_def clock_same_def)
  then obtain s' ys where s': "settle_event e t = Some s'" "sched_queue s' ys" "set ys = set zs"
      "sched_env t s'" "\<forall>x. x \<noteq> e \<longrightarrow> ev_time s' x = ev_time t x"
      "e \<in> set zs \<longrightarrow> ev_time s' e = current_event_next_run_time (timing t)"
    using settle_queue [of t zs e] by (auto simp: sched_inv_def)
  have fire: "fire_event cb e s = Some s'"
    using t(1) s'(1) by (simp add: fire_event_def Let_def)
  have clock: "clock_same s s'"
    using t(2) s'(4) by (auto simp: callback_post_def clock_same_def sched_env_def)
  have g': "global_tick_counter (timing s') = ?g"
    using clock by (simp add: clock_same_def)
  have later: "?g < ev_time s' x \<or> (x \<noteq> e \<and> x \<in> set xs \<and> ev_time s' x = ev_time s x)" if "x \<in> set ys" for x
  proof (cases "x = e")
    case True
    then show ?thesis using that s'(3,6) t(2) by (auto simp: callback_post_def)
  next
    case False
    then show ?thesis using that s'(3,5) t(2) by (auto simp: callback_post_def)
  qed
  have "on_time s' ys"
    using later r g' unfolding on_time_def ready_def by (metis order.strict_implies_order)
  moreover have "dev_inv s'"
    using t(3) s'(4) dev_frame [of s' t] by (simp add: sched_env_def)
  moreover have "due_events s' ys \<subseteq> due_events s xs - {e}"
    using later g' by (auto simp: due_events_def) (metis leD)+
  ultimately show ?thesis
    using fire clock sched_inv_env [OF inv s'(2,3,4)] by (auto simp: ready_def)
qed

lemma commit_due_ok:
  "ready s xs \<Longrightarrow> \<exists>s' ys. commit_due_events cb s = Some s' \<and> ready s' ys \<and> clock_same s s' \<and>
     (\<forall>x\<in>set ys. global_tick_counter (timing s) < ev_time s' x)"
proof (induction "card (due_events s xs)" arbitrary: s xs rule: less_induct)
  case less
  have q: "sched_queue s xs" "xs \<noteq> []"
    using less.prems by (auto simp: ready_def sched_inv_def)
  define h where "h = hd xs"
  have h: "active_events_head (timing s) = Some h" "h \<in> set xs" "\<forall>x\<in>set xs. ev_time s h \<le> ev_time s x"
    using sched_queue_head [OF q(1)] sched_queue_head_least [OF q(1)] q(2)
    by (cases xs; auto simp: h_def)+
  show ?case
  proof (cases "ev_time s h \<le> global_tick_counter (timing s)")
    case True
    obtain s1 ys where s1: "fire_event cb h s = Some s1" "ready s1 ys" "clock_same s s1"
        "due_events s1 ys \<subseteq> due_events s xs - {h}"
      using fire_ok [OF less.prems h(2) True] by blast
    have "h \<in> due_events s xs" using h(2) True by (simp add: due_events_def)
    then have "card (due_events s1 ys) < card (due_events s xs)"
      using s1(4) by (intro psubset_card_mono) auto
    from less.hyps [OF this s1(2)] obtain s' zs where s': "commit_due_events cb s1 = Some s'"
        "ready s' zs" "clock_same s1 s'" "\<forall>x\<in>set zs. global_tick_counter (timing s1) < ev_time s' x"
      by blast
    then show ?thesis using h(1) True s1
      by (subst commit_due_events.simps) (auto simp: clock_same_def)
  next
    case False
    then have "\<forall>x\<in>set xs. global_tick_counter (timing s) < ev_time s x"
      using h(3) by (meson leI less_le_trans)
    then show ?thesis using h(1) False less.prems
      by (subst commit_due_events.simps) (auto simp: clock_same_def)
  qed
qed

lemma commit_rounds_ok:
  "ready s xs \<Longrightarrow> global_tick_counter (timing s) \<le> new \<Longrightarrow> new < 2 ^ 63 \<Longrightarrow>
   \<exists>s' ys. commit_rounds cb new s = Some s' \<and> ready s' ys \<and> global_tick_counter (timing s') = new \<and>
     event_run_tick_counter (timing s') = event_run_tick_counter (timing s) \<and>
     (\<forall>x\<in>set ys. new < ev_time s' x)"
proof (induction "unat (new - global_tick_counter (timing s))" arbitrary: s xs rule: less_induct)
  case less
  let ?g = "global_tick_counter (timing s)"
  have q: "sched_queue s xs" "xs \<noteq> []"
    using less.prems by (auto simp: ready_def sched_inv_def)
  define h where "h = hd xs"
  have h: "active_events_head (timing s) = Some h" "h \<in> set xs" "\<forall>x\<in>set xs. ev_time s h \<le> ev_time s x"
    using sched_queue_head [OF q(1)] sched_queue_head_least [OF q(1)] q(2)
    by (cases xs; auto simp: h_def)+
  define g where "g = (if new < ev_time s h then new else ev_time s h)"
  let ?u = "s\<lparr>timing := (timing s)\<lparr>global_tick_counter := g\<rparr>\<rparr>"
  have g: "?g \<le> g" "g \<le> new" "g \<le> ev_time s h"
    using less.prems h(2) by (auto simp: g_def ready_def on_time_def not_less)
  have "ready ?u xs"
    using less.prems(1,3) g h(3) by (auto simp: ready_def on_time_def intro: order_trans)
  then obtain t ys where t: "commit_due_events cb ?u = Some t" "ready t ys" "clock_same ?u t"
      "\<forall>x\<in>set ys. g < ev_time t x"
    using commit_due_ok [of ?u xs] by auto
  have gt: "global_tick_counter (timing t) = g"
      "event_run_tick_counter (timing t) = event_run_tick_counter (timing s)"
    using t(3) by (auto simp: clock_same_def)
  have unfold: "commit_rounds cb new s = (if g < new then commit_rounds cb new t else Some t)"
    using h(1) t(1) gt(1) by (subst commit_rounds.simps) (simp add: g_def [symmetric])
  show ?case
  proof (cases "g < new")
    case False
    then show ?thesis using unfold t gt g(2) by auto
  next
    case True
    obtain k where k: "active_events_head (timing t) = Some k" "k \<in> set ys"
      using t(2) sched_queue_head [of t ys] by (cases ys) (auto simp: ready_def sched_inv_def)
    show ?thesis
    proof (cases "?g < g")
      case gg: True
      have "unat (new - global_tick_counter (timing t)) < unat (new - ?g)"
        using True gg gt(1) by (simp add: word_less_nat_alt unat_sub_if')
      from less.hyps [OF this t(2)] less.prems True gt show ?thesis
        by (auto simp: unfold)
    next
      case False
      text \<open>No progress in this round: the next one moves the clock to the first event.\<close>
      then have eq: "g = ?g" using g(1) by simp
      define g2 where "g2 = (if new < ev_time t k then new else ev_time t k)"
      let ?v = "t\<lparr>timing := (timing t)\<lparr>global_tick_counter := g2\<rparr>\<rparr>"
      have g2: "g < g2" "g2 \<le> new" "g2 \<le> ev_time t k"
        using True t(4) k(2) by (auto simp: g2_def not_less)
      have kl: "\<forall>x\<in>set ys. ev_time t k \<le> ev_time t x"
        using t(2) sched_queue_head_least [of t ys k] k(1) by (auto simp: ready_def sched_inv_def)
      have "ready ?v ys"
        using t(2) less.prems(3) g2 kl by (auto simp: ready_def on_time_def intro: order_trans)
      moreover have same: "commit_rounds cb new ?v = commit_rounds cb new t"
      proof -
        have "(if new < ev_time t k then new else ev_time t k) = g2" by (simp add: g2_def)
        then show ?thesis using k(1)
          by (subst (1 2) commit_rounds.simps) simp
      qed
      moreover have "unat (new - global_tick_counter (timing ?v)) < unat (new - ?g)"
        using g2 eq True by (simp add: word_less_nat_alt word_le_nat_alt unat_sub_if')
      ultimately show ?thesis
        using less.hyps [of ?v ys] less.prems(3) g2 True gt(2) by (auto simp: unfold)
    qed
  qed
qed

theorem commit_ok:
  assumes "ready s xs" "global_tick_counter (timing s) \<le> new" "new < 2 ^ 63"
  shows "\<exists>s' ys. timing_events_commit_global_ticks cb new s = Some s' \<and> ready s' ys \<and>
    current_event (timing s') = None \<and>
    global_tick_counter (timing s') = new \<and> event_run_tick_counter (timing s') = new \<and>
    (\<forall>x\<in>set ys. new < ev_time s' x)"
proof -
  let ?u = "s\<lparr>timing := (timing s)\<lparr>event_run_tick_counter := new\<rparr>\<rparr>"
  have "ready ?u xs" using assms(1) by (simp add: ready_def on_time_def)
  then obtain t ys where "commit_rounds cb new ?u = Some t" "ready t ys"
      "global_tick_counter (timing t) = new" "event_run_tick_counter (timing t) = new"
      "\<forall>x\<in>set ys. new < ev_time t x"
    using commit_rounds_ok [of ?u xs new] assms by auto
  then show ?thesis
    by (auto simp: timing_events_commit_global_ticks_def ready_def on_time_def
        intro!: exI [of _ "t\<lparr>timing := (timing t)\<lparr>current_event := None\<rparr>\<rparr>"])
qed

text \<open>
  The loop never runs an event late: with \<open>ticks_late\<close> forced to zero it computes the
  same.
\<close>

lemma fire_not_late:
  assumes r: "ready s xs" and e: "e \<in> set xs" and due: "ev_time s e \<le> global_tick_counter (timing s)"
  shows "fire_event cb e s = fire_event (\<lambda>e t late. cb e t 0) e s"
proof -
  have "ev_time s e = global_tick_counter (timing s)"
    using r e due by (auto simp: ready_def on_time_def)
  then show ?thesis by (simp add: fire_event_def Let_def to_s32_def)
qed

end

end
