(* ===== verification/Timers.thy ===== *)
theory Timers
  imports Scheduler_Loop
begin

text \<open>
  The three root counters, \<^verbatim>\<open>src/core/timers/timers.c\<close>: counting, target and
  overflow interrupts, gate synchronisation, the register file, and the scheduling of the
  one timing event that drives them.

  The weak hooks of the file (GPU synchronisation, slice length, overclock scaling) are the
  record \<open>timers_hooks\<close>; an absent hook is \<open>None\<close>, and then the file's
  defaults apply.  The sysclk event has the number \<open>TIMERS_SYSCLK_EVENT\<close> in the
  scheduler's store.
\<close>

record timer_counter_state =
  tmode :: u32
  counter :: u32
  target :: u32
  gate :: bool
  use_external_clock :: bool
  external_counting_enabled :: bool
  counting_enabled :: bool
  irq_done :: bool

record timers_state =
  counters :: "nat \<Rightarrow> timer_counter_state"
  sysclk_ticks_carry :: tick_count
  sysclk_div_8_carry :: u32

record timers_sys = sched_sys +
  timers :: timers_state

record 's timers_hooks =
  gpu_synchronize_crtc :: "('s \<Rightarrow> 's) option"
  gpu_is_crtc_scanline_pending :: "('s \<Rightarrow> bool) option"
  system_get_max_slice_ticks :: "tick_count option"
  scale_ticks_hook :: "(tick_count \<Rightarrow> tick_count) option"
  unscale_ticks_hook :: "(tick_count \<Rightarrow> tick_count \<Rightarrow> tick_count \<times> tick_count) option"

definition NUM_TIMERS :: nat where "NUM_TIMERS = 3"
definition TIMERS_SYSCLK_EVENT :: nat where "TIMERS_SYSCLK_EVENT = 0"
definition IRQ_TMR0 :: nat where "IRQ_TMR0 = 4"

text \<open>The bit-fields of the mode register.\<close>

definition tm_sync_enable :: "u32 \<Rightarrow> bool" where "tm_sync_enable m = bit m 0"
definition tm_sync_mode :: "u32 \<Rightarrow> u32" where "tm_sync_mode m = bits_get m 1 2"
definition tm_reset_at_target :: "u32 \<Rightarrow> bool" where "tm_reset_at_target m = bit m 3"
definition tm_irq_at_target :: "u32 \<Rightarrow> bool" where "tm_irq_at_target m = bit m 4"
definition tm_irq_on_overflow :: "u32 \<Rightarrow> bool" where "tm_irq_on_overflow m = bit m 5"
definition tm_irq_repeat :: "u32 \<Rightarrow> bool" where "tm_irq_repeat m = bit m 6"
definition tm_irq_pulse_n :: "u32 \<Rightarrow> bool" where "tm_irq_pulse_n m = bit m 7"
definition tm_clock_source :: "u32 \<Rightarrow> u32" where "tm_clock_source m = bits_get m 8 2"
definition tm_interrupt_request_n :: "u32 \<Rightarrow> bool" where "tm_interrupt_request_n m = bit m 10"

lemmas tm_bit_defs = tm_sync_enable_def tm_sync_mode_def tm_reset_at_target_def
  tm_irq_at_target_def tm_irq_on_overflow_def tm_irq_repeat_def tm_irq_pulse_n_def
  tm_clock_source_def tm_interrupt_request_n_def

definition timer :: "'a timers_sys_scheme \<Rightarrow> nat \<Rightarrow> timer_counter_state" where
  "timer s i = counters (timers s) i"

definition put_timer :: "nat \<Rightarrow> timer_counter_state \<Rightarrow> 'a timers_sys_scheme \<Rightarrow> 'a timers_sys_scheme" where
  "put_timer i c s = s\<lparr>timers := (timers s)\<lparr>counters := (counters (timers s))(i := c)\<rparr>\<rparr>"

section \<open>Counting and interrupts\<close>

text \<open>The counter part of \<open>timers_check_for_irq\<close>: the new counter, and whether it asks for an interrupt.\<close>

definition check_target :: "u32 \<Rightarrow> timer_counter_state \<Rightarrow> bool \<times> timer_counter_state" where
  "check_target old_counter cs =
     (if counter cs \<ge> target cs \<and> (old_counter < target cs \<or> target cs = 0)
      then (tm_irq_at_target (tmode cs),
            cs\<lparr>tmode := flag_put 11 True (tmode cs),
               counter := (if tm_reset_at_target (tmode cs) \<and> target cs > 0
                           then counter cs mod target cs else counter cs)\<rparr>)
      else (False, cs))"

definition check_overflow :: "timer_counter_state \<Rightarrow> bool \<times> timer_counter_state" where
  "check_overflow cs =
     (if counter cs \<ge> 0xFFFF
      then (tm_irq_on_overflow (tmode cs),
            cs\<lparr>tmode := flag_put 12 True (tmode cs), counter := counter cs mod 0xFFFF\<rparr>)
      else (False, cs))"

definition timers_raise_irq :: "nat \<Rightarrow> 'a timers_sys_scheme \<Rightarrow> 'a timers_sys_scheme" where
  "timers_raise_irq i s =
     (let cs = timer s i; irqnum = IRQ_TMR0 + i in
      if \<not> tm_irq_pulse_n (tmode cs)
      then let s = (if \<not> irq_done cs \<or> tm_irq_repeat (tmode cs)
                    then interrupt_controller_set_line_state irqnum True
                           (interrupt_controller_set_line_state irqnum False s)
                    else s)
           in put_timer i (cs\<lparr>irq_done := True, tmode := flag_put 10 True (tmode cs)\<rparr>) s
      else let m = flag_put 10 (\<not> tm_interrupt_request_n (tmode cs)) (tmode cs)
           in interrupt_controller_set_line_state irqnum (\<not> tm_interrupt_request_n m)
                (put_timer i (cs\<lparr>tmode := m\<rparr>) s))"

definition timers_check_for_irq :: "nat \<Rightarrow> u32 \<Rightarrow> 'a timers_sys_scheme \<Rightarrow> 'a timers_sys_scheme" where
  "timers_check_for_irq i old_counter s =
     (let (irq1, cs) = check_target old_counter (timer s i);
          (irq2, cs) = check_overflow cs;
          s = put_timer i cs s
      in if irq1 \<or> irq2 then timers_raise_irq i s else s)"

definition timers_add_ticks :: "nat \<Rightarrow> tick_count \<Rightarrow> 'a timers_sys_scheme \<Rightarrow> 'a timers_sys_scheme" where
  "timers_add_ticks i n s =
     (let cs = timer s i; old_counter = counter cs
      in timers_check_for_irq i old_counter
           (put_timer i (cs\<lparr>counter := counter cs + word_of_int n\<rparr>) s))"

definition timers_update_counting_enabled :: "timer_counter_state \<Rightarrow> timer_counter_state" where
  "timers_update_counting_enabled cs =
     (let en = (if tm_sync_enable (tmode cs)
                then if tm_sync_mode (tmode cs) = 0 then \<not> gate cs
                     else if tm_sync_mode (tmode cs) = 1 then True
                     else gate cs
                else True)
      in cs\<lparr>counting_enabled := en, external_counting_enabled := use_external_clock cs \<and> en\<rparr>)"

section \<open>Scheduling\<close>

definition timer_ticks_until_irq_skip :: "nat \<Rightarrow> timer_counter_state \<Rightarrow> bool" where
  "timer_ticks_until_irq_skip i cs \<longleftrightarrow>
     \<not> counting_enabled cs \<or> (i < 2 \<and> external_counting_enabled cs) \<or>
     (\<not> tm_irq_at_target (tmode cs) \<and> \<not> tm_irq_on_overflow (tmode cs) \<and>
      (tm_irq_repeat (tmode cs) \<or> \<not> irq_done cs))"

definition timer_min_ticks :: "nat \<Rightarrow> timer_counter_state \<Rightarrow> tick_count \<Rightarrow> tick_count" where
  "timer_min_ticks i cs min_ticks =
     (if timer_ticks_until_irq_skip i cs then min_ticks
      else let f = (if external_counting_enabled cs then 8 else 1);
               to_target = (if counter cs \<le> target cs then to_s32 (uint (target cs - counter cs))
                            else to_s32 (uint ((0xFFFF - counter cs) + target cs))) * f;
               min_ticks = (if tm_irq_at_target (tmode cs) \<and> to_target < min_ticks
                            then to_target else min_ticks);
               to_overflow = to_s32 (uint (0xFFFF - counter cs)) * f
           in if tm_irq_on_overflow (tmode cs) \<and> to_overflow < min_ticks
              then to_overflow else min_ticks)"

definition timers_get_ticks_until_next_interrupt ::
  "'a timers_sys_scheme timers_hooks \<Rightarrow> 'a timers_sys_scheme \<Rightarrow> tick_count" where
  "timers_get_ticks_until_next_interrupt h s =
     (let min_ticks = (case system_get_max_slice_ticks h of Some t \<Rightarrow> t | None \<Rightarrow> 1000);
          min_ticks = fold (\<lambda>i. timer_min_ticks i (timer s i)) [0..<NUM_TIMERS] min_ticks;
          min_ticks = (if min_ticks < 1 then 1 else min_ticks)
      in case scale_ticks_hook h of Some f \<Rightarrow> f min_ticks | None \<Rightarrow> min_ticks)"

definition timers_update_sysclk_event ::
  "'a timers_sys_scheme timers_hooks \<Rightarrow> 'a timers_sys_scheme \<Rightarrow> 'a timers_sys_scheme option" where
  "timers_update_sysclk_event h s =
     timing_event_schedule TIMERS_SYSCLK_EVENT (timers_get_ticks_until_next_interrupt h s) s"

definition timers_count_sysclk :: "tick_count \<Rightarrow> 'a timers_sys_scheme \<Rightarrow> 'a timers_sys_scheme" where
  "timers_count_sysclk t s =
     (let s = (if \<not> external_counting_enabled (timer s 0) \<and> counting_enabled (timer s 0)
               then timers_add_ticks 0 t s else s);
          s = (if \<not> external_counting_enabled (timer s 1) \<and> counting_enabled (timer s 1)
               then timers_add_ticks 1 t s else s)
      in if external_counting_enabled (timer s 2)
         then let sum = t + to_s32 (uint (sysclk_div_8_carry (timers s)));
                  d = sum sdiv 8
              in timers_add_ticks 2 d
                   (s\<lparr>timers := (timers s)\<lparr>sysclk_div_8_carry := word_of_int (sum smod 8)\<rparr>\<rparr>)
         else if counting_enabled (timer s 2) then timers_add_ticks 2 t s
         else s)"

definition timers_add_sysclk_ticks ::
  "'a timers_sys_scheme timers_hooks \<Rightarrow> tick_count \<Rightarrow> 'a timers_sys_scheme \<Rightarrow> 'a timers_sys_scheme option" where
  "timers_add_sysclk_ticks h t s =
     (let (t, carry) = (case unscale_ticks_hook h of
            Some f \<Rightarrow> f t (sysclk_ticks_carry (timers s))
          | None \<Rightarrow> (t, sysclk_ticks_carry (timers s)));
          s = s\<lparr>timers := (timers s)\<lparr>sysclk_ticks_carry := carry\<rparr>\<rparr>
      in timers_update_sysclk_event h (timers_count_sysclk t s))"

text \<open>The callback table as the timers see it: their own event, and the rest.\<close>

definition timers_callback ::
  "'a timers_sys_scheme timers_hooks \<Rightarrow> 'a timers_sys_scheme callback \<Rightarrow> 'a timers_sys_scheme callback" where
  "timers_callback h rest e t late s =
     (if e = TIMERS_SYSCLK_EVENT then timers_add_sysclk_ticks h t s else rest e t late s)"

definition timers_invoke_early ::
  "'a timers_sys_scheme timers_hooks \<Rightarrow> 'a timers_sys_scheme \<Rightarrow> 'a timers_sys_scheme option" where
  "timers_invoke_early h s =
     timing_event_invoke_early (\<lambda>e t late. timers_add_sysclk_ticks h t) TIMERS_SYSCLK_EVENT False s"

section \<open>Initialisation, gates and registers\<close>

definition timers_reset ::
  "'a timers_sys_scheme timers_hooks \<Rightarrow> 'a timers_sys_scheme \<Rightarrow> 'a timers_sys_scheme option" where
  "timers_reset h s = do {
     let s = fold (\<lambda>i s. put_timer i ((timer s i)\<lparr>tmode := flag_put 10 True 0, counter := 0,
               target := 0, gate := False, external_counting_enabled := False,
               counting_enabled := True, irq_done := False\<rparr>) s) [0..<NUM_TIMERS] s;
     s \<leftarrow> timing_event_deactivate TIMERS_SYSCLK_EVENT s;
     timers_update_sysclk_event h
       (s\<lparr>timers := (timers s)\<lparr>sysclk_ticks_carry := 0, sysclk_div_8_carry := 0\<rparr>\<rparr>) }"

definition timers_initialize ::
  "'a timers_sys_scheme timers_hooks \<Rightarrow> 'a timers_sys_scheme \<Rightarrow> 'a timers_sys_scheme option" where
  "timers_initialize h s = timers_reset h (timing_event_init TIMERS_SYSCLK_EVENT 1 1 s)"

definition timers_shutdown :: "'a timers_sys_scheme \<Rightarrow> 'a timers_sys_scheme option" where
  "timers_shutdown s = timing_event_deactivate TIMERS_SYSCLK_EVENT s"

definition timers_cpu_clocks_changed :: "'a timers_sys_scheme \<Rightarrow> 'a timers_sys_scheme" where
  "timers_cpu_clocks_changed s = s\<lparr>timers := (timers s)\<lparr>sysclk_ticks_carry := 0\<rparr>\<rparr>"

definition timers_is_using_external_clock :: "nat \<Rightarrow> 'a timers_sys_scheme \<Rightarrow> bool" where
  "timers_is_using_external_clock i s = external_counting_enabled (timer s i)"

definition timers_is_sync_enabled :: "nat \<Rightarrow> 'a timers_sys_scheme \<Rightarrow> bool" where
  "timers_is_sync_enabled i s = tm_sync_enable (tmode (timer s i))"

definition timers_is_external_irq_enabled :: "nat \<Rightarrow> 'a timers_sys_scheme \<Rightarrow> bool" where
  "timers_is_external_irq_enabled i s \<longleftrightarrow> external_counting_enabled (timer s i) \<and>
     tmode (timer s i) AND 0x30 \<noteq> 0"

definition timers_get_ticks_until_irq :: "nat \<Rightarrow> 'a timers_sys_scheme \<Rightarrow> tick_count" where
  "timers_get_ticks_until_irq i s =
     (let cs = timer s i in
      if \<not> counting_enabled cs then 2 ^ 31 - 1
      else let t = (if tm_irq_at_target (tmode cs) \<and> counter cs < target cs
                    then to_s32 (uint (target cs - counter cs)) else 2 ^ 31 - 1);
               ovf = to_s32 (uint (0xFFFF - counter cs))
           in if tm_irq_on_overflow (tmode cs) \<and> ovf < t then ovf else t)"

definition timers_set_gate ::
  "'a timers_sys_scheme timers_hooks \<Rightarrow> nat \<Rightarrow> bool \<Rightarrow> 'a timers_sys_scheme \<Rightarrow> 'a timers_sys_scheme option" where
  "timers_set_gate h i state s =
     (if gate (timer s i) = state then Some s
      else let s = put_timer i ((timer s i)\<lparr>gate := state\<rparr>) s in
      if \<not> tm_sync_enable (tmode (timer s i)) then Some s
      else do {
        s \<leftarrow> (if \<not> use_external_clock (timer s i) \<and> (tm_sync_mode (tmode (timer s i)) \<noteq> 1 \<or> \<not> state)
              then timers_invoke_early h s else Some s);
        let cs = timer s i;
        let cs = (if tm_sync_mode (tmode cs) = 0 then cs
                  else if tm_sync_mode (tmode cs) = 1
                  then cs\<lparr>counter := (if state then counter cs else 0)\<rparr>
                  else if tm_sync_mode (tmode cs) = 2
                  then cs\<lparr>counter := (if state then 0 else counter cs)\<rparr>
                  else cs\<lparr>tmode := flag_put 0 (tm_sync_enable (tmode cs) \<and> state) (tmode cs)\<rparr>);
        timers_update_sysclk_event h (put_timer i (timers_update_counting_enabled cs) s) })"

definition timers_sync_gpu ::
  "'a timers_sys_scheme timers_hooks \<Rightarrow> nat \<Rightarrow> 'a timers_sys_scheme \<Rightarrow> 'a timers_sys_scheme" where
  "timers_sync_gpu h i s =
     (if i < 2 \<and> external_counting_enabled (timer s i)
      then case gpu_synchronize_crtc h of None \<Rightarrow> s
           | Some sync \<Rightarrow>
               if i = 0 \<or> (case gpu_is_crtc_scanline_pending h of Some p \<Rightarrow> p s | None \<Rightarrow> False)
               then sync s else s
      else s)"

definition timers_read_register ::
  "'a timers_sys_scheme timers_hooks \<Rightarrow> u32 \<Rightarrow> 'a timers_sys_scheme \<Rightarrow> (u32 \<times> 'a timers_sys_scheme) option" where
  "timers_read_register h offset s =
     (let i = unat (drop_bit 4 offset AND 3); port_offset = offset AND 0xF in
      if i \<ge> 3 then Some (0xFFFFFFFF, s)
      else if port_offset = 0 then do {
        s \<leftarrow> timers_invoke_early h (timers_sync_gpu h i s);
        Some (counter (timer s i), s) }
      else if port_offset = 4 then do {
        s \<leftarrow> timers_invoke_early h (timers_sync_gpu h i s);
        let m = tmode (timer s i);
        Some (m, put_timer i ((timer s i)\<lparr>tmode := flag_put 11 False (flag_put 12 False m)\<rparr>) s) }
      else if port_offset = 8 then Some (target (timer s i), s)
      else Some (0xFFFFFFFF, s))"

definition timers_write_counter ::
  "'a timers_sys_scheme timers_hooks \<Rightarrow> nat \<Rightarrow> u32 \<Rightarrow> 'a timers_sys_scheme \<Rightarrow> 'a timers_sys_scheme option" where
  "timers_write_counter h i v s =
     (let cs = timer s i; old_counter = counter cs;
          s = timers_check_for_irq i old_counter (put_timer i (cs\<lparr>counter := v AND 0xFFFF\<rparr>) s)
      in if i = 2 \<or> \<not> external_counting_enabled (timer s i)
         then timers_update_sysclk_event h s else Some s)"

definition TIMER_MODE_WRITE_MASK :: u32 where "TIMER_MODE_WRITE_MASK = 0xE3FF"

definition timers_write_mode ::
  "'a timers_sys_scheme timers_hooks \<Rightarrow> nat \<Rightarrow> u32 \<Rightarrow> 'a timers_sys_scheme \<Rightarrow> 'a timers_sys_scheme option" where
  "timers_write_mode h i v s =
     (let cs = timer s i;
          m = (v AND TIMER_MODE_WRITE_MASK) OR (tmode cs AND NOT TIMER_MODE_WRITE_MASK);
          ext = (tm_clock_source m AND (if i = 2 then 2 else 1) \<noteq> 0);
          cs = cs\<lparr>tmode := m, use_external_clock := ext, counter := 0, irq_done := False\<rparr>;
          s = interrupt_controller_set_line_state (IRQ_TMR0 + i) False (put_timer i cs s);
          s = put_timer i (timers_update_counting_enabled (timer s i)) s
      in timers_update_sysclk_event h (timers_check_for_irq i (counter (timer s i)) s))"

definition timers_write_target ::
  "'a timers_sys_scheme timers_hooks \<Rightarrow> nat \<Rightarrow> u32 \<Rightarrow> 'a timers_sys_scheme \<Rightarrow> 'a timers_sys_scheme option" where
  "timers_write_target h i v s =
     (let s = put_timer i ((timer s i)\<lparr>target := v AND 0xFFFF\<rparr>) s;
          s = timers_check_for_irq i (counter (timer s i)) s
      in if i = 2 \<or> \<not> external_counting_enabled (timer s i)
         then timers_update_sysclk_event h s else Some s)"

definition timers_write_register ::
  "'a timers_sys_scheme timers_hooks \<Rightarrow> u32 \<Rightarrow> u32 \<Rightarrow> 'a timers_sys_scheme \<Rightarrow> 'a timers_sys_scheme option" where
  "timers_write_register h offset v s =
     (let i = unat (drop_bit 4 offset AND 3); port_offset = offset AND 0xF in
      if i \<ge> 3 then Some s
      else do {
        s \<leftarrow> timers_invoke_early h (timers_sync_gpu h i s);
        if port_offset = 0 then timers_write_counter h i v s
        else if port_offset = 4 then timers_write_mode h i v s
        else if port_offset = 8 then timers_write_target h i v s
        else Some s })"

end
