(* ===== verification/Gte.thy ===== *)
theory Gte
  imports Cpu_State
begin

text \<open>
  The geometry transformation engine (COP2), \<^verbatim>\<open>src/core/gte/gte.c\<close>: the
  flag register, the saturating stores, the reciprocal divider, the matrix kernels and the
  22 commands, and the register file with its side effects.

  The register file is the flat view \<open>r32[64]\<close>; a named member of the C union is a
  half-word, byte or word of it.  The s64 intermediate values are integers, a cast to a
  narrower signed type is written out, an arithmetic right shift is \<open>drop_bit\<close> on
  integers, and \<open>/\<close> truncates.  The PGXP shadow (off by default) and the debug
  operation counters are left out.  \<open>None\<close> is the Panic on an unknown command, or
  the division by a zero custom aspect ratio.
\<close>

type_synonym gte_regs = "nat \<Rightarrow> u32"

datatype gte_aspect_ratio =
  GTE_ASPECT_RATIO_NONE | GTE_ASPECT_RATIO_R16_9 | GTE_ASPECT_RATIO_R19_9
  | GTE_ASPECT_RATIO_R20_9 | GTE_ASPECT_RATIO_CUSTOM

record gte_config =
  aspect_ratio :: gte_aspect_ratio
  custom_aspect_ratio_numerator :: u32
  custom_aspect_ratio_denominator :: u32

section \<open>Register views\<close>

definition gte_half :: "gte_regs \<Rightarrow> nat \<Rightarrow> int" where
  "gte_half r k = to_s16 (uint (drop_bit (16 * (k mod 2)) (r (k div 2))))"

definition gte_s32 :: "gte_regs \<Rightarrow> nat \<Rightarrow> int" where
  "gte_s32 r i = to_s32 (uint (r i))"

definition gte_u16 :: "gte_regs \<Rightarrow> nat \<Rightarrow> u32" where
  "gte_u16 r i = take_bit 16 (r i)"

definition gte_rgbc :: "gte_regs \<Rightarrow> nat \<Rightarrow> nat \<Rightarrow> int" where
  "gte_rgbc r i k = uint (take_bit 8 (drop_bit (8 * k) (r i)))"

definition gte_V :: "gte_regs \<Rightarrow> nat \<Rightarrow> nat \<Rightarrow> int" where
  "gte_V r v j = gte_half r (4 * v + j)"

definition gte_IR :: "gte_regs \<Rightarrow> nat \<Rightarrow> int" where
  "gte_IR r n = gte_half r (2 * (8 + n))"

definition gte_MAC :: "gte_regs \<Rightarrow> nat \<Rightarrow> int" where
  "gte_MAC r n = gte_s32 r (24 + n)"

definition gte_RT :: "gte_regs \<Rightarrow> nat \<Rightarrow> nat \<Rightarrow> int" where
  "gte_RT r i j = gte_half r (64 + 3 * i + j)"

definition gte_LLM :: "gte_regs \<Rightarrow> nat \<Rightarrow> nat \<Rightarrow> int" where
  "gte_LLM r i j = gte_half r (80 + 3 * i + j)"

definition gte_LCM :: "gte_regs \<Rightarrow> nat \<Rightarrow> nat \<Rightarrow> int" where
  "gte_LCM r i j = gte_half r (96 + 3 * i + j)"

definition gte_TR :: "gte_regs \<Rightarrow> nat \<Rightarrow> int" where "gte_TR r i = gte_s32 r (37 + i)"
definition gte_BK :: "gte_regs \<Rightarrow> nat \<Rightarrow> int" where "gte_BK r i = gte_s32 r (45 + i)"
definition gte_FC :: "gte_regs \<Rightarrow> nat \<Rightarrow> int" where "gte_FC r i = gte_s32 r (53 + i)"

definition gte_flag :: "gte_regs \<Rightarrow> u32" where "gte_flag r = r 63"

section \<open>Flags and saturating stores\<close>

definition gte_set_flag :: "nat \<Rightarrow> gte_regs \<Rightarrow> gte_regs" where
  "gte_set_flag i r = r(63 := flag_put i True (r 63))"

definition gte_flag_update_error :: "gte_regs \<Rightarrow> gte_regs" where
  "gte_flag_update_error r = r(63 := flag_put 31 (r 63 AND 0x7F87E000 \<noteq> 0) (r 63))"

definition gte_flag_clear :: "gte_regs \<Rightarrow> gte_regs" where
  "gte_flag_clear r = r(63 := 0)"

text \<open>Bounds and flag positions of the MAC lanes: 31 bits for MAC0, 43 for the others.\<close>

definition mac_bits :: "nat \<Rightarrow> nat" where "mac_bits n = (if n = 0 then 31 else 43)"
definition mac_underflow_flag :: "nat \<Rightarrow> nat" where "mac_underflow_flag n = (if n = 0 then 15 else 28 - n)"
definition mac_overflow_flag :: "nat \<Rightarrow> nat" where "mac_overflow_flag n = (if n = 0 then 16 else 31 - n)"

definition gte_check_mac_overflow :: "nat \<Rightarrow> int \<Rightarrow> gte_regs \<Rightarrow> gte_regs" where
  "gte_check_mac_overflow n v r =
     (if v < - (2 ^ mac_bits n) then gte_set_flag (mac_underflow_flag n) r
      else if v > 2 ^ mac_bits n - 1 then gte_set_flag (mac_overflow_flag n) r
      else r)"

definition gte_sign_extend_mac :: "nat \<Rightarrow> int \<Rightarrow> gte_regs \<Rightarrow> int \<times> gte_regs" where
  "gte_sign_extend_mac n v r = (signed_take_bit 43 v, gte_check_mac_overflow n v r)"

definition gte_truncate_set_mac :: "nat \<Rightarrow> int \<Rightarrow> nat \<Rightarrow> gte_regs \<Rightarrow> gte_regs" where
  "gte_truncate_set_mac n v shift r =
     (gte_check_mac_overflow n v r)(24 + n := word_of_int (drop_bit shift v))"

definition gte_truncate_set_ir0 :: "int \<Rightarrow> gte_regs \<Rightarrow> gte_regs" where
  "gte_truncate_set_ir0 v r =
     (if v < 0 then (gte_set_flag 12 r)(8 := 0)
      else if v > 0x1000 then (gte_set_flag 12 r)(8 := 0x1000)
      else r(8 := word_of_int v))"

definition ir_min :: "bool \<Rightarrow> int" where
  "ir_min lm = (if lm then 0 else - 0x8000)"

definition gte_truncate_set_ir :: "nat \<Rightarrow> int \<Rightarrow> bool \<Rightarrow> gte_regs \<Rightarrow> gte_regs" where
  "gte_truncate_set_ir n v lm r =
     (if v < ir_min lm then (gte_set_flag (25 - n) r)(8 + n := word_of_int (ir_min lm))
      else if v > 0x7FFF then (gte_set_flag (25 - n) r)(8 + n := 0x7FFF)
      else r(8 + n := word_of_int v))"

definition gte_truncate_set_mac_ir :: "nat \<Rightarrow> int \<Rightarrow> nat \<Rightarrow> bool \<Rightarrow> gte_regs \<Rightarrow> gte_regs" where
  "gte_truncate_set_mac_ir n v shift lm r =
     (let r = gte_check_mac_overflow n v r;
          v32 = to_s32 (drop_bit shift v)
      in gte_truncate_set_ir n v32 lm (r(24 + n := word_of_int v32)))"

text \<open>The colour lanes \<open>0, 1, 2\<close> are red, green and blue, with flags 21, 20 and 19.\<close>

definition gte_truncate_rgb :: "nat \<Rightarrow> int \<Rightarrow> gte_regs \<Rightarrow> u32 \<times> gte_regs" where
  "gte_truncate_rgb lane v r =
     (if v < 0 \<or> v > 0xFF
      then ((if v < 0 then 0 else 0xFF), gte_set_flag (21 - lane) r)
      else (word_of_int v, r))"

definition gte_set_otz :: "int \<Rightarrow> gte_regs \<Rightarrow> gte_regs" where
  "gte_set_otz v r =
     (if v < 0 then (gte_set_flag 18 r)(7 := 0)
      else if v > 0xFFFF then (gte_set_flag 18 r)(7 := 0xFFFF)
      else r(7 := word_of_int v))"

definition clamp_sxy :: "nat \<Rightarrow> int \<Rightarrow> gte_regs \<Rightarrow> int \<times> gte_regs" where
  "clamp_sxy i v r =
     (if v < - 1024 then (- 1024, gte_set_flag i r)
      else if v > 1023 then (1023, gte_set_flag i r)
      else (v, r))"

definition gte_push_sxy :: "int \<Rightarrow> int \<Rightarrow> gte_regs \<Rightarrow> gte_regs" where
  "gte_push_sxy x y r =
     (let (x, r) = clamp_sxy 14 x r;
          (y, r) = clamp_sxy 13 y r;
          r = r(12 := r 13);
          r = r(13 := r 14)
      in r(14 := (word_of_int x AND 0xFFFF) OR push_bit 16 (word_of_int y)))"

definition gte_push_sz :: "int \<Rightarrow> gte_regs \<Rightarrow> gte_regs" where
  "gte_push_sz v r =
     (let (v, r) = (if v < 0 then (0, gte_set_flag 18 r)
                    else if v > 0xFFFF then (0xFFFF, gte_set_flag 18 r)
                    else (v, r));
          r = r(16 := r 17);
          r = r(17 := r 18);
          r = r(18 := r 19)
      in r(19 := word_of_int v))"

definition gte_push_rgb_from_mac :: "gte_regs \<Rightarrow> gte_regs" where
  "gte_push_rgb_from_mac r =
     (let (red, r) = gte_truncate_rgb 0 (to_s32 (uint (drop_bit 4 (r 25)))) r;
          (green, r) = gte_truncate_rgb 1 (to_s32 (uint (drop_bit 4 (r 26)))) r;
          (blue, r) = gte_truncate_rgb 2 (to_s32 (uint (drop_bit 4 (r 27)))) r;
          c = take_bit 8 (drop_bit 24 (r 6));
          r = r(20 := r 21);
          r = r(21 := r 22)
      in r(22 := red OR push_bit 8 green OR push_bit 16 blue OR push_bit 24 c))"

section \<open>The reciprocal divider\<close>

definition unr_table :: "int list" where
  "unr_table = [
    0xFF, 0xFD, 0xFB, 0xF9, 0xF7, 0xF5, 0xF3, 0xF1, 0xEF, 0xEE, 0xEC, 0xEA, 0xE8, 0xE6, 0xE4, 0xE3,
    0xE1, 0xDF, 0xDD, 0xDC, 0xDA, 0xD8, 0xD6, 0xD5, 0xD3, 0xD1, 0xD0, 0xCE, 0xCD, 0xCB, 0xC9, 0xC8,
    0xC6, 0xC5, 0xC3, 0xC1, 0xC0, 0xBE, 0xBD, 0xBB, 0xBA, 0xB8, 0xB7, 0xB5, 0xB4, 0xB2, 0xB1, 0xB0,
    0xAE, 0xAD, 0xAB, 0xAA, 0xA9, 0xA7, 0xA6, 0xA4, 0xA3, 0xA2, 0xA0, 0x9F, 0x9E, 0x9C, 0x9B, 0x9A,
    0x99, 0x97, 0x96, 0x95, 0x94, 0x92, 0x91, 0x90, 0x8F, 0x8D, 0x8C, 0x8B, 0x8A, 0x89, 0x87, 0x86,
    0x85, 0x84, 0x83, 0x82, 0x81, 0x7F, 0x7E, 0x7D, 0x7C, 0x7B, 0x7A, 0x79, 0x78, 0x77, 0x75, 0x74,
    0x73, 0x72, 0x71, 0x70, 0x6F, 0x6E, 0x6D, 0x6C, 0x6B, 0x6A, 0x69, 0x68, 0x67, 0x66, 0x65, 0x64,
    0x63, 0x62, 0x61, 0x60, 0x5F, 0x5E, 0x5D, 0x5D, 0x5C, 0x5B, 0x5A, 0x59, 0x58, 0x57, 0x56, 0x55,
    0x54, 0x53, 0x53, 0x52, 0x51, 0x50, 0x4F, 0x4E, 0x4D, 0x4D, 0x4C, 0x4B, 0x4A, 0x49, 0x48, 0x48,
    0x47, 0x46, 0x45, 0x44, 0x43, 0x43, 0x42, 0x41, 0x40, 0x3F, 0x3F, 0x3E, 0x3D, 0x3C, 0x3C, 0x3B,
    0x3A, 0x39, 0x39, 0x38, 0x37, 0x36, 0x36, 0x35, 0x34, 0x33, 0x33, 0x32, 0x31, 0x31, 0x30, 0x2F,
    0x2E, 0x2E, 0x2D, 0x2C, 0x2C, 0x2B, 0x2A, 0x2A, 0x29, 0x28, 0x28, 0x27, 0x26, 0x26, 0x25, 0x24,
    0x24, 0x23, 0x22, 0x22, 0x21, 0x20, 0x20, 0x1F, 0x1E, 0x1E, 0x1D, 0x1D, 0x1C, 0x1B, 0x1B, 0x1A,
    0x19, 0x19, 0x18, 0x18, 0x17, 0x16, 0x16, 0x15, 0x15, 0x14, 0x14, 0x13, 0x12, 0x12, 0x11, 0x11,
    0x10, 0x0F, 0x0F, 0x0E, 0x0E, 0x0D, 0x0D, 0x0C, 0x0C, 0x0B, 0x0A, 0x0A, 0x09, 0x09, 0x08, 0x08,
    0x07, 0x07, 0x06, 0x06, 0x05, 0x05, 0x04, 0x04, 0x03, 0x03, 0x02, 0x02, 0x01, 0x01, 0x00, 0x00,
    0x00]"

definition gte_unr_shift :: "u32 \<Rightarrow> nat" where
  "gte_unr_shift rhs = (if rhs = 0 then 16 else word_clz (take_bit 16 rhs) - 16)"

definition gte_unr_recip :: "u32 \<Rightarrow> u32" where
  "gte_unr_recip rhs =
     (let divisor = rhs OR 0x8000;
          x = 0x101 + unr_table ! unat (drop_bit 7 ((divisor AND 0x7FFF) + 0x40));
          d = drop_bit 8 (to_s32 (uint divisor) * (- x) + 0x80)
      in word_of_int (drop_bit 8 (x * (0x20000 + d) + 0x80)))"

definition gte_unr_divide :: "u32 \<Rightarrow> u32 \<Rightarrow> gte_regs \<Rightarrow> u32 \<times> gte_regs" where
  "gte_unr_divide lhs rhs r =
     (if rhs * 2 \<le> lhs then (0x1FFFF, gte_set_flag 17 r)
      else let shift = gte_unr_shift rhs;
               lhs = push_bit shift lhs;
               rhs = push_bit shift rhs;
               recip = gte_unr_recip rhs;
               result = ucast (drop_bit 16 ((ucast lhs :: u64) * ucast recip + 0x8000)) :: u32
           in (min 0x1FFFF result, r))"

section \<open>Matrix kernels\<close>

text \<open>
  One lane of each kernel.  \<open>gte_mvt_sum\<close> is the chained partial sum
  \<open>T<<12 + m0*vx + m1*vy\<close>, folded to 44 bits after every step.
\<close>

definition gte_mvt_sum :: "nat \<Rightarrow> int \<Rightarrow> int \<Rightarrow> int \<Rightarrow> int \<Rightarrow> int \<Rightarrow> gte_regs \<Rightarrow> int \<times> gte_regs" where
  "gte_mvt_sum n t m0 vx m1 vy r =
     (let (p, r) = gte_sign_extend_mac n (t * 2 ^ 12 + m0 * vx) r
      in gte_sign_extend_mac n (p + m1 * vy) r)"

definition gte_mul_mat_vec_lane ::
  "nat \<Rightarrow> (nat \<Rightarrow> nat \<Rightarrow> int) \<Rightarrow> int \<Rightarrow> int \<Rightarrow> int \<Rightarrow> nat \<Rightarrow> bool \<Rightarrow> gte_regs \<Rightarrow> gte_regs" where
  "gte_mul_mat_vec_lane n M vx vy vz shift lm r =
     (let (p, r) = gte_sign_extend_mac n (M (n - 1) 0 * vx + M (n - 1) 1 * vy) r
      in gte_truncate_set_mac_ir n (p + M (n - 1) 2 * vz) shift lm r)"

definition gte_mul_mat_vec ::
  "(nat \<Rightarrow> nat \<Rightarrow> int) \<Rightarrow> int \<Rightarrow> int \<Rightarrow> int \<Rightarrow> nat \<Rightarrow> bool \<Rightarrow> gte_regs \<Rightarrow> gte_regs" where
  "gte_mul_mat_vec M vx vy vz shift lm r =
     gte_mul_mat_vec_lane 3 M vx vy vz shift lm
       (gte_mul_mat_vec_lane 2 M vx vy vz shift lm
         (gte_mul_mat_vec_lane 1 M vx vy vz shift lm r))"

definition gte_mul_mat_vec_t_lane ::
  "nat \<Rightarrow> (nat \<Rightarrow> nat \<Rightarrow> int) \<Rightarrow> (nat \<Rightarrow> int) \<Rightarrow> int \<Rightarrow> int \<Rightarrow> int \<Rightarrow> nat \<Rightarrow> bool \<Rightarrow> gte_regs \<Rightarrow> gte_regs" where
  "gte_mul_mat_vec_t_lane n M T vx vy vz shift lm r =
     (let (p, r) = gte_mvt_sum n (T (n - 1)) (M (n - 1) 0) vx (M (n - 1) 1) vy r
      in gte_truncate_set_mac_ir n (p + M (n - 1) 2 * vz) shift lm r)"

definition gte_mul_mat_vec_t ::
  "(nat \<Rightarrow> nat \<Rightarrow> int) \<Rightarrow> (nat \<Rightarrow> int) \<Rightarrow> int \<Rightarrow> int \<Rightarrow> int \<Rightarrow> nat \<Rightarrow> bool \<Rightarrow> gte_regs \<Rightarrow> gte_regs" where
  "gte_mul_mat_vec_t M T vx vy vz shift lm r =
     gte_mul_mat_vec_t_lane 3 M T vx vy vz shift lm
       (gte_mul_mat_vec_t_lane 2 M T vx vy vz shift lm
         (gte_mul_mat_vec_t_lane 1 M T vx vy vz shift lm r))"

definition gte_mul_mat_vec_buggy_lane ::
  "nat \<Rightarrow> (nat \<Rightarrow> nat \<Rightarrow> int) \<Rightarrow> (nat \<Rightarrow> int) \<Rightarrow> int \<Rightarrow> int \<Rightarrow> int \<Rightarrow> nat \<Rightarrow> bool \<Rightarrow> gte_regs \<Rightarrow> gte_regs" where
  "gte_mul_mat_vec_buggy_lane n M T vx vy vz shift lm r =
     (let (p, r) = gte_sign_extend_mac n (T (n - 1) * 2 ^ 12 + M (n - 1) 0 * vx) r;
          (partial, r) = gte_sign_extend_mac n p r;
          r = gte_truncate_set_ir n (to_s32 (drop_bit shift partial)) False r;
          (q, r) = gte_sign_extend_mac n (M (n - 1) 1 * vy) r
      in gte_truncate_set_mac_ir n (q + M (n - 1) 2 * vz) shift lm r)"

definition gte_mul_mat_vec_buggy ::
  "(nat \<Rightarrow> nat \<Rightarrow> int) \<Rightarrow> (nat \<Rightarrow> int) \<Rightarrow> int \<Rightarrow> int \<Rightarrow> int \<Rightarrow> nat \<Rightarrow> bool \<Rightarrow> gte_regs \<Rightarrow> gte_regs" where
  "gte_mul_mat_vec_buggy M T vx vy vz shift lm r =
     gte_mul_mat_vec_buggy_lane 3 M T vx vy vz shift lm
       (gte_mul_mat_vec_buggy_lane 2 M T vx vy vz shift lm
         (gte_mul_mat_vec_buggy_lane 1 M T vx vy vz shift lm r))"

definition gte_inst_shift :: "u32 \<Rightarrow> nat" where
  "gte_inst_shift inst = (if bit inst 19 then 12 else 0)"

definition gte_inst_lm :: "u32 \<Rightarrow> bool" where "gte_inst_lm inst = bit inst 10"
definition gte_inst_command :: "u32 \<Rightarrow> u32" where "gte_inst_command inst = inst AND 0x3F"
definition gte_inst_mvmva_mat :: "u32 \<Rightarrow> u32" where "gte_inst_mvmva_mat inst = bits_get inst 17 2"
definition gte_inst_mvmva_vec :: "u32 \<Rightarrow> u32" where "gte_inst_mvmva_vec inst = bits_get inst 15 2"
definition gte_inst_mvmva_tvec :: "u32 \<Rightarrow> u32" where "gte_inst_mvmva_tvec inst = bits_get inst 13 2"

definition gte_interpolate_color :: "int \<Rightarrow> int \<Rightarrow> int \<Rightarrow> nat \<Rightarrow> bool \<Rightarrow> gte_regs \<Rightarrow> gte_regs" where
  "gte_interpolate_color in1 in2 in3 shift lm r =
     (let r = gte_truncate_set_mac_ir 1 (gte_FC r 0 * 2 ^ 12 - in1) shift False r;
          r = gte_truncate_set_mac_ir 2 (gte_FC r 1 * 2 ^ 12 - in2) shift False r;
          r = gte_truncate_set_mac_ir 3 (gte_FC r 2 * 2 ^ 12 - in3) shift False r;
          r = gte_truncate_set_mac_ir 1 (gte_IR r 1 * gte_IR r 0 + in1) shift lm r;
          r = gte_truncate_set_mac_ir 2 (gte_IR r 2 * gte_IR r 0 + in2) shift lm r
      in gte_truncate_set_mac_ir 3 (gte_IR r 3 * gte_IR r 0 + in3) shift lm r)"

definition gte_rtps_x :: "gte_config \<Rightarrow> int \<Rightarrow> gte_regs \<Rightarrow> int option" where
  "gte_rtps_x cfg result r =
     (let p = result * gte_IR r 1; ofx = gte_s32 r 56 in
      case aspect_ratio cfg of
        GTE_ASPECT_RATIO_R16_9 \<Rightarrow> Some (p * 3 sdiv 4 + ofx)
      | GTE_ASPECT_RATIO_R19_9 \<Rightarrow> Some (p * 12 sdiv 19 + ofx)
      | GTE_ASPECT_RATIO_R20_9 \<Rightarrow> Some (p * 3 sdiv 5 + ofx)
      | GTE_ASPECT_RATIO_CUSTOM \<Rightarrow>
          if custom_aspect_ratio_denominator cfg = 0 then None
          else Some (p * uint (custom_aspect_ratio_numerator cfg)
                       sdiv uint (custom_aspect_ratio_denominator cfg) + ofx)
      | GTE_ASPECT_RATIO_NONE \<Rightarrow> Some (p + ofx))"

text \<open>The rotation and translation, up to and including the push of SZ3.\<close>

definition gte_rtps_rotate :: "nat \<Rightarrow> nat \<Rightarrow> bool \<Rightarrow> gte_regs \<Rightarrow> gte_regs" where
  "gte_rtps_rotate v shift lm r =
     (let V = gte_V r v;
          (px, r) = gte_mvt_sum 1 (gte_TR r 0) (gte_RT r 0 0) (V 0) (gte_RT r 0 1) (V 1) r;
          x = px + gte_RT r 0 2 * V 2;
          (py, r) = gte_mvt_sum 2 (gte_TR r 1) (gte_RT r 1 0) (V 0) (gte_RT r 1 1) (V 1) r;
          y = py + gte_RT r 1 2 * V 2;
          (pz, r) = gte_mvt_sum 3 (gte_TR r 2) (gte_RT r 2 0) (V 0) (gte_RT r 2 1) (V 1) r;
          z = pz + gte_RT r 2 2 * V 2;
          r = gte_truncate_set_mac 3 z shift
                (gte_truncate_set_mac 2 y shift (gte_truncate_set_mac 1 x shift r));
          r = gte_truncate_set_ir 1 (gte_MAC r 1) lm r;
          r = gte_truncate_set_ir 2 (gte_MAC r 2) lm r;
          r = gte_truncate_set_ir 3 (to_s32 (drop_bit 12 z)) False r;
          r = r(11 := word_of_int (max (ir_min lm) (min 0x7FFF (gte_MAC r 3))))
      in gte_push_sz (to_s32 (drop_bit 12 z)) r)"

text \<open>The perspective division, the push of SXY2 and the depth cue of the last vertex.\<close>

definition gte_rtps_project :: "gte_config \<Rightarrow> bool \<Rightarrow> gte_regs \<Rightarrow> gte_regs option" where
  "gte_rtps_project cfg lst r =
     (let (q, r) = gte_unr_divide (gte_u16 r 58) (gte_u16 r 19) r;
          result = uint q
      in case gte_rtps_x cfg result r of
           None \<Rightarrow> None
         | Some sx \<Rightarrow>
             let sy = result * gte_IR r 2 + gte_s32 r 57;
                 r = gte_check_mac_overflow 0 sy (gte_check_mac_overflow 0 sx r);
                 r = gte_push_sxy (to_s32 (drop_bit 16 sx)) (to_s32 (drop_bit 16 sy)) r
             in if lst
                then let sz = result * gte_half r 118 + gte_s32 r 60
                     in Some (gte_truncate_set_ir0 (to_s32 (drop_bit 12 sz)) (gte_truncate_set_mac 0 sz 0 r))
                else Some r)"

definition gte_rtps :: "gte_config \<Rightarrow> nat \<Rightarrow> nat \<Rightarrow> bool \<Rightarrow> bool \<Rightarrow> gte_regs \<Rightarrow> gte_regs option" where
  "gte_rtps cfg v shift lm lst r = gte_rtps_project cfg lst (gte_rtps_rotate v shift lm r)"

definition gte_light :: "nat \<Rightarrow> nat \<Rightarrow> bool \<Rightarrow> gte_regs \<Rightarrow> gte_regs" where
  "gte_light v shift lm r =
     (let r = gte_mul_mat_vec (gte_LLM r) (gte_V r v 0) (gte_V r v 1) (gte_V r v 2) shift lm r
      in gte_mul_mat_vec_t (gte_LCM r) (gte_BK r) (gte_IR r 1) (gte_IR r 2) (gte_IR r 3) shift lm r)"

definition gte_ncs :: "nat \<Rightarrow> nat \<Rightarrow> bool \<Rightarrow> gte_regs \<Rightarrow> gte_regs" where
  "gte_ncs v shift lm r = gte_push_rgb_from_mac (gte_light v shift lm r)"

definition gte_modulate :: "nat \<Rightarrow> bool \<Rightarrow> gte_regs \<Rightarrow> gte_regs" where
  "gte_modulate shift lm r =
     (let r = gte_truncate_set_mac_ir 1 (gte_rgbc r 6 0 * gte_IR r 1 * 2 ^ 4) shift lm r;
          r = gte_truncate_set_mac_ir 2 (gte_rgbc r 6 1 * gte_IR r 2 * 2 ^ 4) shift lm r
      in gte_truncate_set_mac_ir 3 (gte_rgbc r 6 2 * gte_IR r 3 * 2 ^ 4) shift lm r)"

definition gte_nccs :: "nat \<Rightarrow> nat \<Rightarrow> bool \<Rightarrow> gte_regs \<Rightarrow> gte_regs" where
  "gte_nccs v shift lm r = gte_push_rgb_from_mac (gte_modulate shift lm (gte_light v shift lm r))"

definition gte_modulate_interpolate :: "nat \<Rightarrow> bool \<Rightarrow> gte_regs \<Rightarrow> gte_regs" where
  "gte_modulate_interpolate shift lm r =
     gte_interpolate_color (gte_rgbc r 6 0 * gte_IR r 1 * 2 ^ 4) (gte_rgbc r 6 1 * gte_IR r 2 * 2 ^ 4)
       (gte_rgbc r 6 2 * gte_IR r 3 * 2 ^ 4) shift lm r"

definition gte_ncds :: "nat \<Rightarrow> nat \<Rightarrow> bool \<Rightarrow> gte_regs \<Rightarrow> gte_regs" where
  "gte_ncds v shift lm r =
     gte_push_rgb_from_mac (gte_modulate_interpolate shift lm (gte_light v shift lm r))"

definition gte_dpcs :: "nat \<Rightarrow> nat \<Rightarrow> bool \<Rightarrow> gte_regs \<Rightarrow> gte_regs" where
  "gte_dpcs color shift lm r =
     (let r0 = r;
          r = gte_truncate_set_mac 1 (gte_rgbc r0 color 0 * 2 ^ 16) 0 r;
          r = gte_truncate_set_mac 2 (gte_rgbc r0 color 1 * 2 ^ 16) 0 r;
          r = gte_truncate_set_mac 3 (gte_rgbc r0 color 2 * 2 ^ 16) 0 r;
          r = gte_interpolate_color (gte_MAC r 1) (gte_MAC r 2) (gte_MAC r 3) shift lm r
      in gte_push_rgb_from_mac r)"

section \<open>The commands\<close>

text \<open>The matrix of selector 3 is synthesised from RGBC, IR0 and RT.\<close>

definition gte_buggy_matrix :: "gte_regs \<Rightarrow> nat \<Rightarrow> nat \<Rightarrow> int" where
  "gte_buggy_matrix r i j =
     (if i = 0 then (if j = 0 then to_s16 (- (gte_rgbc r 6 0 * 2 ^ 4))
                     else if j = 1 then to_s16 (gte_rgbc r 6 0 * 2 ^ 4) else gte_IR r 0)
      else if i = 1 then gte_RT r 0 2 else gte_RT r 1 1)"

definition gte_execute_mvmva :: "u32 \<Rightarrow> gte_regs \<Rightarrow> gte_regs" where
  "gte_execute_mvmva inst r =
     (let r = gte_flag_clear r;
          mat = gte_inst_mvmva_mat inst; vec = gte_inst_mvmva_vec inst; tvec = gte_inst_mvmva_tvec inst;
          M = (if mat = 0 then gte_RT r else if mat = 1 then gte_LLM r
               else if mat = 2 then gte_LCM r else gte_buggy_matrix r);
          V = (if vec = 3 then (\<lambda>j. gte_IR r (j + 1)) else gte_V r (unat vec));
          T = (if tvec = 0 then gte_TR r else if tvec = 1 then gte_BK r
               else if tvec = 2 then gte_FC r else (\<lambda>_. 0));
          shift = gte_inst_shift inst; lm = gte_inst_lm inst;
          r = (if tvec \<noteq> 2 then gte_mul_mat_vec_t M T (V 0) (V 1) (V 2) shift lm r
               else gte_mul_mat_vec_buggy M T (V 0) (V 1) (V 2) shift lm r)
      in gte_flag_update_error r)"

definition gte_execute_sqr :: "u32 \<Rightarrow> gte_regs \<Rightarrow> gte_regs" where
  "gte_execute_sqr inst r =
     (let r = gte_flag_clear r; shift = gte_inst_shift inst; lm = gte_inst_lm inst;
          r = r(25 := word_of_int (drop_bit shift (gte_IR r 1 * gte_IR r 1)));
          r = r(26 := word_of_int (drop_bit shift (gte_IR r 2 * gte_IR r 2)));
          r = r(27 := word_of_int (drop_bit shift (gte_IR r 3 * gte_IR r 3)));
          r = gte_truncate_set_ir 1 (gte_MAC r 1) lm r;
          r = gte_truncate_set_ir 2 (gte_MAC r 2) lm r;
          r = gte_truncate_set_ir 3 (gte_MAC r 3) lm r
      in gte_flag_update_error r)"

definition gte_execute_op :: "u32 \<Rightarrow> gte_regs \<Rightarrow> gte_regs" where
  "gte_execute_op inst r =
     (let r = gte_flag_clear r; shift = gte_inst_shift inst; lm = gte_inst_lm inst;
          D1 = gte_RT r 0 0; D2 = gte_RT r 1 1; D3 = gte_RT r 2 2;
          IR1 = gte_IR r 1; IR2 = gte_IR r 2; IR3 = gte_IR r 3;
          r = gte_truncate_set_mac_ir 1 (IR3 * D2 - IR2 * D3) shift lm r;
          r = gte_truncate_set_mac_ir 2 (IR1 * D3 - IR3 * D1) shift lm r;
          r = gte_truncate_set_mac_ir 3 (IR2 * D1 - IR1 * D2) shift lm r
      in gte_flag_update_error r)"

definition gte_execute_rtps :: "gte_config \<Rightarrow> u32 \<Rightarrow> gte_regs \<Rightarrow> gte_regs option" where
  "gte_execute_rtps cfg inst r =
     map_option gte_flag_update_error
       (gte_rtps cfg 0 (gte_inst_shift inst) (gte_inst_lm inst) True (gte_flag_clear r))"

definition gte_execute_rtpt :: "gte_config \<Rightarrow> u32 \<Rightarrow> gte_regs \<Rightarrow> gte_regs option" where
  "gte_execute_rtpt cfg inst r =
     (let shift = gte_inst_shift inst; lm = gte_inst_lm inst in
      case gte_rtps cfg 0 shift lm False (gte_flag_clear r) of None \<Rightarrow> None | Some r \<Rightarrow>
      case gte_rtps cfg 1 shift lm False r of None \<Rightarrow> None | Some r \<Rightarrow>
      map_option gte_flag_update_error (gte_rtps cfg 2 shift lm True r))"

definition gte_execute_nclip :: "gte_regs \<Rightarrow> gte_regs" where
  "gte_execute_nclip r =
     (let r = gte_flag_clear r;
          sx0 = gte_half r 24; sy0 = gte_half r 25; sx1 = gte_half r 26; sy1 = gte_half r 27;
          sx2 = gte_half r 28; sy2 = gte_half r 29
      in gte_flag_update_error (gte_truncate_set_mac 0
           (sx0 * sy1 + sx1 * sy2 + sx2 * sy0 - sx0 * sy2 - sx1 * sy0 - sx2 * sy1) 0 r))"

definition gte_average_z :: "int \<Rightarrow> int \<Rightarrow> gte_regs \<Rightarrow> gte_regs" where
  "gte_average_z zsf zsum r =
     (let result = zsf * zsum;
          r = gte_truncate_set_mac 0 result 0 r
      in gte_flag_update_error (gte_set_otz (to_s32 (drop_bit 12 result)) r))"

definition gte_execute_avsz3 :: "gte_regs \<Rightarrow> gte_regs" where
  "gte_execute_avsz3 r =
     (let r = gte_flag_clear r
      in gte_average_z (gte_half r 122) (uint (gte_u16 r 17 + gte_u16 r 18 + gte_u16 r 19)) r)"

definition gte_execute_avsz4 :: "gte_regs \<Rightarrow> gte_regs" where
  "gte_execute_avsz4 r =
     (let r = gte_flag_clear r
      in gte_average_z (gte_half r 124)
           (uint (gte_u16 r 16 + gte_u16 r 17 + gte_u16 r 18 + gte_u16 r 19)) r)"

text \<open>The single- and triple-vertex lighting commands share their frame.\<close>

definition gte_execute_lit ::
  "(nat \<Rightarrow> nat \<Rightarrow> bool \<Rightarrow> gte_regs \<Rightarrow> gte_regs) \<Rightarrow> nat list \<Rightarrow> u32 \<Rightarrow> gte_regs \<Rightarrow> gte_regs" where
  "gte_execute_lit kern vs inst r =
     gte_flag_update_error
       (fold (\<lambda>v. kern v (gte_inst_shift inst) (gte_inst_lm inst)) vs (gte_flag_clear r))"

definition gte_color_light :: "nat \<Rightarrow> bool \<Rightarrow> gte_regs \<Rightarrow> gte_regs" where
  "gte_color_light shift lm r =
     gte_mul_mat_vec_t (gte_LCM r) (gte_BK r) (gte_IR r 1) (gte_IR r 2) (gte_IR r 3) shift lm r"

definition gte_execute_cc :: "u32 \<Rightarrow> gte_regs \<Rightarrow> gte_regs" where
  "gte_execute_cc inst r =
     (let shift = gte_inst_shift inst; lm = gte_inst_lm inst
      in gte_flag_update_error (gte_push_rgb_from_mac
           (gte_modulate shift lm (gte_color_light shift lm (gte_flag_clear r)))))"

definition gte_execute_cdp :: "u32 \<Rightarrow> gte_regs \<Rightarrow> gte_regs" where
  "gte_execute_cdp inst r =
     (let shift = gte_inst_shift inst; lm = gte_inst_lm inst
      in gte_flag_update_error (gte_push_rgb_from_mac
           (gte_modulate_interpolate shift lm (gte_color_light shift lm (gte_flag_clear r)))))"

definition gte_execute_dpcs :: "u32 \<Rightarrow> gte_regs \<Rightarrow> gte_regs" where
  "gte_execute_dpcs inst r =
     gte_flag_update_error (gte_dpcs 6 (gte_inst_shift inst) (gte_inst_lm inst) (gte_flag_clear r))"

definition gte_execute_dpct :: "u32 \<Rightarrow> gte_regs \<Rightarrow> gte_regs" where
  "gte_execute_dpct inst r =
     gte_flag_update_error
       (((gte_dpcs 20 (gte_inst_shift inst) (gte_inst_lm inst)) ^^ 3) (gte_flag_clear r))"

definition gte_execute_dcpl :: "u32 \<Rightarrow> gte_regs \<Rightarrow> gte_regs" where
  "gte_execute_dcpl inst r =
     gte_flag_update_error (gte_push_rgb_from_mac
       (gte_modulate_interpolate (gte_inst_shift inst) (gte_inst_lm inst) (gte_flag_clear r)))"

definition gte_execute_intpl :: "u32 \<Rightarrow> gte_regs \<Rightarrow> gte_regs" where
  "gte_execute_intpl inst r =
     (let r = gte_flag_clear r
      in gte_flag_update_error (gte_push_rgb_from_mac
           (gte_interpolate_color (gte_IR r 1 * 2 ^ 12) (gte_IR r 2 * 2 ^ 12) (gte_IR r 3 * 2 ^ 12)
              (gte_inst_shift inst) (gte_inst_lm inst) r)))"

definition gte_execute_gpl :: "u32 \<Rightarrow> gte_regs \<Rightarrow> gte_regs" where
  "gte_execute_gpl inst r =
     (let r = gte_flag_clear r; shift = gte_inst_shift inst; lm = gte_inst_lm inst;
          r = gte_truncate_set_mac_ir 1 (gte_IR r 1 * gte_IR r 0 + gte_MAC r 1 * 2 ^ shift) shift lm r;
          r = gte_truncate_set_mac_ir 2 (gte_IR r 2 * gte_IR r 0 + gte_MAC r 2 * 2 ^ shift) shift lm r;
          r = gte_truncate_set_mac_ir 3 (gte_IR r 3 * gte_IR r 0 + gte_MAC r 3 * 2 ^ shift) shift lm r
      in gte_flag_update_error (gte_push_rgb_from_mac r))"

definition gte_execute_gpf :: "u32 \<Rightarrow> gte_regs \<Rightarrow> gte_regs" where
  "gte_execute_gpf inst r =
     (let r = gte_flag_clear r; shift = gte_inst_shift inst; lm = gte_inst_lm inst;
          r = gte_truncate_set_mac_ir 1 (gte_IR r 1 * gte_IR r 0) shift lm r;
          r = gte_truncate_set_mac_ir 2 (gte_IR r 2 * gte_IR r 0) shift lm r;
          r = gte_truncate_set_mac_ir 3 (gte_IR r 3 * gte_IR r 0) shift lm r
      in gte_flag_update_error (gte_push_rgb_from_mac r))"

definition gte_execute :: "gte_config \<Rightarrow> u32 \<Rightarrow> gte_regs \<Rightarrow> gte_regs option" where
  "gte_execute cfg inst r =
     (let command = gte_inst_command inst in
      if command = 0x01 then gte_execute_rtps cfg inst r
      else if command = 0x06 then Some (gte_execute_nclip r)
      else if command = 0x0C then Some (gte_execute_op inst r)
      else if command = 0x10 then Some (gte_execute_dpcs inst r)
      else if command = 0x11 then Some (gte_execute_intpl inst r)
      else if command = 0x12 then Some (gte_execute_mvmva inst r)
      else if command = 0x13 then Some (gte_execute_lit gte_ncds [0] inst r)
      else if command = 0x14 then Some (gte_execute_cdp inst r)
      else if command = 0x16 then Some (gte_execute_lit gte_ncds [0, 1, 2] inst r)
      else if command = 0x1B then Some (gte_execute_lit gte_nccs [0] inst r)
      else if command = 0x1C then Some (gte_execute_cc inst r)
      else if command = 0x1E then Some (gte_execute_lit gte_ncs [0] inst r)
      else if command = 0x20 then Some (gte_execute_lit gte_ncs [0, 1, 2] inst r)
      else if command = 0x28 then Some (gte_execute_sqr inst r)
      else if command = 0x29 then Some (gte_execute_dcpl inst r)
      else if command = 0x2A then Some (gte_execute_dpct inst r)
      else if command = 0x2D then Some (gte_execute_avsz3 r)
      else if command = 0x2E then Some (gte_execute_avsz4 r)
      else if command = 0x30 then gte_execute_rtpt cfg inst r
      else if command = 0x3D then Some (gte_execute_gpf inst r)
      else if command = 0x3E then Some (gte_execute_gpl inst r)
      else if command = 0x3F then Some (gte_execute_lit gte_nccs [0, 1, 2] inst r)
      else None)"

definition gte_get_instruction_cycles :: "u32 \<Rightarrow> int" where
  "gte_get_instruction_cycles inst =
     (case map_of [(0x01, 15), (0x06, 8), (0x0C, 6), (0x10, 8), (0x11, 7), (0x12, 8), (0x13, 19),
        (0x14, 13), (0x16, 44), (0x1B, 17), (0x1C, 11), (0x1E, 14), (0x20, 30), (0x28, 5),
        (0x29, 8), (0x2A, 17), (0x2D, 5), (0x2E, 6), (0x30, 23), (0x3D, 5), (0x3E, 5), (0x3F, 39)]
        (gte_inst_command inst) of Some c \<Rightarrow> c | None \<Rightarrow> 1)"

section \<open>The register file\<close>

definition gte_count_leading_bits :: "u32 \<Rightarrow> u32" where
  "gte_count_leading_bits v =
     (let v = (if v AND 0x80000000 \<noteq> 0 then v XOR 0xFFFFFFFF else v)
      in if v = 0 then 32 else of_nat (word_clz v))"

definition irgb_field :: "gte_regs \<Rightarrow> nat \<Rightarrow> u32" where
  "irgb_field r n = word_of_int (max 0 (min 0x1F (gte_IR r n sdiv 0x80)))"

definition gte_read_register :: "nat \<Rightarrow> gte_regs \<Rightarrow> u32" where
  "gte_read_register index r =
     (if index = 15 then r 14
      else if index = 28 \<or> index = 29
      then irgb_field r 1 OR push_bit 5 (irgb_field r 2) OR push_bit 10 (irgb_field r 3)
      else r index)"

definition sign_extend_half :: "u32 \<Rightarrow> u32" where
  "sign_extend_half v = word_of_int (to_s16 (uint v))"

definition gte_write_register :: "nat \<Rightarrow> u32 \<Rightarrow> gte_regs \<Rightarrow> gte_regs" where
  "gte_write_register index v r =
     (if index \<in> {1, 3, 5, 8, 9, 10, 11, 36, 44, 52, 58, 59, 61, 62}
      then r(index := sign_extend_half v)
      else if index \<in> {7, 16, 17, 18, 19} then r(index := take_bit 16 v)
      else if index = 15 then
        (let r = r(12 := r 13); r = r(13 := r 14) in r(14 := v))
      else if index = 28 then
        r(28 := v AND 0x7FFF,
          9 := sign_extend_half ((v AND 0x1F) * 0x80),
          10 := sign_extend_half ((drop_bit 5 v AND 0x1F) * 0x80),
          11 := sign_extend_half ((drop_bit 10 v AND 0x1F) * 0x80))
      else if index = 30 then r(30 := v, 31 := gte_count_leading_bits v)
      else if index = 29 \<or> index = 31 then r
      else if index = 63 then gte_flag_update_error (r(63 := v AND 0x7FFFF000))
      else r(index := v))"

definition gte_reset :: "gte_regs \<Rightarrow> gte_regs" where
  "gte_reset r = (\<lambda>_. 0)"

end
