(* ===== verification/Cpu_Memory.thy ===== *)
theory Cpu_Memory
  imports Timers Gte
begin

text \<open>
  What the CPU sees of memory: the RAM and BIOS images the bus hands out, the scratchpad, the
  instruction cache and the instruction fetch, from \<^verbatim>\<open>src/core/cpu/cpu_core.c\<close>
  and \<^verbatim>\<open>cpu_core_private.h\<close>.

  An image is a function from byte offsets.  The state of the bus is declared here; its
  operations are in \<^verbatim>\<open>Bus\<close> and \<^verbatim>\<open>Bus_Handlers\<close>.  The CPU calls the bus
  through \<open>cpu_env\<close>: one read and one write function, taking the two table selectors
  (\<open>SR.Isc\<close>, \<open>SR.Swc\<close>), the access size and the address.  The TTY capture of
  BIOS calls, the PGXP shadows and the debug statistics do not feed back into the machine and
  are left out.
\<close>

datatype memory_access_size = MEMORY_ACCESS_SIZE_BYTE | MEMORY_ACCESS_SIZE_HALFWORD | MEMORY_ACCESS_SIZE_WORD

datatype memory_access_type = MEMORY_ACCESS_TYPE_READ | MEMORY_ACCESS_TYPE_WRITE

text \<open>
  The rows of the handler tables: each page of the address space has the three read and the
  three write functions of one of these.
\<close>

datatype bus_handler =
    HANDLER_UNMAPPED | HANDLER_RAM | HANDLER_SCRATCHPAD | HANDLER_BIOS | HANDLER_EXP1 | HANDLER_HW
  | HANDLER_EXP2 | HANDLER_EXP3 | HANDLER_SIO2 | HANDLER_ICACHE | HANDLER_CACHE_CONTROL

record bus_state =
  ram :: "nat \<Rightarrow> u8"
  ram_size :: u32
  ram_mapped_size :: u32
  ram_mask :: u32
  bios :: "nat \<Rightarrow> u8"
  memory_handlers :: "nat \<Rightarrow> bus_handler"
  memory_handlers_isc :: "nat \<Rightarrow> bus_handler"
  exp1_access_time :: "memory_access_size \<Rightarrow> tick_count"
  exp2_access_time :: "memory_access_size \<Rightarrow> tick_count"
  bios_access_time :: "memory_access_size \<Rightarrow> tick_count"
  cdrom_access_time :: "memory_access_size \<Rightarrow> tick_count"
  spu_access_time :: "memory_access_size \<Rightarrow> tick_count"
  memctrl_regs :: "nat \<Rightarrow> u32"
  ram_size_reg :: u32
  ram_code_bits :: "nat \<Rightarrow> bool"
  kernel_initialize_hook_run :: bool

record bus_sys = timers_sys +
  bus :: bus_state

record 's cpu_env =
  read_handler :: "bool \<Rightarrow> bool \<Rightarrow> memory_access_size \<Rightarrow> u32 \<Rightarrow> 's \<Rightarrow> u32 \<times> 's"
  write_handler :: "bool \<Rightarrow> bool \<Rightarrow> memory_access_size \<Rightarrow> u32 \<Rightarrow> u32 \<Rightarrow> 's \<Rightarrow> 's"
  gte_settings :: gte_config

definition CPU_KSEG_MASK :: u32 where "CPU_KSEG_MASK = 0x1FFFFFFF"
definition CPU_KUSEG_MASK :: u32 where "CPU_KUSEG_MASK = 0x7FFFFFFF"
definition BUS_RAM_MIRROR_END :: u32 where "BUS_RAM_MIRROR_END = 0x800000"
definition BUS_BIOS_BASE :: u32 where "BUS_BIOS_BASE = 0x1FC00000"
definition BUS_BIOS_SIZE :: u32 where "BUS_BIOS_SIZE = 0x80000"
definition BUS_BIOS_MASK :: u32 where "BUS_BIOS_MASK = 0x7FFFF"
definition BUS_BIOS_MIRROR_SIZE :: u32 where "BUS_BIOS_MIRROR_SIZE = 0x400000"
definition BUS_EXP1_BASE :: u32 where "BUS_EXP1_BASE = 0x1F000000"
definition BUS_EXP1_SIZE :: u32 where "BUS_EXP1_SIZE = 0x800000"
definition BUS_DMA_BASE :: u32 where "BUS_DMA_BASE = 0x1F801080"
definition BUS_DMA_SIZE :: u32 where "BUS_DMA_SIZE = 0x80"
definition BUS_SPU_BASE :: u32 where "BUS_SPU_BASE = 0x1F801C00"
definition BUS_SPU_SIZE :: u32 where "BUS_SPU_SIZE = 0x400"
definition BUS_RAM_READ_TICKS :: tick_count where "BUS_RAM_READ_TICKS = 6"
definition CPU_SCRATCHPAD_ADDR :: u32 where "CPU_SCRATCHPAD_ADDR = 0x1F800000"
definition CPU_SCRATCHPAD_ADDR_MASK :: u32 where "CPU_SCRATCHPAD_ADDR_MASK = 0x7FFFFC00"
definition CPU_SCRATCHPAD_OFFSET_MASK :: u32 where "CPU_SCRATCHPAD_OFFSET_MASK = 0x3FF"

lemmas cpu_address_defs = CPU_KSEG_MASK_def CPU_KUSEG_MASK_def BUS_RAM_MIRROR_END_def
  BUS_BIOS_BASE_def BUS_BIOS_SIZE_def BUS_BIOS_MASK_def BUS_BIOS_MIRROR_SIZE_def BUS_EXP1_BASE_def
  BUS_EXP1_SIZE_def BUS_DMA_BASE_def BUS_DMA_SIZE_def BUS_SPU_BASE_def BUS_SPU_SIZE_def
  BUS_RAM_READ_TICKS_def CPU_SCRATCHPAD_ADDR_def CPU_SCRATCHPAD_ADDR_MASK_def
  CPU_SCRATCHPAD_OFFSET_MASK_def

section \<open>Byte images\<close>

text \<open>Little-endian loads and stores on an image, the \<open>memcpy\<close> of the code.\<close>

definition load_half :: "(nat \<Rightarrow> u8) \<Rightarrow> nat \<Rightarrow> u32" where
  "load_half m i = ucast (m i) OR push_bit 8 (ucast (m (i + 1)))"

definition load_word :: "(nat \<Rightarrow> u8) \<Rightarrow> nat \<Rightarrow> u32" where
  "load_word m i = ucast (m i) OR push_bit 8 (ucast (m (i + 1))) OR
     push_bit 16 (ucast (m (i + 2))) OR push_bit 24 (ucast (m (i + 3)))"

definition store_half :: "nat \<Rightarrow> u32 \<Rightarrow> (nat \<Rightarrow> u8) \<Rightarrow> (nat \<Rightarrow> u8)" where
  "store_half i v m = m(i := ucast v, i + 1 := ucast (drop_bit 8 v))"

definition store_word :: "nat \<Rightarrow> u32 \<Rightarrow> (nat \<Rightarrow> u8) \<Rightarrow> (nat \<Rightarrow> u8)" where
  "store_word i v m = m(i := ucast v, i + 1 := ucast (drop_bit 8 v),
     i + 2 := ucast (drop_bit 16 v), i + 3 := ucast (drop_bit 24 v))"

fun load_sized :: "memory_access_size \<Rightarrow> (nat \<Rightarrow> u8) \<Rightarrow> nat \<Rightarrow> u32" where
  "load_sized MEMORY_ACCESS_SIZE_BYTE m i = ucast (m i)"
| "load_sized MEMORY_ACCESS_SIZE_HALFWORD m i = load_half m i"
| "load_sized MEMORY_ACCESS_SIZE_WORD m i = load_word m i"

fun store_sized :: "memory_access_size \<Rightarrow> nat \<Rightarrow> u32 \<Rightarrow> (nat \<Rightarrow> u8) \<Rightarrow> (nat \<Rightarrow> u8)" where
  "store_sized MEMORY_ACCESS_SIZE_BYTE i v m = m(i := ucast v)"
| "store_sized MEMORY_ACCESS_SIZE_HALFWORD i v m = store_half i v m"
| "store_sized MEMORY_ACCESS_SIZE_WORD i v m = store_word i v m"

fun size_bytes :: "memory_access_size \<Rightarrow> nat" where
  "size_bytes MEMORY_ACCESS_SIZE_BYTE = 1"
| "size_bytes MEMORY_ACCESS_SIZE_HALFWORD = 2"
| "size_bytes MEMORY_ACCESS_SIZE_WORD = 4"

lemma load_word_bit:
  "bit (load_word m i) n \<longleftrightarrow> n < 32 \<and> bit (m (i + n div 8)) (n mod 8)"
proof -
  consider "n < 8" | "8 \<le> n" "n < 16" | "16 \<le> n" "n < 24" | "24 \<le> n" "n < 32" | "32 \<le> n" by linarith
  then show ?thesis
  proof cases
    case 2
    then have "n div 8 = 1" "n mod 8 = n - 8" by (simp_all add: div_nat_eqI mod_nat_eqI)
    then show ?thesis using 2 by (auto simp: load_word_def bit_simps dest: bit_imp_le_length)
  next
    case 3
    then have "n div 8 = 2" "n mod 8 = n - 16" by (simp_all add: div_nat_eqI mod_nat_eqI)
    then show ?thesis using 3 by (auto simp: load_word_def bit_simps dest: bit_imp_le_length)
  next
    case 4
    then have "n div 8 = 3" "n mod 8 = n - 24" by (simp_all add: div_nat_eqI mod_nat_eqI)
    then show ?thesis using 4 by (auto simp: load_word_def bit_simps dest: bit_imp_le_length)
  qed (auto simp: load_word_def bit_simps dest: bit_imp_le_length)
qed

lemma load_store_word: "load_word (store_word i v m) i = v"
proof -
  have "m' (i + n div 8) = ucast (drop_bit (8 * (n div 8)) v)" if "n < 32" "m' = store_word i v m" for n m'
  proof -
    have "n div 8 \<in> {0, 1, 2, 3}" using that(1) by auto
    then show ?thesis using that(2) by (auto simp: store_word_def)
  qed
  then show ?thesis
    by (intro bit_word_eqI) (auto simp: load_word_bit bit_simps simp del: mult_div_mod_eq)
qed

lemma load_store_half: "load_half (store_half i v m) i = take_bit 16 v"
proof -
  have "bit (load_half (store_half i v m) i) n = bit (take_bit 16 v) n" if "n < 32" for n
  proof -
    consider "n < 8" | "8 \<le> n" "n < 16" | "16 \<le> n" by linarith
    then show ?thesis
      by cases (use that in \<open>auto simp: load_half_def store_half_def bit_simps\<close>)
  qed
  then show ?thesis by (intro bit_word_eqI) simp
qed

lemma load_store_sized:
  "load_sized sz (store_sized sz i v m) i = take_bit (8 * size_bytes sz) v"
proof (cases sz)
  case MEMORY_ACCESS_SIZE_BYTE
  then show ?thesis by (auto intro!: bit_word_eqI simp: bit_simps)
qed (simp_all add: load_store_word load_store_half take_bit_word_eq_self)

lemma store_sized_other: "j < i \<or> i + size_bytes sz \<le> j \<Longrightarrow> store_sized sz i v m j = m j"
  by (cases sz) (auto simp: store_half_def store_word_def)

section \<open>Address translation\<close>

definition cpu_virtual_to_physical :: "u32 \<Rightarrow> u32" where
  "cpu_virtual_to_physical address =
     address AND (if address AND 0x80000000 \<noteq> 0 then CPU_KSEG_MASK else CPU_KUSEG_MASK)"

datatype cpu_segment = CPU_SEGMENT_KUSEG | CPU_SEGMENT_KSEG0 | CPU_SEGMENT_KSEG1 | CPU_SEGMENT_KSEG2

definition cpu_get_segment_for_address :: "u32 \<Rightarrow> cpu_segment" where
  "cpu_get_segment_for_address address =
     (let seg = unat (drop_bit 29 address) in
      if seg < 4 then CPU_SEGMENT_KUSEG else if seg = 4 then CPU_SEGMENT_KSEG0
      else if seg = 5 then CPU_SEGMENT_KSEG1 else CPU_SEGMENT_KSEG2)"

definition cpu_physical_to_virtual :: "u32 \<Rightarrow> cpu_segment \<Rightarrow> u32" where
  "cpu_physical_to_virtual address segment =
     (case segment of CPU_SEGMENT_KUSEG \<Rightarrow> 0x00000000 | CPU_SEGMENT_KSEG0 \<Rightarrow> 0x80000000
      | CPU_SEGMENT_KSEG1 \<Rightarrow> 0xA0000000 | CPU_SEGMENT_KSEG2 \<Rightarrow> 0xE0000000) OR address"

definition cpu_is_cached_address :: "u32 \<Rightarrow> bool" where
  "cpu_is_cached_address address \<longleftrightarrow> drop_bit 29 address \<le> 4"

section \<open>Instruction reads\<close>

text \<open>
  The part of \<open>cpu_do_instruction_read\<close> that reads images: the words and the ticks of
  one word, or \<open>None\<close> when the address is not backed by one.
\<close>

definition instruction_image :: "'a bus_sys_scheme \<Rightarrow> u32 \<Rightarrow> bool \<Rightarrow> nat \<Rightarrow> (u32 list \<times> u32) option" where
  "instruction_image s address icache_read word_count =
     (if address < BUS_RAM_MIRROR_END
      then let offset = unat (address AND ram_mask (bus s))
           in Some (map (\<lambda>k. load_word (ram (bus s)) (offset + 4 * k)) [0..<word_count],
                    if icache_read then 1 else word_of_int BUS_RAM_READ_TICKS)
      else if BUS_BIOS_BASE \<le> address \<and> address < BUS_BIOS_BASE + BUS_BIOS_SIZE
      then let offset = unat ((address - BUS_BIOS_BASE) AND BUS_BIOS_MASK)
           in Some (map (\<lambda>k. load_word (bios (bus s)) (offset + 4 * k)) [0..<word_count],
                    word_of_int (bios_access_time (bus s) MEMORY_ACCESS_SIZE_WORD))
      else if BUS_EXP1_BASE \<le> address \<and> address < BUS_EXP1_BASE + BUS_EXP1_SIZE
      then Some (replicate word_count 0,
                 word_of_int (exp1_access_time (bus s) MEMORY_ACCESS_SIZE_WORD))
      else None)"

definition instruction_device :: "u32 \<Rightarrow> bool" where
  "instruction_device address \<longleftrightarrow>
     (BUS_DMA_BASE \<le> address \<and> address < BUS_DMA_BASE + BUS_DMA_SIZE) \<or>
     (BUS_SPU_BASE \<le> address \<and> address < BUS_SPU_BASE + BUS_SPU_SIZE)"

text \<open>Device reads go through the bus with data-cache isolation off.\<close>

fun instruction_device_words ::
  "('a bus_sys_scheme) cpu_env \<Rightarrow> u32 \<Rightarrow> nat \<Rightarrow> 'a bus_sys_scheme \<Rightarrow> u32 list \<times> 'a bus_sys_scheme" where
  "instruction_device_words env address 0 s = ([], s)"
| "instruction_device_words env address (Suc n) s =
     (let (w, s) = read_handler env False False MEMORY_ACCESS_SIZE_WORD address s;
          (ws, s) = instruction_device_words env (address + 4) n s
      in (w # ws, s))"

definition cpu_do_instruction_read ::
  "('a bus_sys_scheme) cpu_env \<Rightarrow> u32 \<Rightarrow> bool \<Rightarrow> bool \<Rightarrow> nat \<Rightarrow> bool \<Rightarrow> 'a bus_sys_scheme \<Rightarrow>
     u32 list option \<times> 'a bus_sys_scheme" where
  "cpu_do_instruction_read env address add_ticks icache_read word_count allow_device_reads s =
     (let address = address AND CPU_KSEG_MASK in
      case instruction_image s address icache_read word_count of
        Some (ws, t) \<Rightarrow>
          (Some ws, if add_ticks
                    then s\<lparr>cpu := (cpu s)\<lparr>pending_ticks := pending_ticks (cpu s) + t * of_nat word_count\<rparr>\<rparr>
                    else s)
      | None \<Rightarrow>
          if allow_device_reads \<and> instruction_device address
          then let (ws, s) = instruction_device_words env address word_count s in (Some ws, s)
          else (None, s))"

text \<open>Peeking at an instruction reads an image and nothing else.\<close>

definition cpu_safe_read_instruction :: "u32 \<Rightarrow> 'a bus_sys_scheme \<Rightarrow> u32 option" where
  "cpu_safe_read_instruction addr s =
     (if drop_bit 29 addr \<in> {0, 4, 5}
      then map_option (\<lambda>(ws, t). hd ws) (instruction_image s (addr AND CPU_KSEG_MASK) False 1)
      else None)"

lemma safe_read_instruction_read:
  "cpu_safe_read_instruction addr s =
     (if drop_bit 29 addr \<in> {0, 4, 5}
      then map_option hd (fst (cpu_do_instruction_read env addr False False 1 False s)) else None)"
  "snd (cpu_do_instruction_read env addr False False n False s) = s"
  by (auto simp: cpu_safe_read_instruction_def cpu_do_instruction_read_def Let_def
      split: option.splits prod.splits)

definition cpu_get_instruction_read_ticks :: "u32 \<Rightarrow> 'a bus_sys_scheme \<Rightarrow> tick_count" where
  "cpu_get_instruction_read_ticks address s =
     (let address = address AND CPU_KSEG_MASK in
      if address < BUS_RAM_MIRROR_END then BUS_RAM_READ_TICKS
      else if BUS_BIOS_BASE \<le> address \<and> address < BUS_BIOS_BASE + BUS_BIOS_MIRROR_SIZE
      then bios_access_time (bus s) MEMORY_ACCESS_SIZE_WORD
      else 0)"

definition cpu_get_icache_fill_ticks :: "u32 \<Rightarrow> 'a bus_sys_scheme \<Rightarrow> tick_count" where
  "cpu_get_icache_fill_ticks address s =
     (let address = address AND CPU_KSEG_MASK;
          n = uint ((16 - (address AND 15)) div 4)
      in if address < BUS_RAM_MIRROR_END then n
         else if BUS_BIOS_BASE \<le> address \<and> address < BUS_BIOS_BASE + BUS_BIOS_MIRROR_SIZE
         then to_s32 (bios_access_time (bus s) MEMORY_ACCESS_SIZE_WORD * n)
         else 0)"

section \<open>The instruction cache\<close>

definition CPU_ICACHE_TAG_ADDRESS_MASK :: u32 where "CPU_ICACHE_TAG_ADDRESS_MASK = 0xFFFFFFF0"
definition CPU_ICACHE_INVALID_BITS :: u32 where "CPU_ICACHE_INVALID_BITS = 0xF"

definition cpu_get_icache_line :: "u32 \<Rightarrow> u32" where
  "cpu_get_icache_line address = drop_bit 4 address AND 0xFF"

definition cpu_get_icache_line_word_offset :: "u32 \<Rightarrow> u32" where
  "cpu_get_icache_line_word_offset address = drop_bit 2 address AND 3"

definition cpu_get_icache_tag_for_address :: "u32 \<Rightarrow> u32" where
  "cpu_get_icache_tag_for_address address = address AND CPU_ICACHE_TAG_ADDRESS_MASK"

definition cpu_get_icache_fill_tag_for_address :: "u32 \<Rightarrow> u32" where
  "cpu_get_icache_fill_tag_for_address address =
     cpu_get_icache_tag_for_address address OR
     [0, 1, 3, 7] ! unat (drop_bit 2 address AND 3)"

definition cpu_get_icache_tag_mask_for_address :: "u32 \<Rightarrow> u32" where
  "cpu_get_icache_tag_mask_for_address address =
     [CPU_ICACHE_TAG_ADDRESS_MASK OR 1, CPU_ICACHE_TAG_ADDRESS_MASK OR 2,
      CPU_ICACHE_TAG_ADDRESS_MASK OR 4, CPU_ICACHE_TAG_ADDRESS_MASK OR 8]
     ! unat (drop_bit 2 address AND 3)"

definition cpu_compare_icache_tag :: "u32 \<Rightarrow> cpu_state \<Rightarrow> bool" where
  "cpu_compare_icache_tag address c \<longleftrightarrow>
     icache_tags c (unat (cpu_get_icache_line address)) AND cpu_get_icache_tag_mask_for_address address =
     cpu_get_icache_tag_for_address address"

definition icache_slot :: "u32 \<Rightarrow> nat" where
  "icache_slot address = unat (cpu_get_icache_line address) * 4 +
     unat (cpu_get_icache_line_word_offset address)"

definition cpu_read_icache :: "u32 \<Rightarrow> cpu_state \<Rightarrow> u32" where
  "cpu_read_icache address c = icache_data c (icache_slot address)"

definition icache_set_tag :: "nat \<Rightarrow> u32 \<Rightarrow> cpu_state \<Rightarrow> cpu_state" where
  "icache_set_tag line t c = c\<lparr>icache_tags := (icache_tags c)(line := t)\<rparr>"

text \<open>Words copied into the line data from a slot on.\<close>

definition icache_put :: "nat \<Rightarrow> u32 list \<Rightarrow> cpu_state \<Rightarrow> cpu_state" where
  "icache_put slot ws c = c\<lparr>icache_data :=
     (\<lambda>j. if slot \<le> j \<and> j < slot + List.length ws then ws ! (j - slot) else icache_data c j)\<rparr>"

definition cpu_fill_icache ::
  "('a bus_sys_scheme) cpu_env \<Rightarrow> u32 \<Rightarrow> 'a bus_sys_scheme \<Rightarrow> u32 option \<times> 'a bus_sys_scheme" where
  "cpu_fill_icache env address s =
     (let line = unat (cpu_get_icache_line address);
          offset = unat (cpu_get_icache_line_word_offset address)
      in case cpu_do_instruction_read env address True True (4 - offset) True s of
           (None, s) \<Rightarrow> (None, s\<lparr>cpu := icache_set_tag line CPU_ICACHE_INVALID_BITS (cpu s)\<rparr>)
         | (Some ws, s) \<Rightarrow>
             let s = s\<lparr>cpu := icache_set_tag line (cpu_get_icache_fill_tag_for_address address)
                        (icache_put (icache_slot address) ws (cpu s))\<rparr>
             in (Some (icache_data (cpu s) (icache_slot address)), s))"

definition cpu_clear_icache :: "cpu_state \<Rightarrow> cpu_state" where
  "cpu_clear_icache c = c\<lparr>
     icache_data := (\<lambda>j. if j < 1024 then 0 else icache_data c j),
     icache_tags := (\<lambda>i. if i < 256 then CPU_ICACHE_INVALID_BITS else icache_tags c i)\<rparr>"

text \<open>The block-level tag check of the recompiler: the ticks of the lines that miss.\<close>

fun check_icache_lines :: "tick_count \<Rightarrow> nat \<Rightarrow> u32 \<Rightarrow> cpu_state \<Rightarrow> tick_count \<Rightarrow> cpu_state \<times> tick_count" where
  "check_icache_lines per_line 0 current_pc c ticks = (c, ticks)"
| "check_icache_lines per_line (Suc n) current_pc c ticks =
     (let line = unat (cpu_get_icache_line current_pc)
      in if icache_tags c line \<noteq> current_pc
         then check_icache_lines per_line n (current_pc + 16) (icache_set_tag line current_pc c)
                (to_s32 (ticks + per_line))
         else check_icache_lines per_line n (current_pc + 16) c ticks)"

definition cpu_check_and_update_icache_tags :: "u32 \<Rightarrow> 'a bus_sys_scheme \<Rightarrow> 'a bus_sys_scheme" where
  "cpu_check_and_update_icache_tags line_count s =
     (let current_pc = pc (cpu s) AND CPU_ICACHE_TAG_ADDRESS_MASK;
          (c, ticks) = check_icache_lines (cpu_get_icache_fill_ticks current_pc s) (unat line_count)
                         current_pc (cpu s) 0
      in s\<lparr>cpu := c\<lparr>pending_ticks := pending_ticks c + word_of_int ticks\<rparr>\<rparr>)"

section \<open>Side-effect free memory access\<close>

text \<open>Where a safe access lands: the scratchpad, RAM, BIOS, or nowhere.\<close>

datatype safe_target = Safe_Scratchpad nat | Safe_Ram nat | Safe_Bios nat

definition cpu_safe_target :: "u32 \<Rightarrow> 'a bus_sys_scheme \<Rightarrow> safe_target option" where
  "cpu_safe_target address s =
     (let seg = drop_bit 29 address;
          physical = (let address = address AND CPU_KSEG_MASK in
            if address < BUS_RAM_MIRROR_END then Some (Safe_Ram (unat (address AND ram_mask (bus s))))
            else if BUS_BIOS_BASE \<le> address \<and> address < BUS_BIOS_BASE + BUS_BIOS_SIZE
            then Some (Safe_Bios (unat (address AND BUS_BIOS_MASK)))
            else None)
      in if seg = 0 \<or> seg = 4
         then if address AND CPU_SCRATCHPAD_ADDR_MASK = CPU_SCRATCHPAD_ADDR
              then Some (Safe_Scratchpad (unat (address AND CPU_SCRATCHPAD_OFFSET_MASK)))
              else physical
         else if seg = 5 then physical
         else None)"

definition cpu_do_safe_memory_access_read ::
  "u32 \<Rightarrow> memory_access_size \<Rightarrow> 'a bus_sys_scheme \<Rightarrow> u32 option" where
  "cpu_do_safe_memory_access_read address sz s = (case cpu_safe_target address s of
     Some (Safe_Scratchpad i) \<Rightarrow> Some (load_sized sz (scratchpad (cpu s)) i)
   | Some (Safe_Ram i) \<Rightarrow> Some (load_sized sz (ram (bus s)) i)
   | Some (Safe_Bios i) \<Rightarrow> Some (load_sized sz (bios (bus s)) i)
   | None \<Rightarrow> None)"

definition cpu_do_safe_memory_access_write ::
  "u32 \<Rightarrow> memory_access_size \<Rightarrow> u32 \<Rightarrow> 'a bus_sys_scheme \<Rightarrow> 'a bus_sys_scheme option" where
  "cpu_do_safe_memory_access_write address sz v s = (case cpu_safe_target address s of
     Some (Safe_Scratchpad i) \<Rightarrow>
       Some (s\<lparr>cpu := (cpu s)\<lparr>scratchpad := store_sized sz i v (scratchpad (cpu s))\<rparr>\<rparr>)
   | Some (Safe_Ram i) \<Rightarrow> Some (s\<lparr>bus := (bus s)\<lparr>ram := store_sized sz i v (ram (bus s))\<rparr>\<rparr>)
   | _ \<Rightarrow> None)"

definition cpu_safe_read_memory_byte :: "u32 \<Rightarrow> 'a bus_sys_scheme \<Rightarrow> u8 option" where
  "cpu_safe_read_memory_byte addr s =
     map_option ucast (cpu_do_safe_memory_access_read addr MEMORY_ACCESS_SIZE_BYTE s)"

definition cpu_safe_read_memory_halfword :: "u32 \<Rightarrow> 'a bus_sys_scheme \<Rightarrow> u16 option" where
  "cpu_safe_read_memory_halfword addr s =
     (if addr AND 1 = 0
      then map_option ucast (cpu_do_safe_memory_access_read addr MEMORY_ACCESS_SIZE_HALFWORD s)
      else do {
        lo \<leftarrow> cpu_safe_read_memory_byte addr s;
        hi \<leftarrow> cpu_safe_read_memory_byte (addr + 1) s;
        Some (push_bit 8 (ucast hi) OR ucast lo) })"

definition cpu_safe_read_memory_word :: "u32 \<Rightarrow> 'a bus_sys_scheme \<Rightarrow> u32 option" where
  "cpu_safe_read_memory_word addr s =
     (if addr AND 3 = 0
      then cpu_do_safe_memory_access_read addr MEMORY_ACCESS_SIZE_WORD s
      else do {
        lo \<leftarrow> cpu_safe_read_memory_halfword addr s;
        hi \<leftarrow> cpu_safe_read_memory_halfword (addr + 2) s;
        Some (push_bit 16 (ucast hi) OR ucast lo) })"

definition cpu_safe_write_memory_byte :: "u32 \<Rightarrow> u8 \<Rightarrow> 'a bus_sys_scheme \<Rightarrow> 'a bus_sys_scheme option" where
  "cpu_safe_write_memory_byte addr v s =
     cpu_do_safe_memory_access_write addr MEMORY_ACCESS_SIZE_BYTE (ucast v) s"

definition cpu_safe_write_memory_halfword ::
  "u32 \<Rightarrow> u16 \<Rightarrow> 'a bus_sys_scheme \<Rightarrow> bool \<times> 'a bus_sys_scheme" where
  "cpu_safe_write_memory_halfword addr v s =
     (if addr AND 1 = 0
      then case cpu_do_safe_memory_access_write addr MEMORY_ACCESS_SIZE_HALFWORD (ucast v) s of
             Some s \<Rightarrow> (True, s) | None \<Rightarrow> (False, s)
      else case cpu_safe_write_memory_byte addr (ucast v) s of
             None \<Rightarrow> (False, s)
           | Some s \<Rightarrow> (case cpu_safe_write_memory_byte (addr + 1) (ucast (drop_bit 8 v)) s of
                          Some s \<Rightarrow> (True, s) | None \<Rightarrow> (False, s)))"

definition cpu_safe_write_memory_word ::
  "u32 \<Rightarrow> u32 \<Rightarrow> 'a bus_sys_scheme \<Rightarrow> bool \<times> 'a bus_sys_scheme" where
  "cpu_safe_write_memory_word addr v s =
     (if addr AND 3 = 0
      then case cpu_do_safe_memory_access_write addr MEMORY_ACCESS_SIZE_WORD v s of
             Some s \<Rightarrow> (True, s) | None \<Rightarrow> (False, s)
      else case cpu_safe_write_memory_halfword addr (ucast v) s of
             (False, s) \<Rightarrow> (False, s)
           | (True, s) \<Rightarrow> cpu_safe_write_memory_halfword (addr + 2) (ucast (drop_bit 16 v)) s)"

end
