(* ===== verification/Cpu_Pipeline.thy ===== *)
theory Cpu_Pipeline
  imports Cpu_Memory
begin

text \<open>
  The pipeline of the interpreter in \<^verbatim>\<open>src/core/cpu/cpu_core.c\<close>: instruction
  fetch, the load-delay slot, register access, exceptions, data accesses, and the interrupt and
  fetch-error entries.  \<open>cpu_update_memory_pointers\<close> selects the handler tables by
  \<open>SR.Isc\<close> and \<open>SR.Swc\<close>; the model passes the two bits to the handlers at
  each access instead of caching the table.
\<close>

definition on_cpu :: "(cpu_state \<Rightarrow> cpu_state) \<Rightarrow> 'a sys_core_scheme \<Rightarrow> 'a sys_core_scheme" where
  "on_cpu f s = s\<lparr>cpu := f (cpu s)\<rparr>"

lemma on_cpu_simps [simp]:
  "cpu (on_cpu f s) = f (cpu s)" "intc (on_cpu f s) = intc s"
  "sys_core.more (on_cpu f s) = sys_core.more s" "on_cpu f (on_cpu g s) = on_cpu (f \<circ> g) s"
  by (simp_all add: on_cpu_def)

definition upd_cop0 :: "(cop0_registers \<Rightarrow> cop0_registers) \<Rightarrow> cpu_state \<Rightarrow> cpu_state" where
  "upd_cop0 f c = c\<lparr>cop0_regs := f (cop0_regs c)\<rparr>"

datatype cpu_exception = CPU_EXCEPTION_INT | CPU_EXCEPTION_ADEL | CPU_EXCEPTION_ADES
  | CPU_EXCEPTION_IBE | CPU_EXCEPTION_DBE | CPU_EXCEPTION_SYSCALL | CPU_EXCEPTION_BP
  | CPU_EXCEPTION_RI | CPU_EXCEPTION_CPU | CPU_EXCEPTION_OV

fun excode :: "cpu_exception \<Rightarrow> u32" where
  "excode CPU_EXCEPTION_INT = 0x00"
| "excode CPU_EXCEPTION_ADEL = 0x04"
| "excode CPU_EXCEPTION_ADES = 0x05"
| "excode CPU_EXCEPTION_IBE = 0x06"
| "excode CPU_EXCEPTION_DBE = 0x07"
| "excode CPU_EXCEPTION_SYSCALL = 0x08"
| "excode CPU_EXCEPTION_BP = 0x09"
| "excode CPU_EXCEPTION_RI = 0x0A"
| "excode CPU_EXCEPTION_CPU = 0x0B"
| "excode CPU_EXCEPTION_OV = 0x0C"

section \<open>Instruction words\<close>

definition inst_op :: "u32 \<Rightarrow> nat" where "inst_op w = unat (drop_bit 26 w)"
definition inst_rs :: "u32 \<Rightarrow> nat" where "inst_rs w = unat (bits_get w 21 5)"
definition inst_rt :: "u32 \<Rightarrow> nat" where "inst_rt w = unat (bits_get w 16 5)"
definition inst_rd :: "u32 \<Rightarrow> nat" where "inst_rd w = unat (bits_get w 11 5)"
definition inst_shamt :: "u32 \<Rightarrow> nat" where "inst_shamt w = unat (bits_get w 6 5)"
definition inst_funct :: "u32 \<Rightarrow> nat" where "inst_funct w = unat (bits_get w 0 6)"
definition inst_target :: "u32 \<Rightarrow> u32" where "inst_target w = bits_get w 0 26"
definition inst_cop_n :: "u32 \<Rightarrow> u32" where "inst_cop_n w = bits_get w 26 2"

definition cpu_instr_imm_sext32 :: "u32 \<Rightarrow> u32" where
  "cpu_instr_imm_sext32 w = signed_take_bit 15 w"

definition cpu_instr_imm_zext32 :: "u32 \<Rightarrow> u32" where
  "cpu_instr_imm_zext32 w = take_bit 16 w"

definition cpu_cop_is_common_instruction :: "u32 \<Rightarrow> bool" where
  "cpu_cop_is_common_instruction w \<longleftrightarrow> w AND push_bit 25 1 = 0"

definition cpu_cop_common_op :: "u32 \<Rightarrow> nat" where
  "cpu_cop_common_op w = unat (drop_bit 21 w AND 0xF)"

definition cpu_cop0_op :: "u32 \<Rightarrow> nat" where
  "cpu_cop0_op w = unat (w AND 0x3F)"

section \<open>Load delay and registers\<close>

definition put_reg :: "nat \<Rightarrow> u32 \<Rightarrow> cpu_state \<Rightarrow> cpu_state" where
  "put_reg i v c = c\<lparr>regs := (regs c)(i := v)\<rparr>"

definition cpu_update_load_delay :: "cpu_state \<Rightarrow> cpu_state" where
  "cpu_update_load_delay c = (put_reg (load_delay_reg c) (load_delay_value c) c)\<lparr>
     load_delay_reg := next_load_delay_reg c,
     load_delay_value := next_load_delay_value c,
     next_load_delay_reg := CPU_REG_COUNT\<rparr>"

definition cpu_flush_load_delay :: "cpu_state \<Rightarrow> cpu_state" where
  "cpu_flush_load_delay c = (put_reg (load_delay_reg c) (load_delay_value c) c)\<lparr>
     next_load_delay_reg := CPU_REG_COUNT, load_delay_reg := CPU_REG_COUNT\<rparr>"

definition cpu_read_reg :: "nat \<Rightarrow> cpu_state \<Rightarrow> u32" where
  "cpu_read_reg r c = regs c r"

definition cpu_write_reg :: "nat \<Rightarrow> u32 \<Rightarrow> cpu_state \<Rightarrow> cpu_state" where
  "cpu_write_reg rd v c = put_reg 0 0 ((put_reg rd v c)\<lparr>
     load_delay_reg := (if rd = load_delay_reg c then CPU_REG_COUNT else load_delay_reg c)\<rparr>)"

definition cpu_write_reg_delayed :: "nat \<Rightarrow> u32 \<Rightarrow> cpu_state \<Rightarrow> cpu_state" where
  "cpu_write_reg_delayed rd v c =
     (if rd = 0 then c
      else c\<lparr>load_delay_reg := (if load_delay_reg c = rd then CPU_REG_COUNT else load_delay_reg c),
             next_load_delay_reg := rd, next_load_delay_value := v\<rparr>)"

definition cpu_branch :: "u32 \<Rightarrow> cpu_state \<Rightarrow> cpu_state" where
  "cpu_branch tgt c = c\<lparr>npc := tgt, branch_was_taken := True\<rparr>"

section \<open>Fetch\<close>

text \<open>
  The word and exception code one fetch yields: 0 is no exception, 4 an address error, 6 a bus
  error.
\<close>

definition fetch_word ::
  "('a bus_sys_scheme) cpu_env \<Rightarrow> 'a bus_sys_scheme \<Rightarrow> (u32 \<times> u8) \<times> 'a bus_sys_scheme" where
  "fetch_word env s =
     (let address = npc (cpu s); seg = drop_bit 29 address in
      if address AND 3 \<noteq> 0 then ((0, 4), s)
      else if seg = 0 \<or> seg = 4
      then if cpu_compare_icache_tag address (cpu s) then ((cpu_read_icache address (cpu s), 0), s)
           else (case cpu_fill_icache env address s of
                   (Some w, s) \<Rightarrow> ((w, 0), s)
                 | (None, s) \<Rightarrow> ((0, 6), s))
      else if seg = 5
      then (case cpu_do_instruction_read env address True False 1 True s of
              (Some ws, s) \<Rightarrow> ((hd ws, 0), s)
            | (None, s) \<Rightarrow> ((0, 6), s))
      else ((0, 6), s))"

definition cpu_fetch_instruction ::
  "('a bus_sys_scheme) cpu_env \<Rightarrow> 'a bus_sys_scheme \<Rightarrow> 'a bus_sys_scheme" where
  "cpu_fetch_instruction env s =
     (case fetch_word env s of ((w, e), s) \<Rightarrow>
        on_cpu (\<lambda>c. c\<lparr>next_instruction := w, next_instruction_fetch_exception := e,
                      pc := npc c, npc := npc c + 4\<rparr>) s)"

definition cpu_flush_pipeline ::
  "('a bus_sys_scheme) cpu_env \<Rightarrow> 'a bus_sys_scheme \<Rightarrow> 'a bus_sys_scheme" where
  "cpu_flush_pipeline env s =
     on_cpu (\<lambda>c. c\<lparr>current_instruction := next_instruction c,
                   current_instruction_in_branch_delay_slot := False,
                   current_instruction_was_branch_taken := False\<rparr>)
       (cpu_fetch_instruction env
         (on_cpu (\<lambda>c. (cpu_flush_load_delay c)\<lparr>branch_was_taken := False,
                        next_instruction_is_branch_delay_slot := False,
                        current_instruction_pc := pc c\<rparr>) s))"

definition cpu_set_pc ::
  "('a bus_sys_scheme) cpu_env \<Rightarrow> u32 \<Rightarrow> 'a bus_sys_scheme \<Rightarrow> 'a bus_sys_scheme" where
  "cpu_set_pc env new_pc s = cpu_flush_pipeline env (on_cpu (\<lambda>c. c\<lparr>npc := new_pc\<rparr>) s)"

section \<open>Exceptions\<close>

definition CPU_COP0_CAUSE_EXCEPTION_WRITE_MASK :: u32 where
  "CPU_COP0_CAUSE_EXCEPTION_WRITE_MASK = 0xF000007C"

definition cpu_cop0_cause_make :: "cpu_exception \<Rightarrow> bool \<Rightarrow> bool \<Rightarrow> u32 \<Rightarrow> u32" where
  "cpu_cop0_cause_make e BD BT CE =
     bits_set (flag_put 30 BT (flag_put 31 BD (bits_set 0 2 5 (excode e)))) 28 2 CE"

definition cpu_get_exception_vector :: "cpu_state \<Rightarrow> u32" where
  "cpu_get_exception_vector c =
     (if sr_BEV (sr (cop0_regs c)) then 0xBFC00100 else 0x80000000) OR 0x00000080"

text \<open>The mode stack of the status register, bits 0 to 5.\<close>

definition sr_push :: "u32 \<Rightarrow> u32" where
  "sr_push old_sr =
     (let mode_bits = old_sr AND 0x3F; new_mode = push_bit 2 mode_bits AND 0x3F
      in (old_sr AND NOT 0x3F) OR new_mode)"

definition sr_pop :: "u32 \<Rightarrow> u32" where
  "sr_pop old_sr =
     (let mode_bits = old_sr AND 0x3F; new_mode = (mode_bits AND 0x30) OR drop_bit 2 mode_bits
      in (old_sr AND NOT 0x3F) OR new_mode)"

text \<open>The COP0 side of an exception.\<close>

definition exception_cop0 :: "u32 \<Rightarrow> u32 \<Rightarrow> cpu_state \<Rightarrow> cpu_state" where
  "exception_cop0 cause_bits epc c =
     (let r = (cop0_regs c)\<lparr>EPC := epc,
            cause := (cause (cop0_regs c) AND NOT CPU_COP0_CAUSE_EXCEPTION_WRITE_MASK) OR
                     (cause_bits AND CPU_COP0_CAUSE_EXCEPTION_WRITE_MASK)\<rparr>;
          r = (if cause_BD (cause r) then r\<lparr>EPC := EPC r - 4, TAR := pc c\<rparr> else r)
      in c\<lparr>cop0_regs := r\<lparr>sr := sr_push (sr r)\<rparr>\<rparr>)"

definition cpu_raise_exception_with_vector ::
  "('a bus_sys_scheme) cpu_env \<Rightarrow> u32 \<Rightarrow> u32 \<Rightarrow> u32 \<Rightarrow> 'a bus_sys_scheme \<Rightarrow> 'a bus_sys_scheme" where
  "cpu_raise_exception_with_vector env cause_bits epc vector s =
     cpu_flush_pipeline env
       (on_cpu (\<lambda>c. (exception_cop0 cause_bits epc c)\<lparr>npc := vector, exception_raised := True\<rparr>) s)"

definition cpu_raise_exception_bits ::
  "('a bus_sys_scheme) cpu_env \<Rightarrow> u32 \<Rightarrow> u32 \<Rightarrow> 'a bus_sys_scheme \<Rightarrow> 'a bus_sys_scheme" where
  "cpu_raise_exception_bits env cause_bits epc s =
     cpu_raise_exception_with_vector env cause_bits epc (cpu_get_exception_vector (cpu s)) s"

definition cpu_raise_exception ::
  "('a bus_sys_scheme) cpu_env \<Rightarrow> cpu_exception \<Rightarrow> 'a bus_sys_scheme \<Rightarrow> 'a bus_sys_scheme" where
  "cpu_raise_exception env e s =
     cpu_raise_exception_with_vector env
       (cpu_cop0_cause_make e (current_instruction_in_branch_delay_slot (cpu s))
          (current_instruction_was_branch_taken (cpu s)) (inst_cop_n (current_instruction (cpu s))))
       (current_instruction_pc (cpu s)) (cpu_get_exception_vector (cpu s)) s"

definition cpu_raise_data_bus_exception ::
  "('a bus_sys_scheme) cpu_env \<Rightarrow> 'a bus_sys_scheme \<Rightarrow> 'a bus_sys_scheme" where
  "cpu_raise_data_bus_exception env s =
     cpu_raise_exception_bits env
       (cpu_cop0_cause_make CPU_EXCEPTION_DBE (current_instruction_in_branch_delay_slot (cpu s))
          (current_instruction_was_branch_taken (cpu s)) 0)
       (current_instruction_pc (cpu s)) s"

text \<open>A fetch error recorded with the prefetched word is taken when the word would execute.\<close>

definition cpu_raise_pending_fetch_exception ::
  "('a bus_sys_scheme) cpu_env \<Rightarrow> 'a bus_sys_scheme \<Rightarrow> bool \<times> 'a bus_sys_scheme" where
  "cpu_raise_pending_fetch_exception env s =
     (let e = next_instruction_fetch_exception (cpu s);
          address = pc (cpu s);
          delay_slot = next_instruction_is_branch_delay_slot (cpu s);
          taken = branch_was_taken (cpu s);
          tgt = npc (cpu s)
      in if e = 0 then (False, s)
         else let s = on_cpu (\<lambda>c. c\<lparr>pending_ticks := pending_ticks c + 1\<rparr>) s;
                  s = (if e = 4 then on_cpu (upd_cop0 (\<lambda>r. r\<lparr>BadVaddr := address\<rparr>)) s else s);
                  bits = bits_set (flag_put 30 taken (flag_put 31 delay_slot (bits_set 0 2 5 (ucast e)))) 28 2 0;
                  s = cpu_raise_exception_bits env bits address s
              in (True, if delay_slot then on_cpu (upd_cop0 (\<lambda>r. r\<lparr>TAR := tgt\<rparr>)) s else s))"

definition RESET_VECTOR :: u32 where "RESET_VECTOR = 0xBFC00000"

definition cpu_reset ::
  "('a bus_sys_scheme) cpu_env \<Rightarrow> 'a bus_sys_scheme \<Rightarrow> 'a bus_sys_scheme" where
  "cpu_reset env s =
     on_cpu (\<lambda>c. c\<lparr>downcount := 0, pending_ticks := 0, gte_completion_tick := 0,
                   muldiv_completion_tick := 0\<rparr>)
       (cpu_set_pc env RESET_VECTOR
         (on_cpu (\<lambda>c. (cpu_clear_icache (c\<lparr>exception_raised := False, bus_error := False,
              regs := (\<lambda>i. if i \<le> CPU_REG_COUNT then 0 else regs c i),
              cop0_regs := (cop0_regs c)\<lparr>BPC := 0, BDA := 0, TAR := 0, BadVaddr := 0, BDAM := 0,
                BPCM := 0, EPC := 0, dcic := 0, sr := 0, cause := 0\<rparr>\<rparr>))\<lparr>
              gte_regs := gte_reset (gte_regs c), pc := RESET_VECTOR, npc := RESET_VECTOR\<rparr>) s))"

section \<open>Data accesses\<close>

definition access_aligned :: "memory_access_size \<Rightarrow> u32 \<Rightarrow> bool" where
  "access_aligned sz address \<longleftrightarrow> (case sz of MEMORY_ACCESS_SIZE_BYTE \<Rightarrow> True
     | MEMORY_ACCESS_SIZE_HALFWORD \<Rightarrow> address AND 1 = 0
     | MEMORY_ACCESS_SIZE_WORD \<Rightarrow> address AND 3 = 0)"

definition cpu_do_alignment_check ::
  "('a bus_sys_scheme) cpu_env \<Rightarrow> memory_access_type \<Rightarrow> memory_access_size \<Rightarrow> u32 \<Rightarrow>
     'a bus_sys_scheme \<Rightarrow> bool \<times> 'a bus_sys_scheme" where
  "cpu_do_alignment_check env ty sz address s =
     (if access_aligned sz address then (True, s)
      else (False, cpu_raise_exception env
              (if ty = MEMORY_ACCESS_TYPE_READ then CPU_EXCEPTION_ADEL else CPU_EXCEPTION_ADES)
              (on_cpu (upd_cop0 (\<lambda>r. r\<lparr>BadVaddr := address\<rparr>)) s)))"

text \<open>The tail of every access: a bus error the handler reported becomes an exception.\<close>

definition cpu_take_bus_error ::
  "('a bus_sys_scheme) cpu_env \<Rightarrow> 'a bus_sys_scheme \<Rightarrow> bool \<times> 'a bus_sys_scheme" where
  "cpu_take_bus_error env s =
     (if bus_error (cpu s)
      then (True, cpu_raise_data_bus_exception env (on_cpu (\<lambda>c. c\<lparr>bus_error := False\<rparr>) s))
      else (False, s))"

definition cpu_isc :: "cpu_state \<Rightarrow> bool" where "cpu_isc c \<longleftrightarrow> bit (sr (cop0_regs c)) 16"
definition cpu_swc :: "cpu_state \<Rightarrow> bool" where "cpu_swc c \<longleftrightarrow> bit (sr (cop0_regs c)) 17"

definition cpu_read_memory ::
  "('a bus_sys_scheme) cpu_env \<Rightarrow> memory_access_size \<Rightarrow> u32 \<Rightarrow> 'a bus_sys_scheme \<Rightarrow>
     u32 option \<times> 'a bus_sys_scheme" where
  "cpu_read_memory env sz address s =
     (case cpu_do_alignment_check env MEMORY_ACCESS_TYPE_READ sz address s of
        (False, s) \<Rightarrow> (None, s)
      | (True, s) \<Rightarrow>
          let (v, s) = read_handler env (cpu_isc (cpu s)) (cpu_swc (cpu s)) sz address s;
              (err, s) = cpu_take_bus_error env s
          in (if err then None else Some (take_bit (8 * size_bytes sz) v), s))"

definition cpu_write_memory ::
  "('a bus_sys_scheme) cpu_env \<Rightarrow> memory_access_size \<Rightarrow> u32 \<Rightarrow> u32 \<Rightarrow> 'a bus_sys_scheme \<Rightarrow>
     bool \<times> 'a bus_sys_scheme" where
  "cpu_write_memory env sz address v s =
     (case cpu_do_alignment_check env MEMORY_ACCESS_TYPE_WRITE sz address s of
        (False, s) \<Rightarrow> (False, s)
      | (True, s) \<Rightarrow>
          let s = write_handler env (cpu_isc (cpu s)) (cpu_swc (cpu s)) sz address v s;
              (err, s) = cpu_take_bus_error env s
          in (\<not> err, s))"

end
