(* ===== verification/Cpu_Exec.thy ===== *)
theory Cpu_Exec
  imports Cpu_Pipeline
begin

text \<open>
  The instruction interpreter, \<open>cpu_execute_instruction\<close> of
  \<^verbatim>\<open>src/core/cpu/cpu_core.c\<close>, one definition per group of its switch,
  and the step around it (\<open>cpu_execute_prefetched_instruction\<close>,
  \<open>cpu_dispatch_interrupt\<close>).  A step returns \<open>None\<close> only where the GTE model
  panics on an unknown command.
\<close>

abbreviation (input) "CPU_OP_FUNCT \<equiv> 0 :: nat"
abbreviation (input) "CPU_OP_B \<equiv> 1 :: nat"
abbreviation (input) "CPU_OP_J \<equiv> 2 :: nat"
abbreviation (input) "CPU_OP_JAL \<equiv> 3 :: nat"
abbreviation (input) "CPU_OP_BEQ \<equiv> 4 :: nat"
abbreviation (input) "CPU_OP_BNE \<equiv> 5 :: nat"
abbreviation (input) "CPU_OP_BLEZ \<equiv> 6 :: nat"
abbreviation (input) "CPU_OP_BGTZ \<equiv> 7 :: nat"
abbreviation (input) "CPU_OP_ADDI \<equiv> 8 :: nat"
abbreviation (input) "CPU_OP_ADDIU \<equiv> 9 :: nat"
abbreviation (input) "CPU_OP_SLTI \<equiv> 10 :: nat"
abbreviation (input) "CPU_OP_SLTIU \<equiv> 11 :: nat"
abbreviation (input) "CPU_OP_ANDI \<equiv> 12 :: nat"
abbreviation (input) "CPU_OP_ORI \<equiv> 13 :: nat"
abbreviation (input) "CPU_OP_XORI \<equiv> 14 :: nat"
abbreviation (input) "CPU_OP_LUI \<equiv> 15 :: nat"
abbreviation (input) "CPU_OP_COP0 \<equiv> 16 :: nat"
abbreviation (input) "CPU_OP_COP1 \<equiv> 17 :: nat"
abbreviation (input) "CPU_OP_COP2 \<equiv> 18 :: nat"
abbreviation (input) "CPU_OP_COP3 \<equiv> 19 :: nat"
abbreviation (input) "CPU_OP_LB \<equiv> 32 :: nat"
abbreviation (input) "CPU_OP_LH \<equiv> 33 :: nat"
abbreviation (input) "CPU_OP_LWL \<equiv> 34 :: nat"
abbreviation (input) "CPU_OP_LW \<equiv> 35 :: nat"
abbreviation (input) "CPU_OP_LBU \<equiv> 36 :: nat"
abbreviation (input) "CPU_OP_LHU \<equiv> 37 :: nat"
abbreviation (input) "CPU_OP_LWR \<equiv> 38 :: nat"
abbreviation (input) "CPU_OP_SB \<equiv> 40 :: nat"
abbreviation (input) "CPU_OP_SH \<equiv> 41 :: nat"
abbreviation (input) "CPU_OP_SWL \<equiv> 42 :: nat"
abbreviation (input) "CPU_OP_SW \<equiv> 43 :: nat"
abbreviation (input) "CPU_OP_SWR \<equiv> 46 :: nat"
abbreviation (input) "CPU_OP_LWC0 \<equiv> 48 :: nat"
abbreviation (input) "CPU_OP_LWC1 \<equiv> 49 :: nat"
abbreviation (input) "CPU_OP_LWC2 \<equiv> 50 :: nat"
abbreviation (input) "CPU_OP_LWC3 \<equiv> 51 :: nat"
abbreviation (input) "CPU_OP_SWC0 \<equiv> 56 :: nat"
abbreviation (input) "CPU_OP_SWC1 \<equiv> 57 :: nat"
abbreviation (input) "CPU_OP_SWC2 \<equiv> 58 :: nat"
abbreviation (input) "CPU_OP_SWC3 \<equiv> 59 :: nat"

abbreviation (input) "CPU_FUNCT_SLL \<equiv> 0 :: nat"
abbreviation (input) "CPU_FUNCT_SRL \<equiv> 2 :: nat"
abbreviation (input) "CPU_FUNCT_SRA \<equiv> 3 :: nat"
abbreviation (input) "CPU_FUNCT_SLLV \<equiv> 4 :: nat"
abbreviation (input) "CPU_FUNCT_SRLV \<equiv> 6 :: nat"
abbreviation (input) "CPU_FUNCT_SRAV \<equiv> 7 :: nat"
abbreviation (input) "CPU_FUNCT_JR \<equiv> 8 :: nat"
abbreviation (input) "CPU_FUNCT_JALR \<equiv> 9 :: nat"
abbreviation (input) "CPU_FUNCT_SYSCALL \<equiv> 12 :: nat"
abbreviation (input) "CPU_FUNCT_BREAK \<equiv> 13 :: nat"
abbreviation (input) "CPU_FUNCT_MFHI \<equiv> 16 :: nat"
abbreviation (input) "CPU_FUNCT_MTHI \<equiv> 17 :: nat"
abbreviation (input) "CPU_FUNCT_MFLO \<equiv> 18 :: nat"
abbreviation (input) "CPU_FUNCT_MTLO \<equiv> 19 :: nat"
abbreviation (input) "CPU_FUNCT_MULT \<equiv> 24 :: nat"
abbreviation (input) "CPU_FUNCT_MULTU \<equiv> 25 :: nat"
abbreviation (input) "CPU_FUNCT_DIV \<equiv> 26 :: nat"
abbreviation (input) "CPU_FUNCT_DIVU \<equiv> 27 :: nat"
abbreviation (input) "CPU_FUNCT_ADD \<equiv> 32 :: nat"
abbreviation (input) "CPU_FUNCT_ADDU \<equiv> 33 :: nat"
abbreviation (input) "CPU_FUNCT_SUB \<equiv> 34 :: nat"
abbreviation (input) "CPU_FUNCT_SUBU \<equiv> 35 :: nat"
abbreviation (input) "CPU_FUNCT_AND \<equiv> 36 :: nat"
abbreviation (input) "CPU_FUNCT_OR \<equiv> 37 :: nat"
abbreviation (input) "CPU_FUNCT_XOR \<equiv> 38 :: nat"
abbreviation (input) "CPU_FUNCT_NOR \<equiv> 39 :: nat"
abbreviation (input) "CPU_FUNCT_SLT \<equiv> 42 :: nat"
abbreviation (input) "CPU_FUNCT_SLTU \<equiv> 43 :: nat"

section \<open>Arithmetic\<close>

text \<open>\<open>__builtin_add_overflow\<close> on two signed words: the flag, and the wrapped result.\<close>

definition cpu_add_overflow :: "u32 \<Rightarrow> u32 \<Rightarrow> bool \<times> u32" where
  "cpu_add_overflow old_value add_value =
     (let r = sint old_value + sint add_value in (to_s32 r \<noteq> r, word_of_int r))"

definition cpu_sub_overflow :: "u32 \<Rightarrow> u32 \<Rightarrow> bool \<times> u32" where
  "cpu_sub_overflow old_value sub_value =
     (let r = sint old_value - sint sub_value in (to_s32 r \<noteq> r, word_of_int r))"

text \<open>The shifts, with the amount of the instruction or of a register.\<close>

definition cpu_execute_shift :: "u32 \<Rightarrow> cpu_state \<Rightarrow> cpu_state" where
  "cpu_execute_shift inst c =
     (let f = inst_funct inst; rt_val = cpu_read_reg (inst_rt inst) c;
          amount = (if f = CPU_FUNCT_SLL \<or> f = CPU_FUNCT_SRL \<or> f = CPU_FUNCT_SRA then inst_shamt inst
                    else unat (cpu_read_reg (inst_rs inst) c AND 0x1F))
      in cpu_write_reg (inst_rd inst)
           (if f = CPU_FUNCT_SLL \<or> f = CPU_FUNCT_SLLV then push_bit amount rt_val
            else if f = CPU_FUNCT_SRL \<or> f = CPU_FUNCT_SRLV then drop_bit amount rt_val
            else signed_drop_bit amount rt_val) c)"

definition cpu_execute_logic :: "u32 \<Rightarrow> cpu_state \<Rightarrow> cpu_state" where
  "cpu_execute_logic inst c =
     (let f = inst_funct inst; rs_val = cpu_read_reg (inst_rs inst) c; rt_val = cpu_read_reg (inst_rt inst) c
      in cpu_write_reg (inst_rd inst)
           (if f = CPU_FUNCT_AND then rs_val AND rt_val
            else if f = CPU_FUNCT_OR then rs_val OR rt_val
            else if f = CPU_FUNCT_XOR then rs_val XOR rt_val
            else NOT (rs_val OR rt_val)) c)"

definition cpu_execute_arith ::
  "('a bus_sys_scheme) cpu_env \<Rightarrow> u32 \<Rightarrow> 'a bus_sys_scheme \<Rightarrow> 'a bus_sys_scheme" where
  "cpu_execute_arith env inst s =
     (let f = inst_funct inst;
          rs_val = cpu_read_reg (inst_rs inst) (cpu s); rt_val = cpu_read_reg (inst_rt inst) (cpu s)
      in if f = CPU_FUNCT_ADD \<or> f = CPU_FUNCT_SUB
         then case (if f = CPU_FUNCT_ADD then cpu_add_overflow rs_val rt_val
                    else cpu_sub_overflow rs_val rt_val) of
                (ov, rd_val) \<Rightarrow>
                  if ov then cpu_raise_exception env CPU_EXCEPTION_OV s
                  else on_cpu (cpu_write_reg (inst_rd inst) rd_val) s
         else on_cpu (cpu_write_reg (inst_rd inst)
                (if f = CPU_FUNCT_ADDU then rs_val + rt_val else rs_val - rt_val)) s)"

definition cpu_execute_slt :: "u32 \<Rightarrow> cpu_state \<Rightarrow> cpu_state" where
  "cpu_execute_slt inst c =
     (let rs_val = cpu_read_reg (inst_rs inst) c; rt_val = cpu_read_reg (inst_rt inst) c
      in cpu_write_reg (inst_rd inst)
           (u32_of_bool (if inst_funct inst = CPU_FUNCT_SLT then sint rs_val < sint rt_val
                         else rs_val < rt_val)) c)"

definition cpu_execute_hilo :: "u32 \<Rightarrow> cpu_state \<Rightarrow> cpu_state" where
  "cpu_execute_hilo inst c =
     (let f = inst_funct inst in
      cpu_stall_until_muldiv_complete
        (if f = CPU_FUNCT_MFHI then cpu_write_reg (inst_rd inst) (regs c CPU_REG_HI) c
         else if f = CPU_FUNCT_MTHI then put_reg CPU_REG_HI (cpu_read_reg (inst_rs inst) c) c
         else if f = CPU_FUNCT_MFLO then cpu_write_reg (inst_rd inst) (regs c CPU_REG_LO) c
         else put_reg CPU_REG_LO (cpu_read_reg (inst_rs inst) c) c))"

definition put_hilo :: "u32 \<Rightarrow> u32 \<Rightarrow> cpu_state \<Rightarrow> cpu_state" where
  "put_hilo hi lo c = put_reg CPU_REG_LO lo (put_reg CPU_REG_HI hi c)"

definition mult_hilo :: "u32 \<Rightarrow> u32 \<Rightarrow> u32 \<times> u32" where
  "mult_hilo lhs rhs =
     (let result = word_of_int (sint lhs * sint rhs) :: u64
      in (ucast (drop_bit 32 result), ucast result))"

definition multu_hilo :: "u32 \<Rightarrow> u32 \<Rightarrow> u32 \<times> u32" where
  "multu_hilo lhs rhs =
     (let result = ucast lhs * ucast rhs :: u64
      in (ucast (drop_bit 32 result), ucast result))"

definition cpu_execute_mult :: "u32 \<Rightarrow> cpu_state \<Rightarrow> cpu_state" where
  "cpu_execute_mult inst c =
     (let lhs = cpu_read_reg (inst_rs inst) c; rhs = cpu_read_reg (inst_rt inst) c;
          (hi, lo) = (if inst_funct inst = CPU_FUNCT_MULT then mult_hilo lhs rhs else multu_hilo lhs rhs)
      in cpu_add_muldiv_ticks
           (if inst_funct inst = CPU_FUNCT_MULT then cpu_get_mult_ticks_signed (sint lhs)
            else cpu_get_mult_ticks_unsigned lhs)
           (cpu_stall_until_muldiv_complete (put_hilo hi lo c)))"

definition div_hilo :: "u32 \<Rightarrow> u32 \<Rightarrow> u32 \<times> u32" where
  "div_hilo n d =
     (let num = sint n; denom = sint d in
      if denom = 0 then (n, if num \<ge> 0 then 0xFFFFFFFF else 1)
      else if n = 0x80000000 \<and> denom = -1 then (0, 0x80000000)
      else (word_of_int (num smod denom), word_of_int (num sdiv denom)))"

definition divu_hilo :: "u32 \<Rightarrow> u32 \<Rightarrow> u32 \<times> u32" where
  "divu_hilo num denom = (if denom = 0 then (num, 0xFFFFFFFF) else (num mod denom, num div denom))"

definition cpu_execute_div :: "u32 \<Rightarrow> cpu_state \<Rightarrow> cpu_state" where
  "cpu_execute_div inst c =
     (let n = cpu_read_reg (inst_rs inst) c; d = cpu_read_reg (inst_rt inst) c;
          (hi, lo) = (if inst_funct inst = CPU_FUNCT_DIV then div_hilo n d else divu_hilo n d)
      in cpu_add_muldiv_ticks cpu_get_div_ticks
           (cpu_stall_until_muldiv_complete (put_hilo hi lo c)))"

section \<open>The register format\<close>

definition cpu_execute_jump_reg :: "u32 \<Rightarrow> cpu_state \<Rightarrow> cpu_state" where
  "cpu_execute_jump_reg inst c =
     (let tgt = cpu_read_reg (inst_rs inst) c;
          c = c\<lparr>next_instruction_is_branch_delay_slot := True\<rparr>;
          c = (if inst_funct inst = CPU_FUNCT_JALR then cpu_write_reg (inst_rd inst) (npc c) c else c)
      in cpu_branch tgt c)"

definition cpu_raise_break_exception ::
  "('a bus_sys_scheme) cpu_env \<Rightarrow> u32 \<Rightarrow> u32 \<Rightarrow> u32 \<Rightarrow> 'a bus_sys_scheme \<Rightarrow> 'a bus_sys_scheme" where
  "cpu_raise_break_exception env cause_bits epc instruction_bits s =
     cpu_raise_exception_with_vector env cause_bits epc (cpu_get_exception_vector (cpu s)) s"

definition cpu_execute_trap ::
  "('a bus_sys_scheme) cpu_env \<Rightarrow> u32 \<Rightarrow> 'a bus_sys_scheme \<Rightarrow> 'a bus_sys_scheme" where
  "cpu_execute_trap env inst s =
     (if inst_funct inst = CPU_FUNCT_SYSCALL then cpu_raise_exception env CPU_EXCEPTION_SYSCALL s
      else cpu_raise_break_exception env
             (cpu_cop0_cause_make CPU_EXCEPTION_BP (current_instruction_in_branch_delay_slot (cpu s))
                (current_instruction_was_branch_taken (cpu s)) (inst_cop_n (current_instruction (cpu s))))
             (current_instruction_pc (cpu s)) (current_instruction (cpu s)) s)"

definition cpu_execute_funct ::
  "('a bus_sys_scheme) cpu_env \<Rightarrow> u32 \<Rightarrow> 'a bus_sys_scheme \<Rightarrow> 'a bus_sys_scheme" where
  "cpu_execute_funct env inst s =
     (let f = inst_funct inst in
      if f \<in> {CPU_FUNCT_SLL, CPU_FUNCT_SRL, CPU_FUNCT_SRA, CPU_FUNCT_SLLV, CPU_FUNCT_SRLV, CPU_FUNCT_SRAV}
      then on_cpu (cpu_execute_shift inst) s
      else if f \<in> {CPU_FUNCT_AND, CPU_FUNCT_OR, CPU_FUNCT_XOR, CPU_FUNCT_NOR}
      then on_cpu (cpu_execute_logic inst) s
      else if f \<in> {CPU_FUNCT_ADD, CPU_FUNCT_ADDU, CPU_FUNCT_SUB, CPU_FUNCT_SUBU}
      then cpu_execute_arith env inst s
      else if f \<in> {CPU_FUNCT_SLT, CPU_FUNCT_SLTU} then on_cpu (cpu_execute_slt inst) s
      else if f \<in> {CPU_FUNCT_MFHI, CPU_FUNCT_MTHI, CPU_FUNCT_MFLO, CPU_FUNCT_MTLO}
      then on_cpu (cpu_execute_hilo inst) s
      else if f \<in> {CPU_FUNCT_MULT, CPU_FUNCT_MULTU} then on_cpu (cpu_execute_mult inst) s
      else if f \<in> {CPU_FUNCT_DIV, CPU_FUNCT_DIVU} then on_cpu (cpu_execute_div inst) s
      else if f \<in> {CPU_FUNCT_JR, CPU_FUNCT_JALR} then on_cpu (cpu_execute_jump_reg inst) s
      else if f \<in> {CPU_FUNCT_SYSCALL, CPU_FUNCT_BREAK} then cpu_execute_trap env inst s
      else cpu_raise_exception env CPU_EXCEPTION_RI s)"

section \<open>The immediate format\<close>

definition cpu_execute_imm ::
  "('a bus_sys_scheme) cpu_env \<Rightarrow> u32 \<Rightarrow> 'a bus_sys_scheme \<Rightarrow> 'a bus_sys_scheme" where
  "cpu_execute_imm env inst s =
     (let op = inst_op inst; rs_val = cpu_read_reg (inst_rs inst) (cpu s);
          zext = cpu_instr_imm_zext32 inst; sext = cpu_instr_imm_sext32 inst;
          put = (\<lambda>v. on_cpu (cpu_write_reg (inst_rt inst) v) s)
      in if op = CPU_OP_LUI then put (push_bit 16 zext)
         else if op = CPU_OP_ANDI then put (rs_val AND zext)
         else if op = CPU_OP_ORI then put (rs_val OR zext)
         else if op = CPU_OP_XORI then put (rs_val XOR zext)
         else if op = CPU_OP_ADDI
         then (case cpu_add_overflow rs_val sext of (ov, rt_val) \<Rightarrow>
                 if ov then cpu_raise_exception env CPU_EXCEPTION_OV s else put rt_val)
         else if op = CPU_OP_ADDIU then put (rs_val + sext)
         else if op = CPU_OP_SLTI then put (u32_of_bool (sint rs_val < sint sext))
         else put (u32_of_bool (rs_val < sext)))"

definition effective_address :: "u32 \<Rightarrow> cpu_state \<Rightarrow> u32" where
  "effective_address inst c = cpu_read_reg (inst_rs inst) c + cpu_instr_imm_sext32 inst"

definition cpu_execute_load ::
  "('a bus_sys_scheme) cpu_env \<Rightarrow> u32 \<Rightarrow> 'a bus_sys_scheme \<Rightarrow> 'a bus_sys_scheme" where
  "cpu_execute_load env inst s =
     (let op = inst_op inst;
          sz = (if op = CPU_OP_LB \<or> op = CPU_OP_LBU then MEMORY_ACCESS_SIZE_BYTE
                else if op = CPU_OP_LH \<or> op = CPU_OP_LHU then MEMORY_ACCESS_SIZE_HALFWORD
                else MEMORY_ACCESS_SIZE_WORD)
      in case cpu_read_memory env sz (effective_address inst (cpu s)) s of
           (None, s) \<Rightarrow> s
         | (Some v, s) \<Rightarrow> on_cpu (cpu_write_reg_delayed (inst_rt inst)
               (if op = CPU_OP_LB then signed_take_bit 7 v
                else if op = CPU_OP_LH then signed_take_bit 15 v
                else v)) s)"

text \<open>The merges of the unaligned loads and stores; \<open>shift\<close> is eight times the byte offset.\<close>

definition unaligned_shift :: "u32 \<Rightarrow> nat" where
  "unaligned_shift address = unat (address AND 3) * 8"

definition lwl_merge :: "nat \<Rightarrow> u32 \<Rightarrow> u32 \<Rightarrow> u32" where
  "lwl_merge shift existing aligned =
     (existing AND drop_bit shift 0x00FFFFFF) OR push_bit (24 - shift) aligned"

definition lwr_merge :: "nat \<Rightarrow> u32 \<Rightarrow> u32 \<Rightarrow> u32" where
  "lwr_merge shift existing aligned =
     (existing AND push_bit (24 - shift) 0xFFFFFF00) OR drop_bit shift aligned"

definition swl_merge :: "nat \<Rightarrow> u32 \<Rightarrow> u32 \<Rightarrow> u32" where
  "swl_merge shift mem reg = (mem AND push_bit shift 0xFFFFFF00) OR drop_bit (24 - shift) reg"

definition swr_merge :: "nat \<Rightarrow> u32 \<Rightarrow> u32 \<Rightarrow> u32" where
  "swr_merge shift mem reg = (mem AND drop_bit (24 - shift) 0x00FFFFFF) OR push_bit shift reg"

definition cpu_execute_load_unaligned ::
  "('a bus_sys_scheme) cpu_env \<Rightarrow> u32 \<Rightarrow> 'a bus_sys_scheme \<Rightarrow> 'a bus_sys_scheme" where
  "cpu_execute_load_unaligned env inst s =
     (let addr = effective_address inst (cpu s)
      in case cpu_read_memory env MEMORY_ACCESS_SIZE_WORD (addr AND NOT 3) s of
           (None, s) \<Rightarrow> s
         | (Some aligned_value, s) \<Rightarrow>
             let rt = inst_rt inst;
                 existing_value = (if rt = load_delay_reg (cpu s) then load_delay_value (cpu s)
                                   else cpu_read_reg rt (cpu s));
                 shift = unaligned_shift addr;
                 new_value = (if inst_op inst = CPU_OP_LWL
                              then lwl_merge shift existing_value aligned_value
                              else lwr_merge shift existing_value aligned_value)
             in on_cpu (cpu_write_reg_delayed rt new_value) s)"

definition cpu_execute_store ::
  "('a bus_sys_scheme) cpu_env \<Rightarrow> u32 \<Rightarrow> 'a bus_sys_scheme \<Rightarrow> 'a bus_sys_scheme" where
  "cpu_execute_store env inst s =
     (let op = inst_op inst;
          sz = (if op = CPU_OP_SB then MEMORY_ACCESS_SIZE_BYTE
                else if op = CPU_OP_SH then MEMORY_ACCESS_SIZE_HALFWORD else MEMORY_ACCESS_SIZE_WORD)
      in snd (cpu_write_memory env sz (effective_address inst (cpu s))
                (cpu_read_reg (inst_rt inst) (cpu s)) s))"

definition cpu_execute_store_unaligned ::
  "('a bus_sys_scheme) cpu_env \<Rightarrow> u32 \<Rightarrow> 'a bus_sys_scheme \<Rightarrow> 'a bus_sys_scheme" where
  "cpu_execute_store_unaligned env inst s =
     (let addr = effective_address inst (cpu s);
          reg_value = cpu_read_reg (inst_rt inst) (cpu s)
      in case cpu_read_memory env MEMORY_ACCESS_SIZE_WORD (addr AND NOT 3) s of
           (None, s) \<Rightarrow> s
         | (Some mem_value, s) \<Rightarrow>
             let shift = unaligned_shift addr;
                 new_value = (if inst_op inst = CPU_OP_SWL then swl_merge shift mem_value reg_value
                              else swr_merge shift mem_value reg_value)
             in snd (cpu_write_memory env MEMORY_ACCESS_SIZE_WORD (addr AND NOT 3) new_value s))"

section \<open>Jumps and branches\<close>

definition cpu_execute_jump :: "u32 \<Rightarrow> cpu_state \<Rightarrow> cpu_state" where
  "cpu_execute_jump inst c =
     (let c = (if inst_op inst = CPU_OP_JAL then cpu_write_reg CPU_REG_RA (npc c) c else c);
          c = c\<lparr>next_instruction_is_branch_delay_slot := True\<rparr>
      in cpu_branch ((pc c AND 0xF0000000) OR push_bit 2 (inst_target inst)) c)"

definition branch_target :: "u32 \<Rightarrow> cpu_state \<Rightarrow> u32" where
  "branch_target inst c = pc c + push_bit 2 (cpu_instr_imm_sext32 inst)"

definition branch_condition :: "u32 \<Rightarrow> cpu_state \<Rightarrow> bool" where
  "branch_condition inst c =
     (let op = inst_op inst; rs_val = cpu_read_reg (inst_rs inst) c; rt_val = cpu_read_reg (inst_rt inst) c
      in if op = CPU_OP_BEQ then rs_val = rt_val
         else if op = CPU_OP_BNE then rs_val \<noteq> rt_val
         else if op = CPU_OP_BGTZ then sint rs_val > 0
         else if op = CPU_OP_BLEZ then sint rs_val \<le> 0
         else (sint rs_val < 0) \<noteq> odd (inst_rt inst))"

text \<open>\<open>CPU_OP_B\<close> links when \<open>rt & 0x1E\<close> is 0x10, taken or not.\<close>

definition branch_links :: "u32 \<Rightarrow> bool" where
  "branch_links inst \<longleftrightarrow> inst_op inst = CPU_OP_B \<and> inst_rt inst AND 0x1E = 0x10"

definition cpu_execute_branch :: "u32 \<Rightarrow> cpu_state \<Rightarrow> cpu_state" where
  "cpu_execute_branch inst c =
     (let taken = branch_condition inst c;
          c = c\<lparr>next_instruction_is_branch_delay_slot := True\<rparr>;
          c = (if branch_links inst then cpu_write_reg CPU_REG_RA (npc c) c else c)
      in if taken then cpu_branch (branch_target inst c) c else c)"

section \<open>Coprocessor 0\<close>

definition CPU_COP0_CAUSE_WRITE_MASK :: u32 where "CPU_COP0_CAUSE_WRITE_MASK = 0x300"
definition CPU_COP0_SR_WRITE_MASK :: u32 where "CPU_COP0_SR_WRITE_MASK = 0xF027FF3F"
definition CPU_COP0_DCIC_WRITE_MASK :: u32 where "CPU_COP0_DCIC_WRITE_MASK = 0xFF80F03F"

definition masked_write :: "u32 \<Rightarrow> u32 \<Rightarrow> u32 \<Rightarrow> u32" where
  "masked_write m old v = (old AND NOT m) OR (v AND m)"

definition cop0_read :: "nat \<Rightarrow> cop0_registers \<Rightarrow> u32 option" where
  "cop0_read n r =
     (if n = 3 then Some (BPC r) else if n = 11 then Some (BPCM r) else if n = 5 then Some (BDA r)
      else if n = 9 then Some (BDAM r) else if n = 7 then Some (dcic r) else if n = 6 then Some (TAR r)
      else if n = 8 then Some (BadVaddr r) else if n = 12 then Some (sr r)
      else if n = 13 then Some (cause r) else if n = 14 then Some (EPC r)
      else if n = 15 then Some (PRID r) else None)"

text \<open>
  The debug dispatcher flag is never set in this program, so the writes to BPCM and DCIC do
  not leave the execution loop.  \<open>None\<close> is a reserved register.
\<close>

definition cop0_write :: "nat \<Rightarrow> u32 \<Rightarrow> cpu_state \<Rightarrow> cpu_state option" where
  "cop0_write n v c =
     (if n = 3 then Some (upd_cop0 (\<lambda>r. r\<lparr>BPC := v\<rparr>) c)
      else if n = 11 then Some (upd_cop0 (\<lambda>r. r\<lparr>BPCM := v\<rparr>) c)
      else if n = 5 then Some (upd_cop0 (\<lambda>r. r\<lparr>BDA := v\<rparr>) c)
      else if n = 9 then Some (upd_cop0 (\<lambda>r. r\<lparr>BDAM := v\<rparr>) c)
      else if n = 7 then Some (upd_cop0 (\<lambda>r. r\<lparr>dcic := masked_write CPU_COP0_DCIC_WRITE_MASK (dcic r) v\<rparr>) c)
      else if n = 12 then Some (cpu_check_for_pending_interrupt
             (upd_cop0 (\<lambda>r. r\<lparr>sr := masked_write CPU_COP0_SR_WRITE_MASK (sr r) v\<rparr>) c))
      else if n = 13 then Some (cpu_check_for_pending_interrupt
             (upd_cop0 (\<lambda>r. r\<lparr>cause := masked_write CPU_COP0_CAUSE_WRITE_MASK (cause r) v\<rparr>) c))
      else if n = 6 \<or> n = 8 \<or> n = 14 then Some c
      else None)"

definition cpu_in_user_mode :: "cpu_state \<Rightarrow> bool" where
  "cpu_in_user_mode c \<longleftrightarrow> sr_KUc (sr (cop0_regs c))"

definition cpu_execute_rfe :: "cpu_state \<Rightarrow> cpu_state" where
  "cpu_execute_rfe c = cpu_check_for_pending_interrupt (upd_cop0 (\<lambda>r. r\<lparr>sr := sr_pop (sr r)\<rparr>) c)"

definition cpu_execute_cop0 ::
  "('a bus_sys_scheme) cpu_env \<Rightarrow> u32 \<Rightarrow> 'a bus_sys_scheme \<Rightarrow> 'a bus_sys_scheme" where
  "cpu_execute_cop0 env inst s =
     (if cpu_in_user_mode (cpu s) \<and> \<not> sr_CU0 (sr (cop0_regs (cpu s)))
      then cpu_raise_exception env CPU_EXCEPTION_CPU s
      else if cpu_cop_is_common_instruction inst
      then if cpu_cop_common_op inst = 0
           then (case cop0_read (inst_rd inst) (cop0_regs (cpu s)) of
                   None \<Rightarrow> cpu_raise_exception env CPU_EXCEPTION_RI s
                 | Some v \<Rightarrow> on_cpu (cpu_write_reg_delayed (inst_rt inst) v) s)
           else if cpu_cop_common_op inst = 4
           then (case cop0_write (inst_rd inst) (cpu_read_reg (inst_rt inst) (cpu s)) (cpu s) of
                   None \<Rightarrow> cpu_raise_exception env CPU_EXCEPTION_RI s
                 | Some c \<Rightarrow> on_cpu (\<lambda>_. c) s)
           else s
      else if cpu_cop0_op inst = 0x10 then on_cpu cpu_execute_rfe s
      else if cpu_cop0_op inst \<in> {0x01, 0x02, 0x04, 0x08} then cpu_raise_exception env CPU_EXCEPTION_RI s
      else s)"

section \<open>Coprocessor 2 and coprocessor transfers\<close>

definition gte_put :: "nat \<Rightarrow> u32 \<Rightarrow> cpu_state \<Rightarrow> cpu_state" where
  "gte_put i v c = c\<lparr>gte_regs := gte_write_register i v (gte_regs c)\<rparr>"

definition cpu_run_gte ::
  "('a bus_sys_scheme) cpu_env \<Rightarrow> u32 \<Rightarrow> 'a bus_sys_scheme \<Rightarrow> 'a bus_sys_scheme option" where
  "cpu_run_gte env inst s =
     (let s = on_cpu cpu_stall_until_gte_complete s in
      map_option (\<lambda>g. on_cpu (\<lambda>c. c\<lparr>gte_regs := g\<rparr>) s)
        (gte_execute (gte_settings env) inst (gte_regs (cpu s))))"

definition cpu_execute_cop2 ::
  "('a bus_sys_scheme) cpu_env \<Rightarrow> u32 \<Rightarrow> 'a bus_sys_scheme \<Rightarrow> 'a bus_sys_scheme option" where
  "cpu_execute_cop2 env inst s =
     (if \<not> sr_CE2 (sr (cop0_regs (cpu s))) then Some (cpu_raise_exception env CPU_EXCEPTION_CPU s)
      else if cpu_cop_is_common_instruction inst
      then let op = cpu_cop_common_op inst; rd = inst_rd inst; rt = inst_rt inst in
           if op = 2 then Some (on_cpu (\<lambda>c. let c = cpu_stall_until_gte_complete c in
                  cpu_write_reg_delayed rt (gte_read_register (rd + 32) (gte_regs c)) c) s)
           else if op = 6 then Some (on_cpu (\<lambda>c. gte_put (rd + 32) (cpu_read_reg rt c) c) s)
           else if op = 0 then Some (on_cpu (\<lambda>c. let c = cpu_stall_until_gte_complete c in
                  cpu_write_reg_delayed rt (gte_read_register rd (gte_regs c)) c) s)
           else if op = 4 then Some (on_cpu (\<lambda>c. gte_put rd (cpu_read_reg rt c) c) s)
           else Some s
      else cpu_run_gte env inst s)"

definition cpu_execute_lwc2 ::
  "('a bus_sys_scheme) cpu_env \<Rightarrow> u32 \<Rightarrow> 'a bus_sys_scheme \<Rightarrow> 'a bus_sys_scheme" where
  "cpu_execute_lwc2 env inst s =
     (if \<not> sr_CE2 (sr (cop0_regs (cpu s))) then cpu_raise_exception env CPU_EXCEPTION_CPU s
      else case cpu_read_memory env MEMORY_ACCESS_SIZE_WORD (effective_address inst (cpu s)) s of
             (None, s) \<Rightarrow> s
           | (Some v, s) \<Rightarrow> on_cpu (gte_put (inst_rt inst) v) s)"

definition cpu_execute_swc2 ::
  "('a bus_sys_scheme) cpu_env \<Rightarrow> u32 \<Rightarrow> 'a bus_sys_scheme \<Rightarrow> 'a bus_sys_scheme" where
  "cpu_execute_swc2 env inst s =
     (if \<not> sr_CE2 (sr (cop0_regs (cpu s))) then cpu_raise_exception env CPU_EXCEPTION_CPU s
      else let s = on_cpu cpu_stall_until_gte_complete s
           in snd (cpu_write_memory env MEMORY_ACCESS_SIZE_WORD (effective_address inst (cpu s))
                     (gte_read_register (inst_rt inst) (gte_regs (cpu s))) s))"

text \<open>The transfers of the coprocessors that are not there keep their memory access.\<close>

definition cpu_execute_absent_cop ::
  "('a bus_sys_scheme) cpu_env \<Rightarrow> u32 \<Rightarrow> 'a bus_sys_scheme \<Rightarrow> 'a bus_sys_scheme" where
  "cpu_execute_absent_cop env inst s =
     (let op = inst_op inst; addr = effective_address inst (cpu s) in
      if op = CPU_OP_COP1 \<or> op = CPU_OP_COP3 then s
      else if op = CPU_OP_LWC0 \<or> op = CPU_OP_LWC1 \<or> op = CPU_OP_LWC3
      then snd (cpu_read_memory env MEMORY_ACCESS_SIZE_WORD addr s)
      else snd (cpu_write_memory env MEMORY_ACCESS_SIZE_WORD addr 0 s))"

section \<open>The whole switch\<close>

definition known_ops :: "nat set" where
  "known_ops = {0..19} \<union> {32..38} \<union> {40..43} \<union> {46} \<union> {48..51} \<union> {56..59}"

text \<open>The switch without its default case.\<close>

definition cpu_execute_known ::
  "('a bus_sys_scheme) cpu_env \<Rightarrow> u32 \<Rightarrow> 'a bus_sys_scheme \<Rightarrow> 'a bus_sys_scheme option" where
  "cpu_execute_known env inst s =
     (let op = inst_op inst in
      if op = CPU_OP_FUNCT then Some (cpu_execute_funct env inst s)
      else if CPU_OP_ADDI \<le> op \<and> op \<le> CPU_OP_LUI then Some (cpu_execute_imm env inst s)
      else if op = CPU_OP_LB \<or> op = CPU_OP_LH \<or> op = CPU_OP_LW \<or> op = CPU_OP_LBU \<or> op = CPU_OP_LHU
      then Some (cpu_execute_load env inst s)
      else if op = CPU_OP_LWL \<or> op = CPU_OP_LWR then Some (cpu_execute_load_unaligned env inst s)
      else if op = CPU_OP_SB \<or> op = CPU_OP_SH \<or> op = CPU_OP_SW then Some (cpu_execute_store env inst s)
      else if op = CPU_OP_SWL \<or> op = CPU_OP_SWR then Some (cpu_execute_store_unaligned env inst s)
      else if op = CPU_OP_J \<or> op = CPU_OP_JAL then Some (on_cpu (cpu_execute_jump inst) s)
      else if op = CPU_OP_BEQ \<or> op = CPU_OP_BNE \<or> op = CPU_OP_BGTZ \<or> op = CPU_OP_BLEZ \<or> op = CPU_OP_B
      then Some (on_cpu (cpu_execute_branch inst) s)
      else if op = CPU_OP_COP0 then Some (cpu_execute_cop0 env inst s)
      else if op = CPU_OP_COP2 then cpu_execute_cop2 env inst s
      else if op = CPU_OP_LWC2 then Some (cpu_execute_lwc2 env inst s)
      else if op = CPU_OP_SWC2 then Some (cpu_execute_swc2 env inst s)
      else Some (cpu_execute_absent_cop env inst s))"

text \<open>
  A reserved opcode is compared with RAM: a stale cache word is replaced and decoded again
  (the \<open>goto\<close> of the source), otherwise the reserved-instruction exception is taken.
\<close>

partial_function (option) cpu_execute_instruction ::
  "('a bus_sys_scheme) cpu_env \<Rightarrow> 'a bus_sys_scheme \<Rightarrow> 'a bus_sys_scheme option" where
  "cpu_execute_instruction env s =
     (let inst = current_instruction (cpu s) in
      if inst = 0 then Some s
      else if inst_op inst \<in> known_ops then cpu_execute_known env inst s
      else case cpu_safe_read_instruction (current_instruction_pc (cpu s)) s of
             Some w \<Rightarrow>
               if w \<noteq> inst
               then cpu_execute_instruction env (on_cpu (\<lambda>c. c\<lparr>current_instruction := w\<rparr>) s)
               else Some (cpu_raise_exception env CPU_EXCEPTION_RI s)
           | None \<Rightarrow> Some (cpu_raise_exception env CPU_EXCEPTION_RI s))"

section \<open>The step\<close>

definition begin_instruction :: "u32 \<Rightarrow> cpu_state \<Rightarrow> cpu_state" where
  "begin_instruction inst c = c\<lparr>
     pending_ticks := pending_ticks c + 1,
     current_instruction := inst,
     current_instruction_pc := pc c,
     current_instruction_in_branch_delay_slot := next_instruction_is_branch_delay_slot c,
     current_instruction_was_branch_taken := branch_was_taken c,
     next_instruction_is_branch_delay_slot := False,
     branch_was_taken := False,
     exception_raised := False\<rparr>"

definition cpu_execute_prefetched_instruction ::
  "('a bus_sys_scheme) cpu_env \<Rightarrow> u32 \<Rightarrow> 'a bus_sys_scheme \<Rightarrow> (bool \<times> 'a bus_sys_scheme) option" where
  "cpu_execute_prefetched_instruction env inst s =
     (case cpu_raise_pending_fetch_exception env s of
        (True, s) \<Rightarrow> Some (False, s)
      | (False, s) \<Rightarrow>
          map_option (\<lambda>s. (True, on_cpu cpu_update_load_delay s))
            (cpu_execute_instruction env (cpu_fetch_instruction env (on_cpu (begin_instruction inst) s))))"

definition cpu_core_execute_interpreter_instruction ::
  "('a bus_sys_scheme) cpu_env \<Rightarrow> 'a bus_sys_scheme \<Rightarrow> 'a bus_sys_scheme option" where
  "cpu_core_execute_interpreter_instruction env s =
     map_option snd (cpu_execute_prefetched_instruction env (next_instruction (cpu s)) s)"

definition cpu_dispatch_interrupt ::
  "('a bus_sys_scheme) cpu_env \<Rightarrow> 'a bus_sys_scheme \<Rightarrow> 'a bus_sys_scheme option" where
  "cpu_dispatch_interrupt env s =
     (let s = (case cpu_safe_read_instruction (pc (cpu s)) s of
                 Some w \<Rightarrow> on_cpu (\<lambda>c. c\<lparr>next_instruction := w\<rparr>) s | None \<Rightarrow> s);
          inst = next_instruction (cpu s)
      in do {
        s \<leftarrow> (if inst_op inst = CPU_OP_COP2 \<and> \<not> cpu_cop_is_common_instruction inst
              then cpu_run_gte env inst s else Some s);
        timing_events_update_cpu_downcount
          (cpu_raise_exception_bits env
             (cpu_cop0_cause_make CPU_EXCEPTION_INT (next_instruction_is_branch_delay_slot (cpu s))
                (branch_was_taken (cpu s)) (inst_cop_n inst))
             (pc (cpu s)) s) })"

end
