(* ===== verification/Cpu_Decode.thy ===== *)
theory Cpu_Decode
  imports Cpu_Exec
begin

text \<open>
  The instruction classifiers of \<^verbatim>\<open>src/core/cpu/cpu_types.c\<close>, which the block
  compiler relies on, and their agreement with what the interpreter does: which instructions open a
  branch-delay slot, where a taken direct branch goes, which words are reserved.
\<close>

definition cpu_is_nop_instruction :: "u32 \<Rightarrow> bool" where
  "cpu_is_nop_instruction inst \<longleftrightarrow> inst = 0"

definition cpu_is_branch_instruction :: "u32 \<Rightarrow> bool" where
  "cpu_is_branch_instruction inst \<longleftrightarrow>
     inst_op inst \<in> {CPU_OP_J, CPU_OP_JAL, CPU_OP_B, CPU_OP_BEQ, CPU_OP_BGTZ, CPU_OP_BLEZ, CPU_OP_BNE} \<or>
     (inst_op inst = CPU_OP_FUNCT \<and> inst_funct inst \<in> {CPU_FUNCT_JR, CPU_FUNCT_JALR})"

definition cpu_is_unconditional_branch_instruction :: "u32 \<Rightarrow> bool" where
  "cpu_is_unconditional_branch_instruction inst \<longleftrightarrow>
     inst_op inst \<in> {CPU_OP_J, CPU_OP_JAL, CPU_OP_B} \<or>
     (inst_op inst = CPU_OP_BEQ \<and> inst_rs inst = 0 \<and> inst_rt inst = 0) \<or>
     (inst_op inst = CPU_OP_FUNCT \<and> inst_funct inst \<in> {CPU_FUNCT_JR, CPU_FUNCT_JALR})"

definition cpu_is_direct_branch_instruction :: "u32 \<Rightarrow> bool" where
  "cpu_is_direct_branch_instruction inst \<longleftrightarrow>
     inst_op inst \<in> {CPU_OP_J, CPU_OP_JAL, CPU_OP_B, CPU_OP_BEQ, CPU_OP_BGTZ, CPU_OP_BLEZ, CPU_OP_BNE}"

definition cpu_get_direct_branch_target :: "u32 \<Rightarrow> u32 \<Rightarrow> u32" where
  "cpu_get_direct_branch_target inst instruction_pc =
     (let pc = instruction_pc + 4; op = inst_op inst in
      if op \<in> {CPU_OP_J, CPU_OP_JAL} then (pc AND 0xF0000000) OR push_bit 2 (inst_target inst)
      else if op \<in> {CPU_OP_B, CPU_OP_BEQ, CPU_OP_BGTZ, CPU_OP_BLEZ, CPU_OP_BNE}
      then pc + push_bit 2 (cpu_instr_imm_sext32 inst)
      else pc)"

definition cpu_is_call_instruction :: "u32 \<Rightarrow> bool" where
  "cpu_is_call_instruction inst \<longleftrightarrow>
     (inst_op inst = CPU_OP_FUNCT \<and> inst_funct inst = CPU_FUNCT_JALR) \<or> inst_op inst = CPU_OP_JAL"

definition cpu_is_return_instruction :: "u32 \<Rightarrow> bool" where
  "cpu_is_return_instruction inst \<longleftrightarrow>
     inst_op inst = CPU_OP_FUNCT \<and> inst_funct inst \<in> {CPU_FUNCT_JR, CPU_FUNCT_JALR} \<and>
     inst_rs inst = CPU_REG_RA"

definition cpu_is_memory_load_instruction :: "u32 \<Rightarrow> bool" where
  "cpu_is_memory_load_instruction inst \<longleftrightarrow>
     inst_op inst \<in> {CPU_OP_LB, CPU_OP_LH, CPU_OP_LW, CPU_OP_LBU, CPU_OP_LHU, CPU_OP_LWL, CPU_OP_LWR,
       CPU_OP_LWC2}"

definition cpu_is_memory_store_instruction :: "u32 \<Rightarrow> bool" where
  "cpu_is_memory_store_instruction inst \<longleftrightarrow>
     inst_op inst \<in> {CPU_OP_SB, CPU_OP_SH, CPU_OP_SW, CPU_OP_SWL, CPU_OP_SWR, CPU_OP_SWC2}"

definition cpu_get_load_store_effective_address :: "u32 \<Rightarrow> (nat \<Rightarrow> u32) \<Rightarrow> u32 option" where
  "cpu_get_load_store_effective_address inst r =
     (let a = r (inst_rs inst) + cpu_instr_imm_sext32 inst; op = inst_op inst in
      if op \<in> {CPU_OP_LB, CPU_OP_LH, CPU_OP_LW, CPU_OP_LBU, CPU_OP_LHU, CPU_OP_LWC2, CPU_OP_SB,
               CPU_OP_SH, CPU_OP_SW, CPU_OP_SWC2} then Some a
      else if op \<in> {CPU_OP_LWL, CPU_OP_LWR, CPU_OP_SWL, CPU_OP_SWR} then Some (a AND NOT 3)
      else None)"

definition cpu_instruction_has_load_delay :: "u32 \<Rightarrow> bool" where
  "cpu_instruction_has_load_delay inst \<longleftrightarrow>
     inst_op inst \<in> {CPU_OP_LB, CPU_OP_LH, CPU_OP_LW, CPU_OP_LBU, CPU_OP_LHU, CPU_OP_LWL, CPU_OP_LWR} \<or>
     (inst_op inst \<in> {CPU_OP_COP0, CPU_OP_COP2} \<and> cpu_cop_is_common_instruction inst \<and>
      cpu_cop_common_op inst \<in> {0, 2})"

definition cpu_is_exit_block_instruction :: "u32 \<Rightarrow> bool" where
  "cpu_is_exit_block_instruction inst \<longleftrightarrow>
     inst_op inst = CPU_OP_FUNCT \<and> inst_funct inst \<in> {CPU_FUNCT_SYSCALL, CPU_FUNCT_BREAK}"

text \<open>The bit-set tables, entry by entry.\<close>

definition op_bits :: "nat list \<Rightarrow> u32" where
  "op_bits ns = fold (\<lambda>n w. w OR push_bit n 1) ns 0"

definition cpu_valid_op_map :: "u32 list" where
  "cpu_valid_op_map =
     [op_bits [CPU_OP_B, CPU_OP_J, CPU_OP_JAL, CPU_OP_BEQ, CPU_OP_BNE, CPU_OP_BLEZ, CPU_OP_BGTZ,
        CPU_OP_ADDI, CPU_OP_ADDIU, CPU_OP_SLTI, CPU_OP_SLTIU, CPU_OP_ANDI, CPU_OP_ORI, CPU_OP_XORI,
        CPU_OP_LUI, CPU_OP_COP0, CPU_OP_COP1, CPU_OP_COP2, CPU_OP_COP3],
      op_bits [CPU_OP_LB - 32, CPU_OP_LH - 32, CPU_OP_LWL - 32, CPU_OP_LW - 32, CPU_OP_LBU - 32,
        CPU_OP_LHU - 32, CPU_OP_LWR - 32, CPU_OP_SB - 32, CPU_OP_SH - 32, CPU_OP_SWL - 32,
        CPU_OP_SW - 32, CPU_OP_SWR - 32, CPU_OP_LWC0 - 32, CPU_OP_LWC1 - 32, CPU_OP_LWC2 - 32,
        CPU_OP_LWC3 - 32, CPU_OP_SWC0 - 32, CPU_OP_SWC1 - 32, CPU_OP_SWC2 - 32, CPU_OP_SWC3 - 32]]"

definition cpu_valid_func_map :: "u32 list" where
  "cpu_valid_func_map =
     [op_bits [CPU_FUNCT_SLL, CPU_FUNCT_SRL, CPU_FUNCT_SRA, CPU_FUNCT_SLLV, CPU_FUNCT_SRLV,
        CPU_FUNCT_SRAV, CPU_FUNCT_JR, CPU_FUNCT_JALR, CPU_FUNCT_SYSCALL, CPU_FUNCT_BREAK,
        CPU_FUNCT_MFHI, CPU_FUNCT_MTHI, CPU_FUNCT_MFLO, CPU_FUNCT_MTLO, CPU_FUNCT_MULT,
        CPU_FUNCT_MULTU, CPU_FUNCT_DIV, CPU_FUNCT_DIVU],
      op_bits [CPU_FUNCT_ADD - 32, CPU_FUNCT_ADDU - 32, CPU_FUNCT_SUB - 32, CPU_FUNCT_SUBU - 32,
        CPU_FUNCT_AND - 32, CPU_FUNCT_OR - 32, CPU_FUNCT_XOR - 32, CPU_FUNCT_NOR - 32,
        CPU_FUNCT_SLT - 32, CPU_FUNCT_SLTU - 32]]"

definition cpu_is_valid_instruction :: "u32 \<Rightarrow> bool" where
  "cpu_is_valid_instruction inst =
     (let op = inst_op inst in
      if op = CPU_OP_FUNCT
      then let f = inst_funct inst in cpu_valid_func_map ! (f div 32) AND push_bit (f mod 32) 1 \<noteq> 0
      else cpu_valid_op_map ! (op div 32) AND push_bit (op mod 32) 1 \<noteq> 0)"

section \<open>The tables as sets\<close>

definition known_functs :: "nat set" where
  "known_functs = {0, 2, 3, 4, 6, 7, 8, 9, 12, 13} \<union> {16..19} \<union> {24..27} \<union> {32..39} \<union> {42, 43}"

lemma inst_op_bound: "inst_op w < 64"
proof -
  have "unat w < 2 ^ 32" using unsigned_less [of w] by simp
  then show ?thesis by (simp add: inst_op_def drop_bit_eq_div unat_div)
qed

lemma inst_funct_bound: "inst_funct w < 64"
  using bits_get_bound [of 6 w 0] by (simp add: inst_funct_def)

lemma all_below_64: "list_all P [0..<64] \<Longrightarrow> x < 64 \<Longrightarrow> P x"
  by (simp add: list_all_iff)

lemma valid_op_iff:
  assumes "op \<noteq> 0" "op < 64"
  shows "cpu_valid_op_map ! (op div 32) AND push_bit (op mod 32) 1 \<noteq> 0 \<longleftrightarrow> op \<in> known_ops"
proof -
  have "list_all (\<lambda>op. op \<noteq> 0 \<longrightarrow>
      cpu_valid_op_map ! (op div 32) AND push_bit (op mod 32) 1 \<noteq> 0 \<longleftrightarrow> op \<in> known_ops) [0..<64]"
    unfolding cpu_valid_op_map_def known_ops_def by code_simp
  then show ?thesis using assms all_below_64 by blast
qed

lemma valid_funct_iff:
  assumes "f < 64"
  shows "cpu_valid_func_map ! (f div 32) AND push_bit (f mod 32) 1 \<noteq> 0 \<longleftrightarrow> f \<in> known_functs"
proof -
  have "list_all (\<lambda>f.
      cpu_valid_func_map ! (f div 32) AND push_bit (f mod 32) 1 \<noteq> 0 \<longleftrightarrow> f \<in> known_functs) [0..<64]"
    unfolding cpu_valid_func_map_def known_functs_def by code_simp
  then show ?thesis using assms all_below_64 by blast
qed

lemma valid_instruction_iff:
  "cpu_is_valid_instruction inst \<longleftrightarrow>
     (if inst_op inst = CPU_OP_FUNCT then inst_funct inst \<in> known_functs else inst_op inst \<in> known_ops)"
  using valid_op_iff [of "inst_op inst"] valid_funct_iff [of "inst_funct inst"]
    inst_op_bound inst_funct_bound
  by (simp add: cpu_is_valid_instruction_def Let_def)

end
