(* ===== verification/Cpu_Frame.thy ===== *)
theory Cpu_Frame
  imports Cpu_Decode
begin

text \<open>
  What a memory handler may do to the CPU, as the locale \<open>cpu_bus\<close>: it may charge
  ticks, report a bus error, move the interrupt request line and touch the caches, and it leaves
  the program-visible core alone.  Inside the locale: what fetching, flushing and raising an
  exception do to the core, and the register-file invariant.
\<close>

text \<open>The core of the CPU: everything a handler leaves alone.\<close>

definition core_view :: "cpu_state \<Rightarrow> cpu_state" where
  "core_view c = c\<lparr>downcount := 0, pending_ticks := 0, gte_completion_tick := 0,
     muldiv_completion_tick := 0, bus_error := False, cache_control := 0,
     cop0_regs := (cop0_regs c)\<lparr>cause := flag_put 10 False (cause (cop0_regs c))\<rparr>,
     icache_tags := (\<lambda>_. 0), icache_data := (\<lambda>_. 0), scratchpad := (\<lambda>_. 0)\<rparr>"

abbreviation core_same :: "cpu_state \<Rightarrow> cpu_state \<Rightarrow> bool" where
  "core_same c c' \<equiv> core_view c' = core_view c"

lemma core_view_fields:
  "regs (core_view c) = regs c" "pc (core_view c) = pc c" "npc (core_view c) = npc c"
  "current_instruction (core_view c) = current_instruction c"
  "current_instruction_pc (core_view c) = current_instruction_pc c"
  "current_instruction_in_branch_delay_slot (core_view c) = current_instruction_in_branch_delay_slot c"
  "current_instruction_was_branch_taken (core_view c) = current_instruction_was_branch_taken c"
  "next_instruction_is_branch_delay_slot (core_view c) = next_instruction_is_branch_delay_slot c"
  "branch_was_taken (core_view c) = branch_was_taken c"
  "exception_raised (core_view c) = exception_raised c"
  "next_instruction_fetch_exception (core_view c) = next_instruction_fetch_exception c"
  "load_delay_reg (core_view c) = load_delay_reg c"
  "next_load_delay_reg (core_view c) = next_load_delay_reg c"
  "load_delay_value (core_view c) = load_delay_value c"
  "next_load_delay_value (core_view c) = next_load_delay_value c"
  "next_instruction (core_view c) = next_instruction c"
  "gte_regs (core_view c) = gte_regs c"
  "sr (cop0_regs (core_view c)) = sr (cop0_regs c)"
  "EPC (cop0_regs (core_view c)) = EPC (cop0_regs c)"
  "TAR (cop0_regs (core_view c)) = TAR (cop0_regs c)"
  "BadVaddr (cop0_regs (core_view c)) = BadVaddr (cop0_regs c)"
  "cause (cop0_regs (core_view c)) = flag_put 10 False (cause (cop0_regs c))"
  by (simp_all add: core_view_def)

lemma core_sameD:
  assumes "core_same c c'"
  shows "regs c' = regs c" "pc c' = pc c" "npc c' = npc c"
    "current_instruction c' = current_instruction c"
    "current_instruction_pc c' = current_instruction_pc c"
    "current_instruction_in_branch_delay_slot c' = current_instruction_in_branch_delay_slot c"
    "current_instruction_was_branch_taken c' = current_instruction_was_branch_taken c"
    "next_instruction_is_branch_delay_slot c' = next_instruction_is_branch_delay_slot c"
    "branch_was_taken c' = branch_was_taken c"
    "exception_raised c' = exception_raised c"
    "next_instruction_fetch_exception c' = next_instruction_fetch_exception c"
    "load_delay_reg c' = load_delay_reg c"
    "next_load_delay_reg c' = next_load_delay_reg c"
    "load_delay_value c' = load_delay_value c"
    "next_load_delay_value c' = next_load_delay_value c"
    "next_instruction c' = next_instruction c"
    "gte_regs c' = gte_regs c"
    "sr (cop0_regs c') = sr (cop0_regs c)"
    "EPC (cop0_regs c') = EPC (cop0_regs c)"
    "TAR (cop0_regs c') = TAR (cop0_regs c)"
    "BadVaddr (cop0_regs c') = BadVaddr (cop0_regs c)"
    "flag_put 10 False (cause (cop0_regs c')) = flag_put 10 False (cause (cop0_regs c))"
  using core_view_fields [of c] core_view_fields [of c'] assms by simp_all

lemma core_view_upd [simp]:
  "core_view (c\<lparr>pending_ticks := t\<rparr>) = core_view c"
  "core_view (c\<lparr>downcount := t\<rparr>) = core_view c"
  "core_view (c\<lparr>bus_error := b\<rparr>) = core_view c"
  "core_view (c\<lparr>cache_control := w\<rparr>) = core_view c"
  "core_view (c\<lparr>scratchpad := m\<rparr>) = core_view c"
  "core_view (icache_set_tag line t c) = core_view c"
  "core_view (icache_put slot ws c) = core_view c"
  "core_view (cpu_stall_until_gte_complete c) = core_view c"
  "core_view (cpu_stall_until_muldiv_complete c) = core_view c"
  "core_view (cpu_add_muldiv_ticks n c) = core_view c"
  "core_view (cpu_check_for_pending_interrupt c) = core_view c"
  "core_view (cpu_set_irq_request b c) = core_view c"
  by (simp_all add: core_view_def icache_set_tag_def icache_put_def cpu_stall_until_gte_complete_def
      cpu_stall_until_muldiv_complete_def cpu_add_muldiv_ticks_def cpu_check_for_pending_interrupt_def
      cpu_set_irq_request_def Let_def)

section \<open>The contract of the memory handlers\<close>

locale cpu_bus =
  fixes env :: "('a bus_sys_scheme) cpu_env"
  assumes read_frame: "core_same (cpu s) (cpu (snd (read_handler env isc swc sz a s)))"
    and write_frame: "core_same (cpu s) (cpu (write_handler env isc swc sz a v s))"
begin

lemma device_words_core: "core_same (cpu s) (cpu (snd (instruction_device_words env a n s)))"
proof (induction n arbitrary: a s)
  case (Suc n)
  obtain w r where r: "read_handler env False False MEMORY_ACCESS_SIZE_WORD a s = (w, r)"
    by (cases "read_handler env False False MEMORY_ACCESS_SIZE_WORD a s")
  then show ?case
    using Suc [where s = r and a = "a + 4"]
      read_frame [where isc = False and swc = False and sz = MEMORY_ACCESS_SIZE_WORD and a = a and s = s]
    by (simp add: case_prod_beta)
qed simp

lemma instruction_read_core:
  "core_same (cpu s) (cpu (snd (cpu_do_instruction_read env a t i n d s)))"
  using device_words_core [where a = "a AND CPU_KSEG_MASK" and s = s and n = n]
  by (auto simp: cpu_do_instruction_read_def Let_def split: option.splits prod.splits)

lemma fill_icache_core: "core_same (cpu s) (cpu (snd (cpu_fill_icache env a s)))"
  using instruction_read_core [where s = s and a = a and t = True and i = True and d = True
      and n = "4 - unat (cpu_get_icache_line_word_offset a)"]
  by (auto simp: cpu_fill_icache_def Let_def split: option.splits prod.splits)

lemma fetch_word_core: "core_same (cpu s) (cpu (snd (fetch_word env s)))"
  using fill_icache_core [where s = s and a = "npc (cpu s)"]
    instruction_read_core [where s = s and a = "npc (cpu s)" and t = True and i = False and n = 1 and d = True]
  by (auto simp: fetch_word_def Let_def split: option.splits prod.splits)

lemma fetch_core:
  obtains w e where "core_view (cpu (cpu_fetch_instruction env s)) =
    core_view ((cpu s)\<lparr>next_instruction := w, next_instruction_fetch_exception := e,
      pc := npc (cpu s), npc := npc (cpu s) + 4\<rparr>)"
proof -
  obtain w e r where r: "fetch_word env s = ((w, e), r)"
    by (cases "fetch_word env s") auto
  then have c: "core_same (cpu s) (cpu r)" using fetch_word_core [where s = s] by simp
  have view: "core_view (c'\<lparr>next_instruction := w, next_instruction_fetch_exception := e,
      pc := npc c', npc := npc c' + 4\<rparr>) =
    (core_view c')\<lparr>next_instruction := w, next_instruction_fetch_exception := e,
      pc := npc (core_view c'), npc := npc (core_view c') + 4\<rparr>" for c'
    by (simp add: core_view_def)
  show thesis
    by (rule that [where w = w and e = e])
      (use c r view [of "cpu r"] view [of "cpu s"] in \<open>simp add: cpu_fetch_instruction_def\<close>)
qed

text \<open>Flushing lands the pipeline on \<open>npc\<close> with the load-delay slot drained.\<close>

lemma flush_core:
  obtains w e where "core_view (cpu (cpu_flush_pipeline env s)) =
    core_view ((cpu_flush_load_delay (cpu s))\<lparr>branch_was_taken := False,
      next_instruction_is_branch_delay_slot := False, current_instruction_pc := pc (cpu s),
      next_instruction := w, next_instruction_fetch_exception := e,
      pc := npc (cpu s), npc := npc (cpu s) + 4, current_instruction := w,
      current_instruction_in_branch_delay_slot := False,
      current_instruction_was_branch_taken := False\<rparr>)"
proof -
  let ?f = "\<lambda>c. (cpu_flush_load_delay c)\<lparr>branch_was_taken := False,
      next_instruction_is_branch_delay_slot := False, current_instruction_pc := pc c\<rparr>"
  obtain w e where we: "core_view (cpu (cpu_fetch_instruction env (on_cpu ?f s))) =
    core_view ((?f (cpu s))\<lparr>next_instruction := w, next_instruction_fetch_exception := e,
      pc := npc (cpu s), npc := npc (cpu s) + 4\<rparr>)"
    by (rule fetch_core [of "on_cpu ?f s"]) (simp add: cpu_flush_load_delay_def put_reg_def)
  have view: "core_view (c\<lparr>current_instruction := next_instruction c,
      current_instruction_in_branch_delay_slot := False, current_instruction_was_branch_taken := False\<rparr>) =
    (core_view c)\<lparr>current_instruction := next_instruction (core_view c),
      current_instruction_in_branch_delay_slot := False, current_instruction_was_branch_taken := False\<rparr>" for c
    by (simp add: core_view_def)
  show thesis
    by (rule that [of w e])
      (simp add: cpu_flush_pipeline_def view we, simp add: core_view_def)
qed

lemma raise_core:
  obtains w e where "core_view (cpu (cpu_raise_exception_with_vector env bits epc vector s)) =
    core_view ((exception_cop0 bits epc (cpu_flush_load_delay (cpu s)))\<lparr>exception_raised := True,
      branch_was_taken := False, next_instruction_is_branch_delay_slot := False,
      current_instruction_pc := pc (cpu s), next_instruction := w, next_instruction_fetch_exception := e,
      pc := vector, npc := vector + 4, current_instruction := w,
      current_instruction_in_branch_delay_slot := False,
      current_instruction_was_branch_taken := False\<rparr>)"
proof -
  let ?f = "\<lambda>c. (exception_cop0 bits epc c)\<lparr>npc := vector, exception_raised := True\<rparr>"
  obtain w e where we: "core_view (cpu (cpu_flush_pipeline env (on_cpu ?f s))) =
    core_view ((cpu_flush_load_delay (?f (cpu s)))\<lparr>branch_was_taken := False,
      next_instruction_is_branch_delay_slot := False, current_instruction_pc := pc (?f (cpu s)),
      next_instruction := w, next_instruction_fetch_exception := e,
      pc := npc (?f (cpu s)), npc := npc (?f (cpu s)) + 4, current_instruction := w,
      current_instruction_in_branch_delay_slot := False,
      current_instruction_was_branch_taken := False\<rparr>)"
    by (rule flush_core [of "on_cpu ?f s"]) simp
  show thesis
    by (rule that [of w e])
      (simp add: cpu_raise_exception_with_vector_def we, simp add: core_view_def
        exception_cop0_def cpu_flush_load_delay_def put_reg_def Let_def)
qed

end

end
