(* ===== verification/Bus.thy ===== *)
theory Bus
  imports Cpu_Frame
begin

text \<open>
  The bus, \<^verbatim>\<open>src/core/memory/bus.c\<close>: reset, the memory-control registers and the
  access times they set, the page tables that map an address to its handlers, the code-page
  bitmap, and the region queries of \<^verbatim>\<open>bus.h\<close>.

  The host side is left out: the shared-memory map, page protection, the fastmem views (which
  mirror the tables and never disagree with them on RAM), and the TTY line buffer.
\<close>

definition BUS_RAM_2MB_SIZE :: u32 where "BUS_RAM_2MB_SIZE = 0x200000"
definition BUS_RAM_8MB_SIZE :: u32 where "BUS_RAM_8MB_SIZE = 0x800000"
definition BUS_RAM_MIRROR_SIZE :: u32 where "BUS_RAM_MIRROR_SIZE = 0x800000"
definition BUS_RAM_8MB_CODE_PAGE_COUNT :: u32 where "BUS_RAM_8MB_CODE_PAGE_COUNT = 2048"
definition BUS_MEMCTRL_REG_COUNT :: u32 where "BUS_MEMCTRL_REG_COUNT = 9"
definition MEMDELAY_WRITE_MASK :: u32 where "MEMDELAY_WRITE_MASK = 0xAF1FFFFF"
definition COMDELAY_WRITE_MASK :: u32 where "COMDELAY_WRITE_MASK = 0x0003FFFF"
definition HOST_PAGE_SHIFT :: nat where "HOST_PAGE_SHIFT = 12"
definition HOST_PAGE_SIZE :: u32 where "HOST_PAGE_SIZE = 0x1000"

lemmas bus_constants = BUS_RAM_2MB_SIZE_def BUS_RAM_8MB_SIZE_def BUS_RAM_MIRROR_SIZE_def
  BUS_RAM_8MB_CODE_PAGE_COUNT_def BUS_MEMCTRL_REG_COUNT_def MEMDELAY_WRITE_MASK_def
  COMDELAY_WRITE_MASK_def HOST_PAGE_SHIFT_def HOST_PAGE_SIZE_def

text \<open>The registers of \<open>memctrl_t\<close>, by index.\<close>

definition MEMCTRL_EXP1_BASE :: nat where "MEMCTRL_EXP1_BASE = 0"
definition MEMCTRL_EXP2_BASE :: nat where "MEMCTRL_EXP2_BASE = 1"
definition MEMCTRL_EXP1_DELAY :: nat where "MEMCTRL_EXP1_DELAY = 2"
definition MEMCTRL_EXP3_DELAY :: nat where "MEMCTRL_EXP3_DELAY = 3"
definition MEMCTRL_BIOS_DELAY :: nat where "MEMCTRL_BIOS_DELAY = 4"
definition MEMCTRL_SPU_DELAY :: nat where "MEMCTRL_SPU_DELAY = 5"
definition MEMCTRL_CDROM_DELAY :: nat where "MEMCTRL_CDROM_DELAY = 6"
definition MEMCTRL_EXP2_DELAY :: nat where "MEMCTRL_EXP2_DELAY = 7"
definition MEMCTRL_COMMON_DELAY :: nat where "MEMCTRL_COMMON_DELAY = 8"

lemmas memctrl_index_defs = MEMCTRL_EXP1_BASE_def MEMCTRL_EXP2_BASE_def MEMCTRL_EXP1_DELAY_def
  MEMCTRL_EXP3_DELAY_def MEMCTRL_BIOS_DELAY_def MEMCTRL_SPU_DELAY_def MEMCTRL_CDROM_DELAY_def
  MEMCTRL_EXP2_DELAY_def MEMCTRL_COMMON_DELAY_def

definition upd_bus :: "(bus_state \<Rightarrow> bus_state) \<Rightarrow> 'a bus_sys_scheme \<Rightarrow> 'a bus_sys_scheme" where
  "upd_bus f s = s\<lparr>bus := f (bus s)\<rparr>"

lemma upd_bus_simps [simp]:
  "bus (upd_bus f s) = f (bus s)" "cpu (upd_bus f s) = cpu s" "intc (upd_bus f s) = intc s"
  "timing (upd_bus f s) = timing s" "timing_events (upd_bus f s) = timing_events s"
  "timers (upd_bus f s) = timers s"
  by (simp_all add: upd_bus_def)

section \<open>Access times\<close>

text \<open>The bit-fields of \<open>memdelay_t\<close> and \<open>comdelay_t\<close>.\<close>

definition mem_access_time :: "u32 \<Rightarrow> tick_count" where
  "mem_access_time w = uint (bits_get w 4 4)"

definition mem_data_bus_16bit :: "u32 \<Rightarrow> bool" where "mem_data_bus_16bit w = bit w 12"

definition com_time :: "nat \<Rightarrow> u32 \<Rightarrow> tick_count" where
  "com_time k w = uint (bits_get w (4 * k) 4)"

definition calculate_memory_timing :: "u32 \<Rightarrow> u32 \<Rightarrow> memory_access_size \<Rightarrow> tick_count" where
  "calculate_memory_timing mem_delay common_delay sz =
     (let first = (if bit mem_delay 8 then com_time 0 common_delay - 1 else 0);
          seq = (if bit mem_delay 8 then com_time 0 common_delay - 1 else 0);
          first = (if bit mem_delay 10 then first + com_time 2 common_delay else first);
          seq = (if bit mem_delay 10 then seq + com_time 2 common_delay else seq);
          mn = (if bit mem_delay 11 then com_time 3 common_delay else 0);
          first = (if first < 6 then first + 1 else first);
          first = first + mem_access_time mem_delay + 2;
          seq = seq + mem_access_time mem_delay + 2;
          first = (if first < mn + 6 then mn + 6 else first);
          seq = (if seq < mn + 2 then mn + 2 else seq);
          wide = mem_data_bus_16bit mem_delay;
          t = (case sz of
                 MEMORY_ACCESS_SIZE_BYTE \<Rightarrow> first
               | MEMORY_ACCESS_SIZE_HALFWORD \<Rightarrow> if wide then first else first + seq
               | MEMORY_ACCESS_SIZE_WORD \<Rightarrow> if wide then first + seq else first + seq + seq + seq)
      in if t - 1 < 0 then 0 else t - 1)"

definition recalculate_memory_timings :: "bus_state \<Rightarrow> bus_state" where
  "recalculate_memory_timings b =
     (let com = memctrl_regs b MEMCTRL_COMMON_DELAY in b\<lparr>
        bios_access_time := calculate_memory_timing (memctrl_regs b MEMCTRL_BIOS_DELAY) com,
        cdrom_access_time := calculate_memory_timing (memctrl_regs b MEMCTRL_CDROM_DELAY) com,
        spu_access_time := calculate_memory_timing (memctrl_regs b MEMCTRL_SPU_DELAY) com,
        exp1_access_time := calculate_memory_timing (memctrl_regs b MEMCTRL_EXP1_DELAY) com\<rparr>)"

section \<open>The handler tables\<close>

definition set_handler_for_region ::
  "u32 \<Rightarrow> u32 \<Rightarrow> bus_handler \<Rightarrow> (nat \<Rightarrow> bus_handler) \<Rightarrow> (nat \<Rightarrow> bus_handler)" where
  "set_handler_for_region address sz h handlers =
     (let start_page = unat (drop_bit 12 address); num_pages = unat (drop_bit 12 (sz + 0xFFF))
      in (\<lambda>p. if start_page \<le> p \<and> p < start_page + num_pages then h else handlers p))"

definition clear_handlers :: "(nat \<Rightarrow> bus_handler) \<Rightarrow> (nat \<Rightarrow> bus_handler)" where
  "clear_handlers handlers = (\<lambda>p. if p < 0x100000 then HANDLER_UNMAPPED else handlers p)"

definition KUSEG :: u32 where "KUSEG = 0x00000000"
definition KSEG0 :: u32 where "KSEG0 = 0x80000000"
definition KSEG1 :: u32 where "KSEG1 = 0xA0000000"
definition KSEG2 :: u32 where "KSEG2 = 0xC0000000"

definition BUS_EXP2_BASE :: u32 where "BUS_EXP2_BASE = 0x1F802000"
definition BUS_EXP2_SIZE :: u32 where "BUS_EXP2_SIZE = 0x2000"
definition BUS_EXP3_BASE :: u32 where "BUS_EXP3_BASE = 0x1FA00000"
definition BUS_EXP3_SIZE :: u32 where "BUS_EXP3_SIZE = 0x200000"
definition BUS_SIO2_BASE :: u32 where "BUS_SIO2_BASE = 0x1F808000"
definition BUS_SIO2_SIZE :: u32 where "BUS_SIO2_SIZE = 0x1000"
definition BUS_HW_BASE :: u32 where "BUS_HW_BASE = 0x1F801000"
definition BUS_HW_SIZE :: u32 where "BUS_HW_SIZE = 0x1000"

lemmas bus_map_defs = KUSEG_def KSEG0_def KSEG1_def KSEG2_def BUS_EXP2_BASE_def BUS_EXP2_SIZE_def
  BUS_EXP3_BASE_def BUS_EXP3_SIZE_def BUS_SIO2_BASE_def BUS_SIO2_SIZE_def BUS_HW_BASE_def
  BUS_HW_SIZE_def

text \<open>The regions one segment maps, in the order of \<open>set_handlers\<close>.\<close>

definition uncached_regions :: "(u32 \<times> u32 \<times> bus_handler) list" where
  "uncached_regions =
     [(0, BUS_RAM_MIRROR_SIZE, HANDLER_RAM),
      (BUS_BIOS_BASE, BUS_BIOS_MIRROR_SIZE, HANDLER_BIOS),
      (BUS_EXP1_BASE, BUS_EXP1_SIZE, HANDLER_EXP1),
      (BUS_HW_BASE, BUS_HW_SIZE, HANDLER_HW),
      (BUS_EXP2_BASE, BUS_EXP2_SIZE, HANDLER_EXP2),
      (BUS_EXP3_BASE, BUS_EXP3_SIZE, HANDLER_EXP3),
      (BUS_SIO2_BASE, BUS_SIO2_SIZE, HANDLER_SIO2)]"

definition cached_regions :: "(u32 \<times> u32 \<times> bus_handler) list" where
  "cached_regions =
     [(0, BUS_RAM_MIRROR_SIZE, HANDLER_RAM),
      (CPU_SCRATCHPAD_ADDR, 0x1000, HANDLER_SCRATCHPAD),
      (BUS_BIOS_BASE, BUS_BIOS_MIRROR_SIZE, HANDLER_BIOS),
      (BUS_EXP1_BASE, BUS_EXP1_SIZE, HANDLER_EXP1),
      (BUS_HW_BASE, BUS_HW_SIZE, HANDLER_HW),
      (BUS_EXP2_BASE, BUS_EXP2_SIZE, HANDLER_EXP2),
      (BUS_EXP3_BASE, BUS_EXP3_SIZE, HANDLER_EXP3),
      (BUS_SIO2_BASE, BUS_SIO2_SIZE, HANDLER_SIO2)]"

definition set_segment ::
  "u32 \<Rightarrow> (u32 \<times> u32 \<times> bus_handler) list \<Rightarrow> (nat \<Rightarrow> bus_handler) \<Rightarrow> (nat \<Rightarrow> bus_handler)" where
  "set_segment base regions =
     fold (\<lambda>(start, sz, h). set_handler_for_region (base OR start) sz h) regions"

definition set_handlers :: "bus_state \<Rightarrow> bus_state" where
  "set_handlers b =
     (let normal = clear_handlers (memory_handlers b);
          isc = clear_handlers (memory_handlers_isc b);
          normal = set_segment KUSEG cached_regions normal;
          isc = set_handler_for_region KUSEG 0x80000000 HANDLER_ICACHE isc;
          normal = set_segment KSEG0 cached_regions normal;
          isc = set_handler_for_region KSEG0 0x20000000 HANDLER_ICACHE isc;
          normal = set_segment KSEG1 uncached_regions normal;
          isc = set_segment KSEG1 uncached_regions isc;
          normal = set_handler_for_region (KSEG2 OR 0xFFFE0000) 0x1000 HANDLER_CACHE_CONTROL normal;
          isc = set_handler_for_region (KSEG2 OR 0xFFFE0000) 0x1000 HANDLER_CACHE_CONTROL isc
      in b\<lparr>memory_handlers := normal, memory_handlers_isc := isc\<rparr>)"

definition ram_memory_window :: "u32 \<Rightarrow> u32" where "ram_memory_window w = bits_get w 9 3"

text \<open>Only the normal table follows the RAM-size register.\<close>

definition map_upper_ram :: "bus_handler \<Rightarrow> (nat \<Rightarrow> bus_handler) \<Rightarrow> (nat \<Rightarrow> bus_handler)" where
  "map_upper_ram h handlers =
     set_handler_for_region (KSEG1 OR BUS_RAM_2MB_SIZE) (BUS_RAM_MIRROR_SIZE - BUS_RAM_2MB_SIZE) h
       (set_handler_for_region (KSEG0 OR BUS_RAM_2MB_SIZE) (BUS_RAM_MIRROR_SIZE - BUS_RAM_2MB_SIZE) h
         (set_handler_for_region (KUSEG OR BUS_RAM_2MB_SIZE) (BUS_RAM_MIRROR_SIZE - BUS_RAM_2MB_SIZE) h
           handlers))"

definition update_mapped_ram_size :: "bus_state \<Rightarrow> bus_state" where
  "update_mapped_ram_size b =
     (if ram_memory_window (ram_size_reg b) = 4
      then b\<lparr>memory_handlers := map_upper_ram HANDLER_UNMAPPED (memory_handlers b),
             ram_mapped_size := BUS_RAM_2MB_SIZE\<rparr>
      else b\<lparr>memory_handlers := map_upper_ram HANDLER_RAM (memory_handlers b),
             ram_mapped_size := BUS_RAM_8MB_SIZE\<rparr>)"

definition bus_get_memory_handlers :: "bool \<Rightarrow> bool \<Rightarrow> bus_state \<Rightarrow> (nat \<Rightarrow> bus_handler)" where
  "bus_get_memory_handlers isolate_cache swap_caches b =
     (if \<not> isolate_cache then memory_handlers b else memory_handlers_isc b)"

section \<open>Initialisation\<close>

text \<open>What allocating the memory map sets up.\<close>

definition allocate_memory_map :: "bus_state \<Rightarrow> bus_state" where
  "allocate_memory_map b = set_handlers (b\<lparr>ram_mapped_size := BUS_RAM_8MB_SIZE\<rparr>)"

definition set_ram_size :: "bool \<Rightarrow> bus_state \<Rightarrow> bus_state" where
  "set_ram_size enable_8mb_ram b = b\<lparr>
     ram_size := (if enable_8mb_ram then BUS_RAM_8MB_SIZE else BUS_RAM_2MB_SIZE),
     ram_mask := (if enable_8mb_ram then BUS_RAM_8MB_SIZE - 1 else BUS_RAM_2MB_SIZE - 1)\<rparr>"

definition bus_initialize :: "bool \<Rightarrow> bus_state \<Rightarrow> bus_state" where
  "bus_initialize enable_8mb_ram b = set_ram_size enable_8mb_ram b"

definition bus_reset :: "bus_state \<Rightarrow> bus_state" where
  "bus_reset b =
     (let b = b\<lparr>ram := (\<lambda>i. if i < unat (ram_size b) then 0 else ram b i),
            memctrl_regs := (memctrl_regs b)(
              MEMCTRL_EXP1_BASE := 0x1F000000, MEMCTRL_EXP2_BASE := 0x1F802000,
              MEMCTRL_EXP1_DELAY := 0x0013243F, MEMCTRL_EXP3_DELAY := 0x00003022,
              MEMCTRL_BIOS_DELAY := 0x0013243F, MEMCTRL_SPU_DELAY := 0x200931E1,
              MEMCTRL_CDROM_DELAY := 0x00020843, MEMCTRL_EXP2_DELAY := 0x00070777,
              MEMCTRL_COMMON_DELAY := 0x00031125),
            ram_code_bits := (\<lambda>_. False),
            kernel_initialize_hook_run := False\<rparr>;
          b = recalculate_memory_timings b
      in if ram_size_reg b \<noteq> 0x00000B88
         then update_mapped_ram_size (b\<lparr>ram_size_reg := 0x00000B88\<rparr>) else b)"

section \<open>Code pages and regions\<close>

definition bus_set_ram_code_page :: "u32 \<Rightarrow> bus_state \<Rightarrow> bus_state" where
  "bus_set_ram_code_page i b =
     (if i \<ge> BUS_RAM_8MB_CODE_PAGE_COUNT \<or> ram_code_bits b (unat i) then b
      else b\<lparr>ram_code_bits := (ram_code_bits b)(unat i := True)\<rparr>)"

definition bus_clear_ram_code_page :: "u32 \<Rightarrow> bus_state \<Rightarrow> bus_state" where
  "bus_clear_ram_code_page i b =
     (if i \<ge> BUS_RAM_8MB_CODE_PAGE_COUNT \<or> \<not> ram_code_bits b (unat i) then b
      else b\<lparr>ram_code_bits := (ram_code_bits b)(unat i := False)\<rparr>)"

definition bus_is_ram_code_page :: "u32 \<Rightarrow> bus_state \<Rightarrow> bool" where
  "bus_is_ram_code_page i b \<longleftrightarrow> i < BUS_RAM_8MB_CODE_PAGE_COUNT \<and> ram_code_bits b (unat i)"

definition bus_clear_ram_code_page_flags :: "bus_state \<Rightarrow> bus_state" where
  "bus_clear_ram_code_page_flags b = b\<lparr>ram_code_bits := (\<lambda>_. False)\<rparr>"

definition bus_is_ram_address :: "u32 \<Rightarrow> bool" where
  "bus_is_ram_address address \<longleftrightarrow> address < BUS_RAM_MIRROR_END"

definition bus_get_ram_code_page_index :: "u32 \<Rightarrow> bus_state \<Rightarrow> u32" where
  "bus_get_ram_code_page_index address b = drop_bit HOST_PAGE_SHIFT (address AND ram_mask b)"

definition bus_is_code_page_address :: "u32 \<Rightarrow> bus_state \<Rightarrow> bool" where
  "bus_is_code_page_address address b \<longleftrightarrow>
     bus_is_ram_address address \<and> ram_code_bits b (unat (drop_bit HOST_PAGE_SHIFT (address AND ram_mask b)))"

partial_function (option) code_pages_loop :: "(nat \<Rightarrow> bool) \<Rightarrow> u32 \<Rightarrow> u32 \<Rightarrow> bool option" where
  "code_pages_loop bits start_address end_address =
     (if start_address < end_address
      then if bits (unat (drop_bit HOST_PAGE_SHIFT start_address)) then Some True
           else code_pages_loop bits (start_address + HOST_PAGE_SIZE) end_address
      else Some False)"

definition bus_has_code_pages_in_range :: "u32 \<Rightarrow> u32 \<Rightarrow> bus_state \<Rightarrow> bool option" where
  "bus_has_code_pages_in_range start_address sz b =
     (if \<not> bus_is_ram_address start_address then Some False
      else let start_address = start_address AND ram_mask b
           in code_pages_loop (ram_code_bits b) start_address (start_address + sz))"

definition bus_get_dma_ram_tick_count :: "u32 \<Rightarrow> tick_count" where
  "bus_get_dma_ram_tick_count word_count = sint (word_count + (word_count + 15) div 16)"

datatype bus_memory_region =
    BUS_MEMORY_REGION_RAM | BUS_MEMORY_REGION_RAM_MIRROR1 | BUS_MEMORY_REGION_RAM_MIRROR2
  | BUS_MEMORY_REGION_RAM_MIRROR3 | BUS_MEMORY_REGION_EXP1 | BUS_MEMORY_REGION_SCRATCHPAD
  | BUS_MEMORY_REGION_BIOS

text \<open>\<open>None\<close> stands for the sentinel \<open>BUS_MEMORY_REGION_COUNT\<close>.\<close>

definition bus_get_memory_region_for_address :: "u32 \<Rightarrow> bus_memory_region option" where
  "bus_get_memory_region_for_address address =
     (if address < BUS_RAM_2MB_SIZE then Some BUS_MEMORY_REGION_RAM
      else if address < BUS_RAM_MIRROR_END
      then Some ([BUS_MEMORY_REGION_RAM, BUS_MEMORY_REGION_RAM_MIRROR1, BUS_MEMORY_REGION_RAM_MIRROR2,
             BUS_MEMORY_REGION_RAM_MIRROR3] ! unat (address div BUS_RAM_2MB_SIZE))
      else if BUS_EXP1_BASE \<le> address \<and> address < BUS_EXP1_BASE + BUS_EXP1_SIZE
      then Some BUS_MEMORY_REGION_EXP1
      else if CPU_SCRATCHPAD_ADDR \<le> address \<and> address < CPU_SCRATCHPAD_ADDR + 1024
      then Some BUS_MEMORY_REGION_SCRATCHPAD
      else if BUS_BIOS_BASE \<le> address \<and> address < BUS_BIOS_BASE + BUS_BIOS_SIZE
      then Some BUS_MEMORY_REGION_BIOS
      else None)"

fun bus_get_memory_region_start :: "bus_memory_region \<Rightarrow> u32" where
  "bus_get_memory_region_start BUS_MEMORY_REGION_RAM = 0"
| "bus_get_memory_region_start BUS_MEMORY_REGION_RAM_MIRROR1 = BUS_RAM_2MB_SIZE"
| "bus_get_memory_region_start BUS_MEMORY_REGION_RAM_MIRROR2 = BUS_RAM_2MB_SIZE * 2"
| "bus_get_memory_region_start BUS_MEMORY_REGION_RAM_MIRROR3 = BUS_RAM_2MB_SIZE * 3"
| "bus_get_memory_region_start BUS_MEMORY_REGION_EXP1 = BUS_EXP1_BASE"
| "bus_get_memory_region_start BUS_MEMORY_REGION_SCRATCHPAD = CPU_SCRATCHPAD_ADDR"
| "bus_get_memory_region_start BUS_MEMORY_REGION_BIOS = BUS_BIOS_BASE"

fun bus_get_memory_region_end :: "bus_memory_region \<Rightarrow> u32" where
  "bus_get_memory_region_end BUS_MEMORY_REGION_RAM = BUS_RAM_2MB_SIZE"
| "bus_get_memory_region_end BUS_MEMORY_REGION_RAM_MIRROR1 = BUS_RAM_2MB_SIZE * 2"
| "bus_get_memory_region_end BUS_MEMORY_REGION_RAM_MIRROR2 = BUS_RAM_2MB_SIZE * 3"
| "bus_get_memory_region_end BUS_MEMORY_REGION_RAM_MIRROR3 = BUS_RAM_MIRROR_END"
| "bus_get_memory_region_end BUS_MEMORY_REGION_EXP1 = BUS_EXP1_BASE + BUS_EXP1_SIZE"
| "bus_get_memory_region_end BUS_MEMORY_REGION_SCRATCHPAD = CPU_SCRATCHPAD_ADDR + 1024"
| "bus_get_memory_region_end BUS_MEMORY_REGION_BIOS = BUS_BIOS_BASE + BUS_BIOS_SIZE"

definition bus_is_memory_region_writable :: "bus_memory_region \<Rightarrow> bool" where
  "bus_is_memory_region_writable region \<longleftrightarrow>
     region \<noteq> BUS_MEMORY_REGION_EXP1 \<and> region \<noteq> BUS_MEMORY_REGION_BIOS"

end
