(* ===== verification/Bus_Handlers.thy ===== *)
theory Bus_Handlers
  imports Bus
begin

text \<open>
  The memory handlers of \<^verbatim>\<open>src/core/memory/bus.c\<close>: what a read or a write of each
  size does on every kind of page, the dispatch of the hardware page to the devices, and the
  pair of functions the CPU calls.

  The devices that are not modelled (pads, serial port, DMA, CD-ROM, GPU, MDEC, SPU) are the
  parameter \<open>bus_devices\<close>; the interrupt controller and the timers are the ones of this
  development.  The timers return \<open>None\<close> only on a broken event queue, which a
  well-formed machine never has (\<open>write_register_wf\<close>, \<open>read_register_wf\<close>); the
  handlers leave the state alone there.  A write to a page that holds compiled code drops the
  page's code bit; the blocks themselves belong to the recompiler.  The kernel hook is the one
  of every boot mode but a direct EXE boot, where the code replaces the program and leaves the
  interpreter.  The RAM-write tap is a host diagnostic.
\<close>

record 's bus_devices =
  pad_read_port :: "u32 \<Rightarrow> 's \<Rightarrow> u32 \<times> 's"
  pad_write_port :: "u32 \<Rightarrow> u32 \<Rightarrow> 's \<Rightarrow> 's"
  sio_read_port :: "u32 \<Rightarrow> 's \<Rightarrow> u32 \<times> 's"
  sio_write_port :: "u32 \<Rightarrow> u32 \<Rightarrow> 's \<Rightarrow> 's"
  dma_read_port :: "u32 \<Rightarrow> 's \<Rightarrow> u32 \<times> 's"
  dma_write_port :: "u32 \<Rightarrow> u32 \<Rightarrow> 's \<Rightarrow> 's"
  cdrom_read_port :: "u32 \<Rightarrow> 's \<Rightarrow> u8 \<times> 's"
  cdrom_write_port :: "u32 \<Rightarrow> u8 \<Rightarrow> 's \<Rightarrow> 's"
  gpu_read_port :: "u32 \<Rightarrow> 's \<Rightarrow> u32 \<times> 's"
  gpu_write_port :: "u32 \<Rightarrow> u32 \<Rightarrow> 's \<Rightarrow> 's"
  mdec_read_port :: "u32 \<Rightarrow> 's \<Rightarrow> u32 \<times> 's"
  mdec_write_port :: "u32 \<Rightarrow> u32 \<Rightarrow> 's \<Rightarrow> 's"
  spu_read_port :: "u32 \<Rightarrow> 's \<Rightarrow> u16 \<times> 's"
  spu_write_port :: "u32 \<Rightarrow> u16 \<Rightarrow> 's \<Rightarrow> 's"
  using_known_ps1_bios :: bool
  bus_timers_hooks :: "'s timers_hooks"

section \<open>Sub-word access to a register\<close>

definition FIXUP_HALFWORD_OFFSET :: "memory_access_size \<Rightarrow> u32 \<Rightarrow> u32" where
  "FIXUP_HALFWORD_OFFSET sz off = (if sz = MEMORY_ACCESS_SIZE_BYTE then off AND NOT 1 else off)"

definition FIXUP_HALFWORD_READ_VALUE :: "memory_access_size \<Rightarrow> u32 \<Rightarrow> u32 \<Rightarrow> u32" where
  "FIXUP_HALFWORD_READ_VALUE sz off v =
     (if sz = MEMORY_ACCESS_SIZE_BYTE then drop_bit (unat (off AND 1) * 8) v else v)"

definition FIXUP_HALFWORD_WRITE_VALUE :: "memory_access_size \<Rightarrow> u32 \<Rightarrow> u32 \<Rightarrow> u32" where
  "FIXUP_HALFWORD_WRITE_VALUE sz off v =
     (if sz = MEMORY_ACCESS_SIZE_BYTE then push_bit (unat (off AND 1) * 8) v else v)"

definition FIXUP_WORD_OFFSET :: "memory_access_size \<Rightarrow> u32 \<Rightarrow> u32" where
  "FIXUP_WORD_OFFSET sz off = (if sz = MEMORY_ACCESS_SIZE_WORD then off else off AND NOT 3)"

definition FIXUP_WORD_READ_VALUE :: "memory_access_size \<Rightarrow> u32 \<Rightarrow> u32 \<Rightarrow> u32" where
  "FIXUP_WORD_READ_VALUE sz off v =
     (if sz = MEMORY_ACCESS_SIZE_WORD then v else drop_bit (unat (off AND 3) * 8) v)"

definition FIXUP_WORD_WRITE_VALUE :: "memory_access_size \<Rightarrow> u32 \<Rightarrow> u32 \<Rightarrow> u32" where
  "FIXUP_WORD_WRITE_VALUE sz off v =
     (if sz = MEMORY_ACCESS_SIZE_WORD then v else push_bit (unat (off AND 3) * 8) v)"

lemmas fixup_defs = FIXUP_HALFWORD_OFFSET_def FIXUP_HALFWORD_READ_VALUE_def
  FIXUP_HALFWORD_WRITE_VALUE_def FIXUP_WORD_OFFSET_def FIXUP_WORD_READ_VALUE_def
  FIXUP_WORD_WRITE_VALUE_def

definition bus_cycles :: "tick_count \<Rightarrow> 'a bus_sys_scheme \<Rightarrow> 'a bus_sys_scheme" where
  "bus_cycles n s = s\<lparr>cpu := cpu_add_pending_ticks n (cpu s)\<rparr>"

definition cpu_set_bus_error :: "'a bus_sys_scheme \<Rightarrow> 'a bus_sys_scheme" where
  "cpu_set_bus_error s = s\<lparr>cpu := (cpu s)\<lparr>bus_error := True\<rparr>\<rparr>"

section \<open>Memory pages\<close>

text \<open>Reads of nothing return ones; of an unmapped page they also raise the bus error.\<close>

definition unknown_read :: "'a bus_sys_scheme \<Rightarrow> u32 \<times> 'a bus_sys_scheme" where
  "unknown_read s = (0xFFFFFFFF, s)"

definition unknown_write :: "'a bus_sys_scheme \<Rightarrow> 'a bus_sys_scheme" where
  "unknown_write s = cpu_set_bus_error s"

definition unmapped_read :: "'a bus_sys_scheme \<Rightarrow> u32 \<times> 'a bus_sys_scheme" where
  "unmapped_read s = unknown_read (cpu_set_bus_error s)"

definition unmapped_write :: "'a bus_sys_scheme \<Rightarrow> 'a bus_sys_scheme" where
  "unmapped_write s = unknown_write (cpu_set_bus_error s)"

definition ram_read ::
  "memory_access_size \<Rightarrow> u32 \<Rightarrow> 'a bus_sys_scheme \<Rightarrow> u32 \<times> 'a bus_sys_scheme" where
  "ram_read sz address s =
     (load_sized sz (ram (bus s)) (unat (address AND ram_mask (bus s))),
      bus_cycles BUS_RAM_READ_TICKS s)"

definition ram_smc_invalidate_if_needed :: "u32 \<Rightarrow> bus_state \<Rightarrow> bus_state" where
  "ram_smc_invalidate_if_needed paddr b =
     (let page_index = drop_bit HOST_PAGE_SHIFT paddr in
      if bus_is_ram_code_page page_index b then bus_clear_ram_code_page page_index b else b)"

definition ram_write ::
  "memory_access_size \<Rightarrow> u32 \<Rightarrow> u32 \<Rightarrow> 'a bus_sys_scheme \<Rightarrow> 'a bus_sys_scheme" where
  "ram_write sz address v s =
     (let paddr = address AND ram_mask (bus s);
          s = upd_bus (ram_smc_invalidate_if_needed paddr) s
      in upd_bus (\<lambda>b. b\<lparr>ram := store_sized sz (unat paddr) v (ram b)\<rparr>) s)"

definition bios_read ::
  "memory_access_size \<Rightarrow> u32 \<Rightarrow> 'a bus_sys_scheme \<Rightarrow> u32 \<times> 'a bus_sys_scheme" where
  "bios_read sz address s =
     (load_sized sz (bios (bus s)) (unat (address AND 0x7FFFF)),
      bus_cycles (bios_access_time (bus s) sz) s)"

definition scratchpad_read ::
  "memory_access_size \<Rightarrow> u32 \<Rightarrow> 'a bus_sys_scheme \<Rightarrow> u32 \<times> 'a bus_sys_scheme" where
  "scratchpad_read sz address s =
     (let off = address AND 0xFFF in
      if off \<ge> 1024 then unknown_read s else (load_sized sz (scratchpad (cpu s)) (unat off), s))"

definition scratchpad_write ::
  "memory_access_size \<Rightarrow> u32 \<Rightarrow> u32 \<Rightarrow> 'a bus_sys_scheme \<Rightarrow> 'a bus_sys_scheme" where
  "scratchpad_write sz address v s =
     (let off = address AND 0xFFF in
      if off \<ge> 1024 then unknown_write s
      else s\<lparr>cpu := (cpu s)\<lparr>scratchpad := store_sized sz (unat off) v (scratchpad (cpu s))\<rparr>\<rparr>)"

definition cache_control_read_any :: "u32 \<Rightarrow> 'a bus_sys_scheme \<Rightarrow> u32 \<times> 'a bus_sys_scheme" where
  "cache_control_read_any address s =
     (if address \<noteq> 0xFFFE0130 then unknown_read s else (cache_control (cpu s), s))"

definition cache_control_write_any :: "u32 \<Rightarrow> u32 \<Rightarrow> 'a bus_sys_scheme \<Rightarrow> 'a bus_sys_scheme" where
  "cache_control_write_any address v s =
     (if address \<noteq> 0xFFFE0130 then unknown_write s else s\<lparr>cpu := (cpu s)\<lparr>cache_control := v\<rparr>\<rparr>)"

text \<open>
  With the cache isolated, memory is the instruction cache: a write stores into the line's data
  and marks the line invalid, a read takes four bytes at the offset in the line.  The data array
  seen as bytes, and back.
\<close>

definition icache_bytes :: "(nat \<Rightarrow> u32) \<Rightarrow> nat \<Rightarrow> u8" where
  "icache_bytes d k = ucast (drop_bit (8 * (k mod 4)) (d (k div 4)))"

definition icache_words :: "(nat \<Rightarrow> u8) \<Rightarrow> nat \<Rightarrow> u32" where
  "icache_words m i = load_word m (4 * i)"

definition icache_byte_index :: "u32 \<Rightarrow> nat" where
  "icache_byte_index address = unat (cpu_get_icache_line address) * 16 + unat (address AND 15)"

definition icache_write_common ::
  "memory_access_size \<Rightarrow> u32 \<Rightarrow> u32 \<Rightarrow> 'a bus_sys_scheme \<Rightarrow> 'a bus_sys_scheme" where
  "icache_write_common sz address v s =
     (let c = icache_set_tag (unat (cpu_get_icache_line address))
                (cpu_get_icache_tag_for_address address OR CPU_ICACHE_INVALID_BITS) (cpu s)
      in s\<lparr>cpu := c\<lparr>icache_data := icache_words
            (store_sized sz (icache_byte_index address) v (icache_bytes (icache_data c)))\<rparr>\<rparr>)"

definition icache_read :: "u32 \<Rightarrow> 'a bus_sys_scheme \<Rightarrow> u32 \<times> 'a bus_sys_scheme" where
  "icache_read address s =
     (load_word (icache_bytes (icache_data (cpu s))) (icache_byte_index address), s)"

section \<open>Expansion regions\<close>

text \<open>The expansion port is empty, \<^verbatim>\<open>src/core/memory/pio.c\<close>.\<close>

definition pio_device_read :: "u32 \<Rightarrow> u8" where "pio_device_read off = 0xFF"

definition exp1_read ::
  "memory_access_size \<Rightarrow> u32 \<Rightarrow> 'a bus_sys_scheme \<Rightarrow> u32 \<times> 'a bus_sys_scheme" where
  "exp1_read sz address s =
     (let off = address AND 0x7FFFFF;
          b = (\<lambda>k. ucast (pio_device_read (off + k)) :: u32)
      in ((case sz of
             MEMORY_ACCESS_SIZE_BYTE \<Rightarrow> b 0
           | MEMORY_ACCESS_SIZE_HALFWORD \<Rightarrow> b 0 OR push_bit 8 (b 1)
           | MEMORY_ACCESS_SIZE_WORD \<Rightarrow> b 0 OR push_bit 8 (b 1) OR push_bit 16 (b 2) OR push_bit 24 (b 3)),
          bus_cycles (exp1_access_time (bus s) sz) s))"

definition exp1_write :: "'a bus_sys_scheme \<Rightarrow> 'a bus_sys_scheme" where
  "exp1_write s = s"

definition exp2_read_common ::
  "memory_access_size \<Rightarrow> u32 \<Rightarrow> 'a bus_sys_scheme \<Rightarrow> u32 \<times> 'a bus_sys_scheme" where
  "exp2_read_common sz address s =
     (let off = address AND 0x1FFF in
      (if off = 0x21 then 0x04 OR 0x08 else 0xFFFFFFFF, bus_cycles (exp2_access_time (bus s) sz) s))"

definition kernel_initialized_hook :: "bus_state \<Rightarrow> bus_state" where
  "kernel_initialized_hook b =
     (if kernel_initialize_hook_run b then b else b\<lparr>kernel_initialize_hook_run := True\<rparr>)"

definition exp2_write_common :: "u32 \<Rightarrow> u32 \<Rightarrow> 'a bus_sys_scheme \<Rightarrow> 'a bus_sys_scheme" where
  "exp2_write_common address v s =
     (let off = address AND 0x1FFF in
      if off = 0x23 \<or> off = 0x80 then s
      else if (off = 0x41 \<or> off = 0x42) \<and> v AND 0x0F = 0x07
      then upd_bus kernel_initialized_hook s
      else s)"

definition exp3_read :: "'a bus_sys_scheme \<Rightarrow> u32 \<times> 'a bus_sys_scheme" where
  "exp3_read s = (0xFFFFFFFF, s)"

definition exp3_write_common :: "u32 \<Rightarrow> u32 \<Rightarrow> 'a bus_sys_scheme \<Rightarrow> 'a bus_sys_scheme" where
  "exp3_write_common address v s =
     (let off = address AND (BUS_EXP3_SIZE - 1) in
      if off = 0 \<and> v AND 0x0F = 0x07 then upd_bus kernel_initialized_hook s else s)"

definition sio2_read_common :: "'s bus_devices \<Rightarrow> 'a bus_sys_scheme \<Rightarrow> u32 \<times> 'a bus_sys_scheme" where
  "sio2_read_common d s = (if using_known_ps1_bios d then unknown_read (cpu_set_bus_error s) else (0, s))"

definition sio2_write_common :: "'s bus_devices \<Rightarrow> 'a bus_sys_scheme \<Rightarrow> 'a bus_sys_scheme" where
  "sio2_write_common d s = (if using_known_ps1_bios d then unknown_write (cpu_set_bus_error s) else s)"

section \<open>The memory-control registers\<close>

definition memctrl_read_common ::
  "memory_access_size \<Rightarrow> u32 \<Rightarrow> 'a bus_sys_scheme \<Rightarrow> u32 \<times> 'a bus_sys_scheme" where
  "memctrl_read_common sz address s =
     (let off = address AND 0x3F; i = FIXUP_WORD_OFFSET sz off div 4 in
      if i \<ge> BUS_MEMCTRL_REG_COUNT then (0, s)
      else (FIXUP_WORD_READ_VALUE sz off (memctrl_regs (bus s) (unat i)), bus_cycles 2 s))"

definition memctrl_write_common ::
  "memory_access_size \<Rightarrow> u32 \<Rightarrow> u32 \<Rightarrow> 'a bus_sys_scheme \<Rightarrow> 'a bus_sys_scheme" where
  "memctrl_write_common sz address v s =
     (let off = address AND 0x3F; i = FIXUP_WORD_OFFSET sz off div 4 in
      if i \<ge> BUS_MEMCTRL_REG_COUNT then s
      else let v = FIXUP_WORD_WRITE_VALUE sz off v;
               write_mask = (if i = 8 then COMDELAY_WRITE_MASK else MEMDELAY_WRITE_MASK);
               old = memctrl_regs (bus s) (unat i);
               new_value = (old AND NOT write_mask) OR (v AND write_mask)
           in if old \<noteq> new_value
              then upd_bus (\<lambda>b. recalculate_memory_timings
                     (b\<lparr>memctrl_regs := (memctrl_regs b)(unat i := new_value)\<rparr>)) s
              else s)"

definition memctrl2_read_common :: "u32 \<Rightarrow> 'a bus_sys_scheme \<Rightarrow> u32 \<times> 'a bus_sys_scheme" where
  "memctrl2_read_common address s =
     (if address AND 0xF \<noteq> 0 then unknown_read s else (ram_size_reg (bus s), bus_cycles 2 s))"

definition memctrl2_write_common :: "u32 \<Rightarrow> u32 \<Rightarrow> 'a bus_sys_scheme \<Rightarrow> 'a bus_sys_scheme" where
  "memctrl2_write_common address v s =
     (if address AND 0xF \<noteq> 0 then unknown_write s
      else if ram_size_reg (bus s) \<noteq> v
      then let old = ram_size_reg (bus s);
               s = upd_bus (\<lambda>b. b\<lparr>ram_size_reg := v\<rparr>) s
           in if ram_memory_window v \<noteq> ram_memory_window old then upd_bus update_mapped_ram_size s else s
      else s)"

section \<open>Devices\<close>

definition device_read_half ::
  "(u32 \<Rightarrow> 'a bus_sys_scheme \<Rightarrow> u32 \<times> 'a bus_sys_scheme) \<Rightarrow> memory_access_size \<Rightarrow> u32 \<Rightarrow>
     'a bus_sys_scheme \<Rightarrow> u32 \<times> 'a bus_sys_scheme" where
  "device_read_half f sz off s =
     (let (v, s) = f (FIXUP_HALFWORD_OFFSET sz off) s
      in (FIXUP_HALFWORD_READ_VALUE sz off v, bus_cycles 2 s))"

definition device_read_word ::
  "(u32 \<Rightarrow> 'a bus_sys_scheme \<Rightarrow> u32 \<times> 'a bus_sys_scheme) \<Rightarrow> memory_access_size \<Rightarrow> u32 \<Rightarrow>
     'a bus_sys_scheme \<Rightarrow> u32 \<times> 'a bus_sys_scheme" where
  "device_read_word f sz off s =
     (let (v, s) = f (FIXUP_WORD_OFFSET sz off) s
      in (FIXUP_WORD_READ_VALUE sz off v, bus_cycles 2 s))"

definition device_write_half ::
  "(u32 \<Rightarrow> u32 \<Rightarrow> 'a bus_sys_scheme \<Rightarrow> 'a bus_sys_scheme) \<Rightarrow> memory_access_size \<Rightarrow> u32 \<Rightarrow> u32 \<Rightarrow>
     'a bus_sys_scheme \<Rightarrow> 'a bus_sys_scheme" where
  "device_write_half f sz off v = f (FIXUP_HALFWORD_OFFSET sz off) (FIXUP_HALFWORD_WRITE_VALUE sz off v)"

definition device_write_word ::
  "(u32 \<Rightarrow> u32 \<Rightarrow> 'a bus_sys_scheme \<Rightarrow> 'a bus_sys_scheme) \<Rightarrow> memory_access_size \<Rightarrow> u32 \<Rightarrow> u32 \<Rightarrow>
     'a bus_sys_scheme \<Rightarrow> 'a bus_sys_scheme" where
  "device_write_word f sz off v = f (FIXUP_WORD_OFFSET sz off) (FIXUP_WORD_WRITE_VALUE sz off v)"

definition pad_read_common where
  "pad_read_common d sz address = device_read_half (pad_read_port d) sz (address AND 0xF)"
definition pad_write_common where
  "pad_write_common d sz address = device_write_half (pad_write_port d) sz (address AND 0xF)"
definition sio_read_common where
  "sio_read_common d sz address = device_read_half (sio_read_port d) sz (address AND 0xF)"
definition sio_write_common where
  "sio_write_common d sz address = device_write_half (sio_write_port d) sz (address AND 0xF)"
definition gpu_read_common where
  "gpu_read_common d sz address = device_read_word (gpu_read_port d) sz (address AND 0xF)"
definition gpu_write_common where
  "gpu_write_common d sz address = device_write_word (gpu_write_port d) sz (address AND 0xF)"
definition mdec_read_common where
  "mdec_read_common d sz address = device_read_word (mdec_read_port d) sz (address AND 0xF)"
definition mdec_write_common where
  "mdec_write_common d sz address = device_write_word (mdec_write_port d) sz (address AND 0xF)"
definition dma_read_common where
  "dma_read_common d sz address = device_read_word (dma_read_port d) sz (address AND 0x7F)"
definition dma_write_common where
  "dma_write_common d sz address = device_write_word (dma_write_port d) sz (address AND 0x7F)"

definition intc_read_common ::
  "memory_access_size \<Rightarrow> u32 \<Rightarrow> 'a bus_sys_scheme \<Rightarrow> u32 \<times> 'a bus_sys_scheme" where
  "intc_read_common sz address =
     device_read_word (\<lambda>off s. (interrupt_controller_read_register off s, s)) sz (address AND 0xF)"

definition intc_write_common ::
  "memory_access_size \<Rightarrow> u32 \<Rightarrow> u32 \<Rightarrow> 'a bus_sys_scheme \<Rightarrow> 'a bus_sys_scheme" where
  "intc_write_common sz address =
     device_write_word interrupt_controller_write_register sz (address AND 0xF)"

definition timers_read_common ::
  "('a bus_sys_scheme) bus_devices \<Rightarrow> memory_access_size \<Rightarrow> u32 \<Rightarrow> 'a bus_sys_scheme \<Rightarrow>
     u32 \<times> 'a bus_sys_scheme" where
  "timers_read_common d sz address =
     device_read_word (\<lambda>off s. case timers_read_register (bus_timers_hooks d) off s of
         Some r \<Rightarrow> r | None \<Rightarrow> (0xFFFFFFFF, s)) sz (address AND 0x3F)"

definition timers_write_common ::
  "('a bus_sys_scheme) bus_devices \<Rightarrow> memory_access_size \<Rightarrow> u32 \<Rightarrow> u32 \<Rightarrow> 'a bus_sys_scheme \<Rightarrow>
     'a bus_sys_scheme" where
  "timers_write_common d sz address =
     device_write_word (\<lambda>off v s. case timers_write_register (bus_timers_hooks d) off v s of
         Some s \<Rightarrow> s | None \<Rightarrow> s) sz (address AND 0x3F)"

text \<open>Byte-wide CD-ROM registers: a wider access is a sequence of byte accesses.\<close>

fun cdrom_read_bytes ::
  "('a bus_sys_scheme) bus_devices \<Rightarrow> u32 \<Rightarrow> nat \<Rightarrow> 'a bus_sys_scheme \<Rightarrow> u32 \<times> 'a bus_sys_scheme" where
  "cdrom_read_bytes d off 0 s = (0, s)"
| "cdrom_read_bytes d off (Suc n) s =
     (let (b, s) = cdrom_read_port d off s;
          (w, s) = cdrom_read_bytes d (off + 1) n s
      in (ucast b OR push_bit 8 w, s))"

definition cdrom_read_common ::
  "('a bus_sys_scheme) bus_devices \<Rightarrow> memory_access_size \<Rightarrow> u32 \<Rightarrow> 'a bus_sys_scheme \<Rightarrow>
     u32 \<times> 'a bus_sys_scheme" where
  "cdrom_read_common d sz address s =
     (let (v, s) = cdrom_read_bytes d (address AND 0xF) (size_bytes sz) s
      in (v, bus_cycles (cdrom_access_time (bus s) sz) s))"

fun cdrom_write_bytes ::
  "('a bus_sys_scheme) bus_devices \<Rightarrow> u32 \<Rightarrow> u32 \<Rightarrow> nat \<Rightarrow> 'a bus_sys_scheme \<Rightarrow> 'a bus_sys_scheme" where
  "cdrom_write_bytes d off v 0 s = s"
| "cdrom_write_bytes d off v (Suc n) s =
     cdrom_write_bytes d (off + 1) (drop_bit 8 v) n (cdrom_write_port d off (ucast v) s)"

definition cdrom_write_common ::
  "('a bus_sys_scheme) bus_devices \<Rightarrow> memory_access_size \<Rightarrow> u32 \<Rightarrow> u32 \<Rightarrow> 'a bus_sys_scheme \<Rightarrow>
     'a bus_sys_scheme" where
  "cdrom_write_common d sz address v = cdrom_write_bytes d (address AND 0xF) v (size_bytes sz)"

definition spu_read_common ::
  "('a bus_sys_scheme) bus_devices \<Rightarrow> memory_access_size \<Rightarrow> u32 \<Rightarrow> 'a bus_sys_scheme \<Rightarrow>
     u32 \<times> 'a bus_sys_scheme" where
  "spu_read_common d sz address s =
     (let off = address AND 0x3FF;
          (v, s) = (case sz of
             MEMORY_ACCESS_SIZE_WORD \<Rightarrow>
               let (lsb, s) = spu_read_port d off s;
                   (msb, s) = spu_read_port d (off + 2) s
               in (ucast lsb OR push_bit 16 (ucast msb), s)
           | MEMORY_ACCESS_SIZE_HALFWORD \<Rightarrow>
               let (v, s) = spu_read_port d off s in (ucast v, s)
           | MEMORY_ACCESS_SIZE_BYTE \<Rightarrow>
               let (v, s) = spu_read_port d (FIXUP_HALFWORD_OFFSET sz off) s
               in (FIXUP_HALFWORD_READ_VALUE sz off (ucast v), s))
      in (v, bus_cycles (spu_access_time (bus s) sz) s))"

definition spu_write_common ::
  "('a bus_sys_scheme) bus_devices \<Rightarrow> memory_access_size \<Rightarrow> u32 \<Rightarrow> u32 \<Rightarrow> 'a bus_sys_scheme \<Rightarrow>
     'a bus_sys_scheme" where
  "spu_write_common d sz address v s =
     (let off = address AND 0x3FF in
      case sz of
        MEMORY_ACCESS_SIZE_WORD \<Rightarrow>
          spu_write_port d (off + 2) (ucast (drop_bit 16 v)) (spu_write_port d off (ucast v) s)
      | MEMORY_ACCESS_SIZE_HALFWORD \<Rightarrow> spu_write_port d off (ucast v) s
      | MEMORY_ACCESS_SIZE_BYTE \<Rightarrow>
          if address AND 1 \<noteq> 0 then s
          else spu_write_port d off (ucast (FIXUP_HALFWORD_READ_VALUE sz off v)) s)"

section \<open>The hardware page\<close>

datatype hw_device = HW_UNMAPPED | HW_MEMCTRL | HW_PAD | HW_SIO | HW_MEMCTRL2 | HW_INTC | HW_DMA
  | HW_TIMERS | HW_CDROM | HW_GPU | HW_MDEC | HW_SPU

definition hw_dispatch_set_range ::
  "u32 \<Rightarrow> nat \<Rightarrow> hw_device \<Rightarrow> (nat \<Rightarrow> hw_device) \<Rightarrow> (nat \<Rightarrow> hw_device)" where
  "hw_dispatch_set_range raddr rsize k t =
     fold (\<lambda>j t. t(unat (drop_bit 4 (raddr + 16 * of_nat j) AND 0xFF) := k)) [0..<(rsize + 15) div 16] t"

definition build_hw_dispatch :: "nat \<Rightarrow> hw_device" where
  "build_hw_dispatch =
     (hw_dispatch_set_range 0x1F801C00 0x400 HW_SPU
     (hw_dispatch_set_range 0x1F801820 0x10 HW_MDEC
     (hw_dispatch_set_range 0x1F801810 0x10 HW_GPU
     (hw_dispatch_set_range 0x1F801800 0x10 HW_CDROM
     (hw_dispatch_set_range 0x1F801100 0x40 HW_TIMERS
     (hw_dispatch_set_range 0x1F801080 0x80 HW_DMA
     (hw_dispatch_set_range 0x1F801070 0x10 HW_INTC
     (hw_dispatch_set_range 0x1F801060 0x10 HW_MEMCTRL2
     (hw_dispatch_set_range 0x1F801050 0x10 HW_SIO
     (hw_dispatch_set_range 0x1F801040 0x10 HW_PAD
     (hw_dispatch_set_range 0x1F801000 0x40 HW_MEMCTRL (\<lambda>_. HW_UNMAPPED))))))))))))"

definition hardware_read ::
  "('a bus_sys_scheme) bus_devices \<Rightarrow> memory_access_size \<Rightarrow> u32 \<Rightarrow> 'a bus_sys_scheme \<Rightarrow>
     u32 \<times> 'a bus_sys_scheme" where
  "hardware_read d sz address =
     (case build_hw_dispatch (unat (drop_bit 4 address AND 0xFF)) of
        HW_UNMAPPED \<Rightarrow> unmapped_read
      | HW_MEMCTRL \<Rightarrow> memctrl_read_common sz address
      | HW_PAD \<Rightarrow> pad_read_common d sz address
      | HW_SIO \<Rightarrow> sio_read_common d sz address
      | HW_MEMCTRL2 \<Rightarrow> memctrl2_read_common address
      | HW_INTC \<Rightarrow> intc_read_common sz address
      | HW_DMA \<Rightarrow> dma_read_common d sz address
      | HW_TIMERS \<Rightarrow> timers_read_common d sz address
      | HW_CDROM \<Rightarrow> cdrom_read_common d sz address
      | HW_GPU \<Rightarrow> gpu_read_common d sz address
      | HW_MDEC \<Rightarrow> mdec_read_common d sz address
      | HW_SPU \<Rightarrow> spu_read_common d sz address)"

definition hardware_write ::
  "('a bus_sys_scheme) bus_devices \<Rightarrow> memory_access_size \<Rightarrow> u32 \<Rightarrow> u32 \<Rightarrow> 'a bus_sys_scheme \<Rightarrow>
     'a bus_sys_scheme" where
  "hardware_write d sz address v =
     (case build_hw_dispatch (unat (drop_bit 4 address AND 0xFF)) of
        HW_UNMAPPED \<Rightarrow> unmapped_write
      | HW_MEMCTRL \<Rightarrow> memctrl_write_common sz address v
      | HW_PAD \<Rightarrow> pad_write_common d sz address v
      | HW_SIO \<Rightarrow> sio_write_common d sz address v
      | HW_MEMCTRL2 \<Rightarrow> memctrl2_write_common address v
      | HW_INTC \<Rightarrow> intc_write_common sz address v
      | HW_DMA \<Rightarrow> dma_write_common d sz address v
      | HW_TIMERS \<Rightarrow> timers_write_common d sz address v
      | HW_CDROM \<Rightarrow> cdrom_write_common d sz address v
      | HW_GPU \<Rightarrow> gpu_write_common d sz address v
      | HW_MDEC \<Rightarrow> mdec_write_common d sz address v
      | HW_SPU \<Rightarrow> spu_write_common d sz address v)"

section \<open>The handlers the CPU calls\<close>

definition bus_read_handler ::
  "('a bus_sys_scheme) bus_devices \<Rightarrow> bool \<Rightarrow> bool \<Rightarrow> memory_access_size \<Rightarrow> u32 \<Rightarrow>
     'a bus_sys_scheme \<Rightarrow> u32 \<times> 'a bus_sys_scheme" where
  "bus_read_handler d isc swc sz address s =
     (case bus_get_memory_handlers isc swc (bus s) (unat (drop_bit 12 address)) of
        HANDLER_UNMAPPED \<Rightarrow> unmapped_read s
      | HANDLER_RAM \<Rightarrow> ram_read sz address s
      | HANDLER_SCRATCHPAD \<Rightarrow> scratchpad_read sz address s
      | HANDLER_BIOS \<Rightarrow> bios_read sz address s
      | HANDLER_EXP1 \<Rightarrow> exp1_read sz address s
      | HANDLER_HW \<Rightarrow> hardware_read d sz address s
      | HANDLER_EXP2 \<Rightarrow> exp2_read_common sz address s
      | HANDLER_EXP3 \<Rightarrow> exp3_read s
      | HANDLER_SIO2 \<Rightarrow> sio2_read_common d s
      | HANDLER_ICACHE \<Rightarrow> icache_read address s
      | HANDLER_CACHE_CONTROL \<Rightarrow> cache_control_read_any address s)"

definition bus_write_handler ::
  "('a bus_sys_scheme) bus_devices \<Rightarrow> bool \<Rightarrow> bool \<Rightarrow> memory_access_size \<Rightarrow> u32 \<Rightarrow> u32 \<Rightarrow>
     'a bus_sys_scheme \<Rightarrow> 'a bus_sys_scheme" where
  "bus_write_handler d isc swc sz address v s =
     (case bus_get_memory_handlers isc swc (bus s) (unat (drop_bit 12 address)) of
        HANDLER_UNMAPPED \<Rightarrow> unmapped_write s
      | HANDLER_RAM \<Rightarrow> ram_write sz address v s
      | HANDLER_SCRATCHPAD \<Rightarrow> scratchpad_write sz address v s
      | HANDLER_BIOS \<Rightarrow> s
      | HANDLER_EXP1 \<Rightarrow> exp1_write s
      | HANDLER_HW \<Rightarrow> hardware_write d sz address v s
      | HANDLER_EXP2 \<Rightarrow> exp2_write_common address v s
      | HANDLER_EXP3 \<Rightarrow> exp3_write_common address v s
      | HANDLER_SIO2 \<Rightarrow> sio2_write_common d s
      | HANDLER_ICACHE \<Rightarrow> icache_write_common sz address v s
      | HANDLER_CACHE_CONTROL \<Rightarrow> cache_control_write_any address v s)"

definition bus_env :: "('a bus_sys_scheme) bus_devices \<Rightarrow> gte_config \<Rightarrow> ('a bus_sys_scheme) cpu_env" where
  "bus_env d g = \<lparr>read_handler = bus_read_handler d, write_handler = bus_write_handler d,
     gte_settings = g\<rparr>"

end
