(* ===== verification/Bus_Frame.thy ===== *)
theory Bus_Frame
  imports Bus_Handlers
begin

text \<open>
  The handlers of the bus keep the contract \<open>cpu_bus\<close>: no read or write touches the
  program-visible core of the CPU.  For the devices outside the model the same is their
  documented contract, \<open>devices_ok\<close>; \<open>guard_devices\<close> is a device table cut down
  to it, equal to the table itself when the contract holds.
\<close>

section \<open>The scheduler, the interrupt controller and the timers\<close>

lemma downcount_core:
  "timing_events_update_cpu_downcount s = Some s' \<Longrightarrow> core_same (cpu s) (cpu s')"
  by (auto simp: timing_events_update_cpu_downcount_def bind_eq_Some_conv Let_def split: if_splits option.splits)

lemma link_cpu [simp]:
  "cpu (upd_event e f s) = cpu s" "cpu (set_prev p e s) = cpu s" "cpu (set_next p e s) = cpu s"
  "cpu (set_head p s) = cpu s" "cpu (set_tail p s) = cpu s"
  by (simp_all add: upd_event_def set_prev_def set_next_def set_head_def set_tail_def)

lemma unlink_core [simp]: "cpu (unlink_prev e s) = cpu s" "cpu (unlink_next e s) = cpu s"
  by (auto simp: unlink_prev_def unlink_next_def split: option.splits)

lemma splice_core:
  "cpu (splice_after e c s) = cpu s"
  "splice_front e s = Some s' \<Longrightarrow> core_same (cpu s) (cpu s')"
  "splice_before e c s = Some s' \<Longrightarrow> core_same (cpu s) (cpu s')"
  "splice_back e s = Some s' \<Longrightarrow> core_same (cpu s) (cpu s')"
  by (auto simp: splice_after_def splice_front_def splice_before_def splice_back_def bind_eq_Some_conv
      Let_def split: option.splits if_splits dest!: downcount_core)

lemma sort_event_core:
  "timing_events_sort_event e s = Some s' \<Longrightarrow> core_same (cpu s) (cpu s')"
  by (auto simp: timing_events_sort_event_def sort_event_backwards_def sort_event_forwards_def
      bind_eq_Some_conv Let_def splice_core(1) split: option.splits if_splits
      dest!: downcount_core splice_core(2-4))

lemma add_active_core:
  "timing_events_add_active e s = Some s' \<Longrightarrow> core_same (cpu s) (cpu s')"
proof -
  let ?s = "s\<lparr>timing := (timing s)\<lparr>active_event_count := active_event_count (timing s) + 1\<rparr>\<rparr>"
  assume s': "timing_events_add_active e s = Some s'"
  then obtain current nxt where "add_active_walk (timing_events s) (ev_time s e) None
      (active_events_head (timing s)) = Some (current, nxt)"
    by (auto simp: timing_events_add_active_def bind_eq_Some_conv Let_def)
  then show ?thesis using s'
    by (cases nxt; cases current; cases "active_events_tail (timing s)";
        cases "active_events_head (timing s)")
      (auto simp: timing_events_add_active_def Let_def set_prev_def set_next_def upd_event_def
        dest!: downcount_core)
qed

lemma resort_core: "resort_and_refresh e s = Some s' \<Longrightarrow> core_same (cpu s) (cpu s')"
  by (auto simp: resort_and_refresh_def bind_eq_Some_conv split: if_splits
      dest!: downcount_core sort_event_core)

lemma latch_cpu [simp]: "cpu (latch_current_next e t s) = cpu s"
  by (simp add: latch_current_next_def)

lemma schedule_core: "timing_event_schedule e t s = Some s' \<Longrightarrow> core_same (cpu s) (cpu s')"
  by (auto simp: timing_event_schedule_def Let_def split: if_splits dest!: add_active_core resort_core)

lemma invoke_early_core:
  assumes "timing_event_invoke_early cb e force s = Some s'"
    and "\<And>e t l s s'. cb e t l s = Some s' \<Longrightarrow> core_same (cpu s) (cpu s')"
  shows "core_same (cpu s) (cpu s')"
  using assms(1)
  by (auto simp: timing_event_invoke_early_def Let_def bind_eq_Some_conv split: if_splits
      dest!: resort_core assms(2))

lemma set_line_core: "core_same (cpu s) (cpu (interrupt_controller_set_line_state i b s))"
  by (simp add: interrupt_controller_set_line_state_def interrupt_controller_update_cpu_request_def Let_def)

lemma intc_write_core: "core_same (cpu s) (cpu (interrupt_controller_write_register off v s))"
  by (simp add: interrupt_controller_write_register_def interrupt_controller_update_cpu_request_def)

lemma put_timer_cpu [simp]: "cpu (put_timer i c s) = cpu s"
  by (simp add: put_timer_def)

lemma raise_irq_core: "core_same (cpu s) (cpu (timers_raise_irq i s))"
  by (simp add: timers_raise_irq_def Let_def set_line_core)

lemma check_for_irq_core: "core_same (cpu s) (cpu (timers_check_for_irq i old s))"
  by (simp add: timers_check_for_irq_def Let_def raise_irq_core split: prod.splits)

lemma count_sysclk_core: "core_same (cpu s) (cpu (timers_count_sysclk t s))"
  by (simp add: timers_count_sysclk_def timers_add_ticks_def Let_def check_for_irq_core)

lemma update_sysclk_core: "timers_update_sysclk_event h s = Some s' \<Longrightarrow> core_same (cpu s) (cpu s')"
  unfolding timers_update_sysclk_event_def by (rule schedule_core)

lemma add_sysclk_core: "timers_add_sysclk_ticks h t s = Some s' \<Longrightarrow> core_same (cpu s) (cpu s')"
  by (auto simp: timers_add_sysclk_ticks_def Let_def count_sysclk_core
      split: prod.splits option.splits dest!: update_sysclk_core)

lemma timers_invoke_early_core: "timers_invoke_early h s = Some s' \<Longrightarrow> core_same (cpu s) (cpu s')"
  unfolding timers_invoke_early_def by (rule invoke_early_core) (auto dest: add_sysclk_core)

definition hooks_core :: "'a timers_sys_scheme timers_hooks \<Rightarrow> bool" where
  "hooks_core h \<longleftrightarrow> (\<forall>f. gpu_synchronize_crtc h = Some f \<longrightarrow> (\<forall>s. core_same (cpu s) (cpu (f s))))"

lemma sync_gpu_core: "hooks_core h \<Longrightarrow> core_same (cpu s) (cpu (timers_sync_gpu h i s))"
  by (auto simp: timers_sync_gpu_def hooks_core_def split: option.splits)

lemma timers_read_core:
  "hooks_core h \<Longrightarrow> timers_read_register h off s = Some (v, s') \<Longrightarrow> core_same (cpu s) (cpu s')"
  by (auto simp: timers_read_register_def Let_def bind_eq_Some_conv sync_gpu_core
      split: if_splits dest!: timers_invoke_early_core)

lemma timers_write_parts_core:
  "timers_write_counter h i v s = Some s' \<Longrightarrow> core_same (cpu s) (cpu s')"
  "timers_write_mode h i v s = Some s' \<Longrightarrow> core_same (cpu s) (cpu s')"
  "timers_write_target h i v s = Some s' \<Longrightarrow> core_same (cpu s) (cpu s')"
  by (auto simp: timers_write_counter_def timers_write_mode_def timers_write_target_def Let_def
      check_for_irq_core set_line_core split: if_split_asm dest!: update_sysclk_core)

lemma timers_write_core:
  assumes h: "hooks_core h" and w: "timers_write_register h off v s = Some s'"
  shows "core_same (cpu s) (cpu s')"
proof -
  let ?i = "unat (drop_bit 4 off AND 3)"
  have "?i < 3 \<Longrightarrow> \<exists>r. timers_invoke_early h (timers_sync_gpu h ?i s) = Some r"
    using w by (auto simp: timers_write_register_def Let_def bind_eq_Some_conv split: if_split_asm)
  then obtain r where r: "?i < 3 \<Longrightarrow> timers_invoke_early h (timers_sync_gpu h ?i s) = Some r" by blast
  then have "?i < 3 \<Longrightarrow> core_same (cpu s) (cpu r)"
    using timers_invoke_early_core sync_gpu_core [OF h] by metis
  moreover have "?i < 3 \<Longrightarrow> core_same (cpu r) (cpu s')"
    using w r timers_write_parts_core [of h ?i v r s']
    by (simp add: timers_write_register_def Let_def split: if_split_asm)
  moreover have "\<not> ?i < 3 \<Longrightarrow> s' = s"
    using w by (simp add: timers_write_register_def Let_def)
  ultimately show ?thesis by fastforce
qed

section \<open>The devices\<close>

text \<open>
  Cutting a state change down to what a handler may do to the CPU: the interrupt request bit
  and the parts outside the core view change, the core stays.
\<close>

definition keep_core :: "cpu_state \<Rightarrow> cpu_state \<Rightarrow> cpu_state" where
  "keep_core c c' = c\<lparr>downcount := downcount c', pending_ticks := pending_ticks c',
     gte_completion_tick := gte_completion_tick c', muldiv_completion_tick := muldiv_completion_tick c',
     bus_error := bus_error c', cache_control := cache_control c',
     cop0_regs := (cop0_regs c)\<lparr>cause := flag_put 10 (bit (cause (cop0_regs c')) 10) (cause (cop0_regs c))\<rparr>,
     icache_tags := icache_tags c', icache_data := icache_data c', scratchpad := scratchpad c'\<rparr>"

lemma flag_put_restore: "flag_put i (bit w i) (flag_put i b w) = w"
  by (rule bit_word_eqI) (auto simp: bit_simps flag_put_def)

lemma keep_core_same: "core_same c (keep_core c c')"
  by (simp add: core_view_def keep_core_def)

lemma keep_core_id:
  assumes "core_same c c'"
  shows "keep_core c c' = c'"
proof -
  have "flag_put 10 (bit (cause (cop0_regs c')) 10) (cause (cop0_regs c)) = cause (cop0_regs c')"
  proof -
    have "flag_put 10 (bit (cause (cop0_regs c')) 10) (flag_put 10 False (cause (cop0_regs c))) = cause (cop0_regs c')"
      unfolding core_sameD(22) [OF assms, symmetric] by (rule flag_put_restore)
    then show ?thesis by simp
  qed
  then show ?thesis
    using assms by (cases c; cases c'; cases "cop0_regs c"; cases "cop0_regs c'")
      (simp add: core_view_def keep_core_def)
qed

definition guard :: "'a bus_sys_scheme \<Rightarrow> 'a bus_sys_scheme \<Rightarrow> 'a bus_sys_scheme" where
  "guard s s' = s'\<lparr>cpu := keep_core (cpu s) (cpu s')\<rparr>"

definition guard_read :: "(u32 \<Rightarrow> 'a bus_sys_scheme \<Rightarrow> 'v \<times> 'a bus_sys_scheme) \<Rightarrow>
    u32 \<Rightarrow> 'a bus_sys_scheme \<Rightarrow> 'v \<times> 'a bus_sys_scheme" where
  "guard_read f off s = (fst (f off s), guard s (snd (f off s)))"

definition guard_write :: "(u32 \<Rightarrow> 'v \<Rightarrow> 'a bus_sys_scheme \<Rightarrow> 'a bus_sys_scheme) \<Rightarrow>
    u32 \<Rightarrow> 'v \<Rightarrow> 'a bus_sys_scheme \<Rightarrow> 'a bus_sys_scheme" where
  "guard_write f off v s = guard s (f off v s)"

definition read_core :: "(u32 \<Rightarrow> 'a bus_sys_scheme \<Rightarrow> 'v \<times> 'a bus_sys_scheme) \<Rightarrow> bool" where
  "read_core f \<longleftrightarrow> (\<forall>off s. core_same (cpu s) (cpu (snd (f off s))))"

definition write_core :: "(u32 \<Rightarrow> 'v \<Rightarrow> 'a bus_sys_scheme \<Rightarrow> 'a bus_sys_scheme) \<Rightarrow> bool" where
  "write_core f \<longleftrightarrow> (\<forall>off v s. core_same (cpu s) (cpu (f off v s)))"

lemma guard_core: "read_core (guard_read f)" "write_core (guard_write g)"
  by (simp_all add: read_core_def write_core_def guard_read_def guard_write_def guard_def keep_core_same)

lemma guard_id: "read_core f \<Longrightarrow> guard_read f = f" "write_core g \<Longrightarrow> guard_write g = g"
  by (auto simp: fun_eq_iff read_core_def write_core_def guard_read_def guard_write_def guard_def keep_core_id)

text \<open>The contract of the devices outside the model.\<close>

definition devices_ok :: "('a bus_sys_scheme) bus_devices \<Rightarrow> bool" where
  "devices_ok d \<longleftrightarrow>
     read_core (pad_read_port d) \<and> write_core (pad_write_port d) \<and>
     read_core (sio_read_port d) \<and> write_core (sio_write_port d) \<and>
     read_core (dma_read_port d) \<and> write_core (dma_write_port d) \<and>
     read_core (cdrom_read_port d) \<and> write_core (cdrom_write_port d) \<and>
     read_core (gpu_read_port d) \<and> write_core (gpu_write_port d) \<and>
     read_core (mdec_read_port d) \<and> write_core (mdec_write_port d) \<and>
     read_core (spu_read_port d) \<and> write_core (spu_write_port d) \<and>
     hooks_core (bus_timers_hooks d)"

definition guard_hooks :: "'a bus_sys_scheme timers_hooks \<Rightarrow> 'a bus_sys_scheme timers_hooks" where
  "guard_hooks h = h\<lparr>gpu_synchronize_crtc := map_option (\<lambda>f s. guard s (f s)) (gpu_synchronize_crtc h)\<rparr>"

definition guard_devices :: "('a bus_sys_scheme) bus_devices \<Rightarrow> ('a bus_sys_scheme) bus_devices" where
  "guard_devices d = d\<lparr>
     pad_read_port := guard_read (pad_read_port d),
     pad_write_port := guard_write (pad_write_port d),
     sio_read_port := guard_read (sio_read_port d),
     sio_write_port := guard_write (sio_write_port d),
     dma_read_port := guard_read (dma_read_port d),
     dma_write_port := guard_write (dma_write_port d),
     cdrom_read_port := guard_read (cdrom_read_port d),
     cdrom_write_port := guard_write (cdrom_write_port d),
     gpu_read_port := guard_read (gpu_read_port d),
     gpu_write_port := guard_write (gpu_write_port d),
     mdec_read_port := guard_read (mdec_read_port d),
     mdec_write_port := guard_write (mdec_write_port d),
     spu_read_port := guard_read (spu_read_port d),
     spu_write_port := guard_write (spu_write_port d),
     bus_timers_hooks := guard_hooks (bus_timers_hooks d)\<rparr>"

lemma guard_hooks_core: "hooks_core (guard_hooks h)"
  by (auto simp: hooks_core_def guard_hooks_def guard_def keep_core_same)

lemma guard_hooks_id: "hooks_core h \<Longrightarrow> guard_hooks h = h"
proof -
  assume h: "hooks_core h"
  have "map_option (\<lambda>f s. guard s (f s)) (gpu_synchronize_crtc h) = gpu_synchronize_crtc h"
    using h by (cases "gpu_synchronize_crtc h") (auto simp: fun_eq_iff hooks_core_def guard_def keep_core_id)
  then show ?thesis by (simp add: guard_hooks_def)
qed

lemma guard_devices_ok: "devices_ok (guard_devices d)"
  by (simp add: devices_ok_def guard_devices_def guard_core guard_hooks_core)

lemma guard_devices_id: "devices_ok d \<Longrightarrow> guard_devices d = d"
  by (simp add: devices_ok_def guard_devices_def guard_id guard_hooks_id)

section \<open>The handlers\<close>

lemma bus_cycles_core [simp]: "core_view (cpu (bus_cycles n s)) = core_view (cpu s)"
  by (simp add: bus_cycles_def cpu_add_pending_ticks_def)

lemma bus_error_core [simp]: "core_view (cpu (cpu_set_bus_error s)) = core_view (cpu s)"
  by (simp add: cpu_set_bus_error_def)

lemma memory_read_core:
  "core_same (cpu s) (cpu (snd (unknown_read s)))"
  "core_same (cpu s) (cpu (snd (unmapped_read s)))"
  "core_same (cpu s) (cpu (snd (ram_read sz a s)))"
  "core_same (cpu s) (cpu (snd (scratchpad_read sz a s)))"
  "core_same (cpu s) (cpu (snd (bios_read sz a s)))"
  "core_same (cpu s) (cpu (snd (exp1_read sz a s)))"
  "core_same (cpu s) (cpu (snd (exp2_read_common sz a s)))"
  "core_same (cpu s) (cpu (snd (exp3_read s)))"
  "core_same (cpu s) (cpu (snd (sio2_read_common d s)))"
  "core_same (cpu s) (cpu (snd (icache_read a s)))"
  "core_same (cpu s) (cpu (snd (cache_control_read_any a s)))"
  "core_same (cpu s) (cpu (snd (memctrl_read_common sz a s)))"
  "core_same (cpu s) (cpu (snd (memctrl2_read_common a s)))"
  by (simp_all add: unknown_read_def unmapped_read_def ram_read_def scratchpad_read_def bios_read_def
      exp1_read_def exp2_read_common_def exp3_read_def sio2_read_common_def icache_read_def
      cache_control_read_any_def memctrl_read_common_def memctrl2_read_common_def Let_def)

lemma memory_write_core:
  "core_same (cpu s) (cpu (unknown_write s))"
  "core_same (cpu s) (cpu (unmapped_write s))"
  "core_same (cpu s) (cpu (ram_write sz a v s))"
  "core_same (cpu s) (cpu (scratchpad_write sz a v s))"
  "core_same (cpu s) (cpu (exp1_write s))"
  "core_same (cpu s) (cpu (exp2_write_common a v s))"
  "core_same (cpu s) (cpu (exp3_write_common a v s))"
  "core_same (cpu s) (cpu (sio2_write_common d s))"
  "core_same (cpu s) (cpu (cache_control_write_any a v s))"
  "core_same (cpu s) (cpu (memctrl_write_common sz a v s))"
  "core_same (cpu s) (cpu (memctrl2_write_common a v s))"
  by (simp_all add: unknown_write_def unmapped_write_def ram_write_def scratchpad_write_def
      exp1_write_def exp2_write_common_def exp3_write_common_def sio2_write_common_def
      cache_control_write_any_def memctrl_write_common_def memctrl2_write_common_def Let_def)

lemma icache_write_core: "core_same (cpu s) (cpu (icache_write_common sz a v s))"
  by (simp add: core_view_def icache_write_common_def icache_set_tag_def Let_def)

lemma device_core:
  "read_core f \<Longrightarrow> core_same (cpu s) (cpu (snd (device_read_half f sz off s)))"
  "read_core f \<Longrightarrow> core_same (cpu s) (cpu (snd (device_read_word f sz off s)))"
  "write_core g \<Longrightarrow> core_same (cpu s) (cpu (device_write_half g sz off v s))"
  "write_core g \<Longrightarrow> core_same (cpu s) (cpu (device_write_word g sz off v s))"
  by (simp_all add: device_read_half_def device_read_word_def device_write_half_def
      device_write_word_def read_core_def write_core_def case_prod_beta)

lemma intc_core:
  "read_core (\<lambda>off s. (interrupt_controller_read_register off s, s))"
  "write_core interrupt_controller_write_register"
  by (simp_all add: read_core_def write_core_def intc_write_core)

lemma timers_core:
  "hooks_core h \<Longrightarrow> read_core (\<lambda>off s. case timers_read_register h off s of
     Some r \<Rightarrow> r | None \<Rightarrow> (0xFFFFFFFF, s))"
  "hooks_core h \<Longrightarrow> write_core (\<lambda>off v s. case timers_write_register h off v s of
     Some s \<Rightarrow> s | None \<Rightarrow> s)"
  by (auto simp: read_core_def write_core_def split: option.splits dest: timers_read_core timers_write_core)

lemma cdrom_read_bytes_core:
  "read_core (cdrom_read_port d) \<Longrightarrow> core_same (cpu s) (cpu (snd (cdrom_read_bytes d off n s)))"
proof (induction n arbitrary: off s)
  case (Suc n)
  obtain b r where r: "cdrom_read_port d off s = (b, r)" by (cases "cdrom_read_port d off s")
  have "core_same (cpu s) (cpu r)"
    using Suc.prems r by (metis read_core_def snd_conv)
  then show ?case using Suc.IH [OF Suc.prems, where s = r and off = "off + 1"] r
    by (simp add: case_prod_beta)
qed simp

lemma cdrom_write_bytes_core:
  "write_core (cdrom_write_port d) \<Longrightarrow> core_same (cpu s) (cpu (cdrom_write_bytes d off v n s))"
  by (induction n arbitrary: off v s) (simp_all add: write_core_def)

lemma cdrom_core:
  "read_core (cdrom_read_port d) \<Longrightarrow> core_same (cpu s) (cpu (snd (cdrom_read_common d sz a s)))"
  "write_core (cdrom_write_port d) \<Longrightarrow> core_same (cpu s) (cpu (cdrom_write_common d sz a v s))"
  using cdrom_read_bytes_core [of d, where s = s and off = "a AND 0xF" and n = "size_bytes sz"]
  by (simp_all add: cdrom_read_common_def cdrom_write_common_def cdrom_write_bytes_core case_prod_beta)

lemma spu_core:
  "read_core (spu_read_port d) \<Longrightarrow> core_same (cpu s) (cpu (snd (spu_read_common d sz a s)))"
  "write_core (spu_write_port d) \<Longrightarrow> core_same (cpu s) (cpu (spu_write_common d sz a v s))"
  by (cases sz; simp add: spu_read_common_def spu_write_common_def read_core_def write_core_def
      Let_def case_prod_beta)+

lemma hardware_core:
  assumes "devices_ok d"
  shows "core_same (cpu s) (cpu (snd (hardware_read d sz a s)))"
    "core_same (cpu s) (cpu (hardware_write d sz a v s))"
  using assms unfolding devices_ok_def hardware_read_def hardware_write_def
  by (cases "build_hw_dispatch (unat (drop_bit 4 a AND 0xFF))"; simp add: memory_read_core memory_write_core device_core intc_core
      timers_core cdrom_core spu_core pad_read_common_def pad_write_common_def sio_read_common_def
      sio_write_common_def gpu_read_common_def gpu_write_common_def mdec_read_common_def
      mdec_write_common_def dma_read_common_def dma_write_common_def intc_read_common_def
      intc_write_common_def timers_read_common_def timers_write_common_def)+

lemma handlers_core:
  assumes "devices_ok d"
  shows "core_same (cpu s) (cpu (snd (bus_read_handler d isc swc sz a s)))"
    "core_same (cpu s) (cpu (bus_write_handler d isc swc sz a v s))"
  using hardware_core [OF assms]
  by (auto simp: bus_read_handler_def bus_write_handler_def memory_read_core memory_write_core
      icache_write_core split: bus_handler.splits)

end
