(* ===== verification/Cpu_Inv.thy ===== *)
theory Cpu_Inv
  imports Cpu_Frame
begin

text \<open>
  Preservation through the interpreter, proved once: \<open>core_step\<close> is the contract of a
  predicate on the CPU that survives the elementary updates, and inside it every instruction that is
  not a branch keeps the predicate.  Two instances follow: the register-file invariant
  \<open>cpu_inv\<close> (register 0 is zero, no register index leaves the 35-slot array) and the
  straight-line predicate \<open>straight\<close> (no instruction but a branch opens a delay slot, and
  without an exception the next two fetch addresses stay as they are).
\<close>

lemma inst_reg_bound: "inst_rs w < 32" "inst_rt w < 32" "inst_rd w < 32"
proof -
  have "unat (bits_get w lo 5) < 32" for lo
    using bits_get_bound [of 5 w lo] by simp
  then show "inst_rs w < 32" "inst_rt w < 32" "inst_rd w < 32"
    by (simp_all add: inst_rs_def inst_rt_def inst_rd_def)
qed

section \<open>The decoder restarts at most once\<close>

lemma safe_read_on_cpu [simp]:
  "cpu_safe_read_instruction a (on_cpu f s) = cpu_safe_read_instruction a s"
  by (simp add: cpu_safe_read_instruction_def instruction_image_def on_cpu_def)

lemma execute_instruction_once:
  "cpu_execute_instruction env s =
     (let inst = current_instruction (cpu s);
          run = (\<lambda>w s. if w = 0 then Some s
                       else if inst_op w \<in> known_ops then cpu_execute_known env w s
                       else Some (cpu_raise_exception env CPU_EXCEPTION_RI s))
      in case cpu_safe_read_instruction (current_instruction_pc (cpu s)) s of
           Some w \<Rightarrow>
             if inst \<noteq> 0 \<and> inst_op inst \<notin> known_ops \<and> w \<noteq> inst
             then run w (on_cpu (\<lambda>c. c\<lparr>current_instruction := w\<rparr>) s) else run inst s
         | None \<Rightarrow> run inst s)"
proof (cases "cpu_safe_read_instruction (current_instruction_pc (cpu s)) s")
  case None
  then show ?thesis by (subst cpu_execute_instruction.simps) (simp add: Let_def)
next
  case (Some w)
  have "cpu_execute_instruction env (on_cpu (\<lambda>c. c\<lparr>current_instruction := w\<rparr>) s) =
      (if w = 0 then Some (on_cpu (\<lambda>c. c\<lparr>current_instruction := w\<rparr>) s)
       else if inst_op w \<in> known_ops then cpu_execute_known env w (on_cpu (\<lambda>c. c\<lparr>current_instruction := w\<rparr>) s)
       else Some (cpu_raise_exception env CPU_EXCEPTION_RI (on_cpu (\<lambda>c. c\<lparr>current_instruction := w\<rparr>) s)))"
    using Some by (subst cpu_execute_instruction.simps) (simp add: Let_def)
  then show ?thesis using Some
    by (subst cpu_execute_instruction.simps) (simp add: Let_def)
qed

section \<open>Predicates every instruction keeps\<close>

locale core_step = cpu_bus env for env :: "('a bus_sys_scheme) cpu_env" +
  fixes P :: "cpu_state \<Rightarrow> bool"
  assumes same: "core_view c' = core_view c \<Longrightarrow> P c \<Longrightarrow> P c'"
    and raise_vector: "P (cpu s) \<Longrightarrow> P (cpu (cpu_raise_exception_with_vector env bits epc vector s))"
    and write_reg: "P c \<Longrightarrow> P (cpu_write_reg rd v c)"
    and delayed: "P c \<Longrightarrow> rd < 32 \<Longrightarrow> P (cpu_write_reg_delayed rd v c)"
    and hilo: "P c \<Longrightarrow> i = CPU_REG_HI \<or> i = CPU_REG_LO \<Longrightarrow> P (put_reg i v c)"
    and gte: "P c \<Longrightarrow> P (c\<lparr>gte_regs := g\<rparr>)"
    and cop0: "P c \<Longrightarrow> P (upd_cop0 f c)"
begin

lemma free [simp]:
  "P c \<Longrightarrow> P (c\<lparr>pending_ticks := t\<rparr>)" "P c \<Longrightarrow> P (c\<lparr>bus_error := b\<rparr>)"
  "P c \<Longrightarrow> P (cpu_stall_until_gte_complete c)" "P c \<Longrightarrow> P (cpu_stall_until_muldiv_complete c)"
  "P c \<Longrightarrow> P (cpu_add_muldiv_ticks n c)" "P c \<Longrightarrow> P (cpu_check_for_pending_interrupt c)"
  by (rule same, simp_all)+

lemma raise:
  assumes "P (cpu s)"
  shows "P (cpu (cpu_raise_exception env x s))"
    "P (cpu (cpu_raise_exception_bits env bits epc s))"
    "P (cpu (cpu_raise_data_bus_exception env s))"
    "P (cpu (cpu_raise_break_exception env bits epc w s))"
  using assms
  by (simp_all add: cpu_raise_exception_def cpu_raise_exception_bits_def raise_vector
      cpu_raise_data_bus_exception_def cpu_raise_break_exception_def)

lemma take_bus_error: "P (cpu s) \<Longrightarrow> P (cpu (snd (cpu_take_bus_error env s)))"
  by (simp add: cpu_take_bus_error_def raise)

lemma alignment: "P (cpu s) \<Longrightarrow> P (cpu (snd (cpu_do_alignment_check env ty sz a s)))"
  by (simp add: cpu_do_alignment_check_def raise cop0)

lemma handlers:
  assumes "P (cpu s)"
  shows "P (cpu (snd (read_handler env i w sz a s)))" "P (cpu (write_handler env i w sz a v s))"
  using same [OF read_frame assms] same [OF write_frame assms] by simp_all

lemma read_memory: "P (cpu s) \<Longrightarrow> P (cpu (snd (cpu_read_memory env sz a s)))"
  using alignment [of s MEMORY_ACCESS_TYPE_READ sz a]
  by (auto simp: cpu_read_memory_def Let_def case_prod_beta take_bus_error handlers split: bool.splits)

lemma write_memory: "P (cpu s) \<Longrightarrow> P (cpu (snd (cpu_write_memory env sz a v s)))"
  using alignment [of s MEMORY_ACCESS_TYPE_WRITE sz a]
  by (auto simp: cpu_write_memory_def Let_def case_prod_beta take_bus_error handlers split: bool.splits)

lemma memory_ops:
  assumes "P (cpu s)"
  shows "P (cpu (cpu_execute_load env inst s))" "P (cpu (cpu_execute_load_unaligned env inst s))"
    "P (cpu (cpu_execute_store env inst s))" "P (cpu (cpu_execute_store_unaligned env inst s))"
    "P (cpu (cpu_execute_lwc2 env inst s))" "P (cpu (cpu_execute_swc2 env inst s))"
    "P (cpu (cpu_execute_absent_cop env inst s))"
proof -
  have rd: "P (cpu t)" if "cpu_read_memory env sz a s = (v, t)" for sz a v t
    using read_memory [OF assms, of sz a] that by simp
  note rt = inst_reg_bound(2) [of inst]
  show "P (cpu (cpu_execute_load env inst s))"
    using rt by (auto simp: cpu_execute_load_def Let_def delayed dest: rd split: option.splits prod.splits)
  show "P (cpu (cpu_execute_load_unaligned env inst s))"
    using rt by (auto simp: cpu_execute_load_unaligned_def Let_def delayed dest: rd
        split: option.splits prod.splits)
  show "P (cpu (cpu_execute_store env inst s))"
    using assms by (simp add: cpu_execute_store_def Let_def write_memory)
  show "P (cpu (cpu_execute_store_unaligned env inst s))"
    by (auto simp: cpu_execute_store_unaligned_def Let_def write_memory dest: rd
        split: option.splits prod.splits)
  show "P (cpu (cpu_execute_lwc2 env inst s))"
    by (auto simp: cpu_execute_lwc2_def assms raise gte_put_def gte dest: rd split: option.splits prod.splits)
  show "P (cpu (cpu_execute_swc2 env inst s))"
    using assms by (simp add: cpu_execute_swc2_def Let_def write_memory raise)
  show "P (cpu (cpu_execute_absent_cop env inst s))"
    using assms by (simp add: cpu_execute_absent_cop_def Let_def read_memory write_memory)
qed

lemma alu_ops:
  assumes "P c"
  shows "P (cpu_execute_shift inst c)" "P (cpu_execute_logic inst c)" "P (cpu_execute_slt inst c)"
    "P (cpu_execute_hilo inst c)" "P (cpu_execute_mult inst c)" "P (cpu_execute_div inst c)"
    "P (cpu_execute_rfe c)"
  using assms
  by (simp_all add: cpu_execute_shift_def cpu_execute_logic_def cpu_execute_slt_def
      cpu_execute_hilo_def cpu_execute_mult_def cpu_execute_div_def cpu_execute_rfe_def
      put_hilo_def Let_def case_prod_beta write_reg hilo cop0)

lemma funct:
  "P (cpu s) \<Longrightarrow> inst_funct inst \<notin> {CPU_FUNCT_JR, CPU_FUNCT_JALR} \<Longrightarrow> P (cpu (cpu_execute_funct env inst s))"
  by (simp add: cpu_execute_funct_def cpu_execute_arith_def cpu_execute_trap_def Let_def case_prod_beta
      write_reg alu_ops raise del: One_nat_def)

lemma imm: "P (cpu s) \<Longrightarrow> P (cpu (cpu_execute_imm env inst s))"
  by (simp add: cpu_execute_imm_def Let_def case_prod_beta write_reg raise)

lemma cop0_write: "P c \<Longrightarrow> cop0_write n v c = Some c' \<Longrightarrow> P c'"
  by (auto simp: cop0_write_def cop0 split: if_splits)

lemma exec_cop0: "P (cpu s) \<Longrightarrow> P (cpu (cpu_execute_cop0 env inst s))"
  using inst_reg_bound(2) [of inst] cop0_write
  by (auto simp: cpu_execute_cop0_def delayed alu_ops raise split: option.splits)

lemma run_gte: "cpu_run_gte env inst s = Some t \<Longrightarrow> P (cpu s) \<Longrightarrow> P (cpu t)"
  by (auto simp: cpu_run_gte_def Let_def gte)

lemma cop2: "cpu_execute_cop2 env inst s = Some t \<Longrightarrow> P (cpu s) \<Longrightarrow> P (cpu t)"
  using inst_reg_bound(2) [of inst]
  by (auto simp: cpu_execute_cop2_def Let_def delayed gte_put_def gte raise intro: run_gte split: if_splits)

lemma known:
  assumes "cpu_execute_known env inst s = Some t" "P (cpu s)" "\<not> cpu_is_branch_instruction inst"
  shows "P (cpu t)"
  using assms funct [of s inst] cop2 [of inst s t] unfolding cpu_execute_known_def Let_def
  by (auto simp: cpu_is_branch_instruction_def imm memory_ops exec_cop0 split: if_splits)

end

section \<open>The register-file invariant\<close>

definition cpu_inv :: "cpu_state \<Rightarrow> bool" where
  "cpu_inv c \<longleftrightarrow> regs c 0 = 0 \<and> load_delay_reg c \<le> CPU_REG_COUNT \<and>
     next_load_delay_reg c \<le> CPU_REG_COUNT \<and>
     (load_delay_reg c = 0 \<longrightarrow> load_delay_value c = 0) \<and>
     (next_load_delay_reg c = 0 \<longrightarrow> next_load_delay_value c = 0)"

lemma cpu_inv_view:
  assumes "core_view c' = core_view c" "cpu_inv c"
  shows "cpu_inv c'"
  using core_sameD(1,12-15) [OF assms(1)] assms(2) by (simp add: cpu_inv_def)

lemma cpu_inv_frame [simp]:
  "cpu_inv (c\<lparr>next_instruction_is_branch_delay_slot := b\<rparr>) = cpu_inv c"
  "cpu_inv (c\<lparr>gte_regs := g\<rparr>) = cpu_inv c"
  "cpu_inv (c\<lparr>current_instruction := w\<rparr>) = cpu_inv c"
  "cpu_inv (c\<lparr>next_instruction := w\<rparr>) = cpu_inv c"
  "cpu_inv (upd_cop0 f c) = cpu_inv c"
  "cpu_inv (cpu_branch tgt c) = cpu_inv c"
  "cpu_inv (begin_instruction w c) = cpu_inv c"
  "cpu_inv (exception_cop0 bits epc c) = cpu_inv c"
  by (simp_all add: cpu_inv_def upd_cop0_def cpu_branch_def begin_instruction_def
      exception_cop0_def Let_def)

lemma cpu_inv_regs:
  "cpu_inv c \<Longrightarrow> cpu_inv (cpu_write_reg rd v c)"
  "cpu_inv c \<Longrightarrow> rd < 32 \<Longrightarrow> cpu_inv (cpu_write_reg_delayed rd v c)"
  "cpu_inv c \<Longrightarrow> i = CPU_REG_HI \<or> i = CPU_REG_LO \<Longrightarrow> cpu_inv (put_reg i v c)"
  "cpu_inv c \<Longrightarrow> cpu_inv (cpu_update_load_delay c)"
  "cpu_inv c \<Longrightarrow> cpu_inv (cpu_flush_load_delay c)"
  by (auto simp: cpu_inv_def cpu_write_reg_def cpu_write_reg_delayed_def put_reg_def
      cpu_update_load_delay_def cpu_flush_load_delay_def CPU_REG_HI_def CPU_REG_LO_def CPU_REG_COUNT_def)

context cpu_bus
begin

lemma inv_raise_vector:
  assumes "cpu_inv (cpu s)"
  shows "cpu_inv (cpu (cpu_raise_exception_with_vector env bits epc vector s))"
proof (rule raise_core [of bits epc vector s])
  fix w e
  assume v: "core_view (cpu (cpu_raise_exception_with_vector env bits epc vector s)) =
    core_view ((exception_cop0 bits epc (cpu_flush_load_delay (cpu s)))\<lparr>exception_raised := True,
      branch_was_taken := False, next_instruction_is_branch_delay_slot := False,
      current_instruction_pc := pc (cpu s), next_instruction := w, next_instruction_fetch_exception := e,
      pc := vector, npc := vector + 4, current_instruction := w,
      current_instruction_in_branch_delay_slot := False,
      current_instruction_was_branch_taken := False\<rparr>)"
  have "cpu_inv (exception_cop0 bits epc (cpu_flush_load_delay (cpu s)))"
    using assms by (simp add: cpu_inv_regs)
  then show ?thesis by (intro cpu_inv_view [OF v]) (simp add: cpu_inv_def)
qed

end

sublocale cpu_bus \<subseteq> inv: core_step env cpu_inv
  by unfold_locales (auto simp: cpu_inv_regs inv_raise_vector intro: cpu_inv_view)

context cpu_bus
begin

lemma inv_branch:
  assumes "cpu_inv (cpu s)" "cpu_is_branch_instruction inst" "cpu_execute_known env inst s = Some t"
  shows "cpu_inv (cpu t)"
proof -
  have "cpu_inv (cpu_execute_branch inst c)" "cpu_inv (cpu_execute_jump inst c)"
    "cpu_inv (cpu_execute_jump_reg inst c)" if "cpu_inv c" for c
    using that by (simp_all add: cpu_execute_branch_def cpu_execute_jump_def
        cpu_execute_jump_reg_def Let_def cpu_inv_regs)
  then show ?thesis
    using assms by (auto simp: cpu_is_branch_instruction_def cpu_execute_known_def cpu_execute_funct_def)
qed

lemma inv_known: "cpu_execute_known env inst s = Some t \<Longrightarrow> cpu_inv (cpu s) \<Longrightarrow> cpu_inv (cpu t)"
  using inv_branch inv.known by blast

lemma inv_execute:
  assumes "cpu_execute_instruction env s = Some t" "cpu_inv (cpu s)"
  shows "cpu_inv (cpu t)"
  using assms unfolding execute_instruction_once Let_def
  by (auto simp: inv.raise intro: inv_known split: if_splits option.splits)

lemma inv_fetch: "cpu_inv (cpu s) \<Longrightarrow> cpu_inv (cpu (cpu_fetch_instruction env s))"
proof (rule fetch_core [of s])
  fix w e
  assume "cpu_inv (cpu s)" and v: "core_view (cpu (cpu_fetch_instruction env s)) =
    core_view ((cpu s)\<lparr>next_instruction := w, next_instruction_fetch_exception := e,
      pc := npc (cpu s), npc := npc (cpu s) + 4\<rparr>)"
  then show ?thesis by (intro cpu_inv_view [OF v]) (simp add: cpu_inv_def)
qed

lemma inv_prefetched:
  assumes i: "cpu_inv (cpu s)" and e: "cpu_execute_prefetched_instruction env inst s = Some (b, t)"
  shows "cpu_inv (cpu t)"
proof -
  have "cpu_inv (cpu (snd (cpu_raise_pending_fetch_exception env s)))"
    using i by (simp add: cpu_raise_pending_fetch_exception_def Let_def inv.raise)
  moreover have "cpu_inv (cpu (cpu_fetch_instruction env (on_cpu (begin_instruction inst) r)))"
    if "cpu_inv (cpu r)" for r :: "'a bus_sys_scheme"
    using that by (intro inv_fetch) simp
  ultimately show ?thesis using e inv_execute
    by (auto simp: cpu_execute_prefetched_instruction_def cpu_inv_regs split: prod.splits bool.splits)
qed

lemma update_downcount_core:
  "timing_events_update_cpu_downcount r = Some u \<Longrightarrow> core_view (cpu u) = core_view (cpu r)"
  by (auto simp: timing_events_update_cpu_downcount_def Let_def split: option.splits)

text \<open>The interrupt entry with its optional GTE command resolved.\<close>

lemma dispatch_cases:
  assumes "cpu_dispatch_interrupt env s = Some t"
  obtains w q where
    "(if inst_op w = CPU_OP_COP2 \<and> \<not> cpu_cop_is_common_instruction w
      then cpu_run_gte env w (on_cpu (\<lambda>c. c\<lparr>next_instruction := w\<rparr>) s)
      else Some (on_cpu (\<lambda>c. c\<lparr>next_instruction := w\<rparr>) s)) = Some q"
    "timing_events_update_cpu_downcount (cpu_raise_exception_bits env
      (cpu_cop0_cause_make CPU_EXCEPTION_INT (next_instruction_is_branch_delay_slot (cpu q))
         (branch_was_taken (cpu q)) (inst_cop_n w)) (pc (cpu q)) q) = Some t"
proof -
  define w where "w = (case cpu_safe_read_instruction (pc (cpu s)) s of Some w \<Rightarrow> w
    | None \<Rightarrow> next_instruction (cpu s))"
  have w: "(case cpu_safe_read_instruction (pc (cpu s)) s of
      Some w \<Rightarrow> on_cpu (\<lambda>c. c\<lparr>next_instruction := w\<rparr>) s | None \<Rightarrow> s) =
    on_cpu (\<lambda>c. c\<lparr>next_instruction := w\<rparr>) s"
    by (simp add: w_def on_cpu_def split: option.splits)
  have next_w: "next_instruction (cpu (on_cpu (\<lambda>c. c\<lparr>next_instruction := w\<rparr>) s)) = w"
    by simp
  show thesis
    using assms unfolding cpu_dispatch_interrupt_def w Let_def bind_eq_Some_conv next_w
    by (elim exE conjE) (rule that)
qed

lemma inv_dispatch:
  assumes i: "cpu_inv (cpu s)" and e: "cpu_dispatch_interrupt env s = Some t"
  shows "cpu_inv (cpu t)"
proof (rule dispatch_cases [OF e])
  fix w q
  let ?r = "on_cpu (\<lambda>c. c\<lparr>next_instruction := w\<rparr>) s"
  assume q: "(if inst_op w = CPU_OP_COP2 \<and> \<not> cpu_cop_is_common_instruction w
      then cpu_run_gte env w ?r else Some ?r) = Some q"
    and u: "timing_events_update_cpu_downcount (cpu_raise_exception_bits env
      (cpu_cop0_cause_make CPU_EXCEPTION_INT (next_instruction_is_branch_delay_slot (cpu q))
         (branch_was_taken (cpu q)) (inst_cop_n w)) (pc (cpu q)) q) = Some t"
  have "cpu_inv (cpu ?r)" using i by simp
  then have "cpu_inv (cpu q)" using q inv.run_gte by (cases "inst_op w = CPU_OP_COP2 \<and>
      \<not> cpu_cop_is_common_instruction w") (metis, metis option.inject)
  then show ?thesis
    using update_downcount_core [OF u] inv.raise(2) cpu_inv_view by blast
qed

end
end
