(* ===== verification/Cpu_Control.thy ===== *)
theory Cpu_Control
  imports Cpu_Inv
begin

text \<open>
  Control flow: what an exception does to COP0 and to the fetch stream and how
  \<open>rfe\<close> undoes it, which instructions open a delay slot and where a taken branch goes, in
  agreement with the block compiler's classifiers.
\<close>

section \<open>Straight-line execution\<close>

definition straight :: "u32 \<Rightarrow> u32 \<Rightarrow> cpu_state \<Rightarrow> bool" where
  "straight p n c \<longleftrightarrow> \<not> next_instruction_is_branch_delay_slot c \<and>
     (exception_raised c \<or> (pc c = p \<and> npc c = n \<and> \<not> branch_was_taken c))"

lemma straight_view:
  assumes "core_view c' = core_view c" "straight p n c"
  shows "straight p n c'"
  using core_sameD(2,3,8,9,10) [OF assms(1)] assms(2) by (simp add: straight_def)

lemma straight_regs:
  "straight p n c \<Longrightarrow> straight p n (cpu_write_reg rd v c)"
  "straight p n c \<Longrightarrow> straight p n (cpu_write_reg_delayed rd v c)"
  "straight p n c \<Longrightarrow> straight p n (put_reg i v c)"
  "straight p n c \<Longrightarrow> straight p n (c\<lparr>gte_regs := g\<rparr>)"
  "straight p n c \<Longrightarrow> straight p n (upd_cop0 f c)"
  by (simp_all add: straight_def cpu_write_reg_def cpu_write_reg_delayed_def put_reg_def upd_cop0_def)

context cpu_bus
begin

lemma straight_raise:
  "straight p n (cpu (cpu_raise_exception_with_vector env bits epc vector s))"
proof (rule raise_core [of bits epc vector s])
  fix w e
  assume v: "core_view (cpu (cpu_raise_exception_with_vector env bits epc vector s)) =
    core_view ((exception_cop0 bits epc (cpu_flush_load_delay (cpu s)))\<lparr>exception_raised := True,
      branch_was_taken := False, next_instruction_is_branch_delay_slot := False,
      current_instruction_pc := pc (cpu s), next_instruction := w, next_instruction_fetch_exception := e,
      pc := vector, npc := vector + 4, current_instruction := w,
      current_instruction_in_branch_delay_slot := False,
      current_instruction_was_branch_taken := False\<rparr>)"
  show ?thesis by (intro straight_view [OF v]) (simp add: straight_def)
qed

end

sublocale cpu_bus \<subseteq> straight: core_step env "straight p n"
  by unfold_locales (auto simp: straight_regs straight_raise intro: straight_view)

section \<open>Branches\<close>

lemma write_reg_control [simp]:
  "pc (cpu_write_reg rd v c) = pc c" "npc (cpu_write_reg rd v c) = npc c"
  "next_instruction_is_branch_delay_slot (cpu_write_reg rd v c) = next_instruction_is_branch_delay_slot c"
  "branch_was_taken (cpu_write_reg rd v c) = branch_was_taken c"
  by (simp_all add: cpu_write_reg_def put_reg_def)

text \<open>Whether a branch instruction is taken, and its target.\<close>

definition branch_taken :: "u32 \<Rightarrow> cpu_state \<Rightarrow> bool" where
  "branch_taken inst c \<longleftrightarrow>
     inst_op inst \<in> {CPU_OP_FUNCT, CPU_OP_J, CPU_OP_JAL} \<or> branch_condition inst c"

definition branch_destination :: "u32 \<Rightarrow> cpu_state \<Rightarrow> u32" where
  "branch_destination inst c =
     (if inst_op inst = CPU_OP_FUNCT then cpu_read_reg (inst_rs inst) c
      else cpu_get_direct_branch_target inst (current_instruction_pc c))"

lemma branch_executes:
  assumes "cpu_is_branch_instruction inst" "\<not> branch_was_taken (cpu s)"
    "pc (cpu s) = current_instruction_pc (cpu s) + 4"
  shows "\<exists>t. cpu_execute_known env inst s = Some t \<and>
    next_instruction_is_branch_delay_slot (cpu t) \<and> pc (cpu t) = pc (cpu s) \<and>
    branch_was_taken (cpu t) = branch_taken inst (cpu s) \<and>
    npc (cpu t) = (if branch_taken inst (cpu s) then branch_destination inst (cpu s) else npc (cpu s))"
proof -
  consider "inst_op inst = CPU_OP_FUNCT" "inst_funct inst \<in> {CPU_FUNCT_JR, CPU_FUNCT_JALR}"
    | "inst_op inst \<in> {CPU_OP_J, CPU_OP_JAL}"
    | "inst_op inst \<in> {CPU_OP_B, CPU_OP_BEQ, CPU_OP_BGTZ, CPU_OP_BLEZ, CPU_OP_BNE}"
    using assms(1) by (auto simp: cpu_is_branch_instruction_def)
  then show ?thesis
  proof cases
    case 1
    then show ?thesis
      by (auto simp: cpu_execute_known_def cpu_execute_funct_def cpu_execute_jump_reg_def Let_def
          cpu_branch_def branch_taken_def branch_destination_def)
  next
    case 2
    then show ?thesis using assms(3)
      by (auto simp: cpu_execute_known_def cpu_execute_jump_def Let_def cpu_branch_def
          branch_taken_def branch_destination_def cpu_get_direct_branch_target_def)
  next
    case 3
    then have "cpu_execute_known env inst s = Some (on_cpu (cpu_execute_branch inst) s)"
      "branch_taken inst (cpu s) = branch_condition inst (cpu s)"
      "branch_destination inst (cpu s) = branch_target inst (cpu s)"
      using assms(3) by (auto simp: cpu_execute_known_def branch_taken_def branch_destination_def
          cpu_get_direct_branch_target_def branch_target_def)
    then show ?thesis using assms(2)
      by (simp add: cpu_execute_branch_def Let_def cpu_branch_def branch_target_def)
  qed
qed

section \<open>The COP0 side of an exception\<close>

lemma cop0_masks:
  "(0x3F :: u32) = mask 6" "(0x30 :: u32) = push_bit 4 (mask 2)"
  "(0xF000007C :: u32) = push_bit 2 (mask 5) OR push_bit 28 (mask 4)"
  by (simp_all add: mask_eq_exp_minus_1)

lemma bit_sr_push:
  "bit (sr_push w) n \<longleftrightarrow> (if n < 2 then False else if n < 6 then bit w (n - 2) else bit w n)"
  unfolding sr_push_def Let_def cop0_masks
  by (auto simp: bit_simps dest: bit_imp_le_length)

lemma bit_sr_pop:
  "bit (sr_pop w) n \<longleftrightarrow> (if n < 4 then bit w (n + 2) else bit w n)"
  unfolding sr_pop_def Let_def cop0_masks
  by (auto simp: bit_simps add.commute dest: bit_imp_le_length)

text \<open>Returning from an exception restores the current and previous modes.\<close>

lemma sr_pop_push: "bit (sr_pop (sr_push w)) n \<longleftrightarrow> (if n = 4 \<or> n = 5 then bit w (n - 2) else bit w n)"
  by (auto simp: bit_sr_pop bit_sr_push)

text \<open>The fields of the cause word an exception leaves, the hardware interrupt line apart.\<close>

definition exception_cause :: "u32 \<Rightarrow> u32 \<Rightarrow> u32" where
  "exception_cause bits old =
     (old AND NOT CPU_COP0_CAUSE_EXCEPTION_WRITE_MASK) OR (bits AND CPU_COP0_CAUSE_EXCEPTION_WRITE_MASK)"

lemma exception_cause_fields:
  "bits_get (exception_cause (cpu_cop0_cause_make x BD BT ce) old) 2 5 = excode x"
  "bit (exception_cause (cpu_cop0_cause_make x BD BT ce) old) 31 = BD"
  "bit (exception_cause (cpu_cop0_cause_make x BD BT ce) old) 30 = BT"
  "bits_get (exception_cause (cpu_cop0_cause_make x BD BT ce) old) 28 2 = take_bit 2 ce"
  "8 \<le> n \<Longrightarrow> n < 16 \<Longrightarrow> bit (exception_cause (cpu_cop0_cause_make x BD BT ce) old) n = bit old n"
proof -
  have code: "take_bit 5 (excode x) = excode x"
    by (cases x) simp_all
  have code': "bit (excode x) n \<Longrightarrow> n < 5" for n
    using arg_cong [OF code, of "\<lambda>w. bit w n"] by (simp add: bit_take_bit_iff)
  have bits: "bit (exception_cause (cpu_cop0_cause_make x BD BT ce) old) n \<longleftrightarrow>
      (if n = 31 then BD else if n = 30 then BT else if n = 28 \<or> n = 29 then bit ce (n - 28)
       else if 2 \<le> n \<and> n < 7 then bit (excode x) (n - 2) else bit old n)" for n
    unfolding exception_cause_def cpu_cop0_cause_make_def CPU_COP0_CAUSE_EXCEPTION_WRITE_MASK_def cop0_masks
    by (auto simp: bit_simps dest: bit_imp_le_length code')
  show "bits_get (exception_cause (cpu_cop0_cause_make x BD BT ce) old) 2 5 = excode x"
    by (rule bit_word_eqI) (auto simp: bits dest: code')
  show "bits_get (exception_cause (cpu_cop0_cause_make x BD BT ce) old) 28 2 = take_bit 2 ce"
    by (rule bit_word_eqI) (auto simp: bits bit_simps less_2_cases_iff)
  show "bit (exception_cause (cpu_cop0_cause_make x BD BT ce) old) 31 = BD"
    "bit (exception_cause (cpu_cop0_cause_make x BD BT ce) old) 30 = BT"
    "8 \<le> n \<Longrightarrow> n < 16 \<Longrightarrow> bit (exception_cause (cpu_cop0_cause_make x BD BT ce) old) n = bit old n"
    by (auto simp: bits)
qed

section \<open>Exception entry\<close>

text \<open>
  What an exception leaves: execution at the vector, interrupts off and kernel mode, EPC at the
  instruction or, in a delay slot, at the branch before it (whose fetch address TAR keeps), and
  the load-delay slot drained into the register file.
\<close>

definition exception_taken :: "u32 \<Rightarrow> u32 \<Rightarrow> cpu_state \<Rightarrow> cpu_state \<Rightarrow> bool" where
  "exception_taken bits epc c c' \<longleftrightarrow>
     pc c' = cpu_get_exception_vector c \<and> npc c' = cpu_get_exception_vector c + 4 \<and>
     exception_raised c' \<and> \<not> next_instruction_is_branch_delay_slot c' \<and> \<not> branch_was_taken c' \<and>
     sr (cop0_regs c') = sr_push (sr (cop0_regs c)) \<and>
     flag_put 10 False (cause (cop0_regs c')) =
       flag_put 10 False (exception_cause bits (cause (cop0_regs c))) \<and>
     EPC (cop0_regs c') = (if bit bits 31 then epc - 4 else epc) \<and>
     (bit bits 31 \<longrightarrow> TAR (cop0_regs c') = pc c) \<and>
     regs c' = (regs c)(load_delay_reg c := load_delay_value c) \<and>
     load_delay_reg c' = CPU_REG_COUNT \<and> next_load_delay_reg c' = CPU_REG_COUNT"

lemma exception_taken_view:
  assumes "core_view c2 = core_view c1" "exception_taken bits epc c c1"
  shows "exception_taken bits epc c c2"
  using core_sameD [OF assms(1)] assms(2) by (simp add: exception_taken_def)

lemma bit_exception_mask_31: "bit CPU_COP0_CAUSE_EXCEPTION_WRITE_MASK 31"
  unfolding CPU_COP0_CAUSE_EXCEPTION_WRITE_MASK_def cop0_masks by (simp add: bit_simps)

lemma exception_cause_BD: "cause_BD (exception_cause bits old) \<longleftrightarrow> bit bits 31"
  using bit_exception_mask_31
  by (simp add: exception_cause_def cause_BD_def bit_simps)

lemma bit_cause_make_31: "bit (cpu_cop0_cause_make x BD BT ce) 31 = BD"
  by (simp add: cpu_cop0_cause_make_def bit_simps)

context cpu_bus
begin

lemma exception_entry:
  "exception_taken bits epc (cpu s) (cpu (cpu_raise_exception_bits env bits epc s))"
proof (rule raise_core [of bits epc "cpu_get_exception_vector (cpu s)" s])
  fix w e
  assume v: "core_view (cpu (cpu_raise_exception_with_vector env bits epc (cpu_get_exception_vector (cpu s)) s)) =
    core_view ((exception_cop0 bits epc (cpu_flush_load_delay (cpu s)))\<lparr>exception_raised := True,
      branch_was_taken := False, next_instruction_is_branch_delay_slot := False,
      current_instruction_pc := pc (cpu s), next_instruction := w, next_instruction_fetch_exception := e,
      pc := cpu_get_exception_vector (cpu s), npc := cpu_get_exception_vector (cpu s) + 4,
      current_instruction := w, current_instruction_in_branch_delay_slot := False,
      current_instruction_was_branch_taken := False\<rparr>)"
  show ?thesis
    unfolding cpu_raise_exception_bits_def
    by (rule exception_taken_view [OF v])
      (simp add: exception_taken_def exception_cop0_def Let_def exception_cause_def [symmetric]
        exception_cause_BD cpu_flush_load_delay_def put_reg_def)
qed

lemma raise_exception_bits:
  "cpu_raise_exception env x s = cpu_raise_exception_bits env
     (cpu_cop0_cause_make x (current_instruction_in_branch_delay_slot (cpu s))
        (current_instruction_was_branch_taken (cpu s)) (inst_cop_n (current_instruction (cpu s))))
     (current_instruction_pc (cpu s)) s"
  by (simp add: cpu_raise_exception_def cpu_raise_exception_bits_def)

text \<open>The interrupt entry: a pending interrupt is masked by the entry itself.\<close>

lemma dispatch_entry:
  assumes e: "cpu_dispatch_interrupt env s = Some t"
  shows "pc (cpu t) = cpu_get_exception_vector (cpu s)"
    "EPC (cop0_regs (cpu t)) =
       (if next_instruction_is_branch_delay_slot (cpu s) then pc (cpu s) - 4 else pc (cpu s))"
    "bits_get (cause (cop0_regs (cpu t))) 2 5 = 0"
    "sr (cop0_regs (cpu t)) = sr_push (sr (cop0_regs (cpu s)))"
    "\<not> cpu_has_pending_interrupt (cpu t)"
proof -
  obtain w q where q: "(if inst_op w = CPU_OP_COP2 \<and> \<not> cpu_cop_is_common_instruction w
      then cpu_run_gte env w (on_cpu (\<lambda>c. c\<lparr>next_instruction := w\<rparr>) s)
      else Some (on_cpu (\<lambda>c. c\<lparr>next_instruction := w\<rparr>) s)) = Some q"
    and u: "timing_events_update_cpu_downcount (cpu_raise_exception_bits env
      (cpu_cop0_cause_make CPU_EXCEPTION_INT (next_instruction_is_branch_delay_slot (cpu q))
         (branch_was_taken (cpu q)) (inst_cop_n w)) (pc (cpu q)) q) = Some t"
    using e by (rule dispatch_cases)
  have same: "pc (cpu q) = pc (cpu s)" "cop0_regs (cpu q) = cop0_regs (cpu s)"
    "next_instruction_is_branch_delay_slot (cpu q) = next_instruction_is_branch_delay_slot (cpu s)"
    using q by (auto simp: cpu_run_gte_def Let_def cpu_stall_until_gte_complete_def split: if_splits)
  let ?bits = "cpu_cop0_cause_make CPU_EXCEPTION_INT (next_instruction_is_branch_delay_slot (cpu q))
         (branch_was_taken (cpu q)) (inst_cop_n w)"
  have t: "exception_taken ?bits (pc (cpu q)) (cpu q) (cpu t)"
    using exception_taken_view [OF update_downcount_core [OF u] exception_entry] .
  show "pc (cpu t) = cpu_get_exception_vector (cpu s)"
    "EPC (cop0_regs (cpu t)) =
       (if next_instruction_is_branch_delay_slot (cpu s) then pc (cpu s) - 4 else pc (cpu s))"
    "sr (cop0_regs (cpu t)) = sr_push (sr (cop0_regs (cpu s)))"
    using t same by (simp_all add: exception_taken_def bit_cause_make_31 cpu_get_exception_vector_def)
  then show "\<not> cpu_has_pending_interrupt (cpu t)"
    by (simp add: cpu_has_pending_interrupt_def sr_IEc_def bit_sr_push)
  have "flag_put 10 False (cause (cop0_regs (cpu t))) =
      flag_put 10 False (exception_cause ?bits (cause (cop0_regs (cpu q))))"
    using t by (simp add: exception_taken_def)
  then have "bits_get (flag_put 10 False (cause (cop0_regs (cpu t)))) 2 5 =
      bits_get (flag_put 10 False (exception_cause ?bits (cause (cop0_regs (cpu q))))) 2 5"
    by simp
  moreover have "bits_get (flag_put 10 False c) 2 5 = bits_get c 2 5" for c :: u32
    by (rule bit_word_eqI) (auto dest: bit_imp_le_length)
  ultimately show "bits_get (cause (cop0_regs (cpu t))) 2 5 = 0"
    by (simp add: exception_cause_fields)
qed

end

end
