(* ===== verification/Cpu_Arith.thy ===== *)
theory Cpu_Arith
  imports Cpu_Inv
begin

text \<open>
  What the arithmetic and the memory merges compute: products and quotients in hi and lo,
  overflow traps, the unaligned loads and stores as byte-exact accesses, and the load-delay slot.
\<close>

section \<open>Overflow, products and quotients\<close>

lemma sint_of_int_exact: "to_s32 r = r \<Longrightarrow> sint (word_of_int r :: u32) = r"
  by (simp only: sint_word_of_int32)

lemma to_s32_exact_iff: "to_s32 r = r \<longleftrightarrow> - (2 ^ 31) \<le> r \<and> r < 2 ^ 31"
  using to_s32_range [of r] to_s32_id [of r] by auto

lemma add_overflow_exact:
  "\<not> fst (cpu_add_overflow a b) \<Longrightarrow> sint (snd (cpu_add_overflow a b)) = sint a + sint b"
  "fst (cpu_add_overflow a b) \<longleftrightarrow> \<not> (- (2 ^ 31) \<le> sint a + sint b \<and> sint a + sint b < 2 ^ 31)"
  unfolding cpu_add_overflow_def Let_def fst_conv snd_conv not_not
  by (rule sint_of_int_exact, assumption) (simp only: to_s32_exact_iff)

lemma sub_overflow_exact:
  "\<not> fst (cpu_sub_overflow a b) \<Longrightarrow> sint (snd (cpu_sub_overflow a b)) = sint a - sint b"
  "fst (cpu_sub_overflow a b) \<longleftrightarrow> \<not> (- (2 ^ 31) \<le> sint a - sint b \<and> sint a - sint b < 2 ^ 31)"
  unfolding cpu_sub_overflow_def Let_def fst_conv snd_conv not_not
  by (rule sint_of_int_exact, assumption) (simp only: to_s32_exact_iff)

lemma sint_u32_range: "- (2 ^ 31) \<le> sint w" "sint w < 2 ^ 31" for w :: u32
  using sint_greater_eq [of w] sint_less [of w] by simp_all

lemma split_u64:
  "uint (ucast (drop_bit 32 x) :: u32) = uint x div 2 ^ 32"
  "uint (ucast x :: u32) = uint x mod 2 ^ 32" for x :: u64
proof -
  have "uint x div 2 ^ 32 < 2 ^ 32" using uint_lt2p [of x] by simp
  moreover have "0 \<le> uint x div 2 ^ 32"
    using uint_ge_0 [of x] by (simp add: pos_imp_zdiv_nonneg_iff del: uint_ge_0)
  ultimately have "take_bit 32 (uint x div 2 ^ 32) = uint x div 2 ^ 32"
    by (simp only: take_bit_int_eq_self)
  then show "uint (ucast (drop_bit 32 x) :: u32) = uint x div 2 ^ 32"
    by (simp add: unsigned_ucast_eq drop_bit_eq_div uint_div)
  show "uint (ucast x :: u32) = uint x mod 2 ^ 32"
    by (simp add: unsigned_ucast_eq take_bit_eq_mod)
qed

lemma multu_exact:
  "uint (fst (multu_hilo a b)) * 2 ^ 32 + uint (snd (multu_hilo a b)) = uint a * uint b"
proof -
  define x where "x = (ucast a * ucast b :: u64)"
  have "uint a < 2 ^ 32" "uint b < 2 ^ 32" using uint_lt2p [of a] uint_lt2p [of b] by simp_all
  then have lt: "uint a * uint b < 2 ^ 64"
    using mult_strict_mono [of "uint a" "2 ^ 32" "uint b" "2 ^ 32"] by simp
  have "uint (ucast a :: u64) = uint a" "uint (ucast b :: u64) = uint b"
    using \<open>uint a < 2 ^ 32\<close> \<open>uint b < 2 ^ 32\<close>
    by (simp_all add: unsigned_ucast_eq take_bit_int_eq_self)
  then have "uint x = uint a * uint b"
    using lt by (simp add: x_def uint_word_ariths)
  then show ?thesis
    by (simp only: multu_hilo_def Let_def x_def [symmetric] fst_conv snd_conv split_u64(1) [of x]
        split_u64(2) [of x] div_mult_mod_eq)
qed

lemma div_mod_swap_64: "(v mod 18446744073709551616) div 4294967296 = v div 4294967296 mod (4294967296 :: int)"
  using zmod_zmult2_eq [of 4294967296 v 4294967296] by simp

lemma len_u32: "LENGTH(32) - 1 = 31" "LENGTH(32) - Suc 0 = 31" by simp_all

lemma mult_exact:
  "sint (fst (mult_hilo a b)) * 2 ^ 32 + uint (snd (mult_hilo a b)) = sint a * sint b"
proof -
  define v where "v = sint a * sint b"
  define x where "x = (word_of_int v :: u64)"
  have "\<bar>sint a\<bar> \<le> 2 ^ 31" "\<bar>sint b\<bar> \<le> 2 ^ 31"
    using sint_u32_range [of a] sint_u32_range [of b] by auto
  then have "\<bar>v\<bar> \<le> 2 ^ 31 * 2 ^ 31"
    unfolding v_def abs_mult by (rule mult_mono) simp_all
  then have v: "- (2 ^ 62) \<le> v" "v \<le> 2 ^ 62" by simp_all
  have ux: "uint x = v mod 2 ^ 64"
    by (simp add: x_def unsigned_of_int take_bit_eq_mod)
  define h where "h = v div 2 ^ 32"
  have h: "- (2 ^ 31) \<le> h" "h < 2 ^ 31" using v unfolding h_def by simp_all
  have "sint (ucast (drop_bit 32 x) :: u32) = h"
  proof -
    have "uint x div 2 ^ 32 = h mod 2 ^ 32"
      unfolding ux h_def by (simp add: div_mod_swap_64)
    then have "sint (ucast (drop_bit 32 x) :: u32) = signed_take_bit 31 (h mod 2 ^ 32)"
      by (simp only: sint_uint split_u64(1) [of x] len_u32)
    also have "\<dots> = signed_take_bit 31 h"
      using signed_take_bit_take_bit [of 31 32 h] by (simp add: take_bit_eq_mod)
    also have "\<dots> = h" using h by (simp only: signed_take_bit_int_eq_self)
    finally show ?thesis .
  qed
  moreover have "uint (ucast x :: u32) = v mod 2 ^ 32"
    by (simp add: split_u64 ux mod_mod_cancel)
  ultimately show ?thesis
    by (simp only: mult_hilo_def Let_def x_def [symmetric] v_def [symmetric] fst_conv snd_conv h_def
        div_mult_mod_eq)
qed

lemma divu_exact:
  "d \<noteq> 0 \<Longrightarrow> uint n = uint (snd (divu_hilo n d)) * uint d + uint (fst (divu_hilo n d)) \<and>
     fst (divu_hilo n d) < d"
  "divu_hilo n 0 = (n, 0xFFFFFFFF)"
  by (simp_all add: divu_hilo_def uint_div uint_mod word_mod_less_divisor word_neq_0_conv)

text \<open>
  Signed division: the exact quotient and remainder, except for a zero divisor and for the one
  quotient that does not fit.
\<close>

lemma div_exact:
  assumes "d \<noteq> 0" "\<not> (n = 0x80000000 \<and> sint d = -1)"
  shows "sint (snd (div_hilo n d)) = sint n sdiv sint d" "sint (fst (div_hilo n d)) = sint n smod sint d"
proof -
  have d: "sint d \<noteq> 0" using assms(1) signed_word_eqI [of d 0] by auto
  have n: "n = 0x80000000 \<longleftrightarrow> sint n = - (2 ^ 31)"
  proof -
    have "sint (0x80000000 :: u32) = - (2 ^ 31)" by simp
    then show ?thesis by (metis signed_word_eqI)
  qed
  note rn = sint_u32_range [of n] and rd = sint_u32_range [of d]
  have q: "\<bar>sint n sdiv sint d\<bar> \<le> \<bar>sint n\<bar>"
    using sdiv_int_range [of "sint n" "sint d"] by auto
  have "sint n sdiv sint d \<noteq> 2 ^ 31"
  proof
    assume eq: "sint n sdiv sint d = 2 ^ 31"
    then have "sint n = - (2 ^ 31)" using q rn by auto
    have "sint d * 2 ^ 31 + sint n smod sint d = sint n"
      using mult_sdiv_smod_eq [of "sint d" "sint n"] by (simp only: eq)
    moreover have "\<bar>sint n smod sint d\<bar> < \<bar>sint d\<bar>"
      using smod_int_range [of "sint d" "sint n"] d by auto
    ultimately have "sint d = -1" using rd \<open>sint n = - (2 ^ 31)\<close> by auto
    then show False using assms(2) n \<open>sint n = - (2 ^ 31)\<close> by simp
  qed
  then have qr: "to_s32 (sint n sdiv sint d) = sint n sdiv sint d"
    using q rn by (auto simp: to_s32_exact_iff)
  have "\<bar>sint n smod sint d\<bar> < \<bar>sint d\<bar>"
    using smod_int_range [of "sint d" "sint n"] d by auto
  then have mr: "to_s32 (sint n smod sint d) = sint n smod sint d"
    using rd by (auto simp: to_s32_exact_iff)
  have "div_hilo n d = (word_of_int (sint n smod sint d), word_of_int (sint n sdiv sint d))"
    using assms d by (auto simp: div_hilo_def Let_def)
  then show "sint (snd (div_hilo n d)) = sint n sdiv sint d" "sint (fst (div_hilo n d)) = sint n smod sint d"
    using qr mr by (simp_all only: fst_conv snd_conv sint_of_int_exact)
qed

lemma div_special:
  "div_hilo n 0 = (n, if sint n \<ge> 0 then 0xFFFFFFFF else 1)"
  "div_hilo 0x80000000 (- 1) = (0, 0x80000000)"
  by (simp_all add: div_hilo_def)

section \<open>Unaligned accesses\<close>

lemma merge_masks:
  "(0x00FFFFFF :: u32) = mask 24" "(0xFFFFFF00 :: u32) = push_bit 8 (mask 24)"
  by (simp_all add: mask_eq_exp_minus_1)

lemma bit_lwl_merge:
  "k \<le> 24 \<Longrightarrow> bit (lwl_merge k e w) n \<longleftrightarrow> (if n < 24 - k then bit e n else n < 32 \<and> bit w (n - (24 - k)))"
  unfolding lwl_merge_def merge_masks by (auto simp: bit_simps dest: bit_imp_le_length)

lemma bit_lwr_merge:
  "k \<le> 24 \<Longrightarrow> bit (lwr_merge k e w) n \<longleftrightarrow> (if n + k < 32 then bit w (n + k) else n < 32 \<and> bit e n)"
  unfolding lwr_merge_def merge_masks by (auto simp: bit_simps ac_simps dest: bit_imp_le_length)

lemma bit_swl_merge:
  "k \<le> 24 \<Longrightarrow> bit (swl_merge k m v) n \<longleftrightarrow> (if n < 8 + k then bit v (n + (24 - k)) else bit m n)"
  unfolding swl_merge_def merge_masks by (auto simp: bit_simps ac_simps dest: bit_imp_le_length)

lemma bit_swr_merge:
  "k \<le> 24 \<Longrightarrow> bit (swr_merge k m v) n \<longleftrightarrow> (if n < k then bit m n else n < 32 \<and> bit v (n - k))"
  unfolding swr_merge_def merge_masks by (auto simp: bit_simps dest: bit_imp_le_length)

lemma store_word_byte:
  "store_word i v m j = (if i \<le> j \<and> j < i + 4 then ucast (drop_bit (8 * (j - i)) v) else m j)"
proof -
  have "j = i \<or> j = i + 1 \<or> j = i + 2 \<or> j = i + 3" if "i \<le> j" "j < i + 4"
    using that by linarith
  then show ?thesis by (auto simp: store_word_def)
qed

text \<open>\<open>lwl rt, 3(a)\<close> then \<open>lwr rt, 0(a)\<close> read the word at \<open>a\<close>, whatever its alignment.\<close>

lemma unaligned_load:
  "lwr_merge (8 * (i mod 4))
     (lwl_merge (8 * ((i + 3) mod 4)) e (load_word m (i + 3 - (i + 3) mod 4)))
     (load_word m (i - i mod 4)) = load_word m i"
proof (rule bit_word_eqI)
  fix n assume "n < LENGTH(32)"
  then have n: "n < 32" by simp
  define r where "r = i mod 4"
  define A where "A = i - r"
  have r: "r < 4" "i = A + r" by (simp_all add: r_def A_def)
  have i3: "(i + 3) mod 4 = (r + 3) mod 4" unfolding r_def by presburger
  have lr: "bit (load_word m A) (n + 8 * r) = bit (load_word m i) n" if "n + 8 * r < 32"
    using that n by (simp add: load_word_bit r(2) ac_simps)
  have ll: "bit (load_word m (A + 4)) (n - (32 - 8 * r)) = bit (load_word m i) n"
    if "32 \<le> n + 8 * r" "0 < r"
  proof -
    define x where "x = n - (32 - 8 * r)"
    have x: "x + 32 = n + 8 * r" "x < 32" using that r(1) n unfolding x_def by linarith+
    have "(x + 8 * 4) div 8 = 4 + x div 8" "(n + 8 * r) div 8 = r + n div 8"
      "(x + 8 * 4) mod 8 = x mod 8" "(n + 8 * r) mod 8 = n mod 8"
      by (rule div_mult_self2 mod_mult_self2, simp?)+
    then have d: "x div 8 + 4 = n div 8 + r" "x mod 8 = n mod 8" using x(1) by simp_all
    have "A + 4 + u = i + v" if "u + 4 = v + r" for u v using that r(2) by simp
    from this [OF d(1)] have "A + 4 + x div 8 = i + n div 8" .
    then show ?thesis using d(2) unfolding x_def [symmetric] load_word_bit using n x(2) by (simp only: simp_thms)
  qed
  show "bit (lwr_merge (8 * (i mod 4))
      (lwl_merge (8 * ((i + 3) mod 4)) e (load_word m (i + 3 - (i + 3) mod 4)))
      (load_word m (i - i mod 4))) n = bit (load_word m i) n"
  proof (cases "n + 8 * r < 32")
    case True
    have "8 * r \<le> 24" using r(1) by simp
    then show ?thesis using True lr
      by (simp add: r_def [symmetric] A_def [symmetric] bit_lwr_merge)
  next
    case False
    then have r0: "0 < r" using n by (cases r) auto
    then have "(r + 3) mod 4 = r - 1" using r(1) by presburger
    then have k: "(i + 3) mod 4 = r - 1" "i + 3 - (r - 1) = A + 4"
      using i3 r r0 by auto
    have "8 * r \<le> 24" "8 * (r - 1) \<le> 24" "\<not> n < 24 - 8 * (r - 1)" "24 - 8 * (r - 1) = 32 - 8 * r"
      using r(1) r0 False by auto
    then show ?thesis using False ll r0 n
      unfolding k(1) r_def [symmetric] A_def [symmetric] unfolding k(2)
      by (simp add: bit_lwr_merge bit_lwl_merge del: One_nat_def)
  qed
qed

text \<open>What the two store halves write, byte by byte.\<close>

lemma byte_of_word:
  "k < 8 \<Longrightarrow> bit (ucast (drop_bit (8 * d) w) :: u8) k \<longleftrightarrow> bit w (8 * d + k)" for w :: u32
  by (simp add: bit_simps)

lemma load_word_byte:
  "d < 4 \<Longrightarrow> k < 8 \<Longrightarrow> bit (load_word m i) (8 * d + k) \<longleftrightarrow> bit (m (i + d)) k"
proof -
  assume "d < 4" "k < 8"
  then have "(8 * d + k) div 8 = d" "(8 * d + k) mod 8 = k" "8 * d + k < 32" by simp_all
  then show ?thesis by (simp only: load_word_bit simp_thms)
qed

lemma swr_store:
  assumes r: "r < 4"
  shows "store_word A (swr_merge (8 * r) (load_word m A) v) m j =
    (if A + r \<le> j \<and> j < A + 4 then ucast (drop_bit (8 * (j - (A + r))) v) else m j)"
proof (cases "A \<le> j \<and> j < A + 4")
  case True
  define d where "d = j - A"
  have d: "j = A + d" "d < 4" using True by (auto simp: d_def)
  have r24: "8 * r \<le> 24" using r by simp
  have e: "store_word A (swr_merge (8 * r) (load_word m A) v) m j =
      ucast (drop_bit (8 * d) (swr_merge (8 * r) (load_word m A) v))"
    using True by (simp add: store_word_byte d_def)
  show ?thesis
  proof (rule bit_word_eqI)
    fix k assume "k < LENGTH(8)"
    then have k: "k < 8" by simp
    have l: "8 * d + k < 8 * r \<longleftrightarrow> d < r" using k by linarith
    have sub: "8 * d + k - 8 * r = 8 * (d - r) + k" if "\<not> d < r" using that by simp
    show "bit (store_word A (swr_merge (8 * r) (load_word m A) v) m j) k =
        bit (if A + r \<le> j \<and> j < A + 4 then ucast (drop_bit (8 * (j - (A + r))) v) else m j) k"
      unfolding e byte_of_word [OF k] bit_swr_merge [OF r24] l
      using k d r sub load_word_byte [OF d(2) k, of m A]
      by (cases "d < r") (simp_all add: byte_of_word)
  qed
qed (auto simp: store_word_byte)

lemma swl_store:
  assumes q: "q < 4"
  shows "store_word A (swl_merge (8 * q) (load_word m A) v) m j =
    (if A \<le> j \<and> j \<le> A + q then ucast (drop_bit (8 * (j - A + (3 - q))) v) else m j)"
proof (cases "A \<le> j \<and> j < A + 4")
  case True
  define d where "d = j - A"
  have d: "j = A + d" "d < 4" using True by (auto simp: d_def)
  have q24: "8 * q \<le> 24" using q by simp
  have e: "store_word A (swl_merge (8 * q) (load_word m A) v) m j =
      ucast (drop_bit (8 * d) (swl_merge (8 * q) (load_word m A) v))"
    using True by (simp add: store_word_byte d_def)
  show ?thesis
  proof (rule bit_word_eqI)
    fix k assume "k < LENGTH(8)"
    then have k: "k < 8" by simp
    have l: "8 * d + k < 8 + 8 * q \<longleftrightarrow> d \<le> q" using k by linarith
    have add: "8 * d + k + (24 - 8 * q) = 8 * (d + (3 - q)) + k" using q by simp
    show "bit (store_word A (swl_merge (8 * q) (load_word m A) v) m j) k =
        bit (if A \<le> j \<and> j \<le> A + q then ucast (drop_bit (8 * (j - A + (3 - q))) v) else m j) k"
      unfolding e byte_of_word [OF k] bit_swl_merge [OF q24] l add
      using k d q load_word_byte [OF d(2) k, of m A]
      by (cases "d \<le> q") (simp_all add: byte_of_word)
  qed
qed (use q in \<open>auto simp: store_word_byte\<close>)

text \<open>\<open>swl rt, 3(a)\<close> then \<open>swr rt, 0(a)\<close> store the word at \<open>a\<close> and nothing else.\<close>

lemma unaligned_store:
  assumes m1: "m1 = store_word (i + 3 - (i + 3) mod 4)
      (swl_merge (8 * ((i + 3) mod 4)) (load_word m (i + 3 - (i + 3) mod 4)) v) m"
  shows "store_word (i - i mod 4) (swr_merge (8 * (i mod 4)) (load_word m1 (i - i mod 4)) v) m1 =
    store_word i v m"
proof
  fix j
  define r where "r = i mod 4"
  define A where "A = i - r"
  define q where "q = (i + 3) mod 4"
  define A' where "A' = i + 3 - q"
  have r: "r < 4" "i = A + r" and q: "q < 4" by (simp_all add: r_def A_def q_def)
  have c: "r = 0 \<and> q = 3 \<and> A' = A \<or> 0 < r \<and> q = r - 1 \<and> A' = A + 4"
  proof (cases "r = 0")
    case True
    then have "q = 3" unfolding q_def r_def by presburger
    then show ?thesis using True r by (simp add: A'_def)
  next
    case False
    then have "q = r - 1" unfolding q_def r_def by presburger
    then show ?thesis using False r by (simp add: A'_def)
  qed
  have m1j: "m1 j = (if A' \<le> j \<and> j \<le> A' + q then ucast (drop_bit (8 * (j - A' + (3 - q))) v) else m j)"
    unfolding m1 q_def [symmetric] A'_def [symmetric] by (rule swl_store [OF q])
  show "store_word (i - i mod 4) (swr_merge (8 * (i mod 4)) (load_word m1 (i - i mod 4)) v) m1 j =
      store_word i v m j"
    unfolding r_def [symmetric] A_def [symmetric] swr_store [OF r(1)]
    unfolding m1j store_word_byte
    using c r by (elim disjE) auto
qed

section \<open>The load-delay slot\<close>

text \<open>
  A loaded value becomes visible after the instruction in its delay slot; a write in the delay
  slot wins over the load, and a second load to the same register drops the first.
\<close>

lemma load_delay_timing:
  fixes v :: u32
  assumes "rt \<noteq> 0" "rt < 32" "load_delay_reg c \<noteq> rt"
  defines "c1 \<equiv> cpu_update_load_delay (cpu_write_reg_delayed rt v c)"
  shows "regs c1 rt = regs c rt" "load_delay_reg c1 = rt" "load_delay_value c1 = v"
    "regs (cpu_update_load_delay c1) rt = v"
    "regs (cpu_update_load_delay (cpu_write_reg rt w c1)) rt = w"
    "regs (cpu_update_load_delay (cpu_update_load_delay (cpu_write_reg_delayed rt w c1))) rt = w"
    "regs (cpu_update_load_delay (cpu_write_reg_delayed rt w c1)) rt = regs c rt"
  using assms
  by (auto simp: c1_def cpu_update_load_delay_def cpu_write_reg_delayed_def cpu_write_reg_def
      put_reg_def CPU_REG_COUNT_def)

section \<open>The unaligned load as two instructions\<close>

lemma word_and_not_3: "unat (a AND NOT 3) = unat a - unat a mod 4" for a :: u32
proof -
  have m: "(3 :: u32) = mask 2" by (simp add: mask_eq_exp_minus_1)
  have "a AND NOT (mask 2) = a AND NOT (take_bit 2 a)"
    by (rule bit_word_eqI) (auto simp: bit_simps)
  also have "\<dots> = a - take_bit 2 a"
    by (rule disjunctive_diff [symmetric]) (auto simp: bit_simps)
  finally have e: "a AND NOT 3 = a - take_bit 2 a" unfolding m .
  have t: "unat (take_bit 2 a) = unat a mod 4"
    by (simp add: take_bit_eq_mod unat_mod)
  then have "take_bit 2 a \<le> a" by (simp add: word_le_nat_alt)
  then show ?thesis using t unfolding e by (simp add: unat_sub)
qed

lemma aligned_word: "(a AND NOT 3) AND 3 = 0" for a :: u32
  by (simp only: and.assoc bit.conj_cancel_left bit.conj_zero_right)

lemma unaligned_shift_mod: "unaligned_shift a = 8 * (unat a mod 4)"
proof -
  have "a AND 3 = take_bit 2 a"
    by (simp add: take_bit_eq_mask mask_eq_exp_minus_1)
  then show ?thesis by (simp add: unaligned_shift_def take_bit_eq_mod unat_mod)
qed

text \<open>A bus that reads the image \<open>m\<close> and does nothing else.\<close>

definition reads_image :: "('a bus_sys_scheme) cpu_env \<Rightarrow> (nat \<Rightarrow> u8) \<Rightarrow> bool" where
  "reads_image env m \<longleftrightarrow> (\<forall>isc swc sz a s. read_handler env isc swc sz a s = (load_sized sz m (unat a), s))"

lemma read_image_word:
  assumes "reads_image env m" "\<not> bus_error (cpu s)"
  shows "cpu_read_memory env MEMORY_ACCESS_SIZE_WORD (a AND NOT 3) s =
    (Some (load_word m (unat a - unat a mod 4)), s)"
proof -
  define b where "b = a AND NOT 3"
  have b: "b AND 3 = 0" "unat b = unat a - unat a mod 4"
    by (simp_all only: b_def aligned_word word_and_not_3)
  show ?thesis
    unfolding b_def [symmetric] using assms b
    by (simp add: cpu_read_memory_def cpu_do_alignment_check_def access_aligned_def reads_image_def
        cpu_take_bus_error_def take_bit_word_eq_self)
qed

definition after_load :: "('a bus_sys_scheme) cpu_env \<Rightarrow> u32 \<Rightarrow> 'a bus_sys_scheme \<Rightarrow> 'a bus_sys_scheme" where
  "after_load env inst s = on_cpu cpu_update_load_delay (cpu_execute_load_unaligned env inst s)"

lemma lwl_lwr_pair:
  assumes mem: "reads_image env m" "\<not> bus_error (cpu s)"
    and ops: "inst_op lwl = CPU_OP_LWL" "inst_op lwr = CPU_OP_LWR"
    and same: "inst_rs lwl = inst_rs lwr" "inst_rt lwl = inst_rt lwr" "inst_rt lwr \<noteq> 0"
    and offs: "cpu_instr_imm_sext32 lwl = cpu_instr_imm_sext32 lwr + 3"
    and free: "load_delay_reg (cpu s) \<noteq> inst_rs lwr"
    and nowrap: "unat (effective_address lwr (cpu s)) + 3 < 2 ^ 32"
  shows "regs (cpu (on_cpu cpu_update_load_delay (after_load env lwr (after_load env lwl s)))) (inst_rt lwr) =
    load_word m (unat (effective_address lwr (cpu s)))"
proof -
  define a where "a = effective_address lwr (cpu s)"
  define i where "i = unat a"
  have al: "effective_address lwl (cpu s) = a + 3"
    using same(1) offs by (simp add: effective_address_def a_def)
  have i3: "unat (a + 3) = i + 3"
    using nowrap by (simp add: i_def a_def unat_word_ariths)
  let ?e = "if inst_rt lwl = load_delay_reg (cpu s) then load_delay_value (cpu s)
    else cpu_read_reg (inst_rt lwl) (cpu s)"
  define v where "v = lwl_merge (8 * ((i + 3) mod 4)) ?e (load_word m (i + 3 - (i + 3) mod 4))"
  define s1 where "s1 = after_load env lwl s"
  have s1: "s1 = on_cpu (\<lambda>c. cpu_update_load_delay (cpu_write_reg_delayed (inst_rt lwr) v c)) s"
    unfolding s1_def after_load_def cpu_execute_load_unaligned_def al Let_def
      read_image_word [OF mem] i3 unaligned_shift_mod
    using ops(1) by (simp add: v_def same(2) comp_def i3)
  have rt: "inst_rt lwr < 32" "inst_rs lwr < 32" by (rule inst_reg_bound)+
  have c1: "load_delay_reg (cpu s1) = inst_rt lwr" "load_delay_value (cpu s1) = v"
    "\<not> bus_error (cpu s1)" "regs (cpu s1) (inst_rs lwr) = regs (cpu s) (inst_rs lwr)"
    using same(3) mem(2) free rt
    by (auto simp: s1 cpu_update_load_delay_def cpu_write_reg_delayed_def put_reg_def CPU_REG_COUNT_def)
  have a1: "effective_address lwr (cpu s1) = a"
    using c1(4) by (simp add: effective_address_def a_def cpu_read_reg_def)
  have w: "lwr_merge (8 * (i mod 4)) v (load_word m (i - i mod 4)) = load_word m i"
    unfolding v_def by (rule unaligned_load)
  have "after_load env lwr s1 =
      on_cpu (\<lambda>c. cpu_update_load_delay (cpu_write_reg_delayed (inst_rt lwr) (load_word m i) c)) s1"
    unfolding after_load_def cpu_execute_load_unaligned_def a1 Let_def
      read_image_word [OF mem(1) c1(3)] unaligned_shift_mod
    using ops(2) c1 w by (simp add: comp_def i_def)
  then show ?thesis using same(3) c1 rt
    by (simp add: s1_def [symmetric] cpu_update_load_delay_def cpu_write_reg_delayed_def put_reg_def
        i_def a_def)
qed

end
