(* ===== verification/Cpu_Icache.thy ===== *)
theory Cpu_Icache
  imports Cpu_Memory
begin

text \<open>
  The instruction cache: after a fill, exactly the words from the missing one to the end of the
  line hit, they hold what the fill read, and the other lines are untouched; clearing the cache
  makes every word miss.
\<close>

lemma icache_tag_mask: "CPU_ICACHE_TAG_ADDRESS_MASK = push_bit 4 (mask 28)"
  by (simp add: CPU_ICACHE_TAG_ADDRESS_MASK_def mask_eq_exp_minus_1)

lemma bit_icache_tag: "bit (cpu_get_icache_tag_for_address a) n \<longleftrightarrow> 4 \<le> n \<and> bit a n"
  unfolding cpu_get_icache_tag_for_address_def icache_tag_mask
  by (auto simp: bit_simps dest: bit_imp_le_length)

lemma small_masks: "(3 :: u32) = mask 2" "(0xFF :: u32) = mask 8"
  by (simp_all add: mask_eq_exp_minus_1)

lemma icache_line_of_tag:
  "cpu_get_icache_line (cpu_get_icache_tag_for_address a) = cpu_get_icache_line a"
  unfolding cpu_get_icache_line_def small_masks
  by (rule bit_word_eqI) (auto simp: bit_simps bit_icache_tag)

lemma icache_same_line:
  "cpu_get_icache_tag_for_address b = cpu_get_icache_tag_for_address a \<Longrightarrow>
     cpu_get_icache_line b = cpu_get_icache_line a"
  using icache_line_of_tag by metis

definition word_in_line :: "u32 \<Rightarrow> nat" where
  "word_in_line a = unat (cpu_get_icache_line_word_offset a)"

lemma word_in_line_eq: "unat (drop_bit 2 a AND 3) = word_in_line a" "word_in_line a < 4"
proof -
  have "drop_bit 2 a AND 3 \<le> 3" by (rule word_and_le1)
  then show "unat (drop_bit 2 a AND 3) = word_in_line a" "word_in_line a < 4"
    by (simp_all add: word_in_line_def cpu_get_icache_line_word_offset_def word_le_nat_alt)
qed

lemma nat_less_4: "n < 4 \<longleftrightarrow> n = 0 \<or> n = 1 \<or> n = 2 \<or> n = (3 :: nat)"
  by auto

lemma fill_tag_bits:
  "bit (cpu_get_icache_fill_tag_for_address a) n \<longleftrightarrow> (if n < 4 then n < word_in_line a else bit a n)"
proof -
  have "[0, 1, 3, 7] ! word_in_line a = (mask (word_in_line a) :: u32)"
    using word_in_line_eq(2) [of a] unfolding nat_less_4 by (auto simp: mask_eq_exp_minus_1)
  then show ?thesis
    using word_in_line_eq(2) [of a]
    by (auto simp: cpu_get_icache_fill_tag_for_address_def word_in_line_eq(1) bit_simps bit_icache_tag)
qed

lemma tag_mask_bits:
  "bit (cpu_get_icache_tag_mask_for_address a) n \<longleftrightarrow> n < 32 \<and> (4 \<le> n \<or> n = word_in_line a)"
proof -
  have "[CPU_ICACHE_TAG_ADDRESS_MASK OR 1, CPU_ICACHE_TAG_ADDRESS_MASK OR 2,
      CPU_ICACHE_TAG_ADDRESS_MASK OR 4, CPU_ICACHE_TAG_ADDRESS_MASK OR 8] ! word_in_line a =
    CPU_ICACHE_TAG_ADDRESS_MASK OR push_bit (word_in_line a) 1"
    using word_in_line_eq(2) [of a] unfolding nat_less_4 by auto
  then show ?thesis
    using word_in_line_eq(2) [of a]
    unfolding cpu_get_icache_tag_mask_for_address_def word_in_line_eq(1) icache_tag_mask
    by (auto simp: bit_simps)
qed

text \<open>The tag a fill leaves makes exactly the loaded words of the line hit.\<close>

lemma fill_tag_hits:
  assumes "cpu_get_icache_tag_for_address b = cpu_get_icache_tag_for_address a"
  shows "cpu_get_icache_fill_tag_for_address a AND cpu_get_icache_tag_mask_for_address b =
      cpu_get_icache_tag_for_address b \<longleftrightarrow> word_in_line a \<le> word_in_line b"
proof -
  have ab: "4 \<le> n \<Longrightarrow> bit b n = bit a n" for n
    using arg_cong [OF assms, of "\<lambda>w. bit w n"] by (simp add: bit_icache_tag)
  have differ: "bit (cpu_get_icache_fill_tag_for_address a AND cpu_get_icache_tag_mask_for_address b) n =
      bit (cpu_get_icache_tag_for_address b) n \<longleftrightarrow> \<not> (n = word_in_line b \<and> word_in_line b < word_in_line a)"
    for n
    using word_in_line_eq(2) [of b] ab [of n]
    by (auto simp: bit_and_iff fill_tag_bits tag_mask_bits bit_icache_tag dest: bit_imp_le_length)
  then have "bit (cpu_get_icache_fill_tag_for_address a AND cpu_get_icache_tag_mask_for_address b) n =
      bit (cpu_get_icache_tag_for_address b) n"
    if "word_in_line a \<le> word_in_line b" for n
    using that by (metis not_less)
  moreover have "\<not> word_in_line b < word_in_line a"
    if "cpu_get_icache_fill_tag_for_address a AND cpu_get_icache_tag_mask_for_address b =
      cpu_get_icache_tag_for_address b"
    using differ [of "word_in_line b"] that by metis
  ultimately show ?thesis by (metis bit_word_eqI not_less)
qed

lemma fill_then_compare:
  assumes "cpu_get_icache_tag_for_address b = cpu_get_icache_tag_for_address a"
  shows "cpu_compare_icache_tag b (icache_set_tag (unat (cpu_get_icache_line a))
      (cpu_get_icache_fill_tag_for_address a) c) \<longleftrightarrow> word_in_line a \<le> word_in_line b"
  using fill_tag_hits [OF assms] icache_same_line [OF assms]
  by (auto simp: cpu_compare_icache_tag_def icache_set_tag_def)

lemma invalid_tag_misses: "\<not> cpu_compare_icache_tag b (icache_set_tag (unat (cpu_get_icache_line b))
    CPU_ICACHE_INVALID_BITS c)"
proof
  assume "cpu_compare_icache_tag b (icache_set_tag (unat (cpu_get_icache_line b)) CPU_ICACHE_INVALID_BITS c)"
  then have e: "CPU_ICACHE_INVALID_BITS AND cpu_get_icache_tag_mask_for_address b =
      cpu_get_icache_tag_for_address b"
    by (auto simp: cpu_compare_icache_tag_def icache_set_tag_def)
  have m: "CPU_ICACHE_INVALID_BITS = mask 4"
    by (simp add: CPU_ICACHE_INVALID_BITS_def mask_eq_exp_minus_1)
  show False
    using arg_cong [OF e, of "\<lambda>w. bit w (word_in_line b)"] word_in_line_eq(2) [of b]
    unfolding m by (simp add: bit_simps tag_mask_bits bit_icache_tag)
qed

lemma compare_other_line:
  "cpu_get_icache_line b \<noteq> cpu_get_icache_line a \<Longrightarrow>
     cpu_compare_icache_tag b (icache_set_tag (unat (cpu_get_icache_line a)) t c) = cpu_compare_icache_tag b c"
  by (auto simp: cpu_compare_icache_tag_def icache_set_tag_def dest: injD [OF inj_unsigned])

lemma clear_icache_misses: "\<not> cpu_compare_icache_tag a (cpu_clear_icache c)"
proof -
  have "cpu_get_icache_line a \<le> 0xFF" unfolding cpu_get_icache_line_def by (rule word_and_le1)
  then have "unat (cpu_get_icache_line a) < 256" by (simp add: word_le_nat_alt)
  then show ?thesis
    using invalid_tag_misses [of a c]
    by (simp add: cpu_compare_icache_tag_def icache_set_tag_def cpu_clear_icache_def)
qed

section \<open>The fill\<close>

lemma instruction_image_length:
  "instruction_image s a i n = Some (ws, t) \<Longrightarrow> List.length ws = n"
  by (auto simp: instruction_image_def Let_def split: if_splits)

lemma instruction_device_words_length:
  "List.length (fst (instruction_device_words env a n s)) = n"
  by (induction n arbitrary: a s) (simp_all add: case_prod_beta)

lemma instruction_read_length:
  "cpu_do_instruction_read env a add i n d s = (Some ws, s') \<Longrightarrow> List.length ws = n"
  using instruction_image_length instruction_device_words_length [of env "a AND CPU_KSEG_MASK" n s]
  by (auto simp: cpu_do_instruction_read_def Let_def split: option.splits if_splits prod.splits)

lemma icache_slot_line:
  "icache_slot a = unat (cpu_get_icache_line a) * 4 + word_in_line a"
  by (simp add: icache_slot_def word_in_line_def)

text \<open>What a successful fill leaves: hits with the words it read, for the rest of the line.\<close>

lemma fill_icache_hits:
  assumes f: "cpu_fill_icache env a s = (Some v, s')"
    and line: "cpu_get_icache_tag_for_address b = cpu_get_icache_tag_for_address a"
  shows "cpu_compare_icache_tag b (cpu s') \<longleftrightarrow> word_in_line a \<le> word_in_line b"
    "word_in_line a \<le> word_in_line b \<Longrightarrow> \<exists>ws r.
       cpu_do_instruction_read env a True True (4 - word_in_line a) True s = (Some ws, r) \<and>
       cpu_read_icache b (cpu s') = ws ! (word_in_line b - word_in_line a)"
    "v = cpu_read_icache a (cpu s')"
proof -
  obtain ws r where r: "cpu_do_instruction_read env a True True (4 - word_in_line a) True s = (Some ws, r)"
    and s': "s' = r\<lparr>cpu := icache_set_tag (unat (cpu_get_icache_line a))
        (cpu_get_icache_fill_tag_for_address a) (icache_put (icache_slot a) ws (cpu r))\<rparr>"
    and v: "v = icache_data (cpu s') (icache_slot a)"
    using f by (auto simp: cpu_fill_icache_def Let_def word_in_line_def split: option.splits prod.splits)
  show "cpu_compare_icache_tag b (cpu s') \<longleftrightarrow> word_in_line a \<le> word_in_line b"
    using fill_then_compare [OF line] by (simp add: s')
  show "v = cpu_read_icache a (cpu s')" by (simp add: v cpu_read_icache_def)
  assume le: "word_in_line a \<le> word_in_line b"
  have "icache_slot b = icache_slot a + (word_in_line b - word_in_line a)"
    using icache_same_line [OF line] le by (simp add: icache_slot_line)
  moreover have "word_in_line b - word_in_line a < List.length ws"
    using instruction_read_length [OF r] le word_in_line_eq(2) [of b] by simp
  ultimately have "cpu_read_icache b (cpu s') = ws ! (word_in_line b - word_in_line a)"
    by (simp add: s' cpu_read_icache_def icache_set_tag_def icache_put_def)
  then show "\<exists>ws r. cpu_do_instruction_read env a True True (4 - word_in_line a) True s = (Some ws, r) \<and>
       cpu_read_icache b (cpu s') = ws ! (word_in_line b - word_in_line a)"
    using r by blast
qed

end
