(* ===== verification/Machine.thy ===== *)
theory Machine
  imports Bus_Frame Cpu_Control Cpu_Arith Cpu_Icache
begin

text \<open>
  The CPU on its bus: the handlers of \<^verbatim>\<open>Bus_Handlers\<close> provide the contract
  \<open>cpu_bus\<close> the CPU's lemmas are proved under, so these hold of the whole machine for
  every device table that keeps \<open>devices_ok\<close>.
\<close>

interpretation psx: cpu_bus "bus_env (guard_devices d) g"
  for d :: "('a bus_sys_scheme) bus_devices" and g
  by unfold_locales (simp_all add: bus_env_def handlers_core guard_devices_ok)

lemma bus_env_guard: "devices_ok d \<Longrightarrow> bus_env (guard_devices d) g = bus_env d g"
  by (simp add: guard_devices_id)

section \<open>One instruction and one interrupt entry of the machine\<close>

lemma machine_inv:
  assumes "devices_ok d" "cpu_inv (cpu s)"
  shows "cpu_execute_prefetched_instruction (bus_env d g) inst s = Some (b, t) \<Longrightarrow> cpu_inv (cpu t)"
    "cpu_dispatch_interrupt (bus_env d g) s = Some t \<Longrightarrow> cpu_inv (cpu t)"
  using psx.inv_prefetched [of s d g inst b t] psx.inv_dispatch [of s d g t] assms
  by (simp_all add: bus_env_guard)

lemma machine_exception:
  "devices_ok d \<Longrightarrow>
     exception_taken bits epc (cpu s) (cpu (cpu_raise_exception_bits (bus_env d g) bits epc s))"
  using psx.exception_entry [of bits epc s d g] by (simp add: bus_env_guard)

lemma machine_dispatch:
  assumes "devices_ok d" "cpu_dispatch_interrupt (bus_env d g) s = Some t"
  shows "pc (cpu t) = cpu_get_exception_vector (cpu s)"
    "EPC (cop0_regs (cpu t)) =
       (if next_instruction_is_branch_delay_slot (cpu s) then pc (cpu s) - 4 else pc (cpu s))"
    "bits_get (cause (cop0_regs (cpu t))) 2 5 = 0"
    "sr (cop0_regs (cpu t)) = sr_push (sr (cop0_regs (cpu s)))"
    "\<not> cpu_has_pending_interrupt (cpu t)"
  using psx.dispatch_entry [of d g s t] assms by (simp_all add: bus_env_guard)

lemma machine_straight:
  assumes "devices_ok d" "cpu_execute_known (bus_env d g) inst s = Some t"
    "straight p n (cpu s)" "\<not> cpu_is_branch_instruction inst"
  shows "straight p n (cpu t)"
  using psx.straight.known [of d g inst s t p n] assms by (simp add: bus_env_guard)

text \<open>The decoder restarts at most once, so evaluation needs no recursion.\<close>

declare execute_instruction_once [code]

section \<open>Runs of the machine\<close>

text \<open>
  A step of the machine: the interpreter executes the prefetched instruction, an interrupt is
  taken, or a device, a timer or the scheduler acts without touching the core of the CPU.
\<close>

inductive machine_step ::
  "('a bus_sys_scheme) bus_devices \<Rightarrow> gte_config \<Rightarrow> 'a bus_sys_scheme \<Rightarrow> 'a bus_sys_scheme \<Rightarrow> bool"
  for d g where
  step_instruction: "cpu_core_execute_interpreter_instruction (bus_env d g) s = Some t \<Longrightarrow>
    machine_step d g s t"
| step_interrupt: "cpu_has_pending_interrupt (cpu s) \<Longrightarrow> cpu_dispatch_interrupt (bus_env d g) s = Some t \<Longrightarrow>
    machine_step d g s t"
| step_device: "core_same (cpu s) (cpu t) \<Longrightarrow> machine_step d g s t"

inductive_cases machine_stepE: "machine_step d g s t"

inductive machine_run_to ::
  "('a bus_sys_scheme) bus_devices \<Rightarrow> gte_config \<Rightarrow> 'a bus_sys_scheme \<Rightarrow> 'a bus_sys_scheme \<Rightarrow> bool"
  for d g s where
  run_here: "machine_run_to d g s s"
| run_step: "machine_run_to d g s t \<Longrightarrow> machine_step d g t u \<Longrightarrow> machine_run_to d g s u"

lemma machine_step_inv:
  assumes d: "devices_ok d" and step: "machine_step d g s t" and i: "cpu_inv (cpu s)"
  shows "cpu_inv (cpu t)"
  using step
proof (rule machine_stepE)
  assume "cpu_core_execute_interpreter_instruction (bus_env d g) s = Some t"
  then show ?thesis
    using machine_inv(1) [where s = s and d = d and g = g] d i
    by (auto simp: cpu_core_execute_interpreter_instruction_def)
next
  assume "cpu_dispatch_interrupt (bus_env d g) s = Some t"
  then show ?thesis using machine_inv(2) [where s = s and d = d and g = g] d i by blast
next
  assume "core_same (cpu s) (cpu t)"
  then show ?thesis using cpu_inv_view i by blast
qed

lemma machine_run_inv:
  "machine_run_to d g s t \<Longrightarrow> devices_ok d \<Longrightarrow> cpu_inv (cpu s) \<Longrightarrow> cpu_inv (cpu t)"
  by (induction rule: machine_run_to.induct) (auto intro: machine_step_inv)

text \<open>What the invariant says a program can see.\<close>

lemma cpu_inv_zero: "cpu_inv c \<Longrightarrow> cpu_read_reg 0 c = 0"
  by (simp add: cpu_inv_def cpu_read_reg_def)

end
