(* ===== verification/Timers_Inv.thy ===== *)
theory Timers_Inv
  imports Timers
begin

text \<open>
  The timers keep their counters below the 16-bit overflow, so the next interrupt is never
  further than the counters reach; every operation keeps the scheduler's queue; the timer
  callback fulfils the scheduler's callback contract, which gives termination of the event
  loop with timers; and no interrupt falls between two timer events.
\<close>

section \<open>Counter bounds\<close>

definition timer_ok :: "timer_counter_state \<Rightarrow> bool" where
  "timer_ok cs \<longleftrightarrow> counter cs < 0xFFFF \<and> target cs \<le> 0xFFFF"

definition timers_inv :: "'a timers_sys_scheme \<Rightarrow> bool" where
  "timers_inv s \<longleftrightarrow> (\<forall>i<3. timer_ok (timer s i))"

lemma timer_put [simp]: "timer (put_timer i c s) j = (if j = i then c else timer s j)"
  by (simp add: timer_def put_timer_def)

lemma put_timer_frame [simp]:
  "timing (put_timer i c s) = timing s" "timing_events (put_timer i c s) = timing_events s"
  "cpu (put_timer i c s) = cpu s" "intc (put_timer i c s) = intc s"
  "timers_sys.more (put_timer i c s) = timers_sys.more s"
  by (simp_all add: put_timer_def)

lemma more_sched:
  "sys_core.more s' = sys_core.more s \<Longrightarrow>
     timing s' = timing s \<and> timing_events s' = timing_events s \<and> sched_sys.more s' = sched_sys.more s"
  for s s' :: "'a sched_sys_scheme"
  by (cases s; cases s') simp

lemma more_timers:
  "sched_sys.more s' = sched_sys.more s \<Longrightarrow> timers s' = timers s \<and> timers_sys.more s' = timers_sys.more s"
  for s s' :: "'a timers_sys_scheme"
  by (cases s; cases s') simp

lemma set_line_sched [simp]:
  "timing (interrupt_controller_set_line_state irq b s) = timing s"
  "timing_events (interrupt_controller_set_line_state irq b s) = timing_events s"
  "sched_sys.more (interrupt_controller_set_line_state irq b s) = sched_sys.more s"
  for s :: "'a sched_sys_scheme"
  using more_sched [OF set_line_state_more [of irq b s]] by simp_all

lemma set_line_timers [simp]:
  "timers (interrupt_controller_set_line_state irq b s) = timers s"
  "timers_sys.more (interrupt_controller_set_line_state irq b s) = timers_sys.more s"
  "timer (interrupt_controller_set_line_state irq b s) = timer s"
  for s :: "'a timers_sys_scheme"
  using more_timers [of "interrupt_controller_set_line_state irq b s" s] by (simp_all add: timer_def fun_eq_iff)

lemma check_target_bounds:
  "target (snd (check_target old cs)) = target cs"
  "counter (snd (check_target old cs)) \<le> counter cs"
  by (simp_all add: check_target_def word_le_nat_alt unat_mod)

lemma check_overflow_bounds:
  "target (snd (check_overflow cs)) = target cs"
  "counter (snd (check_overflow cs)) < 0xFFFF"
  by (auto simp: check_overflow_def word_mod_less_divisor not_le)

text \<open>The counter state after a check, interrupt flags apart.\<close>

definition checked :: "u32 \<Rightarrow> timer_counter_state \<Rightarrow> timer_counter_state" where
  "checked old cs = snd (check_overflow (snd (check_target old cs)))"

definition check_irq :: "u32 \<Rightarrow> timer_counter_state \<Rightarrow> bool" where
  "check_irq old cs \<longleftrightarrow> fst (check_target old cs) \<or> fst (check_overflow (snd (check_target old cs)))"

lemma timers_check_for_irq_alt:
  "timers_check_for_irq i old s =
     (let s' = put_timer i (checked old (timer s i)) s
      in if check_irq old (timer s i) then timers_raise_irq i s' else s')"
  by (simp add: timers_check_for_irq_def checked_def check_irq_def Let_def split: prod.split)

lemma checked_ok: "target cs \<le> 0xFFFF \<Longrightarrow> timer_ok (checked old cs)"
  by (simp add: checked_def timer_ok_def check_overflow_bounds check_target_bounds)

lemma raise_irq_timer:
  "counter (timer (timers_raise_irq i s) j) = counter (timer s j)"
  "target (timer (timers_raise_irq i s) j) = target (timer s j)"
  "counting_enabled (timer (timers_raise_irq i s) j) = counting_enabled (timer s j)"
  "external_counting_enabled (timer (timers_raise_irq i s) j) = external_counting_enabled (timer s j)"
  "use_external_clock (timer (timers_raise_irq i s) j) = use_external_clock (timer s j)"
  "gate (timer (timers_raise_irq i s) j) = gate (timer s j)"
  by (simp_all add: timers_raise_irq_def Let_def)

lemma check_for_irq_timers_inv:
  "(\<forall>j<3. j \<noteq> i \<longrightarrow> timer_ok (timer s j)) \<Longrightarrow> target (timer s i) \<le> 0xFFFF \<Longrightarrow>
   timers_inv (timers_check_for_irq i old s)"
  by (simp add: timers_inv_def timers_check_for_irq_alt Let_def timer_ok_def raise_irq_timer
      checked_ok [unfolded timer_ok_def])

lemma add_ticks_timers_inv: "timers_inv s \<Longrightarrow> i < 3 \<Longrightarrow> timers_inv (timers_add_ticks i n s)"
  unfolding timers_add_ticks_def Let_def
  by (rule check_for_irq_timers_inv) (auto simp: timers_inv_def timer_ok_def)

text \<open>What counting does to the rest of the machine: nothing but the interrupt lines.\<close>

definition same_sched :: "'a timers_sys_scheme \<Rightarrow> 'a timers_sys_scheme \<Rightarrow> bool" where
  "same_sched s s' \<longleftrightarrow> timing s' = timing s \<and> timing_events s' = timing_events s \<and>
     timers_sys.more s' = timers_sys.more s \<and>
     pending_ticks (cpu s') = pending_ticks (cpu s)"

lemma same_sched_trans: "same_sched a b \<Longrightarrow> same_sched b c \<Longrightarrow> same_sched a c"
  by (simp add: same_sched_def)

lemma raise_irq_same_sched: "same_sched s (timers_raise_irq i s)"
  by (simp add: same_sched_def timers_raise_irq_def Let_def)

lemma check_for_irq_same_sched: "same_sched s (timers_check_for_irq i old s)"
  using raise_irq_same_sched [of "put_timer i (checked old (timer s i)) s" i]
  by (auto simp: timers_check_for_irq_alt Let_def same_sched_def)

lemma add_ticks_same_sched: "same_sched s (timers_add_ticks i n s)"
  using check_for_irq_same_sched
    [of "put_timer i ((timer s i)\<lparr>counter := counter (timer s i) + word_of_int n\<rparr>) s" i "counter (timer s i)"]
  by (simp add: timers_add_ticks_def Let_def same_sched_def)

lemma same_sched_refl [simp]: "same_sched s s"
  by (simp add: same_sched_def)

lemma timers_inv_carry [simp]:
  "timers_inv (s\<lparr>timers := (timers s)\<lparr>sysclk_div_8_carry := c\<rparr>\<rparr>) = timers_inv s"
  "timers_inv (s\<lparr>timers := (timers s)\<lparr>sysclk_ticks_carry := d\<rparr>\<rparr>) = timers_inv s"
  "same_sched r (s\<lparr>timers := (timers s)\<lparr>sysclk_div_8_carry := c\<rparr>\<rparr>) = same_sched r s"
  "same_sched r (s\<lparr>timers := (timers s)\<lparr>sysclk_ticks_carry := d\<rparr>\<rparr>) = same_sched r s"
  by (simp_all add: timers_inv_def timer_def same_sched_def)

lemma count_sysclk_ok:
  assumes "timers_inv s"
  shows "timers_inv (timers_count_sysclk t s) \<and> same_sched s (timers_count_sysclk t s)"
proof -
  define a where "a = (if \<not> external_counting_enabled (timer s 0) \<and> counting_enabled (timer s 0)
      then timers_add_ticks 0 t s else s)"
  define b where "b = (if \<not> external_counting_enabled (timer a 1) \<and> counting_enabled (timer a 1)
      then timers_add_ticks 1 t a else a)"
  have a: "timers_inv a \<and> same_sched s a"
    using assms by (simp add: a_def add_ticks_timers_inv add_ticks_same_sched)
  have b: "timers_inv b \<and> same_sched s b"
    using a by (auto simp: b_def add_ticks_timers_inv intro: same_sched_trans add_ticks_same_sched)
  have "timers_inv (timers_add_ticks 2 n r) \<and> same_sched s (timers_add_ticks 2 n r)"
    if "timers_inv r" "same_sched s r" for n r
    using that by (auto simp: add_ticks_timers_inv intro: same_sched_trans add_ticks_same_sched)
  then show ?thesis using b
    by (simp add: timers_count_sysclk_def Let_def a_def [symmetric] b_def [symmetric] del: One_nat_def)
qed

section \<open>The next interrupt\<close>

lemma timer_min_ticks_le: "timer_min_ticks i cs m \<le> m"
  by (simp add: timer_min_ticks_def Let_def)

lemma next_fold_le: "fold (\<lambda>i. timer_min_ticks i (f i)) is m \<le> m"
  by (induction "is" arbitrary: m) (auto intro: order_trans timer_min_ticks_le)

definition timers_slice :: "'a timers_sys_scheme timers_hooks \<Rightarrow> tick_count" where
  "timers_slice h = (case system_get_max_slice_ticks h of Some t \<Rightarrow> t | None \<Rightarrow> 1000)"

text \<open>Hooks are usable when the slice is a positive count and scaling keeps counts positive.\<close>

definition hooks_ok :: "'a timers_sys_scheme timers_hooks \<Rightarrow> bool" where
  "hooks_ok h \<longleftrightarrow> 0 < timers_slice h \<and> timers_slice h < 2 ^ 31 \<and>
     (case scale_ticks_hook h of None \<Rightarrow> True
      | Some f \<Rightarrow> \<forall>t. 0 < t \<longrightarrow> t \<le> timers_slice h \<longrightarrow> 0 < f t \<and> f t < 2 ^ 31)"

lemma next_interrupt_range:
  assumes "hooks_ok h"
  shows "0 < timers_get_ticks_until_next_interrupt h s" "timers_get_ticks_until_next_interrupt h s < 2 ^ 31"
proof -
  define m where "m = fold (\<lambda>i. timer_min_ticks i (timer s i)) [0..<NUM_TIMERS] (timers_slice h)"
  define n where "n = (if m < 1 then 1 else m)"
  have "m \<le> timers_slice h" unfolding m_def by (rule next_fold_le)
  then have "0 < n" "n \<le> timers_slice h" using assms by (auto simp: n_def hooks_ok_def)
  moreover have "timers_get_ticks_until_next_interrupt h s =
      (case scale_ticks_hook h of Some f \<Rightarrow> f n | None \<Rightarrow> n)"
    unfolding timers_get_ticks_until_next_interrupt_def timers_slice_def [symmetric]
      m_def [symmetric] Let_def n_def [symmetric] by (rule refl)
  ultimately show "0 < timers_get_ticks_until_next_interrupt h s"
    "timers_get_ticks_until_next_interrupt h s < 2 ^ 31"
    using assms by (auto simp: hooks_ok_def split: option.splits)
qed

section \<open>The scheduler's queue under timer operations\<close>

lemma same_sched_queue: "same_sched s s' \<Longrightarrow> sched_queue s' xs = sched_queue s xs"
  by (simp add: same_sched_def sched_queue_def sched_dll_def)

lemma same_sched_inv: "same_sched s s' \<Longrightarrow> sched_inv s' xs = sched_inv s xs"
  by (simp add: sched_inv_def same_sched_queue) (simp add: same_sched_def)

lemma timers_inv_more: "sched_sys.more s' = sched_sys.more s \<Longrightarrow> timers_inv s' = timers_inv s"
  for s s' :: "'a timers_sys_scheme"
  using more_timers [of s' s] by (simp add: timers_inv_def timer_def)

lemma update_sysclk_ok:
  assumes "sched_queue s xs" "timers_inv s"
  shows "\<exists>s' ys. timers_update_sysclk_event h s = Some s' \<and> timers_inv s' \<and>
    rescheduled TIMERS_SYSCLK_EVENT
      (timing_events_get_timestamp_for_new_event s +
         ticks_u64 (timers_get_ticks_until_next_interrupt h s)) xs s ys s'"
proof -
  obtain s' ys where s': "timers_update_sysclk_event h s = Some s'"
      "rescheduled TIMERS_SYSCLK_EVENT (timing_events_get_timestamp_for_new_event s +
         ticks_u64 (timers_get_ticks_until_next_interrupt h s)) xs s ys s'"
    using schedule_refines [OF assms(1), of TIMERS_SYSCLK_EVENT "timers_get_ticks_until_next_interrupt h s"]
    unfolding timers_update_sysclk_event_def by blast
  moreover have "sched_sys.more s' = sched_sys.more s"
    using s'(2) by (simp add: rescheduled_def sched_env_def)
  ultimately show ?thesis
    using timers_inv_more assms(2) by blast
qed

text \<open>The callback with its scaling and carries resolved: count, then reschedule.\<close>

lemma add_sysclk_ticks_alt:
  obtains t' r where "timers_add_sysclk_ticks h t s = timers_update_sysclk_event h (timers_count_sysclk t' r)"
    "same_sched s r" "timers_inv r = timers_inv s"
proof -
  obtain t' c where "(case unscale_ticks_hook h of Some f \<Rightarrow> f t (sysclk_ticks_carry (timers s))
      | None \<Rightarrow> (t, sysclk_ticks_carry (timers s))) = (t', c)"
    by (cases "(case unscale_ticks_hook h of Some f \<Rightarrow> f t (sysclk_ticks_carry (timers s))
      | None \<Rightarrow> (t, sysclk_ticks_carry (timers s)))")
  then show thesis
    by (intro that [of t' "s\<lparr>timers := (timers s)\<lparr>sysclk_ticks_carry := c\<rparr>\<rparr>"])
      (simp_all add: timers_add_sysclk_ticks_def)
qed

lemma add_sysclk_ticks_ok:
  assumes "sched_queue s xs" "timers_inv s"
  shows "\<exists>s' ys r. timers_add_sysclk_ticks h t s = Some s' \<and> timers_inv s' \<and> same_sched s r \<and>
    rescheduled TIMERS_SYSCLK_EVENT
      (timing_events_get_timestamp_for_new_event s +
         ticks_u64 (timers_get_ticks_until_next_interrupt h r)) xs r ys s'"
proof -
  obtain t' r where r: "timers_add_sysclk_ticks h t s = timers_update_sysclk_event h (timers_count_sysclk t' r)"
      "same_sched s r" "timers_inv r"
    using add_sysclk_ticks_alt assms(2) by metis
  define q where "q = timers_count_sysclk t' r"
  have q: "timers_inv q" "same_sched s q"
    using count_sysclk_ok [OF r(3), of t'] r(2) by (auto simp: q_def intro: same_sched_trans)
  have "timing_events_get_timestamp_for_new_event q = timing_events_get_timestamp_for_new_event s"
    using q(2) by (simp add: same_sched_def timing_events_get_timestamp_for_new_event_def
        cpu_get_pending_ticks_def)
  then show ?thesis
    using update_sysclk_ok [of q xs h] q assms(1) same_sched_queue [OF q(2)] r(1)
    by (auto simp: q_def [symmetric])
qed

section \<open>The timer callback keeps the scheduler's contract\<close>

text \<open>
  The other devices' callbacks are the parameter \<open>rest\<close>; what is asked of them is the
  same contract, with the timers left well-formed, and that the sysclk event is not theirs.
\<close>

definition rest_ok :: "'a timers_sys_scheme callback \<Rightarrow> bool" where
  "rest_ok rest \<longleftrightarrow> (\<forall>e t late s xs. e \<noteq> TIMERS_SYSCLK_EVENT \<longrightarrow> callback_pre e s xs \<longrightarrow> timers_inv s \<longrightarrow>
     (\<exists>s' ys. rest e t late s = Some s' \<and> callback_post e s xs s' ys \<and> timers_inv s'))"

lemma timers_callback_contract:
  assumes pre: "callback_pre TIMERS_SYSCLK_EVENT s xs" and inv: "timers_inv s" and h: "hooks_ok h"
  shows "\<exists>s' ys. timers_add_sysclk_ticks h t s = Some s' \<and>
    callback_post TIMERS_SYSCLK_EVENT s xs s' ys \<and> timers_inv s'"
proof -
  let ?e = TIMERS_SYSCLK_EVENT and ?g = "global_tick_counter (timing s)"
  have q: "sched_queue s xs" "sched_inv s xs" and e: "?e \<in> set xs" "current_event (timing s) = Some ?e"
    and g: "?g < 2 ^ 63"
    using pre by (auto simp: callback_pre_def sched_inv_def on_time_def)
  obtain s' ys r where s': "timers_add_sysclk_ticks h t s = Some s'" "timers_inv s'" "same_sched s r"
      "rescheduled ?e (timing_events_get_timestamp_for_new_event s +
         ticks_u64 (timers_get_ticks_until_next_interrupt h r)) xs r ys s'"
    using add_sysclk_ticks_ok [OF q(1) inv] by blast
  note ti = next_interrupt_range [OF h, of r]
  have env: "sched_env r s'" "sched_queue s' ys" "set ys = insert ?e (set xs)"
    using s'(4) by (auto simp: rescheduled_def)
  have r: "timing r = timing s" "timing_events r = timing_events s" "pending_ticks (cpu r) = pending_ticks (cpu s)"
    using s'(3) by (simp_all add: same_sched_def)
  have times: "ev_time s' x = ev_time s x" for x
  proof (cases "x = ?e")
    case True
    then show ?thesis using s'(4) e r by (simp add: rescheduled_def)
  next
    case False
    then show ?thesis using s'(4) r by (simp add: rescheduled_def)
  qed
  have "sched_inv r xs" using q(2) same_sched_inv [OF s'(3)] by simp
  moreover have "set ys = set xs" using env(3) e(1) by (simp add: insert_absorb)
  ultimately have "sched_inv s' ys" by (rule sched_inv_env [OF _ env(2) _ env(1)])
  moreover have "clock_same s s'"
    using env(1) s'(3) by (simp add: clock_same_def sched_env_def same_sched_def)
  moreover have "?g < current_event_next_run_time (timing s')"
  proof -
    have "current_event_next_run_time (timing s') = ?g + ucast (pending_ticks (cpu s)) +
        ticks_u64 (timers_get_ticks_until_next_interrupt h r)"
      using s'(4) e(2) by (simp add: rescheduled_def r
          timing_events_get_timestamp_for_new_event_def cpu_get_pending_ticks_def)
    then show ?thesis using ticks_pending_less [OF ti g] by simp
  qed
  ultimately have "callback_post ?e s xs s' ys"
    using times env(3) e(1) by (auto simp: callback_post_def)
  then show ?thesis using s'(1,2) by blast
qed

interpretation tm: event_callbacks "timers_callback h rest"
  "\<lambda>s. timers_inv s \<and> hooks_ok h \<and> rest_ok rest"
  for h :: "'a timers_sys_scheme timers_hooks" and rest
proof
  fix s s' :: "'a timers_sys_scheme"
  assume "sched_sys.more s' = sched_sys.more s"
  then show "(timers_inv s' \<and> hooks_ok h \<and> rest_ok rest) = (timers_inv s \<and> hooks_ok h \<and> rest_ok rest)"
    using timers_inv_more by blast
next
  fix e :: nat and s :: "'a timers_sys_scheme" and xs ticks late
  assume "callback_pre e s xs" "timers_inv s \<and> hooks_ok h \<and> rest_ok rest"
  then show "\<exists>s' ys. timers_callback h rest e ticks late s = Some s' \<and> callback_post e s xs s' ys \<and>
      (timers_inv s' \<and> hooks_ok h \<and> rest_ok rest)"
    using timers_callback_contract [of s xs h ticks]
    by (cases "e = TIMERS_SYSCLK_EVENT") (auto simp: timers_callback_def rest_ok_def)
qed

end
