(* ===== verification/Timers_Irq.thy ===== *)
theory Timers_Irq
  imports Timers_Inv
begin

text \<open>
  What the timers promise a program: the value of a counter after any number of ticks (which
  makes counting independent of how the ticks are sliced), the interrupt at the target, no
  interrupt before the time the sysclk event was scheduled for, and the registers.
\<close>

section \<open>The value of a counter\<close>

definition timer_modulus :: "timer_counter_state \<Rightarrow> nat" where
  "timer_modulus cs =
     (if tm_reset_at_target (tmode cs) \<and> counter cs < target cs then unat (target cs) else 0xFFFF)"

lemma counter_after_check:
  assumes ok: "timer_ok cs" and n: "0 \<le> n" "n < 2 ^ 31"
  defines "cs' \<equiv> cs\<lparr>counter := counter cs + word_of_int n\<rparr>"
  shows "unat (counter (checked (counter cs) cs')) = (unat (counter cs) + nat n) mod timer_modulus cs"
proof -
  have c: "unat (counter cs) < 0xFFFF" "unat (target cs) \<le> 0xFFFF"
    using ok by (simp_all add: timer_ok_def word_less_nat_alt word_le_nat_alt)
  have sum: "unat (counter cs + word_of_int n) = unat (counter cs) + nat n"
  proof -
    obtain k where "n = int k" using n(1) nonneg_int_cases by blast
    then show ?thesis using c n by (simp add: unat_word_ariths unsigned_of_nat take_bit_nat_eq_self)
  qed
  have lt: "counter cs < target cs \<longleftrightarrow> unat (counter cs) < unat (target cs)"
    by (simp add: word_less_nat_alt)
  show ?thesis
  proof (cases "tm_reset_at_target (tmode cs) \<and> counter cs < target cs")
    case True
    then have T: "0 < unat (target cs)" "0 < target cs" using lt by (auto simp: word_gt_0 unat_gt_0)
    show ?thesis
    proof (cases "unat (target cs) \<le> unat (counter cs) + nat n")
      case ge: True
      have "(unat (counter cs) + nat n) mod unat (target cs) < 0xFFFF"
        using T c(2) by (meson mod_less_divisor order_less_le_trans)
      then show ?thesis using True T ge sum
        by (simp add: checked_def check_target_def check_overflow_def cs'_def timer_modulus_def
            word_le_nat_alt unat_mod)
    next
      case False
      then show ?thesis using True T sum c
        by (simp add: checked_def check_target_def check_overflow_def cs'_def timer_modulus_def
            word_le_nat_alt unat_mod)
    qed
  next
    case False
    have "counter (snd (check_target (counter cs) cs')) = counter cs'"
      using False c by (auto simp: check_target_def cs'_def)
    then show ?thesis using False sum
      by (auto simp: checked_def check_overflow_def cs'_def timer_modulus_def word_le_nat_alt unat_mod)
  qed
qed

lemma add_ticks_counter:
  assumes "timer_ok (timer s i)" "0 \<le> n" "n < 2 ^ 31"
  shows "unat (counter (timer (timers_add_ticks i n s) i)) =
    (unat (counter (timer s i)) + nat n) mod timer_modulus (timer s i)"
  using counter_after_check [OF assms]
  by (simp add: timers_add_ticks_def timers_check_for_irq_alt Let_def raise_irq_timer)

lemma timer_modulus_pos: "0 < timer_modulus cs"
  by (auto simp: timer_modulus_def word_less_nat_alt)

lemma raise_irq_mode_bit:
  "n \<noteq> 10 \<Longrightarrow> bit (tmode (timer (timers_raise_irq i s) j)) n = bit (tmode (timer s j)) n"
  by (auto simp: timers_raise_irq_def Let_def dest: bit_imp_le_length)

lemma checked_mode_bit:
  "n < 10 \<Longrightarrow> bit (tmode (checked old cs)) n = bit (tmode cs) n"
  by (auto simp: checked_def check_target_def check_overflow_def dest: bit_imp_le_length)

lemma add_ticks_mode_bit:
  "n < 10 \<Longrightarrow> bit (tmode (timer (timers_add_ticks i t s) j)) n = bit (tmode (timer s j)) n"
  by (auto simp: timers_add_ticks_def timers_check_for_irq_alt Let_def raise_irq_mode_bit checked_mode_bit)

lemma add_ticks_target: "target (timer (timers_add_ticks i t s) j) = target (timer s j)"
  by (simp add: timers_add_ticks_def timers_check_for_irq_alt Let_def raise_irq_timer checked_def
      check_target_bounds check_overflow_bounds)

lemma add_ticks_modulus:
  assumes "timer_ok (timer s i)" "0 \<le> n" "n < 2 ^ 31"
    and "tm_reset_at_target (tmode (timer s i)) \<longrightarrow> counter (timer s i) < target (timer s i)"
  shows "timer_modulus (timer (timers_add_ticks i n s) i) = timer_modulus (timer s i)"
proof -
  let ?c = "timer (timers_add_ticks i n s) i"
  have r: "tm_reset_at_target (tmode ?c) = tm_reset_at_target (tmode (timer s i))"
    by (simp add: tm_reset_at_target_def add_ticks_mode_bit)
  have "counter ?c < target ?c" if "tm_reset_at_target (tmode (timer s i))"
  proof -
    have "timer_modulus (timer s i) = unat (target (timer s i))"
      using that assms(4) by (simp add: timer_modulus_def)
    then show ?thesis
      using add_ticks_counter [OF assms(1-3)] timer_modulus_pos [of "timer s i"]
      by (simp add: add_ticks_target word_less_nat_alt)
  qed
  then show ?thesis using r assms(4) by (simp add: timer_modulus_def add_ticks_target)
qed

section \<open>The interrupt at the target\<close>

lemma check_irq_target:
  assumes "timer_ok cs" "counter cs < target cs" "tm_irq_at_target (tmode cs)"
    and "n = uint (target cs) - uint (counter cs)"
  shows "check_irq (counter cs) (cs\<lparr>counter := counter cs + word_of_int n\<rparr>)"
proof -
  have "counter cs + word_of_int n = target cs"
    by (simp add: assms(4))
  then show ?thesis using assms by (simp add: check_irq_def check_target_def)
qed

lemma raise_irq_pulse_pending:
  assumes "i < 3" "\<not> tm_irq_pulse_n (tmode (timer s i))"
    "\<not> irq_done (timer s i) \<or> tm_irq_repeat (tmode (timer s i))"
  shows "irq_pending (timers_raise_irq i s) (IRQ_TMR0 + i)"
  using intc.pulse_latches [of "IRQ_TMR0 + i" s] assms
  by (simp add: timers_raise_irq_def Let_def irq_pending_def IRQ_TMR0_def)

lemma target_interrupt:
  assumes "i < 3" "timer_ok (timer s i)" "counter (timer s i) < target (timer s i)"
    and "tm_irq_at_target (tmode (timer s i))" "\<not> tm_irq_pulse_n (tmode (timer s i))"
    and "\<not> irq_done (timer s i) \<or> tm_irq_repeat (tmode (timer s i))"
    and "n = uint (target (timer s i)) - uint (counter (timer s i))"
  shows "irq_pending (timers_add_ticks i n s) (IRQ_TMR0 + i)"
proof -
  let ?c = "(timer s i)\<lparr>counter := counter (timer s i) + word_of_int n\<rparr>"
  let ?k = "checked (counter (timer s i)) ?c"
  have "check_irq (counter (timer s i)) ?c"
    using check_irq_target [OF assms(2,3,4,7)] .
  then have "timers_add_ticks i n s = timers_raise_irq i (put_timer i ?k (put_timer i ?c s))"
    by (simp add: timers_add_ticks_def timers_check_for_irq_alt Let_def)
  moreover have "irq_done ?k = irq_done (timer s i)"
    by (simp add: checked_def check_target_def check_overflow_def)
  ultimately show ?thesis using assms
    by (simp add: raise_irq_pulse_pending tm_irq_pulse_n_def tm_irq_repeat_def checked_mode_bit)
qed

section \<open>No interrupt before the scheduled time\<close>

lemma uint_word_sub_le: "x \<le> y \<Longrightarrow> uint (y - x) = uint y - uint x" for x y :: u32
  by (simp add: uint_sub_lem word_le_def)

lemma min_ticks_bounds:
  assumes "timer_ok cs" "\<not> timer_ticks_until_irq_skip i cs" "n \<le> timer_min_ticks i cs m"
  shows "tm_irq_at_target (tmode cs) \<Longrightarrow> counter cs < target cs \<Longrightarrow>
      n \<le> (uint (target cs) - uint (counter cs)) * (if external_counting_enabled cs then 8 else 1)"
    "tm_irq_on_overflow (tmode cs) \<Longrightarrow>
      n \<le> (0xFFFF - uint (counter cs)) * (if external_counting_enabled cs then 8 else 1)"
proof -
  have c: "counter cs < 0xFFFF" "target cs \<le> 0xFFFF" using assms(1) by (simp_all add: timer_ok_def)
  have ov: "to_s32 (uint (0xFFFF - counter cs)) = 0xFFFF - uint (counter cs)"
  proof -
    have "uint (0xFFFF - counter cs) = 0xFFFF - uint (counter cs)"
      using c(1) by (subst uint_word_sub_le) auto
    moreover have "uint (counter cs) < 0xFFFF" using c(1) by (simp add: word_less_alt)
    then have "0 \<le> 0xFFFF - uint (counter cs)" "0xFFFF - uint (counter cs) < 2147483648"
      using uint_ge_0 [of "counter cs"] by linarith+
    ultimately show ?thesis by (simp add: to_s32_id)
  qed
  show "n \<le> (0xFFFF - uint (counter cs)) * (if external_counting_enabled cs then 8 else 1)"
    if "tm_irq_on_overflow (tmode cs)"
    using assms(2,3) that ov by (auto simp: timer_min_ticks_def Let_def split: if_splits)
  show "n \<le> (uint (target cs) - uint (counter cs)) * (if external_counting_enabled cs then 8 else 1)"
    if at: "tm_irq_at_target (tmode cs)" and lt: "counter cs < target cs"
  proof -
    have "uint (target cs - counter cs) = uint (target cs) - uint (counter cs)"
      using lt by (intro uint_word_sub_le) simp
    moreover have "uint (counter cs) < uint (target cs)" "uint (target cs) \<le> 0xFFFF"
      using lt c by (simp_all add: word_less_alt word_le_def)
    then have "0 \<le> uint (target cs) - uint (counter cs)"
      "uint (target cs) - uint (counter cs) < 2147483648"
      using uint_ge_0 [of "counter cs"] by linarith+
    ultimately have "to_s32 (uint (target cs - counter cs)) = uint (target cs) - uint (counter cs)"
      by (simp add: to_s32_id)
    then show ?thesis using assms(2,3) at lt
      by (auto simp: timer_min_ticks_def Let_def split: if_splits)
  qed
qed

lemma no_irq_below:
  assumes ok: "timer_ok cs" and n: "0 \<le> n" "n < 2 ^ 31"
    and zero: "tm_irq_at_target (tmode cs) \<longrightarrow> target cs \<noteq> 0"
    and tgt: "tm_irq_at_target (tmode cs) \<longrightarrow> counter cs < target cs \<longrightarrow> n < uint (target cs) - uint (counter cs)"
    and ovf: "tm_irq_on_overflow (tmode cs) \<longrightarrow> n < 0xFFFF - uint (counter cs)"
  shows "\<not> check_irq (counter cs) (cs\<lparr>counter := counter cs + word_of_int n\<rparr>)"
proof -
  let ?c = "cs\<lparr>counter := counter cs + word_of_int n\<rparr>"
  have c: "uint (counter cs) < 0xFFFF" using ok by (simp add: timer_ok_def word_less_alt)
  have sum: "uint (counter cs + word_of_int n) = uint (counter cs) + n"
    using c n uint_ge_0 [of "counter cs"] by (simp add: uint_word_ariths uint_word_of_int)
  have "\<not> fst (check_target (counter cs) ?c)"
    using zero tgt sum by (auto simp: check_target_def word_le_def word_less_alt)
  moreover have "\<not> fst (check_overflow (snd (check_target (counter cs) ?c)))"
  proof
    assume a: "fst (check_overflow (snd (check_target (counter cs) ?c)))"
    then have "tm_irq_on_overflow (tmode (snd (check_target (counter cs) ?c)))"
      and ge: "0xFFFF \<le> counter (snd (check_target (counter cs) ?c))"
      by (auto simp: check_overflow_def split: if_splits)
    then have "tm_irq_on_overflow (tmode cs)"
      by (auto simp: check_target_def tm_irq_on_overflow_def split: if_splits)
    moreover have "0xFFFF \<le> counter ?c"
      using ge check_target_bounds(2) [of "counter cs" ?c] by simp
    ultimately show False using ovf sum by (simp add: word_le_def)
  qed
  ultimately show ?thesis by (simp add: check_irq_def)
qed

lemma add_ticks_no_irq:
  "\<not> check_irq (counter (timer s i)) ((timer s i)\<lparr>counter := counter (timer s i) + word_of_int n\<rparr>) \<Longrightarrow>
   intc (timers_add_ticks i n s) = intc s \<and> cpu (timers_add_ticks i n s) = cpu s \<and>
   (\<forall>j. j \<noteq> i \<longrightarrow> timer (timers_add_ticks i n s) j = timer s j)"
  by (simp add: timers_add_ticks_def timers_check_for_irq_alt Let_def)

text \<open>Timer \<open>i\<close> has no interrupt in the next \<open>n\<close> of its own ticks.\<close>

definition timer_quiet :: "timer_counter_state \<Rightarrow> tick_count \<Rightarrow> bool" where
  "timer_quiet cs n \<longleftrightarrow> timer_ok cs \<and> 0 \<le> n \<and> n < 2 ^ 31 \<and>
     (tm_irq_at_target (tmode cs) \<longrightarrow> target cs \<noteq> 0) \<and>
     (tm_irq_at_target (tmode cs) \<longrightarrow> counter cs < target cs \<longrightarrow> n < uint (target cs) - uint (counter cs)) \<and>
     (tm_irq_on_overflow (tmode cs) \<longrightarrow> n < 0xFFFF - uint (counter cs))"

lemma quiet_add_ticks:
  "timer_quiet (timer s i) n \<Longrightarrow>
   intc (timers_add_ticks i n s) = intc s \<and> cpu (timers_add_ticks i n s) = cpu s \<and>
   (\<forall>j. j \<noteq> i \<longrightarrow> timer (timers_add_ticks i n s) j = timer s j)"
  by (rule add_ticks_no_irq, rule no_irq_below) (auto simp: timer_quiet_def)

lemma fold_min_ticks_le:
  assumes "i \<in> set is"
  shows "\<exists>m'. fold (\<lambda>i. timer_min_ticks i (f i)) is m \<le> timer_min_ticks i (f i) m'"
  using assms
proof (induction "is" arbitrary: m)
  case (Cons j js)
  then show ?case
  proof (cases "i = j")
    case True
    then show ?thesis using next_fold_le [of f js "timer_min_ticks j (f j) m"] by auto
  qed auto
qed simp

lemma quiet_until_next:
  assumes inv: "timers_inv s" and i: "i < 3" and scale: "scale_ticks_hook h = None"
    and n: "0 \<le> n" "n < timers_get_ticks_until_next_interrupt h s" and slice: "timers_slice h < 2 ^ 31"
    and zero: "tm_irq_at_target (tmode (timer s i)) \<longrightarrow> target (timer s i) \<noteq> 0"
    and counts: "counting_enabled (timer s i)" "\<not> (i < 2 \<and> external_counting_enabled (timer s i))"
  shows "timer_quiet (timer s i) (if external_counting_enabled (timer s i) then n div 8 else n)"
proof -
  let ?cs = "timer s i" and ?k = "if external_counting_enabled (timer s i) then n div 8 else n"
  let ?m = "fold (\<lambda>i. timer_min_ticks i (timer s i)) [0..<NUM_TIMERS] (timers_slice h)"
  have ok: "timer_ok ?cs" using inv i by (simp add: timers_inv_def)
  have le: "timers_get_ticks_until_next_interrupt h s = (if ?m < 1 then 1 else ?m)"
    using scale by (simp add: timers_get_ticks_until_next_interrupt_def timers_slice_def [symmetric] Let_def)
  have "?m \<le> timers_slice h" by (rule next_fold_le)
  then have n31: "n < 2 ^ 31" using n(2) slice le by (auto split: if_splits)
  have "0 \<le> n div 8" "n div 8 \<le> n" using n(1) by presburger+
  then have k: "0 \<le> ?k" "?k < 2 ^ 31" using n(1) n31 by auto
  show ?thesis
  proof (cases "n = 0")
    case True
    then show ?thesis using ok zero by (auto simp: timer_quiet_def timer_ok_def word_less_alt)
  next
    case False
    then have nm: "n + 1 \<le> ?m" using n le by (auto split: if_splits)
    obtain m' where "?m \<le> timer_min_ticks i ?cs m'"
      using fold_min_ticks_le [of i "[0..<NUM_TIMERS]" "timer s" "timers_slice h"] i
      by (auto simp: NUM_TIMERS_def)
    with nm have "n + 1 \<le> timer_min_ticks i ?cs m'" by simp
    note b = min_ticks_bounds [OF ok _ this]
    show ?thesis
    proof (cases "timer_ticks_until_irq_skip i ?cs")
      case True
      then have "\<not> tm_irq_at_target (tmode ?cs)" "\<not> tm_irq_on_overflow (tmode ?cs)"
        using counts by (auto simp: timer_ticks_until_irq_skip_def)
      then show ?thesis using ok k by (simp add: timer_quiet_def)
    next
      case skip: False
      have "?k < uint (target ?cs) - uint (counter ?cs)"
        if "tm_irq_at_target (tmode ?cs)" "counter ?cs < target ?cs"
        using b(1) [OF skip that] by auto
      moreover have "?k < 0xFFFF - uint (counter ?cs)" if "tm_irq_on_overflow (tmode ?cs)"
        using b(2) [OF skip that] by auto
      ultimately show ?thesis using ok k zero by (simp add: timer_quiet_def)
    qed
  qed
qed

lemma carry_add_ticks [simp]:
  "sysclk_div_8_carry (timers (timers_add_ticks i n s)) = sysclk_div_8_carry (timers s)"
  by (simp add: timers_add_ticks_def timers_check_for_irq_alt timers_raise_irq_def put_timer_def Let_def)

text \<open>
  Whole ticks before the scheduled time leave the interrupt controller and the CPU alone.
  The divide-by-eight remainder is taken to be empty when timer 2 uses it: the source ignores
  the remainder when it computes the next interrupt.
\<close>

lemma count_sysclk_quiet:
  assumes inv: "timers_inv s" and scale: "scale_ticks_hook h = None" and slice: "timers_slice h < 2 ^ 31"
    and n: "0 \<le> n" "n < timers_get_ticks_until_next_interrupt h s"
    and zero: "\<forall>i<3. tm_irq_at_target (tmode (timer s i)) \<longrightarrow> target (timer s i) \<noteq> 0"
    and carry: "external_counting_enabled (timer s 2) \<longrightarrow>
      counting_enabled (timer s 2) \<and> sysclk_div_8_carry (timers s) = 0"
  shows "intc (timers_count_sysclk n s) = intc s \<and> cpu (timers_count_sysclk n s) = cpu s"
proof -
  note quiet = quiet_until_next [OF inv _ scale n slice]
  define a where "a = (if \<not> external_counting_enabled (timer s 0) \<and> counting_enabled (timer s 0)
      then timers_add_ticks 0 n s else s)"
  define b where "b = (if \<not> external_counting_enabled (timer a 1) \<and> counting_enabled (timer a 1)
      then timers_add_ticks 1 n a else a)"
  have a: "intc a = intc s" "cpu a = cpu s" "timer a 1 = timer s 1" "timer a 2 = timer s 2"
    using quiet_add_ticks [of s 0 n] quiet [of 0] zero by (auto simp: a_def split: if_splits)
  have b: "intc b = intc s" "cpu b = cpu s" "timer b 2 = timer s 2"
    using quiet_add_ticks [of a 1 n] quiet [of 1] zero a by (auto simp: b_def split: if_splits)
  have cb: "sysclk_div_8_carry (timers b) = sysclk_div_8_carry (timers s)"
    by (simp add: a_def b_def carry_add_ticks)
  have two: "timer_quiet (timer s 2) (if external_counting_enabled (timer s 2) then n div 8 else n)"
    if "counting_enabled (timer s 2)"
    using quiet [of 2] zero that by simp
  show ?thesis
  proof (cases "external_counting_enabled (timer s 2)")
    case True
    then have c: "counting_enabled (timer s 2)" "sysclk_div_8_carry (timers s) = 0" using carry by auto
    let ?r = "b\<lparr>timers := (timers b)\<lparr>sysclk_div_8_carry := word_of_int (n smod 8)\<rparr>\<rparr>"
    have "n sdiv 8 = n div 8" using n(1) by (simp add: signed_divide_int_def sgn_if)
    moreover have "timer ?r 2 = timer s 2" using b(3) by (simp add: timer_def)
    ultimately have "intc (timers_add_ticks 2 (n sdiv 8) ?r) = intc s \<and> cpu (timers_add_ticks 2 (n sdiv 8) ?r) = cpu s"
      using quiet_add_ticks [of ?r 2 "n div 8"] two [OF c(1)] True b by simp
    then show ?thesis using True b(3) cb c(2)
      by (simp add: timers_count_sysclk_def Let_def a_def [symmetric] b_def [symmetric] to_s32_def
          del: One_nat_def)
  next
    case False
    then show ?thesis using b quiet_add_ticks [of b 2 n] two
      by (auto simp: timers_count_sysclk_def Let_def a_def [symmetric] b_def [symmetric]
          simp del: One_nat_def)
  qed
qed

end
