(* ===== verification/Timers_Regs.thy ===== *)
theory Timers_Regs
  imports Timers_Irq
begin

text \<open>
  Every register access, gate change and reset of the timers returns and keeps the machine
  well-formed: counters in range, the scheduler's queue sorted and linked.
\<close>

definition timers_wf :: "'a timers_sys_scheme \<Rightarrow> bool" where
  "timers_wf s \<longleftrightarrow> timers_inv s \<and> (\<exists>xs. sched_queue s xs) \<and>
     current_event (timing s) \<noteq> Some TIMERS_SYSCLK_EVENT"

text \<open>The GPU hook may do anything that keeps this.\<close>

definition gpu_hook_ok :: "'a timers_sys_scheme timers_hooks \<Rightarrow> bool" where
  "gpu_hook_ok h \<longleftrightarrow> (case gpu_synchronize_crtc h of None \<Rightarrow> True
     | Some sync \<Rightarrow> \<forall>s. timers_wf s \<longrightarrow> timers_wf (sync s))"

lemma wf_env:
  assumes "timers_inv s'" "sched_queue s' ys" "sched_env s s'" "timers_wf s"
  shows "timers_wf s'"
  using assms by (auto simp: timers_wf_def sched_env_def)

lemma wf_same_sched: "timers_wf s \<Longrightarrow> same_sched s s' \<Longrightarrow> timers_inv s' \<Longrightarrow> timers_wf s'"
  by (auto simp: timers_wf_def same_sched_queue) (auto simp: same_sched_def)

lemma update_sysclk_wf:
  assumes "timers_wf s"
  shows "\<exists>s'. timers_update_sysclk_event h s = Some s' \<and> timers_wf s'"
proof -
  obtain xs where "sched_queue s xs" "timers_inv s" using assms by (auto simp: timers_wf_def)
  from update_sysclk_ok [OF this, of h] obtain s' ys where
    "timers_update_sysclk_event h s = Some s'" "timers_inv s'" "sched_queue s' ys" "sched_env s s'"
    by (auto simp: rescheduled_def)
  then show ?thesis using wf_env assms by blast
qed

lemma add_sysclk_wf:
  assumes "timers_wf s"
  shows "\<exists>s'. timers_add_sysclk_ticks h t s = Some s' \<and> timers_wf s'"
proof -
  obtain t' r where r: "timers_add_sysclk_ticks h t s = timers_update_sysclk_event h (timers_count_sysclk t' r)"
      "same_sched s r" "timers_inv r = timers_inv s"
    using add_sysclk_ticks_alt by metis
  have "timers_wf (timers_count_sysclk t' r)"
    using assms r(2,3) count_sysclk_ok [of r t'] wf_same_sched same_sched_trans
    by (meson timers_wf_def)
  then show ?thesis using update_sysclk_wf r(1) by simp
qed

lemma invoke_early_wf:
  assumes wf: "timers_wf s"
  shows "\<exists>s'. timers_invoke_early h s = Some s' \<and> timers_wf s'"
proof -
  obtain xs where q: "sched_queue s xs" and c: "current_event (timing s) \<noteq> Some TIMERS_SYSCLK_EVENT"
    using wf by (auto simp: timers_wf_def)
  consider "timers_invoke_early h s = Some s" | r ys t where
      "timers_invoke_early h s = timers_add_sysclk_ticks h t r" "sched_queue r ys" "sched_env s r"
    using invoke_early_cases [OF q c, of "\<lambda>e t late. timers_add_sysclk_ticks h t" False]
    unfolding timers_invoke_early_def by blast
  then show ?thesis
  proof cases
    case 2
    have "sched_sys.more r = sched_sys.more s" using 2(3) by (simp add: sched_env_def)
    then have "timers_inv r" using timers_inv_more wf unfolding timers_wf_def by blast
    then have "timers_wf r" using wf_env 2(2,3) wf by blast
    then show ?thesis using add_sysclk_wf 2(1) by simp
  qed (use wf in blast)
qed

lemma sync_gpu_wf: "gpu_hook_ok h \<Longrightarrow> timers_wf s \<Longrightarrow> timers_wf (timers_sync_gpu h i s)"
  by (auto simp: timers_sync_gpu_def gpu_hook_ok_def split: option.splits)

lemma put_timer_wf: "timers_wf s \<Longrightarrow> i < 3 \<longrightarrow> timer_ok c \<Longrightarrow> timers_wf (put_timer i c s)"
  by (auto simp: timers_wf_def timers_inv_def sched_queue_def sched_dll_def)

lemma check_for_irq_wf:
  assumes "timers_wf s" "i < 3" "target c \<le> 0xFFFF"
  shows "timers_wf (timers_check_for_irq i old (put_timer i c s))"
proof -
  have "timers_inv (timers_check_for_irq i old (put_timer i c s))"
    using assms by (intro check_for_irq_timers_inv) (auto simp: timers_wf_def timers_inv_def)
  moreover have "same_sched s (timers_check_for_irq i old (put_timer i c s))"
    using check_for_irq_same_sched [of "put_timer i c s" i old] by (simp add: same_sched_def)
  ultimately show ?thesis using assms(1) wf_same_sched by blast
qed

lemma and_FFFF_le: "v AND 0xFFFF \<le> 0xFFFF" for v :: u32
  by (simp add: word_and_le1)

lemma write_counter_wf:
  assumes "timers_wf s" "i < 3"
  shows "\<exists>s'. timers_write_counter h i v s = Some s' \<and> timers_wf s'"
proof -
  have "timers_wf (timers_check_for_irq i (counter (timer s i))
      (put_timer i ((timer s i)\<lparr>counter := v AND 0xFFFF\<rparr>) s))"
    using assms by (intro check_for_irq_wf) (auto simp: timers_wf_def timers_inv_def timer_ok_def)
  then show ?thesis
    using update_sysclk_wf [of _ h] by (auto simp: timers_write_counter_def Let_def)
qed

lemma write_target_wf:
  assumes "timers_wf s" "i < 3"
  shows "\<exists>s'. timers_write_target h i v s = Some s' \<and> timers_wf s'"
proof -
  have "timers_wf (timers_check_for_irq i (counter (timer s i))
      (put_timer i ((timer s i)\<lparr>target := v AND 0xFFFF\<rparr>) s))"
    using assms and_FFFF_le by (intro check_for_irq_wf) auto
  then show ?thesis
    using update_sysclk_wf [of _ h] by (auto simp: timers_write_target_def Let_def)
qed

lemma update_counting_frame [simp]:
  "counter (timers_update_counting_enabled cs) = counter cs"
  "target (timers_update_counting_enabled cs) = target cs"
  "tmode (timers_update_counting_enabled cs) = tmode cs"
  "irq_done (timers_update_counting_enabled cs) = irq_done cs"
  by (simp_all add: timers_update_counting_enabled_def Let_def)

lemma write_mode_wf:
  assumes wf: "timers_wf s" and i: "i < 3"
  shows "\<exists>s'. timers_write_mode h i v s = Some s' \<and> timers_wf s'"
proof -
  have tgt: "target (timer s i) \<le> 0xFFFF" using assms by (simp add: timers_wf_def timers_inv_def timer_ok_def)
  define c where "c = (timer s i)\<lparr>tmode := (v AND TIMER_MODE_WRITE_MASK) OR (tmode (timer s i) AND NOT TIMER_MODE_WRITE_MASK),
    use_external_clock := (tm_clock_source ((v AND TIMER_MODE_WRITE_MASK) OR (tmode (timer s i) AND NOT TIMER_MODE_WRITE_MASK))
      AND (if i = 2 then 2 else 1) \<noteq> 0), counter := 0, irq_done := False\<rparr>"
  define r where "r = interrupt_controller_set_line_state (IRQ_TMR0 + i) False (put_timer i c s)"
  have c: "timer_ok c" "target c \<le> 0xFFFF" using tgt by (simp_all add: c_def timer_ok_def)
  have "timers_wf (put_timer i c s)" using wf c by (simp add: put_timer_wf)
  then have "timers_wf r"
    by (rule wf_same_sched) (auto simp: r_def same_sched_def timers_inv_def dest: \<open>timers_wf (put_timer i c s)\<close> [unfolded timers_wf_def timers_inv_def, THEN conjunct1, rule_format])
  then have "timers_wf (timers_check_for_irq i (counter (timer (put_timer i (timers_update_counting_enabled (timer r i)) r) i))
      (put_timer i (timers_update_counting_enabled (timer r i)) r))"
    using i c by (intro check_for_irq_wf) (auto simp: r_def)
  then show ?thesis
    using update_sysclk_wf [of _ h]
    unfolding timers_write_mode_def Let_def c_def [symmetric] r_def [symmetric] by blast
qed

theorem write_register_wf:
  assumes "timers_wf s" "gpu_hook_ok h"
  shows "\<exists>s'. timers_write_register h offset v s = Some s' \<and> timers_wf s'"
proof -
  define i where "i = unat (drop_bit 4 offset AND 3)"
  obtain r where r: "timers_invoke_early h (timers_sync_gpu h i s) = Some r" "timers_wf r"
    using invoke_early_wf sync_gpu_wf assms by blast
  show ?thesis
  proof (cases "i < 3")
    case True
    then show ?thesis
      using r write_counter_wf [OF r(2) True, of h v] write_mode_wf [OF r(2) True, of h v]
        write_target_wf [OF r(2) True, of h v]
      unfolding timers_write_register_def Let_def i_def [symmetric] by auto
  next
    case False
    then show ?thesis using assms(1)
      unfolding timers_write_register_def Let_def i_def [symmetric] by auto
  qed
qed

theorem read_register_wf:
  assumes "timers_wf s" "gpu_hook_ok h"
  shows "\<exists>v s'. timers_read_register h offset s = Some (v, s') \<and> timers_wf s'"
proof -
  define i where "i = unat (drop_bit 4 offset AND 3)"
  obtain r where r: "timers_invoke_early h (timers_sync_gpu h i s) = Some r" "timers_wf r"
    using invoke_early_wf sync_gpu_wf assms by blast
  have "i < 3 \<longrightarrow> timer_ok (timer r i)" using r(2) by (simp add: timers_wf_def timers_inv_def)
  then have "timers_wf (put_timer i ((timer r i)\<lparr>tmode := m\<rparr>) r)" for m
    using r(2) by (intro put_timer_wf) (auto simp: timer_ok_def)
  then show ?thesis using r assms(1)
    unfolding timers_read_register_def Let_def i_def [symmetric] by auto
qed

theorem set_gate_wf:
  assumes wf: "timers_wf s" and i: "i < 3"
  shows "\<exists>s'. timers_set_gate h i b s = Some s' \<and> timers_wf s'"
proof -
  define u where "u = put_timer i ((timer s i)\<lparr>gate := b\<rparr>) s"
  have u: "timers_wf u"
    unfolding u_def using wf i by (intro put_timer_wf) (auto simp: timers_wf_def timers_inv_def timer_ok_def)
  obtain r where r: "(if \<not> use_external_clock (timer u i) \<and> (tm_sync_mode (tmode (timer u i)) \<noteq> 1 \<or> \<not> b)
      then timers_invoke_early h u else Some u) = Some r" "timers_wf r"
    using invoke_early_wf [OF u, of h] u
    by (cases "\<not> use_external_clock (timer u i) \<and> (tm_sync_mode (tmode (timer u i)) \<noteq> 1 \<or> \<not> b)")
      (auto simp del: de_Morgan_conj)
  have ok: "timer_ok (timer r i)" using r(2) i by (simp add: timers_wf_def timers_inv_def)
  have "timers_wf (put_timer i (timers_update_counting_enabled c) r)" if "timer_ok c" for c
    using that r(2) by (intro put_timer_wf) (auto simp: timer_ok_def)
  then have "\<exists>s'. timers_update_sysclk_event h (put_timer i (timers_update_counting_enabled c) r) = Some s' \<and>
      timers_wf s'" if "timer_ok c" for c
    using that update_sysclk_wf by blast
  then show ?thesis using wf u r ok
    unfolding timers_set_gate_def Let_def u_def [symmetric]
    by (auto simp: timer_ok_def split del: if_split) (auto simp: timer_ok_def)
qed

section \<open>The registers as a program sees them\<close>

lemma timer_mode_write_bits:
  "bit ((v AND TIMER_MODE_WRITE_MASK) OR (m AND NOT TIMER_MODE_WRITE_MASK)) n \<longleftrightarrow>
     (if n < 10 \<or> 13 \<le> n \<and> n < 16 then bit v n else bit m n)"
proof -
  have eq: "TIMER_MODE_WRITE_MASK = mask 10 OR (mask 16 AND NOT (mask 13))"
    by (simp add: TIMER_MODE_WRITE_MASK_def mask_eq_exp_minus_1)
  have "bit TIMER_MODE_WRITE_MASK n \<longleftrightarrow> n < 10 \<or> 13 \<le> n \<and> n < 16"
    unfolding eq by (auto simp: bit_simps)
  then show ?thesis by (auto simp: bit_simps dest: bit_imp_le_length)
qed

end
