(* ===== verification/Bus_Map.thy ===== *)
theory Bus_Map
  imports Bus_Handlers
begin

text \<open>
  The address decoder: the page tables of \<open>set_handlers\<close> against a decoder written with
  address ranges, the window register that unmaps the upper RAM, the dispatch of the hardware
  page, and the memory regions.
\<close>

section \<open>Page arithmetic\<close>

lemma page_of: "unat (drop_bit 12 a) = unat a div 4096" for a :: u32
proof -
  have "unat (drop_bit 12 a) = drop_bit 12 (unat a)" by (rule unat_drop_bit_eq)
  then show ?thesis by (simp only: drop_bit_eq_div) simp
qed

lemma page_le: "(c :: nat) \<le> n div 4096 \<longleftrightarrow> c * 4096 \<le> n"
  by (simp add: less_eq_div_iff_mult_less_eq)

lemma page_less: "n div 4096 < (c :: nat) \<longleftrightarrow> n < c * 4096"
  using page_le [of c n] by (simp add: not_le [symmetric])

text \<open>One region in terms of addresses.\<close>

lemma region_lookup:
  assumes "unat start mod 4096 = 0" "unat sz mod 4096 = 0" "unat sz < 0xFFFFF000"
  shows "set_handler_for_region start sz h t (n div 4096) =
    (if unat start \<le> n \<and> n < unat start + unat sz then h else t (n div 4096))"
proof -
  obtain k m where k: "unat start = 4096 * k" "unat sz = 4096 * m"
    using assms(1,2) by (metis mod_0_imp_dvd dvdE)
  have "unat (sz + 0xFFF) = unat sz + 0xFFF"
    using assms(3) by (simp add: unat_word_ariths)
  then have "unat (drop_bit 12 (sz + 0xFFF)) = m"
    using k(2) by (simp add: page_of)
  moreover have "unat (drop_bit 12 start) = k" using k(1) by (simp add: page_of)
  ultimately show ?thesis
    by (simp add: set_handler_for_region_def Let_def page_le page_less k algebra_simps)
qed

section \<open>The decoder\<close>

text \<open>
  The address \<open>n\<close> of a segment that starts at \<open>b\<close>, for the cached segments
  (which see the scratchpad) and for the uncached one.
\<close>

definition decode_segment :: "bool \<Rightarrow> nat \<Rightarrow> nat \<Rightarrow> bus_handler" where
  "decode_segment cached b n =
     (if n < b + 0x800000 then HANDLER_RAM
      else if b + 0x1F000000 \<le> n \<and> n < b + 0x1F800000 then HANDLER_EXP1
      else if b + 0x1F800000 \<le> n \<and> n < b + 0x1F801000
      then (if cached then HANDLER_SCRATCHPAD else HANDLER_UNMAPPED)
      else if b + 0x1F801000 \<le> n \<and> n < b + 0x1F802000 then HANDLER_HW
      else if b + 0x1F802000 \<le> n \<and> n < b + 0x1F804000 then HANDLER_EXP2
      else if b + 0x1F808000 \<le> n \<and> n < b + 0x1F809000 then HANDLER_SIO2
      else if b + 0x1FA00000 \<le> n \<and> n < b + 0x1FC00000 then HANDLER_EXP3
      else if b + 0x1FC00000 \<le> n \<and> n < b + 0x20000000 then HANDLER_BIOS
      else HANDLER_UNMAPPED)"

text \<open>An address of the 4 GB space, with the cache isolated or not.\<close>

definition decode_address :: "bool \<Rightarrow> nat \<Rightarrow> bus_handler" where
  "decode_address isc n =
     (if n < 0x80000000 then if isc then HANDLER_ICACHE else decode_segment True 0 n
      else if n < 0xA0000000 then if isc then HANDLER_ICACHE else decode_segment True 0x80000000 n
      else if n < 0xC0000000 then decode_segment False 0xA0000000 n
      else if 0xFFFE0000 \<le> n \<and> n < 0xFFFE1000 then HANDLER_CACHE_CONTROL
      else HANDLER_UNMAPPED)"

lemmas segment_defs = bus_map_defs bus_constants cpu_address_defs

lemma segment_lookup:
  fixes t :: "nat \<Rightarrow> bus_handler"
  defines "hit \<equiv> \<lambda>cached b n. b \<le> n \<and> n < b + 0x20000000 \<and> decode_segment cached b n \<noteq> HANDLER_UNMAPPED"
  shows "set_segment KUSEG cached_regions t (n div 4096) =
      (if hit True 0 n then decode_segment True 0 n else t (n div 4096))"
    "set_segment KSEG0 cached_regions t (n div 4096) =
      (if hit True 0x80000000 n then decode_segment True 0x80000000 n else t (n div 4096))"
    "set_segment KSEG1 uncached_regions t (n div 4096) =
      (if hit False 0xA0000000 n then decode_segment False 0xA0000000 n else t (n div 4096))"
  unfolding hit_def
  by (simp_all add: set_segment_def cached_regions_def uncached_regions_def region_lookup segment_defs
      decode_segment_def)

lemma isc_lookup:
  "set_handler_for_region KUSEG 0x80000000 h t (n div 4096) = (if n < 0x80000000 then h else t (n div 4096))"
  "set_handler_for_region KSEG0 0x20000000 h t (n div 4096) =
     (if 0x80000000 \<le> n \<and> n < 0xA0000000 then h else t (n div 4096))"
  "set_handler_for_region (KSEG2 OR 0xFFFE0000) 0x1000 h t (n div 4096) =
     (if 0xFFFE0000 \<le> n \<and> n < 0xFFFE1000 then h else t (n div 4096))"
  by (simp_all add: region_lookup segment_defs)

lemma clear_lookup: "n < 2 ^ 32 \<Longrightarrow> clear_handlers t (n div 4096) = HANDLER_UNMAPPED"
  by (simp add: clear_handlers_def page_less)

text \<open>The tables decode every address as the decoder does.\<close>

lemma decode_segment_out: "b + 0x20000000 \<le> n \<Longrightarrow> decode_segment cached b n = HANDLER_UNMAPPED"
  by (simp add: decode_segment_def)

lemma set_handlers_tables:
  "memory_handlers (set_handlers b) =
     set_handler_for_region (KSEG2 OR 0xFFFE0000) 0x1000 HANDLER_CACHE_CONTROL
      (set_segment KSEG1 uncached_regions (set_segment KSEG0 cached_regions
        (set_segment KUSEG cached_regions (clear_handlers (memory_handlers b)))))"
  "memory_handlers_isc (set_handlers b) =
     set_handler_for_region (KSEG2 OR 0xFFFE0000) 0x1000 HANDLER_CACHE_CONTROL
      (set_segment KSEG1 uncached_regions
        (set_handler_for_region KSEG0 0x20000000 HANDLER_ICACHE
          (set_handler_for_region KUSEG 0x80000000 HANDLER_ICACHE
            (clear_handlers (memory_handlers_isc b)))))"
  by (simp_all add: set_handlers_def Let_def)

text \<open>Every page decodes as its addresses do.\<close>

lemma set_handlers_decode:
  assumes n: "n < 2 ^ 32"
  shows "memory_handlers (set_handlers b) (n div 4096) = decode_address False n"
    "memory_handlers_isc (set_handlers b) (n div 4096) = decode_address True n"
proof -
  define x y z where "x = decode_segment True 0 n" and "y = decode_segment True 0x80000000 n"
    and "z = decode_segment False 0xA0000000 n"
  have out: "0x20000000 \<le> n \<Longrightarrow> x = HANDLER_UNMAPPED"
    using decode_segment_out [of 0 n] by (simp add: x_def)
  have seg: "set_segment KUSEG cached_regions t (n div 4096) =
      (if n < 0x20000000 \<and> x \<noteq> HANDLER_UNMAPPED then x else t (n div 4096))"
    "set_segment KSEG0 cached_regions t (n div 4096) =
      (if 0x80000000 \<le> n \<and> n < 0xA0000000 \<and> y \<noteq> HANDLER_UNMAPPED then y else t (n div 4096))"
    "set_segment KSEG1 uncached_regions t (n div 4096) =
      (if 0xA0000000 \<le> n \<and> n < 0xC0000000 \<and> z \<noteq> HANDLER_UNMAPPED then z else t (n div 4096))" for t
    unfolding segment_lookup x_def y_def z_def by simp_all
  consider "n < 0x20000000" | "0x20000000 \<le> n" "n < 0x80000000" | "0x80000000 \<le> n" "n < 0xA0000000"
    | "0xA0000000 \<le> n" "n < 0xC0000000" | "0xC0000000 \<le> n" by linarith
  then show "memory_handlers (set_handlers b) (n div 4096) = decode_address False n"
    "memory_handlers_isc (set_handlers b) (n div 4096) = decode_address True n"
    unfolding set_handlers_tables isc_lookup seg clear_lookup [OF n] decode_address_def
      x_def [symmetric] y_def [symmetric] z_def [symmetric]
    by (cases; simp add: out)+
qed

section \<open>The RAM window\<close>

definition upper_ram :: "nat \<Rightarrow> bool" where
  "upper_ram n \<longleftrightarrow> (0x200000 \<le> n \<and> n < 0x800000) \<or> (0x80200000 \<le> n \<and> n < 0x80800000) \<or>
     (0xA0200000 \<le> n \<and> n < 0xA0800000)"

lemma map_upper_lookup:
  "map_upper_ram h t (n div 4096) = (if upper_ram n then h else t (n div 4096))"
proof -
  have r: "set_handler_for_region (KUSEG OR BUS_RAM_2MB_SIZE) (BUS_RAM_MIRROR_SIZE - BUS_RAM_2MB_SIZE) h t (n div 4096) =
      (if 0x200000 \<le> n \<and> n < 0x800000 then h else t (n div 4096))"
    "set_handler_for_region (KSEG0 OR BUS_RAM_2MB_SIZE) (BUS_RAM_MIRROR_SIZE - BUS_RAM_2MB_SIZE) h t (n div 4096) =
      (if 0x80200000 \<le> n \<and> n < 0x80800000 then h else t (n div 4096))"
    "set_handler_for_region (KSEG1 OR BUS_RAM_2MB_SIZE) (BUS_RAM_MIRROR_SIZE - BUS_RAM_2MB_SIZE) h t (n div 4096) =
      (if 0xA0200000 \<le> n \<and> n < 0xA0800000 then h else t (n div 4096))" for t
    by (simp_all add: region_lookup segment_defs)
  show ?thesis unfolding map_upper_ram_def r upper_ram_def by (simp only: split: if_split) blast
qed

lemma upper_ram_decode: "upper_ram n \<Longrightarrow> decode_address False n = HANDLER_RAM"
  unfolding upper_ram_def by (elim disjE; simp add: decode_address_def decode_segment_def)

text \<open>
  The tables of a running machine: the decoder, with the upper RAM unmapped in the normal table
  exactly while the RAM-size register selects the 2 MB window.
\<close>

definition bus_tables_ok :: "bus_state \<Rightarrow> bool" where
  "bus_tables_ok b \<longleftrightarrow> (\<forall>n < 2 ^ 32.
     memory_handlers b (n div 4096) =
       (if upper_ram n \<and> ram_memory_window (ram_size_reg b) = 4 then HANDLER_UNMAPPED
        else decode_address False n) \<and>
     memory_handlers_isc b (n div 4096) = decode_address True n)"

lemma tables_after_set_handlers:
  "ram_memory_window (ram_size_reg b) \<noteq> 4 \<Longrightarrow> bus_tables_ok (set_handlers b)"
  by (simp add: bus_tables_ok_def set_handlers_decode) (simp add: set_handlers_def Let_def)

lemma tables_after_update:
  assumes "bus_tables_ok b"
  shows "bus_tables_ok (update_mapped_ram_size (b\<lparr>ram_size_reg := v\<rparr>))"
  using assms by (auto simp: bus_tables_ok_def update_mapped_ram_size_def map_upper_lookup upper_ram_decode)

lemma tables_frame:
  "bus_tables_ok b \<Longrightarrow> memory_handlers b' = memory_handlers b \<Longrightarrow>
     memory_handlers_isc b' = memory_handlers_isc b \<Longrightarrow>
     ram_memory_window (ram_size_reg b') = ram_memory_window (ram_size_reg b) \<Longrightarrow> bus_tables_ok b'"
  by (simp add: bus_tables_ok_def)

lemma tables_memctrl2:
  assumes "bus_tables_ok (bus s)"
  shows "bus_tables_ok (bus (memctrl2_write_common a v s))"
  using assms tables_after_update [OF assms, of v]
  by (auto simp: memctrl2_write_common_def Let_def unknown_write_def cpu_set_bus_error_def
      intro: tables_frame)

lemma tables_reset:
  assumes "bus_tables_ok b"
  shows "bus_tables_ok (bus_reset b)"
proof -
  define b1 where "b1 = recalculate_memory_timings (b\<lparr>ram := (\<lambda>i. if i < unat (ram_size b) then 0 else ram b i),
            memctrl_regs := (memctrl_regs b)(
              MEMCTRL_EXP1_BASE := 0x1F000000, MEMCTRL_EXP2_BASE := 0x1F802000,
              MEMCTRL_EXP1_DELAY := 0x0013243F, MEMCTRL_EXP3_DELAY := 0x00003022,
              MEMCTRL_BIOS_DELAY := 0x0013243F, MEMCTRL_SPU_DELAY := 0x200931E1,
              MEMCTRL_CDROM_DELAY := 0x00020843, MEMCTRL_EXP2_DELAY := 0x00070777,
              MEMCTRL_COMMON_DELAY := 0x00031125),
            ram_code_bits := (\<lambda>_. False),
            kernel_initialize_hook_run := False\<rparr>)"
  have r: "bus_reset b = (if ram_size_reg b1 \<noteq> 0x00000B88
      then update_mapped_ram_size (b1\<lparr>ram_size_reg := 0x00000B88\<rparr>) else b1)"
    unfolding bus_reset_def b1_def Let_def ..
  have "bus_tables_ok b1"
    by (rule tables_frame [OF assms]) (simp_all add: b1_def recalculate_memory_timings_def Let_def)
  then show ?thesis
    unfolding r using tables_after_update [of b1] by simp
qed

section \<open>The hardware page\<close>

definition hw_decode :: "nat \<Rightarrow> hw_device" where
  "hw_decode i =
     (if i < 4 then HW_MEMCTRL else if i = 4 then HW_PAD else if i = 5 then HW_SIO
      else if i = 6 then HW_MEMCTRL2 else if i = 7 then HW_INTC else if i < 16 then HW_DMA
      else if i < 20 then HW_TIMERS else if i = 0x80 then HW_CDROM else if i = 0x81 then HW_GPU
      else if i = 0x82 then HW_MDEC else if 0xC0 \<le> i \<and> i < 0x100 then HW_SPU else HW_UNMAPPED)"

lemma fold_upd: "fold (\<lambda>j t. t(f j := k)) xs t i = (if \<exists>j\<in>set xs. f j = i then k else t i)"
  by (induction xs arbitrary: t) auto

lemma hw_range_lookup:
  assumes r: "raddr = 0x1F801000 + 16 * of_nat b" and m: "b + m \<le> 256" "rsize = 16 * m"
  shows "hw_dispatch_set_range raddr rsize k t i = (if b \<le> i \<and> i < b + m then k else t i)"
proof -
  have f: "unat (drop_bit 4 (raddr + 16 * of_nat j) AND 0xFF) = b + j" if "j < m" for j
  proof -
    have w: "raddr + 16 * of_nat j = word_of_nat (0x1F801000 + 16 * (b + j))" by (simp add: r algebra_simps)
    have "unat (raddr + 16 * of_nat j) = 0x1F801000 + 16 * (b + j)"
      unfolding w unat_of_nat using that m by (simp add: take_bit_eq_mod)
    moreover have "unat (drop_bit 4 x AND 0xFF) = unat x div 16 mod 256" for x :: u32
    proof -
      have "drop_bit 4 x AND 0xFF = take_bit 8 (drop_bit 4 x)"
        by (simp only: take_bit_eq_mask) (simp add: mask_eq_exp_minus_1)
      moreover have "unat (take_bit 8 (drop_bit 4 x)) = take_bit 8 (drop_bit 4 (unat x))"
        by (simp only: unsigned_take_bit_eq unat_drop_bit_eq)
      ultimately show ?thesis by (simp only: take_bit_eq_mod drop_bit_eq_div) simp
    qed
    moreover have "(0x1F801000 + 16 * (b + j)) div 16 = 0x1F80100 + (b + j)" by simp
    moreover have "(0x1F80100 + (b + j)) mod 256 = (0x1F80100 mod 256 + (b + j)) mod 256"
      by (simp only: mod_add_left_eq)
    ultimately show ?thesis using that m by simp
  qed
  have "(rsize + 15) div 16 = m" using m by simp
  then have "hw_dispatch_set_range raddr rsize k t i =
      (if \<exists>j\<in>{0..<m}. unat (drop_bit 4 (raddr + 16 * of_nat j) AND 0xFF) = i then k else t i)"
    by (simp add: hw_dispatch_set_range_def fold_upd)
  also have "(\<exists>j\<in>{0..<m}. unat (drop_bit 4 (raddr + 16 * of_nat j) AND 0xFF) = i) = (b \<le> i \<and> i < b + m)"
    using f by (auto intro!: bexI [of _ "i - b"])
  finally show ?thesis .
qed

lemma hw_dispatch_decode: "i < 256 \<Longrightarrow> build_hw_dispatch i = hw_decode i"
  unfolding build_hw_dispatch_def
  by (simp add: hw_range_lookup [where b = 0 and m = 4] hw_range_lookup [where b = 4 and m = 1]
      hw_range_lookup [where b = 5 and m = 1] hw_range_lookup [where b = 6 and m = 1]
      hw_range_lookup [where b = 7 and m = 1] hw_range_lookup [where b = 8 and m = 8]
      hw_range_lookup [where b = 16 and m = 4] hw_range_lookup [where b = 128 and m = 1]
      hw_range_lookup [where b = 129 and m = 1] hw_range_lookup [where b = 130 and m = 1]
      hw_range_lookup [where b = 192 and m = 64] hw_decode_def)

section \<open>Memory regions\<close>

lemma region_bounds:
  "bus_get_memory_region_for_address a = Some r \<Longrightarrow>
     bus_get_memory_region_start r \<le> a \<and> a < bus_get_memory_region_end r"
proof -
  have q: "unat (a div 0x200000) = unat a div 0x200000" by (simp add: unat_div)
  show ?thesis if "bus_get_memory_region_for_address a = Some r"
  proof (cases "a < 0x800000")
    case True
    then have "unat a < 4 * 0x200000" by (simp add: word_less_nat_alt)
    then have "unat a div 0x200000 < 4" by (simp add: div_less_iff_less_mult)
    then consider "unat a div 0x200000 = 0" | "unat a div 0x200000 = 1" | "unat a div 0x200000 = 2"
      | "unat a div 0x200000 = 3" by linarith
    then show ?thesis
      using that True
      by cases (auto simp: bus_get_memory_region_for_address_def segment_defs q word_less_nat_alt
          word_le_nat_alt split: if_split_asm)
  next
    case False
    then show ?thesis using that
      by (auto simp: bus_get_memory_region_for_address_def segment_defs word_less_nat_alt
          word_le_nat_alt split: if_split_asm)
  qed
qed

end
