(* ===== verification/Bus_Props.thy ===== *)
theory Bus_Props
  imports Bus_Map
begin

text \<open>
  What the bus promises: access times in range and ordered by size, storage that reads back
  what was written (the locale \<open>byte_store\<close>, provided by RAM and by the scratchpad), RAM
  writes that drop exactly the code page they hit, the scan for code pages, sub-word register
  access, and the isolated instruction cache.
\<close>

section \<open>Access times\<close>

lemma nibble_range: "0 \<le> uint (bits_get w lo 4)" "uint (bits_get w lo 4) \<le> 15" for w :: u32
proof -
  have "uint (bits_get w lo 4) = take_bit 4 (uint (drop_bit lo w))"
    unfolding bits_get_def by (rule unsigned_take_bit_eq)
  then have "uint (bits_get w lo 4) = uint (drop_bit lo w) mod 16"
    by (simp only: take_bit_eq_mod) simp
  then show "0 \<le> uint (bits_get w lo 4)" "uint (bits_get w lo 4) \<le> 15" by simp_all
qed

lemma timing_parts:
  obtains first seq where "6 \<le> first" "first \<le> 46" "2 \<le> seq" "seq \<le> 46"
    "\<And>sz. calculate_memory_timing w c sz = (case sz of
        MEMORY_ACCESS_SIZE_BYTE \<Rightarrow> first - 1
      | MEMORY_ACCESS_SIZE_HALFWORD \<Rightarrow> (if bit w 12 then first else first + seq) - 1
      | MEMORY_ACCESS_SIZE_WORD \<Rightarrow> (if bit w 12 then first + seq else first + seq + seq + seq) - 1)"
proof -
  define acc c0 c2 c3 where "acc = mem_access_time w" and "c0 = com_time 0 c" and "c2 = com_time 2 c"
    and "c3 = com_time 3 c"
  have r: "0 \<le> acc" "acc \<le> 15" "0 \<le> c0" "c0 \<le> 15" "0 \<le> c2" "c2 \<le> 15" "0 \<le> c3" "c3 \<le> 15"
    unfolding acc_def c0_def c2_def c3_def mem_access_time_def com_time_def by (rule nibble_range)+
  define f0 mn where "f0 = (if bit w 8 then c0 - 1 else 0) + (if bit w 10 then c2 else 0)"
    and "mn = (if bit w 11 then c3 else 0)"
  define f1 where "f1 = (if f0 < 6 then f0 + 1 else f0) + acc + 2"
  define first seq where "first = (if f1 < mn + 6 then mn + 6 else f1)"
    and "seq = (if f0 + acc + 2 < mn + 2 then mn + 2 else f0 + acc + 2)"
  have f0: "- 1 \<le> f0" "f0 \<le> 29" "0 \<le> mn" "mn \<le> 15" using r by (simp_all add: f0_def mn_def)
  then have b: "6 \<le> first" "first \<le> 46" "2 \<le> seq" "seq \<le> 46"
    using r(1,2) by (simp_all add: first_def seq_def f1_def)
  have eq: "calculate_memory_timing w c sz = (let t = (case sz of
        MEMORY_ACCESS_SIZE_BYTE \<Rightarrow> first
      | MEMORY_ACCESS_SIZE_HALFWORD \<Rightarrow> if bit w 12 then first else first + seq
      | MEMORY_ACCESS_SIZE_WORD \<Rightarrow> if bit w 12 then first + seq else first + seq + seq + seq)
      in if t - 1 < 0 then 0 else t - 1)" for sz
    unfolding calculate_memory_timing_def Let_def mem_data_bus_16bit_def acc_def [symmetric]
      c0_def [symmetric] c2_def [symmetric] c3_def [symmetric] first_def seq_def f1_def f0_def mn_def
    by (cases "bit w 8"; cases "bit w 10"; cases "bit w 11"; simp only: if_True if_False add_0 add_0_right)
  show thesis
    by (rule that [OF b]) (unfold eq Let_def, use b in \<open>simp split: memory_access_size.split\<close>)
qed

lemma memory_timing_bounds:
  "5 \<le> calculate_memory_timing w c sz" "calculate_memory_timing w c sz \<le> 183"
  by (rule timing_parts [of w c]; cases sz; simp)+

lemma memory_timing_mono:
  "calculate_memory_timing w c MEMORY_ACCESS_SIZE_BYTE \<le> calculate_memory_timing w c MEMORY_ACCESS_SIZE_HALFWORD"
  "calculate_memory_timing w c MEMORY_ACCESS_SIZE_HALFWORD \<le> calculate_memory_timing w c MEMORY_ACCESS_SIZE_WORD"
  by (rule timing_parts [of w c]; simp)+

text \<open>The access times the code keeps follow the registers.\<close>

definition timings_ok :: "bus_state \<Rightarrow> bool" where
  "timings_ok b \<longleftrightarrow>
     bios_access_time b = calculate_memory_timing (memctrl_regs b MEMCTRL_BIOS_DELAY) (memctrl_regs b MEMCTRL_COMMON_DELAY) \<and>
     cdrom_access_time b = calculate_memory_timing (memctrl_regs b MEMCTRL_CDROM_DELAY) (memctrl_regs b MEMCTRL_COMMON_DELAY) \<and>
     spu_access_time b = calculate_memory_timing (memctrl_regs b MEMCTRL_SPU_DELAY) (memctrl_regs b MEMCTRL_COMMON_DELAY) \<and>
     exp1_access_time b = calculate_memory_timing (memctrl_regs b MEMCTRL_EXP1_DELAY) (memctrl_regs b MEMCTRL_COMMON_DELAY)"

lemma timings_recalculate: "timings_ok (recalculate_memory_timings b)"
  by (simp add: timings_ok_def recalculate_memory_timings_def Let_def)

lemma timings_frame:
  "timings_ok b \<Longrightarrow> memctrl_regs b' = memctrl_regs b \<Longrightarrow> bios_access_time b' = bios_access_time b \<Longrightarrow>
     cdrom_access_time b' = cdrom_access_time b \<Longrightarrow> spu_access_time b' = spu_access_time b \<Longrightarrow>
     exp1_access_time b' = exp1_access_time b \<Longrightarrow> timings_ok b'"
  by (simp add: timings_ok_def)

lemma timings_memctrl: "timings_ok (bus s) \<Longrightarrow> timings_ok (bus (memctrl_write_common sz a v s))"
  by (simp add: memctrl_write_common_def Let_def timings_recalculate)

lemma timings_reset: "timings_ok (bus_reset b)"
proof -
  have f: "timings_ok (update_mapped_ram_size c)" if "timings_ok c" for c
    by (rule timings_frame [OF that]) (simp_all add: update_mapped_ram_size_def)
  have g: "timings_ok (c\<lparr>ram_size_reg := v\<rparr>)" if "timings_ok c" for c v
    by (rule timings_frame [OF that]) simp_all
  show ?thesis
    unfolding bus_reset_def Let_def by (auto intro!: f g timings_recalculate)
qed

section \<open>Storage\<close>

text \<open>
  Storage with byte, halfword and word access: a read sees the last write of the same size and
  place, cut to that size, and no write elsewhere.
\<close>

locale byte_store =
  fixes get :: "memory_access_size \<Rightarrow> nat \<Rightarrow> 's \<Rightarrow> u32"
    and put :: "memory_access_size \<Rightarrow> nat \<Rightarrow> u32 \<Rightarrow> 's \<Rightarrow> 's"
  assumes get_put: "get sz i (put sz i v s) = take_bit (8 * size_bytes sz) v"
    and get_put_other: "i + size_bytes sz \<le> j \<or> j + size_bytes sz' \<le> i \<Longrightarrow>
      get sz' j (put sz i v s) = get sz' j s"
begin

lemma last_write_wins: "get sz i (put sz i v (put sz i w s)) = take_bit (8 * size_bytes sz) v"
  by (rule get_put)

lemma untouched:
  "(\<And>p. p \<in> set ws \<Longrightarrow> fst p + size_bytes sz \<le> j \<or> j + size_bytes sz' \<le> fst p) \<Longrightarrow>
     get sz' j (fold (\<lambda>(i, v). put sz i v) ws s) = get sz' j s"
proof (induction ws arbitrary: s)
  case (Cons w ws)
  have "get sz' j (put sz (fst w) (snd w) s) = get sz' j s"
    by (rule get_put_other) (use Cons.prems in simp)
  then show ?case using Cons by (simp add: case_prod_beta)
qed simp

lemma block_readback:
  "k < List.length vs \<Longrightarrow>
     get sz (i + k * size_bytes sz)
       (fold (\<lambda>j. put sz (i + j * size_bytes sz) (vs ! j)) [0..<List.length vs] s) =
     take_bit (8 * size_bytes sz) (vs ! k)"
proof (induction vs arbitrary: s rule: rev_induct)
  case (snoc v vs)
  let ?n = "List.length vs"
  have same: "fold (\<lambda>j. put sz (i + j * size_bytes sz) ((vs @ [v]) ! j)) [0..<?n] s =
      fold (\<lambda>j. put sz (i + j * size_bytes sz) (vs ! j)) [0..<?n] s"
    by (rule fold_cong) (auto simp: nth_append)
  show ?case
  proof (cases "k = ?n")
    case True
    then show ?thesis by (simp add: get_put)
  next
    case False
    then have k: "k < ?n" using snoc.prems by simp
    have "(k + 1) * size_bytes sz \<le> ?n * size_bytes sz"
      by (rule mult_le_mono1) (use k in simp)
    then have "i + k * size_bytes sz + size_bytes sz \<le> i + ?n * size_bytes sz" by simp
    then show ?thesis
      using snoc.IH [OF k] k by (simp add: same nth_append_left get_put_other)
  qed
qed simp

end

lemma load_sized_other:
  "i + size_bytes sz \<le> j \<or> j + size_bytes sz' \<le> i \<Longrightarrow>
     load_sized sz' (store_sized sz i v m) j = load_sized sz' m j"
  by (cases sz') (auto simp: load_half_def load_word_def store_sized_other)

definition get_ram :: "memory_access_size \<Rightarrow> nat \<Rightarrow> bus_state \<Rightarrow> u32" where
  "get_ram sz i b = load_sized sz (ram b) i"

definition put_ram :: "memory_access_size \<Rightarrow> nat \<Rightarrow> u32 \<Rightarrow> bus_state \<Rightarrow> bus_state" where
  "put_ram sz i v b = b\<lparr>ram := store_sized sz i v (ram b)\<rparr>"

definition get_scratchpad :: "memory_access_size \<Rightarrow> nat \<Rightarrow> cpu_state \<Rightarrow> u32" where
  "get_scratchpad sz i c = load_sized sz (scratchpad c) i"

definition put_scratchpad :: "memory_access_size \<Rightarrow> nat \<Rightarrow> u32 \<Rightarrow> cpu_state \<Rightarrow> cpu_state" where
  "put_scratchpad sz i v c = c\<lparr>scratchpad := store_sized sz i v (scratchpad c)\<rparr>"

interpretation ram_store: byte_store get_ram put_ram
  by unfold_locales (simp_all add: get_ram_def put_ram_def load_store_sized load_sized_other)

interpretation scratchpad_store: byte_store get_scratchpad put_scratchpad
  by unfold_locales (simp_all add: get_scratchpad_def put_scratchpad_def load_store_sized load_sized_other)

text \<open>The handlers of RAM and of the scratchpad in terms of the stores.\<close>

lemma smc_frame [simp]:
  "ram (ram_smc_invalidate_if_needed p b) = ram b"
  "ram_mask (ram_smc_invalidate_if_needed p b) = ram_mask b"
  "memory_handlers (ram_smc_invalidate_if_needed p b) = memory_handlers b"
  "memory_handlers_isc (ram_smc_invalidate_if_needed p b) = memory_handlers_isc b"
  by (simp_all add: ram_smc_invalidate_if_needed_def bus_clear_ram_code_page_def Let_def)

lemma ram_read_get:
  "ram_read sz a s = (get_ram sz (unat (a AND ram_mask (bus s))) (bus s), bus_cycles BUS_RAM_READ_TICKS s)"
  by (simp add: ram_read_def get_ram_def)

lemma ram_write_put:
  "ram_write sz a v s = upd_bus (\<lambda>b. put_ram sz (unat (a AND ram_mask b)) v
      (ram_smc_invalidate_if_needed (a AND ram_mask b) b)) s"
  by (simp add: ram_write_def put_ram_def upd_bus_def Let_def)

lemma bus_cycles_bus [simp]: "bus (bus_cycles n s) = bus s"
  by (simp add: bus_cycles_def)

lemma put_ram_frame [simp]:
  "ram_mask (put_ram sz i v b) = ram_mask b" "memory_handlers (put_ram sz i v b) = memory_handlers b"
  "memory_handlers_isc (put_ram sz i v b) = memory_handlers_isc b"
  "ram_code_bits (put_ram sz i v b) = ram_code_bits b"
  by (simp_all add: put_ram_def)

text \<open>A RAM write through one mirror is read through any other.\<close>

lemma ram_mirror_readback:
  assumes "bus_get_memory_handlers isc swc (bus s) (unat (drop_bit 12 a)) = HANDLER_RAM"
    and "bus_get_memory_handlers isc' swc' (bus s) (unat (drop_bit 12 b)) = HANDLER_RAM"
    and "a AND ram_mask (bus s) = b AND ram_mask (bus s)"
  shows "fst (bus_read_handler d isc' swc' sz b (bus_write_handler d isc swc sz a v s)) =
    take_bit (8 * size_bytes sz) v"
  using assms
  by (simp add: bus_read_handler_def bus_write_handler_def ram_read_get ram_write_put
      bus_get_memory_handlers_def ram_store.get_put split: if_splits)

section \<open>Code pages\<close>

lemma smc_clears:
  assumes "page < 2048"
  shows "bus_is_ram_code_page (word_of_nat page) (bus (ram_write sz a v s)) \<longleftrightarrow>
    bus_is_ram_code_page (word_of_nat page) (bus s) \<and> page \<noteq> unat (a AND ram_mask (bus s)) div 4096"
proof -
  have u: "unat (word_of_nat page :: u32) = page"
    using assms by (simp add: unat_of_nat take_bit_eq_mod)
  define w where "w = a AND ram_mask (bus s)"
  have p: "unat (drop_bit 12 w) = unat w div 4096" by (rule page_of)
  have eq: "bus_is_ram_code_page q (bus (ram_write sz a v s)) =
      bus_is_ram_code_page q (ram_smc_invalidate_if_needed w (bus s))" for q
    by (simp add: ram_write_put bus_is_ram_code_page_def w_def)
  show ?thesis
    unfolding eq w_def [symmetric]
    using u p by (auto simp: ram_smc_invalidate_if_needed_def bus_clear_ram_code_page_def
        bus_is_ram_code_page_def Let_def HOST_PAGE_SHIFT_def word_le_nat_alt word_less_nat_alt
        BUS_RAM_8MB_CODE_PAGE_COUNT_def)
qed

text \<open>The scan returns, and from a page boundary it sees every page of the range.\<close>

lemma page_step:
  fixes a e :: u32
  assumes "a < e" "unat e \<le> 2 ^ 32 - 4096"
  shows "unat (a + HOST_PAGE_SIZE) = unat a + 4096"
  using assms by (simp add: HOST_PAGE_SIZE_def unat_word_ariths word_less_nat_alt)

lemma code_pages_loop_result:
  assumes "unat e \<le> 2 ^ 32 - 4096"
  shows "code_pages_loop bits a e = Some (\<exists>k. unat a + 4096 * k < unat e \<and> bits ((unat a + 4096 * k) div 4096))"
proof (induction "unat e - unat a" arbitrary: a rule: less_induct)
  case less
  have p: "unat (drop_bit HOST_PAGE_SHIFT a) = unat a div 4096"
    unfolding HOST_PAGE_SHIFT_def by (rule page_of)
  show ?case
  proof (cases "a < e")
    case False
    then have "\<not> unat a + 4096 * k < unat e" for k by (simp add: word_less_nat_alt)
    then show ?thesis using False by (subst code_pages_loop.simps) simp
  next
    case lt: True
    show ?thesis
    proof (cases "bits (unat a div 4096)")
      case True
      then show ?thesis using lt p
        by (subst code_pages_loop.simps) (auto simp: word_less_nat_alt intro!: exI [of _ 0])
    next
      case False
      let ?a = "a + HOST_PAGE_SIZE"
      have u: "unat ?a = unat a + 4096" by (rule page_step [OF lt assms])
      have "unat e - unat ?a < unat e - unat a" using lt u by (simp add: word_less_nat_alt)
      from less.hyps [OF this] have "code_pages_loop bits ?a e =
          Some (\<exists>k. unat a + 4096 * Suc k < unat e \<and> bits ((unat a + 4096 * Suc k) div 4096))"
        by (simp only: u add.assoc mult_Suc_right)
      moreover have "(\<exists>k. unat a + 4096 * Suc k < unat e \<and> bits ((unat a + 4096 * Suc k) div 4096)) =
          (\<exists>k. unat a + 4096 * k < unat e \<and> bits ((unat a + 4096 * k) div 4096))" (is "?L = ?R")
      proof
        assume ?R
        then obtain k where k: "unat a + 4096 * k < unat e" "bits ((unat a + 4096 * k) div 4096)" by blast
        then have "k \<noteq> 0" using False by (cases k) auto
        then show ?L using k by (metis not0_implies_Suc)
      qed blast
      ultimately show ?thesis using lt False p by (subst code_pages_loop.simps) simp
    qed
  qed
qed

definition code_page_overlap :: "(nat \<Rightarrow> bool) \<Rightarrow> nat \<Rightarrow> nat \<Rightarrow> bool" where
  "code_page_overlap bits start len \<longleftrightarrow> (\<exists>x. start \<le> x \<and> x < start + len \<and> bits (x div 4096))"

lemma code_pages_aligned:
  assumes "unat a mod 4096 = 0" "unat e \<le> 2 ^ 32 - 4096" "unat e = unat a + n"
  shows "code_pages_loop bits a e = Some (code_page_overlap bits (unat a) n)"
proof -
  obtain q where q: "unat a = 4096 * q" using assms(1) by (metis mod_0_imp_dvd dvdE)
  have "(\<exists>k. unat a + 4096 * k < unat e \<and> bits ((unat a + 4096 * k) div 4096)) =
      code_page_overlap bits (unat a) n" (is "?L = ?R")
  proof
    assume ?L
    then obtain k where "unat a + 4096 * k < unat e" "bits ((unat a + 4096 * k) div 4096)" by blast
    then show ?R using assms(3) unfolding code_page_overlap_def
      by (intro exI [of _ "unat a + 4096 * k"]) simp
  next
    assume ?R
    then obtain x where x: "unat a \<le> x" "x < unat a + n" "bits (x div 4096)"
      by (auto simp: code_page_overlap_def)
    have "q \<le> x div 4096" using x(1) q by (simp add: page_le mult.commute)
    then obtain k where k: "x div 4096 = q + k" using le_Suc_ex by blast
    have "(q + k) * 4096 \<le> x" using k page_le [of "q + k" x] by simp
    then have "4096 * q + 4096 * k < unat e" using x(2) assms(3) q by simp
    moreover have "(4096 * q + 4096 * k) div 4096 = q + k"
      by (metis distrib_left nonzero_mult_div_cancel_left zero_neq_numeral)
    ultimately show ?L using k x(3) q by (intro exI [of _ k]) simp
  qed
  then show ?thesis using code_pages_loop_result [OF assms(2), of bits a] by simp
qed

lemma has_code_pages_aligned:
  assumes "bus_is_ram_address start" "unat (start AND ram_mask b) mod 4096 = 0"
    "unat (start AND ram_mask b) + unat sz \<le> 2 ^ 32 - 4096"
  shows "bus_has_code_pages_in_range start sz b =
    Some (code_page_overlap (ram_code_bits b) (unat (start AND ram_mask b)) (unat sz))"
proof -
  have "unat ((start AND ram_mask b) + sz) = unat (start AND ram_mask b) + unat sz"
    using assms(3) by (simp add: unat_word_ariths)
  then show ?thesis
    using assms by (simp add: bus_has_code_pages_in_range_def Let_def code_pages_aligned)
qed

text \<open>From the middle of a page the scan misses the last page of the range.\<close>

lemma has_code_pages_misses:
  "bus_has_code_pages_in_range 0x1800 0x1000 (b\<lparr>ram_mask := 0x1FFFFF, ram_code_bits := (\<lambda>p. p = 2)\<rparr>) = Some False"
  "code_page_overlap (\<lambda>p. p = 2) 0x1800 0x1000"
proof -
  have "code_pages_loop (\<lambda>p. p = 2) 0x1800 0x2800 = Some False"
    by (simp add: code_pages_loop.simps HOST_PAGE_SHIFT_def HOST_PAGE_SIZE_def page_of)
  then show "bus_has_code_pages_in_range 0x1800 0x1000 (b\<lparr>ram_mask := 0x1FFFFF, ram_code_bits := (\<lambda>p. p = 2)\<rparr>) = Some False"
    by (simp add: bus_has_code_pages_in_range_def bus_is_ram_address_def BUS_RAM_MIRROR_END_def)
  show "code_page_overlap (\<lambda>p. p = 2) 0x1800 0x1000"
    unfolding code_page_overlap_def by (rule exI [of _ "0x2000"]) simp
qed

section \<open>Sub-word register access\<close>

lemma fixup_word_read:
  "FIXUP_WORD_READ_VALUE sz off v =
     (if sz = MEMORY_ACCESS_SIZE_WORD then v else drop_bit (8 * (unat off mod 4)) v)"
proof -
  have "off AND 3 = take_bit 2 off" by (simp add: take_bit_eq_mask mask_eq_exp_minus_1)
  then have "unat (off AND 3) = unat off mod 4" by (simp add: take_bit_eq_mod unat_mod)
  then show ?thesis by (simp add: FIXUP_WORD_READ_VALUE_def mult.commute)
qed

section \<open>The isolated instruction cache\<close>

lemma icache_bytes_words: "icache_bytes (icache_words m) = m"
proof
  fix k
  have d: "icache_words m (k div 4) = load_word m (4 * (k div 4))" by (simp add: icache_words_def)
  have km: "4 * (k div 4) + k mod 4 = k" by simp
  show "icache_bytes (icache_words m) k = m k"
  proof (rule bit_word_eqI)
    fix n assume "n < LENGTH(8)"
    then have n: "n < 8" by simp
    have r: "k mod 4 < 4" by simp
    have "(8 * (k mod 4) + n) div 8 = k mod 4" "(8 * (k mod 4) + n) mod 8 = n" "8 * (k mod 4) + n < 32"
      using n r by simp_all
    then have "bit (load_word m (4 * (k div 4))) (8 * (k mod 4) + n) = bit (m (4 * (k div 4) + k mod 4)) n"
      by (simp only: load_word_bit simp_thms)
    then show "bit (icache_bytes (icache_words m) k) n = bit (m k) n"
      using n by (simp add: icache_bytes_def d bit_simps km)
  qed
qed

text \<open>A write with the cache isolated reads back through the cache, and its line misses.\<close>

lemma icache_isolated_readback:
  "fst (icache_read a (icache_write_common MEMORY_ACCESS_SIZE_WORD a v s)) = v"
  by (simp add: icache_read_def icache_write_common_def Let_def icache_bytes_words load_store_word)

end
