(* ===== verification/Power_On.thy ===== *)
theory Power_On
  imports Machine Timers_Regs Bus_Props
begin

text \<open>
  The machine as the program loads: every static of the modelled files is zero, no event is
  queued, and no device outside the model is attached.  \<open>machine_run\<close> has one event
  queued, due at tick 100.  The concrete states of the properties' witnesses start here.
\<close>

definition cop0_zero :: cop0_registers where
  "cop0_zero = \<lparr>BPC = 0, BDA = 0, TAR = 0, BadVaddr = 0, BDAM = 0, BPCM = 0, EPC = 0, PRID = 0,
     sr = 0, cause = 0, dcic = 0\<rparr>"

definition cpu_zero :: cpu_state where
  "cpu_zero = \<lparr>downcount = 0, pending_ticks = 0, gte_completion_tick = 0, muldiv_completion_tick = 0,
     regs = (\<lambda>_. 0), cop0_regs = cop0_zero, pc = 0, npc = 0, current_instruction = 0,
     current_instruction_pc = 0, current_instruction_in_branch_delay_slot = False,
     current_instruction_was_branch_taken = False, next_instruction_is_branch_delay_slot = False,
     branch_was_taken = False, exception_raised = False, bus_error = False,
     next_instruction_fetch_exception = 0, load_delay_reg = 0, next_load_delay_reg = 0,
     load_delay_value = 0, next_load_delay_value = 0, next_instruction = 0, cache_control = 0,
     gte_regs = (\<lambda>_. 0), icache_tags = (\<lambda>_. 0), icache_data = (\<lambda>_. 0), scratchpad = (\<lambda>_. 0)\<rparr>"

definition event_zero :: timing_event where
  "event_zero = \<lparr>prev_event = None, next_event = None, next_run_time = 0, last_run_time = 0,
     period = 0, interval = 0, active = False\<rparr>"

definition timing_zero :: timing_events_state where
  "timing_zero = \<lparr>active_events_head = None, active_events_tail = None, current_event = None,
     active_event_count = 0, current_event_next_run_time = 0, global_tick_counter = 0,
     event_run_tick_counter = 0\<rparr>"

definition timer_zero :: timer_counter_state where
  "timer_zero = \<lparr>tmode = 0, counter = 0, target = 0, gate = False, use_external_clock = False,
     external_counting_enabled = False, counting_enabled = False, irq_done = False\<rparr>"

definition bus_zero :: bus_state where
  "bus_zero = \<lparr>ram = (\<lambda>_. 0), ram_size = 0, ram_mapped_size = 0, ram_mask = 0, bios = (\<lambda>_. 0),
     memory_handlers = (\<lambda>_. HANDLER_UNMAPPED), memory_handlers_isc = (\<lambda>_. HANDLER_UNMAPPED),
     exp1_access_time = (\<lambda>_. 0), exp2_access_time = (\<lambda>_. 0), bios_access_time = (\<lambda>_. 0),
     cdrom_access_time = (\<lambda>_. 0), spu_access_time = (\<lambda>_. 0), memctrl_regs = (\<lambda>_. 0),
     ram_size_reg = 0, ram_code_bits = (\<lambda>_. False), kernel_initialize_hook_run = False\<rparr>"

definition machine_zero :: bus_sys where
  "machine_zero = \<lparr>cpu = cpu_zero,
     intc = \<lparr>interrupt_status_register = 0, interrupt_mask_register = 0, interrupt_line_state = 0,
       dbg_irq_set_count = (\<lambda>_. 0)\<rparr>,
     timing = timing_zero, timing_events = (\<lambda>_. event_zero),
     timers = \<lparr>counters = (\<lambda>_. timer_zero), sysclk_ticks_carry = 0, sysclk_div_8_carry = 0\<rparr>,
     bus = bus_zero\<rparr>"

definition machine_run :: bus_sys where
  "machine_run = machine_zero\<lparr>
     timing := timing_zero\<lparr>active_events_head := Some 0, active_events_tail := Some 0,
       active_event_count := 1\<rparr>,
     timing_events := (\<lambda>_. event_zero)(0 := event_zero\<lparr>next_run_time := 100, period := 1,
       interval := 1, active := True\<rparr>)\<rparr>"

definition hooks_absent :: "'s timers_hooks" where
  "hooks_absent = \<lparr>gpu_synchronize_crtc = None, gpu_is_crtc_scanline_pending = None,
     system_get_max_slice_ticks = None, scale_ticks_hook = None, unscale_ticks_hook = None\<rparr>"

text \<open>Open bus: reads are ones, writes are lost.\<close>

definition devices_absent :: "('a bus_sys_scheme) bus_devices" where
  "devices_absent = \<lparr>
     pad_read_port = (\<lambda>_ s. (0xFFFFFFFF, s)), pad_write_port = (\<lambda>_ _ s. s),
     sio_read_port = (\<lambda>_ s. (0xFFFFFFFF, s)), sio_write_port = (\<lambda>_ _ s. s),
     dma_read_port = (\<lambda>_ s. (0xFFFFFFFF, s)), dma_write_port = (\<lambda>_ _ s. s),
     cdrom_read_port = (\<lambda>_ s. (0xFF, s)), cdrom_write_port = (\<lambda>_ _ s. s),
     gpu_read_port = (\<lambda>_ s. (0xFFFFFFFF, s)), gpu_write_port = (\<lambda>_ _ s. s),
     mdec_read_port = (\<lambda>_ s. (0xFFFFFFFF, s)), mdec_write_port = (\<lambda>_ _ s. s),
     spu_read_port = (\<lambda>_ s. (0xFFFF, s)), spu_write_port = (\<lambda>_ _ s. s),
     using_known_ps1_bios = True, bus_timers_hooks = hooks_absent\<rparr>"

definition gte_config_none :: gte_config where
  "gte_config_none = \<lparr>aspect_ratio = GTE_ASPECT_RATIO_NONE, custom_aspect_ratio_numerator = 0,
     custom_aspect_ratio_denominator = 0\<rparr>"

lemmas power_on_defs = machine_run_def machine_zero_def cpu_zero_def cop0_zero_def event_zero_def
  timing_zero_def timer_zero_def bus_zero_def

lemma absent_ok [simp]: "devices_ok devices_absent"
  by (simp add: devices_ok_def devices_absent_def read_core_def write_core_def hooks_core_def
      hooks_absent_def)

lemma hooks_absent_ok [simp]: "hooks_ok hooks_absent" "gpu_hook_ok hooks_absent"
  "scale_ticks_hook hooks_absent = None" "timers_slice hooks_absent = 1000"
  by (simp_all add: hooks_ok_def gpu_hook_ok_def hooks_absent_def timers_slice_def)

lemma machine_cpu_inv [simp]: "cpu_inv (cpu machine_zero)"
  by (simp add: power_on_defs cpu_inv_def)

lemma machine_queue [simp]: "sched_queue machine_zero []" "sched_queue machine_run [0]"
  by (simp_all add: power_on_defs sched_queue_def sched_dll_def first_or_def last_or_def)

lemma machine_idle [simp]: "sched_idle machine_zero" "sched_idle machine_run"
  using machine_queue by (auto simp: sched_idle_def power_on_defs)

lemma machine_timers [simp]: "timers_inv machine_zero" "timers_inv machine_run"
  "timers_wf machine_zero" "timers_wf machine_run"
  using machine_queue
  by (auto simp: timers_wf_def timers_inv_def timer_ok_def timer_def power_on_defs)

lemma machine_sched_inv [simp]: "sched_inv machine_run [0]" "on_time machine_run [0]"
  using machine_queue(2) by (simp_all add: sched_inv_def on_time_def) (simp_all add: power_on_defs)

end
