(* ===== verification/Cpu_Spec.thy ===== *)
theory Cpu_Spec
  imports Power_On
begin

text \<open>The properties of the CPU on its bus, with their witnesses.\<close>

section \<open>The register file\<close>

text \<open>
  C1.  Along every run of the machine - instructions, interrupt entries and device activity in
  any order - register 0 stays zero and no load-delay slot names a register outside the file,
  provided the devices keep their contract.
\<close>

theorem cpu_run_invariant:
  assumes "devices_ok d" "cpu_inv (cpu s)" "machine_run_to d g s t"
  shows "cpu_inv (cpu t) \<and> cpu_read_reg 0 (cpu t) = 0"
  using machine_run_inv [OF assms(3,1,2)] cpu_inv_zero by blast

lemma zero_executes:
  "\<not> Option.is_none (cpu_core_execute_interpreter_instruction
     (bus_env devices_absent gte_config_none) machine_zero)"
  by code_simp

theorem cpu_run_invariant_witness:
  "cpu_inv (cpu (the (cpu_core_execute_interpreter_instruction
     (bus_env devices_absent gte_config_none) machine_zero)))"
proof -
  let ?r = "cpu_core_execute_interpreter_instruction (bus_env devices_absent gte_config_none) machine_zero"
  have "?r = Some (the ?r)" using zero_executes by (cases ?r) simp_all
  then have "machine_run_to devices_absent gte_config_none machine_zero (the ?r)"
    by (intro run_step [OF run_here] step_instruction)
  from cpu_run_invariant [OF absent_ok machine_cpu_inv this] show ?thesis by simp
qed

section \<open>Exceptions\<close>

lemma cause_field_no_irq: "bits_get (flag_put 10 b c) 2 5 = bits_get c 2 5"
  "bit (flag_put 10 b c) 31 = bit c 31" for c :: u32
  by (rule bit_word_eqI) (auto dest: bit_imp_le_length)

lemma exception_taken_cause:
  assumes "exception_taken (cpu_cop0_cause_make x BD BT ce) epc c c'"
  shows "bits_get (cause (cop0_regs c')) 2 5 = excode x" "bit (cause (cop0_regs c')) 31 = BD"
proof -
  let ?bits = "cpu_cop0_cause_make x BD BT ce"
  have e: "flag_put 10 False (cause (cop0_regs c')) =
      flag_put 10 False (exception_cause ?bits (cause (cop0_regs c)))"
    using assms by (simp add: exception_taken_def)
  have "bits_get (cause (cop0_regs c')) 2 5 = bits_get (exception_cause ?bits (cause (cop0_regs c))) 2 5"
    using arg_cong [OF e, of "\<lambda>w. bits_get w 2 5"] by (simp only: cause_field_no_irq)
  then show "bits_get (cause (cop0_regs c')) 2 5 = excode x" by (simp only: exception_cause_fields)
  have "bit (cause (cop0_regs c')) 31 = bit (exception_cause ?bits (cause (cop0_regs c))) 31"
    using arg_cong [OF e, of "\<lambda>w. bit w 31"] by (simp only: cause_field_no_irq)
  then show "bit (cause (cop0_regs c')) 31 = BD" by (simp only: exception_cause_fields)
qed

text \<open>
  C3.  Raising an exception: execution continues at the vector the status register selects, the
  cause names the exception and whether it hit a delay slot, EPC is the instruction or, in a
  delay slot, the branch before it, the mode stack is pushed, which turns interrupts off, and
  the pending load is drained into the register file.
\<close>

theorem exception_entry_state:
  fixes s :: "'a bus_sys_scheme" and x :: cpu_exception and g :: gte_config
  assumes "devices_ok d"
  defines "t \<equiv> cpu (cpu_raise_exception (bus_env d g) x s)"
    and "slot \<equiv> current_instruction_in_branch_delay_slot (cpu s)"
  shows "pc t = cpu_get_exception_vector (cpu s) \<and> npc t = cpu_get_exception_vector (cpu s) + 4 \<and>
    bits_get (cause (cop0_regs t)) 2 5 = excode x \<and> bit (cause (cop0_regs t)) 31 = slot \<and>
    EPC (cop0_regs t) = (if slot then current_instruction_pc (cpu s) - 4 else current_instruction_pc (cpu s)) \<and>
    (\<forall>n. bit (sr (cop0_regs t)) n =
       (if n < 2 then False else if n < 6 then bit (sr (cop0_regs (cpu s))) (n - 2)
        else bit (sr (cop0_regs (cpu s))) n)) \<and>
    regs t = (regs (cpu s))(load_delay_reg (cpu s) := load_delay_value (cpu s)) \<and>
    \<not> next_instruction_is_branch_delay_slot t"
proof -
  let ?bits = "cpu_cop0_cause_make x slot (current_instruction_was_branch_taken (cpu s))
      (inst_cop_n (current_instruction (cpu s)))"
  have e: "exception_taken ?bits (current_instruction_pc (cpu s)) (cpu s) t"
    using machine_exception [OF assms(1), of ?bits "current_instruction_pc (cpu s)" s g]
    by (simp add: t_def slot_def cpu_raise_exception_def cpu_raise_exception_bits_def)
  have b: "bit ?bits 31 = slot" by (rule bit_cause_make_31)
  show ?thesis
    using e exception_taken_cause [OF e] b by (simp add: exception_taken_def bit_sr_push)
qed

theorem exception_entry_state_witness:
  "npc (cpu (cpu_raise_exception (bus_env devices_absent gte_config_none) CPU_EXCEPTION_OV machine_zero)) =
     0x80000084"
  using exception_entry_state [of devices_absent gte_config_none CPU_EXCEPTION_OV machine_zero]
  by (simp add: cpu_get_exception_vector_def sr_BEV_def power_on_defs)

text \<open>
  An exception followed by \<open>rfe\<close> restores the interrupt-enable and mode bits of the
  status register; only the old pair stays as the exception left it.
\<close>

lemma rfe_restores_modes:
  assumes "devices_ok d"
  shows "bit (sr (cop0_regs (cpu_execute_rfe (cpu (cpu_raise_exception (bus_env d g) x s))))) n =
    (if n = 4 \<or> n = 5 then bit (sr (cop0_regs (cpu s))) (n - 2) else bit (sr (cop0_regs (cpu s))) n)"
proof -
  have "sr (cop0_regs (cpu (cpu_raise_exception (bus_env d g) x s))) = sr_push (sr (cop0_regs (cpu s)))"
    using machine_exception [OF assms, of "cpu_cop0_cause_make x (current_instruction_in_branch_delay_slot (cpu s))
        (current_instruction_was_branch_taken (cpu s)) (inst_cop_n (current_instruction (cpu s)))"
        "current_instruction_pc (cpu s)" s g]
    by (simp add: cpu_raise_exception_def cpu_raise_exception_bits_def exception_taken_def)
  then show ?thesis by (simp add: cpu_execute_rfe_def upd_cop0_def sr_pop_push)
qed

text \<open>
  C8.  Taking an interrupt: execution continues at the vector with exception code 0, EPC is the
  instruction that was about to execute (the branch, when that one sits in a delay slot), and
  no interrupt is pending afterwards, so the entry cannot nest.
\<close>

theorem interrupt_entry:
  assumes "devices_ok d" "cpu_dispatch_interrupt (bus_env d g) s = Some t"
  shows "pc (cpu t) = cpu_get_exception_vector (cpu s) \<and>
    EPC (cop0_regs (cpu t)) =
      (if next_instruction_is_branch_delay_slot (cpu s) then pc (cpu s) - 4 else pc (cpu s)) \<and>
    bits_get (cause (cop0_regs (cpu t))) 2 5 = 0 \<and> \<not> cpu_has_pending_interrupt (cpu t)"
  using machine_dispatch [OF assms] by simp

lemma run_dispatches:
  "\<not> Option.is_none (cpu_dispatch_interrupt (bus_env devices_absent gte_config_none) machine_run)"
  by code_simp

theorem interrupt_entry_witness:
  "\<not> cpu_has_pending_interrupt (cpu (the (cpu_dispatch_interrupt
     (bus_env devices_absent gte_config_none) machine_run)))"
proof -
  let ?r = "cpu_dispatch_interrupt (bus_env devices_absent gte_config_none) machine_run"
  have "?r = Some (the ?r)" using run_dispatches by (cases ?r) simp_all
  from interrupt_entry [OF absent_ok this] show ?thesis by simp
qed

end
