(* ===== verification/Insn_Spec.thy ===== *)
theory Insn_Spec
  imports Power_On
begin

text \<open>The properties of single instructions, with their witnesses.\<close>

section \<open>Arithmetic\<close>

lemma add_overflow_value:
  "cpu_add_overflow a b = (\<not> (- (2 ^ 31) \<le> sint a + sint b \<and> sint a + sint b < 2 ^ 31),
     word_of_int (sint a + sint b))"
  using add_overflow_exact(2) [of a b] by (simp add: cpu_add_overflow_def Let_def)

lemma sub_overflow_value:
  "cpu_sub_overflow a b = (\<not> (- (2 ^ 31) \<le> sint a - sint b \<and> sint a - sint b < 2 ^ 31),
     word_of_int (sint a - sint b))"
  using sub_overflow_exact(2) [of a b] by (simp add: cpu_sub_overflow_def Let_def)

text \<open>
  C38.  The trapping additions: \<open>add\<close>, \<open>sub\<close> and \<open>addi\<close> write the exact
  signed result when it fits 32 bits, and otherwise write nothing and raise the overflow
  exception.
\<close>

theorem add_traps_exactly:
  fixes s :: "'a bus_sys_scheme" and env :: "('a bus_sys_scheme) cpu_env" and inst :: u32
  defines "a \<equiv> sint (cpu_read_reg (inst_rs inst) (cpu s))"
    and "b \<equiv> sint (cpu_read_reg (inst_rt inst) (cpu s))"
    and "i \<equiv> sint (cpu_instr_imm_sext32 inst)"
    and "result \<equiv> (\<lambda>rd v. if - (2 ^ 31) \<le> v \<and> v < 2 ^ 31
          then on_cpu (cpu_write_reg rd (word_of_int v)) s else cpu_raise_exception env CPU_EXCEPTION_OV s)"
  shows "(inst_funct inst = CPU_FUNCT_ADD \<longrightarrow> cpu_execute_arith env inst s = result (inst_rd inst) (a + b)) \<and>
    (inst_funct inst = CPU_FUNCT_SUB \<longrightarrow> cpu_execute_arith env inst s = result (inst_rd inst) (a - b)) \<and>
    (inst_op inst = CPU_OP_ADDI \<longrightarrow> cpu_execute_imm env inst s = result (inst_rt inst) (a + i))"
  by (simp add: result_def a_def b_def i_def cpu_execute_arith_def cpu_execute_imm_def Let_def
      add_overflow_value sub_overflow_value)

theorem add_traps_exactly_witness:
  "cpu_execute_arith (bus_env devices_absent gte_config_none) 0x00221820
     (machine_zero\<lparr>cpu := cpu_zero\<lparr>regs := (\<lambda>_. 0x7FFFFFFF)\<rparr>\<rparr>) =
   cpu_raise_exception (bus_env devices_absent gte_config_none) CPU_EXCEPTION_OV
     (machine_zero\<lparr>cpu := cpu_zero\<lparr>regs := (\<lambda>_. 0x7FFFFFFF)\<rparr>\<rparr>)"
proof -
  have "inst_funct 0x00221820 = CPU_FUNCT_ADD" by code_simp
  then show ?thesis
    using add_traps_exactly [of "0x00221820" "bus_env devices_absent gte_config_none"
        "machine_zero\<lparr>cpu := cpu_zero\<lparr>regs := (\<lambda>_. 0x7FFFFFFF)\<rparr>\<rparr>"]
    by (simp add: cpu_read_reg_def)
qed

definition hi_lo_product :: "bool \<Rightarrow> cpu_state \<Rightarrow> int" where
  "hi_lo_product signd c =
     (if signd then sint (regs c CPU_REG_HI) else uint (regs c CPU_REG_HI)) * 2 ^ 32 + uint (regs c CPU_REG_LO)"

lemma put_hilo_regs:
  "regs (cpu_add_muldiv_ticks n (cpu_stall_until_muldiv_complete (put_hilo hi lo c))) CPU_REG_HI = hi"
  "regs (cpu_add_muldiv_ticks n (cpu_stall_until_muldiv_complete (put_hilo hi lo c))) CPU_REG_LO = lo"
  by (simp_all add: put_hilo_def put_reg_def cpu_add_muldiv_ticks_def cpu_stall_until_muldiv_complete_def
      CPU_REG_HI_def CPU_REG_LO_def)

text \<open>
  The multiplier and the divider: HI and LO hold the exact 64-bit product, signed or
  unsigned, and the quotient (rounded to zero) and remainder of every division that the
  hardware defines; the two others give the documented values.
\<close>

lemma muldiv_exact:
  fixes c :: cpu_state and inst :: u32
  defines "a \<equiv> cpu_read_reg (inst_rs inst) c" and "b \<equiv> cpu_read_reg (inst_rt inst) c"
    and "m \<equiv> cpu_execute_mult inst c" and "d \<equiv> cpu_execute_div inst c"
  shows "hi_lo_product (inst_funct inst = CPU_FUNCT_MULT) m =
      (if inst_funct inst = CPU_FUNCT_MULT then sint a * sint b else uint a * uint b) \<and>
    (if inst_funct inst \<noteq> CPU_FUNCT_DIV
     then if b = 0 then regs d CPU_REG_LO = 0xFFFFFFFF \<and> regs d CPU_REG_HI = a
          else uint a = uint (regs d CPU_REG_LO) * uint b + uint (regs d CPU_REG_HI) \<and> regs d CPU_REG_HI < b
     else if b = 0 then regs d CPU_REG_LO = (if 0 \<le> sint a then 0xFFFFFFFF else 1) \<and> regs d CPU_REG_HI = a
     else if a = 0x80000000 \<and> sint b = -1 then regs d CPU_REG_LO = 0x80000000 \<and> regs d CPU_REG_HI = 0
     else sint (regs d CPU_REG_LO) = sint a sdiv sint b \<and> sint (regs d CPU_REG_HI) = sint a smod sint b)"
proof -
  have neg1: "b = - 1" if "sint b = -1"
    using that signed_word_eqI [of b "- 1"] by simp
  have "regs d CPU_REG_HI = fst (if inst_funct inst = CPU_FUNCT_DIV then div_hilo a b else divu_hilo a b)"
    "regs d CPU_REG_LO = snd (if inst_funct inst = CPU_FUNCT_DIV then div_hilo a b else divu_hilo a b)"
    "regs m CPU_REG_HI = fst (if inst_funct inst = CPU_FUNCT_MULT then mult_hilo a b else multu_hilo a b)"
    "regs m CPU_REG_LO = snd (if inst_funct inst = CPU_FUNCT_MULT then mult_hilo a b else multu_hilo a b)"
    by (simp_all add: d_def m_def a_def b_def cpu_execute_div_def cpu_execute_mult_def Let_def
        case_prod_beta put_hilo_regs)
  then show ?thesis
    using mult_exact [of a b] multu_exact [of a b] divu_exact(1) [of b a] div_exact [of b a] neg1
    by (auto simp: hi_lo_product_def divu_exact(2) div_special)
qed

section \<open>Decoding\<close>

lemma invalid_known:
  assumes "\<not> cpu_is_valid_instruction inst" "inst_op inst \<in> known_ops"
  shows "cpu_execute_known env inst s = Some (cpu_raise_exception env CPU_EXCEPTION_RI s)"
proof -
  have "inst_op inst = CPU_OP_FUNCT" "inst_funct inst \<notin> known_functs"
    using assms by (auto simp: valid_instruction_iff split: if_splits)
  then show ?thesis
    by (auto simp: cpu_execute_known_def cpu_execute_funct_def known_functs_def Let_def)
qed

text \<open>
  The decoder agrees with the block compiler's table of valid instructions: an instruction
  the table rejects raises the reserved-instruction exception, once memory confirms the fetched
  word.
\<close>

lemma invalid_instruction_traps:
  assumes "\<not> cpu_is_valid_instruction inst" "current_instruction (cpu s) = inst"
    and "cpu_safe_read_instruction (current_instruction_pc (cpu s)) s = Some inst"
  shows "cpu_execute_instruction env s = Some (cpu_raise_exception env CPU_EXCEPTION_RI s)"
proof -
  have "inst \<noteq> 0"
  proof
    assume "inst = 0"
    moreover have "cpu_is_valid_instruction 0" by code_simp
    ultimately show False using assms(1) by simp
  qed
  then show ?thesis
    using assms by (auto simp: execute_instruction_once Let_def intro!: invalid_known)
qed

section \<open>Branches\<close>

text \<open>
  C7.  Exactly the instructions the block compiler classifies as branches open a delay slot: a
  branch keeps the next fetch address, redirects the one after it to the register, or to the
  direct target the compiler computes, iff it is taken; every other instruction leaves the
  fetch stream alone unless it raised an exception.
\<close>

theorem delay_slot_discipline:
  assumes "devices_ok d" "\<not> branch_was_taken (cpu s)" "\<not> next_instruction_is_branch_delay_slot (cpu s)"
    and "pc (cpu s) = current_instruction_pc (cpu s) + 4"
    and "cpu_execute_known (bus_env d g) inst s = Some t"
  shows "(if cpu_is_branch_instruction inst
     then next_instruction_is_branch_delay_slot (cpu t) \<and> pc (cpu t) = pc (cpu s) \<and>
       branch_was_taken (cpu t) = branch_taken inst (cpu s) \<and>
       npc (cpu t) = (if branch_taken inst (cpu s) then branch_destination inst (cpu s) else npc (cpu s))
     else \<not> next_instruction_is_branch_delay_slot (cpu t) \<and>
       (exception_raised (cpu t) \<or>
        (pc (cpu t) = pc (cpu s) \<and> npc (cpu t) = npc (cpu s) \<and> \<not> branch_was_taken (cpu t))))"
proof (cases "cpu_is_branch_instruction inst")
  case True
  then show ?thesis using branch_executes [OF True assms(2,4), of "bus_env d g"] assms(5) by auto
next
  case False
  have "straight (pc (cpu s)) (npc (cpu s)) (cpu t)"
    by (rule machine_straight [OF assms(1,5) _ False]) (use assms(2,3) in \<open>simp add: straight_def\<close>)
  then show ?thesis using False by (simp add: straight_def)
qed

theorem delay_slot_discipline_witness:
  "npc (cpu (the (cpu_execute_known (bus_env devices_absent gte_config_none) 0x08000010
     (machine_zero\<lparr>cpu := cpu_zero\<lparr>pc := 4, npc := 8\<rparr>\<rparr>)))) = 0x40"
proof -
  let ?s = "machine_zero\<lparr>cpu := cpu_zero\<lparr>pc := 4, npc := 8\<rparr>\<rparr>"
  let ?r = "cpu_execute_known (bus_env devices_absent gte_config_none) 0x08000010 ?s"
  have j: "cpu_is_branch_instruction 0x08000010" "inst_op 0x08000010 = CPU_OP_J"
    "cpu_get_direct_branch_target 0x08000010 0 = 0x40" by code_simp+
  have "?r = Some (the ?r)" using j(2) by (simp add: cpu_execute_known_def)
  from delay_slot_discipline [OF absent_ok _ _ _ this] j show ?thesis
    by (simp add: cpu_zero_def branch_taken_def branch_destination_def)
qed

section \<open>Unaligned loads\<close>

definition image_bus :: "(nat \<Rightarrow> u8) \<Rightarrow> ('a bus_sys_scheme) cpu_env" where
  "image_bus m = \<lparr>read_handler = (\<lambda>isc swc sz a s. (load_sized sz m (unat a), s)),
     write_handler = (\<lambda>isc swc sz a v s. s), gte_settings = gte_config_none\<rparr>"

lemma image_bus_reads: "reads_image (image_bus m) m"
  by (simp add: reads_image_def image_bus_def)

text \<open>
  The unaligned load idiom \<open>lwl rt, n+3(a)\<close>; \<open>lwr rt, n(a)\<close>, each
  followed by its load-delay step: the register ends up with the word at the address, whatever
  its alignment, the second load merging with the first one's value while it is still in the
  delay slot.
\<close>

lemma unaligned_load_idiom:
  assumes "reads_image env m" "\<not> bus_error (cpu s)"
    and "inst_op lwl = CPU_OP_LWL" "inst_op lwr = CPU_OP_LWR"
    and "inst_rs lwl = inst_rs lwr" "inst_rt lwl = inst_rt lwr" "inst_rt lwr \<noteq> 0"
    and "cpu_instr_imm_sext32 lwl = cpu_instr_imm_sext32 lwr + 3"
    and "load_delay_reg (cpu s) \<noteq> inst_rs lwr"
    and "unat (effective_address lwr (cpu s)) + 3 < 2 ^ 32"
  shows "cpu_read_reg (inst_rt lwr)
      (cpu (on_cpu cpu_update_load_delay (after_load env lwr (after_load env lwl s)))) =
    load_word m (unat (effective_address lwr (cpu s)))"
  using lwl_lwr_pair [OF assms] by (simp add: cpu_read_reg_def)

section \<open>The instruction cache\<close>

text \<open>
  A cache fill: in the filled line exactly the words from the missing one on hit, each
  with the word the fill read for it, and the missing instruction is the one returned.
\<close>

lemma icache_fill:
  assumes "cpu_fill_icache env a s = (Some v, s')"
    and "cpu_get_icache_tag_for_address b = cpu_get_icache_tag_for_address a"
  shows "cpu_compare_icache_tag b (cpu s') = (word_in_line a \<le> word_in_line b) \<and>
    v = cpu_read_icache a (cpu s') \<and>
    (word_in_line a \<le> word_in_line b \<longrightarrow> (\<exists>ws r.
       cpu_do_instruction_read env a True True (4 - word_in_line a) True s = (Some ws, r) \<and>
       cpu_read_icache b (cpu s') = ws ! (word_in_line b - word_in_line a)))"
  using fill_icache_hits [OF assms] by simp

lemma fill_zero:
  "\<not> Option.is_none (fst (cpu_fill_icache (bus_env devices_absent gte_config_none) 4 machine_zero))"
  by code_simp

end
