(* ===== verification/Sched_Spec.thy ===== *)
theory Sched_Spec
  imports Power_On
begin

text \<open>The properties of the event scheduler and the interrupt controller, with their witnesses.\<close>

section \<open>The event loop\<close>


text \<open>Callbacks that do nothing keep the contract.\<close>

lemma idle_rest_ok [simp]: "rest_ok (\<lambda>e t late s. Some s)"
proof -
  have "callback_post e s xs s xs" if "callback_pre e s xs" for e :: nat and s :: "'a timers_sys_scheme" and xs
    using that by (auto simp: callback_post_def callback_pre_def clock_same_def)
  then show ?thesis unfolding rest_ok_def by blast
qed


section \<open>The queue\<close>

text \<open>
  Adding an event refines insertion into a list: for a linked list with sorted times it
  leaves the linked list with the event in its place, sorted again, and changes nothing else.
\<close>

lemma add_active_inserts:
  assumes "sched_dll s xs" "sorted (map (ev_time s) xs)" "e \<notin> set xs"
  shows "\<exists>s'. timing_events_add_active e s = Some s' \<and>
    sched_dll s' (enqueue (ev_time s) e xs) \<and> sched_frame s s' \<and>
    sorted (map (ev_time s') (enqueue (ev_time s) e xs)) \<and>
    mset (enqueue (ev_time s) e xs) = add_mset e (mset xs)"
proof -
  obtain s' where "timing_events_add_active e s = Some s'" "sched_dll s' (enqueue (ev_time s) e xs)"
    "sched_frame s s'"
    using add_active_refines [OF assms(1,3)] by blast
  moreover from this(3) have "ev_time s' = ev_time s" using sched_frame_data(1) by blast
  ultimately show ?thesis using sorted_enqueue [OF assms(2)] by simp
qed

lemma filter_resort:
  assumes "distinct xs" "e \<in> set xs"
  shows "filter (\<lambda>x. x \<noteq> e) (resort f e xs) = filter (\<lambda>x. x \<noteq> e) xs"
proof -
  obtain us vs where xs: "xs = us @ e # vs" "e \<notin> set us"
    using split_list_first [OF assms(2)] by blast
  have us: "filter P us = filter P (rev (dropWhile Q (rev us))) @ filter P (rev (takeWhile Q (rev us)))" for P Q
    by (simp flip: filter_append rev_append)
  have vs: "filter P vs = filter P (takeWhile Q vs) @ filter P (dropWhile Q vs)" for P Q
    by (simp flip: filter_append)
  show ?thesis
    unfolding xs(1) resort_split [OF xs(2)]
    using us [of "\<lambda>x. x \<noteq> e" "\<lambda>x. f x > f e"] vs [of "\<lambda>x. x \<noteq> e" "\<lambda>x. f e > f x"]
    by (auto simp del: takeWhile_dropWhile_id)
qed

text \<open>
  C10.  Re-sorting an event whose time changed: the pointer surgery of
  \<open>timing_events_sort_event\<close> returns on every linked list, moves only that event, and
  sorts the queue again.
\<close>

theorem sort_event_resorts:
  assumes "sched_queue s xs" "e \<in> set xs"
  shows "\<exists>s' ys. timing_events_sort_event e (upd_event e (\<lambda>ev. ev\<lparr>next_run_time := t\<rparr>) s) = Some s' \<and>
    sched_queue s' ys \<and> mset ys = mset xs \<and> ev_time s' e = t \<and>
    filter (\<lambda>x. x \<noteq> e) ys = filter (\<lambda>x. x \<noteq> e) xs \<and>
    sched_frame (upd_event e (\<lambda>ev. ev\<lparr>next_run_time := t\<rparr>) s) s'"
proof -
  let ?u = "upd_event e (\<lambda>ev. ev\<lparr>next_run_time := t\<rparr>) s"
  obtain s' where s': "timing_events_sort_event e ?u = Some s'" "sched_queue s' (resort (ev_time ?u) e xs)"
      "sched_frame ?u s'"
    using retime_refines [OF assms, of "\<lambda>ev. ev\<lparr>next_run_time := t\<rparr>"] by auto
  have "filter (\<lambda>x. x \<noteq> e) (resort (ev_time ?u) e xs) = filter (\<lambda>x. x \<noteq> e) xs"
    using sched_queue_distinct [OF assms(1)] assms(2) by (rule filter_resort)
  then show ?thesis
    using s' mset_resort [OF assms(2)] sched_frame_data(1) [OF s'(3), of e] by auto
qed

theorem sort_event_resorts_witness:
  "\<exists>s'. timing_events_sort_event 0 (upd_event 0 (\<lambda>ev. ev\<lparr>next_run_time := 7\<rparr>) machine_run) = Some s' \<and>
     ev_time s' 0 = 7"
  using sort_event_resorts [OF machine_queue(2), of 0 7] by auto

text \<open>
  C5.  Scheduling an event: outside its own callback it is queued at now plus the ticks,
  from within it only its latched next time changes; the other events keep their times and the
  queue stays sorted, linked and complete.
\<close>

theorem schedule_event:
  fixes s :: "'a sched_sys_scheme" and ticks :: tick_count
  assumes "sched_queue s xs"
  defines "t \<equiv> timing_events_get_timestamp_for_new_event s + ticks_u64 ticks"
  shows "\<exists>s' ys. timing_event_schedule e ticks s = Some s' \<and> sched_queue s' ys \<and>
    set ys = insert e (set xs) \<and> (\<forall>x. x \<noteq> e \<longrightarrow> ev_time s' x = ev_time s x) \<and>
    (if current_event (timing s) = Some e \<and> e \<in> set xs
     then ev_time s' e = ev_time s e else ev_time s' e = t) \<and>
    current_event_next_run_time (timing s') =
      (if current_event (timing s) = Some e then t else current_event_next_run_time (timing s))"
proof -
  obtain s' ys where "timing_event_schedule e ticks s = Some s'" "rescheduled e t xs s ys s'"
    using schedule_refines [OF assms(1), of e ticks] unfolding t_def by blast
  then show ?thesis by (intro exI [of _ s'] exI [of _ ys]) (simp add: rescheduled_def)
qed

theorem schedule_event_witness:
  "\<exists>s'. timing_event_schedule 5 30 machine_run = Some s' \<and> ev_time s' 5 = 30 \<and> ev_time s' 0 = 100"
  using schedule_event [OF machine_queue(2), of 5 30]
  by (auto simp: power_on_defs timing_events_get_timestamp_for_new_event_def cpu_get_pending_ticks_def
      ticks_u64_def)

text \<open>
  An event scheduled sooner than every queued one becomes the head of the queue, the one
  the CPU's downcount is taken from.
\<close>

lemma sooner_event_first:
  assumes "sched_idle s"
    and "\<forall>x. active (timing_events s x) \<longrightarrow>
      timing_events_get_timestamp_for_new_event s + ticks_u64 ticks < ev_time s x"
    and "timing_event_schedule e ticks s = Some s'"
  shows "active_events_head (timing s') = Some e"
  by (rule sched.first_after_schedule [OF assms(1) _ assms(3)]) (use assms(2) in simp)

section \<open>The interrupt controller\<close>

text \<open>
  C4.  Over every sequence of line changes, acknowledges and mask writes, the request bit in
  the CPU's CAUSE equals "some pending interrupt is enabled".
\<close>

theorem irq_request_coherent:
  assumes "list_all irq_op_ok ops" "irq_coherent s"
  shows "irq_coherent (fold irq_exec ops s)"
  using intc.run_coherent [OF assms(1)] assms(2) by (simp add: irq_exec_intc irq_coherent_intc)

theorem irq_request_coherent_witness:
  "irq_coherent (fold irq_exec [Irq_Mask 4, Irq_Line 2 True, Irq_Line 2 False, Irq_Ack 0] machine_zero)"
proof -
  have "irq_coherent machine_zero" by (simp add: irq_coherent_def irq_cpu_line_def power_on_defs)
  then show ?thesis by (intro irq_request_coherent) (simp_all add: irq_op_ok_def)
qed

text \<open>
  An interrupt raised by a pulse on its line stays pending over every later sequence of
  operations that does not acknowledge it, whatever the other lines and the mask do.
\<close>

lemma irq_pulse_stays_pending:
  assumes "n < 11" "list_all irq_op_ok ops" "list_all (\<lambda>op. \<forall>v. op = Irq_Ack v \<longrightarrow> bit v n) ops"
  shows "irq_pending (fold irq_exec (Irq_Line n False # Irq_Line n True # ops) s) n"
proof -
  have "irq_pending (irq_exec (Irq_Line n True) (irq_exec (Irq_Line n False) s)) n"
    using intc.pulse_latches [of n s] assms(1) by (simp add: irq_exec_def)
  from intc.pending_stable [OF assms this] show ?thesis by (simp add: irq_exec_intc)
qed

end
