(* ===== verification/Timers_Spec.thy ===== *)
theory Timers_Spec
  imports Power_On
begin

text \<open>The properties of the timers, with their witnesses.\<close>

definition machine_timer :: "nat \<Rightarrow> timer_counter_state \<Rightarrow> bus_sys" where
  "machine_timer i cs = put_timer i cs machine_run"

lemma machine_timer_ok [simp]:
  "timer_ok cs \<Longrightarrow> timers_inv (machine_timer i cs)" "timer (machine_timer i cs) i = cs"
  using machine_timers(2) by (auto simp: machine_timer_def timers_inv_def)

section \<open>Counting\<close>

text \<open>
  The value of a counter after any ticks: it counts modulo the target when the reset at
  the target is on and the target lies ahead, modulo the overflow value otherwise, and how the
  ticks are sliced makes no difference.
\<close>

lemma counter_value:
  assumes "timers_inv s" "i < 3" "0 \<le> n" "0 \<le> m" "n + m < 2 ^ 31"
    and "tm_reset_at_target (tmode (timer s i)) \<longrightarrow> counter (timer s i) < target (timer s i)"
  shows "unat (counter (timer (timers_add_ticks i m (timers_add_ticks i n s)) i)) =
      (unat (counter (timer s i)) + nat n + nat m) mod timer_modulus (timer s i) \<and>
    counter (timer (timers_add_ticks i m (timers_add_ticks i n s)) i) =
      counter (timer (timers_add_ticks i (n + m) s) i)"
proof -
  have ok: "timer_ok (timer s i)" "timer_ok (timer (timers_add_ticks i n s) i)"
    using assms(1,2) add_ticks_timers_inv [OF assms(1,2), of n] by (auto simp: timers_inv_def)
  have b: "n < 2 ^ 31" "m < 2 ^ 31" "0 \<le> n + m" using assms(3-5) by linarith+
  have "unat (counter (timer (timers_add_ticks i m (timers_add_ticks i n s)) i)) =
      (unat (counter (timer s i)) + nat n + nat m) mod timer_modulus (timer s i)"
    using add_ticks_counter [OF ok(2) assms(4) b(2)] add_ticks_counter [OF ok(1) assms(3) b(1)]
      add_ticks_modulus [OF ok(1) assms(3) b(1) assms(6)] by (simp add: mod_add_left_eq)
  moreover have "unat (counter (timer (timers_add_ticks i (n + m) s) i)) =
      (unat (counter (timer s i)) + nat n + nat m) mod timer_modulus (timer s i)"
    using add_ticks_counter [OF ok(1) b(3) assms(5)] assms(3,4) by (simp add: nat_add_distrib add.assoc)
  ultimately show ?thesis by (metis word_unat_eq_iff)
qed

section \<open>Interrupts\<close>

text \<open>
  A timer with its target interrupt on, in pulse mode and armed, latches its interrupt in
  the controller when the ticks reach the target exactly.
\<close>

lemma target_raises_interrupt:
  assumes "i < 3" "timer_ok (timer s i)" "counter (timer s i) < target (timer s i)"
    and "tm_irq_at_target (tmode (timer s i))" "\<not> tm_irq_pulse_n (tmode (timer s i))"
    and "\<not> irq_done (timer s i) \<or> tm_irq_repeat (tmode (timer s i))"
  shows "irq_pending (timers_add_ticks i (uint (target (timer s i)) - uint (counter (timer s i))) s)
    (IRQ_TMR0 + i)"
  using target_interrupt [OF assms] by simp


lemma timer_0_ticks:
  "timers_get_ticks_until_next_interrupt hooks_absent
     (machine_timer 0 (timer_zero\<lparr>tmode := 0x10, target := 7, counting_enabled := True\<rparr>)) = 7"
  by code_simp


section \<open>The registers\<close>

text \<open>
  Every access to the timer registers, at any offset and with any value, returns and
  leaves the machine well-formed: counters and targets in range, the sysclk event's queue
  linked and sorted; so do the GPU's gate changes.
\<close>

lemma timer_accesses_safe:
  assumes "timers_wf s" "gpu_hook_ok h"
  shows "(\<exists>s'. timers_write_register h offset v s = Some s' \<and> timers_wf s') \<and>
    (\<exists>w s'. timers_read_register h offset s = Some (w, s') \<and> timers_wf s') \<and>
    (i < 3 \<longrightarrow> (\<exists>s'. timers_set_gate h i b s = Some s' \<and> timers_wf s'))"
  using write_register_wf [OF assms] read_register_wf [OF assms] set_gate_wf [OF assms(1)] by blast

end
