(* ===== verification/Gte_Props.thy ===== *)
theory Gte_Props
  imports Gte
begin

text \<open>
  What every GTE command guarantees: the register image stays well-formed (sign-extended
  half-words, 16-bit depths, a FLAG word whose low bits are zero and whose error bit
  summarises the others), and only MAC, IR, the FIFOs, OTZ and FLAG change.

  The invariant is stated per register (\<open>reg_ok\<close>), so a store preserves it when the
  stored word fits its slot; \<open>gte_ok r s\<close> says that \<open>s\<close> arises from
  \<open>r\<close> by such stores.
\<close>

section \<open>Well-formed slots\<close>

definition reg_ok :: "nat \<Rightarrow> u32 \<Rightarrow> bool" where
  "reg_ok i w \<longleftrightarrow>
     (i \<in> {8, 9, 10, 11} \<longrightarrow> w = sign_extend_half w) \<and>
     (i \<in> {7, 16, 17, 18, 19} \<longrightarrow> w < 0x10000) \<and>
     (i = 63 \<longrightarrow> take_bit 12 w = 0)"

definition gte_written :: "nat \<Rightarrow> bool" where
  "gte_written i \<longleftrightarrow> 7 \<le> i \<and> i < 28 \<or> i = 63"

definition gte_ok :: "gte_regs \<Rightarrow> gte_regs \<Rightarrow> bool" where
  "gte_ok r s \<longleftrightarrow> ((\<forall>i. reg_ok i (r i)) \<longrightarrow> (\<forall>i. reg_ok i (s i))) \<and> (\<forall>i. \<not> gte_written i \<longrightarrow> s i = r i)"

named_theorems gte_ok_intros \<open>preservation of the register image\<close>

lemma gte_ok_refl [gte_ok_intros]: "gte_ok r r"
  by (simp add: gte_ok_def)

lemma gte_ok_upd_if:
  "gte_ok r s \<Longrightarrow> gte_written i \<Longrightarrow> ((\<forall>j. reg_ok j (s j)) \<Longrightarrow> reg_ok i w) \<Longrightarrow> gte_ok r (s(i := w))"
  by (auto simp: gte_ok_def)

lemma gte_ok_upd: "gte_ok r s \<Longrightarrow> gte_written i \<Longrightarrow> reg_ok i w \<Longrightarrow> gte_ok r (s(i := w))"
  by (rule gte_ok_upd_if)

lemma take_bit_flag_put:
  fixes w :: u32
  assumes "take_bit 12 w = 0" "12 \<le> i"
  shows "take_bit 12 (flag_put i b w) = 0"
proof (rule bit_word_eqI)
  fix n :: nat assume "n < LENGTH(32)"
  have "bit (take_bit 12 w) n = bit (0 :: u32) n" by (simp only: assms(1))
  then show "bit (take_bit 12 (flag_put i b w)) n = bit (0 :: u32) n"
    using assms(2) by (auto simp: bit_take_bit_iff)
qed

lemma reg_ok_flag: "reg_ok 63 w \<Longrightarrow> 12 \<le> i \<Longrightarrow> reg_ok 63 (flag_put i b w)"
  by (simp add: reg_ok_def take_bit_flag_put)

text \<open>Slots that hold any word.\<close>

lemma gte_ok_upd_free:
  "gte_ok r s \<Longrightarrow> i \<in> {12, 13, 14, 15, 20, 21, 22, 23, 24, 25, 26, 27} \<Longrightarrow> gte_ok r (s(i := w))"
  by (rule gte_ok_upd) (auto simp: gte_written_def reg_ok_def)

text \<open>A half-word in range is its own sign extension.\<close>

lemma sign_extend_half_of_int:
  assumes "- 0x8000 \<le> v" "v \<le> 0x7FFF"
  shows "sign_extend_half (word_of_int v) = word_of_int v"
proof -
  have "to_s16 (uint (word_of_int v :: u32)) = v"
    using assms by (simp add: to_s16_def uint_word_of_int_eq signed_take_bit_take_bit
        signed_take_bit_int_eq_self)
  then show ?thesis by (simp add: sign_extend_half_def)
qed

lemma sign_extend_half_idem: "sign_extend_half (sign_extend_half v) = sign_extend_half v"
  using to_s16_range [of "uint v"]
  by (subst (2 3) sign_extend_half_def) (simp add: sign_extend_half_of_int)

lemma reg_ok_IR: "- 0x8000 \<le> v \<Longrightarrow> v \<le> 0x7FFF \<Longrightarrow> i \<in> {8, 9, 10, 11} \<Longrightarrow> reg_ok i (word_of_int v)"
  by (auto simp: reg_ok_def sign_extend_half_of_int)

lemma reg_ok_Z: "0 \<le> v \<Longrightarrow> v \<le> 0xFFFF \<Longrightarrow> i \<in> {7, 16, 17, 18, 19} \<Longrightarrow> reg_ok i (word_of_int v)"
  by (auto simp: reg_ok_def word_less_alt uint_word_of_int)

lemma gte_ok_set_flag [gte_ok_intros]: "gte_ok r s \<Longrightarrow> 12 \<le> i \<Longrightarrow> gte_ok r (gte_set_flag i s)"
  unfolding gte_set_flag_def by (rule gte_ok_upd_if) (auto simp: gte_written_def intro: reg_ok_flag)

lemma gte_ok_flag_clear [gte_ok_intros]: "gte_ok r s \<Longrightarrow> gte_ok r (gte_flag_clear s)"
  unfolding gte_flag_clear_def by (rule gte_ok_upd) (auto simp: reg_ok_def gte_written_def)

lemma gte_ok_update_error [gte_ok_intros]: "gte_ok r s \<Longrightarrow> gte_ok r (gte_flag_update_error s)"
  unfolding gte_flag_update_error_def
  by (rule gte_ok_upd_if) (auto simp: gte_written_def intro: reg_ok_flag)

section \<open>Structural rules for the kernels\<close>

lemma gte_ok_let_pair:
  "gte_ok r (snd p) \<Longrightarrow> (\<And>x y. gte_ok r y \<Longrightarrow> gte_ok r (f x y)) \<Longrightarrow> gte_ok r (let (x, y) = p in f x y)"
  by (cases p) simp

lemma gte_ok_let_pair2:
  "gte_ok r (snd p) \<Longrightarrow> (\<And>x y. gte_ok r y \<Longrightarrow> gte_ok r (snd (f x y))) \<Longrightarrow>
   gte_ok r (snd (let (x, y) = p in f x y))"
  by (cases p) simp

lemma gte_ok_let_regs:
  "gte_ok r a \<Longrightarrow> (\<And>x. gte_ok r x \<Longrightarrow> gte_ok r (f x)) \<Longrightarrow> gte_ok r (let x = a in f x)"
  for a :: gte_regs
  by simp

lemma gte_ok_let: "(\<And>x. gte_ok r (f x)) \<Longrightarrow> gte_ok r (let x = a in f x)"
  by simp

lemmas gte_ok_lets = gte_ok_let_pair gte_ok_let_pair2 gte_ok_let_regs gte_ok_let

lemma gte_ok_check [gte_ok_intros]: "n \<le> 3 \<Longrightarrow> gte_ok r s \<Longrightarrow> gte_ok r (gte_check_mac_overflow n v s)"
  unfolding gte_check_mac_overflow_def
  by (auto intro!: gte_ok_set_flag simp: mac_underflow_flag_def mac_overflow_flag_def)

lemma gte_ok_sign_extend [gte_ok_intros]:
  "n \<le> 3 \<Longrightarrow> gte_ok r s \<Longrightarrow> gte_ok r (snd (gte_sign_extend_mac n v s))"
  by (simp add: gte_sign_extend_mac_def gte_ok_check)

lemma gte_ok_set_mac [gte_ok_intros]:
  "n \<le> 3 \<Longrightarrow> gte_ok r s \<Longrightarrow> gte_ok r (gte_truncate_set_mac n v k s)"
  unfolding gte_truncate_set_mac_def by (rule gte_ok_upd_free) (auto intro: gte_ok_check)

lemma gte_ok_set_ir0 [gte_ok_intros]: "gte_ok r s \<Longrightarrow> gte_ok r (gte_truncate_set_ir0 v s)"
  using reg_ok_IR [of 0 8] reg_ok_IR [of "0x1000" 8] reg_ok_IR [of v 8]
  by (auto simp: gte_truncate_set_ir0_def gte_written_def intro!: gte_ok_upd gte_ok_set_flag)

lemma ir_min_range: "- 0x8000 \<le> ir_min lm" "ir_min lm \<le> 0"
  by (simp_all add: ir_min_def)

lemma gte_ok_set_ir [gte_ok_intros]:
  assumes n: "n \<in> {1, 2, 3}" and s: "gte_ok r s"
  shows "gte_ok r (gte_truncate_set_ir n v lm s)"
proof -
  have "gte_written (8 + n)" "8 + n \<in> {8, 9, 10, 11}" using n by (auto simp: gte_written_def)
  moreover have "reg_ok (8 + n) (word_of_int (ir_min lm))" "reg_ok (8 + n) 0x7FFF"
    using reg_ok_IR [of "ir_min lm" "8 + n"] reg_ok_IR [of "0x7FFF" "8 + n"] ir_min_range [of lm] n
    by auto
  moreover have "reg_ok (8 + n) (word_of_int v)" if "\<not> v < ir_min lm" "\<not> v > 0x7FFF"
    using that ir_min_range [of lm] calculation(2) by (intro reg_ok_IR) auto
  ultimately show ?thesis using s n
    unfolding gte_truncate_set_ir_def by (auto intro!: gte_ok_upd gte_ok_set_flag)
qed

lemma gte_ok_set_mac_ir [gte_ok_intros]:
  assumes "n \<in> {1, 2, 3}" "gte_ok r s"
  shows "gte_ok r (gte_truncate_set_mac_ir n v k lm s)"
proof -
  have "gte_ok r ((gte_check_mac_overflow n v s)(24 + n := w))" for w
    using assms by (intro gte_ok_upd_free gte_ok_check) auto
  then show ?thesis
    unfolding gte_truncate_set_mac_ir_def Let_def using assms(1) by (intro gte_ok_set_ir)
qed

lemma gte_ok_rgb [gte_ok_intros]: "l \<le> 2 \<Longrightarrow> gte_ok r s \<Longrightarrow> gte_ok r (snd (gte_truncate_rgb l v s))"
  by (simp add: gte_truncate_rgb_def gte_ok_set_flag)

lemma gte_ok_clamp_sxy [gte_ok_intros]: "12 \<le> i \<Longrightarrow> gte_ok r s \<Longrightarrow> gte_ok r (snd (clamp_sxy i v s))"
  by (simp add: clamp_sxy_def gte_ok_set_flag)

lemma gte_ok_otz [gte_ok_intros]: "gte_ok r s \<Longrightarrow> gte_ok r (gte_set_otz v s)"
  using reg_ok_Z [of 0 7] reg_ok_Z [of "0xFFFF" 7] reg_ok_Z [of v 7]
  by (auto simp: gte_set_otz_def gte_written_def intro!: gte_ok_upd gte_ok_set_flag)

lemma gte_ok_push_sxy [gte_ok_intros]: "gte_ok r s \<Longrightarrow> gte_ok r (gte_push_sxy x y s)"
  unfolding gte_push_sxy_def
  by (rule gte_ok_lets gte_ok_clamp_sxy gte_ok_upd_free | assumption | simp)+

lemma gte_ok_push_rgb [gte_ok_intros]: "gte_ok r s \<Longrightarrow> gte_ok r (gte_push_rgb_from_mac s)"
  unfolding gte_push_rgb_from_mac_def
  by (rule gte_ok_lets gte_ok_rgb gte_ok_upd_free | assumption | simp)+

lemma gte_ok_unr_divide [gte_ok_intros]: "gte_ok r s \<Longrightarrow> gte_ok r (snd (gte_unr_divide a b s))"
  by (simp add: gte_unr_divide_def Let_def gte_ok_set_flag)

text \<open>The SZ FIFO moves depths along.\<close>

lemma reg_ok_move: "i \<in> {16, 17, 18} \<Longrightarrow> reg_ok (i + 1) w \<Longrightarrow> reg_ok i w"
  by (elim insertE emptyE; simp add: reg_ok_def)

lemma gte_ok_sz_shift: "gte_ok r s \<Longrightarrow> i \<in> {16, 17, 18} \<Longrightarrow> gte_ok r (s(i := s (i + 1)))"
  by (rule gte_ok_upd_if) (auto simp: gte_written_def intro: reg_ok_move)

lemma gte_ok_push_sz [gte_ok_intros]:
  assumes s: "gte_ok r s"
  shows "gte_ok r (gte_push_sz v s)"
proof -
  define p where "p = (if v < 0 then (0, gte_set_flag 18 s)
     else if v > 0xFFFF then (0xFFFF, gte_set_flag 18 s) else (v, s))"
  define q where "q = (snd p)(16 := snd p 17, 17 := snd p 18, 18 := snd p 19)"
  have p: "gte_ok r (snd p)" "0 \<le> fst p" "fst p \<le> 0xFFFF"
    using s by (auto simp: p_def intro: gte_ok_set_flag)
  have "gte_ok r ((snd p)(16 := snd p 17, 17 := snd p 18))"
    using gte_ok_sz_shift [OF gte_ok_sz_shift [OF p(1), of 16], of 17] by simp
  from gte_ok_sz_shift [OF this, of 18] have "gte_ok r q" by (simp add: q_def)
  then have "gte_ok r (q(19 := word_of_int (fst p)))"
    by (rule gte_ok_upd) (simp_all add: gte_written_def reg_ok_Z [OF p(2,3)])
  moreover have "gte_push_sz v s = q(19 := word_of_int (fst p))"
    by (cases p) (simp add: gte_push_sz_def p_def [symmetric] q_def Let_def)
  ultimately show ?thesis by simp
qed

section \<open>The kernels\<close>

lemma gte_ok_if: "(b \<Longrightarrow> gte_ok r x) \<Longrightarrow> (\<not> b \<Longrightarrow> gte_ok r y) \<Longrightarrow> gte_ok r (if b then x else y)"
  by simp

lemma gte_ok_mvt_sum [gte_ok_intros]:
  "n \<le> 3 \<Longrightarrow> gte_ok r s \<Longrightarrow> gte_ok r (snd (gte_mvt_sum n t m0 vx m1 vy s))"
  unfolding gte_mvt_sum_def by (rule gte_ok_lets gte_ok_intros gte_ok_upd_free gte_ok_if | assumption)+

lemma gte_ok_mmv [gte_ok_intros]:
  "gte_ok r s \<Longrightarrow> gte_ok r (gte_mul_mat_vec M vx vy vz k lm s)"
  unfolding gte_mul_mat_vec_def gte_mul_mat_vec_lane_def
  by (rule gte_ok_lets gte_ok_intros gte_ok_upd_free gte_ok_if | assumption | simp)+

lemma gte_ok_mmvt [gte_ok_intros]:
  "gte_ok r s \<Longrightarrow> gte_ok r (gte_mul_mat_vec_t M T vx vy vz k lm s)"
  unfolding gte_mul_mat_vec_t_def gte_mul_mat_vec_t_lane_def
  by (rule gte_ok_lets gte_ok_intros gte_ok_upd_free gte_ok_if gte_ok_mvt_sum | assumption | simp)+

lemma gte_ok_mmvb [gte_ok_intros]:
  "gte_ok r s \<Longrightarrow> gte_ok r (gte_mul_mat_vec_buggy M T vx vy vz k lm s)"
  unfolding gte_mul_mat_vec_buggy_def gte_mul_mat_vec_buggy_lane_def
  by (rule gte_ok_lets gte_ok_intros gte_ok_upd_free gte_ok_if | assumption | simp)+

lemma gte_ok_interpolate [gte_ok_intros]:
  "gte_ok r s \<Longrightarrow> gte_ok r (gte_interpolate_color a b c k lm s)"
  unfolding gte_interpolate_color_def by (rule gte_ok_lets gte_ok_intros gte_ok_upd_free gte_ok_if | assumption | simp)+

lemma gte_ok_clamp_ir3:
  "gte_ok r s \<Longrightarrow> gte_ok r (s(11 := word_of_int (max (ir_min lm) (min 0x7FFF v))))"
  using ir_min_range [of lm] by (intro gte_ok_upd reg_ok_IR) (auto simp: gte_written_def)

lemma gte_ok_rotate [gte_ok_intros]: "gte_ok r s \<Longrightarrow> gte_ok r (gte_rtps_rotate v k lm s)"
  unfolding gte_rtps_rotate_def
  by (rule gte_ok_lets gte_ok_intros gte_ok_upd_free gte_ok_if gte_ok_mvt_sum gte_ok_clamp_ir3 gte_ok_push_sz | assumption | simp)+

lemma gte_ok_project:
  assumes "gte_ok r s" "gte_rtps_project cfg l s = Some t"
  shows "gte_ok r t"
proof -
  obtain q u where d: "gte_unr_divide (gte_u16 s 58) (gte_u16 s 19) s = (q, u)"
    by (cases "gte_unr_divide (gte_u16 s 58) (gte_u16 s 19) s")
  then have u: "gte_ok r u"
    using gte_ok_unr_divide [OF assms(1), of "gte_u16 s 58" "gte_u16 s 19"] by simp
  have "gte_ok r (gte_push_sxy a b (gte_check_mac_overflow 0 c (gte_check_mac_overflow 0 e u)))" for a b c e
    by (intro gte_ok_push_sxy gte_ok_check u) simp_all
  then show ?thesis
    using assms(2) by (auto simp: gte_rtps_project_def d Let_def split: option.splits if_splits
        intro!: gte_ok_set_ir0 gte_ok_set_mac)
qed

lemma gte_ok_rtps: "gte_ok r s \<Longrightarrow> gte_rtps cfg v k lm l s = Some t \<Longrightarrow> gte_ok r t"
  unfolding gte_rtps_def by (erule gte_ok_project [OF gte_ok_rotate])

lemma gte_ok_light [gte_ok_intros]: "gte_ok r s \<Longrightarrow> gte_ok r (gte_light v k lm s)"
  unfolding gte_light_def by (rule gte_ok_lets gte_ok_intros gte_ok_upd_free gte_ok_if | assumption | simp)+

lemma gte_ok_modulate [gte_ok_intros]: "gte_ok r s \<Longrightarrow> gte_ok r (gte_modulate k lm s)"
  unfolding gte_modulate_def by (rule gte_ok_lets gte_ok_intros gte_ok_upd_free gte_ok_if | assumption | simp)+

lemma gte_ok_modulate_interpolate [gte_ok_intros]:
  "gte_ok r s \<Longrightarrow> gte_ok r (gte_modulate_interpolate k lm s)"
  unfolding gte_modulate_interpolate_def by (rule gte_ok_lets gte_ok_intros gte_ok_upd_free gte_ok_if | assumption | simp)+

lemma gte_ok_ncs: "gte_ok r s \<Longrightarrow> gte_ok r (gte_ncs v k lm s)"
  unfolding gte_ncs_def by (intro gte_ok_push_rgb gte_ok_light)

lemma gte_ok_nccs: "gte_ok r s \<Longrightarrow> gte_ok r (gte_nccs v k lm s)"
  unfolding gte_nccs_def by (intro gte_ok_push_rgb gte_ok_modulate gte_ok_light)

lemma gte_ok_ncds: "gte_ok r s \<Longrightarrow> gte_ok r (gte_ncds v k lm s)"
  unfolding gte_ncds_def by (intro gte_ok_push_rgb gte_ok_modulate_interpolate gte_ok_light)

lemma gte_ok_dpcs [gte_ok_intros]: "gte_ok r s \<Longrightarrow> gte_ok r (gte_dpcs c k lm s)"
  unfolding gte_dpcs_def by (rule gte_ok_lets gte_ok_intros gte_ok_upd_free gte_ok_if gte_ok_interpolate | assumption | simp)+

lemma gte_ok_fold: "(\<And>v s. gte_ok r s \<Longrightarrow> gte_ok r (f v s)) \<Longrightarrow> gte_ok r s \<Longrightarrow> gte_ok r (fold f vs s)"
  by (induction vs arbitrary: s) auto

section \<open>The commands\<close>

lemma gte_ok_commands [gte_ok_intros]:
  "gte_ok r s \<Longrightarrow> gte_ok r (gte_execute_mvmva inst s)"
  "gte_ok r s \<Longrightarrow> gte_ok r (gte_execute_sqr inst s)"
  "gte_ok r s \<Longrightarrow> gte_ok r (gte_execute_op inst s)"
  "gte_ok r s \<Longrightarrow> gte_ok r (gte_execute_nclip s)"
  "gte_ok r s \<Longrightarrow> gte_ok r (gte_execute_intpl inst s)"
  "gte_ok r s \<Longrightarrow> gte_ok r (gte_execute_gpl inst s)"
  "gte_ok r s \<Longrightarrow> gte_ok r (gte_execute_gpf inst s)"
  subgoal unfolding gte_execute_mvmva_def
    by (rule gte_ok_lets gte_ok_intros gte_ok_if | assumption)+
  subgoal unfolding gte_execute_sqr_def by (rule gte_ok_lets gte_ok_intros gte_ok_upd_free gte_ok_if | assumption | simp)+
  subgoal unfolding gte_execute_op_def by (rule gte_ok_lets gte_ok_intros gte_ok_upd_free gte_ok_if | assumption | simp)+
  subgoal unfolding gte_execute_nclip_def by (rule gte_ok_lets gte_ok_intros gte_ok_upd_free gte_ok_if | assumption | simp)+
  subgoal unfolding gte_execute_intpl_def by (rule gte_ok_lets gte_ok_intros gte_ok_upd_free gte_ok_if | assumption | simp)+
  subgoal unfolding gte_execute_gpl_def by (rule gte_ok_lets gte_ok_intros gte_ok_upd_free gte_ok_if | assumption | simp)+
  subgoal unfolding gte_execute_gpf_def by (rule gte_ok_lets gte_ok_intros gte_ok_upd_free gte_ok_if | assumption | simp)+
  done

lemma gte_ok_average [gte_ok_intros]: "gte_ok r s \<Longrightarrow> gte_ok r (gte_average_z a b s)"
  unfolding gte_average_z_def by (rule gte_ok_lets gte_ok_intros gte_ok_upd_free gte_ok_if gte_ok_otz | assumption | simp)+

lemma if_Some_E:
  "(if b then x else y) = Some t \<Longrightarrow> (x = Some t \<Longrightarrow> Q) \<Longrightarrow> (y = Some t \<Longrightarrow> Q) \<Longrightarrow> Q"
  by (cases b) simp_all

lemma gte_ok_execute:
  assumes "gte_execute cfg inst r = Some t"
  shows "gte_ok r t"
proof -
  have r: "gte_ok r r" by (rule gte_ok_refl)
  note clear = gte_ok_flag_clear [OF r]
  have rtps: "gte_ok r u" if "gte_execute_rtps cfg inst r = Some u" for u
    using that gte_ok_rtps [OF clear] by (auto simp: gte_execute_rtps_def intro: gte_ok_update_error)
  have rtpt: "gte_ok r u" if u: "gte_execute_rtpt cfg inst r = Some u" for u
  proof -
    obtain a b c where "gte_rtps cfg 0 (gte_inst_shift inst) (gte_inst_lm inst) False (gte_flag_clear r) = Some a"
      "gte_rtps cfg 1 (gte_inst_shift inst) (gte_inst_lm inst) False a = Some b"
      "gte_rtps cfg 2 (gte_inst_shift inst) (gte_inst_lm inst) True b = Some c"
      "u = gte_flag_update_error c"
      using u by (auto simp: gte_execute_rtpt_def Let_def split: option.splits)
    then show ?thesis
      using gte_ok_rtps clear gte_ok_update_error by metis
  qed
  have lit: "gte_ok r (gte_execute_lit f vs inst r)"
    if "\<And>v k lm s. gte_ok r s \<Longrightarrow> gte_ok r (f v k lm s)" for f vs
    unfolding gte_execute_lit_def using clear that by (intro gte_ok_update_error gte_ok_fold)
  have cc: "gte_ok r (gte_execute_cc inst r)" "gte_ok r (gte_execute_cdp inst r)"
    "gte_ok r (gte_execute_dcpl inst r)"
    unfolding gte_execute_cc_def gte_execute_cdp_def gte_execute_dcpl_def gte_color_light_def Let_def
    by (intro gte_ok_intros r)+
  have dp: "gte_ok r (gte_execute_dpcs inst r)" "gte_ok r (gte_execute_dpct inst r)"
    unfolding gte_execute_dpcs_def gte_execute_dpct_def numeral_3_eq_3 funpow.simps o_apply id_apply
    by (intro gte_ok_intros r)+
  have av: "gte_ok r (gte_execute_avsz3 r)" "gte_ok r (gte_execute_avsz4 r)"
    unfolding gte_execute_avsz3_def gte_execute_avsz4_def Let_def by (intro gte_ok_intros r)+
  show ?thesis
    using assms unfolding gte_execute_def Let_def
    by (elim if_Some_E) (auto intro: rtps rtpt lit [OF gte_ok_ncs] lit [OF gte_ok_nccs]
        lit [OF gte_ok_ncds] cc dp av gte_ok_commands [OF r])
qed

end
