(* ===== verification/Gte_Num.thy ===== *)
theory Gte_Num
  imports Gte_Props
begin

text \<open>
  The arithmetic of the GTE: the error flag, saturation, the divider's range and table
  bound, the exactness of the matrix kernels when no lane overflows, the leading-bit count,
  the colour push, totality of the command decoder, and the register round trips.
\<close>

section \<open>The error flag\<close>

lemma bit_error_mask: "bit (0x7F87E000 :: u32) n \<longleftrightarrow> 23 \<le> n \<and> n \<le> 30 \<or> 13 \<le> n \<and> n \<le> 18"
proof -
  have eq: "(0x7F87E000 :: u32) = push_bit 23 (mask 8) OR push_bit 13 (mask 6)"
    by (simp add: mask_eq_exp_minus_1 push_bit_eq_mult)
  show ?thesis unfolding eq by (auto simp: bit_simps)
qed

lemma update_error_flag:
  "bit (gte_flag (gte_flag_update_error r)) 31 \<longleftrightarrow>
     (\<exists>n. bit (gte_flag (gte_flag_update_error r)) n \<and> (23 \<le> n \<and> n \<le> 30 \<or> 13 \<le> n \<and> n \<le> 18))"
proof -
  have same: "bit (flag_put 31 b w) n \<and> (23 \<le> n \<and> n \<le> 30 \<or> 13 \<le> n \<and> n \<le> 18) \<longleftrightarrow>
      bit w n \<and> (23 \<le> n \<and> n \<le> 30 \<or> 13 \<le> n \<and> n \<le> 18)" for n b and w :: u32
    by auto
  show ?thesis
    unfolding gte_flag_update_error_def gte_flag_def fun_upd_same same
    unfolding bit_flag_put word_and_nonzero_iff bit_error_mask by simp
qed

lemma execute_ends_with_error:
  assumes "gte_execute cfg inst r = Some t"
  shows "\<exists>u. t = gte_flag_update_error u"
  using assms unfolding gte_execute_def Let_def
  by (elim if_Some_E)
    (auto simp: gte_execute_rtps_def gte_execute_rtpt_def gte_execute_nclip_def gte_execute_op_def
      gte_execute_dpcs_def gte_execute_intpl_def gte_execute_mvmva_def gte_execute_lit_def
      gte_execute_cdp_def gte_execute_cc_def gte_execute_sqr_def gte_execute_dcpl_def
      gte_execute_dpct_def gte_execute_avsz3_def gte_execute_avsz4_def gte_average_z_def
      gte_execute_gpf_def gte_execute_gpl_def Let_def split: option.splits)

section \<open>Totality\<close>

definition gte_commands :: "u32 set" where
  "gte_commands = {0x01, 0x06, 0x0C, 0x10, 0x11, 0x12, 0x13, 0x14, 0x16, 0x1B, 0x1C, 0x1E, 0x20,
     0x28, 0x29, 0x2A, 0x2D, 0x2E, 0x30, 0x3D, 0x3E, 0x3F}"

definition aspect_ok :: "gte_config \<Rightarrow> bool" where
  "aspect_ok cfg \<longleftrightarrow> (aspect_ratio cfg = GTE_ASPECT_RATIO_CUSTOM \<longrightarrow> custom_aspect_ratio_denominator cfg \<noteq> 0)"

lemma rtps_x_total: "(\<exists>x. gte_rtps_x cfg q r = Some x) \<longleftrightarrow> aspect_ok cfg"
  by (cases "aspect_ratio cfg") (simp_all add: gte_rtps_x_def aspect_ok_def Let_def)

lemma rtps_total: "(\<exists>t. gte_rtps cfg v k lm l r = Some t) \<longleftrightarrow> aspect_ok cfg"
proof -
  let ?s = "gte_rtps_rotate v k lm r"
  obtain q u where d: "gte_unr_divide (gte_u16 ?s 58) (gte_u16 ?s 19) ?s = (q, u)"
    by (cases "gte_unr_divide (gte_u16 ?s 58) (gte_u16 ?s 19) ?s")
  show ?thesis
    using rtps_x_total [of cfg "uint q" u]
    by (cases "gte_rtps_x cfg (uint q) u") (auto simp: gte_rtps_def gte_rtps_project_def d Let_def)
qed

lemma execute_total:
  "(\<exists>t. gte_execute cfg inst r = Some t) \<longleftrightarrow> gte_inst_command inst \<in> gte_commands \<and>
     (gte_inst_command inst \<in> {0x01, 0x30} \<longrightarrow> aspect_ok cfg)"
proof (cases "gte_inst_command inst \<in> {0x01, 0x30}")
  case True
  have "(\<exists>t. gte_execute_rtps cfg inst r = Some t) \<longleftrightarrow> aspect_ok cfg"
    using rtps_total by (auto simp: gte_execute_rtps_def)
  moreover have "(\<exists>t. gte_execute_rtpt cfg inst r = Some t) \<longleftrightarrow> aspect_ok cfg"
  proof
    assume ok: "aspect_ok cfg"
    then show "\<exists>t. gte_execute_rtpt cfg inst r = Some t"
      using rtps_total [of cfg] by (auto simp: gte_execute_rtpt_def Let_def split: option.splits)
        (metis option.distinct(1))+
  next
    assume "\<exists>t. gte_execute_rtpt cfg inst r = Some t"
    then show "aspect_ok cfg"
      using rtps_total [of cfg 0 "gte_inst_shift inst" "gte_inst_lm inst" False "gte_flag_clear r"]
      by (auto simp: gte_execute_rtpt_def Let_def split: option.splits)
  qed
  ultimately show ?thesis
    using True by (auto simp: gte_execute_def Let_def gte_commands_def)
next
  case False
  then show ?thesis by (auto simp: gte_execute_def Let_def gte_commands_def)
qed

section \<open>Saturation\<close>

lemma to_s16_word: "- 0x8000 \<le> v \<Longrightarrow> v \<le> 0x7FFF \<Longrightarrow> to_s16 (uint (word_of_int v :: u32)) = v"
  by (simp add: to_s16_def uint_word_of_int_eq signed_take_bit_take_bit signed_take_bit_int_eq_self)

lemma set_ir_value:
  "n \<in> {1, 2, 3} \<Longrightarrow> gte_IR (gte_truncate_set_ir n v lm r) n = max (ir_min lm) (min 0x7FFF v)"
  using ir_min_range [of lm] to_s16_word [of "0x7FFF"] to_s16_word [of "ir_min lm"] to_s16_word [of v]
  by (auto simp: gte_truncate_set_ir_def gte_IR_def gte_half_def)

lemma set_ir_flag:
  "n \<in> {1, 2, 3} \<Longrightarrow> bit (gte_flag (gte_truncate_set_ir n v lm r)) (25 - n) \<longleftrightarrow>
     bit (gte_flag r) (25 - n) \<or> v < ir_min lm \<or> v > 0x7FFF"
  by (auto simp: gte_truncate_set_ir_def gte_flag_def gte_set_flag_def)

lemma sz_value:
  "gte_push_sz v r 19 = word_of_int (max 0 (min 0xFFFF v))"
  "gte_push_sz v r 18 = r 19" "gte_push_sz v r 17 = r 18" "gte_push_sz v r 16 = r 17"
  by (simp_all add: gte_push_sz_def gte_set_flag_def)

lemma to_s16_and: "to_s16 (uint ((w :: u32) AND 0xFFFF)) = to_s16 (uint w)"
proof -
  have "w AND 0xFFFF = take_bit 16 w" by (simp add: take_bit_eq_mask mask_eq_exp_minus_1)
  then show ?thesis by (simp add: to_s16_def unsigned_take_bit_eq signed_take_bit_take_bit)
qed

lemma sxy_value:
  fixes x y :: int
  shows "gte_half (gte_push_sxy x y r) 28 = max (- 1024) (min 1023 x)"
    "gte_half (gte_push_sxy x y r) 29 = max (- 1024) (min 1023 y)"
proof -
  define a where "a = max (- 1024) (min 1023 x)"
  define b where "b = max (- 1024) (min 1023 y)"
  let ?w = "(word_of_int a AND 0xFFFF) OR push_bit 16 (word_of_int b) :: u32"
  have w: "gte_push_sxy x y r 14 = ?w"
    by (auto simp: gte_push_sxy_def clamp_sxy_def Let_def a_def b_def)
  have lo: "take_bit 16 ?w = take_bit 16 (word_of_int a)"
  proof -
    have eq: "(0xFFFF :: u32) = mask 16" by (simp add: mask_eq_exp_minus_1)
    show ?thesis unfolding eq by (rule bit_word_eqI) (auto simp: bit_simps)
  qed
  have hi: "drop_bit 16 ?w = take_bit 16 (word_of_int b)"
  proof -
    have eq: "(0xFFFF :: u32) = mask 16" by (simp add: mask_eq_exp_minus_1)
    show ?thesis unfolding eq by (rule bit_word_eqI) (auto simp: bit_simps)
  qed
  have tk: "to_s16 (uint u) = to_s16 (uint (take_bit 16 u))" for u :: u32
    by (simp add: to_s16_def unsigned_take_bit_eq signed_take_bit_take_bit)
  have "to_s16 (uint ?w) = to_s16 (uint (word_of_int a :: u32))"
    by (subst (1 2) tk) (simp only: lo)
  then show "gte_half (gte_push_sxy x y r) 28 = a"
    using to_s16_word [of a] w by (auto simp: gte_half_def a_def)
  have "to_s16 (uint (drop_bit 16 ?w)) = to_s16 (uint (word_of_int b :: u32))"
    by (subst (2) tk) (simp only: hi)
  then show "gte_half (gte_push_sxy x y r) 29 = b"
    using to_s16_word [of b] w by (auto simp: gte_half_def b_def)
qed

section \<open>The divider\<close>

lemma unr_divide_range: "fst (gte_unr_divide a b r) \<le> 0x1FFFF"
  by (simp add: gte_unr_divide_def Let_def)

lemma unr_divide_overflow:
  "b * 2 \<le> a \<Longrightarrow> fst (gte_unr_divide a b r) = 0x1FFFF \<and> bit (gte_flag (snd (gte_unr_divide a b r))) 17"
  by (simp add: gte_unr_divide_def gte_flag_def gte_set_flag_def)

lemma unr_divide_no_overflow: "\<not> b * 2 \<le> a \<Longrightarrow> snd (gte_unr_divide a b r) = r"
  by (simp add: gte_unr_divide_def Let_def)

text \<open>The table access is in bounds for every divisor.\<close>

lemma unr_index_bound:
  "unat (drop_bit 7 (((d :: u32) AND 0x7FFF) + 0x40)) < List.length unr_table"
proof -
  have "d AND 0x7FFF \<le> 0x7FFF" by (rule word_and_le1)
  then have "unat (d AND 0x7FFF) \<le> 0x7FFF" by (simp add: word_le_nat_alt)
  then have "unat ((d AND 0x7FFF) + 0x40) \<le> 0x803F"
    by (simp add: unat_word_ariths)
  then have "unat ((d AND 0x7FFF) + 0x40) div 128 \<le> 256" by linarith
  moreover have "List.length unr_table = 257" by (simp add: unr_table_def)
  ultimately show ?thesis by (simp add: drop_bit_eq_div unat_div)
qed

section \<open>Exactness of the matrix kernels\<close>

text \<open>
  A partial sum that fits 44 bits is kept exactly and sets no flag, so a lane whose partial
  sums all fit computes the dot product.
\<close>

lemma sign_extend_exact:
  "- (2 ^ 43) \<le> v \<Longrightarrow> v < 2 ^ 43 \<Longrightarrow> n \<noteq> 0 \<Longrightarrow> gte_sign_extend_mac n v r = (v, r)"
  by (simp add: gte_sign_extend_mac_def gte_check_mac_overflow_def mac_bits_def
      signed_take_bit_int_eq_self)

definition mac_fits :: "int \<Rightarrow> bool" where
  "mac_fits v \<longleftrightarrow> - (2 ^ 43) \<le> v \<and> v < 2 ^ 43"

lemma mac_ir_exact:
  assumes "mac_fits v" "n \<noteq> 0"
  shows "gte_truncate_set_mac_ir n v k lm r =
    gte_truncate_set_ir n (to_s32 (drop_bit k v)) lm (r(24 + n := word_of_int (to_s32 (drop_bit k v))))"
  using assms by (simp add: gte_truncate_set_mac_ir_def gte_check_mac_overflow_def mac_fits_def
      mac_bits_def Let_def)

lemma mvt_lane_exact:
  assumes n: "n \<in> {1, 2, 3}"
    and fit: "mac_fits (T (n - 1) * 2 ^ 12 + M (n - 1) 0 * vx)"
      "mac_fits (T (n - 1) * 2 ^ 12 + M (n - 1) 0 * vx + M (n - 1) 1 * vy)"
      "mac_fits (T (n - 1) * 2 ^ 12 + M (n - 1) 0 * vx + M (n - 1) 1 * vy + M (n - 1) 2 * vz)"
  defines "d \<equiv> T (n - 1) * 2 ^ 12 + M (n - 1) 0 * vx + M (n - 1) 1 * vy + M (n - 1) 2 * vz"
  shows "gte_mul_mat_vec_t_lane n M T vx vy vz k lm r =
    gte_truncate_set_ir n (to_s32 (drop_bit k d)) lm (r(24 + n := word_of_int (to_s32 (drop_bit k d))))"
proof -
  have "gte_mvt_sum n (T (n - 1)) (M (n - 1) 0) vx (M (n - 1) 1) vy r =
      (T (n - 1) * 2 ^ 12 + M (n - 1) 0 * vx + M (n - 1) 1 * vy, r)"
    using n fit(1,2) unfolding gte_mvt_sum_def mac_fits_def
    by (auto simp: sign_extend_exact)
  then show ?thesis
    using mac_ir_exact [OF fit(3), of n k lm r] n
    by (auto simp: gte_mul_mat_vec_t_lane_def d_def)
qed

section \<open>Leading bits\<close>

lemma clz_from_spec:
  "clz_from n w \<le> n \<and> (\<forall>k<clz_from n w. \<not> bit w (n - 1 - k)) \<and>
   (clz_from n w < n \<longrightarrow> bit w (n - 1 - clz_from n w))"
proof (induction n)
  case (Suc n)
  have "\<not> bit w (n - k)" if "\<not> bit w n" "k < Suc (clz_from n w)" for k
    using that Suc by (cases k) auto
  then show ?case using Suc by auto
qed simp

lemma leading_bits_spec:
  "1 \<le> unat (gte_count_leading_bits v) \<and> unat (gte_count_leading_bits v) \<le> 32 \<and>
   (\<forall>k<unat (gte_count_leading_bits v). bit v (31 - k) = bit v 31) \<and>
   (unat (gte_count_leading_bits v) < 32 \<longrightarrow>
      bit v (31 - unat (gte_count_leading_bits v)) \<noteq> bit v 31)"
proof -
  have sign: "v AND 0x80000000 \<noteq> 0 \<longleftrightarrow> bit v 31"
  proof -
    have eq: "(0x80000000 :: u32) = push_bit 31 1" by (simp add: push_bit_eq_mult)
    have b: "bit (0x80000000 :: u32) n \<longleftrightarrow> n = 31" for n
      unfolding eq bit_push_bit_iff by (auto simp: bit_1_iff)
    show ?thesis unfolding word_and_nonzero_iff b by auto
  qed
  define u where "u = (if bit v 31 then v XOR 0xFFFFFFFF else v)"
  have all: "(0xFFFFFFFF :: u32) = mask 32" by (simp add: mask_eq_exp_minus_1)
  have u: "bit u k \<longleftrightarrow> bit v k \<noteq> bit v 31" if "k < 32" for k
    using that unfolding u_def all by (auto simp: bit_simps)
  have top: "\<not> bit u 31" using u [of 31] by simp
  have cnt: "gte_count_leading_bits v = (if u = 0 then 32 else of_nat (word_clz u))"
    by (simp add: gte_count_leading_bits_def sign u_def Let_def)
  note spec = clz_from_spec [of 32 u]
  have zero: "clz_from 32 u = 32" if "u = 0"
    using spec that by auto
  have le: "clz_from 32 u \<le> 32" using spec by blast
  have n: "unat (gte_count_leading_bits v) = clz_from 32 u"
  proof (cases "u = 0")
    case False
    then show ?thesis using le by (simp add: cnt word_clz_def unsigned_of_nat take_bit_nat_eq_self)
  qed (use zero cnt in auto)
  have pos: "1 \<le> clz_from 32 u"
  proof (rule ccontr)
    assume "\<not> 1 \<le> clz_from 32 u"
    then have "clz_from 32 u = 0" by simp
    then show False using spec top by simp
  qed
  have "bit v (31 - k) = bit v 31" if "k < clz_from 32 u" for k
    using spec that u [of "31 - k"] by auto
  moreover have "bit v (31 - clz_from 32 u) \<noteq> bit v 31" if "clz_from 32 u < 32"
    using spec that u [of "31 - clz_from 32 u"] by auto
  ultimately show ?thesis using n le pos by simp
qed

section \<open>The colour push\<close>

text \<open>
  The shift of a colour lane is logical, so no lane is ever negative when it is clamped: a
  negative MAC saturates to 255 and not to 0.
\<close>

lemma rgb_lane_nonneg: "0 \<le> to_s32 (uint (drop_bit 4 (w :: u32)))"
proof -
  have "uint (drop_bit 4 w) < 2 ^ 28"
    using uint_lt2p [of w] by (simp add: drop_bit_eq_div uint_div)
  then show ?thesis by (simp add: to_s32_uint)
qed

lemma rgb_lane_negative:
  assumes "gte_s32 r i < 0"
  shows "gte_truncate_rgb l (to_s32 (uint (drop_bit 4 (r i)))) s = (0xFF, gte_set_flag (21 - l) s)"
proof -
  have "2 ^ 31 \<le> uint (r i)"
  proof (rule ccontr)
    assume "\<not> 2 ^ 31 \<le> uint (r i)"
    then have "gte_s32 r i = uint (r i)" by (simp add: gte_s32_def to_s32_uint)
    then show False using assms by simp
  qed
  then have "2 ^ 27 \<le> uint (drop_bit 4 (r i))" "uint (drop_bit 4 (r i)) < 2 ^ 28"
    using uint_lt2p [of "r i"] by (simp_all add: drop_bit_eq_div uint_div)
  then show ?thesis by (simp add: gte_truncate_rgb_def to_s32_uint)
qed

section \<open>Register round trips\<close>

text \<open>What a read returns after a write, on the plain registers and on the special ones.\<close>

lemma read_write_plain:
  "i < 64 \<Longrightarrow> i \<notin> {1, 3, 5, 7, 8, 9, 10, 11, 14, 15, 16, 17, 18, 19, 28, 29, 30, 31, 36, 44, 52, 58, 59, 61, 62, 63} \<or> i = 14 \<or> i = 30
   \<Longrightarrow> gte_read_register i (gte_write_register i v r) = v"
  by (auto simp: gte_read_register_def gte_write_register_def)

lemma read_write_half:
  "i \<in> {1, 3, 5, 8, 9, 10, 11, 36, 44, 52, 58, 59, 61, 62} \<Longrightarrow>
   gte_read_register i (gte_write_register i v r) = sign_extend_half v"
  by (auto simp: gte_read_register_def gte_write_register_def)

lemma read_write_depth:
  "i \<in> {7, 16, 17, 18, 19} \<Longrightarrow> gte_read_register i (gte_write_register i v r) = take_bit 16 v"
  by (auto simp: gte_read_register_def gte_write_register_def)

lemma sxyp_push:
  "gte_read_register 15 (gte_write_register 15 v r) = v"
  "gte_read_register 14 (gte_write_register 15 v r) = v"
  "gte_read_register 13 (gte_write_register 15 v r) = gte_read_register 14 r"
  "gte_read_register 12 (gte_write_register 15 v r) = gte_read_register 13 r"
  by (simp_all add: gte_read_register_def gte_write_register_def Let_def)

lemma read_write_lzcr: "gte_read_register 31 (gte_write_register 30 v r) = gte_count_leading_bits v"
  by (simp add: gte_read_register_def gte_write_register_def)

end
