(* ===== verification/Gte_Spec.thy ===== *)
theory Gte_Spec
  imports Gte_Num
begin

text \<open>The properties of the geometry coprocessor, with their witnesses.\<close>

definition gte_zero :: gte_regs where "gte_zero = (\<lambda>_. 0)"

definition gte_plain :: gte_config where
  "gte_plain = \<lparr>aspect_ratio = GTE_ASPECT_RATIO_NONE, custom_aspect_ratio_numerator = 0,
     custom_aspect_ratio_denominator = 0\<rparr>"

section \<open>Commands\<close>

text \<open>
  C40.  Every command that executes leaves the register file well-formed - IR registers hold
  sign-extended half-words, the depths 16 bits, the low FLAG bits are zero - writes only the
  results, the FIFOs and FLAG, and ends with the error bit equal to "some error condition is
  flagged".
\<close>

theorem gte_command_wf:
  assumes "gte_execute cfg inst r = Some t" "\<forall>i. reg_ok i (r i)"
  shows "(\<forall>i. reg_ok i (t i)) \<and> (\<forall>i. i < 7 \<or> 28 \<le> i \<and> i \<noteq> 63 \<longrightarrow> t i = r i) \<and>
    (bit (gte_flag t) 31 \<longleftrightarrow> (\<exists>n. bit (gte_flag t) n \<and> (23 \<le> n \<and> n \<le> 30 \<or> 13 \<le> n \<and> n \<le> 18)))"
proof -
  obtain u where u: "t = gte_flag_update_error u" using execute_ends_with_error [OF assms(1)] by blast
  have "gte_ok r t" by (rule gte_ok_execute [OF assms(1)])
  then show ?thesis
    using assms(2) update_error_flag [of u] unfolding u by (auto simp: gte_ok_def gte_written_def)
qed

theorem gte_command_wf_witness:
  "reg_ok 63 (gte_execute_nclip gte_zero 63)"
proof -
  have "gte_inst_command 6 = 6" by code_simp
  then have "gte_execute gte_plain 6 gte_zero = Some (gte_execute_nclip gte_zero)"
    by (simp add: gte_execute_def)
  moreover have "\<forall>i. reg_ok i (gte_zero i)"
    by (simp add: reg_ok_def gte_zero_def sign_extend_half_def to_s16_def)
  ultimately show ?thesis using gte_command_wf by blast
qed

text \<open>
  The command decoder: a word executes exactly when its command number is one of the 22
  the hardware has and, for the two perspective transforms with a custom aspect ratio, the
  ratio's denominator is not zero - the only division the commands do.
\<close>

lemma gte_commands_defined:
  "(\<exists>t. gte_execute cfg inst r = Some t) \<longleftrightarrow>
     gte_inst_command inst \<in> (if aspect_ratio cfg = GTE_ASPECT_RATIO_CUSTOM \<and>
        custom_aspect_ratio_denominator cfg = 0 then gte_commands - {0x01, 0x30} else gte_commands)"
  using execute_total [of cfg inst r] by (auto simp: aspect_ok_def)

section \<open>Saturation\<close>

text \<open>
  Writing an IR lane saturates to the signed (or, with \<open>lm\<close>, non-negative)
  half-word range and flags it exactly when it clips; the depth FIFO saturates to 16 bits and
  the screen FIFO to 11, both shifting by one.
\<close>

lemma gte_saturation:
  assumes "n \<in> {1, 2, 3}"
  shows "gte_IR (gte_truncate_set_ir n v lm r) n = max (if lm then 0 else - 0x8000) (min 0x7FFF v) \<and>
    (bit (gte_flag (gte_truncate_set_ir n v lm r)) (25 - n) \<longleftrightarrow>
       bit (gte_flag r) (25 - n) \<or> gte_IR (gte_truncate_set_ir n v lm r) n \<noteq> v) \<and>
    gte_push_sz z r 19 = word_of_int (max 0 (min 0xFFFF z)) \<and> gte_push_sz z r 18 = r 19 \<and>
    gte_half (gte_push_sxy x y r) 28 = max (- 1024) (min 1023 x) \<and>
    gte_half (gte_push_sxy x y r) 29 = max (- 1024) (min 1023 y)"
  using set_ir_value [OF assms, of v lm r] set_ir_flag [OF assms, of v lm r] ir_min_range [of lm]
    sz_value [of z r] sxy_value [of x y r]
  by (auto simp: ir_min_def)

section \<open>The divider\<close>

text \<open>
  The Newton-Raphson divider: the quotient never exceeds 17 bits; it is the maximum with
  the divide-overflow flag when the quotient would not fit, and flags nothing otherwise; the
  reciprocal table is never read out of bounds.
\<close>

lemma gte_divider:
  "fst (gte_unr_divide a b r) \<le> 0x1FFFF \<and>
   (if b * 2 \<le> a then fst (gte_unr_divide a b r) = 0x1FFFF \<and> bit (gte_flag (snd (gte_unr_divide a b r))) 17
    else snd (gte_unr_divide a b r) = r) \<and>
   unat (drop_bit 7 (((d :: u32) AND 0x7FFF) + 0x40)) < List.length unr_table"
  using unr_divide_range [of a b r] unr_divide_overflow [of b a r] unr_divide_no_overflow [of b a r]
    unr_index_bound [of d] by simp

section \<open>The matrix kernel\<close>

lemma set_ir_other:
  "i \<noteq> 8 + n \<Longrightarrow> i \<noteq> 63 \<Longrightarrow> gte_truncate_set_ir n v lm r i = r i"
  by (simp add: gte_truncate_set_ir_def gte_set_flag_def)

definition mat_vec_row :: "(nat \<Rightarrow> nat \<Rightarrow> int) \<Rightarrow> (nat \<Rightarrow> int) \<Rightarrow> int \<Rightarrow> int \<Rightarrow> int \<Rightarrow> nat \<Rightarrow> int" where
  "mat_vec_row M T x y z i = T i * 2 ^ 12 + M i 0 * x + M i 1 * y + M i 2 * z"

definition row_fits :: "(nat \<Rightarrow> nat \<Rightarrow> int) \<Rightarrow> (nat \<Rightarrow> int) \<Rightarrow> int \<Rightarrow> int \<Rightarrow> int \<Rightarrow> nat \<Rightarrow> bool" where
  "row_fits M T x y z i \<longleftrightarrow> mac_fits (T i * 2 ^ 12 + M i 0 * x) \<and>
     mac_fits (T i * 2 ^ 12 + M i 0 * x + M i 1 * y) \<and> mac_fits (mat_vec_row M T x y z i)"

lemma lane_exact:
  assumes "n \<in> {1, 2, 3}" "row_fits M T x y z (n - 1)"
  shows "gte_mul_mat_vec_t_lane n M T x y z k lm r =
    gte_truncate_set_ir n (to_s32 (drop_bit k (mat_vec_row M T x y z (n - 1)))) lm
      (r(24 + n := word_of_int (to_s32 (drop_bit k (mat_vec_row M T x y z (n - 1))))))"
  using mvt_lane_exact [OF assms(1), of T M x y z k lm r] assms(2)
  by (simp add: row_fits_def mat_vec_row_def)

lemma gte_IR_fun: "r (8 + n) = r' (8 + n) \<Longrightarrow> gte_IR r n = gte_IR r' n"
  by (simp add: gte_IR_def gte_half_def)

lemma gte_MAC_word: "r (24 + n) = word_of_int (to_s32 v) \<Longrightarrow> gte_MAC r n = to_s32 v"
  by (simp add: gte_MAC_def gte_s32_def to_s32_def uint_word_of_int_eq signed_take_bit_take_bit)

text \<open>
  The matrix-vector product: while the partial sums of a row fit the 44-bit accumulator,
  the MAC register gets the exact dot product with the translation, shifted, and the IR
  register the same saturated; the three lanes do not disturb each other.
\<close>

lemma matrix_product_exact:
  fixes M :: "nat \<Rightarrow> nat \<Rightarrow> int" and T :: "nat \<Rightarrow> int" and x y z :: int and k n :: nat
  assumes "\<forall>i<3. row_fits M T x y z i" "n \<in> {1, 2, 3}"
  defines "d \<equiv> to_s32 (drop_bit k (mat_vec_row M T x y z (n - 1)))"
  shows "gte_MAC (gte_mul_mat_vec_t M T x y z k lm r) n = d \<and>
    gte_IR (gte_mul_mat_vec_t M T x y z k lm r) n = max (ir_min lm) (min 0x7FFF d)"
proof -
  let ?t = "gte_mul_mat_vec_t M T x y z k lm r"
  define R where "R = (\<lambda>m r. gte_mul_mat_vec_t_lane m M T x y z k lm r)"
  have t: "?t = R 3 (R 2 (R 1 r))" by (simp add: gte_mul_mat_vec_t_def R_def)
  have lane: "R m r = gte_truncate_set_ir m (to_s32 (drop_bit k (mat_vec_row M T x y z (m - 1)))) lm
      (r(24 + m := word_of_int (to_s32 (drop_bit k (mat_vec_row M T x y z (m - 1))))))"
    if "m \<in> {1, 2, 3}" for m r
    unfolding R_def using that assms(1) by (intro lane_exact) auto
  have keep: "R m r i = r i" if "m \<in> {1, 2, 3}" "i \<noteq> 8 + m" "i \<noteq> 24 + m" "i \<noteq> 63" for m r i
    using that by (simp add: lane set_ir_other)
  have own: "R m r (24 + m) = word_of_int (to_s32 (drop_bit k (mat_vec_row M T x y z (m - 1))))"
    if "m \<in> {1, 2, 3}" for m r
    using that by (auto simp: lane set_ir_other)
  obtain q where q: "?t (8 + n) = R n q (8 + n)" "?t (24 + n) = R n q (24 + n)"
    using assms(2) by (auto simp: t keep)
  have "gte_IR ?t n = gte_IR (R n q) n" by (rule gte_IR_fun, rule q(1))
  also have "\<dots> = max (ir_min lm) (min 0x7FFF d)"
    unfolding lane [OF assms(2)] d_def by (rule set_ir_value [OF assms(2)])
  finally show ?thesis using gte_MAC_word q(2) own [OF assms(2)] by (simp add: d_def)
qed

section \<open>Registers\<close>

text \<open>
  The leading-bit counter: LZCR is the length of the run of bits equal to the sign bit,
  from 1 to 32, of the word written to LZCS.
\<close>

lemma leading_bit_count:
  fixes v :: u32 and r :: gte_regs
  defines "n \<equiv> unat (gte_read_register 31 (gte_write_register 30 v r))"
  shows "1 \<le> n \<and> n \<le> 32 \<and> (\<forall>k<n. bit v (31 - k) = bit v 31) \<and>
    (if n = 32 then True else bit v (31 - n) \<noteq> bit v 31)"
  using leading_bits_spec [of v] by (auto simp: n_def read_write_lzcr)

text \<open>
  What a program reads back from the data and control registers: plain registers return
  the word written, half-word registers its sign extension, depth registers its low half; a
  write to SXYP pushes the screen FIFO.
\<close>

lemma gte_register_roundtrip:
  assumes "i < 64" "i \<notin> {15, 28, 29, 31, 63}"
  shows "gte_read_register i (gte_write_register i v r) =
      (if i \<in> {1, 3, 5, 8, 9, 10, 11, 36, 44, 52, 58, 59, 61, 62} then sign_extend_half v
       else if i \<in> {7, 16, 17, 18, 19} then take_bit 16 v else v) \<and>
    gte_read_register 14 (gte_write_register 15 v r) = v \<and>
    gte_read_register 13 (gte_write_register 15 v r) = gte_read_register 14 r \<and>
    gte_read_register 12 (gte_write_register 15 v r) = gte_read_register 13 r"
  using assms read_write_plain [of i v r] read_write_half [of i v r] read_write_depth [of i v r]
    sxyp_push [of v r] by auto

end
