(* ===== verification/Bus_Spec.thy ===== *)
theory Bus_Spec
  imports Power_On
begin

text \<open>The properties of the bus, with their witnesses.\<close>

section \<open>The memory map\<close>


lemma mapped_tables: "bus_tables_ok (allocate_memory_map bus_zero)"
  unfolding allocate_memory_map_def
  by (rule tables_after_set_handlers) (simp add: bus_zero_def ram_memory_window_def bits_get_def)


text \<open>
  C6.  Address decoding of a CPU access: the table entry of the page of any 32-bit address is
  the one the memory map gives that address; within the hardware page the 16-byte dispatch is
  the register map.
\<close>

theorem address_decoding:
  assumes "bus_tables_ok b"
  shows "bus_get_memory_handlers isc swc b (unat (drop_bit 12 (a :: u32))) =
    (if upper_ram (unat a) \<and> ram_memory_window (ram_size_reg b) = 4 \<and> isc = False then HANDLER_UNMAPPED
     else decode_address isc (unat a)) \<and>
    build_hw_dispatch (unat (drop_bit 4 a AND 0xFF)) = hw_decode (unat (drop_bit 4 a AND 0xFF))"
proof -
  have "drop_bit 4 a AND 0xFF \<le> 0xFF" by (rule word_and_le1)
  then have "unat (drop_bit 4 a AND 0xFF) < 256" by (simp add: word_le_nat_alt)
  moreover have "unat a < 2 ^ 32" using unsigned_less [of a] by simp
  ultimately show ?thesis
    using assms unfolding page_of bus_get_memory_handlers_def bus_tables_ok_def
    by (cases isc) (simp_all add: hw_dispatch_decode)
qed

theorem address_decoding_witness:
  "bus_get_memory_handlers False False (allocate_memory_map bus_zero) (unat (drop_bit 12 (0xBFC00000 :: u32))) =
     HANDLER_BIOS"
  using address_decoding [OF mapped_tables, of False False "0xBFC00000"]
  by (simp add: upper_ram_def decode_address_def decode_segment_def)

section \<open>Access times\<close>

text \<open>
  Access times: whatever the delay registers hold, a transfer costs between 5 and 183
  cycles and no less the wider it is; after a reset and after every write to the delay
  registers the times in use are those of the registers.
\<close>

lemma access_times:
  assumes "timings_ok (bus s)"
  shows "timings_ok (bus_reset (bus s)) \<and> timings_ok (bus (memctrl_write_common sz a v s)) \<and>
    5 \<le> bios_access_time (bus s) sz \<and> bios_access_time (bus s) sz \<le> 183 \<and>
    bios_access_time (bus s) MEMORY_ACCESS_SIZE_BYTE \<le> bios_access_time (bus s) MEMORY_ACCESS_SIZE_HALFWORD \<and>
    bios_access_time (bus s) MEMORY_ACCESS_SIZE_HALFWORD \<le> bios_access_time (bus s) MEMORY_ACCESS_SIZE_WORD"
proof -
  obtain w c where "bios_access_time (bus s) = calculate_memory_timing w c"
    using assms by (auto simp: timings_ok_def)
  then show ?thesis
    using timings_reset timings_memctrl [OF assms] memory_timing_bounds memory_timing_mono by simp
qed

section \<open>Storage\<close>

text \<open>
  A word, half-word or byte written to RAM through one mirror or segment is read back
  through any other, whatever handlers lie between and whether or not the page held code.
\<close>

lemma ram_mirrors:
  assumes "bus_get_memory_handlers isc swc (bus s) (unat (drop_bit 12 a)) = HANDLER_RAM"
    and "bus_get_memory_handlers isc' swc' (bus s) (unat (drop_bit 12 b)) = HANDLER_RAM"
    and "a AND ram_mask (bus s) = b AND ram_mask (bus s)"
  shows "fst (bus_read_handler d isc' swc' sz b (bus_write_handler d isc swc sz a v s)) =
    take_bit (8 * size_bytes sz) v"
  by (rule ram_mirror_readback [OF assms])

text \<open>
  Code-page tracking: the scan of a RAM range that starts on a page boundary returns, and
  finds exactly whether some byte of the range lies in a code page; a write to RAM drops the
  code page it hits and no other.
\<close>

lemma code_page_scan:
  assumes "bus_is_ram_address start" "unat (start AND ram_mask b) mod 4096 = 0"
    and "unat (start AND ram_mask b) + unat len \<le> 2 ^ 32 - 4096" "page < 2048"
  shows "bus_has_code_pages_in_range start len b =
      Some (code_page_overlap (ram_code_bits b) (unat (start AND ram_mask b)) (unat len)) \<and>
    bus_is_ram_code_page (word_of_nat page) (bus (ram_write sz a v s)) =
      (bus_is_ram_code_page (word_of_nat page) (bus s) \<and> page \<noteq> unat (a AND ram_mask (bus s)) div 4096)"
  using has_code_pages_aligned [OF assms(1-3)] smc_clears [OF assms(4)] by blast

text \<open>
  With the cache isolated, a word written through the cache reads back, and the line it
  went to misses on every fetch until it is filled again.
\<close>

lemma isolated_cache_write:
  "fst (icache_read a (icache_write_common MEMORY_ACCESS_SIZE_WORD a v s)) = v \<and>
   \<not> cpu_compare_icache_tag a (cpu (icache_write_common sz a v s))"
proof
  show "fst (icache_read a (icache_write_common MEMORY_ACCESS_SIZE_WORD a v s)) = v"
    by (rule icache_isolated_readback)
  let ?t = "cpu_get_icache_tag_for_address a OR CPU_ICACHE_INVALID_BITS"
  have m: "CPU_ICACHE_INVALID_BITS = mask 4"
    by (simp add: CPU_ICACHE_INVALID_BITS_def mask_eq_exp_minus_1)
  show "\<not> cpu_compare_icache_tag a (cpu (icache_write_common sz a v s))"
  proof
    assume "cpu_compare_icache_tag a (cpu (icache_write_common sz a v s))"
    then have e: "?t AND cpu_get_icache_tag_mask_for_address a = cpu_get_icache_tag_for_address a"
      by (simp add: cpu_compare_icache_tag_def icache_write_common_def icache_set_tag_def Let_def)
    show False
      using arg_cong [OF e, of "\<lambda>w. bit w (word_in_line a)"] word_in_line_eq(2) [of a]
      unfolding m by (simp add: bit_simps tag_mask_bits bit_icache_tag)
  qed
qed

end
