(* ===== verification/Dma.thy ===== *)
theory Dma
  imports Bus_Handlers
begin

text \<open>
  The DMA controller, \<^verbatim>\<open>src/core/dma/dma.c\<close>: seven channels with manual, request
  and linked-list transfers, the interrupt register, and the event that ends a halt.

  The devices at the other end of a channel are the parameter \<open>dma_hooks\<close>, with an option
  for each function the source declares weak.  A device that receives words may change
  anything, the channel's request line included; a device that sends words returns those it
  wrote to the destination, which may be fewer than it was asked for.  The staging buffer is in
  the state because such a device leaves the rest of it as it was; growing it is host
  memory management.  A panic of the source is \<open>None\<close>.
\<close>

section \<open>State\<close>

definition DMA_NUM_CHANNELS :: nat where "DMA_NUM_CHANNELS = 7"
definition DMA_CHANNEL_MDECIN :: nat where "DMA_CHANNEL_MDECIN = 0"
definition DMA_CHANNEL_MDECOUT :: nat where "DMA_CHANNEL_MDECOUT = 1"
definition DMA_CHANNEL_GPU :: nat where "DMA_CHANNEL_GPU = 2"
definition DMA_CHANNEL_CDROM :: nat where "DMA_CHANNEL_CDROM = 3"
definition DMA_CHANNEL_SPU :: nat where "DMA_CHANNEL_SPU = 4"
definition DMA_CHANNEL_OTC :: nat where "DMA_CHANNEL_OTC = 6"

definition BASE_ADDRESS_MASK :: u32 where "BASE_ADDRESS_MASK = 0x00FFFFFF"
definition TRANSFER_ADDRESS_MASK :: u32 where "TRANSFER_ADDRESS_MASK = 0x00FFFFFC"
definition LINKED_LIST_TERMINATOR :: u32 where "LINKED_LIST_TERMINATOR = 0x00FFFFFF"
definition LINKED_LIST_HEADER_READ_TICKS :: tick_count where "LINKED_LIST_HEADER_READ_TICKS = 8"
definition LINKED_LIST_BLOCK_SETUP_TICKS :: tick_count where "LINKED_LIST_BLOCK_SETUP_TICKS = 5"
definition SLICE_SIZE_WHEN_TRANSMITTING_PAD :: tick_count where "SLICE_SIZE_WHEN_TRANSMITTING_PAD = 10"
definition SLICE_SIZE_WHEN_DECODING_MDEC :: tick_count where "SLICE_SIZE_WHEN_DECODING_MDEC = 100"
definition CHANNEL_CONTROL_WRITE_MASK :: u32 where "CHANNEL_CONTROL_WRITE_MASK = 0x71770703"
definition DICR_WRITE_MASK :: u32 where "DICR_WRITE_MASK = 0x00FF803F"
definition DICR_RESET_MASK :: u32 where "DICR_RESET_MASK = 0x7F000000"

lemmas dma_channel_defs = DMA_NUM_CHANNELS_def DMA_CHANNEL_MDECIN_def DMA_CHANNEL_MDECOUT_def
  DMA_CHANNEL_GPU_def DMA_CHANNEL_CDROM_def DMA_CHANNEL_SPU_def DMA_CHANNEL_OTC_def

lemmas dma_mask_defs = BASE_ADDRESS_MASK_def TRANSFER_ADDRESS_MASK_def LINKED_LIST_TERMINATOR_def
  CHANNEL_CONTROL_WRITE_MASK_def DICR_WRITE_MASK_def DICR_RESET_MASK_def
  LINKED_LIST_HEADER_READ_TICKS_def LINKED_LIST_BLOCK_SETUP_TICKS_def
  SLICE_SIZE_WHEN_TRANSMITTING_PAD_def SLICE_SIZE_WHEN_DECODING_MDEC_def

text \<open>The number of the interrupt and of the unhalt event.\<close>

definition IRQ_DMA :: nat where "IRQ_DMA = 3"
definition DMA_UNHALT_EVENT :: nat where "DMA_UNHALT_EVENT = 1"

record dma_channel_state =
  base_address :: u32
  block_control :: u32
  channel_control :: u32
  request :: bool

record dma_state =
  transfer_buffer :: "nat \<Rightarrow> u32"
  halt_ticks_remaining :: tick_count
  channels :: "nat \<Rightarrow> dma_channel_state"
  DPCR :: u32
  DICR :: u32
  dbg_transfer_counts :: "nat \<Rightarrow> u32"

record dma_sys = bus_sys +
  dma :: dma_state

text \<open>The bit-fields of block control, channel control and the interrupt register.\<close>

definition bc_word_count :: "u32 \<Rightarrow> u32" where "bc_word_count b = bits_get b 0 16"
definition bc_block_count :: "u32 \<Rightarrow> u32" where "bc_block_count b = bits_get b 16 16"
definition cc_copy_to_device :: "u32 \<Rightarrow> bool" where "cc_copy_to_device c = bit c 0"
definition cc_address_step_reverse :: "u32 \<Rightarrow> bool" where "cc_address_step_reverse c = bit c 1"
definition cc_chopping_enable :: "u32 \<Rightarrow> bool" where "cc_chopping_enable c = bit c 8"
definition cc_sync_mode :: "u32 \<Rightarrow> nat" where "cc_sync_mode c = unat (bits_get c 9 2)"
definition cc_chopping_dma_window_size :: "u32 \<Rightarrow> nat" where
  "cc_chopping_dma_window_size c = unat (bits_get c 16 3)"
definition cc_chopping_cpu_window_size :: "u32 \<Rightarrow> nat" where
  "cc_chopping_cpu_window_size c = unat (bits_get c 20 3)"
definition cc_enable_busy :: "u32 \<Rightarrow> bool" where "cc_enable_busy c = bit c 24"
definition cc_start_trigger :: "u32 \<Rightarrow> bool" where "cc_start_trigger c = bit c 28"

definition dpcr_get_master_enable :: "u32 \<Rightarrow> nat \<Rightarrow> bool" where
  "dpcr_get_master_enable r ch = bit r (ch * 4 + 3)"
definition dicr_master_flag :: "u32 \<Rightarrow> bool" where "dicr_master_flag r = bit r 31"
definition dicr_set_irq_flag :: "nat \<Rightarrow> u32 \<Rightarrow> u32" where
  "dicr_set_irq_flag ch r = r OR push_bit (ch + 24) 1"
definition dicr_should_set_irq_flag :: "u32 \<Rightarrow> nat \<Rightarrow> bool" where
  "dicr_should_set_irq_flag r ch \<longleftrightarrow> drop_bit (ch + 16) r AND (drop_bit 23 r AND 1) \<noteq> 0"
definition dicr_update_master_flag :: "u32 \<Rightarrow> u32" where
  "dicr_update_master_flag r = flag_put 31 (r AND push_bit 15 1 \<noteq> 0 \<or>
     (r AND push_bit 23 1 \<noteq> 0 \<and> r AND push_bit 24 0x7F \<noteq> 0)) r"

definition upd_dma :: "(dma_state \<Rightarrow> dma_state) \<Rightarrow> 'a dma_sys_scheme \<Rightarrow> 'a dma_sys_scheme" where
  "upd_dma f s = s\<lparr>dma := f (dma s)\<rparr>"

definition upd_channel ::
  "nat \<Rightarrow> (dma_channel_state \<Rightarrow> dma_channel_state) \<Rightarrow> 'a dma_sys_scheme \<Rightarrow> 'a dma_sys_scheme" where
  "upd_channel ch f = upd_dma (\<lambda>d. d\<lparr>channels := (channels d)(ch := f (channels d ch))\<rparr>)"

definition dma_channel :: "'a dma_sys_scheme \<Rightarrow> nat \<Rightarrow> dma_channel_state" where
  "dma_channel s ch = channels (dma s) ch"

text \<open>The devices and settings the controller calls.\<close>

record 's dma_hooks =
  gpu_begin_dma_write :: "('s \<Rightarrow> bool \<times> 's) option"
  gpu_end_dma_write :: "('s \<Rightarrow> 's) option"
  gpu_dma_write :: "(u32 \<Rightarrow> u32 \<Rightarrow> 's \<Rightarrow> 's) option"
  gpu_dma_read :: "(nat \<Rightarrow> 's \<Rightarrow> u32 list \<times> 's) option"
  spu_dma_write :: "u32 list \<Rightarrow> 's \<Rightarrow> 's"
  mdec_dma_write_hook :: "u32 list \<Rightarrow> 's \<Rightarrow> 's"
  cdrom_dma_read :: "nat \<Rightarrow> 's \<Rightarrow> u32 list \<times> 's"
  spu_dma_read :: "nat \<Rightarrow> 's \<Rightarrow> u32 list \<times> 's"
  mdec_dma_read_hook :: "nat \<Rightarrow> 's \<Rightarrow> u32 list \<times> 's"
  pad_is_transmitting_hook :: "'s \<Rightarrow> bool"
  mdec_is_decoding_hook :: "'s \<Rightarrow> bool"
  dma_halt_ticks :: "tick_count option"
  dma_max_slice_ticks :: "tick_count option"
  cdrom_read_speedup :: "int option"

definition dma_settings_halt_ticks :: "'s dma_hooks \<Rightarrow> tick_count" where
  "dma_settings_halt_ticks h = (case dma_halt_ticks h of Some t \<Rightarrow> t | None \<Rightarrow> 100)"

definition dma_settings_max_slice_ticks :: "'s dma_hooks \<Rightarrow> tick_count" where
  "dma_settings_max_slice_ticks h = (case dma_max_slice_ticks h of Some t \<Rightarrow> t | None \<Rightarrow> 1000)"

section \<open>Interrupts, bus errors and completion\<close>

definition dma_is_transfer_halted :: "'a dma_sys_scheme \<Rightarrow> bool" where
  "dma_is_transfer_halted s = active (timing_events s DMA_UNHALT_EVENT)"

definition dma_can_transfer_channel :: "nat \<Rightarrow> bool \<Rightarrow> 'a dma_sys_scheme \<Rightarrow> bool" where
  "dma_can_transfer_channel ch ignore_halt s =
     (if \<not> dpcr_get_master_enable (DPCR (dma s)) ch then False
      else if \<not> cc_enable_busy (channel_control (dma_channel s ch)) then False
      else if cc_sync_mode (channel_control (dma_channel s ch)) \<noteq> 0 \<and>
              (dma_is_transfer_halted s \<and> \<not> ignore_halt) then False
      else request (dma_channel s ch))"

definition dma_update_irq :: "'a dma_sys_scheme \<Rightarrow> 'a dma_sys_scheme" where
  "dma_update_irq s =
     (let s = upd_dma (\<lambda>d. d\<lparr>DICR := dicr_update_master_flag (DICR d)\<rparr>) s
      in interrupt_controller_set_line_state IRQ_DMA (dicr_master_flag (DICR (dma s))) s)"

definition dma_is_linked_list_terminator :: "u32 \<Rightarrow> bool" where
  "dma_is_linked_list_terminator a \<longleftrightarrow> a AND LINKED_LIST_TERMINATOR = LINKED_LIST_TERMINATOR"

definition dma_check_for_bus_error ::
  "nat \<Rightarrow> u32 \<Rightarrow> u32 \<Rightarrow> 'a dma_sys_scheme \<Rightarrow> bool \<times> 'a dma_sys_scheme" where
  "dma_check_for_bus_error ch address sz s =
     (if ram_mapped_size (bus s) \<le> address + sz
      then (True, dma_update_irq
        (upd_dma (\<lambda>d. d\<lparr>DICR := dicr_set_irq_flag ch (flag_put 15 True (DICR d))\<rparr>)
          (upd_channel ch (\<lambda>c. c\<lparr>channel_control := flag_put 24 False (channel_control c)\<rparr>) s)))
      else (False, s))"

definition dma_complete_transfer :: "nat \<Rightarrow> 'a dma_sys_scheme \<Rightarrow> 'a dma_sys_scheme" where
  "dma_complete_transfer ch s =
     (let s = upd_dma (\<lambda>d. d\<lparr>dbg_transfer_counts :=
            (dbg_transfer_counts d)(ch := dbg_transfer_counts d ch + 1)\<rparr>) s;
          s = upd_channel ch (\<lambda>c. c\<lparr>channel_control := flag_put 24 False (channel_control c)\<rparr>) s
      in if dicr_should_set_irq_flag (DICR (dma s)) ch
         then dma_update_irq (upd_dma (\<lambda>d. d\<lparr>DICR := dicr_set_irq_flag ch (DICR d)\<rparr>) s)
         else s)"

definition dma_get_max_slice_ticks ::
  "('a dma_sys_scheme) dma_hooks \<Rightarrow> nat \<Rightarrow> tick_count \<Rightarrow> 'a dma_sys_scheme \<Rightarrow> tick_count" where
  "dma_get_max_slice_ticks h ch max_slice_size s =
     (let m = (if pad_is_transmitting_hook h s then SLICE_SIZE_WHEN_TRANSMITTING_PAD else max_slice_size);
          m = (if (ch = DMA_CHANNEL_MDECIN \<or> ch = DMA_CHANNEL_MDECOUT) \<and> mdec_is_decoding_hook h s
               then SLICE_SIZE_WHEN_DECODING_MDEC else m)
      in if current_event (timing s) = None then m
         else let remaining = to_s32 (uint (event_run_tick_counter (timing s) - global_tick_counter (timing s)));
                  res = m - remaining
              in if res < 1 then 1 else res)"

section \<open>Moving words\<close>

text \<open>Words at a stepping, wrapping address: read into, and written from, a contiguous list.\<close>

fun dma_gather :: "(nat \<Rightarrow> u8) \<Rightarrow> u32 \<Rightarrow> u32 \<Rightarrow> u32 \<Rightarrow> nat \<Rightarrow> u32 list" where
  "dma_gather m rm a inc 0 = []"
| "dma_gather m rm a inc (Suc n) = load_word m (unat a) # dma_gather m rm ((a + inc) AND rm) inc n"

fun dma_scatter :: "u32 list \<Rightarrow> u32 \<Rightarrow> u32 \<Rightarrow> u32 \<Rightarrow> (nat \<Rightarrow> u8) \<Rightarrow> (nat \<Rightarrow> u8)" where
  "dma_scatter [] rm a inc m = m"
| "dma_scatter (w # ws) rm a inc m = dma_scatter ws rm ((a + inc) AND rm) inc (store_word (unat a) w m)"

text \<open>\<open>memcpy\<close> between a list of words and a contiguous range.\<close>

fun store_words :: "nat \<Rightarrow> u32 list \<Rightarrow> (nat \<Rightarrow> u8) \<Rightarrow> (nat \<Rightarrow> u8)" where
  "store_words i [] m = m"
| "store_words i (w # ws) m = store_words (i + 4) ws (store_word i w m)"

definition buffer_put :: "u32 list \<Rightarrow> (nat \<Rightarrow> u32) \<Rightarrow> (nat \<Rightarrow> u32)" where
  "buffer_put ws b = (\<lambda>i. if i < List.length ws then ws ! i else b i)"

definition dma_needs_staging :: "u32 \<Rightarrow> u32 \<Rightarrow> u32 \<Rightarrow> u32 \<Rightarrow> bool" where
  "dma_needs_staging rm address increment word_count \<longleftrightarrow>
     sint increment < 0 \<or> (address + increment * word_count) AND rm \<le> address"

fun dma_gpu_words ::
  "('a dma_sys_scheme) dma_hooks \<Rightarrow> u32 \<Rightarrow> u32 \<Rightarrow> u32 \<Rightarrow> nat \<Rightarrow> 'a dma_sys_scheme \<Rightarrow> 'a dma_sys_scheme" where
  "dma_gpu_words h rm a inc 0 s = s"
| "dma_gpu_words h rm a inc (Suc n) s =
     (let v = load_word (ram (bus s)) (unat a);
          s = (case gpu_dma_write h of Some f \<Rightarrow> f a v s | None \<Rightarrow> s)
      in dma_gpu_words h rm ((a + inc) AND rm) inc n s)"

definition dma_gpu_write ::
  "('a dma_sys_scheme) dma_hooks \<Rightarrow> u32 \<Rightarrow> u32 \<Rightarrow> u32 \<Rightarrow> nat \<Rightarrow> 'a dma_sys_scheme \<Rightarrow> 'a dma_sys_scheme" where
  "dma_gpu_write h rm a inc n s =
     (case gpu_begin_dma_write h of None \<Rightarrow> s
      | Some start \<Rightarrow> let (ready, s) = start s in
          if \<not> ready then s
          else let s = dma_gpu_words h rm a inc n s
               in case gpu_end_dma_write h of Some f \<Rightarrow> f s | None \<Rightarrow> s)"

definition dma_transfer_memory_to_device ::
  "('a dma_sys_scheme) dma_hooks \<Rightarrow> nat \<Rightarrow> u32 \<Rightarrow> u32 \<Rightarrow> u32 \<Rightarrow> 'a dma_sys_scheme \<Rightarrow>
     tick_count \<times> 'a dma_sys_scheme" where
  "dma_transfer_memory_to_device h ch address increment word_count s =
     (let rm = ram_mask (bus s);
          address = address AND rm;
          n = unat word_count;
          staged = (ch \<noteq> DMA_CHANNEL_GPU \<and> dma_needs_staging rm address increment word_count);
          words = (if staged then dma_gather (ram (bus s)) rm address increment n
                   else map (\<lambda>i. load_word (ram (bus s)) (unat address + 4 * i)) [0..<n]);
          s = (if staged then upd_dma (\<lambda>d. d\<lparr>transfer_buffer := buffer_put words (transfer_buffer d)\<rparr>) s
               else s);
          s = (if ch = DMA_CHANNEL_GPU then dma_gpu_write h rm address increment n s
               else if ch = DMA_CHANNEL_SPU then spu_dma_write h words s
               else if ch = DMA_CHANNEL_MDECIN then mdec_dma_write_hook h words s
               else s)
      in (bus_get_dma_ram_tick_count word_count, s))"

fun otc_fill :: "u32 \<Rightarrow> u32 \<Rightarrow> nat \<Rightarrow> (nat \<Rightarrow> u8) \<Rightarrow> (nat \<Rightarrow> u8)" where
  "otc_fill rm a 0 m = store_word (unat a) LINKED_LIST_TERMINATOR m"
| "otc_fill rm a (Suc n) m =
     (let nxt = (a - 4) AND rm in otc_fill rm nxt n (store_word (unat a) nxt m))"

definition dma_device_words ::
  "('a dma_sys_scheme) dma_hooks \<Rightarrow> nat \<Rightarrow> nat \<Rightarrow> 'a dma_sys_scheme \<Rightarrow> u32 list \<times> 'a dma_sys_scheme" where
  "dma_device_words h ch n s =
     (if ch = DMA_CHANNEL_GPU then (case gpu_dma_read h of Some f \<Rightarrow> f n s | None \<Rightarrow> ([], s))
      else if ch = DMA_CHANNEL_CDROM then cdrom_dma_read h n s
      else if ch = DMA_CHANNEL_SPU then spu_dma_read h n s
      else if ch = DMA_CHANNEL_MDECOUT then mdec_dma_read_hook h n s
      else (replicate n 0xFFFFFFFF, s))"

text \<open>A CD-ROM transfer straight into RAM drops the code pages of the range.\<close>

definition dma_invalidate_pages :: "u32 \<Rightarrow> u32 \<Rightarrow> bus_state \<Rightarrow> bus_state" where
  "dma_invalidate_pages address len b =
     fold (\<lambda>page b. if bus_is_ram_code_page (of_nat page) b then bus_clear_ram_code_page (of_nat page) b else b)
       [unat (drop_bit HOST_PAGE_SHIFT address) ..< Suc (unat (drop_bit HOST_PAGE_SHIFT (address + len - 1)))] b"

definition dma_read_ticks :: "('a dma_sys_scheme) dma_hooks \<Rightarrow> nat \<Rightarrow> u32 \<Rightarrow> tick_count" where
  "dma_read_ticks h ch word_count =
     (let ticks = bus_get_dma_ram_tick_count word_count;
          speedup = (case cdrom_read_speedup h of Some v \<Rightarrow> v | None \<Rightarrow> 1)
      in if ch = DMA_CHANNEL_CDROM \<and> speedup \<noteq> 1
         then (if speedup = 0 then 0 else ticks sdiv speedup) else ticks)"

definition dma_transfer_device_to_memory ::
  "('a dma_sys_scheme) dma_hooks \<Rightarrow> nat \<Rightarrow> u32 \<Rightarrow> u32 \<Rightarrow> u32 \<Rightarrow> 'a dma_sys_scheme \<Rightarrow>
     tick_count \<times> 'a dma_sys_scheme" where
  "dma_transfer_device_to_memory h ch address increment word_count s =
     (let rm = ram_mask (bus s);
          address = address AND rm;
          n = unat word_count
      in if ch = DMA_CHANNEL_OTC
         then (bus_get_dma_ram_tick_count word_count,
               upd_bus (\<lambda>b. b\<lparr>ram := otc_fill rm address (n - 1) (ram b)\<rparr>) s)
         else let staged = dma_needs_staging rm address increment word_count;
                  s = (if \<not> staged \<and> ch = DMA_CHANNEL_CDROM
                       then upd_bus (dma_invalidate_pages address (increment * word_count)) s else s);
                  (words, s) = dma_device_words h ch n s;
                  s = (if staged
                       then let s = upd_dma (\<lambda>d. d\<lparr>transfer_buffer := buffer_put words (transfer_buffer d)\<rparr>) s
                            in upd_bus (\<lambda>b. b\<lparr>ram := dma_scatter (map (transfer_buffer (dma s)) [0..<n])
                                 rm address increment (ram b)\<rparr>) s
                       else upd_bus (\<lambda>b. b\<lparr>ram := store_words (unat address) words (ram b)\<rparr>) s)
              in (dma_read_ticks h ch word_count, s))"

end
