(* ===== verification/Dma_Transfer.thy ===== *)
theory Dma_Transfer
  imports Dma
begin

text \<open>
  The transfers of \<^verbatim>\<open>src/core/dma/dma.c\<close>: one function per sync mode, the halt
  event, the requests of the devices and the registers.

  The linked-list loop follows pointers in RAM that a program wrote, so it is a
  \<^theory_text>\<open>partial_function\<close>; that it returns is proved in \<^verbatim>\<open>Dma_Props\<close>.  The
  block loop counts its blocks down and recurses on them.
\<close>

type_synonym 's dma_result = "(bool \<times> 's) option"

definition put_base_address :: "nat \<Rightarrow> u32 \<Rightarrow> 'a dma_sys_scheme \<Rightarrow> 'a dma_sys_scheme" where
  "put_base_address ch a = upd_channel ch (\<lambda>c. c\<lparr>base_address := a\<rparr>)"

definition put_block_count :: "nat \<Rightarrow> nat \<Rightarrow> 'a dma_sys_scheme \<Rightarrow> 'a dma_sys_scheme" where
  "put_block_count ch n = upd_channel ch (\<lambda>c. c\<lparr>block_control := bits_set (block_control c) 16 16 (of_nat n)\<rparr>)"

section \<open>Halting\<close>

definition dma_halt_transfer :: "tick_count \<Rightarrow> 'a dma_sys_scheme \<Rightarrow> 'a dma_sys_scheme option" where
  "dma_halt_transfer duration s =
     (let s = upd_dma (\<lambda>d. d\<lparr>halt_ticks_remaining := halt_ticks_remaining d + duration\<rparr>) s
      in if active (timing_events s DMA_UNHALT_EVENT) then Some s
         else timing_event_set_interval_and_schedule DMA_UNHALT_EVENT (halt_ticks_remaining (dma s)) s)"

section \<open>The transfer modes\<close>

definition dma_increment :: "u32 \<Rightarrow> u32" where
  "dma_increment control = (if cc_address_step_reverse control then - 4 else 4)"

definition count_or_64k :: "u32 \<Rightarrow> u32" where
  "count_or_64k n = (if n = 0 then 0x10000 else n)"

definition dma_manual ::
  "('a dma_sys_scheme) dma_hooks \<Rightarrow> nat \<Rightarrow> 'a dma_sys_scheme \<Rightarrow> bool \<times> 'a dma_sys_scheme" where
  "dma_manual h ch s =
     (let c = dma_channel s ch;
          increment = dma_increment (channel_control c);
          word_count = count_or_64k (bc_word_count (block_control c));
          address = base_address c AND TRANSFER_ADDRESS_MASK;
          (failed, s) = dma_check_for_bus_error ch address ((word_count - 1) * increment) s
      in if failed then (True, s)
         else let (ticks, s) = (if cc_copy_to_device (channel_control c)
                                then dma_transfer_memory_to_device h ch address increment word_count s
                                else dma_transfer_device_to_memory h ch address increment word_count s)
              in (True, dma_complete_transfer ch (bus_cycles ticks s)))"

text \<open>
  One node of a linked list: the transfer is over with this node, or continues at the next
  address with the ticks left.
\<close>

datatype 's dma_node = Node_Done 's | Node_Next u32 tick_count 's

definition dma_linked_list_node ::
  "('a dma_sys_scheme) dma_hooks \<Rightarrow> nat \<Rightarrow> u32 \<Rightarrow> u32 \<Rightarrow> u32 \<Rightarrow> tick_count \<Rightarrow> 'a dma_sys_scheme \<Rightarrow>
     ('a dma_sys_scheme) dma_node" where
  "dma_linked_list_node h ch increment rm current remaining s =
     (let address = current AND TRANSFER_ADDRESS_MASK;
          (failed, s) = dma_check_for_bus_error ch address 4 s
      in if failed then Node_Done (put_base_address ch current s)
         else let header = load_word (ram (bus s)) (unat (address AND rm));
                  word_count = drop_bit 24 header;
                  next_address = header AND 0x00FFFFFF;
                  setup_ticks = (if word_count > 0
                    then LINKED_LIST_HEADER_READ_TICKS + LINKED_LIST_BLOCK_SETUP_TICKS
                    else LINKED_LIST_HEADER_READ_TICKS);
                  s = bus_cycles setup_ticks s;
                  remaining = remaining - setup_ticks;
                  (failed, s) = (if word_count > 0
                    then dma_check_for_bus_error ch address ((word_count - 1) * increment) s else (False, s))
              in if failed then Node_Done (put_base_address ch current s)
                 else let (remaining, s) = (if word_count > 0
                            then let (ticks, s) = dma_transfer_memory_to_device h ch (address + 4) 4 word_count s
                                 in (remaining - ticks, bus_cycles ticks s)
                            else (remaining, s))
                      in if dma_is_linked_list_terminator next_address
                         then Node_Done (dma_complete_transfer ch
                           (put_base_address ch LINKED_LIST_TERMINATOR s))
                         else Node_Next next_address remaining s)"

partial_function (option) dma_linked_list_loop ::
  "('a dma_sys_scheme) dma_hooks \<Rightarrow> nat \<Rightarrow> u32 \<Rightarrow> u32 \<Rightarrow> u32 \<Rightarrow> tick_count \<Rightarrow> 'a dma_sys_scheme \<Rightarrow>
     ('a dma_sys_scheme) dma_result" where
  "dma_linked_list_loop h ch increment rm current remaining s =
     (if request (dma_channel s ch) \<and> remaining > 0
      then (case dma_linked_list_node h ch increment rm current remaining s of
              Node_Done s \<Rightarrow> Some (True, s)
            | Node_Next current remaining s \<Rightarrow> dma_linked_list_loop h ch increment rm current remaining s)
      else let s = put_base_address ch current s
           in if request (dma_channel s ch)
              then map_option (Pair False) (dma_halt_transfer (dma_settings_halt_ticks h) s)
              else Some (True, s))"

definition dma_linked_list ::
  "('a dma_sys_scheme) dma_hooks \<Rightarrow> nat \<Rightarrow> 'a dma_sys_scheme \<Rightarrow> ('a dma_sys_scheme) dma_result" where
  "dma_linked_list h ch s =
     (let c = dma_channel s ch
      in if \<not> cc_copy_to_device (channel_control c) then None
         else dma_linked_list_loop h ch (dma_increment (channel_control c)) (ram_mask (bus s)) (base_address c)
           (dma_get_max_slice_ticks h ch (dma_settings_max_slice_ticks h) s) s)"

text \<open>
  The blocks of a request transfer: whether a bus error ended it, the next address and the
  blocks left.
\<close>

fun dma_request_blocks ::
  "('a dma_sys_scheme) dma_hooks \<Rightarrow> nat \<Rightarrow> bool \<Rightarrow> u32 \<Rightarrow> u32 \<Rightarrow> u32 \<Rightarrow> tick_count \<Rightarrow> nat \<Rightarrow>
     'a dma_sys_scheme \<Rightarrow> bool \<times> u32 \<times> nat \<times> 'a dma_sys_scheme" where
  "dma_request_blocks h ch to_device increment block_size current remaining 0 s = (False, current, 0, s)"
| "dma_request_blocks h ch to_device increment block_size current remaining (Suc n) s =
     (let address = current AND TRANSFER_ADDRESS_MASK;
          (failed, s) = dma_check_for_bus_error ch address ((block_size - 1) * increment) s
      in if failed then (True, current, Suc n, s)
         else let (ticks, s) = (if to_device
                    then dma_transfer_memory_to_device h ch address increment block_size s
                    else dma_transfer_device_to_memory h ch address increment block_size s);
                  s = bus_cycles ticks s;
                  remaining = remaining - ticks;
                  current = address + increment * block_size
              in if request (dma_channel s ch) \<and> n > 0 \<and> remaining > 0
                 then dma_request_blocks h ch to_device increment block_size current remaining n s
                 else (False, current, n, s))"

definition dma_request ::
  "('a dma_sys_scheme) dma_hooks \<Rightarrow> nat \<Rightarrow> 'a dma_sys_scheme \<Rightarrow> ('a dma_sys_scheme) dma_result" where
  "dma_request h ch s =
     (let c = dma_channel s ch;
          block_size = count_or_64k (bc_word_count (block_control c));
          blocks = unat (count_or_64k (bc_block_count (block_control c)));
          slice = dma_get_max_slice_ticks h ch (dma_settings_max_slice_ticks h) s;
          (failed, current, blocks, s) = dma_request_blocks h ch (cc_copy_to_device (channel_control c))
            (dma_increment (channel_control c)) block_size (base_address c) slice blocks s;
          s = put_block_count ch blocks (put_base_address ch current s)
      in if failed then Some (True, s)
         else if blocks > 0
         then if request (dma_channel s ch)
              then map_option (Pair False)
                (if active (timing_events s DMA_UNHALT_EVENT) then Some s
                 else dma_halt_transfer (dma_settings_halt_ticks h) s)
              else Some (True, s)
         else Some (True, dma_complete_transfer ch s))"

definition dma_transfer_channel ::
  "('a dma_sys_scheme) dma_hooks \<Rightarrow> nat \<Rightarrow> 'a dma_sys_scheme \<Rightarrow> ('a dma_sys_scheme) dma_result" where
  "dma_transfer_channel h ch s =
     (let s = upd_channel ch (\<lambda>c. c\<lparr>channel_control := flag_put 28 False (channel_control c)\<rparr>) s;
          mode = cc_sync_mode (channel_control (dma_channel s ch))
      in if mode = 0 then Some (dma_manual h ch s)
         else if mode = 2 then dma_linked_list h ch s
         else if mode = 1 then dma_request h ch s
         else None)"

section \<open>Requests and the unhalt event\<close>

definition dma_set_request ::
  "('a dma_sys_scheme) dma_hooks \<Rightarrow> nat \<Rightarrow> bool \<Rightarrow> 'a dma_sys_scheme \<Rightarrow> 'a dma_sys_scheme option" where
  "dma_set_request h ch b s =
     (if request (dma_channel s ch) = b then Some s
      else let s = upd_channel ch (\<lambda>c. c\<lparr>request := b\<rparr>) s
           in if dma_can_transfer_channel ch False s
              then map_option snd (dma_transfer_channel h ch s) else Some s)"

text \<open>The channels in turn, until one halts; whether all had their turn.\<close>

fun dma_sweep ::
  "('a dma_sys_scheme) dma_hooks \<Rightarrow> nat list \<Rightarrow> 'a dma_sys_scheme \<Rightarrow> ('a dma_sys_scheme) dma_result" where
  "dma_sweep h [] s = Some (True, s)"
| "dma_sweep h (ch # chs) s =
     (if dma_can_transfer_channel ch False s
      then (case dma_transfer_channel h ch s of
              None \<Rightarrow> None
            | Some (continue, s) \<Rightarrow> if continue then dma_sweep h chs s else Some (False, s))
      else dma_sweep h chs s)"

definition dma_unhalt_transfer ::
  "('a dma_sys_scheme) dma_hooks \<Rightarrow> tick_count \<Rightarrow> 'a dma_sys_scheme \<Rightarrow> 'a dma_sys_scheme option" where
  "dma_unhalt_transfer h ticks s = do {
     s \<leftarrow> timing_event_deactivate DMA_UNHALT_EVENT
       (upd_dma (\<lambda>d. d\<lparr>halt_ticks_remaining := halt_ticks_remaining d - ticks\<rparr>) s);
     (all_done, s) \<leftarrow> dma_sweep h [0..<DMA_NUM_CHANNELS] s;
     Some (if all_done then upd_dma (\<lambda>d. d\<lparr>halt_ticks_remaining := 0\<rparr>) s else s) }"

section \<open>Reset\<close>

definition dma_channel_zero :: dma_channel_state where
  "dma_channel_zero = \<lparr>base_address = 0, block_control = 0, channel_control = 0, request = False\<rparr>"

definition dma_clear_state :: "'a dma_sys_scheme \<Rightarrow> 'a dma_sys_scheme" where
  "dma_clear_state = upd_dma (\<lambda>d. d\<lparr>
     channels := (\<lambda>i. if i < DMA_NUM_CHANNELS then dma_channel_zero else channels d i),
     DPCR := 0x07654321, DICR := 0, halt_ticks_remaining := 0\<rparr>)"

definition dma_reset :: "'a dma_sys_scheme \<Rightarrow> 'a dma_sys_scheme option" where
  "dma_reset s = timing_event_deactivate DMA_UNHALT_EVENT (dma_clear_state s)"

definition dma_initialize :: "('a dma_sys_scheme) dma_hooks \<Rightarrow> 'a dma_sys_scheme \<Rightarrow> 'a dma_sys_scheme option" where
  "dma_initialize h s = dma_reset (timing_event_set_interval DMA_UNHALT_EVENT (dma_settings_halt_ticks h)
     (timing_event_init DMA_UNHALT_EVENT 1 1 s))"

section \<open>Registers\<close>

definition dma_read_register :: "u32 \<Rightarrow> 'a dma_sys_scheme \<Rightarrow> u32" where
  "dma_read_register offset s =
     (let ch = unat (drop_bit 4 offset); c = dma_channel s ch
      in if ch < 7
         then if offset AND 0xF = 0 then base_address c
              else if offset AND 0xF = 4 then block_control c
              else if offset AND 0xF = 8 then channel_control c
              else 0xFFFFFFFF
         else if offset = 0x70 then DPCR (dma s)
         else if offset = 0x74 then DICR (dma s)
         else 0xFFFFFFFF)"

text \<open>The delay that stands for a chopped manual transfer, in ticks.\<close>

definition dma_chopping_delay :: "dma_channel_state \<Rightarrow> tick_count" where
  "dma_chopping_delay c =
     (let cpu_cycles_per_block = push_bit (cc_chopping_cpu_window_size (channel_control c)) (1 :: u32);
          blocks = drop_bit (cc_chopping_dma_window_size (channel_control c)) (bc_word_count (block_control c))
      in min 500 (sint (cpu_cycles_per_block * blocks)))"

definition dma_write_control ::
  "('a dma_sys_scheme) dma_hooks \<Rightarrow> nat \<Rightarrow> u32 \<Rightarrow> 'a dma_sys_scheme \<Rightarrow> 'a dma_sys_scheme option" where
  "dma_write_control h ch v s = do {
     let ignore_halt = (\<not> cc_enable_busy (channel_control (dma_channel s ch)) \<and> bit v 24);
     let s = upd_channel ch (\<lambda>c. c\<lparr>channel_control :=
       (channel_control c AND NOT CHANNEL_CONTROL_WRITE_MASK) OR (v AND CHANNEL_CONTROL_WRITE_MASK)\<rparr>) s;
     s \<leftarrow> (if ch = DMA_CHANNEL_OTC
           then dma_set_request h ch (cc_start_trigger (channel_control (dma_channel s ch))) s else Some s);
     let c = dma_channel s ch;
     if dma_can_transfer_channel ch ignore_halt s
     then if ch \<noteq> DMA_CHANNEL_OTC \<and> cc_sync_mode (channel_control c) = 0 \<and> cc_chopping_enable (channel_control c) \<and>
             bc_word_count (block_control c) > 4 \<and> dma_chopping_delay c > 1
          then dma_halt_transfer (dma_chopping_delay c) s
          else map_option snd (dma_transfer_channel h ch s)
     else Some s }"

definition dma_write_register ::
  "('a dma_sys_scheme) dma_hooks \<Rightarrow> u32 \<Rightarrow> u32 \<Rightarrow> 'a dma_sys_scheme \<Rightarrow> 'a dma_sys_scheme option" where
  "dma_write_register h offset v s =
     (let ch = unat (drop_bit 4 offset)
      in if ch < 7
         then if offset AND 0xF = 0
              then Some (upd_channel ch (\<lambda>c. c\<lparr>base_address := v AND BASE_ADDRESS_MASK\<rparr>) s)
              else if offset AND 0xF = 4 then Some (upd_channel ch (\<lambda>c. c\<lparr>block_control := v\<rparr>) s)
              else if offset AND 0xF = 8 then dma_write_control h ch v s
              else Some s
         else if offset = 0x70
         then map_option snd (dma_sweep h [0..<DMA_NUM_CHANNELS] (upd_dma (\<lambda>d. d\<lparr>DPCR := v\<rparr>) s))
         else if offset = 0x74
         then Some (dma_update_irq (upd_dma (\<lambda>d. d\<lparr>DICR :=
           ((DICR d AND NOT DICR_WRITE_MASK) OR (v AND DICR_WRITE_MASK)) AND NOT (v AND DICR_RESET_MASK)\<rparr>) s))
         else Some s)"

end
