(* ===== verification/Dma_Props.thy ===== *)
theory Dma_Props
  imports Dma_Transfer Bus_Frame Timers_Inv Bus_Props
begin

text \<open>
  What the DMA controller promises: every register access, device request and end of a halt
  returns - the linked-list walk included, whatever the list in RAM looks like - and keeps the
  machine well-formed, with the interrupt line equal to the master flag; the core of the CPU is
  left alone.
\<close>

section \<open>Well-formedness\<close>

text \<open>The master flag as the hardware documents it.\<close>

definition dicr_master :: "u32 \<Rightarrow> bool" where
  "dicr_master r \<longleftrightarrow> bit r 15 \<or> (bit r 23 \<and> (\<exists>n. 24 \<le> n \<and> n \<le> 30 \<and> bit r n))"

definition dma_irq_ok :: "'a dma_sys_scheme \<Rightarrow> bool" where
  "dma_irq_ok s \<longleftrightarrow> dicr_master_flag (DICR (dma s)) = dicr_master (DICR (dma s)) \<and>
     irq_line_high s IRQ_DMA = dicr_master_flag (DICR (dma s))"

text \<open>The modes the source implements; the others panic.\<close>

definition dma_mode_ok :: "u32 \<Rightarrow> bool" where
  "dma_mode_ok c \<longleftrightarrow> cc_sync_mode c \<noteq> 3 \<and> (cc_sync_mode c = 2 \<longrightarrow> cc_copy_to_device c)"

definition dma_wf :: "'a dma_sys_scheme \<Rightarrow> bool" where
  "dma_wf s \<longleftrightarrow> dma_irq_ok s \<and> (\<exists>xs. sched_queue s xs) \<and>
     (\<forall>ch<DMA_NUM_CHANNELS. dma_mode_ok (channel_control (dma_channel s ch)))"

text \<open>One operation's promise, and that of the devices.\<close>

definition dma_keeps :: "'a dma_sys_scheme \<Rightarrow> 'a dma_sys_scheme \<Rightarrow> bool" where
  "dma_keeps s s' \<longleftrightarrow> (dma_wf s \<longrightarrow> dma_wf s') \<and> core_same (cpu s) (cpu s')"

lemma dma_keeps_refl [simp]: "dma_keeps s s"
  by (simp add: dma_keeps_def)

lemma dma_keeps_trans [trans]: "dma_keeps a b \<Longrightarrow> dma_keeps b c \<Longrightarrow> dma_keeps a c"
  by (auto simp: dma_keeps_def)

definition dma_hooks_ok :: "('a dma_sys_scheme) dma_hooks \<Rightarrow> bool" where
  "dma_hooks_ok h \<longleftrightarrow>
     (\<forall>f s. gpu_begin_dma_write h = Some f \<longrightarrow> dma_keeps s (snd (f s))) \<and>
     (\<forall>f s. gpu_end_dma_write h = Some f \<longrightarrow> dma_keeps s (f s)) \<and>
     (\<forall>f a v s. gpu_dma_write h = Some f \<longrightarrow> dma_keeps s (f a v s)) \<and>
     (\<forall>f n s. gpu_dma_read h = Some f \<longrightarrow> dma_keeps s (snd (f n s))) \<and>
     (\<forall>ws s. dma_keeps s (spu_dma_write h ws s)) \<and> (\<forall>ws s. dma_keeps s (mdec_dma_write_hook h ws s)) \<and>
     (\<forall>n s. dma_keeps s (snd (cdrom_dma_read h n s))) \<and> (\<forall>n s. dma_keeps s (snd (spu_dma_read h n s))) \<and>
     (\<forall>n s. dma_keeps s (snd (mdec_dma_read_hook h n s)))"

section \<open>Steps\<close>

lemma sched_queue_cong:
  "timing s' = timing s \<Longrightarrow> timing_events s' = timing_events s \<Longrightarrow> sched_queue s' xs = sched_queue s xs"
  by (simp add: sched_queue_def sched_dll_def)

lemma wf_frame:
  "timing s' = timing s \<Longrightarrow> timing_events s' = timing_events s \<Longrightarrow> intc s' = intc s \<Longrightarrow>
   DICR (dma s') = DICR (dma s) \<Longrightarrow>
   (\<And>ch. channel_control (dma_channel s' ch) = channel_control (dma_channel s ch)) \<Longrightarrow> dma_wf s' = dma_wf s"
proof -
  assume "timing s' = timing s" "timing_events s' = timing_events s" "intc s' = intc s"
    "DICR (dma s') = DICR (dma s)"
    and c: "\<And>ch. channel_control (dma_channel s' ch) = channel_control (dma_channel s ch)"
  then have "dma_irq_ok s' = dma_irq_ok s" "sched_queue s' xs = sched_queue s xs" for xs
    by (simp add: dma_irq_ok_def irq_line_high_def) (rule sched_queue_cong; fact)
  then show ?thesis by (simp only: dma_wf_def c)
qed

lemma more_dma:
  "sched_sys.more s' = sched_sys.more s \<Longrightarrow> dma s' = dma s \<and> bus s' = bus s"
  by (cases s; cases s') simp

lemma core_downcount: "c'\<lparr>downcount := 0\<rparr> = c\<lparr>downcount := 0\<rparr> \<Longrightarrow> core_same c c'"
  by (cases c; cases c') (simp add: core_view_def)

lemma env_keeps: "sched_env s s' \<Longrightarrow> \<exists>ys. sched_queue s' ys \<Longrightarrow> dma_keeps s s'"
  using more_dma [of s' s]
  by (auto simp: sched_env_def dma_keeps_def dma_wf_def dma_irq_ok_def irq_line_high_def dma_channel_def
      intro!: core_downcount)

lemma deactivate_keeps:
  assumes "dma_wf s"
  shows "\<exists>s'. timing_event_deactivate e s = Some s' \<and> dma_keeps s s'"
  using deactivate_queue [of s _ e] assms env_keeps unfolding dma_wf_def by blast

lemma set_interval_keeps: "dma_keeps s (timing_event_set_interval e t s)"
proof -
  have "sched_queue (timing_event_set_interval e t s) xs = sched_queue s xs" for xs
  proof -
    have "ev_time (timing_event_set_interval e t s) = ev_time s"
      by (rule ext) (simp add: timing_event_set_interval_def)
    moreover have "active (timing_events (timing_event_set_interval e t s) x) = active (timing_events s x)" for x
      by (simp add: timing_event_set_interval_def)
    ultimately show ?thesis
      by (simp only: sched_queue_def) (simp add: timing_event_set_interval_def sched_dll_upd)
  qed
  then show ?thesis
    by (simp add: dma_keeps_def dma_wf_def dma_irq_ok_def irq_line_high_def dma_channel_def
        timing_event_set_interval_def upd_event_def)
qed

lemma schedule_keeps:
  assumes "dma_wf s"
  shows "\<exists>s'. timing_event_set_interval_and_schedule e t s = Some s' \<and> dma_keeps s s'"
proof -
  let ?s = "timing_event_set_interval e t s"
  have k: "dma_keeps s ?s" by (rule set_interval_keeps)
  then obtain xs where "sched_queue ?s xs" using assms by (auto simp: dma_keeps_def dma_wf_def)
  from schedule_refines [OF this, of e t] obtain s' ys where
    "timing_event_schedule e t ?s = Some s'" "sched_queue s' ys" "sched_env ?s s'"
    by (auto simp: rescheduled_def)
  then show ?thesis using k env_keeps dma_keeps_trans
    by (fastforce simp: timing_event_set_interval_and_schedule_def)
qed

lemma master_flag_update:
  "dicr_master_flag (dicr_update_master_flag r) = dicr_master (dicr_update_master_flag r)"
proof -
  have "r AND push_bit 24 0x7F \<noteq> 0 \<longleftrightarrow> (\<exists>n. 24 \<le> n \<and> n \<le> 30 \<and> bit r n)"
  proof -
    have "bit (push_bit 24 0x7F :: u32) n \<longleftrightarrow> 24 \<le> n \<and> n \<le> 30" for n
    proof -
      have "(0x7F :: u32) = mask 7" by (simp add: mask_eq_exp_minus_1)
      then have "bit (push_bit 24 0x7F :: u32) n = bit (push_bit 24 (mask 7) :: u32) n" by simp
      also have "\<dots> \<longleftrightarrow> 24 \<le> n \<and> n \<le> 30" by (auto simp: bit_push_bit_iff bit_mask_iff)
      finally show ?thesis .
    qed
    then show ?thesis by (auto simp: word_and_nonzero_iff)
  qed
  moreover have "r AND push_bit i 1 \<noteq> 0 \<longleftrightarrow> bit r i" for r :: u32 and i
    using bit_imp_le_length [of r i] by (auto simp: word_and_nonzero_iff bit_simps)
  ultimately have u: "dicr_update_master_flag r = flag_put 31 (dicr_master r) r"
    unfolding dicr_update_master_flag_def dicr_master_def by (simp only:)
  have "24 \<le> n \<and> n \<le> 30 \<and> bit (flag_put 31 b r) n \<longleftrightarrow> 24 \<le> n \<and> n \<le> 30 \<and> bit r n" for b n
    by (cases "n \<le> 30") simp_all
  then have "dicr_master (flag_put 31 b r) = dicr_master r" for b
    by (simp only: dicr_master_def) simp
  then show ?thesis unfolding u by (simp add: dicr_master_flag_def)
qed

lemma set_line_dma [simp]:
  "timing (interrupt_controller_set_line_state i b s) = timing s"
  "timing_events (interrupt_controller_set_line_state i b s) = timing_events s"
  "dma (interrupt_controller_set_line_state i b s) = dma s"
  "bus (interrupt_controller_set_line_state i b s) = bus s"
  by (simp_all add: interrupt_controller_set_line_state_def interrupt_controller_update_cpu_request_def Let_def)

lemma upd_dma_simps [simp]:
  "timing (upd_dma f s) = timing s" "timing_events (upd_dma f s) = timing_events s"
  "cpu (upd_dma f s) = cpu s" "intc (upd_dma f s) = intc s" "bus (upd_dma f s) = bus s"
  "dma (upd_dma f s) = f (dma s)"
  "timing (upd_channel ch g s) = timing s" "timing_events (upd_channel ch g s) = timing_events s"
  "cpu (upd_channel ch g s) = cpu s" "intc (upd_channel ch g s) = intc s" "bus (upd_channel ch g s) = bus s"
  "DICR (dma (upd_channel ch g s)) = DICR (dma s)" "DPCR (dma (upd_channel ch g s)) = DPCR (dma s)"
  "dma_channel (upd_dma (\<lambda>d. d\<lparr>DICR := v d\<rparr>) s) = dma_channel s"
  "dma_channel (upd_channel ch g s) c = (if c = ch then g (dma_channel s ch) else dma_channel s c)"
  by (simp_all add: upd_dma_def upd_channel_def dma_channel_def fun_eq_iff)

lemma update_irq_wf:
  assumes "sched_queue s xs" "\<forall>ch<DMA_NUM_CHANNELS. dma_mode_ok (channel_control (dma_channel s ch))"
  shows "dma_wf (dma_update_irq s)"
proof -
  have q: "sched_queue (dma_update_irq s) xs"
    using assms(1) by (subst sched_queue_cong [of _ s]) (simp_all add: dma_update_irq_def Let_def)
  have i: "IRQ_DMA < 32" by (simp add: IRQ_DMA_def)
  have "dma_irq_ok (dma_update_irq s)"
    by (simp add: dma_irq_ok_def dma_update_irq_def Let_def master_flag_update set_line_state_line [OF i])
  then show ?thesis
    using q assms(2) by (auto simp: dma_wf_def dma_channel_def dma_update_irq_def Let_def)
qed

lemma update_irq_core: "core_same (cpu s) (cpu (dma_update_irq s))"
  using set_line_core [where s = "upd_dma (\<lambda>d. d\<lparr>DICR := dicr_update_master_flag (DICR d)\<rparr>) s"]
  by (simp add: dma_update_irq_def Let_def)

lemma mode_ok_flag [simp]:
  "dma_mode_ok (flag_put 24 b c) = dma_mode_ok c" "dma_mode_ok (flag_put 28 b c) = dma_mode_ok c"
proof -
  have "bits_get (flag_put 24 b c) 9 2 = bits_get c 9 2" "bits_get (flag_put 28 b c) 9 2 = bits_get c 9 2"
    by (rule bit_word_eqI; auto dest: bit_imp_le_length)+
  then show "dma_mode_ok (flag_put 24 b c) = dma_mode_ok c" "dma_mode_ok (flag_put 28 b c) = dma_mode_ok c"
    by (simp_all add: dma_mode_ok_def cc_sync_mode_def cc_copy_to_device_def)
qed

lemma flag_irq_keeps:
  assumes "\<And>ch. dma_mode_ok (channel_control (dma_channel t ch)) = dma_mode_ok (channel_control (dma_channel s ch))"
    and "timing t = timing s" "timing_events t = timing_events s" "core_same (cpu s) (cpu t)"
  shows "dma_keeps s (dma_update_irq t)"
  using update_irq_wf [of t] update_irq_core [of t] assms sched_queue_cong [OF assms(2,3)]
  by (auto simp: dma_keeps_def dma_wf_def)

lemma channel_keeps:
  assumes "\<And>c. dma_mode_ok (channel_control (g c)) = dma_mode_ok (channel_control c)"
  shows "dma_keeps s (upd_channel ch g s)"
proof -
  have "dma_mode_ok (channel_control (dma_channel (upd_channel ch g s) c)) =
      dma_mode_ok (channel_control (dma_channel s c))" for c
    using assms by simp
  moreover have "sched_queue (upd_channel ch g s) xs = sched_queue s xs" for xs
    by (rule sched_queue_cong) simp_all
  moreover have "dma_irq_ok (upd_channel ch g s) = dma_irq_ok s"
    by (simp add: dma_irq_ok_def irq_line_high_def)
  ultimately show ?thesis by (simp add: dma_keeps_def dma_wf_def)
qed

lemma frame_keeps:
  assumes "timing s' = timing s" "timing_events s' = timing_events s" "intc s' = intc s"
    "DICR (dma s') = DICR (dma s)" "channels (dma s') = channels (dma s)" "core_same (cpu s) (cpu s')"
  shows "dma_keeps s s'"
  using wf_frame [OF assms(1-4)] assms(5,6) by (simp add: dma_keeps_def dma_channel_def)

lemma cycles_keeps [simp]: "dma_keeps s (bus_cycles t s)"
  by (rule frame_keeps) (simp_all add: bus_cycles_def cpu_add_pending_ticks_def core_view_def)

lemma upd_bus_keeps [simp]: "dma_keeps s (upd_bus f s)"
  by (rule frame_keeps) (simp_all add: upd_bus_def)

lemma buffer_keeps [simp]: "dma_keeps s (upd_dma (\<lambda>d. d\<lparr>transfer_buffer := f d\<rparr>) s)"
  "dma_keeps s (upd_dma (\<lambda>d. d\<lparr>halt_ticks_remaining := g d\<rparr>) s)"
  "dma_keeps s (upd_dma (\<lambda>d. d\<lparr>dbg_transfer_counts := k d\<rparr>) s)"
  "dma_keeps s (upd_dma (\<lambda>d. d\<lparr>DPCR := v\<rparr>) s)"
  by (rule frame_keeps; simp)+

lemma put_keeps [simp]:
  "dma_keeps s (put_base_address ch a s)" "dma_keeps s (put_block_count ch n s)"
  by (simp_all add: put_base_address_def put_block_count_def channel_keeps)

lemma bus_error_keeps: "dma_keeps s (snd (dma_check_for_bus_error ch a n s))"
  by (simp add: dma_check_for_bus_error_def) (rule impI, rule flag_irq_keeps; simp)

lemma complete_keeps: "dma_keeps s (dma_complete_transfer ch s)"
proof -
  let ?c = "upd_channel ch (\<lambda>c. c\<lparr>channel_control := flag_put 24 False (channel_control c)\<rparr>)
    (upd_dma (\<lambda>d. d\<lparr>dbg_transfer_counts := (dbg_transfer_counts d)(ch := dbg_transfer_counts d ch + 1)\<rparr>) s)"
  have "dma_keeps s ?c" by (rule dma_keeps_trans [OF buffer_keeps(3) channel_keeps]) simp
  moreover have "dma_keeps s (dma_update_irq (upd_dma (\<lambda>d. d\<lparr>DICR := v d\<rparr>) ?c))" for v
    by (rule flag_irq_keeps) (simp_all add: dma_channel_def upd_dma_def upd_channel_def)
  ultimately show ?thesis by (simp add: dma_complete_transfer_def Let_def)
qed

section \<open>Transfers\<close>

lemma gpu_words_keeps: "dma_hooks_ok h \<Longrightarrow> dma_keeps s (dma_gpu_words h rm a inc n s)"
proof (induction n arbitrary: a s)
  case (Suc n)
  have "dma_keeps s (case gpu_dma_write h of Some f \<Rightarrow> f a v s | None \<Rightarrow> s)" for v
    using Suc.prems by (auto simp: dma_hooks_ok_def split: option.splits)
  then show ?case
    by (simp add: Let_def) (rule dma_keeps_trans, assumption, rule Suc.IH [OF Suc.prems])
qed simp

lemma gpu_write_keeps:
  assumes "dma_hooks_ok h"
  shows "dma_keeps s (dma_gpu_write h rm a inc n s)"
proof (cases "gpu_begin_dma_write h")
  case (Some start)
  obtain ready t where t: "start s = (ready, t)" by (cases "start s")
  let ?u = "dma_gpu_words h rm a inc n t"
  have "dma_keeps s (snd (start s))" using assms Some by (simp add: dma_hooks_ok_def)
  then have "dma_keeps s t" using t by simp
  moreover have "dma_keeps t ?u" by (rule gpu_words_keeps [OF assms])
  moreover have "dma_keeps ?u (case gpu_end_dma_write h of Some f \<Rightarrow> f ?u | None \<Rightarrow> ?u)"
    using assms by (auto simp: dma_hooks_ok_def split: option.splits)
  ultimately show ?thesis using Some t
    by (auto simp: dma_gpu_write_def Let_def intro: dma_keeps_trans)
qed (simp add: dma_gpu_write_def)

lemma to_device_keeps:
  assumes "dma_hooks_ok h"
  shows "dma_keeps s (snd (dma_transfer_memory_to_device h ch a inc wc s))"
proof -
  define t where "t = (if ch \<noteq> DMA_CHANNEL_GPU \<and> dma_needs_staging (ram_mask (bus s)) (a AND ram_mask (bus s)) inc wc
    then upd_dma (\<lambda>d. d\<lparr>transfer_buffer := buffer_put (dma_gather (ram (bus s)) (ram_mask (bus s))
      (a AND ram_mask (bus s)) inc (unat wc)) (transfer_buffer d)\<rparr>) s else s)"
  have "dma_keeps s t" by (simp add: t_def)
  moreover have "dma_keeps t (dma_gpu_write h rm b inc n t)" for rm b n
    by (rule gpu_write_keeps [OF assms])
  moreover have "dma_keeps t (spu_dma_write h ws t)" "dma_keeps t (mdec_dma_write_hook h ws t)" for ws
    using assms by (simp_all add: dma_hooks_ok_def)
  ultimately have k: "dma_keeps s t" "\<And>rm b n. dma_keeps s (dma_gpu_write h rm b inc n t)"
      "\<And>ws. dma_keeps s (spu_dma_write h ws t)" "\<And>ws. dma_keeps s (mdec_dma_write_hook h ws t)"
    using dma_keeps_trans by blast+
  have "\<exists>ws. snd (dma_transfer_memory_to_device h ch a inc wc s) =
      (if ch = DMA_CHANNEL_GPU then dma_gpu_write h (ram_mask (bus s)) (a AND ram_mask (bus s)) inc (unat wc) t
       else if ch = DMA_CHANNEL_SPU then spu_dma_write h ws t
       else if ch = DMA_CHANNEL_MDECIN then mdec_dma_write_hook h ws t else t)"
    by (auto simp: dma_transfer_memory_to_device_def Let_def t_def)
  then show ?thesis using k by auto
qed

lemma device_words_keeps:
  "dma_hooks_ok h \<Longrightarrow> dma_keeps s (snd (dma_device_words h ch n s))"
  by (auto simp: dma_device_words_def dma_hooks_ok_def split: option.splits)

lemma to_memory_keeps:
  assumes "dma_hooks_ok h"
  shows "dma_keeps s (snd (dma_transfer_device_to_memory h ch a inc wc s))"
proof (cases "ch = DMA_CHANNEL_OTC")
  case False
  define t where "t = (if \<not> dma_needs_staging (ram_mask (bus s)) (a AND ram_mask (bus s)) inc wc \<and> ch = DMA_CHANNEL_CDROM
    then upd_bus (dma_invalidate_pages (a AND ram_mask (bus s)) (inc * wc)) s else s)"
  obtain ws u where u: "dma_device_words h ch (unat wc) t = (ws, u)"
    by (cases "dma_device_words h ch (unat wc) t")
  have "dma_keeps s t" by (simp add: t_def)
  also have "dma_keeps t u" using device_words_keeps [OF assms, of t ch "unat wc"] u by simp
  finally have "dma_keeps s u" .
  moreover have "dma_keeps u (upd_bus f (upd_dma (\<lambda>d. d\<lparr>transfer_buffer := g d\<rparr>) u))" for f g
    by (rule dma_keeps_trans [OF buffer_keeps(1) upd_bus_keeps])
  moreover have "dma_keeps u (upd_bus f u)" for f by simp
  ultimately have "dma_keeps s (upd_bus f (upd_dma (\<lambda>d. d\<lparr>transfer_buffer := g d\<rparr>) u))"
      "dma_keeps s (upd_bus f u)" for f g
    using dma_keeps_trans by blast+
  then show ?thesis using False u
    by (simp add: dma_transfer_device_to_memory_def Let_def t_def [symmetric] del: upd_bus_keeps)
qed (simp add: dma_transfer_device_to_memory_def Let_def)

lemma manual_keeps:
  assumes "dma_hooks_ok h"
  shows "dma_keeps s (snd (dma_manual h ch s))"
proof -
  let ?c = "dma_channel s ch"
  let ?inc = "dma_increment (channel_control ?c)" and ?wc = "count_or_64k (bc_word_count (block_control ?c))"
    and ?a = "base_address ?c AND TRANSFER_ADDRESS_MASK"
  obtain failed t where t: "dma_check_for_bus_error ch ?a ((?wc - 1) * ?inc) s = (failed, t)"
    by (cases "dma_check_for_bus_error ch ?a ((?wc - 1) * ?inc) s")
  then have k: "dma_keeps s t" using bus_error_keeps [of s ch ?a "(?wc - 1) * ?inc"] by simp
  define r where "r = (if cc_copy_to_device (channel_control ?c)
    then dma_transfer_memory_to_device h ch ?a ?inc ?wc t else dma_transfer_device_to_memory h ch ?a ?inc ?wc t)"
  have "dma_keeps t (snd r)" by (simp add: r_def to_device_keeps to_memory_keeps assms)
  then have "dma_keeps s (dma_complete_transfer ch (bus_cycles (fst r) (snd r)))"
    by (rule dma_keeps_trans [OF dma_keeps_trans [OF k] dma_keeps_trans [OF cycles_keeps complete_keeps]])
  then show ?thesis using k t
    by (cases failed; cases "cc_copy_to_device (channel_control ?c)")
      (simp_all add: dma_manual_def Let_def r_def case_prod_beta)
qed

section \<open>The linked list\<close>

lemma block_ticks_nonneg:
  assumes "unat wc < 2 ^ 16"
  shows "0 \<le> bus_get_dma_ram_tick_count wc"
proof -
  have 1: "unat (wc + 15) = unat wc + 15"
    using assms by (simp add: unat_word_ariths)
  have "unat ((wc + 15) div 16) \<le> unat (wc + 15)" by (simp add: unat_div)
  then have "unat (wc + (wc + 15) div 16) < 2 ^ 31"
    using assms 1 by (simp add: unat_word_ariths)
  then have "uint (wc + (wc + 15) div 16) < 2 ^ 31" unfolding uint_nat by (simp only: of_nat_less_numeral_power_cancel_iff)
  moreover have "sint w = to_s32 (uint w)" for w :: u32
    by (metis sint_word_of_int32 word_of_int_uint)
  ultimately have "bus_get_dma_ram_tick_count wc = uint (wc + (wc + 15) div 16)"
    unfolding bus_get_dma_ram_tick_count_def by (simp only: to_s32_uint)
  then show ?thesis by simp
qed

lemma header_count_bound: "unat (drop_bit 24 w) < 2 ^ 16" for w :: u32
proof -
  have "unat (drop_bit 24 w) = unat w div 2 ^ 24" by (subst unat_drop_bit_eq) (simp only: drop_bit_nat_def)
  moreover have "unat w < 2 ^ 32" using unsigned_less [of w] by simp
  ultimately show ?thesis by simp
qed

text \<open>A node takes at least eight ticks, so the walk ends even on a cyclic list.\<close>

definition node_keeps :: "tick_count \<Rightarrow> 'a dma_sys_scheme \<Rightarrow> ('a dma_sys_scheme) dma_node \<Rightarrow> bool" where
  "node_keeps remaining s r = (case r of Node_Done t \<Rightarrow> dma_keeps s t
     | Node_Next a remaining' t \<Rightarrow> dma_keeps s t \<and> remaining' \<le> remaining - 8)"

lemma to_device_ticks:
  "fst (dma_transfer_memory_to_device h ch a inc wc s) = bus_get_dma_ram_tick_count wc"
  by (simp add: dma_transfer_memory_to_device_def Let_def)

lemma node_step:
  assumes h: "dma_hooks_ok h"
  shows "node_keeps remaining s (dma_linked_list_node h ch inc rm current remaining s)"
proof -
  let ?a = "current AND TRANSFER_ADDRESS_MASK"
  obtain failed t where t: "dma_check_for_bus_error ch ?a 4 s = (failed, t)"
    by (cases "dma_check_for_bus_error ch ?a 4 s")
  have kt: "dma_keeps s t" using bus_error_keeps [of s ch ?a 4] t by simp
  show ?thesis
  proof (cases failed)
    case True
    then show ?thesis using t dma_keeps_trans [OF kt put_keeps(1)]
      by (simp add: dma_linked_list_node_def node_keeps_def)
  next
    case False
    define hd where "hd = load_word (ram (bus t)) (unat (?a AND rm))"
    define wc where "wc = drop_bit 24 hd"
    define su where "su = (if wc > 0 then LINKED_LIST_HEADER_READ_TICKS + LINKED_LIST_BLOCK_SETUP_TICKS
        else LINKED_LIST_HEADER_READ_TICKS)"
    define u where "u = bus_cycles su t"
    obtain failed2 v where v: "(if wc > 0 then dma_check_for_bus_error ch ?a ((wc - 1) * inc) u
        else (False, u)) = (failed2, v)" by (rule prod.exhaust)
    have kv: "dma_keeps s v"
    proof -
      have "dma_keeps u v"
        using v bus_error_keeps [of u ch ?a "(wc - 1) * inc"] by (cases "wc > 0") auto
      then show ?thesis using dma_keeps_trans [OF kt cycles_keeps [of t su]] dma_keeps_trans by (metis u_def)
    qed
    define w where "w = (if wc > 0 then bus_cycles (bus_get_dma_ram_tick_count wc)
        (snd (dma_transfer_memory_to_device h ch (?a + 4) 4 wc v)) else v)"
    have kw: "dma_keeps s w"
      using dma_keeps_trans [OF dma_keeps_trans [OF kv to_device_keeps [OF h]] cycles_keeps] kv
      by (simp add: w_def)
    define r where "r = (if wc > 0 then remaining - su - bus_get_dma_ram_tick_count wc else remaining - su)"
    have "unat wc < 2 ^ 16" unfolding wc_def by (rule header_count_bound)
    then have r: "r \<le> remaining - 8"
      using block_ticks_nonneg [of wc] by (simp add: r_def su_def dma_mask_defs)
    have "dma_linked_list_node h ch inc rm current remaining s =
      (if failed2 then Node_Done (put_base_address ch current v)
       else if dma_is_linked_list_terminator (hd AND 0x00FFFFFF)
       then Node_Done (dma_complete_transfer ch (put_base_address ch LINKED_LIST_TERMINATOR w))
       else Node_Next (hd AND 0x00FFFFFF) r w)"
      using t False v
      by (cases "0 < wc")
        (simp_all add: dma_linked_list_node_def Let_def hd_def [symmetric] wc_def [symmetric] su_def
          u_def w_def r_def to_device_ticks case_prod_beta)
    then show ?thesis using kv kw r
        dma_keeps_trans [OF kv put_keeps(1)]
        dma_keeps_trans [OF dma_keeps_trans [OF kw put_keeps(1)] complete_keeps]
      by (simp add: node_keeps_def)
  qed
qed

text \<open>An operation that returns, and keeps what every one keeps.\<close>

definition returns :: "'a dma_sys_scheme \<Rightarrow> 'a dma_sys_scheme option \<Rightarrow> bool" where
  "returns s r \<longleftrightarrow> (\<exists>s'. r = Some s' \<and> dma_keeps s s')"

lemma returns_Some [simp]: "returns s (Some t) = dma_keeps s t"
  by (simp add: returns_def)

lemma returns_trans: "dma_keeps s t \<Longrightarrow> returns t r \<Longrightarrow> returns s r"
  by (auto simp: returns_def intro: dma_keeps_trans)

lemma keeps_wf: "dma_keeps s t \<Longrightarrow> dma_wf s \<Longrightarrow> dma_wf t"
  by (simp add: dma_keeps_def)

lemma returns_pair: "returns s (map_option snd (map_option (Pair b) r)) = returns s r"
  by (cases r) simp_all

lemma halt_returns:
  assumes "dma_wf s"
  shows "returns s (dma_halt_transfer t s)"
proof -
  let ?s = "upd_dma (\<lambda>d. d\<lparr>halt_ticks_remaining := halt_ticks_remaining d + t\<rparr>) s"
  have k: "dma_keeps s ?s" by simp
  have "returns ?s (dma_halt_transfer t s)"
    using schedule_keeps [OF keeps_wf [OF k assms], of DMA_UNHALT_EVENT "halt_ticks_remaining (dma ?s)"]
    by (simp add: dma_halt_transfer_def Let_def returns_def)
  then show ?thesis by (rule returns_trans [OF k])
qed

lemma linked_list_loop_returns:
  assumes h: "dma_hooks_ok h"
  shows "dma_wf s \<Longrightarrow>
    returns s (map_option snd (dma_linked_list_loop h ch inc rm current remaining s))"
proof (induction "nat remaining" arbitrary: current remaining s rule: less_induct)
  case less
  show ?case
  proof (cases "request (dma_channel s ch) \<and> remaining > 0")
    case False
    let ?t = "put_base_address ch current s"
    have "dma_wf ?t" using keeps_wf [OF put_keeps(1) less.prems] .
    then have "returns ?t (dma_halt_transfer (dma_settings_halt_ticks h) ?t)" by (rule halt_returns)
    from returns_trans [OF put_keeps(1) this] False show ?thesis
      by (subst dma_linked_list_loop.simps) (cases "request (dma_channel s ch)"; simp add: Let_def returns_pair)
  next
    case True
    show ?thesis
    proof (cases "dma_linked_list_node h ch inc rm current remaining s")
      case (Node_Done t)
      then show ?thesis
        using node_step [OF h, of remaining s ch inc rm current] True
        by (subst dma_linked_list_loop.simps) (simp add: node_keeps_def)
    next
      case (Node_Next a r t)
      then have n: "dma_keeps s t" "r \<le> remaining - 8"
        using node_step [OF h, of remaining s ch inc rm current] by (simp_all add: node_keeps_def)
      then have "nat r < nat remaining" using True by simp
      from returns_trans [OF n(1) less.hyps [OF this keeps_wf [OF n(1) less.prems], of a]] show ?thesis
        using Node_Next True by (subst dma_linked_list_loop.simps) simp
    qed
  qed
qed

section \<open>Blocks\<close>

lemma request_blocks_keeps:
  assumes h: "dma_hooks_ok h"
  shows "dma_request_blocks h ch to_device inc bs current remaining n s = (failed, a, m, t) \<Longrightarrow> dma_keeps s t"
proof (induction n arbitrary: current remaining s)
  case (Suc n)
  let ?a = "current AND TRANSFER_ADDRESS_MASK"
  obtain f1 u where u: "dma_check_for_bus_error ch ?a ((bs - 1) * inc) s = (f1, u)" by (rule prod.exhaust)
  have su: "dma_keeps s u" using bus_error_keeps [of s ch ?a "(bs - 1) * inc"] u by simp
  define r where "r = (if to_device then dma_transfer_memory_to_device h ch ?a inc bs u
    else dma_transfer_device_to_memory h ch ?a inc bs u)"
  define v where "v = bus_cycles (fst r) (snd r)"
  have "dma_keeps u (snd r)" by (simp add: r_def to_device_keeps to_memory_keeps h)
  then have sv: "dma_keeps s v"
    unfolding v_def by (rule dma_keeps_trans [OF su dma_keeps_trans [OF _ cycles_keeps]])
  have step: "dma_request_blocks h ch to_device inc bs current remaining (Suc n) s =
    (if f1 then (True, current, Suc n, u)
     else if request (dma_channel v ch) \<and> n > 0 \<and> remaining - fst r > 0
     then dma_request_blocks h ch to_device inc bs (?a + inc * bs) (remaining - fst r) n v
     else (False, ?a + inc * bs, n, v))"
    using u by (cases f1; cases to_device) (simp_all add: Let_def r_def v_def case_prod_beta)
  show ?case
    using Suc.prems Suc.IH [of "?a + inc * bs" "remaining - fst r" v] su sv dma_keeps_trans [OF sv]
    unfolding step by (auto split: if_splits)
qed simp

lemma request_returns:
  assumes h: "dma_hooks_ok h" and wf: "dma_wf s"
  shows "returns s (map_option snd (dma_request h ch s))"
proof -
  let ?c = "dma_channel s ch"
  obtain failed a m t where b: "dma_request_blocks h ch (cc_copy_to_device (channel_control ?c))
      (dma_increment (channel_control ?c)) (count_or_64k (bc_word_count (block_control ?c))) (base_address ?c)
      (dma_get_max_slice_ticks h ch (dma_settings_max_slice_ticks h) s)
      (unat (count_or_64k (bc_block_count (block_control ?c)))) s = (failed, a, m, t)"
    by (metis prod.exhaust)
  define u where "u = put_block_count ch m (put_base_address ch a t)"
  have su: "dma_keeps s u"
    unfolding u_def by (rule dma_keeps_trans [OF request_blocks_keeps [OF h b]
        dma_keeps_trans [OF put_keeps(1) put_keeps(2)]])
  have "returns u (dma_halt_transfer (dma_settings_halt_ticks h) u)"
    by (rule halt_returns [OF keeps_wf [OF su wf]])
  from returns_trans [OF su this] show ?thesis
    using su dma_keeps_trans [OF su complete_keeps [of u ch]]
    unfolding u_def by (auto simp: dma_request_def Let_def b returns_pair)
qed

section \<open>Channels and registers\<close>

lemma dma_transfer_returns:
  assumes h: "dma_hooks_ok h" and wf: "dma_wf s" and ch: "ch < DMA_NUM_CHANNELS"
  shows "returns s (map_option snd (dma_transfer_channel h ch s))"
proof -
  define t where "t = upd_channel ch (\<lambda>c. c\<lparr>channel_control := flag_put 28 False (channel_control c)\<rparr>) s"
  have st: "dma_keeps s t" unfolding t_def by (rule channel_keeps) simp
  have wt: "dma_wf t" by (rule keeps_wf [OF st wf])
  let ?m = "channel_control (dma_channel t ch)"
  have mode: "dma_mode_ok ?m" using wt ch by (simp add: dma_wf_def)
  have "cc_sync_mode ?m < 4"
    using bits_get_bound [of 2 ?m 9] by (simp add: cc_sync_mode_def)
  then consider "cc_sync_mode ?m = 0" | "cc_sync_mode ?m = 1" | "cc_sync_mode ?m = 2" | "cc_sync_mode ?m = 3"
    by linarith
  then have "returns t (map_option snd (dma_transfer_channel h ch s))"
  proof cases
    case 1
    then show ?thesis using manual_keeps [OF h, of t ch]
      by (simp add: dma_transfer_channel_def t_def [symmetric])
  next
    case 2
    then show ?thesis using request_returns [OF h wt, of ch]
      by (simp add: dma_transfer_channel_def t_def [symmetric])
  next
    case 3
    then have "cc_copy_to_device ?m" using mode by (simp add: dma_mode_ok_def)
    with 3 show ?thesis using linked_list_loop_returns [OF h wt]
      by (simp add: dma_transfer_channel_def t_def [symmetric] dma_linked_list_def Let_def)
  next
    case 4
    then show ?thesis using mode by (simp add: dma_mode_ok_def)
  qed
  then show ?thesis by (rule returns_trans [OF st])
qed

lemma sweep_returns:
  assumes h: "dma_hooks_ok h"
  shows "set chs \<subseteq> {..<DMA_NUM_CHANNELS} \<Longrightarrow> dma_wf s \<Longrightarrow> returns s (map_option snd (dma_sweep h chs s))"
proof (induction chs arbitrary: s)
  case (Cons ch chs)
  show ?case
  proof (cases "dma_can_transfer_channel ch False s")
    case True
    have "returns s (map_option snd (dma_transfer_channel h ch s))"
      using Cons.prems by (intro dma_transfer_returns [OF h]) auto
    then obtain b t where t: "dma_transfer_channel h ch s = Some (b, t)" "dma_keeps s t"
      by (auto simp: returns_def)
    have "returns t (map_option snd (dma_sweep h chs t))"
      using Cons.prems by (intro Cons.IH keeps_wf [OF t(2)]) auto
    from returns_trans [OF t(2) this] True t show ?thesis by simp
  qed (use Cons in simp)
qed simp

lemma set_request_returns:
  assumes h: "dma_hooks_ok h" and wf: "dma_wf s" and ch: "ch < DMA_NUM_CHANNELS"
  shows "returns s (dma_set_request h ch b s)"
proof -
  have k: "dma_keeps s (upd_channel ch (\<lambda>c. c\<lparr>request := b\<rparr>) s)" by (rule channel_keeps) simp
  from returns_trans [OF k dma_transfer_returns [OF h keeps_wf [OF k wf] ch]] k show ?thesis
    by (simp add: dma_set_request_def Let_def)
qed

lemma unhalt_returns:
  assumes h: "dma_hooks_ok h" and wf: "dma_wf s"
  shows "returns s (dma_unhalt_transfer h ticks s)"
proof -
  let ?s = "upd_dma (\<lambda>d. d\<lparr>halt_ticks_remaining := halt_ticks_remaining d - ticks\<rparr>) s"
  have k: "dma_keeps s ?s" by simp
  obtain t where t: "timing_event_deactivate DMA_UNHALT_EVENT ?s = Some t" "dma_keeps ?s t"
    using deactivate_keeps [OF keeps_wf [OF k wf]] by blast
  have st: "dma_keeps s t" by (rule dma_keeps_trans [OF k t(2)])
  have "returns t (map_option snd (dma_sweep h [0..<DMA_NUM_CHANNELS] t))"
    by (rule sweep_returns [OF h _ keeps_wf [OF st wf]]) auto
  then obtain b u where u: "dma_sweep h [0..<DMA_NUM_CHANNELS] t = Some (b, u)" "dma_keeps t u"
    by (auto simp: returns_def)
  have su: "dma_keeps s u" by (rule dma_keeps_trans [OF st u(2)])
  then show ?thesis using t(1) u(1) dma_keeps_trans [OF su buffer_keeps(2)]
    by (simp add: dma_unhalt_transfer_def)
qed

text \<open>A control value whose mode the source implements.\<close>

lemma control_mode:
  "dma_mode_ok ((c AND NOT CHANNEL_CONTROL_WRITE_MASK) OR (v AND CHANNEL_CONTROL_WRITE_MASK)) = dma_mode_ok v"
proof -
  have m: "bit CHANNEL_CONTROL_WRITE_MASK n" if "n = 0 \<or> n = 9 \<or> n = 10" for n
    using that by (auto simp: CHANNEL_CONTROL_WRITE_MASK_def)
  have "bits_get ((c AND NOT CHANNEL_CONTROL_WRITE_MASK) OR (v AND CHANNEL_CONTROL_WRITE_MASK)) 9 2 = bits_get v 9 2"
  proof (rule bit_word_eqI)
    fix n :: nat
    have "n < 2 \<Longrightarrow> n = 0 \<or> n = 1" by linarith
    then show "bit (bits_get ((c AND NOT CHANNEL_CONTROL_WRITE_MASK) OR (v AND CHANNEL_CONTROL_WRITE_MASK)) 9 2) n =
        bit (bits_get v 9 2) n"
      using m [of 9] m [of 10] by (auto simp: bit_simps)
  qed
  then show ?thesis
    using m [of 0] by (simp add: dma_mode_ok_def cc_sync_mode_def cc_copy_to_device_def bit_simps)
qed

lemma write_control_returns:
  assumes h: "dma_hooks_ok h" and wf: "dma_wf s" and ch: "ch < DMA_NUM_CHANNELS" and v: "dma_mode_ok v"
  shows "returns s (dma_write_control h ch v s)"
proof -
  define t where "t = upd_channel ch (\<lambda>c. c\<lparr>channel_control :=
    (channel_control c AND NOT CHANNEL_CONTROL_WRITE_MASK) OR (v AND CHANNEL_CONTROL_WRITE_MASK)\<rparr>) s"
  have st: "dma_keeps s t"
  proof -
    have "sched_queue t xs = sched_queue s xs" for xs
      by (rule sched_queue_cong) (simp_all add: t_def)
    moreover have "dma_irq_ok t = dma_irq_ok s"
      by (simp add: dma_irq_ok_def irq_line_high_def t_def)
    ultimately show ?thesis using v by (auto simp: dma_keeps_def dma_wf_def control_mode t_def)
  qed
  obtain u where u: "(if ch = DMA_CHANNEL_OTC
      then dma_set_request h ch (cc_start_trigger (channel_control (dma_channel t ch))) t else Some t) = Some u"
      "dma_keeps t u"
    using set_request_returns [OF h keeps_wf [OF st wf] ch] by (cases "ch = DMA_CHANNEL_OTC") (auto simp: returns_def)
  have su: "dma_keeps s u" by (rule dma_keeps_trans [OF st u(2)])
  have w: "dma_wf u" by (rule keeps_wf [OF su wf])
  have "returns u (map_option snd (dma_transfer_channel h ch u))" "\<And>d. returns u (dma_halt_transfer d u)"
    by (rule dma_transfer_returns [OF h w ch], rule halt_returns [OF w])
  then have "returns s (map_option snd (dma_transfer_channel h ch u))" "\<And>d. returns s (dma_halt_transfer d u)"
    using returns_trans [OF su] by blast+
  then show ?thesis using su u(1)
    by (simp add: dma_write_control_def Let_def t_def [symmetric] del: One_nat_def)
qed

lemma write_register_returns:
  assumes h: "dma_hooks_ok h" and wf: "dma_wf s"
    and v: "offset AND 0xF = 8 \<longrightarrow> dma_mode_ok v"
  shows "returns s (dma_write_register h offset v s)"
proof -
  let ?ch = "unat (drop_bit 4 offset)"
  have ch: "?ch < 7 \<Longrightarrow> ?ch < DMA_NUM_CHANNELS" by (simp add: DMA_NUM_CHANNELS_def)
  have 1: "dma_keeps s (upd_channel ?ch (\<lambda>c. c\<lparr>base_address := a\<rparr>) s)"
    "dma_keeps s (upd_channel ?ch (\<lambda>c. c\<lparr>block_control := a\<rparr>) s)" for a
    by (rule channel_keeps; simp)+
  let ?p = "upd_dma (\<lambda>d. d\<lparr>DPCR := v\<rparr>) s"
  have kp: "dma_keeps s ?p" by simp
  have "returns ?p (map_option snd (dma_sweep h [0..<DMA_NUM_CHANNELS] ?p))"
    by (rule sweep_returns [OF h _ keeps_wf [OF kp wf]]) auto
  then have 2: "returns s (map_option snd (dma_sweep h [0..<DMA_NUM_CHANNELS] ?p))"
    by (rule returns_trans [OF kp])
  have 3: "dma_keeps s (dma_update_irq (upd_dma (\<lambda>d. d\<lparr>DICR := f d\<rparr>) s))" for f
    by (rule flag_irq_keeps) simp_all
  show ?thesis
    using 1 2 3 write_control_returns [OF h wf ch] v unfolding dma_write_register_def Let_def by simp
qed

lemma reset_returns:
  assumes q: "sched_queue s xs"
  shows "\<exists>s'. dma_reset s = Some s' \<and> DICR (dma s') = 0 \<and> intc s' = intc s \<and>
    (irq_line_high s IRQ_DMA \<or> dma_wf s')"
proof -
  have "sched_queue (dma_clear_state s) xs"
    using q by (subst sched_queue_cong [of _ s]) (simp_all add: dma_clear_state_def)
  from deactivate_queue [OF this, of DMA_UNHALT_EVENT] obtain s' where
    s': "timing_event_deactivate DMA_UNHALT_EVENT (dma_clear_state s) = Some s'"
      "sched_queue s' (remove1 DMA_UNHALT_EVENT xs)" "sched_env (dma_clear_state s) s'" by blast
  then have d: "dma s' = dma (dma_clear_state s)" "intc s' = intc s"
    using more_dma [of s' "dma_clear_state s"] by (auto simp: sched_env_def dma_clear_state_def)
  have "dma_mode_ok 0" by (simp add: dma_mode_ok_def cc_sync_mode_def bits_get_def)
  then show ?thesis using s'(1,2) d
    by (auto simp: dma_reset_def dma_wf_def dma_irq_ok_def irq_line_high_def dma_channel_def
        dma_clear_state_def dma_channel_zero_def dicr_master_flag_def dicr_master_def)
qed

section \<open>Completion\<close>

lemma should_set_iff:
  assumes "ch < 7"
  shows "dicr_should_set_irq_flag r ch \<longleftrightarrow> bit r (ch + 16) \<and> bit r 23"
proof -
  have "bit (drop_bit (ch + 16) r AND (drop_bit 23 r AND 1)) n \<longleftrightarrow> n = 0 \<and> bit r (ch + 16) \<and> bit r 23" for n
    by (cases n) (auto simp: bit_simps)
  moreover have "x \<noteq> 0 \<longleftrightarrow> (\<exists>n. bit x n)" for x :: u32
    by (metis bit_0_eq bit_eqI bot_apply bot_bool_def)
  ultimately show ?thesis unfolding dicr_should_set_irq_flag_def by metis
qed

lemma update_master_alt: "dicr_update_master_flag r = flag_put 31 (dicr_master r) r"
proof (rule bit_word_eqI)
  fix n assume "n < LENGTH(32)"
  moreover have "dicr_master (dicr_update_master_flag r) = dicr_master r"
  proof -
    have "bit (dicr_update_master_flag r) n = bit r n" if "n < 31" for n
      using that by (simp add: dicr_update_master_flag_def)
    then have "24 \<le> n \<and> n \<le> 30 \<and> bit (dicr_update_master_flag r) n \<longleftrightarrow> 24 \<le> n \<and> n \<le> 30 \<and> bit r n" for n
      by (cases "n \<le> 30") auto
    then show ?thesis
      using \<open>\<And>n. n < 31 \<Longrightarrow> bit (dicr_update_master_flag r) n = bit r n\<close> by (simp add: dicr_master_def)
  qed
  ultimately show "bit (dicr_update_master_flag r) n = bit (flag_put 31 (dicr_master r) r) n"
    using master_flag_update [of r]
    by (cases "n = 31") (simp_all add: dicr_master_flag_def, simp add: dicr_update_master_flag_def)
qed

lemma completion_interrupt:
  assumes ch: "ch < 7" and e: "bit (DICR (dma s)) (ch + 16)" "bit (DICR (dma s)) 23"
    and low: "\<not> irq_line_high s IRQ_DMA"
  defines "t \<equiv> dma_complete_transfer ch s"
  shows "irq_pending t IRQ_DMA" "irq_line_high t IRQ_DMA"
    "bit (DICR (dma t)) (ch + 24)" "dicr_master_flag (DICR (dma t))"
proof -
  define u where "u = upd_channel ch (\<lambda>c. c\<lparr>channel_control := flag_put 24 False (channel_control c)\<rparr>)
    (upd_dma (\<lambda>d. d\<lparr>dbg_transfer_counts := (dbg_transfer_counts d)(ch := dbg_transfer_counts d ch + 1)\<rparr>) s)"
  have u: "DICR (dma u) = DICR (dma s)" "intc u = intc s" by (simp_all add: u_def)
  let ?r = "dicr_set_irq_flag ch (DICR (dma s))"
  have b: "bit ?r (ch + 24)" "bit ?r 23"
    using ch e by (simp_all add: dicr_set_irq_flag_def bit_simps)
  then have m: "dicr_master ?r" using ch by (auto simp: dicr_master_def intro!: exI [of _ "ch + 24"])
  let ?d = "dicr_update_master_flag ?r"
  have d: "dicr_master_flag ?d" "bit ?d (ch + 24)"
    using m b ch by (simp_all add: update_master_alt dicr_master_flag_def)
  have t: "t = interrupt_controller_set_line_state IRQ_DMA True (upd_dma (\<lambda>d. d\<lparr>DICR := ?d\<rparr>) u)"
    using d by (simp add: t_def dma_complete_transfer_def u_def [symmetric] Let_def should_set_iff [OF ch] u e
        dma_update_irq_def) (simp add: upd_dma_def u)
  have i: "IRQ_DMA < 32" by (simp add: IRQ_DMA_def)
  have low': "\<not> irq_line_high (upd_dma (\<lambda>d. d\<lparr>DICR := ?d\<rparr>) u) IRQ_DMA"
    using low u by (simp add: irq_line_high_def)
  show "irq_pending t IRQ_DMA" "irq_line_high t IRQ_DMA"
    using low' by (simp_all add: t set_line_state_pending [OF i] set_line_state_line [OF i])
  show "bit (DICR (dma t)) (ch + 24)" "dicr_master_flag (DICR (dma t))"
    using d by (simp_all add: t)
qed

end
