(* ===== verification/Dma_Words.thy ===== *)
theory Dma_Words
  imports Dma_Transfer Bus_Props
begin

text \<open>
  The data a transfer moves: whether or not a transfer is staged, the word \<open>i\<close> of a
  transfer is the one at the start address plus \<open>i\<close> increments, wrapped by the RAM mask;
  words written by one transfer are read back by another; the ordering table that channel 6
  builds is a linked list that the linked-list mode walks to its end.
\<close>

section \<open>Lists of stores\<close>

definition store_all :: "(nat \<times> u32) list \<Rightarrow> (nat \<Rightarrow> u8) \<Rightarrow> (nat \<Rightarrow> u8)" where
  "store_all = fold (\<lambda>(i, w). store_word i w)"

lemma load_store_word_other: "i + 4 \<le> j \<or> j + 4 \<le> i \<Longrightarrow> load_word (store_word i w m) j = load_word m j"
  using load_sized_other [of i MEMORY_ACCESS_SIZE_WORD j MEMORY_ACCESS_SIZE_WORD w m] by simp

lemma aligned_apart: "i \<noteq> j \<Longrightarrow> i mod 4 = 0 \<Longrightarrow> j mod 4 = 0 \<Longrightarrow> i + 4 \<le> j \<or> j + 4 \<le> i" for i j :: nat
  by presburger

lemma store_all_other:
  "(\<forall>p\<in>set ps. fst p mod 4 = 0 \<and> fst p \<noteq> i) \<Longrightarrow> i mod 4 = 0 \<Longrightarrow> load_word (store_all ps m) i = load_word m i"
proof (induction ps arbitrary: m)
  case (Cons p ps)
  have "load_word (store_word (fst p) (snd p) m) i = load_word m i"
    by (rule load_store_word_other, rule aligned_apart) (use Cons.prems in auto)
  then show ?case using Cons by (simp add: store_all_def case_prod_beta)
qed (simp add: store_all_def)

lemma store_all_readback:
  assumes "distinct (map fst ps)" "\<forall>p\<in>set ps. fst p mod 4 = 0" "(i, w) \<in> set ps"
  shows "load_word (store_all ps m) i = w"
  using assms
proof (induction ps arbitrary: m)
  case (Cons p ps)
  show ?case
  proof (cases "(i, w) \<in> set ps")
    case True
    then show ?thesis using Cons by (simp add: store_all_def)
  next
    case False
    then have p: "p = (i, w)" using Cons.prems by simp
    have "load_word (store_all ps (store_word i w m)) i = load_word (store_word i w m) i"
      by (rule store_all_other) (use Cons.prems p in \<open>auto simp: image_iff\<close>)
    then show ?thesis using p by (simp add: store_all_def load_store_word)
  qed
qed simp

section \<open>The addresses of a transfer\<close>

definition step_address :: "u32 \<Rightarrow> u32 \<Rightarrow> u32 \<Rightarrow> nat \<Rightarrow> u32" where
  "step_address rm a inc i = (a + inc * of_nat i) AND rm"

lemma mod_mod_power: "k \<le> 32 \<Longrightarrow> n mod 4294967296 mod 2 ^ k = n mod 2 ^ k" for n :: nat
  using le_imp_power_dvd [of k 32 "2 :: nat"] by (intro mod_mod_cancel) simp

lemma unat_mod_add: "k \<le> 32 \<Longrightarrow> unat (x + y) mod 2 ^ k = (unat x + unat y) mod 2 ^ k" for x y :: u32
  by (simp add: unat_word_ariths(1) mod_mod_power)

lemma unat_mod_mult: "k \<le> 32 \<Longrightarrow> unat (x * y) mod 2 ^ k = (unat x * unat y) mod 2 ^ k" for x y :: u32
  by (simp add: unat_word_ariths(2) mod_mod_power)

lemma unat_mod_of_nat: "k \<le> 32 \<Longrightarrow> unat (of_nat i :: u32) mod 2 ^ k = i mod 2 ^ k"
  by (simp add: unat_of_nat mod_mod_power)

lemma unat_step_address:
  assumes "k \<le> 32"
  shows "unat (step_address (mask k) a inc i) = (unat a + unat inc * i) mod 2 ^ k"
proof -
  have "unat (inc * of_nat i) mod 2 ^ k = (unat inc * i) mod 2 ^ k"
    by (simp add: unat_mod_mult assms) (metis assms mod_mult_right_eq unat_mod_of_nat)
  then have "(unat a + unat (inc * of_nat i)) mod 2 ^ k = (unat a + unat inc * i) mod 2 ^ k"
    by (metis mod_add_right_eq)
  then show ?thesis by (simp only: step_address_def unat_and_mask unat_mod_add [OF assms])
qed

lemma step_address_Suc:
  assumes "k \<le> 32"
  shows "step_address (mask k) ((a + inc) AND mask k) inc i = step_address (mask k) a inc (Suc i)"
proof -
  have "unat (step_address (mask k) ((a + inc) AND mask k) inc i) =
      (unat (a + inc) mod 2 ^ k + unat inc * i) mod 2 ^ k"
    by (simp only: unat_step_address [OF assms] unat_and_mask)
  also have "\<dots> = (unat a + unat inc + unat inc * i) mod 2 ^ k"
    by (simp only: unat_mod_add [OF assms] mod_add_left_eq)
  also have "\<dots> = unat (step_address (mask k) a inc (Suc i))"
    by (simp add: unat_step_address assms add.assoc)
  finally show ?thesis by (simp only: word_unat_eq_iff)
qed

lemma gather_steps:
  "k \<le> 32 \<Longrightarrow> a AND mask k = a \<Longrightarrow>
   dma_gather m (mask k) a inc n = map (\<lambda>i. load_word m (unat (step_address (mask k) a inc i))) [0..<n]"
proof (induction n arbitrary: a)
  case (Suc n)
  have "((a + inc) AND mask k) AND mask k = (a + inc) AND mask k" by (simp add: and.assoc)
  then show ?case using Suc.prems Suc.IH [of "(a + inc) AND mask k"]
    by (simp add: step_address_Suc upt_conv_Cons map_Suc_upt [symmetric] del: upt_Suc)
      (simp add: step_address_def)
qed simp

lemma scatter_steps:
  "k \<le> 32 \<Longrightarrow> a AND mask k = a \<Longrightarrow>
   dma_scatter ws (mask k) a inc m =
     store_all (zip (map (\<lambda>i. unat (step_address (mask k) a inc i)) [0..<List.length ws]) ws) m"
proof (induction ws arbitrary: a m)
  case (Cons w ws)
  have "((a + inc) AND mask k) AND mask k = (a + inc) AND mask k" by (simp add: and.assoc)
  then show ?case using Cons.prems Cons.IH [of "(a + inc) AND mask k"]
    by (simp add: step_address_Suc upt_conv_Cons map_Suc_upt [symmetric] store_all_def o_def del: upt_Suc)
      (simp add: step_address_def)
qed (simp add: store_all_def)

section \<open>What a transfer sends and stores\<close>

text \<open>A RAM of \<open>2 ^ k\<close> bytes, an aligned start, a word step and a length the registers can hold.\<close>

definition transfer_shape :: "nat \<Rightarrow> u32 \<Rightarrow> u32 \<Rightarrow> u32 \<Rightarrow> bool" where
  "transfer_shape k a inc wc \<longleftrightarrow> 19 \<le> k \<and> k \<le> 32 \<and> unat a mod 4 = 0 \<and> (inc = 4 \<or> inc = - 4) \<and>
     0 < unat wc \<and> unat wc \<le> 0x10000"

definition transfer_addresses :: "nat \<Rightarrow> u32 \<Rightarrow> u32 \<Rightarrow> u32 \<Rightarrow> nat list" where
  "transfer_addresses k a inc wc = map (\<lambda>i. unat (step_address (mask k) a inc i)) [0..<unat wc]"

lemma step_minus_4: "unat (- 4 :: u32) = 2 ^ 32 - 4" by simp

lemma addresses_aligned:
  assumes "transfer_shape k a inc wc" "x \<in> set (transfer_addresses k a inc wc)"
  shows "x mod 4 = 0"
proof -
  have k: "k \<le> 32" "4 dvd (2 :: nat) ^ k"
    using assms(1) le_imp_power_dvd [of 2 k "2 :: nat"] by (simp_all add: transfer_shape_def)
  obtain i where x: "x = (unat a + unat inc * i) mod 2 ^ k"
    using assms(2) unat_step_address [OF k(1)] by (auto simp: transfer_addresses_def)
  have "4 dvd unat a + unat inc * i"
    using assms(1) by (auto simp: transfer_shape_def step_minus_4 mod_eq_0_iff_dvd)
  then have "4 dvd x" using k(2) unfolding x by (simp add: dvd_mod)
  then show ?thesis by auto
qed

lemma addresses_distinct:
  assumes s: "transfer_shape k a inc wc"
  shows "distinct (transfer_addresses k a inc wc)"
proof -
  have k: "k \<le> 32" "19 \<le> k" using s by (simp_all add: transfer_shape_def)
  have "i = j" if eq: "unat (step_address (mask k) a inc i) = unat (step_address (mask k) a inc j)"
      and le: "i < unat wc" "j < unat wc" for i j
  proof (rule ccontr)
    assume ne: "i \<noteq> j"
    let ?d = "int (unat inc) * (int i - int j)"
    have "(unat a + unat inc * i) mod 2 ^ k = (unat a + unat inc * j) mod 2 ^ k"
      using eq by (simp only: unat_step_address [OF k(1)])
    from arg_cong [OF this, of int]
    have "int (unat a + unat inc * i) mod 2 ^ k = int (unat a + unat inc * j) mod 2 ^ k"
      by (simp only: zmod_int of_nat_power of_nat_numeral)
    then have "2 ^ k dvd int (unat a + unat inc * i) - int (unat a + unat inc * j)"
      by (simp only: mod_eq_dvd_iff)
    then have d: "2 ^ k dvd ?d" by (simp add: algebra_simps)
    have p: "(2 :: int) ^ k dvd 2 ^ 32" by (rule le_imp_power_dvd [OF k(1)])
    have "2 ^ k dvd 4 * (int i - int j)"
    proof (cases "inc = 4")
      case True
      then show ?thesis using d by simp
    next
      case False
      then have "int (unat inc) = 2 ^ 32 - 4" using s by (simp add: transfer_shape_def)
      then have "?d = 2 ^ 32 * (int i - int j) - 4 * (int i - int j)" by (simp add: algebra_simps)
      then show ?thesis using d p by (metis dvd_diff_right_iff dvd_mult2)
    qed
    moreover have "4 * (int i - int j) \<noteq> 0" using ne by simp
    ultimately have "\<bar>2 ^ k\<bar> \<le> \<bar>4 * (int i - int j)\<bar>" by (rule dvd_imp_le_int [rotated])
    moreover have "\<bar>4 * (int i - int j)\<bar> < 2 ^ 19"
      using le s by (auto simp: transfer_shape_def)
    moreover have "(2 :: int) ^ 19 \<le> 2 ^ k" by (rule power_increasing [OF k(2)]) simp
    ultimately show False by simp
  qed
  then show ?thesis by (auto simp: transfer_addresses_def distinct_map inj_on_def)
qed

text \<open>A transfer is not staged exactly when its addresses are consecutive.\<close>

lemma unstaged_addresses:
  assumes s: "transfer_shape k a inc wc" and a: "a AND mask k = a"
    and n: "\<not> dma_needs_staging (mask k) a inc wc"
  shows "transfer_addresses k a inc wc = map (\<lambda>i. unat a + 4 * i) [0..<unat wc]"
proof -
  have k: "k \<le> 32" "19 \<le> k" using s by (simp_all add: transfer_shape_def)
  have inc: "inc = 4"
    using n s by (auto simp: transfer_shape_def dma_needs_staging_def)
  have "unat a = unat a mod 2 ^ k" using unat_and_mask [of a k] a by simp
  also have "\<dots> < 2 ^ k" by simp
  finally have small: "unat a < 2 ^ k" .
  have p: "(2 :: nat) ^ 19 \<le> 2 ^ k" by (rule power_increasing [OF k(2)]) simp
  then have w: "4 * unat wc < 2 ^ k" using s by (simp add: transfer_shape_def)
  have "unat a < unat ((a + 4 * wc) AND mask k)"
    using n inc by (simp add: dma_needs_staging_def word_less_nat_alt not_le)
  also have "unat ((a + 4 * wc) AND mask k) = (unat a + 4 * unat wc) mod 2 ^ k"
  proof -
    have "unat (4 * wc) mod 2 ^ k = (4 * unat wc) mod 2 ^ k"
      using unat_mod_mult [OF k(1), of 4 wc] by simp
    then have "(unat a + unat (4 * wc)) mod 2 ^ k = (unat a + 4 * unat wc) mod 2 ^ k"
      by (metis mod_add_right_eq)
    then show ?thesis by (simp only: unat_and_mask unat_mod_add [OF k(1)])
  qed
  finally have m: "unat a < (unat a + 4 * unat wc) mod 2 ^ k" .
  have fit: "unat a + 4 * unat wc < 2 ^ k"
  proof (rule ccontr)
    assume "\<not> unat a + 4 * unat wc < 2 ^ k"
    then have "unat a + 4 * unat wc = 2 ^ k + (unat a + 4 * unat wc - 2 ^ k)"
        "unat a + 4 * unat wc - 2 ^ k < 2 ^ k" using small w by linarith+
    then have "(unat a + 4 * unat wc) mod 2 ^ k = unat a + 4 * unat wc - 2 ^ k"
      by (metis mod_add_self1 mod_less)
    then show False using m w small by linarith
  qed
  have "unat (step_address (mask k) a inc i) = unat a + 4 * i" if "i < unat wc" for i
    using fit that by (simp add: unat_step_address [OF k(1)] inc)
  then show ?thesis by (simp add: transfer_addresses_def)
qed

lemma store_words_all:
  "store_words i ws m = store_all (zip (map (\<lambda>j. i + 4 * j) [0..<List.length ws]) ws) m"
proof (induction ws arbitrary: i m)
  case (Cons w ws)
  have "map (\<lambda>j. i + 4 + 4 * j) [0..<List.length ws] = map (\<lambda>j. i + 4 * j) [1..<Suc (List.length ws)]"
    by (simp add: map_Suc_upt [symmetric] o_def del: upt_Suc)
  then show ?case using Cons
    by (simp add: store_all_def upt_conv_Cons del: upt_Suc)
qed (simp add: store_all_def)

text \<open>Either way the words are the ones at the transfer's addresses.\<close>

definition words_sent :: "nat \<Rightarrow> (nat \<Rightarrow> u8) \<Rightarrow> u32 \<Rightarrow> u32 \<Rightarrow> u32 \<Rightarrow> u32 list" where
  "words_sent k m a inc wc = map (load_word m) (transfer_addresses k a inc wc)"

lemma to_device_words:
  assumes s: "transfer_shape k a inc wc" and r: "ram_mask (bus st) = mask k" and a: "a AND mask k = a"
    and ch: "ch = DMA_CHANNEL_SPU \<or> ch = DMA_CHANNEL_MDECIN"
  obtains b where "dma_transfer_memory_to_device h ch a inc wc st =
    (bus_get_dma_ram_tick_count wc,
     (if ch = DMA_CHANNEL_SPU then spu_dma_write h else mdec_dma_write_hook h) (words_sent k (ram (bus st)) a inc wc)
       (upd_dma (\<lambda>d. d\<lparr>transfer_buffer := b\<rparr>) st))"
proof -
  have k: "k \<le> 32" using s by (simp add: transfer_shape_def)
  let ?ws = "words_sent k (ram (bus st)) a inc wc"
  have g: "ch \<noteq> DMA_CHANNEL_GPU" using ch by (auto simp: dma_channel_defs)
  have same: "upd_dma (\<lambda>d. d\<lparr>transfer_buffer := transfer_buffer (dma st)\<rparr>) st = st"
    by (simp add: upd_dma_def)
  show thesis
  proof (cases "dma_needs_staging (mask k) a inc wc")
    case True
    have "dma_gather (ram (bus st)) (mask k) a inc (unat wc) = ?ws"
      by (simp add: gather_steps [OF k a] words_sent_def transfer_addresses_def o_def)
    then show thesis
      using True g ch r a
      by (intro that [of "buffer_put ?ws (transfer_buffer (dma st))"])
        (auto simp: dma_transfer_memory_to_device_def Let_def upd_dma_def dma_channel_defs)
  next
    case False
    have "map (\<lambda>i. load_word (ram (bus st)) (unat a + 4 * i)) [0..<unat wc] = ?ws"
      by (simp add: words_sent_def unstaged_addresses [OF s a False] o_def)
    then show thesis
      using False g ch r a
      by (intro that [of "transfer_buffer (dma st)"])
        (auto simp: dma_transfer_memory_to_device_def Let_def same dma_channel_defs)
  qed
qed

lemma to_memory_words:
  assumes s: "transfer_shape k a inc wc" and r: "ram_mask (bus st) = mask k" and a: "a AND mask k = a"
    and ch: "ch \<noteq> DMA_CHANNEL_OTC" "ch \<noteq> DMA_CHANNEL_CDROM"
    and d: "dma_device_words h ch (unat wc) st = (ws, u)" "List.length ws = unat wc"
  obtains b where "snd (dma_transfer_device_to_memory h ch a inc wc st) =
    upd_bus (\<lambda>x. x\<lparr>ram := store_all (zip (transfer_addresses k a inc wc) ws) (ram x)\<rparr>)
      (upd_dma (\<lambda>d. d\<lparr>transfer_buffer := b\<rparr>) u)"
proof -
  have k: "k \<le> 32" using s by (simp add: transfer_shape_def)
  have same: "upd_dma (\<lambda>d. d\<lparr>transfer_buffer := transfer_buffer (dma u)\<rparr>) u = u"
    by (simp add: upd_dma_def)
  show thesis
  proof (cases "dma_needs_staging (mask k) a inc wc")
    case True
    let ?b = "buffer_put ws (transfer_buffer (dma u))"
    have "map ?b [0..<unat wc] = ws"
      using d(2) by (intro nth_equalityI) (simp_all add: buffer_put_def)
    moreover have "dma_scatter ws (mask k) a inc m = store_all (zip (transfer_addresses k a inc wc) ws) m" for m
      using d(2) by (simp add: scatter_steps [OF k a] transfer_addresses_def)
    ultimately show thesis
      using True ch r a d(1)
      by (intro that [of ?b]) (simp add: dma_transfer_device_to_memory_def Let_def upd_dma_def)
  next
    case False
    have "store_words (unat a) ws m = store_all (zip (transfer_addresses k a inc wc) ws) m" for m
      using d(2) by (simp add: store_words_all unstaged_addresses [OF s a False])
    then show thesis
      using False ch r a d(1)
      by (intro that [of "transfer_buffer (dma u)"])
        (simp add: dma_transfer_device_to_memory_def Let_def same)
  qed
qed

lemma sent_back:
  assumes s: "transfer_shape k a inc wc" and ws: "List.length ws = unat wc"
  shows "words_sent k (store_all (zip (transfer_addresses k a inc wc) ws) m) a inc wc = ws"
proof (rule nth_equalityI)
  let ?as = "transfer_addresses k a inc wc"
  have l: "List.length ?as = unat wc" by (simp add: transfer_addresses_def)
  show "List.length (words_sent k (store_all (zip ?as ws) m) a inc wc) = List.length ws"
    using l ws by (simp add: words_sent_def)
  fix i assume "i < List.length (words_sent k (store_all (zip ?as ws) m) a inc wc)"
  then have i: "i < unat wc" using l by (simp add: words_sent_def)
  have "load_word (store_all (zip ?as ws) m) (?as ! i) = ws ! i"
  proof (rule store_all_readback)
    show "distinct (map fst (zip ?as ws))" using l ws addresses_distinct [OF s] by simp
    show "\<forall>p\<in>set (zip ?as ws). fst p mod 4 = 0"
      using addresses_aligned [OF s] by (auto dest: set_zip_leftD)
    show "(?as ! i, ws ! i) \<in> set (zip ?as ws)"
      using i l ws by (auto simp: set_zip)
  qed
  then show "words_sent k (store_all (zip ?as ws) m) a inc wc ! i = ws ! i"
    using i l by (simp add: words_sent_def)
qed

section \<open>Ordering tables\<close>

text \<open>The table of channel 6: each entry points to the one below, the last is the terminator.\<close>

definition otc_addresses :: "nat \<Rightarrow> u32 \<Rightarrow> nat \<Rightarrow> nat list" where
  "otc_addresses k a n = map (\<lambda>i. unat (step_address (mask k) a (- 4) i)) [0..<Suc n]"

definition otc_words :: "nat \<Rightarrow> u32 \<Rightarrow> nat \<Rightarrow> u32 list" where
  "otc_words k a n = map (\<lambda>i. step_address (mask k) a (- 4) (Suc i)) [0..<n] @ [LINKED_LIST_TERMINATOR]"

lemma otc_fill_all:
  "k \<le> 32 \<Longrightarrow> a AND mask k = a \<Longrightarrow>
   otc_fill (mask k) a n m = store_all (zip (otc_addresses k a n) (otc_words k a n)) m"
proof (induction n arbitrary: a m)
  case (Suc n)
  define b where "b = (a + - 4) AND mask k"
  have "b AND mask k = b" by (simp add: b_def and.assoc)
  note IH = Suc.IH [OF Suc.prems(1) this]
  have st: "step_address (mask k) b (- 4) i = step_address (mask k) a (- 4) (Suc i)" for i
    unfolding b_def by (rule step_address_Suc [OF Suc.prems(1)])
  have 0: "step_address (mask k) a (- 4) 0 = a" "step_address (mask k) a (- 4) (Suc 0) = b"
    using Suc.prems(2) by (simp_all add: step_address_def b_def)
  have u: "[0..<Suc m] = 0 # map Suc [0..<m]" for m by (simp add: map_Suc_upt upt_conv_Cons)
  have "otc_addresses k a (Suc n) = unat a # otc_addresses k b n"
    unfolding otc_addresses_def by (subst u) (simp add: 0 st o_def del: upt_Suc)
  moreover have "otc_words k a (Suc n) = b # otc_words k b n"
    unfolding otc_words_def by (subst u) (simp add: 0 st o_def del: upt_Suc)
  moreover have "otc_fill (mask k) a (Suc n) m = otc_fill (mask k) b n (store_word (unat a) b m)"
    by (simp add: b_def Let_def)
  ultimately show ?case by (simp add: IH store_all_def)
qed (simp add: store_all_def otc_addresses_def otc_words_def step_address_def)

lemma otc_addresses_transfer:
  "unat wc = Suc n \<Longrightarrow> otc_addresses k a n = transfer_addresses k a (- 4) wc"
  by (simp add: otc_addresses_def transfer_addresses_def)

lemma otc_entry:
  assumes s: "transfer_shape k a (- 4) wc" and n: "unat wc = Suc n" and a: "a AND mask k = a" and i: "i \<le> n"
  shows "load_word (otc_fill (mask k) a n m) (unat (step_address (mask k) a (- 4) i)) =
    (if i < n then step_address (mask k) a (- 4) (Suc i) else LINKED_LIST_TERMINATOR)"
proof -
  let ?ps = "zip (otc_addresses k a n) (otc_words k a n)"
  have l: "List.length (otc_addresses k a n) = Suc n" "List.length (otc_words k a n) = Suc n"
    by (simp_all add: otc_addresses_def otc_words_def)
  have "load_word (store_all ?ps m) (otc_addresses k a n ! i) = otc_words k a n ! i"
  proof (rule store_all_readback)
    show "distinct (map fst ?ps)"
      using addresses_distinct [OF s] l by (simp add: otc_addresses_transfer [OF n])
    show "\<forall>p\<in>set ?ps. fst p mod 4 = 0"
      using addresses_aligned [OF s] by (auto simp: otc_addresses_transfer [OF n] dest: set_zip_leftD)
    show "(otc_addresses k a n ! i, otc_words k a n ! i) \<in> set ?ps"
      using i l by (auto simp: set_zip)
  qed
  moreover have "otc_addresses k a n ! i = unat (step_address (mask k) a (- 4) i)"
    using i unfolding otc_addresses_def by (subst nth_map) (simp_all del: upt_Suc)
  moreover have "otc_words k a n ! i =
      (if i < n then step_address (mask k) a (- 4) (Suc i) else LINKED_LIST_TERMINATOR)"
    using i by (auto simp: otc_words_def nth_append)
  ultimately show ?thesis using s a by (simp add: otc_fill_all transfer_shape_def)
qed

text \<open>
  The walk of such a table: empty nodes, eight ticks each, to the terminator, which completes
  the transfer.
\<close>

lemma bus_cycles_add: "bus_cycles x (bus_cycles y s) = bus_cycles (y + x) s"
  by (simp add: bus_cycles_def cpu_add_pending_ticks_def add.assoc)

lemma table_address:
  assumes s: "transfer_shape k a (- 4) wc" and k: "k \<le> 24" and n: "4 * i \<le> unat a" and a: "a AND mask k = a"
  shows "unat (step_address (mask k) a (- 4) i) = unat a - 4 * i"
proof -
  have k32: "k \<le> 32" using k by simp
  have "unat a = unat a mod 2 ^ k" using unat_and_mask [of a k] a by simp
  also have "\<dots> < 2 ^ k" by simp
  finally have small: "unat a < 2 ^ k" .
  obtain q where q: "(2 :: nat) ^ 32 = 2 ^ k * q" using le_imp_power_dvd [OF k32, of "2 :: nat"] by (auto elim: dvdE)
  have "unat a + (2 ^ 32 - 4) * i = unat a - 4 * i + 2 ^ k * (q * i)"
    using n by (simp add: diff_mult_distrib q [symmetric] mult.assoc [symmetric])
  then show ?thesis
    using small by (simp add: unat_step_address [OF k32] step_minus_4)
qed

lemma small_word:
  fixes w :: u32
  assumes "unat w < 2 ^ 24"
  shows "drop_bit 24 w = 0" "w AND 0x00FFFFFF = w"
    "unat w mod 4 = 0 \<Longrightarrow> w AND 0x00FFFFFC = w" "unat w mod 4 = 0 \<Longrightarrow> w AND 0x00FFFFFF \<noteq> 0x00FFFFFF"
proof -
  have "unat (drop_bit 24 w) = 0" using assms by (simp add: unat_drop_bit_eq drop_bit_nat_def)
  then show "drop_bit 24 w = 0" by (simp only: unat_eq_0)
  have m: "(0x00FFFFFF :: u32) = mask 24" by (simp add: mask_eq_exp_minus_1)
  have "unat (w AND mask 24) = unat w" using assms by (simp add: unat_and_mask)
  then show f: "w AND 0x00FFFFFF = w" by (simp only: m word_unat_eq_iff)
  assume z: "unat w mod 4 = 0"
  have "unat (w AND mask 2) = 0" using z by (simp add: unat_and_mask)
  then have low: "w AND mask 2 = 0" by (simp only: unat_eq_0)
  have "w AND 0x00FFFFFC = (w AND 0x00FFFFFF) AND NOT (mask 2)"
    by (simp add: and.assoc mask_eq_exp_minus_1)
  also have "\<dots> = w"
  proof (rule bit_word_eqI)
    fix i assume "i < LENGTH(32)"
    moreover have "\<not> bit (w AND mask 2) i" by (simp add: low)
    ultimately show "bit ((w AND 0x00FFFFFF) AND NOT (mask 2)) i = bit w i"
      by (simp only: f) (auto simp: bit_and_iff bit_not_iff)
  qed
  finally show "w AND 0x00FFFFFC = w" .
  show "w AND 0x00FFFFFF \<noteq> 0x00FFFFFF" using f z by auto
qed

lemma table_node:
  fixes s :: "'a dma_sys_scheme"
  assumes sh: "transfer_shape k a (- 4) wc" and k: "k \<le> 24" and n: "unat wc = Suc n" and a: "a AND mask k = a"
    and fit: "4 * n \<le> unat a" "unat a + 4 < unat (ram_mapped_size (bus s))"
    and m: "ram (bus s) = otc_fill (mask k) a n m0" and i: "i \<le> n"
  shows "dma_linked_list_node h ch inc (mask k) (step_address (mask k) a (- 4) i) remaining s =
    (if i < n then Node_Next (step_address (mask k) a (- 4) (Suc i)) (remaining - 8) (bus_cycles 8 s)
     else Node_Done (dma_complete_transfer ch (put_base_address ch LINKED_LIST_TERMINATOR (bus_cycles 8 s))))"
proof -
  let ?c = "\<lambda>i. step_address (mask k) a (- 4) i"
  have p: "(2 :: nat) ^ k \<le> 2 ^ 24" by (rule power_increasing [OF k]) simp
  have small: "unat (?c j) < 2 ^ 24" for j
  proof -
    have k32: "k \<le> 32" using k by simp
    have "unat (?c j) < 2 ^ k" by (subst unat_step_address [OF k32]) simp
    then show ?thesis using p by (rule order.strict_trans2)
  qed
  have al: "unat (?c j) mod 4 = 0" if "j \<le> n" for j
    using addresses_aligned [OF sh, of "unat (?c j)"] that n by (auto simp: transfer_addresses_def simp del: upt_Suc)
  have ci: "unat (?c i) = unat a - 4 * i" by (rule table_address [OF sh k _ a]) (use fit i in simp)
  have c1: "?c i AND TRANSFER_ADDRESS_MASK = ?c i"
    unfolding TRANSFER_ADDRESS_MASK_def by (rule small_word(3) [OF small al [OF i]])
  have c2: "?c i AND mask k = ?c i" by (simp add: step_address_def and.assoc)
  have "unat (?c i + 4) = unat (?c i) + 4" using small [of i] by (simp add: unat_word_ariths(1))
  then have "\<not> ram_mapped_size (bus s) \<le> ?c i + 4"
    using ci fit by (simp add: word_le_nat_alt)
  then have ok: "dma_check_for_bus_error ch (?c i) 4 s = (False, s)"
    by (simp add: dma_check_for_bus_error_def)
  have e: "load_word (ram (bus s)) (unat (?c i)) = (if i < n then ?c (Suc i) else LINKED_LIST_TERMINATOR)"
    unfolding m by (rule otc_entry [OF sh n a i])
  show ?thesis
  proof (cases "i < n")
    case True
    then have "\<not> dma_is_linked_list_terminator (?c (Suc i))"
      using small_word(4) [OF small al, of "Suc i"]
      by (simp add: dma_is_linked_list_terminator_def LINKED_LIST_TERMINATOR_def)
    then show ?thesis using True e small_word(1,2) [OF small, of "Suc i"]
      by (simp add: dma_linked_list_node_def Let_def c1 c2 ok LINKED_LIST_HEADER_READ_TICKS_def)
  next
    case False
    then show ?thesis using e
      by (simp add: dma_linked_list_node_def Let_def c1 c2 ok LINKED_LIST_HEADER_READ_TICKS_def
          LINKED_LIST_TERMINATOR_def dma_is_linked_list_terminator_def)
  qed
qed

lemma table_walk:
  fixes s :: "'a dma_sys_scheme"
  assumes sh: "transfer_shape k a (- 4) wc" and k: "k \<le> 24" and n: "unat wc = Suc n" and a: "a AND mask k = a"
    and fit: "4 * n \<le> unat a"
  shows "unat a + 4 < unat (ram_mapped_size (bus s)) \<Longrightarrow> ram (bus s) = otc_fill (mask k) a n m0 \<Longrightarrow>
    request (dma_channel s ch) \<Longrightarrow> i \<le> n \<Longrightarrow> 8 * int (n - i) < remaining \<Longrightarrow>
    dma_linked_list_loop h ch inc (mask k) (step_address (mask k) a (- 4) i) remaining s =
      Some (True, dma_complete_transfer ch (put_base_address ch LINKED_LIST_TERMINATOR
        (bus_cycles (8 * int (Suc (n - i))) s)))"
proof (induction "n - i" arbitrary: i remaining s)
  case 0
  then have "i = n" by simp
  with 0 show ?case
    by (subst dma_linked_list_loop.simps) (simp add: table_node [OF sh k n a fit])
next
  case (Suc d)
  have i: "i < n" "d = n - Suc i" using Suc.hyps(2) by simp_all
  have c: "request (dma_channel (bus_cycles 8 s) ch)"
    using Suc.prems(3) by (simp add: bus_cycles_def dma_channel_def)
  have "dma_linked_list_loop h ch inc (mask k) (step_address (mask k) a (- 4) (Suc i)) (remaining - 8) (bus_cycles 8 s) =
      Some (True, dma_complete_transfer ch (put_base_address ch LINKED_LIST_TERMINATOR
        (bus_cycles (8 * int (Suc (n - Suc i))) (bus_cycles 8 s))))"
    by (rule Suc.hyps(1) [OF i(2) _ _ c]) (use Suc.prems i in simp_all)
  moreover have "8 + 8 * int (Suc (n - Suc i)) = 8 * int (Suc (n - i))" using i by simp
  ultimately show ?case using Suc.prems i
    by (subst dma_linked_list_loop.simps) (simp add: table_node [OF sh k n a fit] bus_cycles_add)
qed

end
