(* ===== verification/Dma_Spec.thy ===== *)
theory Dma_Spec
  imports Dma_Props Dma_Words Power_On
begin

text \<open>The properties of the DMA controller, with their witnesses.\<close>

section \<open>A machine with a DMA controller and silent devices\<close>

definition dma_zero :: dma_state where
  "dma_zero = \<lparr>transfer_buffer = (\<lambda>_. 0), halt_ticks_remaining = 0, channels = (\<lambda>_. dma_channel_zero),
     DPCR = 0x07654321, DICR = 0, dbg_transfer_counts = (\<lambda>_. 0)\<rparr>"

definition dma_machine :: dma_sys where
  "dma_machine = bus_sys.extend
     (machine_zero\<lparr>bus := bus_zero\<lparr>ram_mask := mask 21, ram_mapped_size := 0x800000\<rparr>\<rparr>) (dma_sys.fields dma_zero)"

definition dma_hooks_silent :: "('a dma_sys_scheme) dma_hooks" where
  "dma_hooks_silent = \<lparr>gpu_begin_dma_write = None, gpu_end_dma_write = None, gpu_dma_write = None,
     gpu_dma_read = None, spu_dma_write = (\<lambda>_ s. s), mdec_dma_write_hook = (\<lambda>_ s. s),
     cdrom_dma_read = (\<lambda>n s. (replicate n 0, s)), spu_dma_read = (\<lambda>n s. (replicate n 0x1234, s)),
     mdec_dma_read_hook = (\<lambda>n s. (replicate n 0, s)), pad_is_transmitting_hook = (\<lambda>_. False),
     mdec_is_decoding_hook = (\<lambda>_. False), dma_halt_ticks = None, dma_max_slice_ticks = None,
     cdrom_read_speedup = None\<rparr>"

lemma silent_ok [simp]: "dma_hooks_ok dma_hooks_silent"
  by (simp add: dma_hooks_ok_def dma_hooks_silent_def)

lemma dma_machine_simps [simp]:
  "dma dma_machine = dma_zero" "timing dma_machine = timing_zero" "timing_events dma_machine = (\<lambda>_. event_zero)"
  "intc dma_machine = intc machine_zero" "ram_mask (bus dma_machine) = mask 21"
  "ram_mapped_size (bus dma_machine) = 0x800000"
  by (simp_all add: dma_machine_def power_on_defs bus_sys.extend_def dma_sys.fields_def)

lemma dma_machine_wf [simp]: "dma_wf dma_machine"
proof -
  have "sched_queue dma_machine []"
    by (simp add: sched_queue_def sched_dll_def first_or_def last_or_def timing_zero_def event_zero_def)
  moreover have "dma_mode_ok 0" by (simp add: dma_mode_ok_def cc_sync_mode_def bits_get_def)
  ultimately show ?thesis
    by (auto simp: dma_wf_def dma_irq_ok_def dicr_master_flag_def dicr_master_def irq_line_high_def
        machine_zero_def dma_zero_def dma_channel_def dma_channel_zero_def)
qed

text \<open>
  C11.  Every access to the DMA registers, every request of a device and the end of a halt
  returns - a linked list in RAM may be cyclic or end anywhere - and leaves the machine
  well-formed, with the interrupt line to the controller equal to the documented master flag.
  The modes the source panics on are excluded; the devices are assumed to keep the same.
\<close>

theorem dma_operations_return:
  assumes "dma_hooks_ok h" "dma_wf s" "ch < DMA_NUM_CHANNELS" "offset AND 0xF = 8 \<longrightarrow> dma_mode_ok v"
  shows "(\<exists>t. dma_write_register h offset v s = Some t \<and> dma_wf t) \<and>
    (\<exists>t. dma_set_request h ch b s = Some t \<and> dma_wf t) \<and>
    (\<exists>t. dma_unhalt_transfer h ticks s = Some t \<and> dma_wf t)"
  using write_register_returns [OF assms(1,2,4)] set_request_returns [OF assms(1-3), of b]
    unhalt_returns [OF assms(1,2), of ticks] assms(2)
  by (auto simp: returns_def dma_keeps_def)

theorem dma_operations_return_witness:
  "\<exists>t. dma_write_register dma_hooks_silent 0x70 0xFFFFFFFF dma_machine = Some t \<and> dma_wf t"
  using dma_operations_return [OF silent_ok dma_machine_wf, where ch = 2 and offset = "0x70" and v = "0xFFFFFFFF"]
  by (simp add: DMA_NUM_CHANNELS_def)

text \<open>
  C12.  What a device stored in RAM through a channel, a transfer back sends in the same order,
  with either address step, from any aligned address and across the end of RAM, staged or not.
\<close>

theorem dma_round_trip:
  assumes "transfer_shape k a inc wc" "ram_mask (bus s) = mask k" "a AND mask k = a"
    and "spu_dma_read h (unat wc) s = (ws, u)" "List.length ws = unat wc" "ram_mask (bus u) = mask k"
  shows "\<exists>b. snd (dma_transfer_memory_to_device h DMA_CHANNEL_SPU a inc wc
      (snd (dma_transfer_device_to_memory h DMA_CHANNEL_SPU a inc wc s))) =
    spu_dma_write h ws (upd_dma (\<lambda>d. d\<lparr>transfer_buffer := b\<rparr>)
      (snd (dma_transfer_device_to_memory h DMA_CHANNEL_SPU a inc wc s)))"
proof -
  let ?t = "snd (dma_transfer_device_to_memory h DMA_CHANNEL_SPU a inc wc s)"
  have d: "dma_device_words h DMA_CHANNEL_SPU (unat wc) s = (ws, u)"
    using assms(4) by (simp add: dma_device_words_def dma_channel_defs)
  have ch: "DMA_CHANNEL_SPU \<noteq> DMA_CHANNEL_OTC" "DMA_CHANNEL_SPU \<noteq> DMA_CHANNEL_CDROM"
    by (simp_all add: dma_channel_defs)
  obtain b where t: "?t = upd_bus (\<lambda>x. x\<lparr>ram := store_all (zip (transfer_addresses k a inc wc) ws) (ram x)\<rparr>)
      (upd_dma (\<lambda>d. d\<lparr>transfer_buffer := b\<rparr>) u)"
    by (rule to_memory_words [OF assms(1-3) ch d assms(5)])
  have m: "ram_mask (bus ?t) = mask k" using assms(6) by (simp add: t upd_bus_def)
  have w: "words_sent k (ram (bus ?t)) a inc wc = ws"
    by (simp add: t upd_bus_def sent_back [OF assms(1,5)])
  obtain c where "dma_transfer_memory_to_device h DMA_CHANNEL_SPU a inc wc ?t =
      (bus_get_dma_ram_tick_count wc, spu_dma_write h ws (upd_dma (\<lambda>d. d\<lparr>transfer_buffer := c\<rparr>) ?t))"
    by (rule to_device_words [OF assms(1) m assms(3), where h = h and ch = DMA_CHANNEL_SPU]) (simp_all add: w)
  then show ?thesis by auto
qed

theorem dma_round_trip_witness:
  "\<exists>b. snd (dma_transfer_memory_to_device dma_hooks_silent DMA_CHANNEL_SPU 0x1FFFF8 4 5
      (snd (dma_transfer_device_to_memory dma_hooks_silent DMA_CHANNEL_SPU 0x1FFFF8 4 5 dma_machine))) =
    upd_dma (\<lambda>d. d\<lparr>transfer_buffer := b\<rparr>)
      (snd (dma_transfer_device_to_memory dma_hooks_silent DMA_CHANNEL_SPU 0x1FFFF8 4 5 dma_machine))"
proof -
  have "transfer_shape 21 0x1FFFF8 4 5" by (simp add: transfer_shape_def)
  moreover have "(0x1FFFF8 :: u32) AND mask 21 = 0x1FFFF8" by (simp add: mask_eq_exp_minus_1)
  ultimately show ?thesis
    using dma_round_trip [of 21 "0x1FFFF8" 4 5 dma_machine dma_hooks_silent "replicate 5 0x1234" dma_machine]
    by (simp add: dma_hooks_silent_def)
qed

text \<open>
  C13.  The ordering table channel 6 builds is a linked list: walked in linked-list mode from its
  first entry, with the slice long enough, it visits each entry once, at eight ticks each, sends
  nothing, and completes at the terminator.
\<close>

theorem ordering_table_walk:
  assumes "transfer_shape k a (- 4) wc" "k \<le> 24" "a AND mask k = a" "ram_mask (bus s) = mask k"
    and "4 * (unat wc - 1) \<le> unat a" "unat a + 4 < unat (ram_mapped_size (bus s))"
    and "request (dma_channel s ch)" "8 * int (unat wc) \<le> budget"
  shows "dma_linked_list_loop h ch inc (mask k) a budget
      (snd (dma_transfer_device_to_memory h DMA_CHANNEL_OTC a inc' wc s)) =
    Some (True, dma_complete_transfer ch (put_base_address ch LINKED_LIST_TERMINATOR
      (bus_cycles (8 * int (unat wc)) (snd (dma_transfer_device_to_memory h DMA_CHANNEL_OTC a inc' wc s)))))"
proof -
  obtain n where n: "unat wc = Suc n" using assms(1) by (cases "unat wc") (simp_all add: transfer_shape_def)
  let ?t = "snd (dma_transfer_device_to_memory h DMA_CHANNEL_OTC a inc' wc s)"
  have t: "?t = upd_bus (\<lambda>b. b\<lparr>ram := otc_fill (mask k) a n (ram b)\<rparr>) s"
    using assms(3,4) n by (simp add: dma_transfer_device_to_memory_def Let_def)
  have "step_address (mask k) a (- 4) 0 = a" using assms(3) by (simp add: step_address_def)
  then show ?thesis
    using table_walk [OF assms(1,2) n assms(3), of ?t "ram (bus s)" ch 0 budget h inc] assms n
    by (simp add: t upd_bus_def dma_channel_def)
qed

theorem ordering_table_walk_witness:
  "\<exists>t. dma_linked_list_loop dma_hooks_silent 2 4 (mask 21) 0x1000 100
      (snd (dma_transfer_device_to_memory dma_hooks_silent DMA_CHANNEL_OTC 0x1000 4 5
        (upd_channel 2 (\<lambda>c. c\<lparr>request := True\<rparr>) dma_machine))) = Some (True, t) \<and>
    base_address (dma_channel t 2) = LINKED_LIST_TERMINATOR"
proof -
  let ?s = "upd_channel 2 (\<lambda>c. c\<lparr>request := True\<rparr>) dma_machine"
  have s: "transfer_shape 21 0x1000 (- 4) 5" by (simp add: transfer_shape_def)
  have a: "(0x1000 :: u32) AND mask 21 = 0x1000" by (simp add: mask_eq_exp_minus_1)
  have "dma_linked_list_loop dma_hooks_silent 2 4 (mask 21) 0x1000 100
      (snd (dma_transfer_device_to_memory dma_hooks_silent DMA_CHANNEL_OTC 0x1000 4 5 ?s)) =
    Some (True, dma_complete_transfer 2 (put_base_address 2 LINKED_LIST_TERMINATOR
      (bus_cycles (8 * int (unat (5 :: u32)))
        (snd (dma_transfer_device_to_memory dma_hooks_silent DMA_CHANNEL_OTC 0x1000 4 5 ?s)))))"
    by (rule ordering_table_walk [OF s _ a]) simp_all
  moreover have "base_address (dma_channel (dma_complete_transfer 2 (put_base_address 2 v u)) 2) = v" for v u
    by (simp add: dma_complete_transfer_def Let_def put_base_address_def dma_update_irq_def dma_channel_def
        upd_channel_def upd_dma_def)
  ultimately show ?thesis by auto
qed

text \<open>
  C14.  A completed transfer whose channel interrupt and master enable are set latches the DMA
  interrupt in the controller and the channel's flag in the interrupt register, when the line
  was low, and leaves the channel idle.
\<close>

theorem dma_completion_interrupts:
  assumes "ch < 7" "bit (DICR (dma s)) (ch + 16)" "bit (DICR (dma s)) 23" "\<not> irq_line_high s IRQ_DMA"
  shows "irq_pending (dma_complete_transfer ch s) IRQ_DMA \<and>
    bit (dma_read_register 0x74 (dma_complete_transfer ch s)) (ch + 24) \<and>
    bit (dma_read_register 0x74 (dma_complete_transfer ch s)) 31 \<and>
    \<not> dma_can_transfer_channel ch ignore_halt (dma_complete_transfer ch s)"
proof -
  have "dma_read_register 0x74 t = DICR (dma t)" for t :: "'a dma_sys_scheme"
    by (simp add: dma_read_register_def)
  moreover have "\<not> cc_enable_busy (channel_control (dma_channel (dma_complete_transfer ch s) ch))"
    by (simp add: dma_complete_transfer_def Let_def cc_enable_busy_def dma_channel_def dma_update_irq_def
        upd_channel_def upd_dma_def)
  ultimately show ?thesis
    using completion_interrupt [OF assms] by (simp add: dicr_master_flag_def dma_can_transfer_channel_def)
qed

theorem dma_completion_interrupts_witness:
  "irq_pending (dma_complete_transfer 2 (upd_dma (\<lambda>d. d\<lparr>DICR := 0x840000\<rparr>) dma_machine)) IRQ_DMA"
  using dma_completion_interrupts [of 2 "upd_dma (\<lambda>d. d\<lparr>DICR := 0x840000\<rparr>) dma_machine"]
  by (simp add: irq_line_high_def machine_zero_def)

end
