(* ===== verification/Mdec.thy ===== *)
theory Mdec
  imports Dma
begin

text \<open>
  The motion decoder, \<^verbatim>\<open>src/core/mdec/mdec.c\<close>, its data path: the two ring
  buffers, run-length decoding with dequantisation, the inverse DCT, colour conversion and the
  packing of pixels into output words.  These functions only touch the decoder's own state.

  Both sets of routines are here, the setting \<open>mdec_use_old_routines\<close> selects one.  The
  old colour conversion computes in single-precision floating point and is a parameter.  Signed
  16-bit values are integers, cut to 16 bits where the source stores them.
\<close>

section \<open>The FIFOs\<close>

record 'w mdec_fifo =
  fifo_buf :: "nat \<Rightarrow> 'w"
  fifo_head :: u32
  fifo_tail :: u32
  fifo_size :: u32

type_synonym mdec_fifo_in = "u16 mdec_fifo"
type_synonym mdec_fifo_out = "u32 mdec_fifo"

definition MDEC_DATA_IN_FIFO_CAPACITY :: u32 where "MDEC_DATA_IN_FIFO_CAPACITY = 512"
definition MDEC_DATA_OUT_FIFO_CAPACITY :: u32 where "MDEC_DATA_OUT_FIFO_CAPACITY = 192"
definition MDEC_NUM_BLOCKS :: u32 where "MDEC_NUM_BLOCKS = 6"
definition MDEC_TICKS_PER_BLOCK :: tick_count where "MDEC_TICKS_PER_BLOCK = 448"
definition MDEC_ACTIVE_FRAME_COUNT :: u8 where "MDEC_ACTIVE_FRAME_COUNT = 30"

lemmas mdec_const_defs = MDEC_DATA_IN_FIFO_CAPACITY_def MDEC_DATA_OUT_FIFO_CAPACITY_def
  MDEC_NUM_BLOCKS_def MDEC_TICKS_PER_BLOCK_def MDEC_ACTIVE_FRAME_COUNT_def

definition mdec_fifo_clear :: "'w mdec_fifo \<Rightarrow> 'w mdec_fifo" where
  "mdec_fifo_clear f = f\<lparr>fifo_head := 0, fifo_tail := 0, fifo_size := 0\<rparr>"

definition mdec_fifo_empty :: "'w mdec_fifo \<Rightarrow> bool" where
  "mdec_fifo_empty f \<longleftrightarrow> fifo_size f = 0"

definition mdec_fifo_in_space :: "mdec_fifo_in \<Rightarrow> u32" where
  "mdec_fifo_in_space f = MDEC_DATA_IN_FIFO_CAPACITY - fifo_size f"

definition mdec_fifo_in_full :: "mdec_fifo_in \<Rightarrow> bool" where
  "mdec_fifo_in_full f \<longleftrightarrow> fifo_size f = MDEC_DATA_IN_FIFO_CAPACITY"

definition mdec_fifo_in_push :: "u16 \<Rightarrow> mdec_fifo_in \<Rightarrow> mdec_fifo_in" where
  "mdec_fifo_in_push v f = f\<lparr>fifo_buf := (fifo_buf f)(unat (fifo_tail f) := v),
     fifo_tail := (fifo_tail f + 1) AND (MDEC_DATA_IN_FIFO_CAPACITY - 1), fifo_size := fifo_size f + 1\<rparr>"

definition mdec_fifo_in_pop :: "mdec_fifo_in \<Rightarrow> u16 \<times> mdec_fifo_in" where
  "mdec_fifo_in_pop f = (fifo_buf f (unat (fifo_head f)),
     f\<lparr>fifo_head := (fifo_head f + 1) AND (MDEC_DATA_IN_FIFO_CAPACITY - 1), fifo_size := fifo_size f - 1\<rparr>)"

definition mdec_fifo_in_peek :: "mdec_fifo_in \<Rightarrow> u32 \<Rightarrow> u16" where
  "mdec_fifo_in_peek f i = fifo_buf f (unat ((fifo_head f + i) AND (MDEC_DATA_IN_FIFO_CAPACITY - 1)))"

definition mdec_fifo_in_remove :: "u32 \<Rightarrow> mdec_fifo_in \<Rightarrow> mdec_fifo_in" where
  "mdec_fifo_in_remove n f = f\<lparr>fifo_head := (fifo_head f + n) AND (MDEC_DATA_IN_FIFO_CAPACITY - 1),
     fifo_size := fifo_size f - n\<rparr>"

definition mdec_fifo_in_push_range :: "u16 list \<Rightarrow> mdec_fifo_in \<Rightarrow> mdec_fifo_in" where
  "mdec_fifo_in_push_range vs = fold mdec_fifo_in_push vs"

fun mdec_fifo_in_pop_range :: "nat \<Rightarrow> mdec_fifo_in \<Rightarrow> u16 list \<times> mdec_fifo_in" where
  "mdec_fifo_in_pop_range 0 f = ([], f)"
| "mdec_fifo_in_pop_range (Suc n) f =
     (let (v, f) = mdec_fifo_in_pop f; (vs, f) = mdec_fifo_in_pop_range n f in (v # vs, f))"

definition mdec_fifo_out_push :: "u32 \<Rightarrow> mdec_fifo_out \<Rightarrow> mdec_fifo_out" where
  "mdec_fifo_out_push v f = f\<lparr>fifo_buf := (fifo_buf f)(unat (fifo_tail f) := v),
     fifo_tail := (fifo_tail f + 1) mod MDEC_DATA_OUT_FIFO_CAPACITY, fifo_size := fifo_size f + 1\<rparr>"

definition mdec_fifo_out_pop :: "mdec_fifo_out \<Rightarrow> u32 \<times> mdec_fifo_out" where
  "mdec_fifo_out_pop f = (fifo_buf f (unat (fifo_head f)),
     f\<lparr>fifo_head := (fifo_head f + 1) mod MDEC_DATA_OUT_FIFO_CAPACITY, fifo_size := fifo_size f - 1\<rparr>)"

fun mdec_fifo_out_pop_range :: "nat \<Rightarrow> mdec_fifo_out \<Rightarrow> u32 list \<times> mdec_fifo_out" where
  "mdec_fifo_out_pop_range 0 f = ([], f)"
| "mdec_fifo_out_pop_range (Suc n) f =
     (let (v, f) = mdec_fifo_out_pop f; (vs, f) = mdec_fifo_out_pop_range n f in (v # vs, f))"

section \<open>State\<close>

datatype mdec_state_e = MDEC_STATE_IDLE | MDEC_STATE_DECODING_MACROBLOCK | MDEC_STATE_WRITING_MACROBLOCK
  | MDEC_STATE_SET_IQ_TABLE | MDEC_STATE_SET_SCALE_TABLE | MDEC_STATE_NO_COMMAND

record mdec_state =
  mdec_status :: u32
  enable_dma_in :: bool
  enable_dma_out :: bool
  mdec_mode :: mdec_state_e
  active_frame_count :: u8
  remaining_halfwords :: u32
  data_in_fifo :: mdec_fifo_in
  data_out_fifo :: mdec_fifo_out
  iq_uv :: "nat \<Rightarrow> u8"
  iq_y :: "nat \<Rightarrow> u8"
  scale_table :: "nat \<Rightarrow> int"
  blocks :: "nat \<Rightarrow> nat \<Rightarrow> int"
  current_block :: u32
  current_coefficient :: u32
  current_q_scale :: u16
  block_rgb :: "nat \<Rightarrow> u32"

record mdec_config =
  mdec_use_old_routines :: bool
  mdec_disable_cdrom_speedup :: bool
  mdec_yuv_to_rgb_old :: "bool \<Rightarrow> nat \<Rightarrow> nat \<Rightarrow> (nat \<Rightarrow> int) \<Rightarrow> (nat \<Rightarrow> int) \<Rightarrow> (nat \<Rightarrow> int) \<Rightarrow>
    (nat \<Rightarrow> u32) \<Rightarrow> (nat \<Rightarrow> u32)"

text \<open>The status and command words.\<close>

definition status_depth :: "u32 \<Rightarrow> nat" where "status_depth r = unat (bits_get r 25 2)"
definition status_signed :: "u32 \<Rightarrow> bool" where "status_signed r = bit r 24"
definition status_bit15 :: "u32 \<Rightarrow> bool" where "status_bit15 r = bit r 23"

definition mdec_clamp_s32 :: "int \<Rightarrow> int \<Rightarrow> int \<Rightarrow> int" where
  "mdec_clamp_s32 v lo hi = (if v < lo then lo else if v > hi then hi else v)"

text \<open>\<open>SignExtendN\<close> of the low bits of a value.\<close>

definition sext10 :: "u16 \<Rightarrow> int" where "sext10 n = signed_take_bit 9 (uint n)"
definition sext9 :: "int \<Rightarrow> int" where "sext9 v = signed_take_bit 8 v"

definition mdec_reset_decoder :: "mdec_state \<Rightarrow> mdec_state" where
  "mdec_reset_decoder m = m\<lparr>current_block := 0, current_coefficient := 64, current_q_scale := 0\<rparr>"

section \<open>Run-length decoding\<close>

text \<open>The next halfword of the command's data, if there is one.\<close>

definition mdec_next_halfword :: "mdec_state \<Rightarrow> (u16 \<times> mdec_state) option" where
  "mdec_next_halfword m =
     (if mdec_fifo_empty (data_in_fifo m) \<or> remaining_halfwords m = 0 then None
      else let (n, f) = mdec_fifo_in_pop (data_in_fifo m)
           in Some (n, m\<lparr>data_in_fifo := f, remaining_halfwords := remaining_halfwords m - 1\<rparr>))"

lemma next_halfword_less:
  "mdec_next_halfword m = Some (n, m') \<Longrightarrow> unat (remaining_halfwords m') < unat (remaining_halfwords m)"
  by (auto simp: mdec_next_halfword_def mdec_fifo_in_pop_def word_less_nat_alt [symmetric] split: if_splits)
    (metis unat_1 unat_minus_one diff_less unat_gt_0 word_less_nat_alt zero_less_one)

text \<open>Padding is skipped; the state has lost the padding even when no data follows it.\<close>

function mdec_skip_padding :: "mdec_state \<Rightarrow> u16 option \<times> mdec_state" where
  "mdec_skip_padding m = (case mdec_next_halfword m of
      None \<Rightarrow> (None, m)
    | Some (n, m') \<Rightarrow> if n = 0xFE00 then mdec_skip_padding m' else (Some n, m'))"
  by pat_completeness auto
termination
  by (relation "measure (\<lambda>m. unat (remaining_halfwords m))") (auto dest: next_halfword_less)

declare mdec_skip_padding.simps [simp del]

definition zigzag :: "nat list" where
  "zigzag = [
     0,  8,  1,  2,  9, 16, 24, 17, 10,  3,  4, 11, 18, 25, 32, 40,
    33, 26, 19, 12,  5,  6, 13, 20, 27, 34, 41, 48, 56, 49, 42, 35,
    28, 21, 14,  7, 15, 22, 29, 36, 43, 50, 57, 58, 51, 44, 37, 30,
    23, 31, 38, 45, 52, 59, 60, 53, 46, 39, 47, 54, 61, 62, 55, 63]"

definition zagzig :: "nat list" where
  "zagzig = [
     0,  1,  8, 16,  9,  2,  3, 10, 17, 24, 32, 25, 18, 11,  4,  5,
    12, 19, 26, 33, 40, 48, 41, 34, 27, 20, 13,  6,  7, 14, 21, 28,
    35, 42, 49, 56, 57, 50, 43, 36, 29, 22, 15, 23, 30, 37, 44, 51,
    58, 59, 52, 45, 38, 31, 39, 46, 53, 60, 61, 54, 47, 55, 62, 63]"

definition sign_bias :: "int \<Rightarrow> int" where
  "sign_bias v = (if v = 0 then 0 else if v < 0 then 8 else - 8)"

text \<open>The value of the first halfword of a block, and of a later one, by the new routine.\<close>

definition rle_first_new :: "(nat \<Rightarrow> u8) \<Rightarrow> u16 \<Rightarrow> int" where
  "rle_first_new qt n =
     (let v = sext10 n in mdec_clamp_s32
        (if drop_bit 10 n = 0 then v * 32 else (v * uint (qt 0)) * 16 + sign_bias v) (- 0x4000) 0x3FFF)"

definition rle_coeff_new :: "(nat \<Rightarrow> u8) \<Rightarrow> u16 \<Rightarrow> nat \<Rightarrow> u16 \<Rightarrow> int" where
  "rle_coeff_new qt q k n =
     (let v = sext10 n; scq = uint q * uint (qt k)
      in mdec_clamp_s32 (if scq = 0 then v * 32 else drop_bit 3 (v * scq) * 16 + sign_bias v) (- 0x4000) 0x3FFF)"

text \<open>By the old routine.\<close>

definition rle_first_old :: "(nat \<Rightarrow> u8) \<Rightarrow> u16 \<Rightarrow> int" where
  "rle_first_old qt n =
     mdec_clamp_s32 (if drop_bit 10 n = 0 then sext10 n * 2 else sext10 n * uint (qt 0)) (- 0x400) 0x3FF"

definition rle_coeff_old :: "(nat \<Rightarrow> u8) \<Rightarrow> u16 \<Rightarrow> nat \<Rightarrow> u16 \<Rightarrow> int" where
  "rle_coeff_old qt q k n =
     mdec_clamp_s32 (if q = 0 then sext10 n * 2 else (sext10 n * uint (qt k) * uint q + 4) sdiv 8) (- 0x400) 0x3FF"

text \<open>Where a coefficient goes: the old routine does not reorder with scale zero.\<close>

definition rle_place :: "bool \<Rightarrow> u16 \<Rightarrow> nat \<Rightarrow> nat" where
  "rle_place old q k = (if old then if q > 0 then zagzig ! k else k else zigzag ! k)"

text \<open>
  The coefficients after the first: a run length and a value per halfword, until the block is
  full or the data ends.
\<close>

function mdec_rle_loop ::
  "bool \<Rightarrow> (nat \<Rightarrow> u8) \<Rightarrow> (nat \<Rightarrow> int) \<Rightarrow> mdec_state \<Rightarrow> bool \<times> (nat \<Rightarrow> int) \<times> mdec_state" where
  "mdec_rle_loop old qt blk m = (case mdec_next_halfword m of
      None \<Rightarrow> (False, blk, m)
    | Some (n, m') \<Rightarrow>
        let c = current_coefficient m' + (ucast (drop_bit 10 n) + 1);
            q = current_q_scale m';
            blk = (if c < 64
                   then blk(rle_place old q (unat c) :=
                     (if old then rle_coeff_old qt q (unat c) n else rle_coeff_new qt q (unat c) n))
                   else blk)
        in if c \<ge> 63 then (True, blk, m'\<lparr>current_coefficient := 64\<rparr>)
           else mdec_rle_loop old qt blk (m'\<lparr>current_coefficient := c\<rparr>))"
  by pat_completeness auto
termination
  by (relation "measure (\<lambda>(_, _, _, m). unat (remaining_halfwords m))") (auto dest: next_halfword_less)

declare mdec_rle_loop.simps [simp del]

text \<open>
  \<open>mdec_decode_rle_new\<close> and \<open>mdec_decode_rle_old\<close>: the block is cleared at its
  start, and decoding goes on in it when more data has come.
\<close>

definition mdec_decode_rle ::
  "bool \<Rightarrow> (nat \<Rightarrow> u8) \<Rightarrow> (nat \<Rightarrow> int) \<Rightarrow> mdec_state \<Rightarrow> bool \<times> (nat \<Rightarrow> int) \<times> mdec_state" where
  "mdec_decode_rle old qt blk m =
     (if current_coefficient m = 64
      then (case mdec_skip_padding m of
              (None, m) \<Rightarrow> (False, (\<lambda>_. 0), m)
            | (Some n, m) \<Rightarrow>
                let q = drop_bit 10 n;
                    m = m\<lparr>current_coefficient := 0, current_q_scale := q\<rparr>;
                    v = (if old then rle_first_old qt n else rle_first_new qt n)
                in mdec_rle_loop old qt ((\<lambda>_. 0)(rle_place old q 0 := v)) m)
      else mdec_rle_loop old qt blk m)"

section \<open>Inverse DCT\<close>

definition mdec_idct_row :: "(nat \<Rightarrow> int) \<Rightarrow> nat \<Rightarrow> (nat \<Rightarrow> int) \<Rightarrow> nat \<Rightarrow> int" where
  "mdec_idct_row blk i mat j =
     to_s16 (drop_bit 18 ((\<Sum>u\<leftarrow>[0..<8]. blk (i + u) * mat (j + u)) + 0x20000))"

definition mdec_idct_new :: "(nat \<Rightarrow> int) \<Rightarrow> (nat \<Rightarrow> int) \<Rightarrow> (nat \<Rightarrow> int)" where
  "mdec_idct_new scale blk =
     (let temp = (\<lambda>p. mdec_idct_row blk (p mod 8 * 8) scale (p div 8 * 8))
      in (\<lambda>p. if p < 64
              then mdec_clamp_s32 (sext9 (mdec_idct_row temp (p div 8 * 8) scale (p mod 8 * 8))) (- 128) 127
              else blk p))"

definition mdec_idct_old :: "(nat \<Rightarrow> int) \<Rightarrow> (nat \<Rightarrow> int) \<Rightarrow> (nat \<Rightarrow> int)" where
  "mdec_idct_old scale blk =
     (let temp = (\<lambda>p. \<Sum>u\<leftarrow>[0..<8]. blk (u * 8 + p mod 8) * scale (p div 8 * 8 + u));
          total = (\<lambda>p. \<Sum>u\<leftarrow>[0..<8]. temp (u + p div 8 * 8) * scale (p mod 8 * 8 + u))
      in (\<lambda>p. if p < 64
              then mdec_clamp_s32 (sext9 (to_s32 (drop_bit 32 (total p) + of_bool (bit (total p) 31)))) (- 128) 127
              else blk p))"

section \<open>Colour\<close>

text \<open>One pixel: bytes red, green and blue from the low end.\<close>

definition mdec_pixel :: "bool \<Rightarrow> int \<Rightarrow> int \<Rightarrow> int \<Rightarrow> u32" where
  "mdec_pixel sgnd Cr Cb Y =
     (let addval = (if sgnd then 0 else 0x80);
          r_chroma = drop_bit 8 (359 * Cr + 0x80);
          b_chroma = drop_bit 8 (454 * Cb + 0x80);
          g_chroma = drop_bit 8 (((- 88 * Cb) AND NOT 0x1F) + ((- 183 * Cr) AND NOT 0x07) + 0x80);
          lane = (\<lambda>c. mdec_clamp_s32 (sext9 (Y + c)) (- 128) 127 + addval)
      in ucast (word_of_int (lane r_chroma) :: u8) OR push_bit 8 (ucast (word_of_int (lane g_chroma) :: u8)) OR
         push_bit 16 (ucast (word_of_int (lane b_chroma) :: u8)))"

definition mdec_yuv_to_rgb_new ::
  "bool \<Rightarrow> nat \<Rightarrow> nat \<Rightarrow> (nat \<Rightarrow> int) \<Rightarrow> (nat \<Rightarrow> int) \<Rightarrow> (nat \<Rightarrow> int) \<Rightarrow> (nat \<Rightarrow> u32) \<Rightarrow> (nat \<Rightarrow> u32)" where
  "mdec_yuv_to_rgb_new sgnd xx yy Crblk Cbblk Yblk rgb =
     (\<lambda>p. let x = p mod 16; y = p div 16
          in if xx \<le> x \<and> x < xx + 8 \<and> yy \<le> y \<and> y < yy + 8
             then let c = xx div 2 + y div 2 * 8 + (x - xx) div 2
                  in mdec_pixel sgnd (Crblk c) (Cbblk c) (Yblk ((y - yy) * 8 + (x - xx)))
             else rgb p)"

definition mdec_yuv_to_mono :: "bool \<Rightarrow> (nat \<Rightarrow> int) \<Rightarrow> (nat \<Rightarrow> u32) \<Rightarrow> (nat \<Rightarrow> u32)" where
  "mdec_yuv_to_mono sgnd Yblk rgb =
     (\<lambda>p. if p < 64
          then word_of_int (mdec_clamp_s32 (sext9 (Yblk p)) (- 128) 127 + (if sgnd then 0 else 0x80))
          else rgb p)"

section \<open>Packing\<close>

text \<open>The state machine of the 24-bit output: three words for four pixels.\<close>

fun mdec_pack_24 :: "nat \<Rightarrow> u32 \<Rightarrow> u32 list \<Rightarrow> u32 list" where
  "mdec_pack_24 st acc [] = []"
| "mdec_pack_24 st acc (p # ps) =
     (if st = 0 then mdec_pack_24 1 p ps
      else if st = 1 then (acc OR push_bit 24 (p AND 0xFF)) # mdec_pack_24 2 (drop_bit 8 p) ps
      else if st = 2 then (acc OR push_bit 16 p) # mdec_pack_24 3 (drop_bit 16 p) ps
      else (acc OR push_bit 8 p) # mdec_pack_24 0 acc ps)"

definition e8to5 :: "u32 \<Rightarrow> u32" where
  "e8to5 c = min (drop_bit 3 (c + 4)) 0x1F"

definition color15_new :: "u32 \<Rightarrow> u32 \<Rightarrow> u32" where
  "color15_new a c = e8to5 (c AND 0xFF) OR push_bit 5 (e8to5 (drop_bit 8 c AND 0xFF)) OR
     push_bit 10 (e8to5 (drop_bit 16 c AND 0xFF)) OR a"

definition color15_old :: "u32 \<Rightarrow> u32 \<Rightarrow> u32" where
  "color15_old a c = (drop_bit 3 c AND 0x1F) OR push_bit 5 (drop_bit 11 c AND 0x1F) OR
     push_bit 10 (drop_bit 19 c AND 0x1F) OR a"

definition pack_lanes :: "nat \<Rightarrow> nat \<Rightarrow> nat \<Rightarrow> (nat \<Rightarrow> u32) \<Rightarrow> nat \<Rightarrow> u32" where
  "pack_lanes lanes shift sh rgb i =
     fold (\<lambda>j w. w OR push_bit (j * shift) (drop_bit sh (rgb (i * lanes + j)))) [0..<lanes] 0"

text \<open>The words the copy-out pushes, by output depth.\<close>

definition mdec_pack :: "bool \<Rightarrow> u32 \<Rightarrow> (nat \<Rightarrow> u32) \<Rightarrow> u32 list" where
  "mdec_pack old status rgb =
     (let depth = status_depth status; a = push_bit 15 (u32_of_bool (status_bit15 status)) in
      if depth = 0 then map (pack_lanes 8 4 4 rgb) [0..<8]
      else if depth = 1 then map (pack_lanes 4 8 0 rgb) [0..<16]
      else if depth = 2 then mdec_pack_24 0 0 (map rgb [0..<256])
      else map (\<lambda>i. (if old then color15_old else color15_new) a (rgb (2 * i)) OR
             push_bit 16 ((if old then color15_old else color15_new) a (rgb (2 * i + 1)))) [0..<128])"

end
