(* ===== verification/Mdec_Fifo.thy ===== *)
theory Mdec_Fifo
  imports Mdec
begin

text \<open>
  The two ring buffers of the motion decoder against lists: both, one wrapping with a mask and
  one with a remainder, are the bounded queue of the locale \<open>bounded_ring\<close>.
\<close>

definition fifo_ok :: "nat \<Rightarrow> 'w mdec_fifo \<Rightarrow> bool" where
  "fifo_ok cap f \<longleftrightarrow> unat (fifo_head f) < cap \<and> unat (fifo_size f) \<le> cap \<and>
     unat (fifo_tail f) = (unat (fifo_head f) + unat (fifo_size f)) mod cap"

definition fifo_list :: "nat \<Rightarrow> 'w mdec_fifo \<Rightarrow> 'w list" where
  "fifo_list cap f =
     map (\<lambda>i. fifo_buf f ((unat (fifo_head f) + i) mod cap)) [0..<unat (fifo_size f)]"

lemma length_fifo_list [simp]: "List.length (fifo_list cap f) = unat (fifo_size f)"
  by (simp add: fifo_list_def)

lemma fifo_empty_list: "mdec_fifo_empty f \<longleftrightarrow> fifo_list cap f = []"
  by (simp add: mdec_fifo_empty_def fifo_list_def unat_eq_0)

lemma clear_ok [simp]: "0 < cap \<Longrightarrow> fifo_ok cap (mdec_fifo_clear f)" "fifo_list cap (mdec_fifo_clear f) = []"
  by (simp_all add: fifo_ok_def fifo_list_def mdec_fifo_clear_def)

text \<open>What the push and pop of a ring of \<open>cap\<close> places do to its indices.\<close>

locale bounded_ring =
  fixes cap :: nat
    and push :: "'w \<Rightarrow> 'w mdec_fifo \<Rightarrow> 'w mdec_fifo"
    and pop :: "'w mdec_fifo \<Rightarrow> 'w \<times> 'w mdec_fifo"
  assumes cap: "0 < cap" "cap < 2 ^ 31"
    and push_ring: "unat (fifo_tail f) < cap \<Longrightarrow> unat (fifo_size f) < cap \<Longrightarrow>
      fifo_buf (push v f) = (fifo_buf f)(unat (fifo_tail f) := v) \<and> fifo_head (push v f) = fifo_head f \<and>
      unat (fifo_tail (push v f)) = (unat (fifo_tail f) + 1) mod cap \<and>
      unat (fifo_size (push v f)) = unat (fifo_size f) + 1"
    and pop_ring: "unat (fifo_head f) < cap \<Longrightarrow> 0 < unat (fifo_size f) \<Longrightarrow>
      fst (pop f) = fifo_buf f (unat (fifo_head f)) \<and> fifo_buf (snd (pop f)) = fifo_buf f \<and>
      fifo_tail (snd (pop f)) = fifo_tail f \<and>
      unat (fifo_head (snd (pop f))) = (unat (fifo_head f) + 1) mod cap \<and>
      unat (fifo_size (snd (pop f))) = unat (fifo_size f) - 1"
begin

lemma tail_less: "fifo_ok cap f \<Longrightarrow> unat (fifo_tail f) < cap"
  using cap(1) by (simp add: fifo_ok_def)

lemma push_refines:
  assumes "fifo_ok cap f" "unat (fifo_size f) < cap"
  shows "fifo_ok cap (push v f)" "fifo_list cap (push v f) = fifo_list cap f @ [v]"
proof -
  note p = push_ring [OF tail_less [OF assms(1)] assms(2), of v]
  have h: "unat (fifo_head f) < cap" "unat (fifo_tail f) = (unat (fifo_head f) + unat (fifo_size f)) mod cap"
    using assms(1) by (simp_all add: fifo_ok_def)
  show "fifo_ok cap (push v f)"
    using p h assms(2) by (simp add: fifo_ok_def mod_Suc_eq)
  have "(unat (fifo_head f) + i) mod cap \<noteq> unat (fifo_tail f)" if i: "i < unat (fifo_size f)" for i
  proof
    assume "(unat (fifo_head f) + i) mod cap = unat (fifo_tail f)"
    then have "(unat (fifo_head f) + i) mod cap = (unat (fifo_head f) + unat (fifo_size f)) mod cap"
      using h by simp
    then have "i mod cap = unat (fifo_size f) mod cap"
      by (simp add: nat_mod_eq_iff)
    then show False using i assms(2) by simp
  qed
  then show "fifo_list cap (push v f) = fifo_list cap f @ [v]"
    using p h by (simp add: fifo_list_def)
qed

lemma pop_refines:
  assumes "fifo_ok cap f" "fifo_size f \<noteq> 0"
  shows "fifo_ok cap (snd (pop f))" "fifo_list cap f = fst (pop f) # fifo_list cap (snd (pop f))"
proof -
  have h: "unat (fifo_head f) < cap" "unat (fifo_size f) \<le> cap" "0 < unat (fifo_size f)"
    "unat (fifo_tail f) = (unat (fifo_head f) + unat (fifo_size f)) mod cap"
    using assms by (auto simp: fifo_ok_def unat_gt_0)
  note p = pop_ring [OF h(1) h(3)]
  have "((unat (fifo_head f) + 1) mod cap + (unat (fifo_size f) - 1)) mod cap =
      (unat (fifo_head f) + unat (fifo_size f)) mod cap"
  proof -
    obtain n where "unat (fifo_size f) = Suc n" using h(3) gr0_conv_Suc by blast
    then show ?thesis by (simp add: mod_simps)
  qed
  then show "fifo_ok cap (snd (pop f))" using p h cap(1) by (simp add: fifo_ok_def)
  have "[0..<unat (fifo_size f)] = 0 # map Suc [0..<unat (fifo_size f) - 1]"
    using h(3) by (simp add: map_Suc_upt upt_conv_Cons)
  then show "fifo_list cap f = fst (pop f) # fifo_list cap (snd (pop f))"
    using p h by (simp add: fifo_list_def o_def mod_simps)
qed

lemma size_pop: "fifo_ok cap f \<Longrightarrow> fifo_size f \<noteq> 0 \<Longrightarrow> unat (fifo_size (snd (pop f))) = unat (fifo_size f) - 1"
  using pop_ring by (simp add: fifo_ok_def unat_gt_0)

text \<open>A loop of pops takes the front of the list.\<close>

lemma pop_all_refines:
  assumes "\<And>f. pops 0 f = ([], f)"
    and "\<And>n f. pops (Suc n) f = (let (v, f) = pop f; (vs, f) = pops n f in (v # vs, f))"
  shows "fifo_ok cap f \<Longrightarrow> n \<le> unat (fifo_size f) \<Longrightarrow>
    fst (pops n f) = take n (fifo_list cap f) \<and> fifo_ok cap (snd (pops n f)) \<and>
    fifo_list cap (snd (pops n f)) = drop n (fifo_list cap f)"
proof (induction n arbitrary: f)
  case (Suc n)
  then have ne: "fifo_size f \<noteq> 0" by auto
  show ?case
    using Suc.IH [OF pop_refines(1) [OF Suc.prems(1) ne]] Suc.prems pop_refines(2) [OF Suc.prems(1) ne]
      size_pop [OF Suc.prems(1) ne]
    by (auto simp: assms(2) split: prod.splits)
qed (simp add: assms(1))

lemma push_all_refines:
  "fifo_ok cap f \<Longrightarrow> unat (fifo_size f) + List.length vs \<le> cap \<Longrightarrow>
     fifo_ok cap (fold push vs f) \<and> fifo_list cap (fold push vs f) = fifo_list cap f @ vs"
proof (induction vs arbitrary: f)
  case (Cons v vs)
  have s: "unat (fifo_size f) < cap" using Cons.prems by simp
  note p = push_refines [OF Cons.prems(1) s, of v]
  have "unat (fifo_size (push v f)) = unat (fifo_size f) + 1"
    using push_ring [OF tail_less [OF Cons.prems(1)] s] by simp
  then show ?case using Cons.IH [OF p(1)] Cons.prems p(2) by simp
qed simp

end

lemma unat_wrap_512: "unat (w AND (MDEC_DATA_IN_FIFO_CAPACITY - 1)) = unat w mod 512"
proof -
  have "(511 :: u32) = mask 9" by (simp add: mask_eq_exp_minus_1)
  then have "unat (w AND (MDEC_DATA_IN_FIFO_CAPACITY - 1)) = unat (take_bit 9 w)"
    by (simp add: take_bit_eq_mask MDEC_DATA_IN_FIFO_CAPACITY_def)
  also have "\<dots> = take_bit 9 (unat w)" by (rule unsigned_take_bit_eq)
  also have "\<dots> = unat w mod 512" by (simp add: take_bit_eq_mod)
  finally show ?thesis .
qed

lemma unat_succ: "unat w < 2 ^ 31 \<Longrightarrow> unat (w + 1) = unat w + 1" for w :: u32
  by (simp add: unat_word_ariths(1))

lemma unat_pred: "0 < unat w \<Longrightarrow> unat (w - 1) = unat w - 1" for w :: u32
  by (metis unat_eq_0 unat_minus_one less_not_refl)

interpretation in_ring: bounded_ring 512 mdec_fifo_in_push mdec_fifo_in_pop
  by unfold_locales
    (simp_all add: mdec_fifo_in_push_def mdec_fifo_in_pop_def unat_wrap_512 unat_succ unat_pred)

interpretation out_ring: bounded_ring 192 mdec_fifo_out_push mdec_fifo_out_pop
  by unfold_locales
    (simp_all add: mdec_fifo_out_push_def mdec_fifo_out_pop_def MDEC_DATA_OUT_FIFO_CAPACITY_def unat_mod
      unat_succ unat_pred)

lemma in_pop_range:
  assumes "fifo_ok 512 f" "n \<le> unat (fifo_size f)"
  shows "fst (mdec_fifo_in_pop_range n f) = take n (fifo_list 512 f)" "fifo_ok 512 (snd (mdec_fifo_in_pop_range n f))"
    "fifo_list 512 (snd (mdec_fifo_in_pop_range n f)) = drop n (fifo_list 512 f)"
  using in_ring.pop_all_refines [OF _ _ assms, of mdec_fifo_in_pop_range] by simp_all

lemma out_pop_range:
  assumes "fifo_ok 192 f" "n \<le> unat (fifo_size f)"
  shows "fst (mdec_fifo_out_pop_range n f) = take n (fifo_list 192 f)" "fifo_ok 192 (snd (mdec_fifo_out_pop_range n f))"
    "fifo_list 192 (snd (mdec_fifo_out_pop_range n f)) = drop n (fifo_list 192 f)"
  using out_ring.pop_all_refines [OF _ _ assms, of mdec_fifo_out_pop_range] by simp_all

lemma in_push_range:
  assumes "fifo_ok 512 f" "unat (fifo_size f) + List.length vs \<le> 512"
  shows "fifo_ok 512 (mdec_fifo_in_push_range vs f)"
    "fifo_list 512 (mdec_fifo_in_push_range vs f) = fifo_list 512 f @ vs"
  using in_ring.push_all_refines [OF assms] by (simp_all add: mdec_fifo_in_push_range_def)

lemma in_peek:
  assumes "fifo_ok 512 f" "unat i < unat (fifo_size f)"
  shows "mdec_fifo_in_peek f i = fifo_list 512 f ! unat i"
proof -
  have "unat (fifo_head f + i) = unat (fifo_head f) + unat i"
    using assms by (simp add: fifo_ok_def unat_word_ariths(1))
  then show ?thesis using assms(2) by (simp add: mdec_fifo_in_peek_def unat_wrap_512 fifo_list_def)
qed

lemma in_remove:
  assumes "fifo_ok 512 f" "unat n \<le> unat (fifo_size f)"
  shows "fifo_ok 512 (mdec_fifo_in_remove n f)"
    "fifo_list 512 (mdec_fifo_in_remove n f) = drop (unat n) (fifo_list 512 f)"
proof -
  have u: "unat (fifo_head f + n) = unat (fifo_head f) + unat n" "unat (fifo_size f - n) = unat (fifo_size f) - unat n"
    using assms by (simp_all add: fifo_ok_def unat_word_ariths(1) unat_sub word_le_nat_alt)
  obtain k where k: "unat (fifo_size f) = unat n + k" using assms(2) le_Suc_ex by blast
  show "fifo_ok 512 (mdec_fifo_in_remove n f)"
    using assms u k by (simp add: fifo_ok_def mdec_fifo_in_remove_def unat_wrap_512 mod_simps add.assoc)
  show "fifo_list 512 (mdec_fifo_in_remove n f) = drop (unat n) (fifo_list 512 f)"
    by (rule nth_equalityI) (simp_all add: fifo_list_def mdec_fifo_in_remove_def unat_wrap_512 u mod_simps add.assoc less_diff_conv)
qed

lemma fifo_size_list: "fifo_size f = of_nat (List.length (fifo_list cap f))"
  by simp

end
