(* ===== verification/Mdec_Rle.thy ===== *)
theory Mdec_Rle
  imports Mdec_Fifo
begin

text \<open>
  Run-length decoding against a decoder on lists of halfwords, and its resumption: a block
  whose data comes in pieces is the block decoded from all of it.
\<close>

section \<open>The decoder on lists\<close>

fun rle_run :: "bool \<Rightarrow> (nat \<Rightarrow> u8) \<Rightarrow> u16 \<Rightarrow> nat \<Rightarrow> (nat \<Rightarrow> int) \<Rightarrow> u16 list \<Rightarrow> ((nat \<Rightarrow> int) \<times> u16 list) option" where
  "rle_run old qt q k blk [] = None"
| "rle_run old qt q k blk (n # ns) =
     (let k = k + unat (drop_bit 10 n) + 1;
          blk = (if k < 64
                 then blk(rle_place old q k := (if old then rle_coeff_old else rle_coeff_new) qt q k n)
                 else blk)
      in if k \<ge> 63 then Some (blk, ns) else rle_run old qt q k blk ns)"

definition rle_block :: "bool \<Rightarrow> (nat \<Rightarrow> u8) \<Rightarrow> u16 list \<Rightarrow> ((nat \<Rightarrow> int) \<times> u16 list) option" where
  "rle_block old qt ns =
     (case dropWhile (\<lambda>n. n = 0xFE00) ns of
        [] \<Rightarrow> None
      | n # ns \<Rightarrow> rle_run old qt (drop_bit 10 n) 0
          ((\<lambda>_. 0)(rle_place old (drop_bit 10 n) 0 := (if old then rle_first_old else rle_first_new) qt n)) ns)"

text \<open>The halfwords a command may still read now.\<close>

definition mdec_input :: "mdec_state \<Rightarrow> u16 list" where
  "mdec_input m = take (unat (remaining_halfwords m)) (fifo_list 512 (data_in_fifo m))"

lemma mdec_input_upd [simp]:
  "mdec_input (m\<lparr>current_coefficient := c\<rparr>) = mdec_input m"
  "mdec_input (m\<lparr>current_q_scale := q\<rparr>) = mdec_input m"
  by (simp_all add: mdec_input_def)

section \<open>Equivalence\<close>

lemma next_halfword_input:
  assumes ok: "fifo_ok 512 (data_in_fifo m)"
  shows "mdec_next_halfword m = None \<longleftrightarrow> mdec_input m = []"
    and "mdec_next_halfword m = Some (n, m') \<Longrightarrow>
      mdec_input m = n # mdec_input m' \<and> fifo_ok 512 (data_in_fifo m') \<and>
      current_coefficient m' = current_coefficient m \<and> current_q_scale m' = current_q_scale m"
proof -
  show "mdec_next_halfword m = None \<longleftrightarrow> mdec_input m = []"
    by (auto simp: mdec_next_halfword_def mdec_input_def fifo_empty_list [of _ 512] unat_eq_0 Let_def
        split: prod.splits)
  assume s: "mdec_next_halfword m = Some (n, m')"
  then have ne: "fifo_size (data_in_fifo m) \<noteq> 0" "remaining_halfwords m \<noteq> 0"
    by (auto simp: mdec_next_halfword_def mdec_fifo_empty_def split: if_splits)
  then have "unat (remaining_halfwords m) = Suc (unat (remaining_halfwords m - 1))"
    using unat_pred [of "remaining_halfwords m"] by (simp add: unat_gt_0 [symmetric])
  then show "mdec_input m = n # mdec_input m' \<and> fifo_ok 512 (data_in_fifo m') \<and>
      current_coefficient m' = current_coefficient m \<and> current_q_scale m' = current_q_scale m"
    using s ne in_ring.pop_refines [OF ok ne(1)]
    by (auto simp: mdec_next_halfword_def mdec_input_def mdec_fifo_empty_def split: prod.splits)
qed

text \<open>The position in the block, computed in 32 bits, does not wrap.\<close>

lemma position_step:
  assumes "c < 64"
  shows "unat (c + (ucast (drop_bit 10 (n :: u16)) + 1) :: u32) = unat c + unat (drop_bit 10 n) + 1"
proof -
  have "unat (drop_bit 10 n) = unat n div 2 ^ 10" by (subst unat_drop_bit_eq) (simp only: drop_bit_nat_def)
  moreover have "unat n < 2 ^ 16" using unsigned_less [of n] by simp
  ultimately have d: "unat (drop_bit 10 n) < 64" by simp
  moreover have "unat (ucast (drop_bit 10 n) :: u32) = unat (drop_bit 10 n)"
    using d by (simp add: unsigned_ucast_eq take_bit_nat_eq_self)
  moreover have "unat c < 64" using assms by (simp add: word_less_nat_alt)
  ultimately show ?thesis by (simp add: unat_word_ariths(1))
qed

text \<open>One step of the loop, and induction along it.\<close>

definition rle_position :: "mdec_state \<Rightarrow> u16 \<Rightarrow> u32" where
  "rle_position m n = current_coefficient m + (ucast (drop_bit 10 n) + 1)"

definition rle_stored :: "bool \<Rightarrow> (nat \<Rightarrow> u8) \<Rightarrow> (nat \<Rightarrow> int) \<Rightarrow> mdec_state \<Rightarrow> u16 \<Rightarrow> (nat \<Rightarrow> int)" where
  "rle_stored old qt blk m n =
     (if rle_position m n < 64
      then blk(rle_place old (current_q_scale m) (unat (rle_position m n)) :=
        (if old then rle_coeff_old qt (current_q_scale m) (unat (rle_position m n)) n
         else rle_coeff_new qt (current_q_scale m) (unat (rle_position m n)) n))
      else blk)"

lemma rle_loop_None: "mdec_next_halfword m = None \<Longrightarrow> mdec_rle_loop old qt blk m = (False, blk, m)"
  by (subst mdec_rle_loop.simps) simp

lemma rle_loop_Some:
  "mdec_next_halfword m = Some (n, t) \<Longrightarrow> mdec_rle_loop old qt blk m =
     (if rle_position t n \<ge> 63 then (True, rle_stored old qt blk t n, t\<lparr>current_coefficient := 64\<rparr>)
      else mdec_rle_loop old qt (rle_stored old qt blk t n) (t\<lparr>current_coefficient := rle_position t n\<rparr>))"
  by (subst mdec_rle_loop.simps) (simp add: Let_def rle_position_def [symmetric] rle_stored_def [symmetric])

lemma rle_loop_induct [case_names step]:
  assumes "\<And>blk m. (\<And>n t. mdec_next_halfword m = Some (n, t) \<Longrightarrow> rle_position t n < 63 \<Longrightarrow>
      P (rle_stored old qt blk t n) (t\<lparr>current_coefficient := rle_position t n\<rparr>)) \<Longrightarrow> P blk m"
  shows "P blk m"
proof (induction "unat (remaining_halfwords m)" arbitrary: blk m rule: less_induct)
  case less
  show ?case
  proof (rule assms)
    fix n t assume "mdec_next_halfword m = Some (n, t)" "rle_position t n < 63"
    then show "P (rle_stored old qt blk t n) (t\<lparr>current_coefficient := rle_position t n\<rparr>)"
      using next_halfword_less by (intro less) simp
  qed
qed

definition rle_result ::
  "((nat \<Rightarrow> int) \<times> u16 list) option \<Rightarrow> bool \<times> (nat \<Rightarrow> int) \<times> mdec_state \<Rightarrow> bool" where
  "rle_result spec r = (case r of (full, blk, m) \<Rightarrow> (case spec of
      None \<Rightarrow> \<not> full \<and> mdec_input m = []
    | Some (b, rest) \<Rightarrow> full \<and> blk = b \<and> mdec_input m = rest \<and> current_coefficient m = 64))"

lemma loop_equiv:
  "fifo_ok 512 (data_in_fifo m) \<Longrightarrow> current_coefficient m < 64 \<Longrightarrow>
   rle_result (rle_run old qt (current_q_scale m) (unat (current_coefficient m)) blk (mdec_input m))
     (mdec_rle_loop old qt blk m)"
proof (induction blk m rule: rle_loop_induct [where old = old and qt = qt])
  case (step blk m)
  show ?case
  proof (cases "mdec_next_halfword m")
    case None
    then show ?thesis using next_halfword_input(1) [OF step.prems(1)]
      by (simp add: rle_result_def rle_loop_None)
  next
    case (Some p)
    obtain n t where p: "mdec_next_halfword m = Some (n, t)" using Some by (cases p) simp
    note i = next_halfword_input(2) [OF step.prems(1) p]
    let ?c = "rle_position t n" and ?b = "rle_stored old qt blk t n"
    have cu: "unat ?c = unat (current_coefficient m) + unat (drop_bit 10 n) + 1"
      using position_step [OF step.prems(2), of n] i by (simp add: rle_position_def)
    have c64: "?c < 64 \<longleftrightarrow> unat ?c < 64" "?c \<ge> 63 \<longleftrightarrow> unat ?c \<ge> 63"
      by (simp_all add: word_less_nat_alt word_le_nat_alt)
    have run: "rle_run old qt (current_q_scale m) (unat (current_coefficient m)) blk (mdec_input m) =
        (if unat ?c \<ge> 63 then Some (?b, mdec_input t) else rle_run old qt (current_q_scale t) (unat ?c) ?b (mdec_input t))"
    proof -
      have "mdec_input m = n # mdec_input t" "current_q_scale m = current_q_scale t" using i by simp_all
      then show ?thesis
        by (cases old) (simp_all only: rle_run.simps Let_def cu [symmetric] rle_stored_def c64(1) if_True if_False)
    qed
    show ?thesis
    proof (cases "?c \<ge> 63")
      case True
      then show ?thesis using c64 by (simp add: run rle_loop_Some [OF p] rle_result_def)
    next
      case False
      then have "?c < 64" "?c < 63" using c64 by (simp_all add: word_less_nat_alt word_le_nat_alt)
      then show ?thesis
        using step.IH [OF p] False c64 i unfolding run rle_loop_Some [OF p] by simp
    qed
  qed
qed

lemma skip_equiv:
  "fifo_ok 512 (data_in_fifo m) \<Longrightarrow> mdec_skip_padding m = (r, m') \<Longrightarrow>
   fifo_ok 512 (data_in_fifo m') \<and> current_coefficient m' = current_coefficient m \<and>
   (case r of None \<Rightarrow> dropWhile (\<lambda>n. n = 0xFE00) (mdec_input m) = [] \<and> mdec_input m' = []
    | Some n \<Rightarrow> dropWhile (\<lambda>n. n = 0xFE00) (mdec_input m) = n # mdec_input m')"
proof (induction m rule: mdec_skip_padding.induct)
  case (1 m)
  show ?case
  proof (cases "mdec_next_halfword m")
    case None
    then show ?thesis using "1.prems" next_halfword_input(1) [OF "1.prems"(1)]
      by (simp add: mdec_skip_padding.simps [of m])
  next
    case (Some p)
    obtain n t where p: "mdec_next_halfword m = Some (n, t)" using Some by (cases p) simp
    note i = next_halfword_input(2) [OF "1.prems"(1) p]
    show ?thesis
    proof (cases "n = 0xFE00")
      case True
      then have "mdec_skip_padding t = (r, m')"
        using "1.prems"(2) p by (simp add: mdec_skip_padding.simps [of m])
      from "1.IH" [OF p refl True _ this] i True show ?thesis by (cases r) simp_all
    next
      case False
      then show ?thesis using "1.prems"(2) p i by (auto simp: mdec_skip_padding.simps [of m])
    qed
  qed
qed

lemma decode_rle_equiv:
  assumes ok: "fifo_ok 512 (data_in_fifo m)" and start: "current_coefficient m = 64"
  shows "rle_result (rle_block old qt (mdec_input m)) (mdec_decode_rle old qt blk m)"
proof -
  obtain r m' where r: "mdec_skip_padding m = (r, m')" by (rule prod.exhaust)
  note s = skip_equiv [OF ok r]
  show ?thesis
  proof (cases r)
    case None
    then have "rle_block old qt (mdec_input m) = None"
      using s unfolding rle_block_def by (simp del: dropWhile_eq_Nil_conv)
    then show ?thesis using s r start None by (simp add: mdec_decode_rle_def rle_result_def)
  next
    case (Some n)
    let ?m = "m'\<lparr>current_coefficient := 0, current_q_scale := drop_bit 10 n\<rparr>"
    let ?b = "(\<lambda>_. 0)(rle_place old (drop_bit 10 n) 0 := (if old then rle_first_old qt n else rle_first_new qt n))"
    have "rle_result (rle_run old qt (drop_bit 10 n) 0 ?b (mdec_input ?m)) (mdec_rle_loop old qt ?b ?m)"
      using loop_equiv [of ?m old qt ?b] s Some by simp
    then show ?thesis using s r start Some
      by (cases old) (simp_all add: mdec_decode_rle_def rle_block_def mdec_input_def Let_def)
  qed
qed

end
