(* ===== verification/Mdec_Ops.thy ===== *)
theory Mdec_Ops
  imports Mdec Dma_Transfer
begin

text \<open>
  The motion decoder, \<^verbatim>\<open>src/core/mdec/mdec.c\<close>, its control: commands, the state
  machine, the copy-out event, the registers and the two DMA ports.

  \<open>mdec_execute\<close> loops while commands complete without waiting; each round may let the DMA
  controller transfer more words, so the loop is a \<^theory_text>\<open>partial_function\<close>.  The
  functions of other components it calls are the parameter \<open>mdec_hooks\<close>.
\<close>

record mdec_sys = dma_sys +
  mdec :: mdec_state

record 's mdec_hooks =
  mdec_dma_set_request :: "nat \<Rightarrow> bool \<Rightarrow> 's \<Rightarrow> 's option"
  cdrom_disable_read_speedup :: "'s \<Rightarrow> 's"
  mdec_settings :: mdec_config

definition MDEC_BLOCK_COPY_OUT_EVENT :: nat where "MDEC_BLOCK_COPY_OUT_EVENT = 2"
definition MDEC_DMA_CHANNEL_MDEC_IN :: nat where "MDEC_DMA_CHANNEL_MDEC_IN = 0"
definition MDEC_DMA_CHANNEL_MDEC_OUT :: nat where "MDEC_DMA_CHANNEL_MDEC_OUT = 1"

definition upd_mdec :: "(mdec_state \<Rightarrow> mdec_state) \<Rightarrow> 'a mdec_sys_scheme \<Rightarrow> 'a mdec_sys_scheme" where
  "upd_mdec f s = s\<lparr>mdec := f (mdec s)\<rparr>"

definition mdec_has_pending_block_copy_out :: "'a mdec_sys_scheme \<Rightarrow> bool" where
  "mdec_has_pending_block_copy_out s = active (timing_events s MDEC_BLOCK_COPY_OUT_EVENT)"

definition mdec_is_active :: "'a mdec_sys_scheme \<Rightarrow> bool" where
  "mdec_is_active s \<longleftrightarrow> active_frame_count (mdec s) > 0"

definition mdec_is_decoding_macroblock :: "'a mdec_sys_scheme \<Rightarrow> bool" where
  "mdec_is_decoding_macroblock s \<longleftrightarrow> mdec_mode (mdec s) = MDEC_STATE_DECODING_MACROBLOCK"

definition mdec_end_frame :: "'a mdec_sys_scheme \<Rightarrow> 'a mdec_sys_scheme" where
  "mdec_end_frame = upd_mdec (\<lambda>m. m\<lparr>active_frame_count :=
     (if active_frame_count m > 0 then active_frame_count m - 1 else 0)\<rparr>)"

section \<open>Status and reset\<close>

text \<open>The bits of the status register that follow from the state alone.\<close>

definition mdec_status_bits :: "mdec_state \<Rightarrow> u32" where
  "mdec_status_bits m =
     bits_set (bits_set
       (flag_put 29 (mdec_mode m \<noteq> MDEC_STATE_IDLE)
       (flag_put 30 (mdec_fifo_in_full (data_in_fifo m))
       (flag_put 31 (mdec_fifo_empty (data_out_fifo m)) (mdec_status m))))
       0 16 (ucast (ucast (remaining_halfwords m div 2 - 1) :: u16)))
       16 3 ((current_block m + 4) mod MDEC_NUM_BLOCKS)"

definition mdec_data_in_request :: "mdec_state \<Rightarrow> bool" where
  "mdec_data_in_request m \<longleftrightarrow> enable_dma_in m \<and> mdec_fifo_in_space (data_in_fifo m) \<ge> 64"

definition mdec_data_out_request :: "mdec_state \<Rightarrow> bool" where
  "mdec_data_out_request m \<longleftrightarrow> enable_dma_out m \<and> \<not> mdec_fifo_empty (data_out_fifo m)"

definition mdec_update_status ::
  "('a mdec_sys_scheme) mdec_hooks \<Rightarrow> 'a mdec_sys_scheme \<Rightarrow> 'a mdec_sys_scheme option" where
  "mdec_update_status h s = do {
     let r = mdec_data_in_request (mdec s);
     let s = upd_mdec (\<lambda>m. m\<lparr>mdec_status := flag_put 28 r (mdec_status_bits m)\<rparr>) s;
     s \<leftarrow> mdec_dma_set_request h MDEC_DMA_CHANNEL_MDEC_IN r s;
     let r = mdec_data_out_request (mdec s);
     let s = upd_mdec (\<lambda>m. m\<lparr>mdec_status := flag_put 27 r (mdec_status m)\<rparr>) s;
     mdec_dma_set_request h MDEC_DMA_CHANNEL_MDEC_OUT r s }"

definition mdec_soft_reset ::
  "('a mdec_sys_scheme) mdec_hooks \<Rightarrow> 'a mdec_sys_scheme \<Rightarrow> 'a mdec_sys_scheme option" where
  "mdec_soft_reset h s = do {
     let s = upd_mdec (\<lambda>m. mdec_reset_decoder (m\<lparr>mdec_status := 0, enable_dma_in := False, enable_dma_out := False,
       data_in_fifo := mdec_fifo_clear (data_in_fifo m), data_out_fifo := mdec_fifo_clear (data_out_fifo m),
       mdec_mode := MDEC_STATE_IDLE, remaining_halfwords := 0\<rparr>)) s;
     s \<leftarrow> timing_event_deactivate MDEC_BLOCK_COPY_OUT_EVENT s;
     mdec_update_status h s }"

definition mdec_reset ::
  "('a mdec_sys_scheme) mdec_hooks \<Rightarrow> 'a mdec_sys_scheme \<Rightarrow> 'a mdec_sys_scheme option" where
  "mdec_reset h s = do {
     s \<leftarrow> timing_event_deactivate MDEC_BLOCK_COPY_OUT_EVENT (upd_mdec (\<lambda>m. m\<lparr>active_frame_count := 0\<rparr>) s);
     mdec_soft_reset h s }"

definition mdec_initialize ::
  "('a mdec_sys_scheme) mdec_hooks \<Rightarrow> 'a mdec_sys_scheme \<Rightarrow> 'a mdec_sys_scheme option" where
  "mdec_initialize h s = mdec_reset h (timing_event_init MDEC_BLOCK_COPY_OUT_EVENT 1 1
     (upd_mdec (\<lambda>m. m\<lparr>active_frame_count := 0\<rparr>) s))"

section \<open>The tables\<close>

text \<open>Bytes of halfwords, low byte first, as the \<open>memcpy\<close> leaves them.\<close>

definition halfword_bytes :: "u16 list \<Rightarrow> nat \<Rightarrow> u8" where
  "halfword_bytes vs i = (if even i then ucast (vs ! (i div 2)) else ucast (drop_bit 8 (vs ! (i div 2))))"

definition mdec_handle_set_quant_table_command :: "mdec_state \<Rightarrow> mdec_state" where
  "mdec_handle_set_quant_table_command m =
     (let (vs, f) = mdec_fifo_in_pop_range 32 (data_in_fifo m);
          m = m\<lparr>data_in_fifo := f, remaining_halfwords := remaining_halfwords m - 32,
                iq_y := (\<lambda>i. if i < 64 then halfword_bytes vs i else iq_y m i)\<rparr>
      in if remaining_halfwords m > 0
         then let (vs, f) = mdec_fifo_in_pop_range 32 (data_in_fifo m)
              in m\<lparr>data_in_fifo := f, remaining_halfwords := remaining_halfwords m - 32,
                   iq_uv := (\<lambda>i. if i < 64 then halfword_bytes vs i else iq_uv m i)\<rparr>
         else m)"

definition mdec_set_scale_matrix :: "u16 list \<Rightarrow> mdec_state \<Rightarrow> mdec_state" where
  "mdec_set_scale_matrix vs m = m\<lparr>scale_table :=
     (\<lambda>p. if p < 64 then to_s16 (uint (vs ! (p mod 8 * 8 + p div 8))) else scale_table m p)\<rparr>"

definition mdec_handle_set_scale_command :: "mdec_state \<Rightarrow> mdec_state" where
  "mdec_handle_set_scale_command m =
     (let (vs, f) = mdec_fifo_in_pop_range 64 (data_in_fifo m)
      in mdec_set_scale_matrix vs (m\<lparr>data_in_fifo := f, remaining_halfwords := remaining_halfwords m - 64\<rparr>))"

section \<open>Macroblocks\<close>

definition mdec_idct :: "mdec_config \<Rightarrow> mdec_state \<Rightarrow> (nat \<Rightarrow> int) \<Rightarrow> (nat \<Rightarrow> int)" where
  "mdec_idct cfg m = (if mdec_use_old_routines cfg then mdec_idct_old else mdec_idct_new) (scale_table m)"

text \<open>One block: decode into it and transform it when complete.\<close>

definition mdec_decode_block ::
  "mdec_config \<Rightarrow> nat \<Rightarrow> (nat \<Rightarrow> u8) \<Rightarrow> mdec_state \<Rightarrow> bool \<times> mdec_state" where
  "mdec_decode_block cfg b qt m =
     (let (full, blk, m) = mdec_decode_rle (mdec_use_old_routines cfg) qt (blocks m b) m
      in if full then (True, m\<lparr>blocks := (blocks m)(b := mdec_idct cfg m blk)\<rparr>)
         else (False, m\<lparr>blocks := (blocks m)(b := blk)\<rparr>))"

definition mdec_decode_mono_macroblock :: "mdec_config \<Rightarrow> mdec_state \<Rightarrow> bool \<times> mdec_state" where
  "mdec_decode_mono_macroblock cfg m =
     (if \<not> mdec_fifo_empty (data_out_fifo m) then (False, m)
      else let (full, m) = mdec_decode_block cfg 0 (iq_y m) m
           in if \<not> full then (False, m)
              else let m = (mdec_reset_decoder m)\<lparr>mdec_mode := MDEC_STATE_WRITING_MACROBLOCK\<rparr>
                   in (True, m\<lparr>block_rgb := mdec_yuv_to_mono (status_signed (mdec_status m)) (blocks m 0) (block_rgb m)\<rparr>))"

text \<open>The blocks from the current one on; \<open>n\<close> is how many are left.\<close>

fun mdec_decode_blocks :: "mdec_config \<Rightarrow> nat \<Rightarrow> mdec_state \<Rightarrow> bool \<times> mdec_state" where
  "mdec_decode_blocks cfg 0 m = (True, m)"
| "mdec_decode_blocks cfg (Suc n) m =
     (let (full, m) = mdec_decode_block cfg (unat (current_block m))
            (if current_block m \<ge> 2 then iq_y m else iq_uv m) m
      in if \<not> full then (False, m)
         else mdec_decode_blocks cfg n (m\<lparr>current_block := current_block m + 1\<rparr>))"

definition mdec_yuv_to_rgb ::
  "mdec_config \<Rightarrow> mdec_state \<Rightarrow> nat \<Rightarrow> nat \<Rightarrow> nat \<Rightarrow> (nat \<Rightarrow> u32) \<Rightarrow> (nat \<Rightarrow> u32)" where
  "mdec_yuv_to_rgb cfg m xx yy b =
     (if mdec_use_old_routines cfg then mdec_yuv_to_rgb_old cfg else mdec_yuv_to_rgb_new)
       (status_signed (mdec_status m)) xx yy (blocks m 0) (blocks m 1) (blocks m b)"

definition mdec_decode_colored_macroblock :: "mdec_config \<Rightarrow> mdec_state \<Rightarrow> bool \<times> mdec_state" where
  "mdec_decode_colored_macroblock cfg m =
     (let (full, m) = mdec_decode_blocks cfg (unat MDEC_NUM_BLOCKS - unat (current_block m)) m
      in if \<not> full \<or> \<not> mdec_fifo_empty (data_out_fifo m) then (False, m)
         else let m = (mdec_reset_decoder m)\<lparr>mdec_mode := MDEC_STATE_WRITING_MACROBLOCK\<rparr>
              in (True, m\<lparr>block_rgb := mdec_yuv_to_rgb cfg m 8 8 5 (mdec_yuv_to_rgb cfg m 0 8 4
                   (mdec_yuv_to_rgb cfg m 8 0 3 (mdec_yuv_to_rgb cfg m 0 0 2 (block_rgb m))))\<rparr>))"

definition mdec_schedule_block_copy_out ::
  "tick_count \<Rightarrow> 'a mdec_sys_scheme \<Rightarrow> 'a mdec_sys_scheme option" where
  "mdec_schedule_block_copy_out t = timing_event_set_interval_and_schedule MDEC_BLOCK_COPY_OUT_EVENT t"

definition mdec_handle_decode_macroblock_command ::
  "('a mdec_sys_scheme) mdec_hooks \<Rightarrow> 'a mdec_sys_scheme \<Rightarrow> (bool \<times> 'a mdec_sys_scheme) option" where
  "mdec_handle_decode_macroblock_command h s =
     (let (ok, m) = (if status_depth (mdec_status (mdec s)) \<le> 1 then mdec_decode_mono_macroblock
                     else mdec_decode_colored_macroblock) (mdec_settings h) (mdec s);
          s = s\<lparr>mdec := m\<rparr>
      in if ok then map_option (Pair True) (mdec_schedule_block_copy_out (MDEC_TICKS_PER_BLOCK * 6) s)
         else Some (False, s))"

section \<open>The state machine\<close>

text \<open>The next command word: what it sets, and the data it announces.\<close>

definition mdec_command_words :: "u32 \<Rightarrow> u32 \<times> mdec_state_e" where
  "mdec_command_words raw =
     (let command = unat (bits_get raw 29 3) in
      if command = 1 then (bits_get raw 0 16, MDEC_STATE_DECODING_MACROBLOCK)
      else if command = 2 then (16 + (if raw AND 1 \<noteq> 0 then 16 else 0), MDEC_STATE_SET_IQ_TABLE)
      else if command = 3 then (32, MDEC_STATE_SET_SCALE_TABLE)
      else (bits_get raw 0 16, MDEC_STATE_NO_COMMAND))"

definition mdec_start_command :: "mdec_state \<Rightarrow> mdec_state" where
  "mdec_start_command m =
     (let raw = ucast (mdec_fifo_in_peek (data_in_fifo m) 0) OR
            push_bit 16 (ucast (mdec_fifo_in_peek (data_in_fifo m) 1)) :: u32;
          (num_words, new_state) = mdec_command_words raw
      in m\<lparr>mdec_status := flag_put 23 (bit raw 25) (flag_put 24 (bit raw 26)
             (bits_set (mdec_status m) 25 2 (bits_get raw 27 2))),
           data_in_fifo := mdec_fifo_in_remove 2 (data_in_fifo m),
           data_out_fifo := mdec_fifo_clear (data_out_fifo m),
           remaining_halfwords := num_words * 2, mdec_mode := new_state\<rparr>)"

definition mdec_eat_junk :: "mdec_state \<Rightarrow> mdec_state" where
  "mdec_eat_junk m =
     (let n = min (remaining_halfwords m) (fifo_size (data_in_fifo m))
      in m\<lparr>data_in_fifo := mdec_fifo_in_remove n (data_in_fifo m),
           remaining_halfwords := remaining_halfwords m - n\<rparr>)"

text \<open>One round of the loop: whether to go round again.\<close>

definition mdec_round ::
  "('a mdec_sys_scheme) mdec_hooks \<Rightarrow> 'a mdec_sys_scheme \<Rightarrow> (bool \<times> 'a mdec_sys_scheme) option" where
  "mdec_round h s =
     (let m = mdec s; starved = fifo_size (data_in_fifo m) < remaining_halfwords m;
          again = (\<lambda>s. map_option (Pair True) (mdec_update_status h s))
      in case mdec_mode m of
        MDEC_STATE_IDLE \<Rightarrow>
          if fifo_size (data_in_fifo m) < 2 then Some (False, s)
          else again (upd_mdec mdec_start_command s)
      | MDEC_STATE_DECODING_MACROBLOCK \<Rightarrow> do {
          (ok, s) \<leftarrow> mdec_handle_decode_macroblock_command h s;
          if \<not> ok \<and> remaining_halfwords (mdec s) = 0 \<and> current_block (mdec s) \<noteq> MDEC_NUM_BLOCKS
          then Some (True, upd_mdec (\<lambda>m. (mdec_reset_decoder m)\<lparr>mdec_mode := MDEC_STATE_IDLE\<rparr>) s)
          else Some (False, s) }
      | MDEC_STATE_WRITING_MACROBLOCK \<Rightarrow> Some (False, s)
      | MDEC_STATE_SET_IQ_TABLE \<Rightarrow>
          if starved then Some (False, s)
          else again (upd_mdec (\<lambda>m. (mdec_handle_set_quant_table_command m)\<lparr>mdec_mode := MDEC_STATE_IDLE\<rparr>) s)
      | MDEC_STATE_SET_SCALE_TABLE \<Rightarrow>
          if starved then Some (False, s)
          else again (upd_mdec (\<lambda>m. (mdec_handle_set_scale_command m)\<lparr>mdec_mode := MDEC_STATE_IDLE\<rparr>) s)
      | MDEC_STATE_NO_COMMAND \<Rightarrow>
          let s = upd_mdec mdec_eat_junk s
          in if remaining_halfwords (mdec s) = 0 then Some (False, s)
             else again (upd_mdec (\<lambda>m. m\<lparr>mdec_mode := MDEC_STATE_IDLE\<rparr>) s))"

partial_function (option) mdec_execute_loop ::
  "('a mdec_sys_scheme) mdec_hooks \<Rightarrow> 'a mdec_sys_scheme \<Rightarrow> 'a mdec_sys_scheme option" where
  "mdec_execute_loop h s = do {
     (again, s) \<leftarrow> mdec_round h s;
     if again then mdec_execute_loop h s else mdec_update_status h s }"

definition mdec_execute ::
  "('a mdec_sys_scheme) mdec_hooks \<Rightarrow> 'a mdec_sys_scheme \<Rightarrow> 'a mdec_sys_scheme option" where
  "mdec_execute h s =
     (let prev_active = active_frame_count (mdec s);
          s = upd_mdec (\<lambda>m. m\<lparr>active_frame_count := MDEC_ACTIVE_FRAME_COUNT\<rparr>) s;
          s = (if prev_active = 0 \<and> mdec_disable_cdrom_speedup (mdec_settings h)
               then cdrom_disable_read_speedup h s else s)
      in mdec_execute_loop h s)"

definition mdec_copy_out_block ::
  "('a mdec_sys_scheme) mdec_hooks \<Rightarrow> 'a mdec_sys_scheme \<Rightarrow> 'a mdec_sys_scheme option" where
  "mdec_copy_out_block h s =
     (if mdec_mode (mdec s) \<noteq> MDEC_STATE_WRITING_MACROBLOCK then None
      else do {
        s \<leftarrow> timing_event_deactivate MDEC_BLOCK_COPY_OUT_EVENT s;
        mdec_execute h (upd_mdec (\<lambda>m. m\<lparr>
          data_out_fifo := fold mdec_fifo_out_push
            (mdec_pack (mdec_use_old_routines (mdec_settings h)) (mdec_status m) (block_rgb m)) (data_out_fifo m),
          mdec_mode := (if remaining_halfwords m = 0 then MDEC_STATE_IDLE
                        else MDEC_STATE_DECODING_MACROBLOCK)\<rparr>) s) })"

section \<open>Registers and DMA ports\<close>

definition mdec_read_data_register ::
  "('a mdec_sys_scheme) mdec_hooks \<Rightarrow> 'a mdec_sys_scheme \<Rightarrow> (u32 \<times> 'a mdec_sys_scheme) option" where
  "mdec_read_data_register h s =
     (if mdec_fifo_empty (data_out_fifo (mdec s)) \<and> \<not> mdec_has_pending_block_copy_out s
      then Some (0xFFFFFFFF, s)
      else let s = (if mdec_fifo_empty (data_out_fifo (mdec s))
                    then bus_cycles (timing_event_get_ticks_until_next_execution MDEC_BLOCK_COPY_OUT_EVENT s) s
                    else s);
               (value, f) = mdec_fifo_out_pop (data_out_fifo (mdec s));
               s = upd_mdec (\<lambda>m. m\<lparr>data_out_fifo := f\<rparr>) s
           in map_option (Pair value)
             (if mdec_fifo_empty f then mdec_execute h s else mdec_update_status h s))"

definition mdec_write_command_register ::
  "('a mdec_sys_scheme) mdec_hooks \<Rightarrow> u32 \<Rightarrow> 'a mdec_sys_scheme \<Rightarrow> 'a mdec_sys_scheme option" where
  "mdec_write_command_register h v s =
     mdec_execute h (upd_mdec (\<lambda>m. m\<lparr>data_in_fifo :=
       mdec_fifo_in_push (ucast (drop_bit 16 v)) (mdec_fifo_in_push (ucast v) (data_in_fifo m))\<rparr>) s)"

definition mdec_read_register ::
  "('a mdec_sys_scheme) mdec_hooks \<Rightarrow> u32 \<Rightarrow> 'a mdec_sys_scheme \<Rightarrow> (u32 \<times> 'a mdec_sys_scheme) option" where
  "mdec_read_register h offset s =
     (if offset = 0 then mdec_read_data_register h s
      else if offset = 4 then Some (mdec_status (mdec s), s)
      else Some (0xFFFFFFFF, s))"

definition mdec_write_register ::
  "('a mdec_sys_scheme) mdec_hooks \<Rightarrow> u32 \<Rightarrow> u32 \<Rightarrow> 'a mdec_sys_scheme \<Rightarrow> 'a mdec_sys_scheme option" where
  "mdec_write_register h offset v s =
     (if offset = 0 then mdec_write_command_register h v s
      else if offset = 4
      then do {
        s \<leftarrow> (if bit v 31 then mdec_soft_reset h s else Some s);
        mdec_execute h (upd_mdec (\<lambda>m. m\<lparr>enable_dma_in := bit v 30, enable_dma_out := bit v 29\<rparr>) s) }
      else Some s)"

definition mdec_dma_read ::
  "('a mdec_sys_scheme) mdec_hooks \<Rightarrow> nat \<Rightarrow> 'a mdec_sys_scheme \<Rightarrow> (u32 list \<times> 'a mdec_sys_scheme) option" where
  "mdec_dma_read h word_count s =
     (let (ws, f) = mdec_fifo_out_pop_range (min word_count (unat (fifo_size (data_out_fifo (mdec s)))))
            (data_out_fifo (mdec s));
          s = upd_mdec (\<lambda>m. m\<lparr>data_out_fifo := f\<rparr>) s
      in map_option (Pair ws) (if mdec_fifo_empty f then mdec_execute h s else Some s))"

text \<open>The halfwords of words, low half first.\<close>

definition word_halves :: "u32 list \<Rightarrow> u16 list" where
  "word_halves ws = concat (map (\<lambda>w. [ucast w, ucast (drop_bit 16 w)]) ws)"

definition mdec_dma_write ::
  "('a mdec_sys_scheme) mdec_hooks \<Rightarrow> u32 list \<Rightarrow> 'a mdec_sys_scheme \<Rightarrow> 'a mdec_sys_scheme option" where
  "mdec_dma_write h ws s =
     (let room = mdec_fifo_in_space (data_in_fifo (mdec s)) AND NOT 2;
          n = min (2 * List.length ws) (unat room)
      in mdec_execute h (upd_mdec (\<lambda>m. m\<lparr>data_in_fifo :=
           mdec_fifo_in_push_range (take n (word_halves ws)) (data_in_fifo m)\<rparr>) s))"

end
