(* ===== verification/Mdec_Resume.thy ===== *)
theory Mdec_Resume
  imports Mdec_Rle Mdec_Ops
begin

text \<open>
  Resumption: decoding that stopped for want of data goes on, once more halfwords have been
  pushed, exactly as if they had been in the FIFO from the start.
\<close>

definition mdec_feed :: "u16 list \<Rightarrow> mdec_state \<Rightarrow> mdec_state" where
  "mdec_feed vs m = m\<lparr>data_in_fifo := mdec_fifo_in_push_range vs (data_in_fifo m)\<rparr>"

definition mdec_room :: "nat \<Rightarrow> mdec_state \<Rightarrow> bool" where
  "mdec_room k m \<longleftrightarrow> fifo_ok 512 (data_in_fifo m) \<and> unat (fifo_size (data_in_fifo m)) + k \<le> 512"

lemma feed_simps [simp]:
  "current_coefficient (mdec_feed vs m) = current_coefficient m"
  "current_q_scale (mdec_feed vs m) = current_q_scale m"
  "current_block (mdec_feed vs m) = current_block m" "blocks (mdec_feed vs m) = blocks m"
  "remaining_halfwords (mdec_feed vs m) = remaining_halfwords m"
  "iq_y (mdec_feed vs m) = iq_y m" "iq_uv (mdec_feed vs m) = iq_uv m"
  "scale_table (mdec_feed vs m) = scale_table m" "data_out_fifo (mdec_feed vs m) = data_out_fifo m"
  "mdec_status (mdec_feed vs m) = mdec_status m" "block_rgb (mdec_feed vs m) = block_rgb m"
  "mdec_mode (mdec_feed vs m) = mdec_mode m"
  by (simp_all add: mdec_feed_def)

lemma feed_upd:
  "mdec_feed vs (m\<lparr>current_coefficient := c\<rparr>) = (mdec_feed vs m)\<lparr>current_coefficient := c\<rparr>"
  "mdec_feed vs (m\<lparr>current_q_scale := q\<rparr>) = (mdec_feed vs m)\<lparr>current_q_scale := q\<rparr>"
  "mdec_feed vs (m\<lparr>current_block := b\<rparr>) = (mdec_feed vs m)\<lparr>current_block := b\<rparr>"
  "mdec_feed vs (m\<lparr>blocks := bs\<rparr>) = (mdec_feed vs m)\<lparr>blocks := bs\<rparr>"
  "mdec_feed vs (m\<lparr>mdec_mode := st\<rparr>) = (mdec_feed vs m)\<lparr>mdec_mode := st\<rparr>"
  "mdec_feed vs (m\<lparr>block_rgb := rgb\<rparr>) = (mdec_feed vs m)\<lparr>block_rgb := rgb\<rparr>"
  by (simp_all add: mdec_feed_def)

section \<open>Pushing commutes with popping\<close>

lemma push_pop_commute:
  assumes "fifo_ok 512 f" "fifo_size f \<noteq> 0" "unat (fifo_size f) < 512"
  shows "mdec_fifo_in_pop (mdec_fifo_in_push v f) =
    (fst (mdec_fifo_in_pop f), mdec_fifo_in_push v (snd (mdec_fifo_in_pop f)))"
proof -
  have n: "0 < unat (fifo_size f)" "unat (fifo_head f) < 512"
    "unat (fifo_tail f) = (unat (fifo_head f) + unat (fifo_size f)) mod 512"
    using assms by (auto simp: fifo_ok_def unat_gt_0)
  have "unat (fifo_head f) \<noteq> unat (fifo_tail f)"
  proof
    assume "unat (fifo_head f) = unat (fifo_tail f)"
    then have "(unat (fifo_head f) + 0) mod 512 = (unat (fifo_head f) + unat (fifo_size f)) mod 512"
      using n by simp
    then have "0 mod 512 = unat (fifo_size f) mod (512 :: nat)" by (simp only: nat_mod_eq_iff) (auto simp: nat_mod_eq_iff)
    then show False using n assms(3) by simp
  qed
  then show ?thesis by (simp add: mdec_fifo_in_push_def mdec_fifo_in_pop_def)
qed

lemma push_range_pop:
  "fifo_ok 512 f \<Longrightarrow> fifo_size f \<noteq> 0 \<Longrightarrow> unat (fifo_size f) + List.length vs \<le> 512 \<Longrightarrow>
   mdec_fifo_in_pop (mdec_fifo_in_push_range vs f) =
    (fst (mdec_fifo_in_pop f), mdec_fifo_in_push_range vs (snd (mdec_fifo_in_pop f)))"
proof (induction vs arbitrary: f)
  case Nil
  then show ?case by (simp add: mdec_fifo_in_push_range_def)
next
  case (Cons v vs)
  have s: "unat (fifo_size f) < 512" using Cons.prems by simp
  let ?g = "mdec_fifo_in_push v f"
  have z: "unat (fifo_size ?g) = unat (fifo_size f) + 1"
    using s by (simp add: mdec_fifo_in_push_def unat_succ)
  have g: "fifo_ok 512 ?g" by (rule in_ring.push_refines(1) [OF Cons.prems(1) s])
  have "fifo_size ?g \<noteq> 0" using z by auto
  then show ?case
    using Cons.IH [OF g] Cons.prems push_pop_commute [OF Cons.prems(1,2) s, of v] z
    by (simp add: mdec_fifo_in_push_range_def)
qed

lemma next_feed:
  assumes "mdec_room (List.length vs) m" "mdec_next_halfword m = Some (n, m')"
  shows "mdec_next_halfword (mdec_feed vs m) = Some (n, mdec_feed vs m')"
    and "mdec_room (List.length vs) m'"
proof -
  have ok: "fifo_ok 512 (data_in_fifo m)" and r: "unat (fifo_size (data_in_fifo m)) + List.length vs \<le> 512"
    and ne: "fifo_size (data_in_fifo m) \<noteq> 0" "remaining_halfwords m \<noteq> 0"
    using assms by (auto simp: mdec_room_def mdec_next_halfword_def mdec_fifo_empty_def split: if_splits)
  have all: "unat (fifo_size (mdec_fifo_in_push_range vs (data_in_fifo m))) = unat (fifo_size (data_in_fifo m)) + List.length vs"
    using in_ring.push_all_refines [OF ok r] length_fifo_list [of 512 "mdec_fifo_in_push_range vs (data_in_fifo m)"]
    by (simp add: mdec_fifo_in_push_range_def)
  then have "fifo_size (mdec_fifo_in_push_range vs (data_in_fifo m)) \<noteq> 0"
    using ne by (auto simp: unat_eq_0)
  then show "mdec_next_halfword (mdec_feed vs m) = Some (n, mdec_feed vs m')"
    using assms(2) ne push_range_pop [OF ok ne(1) r]
    by (auto simp: mdec_next_halfword_def mdec_fifo_empty_def mdec_feed_def split: prod.splits)
  have "0 < unat (fifo_size (data_in_fifo m))" using ne by (simp add: unat_gt_0)
  then have "unat (fifo_size (snd (mdec_fifo_in_pop (data_in_fifo m)))) < unat (fifo_size (data_in_fifo m))"
    by (simp add: mdec_fifo_in_pop_def unat_pred)
  then show "mdec_room (List.length vs) m'"
    using assms(2) ne in_ring.pop_refines(1) [OF ok ne(1)] r
    by (auto simp: mdec_next_halfword_def mdec_room_def mdec_fifo_empty_def split: prod.splits)
qed

section \<open>Run-length decoding\<close>

text \<open>Where the decoder is between two halfwords: at a block's start, or inside it.\<close>

definition mdec_between :: "mdec_state \<Rightarrow> bool" where
  "mdec_between m \<longleftrightarrow> current_coefficient m = 64 \<or> current_coefficient m < 63"

lemma skip_resumes:
  "mdec_room (List.length vs) m \<Longrightarrow> mdec_skip_padding m = (r, m') \<Longrightarrow>
   mdec_room (List.length vs) m' \<and> current_coefficient m' = current_coefficient m \<and>
   mdec_skip_padding (mdec_feed vs m) =
     (case r of None \<Rightarrow> mdec_skip_padding (mdec_feed vs m') | Some n \<Rightarrow> (Some n, mdec_feed vs m'))"
proof (induction m rule: mdec_skip_padding.induct)
  case (1 m)
  show ?case
  proof (cases "mdec_next_halfword m")
    case None
    then show ?thesis using "1.prems" by (simp add: mdec_skip_padding.simps [of m])
  next
    case (Some p)
    obtain n t where p: "mdec_next_halfword m = Some (n, t)" using Some by (cases p) simp
    note f = next_feed [OF "1.prems"(1) p]
    have c: "current_coefficient t = current_coefficient m"
      using p by (auto simp: mdec_next_halfword_def Let_def split: if_splits prod.splits)
    show ?thesis
    proof (cases "n = 0xFE00")
      case True
      then have "mdec_skip_padding t = (r, m')"
        using "1.prems"(2) p by (simp add: mdec_skip_padding.simps [of m])
      from "1.IH" [OF p refl True f(2) this] show ?thesis
        using f True c by (simp add: mdec_skip_padding.simps [of "mdec_feed vs m"])
    next
      case False
      then show ?thesis using "1.prems"(2) p f c
        by (auto simp: mdec_skip_padding.simps [of m] mdec_skip_padding.simps [of "mdec_feed vs m"])
    qed
  qed
qed

lemma loop_resumes:
  "mdec_room (List.length vs) m \<Longrightarrow> current_coefficient m < 63 \<Longrightarrow> mdec_rle_loop old qt blk m = (full, blk', m') \<Longrightarrow>
   mdec_room (List.length vs) m' \<and> (if full then current_coefficient m' = 64 else current_coefficient m' < 63) \<and>
   mdec_rle_loop old qt blk (mdec_feed vs m) =
     (if full then (True, blk', mdec_feed vs m') else mdec_rle_loop old qt blk' (mdec_feed vs m'))"
proof (induction blk m rule: rle_loop_induct [where old = old and qt = qt])
  case (step blk m)
  show ?case
  proof (cases "mdec_next_halfword m")
    case None
    then show ?thesis using step.prems by (simp add: rle_loop_None)
  next
    case (Some p)
    obtain n t where p: "mdec_next_halfword m = Some (n, t)" using Some by (cases p) simp
    note f = next_feed [OF step.prems(1) p]
    have same: "rle_position (mdec_feed vs t) n = rle_position t n"
      "rle_stored old qt blk (mdec_feed vs t) n = rle_stored old qt blk t n"
      by (simp_all add: rle_position_def rle_stored_def)
    show ?thesis
    proof (cases "rle_position t n \<ge> 63")
      case True
      then show ?thesis
        using step.prems(3) f(2) by (auto simp: rle_loop_Some [OF p] rle_loop_Some [OF f(1)] same feed_upd mdec_room_def)
    next
      case False
      moreover have "mdec_room (List.length vs) (t\<lparr>current_coefficient := rle_position t n\<rparr>)"
        using f(2) by (simp add: mdec_room_def)
      ultimately show ?thesis
        using step.IH [OF p] step.prems(3) by (simp add: rle_loop_Some [OF p] rle_loop_Some [OF f(1)] same feed_upd)
    qed
  qed
qed

lemma decode_rle_resumes:
  assumes "mdec_room (List.length vs) m" "mdec_between m" "mdec_decode_rle old qt blk m = (full, blk', m')"
  shows "mdec_room (List.length vs) m' \<and> mdec_between m' \<and> (full \<longrightarrow> current_coefficient m' = 64) \<and>
    mdec_decode_rle old qt blk (mdec_feed vs m) =
      (if full then (True, blk', mdec_feed vs m') else mdec_decode_rle old qt blk' (mdec_feed vs m'))"
proof (cases "current_coefficient m = 64")
  case True
  obtain r t where r: "mdec_skip_padding m = (r, t)" by (rule prod.exhaust)
  note s = skip_resumes [OF assms(1) r]
  show ?thesis
  proof (cases r)
    case None
    then show ?thesis using s r True assms(2,3) by (simp add: mdec_decode_rle_def mdec_between_def)
  next
    case (Some n)
    let ?t = "t\<lparr>current_coefficient := 0, current_q_scale := drop_bit 10 n\<rparr>"
    let ?b = "(\<lambda>_. 0)(rle_place old (drop_bit 10 n) 0 := (if old then rle_first_old qt n else rle_first_new qt n))"
    have "mdec_room (List.length vs) ?t" using s by (simp add: mdec_room_def)
    moreover have "mdec_rle_loop old qt ?b ?t = (full, blk', m')"
      using assms(3) True r Some by (simp add: mdec_decode_rle_def Let_def)
    ultimately show ?thesis
      using loop_resumes [of vs ?t old qt ?b full blk' m'] s True Some
      by (auto simp: mdec_decode_rle_def Let_def feed_upd mdec_between_def)
  qed
next
  case False
  then have "current_coefficient m < 63" using assms(2) by (simp add: mdec_between_def)
  moreover have "mdec_rle_loop old qt blk m = (full, blk', m')" using assms(3) False by (simp add: mdec_decode_rle_def)
  ultimately show ?thesis
    using loop_resumes [OF assms(1), of old qt blk full blk' m'] False
    by (auto simp: mdec_decode_rle_def mdec_between_def)
qed

section \<open>What run-length decoding leaves alone\<close>

text \<open>The state \<open>m0\<close> with the input position of \<open>m\<close>.\<close>

definition rle_over :: "mdec_state \<Rightarrow> mdec_state \<Rightarrow> mdec_state" where
  "rle_over m0 m = m0\<lparr>data_in_fifo := data_in_fifo m, remaining_halfwords := remaining_halfwords m,
     current_coefficient := current_coefficient m, current_q_scale := current_q_scale m\<rparr>"

lemma rle_over_simps [simp]:
  "rle_over m m = m" "current_coefficient (rle_over m0 m) = current_coefficient m"
  "current_q_scale (rle_over m0 m) = current_q_scale m" "remaining_halfwords (rle_over m0 m) = remaining_halfwords m"
  "data_in_fifo (rle_over m0 m) = data_in_fifo m" "blocks (rle_over m0 m) = blocks m0"
  "current_block (rle_over m0 m) = current_block m0" "iq_y (rle_over m0 m) = iq_y m0"
  "iq_uv (rle_over m0 m) = iq_uv m0" "scale_table (rle_over m0 m) = scale_table m0"
  "data_out_fifo (rle_over m0 m) = data_out_fifo m0" "mdec_status (rle_over m0 m) = mdec_status m0"
  "mdec_mode (rle_over m0 m) = mdec_mode m0" "active_frame_count (rle_over m0 m) = active_frame_count m0"
  "enable_dma_in (rle_over m0 m) = enable_dma_in m0" "enable_dma_out (rle_over m0 m) = enable_dma_out m0"
  by (simp_all add: rle_over_def)

lemma rle_over_upd:
  "rle_over m0 (m\<lparr>current_coefficient := c\<rparr>) = (rle_over m0 m)\<lparr>current_coefficient := c\<rparr>"
  "rle_over m0 (m\<lparr>current_q_scale := q\<rparr>) = (rle_over m0 m)\<lparr>current_q_scale := q\<rparr>"
  by (simp_all add: rle_over_def)

lemma next_over:
  "mdec_next_halfword (rle_over m0 m) = map_option (apsnd (rle_over m0)) (mdec_next_halfword m)"
  by (simp add: mdec_next_halfword_def rle_over_def Let_def split: prod.splits)

lemma skip_over: "mdec_skip_padding (rle_over m0 m) = apsnd (rle_over m0) (mdec_skip_padding m)"
proof (induction m rule: mdec_skip_padding.induct)
  case (1 m)
  show ?case
    using "1.IH" by (subst (1 2) mdec_skip_padding.simps) (auto simp: next_over split: option.splits)
qed

lemma loop_over:
  "mdec_rle_loop old qt blk (rle_over m0 m) = apsnd (apsnd (rle_over m0)) (mdec_rle_loop old qt blk m)"
proof (induction blk m rule: rle_loop_induct [where old = old and qt = qt])
  case (step blk m)
  show ?case
  proof (cases "mdec_next_halfword m")
    case None
    then show ?thesis by (simp add: rle_loop_None next_over)
  next
    case (Some p)
    obtain n t where p: "mdec_next_halfword m = Some (n, t)" using Some by (cases p) simp
    have "mdec_next_halfword (rle_over m0 m) = Some (n, rle_over m0 t)" by (simp add: next_over p)
    moreover have "rle_position (rle_over m0 t) n = rle_position t n"
      "rle_stored old qt blk (rle_over m0 t) n = rle_stored old qt blk t n"
      by (simp_all add: rle_position_def rle_stored_def)
    ultimately show ?thesis
      using step.IH [OF p] by (simp add: rle_loop_Some p rle_over_upd)
  qed
qed

lemma decode_rle_over:
  "mdec_decode_rle old qt blk (rle_over m0 m) = apsnd (apsnd (rle_over m0)) (mdec_decode_rle old qt blk m)"
  by (auto simp: mdec_decode_rle_def skip_over loop_over Let_def rle_over_upd [symmetric] split: prod.splits option.splits)

lemma decode_rle_frame:
  assumes "mdec_decode_rle old qt blk m = (full, blk', m')"
  shows "rle_over m m' = m'"
  using decode_rle_over [of old qt blk m m] assms by simp

lemma rle_over_blocks:
  assumes "u = rle_over m u"
  shows "rle_over (m\<lparr>blocks := bs\<rparr>) u = u\<lparr>blocks := bs\<rparr>"
proof -
  have "rle_over (m\<lparr>blocks := bs\<rparr>) u = (rle_over m u)\<lparr>blocks := bs\<rparr>" by (simp add: rle_over_def)
  then show ?thesis using assms by simp
qed

section \<open>Blocks and macroblocks\<close>

lemma rle_over_frame:
  "rle_over m m' = m' \<Longrightarrow> blocks m' = blocks m" "rle_over m m' = m' \<Longrightarrow> current_block m' = current_block m"
  "rle_over m m' = m' \<Longrightarrow> iq_y m' = iq_y m" "rle_over m m' = m' \<Longrightarrow> iq_uv m' = iq_uv m"
  "rle_over m m' = m' \<Longrightarrow> scale_table m' = scale_table m" "rle_over m m' = m' \<Longrightarrow> mdec_mode m' = mdec_mode m"
  "rle_over m m' = m' \<Longrightarrow> data_out_fifo m' = data_out_fifo m" "rle_over m m' = m' \<Longrightarrow> mdec_status m' = mdec_status m"
  by (metis rle_over_simps)+

lemma decode_block_resumes:
  assumes "mdec_room (List.length vs) m" "mdec_between m" "mdec_decode_block cfg b qt m = (full, m')"
  shows "mdec_room (List.length vs) m' \<and> mdec_between m' \<and> current_block m' = current_block m \<and>
    iq_y m' = iq_y m \<and> iq_uv m' = iq_uv m \<and> data_out_fifo m' = data_out_fifo m \<and>
    mdec_decode_block cfg b qt (mdec_feed vs m) =
      (if full then (True, mdec_feed vs m') else mdec_decode_block cfg b qt (mdec_feed vs m'))"
proof -
  let ?old = "mdec_use_old_routines cfg"
  obtain blk t where d: "mdec_decode_rle ?old qt (blocks m b) m = (full, blk, t)"
    using assms(3) by (auto simp: mdec_decode_block_def Let_def split: prod.splits if_splits)
  note r = decode_rle_resumes [OF assms(1,2) d] and f = rle_over_frame [OF decode_rle_frame [OF d]]
  show ?thesis
  proof (cases full)
    case True
    then have m': "m' = t\<lparr>blocks := (blocks t)(b := mdec_idct cfg t blk)\<rparr>"
      using assms(3) d by (simp add: mdec_decode_block_def)
    then show ?thesis
      using r f True by (simp add: mdec_decode_block_def feed_upd mdec_idct_def mdec_room_def mdec_between_def)
  next
    case False
    then have m': "m' = t\<lparr>blocks := (blocks t)(b := blk)\<rparr>" using assms(3) d by (simp add: mdec_decode_block_def)
    obtain full2 blk2 u where e: "mdec_decode_rle ?old qt blk (mdec_feed vs t) = (full2, blk2, u)" by (metis prod_cases3)
    note g = rle_over_frame [OF decode_rle_frame [OF e]]
    have o: "mdec_feed vs m' = rle_over (mdec_feed vs m') (mdec_feed vs t)"
      by (simp add: m' feed_upd rle_over_def)
    have "mdec_decode_rle ?old qt blk (mdec_feed vs m') = (full2, blk2, rle_over (mdec_feed vs m') u)"
      by (subst o) (simp add: decode_rle_over e)
    moreover have "rle_over (mdec_feed vs m') u = u\<lparr>blocks := (blocks t)(b := blk)\<rparr>"
    proof -
      have "u = rle_over (mdec_feed vs t) u" using decode_rle_frame [OF e] by simp
      then show ?thesis using rle_over_blocks [of u "mdec_feed vs t" "(blocks t)(b := blk)"] by (simp add: m' feed_upd)
    qed
    ultimately show ?thesis
      using r f g False e m' by (simp add: mdec_decode_block_def mdec_idct_def mdec_room_def mdec_between_def)
  qed
qed

text \<open>The blocks still to decode, and the count as the loop's index gives it.\<close>

lemma decode_blocks_resumes:
  "mdec_room (List.length vs) m \<Longrightarrow> mdec_between m \<Longrightarrow> unat (current_block m) + n = 6 \<Longrightarrow>
   mdec_decode_blocks cfg n m = (full, m') \<Longrightarrow>
   mdec_room (List.length vs) m' \<and> mdec_between m' \<and> unat (current_block m') \<le> 6 \<and>
   data_out_fifo m' = data_out_fifo m \<and>
   mdec_decode_blocks cfg n (mdec_feed vs m) =
     (if full then (True, mdec_feed vs m')
      else mdec_decode_blocks cfg (6 - unat (current_block m')) (mdec_feed vs m')) \<and>
   (full \<longrightarrow> current_block m' = 6)"
proof (induction n arbitrary: m)
  case 0
  then have "current_block m = 6" by (intro word_unat_eq_iff [THEN iffD2]) simp
  then show ?case using 0 by simp
next
  case (Suc n)
  let ?qt = "if current_block m \<ge> 2 then iq_y m else iq_uv m"
  obtain full1 t where d: "mdec_decode_block cfg (unat (current_block m)) ?qt m = (full1, t)" by (rule prod.exhaust)
  note r = decode_block_resumes [OF Suc.prems(1,2) d]
  show ?case
  proof (cases full1)
    case False
    then have "full = False" "m' = t" using Suc.prems(4) d by simp_all
    moreover have "6 - unat (current_block m) = Suc n" using Suc.prems(3) by simp
    ultimately show ?thesis using r False Suc.prems(3) by (cases "2 \<le> current_block m") simp_all
  next
    case True
    let ?t = "t\<lparr>current_block := current_block t + 1\<rparr>"
    have "unat (current_block t + 1) = unat (current_block m) + 1"
      using Suc.prems(3) r by (simp add: unat_succ)
    moreover have "mdec_room (List.length vs) ?t" "mdec_between ?t"
      using r by (simp_all add: mdec_room_def mdec_between_def)
    ultimately show ?thesis
      using Suc.IH [of ?t] Suc.prems(3,4) d r True by (cases "2 \<le> current_block m") (simp_all add: feed_upd)
  qed
qed

lemma colored_resumes:
  assumes room: "mdec_room (List.length vs) m" and pos: "mdec_between m" "current_block m \<le> MDEC_NUM_BLOCKS"
    and stop: "mdec_decode_colored_macroblock cfg m = (False, m')"
  shows "mdec_decode_colored_macroblock cfg (mdec_feed vs m') = mdec_decode_colored_macroblock cfg (mdec_feed vs m)"
proof -
  let ?n = "unat MDEC_NUM_BLOCKS - unat (current_block m)"
  have c: "unat (current_block m) + ?n = 6" using pos(2) by (simp add: MDEC_NUM_BLOCKS_def word_le_nat_alt)
  obtain full t where d: "mdec_decode_blocks cfg ?n m = (full, t)" by (rule prod.exhaust)
  note r = decode_blocks_resumes [OF room pos(1) c d]
  have t: "t = m'" "full \<longrightarrow> \<not> mdec_fifo_empty (data_out_fifo t)"
    using stop d by (auto simp: mdec_decode_colored_macroblock_def Let_def split: if_splits)
  have "mdec_decode_blocks cfg ?n (mdec_feed vs m) =
      mdec_decode_blocks cfg (unat MDEC_NUM_BLOCKS - unat (current_block m')) (mdec_feed vs m')"
    using r t(1) by (cases full) (simp_all add: MDEC_NUM_BLOCKS_def)
  then show ?thesis by (simp add: mdec_decode_colored_macroblock_def)
qed

lemma mono_resumes:
  assumes room: "mdec_room (List.length vs) m" and pos: "mdec_between m"
    and stop: "mdec_decode_mono_macroblock cfg m = (False, m')"
  shows "mdec_decode_mono_macroblock cfg (mdec_feed vs m') = mdec_decode_mono_macroblock cfg (mdec_feed vs m)"
proof (cases "mdec_fifo_empty (data_out_fifo m)")
  case True
  obtain full t where d: "mdec_decode_block cfg 0 (iq_y m) m = (full, t)" by (rule prod.exhaust)
  then have "\<not> full" "t = m'" using stop True by (auto simp: mdec_decode_mono_macroblock_def Let_def split: if_splits)
  then show ?thesis
    using decode_block_resumes [OF room pos d] True by (simp add: mdec_decode_mono_macroblock_def)
next
  case False
  then show ?thesis using stop by (simp add: mdec_decode_mono_macroblock_def)
qed

end
