(* ===== verification/Mdec_Exec.thy ===== *)
theory Mdec_Exec
  imports Mdec_Resume Scheduler_Ops
begin

text \<open>
  The decoder's state machine: its invariant, and that the loop in \<open>mdec_execute\<close> returns.
  Each round that goes on consumes input or ends a command.
\<close>

section \<open>The invariant\<close>

definition mdec_ok :: "mdec_state \<Rightarrow> bool" where
  "mdec_ok m \<longleftrightarrow> fifo_ok 512 (data_in_fifo m) \<and> fifo_ok 192 (data_out_fifo m) \<and> mdec_between m \<and>
     current_block m \<le> MDEC_NUM_BLOCKS \<and>
     (case mdec_mode m of
        MDEC_STATE_WRITING_MACROBLOCK \<Rightarrow> mdec_fifo_empty (data_out_fifo m)
      | MDEC_STATE_SET_IQ_TABLE \<Rightarrow> remaining_halfwords m = 32 \<or> remaining_halfwords m = 64
      | MDEC_STATE_SET_SCALE_TABLE \<Rightarrow> remaining_halfwords m = 64
      | _ \<Rightarrow> True)"

text \<open>The copy-out event is scheduled exactly while a macroblock waits to be written.\<close>

definition mdec_wf :: "'a mdec_sys_scheme \<Rightarrow> bool" where
  "mdec_wf s \<longleftrightarrow> (\<exists>xs. sched_queue s xs) \<and> mdec_ok (mdec s) \<and>
     (mdec_has_pending_block_copy_out s \<longleftrightarrow> mdec_mode (mdec s) = MDEC_STATE_WRITING_MACROBLOCK)"

text \<open>What the functions of other components may change.\<close>

definition mdec_quiet :: "'a mdec_sys_scheme \<Rightarrow> 'a mdec_sys_scheme \<Rightarrow> bool" where
  "mdec_quiet s t \<longleftrightarrow> mdec t = mdec s \<and> ((\<exists>xs. sched_queue s xs) \<longrightarrow> (\<exists>xs. sched_queue t xs)) \<and>
     mdec_has_pending_block_copy_out t = mdec_has_pending_block_copy_out s"

definition mdec_hooks_ok :: "('a mdec_sys_scheme) mdec_hooks \<Rightarrow> bool" where
  "mdec_hooks_ok h \<longleftrightarrow> (\<forall>ch b s. (\<exists>xs. sched_queue s xs) \<longrightarrow>
       (\<exists>t. mdec_dma_set_request h ch b s = Some t \<and> mdec_quiet s t)) \<and>
     (\<forall>s. mdec_quiet s (cdrom_disable_read_speedup h s))"

text \<open>A state with another decoder, otherwise as quiet.\<close>

definition mdec_becomes :: "mdec_state \<Rightarrow> 'a mdec_sys_scheme \<Rightarrow> 'a mdec_sys_scheme \<Rightarrow> bool" where
  "mdec_becomes m s t \<longleftrightarrow> mdec t = m \<and> ((\<exists>xs. sched_queue s xs) \<longrightarrow> (\<exists>xs. sched_queue t xs)) \<and>
     mdec_has_pending_block_copy_out t = mdec_has_pending_block_copy_out s"

lemma upd_mdec_simps [simp]:
  "mdec (upd_mdec f s) = f (mdec s)" "timing (upd_mdec f s) = timing s" "timing_events (upd_mdec f s) = timing_events s"
  "mdec_has_pending_block_copy_out (upd_mdec f s) = mdec_has_pending_block_copy_out s"
  "sched_queue (upd_mdec f s) xs = sched_queue s xs"
  "mdec_has_pending_block_copy_out (s\<lparr>mdec := m\<rparr>) = mdec_has_pending_block_copy_out s"
  "sched_queue (s\<lparr>mdec := m\<rparr>) xs = sched_queue s xs"
  by (simp_all add: upd_mdec_def mdec_has_pending_block_copy_out_def sched_queue_def sched_dll_def)

lemma more_mdec: "sched_sys.more s' = sched_sys.more s \<Longrightarrow> mdec s' = mdec s"
  by (cases s; cases s') simp

lemma mdec_schedule:
  assumes "sched_queue s xs"
  shows "\<exists>t. mdec_schedule_block_copy_out d s = Some t \<and> mdec t = mdec s \<and> (\<exists>ys. sched_queue t ys) \<and>
    mdec_has_pending_block_copy_out t"
proof -
  let ?s = "timing_event_set_interval MDEC_BLOCK_COPY_OUT_EVENT d s"
  have "ev_time ?s = ev_time s" by (rule ext) (simp add: timing_event_set_interval_def)
  moreover have "active (timing_events ?s x) = active (timing_events s x)" for x
    by (simp add: timing_event_set_interval_def)
  ultimately have "sched_queue ?s xs"
    using assms by (simp only: sched_queue_def) (simp add: timing_event_set_interval_def sched_dll_upd)
  from schedule_refines [OF this, of MDEC_BLOCK_COPY_OUT_EVENT d] obtain t ys where
    t: "timing_event_schedule MDEC_BLOCK_COPY_OUT_EVENT d ?s = Some t" "sched_queue t ys"
      "set ys = insert MDEC_BLOCK_COPY_OUT_EVENT (set xs)" "sched_env ?s t"
    by (auto simp: rescheduled_def)
  have "mdec t = mdec ?s" using t(4) by (intro more_mdec) (simp add: sched_env_def)
  moreover have "mdec ?s = mdec s" by (simp add: timing_event_set_interval_def upd_event_def)
  ultimately show ?thesis using t
    by (auto simp: mdec_schedule_block_copy_out_def timing_event_set_interval_and_schedule_def
        mdec_has_pending_block_copy_out_def sched_queue_active [OF t(2)])
qed

lemma mdec_deactivate:
  assumes "sched_queue s xs"
  shows "\<exists>t. timing_event_deactivate MDEC_BLOCK_COPY_OUT_EVENT s = Some t \<and> mdec t = mdec s \<and>
    (\<exists>ys. sched_queue t ys) \<and> \<not> mdec_has_pending_block_copy_out t"
proof -
  obtain t where t: "timing_event_deactivate MDEC_BLOCK_COPY_OUT_EVENT s = Some t"
    "sched_queue t (remove1 MDEC_BLOCK_COPY_OUT_EVENT xs)" "sched_env s t"
    using deactivate_queue [OF assms, of MDEC_BLOCK_COPY_OUT_EVENT] by auto
  have "mdec t = mdec s" using t(3) by (intro more_mdec) (simp add: sched_env_def)
  moreover have "\<not> active (timing_events t MDEC_BLOCK_COPY_OUT_EVENT)"
    using sched_queue_distinct [OF assms] sched_queue_active [OF t(2)] by simp
  ultimately show ?thesis using t by (auto simp: mdec_has_pending_block_copy_out_def)
qed

section \<open>Status\<close>

lemma ok_status [simp]: "mdec_ok (m\<lparr>mdec_status := x\<rparr>) = mdec_ok m"
  by (cases "mdec_mode m") (simp_all add: mdec_ok_def mdec_between_def)

lemma hook_request:
  "mdec_hooks_ok h \<Longrightarrow> \<exists>xs. sched_queue s xs \<Longrightarrow> \<exists>t. mdec_dma_set_request h ch b s = Some t \<and> mdec_quiet s t"
  unfolding mdec_hooks_ok_def by blast

lemma update_status_returns:
  assumes h: "mdec_hooks_ok h" and q: "\<exists>xs. sched_queue s xs"
  shows "\<exists>t x. mdec_update_status h s = Some t \<and> mdec_becomes ((mdec s)\<lparr>mdec_status := x\<rparr>) s t"
proof -
  let ?r = "mdec_data_in_request (mdec s)"
  let ?u = "upd_mdec (\<lambda>m. m\<lparr>mdec_status := flag_put 28 ?r (mdec_status_bits m)\<rparr>) s"
  obtain u where u: "mdec_dma_set_request h MDEC_DMA_CHANNEL_MDEC_IN ?r ?u = Some u" "mdec_quiet ?u u"
    using hook_request [OF h, of ?u MDEC_DMA_CHANNEL_MDEC_IN ?r] q by auto
  let ?o = "mdec_data_out_request (mdec u)"
  let ?v = "upd_mdec (\<lambda>m. m\<lparr>mdec_status := flag_put 27 ?o (mdec_status m)\<rparr>) u"
  have "\<exists>xs. sched_queue ?v xs" using u(2) q by (simp add: mdec_quiet_def)
  then obtain v where v: "mdec_dma_set_request h MDEC_DMA_CHANNEL_MDEC_OUT ?o ?v = Some v" "mdec_quiet ?v v"
    using hook_request [OF h, of ?v MDEC_DMA_CHANNEL_MDEC_OUT ?o] by blast
  have "mdec_update_status h s = Some v" using u(1) v(1) by (simp add: mdec_update_status_def Let_def)
  moreover have "mdec v = (mdec s)\<lparr>mdec_status := mdec_status (mdec v)\<rparr>"
    using u(2) v(2) by (simp add: mdec_quiet_def)
  then have "mdec_becomes ((mdec s)\<lparr>mdec_status := mdec_status (mdec v)\<rparr>) s v"
    using u(2) v(2) by (simp add: mdec_quiet_def mdec_becomes_def)
  ultimately show ?thesis by blast
qed

lemma becomes_wf:
  "mdec_becomes ((mdec s)\<lparr>mdec_status := x\<rparr>) s t \<Longrightarrow> mdec_wf s \<Longrightarrow> mdec_wf t"
  by (simp add: mdec_becomes_def mdec_wf_def)

lemma quiet_wf: "mdec_quiet s t \<Longrightarrow> mdec_wf s \<Longrightarrow> mdec_wf t"
  by (simp add: mdec_quiet_def mdec_wf_def)

lemma update_status_wf:
  assumes "mdec_hooks_ok h" "mdec_wf s"
  shows "\<exists>t x. mdec_update_status h s = Some t \<and> mdec_wf t \<and> mdec t = (mdec s)\<lparr>mdec_status := x\<rparr>"
  using update_status_returns [OF assms(1), of s] becomes_wf assms(2)
  by (fastforce simp: mdec_wf_def mdec_becomes_def)

section \<open>The rounds\<close>

definition mdec_measure :: "mdec_state \<Rightarrow> nat" where
  "mdec_measure m = 2 * unat (fifo_size (data_in_fifo m)) + (if mdec_mode m = MDEC_STATE_IDLE then 0 else 1)"

lemma measure_status [simp]: "mdec_measure (m\<lparr>mdec_status := x\<rparr>) = mdec_measure m"
  by (simp add: mdec_measure_def)

lemma list_size: "unat (fifo_size f) = List.length (fifo_list 512 f)"
  by simp

lemma start_command_ok:
  assumes "mdec_ok m" "2 \<le> fifo_size (data_in_fifo m)" "mdec_mode m = MDEC_STATE_IDLE"
  shows "mdec_ok (mdec_start_command m)" "mdec_measure (mdec_start_command m) < mdec_measure m"
    "mdec_mode (mdec_start_command m) \<noteq> MDEC_STATE_WRITING_MACROBLOCK"
proof -
  have s: "unat (2 :: u32) \<le> unat (fifo_size (data_in_fifo m))" using assms(2) by (simp add: word_le_nat_alt)
  have r: "fifo_ok 512 (data_in_fifo m)" using assms(1) by (simp add: mdec_ok_def)
  note f = in_remove [OF r s]
  have c: "unat (fifo_size (mdec_fifo_in_remove 2 (data_in_fifo m))) + 2 = unat (fifo_size (data_in_fifo m))"
    using s unfolding list_size f(2) by simp
  show "mdec_ok (mdec_start_command m)"
    using assms(1) f(1) by (auto simp: mdec_start_command_def mdec_command_words_def mdec_ok_def mdec_between_def Let_def)
  show "mdec_measure (mdec_start_command m) < mdec_measure m"
    using s c assms(3) by (simp add: mdec_measure_def mdec_start_command_def Let_def split: prod.splits)
  show "mdec_mode (mdec_start_command m) \<noteq> MDEC_STATE_WRITING_MACROBLOCK"
    by (simp add: mdec_start_command_def mdec_command_words_def Let_def)
qed

lemma eat_junk_ok:
  assumes "mdec_ok m"
  shows "mdec_mode m = MDEC_STATE_NO_COMMAND \<Longrightarrow> mdec_ok (mdec_eat_junk m)"
    and "unat (fifo_size (data_in_fifo (mdec_eat_junk m))) \<le> unat (fifo_size (data_in_fifo m))"
proof -
  let ?n = "min (remaining_halfwords m) (fifo_size (data_in_fifo m))"
  have n: "unat ?n \<le> unat (fifo_size (data_in_fifo m))" by (simp add: min_def word_le_nat_alt)
  have r: "fifo_ok 512 (data_in_fifo m)" using assms(1) by (simp add: mdec_ok_def)
  note f = in_remove [OF r n]
  show "mdec_ok (mdec_eat_junk m)" if "mdec_mode m = MDEC_STATE_NO_COMMAND"
    using assms that f(1) by (simp add: mdec_eat_junk_def Let_def mdec_ok_def mdec_between_def)
  show "unat (fifo_size (data_in_fifo (mdec_eat_junk m))) \<le> unat (fifo_size (data_in_fifo m))"
    unfolding list_size using f(2) by (simp add: mdec_eat_junk_def Let_def)
qed

lemma pop_range_size:
  assumes "fifo_ok 512 f" "n \<le> unat (fifo_size f)"
  shows "unat (fifo_size (snd (mdec_fifo_in_pop_range n f))) + n = unat (fifo_size f)"
  using assms(2) unfolding list_size in_pop_range(3) [OF assms] by simp

lemma quant_command_ok:
  assumes "mdec_ok m" "mdec_mode m = MDEC_STATE_SET_IQ_TABLE" "\<not> fifo_size (data_in_fifo m) < remaining_halfwords m"
  defines "t \<equiv> (mdec_handle_set_quant_table_command m)\<lparr>mdec_mode := MDEC_STATE_IDLE\<rparr>"
  shows "mdec_ok t" "mdec_measure t < mdec_measure m"
proof -
  let ?f = "data_in_fifo m"
  have r: "fifo_ok 512 ?f" "remaining_halfwords m = 32 \<or> remaining_halfwords m = 64"
    using assms(1,2) by (simp_all add: mdec_ok_def)
  have s: "unat (remaining_halfwords m) \<le> unat (fifo_size ?f)" using assms(3) by (simp add: word_less_nat_alt)
  then have s32: "32 \<le> unat (fifo_size ?f)" using r(2) by auto
  let ?g = "snd (mdec_fifo_in_pop_range 32 ?f)"
  have g: "fifo_ok 512 ?g" "unat (fifo_size ?g) + 32 = unat (fifo_size ?f)"
    using in_pop_range(2) [OF r(1) s32] pop_range_size [OF r(1) s32] by simp_all
  have g2: "remaining_halfwords m = 64 \<Longrightarrow> fifo_ok 512 (snd (mdec_fifo_in_pop_range 32 ?g)) \<and>
      unat (fifo_size (snd (mdec_fifo_in_pop_range 32 ?g))) + 64 = unat (fifo_size ?f)"
    using in_pop_range(2) [OF g(1), of 32] pop_range_size [OF g(1), of 32] g(2) s by simp
  have t: "data_in_fifo t = (if remaining_halfwords m = 64 then snd (mdec_fifo_in_pop_range 32 ?g) else ?g)"
    using r(2) by (auto simp: t_def mdec_handle_set_quant_table_command_def Let_def split: prod.splits)
  have o: "data_out_fifo t = data_out_fifo m" "mdec_between t = mdec_between m" "current_block t = current_block m"
    "mdec_mode t = MDEC_STATE_IDLE"
    by (simp_all add: t_def mdec_handle_set_quant_table_command_def Let_def mdec_between_def split: prod.splits)
  show "mdec_ok t" using assms(1) t g g2 o by (simp add: mdec_ok_def)
  show "mdec_measure t < mdec_measure m" using assms(2) t g g2 o by (auto simp: mdec_measure_def)
qed

lemma scale_command_ok:
  assumes "mdec_ok m" "mdec_mode m = MDEC_STATE_SET_SCALE_TABLE" "\<not> fifo_size (data_in_fifo m) < remaining_halfwords m"
  defines "t \<equiv> (mdec_handle_set_scale_command m)\<lparr>mdec_mode := MDEC_STATE_IDLE\<rparr>"
  shows "mdec_ok t" "mdec_measure t < mdec_measure m"
proof -
  let ?f = "data_in_fifo m"
  have r: "fifo_ok 512 ?f" "remaining_halfwords m = 64" using assms(1,2) by (simp_all add: mdec_ok_def)
  then have s: "64 \<le> unat (fifo_size ?f)" using assms(3) by (simp add: word_less_nat_alt)
  have t: "data_in_fifo t = snd (mdec_fifo_in_pop_range 64 ?f)" "data_out_fifo t = data_out_fifo m"
    "mdec_between t = mdec_between m" "current_block t = current_block m" "mdec_mode t = MDEC_STATE_IDLE"
    by (simp_all add: t_def mdec_handle_set_scale_command_def mdec_set_scale_matrix_def Let_def mdec_between_def
        split: prod.splits)
  show "mdec_ok t" using assms(1) t in_pop_range(2) [OF r(1) s] by (simp add: mdec_ok_def)
  show "mdec_measure t < mdec_measure m"
    using assms(2) t pop_range_size [OF r(1) s] by (simp add: mdec_measure_def)
qed

lemma size_decrease:
  assumes "fifo_ok 512 (data_in_fifo m)"
  shows "mdec_next_halfword m = Some (n, t) \<Longrightarrow> unat (fifo_size (data_in_fifo t)) \<le> unat (fifo_size (data_in_fifo m))"
  using next_halfword_input(2) [OF assms] in_ring.size_pop [OF assms]
  by (auto simp: mdec_next_halfword_def mdec_fifo_empty_def split: prod.splits if_splits)

lemma skip_size:
  "fifo_ok 512 (data_in_fifo m) \<Longrightarrow>
   unat (fifo_size (data_in_fifo (snd (mdec_skip_padding m)))) \<le> unat (fifo_size (data_in_fifo m))"
proof (induction m rule: mdec_skip_padding.induct)
  case (1 m)
  show ?case
  proof (cases "mdec_next_halfword m")
    case (Some p)
    obtain n t where p: "mdec_next_halfword m = Some (n, t)" using Some by (cases p) simp
    then show ?thesis
      using "1.IH" [OF p refl] next_halfword_input(2) [OF "1.prems" p] size_decrease [OF "1.prems" p]
      by (subst mdec_skip_padding.simps) fastforce
  qed (simp add: mdec_skip_padding.simps)
qed

lemma loop_size:
  "fifo_ok 512 (data_in_fifo m) \<Longrightarrow>
   unat (fifo_size (data_in_fifo (snd (snd (mdec_rle_loop old qt blk m))))) \<le> unat (fifo_size (data_in_fifo m))"
proof (induction blk m rule: rle_loop_induct [where old = old and qt = qt])
  case (step blk m)
  show ?case
  proof (cases "mdec_next_halfword m")
    case (Some p)
    obtain n t where p: "mdec_next_halfword m = Some (n, t)" using Some by (cases p) simp
    then show ?thesis
      using step.IH [OF p] next_halfword_input(2) [OF step.prems p] size_decrease [OF step.prems p]
      by (fastforce simp: rle_loop_Some [OF p])
  qed (simp add: rle_loop_None)
qed

lemma decode_rle_size:
  assumes "fifo_ok 512 (data_in_fifo m)"
  shows "unat (fifo_size (data_in_fifo (snd (snd (mdec_decode_rle old qt blk m))))) \<le> unat (fifo_size (data_in_fifo m))"
proof (cases "current_coefficient m = 64")
  case True
  obtain r t where r: "mdec_skip_padding m = (r, t)" by (rule prod.exhaust)
  have "fifo_ok 512 (data_in_fifo t)" using skip_equiv [OF assms r] by simp
  then show ?thesis
    using True r skip_size [OF assms] loop_size [of "t\<lparr>current_coefficient := 0, current_q_scale := q\<rparr>" for q]
    by (fastforce simp: mdec_decode_rle_def Let_def intro: le_trans split: option.splits)
next
  case False
  then show ?thesis using loop_size [OF assms] by (simp add: mdec_decode_rle_def)
qed

text \<open>What decoding a block keeps, in one fact.\<close>

definition mdec_decodes :: "mdec_state \<Rightarrow> mdec_state \<Rightarrow> bool" where
  "mdec_decodes m m' \<longleftrightarrow> fifo_ok 512 (data_in_fifo m') \<and> mdec_between m' \<and>
     unat (fifo_size (data_in_fifo m')) \<le> unat (fifo_size (data_in_fifo m)) \<and>
     data_out_fifo m' = data_out_fifo m \<and> mdec_mode m' = mdec_mode m"

lemma decode_block_decodes:
  assumes "fifo_ok 512 (data_in_fifo m)" "mdec_between m" "mdec_decode_block cfg b qt m = (full, m')"
  shows "mdec_decodes m m'" "current_block m' = current_block m"
proof -
  obtain blk t where d: "mdec_decode_rle (mdec_use_old_routines cfg) qt (blocks m b) m = (full, blk, t)"
    "m' = t\<lparr>blocks := blocks m'\<rparr>"
    using assms(3) by (auto simp: mdec_decode_block_def Let_def split: prod.splits if_splits)
  have "mdec_room (List.length []) m" using assms(1) by (simp add: mdec_room_def fifo_ok_def)
  note r = decode_block_resumes [OF this assms(2,3)]
  have "data_in_fifo m' = data_in_fifo t" "mdec_mode m' = mdec_mode t" by (subst d(2), simp)+
  then show "mdec_decodes m m'" "current_block m' = current_block m"
    using r decode_rle_size [OF assms(1), of "mdec_use_old_routines cfg" qt "blocks m b"] d(1)
      rle_over_frame(6) [OF decode_rle_frame [OF d(1)]]
    by (simp_all add: mdec_decodes_def mdec_room_def)
qed

lemma decode_blocks_decodes:
  "fifo_ok 512 (data_in_fifo m) \<Longrightarrow> mdec_between m \<Longrightarrow> unat (current_block m) + n = 6 \<Longrightarrow>
   mdec_decode_blocks cfg n m = (full, m') \<Longrightarrow> mdec_decodes m m' \<and> unat (current_block m') \<le> 6"
proof (induction n arbitrary: m)
  case 0
  then show ?case by (simp add: mdec_decodes_def)
next
  case (Suc n)
  let ?qt = "if current_block m \<ge> 2 then iq_y m else iq_uv m"
  obtain full1 t where d: "mdec_decode_block cfg (unat (current_block m)) ?qt m = (full1, t)" by (rule prod.exhaust)
  note r = decode_block_decodes [OF Suc.prems(1,2) d]
  let ?t = "t\<lparr>current_block := current_block t + 1\<rparr>"
  have "unat (current_block ?t) + n = 6" using Suc.prems(3) r(2) by (simp add: unat_succ)
  moreover have "fifo_ok 512 (data_in_fifo ?t)" "mdec_between ?t"
    using r by (simp_all add: mdec_decodes_def mdec_between_def)
  ultimately have "mdec_decode_blocks cfg n ?t = (full, m') \<Longrightarrow> mdec_decodes ?t m' \<and> unat (current_block m') \<le> 6"
    using Suc.IH [of ?t] by simp
  then show ?case
    using Suc.prems(3,4) d r by (cases "2 \<le> current_block m") (auto simp: mdec_decodes_def split: if_splits)
qed

lemma macroblock_ok:
  assumes "mdec_ok m" "mdec_mode m = MDEC_STATE_DECODING_MACROBLOCK"
    and "(if gray then mdec_decode_mono_macroblock else mdec_decode_colored_macroblock) cfg m = (ok, m')"
  shows "mdec_ok m' \<and> unat (fifo_size (data_in_fifo m')) \<le> unat (fifo_size (data_in_fifo m)) \<and>
    mdec_mode m' = (if ok then MDEC_STATE_WRITING_MACROBLOCK else MDEC_STATE_DECODING_MACROBLOCK)"
proof (cases gray)
  case True
  obtain full t where d: "mdec_decode_block cfg 0 (iq_y m) m = (full, t)" by (rule prod.exhaust)
  have r: "mdec_decodes m t" "current_block t = current_block m"
    using decode_block_decodes [OF _ _ d] assms(1) by (simp_all add: mdec_ok_def)
  show ?thesis
    using assms True d r
    by (auto simp: mdec_decode_mono_macroblock_def mdec_decodes_def mdec_ok_def mdec_reset_decoder_def
        mdec_between_def Let_def MDEC_NUM_BLOCKS_def split: if_splits)
next
  case False
  obtain full t where d: "mdec_decode_blocks cfg (unat MDEC_NUM_BLOCKS - unat (current_block m)) m = (full, t)"
    by (rule prod.exhaust)
  have "unat (current_block m) + (unat MDEC_NUM_BLOCKS - unat (current_block m)) = 6"
    using assms(1) by (simp add: mdec_ok_def MDEC_NUM_BLOCKS_def word_le_nat_alt)
  then have r: "mdec_decodes m t" "unat (current_block t) \<le> 6"
    using decode_blocks_decodes [OF _ _ _ d] assms(1) by (simp_all add: mdec_ok_def)
  show ?thesis
    using assms False d r
    by (auto simp: mdec_decode_colored_macroblock_def mdec_decodes_def mdec_ok_def mdec_reset_decoder_def
        mdec_between_def Let_def MDEC_NUM_BLOCKS_def word_le_nat_alt split: if_splits)
qed

text \<open>A round returns, keeps the invariant, and decreases the measure when the loop goes on.\<close>

definition mdec_steps :: "mdec_state \<Rightarrow> (bool \<times> 'a mdec_sys_scheme) option \<Rightarrow> bool" where
  "mdec_steps m r \<longleftrightarrow> (case r of None \<Rightarrow> False
     | Some (b, t) \<Rightarrow> mdec_wf t \<and> (b \<longrightarrow> mdec_measure (mdec t) < mdec_measure m))"

lemma wf_parts: "mdec_wf s \<Longrightarrow> mdec_ok (mdec s)"
  "mdec_wf s \<Longrightarrow> mdec_mode (mdec s) \<noteq> MDEC_STATE_WRITING_MACROBLOCK \<Longrightarrow> \<not> mdec_has_pending_block_copy_out s"
  by (simp_all add: mdec_wf_def)

lemma upd_wf:
  assumes "mdec_wf s" "mdec_mode (mdec s) \<noteq> MDEC_STATE_WRITING_MACROBLOCK"
    and "mdec_ok (f (mdec s))" "mdec_mode (f (mdec s)) \<noteq> MDEC_STATE_WRITING_MACROBLOCK"
  shows "mdec_wf (upd_mdec f s)"
  using assms by (auto simp: mdec_wf_def)

lemma stop_steps [simp]: "mdec_wf s \<Longrightarrow> mdec_steps m (Some (False, s))"
  by (simp add: mdec_steps_def)

lemma again_steps:
  assumes "mdec_hooks_ok h" "mdec_wf s" "mdec_measure (mdec s) < mdec_measure m"
  shows "mdec_steps m (map_option (Pair True) (mdec_update_status h s))"
  using update_status_wf [OF assms(1,2)] assms(3) by (force simp: mdec_steps_def)

lemma decoding_steps:
  assumes wf: "mdec_wf s" and mode: "mdec_mode (mdec s) = MDEC_STATE_DECODING_MACROBLOCK"
  shows "mdec_steps (mdec s) (mdec_round h s)"
proof -
  let ?gray = "status_depth (mdec_status (mdec s)) \<le> 1"
  obtain ok m where d: "(if ?gray then mdec_decode_mono_macroblock else mdec_decode_colored_macroblock)
      (mdec_settings h) (mdec s) = (ok, m)"
    by (rule prod.exhaust)
  note r = macroblock_ok [OF wf_parts(1) [OF wf] mode d]
  obtain xs where q: "sched_queue (s\<lparr>mdec := m\<rparr>) xs" using wf by (auto simp: mdec_wf_def)
  show ?thesis
  proof (cases ok)
    case True
    obtain t where "mdec_schedule_block_copy_out (MDEC_TICKS_PER_BLOCK * 6) (s\<lparr>mdec := m\<rparr>) = Some t"
      "mdec t = m" "\<exists>ys. sched_queue t ys" "mdec_has_pending_block_copy_out t"
      using mdec_schedule [OF q] by fastforce
    then show ?thesis
      using True d r mode
      by (simp add: mdec_round_def mdec_handle_decode_macroblock_command_def mdec_steps_def mdec_wf_def)
  next
    case False
    have w: "mdec_wf (s\<lparr>mdec := m\<rparr>)" using wf mode r False q by (auto simp: mdec_wf_def)
    have "mdec_steps (mdec s) (Some (True, upd_mdec (\<lambda>m. (mdec_reset_decoder m)\<lparr>mdec_mode := MDEC_STATE_IDLE\<rparr>) (s\<lparr>mdec := m\<rparr>)))"
    proof -
      have "mdec_ok ((mdec_reset_decoder m)\<lparr>mdec_mode := MDEC_STATE_IDLE\<rparr>)"
        using r by (simp add: mdec_ok_def mdec_reset_decoder_def mdec_between_def MDEC_NUM_BLOCKS_def)
      then have "mdec_wf (upd_mdec (\<lambda>m. (mdec_reset_decoder m)\<lparr>mdec_mode := MDEC_STATE_IDLE\<rparr>) (s\<lparr>mdec := m\<rparr>))"
        using w r False by (intro upd_wf) simp_all
      moreover have "mdec_measure ((mdec_reset_decoder m)\<lparr>mdec_mode := MDEC_STATE_IDLE\<rparr>) < mdec_measure (mdec s)"
        using r mode by (simp add: mdec_measure_def mdec_reset_decoder_def)
      ultimately show ?thesis by (simp add: mdec_steps_def)
    qed
    then show ?thesis
      using False d w mode by (simp add: mdec_round_def mdec_handle_decode_macroblock_command_def)
  qed
qed

lemma round_steps:
  assumes h: "mdec_hooks_ok h" and wf: "mdec_wf s"
  shows "mdec_steps (mdec s) (mdec_round h s)"
proof (cases "mdec_mode (mdec s)")
  case MDEC_STATE_IDLE
  show ?thesis
  proof (cases "fifo_size (data_in_fifo (mdec s)) < 2")
    case True
    then show ?thesis using MDEC_STATE_IDLE wf by (simp add: mdec_round_def)
  next
    case False
    then have c: "2 \<le> fifo_size (data_in_fifo (mdec s))" by simp
    note r = start_command_ok [OF wf_parts(1) [OF wf] c MDEC_STATE_IDLE]
    then have "mdec_wf (upd_mdec mdec_start_command s)" using MDEC_STATE_IDLE wf by (intro upd_wf) simp_all
    then show ?thesis using again_steps [OF h, of "upd_mdec mdec_start_command s"] r False MDEC_STATE_IDLE
      by (simp add: mdec_round_def)
  qed
next
  case MDEC_STATE_DECODING_MACROBLOCK
  then show ?thesis by (rule decoding_steps [OF wf])
next
  case MDEC_STATE_WRITING_MACROBLOCK
  then show ?thesis using wf by (simp add: mdec_round_def)
next
  case MDEC_STATE_SET_IQ_TABLE
  let ?t = "upd_mdec (\<lambda>m. (mdec_handle_set_quant_table_command m)\<lparr>mdec_mode := MDEC_STATE_IDLE\<rparr>) s"
  show ?thesis
  proof (cases "fifo_size (data_in_fifo (mdec s)) < remaining_halfwords (mdec s)")
    case False
    note r = quant_command_ok [OF wf_parts(1) [OF wf] MDEC_STATE_SET_IQ_TABLE False]
    then have "mdec_wf ?t" using MDEC_STATE_SET_IQ_TABLE wf by (intro upd_wf) simp_all
    then show ?thesis using again_steps [OF h, of ?t] r False MDEC_STATE_SET_IQ_TABLE by (simp add: mdec_round_def)
  qed (simp add: mdec_round_def MDEC_STATE_SET_IQ_TABLE wf)
next
  case MDEC_STATE_SET_SCALE_TABLE
  let ?t = "upd_mdec (\<lambda>m. (mdec_handle_set_scale_command m)\<lparr>mdec_mode := MDEC_STATE_IDLE\<rparr>) s"
  show ?thesis
  proof (cases "fifo_size (data_in_fifo (mdec s)) < remaining_halfwords (mdec s)")
    case False
    note r = scale_command_ok [OF wf_parts(1) [OF wf] MDEC_STATE_SET_SCALE_TABLE False]
    then have "mdec_wf ?t" using MDEC_STATE_SET_SCALE_TABLE wf by (intro upd_wf) simp_all
    then show ?thesis using again_steps [OF h, of ?t] r False MDEC_STATE_SET_SCALE_TABLE by (simp add: mdec_round_def)
  qed (simp add: mdec_round_def MDEC_STATE_SET_SCALE_TABLE wf)
next
  case MDEC_STATE_NO_COMMAND
  let ?s = "upd_mdec mdec_eat_junk s" and ?m = "(mdec_eat_junk (mdec s))\<lparr>mdec_mode := MDEC_STATE_IDLE\<rparr>"
  have m: "mdec_mode (mdec_eat_junk (mdec s)) = MDEC_STATE_NO_COMMAND"
    using MDEC_STATE_NO_COMMAND by (simp add: mdec_eat_junk_def Let_def)
  note r = eat_junk_ok [OF wf_parts(1) [OF wf]]
  have w: "mdec_wf ?s" using MDEC_STATE_NO_COMMAND wf r(1) m by (intro upd_wf) simp_all
  have "mdec_ok ?m" using r(1) [OF MDEC_STATE_NO_COMMAND] by (simp add: mdec_ok_def mdec_between_def)
  then have v: "mdec_wf (upd_mdec (\<lambda>m. m\<lparr>mdec_mode := MDEC_STATE_IDLE\<rparr>) ?s)"
    by (intro upd_wf [OF w]) (use m in simp_all)
  moreover have "mdec_measure ?m < mdec_measure (mdec s)"
    using r(2) MDEC_STATE_NO_COMMAND by (simp add: mdec_measure_def)
  ultimately show ?thesis
    using again_steps [OF h v] w MDEC_STATE_NO_COMMAND by (simp add: mdec_round_def Let_def)
qed

section \<open>The loop and the operations\<close>

definition mdec_returns :: "'a mdec_sys_scheme option \<Rightarrow> bool" where
  "mdec_returns r \<longleftrightarrow> (\<exists>t. r = Some t \<and> mdec_wf t)"

lemma execute_loop_returns:
  assumes h: "mdec_hooks_ok h"
  shows "mdec_wf s \<Longrightarrow> mdec_returns (mdec_execute_loop h s)"
proof (induction "mdec_measure (mdec s)" arbitrary: s rule: less_induct)
  case less
  obtain b t where r: "mdec_round h s = Some (b, t)" "mdec_wf t" "b \<longrightarrow> mdec_measure (mdec t) < mdec_measure (mdec s)"
    using round_steps [OF h less.prems] by (auto simp: mdec_steps_def split: option.splits)
  show ?case
  proof (cases b)
    case True
    then show ?thesis using less.hyps [OF _ r(2)] r by (subst mdec_execute_loop.simps) simp
  next
    case False
    then show ?thesis using update_status_wf [OF h r(2)] r(1)
      by (subst mdec_execute_loop.simps) (auto simp: mdec_returns_def)
  qed
qed

lemma ok_frame_count [simp]: "mdec_ok (m\<lparr>active_frame_count := k\<rparr>) = mdec_ok m"
  by (cases "mdec_mode m") (simp_all add: mdec_ok_def mdec_between_def)

lemma execute_returns:
  assumes h: "mdec_hooks_ok h" and wf: "mdec_wf s"
  shows "mdec_returns (mdec_execute h s)"
proof -
  let ?s = "upd_mdec (\<lambda>m. m\<lparr>active_frame_count := MDEC_ACTIVE_FRAME_COUNT\<rparr>) s"
  have w: "mdec_wf ?s" using wf by (auto simp: mdec_wf_def)
  have "mdec_quiet ?s (cdrom_disable_read_speedup h ?s)" using h by (simp add: mdec_hooks_ok_def)
  from quiet_wf [OF this w] show ?thesis
    using execute_loop_returns [OF h w] execute_loop_returns [OF h]
    by (simp add: mdec_execute_def Let_def)
qed

lemma bind_returns:
  "(\<exists>t. x = Some t \<and> P t) \<Longrightarrow> (\<And>t. P t \<Longrightarrow> mdec_returns (f t)) \<Longrightarrow> mdec_returns (do { t \<leftarrow> x; f t })"
  by auto

end
