(* ===== verification/Mdec_Props.thy ===== *)
theory Mdec_Props
  imports Mdec_Exec
begin

text \<open>
  The decoder's public operations return and keep the invariant; what its copy-out sends and
  what its pixels are.
\<close>

section \<open>Packing\<close>

lemma pack_24_group:
  "mdec_pack_24 0 acc (a # b # c # d # ps) =
     (a OR push_bit 24 (b AND 0xFF)) # (drop_bit 8 b OR push_bit 16 c) # (drop_bit 16 c OR push_bit 8 d) #
     mdec_pack_24 0 (drop_bit 16 c) ps"
  by simp

lemma four_more:
  assumes "List.length ps = 4 * Suc k"
  obtains a b c d qs where "ps = a # b # c # d # qs" "List.length qs = 4 * k"
proof -
  have "List.length ps = Suc (Suc (Suc (Suc (4 * k))))" using assms by simp
  then show ?thesis using that by (auto simp: length_Suc_conv)
qed

lemma length_pack_24: "List.length ps = 4 * k \<Longrightarrow> List.length (mdec_pack_24 0 acc ps) = 3 * k"
proof (induction k arbitrary: ps acc)
  case (Suc k)
  from Suc.prems obtain a b c d qs where p: "ps = a # b # c # d # qs" "List.length qs = 4 * k" by (rule four_more)
  have "List.length (mdec_pack_24 0 acc ps) = 3 + List.length (mdec_pack_24 0 (drop_bit 16 c) qs)"
    unfolding p(1) pack_24_group by simp
  then show ?case using Suc.IH [OF p(2)] by simp
qed simp

lemma length_pack: "List.length (mdec_pack old st rgb) \<le> 192"
proof -
  have "List.length (mdec_pack_24 0 0 (map rgb [0..<256])) = 3 * 64" by (rule length_pack_24) simp
  then show ?thesis by (simp add: mdec_pack_def Let_def del: upt_Suc)
qed

text \<open>A word as bytes, and a pixel as its three bytes.\<close>

definition word_byte :: "nat \<Rightarrow> u32 \<Rightarrow> u8" where
  "word_byte i w = ucast (drop_bit (8 * i) w)"

definition word_bytes :: "u32 \<Rightarrow> u8 list" where
  "word_bytes w = map (\<lambda>i. word_byte i w) [0, 1, 2, 3]"

definition pixel_bytes :: "u32 \<Rightarrow> u8 list" where
  "pixel_bytes w = map (\<lambda>i. word_byte i w) [0, 1, 2]"

lemma high_bits_clear: "w < 2 ^ 24 \<Longrightarrow> 24 \<le> n \<Longrightarrow> \<not> bit w n" for w :: u32
proof -
  assume "w < 2 ^ 24" and n: "24 \<le> n"
  then have "unat w < 2 ^ 24" by (simp add: word_less_nat_alt)
  then have "take_bit 24 w = w" by (simp add: word_unat_eq_iff unsigned_take_bit_eq take_bit_nat_eq_self)
  then show ?thesis using n by (metis bit_take_bit_iff leD)
qed

lemma bit_word_byte: "bit (word_byte i w) n \<longleftrightarrow> n < 8 \<and> bit w (8 * i + n)"
  by (auto simp: word_byte_def bit_simps)

lemma byte_or [simp]: "word_byte i (v OR w) = word_byte i v OR word_byte i w"
  by (rule bit_word_eqI) (simp add: bit_word_byte bit_or_iff)

lemma byte_drop [simp]: "word_byte i (drop_bit (8 * j) w) = word_byte (i + j) w"
  by (rule bit_word_eqI) (simp add: bit_word_byte bit_drop_bit_eq algebra_simps)

lemma byte_push [simp]: "i < 4 \<Longrightarrow> word_byte i (push_bit (8 * j) w) = (if j \<le> i then word_byte (i - j) w else 0)"
  by (rule bit_word_eqI) (auto simp: bit_word_byte bit_push_bit_iff diff_mult_distrib2)

lemma byte_high [simp]: "w < 2 ^ 24 \<Longrightarrow> 3 \<le> i \<Longrightarrow> word_byte i w = 0"
  by (rule bit_word_eqI) (simp add: bit_word_byte high_bits_clear)

lemma byte_low [simp]: "word_byte i (w AND 0xFF) = (if i = 0 then word_byte 0 w else 0)"
proof -
  have m: "(0xFF :: u32) = mask 8" by (simp add: mask_eq_exp_minus_1)
  show ?thesis unfolding m by (rule bit_word_eqI) (auto simp: bit_word_byte bit_and_iff bit_mask_iff)
qed

lemma byte_shifts:
  "word_byte i (drop_bit 8 w) = word_byte (i + 1) w" "word_byte i (drop_bit 16 w) = word_byte (i + 2) w"
  "i < 4 \<Longrightarrow> word_byte i (push_bit 8 w) = (if 1 \<le> i then word_byte (i - 1) w else 0)"
  "i < 4 \<Longrightarrow> word_byte i (push_bit 16 w) = (if 2 \<le> i then word_byte (i - 2) w else 0)"
  "i < 4 \<Longrightarrow> word_byte i (push_bit 24 w) = (if 3 \<le> i then word_byte (i - 3) w else 0)"
  using byte_drop [of i 1 w] byte_drop [of i 2 w] byte_push [of i 1 w] byte_push [of i 2 w] byte_push [of i 3 w]
  by (simp_all del: byte_drop byte_push)

lemma pack_24_bytes:
  assumes "a < 2 ^ 24" "b < 2 ^ 24" "c < 2 ^ 24" "d < (2 ^ 24 :: u32)"
  shows "word_bytes (a OR push_bit 24 (b AND 0xFF)) @ word_bytes (drop_bit 8 b OR push_bit 16 c) @
      word_bytes (drop_bit 16 c OR push_bit 8 d) =
    pixel_bytes a @ pixel_bytes b @ pixel_bytes c @ pixel_bytes d"
proof -
  show ?thesis
    using assms unfolding word_bytes_def pixel_bytes_def by (simp add: byte_shifts numeral_2_eq_2 del: push_bit_and)
qed

lemma pack_24_all_bytes:
  "List.length ps = 4 * k \<Longrightarrow> \<forall>p\<in>set ps. p < 2 ^ 24 \<Longrightarrow>
   concat (map word_bytes (mdec_pack_24 0 acc ps)) = concat (map pixel_bytes ps)"
proof (induction k arbitrary: ps acc)
  case (Suc k)
  from Suc.prems(1) obtain a b c d qs where p: "ps = a # b # c # d # qs" "List.length qs = 4 * k" by (rule four_more)
  have l: "a < 2 ^ 24" "b < 2 ^ 24" "c < 2 ^ 24" "d < 2 ^ 24" "\<forall>p\<in>set qs. p < 2 ^ 24"
    using Suc.prems(2) by (simp_all add: p(1))
  show ?case
    unfolding p(1) pack_24_group list.map concat.simps Suc.IH [OF p(2) l(5)]
    using pack_24_bytes [OF l(1-4)] by (simp only: append_assoc [symmetric])
qed simp

section \<open>Pixels\<close>

lemma pixel_small: "mdec_pixel sgnd Cr Cb Y < 2 ^ 24"
proof -
  have "take_bit 24 (mdec_pixel sgnd Cr Cb Y) = mdec_pixel sgnd Cr Cb Y"
    by (rule bit_word_eqI) (auto simp: mdec_pixel_def Let_def bit_simps dest: bit_imp_le_length)
  then have "unat (mdec_pixel sgnd Cr Cb Y) = take_bit 24 (unat (mdec_pixel sgnd Cr Cb Y))"
    by (metis unsigned_take_bit_eq)
  then have "unat (mdec_pixel sgnd Cr Cb Y) < 2 ^ 24" by (metis take_bit_nat_less_exp)
  then show ?thesis by (simp add: word_less_nat_alt)
qed

lemma clamp_range: "lo \<le> hi \<Longrightarrow> lo \<le> mdec_clamp_s32 v lo hi \<and> mdec_clamp_s32 v lo hi \<le> hi"
  by (simp add: mdec_clamp_s32_def)

text \<open>The transformed block is in the range of a signed byte, by either routine.\<close>

lemma idct_range: "p < 64 \<Longrightarrow> - 128 \<le> mdec_idct cfg m blk p \<and> mdec_idct cfg m blk p \<le> 127"
  using clamp_range [of "- 128" 127] by (simp add: mdec_idct_def mdec_idct_new_def mdec_idct_old_def Let_def)

text \<open>A pixel of the four quadrants: its luma block and its shared chroma sample.\<close>

definition macroblock_pixel :: "mdec_state \<Rightarrow> nat \<Rightarrow> nat \<Rightarrow> u32" where
  "macroblock_pixel m x y =
     mdec_pixel (status_signed (mdec_status m)) (blocks m 0 (y div 2 * 8 + x div 2)) (blocks m 1 (y div 2 * 8 + x div 2))
       (blocks m (2 + x div 8 + 2 * (y div 8)) (y mod 8 * 8 + x mod 8))"

lemma upper_half: "8 \<le> x \<Longrightarrow> x div 2 = 4 + (x - 8) div 2" for x :: nat
  by presburger

lemma upper_digit: "8 \<le> x \<Longrightarrow> x < 16 \<Longrightarrow> x div 8 = 1 \<and> x mod 8 = x - 8" for x :: nat
  by presburger

lemma quadrant_pixel:
  assumes "x < 16" "y < 16" "\<not> mdec_use_old_routines cfg"
  shows "mdec_yuv_to_rgb cfg m 8 8 5 (mdec_yuv_to_rgb cfg m 0 8 4 (mdec_yuv_to_rgb cfg m 8 0 3
    (mdec_yuv_to_rgb cfg m 0 0 2 rgb))) (y * 16 + x) = macroblock_pixel m x y"
proof -
  have p: "(y * 16 + x) mod 16 = x" "(y * 16 + x) div 16 = y" using assms(1) by simp_all
  note unf = mdec_yuv_to_rgb_def mdec_yuv_to_rgb_new_def Let_def p
  consider "x < 8" "y < 8" | "x < 8" "8 \<le> y" | "8 \<le> x" "y < 8" | "8 \<le> x" "8 \<le> y" by linarith
  then show ?thesis
  proof cases
    case 1
    then have "2 + x div 8 + 2 * (y div 8) = 2" "x mod 8 = x" "y mod 8 = y" by simp_all
    then show ?thesis unfolding macroblock_pixel_def using assms 1 by (simp add: unf)
  next
    case 2
    then have "2 + x div 8 + 2 * (y div 8) = 4" "x mod 8 = x" "y mod 8 = y - 8" using assms(2) by (simp_all add: mod_if div_if)
    then show ?thesis unfolding macroblock_pixel_def using assms 2 by (simp only:) (simp add: unf)
  next
    case 3
    then have "2 + x div 8 + 2 * (y div 8) = 3" "x mod 8 = x - 8" "y mod 8 = y" using assms(1) by (simp_all add: mod_if div_if)
    then show ?thesis unfolding macroblock_pixel_def upper_half [OF 3(1)] using assms 3
      by (simp only:) (simp add: unf algebra_simps)
  next
    case 4
    then have "2 + x div 8 + 2 * (y div 8) = 5" "x mod 8 = x - 8" "y mod 8 = y - 8"
      using upper_digit [of x] upper_digit [of y] assms(1,2) by simp_all
    then show ?thesis unfolding macroblock_pixel_def upper_half [OF 4(1)] using assms 4
      by (simp only:) (simp add: unf algebra_simps)
  qed
qed

lemma colored_pixels:
  assumes "mdec_decode_colored_macroblock cfg m = (True, m')" "\<not> mdec_use_old_routines cfg" "x < 16" "y < 16"
  shows "block_rgb m' (y * 16 + x) = macroblock_pixel m' x y"
  using assms(1) quadrant_pixel [OF assms(3,4,2)]
  by (auto simp: mdec_decode_colored_macroblock_def Let_def macroblock_pixel_def split: if_splits prod.splits)

section \<open>The operations return\<close>

lemma ok_enable [simp]:
  "mdec_ok (m\<lparr>enable_dma_in := a, enable_dma_out := b\<rparr>) = mdec_ok m"
  by (cases "mdec_mode m") (simp_all add: mdec_ok_def mdec_between_def)

lemma feed_ok:
  assumes "mdec_ok m" "unat (fifo_size (data_in_fifo m)) + List.length vs \<le> 512"
  shows "mdec_ok (mdec_feed vs m)"
proof -
  have "fifo_ok 512 (mdec_fifo_in_push_range vs (data_in_fifo m))"
    using in_push_range(1) [OF _ assms(2)] assms(1) by (simp add: mdec_ok_def)
  then show ?thesis using assms(1) by (cases "mdec_mode m") (simp_all add: mdec_ok_def mdec_between_def mdec_feed_def)
qed

lemma feed_fun: "mdec_feed vs = (\<lambda>m. m\<lparr>data_in_fifo := mdec_fifo_in_push_range vs (data_in_fifo m)\<rparr>)"
  by (rule ext) (simp add: mdec_feed_def)

lemma execute_after:
  assumes "mdec_hooks_ok h" "mdec_wf s" "mdec_ok (f (mdec s))" "mdec_mode (f (mdec s)) = mdec_mode (mdec s)"
  shows "mdec_returns (mdec_execute h (upd_mdec f s))"
  using assms by (intro execute_returns) (simp_all add: mdec_wf_def)

lemma length_word_halves [simp]: "List.length (word_halves ws) = 2 * List.length ws"
  by (induction ws) (simp_all add: word_halves_def)

lemma in_space: "mdec_ok m \<Longrightarrow> unat (mdec_fifo_in_space (data_in_fifo m)) = 512 - unat (fifo_size (data_in_fifo m))"
  by (simp add: mdec_ok_def fifo_ok_def mdec_fifo_in_space_def MDEC_DATA_IN_FIFO_CAPACITY_def unat_sub word_le_nat_alt)

lemma dma_write_returns:
  assumes "mdec_hooks_ok h" "mdec_wf s"
  shows "mdec_returns (mdec_dma_write h ws s)"
proof -
  let ?room = "mdec_fifo_in_space (data_in_fifo (mdec s)) AND NOT 2"
  let ?vs = "take (min (2 * List.length ws) (unat ?room)) (word_halves ws)"
  have ok: "mdec_ok (mdec s)" by (rule wf_parts(1) [OF assms(2)])
  have "?room \<le> mdec_fifo_in_space (data_in_fifo (mdec s))" by (rule word_and_le2)
  then have "unat ?room \<le> 512 - unat (fifo_size (data_in_fifo (mdec s)))"
    using in_space [OF ok] by (simp only: word_le_nat_alt)
  moreover have "unat (fifo_size (data_in_fifo (mdec s))) \<le> 512" using ok by (simp add: mdec_ok_def fifo_ok_def)
  ultimately have "mdec_ok (mdec_feed ?vs (mdec s))" by (intro feed_ok [OF ok]) auto
  then have "mdec_returns (mdec_execute h (upd_mdec (mdec_feed ?vs) s))"
    by (intro execute_after assms) simp_all
  then show ?thesis by (simp add: mdec_dma_write_def Let_def feed_fun)
qed

lemma write_command_returns:
  assumes "mdec_hooks_ok h" "mdec_wf s" "fifo_size (data_in_fifo (mdec s)) \<le> 510"
  shows "mdec_returns (mdec_write_command_register h v s)"
proof -
  have "mdec_ok (mdec_feed [ucast v, ucast (drop_bit 16 v)] (mdec s))"
    using assms(3) by (intro feed_ok [OF wf_parts(1) [OF assms(2)]]) (simp add: word_le_nat_alt)
  then have "mdec_returns (mdec_execute h (upd_mdec (mdec_feed [ucast v, ucast (drop_bit 16 v)]) s))"
    by (intro execute_after assms) simp_all
  then show ?thesis by (simp add: mdec_write_command_register_def feed_fun mdec_fifo_in_push_range_def)
qed

lemma soft_reset_returns:
  assumes "mdec_hooks_ok h" "\<exists>xs. sched_queue s xs"
  shows "\<exists>t. mdec_soft_reset h s = Some t \<and> mdec_wf t \<and> mdec_mode (mdec t) = MDEC_STATE_IDLE \<and>
    fifo_list 512 (data_in_fifo (mdec t)) = [] \<and> fifo_list 192 (data_out_fifo (mdec t)) = []"
proof -
  let ?f = "\<lambda>m. mdec_reset_decoder (m\<lparr>mdec_status := 0, enable_dma_in := False, enable_dma_out := False,
       data_in_fifo := mdec_fifo_clear (data_in_fifo m), data_out_fifo := mdec_fifo_clear (data_out_fifo m),
       mdec_mode := MDEC_STATE_IDLE, remaining_halfwords := 0\<rparr>)"
  obtain xs where "sched_queue (upd_mdec ?f s) xs" using assms(2) by auto
  from mdec_deactivate [OF this] obtain u where u:
    "timing_event_deactivate MDEC_BLOCK_COPY_OUT_EVENT (upd_mdec ?f s) = Some u" "mdec u = ?f (mdec s)"
    "\<exists>ys. sched_queue u ys" "\<not> mdec_has_pending_block_copy_out u"
    by auto
  have "mdec_ok (mdec u)"
    by (simp add: u(2) mdec_ok_def mdec_reset_decoder_def mdec_between_def MDEC_NUM_BLOCKS_def)
  then have w: "mdec_wf u" using u by (simp add: mdec_wf_def mdec_reset_decoder_def)
  obtain t x where t: "mdec_update_status h u = Some t" "mdec_wf t" "mdec t = (mdec u)\<lparr>mdec_status := x\<rparr>"
    using update_status_wf [OF assms(1) w] by blast
  then show ?thesis using u(1,2) by (simp add: mdec_soft_reset_def Let_def mdec_reset_decoder_def)
qed

lemma mdec_write_returns:
  assumes "mdec_hooks_ok h" "mdec_wf s" "fifo_size (data_in_fifo (mdec s)) \<le> 510"
  shows "mdec_returns (mdec_write_register h offset v s)"
proof -
  have e: "mdec_returns (mdec_execute h (upd_mdec (\<lambda>m. m\<lparr>enable_dma_in := bit v 30, enable_dma_out := bit v 29\<rparr>) t))"
    if "mdec_wf t" for t
    using wf_parts(1) [OF that] by (intro execute_after assms(1) that) simp_all
  obtain t where t: "mdec_soft_reset h s = Some t" "mdec_wf t"
    using soft_reset_returns [OF assms(1)] assms(2) by (auto simp: mdec_wf_def)
  show ?thesis
    using write_command_returns [OF assms] e [OF assms(2)] e [OF t(2)] t(1) assms(2)
    by (simp add: mdec_write_register_def mdec_returns_def)
qed

lemma mdec_reset_returns:
  assumes "mdec_hooks_ok h" "\<exists>xs. sched_queue s xs"
  shows "mdec_returns (mdec_reset h s)"
proof -
  obtain xs where "sched_queue (upd_mdec (\<lambda>m. m\<lparr>active_frame_count := 0\<rparr>) s) xs" using assms(2) by auto
  from mdec_deactivate [OF this] soft_reset_returns [OF assms(1)] show ?thesis
    by (fastforce simp: mdec_reset_def mdec_returns_def)
qed

text \<open>Reading: the output FIFO loses what is read.\<close>

lemma upd_out_wf:
  assumes "mdec_wf s" "fifo_ok 192 f" "mdec_mode (mdec s) = MDEC_STATE_WRITING_MACROBLOCK \<longrightarrow> mdec_fifo_empty f"
  shows "mdec_wf (upd_mdec (\<lambda>m. m\<lparr>data_out_fifo := f\<rparr>) s)"
  using assms by (cases "mdec_mode (mdec s)") (auto simp: mdec_wf_def mdec_ok_def mdec_between_def)

lemma out_size_list: "mdec_fifo_empty f \<longleftrightarrow> fifo_list 192 f = []"
  by (rule fifo_empty_list)

lemma dma_read_returns:
  assumes h: "mdec_hooks_ok h" and wf: "mdec_wf s"
  shows "\<exists>t. mdec_dma_read h n s = Some (take n (fifo_list 192 (data_out_fifo (mdec s))), t) \<and> mdec_wf t"
proof -
  let ?f = "data_out_fifo (mdec s)" and ?k = "min n (unat (fifo_size (data_out_fifo (mdec s))))"
  have ok: "fifo_ok 192 ?f" using wf_parts(1) [OF wf] by (simp add: mdec_ok_def)
  obtain ws g where r: "mdec_fifo_out_pop_range ?k ?f = (ws, g)" by (rule prod.exhaust)
  have k: "?k \<le> unat (fifo_size ?f)" by simp
  have ws: "ws = take n (fifo_list 192 ?f)" "fifo_ok 192 g" "fifo_list 192 g = drop ?k (fifo_list 192 ?f)"
    using out_pop_range [OF ok k] r by (auto simp: min_def)
  have "mdec_fifo_empty ?f \<Longrightarrow> mdec_fifo_empty g" by (simp add: out_size_list ws(3) del: length_fifo_list)
  then have "mdec_mode (mdec s) = MDEC_STATE_WRITING_MACROBLOCK \<longrightarrow> mdec_fifo_empty g"
    using wf_parts(1) [OF wf] by (auto simp: mdec_ok_def)
  from upd_out_wf [OF wf ws(2) this] have w: "mdec_wf (upd_mdec (\<lambda>m. m\<lparr>data_out_fifo := g\<rparr>) s)" .
  show ?thesis
    using execute_returns [OF h w] w r ws(1) by (auto simp: mdec_dma_read_def Let_def mdec_returns_def)
qed

lemma read_data_returns:
  assumes h: "mdec_hooks_ok h" and wf: "mdec_wf s"
    and "\<not> mdec_fifo_empty (data_out_fifo (mdec s)) \<or> \<not> mdec_has_pending_block_copy_out s"
  shows "\<exists>v t. mdec_read_data_register h s = Some (v, t) \<and> mdec_wf t"
proof (cases "mdec_fifo_empty (data_out_fifo (mdec s))")
  case True
  then show ?thesis using assms by (simp add: mdec_read_data_register_def)
next
  case False
  let ?f = "data_out_fifo (mdec s)" and ?g = "snd (mdec_fifo_out_pop (data_out_fifo (mdec s)))"
  have ok: "fifo_ok 192 ?f" using wf_parts(1) [OF wf] by (simp add: mdec_ok_def)
  have "fifo_ok 192 ?g"
    using out_ring.pop_refines(1) [OF ok] False by (simp add: mdec_fifo_empty_def)
  moreover have "mdec_mode (mdec s) \<noteq> MDEC_STATE_WRITING_MACROBLOCK"
    using wf_parts(1) [OF wf] False by (auto simp: mdec_ok_def)
  ultimately have w: "mdec_wf (upd_mdec (\<lambda>m. m\<lparr>data_out_fifo := ?g\<rparr>) s)" by (intro upd_out_wf [OF wf]) simp_all
  show ?thesis
    using execute_returns [OF h w] update_status_wf [OF h w] False
    by (auto simp: mdec_read_data_register_def Let_def mdec_returns_def split: prod.splits)
qed

section \<open>Copying a macroblock out\<close>

definition mdec_copied :: "mdec_config \<Rightarrow> mdec_state \<Rightarrow> mdec_state" where
  "mdec_copied cfg m = m\<lparr>
     data_out_fifo := fold mdec_fifo_out_push (mdec_pack (mdec_use_old_routines cfg) (mdec_status m) (block_rgb m)) (data_out_fifo m),
     mdec_mode := (if remaining_halfwords m = 0 then MDEC_STATE_IDLE else MDEC_STATE_DECODING_MACROBLOCK)\<rparr>"

lemma copied_ok:
  assumes "mdec_ok m" "mdec_mode m = MDEC_STATE_WRITING_MACROBLOCK"
  shows "mdec_ok (mdec_copied cfg m)"
    "fifo_list 192 (data_out_fifo (mdec_copied cfg m)) = mdec_pack (mdec_use_old_routines cfg) (mdec_status m) (block_rgb m)"
proof -
  have e: "fifo_ok 192 (data_out_fifo m)" "mdec_fifo_empty (data_out_fifo m)" using assms by (simp_all add: mdec_ok_def)
  then have "fifo_size (data_out_fifo m) = 0" by (simp add: mdec_fifo_empty_def)
  then have "unat (fifo_size (data_out_fifo m)) + List.length (mdec_pack (mdec_use_old_routines cfg) (mdec_status m) (block_rgb m)) \<le> 192"
    using length_pack by simp
  note p = out_ring.push_all_refines [OF e(1) this]
  show "mdec_ok (mdec_copied cfg m)" using assms p by (simp add: mdec_ok_def mdec_copied_def mdec_between_def)
  show "fifo_list 192 (data_out_fifo (mdec_copied cfg m)) = mdec_pack (mdec_use_old_routines cfg) (mdec_status m) (block_rgb m)"
    using e(2) p by (simp add: mdec_copied_def out_size_list)
qed

lemma copy_out_steps:
  assumes wf: "mdec_wf s" and mode: "mdec_mode (mdec s) = MDEC_STATE_WRITING_MACROBLOCK"
  obtains u where "mdec_copy_out_block h s = mdec_execute h u" "mdec_wf u" "mdec u = mdec_copied (mdec_settings h) (mdec s)"
proof -
  obtain xs where "sched_queue s xs" using wf by (auto simp: mdec_wf_def)
  from mdec_deactivate [OF this] obtain t where t:
    "timing_event_deactivate MDEC_BLOCK_COPY_OUT_EVENT s = Some t" "mdec t = mdec s" "\<exists>ys. sched_queue t ys"
    "\<not> mdec_has_pending_block_copy_out t"
    by auto
  let ?u = "upd_mdec (mdec_copied (mdec_settings h)) t"
  have "mdec_copied (mdec_settings h) = (\<lambda>m. mdec_copied (mdec_settings h) m)" by simp
  then have "mdec_copy_out_block h s = mdec_execute h ?u"
    using t(1) mode unfolding mdec_copied_def by (simp add: mdec_copy_out_block_def)
  moreover have "mdec_wf ?u"
    using copied_ok(1) [OF wf_parts(1) [OF wf] mode] t by (auto simp: mdec_wf_def mdec_copied_def)
  moreover have "mdec ?u = mdec_copied (mdec_settings h) (mdec s)" by (simp add: t(2))
  ultimately show ?thesis using that by blast
qed

lemma copy_out_returns:
  assumes "mdec_hooks_ok h" "mdec_wf s" "mdec_mode (mdec s) = MDEC_STATE_WRITING_MACROBLOCK"
  shows "mdec_returns (mdec_copy_out_block h s)"
  using copy_out_steps [OF assms(2,3), of h] execute_returns [OF assms(1)] by metis

text \<open>With no command word waiting, the loop leaves the output alone.\<close>

lemma macroblock_output:
  assumes "mdec_ok m"
    and "(if gray then mdec_decode_mono_macroblock else mdec_decode_colored_macroblock) cfg m = (ok, m')"
  shows "data_out_fifo m' = data_out_fifo m"
proof (cases gray)
  case True
  obtain full t where d: "mdec_decode_block cfg 0 (iq_y m) m = (full, t)" by (rule prod.exhaust)
  then show ?thesis
    using decode_block_decodes(1) [OF _ _ d] assms True
    by (auto simp: mdec_decode_mono_macroblock_def mdec_decodes_def mdec_ok_def mdec_reset_decoder_def Let_def split: if_splits)
next
  case False
  obtain full t where d: "mdec_decode_blocks cfg (unat MDEC_NUM_BLOCKS - unat (current_block m)) m = (full, t)"
    by (rule prod.exhaust)
  have "unat (current_block m) + (unat MDEC_NUM_BLOCKS - unat (current_block m)) = 6"
    using assms(1) by (simp add: mdec_ok_def MDEC_NUM_BLOCKS_def word_le_nat_alt)
  then show ?thesis
    using decode_blocks_decodes [OF _ _ _ d] assms False d
    by (auto simp: mdec_decode_colored_macroblock_def mdec_decodes_def mdec_ok_def mdec_reset_decoder_def Let_def split: if_splits)
qed

lemma loop_stops:
  assumes "mdec_hooks_ok h" "mdec_wf t" "mdec_round h s = Some (False, t)"
  shows "\<exists>u x. mdec_execute_loop h s = Some u \<and> mdec_wf u \<and> mdec u = (mdec t)\<lparr>mdec_status := x\<rparr>"
  using update_status_wf [OF assms(1,2)] assms(3) by (subst mdec_execute_loop.simps) simp

lemma idle_loop:
  assumes "mdec_hooks_ok h" "mdec_wf s" "mdec_mode (mdec s) = MDEC_STATE_IDLE" "fifo_size (data_in_fifo (mdec s)) < 2"
  shows "\<exists>u x. mdec_execute_loop h s = Some u \<and> mdec_wf u \<and> mdec u = (mdec s)\<lparr>mdec_status := x\<rparr>"
  using loop_stops [OF assms(1,2)] assms(3,4) by (simp add: mdec_round_def)

lemma decoding_loop:
  assumes h: "mdec_hooks_ok h" and wf: "mdec_wf s" and mode: "mdec_mode (mdec s) = MDEC_STATE_DECODING_MACROBLOCK"
    and few: "fifo_size (data_in_fifo (mdec s)) < 2"
  shows "\<exists>u. mdec_execute_loop h s = Some u \<and> mdec_wf u \<and> data_out_fifo (mdec u) = data_out_fifo (mdec s)"
proof -
  let ?gray = "status_depth (mdec_status (mdec s)) \<le> 1"
  obtain ok m where d: "(if ?gray then mdec_decode_mono_macroblock else mdec_decode_colored_macroblock)
      (mdec_settings h) (mdec s) = (ok, m)"
    by (rule prod.exhaust)
  note r = macroblock_ok [OF wf_parts(1) [OF wf] mode d] and o = macroblock_output [OF wf_parts(1) [OF wf] d]
  obtain b t where t: "mdec_round h s = Some (b, t)" "mdec_wf t"
    using decoding_steps [OF wf mode, of h] by (auto simp: mdec_steps_def split: option.splits)
  obtain xs where q: "sched_queue (s\<lparr>mdec := m\<rparr>) xs" using wf by (auto simp: mdec_wf_def)
  have out: "data_out_fifo (mdec t) = data_out_fifo (mdec s)" "unat (fifo_size (data_in_fifo (mdec t))) \<le> unat (fifo_size (data_in_fifo (mdec s)))"
    "b \<Longrightarrow> mdec_mode (mdec t) = MDEC_STATE_IDLE"
    using t(1) d mode o r mdec_schedule [OF q, of "MDEC_TICKS_PER_BLOCK * 6"]
    by (auto simp: mdec_round_def mdec_handle_decode_macroblock_command_def mdec_reset_decoder_def split: if_splits)
  show ?thesis
  proof (cases b)
    case True
    have "fifo_size (data_in_fifo (mdec t)) < 2" using out(2) few by (simp add: word_less_nat_alt)
    from idle_loop [OF h t(2) out(3) [OF True] this] show ?thesis
      using t(1) True out(1) by (subst mdec_execute_loop.simps) auto
  next
    case False
    then show ?thesis using loop_stops [OF h t(2)] t(1) out(1) by fastforce
  qed
qed

lemma execute_output:
  assumes h: "mdec_hooks_ok h" and wf: "mdec_wf s" and few: "fifo_size (data_in_fifo (mdec s)) < 2"
    and mode: "mdec_mode (mdec s) \<in> {MDEC_STATE_IDLE, MDEC_STATE_DECODING_MACROBLOCK}"
  shows "\<exists>u. mdec_execute h s = Some u \<and> mdec_wf u \<and> data_out_fifo (mdec u) = data_out_fifo (mdec s)"
proof -
  have loop: "\<exists>u. mdec_execute_loop h t = Some u \<and> mdec_wf u \<and> data_out_fifo (mdec u) = data_out_fifo (mdec s)"
    if "mdec_wf t" "mdec t = (mdec s)\<lparr>active_frame_count := k\<rparr>" for t k
    using idle_loop [OF h that(1)] decoding_loop [OF h that(1)] few mode that(2) by auto
  let ?s = "upd_mdec (\<lambda>m. m\<lparr>active_frame_count := MDEC_ACTIVE_FRAME_COUNT\<rparr>) s"
  have w: "mdec_wf ?s" using wf by (auto simp: mdec_wf_def)
  have q: "mdec_quiet ?s (cdrom_disable_read_speedup h ?s)" using h by (simp add: mdec_hooks_ok_def)
  show ?thesis
    using loop [OF w] loop [OF quiet_wf [OF q w]] q by (simp add: mdec_execute_def Let_def mdec_quiet_def)
qed

section \<open>Loading the quantisation tables\<close>

lemma loop_again:
  assumes "mdec_hooks_ok h" "mdec_wf u" "mdec_round h s = map_option (Pair True) (mdec_update_status h u)"
  shows "\<exists>t x. mdec_execute_loop h s = mdec_execute_loop h t \<and> mdec_wf t \<and> mdec t = (mdec u)\<lparr>mdec_status := x\<rparr>"
proof -
  obtain t x where t: "mdec_update_status h u = Some t" "mdec_wf t" "mdec t = (mdec u)\<lparr>mdec_status := x\<rparr>"
    using update_status_wf [OF assms(1,2)] by blast
  then have "mdec_execute_loop h s = mdec_execute_loop h t"
    using assms(3) by (subst mdec_execute_loop.simps) simp
  then show ?thesis using t by blast
qed

lemma halves_bytes:
  "i < 4 * List.length ws \<Longrightarrow> halfword_bytes (word_halves ws) i = concat (map word_bytes ws) ! i"
proof (induction ws arbitrary: i)
  case (Cons w ws)
  have h: "ucast (ucast w :: u16) = word_byte 0 w" "ucast (drop_bit 8 (ucast w :: u16)) = word_byte 1 w"
    "ucast (ucast (drop_bit 16 w) :: u16) = word_byte 2 w" "ucast (drop_bit 8 (ucast (drop_bit 16 w) :: u16)) = word_byte 3 w"
    by (rule bit_word_eqI; auto simp: bit_word_byte bit_simps)+
  show ?case
  proof (cases "i < 4")
    case True
    then consider "i = 0" | "i = 1" | "i = 2" | "i = 3" by linarith
    then show ?thesis using h by cases (simp_all add: halfword_bytes_def word_halves_def word_bytes_def)
  next
    case False
    then obtain j where j: "i = 4 + j" using le_Suc_ex not_less by blast
    have "halfword_bytes (word_halves (w # ws)) i = halfword_bytes (word_halves ws) j"
    proof -
      have "(4 + j) div 2 = Suc (Suc (j div 2))" by presburger
      then show ?thesis by (simp add: halfword_bytes_def word_halves_def j)
    qed
    moreover have "concat (map word_bytes (w # ws)) ! i = concat (map word_bytes ws) ! j"
      by (simp add: word_bytes_def j nth_append)
    ultimately show ?thesis using Cons j by simp
  qed
qed simp

lemma halfword_bytes_take: "i < 2 * n \<Longrightarrow> halfword_bytes (take n vs) i = halfword_bytes vs i"
  by (simp add: halfword_bytes_def less_mult_imp_div_less mult.commute)

lemma halfword_bytes_drop: "n \<le> List.length vs \<Longrightarrow> halfword_bytes (drop n vs) i = halfword_bytes vs (2 * n + i)"
  by (simp add: halfword_bytes_def)

lemma start_quant_command:
  assumes "fifo_ok 512 (data_in_fifo m)" "fifo_list 512 (data_in_fifo m) = 1 # 0x4000 # vs"
  shows "mdec_mode (mdec_start_command m) = MDEC_STATE_SET_IQ_TABLE"
    "remaining_halfwords (mdec_start_command m) = 64"
    "fifo_list 512 (data_in_fifo (mdec_start_command m)) = vs"
proof -
  have s: "unat (fifo_size (data_in_fifo m)) = List.length vs + 2"
    unfolding list_size assms(2) by simp
  then have "mdec_fifo_in_peek (data_in_fifo m) 0 = 1" "mdec_fifo_in_peek (data_in_fifo m) 1 = 0x4000"
    using in_peek [OF assms(1), of 0] in_peek [OF assms(1), of 1] by (simp_all add: assms(2))
  moreover have "ucast (1 :: u16) OR push_bit 16 (ucast (0x4000 :: u16)) = (0x40000001 :: u32)" by simp
  moreover have "mdec_command_words 0x40000001 = (32, MDEC_STATE_SET_IQ_TABLE)"
    by (simp add: mdec_command_words_def bits_get_def)
  moreover have "fifo_list 512 (mdec_fifo_in_remove 2 (data_in_fifo m)) = vs"
    using in_remove(2) [OF assms(1), of 2] s by (simp add: assms(2))
  ultimately show "mdec_mode (mdec_start_command m) = MDEC_STATE_SET_IQ_TABLE"
    "remaining_halfwords (mdec_start_command m) = 64"
    "fifo_list 512 (data_in_fifo (mdec_start_command m)) = vs"
    by (simp_all add: mdec_start_command_def)
qed

lemma quant_tables:
  assumes ok: "fifo_ok 512 (data_in_fifo m)" and r: "remaining_halfwords m = 64"
    and l: "fifo_list 512 (data_in_fifo m) = word_halves ws" "List.length ws = 32" and i: "i < 64"
  shows "iq_y (mdec_handle_set_quant_table_command m) i = concat (map word_bytes ws) ! i"
    "iq_uv (mdec_handle_set_quant_table_command m) i = concat (map word_bytes ws) ! (64 + i)"
    "fifo_list 512 (data_in_fifo (mdec_handle_set_quant_table_command m)) = []"
proof -
  let ?g = "snd (mdec_fifo_in_pop_range 32 (data_in_fifo m))"
  have s: "unat (fifo_size (data_in_fifo m)) = 64" unfolding list_size l(1) using l(2) by simp
  note a = in_pop_range [OF ok, of 32, unfolded s l(1)]
  have sg: "unat (fifo_size ?g) = 32" unfolding list_size using a(3) l(2) by simp
  note b = in_pop_range [OF a(2), of 32, unfolded sg]
  have gl: "fifo_list 512 ?g = drop 32 (word_halves ws)" using a(3) by simp
  have e: "iq_y (mdec_handle_set_quant_table_command m) i = halfword_bytes (take 32 (word_halves ws)) i"
    "iq_uv (mdec_handle_set_quant_table_command m) i = halfword_bytes (take 32 (drop 32 (word_halves ws))) i"
    "data_in_fifo (mdec_handle_set_quant_table_command m) = snd (mdec_fifo_in_pop_range 32 ?g)"
    using a b gl r i by (auto simp: mdec_handle_set_quant_table_command_def Let_def split: prod.splits)
  show "iq_y (mdec_handle_set_quant_table_command m) i = concat (map word_bytes ws) ! i"
    using e(1) i l(2) by (simp add: halfword_bytes_take halves_bytes)
  show "iq_uv (mdec_handle_set_quant_table_command m) i = concat (map word_bytes ws) ! (64 + i)"
    using e(2) i l(2) by (simp add: halfword_bytes_take halfword_bytes_drop halves_bytes)
  show "fifo_list 512 (data_in_fifo (mdec_handle_set_quant_table_command m)) = []"
    using b(3) gl l(2) by (simp add: e(3))
qed

lemma quant_command_sequence:
  assumes h: "mdec_hooks_ok h" and wf: "mdec_wf s" and mode: "mdec_mode (mdec s) = MDEC_STATE_IDLE"
    and empty: "fifo_size (data_in_fifo (mdec s)) = 0" and ws: "List.length ws = 32"
  shows "\<exists>t. mdec_dma_write h (0x40000001 # ws) s = Some t \<and> mdec_wf t \<and> mdec_mode (mdec t) = MDEC_STATE_IDLE \<and>
    (\<forall>i<64. iq_y (mdec t) i = concat (map word_bytes ws) ! i \<and>
            iq_uv (mdec t) i = concat (map word_bytes ws) ! (64 + i))"
proof -
  let ?vs = "1 # 0x4000 # word_halves ws"
  have ok: "mdec_ok (mdec s)" by (rule wf_parts(1) [OF wf])
  have "fifo_list 512 (data_in_fifo (mdec s)) = []" using empty by (simp add: fifo_list_def)
  then have fed: "mdec_ok (mdec_feed ?vs (mdec s))" "fifo_list 512 (data_in_fifo (mdec_feed ?vs (mdec s))) = ?vs"
    using feed_ok [OF ok, of ?vs] in_push_range(2) [of "data_in_fifo (mdec s)" ?vs] ok empty ws
    by (simp_all add: mdec_feed_def mdec_ok_def)
  have "mdec_fifo_in_space (data_in_fifo (mdec s)) = 512"
    using empty by (simp add: mdec_fifo_in_space_def MDEC_DATA_IN_FIFO_CAPACITY_def)
  moreover have "word_halves (0x40000001 # ws) = ?vs" by (simp add: word_halves_def)
  ultimately have w: "mdec_dma_write h (0x40000001 # ws) s = mdec_execute h (upd_mdec (mdec_feed ?vs) s)"
    using ws by (simp add: mdec_dma_write_def feed_fun)
  have loop: "\<exists>t. mdec_execute_loop h a = Some t \<and> mdec_wf t \<and> mdec_mode (mdec t) = MDEC_STATE_IDLE \<and>
      (\<forall>i<64. iq_y (mdec t) i = concat (map word_bytes ws) ! i \<and> iq_uv (mdec t) i = concat (map word_bytes ws) ! (64 + i))"
    if a: "mdec_wf a" "mdec a = (mdec_feed ?vs (mdec s))\<lparr>active_frame_count := k\<rparr>" for a k
  proof -
    have fa: "fifo_ok 512 (data_in_fifo (mdec a))" "fifo_list 512 (data_in_fifo (mdec a)) = ?vs"
      "mdec_mode (mdec a) = MDEC_STATE_IDLE"
      using fed mode by (simp_all add: a(2) mdec_ok_def)
    note start = start_quant_command [OF fa(1,2)]
    have sa: "unat (fifo_size (data_in_fifo (mdec a))) = 66" unfolding list_size fa(2) using ws by simp
    then have big: "2 \<le> fifo_size (data_in_fifo (mdec a))" by (simp add: word_le_nat_alt)
    note c = start_command_ok [OF wf_parts(1) [OF a(1)] big fa(3)]
    have w1: "mdec_wf (upd_mdec mdec_start_command a)" using c fa(3) by (intro upd_wf [OF a(1)]) simp_all
    have "mdec_round h a = map_option (Pair True) (mdec_update_status h (upd_mdec mdec_start_command a))"
      using fa(3) big by (simp add: mdec_round_def word_less_nat_alt word_le_nat_alt)
    from loop_again [OF h w1 this] obtain b x where b: "mdec_execute_loop h a = mdec_execute_loop h b" "mdec_wf b"
      "mdec b = (mdec_start_command (mdec a))\<lparr>mdec_status := x\<rparr>"
      by auto
    have fb: "fifo_ok 512 (data_in_fifo (mdec b))" "fifo_list 512 (data_in_fifo (mdec b)) = word_halves ws"
      "remaining_halfwords (mdec b) = 64" "mdec_mode (mdec b) = MDEC_STATE_SET_IQ_TABLE"
      using start c(1) by (simp_all add: b(3) mdec_ok_def)
    have sb: "\<not> fifo_size (data_in_fifo (mdec b)) < remaining_halfwords (mdec b)"
      unfolding word_less_nat_alt list_size fb(2,3) using ws by simp
    let ?f = "\<lambda>m. (mdec_handle_set_quant_table_command m)\<lparr>mdec_mode := MDEC_STATE_IDLE\<rparr>"
    note q = quant_command_ok [OF wf_parts(1) [OF b(2)] fb(4) sb]
    have w2: "mdec_wf (upd_mdec ?f b)" using q fb(4) by (intro upd_wf [OF b(2)]) simp_all
    have "mdec_round h b = map_option (Pair True) (mdec_update_status h (upd_mdec ?f b))"
      using fb(4) sb by (simp add: mdec_round_def)
    from loop_again [OF h w2 this] obtain d y where d: "mdec_execute_loop h b = mdec_execute_loop h d" "mdec_wf d"
      "mdec d = (?f (mdec b))\<lparr>mdec_status := y\<rparr>"
      by auto
    note t = quant_tables [OF fb(1,3,2) ws]
    have "fifo_list 512 (data_in_fifo (mdec d)) = []" using t(3) [of 0] by (simp add: d(3))
    then have "fifo_size (data_in_fifo (mdec d)) = 0" using fifo_empty_list [of "data_in_fifo (mdec d)" 512]
      by (simp add: mdec_fifo_empty_def)
    then obtain e z where "mdec_execute_loop h d = Some e" "mdec_wf e" "mdec e = (mdec d)\<lparr>mdec_status := z\<rparr>"
      using idle_loop [OF h d(2)] d(3) by auto
    then show ?thesis using b(1) d(1,3) t by auto
  qed
  let ?s = "upd_mdec (mdec_feed ?vs) s"
  let ?a = "upd_mdec (\<lambda>m. m\<lparr>active_frame_count := MDEC_ACTIVE_FRAME_COUNT\<rparr>) ?s"
  have "mdec_wf ?s" using wf fed(1) by (auto simp: mdec_wf_def)
  then have w3: "mdec_wf ?a" by (auto simp: mdec_wf_def)
  have q: "mdec_quiet ?a (cdrom_disable_read_speedup h ?a)" using h by (simp add: mdec_hooks_ok_def)
  show ?thesis
    unfolding w using loop [OF w3] loop [OF quiet_wf [OF q w3]] q
    by (simp add: mdec_execute_def Let_def mdec_quiet_def)
qed

end
