(* ===== verification/Mdec_Spec.thy ===== *)
theory Mdec_Spec
  imports Mdec_Props Dma_Spec
begin

text \<open>The properties of the motion decoder, with their witnesses.\<close>

section \<open>A machine with a decoder\<close>

definition fifo_zero :: "'w::zero mdec_fifo" where
  "fifo_zero = \<lparr>fifo_buf = (\<lambda>_. 0), fifo_head = 0, fifo_tail = 0, fifo_size = 0\<rparr>"

definition mdec_zero :: mdec_state where
  "mdec_zero = \<lparr>mdec_status = 0, enable_dma_in = False, enable_dma_out = False, mdec_mode = MDEC_STATE_IDLE,
     active_frame_count = 0, remaining_halfwords = 0, data_in_fifo = fifo_zero, data_out_fifo = fifo_zero,
     iq_uv = (\<lambda>_. 0), iq_y = (\<lambda>_. 0), scale_table = (\<lambda>_. 0), blocks = (\<lambda>_ _. 0), current_block = 0,
     current_coefficient = 64, current_q_scale = 0, block_rgb = (\<lambda>_. 0)\<rparr>"

definition mdec_machine :: "mdec_state \<Rightarrow> mdec_sys" where
  "mdec_machine m = dma_sys.extend dma_machine (mdec_sys.fields m)"

definition mdec_new_routines :: mdec_config where
  "mdec_new_routines = \<lparr>mdec_use_old_routines = False, mdec_disable_cdrom_speedup = False,
     mdec_yuv_to_rgb_old = (\<lambda>_ _ _ _ _ _ rgb. rgb)\<rparr>"

definition mdec_hooks_silent :: "('a mdec_sys_scheme) mdec_hooks" where
  "mdec_hooks_silent = \<lparr>mdec_dma_set_request = (\<lambda>_ _ s. Some s), cdrom_disable_read_speedup = (\<lambda>s. s), mdec_settings = mdec_new_routines\<rparr>"

lemma mdec_silent_ok [simp]: "mdec_hooks_ok mdec_hooks_silent"
  by (simp add: mdec_hooks_ok_def mdec_hooks_silent_def mdec_quiet_def)

lemma fifo_zero_ok [simp]: "0 < cap \<Longrightarrow> fifo_ok cap fifo_zero" "fifo_list cap fifo_zero = []" "mdec_fifo_empty fifo_zero"
  "fifo_size fifo_zero = 0"
  by (simp_all add: fifo_zero_def fifo_ok_def fifo_list_def mdec_fifo_empty_def)

lemma mdec_machine_simps [simp]: "mdec (mdec_machine m) = m"
  by (simp add: mdec_machine_def dma_sys.extend_def mdec_sys.fields_def)

lemma mdec_machine_queue: "sched_queue (mdec_machine m) []" "\<not> mdec_has_pending_block_copy_out (mdec_machine m)"
proof -
  have t: "timing (mdec_machine m) = timing_zero" "timing_events (mdec_machine m) = (\<lambda>_. event_zero)"
    by (simp_all add: mdec_machine_def dma_sys.extend_def mdec_sys.fields_def dma_machine_def bus_sys.extend_def
        dma_sys.fields_def machine_zero_def)
  show "sched_queue (mdec_machine m) []" "\<not> mdec_has_pending_block_copy_out (mdec_machine m)"
    by (simp_all add: t sched_queue_def sched_dll_def first_or_def last_or_def timing_zero_def event_zero_def
        mdec_has_pending_block_copy_out_def)
qed

lemma mdec_zero_wf [simp]: "mdec_wf (mdec_machine mdec_zero)"
  using mdec_machine_queue
  by (auto simp: mdec_wf_def mdec_zero_def mdec_ok_def mdec_between_def MDEC_NUM_BLOCKS_def)



text \<open>
  C19.  The two ring buffers are bounded queues: pushed values come out in order behind those
  already there, whatever the position in the ring, and the space left is what the length says.
\<close>

theorem mdec_fifos_are_queues:
  assumes "fifo_ok 512 f" "unat (fifo_size f) + List.length vs \<le> 512"
    and "fifo_ok 192 g" "unat (fifo_size g) + List.length ws \<le> 192"
  shows "fst (mdec_fifo_in_pop_range (unat (fifo_size f) + List.length vs) (mdec_fifo_in_push_range vs f)) =
      fifo_list 512 f @ vs \<and>
    fst (mdec_fifo_out_pop_range (unat (fifo_size g) + List.length ws) (fold mdec_fifo_out_push ws g)) =
      fifo_list 192 g @ ws \<and>
    unat (mdec_fifo_in_space (mdec_fifo_in_push_range vs f)) + List.length (fifo_list 512 f @ vs) = 512 \<and>
    (mdec_fifo_empty (fold mdec_fifo_out_push ws g) \<longleftrightarrow> fifo_list 192 g @ ws = [])"
proof -
  note p = in_push_range [OF assms(1,2)] and q = out_ring.push_all_refines [OF assms(3,4)]
  let ?f = "mdec_fifo_in_push_range vs f" and ?g = "fold mdec_fifo_out_push ws g"
  have s: "unat (fifo_size ?f) = unat (fifo_size f) + List.length vs" unfolding list_size p(2) by simp
  have "List.length (fifo_list 192 ?g) = List.length (fifo_list 192 g @ ws)" using q by simp
  then have t: "unat (fifo_size ?g) = unat (fifo_size g) + List.length ws" by simp
  have "fst (mdec_fifo_in_pop_range (unat (fifo_size f) + List.length vs) ?f) = fifo_list 512 f @ vs"
    using in_pop_range(1) [OF p(1), of "unat (fifo_size f) + List.length vs"] s by (simp add: p(2))
  moreover have "fst (mdec_fifo_out_pop_range (unat (fifo_size g) + List.length ws) ?g) = fifo_list 192 g @ ws"
    using out_pop_range(1) [of ?g "unat (fifo_size g) + List.length ws"] t q by simp
  moreover have "unat (mdec_fifo_in_space ?f) + List.length (fifo_list 512 f @ vs) = 512"
    using s assms(2) by (simp add: mdec_fifo_in_space_def MDEC_DATA_IN_FIFO_CAPACITY_def unat_sub word_le_nat_alt)
  ultimately show ?thesis using q by (simp add: out_size_list)
qed

theorem mdec_fifos_are_queues_witness:
  "fst (mdec_fifo_out_pop_range 3 (fold mdec_fifo_out_push [7, 8, 9] fifo_zero)) = [7, 8, 9]"
  using mdec_fifos_are_queues [of fifo_zero "[]" fifo_zero "[7, 8, 9]"]
  by (simp add: numeral_3_eq_3 del: mdec_fifo_out_pop_range.simps)

text \<open>
  C17.  Run-length decoding of a block equals a decoder on the list of halfwords the command may
  still read: the same coefficients in the same places, the rest of the data left for the next
  block, and failure exactly when the data ends before the block does.
\<close>

theorem rle_decodes_block:
  assumes "fifo_ok 512 (data_in_fifo m)" "current_coefficient m = 64" "mdec_decode_rle old qt blk m = (full, b, m')"
  shows "case rle_block old qt (mdec_input m) of
      None \<Rightarrow> \<not> full \<and> mdec_input m' = []
    | Some (c, rest) \<Rightarrow> full \<and> b = c \<and> mdec_input m' = rest \<and> current_coefficient m' = 64"
  using decode_rle_equiv [OF assms(1,2), of old qt blk] assms(3) by (simp add: rle_result_def split: option.splits)

definition mdec_two_halfwords :: mdec_state where
  "mdec_two_halfwords = mdec_feed [0x0401, 0xFE00] (mdec_zero\<lparr>remaining_halfwords := 4\<rparr>)"

lemma two_halfwords [simp]: "fifo_ok 512 (data_in_fifo mdec_two_halfwords)"
  "mdec_input mdec_two_halfwords = [0x0401, 0xFE00]" "current_coefficient mdec_two_halfwords = 64"
  using in_push_range [of fifo_zero "[0x0401, 0xFE00]"]
  by (simp_all add: mdec_two_halfwords_def mdec_feed_def mdec_zero_def mdec_input_def)

theorem rle_decodes_block_witness:
  "\<exists>b m. mdec_decode_rle False (\<lambda>_. 2) (\<lambda>_. 0) mdec_two_halfwords = (True, b, m) \<and> mdec_input m = [] \<and> b 0 = 24"
proof -
  obtain full b m where d: "mdec_decode_rle False (\<lambda>_. 2) (\<lambda>_. 0) mdec_two_halfwords = (full, b, m)" by (metis prod_cases3)
  have "drop_bit 10 (0xFE00 :: u16) = 63" by simp
  moreover have "rle_first_new (\<lambda>_. 2) 0x0401 = 24" by (simp add: rle_first_new_def sext10_def sign_bias_def mdec_clamp_s32_def)
  ultimately show ?thesis
    using rle_decodes_block [OF two_halfwords(1) _ d] d
    by (simp add: rle_block_def rle_place_def zigzag_def)
qed



text \<open>
  The picture a decoded colour macroblock leaves, by the new routines: pixel (x, y) of the
  16 by 16 image takes its luma from the block of its quadrant and its chroma from the sample it
  shares with its three neighbours, and fits three bytes.
\<close>

lemma macroblock_pixels:
  assumes "mdec_decode_colored_macroblock cfg m = (True, m')" "\<not> mdec_use_old_routines cfg" "x < 16" "y < 16"
  shows "block_rgb m' (y * 16 + x) = mdec_pixel (status_signed (mdec_status m'))
      (blocks m' 0 (y div 2 * 8 + x div 2)) (blocks m' 1 (y div 2 * 8 + x div 2))
      (blocks m' (2 + x div 8 + 2 * (y div 8)) (y mod 8 * 8 + x mod 8)) \<and>
    block_rgb m' (y * 16 + x) < 2 ^ 24"
  using colored_pixels [OF assms] by (simp add: macroblock_pixel_def pixel_small [simplified])



text \<open>
  A command to set both quantisation tables, written through DMA with its 32 words of data,
  leaves exactly those 128 bytes in the luma and chroma tables and the decoder idle.
\<close>

lemma quant_tables_loaded:
  assumes "mdec_hooks_ok h" "mdec_wf s" "mdec_mode (mdec s) = MDEC_STATE_IDLE" "fifo_size (data_in_fifo (mdec s)) = 0"
    and "List.length ws = 32"
  shows "\<exists>t. mdec_dma_write h (0x40000001 # ws) s = Some t \<and> mdec_wf t \<and> mdec_mode (mdec t) = MDEC_STATE_IDLE \<and>
    (\<forall>i<64. iq_y (mdec t) i = concat (map word_bytes ws) ! i \<and>
            iq_uv (mdec t) i = concat (map word_bytes ws) ! (64 + i))"
  by (rule quant_command_sequence [OF assms])

end
