(* ===== verification/Card_Image.thy ===== *)
theory Card_Image
  imports Prelude
begin

text \<open>
  The file system of a memory card,
  \<^verbatim>\<open>src/core/input/memory_cards/memory_card_image.c\<close>: formatting, the
  allocation of blocks, reading, writing, deleting and undeleting a save file.

  The image is a byte array, a function from offsets; it has \<open>DATA_SIZE\<close> bytes, and a
  loop that copies a block outside it is undefined in C: such an operation is \<open>None\<close>.
  The packed structures of the source are read and written field by field, little-endian.  An
  operation that reports an error through its \<^verbatim>\<open>Error*\<close> yields the error; the
  image comes with it, because the source works in place.
\<close>

section \<open>The image and its structures\<close>

type_synonym card_data = "nat \<Rightarrow> u8"

definition DATA_SIZE :: nat where "DATA_SIZE = 131072"
definition BLOCK_SIZE :: nat where "BLOCK_SIZE = 8192"
definition FRAME_SIZE :: nat where "FRAME_SIZE = 128"
definition FRAMES_PER_BLOCK :: nat where "FRAMES_PER_BLOCK = 64"
definition NUM_BLOCKS :: nat where "NUM_BLOCKS = 16"
definition FILE_TOTAL_LEN :: nat where "FILE_TOTAL_LEN = 20"

lemmas card_sizes = DATA_SIZE_def BLOCK_SIZE_def FRAME_SIZE_def FRAMES_PER_BLOCK_def
  NUM_BLOCKS_def FILE_TOTAL_LEN_def

datatype card_error =
    EmptyBuffer
  | InsufficientBlocks
  | BlockDisappeared
  | ChainOutside
  | NotDeleted
  | WrongBlockState nat
  | NameTooLong
  | NameExists
  | WrongSize
  | WrongHeader
  | NoExtension
  | UnknownExtension
  | UnknownFormat
  | FileError
  | InvalidFilename

text \<open>\<^verbatim>\<open>memset\<close> and \<^verbatim>\<open>memcpy\<close> on the image.\<close>

definition mem_fill :: "nat \<Rightarrow> nat \<Rightarrow> u8 \<Rightarrow> card_data \<Rightarrow> card_data" where
  "mem_fill off n v d = (\<lambda>a. if off \<le> a \<and> a < off + n then v else d a)"

definition mem_copy :: "nat \<Rightarrow> nat \<Rightarrow> (nat \<Rightarrow> u8) \<Rightarrow> card_data \<Rightarrow> card_data" where
  "mem_copy off n src d = (\<lambda>a. if off \<le> a \<and> a < off + n then src (a - off) else d a)"

definition get_u16 :: "card_data \<Rightarrow> nat \<Rightarrow> u16" where
  "get_u16 d a = ucast (d a) OR push_bit 8 (ucast (d (a + 1)))"

definition get_u32 :: "card_data \<Rightarrow> nat \<Rightarrow> u32" where
  "get_u32 d a = ucast (d a) OR push_bit 8 (ucast (d (a + 1))) OR
     push_bit 16 (ucast (d (a + 2))) OR push_bit 24 (ucast (d (a + 3)))"

definition put_u16 :: "nat \<Rightarrow> u16 \<Rightarrow> card_data \<Rightarrow> card_data" where
  "put_u16 a v d = d(a := ucast v, a + 1 := ucast (drop_bit 8 v))"

definition put_u32 :: "nat \<Rightarrow> u32 \<Rightarrow> card_data \<Rightarrow> card_data" where
  "put_u32 a v d = d(a := ucast v, a + 1 := ucast (drop_bit 8 v),
     a + 2 := ucast (drop_bit 16 v), a + 3 := ucast (drop_bit 24 v))"

definition frame_ptr :: "nat \<Rightarrow> nat \<Rightarrow> nat" where
  "frame_ptr block frame = block * BLOCK_SIZE + frame * FRAME_SIZE"

definition dir_ptr :: "nat \<Rightarrow> nat" where
  "dir_ptr frame = frame_ptr 0 frame"

text \<open>The fields of \<^verbatim>\<open>directory_frame_t\<close> of a directory frame.\<close>

definition block_allocation_state :: "card_data \<Rightarrow> nat \<Rightarrow> u32" where
  "block_allocation_state d fr = get_u32 d (dir_ptr fr)"

definition file_size :: "card_data \<Rightarrow> nat \<Rightarrow> u32" where
  "file_size d fr = get_u32 d (dir_ptr fr + 4)"

definition next_block_number :: "card_data \<Rightarrow> nat \<Rightarrow> u16" where
  "next_block_number d fr = get_u16 d (dir_ptr fr + 8)"

definition dir_filename :: "card_data \<Rightarrow> nat \<Rightarrow> u8 list" where
  "dir_filename d fr = map (\<lambda>i. d (dir_ptr fr + 10 + i)) [0..<FILE_TOTAL_LEN + 1]"

definition set_allocation_state :: "nat \<Rightarrow> u32 \<Rightarrow> card_data \<Rightarrow> card_data" where
  "set_allocation_state fr v = put_u32 (dir_ptr fr) v"

definition set_file_size :: "nat \<Rightarrow> u32 \<Rightarrow> card_data \<Rightarrow> card_data" where
  "set_file_size fr v = put_u32 (dir_ptr fr + 4) v"

definition set_next_block :: "nat \<Rightarrow> u16 \<Rightarrow> card_data \<Rightarrow> card_data" where
  "set_next_block fr v = put_u16 (dir_ptr fr + 8) v"

text \<open>\<open>string_util_strlcpy_view\<close> into the 21 bytes of the file name.\<close>

definition copy_filename :: "nat \<Rightarrow> u8 list \<Rightarrow> nat \<Rightarrow> card_data \<Rightarrow> card_data" where
  "copy_filename fr name len d =
     (let off = dir_ptr fr + 10
      in if len < FILE_TOTAL_LEN + 1
         then (mem_copy off len (\<lambda>i. name ! i) d)(off + len := 0)
         else (mem_copy off FILE_TOTAL_LEN (\<lambda>i. name ! i) d)(off + FILE_TOTAL_LEN := 0))"

definition frame_checksum :: "card_data \<Rightarrow> nat \<Rightarrow> u8" where
  "frame_checksum d off = foldl (\<lambda>c i. c XOR d (off + i)) (d off) [1..<FRAME_SIZE - 1]"

definition update_directory_checksum :: "nat \<Rightarrow> card_data \<Rightarrow> card_data" where
  "update_directory_checksum fr d = d(dir_ptr fr + 127 := frame_checksum d (dir_ptr fr))"

section \<open>Formatting\<close>

definition memory_card_image_is_valid :: "card_data \<Rightarrow> bool" where
  "memory_card_image_is_valid d \<longleftrightarrow>
     d (frame_ptr 0 0) = 0x4D \<and> d (frame_ptr 0 0 + 1) = 0x43"

definition format_header :: "card_data \<Rightarrow> card_data" where
  "format_header d =
     (let p = frame_ptr 0 0; d = mem_fill p FRAME_SIZE 0 d; d = d(p := 0x4D, p + 1 := 0x43)
      in d(p + 0x7F := frame_checksum d p))"

definition format_directory_frame :: "nat \<Rightarrow> card_data \<Rightarrow> card_data" where
  "format_directory_frame fr d =
     (let p = frame_ptr 0 fr; d = mem_fill p FRAME_SIZE 0 d;
          d = d(p := 0xA0, p + 8 := 0xFF, p + 9 := 0xFF)
      in d(p + 0x7F := frame_checksum d p))"

definition format_broken_frame :: "nat \<Rightarrow> card_data \<Rightarrow> card_data" where
  "format_broken_frame fr d =
     (let p = frame_ptr 0 fr; d = mem_fill p FRAME_SIZE 0 d;
          d = d(p := 0xFF, p + 1 := 0xFF, p + 2 := 0xFF, p + 3 := 0xFF, p + 8 := 0xFF, p + 9 := 0xFF)
      in d(p + 0x7F := frame_checksum d p))"

definition format_zero_frame :: "nat \<Rightarrow> card_data \<Rightarrow> card_data" where
  "format_zero_frame fr d = mem_fill (frame_ptr 0 fr) FRAME_SIZE 0 d"

definition memory_card_image_format :: "card_data \<Rightarrow> card_data" where
  "memory_card_image_format d =
     (let d = mem_fill 0 DATA_SIZE 0xFF d;
          d = format_header d;
          d = fold format_directory_frame [1..<16] d;
          d = fold format_broken_frame [16..<36] d;
          d = fold format_zero_frame [36..<56] d;
          d = fold format_zero_frame [56..<63] d
      in mem_copy (frame_ptr 0 63) FRAME_SIZE (\<lambda>i. d (frame_ptr 0 0 + i)) d)"

section \<open>Allocation of blocks\<close>

definition block_is_free :: "card_data \<Rightarrow> nat \<Rightarrow> bool" where
  "block_is_free d fr \<longleftrightarrow> block_allocation_state d fr AND 0xF0 = 0xA0"

fun next_free_from :: "card_data \<Rightarrow> nat list \<Rightarrow> nat" where
  "next_free_from d [] = FRAMES_PER_BLOCK"
| "next_free_from d (fr # frs) = (if block_is_free d fr then fr else next_free_from d frs)"

definition get_next_free_block :: "card_data \<Rightarrow> nat" where
  "get_next_free_block d = next_free_from d [1..<FRAMES_PER_BLOCK]"

definition memory_card_image_get_free_block_count :: "card_data \<Rightarrow> nat" where
  "memory_card_image_get_free_block_count d =
     fold (\<lambda>fr c. if block_is_free d fr then c + 1 else c) [1..<FRAMES_PER_BLOCK] 0"

section \<open>Files\<close>

text \<open>
  \<^verbatim>\<open>memory_card_image_file_info_t\<close>.  The title and the icons are what the user
  interface shows.
\<close>

record file_info =
  fi_filename :: "u8 list"
  fi_title :: "u8 list"
  fi_size :: u32
  fi_first_block :: nat
  fi_num_blocks :: nat
  fi_deleted :: bool
  fi_icon_frames :: "u32 list list"

text \<open>The bytes of a block; outside the image the access is undefined.\<close>

definition block_bytes :: "card_data \<Rightarrow> nat \<Rightarrow> u8 list option" where
  "block_bytes d b = (if b < NUM_BLOCKS
     then Some (map (\<lambda>i. d (frame_ptr b 0 + i)) [0..<BLOCK_SIZE]) else None)"

fun read_blocks :: "card_data \<Rightarrow> nat \<Rightarrow> nat \<Rightarrow> (card_error + u8 list) option" where
  "read_blocks d 0 b = Some (Inr [])"
| "read_blocks d (Suc n) b =
     (if FRAMES_PER_BLOCK \<le> b then Some (Inl ChainOutside)
      else case block_bytes d b of
        None \<Rightarrow> None
      | Some bs \<Rightarrow>
          (case read_blocks d n (unat (next_block_number d b) + 1) of
             None \<Rightarrow> None
           | Some (Inl e) \<Rightarrow> Some (Inl e)
           | Some (Inr rest) \<Rightarrow> Some (Inr (bs @ rest))))"

definition memory_card_image_read_file :: "card_data \<Rightarrow> file_info \<Rightarrow> (card_error + u8 list) option" where
  "memory_card_image_read_file d fi = read_blocks d (fi_num_blocks fi) (fi_first_block fi)"

text \<open>The body of the writing loop: claim the block, link it, copy its part of the buffer.\<close>

definition claim_block ::
  "u8 list \<Rightarrow> nat \<Rightarrow> u32 \<Rightarrow> nat \<Rightarrow> nat \<Rightarrow> nat option \<Rightarrow> nat \<Rightarrow> card_data \<Rightarrow> card_data" where
  "claim_block name name_len buffer_len num_blocks i last_df b d =
     (let d = mem_fill (dir_ptr b) FRAME_SIZE 0 d;
          d = (case last_df of
                 Some l \<Rightarrow>
                   let d = set_next_block l (of_nat (b - 1)) d; d = update_directory_checksum l d
                   in set_allocation_state b (if i = num_blocks - 1 then 0x53 else 0x52) d
               | None \<Rightarrow>
                   let d = set_allocation_state b 0x51 d; d = set_file_size b buffer_len d
                   in copy_filename b name name_len d);
          d = set_next_block b 0xFFFF d
      in update_directory_checksum b d)"

definition copy_block :: "u8 list \<Rightarrow> nat \<Rightarrow> nat \<Rightarrow> card_data \<Rightarrow> card_data" where
  "copy_block buffer i b d =
     (let src_offset = i * BLOCK_SIZE;
          remaining = length buffer - src_offset;
          size_to_copy = min remaining BLOCK_SIZE
      in mem_fill (frame_ptr b 0 + size_to_copy) (BLOCK_SIZE - size_to_copy) 0
           (mem_copy (frame_ptr b 0) size_to_copy (\<lambda>j. buffer ! (src_offset + j)) d))"

fun write_blocks ::
  "u8 list \<Rightarrow> nat \<Rightarrow> u8 list \<Rightarrow> nat \<Rightarrow> nat \<Rightarrow> nat option \<Rightarrow> card_data \<Rightarrow>
     (card_error option \<times> card_data) option" where
  "write_blocks name name_len buffer num_blocks 0 last_df d = Some (None, d)"
| "write_blocks name name_len buffer num_blocks (Suc n) last_df d =
     (let b = get_next_free_block d; i = num_blocks - Suc n
      in if b = FRAMES_PER_BLOCK then Some (Some BlockDisappeared, d)
         else if NUM_BLOCKS \<le> b then None
         else write_blocks name name_len buffer num_blocks n (Some b)
                (copy_block buffer i b
                   (claim_block name name_len (of_nat (length buffer)) num_blocks i last_df b d)))"

definition blocks_needed :: "nat \<Rightarrow> nat" where
  "blocks_needed len = (len + (BLOCK_SIZE - 1)) div BLOCK_SIZE mod 2 ^ 32"

definition memory_card_image_write_file ::
  "u8 list \<Rightarrow> u8 list \<Rightarrow> card_data \<Rightarrow> (card_error option \<times> card_data) option" where
  "memory_card_image_write_file name buffer d =
     (if length buffer = 0 then Some (Some EmptyBuffer, d)
      else let num_blocks = blocks_needed (length buffer)
           in if memory_card_image_get_free_block_count d < num_blocks
              then Some (Some InsufficientBlocks, d)
              else write_blocks name (min (length name) FILE_TOTAL_LEN) buffer num_blocks num_blocks None d)"

text \<open>Deletion leaves a tombstone, or clears the directory frame.\<close>

definition delete_block :: "bool \<Rightarrow> nat \<Rightarrow> nat \<Rightarrow> nat \<Rightarrow> card_data \<Rightarrow> card_data" where
  "delete_block clear_sectors num_blocks i b d =
     (let d = (if clear_sectors
               then set_allocation_state b 0xA0 (mem_fill (dir_ptr b) FRAME_SIZE 0 d)
               else set_allocation_state b
                      (if i = 0 then 0xA1 else if i = num_blocks - 1 then 0xA3 else 0xA2) d)
      in update_directory_checksum b (set_next_block b 0xFFFF d))"

fun delete_blocks :: "bool \<Rightarrow> nat \<Rightarrow> nat \<Rightarrow> nat \<Rightarrow> card_data \<Rightarrow> card_data" where
  "delete_blocks clear_sectors num_blocks 0 b d = d"
| "delete_blocks clear_sectors num_blocks (Suc n) b d =
     (if 0 < b \<and> b < NUM_BLOCKS
      then delete_blocks clear_sectors num_blocks n (unat (next_block_number d b) + 1)
             (delete_block clear_sectors num_blocks (num_blocks - Suc n) b d)
      else d)"

definition memory_card_image_delete_file :: "file_info \<Rightarrow> bool \<Rightarrow> card_data \<Rightarrow> card_data" where
  "memory_card_image_delete_file fi clear_sectors d =
     delete_blocks clear_sectors (fi_num_blocks fi) (fi_num_blocks fi) (fi_first_block fi) d"

definition deleted_state :: "nat \<Rightarrow> nat \<Rightarrow> u32" where
  "deleted_state num_blocks i = (if i = 0 then 0xA1 else if i = num_blocks - 1 then 0xA3 else 0xA2)"

definition active_state :: "nat \<Rightarrow> nat \<Rightarrow> u32" where
  "active_state num_blocks i = (if i = 0 then 0x51 else if i = num_blocks - 1 then 0x53 else 0x52)"

fun undelete_check :: "nat \<Rightarrow> nat \<Rightarrow> nat \<Rightarrow> card_data \<Rightarrow> card_error option" where
  "undelete_check num_blocks 0 b d = None"
| "undelete_check num_blocks (Suc n) b d =
     (if 0 < b \<and> b < NUM_BLOCKS
      then if block_allocation_state d b \<noteq> deleted_state num_blocks (num_blocks - Suc n)
           then Some (WrongBlockState b)
           else undelete_check num_blocks n (unat (next_block_number d b) + 1) d
      else None)"

fun undelete_blocks :: "nat \<Rightarrow> nat \<Rightarrow> nat \<Rightarrow> card_data \<Rightarrow> card_data" where
  "undelete_blocks num_blocks 0 b d = d"
| "undelete_blocks num_blocks (Suc n) b d =
     (if 0 < b \<and> b < NUM_BLOCKS
      then undelete_blocks num_blocks n (unat (next_block_number d b) + 1)
             (update_directory_checksum b
                (set_allocation_state b (active_state num_blocks (num_blocks - Suc n)) d))
      else d)"

definition memory_card_image_undelete_file :: "file_info \<Rightarrow> card_data \<Rightarrow> card_error option \<times> card_data" where
  "memory_card_image_undelete_file fi d =
     (if \<not> fi_deleted fi then (Some NotDeleted, d)
      else case undelete_check (fi_num_blocks fi) (fi_num_blocks fi) (fi_first_block fi) d of
        Some e \<Rightarrow> (Some e, d)
      | None \<Rightarrow> (None, undelete_blocks (fi_num_blocks fi) (fi_num_blocks fi) (fi_first_block fi) d))"

end
