(* ===== verification/Card_Props.thy ===== *)
theory Card_Props
  imports Card_Image
begin

text \<open>
  The card's file system against its abstract view: the list of free blocks, the chain of the
  blocks of a file, the bytes of a block.  An operation is described by what it does to these.
\<close>

section \<open>Fields and frames\<close>

lemma get_put_u16 [simp]: "get_u16 (put_u16 a v d) a = v"
  by (intro bit_word_eqI) (auto simp: get_u16_def put_u16_def bit_simps)

lemma get_put_u32 [simp]: "get_u32 (put_u32 a v d) a = v"
proof (rule bit_word_eqI)
  fix n assume "n < LENGTH(32)"
  then have n: "n < 32" by simp
  consider "n < 8" | "8 \<le> n" "n < 16" | "16 \<le> n" "n < 24" | "24 \<le> n" by linarith
  then show "bit (get_u32 (put_u32 a v d) a) n = bit v n"
    by cases (use n in \<open>auto simp: get_u32_def put_u32_def bit_simps\<close>)
qed

lemma get_u16_cong: "\<lbrakk>d a = e a; d (a + 1) = e (a + 1)\<rbrakk> \<Longrightarrow> get_u16 d a = get_u16 e a"
  by (simp add: get_u16_def)

lemma get_u32_cong:
  "\<lbrakk>d a = e a; d (a + 1) = e (a + 1); d (a + 2) = e (a + 2); d (a + 3) = e (a + 3)\<rbrakk> \<Longrightarrow>
     get_u32 d a = get_u32 e a"
  by (simp add: get_u32_def)

lemma dir_ptr_val: "dir_ptr fr = 128 * fr"
  by (simp add: dir_ptr_def frame_ptr_def card_sizes)

text \<open>Two images with the same directory frame.\<close>

definition same_frame :: "nat \<Rightarrow> card_data \<Rightarrow> card_data \<Rightarrow> bool" where
  "same_frame fr d e \<longleftrightarrow> (\<forall>i<128. d (dir_ptr fr + i) = e (dir_ptr fr + i))"

lemma same_frameD: "\<lbrakk>same_frame fr d e; i < 128\<rbrakk> \<Longrightarrow> d (dir_ptr fr + i) = e (dir_ptr fr + i)"
  by (simp add: same_frame_def)

lemma same_frame_refl [simp]: "same_frame fr d d"
  by (simp add: same_frame_def)

lemma same_frame_trans: "\<lbrakk>same_frame fr d e; same_frame fr e f\<rbrakk> \<Longrightarrow> same_frame fr d f"
  by (simp add: same_frame_def)

lemma same_frame_state: "same_frame fr d e \<Longrightarrow> block_allocation_state d fr = block_allocation_state e fr"
  using same_frameD [of fr d e 0] same_frameD [of fr d e 1] same_frameD [of fr d e 2]
    same_frameD [of fr d e 3]
  by (simp add: block_allocation_state_def get_u32_def)

lemma same_frame_next: "same_frame fr d e \<Longrightarrow> next_block_number d fr = next_block_number e fr"
  using same_frameD [of fr d e 8] same_frameD [of fr d e 9]
  by (simp add: next_block_number_def get_u16_def ac_simps)

lemma same_frame_size: "same_frame fr d e \<Longrightarrow> file_size d fr = file_size e fr"
  using same_frameD [of fr d e 4] same_frameD [of fr d e 5] same_frameD [of fr d e 6]
    same_frameD [of fr d e 7]
  by (simp add: file_size_def get_u32_def ac_simps)

lemma same_frame_filename: "same_frame fr d e \<Longrightarrow> dir_filename d fr = dir_filename e fr"
  using same_frameD [of fr d e] by (simp add: dir_filename_def card_sizes add.assoc)

text \<open>The file name and size of a directory frame.\<close>

definition dir_entry :: "card_data \<Rightarrow> nat \<Rightarrow> u32 \<times> u8 list" where
  "dir_entry d fr = (file_size d fr, dir_filename d fr)"

lemma same_frame_entry: "same_frame fr d e \<Longrightarrow> dir_entry d fr = dir_entry e fr"
  by (simp add: dir_entry_def same_frame_size same_frame_filename)

definition name_field :: "u8 list \<Rightarrow> nat \<Rightarrow> u8 list" where
  "name_field name len = map (\<lambda>i. if i < len then name ! i else 0) [0..<FILE_TOTAL_LEN + 1]"

text \<open>The directory frame's checksum.\<close>

definition checksum_ok :: "nat \<Rightarrow> card_data \<Rightarrow> bool" where
  "checksum_ok fr d \<longleftrightarrow> d (dir_ptr fr + 127) = frame_checksum d (dir_ptr fr)"

lemma foldl_xor_cong:
  "(\<And>i. i \<in> set xs \<Longrightarrow> f i = g i) \<Longrightarrow> foldl (\<lambda>c i. c XOR f i) c xs = foldl (\<lambda>c i. c XOR g i) (c :: u8) xs"
  by (induction xs arbitrary: c) auto

lemma frame_checksum_cong:
  assumes "\<And>i. i < 127 \<Longrightarrow> d (p + i) = e (q + i)"
  shows "frame_checksum d p = frame_checksum e q"
proof -
  have "d p = e q" using assms [of 0] by simp
  then show ?thesis
    unfolding frame_checksum_def by (simp add: card_sizes) (rule foldl_xor_cong, simp add: assms)
qed

lemma checksum_updated [simp]: "checksum_ok fr (update_directory_checksum fr d)"
  unfolding checksum_ok_def update_directory_checksum_def
  by simp (rule frame_checksum_cong, simp)

lemma same_frame_checksum: "same_frame fr d e \<Longrightarrow> checksum_ok fr d = checksum_ok fr e"
  using frame_checksum_cong [of d "dir_ptr fr" e "dir_ptr fr"] same_frameD [of fr d e]
  by (simp add: checksum_ok_def)

text \<open>What an operation that stays inside one directory frame leaves alone.\<close>

definition only_frame :: "nat \<Rightarrow> card_data \<Rightarrow> card_data \<Rightarrow> bool" where
  "only_frame fr d e \<longleftrightarrow> (\<forall>a. a < dir_ptr fr \<or> dir_ptr fr + 128 \<le> a \<longrightarrow> e a = d a)"

lemma only_frame_trans: "\<lbrakk>only_frame fr d e; only_frame fr e f\<rbrakk> \<Longrightarrow> only_frame fr d f"
  by (simp add: only_frame_def)

lemma only_frame_refl [simp]: "only_frame fr d d"
  by (simp add: only_frame_def)

lemma only_frame_other: "\<lbrakk>only_frame fr d e; fr \<noteq> fr'\<rbrakk> \<Longrightarrow> same_frame fr' d e"
proof -
  assume o: "only_frame fr d e" and ne: "fr \<noteq> fr'"
  have "128 * fr' + i < 128 * fr \<or> 128 * fr + 128 \<le> 128 * fr' + i" if "i < 128" for i
    using ne that by (cases "fr' < fr") auto
  then show ?thesis using o unfolding only_frame_def same_frame_def dir_ptr_val by metis
qed

lemma only_frame_set [simp]:
  "only_frame fr d (set_next_block fr v d)" "only_frame fr d (set_allocation_state fr w d)"
  "only_frame fr d (set_file_size fr w d)" "only_frame fr d (update_directory_checksum fr d)"
  "only_frame fr d (mem_fill (dir_ptr fr) FRAME_SIZE c d)"
  by (auto simp: only_frame_def set_next_block_def set_allocation_state_def set_file_size_def
      put_u16_def put_u32_def update_directory_checksum_def mem_fill_def card_sizes)

lemma only_frame_name [simp]: "only_frame fr d (copy_filename fr name len d)"
  by (auto simp: only_frame_def copy_filename_def mem_copy_def Let_def card_sizes)

lemma state_set [simp]:
  "block_allocation_state (set_next_block fr v d) fr = block_allocation_state d fr"
  "block_allocation_state (set_allocation_state fr w d) fr = w"
  "block_allocation_state (set_file_size fr w d) fr = block_allocation_state d fr"
  "block_allocation_state (update_directory_checksum fr d) fr = block_allocation_state d fr"
  "block_allocation_state (copy_filename fr name len d) fr = block_allocation_state d fr"
  by (auto simp: block_allocation_state_def set_next_block_def set_allocation_state_def
      set_file_size_def put_u16_def update_directory_checksum_def copy_filename_def mem_copy_def
      Let_def intro!: get_u32_cong) (simp_all add: put_u32_def)

lemma next_set [simp]:
  "next_block_number (set_next_block fr v d) fr = v"
  "next_block_number (set_allocation_state fr w d) fr = next_block_number d fr"
  "next_block_number (set_file_size fr w d) fr = next_block_number d fr"
  "next_block_number (update_directory_checksum fr d) fr = next_block_number d fr"
  "next_block_number (copy_filename fr name len d) fr = next_block_number d fr"
  by (auto simp: next_block_number_def set_next_block_def set_allocation_state_def
      set_file_size_def update_directory_checksum_def copy_filename_def mem_copy_def
      Let_def intro!: get_u16_cong) (simp_all add: put_u32_def)

lemma size_set [simp]:
  "file_size (set_next_block fr v d) fr = file_size d fr"
  "file_size (set_allocation_state fr w d) fr = file_size d fr"
  "file_size (set_file_size fr w d) fr = w"
  "file_size (update_directory_checksum fr d) fr = file_size d fr"
  "file_size (copy_filename fr name len d) fr = file_size d fr"
  by (auto simp: file_size_def set_next_block_def set_allocation_state_def
      set_file_size_def put_u16_def update_directory_checksum_def copy_filename_def mem_copy_def
      Let_def intro!: get_u32_cong) (simp_all add: put_u32_def)

lemma filename_set [simp]:
  "dir_filename (set_next_block fr v d) fr = dir_filename d fr"
  "dir_filename (set_allocation_state fr w d) fr = dir_filename d fr"
  "dir_filename (set_file_size fr w d) fr = dir_filename d fr"
  "dir_filename (update_directory_checksum fr d) fr = dir_filename d fr"
  by (auto simp: dir_filename_def set_next_block_def set_allocation_state_def set_file_size_def
      put_u16_def put_u32_def update_directory_checksum_def card_sizes)

lemma filename_copied:
  assumes "len \<le> FILE_TOTAL_LEN"
  shows "dir_filename (copy_filename b name len (set_file_size b w (set_allocation_state b v
     (mem_fill (dir_ptr b) FRAME_SIZE 0 d)))) b = name_field name len"
  using assms
  by (auto simp: dir_filename_def name_field_def copy_filename_def mem_copy_def mem_fill_def Let_def
      set_file_size_def set_allocation_state_def put_u32_def card_sizes)

section \<open>Free blocks\<close>

definition free_blocks :: "card_data \<Rightarrow> nat list" where
  "free_blocks d = filter (block_is_free d) [1..<FRAMES_PER_BLOCK]"

lemma next_free_from_hd:
  "next_free_from d frs = (case filter (block_is_free d) frs of [] \<Rightarrow> FRAMES_PER_BLOCK | b # _ \<Rightarrow> b)"
  by (induction frs) auto

lemma get_next_free_block_hd:
  "get_next_free_block d = (case free_blocks d of [] \<Rightarrow> FRAMES_PER_BLOCK | b # _ \<Rightarrow> b)"
  by (simp add: get_next_free_block_def next_free_from_hd free_blocks_def)

lemma fold_count_filter: "fold (\<lambda>x c. if P x then c + 1 else c) xs n = n + length (filter P xs)"
  by (induction xs arbitrary: n) auto

lemma free_block_count_length: "memory_card_image_get_free_block_count d = length (free_blocks d)"
  by (simp add: memory_card_image_get_free_block_count_def free_blocks_def
      fold_count_filter [of "block_is_free d", simplified])

lemma free_blocks_distinct [simp]: "distinct (free_blocks d)"
  by (simp add: free_blocks_def)

lemma free_blocks_range: "b \<in> set (free_blocks d) \<Longrightarrow> 0 < b \<and> b < 64"
  by (auto simp: free_blocks_def card_sizes)

lemma free_blocks_cong:
  "(\<And>fr. \<lbrakk>0 < fr; fr < 64\<rbrakk> \<Longrightarrow> block_is_free d fr = block_is_free e fr) \<Longrightarrow> free_blocks d = free_blocks e"
  unfolding free_blocks_def by (rule filter_cong) (auto simp: card_sizes)

lemma filter_drop_first:
  assumes "distinct xs" "filter P xs = b # bs" "\<And>x. x \<in> set xs \<Longrightarrow> Q x = (P x \<and> x \<noteq> b)"
  shows "filter Q xs = bs"
proof -
  have "filter Q xs = filter (\<lambda>x. P x \<and> x \<noteq> b) xs" using assms(3) by (rule filter_cong [OF refl])
  also have "\<dots> = filter (\<lambda>x. x \<noteq> b) (filter P xs)" by (simp add: conj_commute)
  also have "\<dots> = filter (\<lambda>x. x \<noteq> b) bs" using assms(2) by simp
  also have "\<dots> = bs"
    using assms(1,2) distinct_filter [of xs P] by (auto simp: filter_id_conv)
  finally show ?thesis .
qed

text \<open>
  The directory is in order when the frames after the fifteen directory frames do not look
  like free blocks: the allocator scans all 64 frames of block 0.
\<close>

definition directory_ok :: "card_data \<Rightarrow> bool" where
  "directory_ok d \<longleftrightarrow> (\<forall>fr \<in> {16..<64}. \<not> block_is_free d fr)"

lemma directory_ok_free: "\<lbrakk>directory_ok d; b \<in> set (free_blocks d)\<rbrakk> \<Longrightarrow> 0 < b \<and> b < NUM_BLOCKS"
  by (force simp: directory_ok_def free_blocks_def card_sizes)

section \<open>Claiming a block\<close>

text \<open>The image outside the directory frames \<open>frs\<close>.\<close>

definition only_frames :: "nat set \<Rightarrow> card_data \<Rightarrow> card_data \<Rightarrow> bool" where
  "only_frames frs d e \<longleftrightarrow> (\<forall>a. (\<forall>fr \<in> frs. a < dir_ptr fr \<or> dir_ptr fr + 128 \<le> a) \<longrightarrow> e a = d a)"

definition linked :: "nat \<Rightarrow> nat \<Rightarrow> card_data \<Rightarrow> card_data" where
  "linked l b d = update_directory_checksum l (set_next_block l (of_nat (b - 1)) d)"

definition fresh_frame ::
  "u8 list \<Rightarrow> nat \<Rightarrow> u32 \<Rightarrow> nat \<Rightarrow> nat \<Rightarrow> nat option \<Rightarrow> nat \<Rightarrow> card_data \<Rightarrow> card_data" where
  "fresh_frame name len blen n i last_df b d = update_directory_checksum b (set_next_block b 0xFFFF
     (case last_df of
        Some _ \<Rightarrow> set_allocation_state b (if i = n - 1 then 0x53 else 0x52) d
      | None \<Rightarrow> copy_filename b name len (set_file_size b blen (set_allocation_state b 0x51 d))))"

lemma claim_block_split:
  "claim_block name len blen n i last_df b d = fresh_frame name len blen n i last_df b
     (case last_df of Some l \<Rightarrow> linked l b (mem_fill (dir_ptr b) FRAME_SIZE 0 d)
                    | None \<Rightarrow> mem_fill (dir_ptr b) FRAME_SIZE 0 d)"
  by (simp add: claim_block_def fresh_frame_def linked_def Let_def split: option.splits)

lemma only_frame_fresh [simp]: "only_frame b d (fresh_frame name len blen n i last_df b d)"
proof -
  let ?m = "case last_df of
        Some _ \<Rightarrow> set_allocation_state b (if i = n - 1 then 0x53 else 0x52) d
      | None \<Rightarrow> copy_filename b name len (set_file_size b blen (set_allocation_state b 0x51 d))"
  have "only_frame b d ?m"
    by (auto split: option.splits intro: only_frame_trans [OF _ only_frame_name]
        only_frame_trans [OF only_frame_set(2) only_frame_set(3)])
  then show ?thesis unfolding fresh_frame_def
    by (meson only_frame_trans only_frame_set(1) only_frame_set(4))
qed

lemma only_frame_linked [simp]: "only_frame l d (linked l b d)"
  unfolding linked_def by (meson only_frame_trans only_frame_set(1) only_frame_set(4))

lemma fresh_frame_fields:
  "next_block_number (fresh_frame name len blen n i last_df b d) b = 0xFFFF"
  "block_allocation_state (fresh_frame name len blen n i last_df b d) b =
     (if last_df = None then 0x51 else if i = n - 1 then 0x53 else 0x52)"
  "last_df = None \<Longrightarrow> file_size (fresh_frame name len blen n i last_df b d) b = blen"
  "checksum_ok b (fresh_frame name len blen n i last_df b d)"
  by (auto simp: fresh_frame_def split: option.splits)

lemma fresh_frame_entry:
  "len \<le> FILE_TOTAL_LEN \<Longrightarrow>
     dir_entry (fresh_frame name len blen n i None b (mem_fill (dir_ptr b) FRAME_SIZE 0 d)) b =
       (blen, name_field name len)"
  by (simp add: fresh_frame_def dir_entry_def filename_copied)

lemma linked_fields:
  "next_block_number (linked l b d) l = of_nat (b - 1)"
  "block_allocation_state (linked l b d) l = block_allocation_state d l"
  "file_size (linked l b d) l = file_size d l"
  "checksum_ok l (linked l b d)"
  "dir_entry (linked l b d) l = dir_entry d l"
  by (simp_all add: linked_def dir_entry_def)

section \<open>One round of the writing loop\<close>

definition block_ptr :: "nat \<Rightarrow> nat" where
  "block_ptr b = frame_ptr b 0"

lemma block_ptr_val: "block_ptr b = 8192 * b"
  by (simp add: block_ptr_def frame_ptr_def card_sizes)

text \<open>The byte the \<open>k\<close>-th block of a file holds at \<open>j\<close>: the buffer, then zeros.\<close>

definition chunk_byte :: "u8 list \<Rightarrow> nat \<Rightarrow> nat \<Rightarrow> u8" where
  "chunk_byte buf k j = (if k * BLOCK_SIZE + j < length buf then buf ! (k * BLOCK_SIZE + j) else 0)"

definition same_block :: "nat \<Rightarrow> card_data \<Rightarrow> card_data \<Rightarrow> bool" where
  "same_block b d e \<longleftrightarrow> (\<forall>j<BLOCK_SIZE. d (block_ptr b + j) = e (block_ptr b + j))"

lemma same_block_refl [simp]: "same_block b d d"
  by (simp add: same_block_def)

lemma same_block_trans: "\<lbrakk>same_block b d e; same_block b e f\<rbrakk> \<Longrightarrow> same_block b d f"
  by (simp add: same_block_def)

lemma only_frame_block: "\<lbrakk>only_frame fr d e; fr < 64; 0 < b\<rbrakk> \<Longrightarrow> same_block b d e"
  by (auto simp: only_frame_def same_block_def block_ptr_val dir_ptr_val)

lemma copy_block_at:
  "j < BLOCK_SIZE \<Longrightarrow> copy_block buf i b d (block_ptr b + j) = chunk_byte buf i j"
  by (auto simp: copy_block_def mem_fill_def mem_copy_def chunk_byte_def Let_def block_ptr_def
      min_def card_sizes)

lemma copy_block_outside:
  "a < block_ptr b \<or> block_ptr b + BLOCK_SIZE \<le> a \<Longrightarrow> copy_block buf i b d a = d a"
  by (auto simp: copy_block_def mem_fill_def mem_copy_def Let_def block_ptr_def min_def)

lemma copy_block_frame: "\<lbrakk>0 < b; fr < 64\<rbrakk> \<Longrightarrow> same_frame fr d (copy_block buf i b d)"
  by (simp add: same_frame_def copy_block_outside block_ptr_val dir_ptr_val)

lemma copy_block_other: "b \<noteq> c \<Longrightarrow> same_block c d (copy_block buf i b d)"
proof -
  assume ne: "b \<noteq> c"
  have "8192 * c + j < 8192 * b \<or> 8192 * b + 8192 \<le> 8192 * c + j" if "j < 8192" for j
    using ne that by (cases "c < b") auto
  then show ?thesis
    by (simp add: same_block_def copy_block_outside block_ptr_val card_sizes)
qed

definition write_round ::
  "u8 list \<Rightarrow> nat \<Rightarrow> u8 list \<Rightarrow> nat \<Rightarrow> nat \<Rightarrow> nat option \<Rightarrow> nat \<Rightarrow> card_data \<Rightarrow> card_data" where
  "write_round name len buf n i last_df b d =
     copy_block buf i b (claim_block name len (of_nat (length buf)) n i last_df b d)"

lemma write_round_other_frame:
  assumes "0 < b" "fr < 64" "fr \<noteq> b" "last_df \<noteq> Some fr"
  shows "same_frame fr d (write_round name len buf n i last_df b d)"
proof -
  let ?z = "mem_fill (dir_ptr b) FRAME_SIZE 0 d"
  let ?l = "case last_df of Some l \<Rightarrow> linked l b ?z | None \<Rightarrow> ?z"
  have "same_frame fr d ?z" using assms(3) only_frame_other only_frame_set(5) by metis
  moreover have "same_frame fr ?z ?l"
    using assms(4) only_frame_other [OF only_frame_linked] by (auto split: option.splits)
  moreover have "same_frame fr ?l (claim_block name len (of_nat (length buf)) n i last_df b d)"
    unfolding claim_block_split
    by (rule only_frame_other [OF only_frame_fresh]) (use assms(3) in simp)
  moreover have "same_frame fr (claim_block name len (of_nat (length buf)) n i last_df b d)
      (write_round name len buf n i last_df b d)"
    unfolding write_round_def by (rule copy_block_frame [OF assms(1,2)])
  ultimately show ?thesis by (blast intro: same_frame_trans)
qed

lemma write_round_last:
  fixes name len buf n i d
  assumes "0 < b" "l < 64" "l \<noteq> b"
  defines "e \<equiv> write_round name len buf n i (Some l) b d"
  shows "next_block_number e l = of_nat (b - 1)"
    and "block_allocation_state e l = block_allocation_state d l"
    and "checksum_ok l e"
    and "dir_entry e l = dir_entry d l"
proof -
  let ?z = "mem_fill (dir_ptr b) FRAME_SIZE 0 d"
  have z: "same_frame l d ?z" using assms(3) only_frame_other only_frame_set(5) by metis
  have "same_frame l (linked l b ?z) (claim_block name len (of_nat (length buf)) n i (Some l) b d)"
    unfolding claim_block_split option.case
    by (rule only_frame_other [OF only_frame_fresh]) (use assms(3) in simp)
  then have e: "same_frame l (linked l b ?z) e"
    unfolding e_def write_round_def by (rule same_frame_trans) (rule copy_block_frame [OF assms(1,2)])
  show "next_block_number e l = of_nat (b - 1)"
    using same_frame_next [OF e] linked_fields(1) by metis
  show "block_allocation_state e l = block_allocation_state d l"
    using same_frame_state [OF e] same_frame_state [OF z] linked_fields(2) by metis
  show "checksum_ok l e"
    using same_frame_checksum [OF e] linked_fields(4) by metis
  show "dir_entry e l = dir_entry d l"
    using same_frame_entry [OF e] same_frame_entry [OF z] linked_fields(5) by metis
qed

lemma write_round_own:
  fixes name len buf n i d last_df
  assumes "0 < b" "b < 64"
  defines "e \<equiv> write_round name len buf n i last_df b d"
  shows "next_block_number e b = 0xFFFF"
    and "block_allocation_state e b = (if last_df = None then 0x51 else if i = n - 1 then 0x53 else 0x52)"
    and "checksum_ok b e"
    and "\<lbrakk>last_df = None; len \<le> FILE_TOTAL_LEN\<rbrakk> \<Longrightarrow> dir_entry e b = (of_nat (length buf), name_field name len)"
proof -
  let ?c = "claim_block name len (of_nat (length buf)) n i last_df b d"
  have e: "same_frame b ?c e"
    unfolding e_def write_round_def by (rule copy_block_frame [OF assms(1,2)])
  show "next_block_number e b = 0xFFFF"
    using same_frame_next [OF e] by (simp add: claim_block_split fresh_frame_fields)
  show "block_allocation_state e b = (if last_df = None then 0x51 else if i = n - 1 then 0x53 else 0x52)"
    using same_frame_state [OF e] by (simp add: claim_block_split fresh_frame_fields)
  show "checksum_ok b e"
    using same_frame_checksum [OF e] by (simp add: claim_block_split fresh_frame_fields)
  show "dir_entry e b = (of_nat (length buf), name_field name len)"
    if "last_df = None" "len \<le> FILE_TOTAL_LEN"
    using same_frame_entry [OF e] that by (simp add: claim_block_split fresh_frame_entry)
qed

lemma write_round_blocks:
  fixes name len buf n i d
  assumes "0 < b" "b < 64" "\<And>l. last_df = Some l \<Longrightarrow> l < 64"
  defines "e \<equiv> write_round name len buf n i last_df b d"
  shows "j < BLOCK_SIZE \<Longrightarrow> e (block_ptr b + j) = chunk_byte buf i j"
    and "\<lbrakk>0 < c; c \<noteq> b\<rbrakk> \<Longrightarrow> same_block c d e"
proof -
  show "e (block_ptr b + j) = chunk_byte buf i j" if "j < BLOCK_SIZE"
    unfolding e_def write_round_def by (rule copy_block_at [OF that])
  assume c: "0 < c" "c \<noteq> b"
  let ?z = "mem_fill (dir_ptr b) FRAME_SIZE 0 d"
  let ?l = "case last_df of Some l \<Rightarrow> linked l b ?z | None \<Rightarrow> ?z"
  have "same_block c d ?z" by (rule only_frame_block [OF only_frame_set(5) assms(2) c(1)])
  moreover have "same_block c ?z ?l"
    using assms(3) only_frame_block [OF only_frame_linked _ c(1)] by (auto split: option.splits)
  moreover have "same_block c ?l (claim_block name len (of_nat (length buf)) n i last_df b d)"
    unfolding claim_block_split by (rule only_frame_block [OF only_frame_fresh assms(2) c(1)])
  moreover have "same_block c (claim_block name len (of_nat (length buf)) n i last_df b d) e"
    unfolding e_def write_round_def by (rule copy_block_other) (use c in auto)
  ultimately show "same_block c d e" by (blast intro: same_block_trans)
qed

lemma write_round_free:
  assumes "free_blocks d = b # bs" "last_df = Some l \<Longrightarrow> l < 64 \<and> l \<noteq> b"
  shows "free_blocks (write_round name len buf n i last_df b d) = bs"
  unfolding free_blocks_def
proof (rule filter_drop_first [where P = "block_is_free d" and b = b])
  have b: "0 < b" "b < 64" using free_blocks_range [of b d] assms(1) by auto
  fix fr assume fr: "fr \<in> set [1..<FRAMES_PER_BLOCK]"
  let ?e = "write_round name len buf n i last_df b d"
  show "block_is_free ?e fr = (block_is_free d fr \<and> fr \<noteq> b)"
  proof (cases "fr = b")
    case True
    then show ?thesis using write_round_own(2) [OF b] by (simp add: block_is_free_def)
  next
    case False
    have "block_allocation_state ?e fr = block_allocation_state d fr"
    proof (cases "last_df = Some fr")
      case True
      then show ?thesis using write_round_last(2) [OF b(1)] False fr by (simp add: card_sizes)
    next
      case no: False
      show ?thesis
        by (rule same_frame_state [symmetric], rule write_round_other_frame)
          (use b fr False no in \<open>auto simp: card_sizes\<close>)
    qed
    then show ?thesis using False by (simp add: block_is_free_def)
  qed
qed (use assms(1) in \<open>simp_all add: free_blocks_def\<close>)

section \<open>Chains and files\<close>

text \<open>The blocks of a file, linked by their directory frames.\<close>

fun chain :: "card_data \<Rightarrow> nat list \<Rightarrow> bool" where
  "chain d [] \<longleftrightarrow> True"
| "chain d [b] \<longleftrightarrow> next_block_number d b = 0xFFFF"
| "chain d (b # c # bs) \<longleftrightarrow> next_block_number d b = of_nat (c - 1) \<and> chain d (c # bs)"

lemma chain_cong:
  "(\<And>b. b \<in> set bs \<Longrightarrow> next_block_number d b = next_block_number e b) \<Longrightarrow> chain d bs = chain e bs"
  by (induction d bs rule: chain.induct) auto

definition block_contents :: "card_data \<Rightarrow> nat \<Rightarrow> u8 list" where
  "block_contents d b = map (\<lambda>j. d (block_ptr b + j)) [0..<BLOCK_SIZE]"

lemma block_bytes_contents: "b < NUM_BLOCKS \<Longrightarrow> block_bytes d b = Some (block_contents d b)"
  by (simp add: block_bytes_def block_contents_def block_ptr_def)

lemma next_of_pred: "\<lbrakk>0 < c; c < 64\<rbrakk> \<Longrightarrow> unat (of_nat (c - 1) :: u16) + 1 = c"
proof -
  have "unat (of_nat k :: u16) = k" if "k < 64" for k
    using that by (simp add: unat_of_nat take_bit_eq_mod)
  from this [of "c - 1"] show "\<lbrakk>0 < c; c < 64\<rbrakk> \<Longrightarrow> ?thesis" by simp
qed

lemma read_chain:
  "\<lbrakk>chain d bs; \<forall>b \<in> set bs. 0 < b \<and> b < NUM_BLOCKS; bs \<noteq> [] \<Longrightarrow> b = hd bs\<rbrakk> \<Longrightarrow>
     read_blocks d (length bs) b = Some (Inr (concat (map (block_contents d) bs)))"
proof (induction bs arbitrary: b)
  case (Cons x bs)
  have b: "b = x" using Cons.prems(3) by simp
  have rest: "read_blocks d (length bs) (unat (next_block_number d x) + 1) =
      Some (Inr (concat (map (block_contents d) bs)))"
  proof (rule Cons.IH)
    show "chain d bs" using Cons.prems(1) by (cases bs) auto
    show "\<forall>b\<in>set bs. 0 < b \<and> b < NUM_BLOCKS" using Cons.prems(2) by simp
    assume "bs \<noteq> []"
    then obtain c cs where bs: "bs = c # cs" by (cases bs) auto
    then show "unat (next_block_number d x) + 1 = hd bs"
      using Cons.prems(1,2) next_of_pred [of c] by (simp add: card_sizes)
  qed
  then show ?case using Cons.prems(2) by (simp add: b block_bytes_contents card_sizes)
qed simp

text \<open>What writing the blocks \<open>bs\<close> of a file leaves behind.\<close>

definition written ::
  "u8 list \<Rightarrow> nat \<Rightarrow> u8 list \<Rightarrow> nat \<Rightarrow> nat \<Rightarrow> nat option \<Rightarrow> nat list \<Rightarrow> card_data \<Rightarrow> card_data \<Rightarrow> bool" where
  "written name len buf n i last_df bs d e \<longleftrightarrow>
     free_blocks e = drop (length bs) (free_blocks d) \<and>
     (\<forall>k < length bs. \<forall>j < BLOCK_SIZE. e (block_ptr (bs ! k) + j) = chunk_byte buf (i + k) j) \<and>
     chain e (case last_df of None \<Rightarrow> bs | Some l \<Rightarrow> l # bs) \<and>
     (\<forall>k < length bs. block_allocation_state e (bs ! k) = active_state n (i + k)) \<and>
     (\<forall>b \<in> set bs. checksum_ok b e) \<and>
     (\<forall>l. last_df = Some l \<longrightarrow> block_allocation_state e l = block_allocation_state d l \<and>
        (checksum_ok l d \<longrightarrow> checksum_ok l e) \<and> dir_entry e l = dir_entry d l) \<and>
     (last_df = None \<and> bs \<noteq> [] \<longrightarrow>
        dir_entry e (hd bs) = (of_nat (length buf), name_field name len)) \<and>
     (\<forall>fr < 64. fr \<notin> set bs \<and> last_df \<noteq> Some fr \<longrightarrow> same_frame fr d e) \<and>
     (\<forall>c. 0 < c \<and> c \<notin> set bs \<longrightarrow> same_block c d e)"

lemma written_none:
  "(\<forall>l. last_df = Some l \<longrightarrow> next_block_number d l = 0xFFFF) \<Longrightarrow> written name len buf n i last_df [] d d"
  by (auto simp: written_def split: option.splits)

lemma written_round:
  assumes free: "free_blocks d = b # fs" and ok: "\<forall>c \<in> set (b # bs). 0 < c \<and> c < 64"
    and dist: "distinct (b # bs)"
    and last: "\<And>l. last_df = Some l \<Longrightarrow> l < 64 \<and> l \<notin> set (b # bs)"
    and i0: "last_df = None \<longleftrightarrow> i = 0" and len: "len \<le> FILE_TOTAL_LEN"
    and w: "written name len buf n (i + 1) (Some b) bs (write_round name len buf n i last_df b d) e"
  shows "written name len buf n i last_df (b # bs) d e"
proof -
  let ?m = "write_round name len buf n i last_df b d"
  have b: "0 < b" "b < 64" using ok by auto
  have fr_m: "free_blocks ?m = fs" by (rule write_round_free [OF free]) (use last in auto)
  note W = w [unfolded written_def, simplified]
  have free': "free_blocks e = drop (length (b # bs)) (free_blocks d)"
    using W fr_m free by simp
  have bs_b: "same_block b ?m e" using W b dist by auto
  have bytes: "e (block_ptr ((b # bs) ! k) + j) = chunk_byte buf (i + k) j"
    if "k < length (b # bs)" "j < BLOCK_SIZE" for k j
  proof (cases k)
    case 0
    then show ?thesis
      using bs_b that(2) write_round_blocks(1) [OF b, of last_df j name len buf n i d] last
      by (simp add: same_block_def)
  next
    case (Suc k')
    then show ?thesis using W that by auto
  qed
  have state_b: "block_allocation_state e b = active_state n i"
    using W write_round_own(2) [OF b] i0 by (simp add: active_state_def)
  have states: "block_allocation_state e ((b # bs) ! k) = active_state n (i + k)"
    if "k < length (b # bs)" for k
    using that W state_b by (cases k) auto
  have sums: "\<forall>c \<in> set (b # bs). checksum_ok c e"
    using W write_round_own(3) [OF b] by auto
  have frames: "same_frame fr d e"
    if "fr < 64" "fr \<notin> set (b # bs)" "last_df \<noteq> Some fr" for fr
  proof (rule same_frame_trans)
    show "same_frame fr d ?m" by (rule write_round_other_frame) (use that b in auto)
    show "same_frame fr ?m e" using W that by auto
  qed
  have last_e: "same_frame l ?m e" if "last_df = Some l" for l
    using W last [OF that] by auto
  have last_next: "next_block_number e l = of_nat (b - 1)" if "last_df = Some l" for l
    using same_frame_next [OF last_e [OF that]] write_round_last(1) [OF b(1), of l] last [OF that] that
    by simp
  have last_state: "block_allocation_state e l = block_allocation_state d l \<and> checksum_ok l e \<and>
      dir_entry e l = dir_entry d l" if "last_df = Some l" for l
    using same_frame_state [OF last_e [OF that]] same_frame_checksum [OF last_e [OF that]]
      same_frame_entry [OF last_e [OF that]] write_round_last(2-4) [OF b(1), of l] last [OF that] that
    by simp
  have first: "dir_entry e b = (of_nat (length buf), name_field name len)" if "last_df = None"
    using W write_round_own(4) [OF b that len] by simp
  have ch: "chain e (case last_df of None \<Rightarrow> b # bs | Some l \<Rightarrow> l # b # bs)"
    using W last_next by (auto split: option.splits)
  have blocks: "same_block c d e" if "0 < c" "c \<notin> set (b # bs)" for c
  proof (rule same_block_trans)
    show "same_block c d ?m" by (rule write_round_blocks(2) [OF b]) (use that last in auto)
    show "same_block c ?m e" using W that by auto
  qed
  show ?thesis
    unfolding written_def using free' bytes ch states sums last_state first frames blocks
    by (simp only: list.sel) blast
qed

lemma write_blocks_written:
  assumes "n' \<le> length (free_blocks d)" "\<forall>b \<in> set (take n' (free_blocks d)). b < NUM_BLOCKS"
    "n' \<le> n" "last_df = None \<longleftrightarrow> n' = n"
    "\<And>l. last_df = Some l \<Longrightarrow> l < 64 \<and> l \<notin> set (free_blocks d) \<and> next_block_number d l = 0xFFFF"
    "len \<le> FILE_TOTAL_LEN"
  shows "\<exists>e. write_blocks name len buf n n' last_df d = Some (None, e) \<and>
     written name len buf n (n - n') last_df (take n' (free_blocks d)) d e"
  using assms
proof (induction n' arbitrary: last_df d)
  case 0
  then show ?case by (simp add: written_none)
next
  case (Suc m)
  obtain b fs where fs: "free_blocks d = b # fs" using Suc.prems(1) by (cases "free_blocks d") auto
  have b: "0 < b" "b < 16" "b < 64" using Suc.prems(2) free_blocks_range [of b d]
    by (auto simp: fs card_sizes)
  have nxt: "get_next_free_block d = b" by (simp add: get_next_free_block_hd fs)
  let ?i = "n - Suc m"
  let ?d = "write_round name len buf n ?i last_df b d"
  have fs': "free_blocks ?d = fs" by (rule write_round_free [OF fs]) (use Suc.prems(5) fs in auto)
  have dist: "b \<notin> set fs" using free_blocks_distinct [of d] by (simp add: fs)
  have "\<exists>e. write_blocks name len buf n m (Some b) ?d = Some (None, e) \<and>
     written name len buf n (n - m) (Some b) (take m (free_blocks ?d)) ?d e"
    by (rule Suc.IH) (use Suc.prems b fs fs' dist write_round_own(1) in auto)
  then obtain e where e: "write_blocks name len buf n m (Some b) ?d = Some (None, e)"
    "written name len buf n (n - m) (Some b) (take m fs) ?d e" by (auto simp: fs')
  have "written name len buf n ?i last_df (b # take m fs) d e"
  proof (rule written_round [OF fs])
    show "\<forall>c \<in> set (b # take m fs). 0 < c \<and> c < 64"
      using free_blocks_range [of _ d] b set_take_subset [of m fs] by (auto simp: fs)
    show "distinct (b # take m fs)"
      using free_blocks_distinct [of d] set_take_subset [of m fs] by (auto simp: fs)
    show "l < 64 \<and> l \<notin> set (b # take m fs)" if "last_df = Some l" for l
      using Suc.prems(5) [OF that] set_take_subset [of m fs] by (auto simp: fs)
    show "last_df = None \<longleftrightarrow> ?i = 0" using Suc.prems(3,4) by auto
    show "written name len buf n (?i + 1) (Some b) (take m fs) ?d e" using e(2) Suc.prems(3)
      by (simp add: Suc_diff_Suc)
  qed (rule Suc.prems(6))
  then show ?case using e(1) b
    by (auto simp: nxt fs Let_def write_round_def [symmetric] card_sizes)
qed

end
