(* ===== verification/Card_Files.thy ===== *)
theory Card_Files
  imports Card_Props
begin

text \<open>
  The memory card image seen from the host,
  \<^verbatim>\<open>src/core/input/memory_cards/memory_card_image.c\<close>: the list of files,
  renaming, the import of whole cards in four formats, the export and import of single saves.

  A host file is its list of bytes, \<open>None\<close> when it cannot be opened.  The conversion of
  Shift-JIS titles, \<^verbatim>\<open>src/util/text/shiftjis.c\<close>, is the parameter
  \<open>sjis\<close>; it only fills in the title.
\<close>

section \<open>Listing the files\<close>

definition E5TO8 :: "u32 \<Rightarrow> u32" where
  "E5TO8 c = drop_bit 6 (c * 527 + 23)"

definition rgba5551_to_rgba8888 :: "u32 \<Rightarrow> u32" where
  "rgba5551_to_rgba8888 color =
     (let r = E5TO8 (color AND 31); g = E5TO8 (drop_bit 5 color AND 31);
          b = E5TO8 (drop_bit 10 color AND 31); a = (if drop_bit 15 color \<noteq> 0 then 255 else 0)
      in r OR push_bit 8 g OR push_bit 16 b OR push_bit 24 a)"

definition icon_color_to_rgba8 :: "u16 \<Rightarrow> u32" where
  "icon_color_to_rgba8 col = (if col = 0 then 0 else rgba5551_to_rgba8888 (ucast col OR 0x8000))"

text \<open>The walk along the next-block pointers, counting up to 64 blocks.\<close>

function chain_length :: "card_data \<Rightarrow> nat \<Rightarrow> nat \<Rightarrow> nat" where
  "chain_length d fr n =
     (if unat (next_block_number d fr) < NUM_BLOCKS - 1 \<and> n < FRAMES_PER_BLOCK
      then chain_length d (unat (next_block_number d fr) + 1) (n + 1) else n)"
  by pat_completeness auto
termination by (relation "measure (\<lambda>(d, fr, n). FRAMES_PER_BLOCK - n)") auto

declare chain_length.simps [simp del]

definition c_string :: "u8 list \<Rightarrow> u8 list" where
  "c_string bs = takeWhile (\<lambda>c. c \<noteq> 0) bs"

definition title_bytes :: "card_data \<Rightarrow> nat \<Rightarrow> u8 list" where
  "title_bytes d b = map (\<lambda>i. d (frame_ptr b 0 + 4 + i)) [0..<64] @ [0, 0]"

definition icon_palette :: "card_data \<Rightarrow> nat \<Rightarrow> nat \<Rightarrow> u16" where
  "icon_palette d b i = get_u16 d (frame_ptr b 0 + 96 + 2 * i)"

definition icon_frame :: "card_data \<Rightarrow> nat \<Rightarrow> nat \<Rightarrow> u32 list" where
  "icon_frame d b k = concat (map (\<lambda>i. let idx = d (frame_ptr b (1 + k) + i)
     in [icon_color_to_rgba8 (icon_palette d b (unat (idx AND 0x0F))),
         icon_color_to_rgba8 (icon_palette d b (unat (drop_bit 4 idx)))]) [0..<128])"

definition icon_flag_frames :: "u8 \<Rightarrow> nat option" where
  "icon_flag_frames f = (if f = 0x11 then Some 1 else if f = 0x12 then Some 2
     else if f = 0x13 then Some 3 else None)"

definition file_is_active :: "card_data \<Rightarrow> nat \<Rightarrow> bool" where
  "file_is_active d fr \<longleftrightarrow> block_allocation_state d fr = 0x51"

definition file_is_deleted :: "card_data \<Rightarrow> nat \<Rightarrow> bool" where
  "file_is_deleted d fr \<longleftrightarrow> block_allocation_state d fr \<in> {0xA1, 0xA2, 0xA3}"

text \<open>
  One turn of the loop: \<open>Some None\<close> skips the frame, and \<open>None\<close> is a title frame
  outside the image.
\<close>

definition enumerate_frame ::
  "(u8 list \<Rightarrow> u8 list option) \<Rightarrow> card_data \<Rightarrow> bool \<Rightarrow> nat \<Rightarrow> file_info option option" where
  "enumerate_frame sjis d include_deleted fr =
     (if \<not> file_is_active d fr \<and> \<not> (include_deleted \<and> file_is_deleted d fr) then Some None
      else let n = chain_length d fr 1
           in if n = FRAMES_PER_BLOCK then Some None
              else if NUM_BLOCKS \<le> fr then None
              else case icon_flag_frames (d (frame_ptr fr 0 + 2)) of
                None \<Rightarrow> Some None
              | Some icons \<Rightarrow> Some (Some \<lparr>
                  fi_filename = take FILE_TOTAL_LEN (c_string (dir_filename d fr)),
                  fi_title = (case sjis (title_bytes d fr) of None \<Rightarrow> [] | Some t \<Rightarrow> take 192 (c_string t)),
                  fi_size = file_size d fr,
                  fi_first_block = fr,
                  fi_num_blocks = n,
                  fi_deleted = (\<not> file_is_active d fr),
                  fi_icon_frames = map (icon_frame d fr) [0..<icons]\<rparr>))"

fun enumerate_frames ::
  "(u8 list \<Rightarrow> u8 list option) \<Rightarrow> card_data \<Rightarrow> bool \<Rightarrow> nat list \<Rightarrow> file_info list option" where
  "enumerate_frames sjis d incl [] = Some []"
| "enumerate_frames sjis d incl (fr # frs) =
     (case enumerate_frame sjis d incl fr of
        None \<Rightarrow> None
      | Some fi \<Rightarrow>
          (case enumerate_frames sjis d incl frs of
             None \<Rightarrow> None
           | Some fis \<Rightarrow> Some (case fi of None \<Rightarrow> fis | Some x \<Rightarrow> x # fis)))"

definition memory_card_image_enumerate_files ::
  "(u8 list \<Rightarrow> u8 list option) \<Rightarrow> card_data \<Rightarrow> bool \<Rightarrow> file_info list option" where
  "memory_card_image_enumerate_files sjis d incl = enumerate_frames sjis d incl [1..<FRAMES_PER_BLOCK]"

section \<open>Renaming\<close>

definition NUM_FRAMES :: nat where "NUM_FRAMES = 1024"

definition set_filename :: "nat \<Rightarrow> u8 list \<Rightarrow> card_data \<Rightarrow> card_data" where
  "set_filename fr name d =
     (let off = dir_ptr fr + 10
      in mem_fill (off + length name) (FILE_TOTAL_LEN + 1 - length name) 0
           (mem_copy off (length name) (\<lambda>i. name ! i) d))"

definition memory_card_image_rename_file ::
  "(u8 list \<Rightarrow> u8 list option) \<Rightarrow> file_info \<Rightarrow> u8 list \<Rightarrow> card_data \<Rightarrow>
     (card_error option \<times> card_data) option" where
  "memory_card_image_rename_file sjis fi new_name d =
     (if FILE_TOTAL_LEN < length new_name then Some (Some NameTooLong, d)
      else case memory_card_image_enumerate_files sjis d False of
        None \<Rightarrow> None
      | Some others \<Rightarrow>
          if \<exists>f \<in> set others. fi_filename f = new_name then Some (Some NameExists, d)
          else if NUM_FRAMES \<le> fi_first_block fi then None
          else Some (None, update_directory_checksum (fi_first_block fi)
                             (set_filename (fi_first_block fi) new_name d)))"

section \<open>Importing a card\<close>

definition bytes_at :: "u8 list \<Rightarrow> nat \<Rightarrow> nat \<Rightarrow> u8" where
  "bytes_at bs off i = bs ! (off + i)"

definition import_card_mcd :: "u8 list \<Rightarrow> card_data \<Rightarrow> card_error option \<times> card_data" where
  "import_card_mcd f d = (if length f \<noteq> DATA_SIZE then (Some WrongSize, d)
     else (None, mem_copy 0 DATA_SIZE (bytes_at f 0) d))"

definition GME_HEADER_SIZE :: nat where "GME_HEADER_SIZE = 0xF40"

definition import_card_gme :: "u8 list \<Rightarrow> card_data \<Rightarrow> card_error option \<times> card_data" where
  "import_card_gme f d =
     (if length f = DATA_SIZE then import_card_mcd f d
      else if length f < GME_HEADER_SIZE + BLOCK_SIZE then (Some WrongSize, d)
      else if length f < GME_HEADER_SIZE + DATA_SIZE
      then if GME_HEADER_SIZE < length f
           then let present = length f - GME_HEADER_SIZE
                in (None, mem_fill present (DATA_SIZE - present) 0
                            (mem_copy 0 present (bytes_at f GME_HEADER_SIZE) d))
           else (None, mem_fill 0 DATA_SIZE 0 d)
      else (None, mem_copy 0 DATA_SIZE (bytes_at f GME_HEADER_SIZE) d))"

definition import_card_vgs :: "u8 list \<Rightarrow> card_data \<Rightarrow> card_error option \<times> card_data" where
  "import_card_vgs f d =
     (if length f \<noteq> 64 + DATA_SIZE then (Some WrongSize, d)
      else if take 4 f \<noteq> [0x56, 0x67, 0x73, 0x4D] then (Some WrongHeader, d)
      else (None, mem_copy 0 DATA_SIZE (bytes_at f 64) d))"

definition import_card_psx :: "u8 list \<Rightarrow> card_data \<Rightarrow> card_error option \<times> card_data" where
  "import_card_psx f d =
     (if length f \<noteq> 256 + DATA_SIZE then (Some WrongSize, d)
      else if take 3 f \<noteq> [0x50, 0x53, 0x56] then (Some WrongHeader, d)
      else (None, mem_copy 0 DATA_SIZE (bytes_at f 256) d))"

text \<open>\<open>path_get_extension_cstr\<close>, and the comparison of extensions without case.\<close>

definition path_get_extension :: "string \<Rightarrow> string" where
  "path_get_extension p = (if CHR ''.'' \<in> set p then rev (takeWhile (\<lambda>c. c \<noteq> CHR ''.'') (rev p)) else [])"

definition path_strip_extension :: "string \<Rightarrow> string" where
  "path_strip_extension p = (if CHR ''.'' \<in> set p
     then rev (tl (dropWhile (\<lambda>c. c \<noteq> CHR ''.'') (rev p))) else p)"

definition path_get_file_name :: "string \<Rightarrow> string" where
  "path_get_file_name p = rev (takeWhile (\<lambda>c. c \<noteq> CHR ''/'') (rev p))"

definition lower_char :: "char \<Rightarrow> nat" where
  "lower_char c = (let n = of_char c in if 65 \<le> n \<and> n \<le> 90 then n + 32 else n)"

definition equal_no_case :: "string \<Rightarrow> string \<Rightarrow> bool" where
  "equal_no_case a b \<longleftrightarrow> map lower_char a = map lower_char b"

definition memory_card_image_import_card_bytes ::
  "string \<Rightarrow> u8 list \<Rightarrow> card_data \<Rightarrow> card_error option \<times> card_data" where
  "memory_card_image_import_card_bytes filename f d =
     (let ext = path_get_extension filename
      in if ext = [] then (Some NoExtension, d)
         else if list_ex (equal_no_case ext) [''mcd'', ''mcr'', ''mc'', ''srm'', ''psm'', ''ps'', ''ddf'']
         then import_card_mcd f d
         else if equal_no_case ext ''gme'' then import_card_gme f d
         else if equal_no_case ext ''mem'' \<or> equal_no_case ext ''vgs'' then import_card_vgs f d
         else if equal_no_case ext ''psx'' then import_card_psx f d
         else (Some UnknownExtension, d))"

definition memory_card_image_import_card_path ::
  "string \<Rightarrow> u8 list option \<Rightarrow> card_data \<Rightarrow> card_error option \<times> card_data" where
  "memory_card_image_import_card_path filename file d = (case file of
     None \<Rightarrow> (Some FileError, d)
   | Some f \<Rightarrow> memory_card_image_import_card_bytes filename f d)"

section \<open>Exporting and importing one save\<close>

text \<open>The bytes written to the host file: the directory frame and the blocks.\<close>

definition memory_card_image_export_save :: "file_info \<Rightarrow> card_data \<Rightarrow> (card_error + u8 list) option" where
  "memory_card_image_export_save fi d = (case memory_card_image_read_file d fi of
     None \<Rightarrow> None
   | Some (Inl e) \<Rightarrow> Some (Inl e)
   | Some (Inr payload) \<Rightarrow>
       if NUM_FRAMES \<le> fi_first_block fi then None
       else Some (Inr (map (\<lambda>i. d (dir_ptr (fi_first_block fi) + i)) [0..<FRAME_SIZE] @ payload)))"

text \<open>The loop that rejects a duplicate and reuses deleted entries.\<close>

fun drop_deleted :: "u8 list \<Rightarrow> file_info list \<Rightarrow> card_data \<Rightarrow> card_error option \<times> card_data" where
  "drop_deleted name [] d = (None, d)"
| "drop_deleted name (fi # fis) d =
     (if fi_filename fi = name
      then if \<not> fi_deleted fi then (Some NameExists, d)
           else drop_deleted name fis (memory_card_image_delete_file fi True d)
      else drop_deleted name fis d)"

definition import_blocks ::
  "(u8 list \<Rightarrow> u8 list option) \<Rightarrow> u8 list \<Rightarrow> u8 list \<Rightarrow> card_data \<Rightarrow>
     (card_error option \<times> card_data) option" where
  "import_blocks sjis name blocks d =
     (if memory_card_image_get_free_block_count d < blocks_needed (length blocks)
      then Some (Some InsufficientBlocks, d)
      else case memory_card_image_enumerate_files sjis d True of
        None \<Rightarrow> None
      | Some fis \<Rightarrow>
          (case drop_deleted name fis d of
             (Some e, d) \<Rightarrow> Some (Some e, d)
           | (None, d) \<Rightarrow> memory_card_image_write_file name blocks d))"

definition import_save_with_directory_frame ::
  "(u8 list \<Rightarrow> u8 list option) \<Rightarrow> u8 list \<Rightarrow> card_data \<Rightarrow> (card_error option \<times> card_data) option" where
  "import_save_with_directory_frame sjis f d =
     (if length f \<le> FRAME_SIZE \<or> (length f - FRAME_SIZE) mod BLOCK_SIZE \<noteq> 0 \<or>
         15 < (length f - FRAME_SIZE) div BLOCK_SIZE
      then Some (Some WrongSize, d)
      else let df = bytes_at f 0; size = unat (file_size df 0)
           in if size < BLOCK_SIZE \<or> size mod BLOCK_SIZE \<noteq> 0 \<or> 15 < size div BLOCK_SIZE
              then Some (Some WrongSize, d)
              else if length f - FRAME_SIZE < size then Some (Some FileError, d)
              else import_blocks sjis (c_string (dir_filename df 0)) (take size (drop FRAME_SIZE f)) d)"

definition import_raw_save ::
  "(u8 list \<Rightarrow> u8 list option) \<Rightarrow> string \<Rightarrow> u8 list \<Rightarrow> card_data \<Rightarrow>
     (card_error option \<times> card_data) option" where
  "import_raw_save sjis filename f d =
     (let base = path_strip_extension (path_get_file_name filename)
      in if base = [] then Some (Some InvalidFilename, d)
         else import_blocks sjis (map of_char (take FILE_TOTAL_LEN base)) f d)"

definition memory_card_image_import_save ::
  "(u8 list \<Rightarrow> u8 list option) \<Rightarrow> string \<Rightarrow> u8 list option \<Rightarrow> card_data \<Rightarrow>
     (card_error option \<times> card_data) option" where
  "memory_card_image_import_save sjis filename file d = (case file of
     None \<Rightarrow> Some (Some FileError, d)
   | Some f \<Rightarrow>
       if length f = 0 then Some (Some FileError, d)
       else if equal_no_case (path_get_extension filename) ''mcs''
       then import_save_with_directory_frame sjis f d
       else if length f < DATA_SIZE \<and> length f mod BLOCK_SIZE = 0
       then import_raw_save sjis filename f d
       else Some (Some UnknownFormat, d))"

end
