(* ===== verification/Card_Saves.thy ===== *)
theory Card_Saves
  imports Card_Files
begin

text \<open>
  Whole files: what writing a file does to the image, reading it back, deleting it, exporting
  and importing it.  A file on the image is \<open>stored\<close>: a chain of directory frames with
  its contents in the blocks.
\<close>

section \<open>Contents\<close>

definition padded :: "nat \<Rightarrow> u8 list \<Rightarrow> u8 list" where
  "padded n buf = buf @ replicate (n * BLOCK_SIZE - length buf) 0"

lemma concat_chunks:
  "concat (map (\<lambda>k. map (\<lambda>j. f (k * m + j)) [0..<m]) [0..<n]) = map f [0..<n * m]"
proof (induction n)
  case (Suc n)
  have "map (\<lambda>j. f (n * m + j)) [0..<m] = map f [n * m..<n * m + m]"
    by (rule nth_equalityI) auto
  moreover have "[0..<Suc n * m] = [0..<n * m] @ [n * m..<n * m + m]"
    using upt_add_eq_append [of 0 "n * m" m] by (simp add: add.commute)
  ultimately show ?case using Suc by simp
qed simp

lemma concat_chunk_bytes:
  assumes "length buf \<le> n * BLOCK_SIZE"
  shows "concat (map (\<lambda>k. map (chunk_byte buf k) [0..<BLOCK_SIZE]) [0..<n]) = padded n buf"
proof -
  have "concat (map (\<lambda>k. map (chunk_byte buf k) [0..<BLOCK_SIZE]) [0..<n]) =
      map (\<lambda>a. if a < length buf then buf ! a else 0) [0..<n * BLOCK_SIZE]"
    using concat_chunks [where f = "\<lambda>a. if a < length buf then buf ! a else 0" and m = BLOCK_SIZE]
    by (simp add: chunk_byte_def [abs_def])
  also have "\<dots> = padded n buf"
    using assms by (intro nth_equalityI) (auto simp: padded_def nth_append)
  finally show ?thesis .
qed

text \<open>
  A file of \<open>n\<close> blocks in the chain \<open>bs\<close>.  The states tell the first, the
  last and the other blocks apart.
\<close>

definition stored :: "card_data \<Rightarrow> nat list \<Rightarrow> u8 list \<Rightarrow> bool" where
  "stored d bs contents \<longleftrightarrow> bs \<noteq> [] \<and> distinct bs \<and> (\<forall>b \<in> set bs. 0 < b \<and> b < NUM_BLOCKS) \<and>
     chain d bs \<and> (\<forall>k < length bs. block_allocation_state d (bs ! k) = active_state (length bs) k) \<and>
     (\<forall>b \<in> set bs. checksum_ok b d) \<and> concat (map (block_contents d) bs) = contents"

definition file_at :: "nat list \<Rightarrow> file_info" where
  "file_at bs = \<lparr>fi_filename = [], fi_title = [], fi_size = 0, fi_first_block = hd bs,
     fi_num_blocks = length bs, fi_deleted = False, fi_icon_frames = []\<rparr>"

lemma read_file_stored:
  assumes "stored d bs c" "fi_first_block fi = hd bs" "fi_num_blocks fi = length bs"
  shows "memory_card_image_read_file d fi = Some (Inr c)"
  using assms read_chain [of d bs "hd bs"] by (simp add: memory_card_image_read_file_def stored_def)

section \<open>Writing\<close>

lemma blocks_needed_small:
  assumes "length buf < 2 ^ 32"
  shows "blocks_needed (length buf) = (length buf + 8191) div 8192"
    and "length buf \<le> blocks_needed (length buf) * BLOCK_SIZE"
    and "buf \<noteq> [] \<Longrightarrow> 0 < blocks_needed (length buf)"
proof -
  show e: "blocks_needed (length buf) = (length buf + 8191) div 8192"
    using assms by (simp add: blocks_needed_def card_sizes)
  show "length buf \<le> blocks_needed (length buf) * BLOCK_SIZE"
    unfolding e by (simp add: card_sizes)
  show "0 < blocks_needed (length buf)" if "buf \<noteq> []"
    using that unfolding e by (cases buf) auto
qed

text \<open>Everything \<open>write_file\<close> does to an image with a directory in order.\<close>

lemma write_file_stored:
  assumes ok: "directory_ok d" and buf: "buf \<noteq> []" "length buf < 2 ^ 32"
    and fits: "blocks_needed (length buf) \<le> length (free_blocks d)"
  defines "bs \<equiv> take (blocks_needed (length buf)) (free_blocks d)"
  obtains e where "memory_card_image_write_file name buf d = Some (None, e)"
    and "stored e bs (padded (length bs) buf)"
    and "free_blocks e = drop (length bs) (free_blocks d)"
    and "dir_entry e (hd bs) = (of_nat (length buf), name_field name (min (length name) FILE_TOTAL_LEN))"
    and "\<forall>fr. fr < 64 \<and> fr \<notin> set bs \<longrightarrow> same_frame fr d e"
    and "\<forall>b. 0 < b \<and> b \<notin> set bs \<longrightarrow> same_block b d e"
proof -
  let ?n = "blocks_needed (length buf)" and ?len = "min (length name) FILE_TOTAL_LEN"
  have len: "length bs = ?n" using fits by (simp add: bs_def)
  have n0: "0 < ?n" by (rule blocks_needed_small(3)) (use buf in auto)
  have rng: "\<forall>b \<in> set bs. 0 < b \<and> b < NUM_BLOCKS"
    using directory_ok_free [OF ok] set_take_subset [of ?n "free_blocks d"] by (auto simp: bs_def)
  obtain e where e: "write_blocks name ?len buf ?n ?n None d = Some (None, e)"
    and w: "written name ?len buf ?n 0 None bs d e"
    using write_blocks_written [where n' = ?n and n = ?n and last_df = None and d = d
        and len = ?len and name = name and buf = buf] fits rng
    by (auto simp: bs_def)
  note W = w [unfolded written_def, simplified]
  have contents: "map (block_contents e) bs = map (\<lambda>k. map (chunk_byte buf k) [0..<BLOCK_SIZE]) [0..<?n]"
    using W by (intro nth_equalityI) (auto simp: len block_contents_def)
  have "concat (map (block_contents e) bs) = padded ?n buf"
    unfolding contents by (rule concat_chunk_bytes) (rule blocks_needed_small(2) [OF buf(2)])
  then have st: "stored e bs (padded (length bs) buf)"
    using W n0 rng len by (auto simp: stored_def bs_def)
  show thesis
  proof (rule that [OF _ st])
    show "memory_card_image_write_file name buf d = Some (None, e)"
      using e fits buf by (simp add: memory_card_image_write_file_def Let_def free_block_count_length)
  qed (use W n0 len in auto)
qed

lemma write_file_refused:
  "buf = [] \<Longrightarrow> memory_card_image_write_file name buf d = Some (Some EmptyBuffer, d)"
  "\<lbrakk>buf \<noteq> []; length (free_blocks d) < blocks_needed (length buf)\<rbrakk> \<Longrightarrow>
     memory_card_image_write_file name buf d = Some (Some InsufficientBlocks, d)"
  by (simp_all add: memory_card_image_write_file_def Let_def free_block_count_length)

lemma stored_same:
  assumes "stored d bs c" "\<And>fr. fr \<in> set bs \<Longrightarrow> same_frame fr d e" "\<And>b. b \<in> set bs \<Longrightarrow> same_block b d e"
  shows "stored e bs c"
proof -
  have "concat (map (block_contents d) bs) = concat (map (block_contents e) bs)"
    by (rule arg_cong [where f = concat]) (use assms(3) in \<open>auto simp: block_contents_def same_block_def\<close>)
  moreover have "chain d bs = chain e bs"
    by (rule chain_cong) (use assms(2) same_frame_next in blast)
  moreover have "block_allocation_state d b = block_allocation_state e b" "checksum_ok b d = checksum_ok b e"
    if "b \<in> set bs" for b
    using same_frame_state same_frame_checksum assms(2) [OF that] by blast+
  ultimately show ?thesis using assms(1) by (auto simp: stored_def)
qed

section \<open>Deleting\<close>

lemma delete_block_fields:
  fixes cl n i b d
  defines "e \<equiv> delete_block cl n i b d"
  shows "only_frame b d e" "next_block_number e b = 0xFFFF" "checksum_ok b e"
    "block_allocation_state e b = (if cl then 0xA0 else deleted_state n i)"
proof -
  let ?m = "if cl then set_allocation_state b 0xA0 (mem_fill (dir_ptr b) FRAME_SIZE 0 d)
    else set_allocation_state b (deleted_state n i) d"
  have e: "e = update_directory_checksum b (set_next_block b 0xFFFF ?m)"
    by (simp add: e_def delete_block_def deleted_state_def Let_def)
  have "only_frame b d ?m"
    using only_frame_trans [OF only_frame_set(5) only_frame_set(2)] by simp
  then show "only_frame b d e"
    unfolding e by (meson only_frame_trans only_frame_set(1) only_frame_set(4))
  show "next_block_number e b = 0xFFFF" "checksum_ok b e"
    "block_allocation_state e b = (if cl then 0xA0 else deleted_state n i)"
    by (simp_all add: e)
qed

lemma delete_chain:
  fixes cl b d n
  assumes "chain d bs" "distinct bs" "\<forall>b \<in> set bs. 0 < b \<and> b < NUM_BLOCKS"
    "bs \<noteq> [] \<Longrightarrow> b = hd bs" "length bs \<le> n"
  defines "e \<equiv> delete_blocks cl n (length bs) b d"
  shows "(\<forall>fr. fr \<notin> set bs \<longrightarrow> same_frame fr d e) \<and> (\<forall>c > 0. same_block c d e) \<and>
    (\<forall>k < length bs. next_block_number e (bs ! k) = 0xFFFF \<and> checksum_ok (bs ! k) e \<and>
       block_allocation_state e (bs ! k) = (if cl then 0xA0 else deleted_state n (n - length bs + k)))"
  using assms(1-5) unfolding e_def
proof (induction bs arbitrary: b d)
  case (Cons x bs)
  let ?d = "delete_block cl n (n - Suc (length bs)) x d"
  let ?e = "delete_blocks cl n (length bs) (unat (next_block_number d x) + 1) ?d"
  note del = delete_block_fields [where cl = cl and n = n and i = "n - Suc (length bs)" and b = x and d = d]
  have x: "0 < x" "x < 16" "b = x" "x \<notin> set bs" using Cons.prems by (auto simp: card_sizes)
  have other: "same_frame fr d ?d" if "fr \<noteq> x" for fr
    by (rule only_frame_other [OF del(1)]) (use that in auto)
  have run: "delete_blocks cl n (length (x # bs)) b d = ?e" using x by (simp add: card_sizes)
  have ch: "chain ?d bs"
  proof -
    have "chain d bs" using Cons.prems(1) by (cases bs) auto
    moreover have "chain d bs = chain ?d bs"
    proof (rule chain_cong)
      fix c assume "c \<in> set bs"
      then have "c \<noteq> x" using x by auto
      then show "next_block_number d c = next_block_number ?d c"
        using same_frame_next [OF other] by blast
    qed
    ultimately show ?thesis by simp
  qed
  have hd: "unat (next_block_number d x) + 1 = hd bs" if "bs \<noteq> []"
    using that Cons.prems(1,3) next_of_pred [of "hd bs"] by (cases bs) (auto simp: card_sizes)
  have IH: "(\<forall>fr. fr \<notin> set bs \<longrightarrow> same_frame fr ?d ?e) \<and> (\<forall>c > 0. same_block c ?d ?e) \<and>
    (\<forall>k < length bs. next_block_number ?e (bs ! k) = 0xFFFF \<and> checksum_ok (bs ! k) ?e \<and>
       block_allocation_state ?e (bs ! k) = (if cl then 0xA0 else deleted_state n (n - length bs + k)))"
    by (rule Cons.IH) (use Cons.prems ch hd in auto)
  have own: "same_frame x ?d ?e" using IH x by blast
  have at_x: "next_block_number ?e x = 0xFFFF \<and> checksum_ok x ?e \<and> block_allocation_state ?e x =
      (if cl then 0xA0 else deleted_state n (n - Suc (length bs)))"
    using same_frame_next [OF own] same_frame_checksum [OF own] same_frame_state [OF own] del(2-4) by simp
  have blocks: "same_block c d ?e" if "0 < c" for c
    using IH only_frame_block [OF del(1) _ that] same_block_trans that x by force
  have frames: "same_frame fr d ?e" if "fr \<notin> set (x # bs)" for fr
    using IH other [of fr] that same_frame_trans by auto
  have ks: "next_block_number ?e ((x # bs) ! k) = 0xFFFF \<and> checksum_ok ((x # bs) ! k) ?e \<and>
      block_allocation_state ?e ((x # bs) ! k) =
        (if cl then 0xA0 else deleted_state n (n - length (x # bs) + k))"
    if "k < length (x # bs)" for k
  proof (cases k)
    case (Suc k')
    have m: "n - length (x # bs) + k = n - length bs + k'" using Cons.prems(5) Suc by simp
    have "k' < length bs" using Suc that by simp
    then show ?thesis unfolding m unfolding Suc nth_Cons_Suc using IH by blast
  qed (use at_x in simp)
  show ?case unfolding run using blocks frames ks by blast
qed simp

lemma deleted_state_free: "(if cl then 0xA0 else deleted_state n k) AND 0xF0 = (0xA0 :: u32)"
  by (simp add: deleted_state_def)

lemma active_state_used: "active_state n k AND 0xF0 \<noteq> 0xA0"
  by (simp add: active_state_def)

lemma delete_file_frees:
  fixes cl
  assumes st: "stored d bs c" and fi: "fi_first_block fi = hd bs" "fi_num_blocks fi = length bs"
  defines "e \<equiv> memory_card_image_delete_file fi cl d"
  shows "set (free_blocks e) = set (free_blocks d) \<union> set bs"
    and "length (free_blocks e) = length (free_blocks d) + length bs"
    and "\<And>fr. fr \<notin> set bs \<Longrightarrow> same_frame fr d e"
    and "\<And>b. 0 < b \<Longrightarrow> same_block b d e"
    and "\<And>k. k < length bs \<Longrightarrow> next_block_number e (bs ! k) = 0xFFFF \<and> checksum_ok (bs ! k) e \<and>
       block_allocation_state e (bs ! k) = (if cl then 0xA0 else deleted_state (length bs) k)"
proof -
  have S: "chain d bs" "distinct bs" "\<forall>b \<in> set bs. 0 < b \<and> b < NUM_BLOCKS" "bs \<noteq> []"
    "\<forall>k < length bs. block_allocation_state d (bs ! k) = active_state (length bs) k"
    using st by (auto simp: stored_def)
  have E: "(\<forall>fr. fr \<notin> set bs \<longrightarrow> same_frame fr d e) \<and> (\<forall>c > 0. same_block c d e) \<and>
    (\<forall>k < length bs. next_block_number e (bs ! k) = 0xFFFF \<and> checksum_ok (bs ! k) e \<and>
       block_allocation_state e (bs ! k) = (if cl then 0xA0 else deleted_state (length bs) k))"
    using delete_chain [OF S(1-3), of "hd bs" "length bs" cl] fi
    by (simp add: e_def memory_card_image_delete_file_def)
  show frames: "same_frame fr d e" if "fr \<notin> set bs" for fr using E that by blast
  show "same_block b d e" if "0 < b" for b using E that by blast
  show ks: "next_block_number e (bs ! k) = 0xFFFF \<and> checksum_ok (bs ! k) e \<and>
       block_allocation_state e (bs ! k) = (if cl then 0xA0 else deleted_state (length bs) k)"
    if "k < length bs" for k using E that by blast
  have free: "block_is_free e fr \<longleftrightarrow> block_is_free d fr \<or> fr \<in> set bs" for fr
  proof (cases "fr \<in> set bs")
    case True
    then obtain k where "k < length bs" "fr = bs ! k" by (auto simp: in_set_conv_nth)
    then show ?thesis using ks deleted_state_free [of cl] True by (simp add: block_is_free_def)
  qed (use same_frame_state [OF frames] in \<open>simp add: block_is_free_def\<close>)
  have used: "\<not> block_is_free d b" if "b \<in> set bs" for b
    using that S(5) active_state_used by (auto simp: in_set_conv_nth block_is_free_def)
  show sets: "set (free_blocks e) = set (free_blocks d) \<union> set bs"
    using S(3) free by (auto simp: free_blocks_def card_sizes)
  have "card (set (free_blocks d) \<union> set bs) = card (set (free_blocks d)) + card (set bs)"
    by (rule card_Un_disjoint) (use used in \<open>auto simp: free_blocks_def\<close>)
  then show "length (free_blocks e) = length (free_blocks d) + length bs"
    using distinct_card [OF free_blocks_distinct] distinct_card [OF S(2)] sets by metis
qed

text \<open>
  The tombstones lose the links: undeleting a file of several blocks restores its first block
  alone, and reports success.
\<close>

lemma undelete_restores_first_only:
  assumes st: "stored d bs c" and fi: "fi_first_block fi = hd bs" "fi_num_blocks fi = length bs" "fi_deleted fi"
    and two: "2 \<le> length bs"
  shows "\<exists>e. memory_card_image_undelete_file fi (memory_card_image_delete_file fi False d) = (None, e) \<and>
    block_allocation_state e (hd bs) = 0x51 \<and> chain_length e (hd bs) 1 = 1 \<and>
    block_is_free e (bs ! 1)"
proof -
  define x where "x = memory_card_image_delete_file fi False d"
  note del = delete_file_frees [OF st fi(1,2), where cl = False, folded x_def]
  obtain b b' cs where bs: "bs = b # b' # cs"
    using two by (cases bs; cases "tl bs") auto
  have b: "0 < b" "b < 16" "b' \<noteq> b" using st by (auto simp: stored_def bs card_sizes)
  have h: "next_block_number x b = 0xFFFF" "block_allocation_state x b = 0xA1"
    "block_allocation_state x b' AND 0xF0 = 0xA0"
    using del(5) [of 0] del(5) [of 1] deleted_state_free [of False "length bs" 1]
    by (simp_all add: bs deleted_state_def)
  let ?e = "update_directory_checksum b (set_allocation_state b 0x51 x)"
  have of: "only_frame b x ?e" by (meson only_frame_trans only_frame_set(2) only_frame_set(4))
  have n: "Suc (Suc (length cs)) = length bs" by (simp add: bs)
  have chk: "undelete_check (length bs) (length bs) b x = None"
    using h b by (simp add: bs deleted_state_def card_sizes)
  have und: "undelete_blocks (length bs) (length bs) b x = ?e"
    using h b by (simp add: bs active_state_def card_sizes)
  have "chain_length ?e b 1 = 1"
    using h(1) by (subst chain_length.simps) (simp add: card_sizes)
  moreover have "block_is_free ?e b'"
    using same_frame_state [OF only_frame_other [OF of b(3) [symmetric]]] h(3) by (simp add: block_is_free_def)
  ultimately show ?thesis
    using chk und fi by (intro exI [of _ ?e])
      (simp add: memory_card_image_undelete_file_def x_def [symmetric] bs)
qed

section \<open>Exporting and importing\<close>

lemma stored_length: "stored d bs c \<Longrightarrow> length c = length bs * BLOCK_SIZE"
  by (auto simp: stored_def length_concat block_contents_def comp_def sum_list_triv)

lemma stored_at_most_15: "stored d bs c \<Longrightarrow> length bs \<le> 15"
proof -
  assume "stored d bs c"
  then have "set bs \<subseteq> {1..<16}" "distinct bs" by (auto simp: stored_def card_sizes)
  then show ?thesis using card_mono [of "{1..<16::nat}" "set bs"] by (simp add: distinct_card)
qed

lemma export_stored:
  assumes "stored d bs c" "fi_first_block fi = hd bs" "fi_num_blocks fi = length bs"
  shows "memory_card_image_export_save fi d =
    Some (Inr (map (\<lambda>i. d (dir_ptr (hd bs) + i)) [0..<FRAME_SIZE] @ c))"
proof -
  have "hd bs < NUM_FRAMES"
    using assms(1) by (cases bs) (auto simp: stored_def NUM_FRAMES_def card_sizes)
  then show ?thesis using read_file_stored [OF assms] assms
    by (simp add: memory_card_image_export_save_def)
qed

lemma c_string_name_field:
  assumes "0 \<notin> set name" "length name \<le> FILE_TOTAL_LEN"
  shows "c_string (name_field name (length name)) = name"
proof -
  have "name_field name (length name) = name @ replicate (FILE_TOTAL_LEN + 1 - length name) 0"
    using assms(2) by (intro nth_equalityI) (auto simp: name_field_def nth_append simp del: upt_Suc)
  moreover have "takeWhile (\<lambda>c. c \<noteq> 0) (name @ replicate (Suc m) 0) = name" for m
    using assms(1) by (subst takeWhile_append2) auto
  moreover have "FILE_TOTAL_LEN + 1 - length name = Suc (FILE_TOTAL_LEN - length name)"
    using assms(2) by simp
  ultimately show ?thesis by (simp only: c_string_def)
qed

lemma c_string_no_nul: "0 \<notin> set (c_string bs)"
  by (auto simp: c_string_def dest: set_takeWhileD)

lemma drop_deleted_none: "\<forall>fi \<in> set fis. fi_filename fi \<noteq> name \<Longrightarrow> drop_deleted name fis d = (None, d)"
  by (induction fis) auto

lemma import_exported:
  assumes st: "stored d bs c" and size: "file_size d (hd bs) = of_nat (length c)"
    and name: "length (c_string (dir_filename d (hd bs))) \<le> FILE_TOTAL_LEN"
    and t: "directory_ok t" "length bs \<le> length (free_blocks t)"
    and new: "memory_card_image_enumerate_files sjis t True = Some fis"
      "\<forall>fi \<in> set fis. fi_filename fi \<noteq> c_string (dir_filename d (hd bs))"
  defines "f \<equiv> map (\<lambda>i. d (dir_ptr (hd bs) + i)) [0..<FRAME_SIZE] @ c"
    and "bs' \<equiv> take (length bs) (free_blocks t)"
  obtains e where "import_save_with_directory_frame sjis f t = Some (None, e)"
    and "stored e bs' c" and "file_size e (hd bs') = file_size d (hd bs)"
    and "c_string (dir_filename e (hd bs')) = c_string (dir_filename d (hd bs))"
proof -
  let ?n = "length bs" and ?name = "c_string (dir_filename d (hd bs))"
  have n: "0 < ?n" "?n \<le> 15" "length c = ?n * BLOCK_SIZE"
    using stored_at_most_15 [OF st] stored_length [OF st] st by (auto simp: stored_def)
  have c: "length c < 2 ^ 32" "c \<noteq> []" using n by (auto simp: card_sizes)
  have nb: "blocks_needed (length c) = ?n"
    using blocks_needed_small(1) [OF c(1)] n by (simp add: card_sizes)
  have bytes: "bytes_at f 0 (dir_ptr 0 + i) = d (dir_ptr (hd bs) + i)" if "i < 128" for i
    using that by (simp add: f_def bytes_at_def dir_ptr_val nth_append card_sizes)
  have hdr: "file_size (bytes_at f 0) 0 = file_size d (hd bs)"
    "dir_filename (bytes_at f 0) 0 = dir_filename d (hd bs)"
    using bytes [of 4] bytes [of 5] bytes [of 6] bytes [of 7] bytes [of "10 + _"]
    by (auto simp: file_size_def get_u32_def dir_filename_def card_sizes ac_simps simp del: upt_Suc)
  have u: "unat (of_nat (length c) :: u32) = length c"
    using c(1) by (simp add: unat_of_nat take_bit_eq_mod)
  have len: "length f = 128 + ?n * 8192" using n by (simp add: f_def card_sizes)
  have sz: "unat (file_size (bytes_at f 0) 0) = ?n * 8192"
    using u n(3) by (simp only: hdr size card_sizes)
  have tk: "take (?n * 8192) (drop 128 f) = c"
    using n(3) by (simp add: f_def card_sizes)
  obtain e where e: "memory_card_image_write_file ?name c t = Some (None, e)"
    and s: "stored e bs' (padded (length bs') c)"
    and en: "dir_entry e (hd bs') = (of_nat (length c), name_field ?name (min (length ?name) FILE_TOTAL_LEN))"
    using write_file_stored [OF t(1) c(2,1), where name = ?name] t(2) unfolding nb bs'_def by metis
  have len': "length bs' = ?n" using t(2) by (simp add: bs'_def)
  show thesis
  proof (rule that)
    have imp: "import_blocks sjis ?name c t = Some (None, e)"
      using e t(2) new nb drop_deleted_none [OF new(2), of t]
      by (simp add: import_blocks_def free_block_count_length)
    show "import_save_with_directory_frame sjis f t = Some (None, e)"
      using imp n(1,2) by (simp add: import_save_with_directory_frame_def Let_def hdr(2) sz len tk card_sizes)
    show "stored e bs' c" using s len' n by (simp add: padded_def)
    show "file_size e (hd bs') = file_size d (hd bs)" using en size by (simp add: dir_entry_def)
    show "c_string (dir_filename e (hd bs')) = ?name"
      using en name c_string_name_field [OF c_string_no_nul name] by (simp add: dir_entry_def min_absorb1)
  qed
qed

end
