(* ===== verification/Card_Format.thy ===== *)
theory Card_Format
  imports Card_Files
begin

text \<open>
  A freshly formatted card: the bytes of its frames, its free blocks, its empty list of files.
\<close>

lemma fold_other_frames:
  assumes "\<And>fr d. only_frame fr d (g fr d)" "fr \<notin> set xs"
  shows "same_frame fr d (fold g xs d)"
  using assms(2)
proof (induction xs arbitrary: d)
  case (Cons x xs)
  have "same_frame fr d (g x d)" by (rule only_frame_other [OF assms(1)]) (use Cons.prems in auto)
  then show ?case using Cons by (auto intro: same_frame_trans)
qed simp

lemma fold_own_frame:
  assumes "\<And>fr d. only_frame fr d (g fr d)" "fr \<in> set xs" "distinct xs"
  shows "\<exists>c. same_frame fr (g fr c) (fold g xs d)"
  using assms(2,3)
proof (induction xs arbitrary: d)
  case (Cons x xs)
  show ?case
  proof (cases "fr = x")
    case True
    then show ?thesis
      using fold_other_frames [OF assms(1), of fr xs "g x d"] Cons.prems by auto
  qed (use Cons in auto)
qed simp

lemma fold_own_range:
  assumes "\<And>fr d. only_frame fr d (g fr d)" "fr \<in> {a..<b}"
  shows "\<exists>c. same_frame fr (g fr c) (fold g [a..<b] d)"
  by (rule fold_own_frame [OF assms(1)]) (simp_all only: set_upt assms(2) distinct_upt)

lemma only_frame_format [simp]:
  "only_frame fr d (format_directory_frame fr d)" "only_frame fr d (format_broken_frame fr d)"
  "only_frame fr d (format_zero_frame fr d)"
  by (auto simp: only_frame_def format_directory_frame_def format_broken_frame_def
      format_zero_frame_def mem_fill_def Let_def frame_ptr_def dir_ptr_val card_sizes)

lemma only_frame_header [simp]: "only_frame 0 d (format_header d)"
  by (auto simp: only_frame_def format_header_def mem_fill_def Let_def frame_ptr_def dir_ptr_val card_sizes)

lemma checksum_stamp: "p = dir_ptr fr \<Longrightarrow> checksum_ok fr (d(p + 0x7F := frame_checksum d p))"
  using checksum_updated [of fr d] by (simp add: update_directory_checksum_def)

lemma format_frame_checksums [simp]:
  "checksum_ok 0 (format_header d)" "checksum_ok fr (format_directory_frame fr d)"
  "checksum_ok fr (format_broken_frame fr d)"
  by (auto simp only: format_header_def format_directory_frame_def format_broken_frame_def Let_def
      dir_ptr_def intro: checksum_stamp)

lemma format_frame_states:
  "block_allocation_state (format_directory_frame fr d) fr = 0xA0"
  "next_block_number (format_directory_frame fr d) fr = 0xFFFF"
  "block_allocation_state (format_broken_frame fr d) fr = 0xFFFFFFFF"
  "block_allocation_state (format_zero_frame fr d) fr = 0"
  "block_allocation_state (format_header d) 0 = 0x434D"
  by (auto simp: block_allocation_state_def next_block_number_def get_u32_def get_u16_def
      format_directory_frame_def format_broken_frame_def format_zero_frame_def format_header_def
      mem_fill_def Let_def frame_ptr_def dir_ptr_val card_sizes)

text \<open>The frames of block 0 after formatting.\<close>

lemma formatted_frames:
  fixes d defines "e \<equiv> memory_card_image_format d"
  shows "\<exists>c. same_frame 0 (format_header c) e"
    and "fr \<in> {1..<16} \<Longrightarrow> \<exists>c. same_frame fr (format_directory_frame fr c) e"
    and "fr \<in> {16..<36} \<Longrightarrow> \<exists>c. same_frame fr (format_broken_frame fr c) e"
    and "fr \<in> {36..<63} \<Longrightarrow> \<exists>c. same_frame fr (format_zero_frame fr c) e"
    and "block_allocation_state e 63 = 0x434D \<and> checksum_ok 63 e"
proof -
  define d0 where "d0 = format_header (mem_fill 0 DATA_SIZE 0xFF d)"
  define d1 where "d1 = fold format_directory_frame [1..<16] d0"
  define d2 where "d2 = fold format_broken_frame [16..<36] d1"
  define d3 where "d3 = fold format_zero_frame [36..<56] d2"
  define d4 where "d4 = fold format_zero_frame [56..<63] d3"
  have e: "e = mem_copy (frame_ptr 0 63) FRAME_SIZE (\<lambda>i. d4 (frame_ptr 0 0 + i)) d4"
    by (simp add: e_def memory_card_image_format_def Let_def d0_def d1_def d2_def d3_def d4_def)
  have last: "same_frame fr d4 e" if "fr < 63" for fr
    using that by (auto simp: same_frame_def e mem_copy_def frame_ptr_def dir_ptr_val card_sizes)
  note other = fold_other_frames [OF only_frame_format(1)] fold_other_frames [OF only_frame_format(2)]
    fold_other_frames [OF only_frame_format(3)]
  note own = fold_own_range [OF only_frame_format(1)] fold_own_range [OF only_frame_format(2)]
    fold_own_range [OF only_frame_format(3)]
  have s1: "same_frame fr d0 d1" if "fr \<notin> {1..<16}" for fr
    unfolding d1_def by (rule other(1)) (simp only: set_upt that not_False_eq_True)
  have s2: "same_frame fr d1 d2" if "fr \<notin> {16..<36}" for fr
    unfolding d2_def by (rule other(2)) (simp only: set_upt that not_False_eq_True)
  have s3: "same_frame fr d2 d3" if "fr \<notin> {36..<56}" for fr
    unfolding d3_def by (rule other(3)) (simp only: set_upt that not_False_eq_True)
  have s4: "same_frame fr d3 d4" if "fr \<notin> {56..<63}" for fr
    unfolding d4_def by (rule other(3)) (simp only: set_upt that not_False_eq_True)
  have r4: "same_frame fr d3 e" if "fr < 56" for fr
    using same_frame_trans [OF s4 last, of fr] that by simp
  have r3: "same_frame fr d2 e" if "fr < 36" for fr
    using same_frame_trans [OF s3 r4, of fr] that by simp
  have r2: "same_frame fr d1 e" if "fr < 16" for fr
    using same_frame_trans [OF s2 r3, of fr] that by simp
  have head: "same_frame 0 d0 e" using same_frame_trans [OF s1 r2, of 0] by simp
  show "\<exists>c. same_frame 0 (format_header c) e" using head by (auto simp: d0_def)
  show "\<exists>c. same_frame fr (format_directory_frame fr c) e" if "fr \<in> {1..<16}"
  proof -
    from own(1) [OF that, of d0] obtain c where "same_frame fr (format_directory_frame fr c) d1"
      unfolding d1_def by blast
    then show ?thesis using same_frame_trans r2 that by fastforce
  qed
  show "\<exists>c. same_frame fr (format_broken_frame fr c) e" if "fr \<in> {16..<36}"
  proof -
    from own(2) [OF that, of d1] obtain c where "same_frame fr (format_broken_frame fr c) d2"
      unfolding d2_def by blast
    then show ?thesis using same_frame_trans r3 that by fastforce
  qed
  show "\<exists>c. same_frame fr (format_zero_frame fr c) e" if "fr \<in> {36..<63}"
  proof (cases "fr < 56")
    case True
    then have "fr \<in> {36..<56}" using that by simp
    from own(3) [OF this, of d2] obtain c where "same_frame fr (format_zero_frame fr c) d3"
      unfolding d3_def by blast
    then show ?thesis using same_frame_trans r4 True by blast
  next
    case False
    then have "fr \<in> {56..<63}" using that by simp
    from own(3) [OF this, of d3] obtain c where "same_frame fr (format_zero_frame fr c) d4"
      unfolding d4_def by blast
    then show ?thesis using same_frame_trans last that by fastforce
  qed
  have copied: "e (dir_ptr 63 + i) = e (dir_ptr 0 + i)" if "i < 128" for i
    using that same_frameD [OF last, of 0 i]
    by (simp add: e mem_copy_def frame_ptr_def dir_ptr_val card_sizes)
  have "block_allocation_state e 63 = block_allocation_state e 0"
    using copied [of 0] copied [of 1] copied [of 2] copied [of 3]
    by (simp add: block_allocation_state_def get_u32_def)
  moreover have "block_allocation_state e 0 = 0x434D"
    using same_frame_state [OF head] format_frame_states(5) by (simp add: d0_def)
  moreover have "checksum_ok 63 e = checksum_ok 0 e"
    using copied [of 127] frame_checksum_cong [of e "dir_ptr 63" e "dir_ptr 0"] copied
    by (simp add: checksum_ok_def)
  moreover have "checksum_ok 0 e"
    using same_frame_checksum [OF head] by (simp add: d0_def)
  ultimately show "block_allocation_state e 63 = 0x434D \<and> checksum_ok 63 e" by simp
qed

lemma formatted_state:
  assumes "fr < 64"
  shows "block_allocation_state (memory_card_image_format d) fr =
    (if fr = 0 \<or> fr = 63 then 0x434D else if fr < 16 then 0xA0 else if fr < 36 then 0xFFFFFFFF else 0)"
proof -
  consider "fr = 0" | "fr \<in> {1..<16}" | "fr \<in> {16..<36}" | "fr \<in> {36..<63}" | "fr = 63"
    using assms by fastforce
  then show ?thesis
  proof cases
    case 1 then show ?thesis
      using formatted_frames(1) [of d] same_frame_state format_frame_states(5) by fastforce
  next
    case 2 then show ?thesis
      using formatted_frames(2) [of fr d] same_frame_state format_frame_states(1) by fastforce
  next
    case 3 then show ?thesis
      using formatted_frames(3) [of fr d] same_frame_state format_frame_states(3) by fastforce
  next
    case 4 then show ?thesis
      using formatted_frames(4) [of fr d] same_frame_state format_frame_states(4) by fastforce
  qed (use formatted_frames(5) in simp)
qed

lemma formatted_free: "fr < 64 \<Longrightarrow> block_is_free (memory_card_image_format d) fr \<longleftrightarrow> 0 < fr \<and> fr < 16"
  by (auto simp: block_is_free_def formatted_state)

lemma formatted_free_blocks [simp]: "free_blocks (memory_card_image_format d) = [1..<16]"
proof -
  have "filter (block_is_free (memory_card_image_format d)) [1..<64] = filter (\<lambda>fr. fr < 16) [1..<64]"
    by (rule filter_cong) (auto simp: formatted_free)
  also have "\<dots> = [1..<16]" by (simp add: upt_conv_Cons)
  finally show ?thesis by (simp add: free_blocks_def card_sizes)
qed

lemma formatted_directory_ok [simp]: "directory_ok (memory_card_image_format d)"
  by (simp add: directory_ok_def formatted_free)

lemma formatted_checksums: "fr \<in> insert 63 {0..<36} \<Longrightarrow> checksum_ok fr (memory_card_image_format d)"
proof -
  assume "fr \<in> insert 63 {0..<36}"
  then consider "fr = 0" | "fr \<in> {1..<16}" | "fr \<in> {16..<36}" | "fr = 63" by fastforce
  then show ?thesis
  proof cases
    case 1 then show ?thesis
      using formatted_frames(1) [of d] same_frame_checksum format_frame_checksums(1) by blast
  next
    case 2 then show ?thesis
      using formatted_frames(2) [of fr d] same_frame_checksum format_frame_checksums(2) by blast
  next
    case 3 then show ?thesis
      using formatted_frames(3) [of fr d] same_frame_checksum format_frame_checksums(3) by blast
  qed (use formatted_frames(5) in simp)
qed

lemma formatted_valid: "memory_card_image_is_valid (memory_card_image_format d)"
proof -
  obtain c where "same_frame 0 (format_header c) (memory_card_image_format d)"
    using formatted_frames(1) by blast
  from same_frameD [OF this, of 0] same_frameD [OF this, of 1] show ?thesis
    by (simp add: memory_card_image_is_valid_def format_header_def Let_def dir_ptr_def frame_ptr_def)
qed

lemma enumerate_none:
  "(\<And>fr. fr \<in> set frs \<Longrightarrow> \<not> file_is_active d fr \<and> \<not> file_is_deleted d fr) \<Longrightarrow>
     enumerate_frames sjis d incl frs = Some []"
  by (induction frs) (auto simp: enumerate_frame_def)

lemma formatted_empty: "memory_card_image_enumerate_files sjis (memory_card_image_format d) incl = Some []"
  unfolding memory_card_image_enumerate_files_def
  by (rule enumerate_none) (auto simp: file_is_active_def file_is_deleted_def formatted_state card_sizes)

end
