(* ===== verification/Memory_Card.thy ===== *)
theory Memory_Card
  imports Card_Image Scheduler
begin

text \<open>
  The memory card on the controller bus,
  \<^verbatim>\<open>src/core/input/memory_cards/memory_card.c\<close>: the command state machine
  that answers one byte at a time, and the delayed save to the host file.

  The host is the parameter \<open>card_hooks\<close>, with an option for each function the source
  declares weak.  The save event of the card in slot \<open>index\<close> has the number
  \<open>MEMORY_CARD_SAVE_EVENT + index\<close>.  A read or write past the image is undefined, an
  operation that does it is \<open>None\<close>, as is one whose scheduling fails.
\<close>

section \<open>State\<close>

datatype memory_card_state =
    MEMORY_CARD_STATE_IDLE
  | MEMORY_CARD_STATE_COMMAND
  | MEMORY_CARD_STATE_READ_CARD_ID1
  | MEMORY_CARD_STATE_READ_CARD_ID2
  | MEMORY_CARD_STATE_READ_ADDRESS_MSB
  | MEMORY_CARD_STATE_READ_ADDRESS_LSB
  | MEMORY_CARD_STATE_READ_ACK1
  | MEMORY_CARD_STATE_READ_ACK2
  | MEMORY_CARD_STATE_READ_CONFIRM_ADDRESS_MSB
  | MEMORY_CARD_STATE_READ_CONFIRM_ADDRESS_LSB
  | MEMORY_CARD_STATE_READ_DATA
  | MEMORY_CARD_STATE_READ_CHECKSUM
  | MEMORY_CARD_STATE_READ_END
  | MEMORY_CARD_STATE_WRITE_CARD_ID1
  | MEMORY_CARD_STATE_WRITE_CARD_ID2
  | MEMORY_CARD_STATE_WRITE_ADDRESS_MSB
  | MEMORY_CARD_STATE_WRITE_ADDRESS_LSB
  | MEMORY_CARD_STATE_WRITE_DATA
  | MEMORY_CARD_STATE_WRITE_CHECKSUM
  | MEMORY_CARD_STATE_WRITE_ACK1
  | MEMORY_CARD_STATE_WRITE_ACK2
  | MEMORY_CARD_STATE_WRITE_END
  | MEMORY_CARD_STATE_GET_ID_CARD_ID1
  | MEMORY_CARD_STATE_GET_ID_CARD_ID2
  | MEMORY_CARD_STATE_GET_ID_ACK1
  | MEMORY_CARD_STATE_GET_ID_ACK2
  | MEMORY_CARD_STATE_GET_ID1
  | MEMORY_CARD_STATE_GET_ID2
  | MEMORY_CARD_STATE_GET_ID3
  | MEMORY_CARD_STATE_GET_ID4

definition MEMORY_CARD_FLAG_WRITE_ERROR :: u8 where "MEMORY_CARD_FLAG_WRITE_ERROR = 4"
definition MEMORY_CARD_FLAG_NO_WRITE_YET :: u8 where "MEMORY_CARD_FLAG_NO_WRITE_YET = 8"
definition MEMORY_CARD_MASTER_CLOCK :: tick_count where "MEMORY_CARD_MASTER_CLOCK = 33868800"
definition MEMORY_CARD_SAVE_DELAY_IN_SECONDS :: tick_count where "MEMORY_CARD_SAVE_DELAY_IN_SECONDS = 5"
definition MEMORY_CARD_SAVE_EVENT :: nat where "MEMORY_CARD_SAVE_EVENT = 8"

record memory_card =
  card_path :: "string option"
  card_index :: u32
  card_state :: memory_card_state
  card_flag :: u8
  card_address :: u16
  sector_offset :: u8
  card_checksum :: u8
  last_byte :: u8
  card_changed :: bool
  card_image :: card_data

record 's card_hooks =
  system_get_ticks_per_second :: "tick_count option"
  system_on_memory_card_accessed :: "('s \<Rightarrow> 's) option"
  read_host_file :: "string \<Rightarrow> 's \<Rightarrow> u8 list option"
  write_host_file :: "string \<Rightarrow> u8 list \<Rightarrow> 's \<Rightarrow> bool \<times> 's"

definition memory_card_get_save_delay_in_ticks :: "'s card_hooks \<Rightarrow> tick_count" where
  "memory_card_get_save_delay_in_ticks h =
     to_s32 ((case system_get_ticks_per_second h of Some t \<Rightarrow> t | None \<Rightarrow> MEMORY_CARD_MASTER_CLOCK) *
       MEMORY_CARD_SAVE_DELAY_IN_SECONDS)"

definition memory_card_on_accessed :: "'s card_hooks \<Rightarrow> 's \<Rightarrow> 's" where
  "memory_card_on_accessed h s = (case system_on_memory_card_accessed h of Some f \<Rightarrow> f s | None \<Rightarrow> s)"

definition save_event :: "memory_card \<Rightarrow> nat" where
  "save_event mc = MEMORY_CARD_SAVE_EVENT + unat (card_index mc)"

definition has_path :: "memory_card \<Rightarrow> bool" where
  "has_path mc \<longleftrightarrow> (case card_path mc of None \<Rightarrow> False | Some p \<Rightarrow> p \<noteq> [])"

section \<open>Saving to the host\<close>

text \<open>\<open>memory_card_image_load_from_file\<close> and \<open>save_to_file\<close>.\<close>

definition memory_card_image_load_from_file :: "u8 list \<Rightarrow> card_data \<Rightarrow> bool \<times> card_data" where
  "memory_card_image_load_from_file f d =
     (if length f \<noteq> DATA_SIZE then (False, d) else (True, mem_copy 0 DATA_SIZE (\<lambda>i. f ! i) d))"

definition memory_card_image_save_to_file ::
  "'s card_hooks \<Rightarrow> string \<Rightarrow> card_data \<Rightarrow> 's \<Rightarrow> bool \<times> 's" where
  "memory_card_image_save_to_file h path d = write_host_file h path (map d [0..<DATA_SIZE])"

definition memory_card_save_if_changed ::
  "('a sched_sys_scheme) card_hooks \<Rightarrow> memory_card \<Rightarrow> 'a sched_sys_scheme \<Rightarrow>
     (bool \<times> memory_card \<times> 'a sched_sys_scheme) option" where
  "memory_card_save_if_changed h mc s = do {
     s \<leftarrow> (if active (timing_events s (save_event mc))
          then timing_event_deactivate (save_event mc) s else Some s);
     if \<not> card_changed mc then Some (True, mc, s)
     else let mc = mc\<lparr>card_changed := False\<rparr>
          in if \<not> has_path mc then Some (False, mc, s)
             else let (ok, s) = memory_card_image_save_to_file h (the (card_path mc)) (card_image mc) s
                  in Some (ok, mc, s) }"

definition memory_card_queue_file_save ::
  "('a sched_sys_scheme) card_hooks \<Rightarrow> memory_card \<Rightarrow> 'a sched_sys_scheme \<Rightarrow> 'a sched_sys_scheme option" where
  "memory_card_queue_file_save h mc s =
     (if active (timing_events s (save_event mc)) \<or> \<not> has_path mc then Some s
      else timing_event_schedule (save_event mc) (memory_card_get_save_delay_in_ticks h) s)"

definition memory_card_save_event_cb ::
  "('a sched_sys_scheme) card_hooks \<Rightarrow> memory_card \<Rightarrow> 'a sched_sys_scheme \<Rightarrow>
     (memory_card \<times> 'a sched_sys_scheme) option" where
  "memory_card_save_event_cb h mc s = map_option snd (memory_card_save_if_changed h mc s)"

definition memory_card_format :: "memory_card \<Rightarrow> memory_card" where
  "memory_card_format mc = mc\<lparr>card_image := memory_card_image_format (card_image mc), card_changed := True\<rparr>"

definition memory_card_init ::
  "('a sched_sys_scheme) card_hooks \<Rightarrow> u32 \<Rightarrow> 'a sched_sys_scheme \<Rightarrow> memory_card \<times> 'a sched_sys_scheme" where
  "memory_card_init h index s =
     (let mc = \<lparr>card_path = None, card_index = index, card_state = MEMORY_CARD_STATE_IDLE,
            card_flag = MEMORY_CARD_FLAG_NO_WRITE_YET, card_address = 0, sector_offset = 0, card_checksum = 0,
            last_byte = 0, card_changed = False, card_image = (\<lambda>_. 0)\<rparr>;
          delay = memory_card_get_save_delay_in_ticks h
      in (mc, timing_event_init (save_event mc) delay delay s))"

definition memory_card_create ::
  "('a sched_sys_scheme) card_hooks \<Rightarrow> u32 \<Rightarrow> 'a sched_sys_scheme \<Rightarrow> memory_card \<times> 'a sched_sys_scheme" where
  "memory_card_create h index s = (let (mc, s) = memory_card_init h index s in (memory_card_format mc, s))"

definition memory_card_get_path :: "memory_card \<Rightarrow> string" where
  "memory_card_get_path mc = (case card_path mc of Some p \<Rightarrow> p | None \<Rightarrow> [])"

definition memory_card_open ::
  "('a sched_sys_scheme) card_hooks \<Rightarrow> u32 \<Rightarrow> string option \<Rightarrow> 'a sched_sys_scheme \<Rightarrow>
     memory_card \<times> 'a sched_sys_scheme" where
  "memory_card_open h index path s =
     (let (mc, s) = memory_card_init h index s;
          mc = mc\<lparr>card_path := path\<rparr>
      in case read_host_file h (memory_card_get_path mc) s of
           None \<Rightarrow> ((memory_card_format mc)\<lparr>card_changed := False\<rparr>, s)
         | Some f \<Rightarrow>
             (case memory_card_image_load_from_file f (card_image mc) of
                (False, d) \<Rightarrow>
                  ((memory_card_format (mc\<lparr>card_image := d\<rparr>))\<lparr>card_path := None, card_changed := False\<rparr>, s)
              | (True, d) \<Rightarrow> (mc\<lparr>card_image := d\<rparr>, s)))"

definition memory_card_destroy ::
  "('a sched_sys_scheme) card_hooks \<Rightarrow> memory_card \<Rightarrow> 'a sched_sys_scheme \<Rightarrow> 'a sched_sys_scheme option" where
  "memory_card_destroy h mc s = do {
     (_, mc, s) \<leftarrow> memory_card_save_if_changed h mc s;
     if active (timing_events s (save_event mc)) then timing_event_deactivate (save_event mc) s
     else Some s }"

definition memory_card_reset_transfer_state :: "memory_card \<Rightarrow> memory_card" where
  "memory_card_reset_transfer_state mc = mc\<lparr>card_state := MEMORY_CARD_STATE_IDLE, card_address := 0,
     sector_offset := 0, card_checksum := 0, last_byte := 0\<rparr>"

definition memory_card_reset ::
  "('a sched_sys_scheme) card_hooks \<Rightarrow> memory_card \<Rightarrow> 'a sched_sys_scheme \<Rightarrow>
     (memory_card \<times> 'a sched_sys_scheme) option" where
  "memory_card_reset h mc s = do {
     (_, mc, s) \<leftarrow> memory_card_save_if_changed h (memory_card_reset_transfer_state mc) s;
     Some (mc\<lparr>card_flag := MEMORY_CARD_FLAG_NO_WRITE_YET\<rparr>, s) }"

definition memory_card_copy_state :: "memory_card \<Rightarrow> memory_card \<Rightarrow> memory_card" where
  "memory_card_copy_state src dst = dst\<lparr>card_state := card_state src, card_flag := card_flag src,
     card_address := card_address src, sector_offset := sector_offset src, card_checksum := card_checksum src,
     last_byte := last_byte src, card_changed := card_changed src\<rparr>"

definition memory_card_is_or_was_recently_writing :: "memory_card \<Rightarrow> 'a sched_sys_scheme \<Rightarrow> bool" where
  "memory_card_is_or_was_recently_writing mc s \<longleftrightarrow>
     card_state mc = MEMORY_CARD_STATE_WRITE_DATA \<or> active (timing_events s (save_event mc))"

section \<open>The protocol\<close>

text \<open>A reply: whether the card acknowledges, the byte it sends, the card and the system.\<close>

type_synonym 's card_reply = "(bool \<times> u8 \<times> memory_card \<times> 's) option"

definition reply :: "u8 \<Rightarrow> bool \<Rightarrow> memory_card_state \<Rightarrow> memory_card \<Rightarrow> 's \<Rightarrow> 's card_reply" where
  "reply out ack st mc s = Some (ack, out, mc\<lparr>card_state := st\<rparr>, s)"

definition address_msb :: "u8 \<Rightarrow> memory_card \<Rightarrow> memory_card" where
  "address_msb b mc = mc\<lparr>card_address := ((card_address mc AND 0x00FF) OR push_bit 8 (ucast b)) AND 0x3FF\<rparr>"

definition address_lsb :: "u8 \<Rightarrow> memory_card \<Rightarrow> memory_card" where
  "address_lsb b mc = mc\<lparr>card_address := ((card_address mc AND 0xFF00) OR ucast b) AND 0x3FF, sector_offset := 0\<rparr>"

definition data_offset :: "memory_card \<Rightarrow> nat" where
  "data_offset mc = unat (card_address mc) * FRAME_SIZE + unat (sector_offset mc)"

definition first_checksum :: "u8 \<Rightarrow> memory_card \<Rightarrow> u8" where
  "first_checksum b mc = ucast (drop_bit 8 (card_address mc)) XOR ucast (card_address mc) XOR b"

text \<open>The offset advances, and at the end of the sector the checksum follows.\<close>

definition advance_sector :: "memory_card_state \<Rightarrow> memory_card \<Rightarrow> memory_card" where
  "advance_sector st mc =
     (let mc = mc\<lparr>sector_offset := sector_offset mc + 1\<rparr>
      in if sector_offset mc = 128 then mc\<lparr>card_state := st, sector_offset := 0\<rparr> else mc)"

definition memory_card_read_data :: "'s card_hooks \<Rightarrow> memory_card \<Rightarrow> 's \<Rightarrow> 's card_reply" where
  "memory_card_read_data h mc s =
     (if DATA_SIZE \<le> data_offset mc then None
      else let b = card_image mc (data_offset mc);
               (mc, s) = (if sector_offset mc = 0
                 then (mc\<lparr>card_checksum := first_checksum b mc\<rparr>, memory_card_on_accessed h s)
                 else (mc\<lparr>card_checksum := card_checksum mc XOR b\<rparr>, s))
           in Some (True, b, advance_sector MEMORY_CARD_STATE_READ_CHECKSUM mc, s))"

definition memory_card_write_data ::
  "('a sched_sys_scheme) card_hooks \<Rightarrow> u8 \<Rightarrow> memory_card \<Rightarrow> 'a sched_sys_scheme \<Rightarrow>
     ('a sched_sys_scheme) card_reply" where
  "memory_card_write_data h data_in mc s =
     (let (mc, s) = (if sector_offset mc = 0
            then (mc\<lparr>card_checksum := first_checksum data_in mc,
                     card_flag := card_flag mc AND NOT MEMORY_CARD_FLAG_NO_WRITE_YET\<rparr>,
                  memory_card_on_accessed h s)
            else (mc\<lparr>card_checksum := card_checksum mc XOR data_in\<rparr>, s));
          offset = data_offset mc
      in if DATA_SIZE \<le> offset then None
         else let mc = mc\<lparr>card_changed := (card_changed mc \<or> card_image mc offset \<noteq> data_in),
                          card_image := (card_image mc)(offset := data_in)\<rparr>;
                  out = last_byte mc;
                  mc = advance_sector MEMORY_CARD_STATE_WRITE_CHECKSUM mc
              in map_option (\<lambda>s. (True, out, mc, s))
                   (if card_state mc = MEMORY_CARD_STATE_WRITE_CHECKSUM \<and> card_changed mc
                    then memory_card_queue_file_save h mc s else Some s))"

definition memory_card_command :: "u8 \<Rightarrow> memory_card \<Rightarrow> 's \<Rightarrow> 's card_reply" where
  "memory_card_command data_in mc =
     (if data_in = 0x52 then reply (card_flag mc) True MEMORY_CARD_STATE_READ_CARD_ID1 mc
      else if data_in = 0x57 then reply (card_flag mc) True MEMORY_CARD_STATE_WRITE_CARD_ID1 mc
      else if data_in = 0x53 then reply (card_flag mc) True MEMORY_CARD_STATE_GET_ID_CARD_ID1 mc
      else reply (card_flag mc) False MEMORY_CARD_STATE_IDLE mc)"

text \<open>The switch over the states; an idle card that is not selected leaves the reply byte alone.\<close>

fun memory_card_switch ::
  "memory_card_state \<Rightarrow> ('a sched_sys_scheme) card_hooks \<Rightarrow> u8 \<Rightarrow> u8 \<Rightarrow> memory_card \<Rightarrow>
     'a sched_sys_scheme \<Rightarrow> ('a sched_sys_scheme) card_reply" where
  "memory_card_switch MEMORY_CARD_STATE_IDLE h data_in data_out mc s =
     (if data_in = 0x81
      then reply 0xFF True MEMORY_CARD_STATE_COMMAND mc s else Some (False, data_out, mc, s))"
| "memory_card_switch MEMORY_CARD_STATE_COMMAND h data_in data_out mc s =
     memory_card_command data_in mc s"
| "memory_card_switch MEMORY_CARD_STATE_READ_CARD_ID1 h data_in data_out mc s =
     reply 0x5A True MEMORY_CARD_STATE_READ_CARD_ID2 mc s"
| "memory_card_switch MEMORY_CARD_STATE_READ_CARD_ID2 h data_in data_out mc s =
     reply 0x5D True MEMORY_CARD_STATE_READ_ADDRESS_MSB mc s"
| "memory_card_switch MEMORY_CARD_STATE_READ_ADDRESS_MSB h data_in data_out mc s =
     reply 0x00 True MEMORY_CARD_STATE_READ_ADDRESS_LSB (address_msb data_in mc) s"
| "memory_card_switch MEMORY_CARD_STATE_READ_ADDRESS_LSB h data_in data_out mc s =
     reply (last_byte mc) True MEMORY_CARD_STATE_READ_ACK1 (address_lsb data_in mc) s"
| "memory_card_switch MEMORY_CARD_STATE_READ_ACK1 h data_in data_out mc s =
     reply 0x5C True MEMORY_CARD_STATE_READ_ACK2 mc s"
| "memory_card_switch MEMORY_CARD_STATE_READ_ACK2 h data_in data_out mc s =
     reply 0x5D True MEMORY_CARD_STATE_READ_CONFIRM_ADDRESS_MSB mc s"
| "memory_card_switch MEMORY_CARD_STATE_READ_CONFIRM_ADDRESS_MSB h data_in data_out mc s =
     reply (ucast (drop_bit 8 (card_address mc))) True MEMORY_CARD_STATE_READ_CONFIRM_ADDRESS_LSB mc s"
| "memory_card_switch MEMORY_CARD_STATE_READ_CONFIRM_ADDRESS_LSB h data_in data_out mc s =
     reply (ucast (card_address mc)) True MEMORY_CARD_STATE_READ_DATA mc s"
| "memory_card_switch MEMORY_CARD_STATE_READ_DATA h data_in data_out mc s =
     memory_card_read_data h mc s"
| "memory_card_switch MEMORY_CARD_STATE_READ_CHECKSUM h data_in data_out mc s =
     reply (card_checksum mc) True MEMORY_CARD_STATE_READ_END mc s"
| "memory_card_switch MEMORY_CARD_STATE_READ_END h data_in data_out mc s =
     reply 0x47 True MEMORY_CARD_STATE_IDLE mc s"
| "memory_card_switch MEMORY_CARD_STATE_WRITE_CARD_ID1 h data_in data_out mc s =
     reply 0x5A True MEMORY_CARD_STATE_WRITE_CARD_ID2 mc s"
| "memory_card_switch MEMORY_CARD_STATE_WRITE_CARD_ID2 h data_in data_out mc s =
     reply 0x5D True MEMORY_CARD_STATE_WRITE_ADDRESS_MSB mc s"
| "memory_card_switch MEMORY_CARD_STATE_WRITE_ADDRESS_MSB h data_in data_out mc s =
     reply 0x00 True MEMORY_CARD_STATE_WRITE_ADDRESS_LSB (address_msb data_in mc) s"
| "memory_card_switch MEMORY_CARD_STATE_WRITE_ADDRESS_LSB h data_in data_out mc s =
     reply (last_byte mc) True MEMORY_CARD_STATE_WRITE_DATA (address_lsb data_in mc) s"
| "memory_card_switch MEMORY_CARD_STATE_WRITE_DATA h data_in data_out mc s =
     memory_card_write_data h data_in mc s"
| "memory_card_switch MEMORY_CARD_STATE_WRITE_CHECKSUM h data_in data_out mc s =
     reply (card_checksum mc) True MEMORY_CARD_STATE_WRITE_ACK1 mc s"
| "memory_card_switch MEMORY_CARD_STATE_WRITE_ACK1 h data_in data_out mc s =
     reply 0x5C True MEMORY_CARD_STATE_WRITE_ACK2 mc s"
| "memory_card_switch MEMORY_CARD_STATE_WRITE_ACK2 h data_in data_out mc s =
     reply 0x5D True MEMORY_CARD_STATE_WRITE_END mc s"
| "memory_card_switch MEMORY_CARD_STATE_WRITE_END h data_in data_out mc s =
     reply 0x47 False MEMORY_CARD_STATE_IDLE mc s"
| "memory_card_switch MEMORY_CARD_STATE_GET_ID_CARD_ID1 h data_in data_out mc s =
     reply 0x5A True MEMORY_CARD_STATE_GET_ID_CARD_ID2 mc s"
| "memory_card_switch MEMORY_CARD_STATE_GET_ID_CARD_ID2 h data_in data_out mc s =
     reply 0x5D True MEMORY_CARD_STATE_GET_ID_ACK1 mc s"
| "memory_card_switch MEMORY_CARD_STATE_GET_ID_ACK1 h data_in data_out mc s =
     reply 0x5C True MEMORY_CARD_STATE_GET_ID_ACK2 mc s"
| "memory_card_switch MEMORY_CARD_STATE_GET_ID_ACK2 h data_in data_out mc s =
     reply 0x5D True MEMORY_CARD_STATE_GET_ID1 mc s"
| "memory_card_switch MEMORY_CARD_STATE_GET_ID1 h data_in data_out mc s =
     reply 0x04 True MEMORY_CARD_STATE_GET_ID2 mc s"
| "memory_card_switch MEMORY_CARD_STATE_GET_ID2 h data_in data_out mc s =
     reply 0x00 True MEMORY_CARD_STATE_GET_ID3 mc s"
| "memory_card_switch MEMORY_CARD_STATE_GET_ID3 h data_in data_out mc s =
     reply 0x00 True MEMORY_CARD_STATE_GET_ID4 mc s"
| "memory_card_switch MEMORY_CARD_STATE_GET_ID4 h data_in data_out mc s =
     reply 0x80 True MEMORY_CARD_STATE_COMMAND mc s"

definition memory_card_transfer ::
  "('a sched_sys_scheme) card_hooks \<Rightarrow> u8 \<Rightarrow> u8 \<Rightarrow> memory_card \<Rightarrow> 'a sched_sys_scheme \<Rightarrow>
     ('a sched_sys_scheme) card_reply" where
  "memory_card_transfer h data_in data_out mc s =
     map_option (\<lambda>(ack, out, mc, s). (ack, out, mc\<lparr>last_byte := data_in\<rparr>, s))
       (memory_card_switch (card_state mc) h data_in data_out mc s)"

end
