(* ===== verification/Memory_Card_Props.thy ===== *)
theory Memory_Card_Props
  imports Memory_Card Scheduler_Ops
begin

text \<open>
  The card's protocol: what a run of bytes reads from the image and writes to it.  The
  invariant \<open>card_ok\<close> keeps every access inside the image.
\<close>

section \<open>Invariant\<close>

definition card_ok :: "memory_card \<Rightarrow> bool" where
  "card_ok mc \<longleftrightarrow> unat (card_address mc) < 1024 \<and> unat (sector_offset mc) < 128"

lemma card_ok_offset: "card_ok mc \<Longrightarrow> data_offset mc < DATA_SIZE"
  by (simp add: card_ok_def data_offset_def card_sizes)

text \<open>
  The host's functions may do anything but touch the scheduler: afterwards the event queue is
  still sound.
\<close>

definition has_queue :: "'a sched_sys_scheme \<Rightarrow> bool" where
  "has_queue s \<longleftrightarrow> (\<exists>xs. sched_queue s xs)"

definition card_hooks_ok :: "('a sched_sys_scheme) card_hooks \<Rightarrow> bool" where
  "card_hooks_ok h \<longleftrightarrow> (\<forall>s. has_queue s \<longrightarrow> has_queue (memory_card_on_accessed h s)) \<and>
     (\<forall>p bs s. has_queue s \<longrightarrow> has_queue (snd (write_host_file h p bs s)))"

lemma schedule_has_queue: "has_queue s \<Longrightarrow> \<exists>t. timing_event_schedule e n s = Some t \<and> has_queue t"
  unfolding has_queue_def using schedule_refines [of s _ e n] unfolding rescheduled_def by blast

lemma deactivate_has_queue: "has_queue s \<Longrightarrow> \<exists>t. timing_event_deactivate e s = Some t \<and> has_queue t"
  unfolding has_queue_def using deactivate_queue [of s _ e] by blast

lemma queue_save_returns:
  "has_queue s \<Longrightarrow> \<exists>t. memory_card_queue_file_save h mc s = Some t \<and> has_queue t"
  using schedule_has_queue by (auto simp: memory_card_queue_file_save_def)

lemma save_returns:
  assumes "card_hooks_ok h" "has_queue s"
  shows "\<exists>ok mc' t. memory_card_save_if_changed h mc s = Some (ok, mc', t) \<and> has_queue t \<and>
    \<not> card_changed mc' \<and> mc' = mc\<lparr>card_changed := False\<rparr>"
proof -
  have "\<exists>u. (if active (timing_events s (save_event mc))
      then timing_event_deactivate (save_event mc) s else Some s) = Some u \<and> has_queue u"
    using deactivate_has_queue [OF assms(2)] assms(2) by simp
  then obtain u where u: "(if active (timing_events s (save_event mc))
      then timing_event_deactivate (save_event mc) s else Some s) = Some u" "has_queue u" by blast
  have "has_queue (snd (memory_card_image_save_to_file h p d u))" for p d
    using assms(1) u(2) by (simp add: card_hooks_ok_def memory_card_image_save_to_file_def)
  then show ?thesis
    by (auto simp: memory_card_save_if_changed_def u Let_def split: prod.split) (metis snd_conv)
qed

lemma address_masked: "unat (w AND 0x3FF :: u16) < 1024"
proof -
  have "w AND 0x3FF = take_bit 10 w" by (simp add: take_bit_eq_mask mask_eq_exp_minus_1)
  then have "unat (w AND 0x3FF) = take_bit 10 (unat w)" by (simp only: unsigned_take_bit_eq)
  then show ?thesis by (simp add: take_bit_eq_mod)
qed

lemma address_steps [simp]:
  "card_ok (address_msb b mc) \<longleftrightarrow> unat (sector_offset mc) < 128" "card_ok (address_lsb b mc)"
  by (simp_all add: card_ok_def address_msb_def address_lsb_def address_masked)

lemma advance_ok: "card_ok mc \<Longrightarrow> card_ok (advance_sector st mc)"
  by (auto simp: card_ok_def advance_sector_def Let_def unat_word_ariths word_unat_eq_iff)

text \<open>The two data states, with what they do to the card alone.\<close>

definition read_step :: "memory_card \<Rightarrow> memory_card" where
  "read_step mc = advance_sector MEMORY_CARD_STATE_READ_CHECKSUM (mc\<lparr>card_checksum :=
     (if sector_offset mc = 0 then first_checksum (card_image mc (data_offset mc)) mc
      else card_checksum mc XOR card_image mc (data_offset mc))\<rparr>)"

definition write_step :: "u8 \<Rightarrow> memory_card \<Rightarrow> memory_card" where
  "write_step b mc = advance_sector MEMORY_CARD_STATE_WRITE_CHECKSUM (mc\<lparr>
     card_checksum := (if sector_offset mc = 0 then first_checksum b mc else card_checksum mc XOR b),
     card_flag := (if sector_offset mc = 0 then card_flag mc AND NOT MEMORY_CARD_FLAG_NO_WRITE_YET
                   else card_flag mc),
     card_changed := (card_changed mc \<or> card_image mc (data_offset mc) \<noteq> b),
     card_image := (card_image mc)(data_offset mc := b)\<rparr>)"

definition accessed_if :: "'s card_hooks \<Rightarrow> bool \<Rightarrow> 's \<Rightarrow> 's" where
  "accessed_if h b s = (if b then memory_card_on_accessed h s else s)"

lemma read_data_eq:
  "card_ok mc \<Longrightarrow> memory_card_read_data h mc s =
     Some (True, card_image mc (data_offset mc), read_step mc, accessed_if h (sector_offset mc = 0) s)"
  using card_ok_offset [of mc] by (auto simp: memory_card_read_data_def read_step_def accessed_if_def Let_def)

lemma write_data_eq:
  "card_ok mc \<Longrightarrow> memory_card_write_data h b mc s =
     map_option (\<lambda>s. (True, last_byte mc, write_step b mc, s))
       (if card_state (write_step b mc) = MEMORY_CARD_STATE_WRITE_CHECKSUM \<and> card_changed (write_step b mc)
        then memory_card_queue_file_save h (write_step b mc) (accessed_if h (sector_offset mc = 0) s)
        else Some (accessed_if h (sector_offset mc = 0) s))"
  using card_ok_offset [of mc]
  by (cases "sector_offset mc = 0")
    (simp_all add: memory_card_write_data_def write_step_def accessed_if_def Let_def data_offset_def)

lemma step_ok: "card_ok mc \<Longrightarrow> card_ok (read_step mc)" "card_ok mc \<Longrightarrow> card_ok (write_step b mc)"
  unfolding read_step_def write_step_def by (rule advance_ok, simp add: card_ok_def)+

lemma accessed_queue: "\<lbrakk>card_hooks_ok h; has_queue s\<rbrakk> \<Longrightarrow> has_queue (accessed_if h b s)"
  by (simp add: accessed_if_def card_hooks_ok_def)

lemma card_read_returns:
  assumes "card_hooks_ok h" "card_ok mc" "has_queue s"
  shows "\<exists>b mc' t. memory_card_read_data h mc s = Some (True, b, mc', t) \<and> card_ok mc' \<and> has_queue t"
  using step_ok(1) [OF assms(2)] accessed_queue [OF assms(1,3)] by (simp add: read_data_eq [OF assms(2)])

lemma card_write_returns:
  assumes "card_hooks_ok h" "card_ok mc" "has_queue s"
  shows "\<exists>b mc' t. memory_card_write_data h d mc s = Some (True, b, mc', t) \<and> card_ok mc' \<and> has_queue t"
proof -
  let ?s = "accessed_if h (sector_offset mc = 0) s"
  have s: "has_queue ?s" by (rule accessed_queue [OF assms(1,3)])
  then obtain t where "memory_card_queue_file_save h (write_step d mc) ?s = Some t" "has_queue t"
    using queue_save_returns by blast
  then show ?thesis using s step_ok(2) [OF assms(2)] by (simp add: write_data_eq [OF assms(2)])
qed

text \<open>Every byte is answered, and the invariant stays.\<close>

lemma transfer_returns:
  assumes "card_hooks_ok h" "card_ok mc" "has_queue s"
  shows "\<exists>ack out mc' t. memory_card_transfer h b out0 mc s = Some (ack, out, mc', t) \<and> card_ok mc' \<and> has_queue t"
proof -
  have ok: "card_ok (mc\<lparr>card_state := st\<rparr>) = card_ok mc" "card_ok (mc\<lparr>last_byte := l\<rparr>) = card_ok mc" for st l mc
    by (simp_all add: card_ok_def)
  have "\<exists>ack out mc' t. memory_card_switch (card_state mc) h b out0 mc s = Some (ack, out, mc', t) \<and>
      card_ok mc' \<and> has_queue t"
    using assms card_read_returns [OF assms] card_write_returns [OF assms, of b]
    by (cases "card_state mc") (auto simp: reply_def ok memory_card_command_def, auto simp: card_ok_def)
  then show ?thesis by (auto simp: memory_card_transfer_def ok)
qed

text \<open>What one byte does to the image, and when it is acknowledged.\<close>

lemma step_image:
  "card_image (read_step mc) = card_image mc"
  "card_image (write_step b mc) = (card_image mc)(data_offset mc := b)"
  by (simp_all add: read_step_def write_step_def advance_sector_def Let_def)

definition acknowledges :: "memory_card_state \<Rightarrow> u8 \<Rightarrow> bool" where
  "acknowledges st b \<longleftrightarrow> (case st of
     MEMORY_CARD_STATE_IDLE \<Rightarrow> b = 0x81
   | MEMORY_CARD_STATE_COMMAND \<Rightarrow> b \<in> {0x52, 0x53, 0x57}
   | MEMORY_CARD_STATE_WRITE_END \<Rightarrow> False
   | _ \<Rightarrow> True)"

lemma transfer_effect:
  assumes "memory_card_transfer h b out0 mc s = Some (ack, out, mc', t)" "card_ok mc"
  shows "card_image mc' = (if card_state mc = MEMORY_CARD_STATE_WRITE_DATA
      then (card_image mc)(data_offset mc := b) else card_image mc)"
    and "ack = acknowledges (card_state mc) b"
proof -
  obtain m where m: "memory_card_switch (card_state mc) h b out0 mc s = Some (ack, out, m, t)"
    "mc' = m\<lparr>last_byte := b\<rparr>"
    using assms(1) by (auto simp: memory_card_transfer_def)
  have "card_image m = (if card_state mc = MEMORY_CARD_STATE_WRITE_DATA
      then (card_image mc)(data_offset mc := b) else card_image mc) \<and> ack = acknowledges (card_state mc) b"
    using m(1) assms(2)
    by (cases "card_state mc")
      (auto simp: reply_def memory_card_command_def read_data_eq write_data_eq step_image acknowledges_def
         address_msb_def address_lsb_def split: if_splits)
  then show "card_image mc' = (if card_state mc = MEMORY_CARD_STATE_WRITE_DATA
      then (card_image mc)(data_offset mc := b) else card_image mc)" "ack = acknowledges (card_state mc) b"
    by (simp_all add: m(2))
qed

section \<open>Sessions\<close>

text \<open>The host sends the bytes one after the other; each is answered with a reply and an acknowledgement.\<close>

fun card_session ::
  "('a sched_sys_scheme) card_hooks \<Rightarrow> u8 list \<Rightarrow> memory_card \<Rightarrow> 'a sched_sys_scheme \<Rightarrow>
     ((bool \<times> u8) list \<times> memory_card \<times> 'a sched_sys_scheme) option" where
  "card_session h [] mc s = Some ([], mc, s)"
| "card_session h (b # bs) mc s =
     (case memory_card_transfer h b 0xFF mc s of
        None \<Rightarrow> None
      | Some (ack, out, mc, s) \<Rightarrow>
          map_option (\<lambda>(rs, mc, s). ((ack, out) # rs, mc, s)) (card_session h bs mc s))"

lemma card_session_append:
  "card_session h (xs @ ys) mc s = (case card_session h xs mc s of
     None \<Rightarrow> None
   | Some (rs, mc, s) \<Rightarrow> map_option (\<lambda>(qs, mc, s). (rs @ qs, mc, s)) (card_session h ys mc s))"
  by (induction xs arbitrary: mc s)
    (auto simp: option.map_comp comp_def case_prod_unfold option.map_ident split: option.split)

definition sector_base :: "memory_card \<Rightarrow> nat" where
  "sector_base mc = unat (card_address mc) * FRAME_SIZE"

definition address_sum :: "u16 \<Rightarrow> u8" where
  "address_sum a = ucast (drop_bit 8 a) XOR ucast a"

text \<open>The checksum so far: the address at the start of a sector.\<close>

definition running :: "memory_card \<Rightarrow> u8" where
  "running mc = (if sector_offset mc = 0 then address_sum (card_address mc) else card_checksum mc)"

lemma offset_suc: "unat o' < 128 \<Longrightarrow> unat (o' + 1 :: u8) = unat o' + 1"
  by (simp add: unat_word_ariths)

lemma offset_128: "o' + 1 = (128 :: u8) \<longleftrightarrow> unat o' = 127"
proof -
  have "(128 :: u8) = 127 + 1" by simp
  then have "o' + 1 = 128 \<longleftrightarrow> o' = 127" by (metis add_right_cancel)
  then show ?thesis by (simp add: word_unat_eq_iff)
qed

text \<open>Reading the rest of a sector.\<close>

lemma read_step_cases:
  assumes "card_ok mc"
  shows "read_step mc = (let c = running mc XOR card_image mc (data_offset mc)
    in if unat (sector_offset mc) = 127
       then mc\<lparr>card_checksum := c, sector_offset := 0, card_state := MEMORY_CARD_STATE_READ_CHECKSUM\<rparr>
       else mc\<lparr>card_checksum := c, sector_offset := sector_offset mc + 1\<rparr>)"
  by (auto simp: read_step_def advance_sector_def Let_def offset_128 running_def address_sum_def
      first_checksum_def xor.assoc)

lemma read_rest:
  assumes "card_state mc = MEMORY_CARD_STATE_READ_DATA" "card_ok mc"
    "unat (sector_offset mc) + length bs = 128"
  defines "xs \<equiv> map (\<lambda>i. card_image mc (sector_base mc + i)) [unat (sector_offset mc)..<128]"
  shows "card_session h bs mc s = Some (map (Pair True) xs,
     mc\<lparr>card_state := MEMORY_CARD_STATE_READ_CHECKSUM, card_checksum := foldl (XOR) (running mc) xs,
        sector_offset := 0, last_byte := last bs\<rparr>, accessed_if h (sector_offset mc = 0) s)"
  using assms(1-3) unfolding xs_def
proof (induction bs arbitrary: mc s)
  case Nil
  then show ?case by (simp add: card_ok_def)
next
  case (Cons b bs)
  let ?o = "unat (sector_offset mc)"
  have o: "?o < 128" using Cons.prems(2) by (simp add: card_ok_def)
  have off: "data_offset mc = sector_base mc + ?o" by (simp add: data_offset_def sector_base_def)
  let ?x = "card_image mc (sector_base mc + ?o)"
  have up: "[?o..<128] = ?o # [Suc ?o..<128]" using o by (simp add: upt_conv_Cons)
  show ?case
  proof (cases "?o = 127")
    case True
    then have "bs = []" using Cons.prems(3) by simp
    then show ?thesis using True Cons.prems(1,2)
      by (simp add: memory_card_transfer_def read_data_eq read_step_cases Let_def off up)
  next
    case False
    let ?m = "mc\<lparr>card_checksum := running mc XOR ?x, sector_offset := sector_offset mc + 1, last_byte := b\<rparr>"
    have o1: "unat (sector_offset mc + 1) = Suc ?o" using offset_suc [of "sector_offset mc"] o by simp
    have nz: "sector_offset mc + 1 \<noteq> 0" using o1 by (metis unat_0 nat.distinct(1))
    have "bs \<noteq> []" using Cons.prems(3) False by auto
    moreover have "running ?m = running mc XOR ?x" using nz by (simp add: running_def)
    moreover have "card_session h bs ?m (accessed_if h (sector_offset mc = 0) s) =
      Some (map (Pair True) (map (\<lambda>i. card_image ?m (sector_base ?m + i)) [unat (sector_offset ?m)..<128]),
        ?m\<lparr>card_state := MEMORY_CARD_STATE_READ_CHECKSUM,
           card_checksum := foldl (XOR) (running ?m)
             (map (\<lambda>i. card_image ?m (sector_base ?m + i)) [unat (sector_offset ?m)..<128]),
           sector_offset := 0, last_byte := last bs\<rparr>,
        accessed_if h (sector_offset ?m = 0) (accessed_if h (sector_offset mc = 0) s))"
      by (rule Cons.IH) (use Cons.prems o1 o False in \<open>auto simp: card_ok_def\<close>)
    ultimately show ?thesis using False Cons.prems(1,2) o1 nz
      by (simp add: memory_card_transfer_def read_data_eq read_step_cases Let_def off up
          sector_base_def accessed_if_def)
  qed
qed

text \<open>Writing the rest of a sector.\<close>

definition put_bytes :: "nat \<Rightarrow> u8 list \<Rightarrow> card_data \<Rightarrow> card_data" where
  "put_bytes off bs d = (\<lambda>a. if off \<le> a \<and> a < off + length bs then bs ! (a - off) else d a)"

lemma put_bytes_Cons: "put_bytes (Suc off) bs (d(off := b)) = put_bytes off (b # bs) d"
proof
  fix a
  show "put_bytes (Suc off) bs (d(off := b)) a = put_bytes off (b # bs) d a"
    by (cases "a = off") (auto simp: put_bytes_def nth_Cons')
qed

lemma write_step_cases:
  assumes "card_ok mc"
  shows "write_step b mc = (let m = mc\<lparr>card_checksum := running mc XOR b,
      card_flag := (if sector_offset mc = 0 then card_flag mc AND NOT MEMORY_CARD_FLAG_NO_WRITE_YET
                    else card_flag mc),
      card_changed := (card_changed mc \<or> card_image mc (data_offset mc) \<noteq> b),
      card_image := (card_image mc)(data_offset mc := b)\<rparr>
    in if unat (sector_offset mc) = 127
       then m\<lparr>sector_offset := 0, card_state := MEMORY_CARD_STATE_WRITE_CHECKSUM\<rparr>
       else m\<lparr>sector_offset := sector_offset mc + 1\<rparr>)"
  by (auto simp: write_step_def advance_sector_def Let_def offset_128 running_def address_sum_def
      first_checksum_def xor.assoc)

lemma write_rest:
  assumes "card_state mc = MEMORY_CARD_STATE_WRITE_DATA" "card_ok mc" "card_hooks_ok h" "has_queue s"
    "unat (sector_offset mc) + length bs = 128"
  defines "off \<equiv> sector_base mc + unat (sector_offset mc)"
  shows "\<exists>t. card_session h bs mc s = Some (map (Pair True) (last_byte mc # butlast bs),
     mc\<lparr>card_state := MEMORY_CARD_STATE_WRITE_CHECKSUM, card_checksum := foldl (XOR) (running mc) bs,
        sector_offset := 0, last_byte := last bs,
        card_flag := (if sector_offset mc = 0 then card_flag mc AND NOT MEMORY_CARD_FLAG_NO_WRITE_YET
                      else card_flag mc),
        card_changed := (card_changed mc \<or> put_bytes off bs (card_image mc) \<noteq> card_image mc),
        card_image := put_bytes off bs (card_image mc)\<rparr>, t) \<and> has_queue t"
  using assms(1,2,4,5) unfolding off_def
proof (induction bs arbitrary: mc s)
  case Nil
  then show ?case by (simp add: card_ok_def)
next
  case (Cons b bs)
  let ?o = "unat (sector_offset mc)"
  let ?s = "accessed_if h (sector_offset mc = 0) s"
  let ?f = "if sector_offset mc = 0 then card_flag mc AND NOT MEMORY_CARD_FLAG_NO_WRITE_YET else card_flag mc"
  have o: "?o < 128" using Cons.prems(2) by (simp add: card_ok_def)
  have off: "data_offset mc = sector_base mc + ?o" by (simp add: data_offset_def sector_base_def)
  have s: "has_queue ?s" by (rule accessed_queue [OF assms(3) Cons.prems(3)])
  have st: "\<exists>t. memory_card_queue_file_save h m ?s = Some t \<and> has_queue t" for m
    by (rule queue_save_returns [OF s])
  show ?case
  proof (cases "?o = 127")
    case True
    then have bs: "bs = []" using Cons.prems(4) by simp
    have put: "put_bytes (sector_base mc + 127) [b] (card_image mc) = (card_image mc)(sector_base mc + 127 := b)"
      by (auto simp: put_bytes_def)
    have ne: "(card_image mc)(a := b) \<noteq> card_image mc \<longleftrightarrow> card_image mc a \<noteq> b" for a
      by (metis fun_upd_apply fun_upd_idem_iff)
    let ?m = "write_step b mc"
    obtain t where t: "memory_card_queue_file_save h ?m ?s = Some t" "has_queue t" using st by blast
    define u where "u = (if card_changed ?m then t else ?s)"
    have "card_state ?m = MEMORY_CARD_STATE_WRITE_CHECKSUM"
      using True Cons.prems(2) by (simp add: write_step_cases Let_def)
    then have "memory_card_transfer h b 0xFF mc s = Some (True, last_byte mc, ?m\<lparr>last_byte := b\<rparr>, u)"
      using Cons.prems(1,2) t(1)
      by (cases "card_changed ?m") (simp_all add: memory_card_transfer_def write_data_eq u_def)
    moreover have "has_queue u" using t(2) s by (simp add: u_def)
    moreover have "?m\<lparr>last_byte := b\<rparr> = mc\<lparr>card_state := MEMORY_CARD_STATE_WRITE_CHECKSUM,
        card_checksum := running mc XOR b, sector_offset := 0, last_byte := b, card_flag := ?f,
        card_changed := (card_changed mc \<or> put_bytes (sector_base mc + 127) [b] (card_image mc) \<noteq> card_image mc),
        card_image := put_bytes (sector_base mc + 127) [b] (card_image mc)\<rparr>"
      using True Cons.prems(2) unfolding put ne by (simp add: write_step_cases Let_def off)
    ultimately show ?thesis using True by (simp add: bs)
  next
    case False
    let ?m = "mc\<lparr>card_checksum := running mc XOR b, card_flag := ?f,
      card_changed := (card_changed mc \<or> card_image mc (data_offset mc) \<noteq> b),
      card_image := (card_image mc)(data_offset mc := b), sector_offset := sector_offset mc + 1,
      last_byte := b\<rparr>"
    have o1: "unat (sector_offset mc + 1) = Suc ?o" using offset_suc [of "sector_offset mc"] o by simp
    have nz: "sector_offset mc + 1 \<noteq> 0" using o1 by (metis unat_0 nat.distinct(1))
    have ne: "bs \<noteq> []" using Cons.prems(4) False by auto
    have run: "running ?m = running mc XOR b" using nz by (simp add: running_def)
    have base: "sector_base ?m + unat (sector_offset ?m) = Suc (data_offset mc)"
      using o1 by (simp add: sector_base_def data_offset_def)
    let ?put = "put_bytes (data_offset mc) (b # bs) (card_image mc)"
    have put: "put_bytes (Suc (data_offset mc)) bs (card_image ?m) = ?put"
      by (simp add: put_bytes_Cons)
    have ch: "(card_changed mc \<or> card_image mc (data_offset mc) \<noteq> b) \<or> ?put \<noteq> (card_image mc)(data_offset mc := b) \<longleftrightarrow>
        card_changed mc \<or> ?put \<noteq> card_image mc"
    proof -
      have "?put (data_offset mc) = b" by (simp add: put_bytes_def)
      then show ?thesis by (cases "card_image mc (data_offset mc) = b") auto
    qed
    have prem: "card_state ?m = MEMORY_CARD_STATE_WRITE_DATA" "card_ok ?m"
      "unat (sector_offset ?m) + length bs = 128"
      using Cons.prems o1 o False by (simp_all add: card_ok_def)
    obtain t where t: "card_session h bs ?m ?s = Some (map (Pair True) (last_byte ?m # butlast bs),
       ?m\<lparr>card_state := MEMORY_CARD_STATE_WRITE_CHECKSUM, card_checksum := foldl (XOR) (running ?m) bs,
        sector_offset := 0, last_byte := last bs,
        card_flag := (if sector_offset ?m = 0 then card_flag ?m AND NOT MEMORY_CARD_FLAG_NO_WRITE_YET
                      else card_flag ?m),
        card_changed := (card_changed ?m \<or> ?put \<noteq> card_image ?m), card_image := ?put\<rparr>, t)"
      "has_queue t"
      using Cons.IH [OF prem(1,2) s prem(3)] unfolding base put by blast
    have "card_session h (b # bs) mc s = map_option (\<lambda>(rs, mc, s). ((True, last_byte mc') # rs, mc, s))
        (card_session h bs ?m ?s)" if "mc' = mc" for mc'
      using that False Cons.prems(1,2)
      by (simp add: memory_card_transfer_def write_data_eq write_step_cases Let_def)
    note step = this [OF refl]
    have "?m\<lparr>card_state := MEMORY_CARD_STATE_WRITE_CHECKSUM, card_checksum := foldl (XOR) (running ?m) bs,
        sector_offset := 0, last_byte := last bs,
        card_flag := (if sector_offset ?m = 0 then card_flag ?m AND NOT MEMORY_CARD_FLAG_NO_WRITE_YET
                      else card_flag ?m),
        card_changed := (card_changed ?m \<or> ?put \<noteq> card_image ?m), card_image := ?put\<rparr> =
      mc\<lparr>card_state := MEMORY_CARD_STATE_WRITE_CHECKSUM, card_checksum := foldl (XOR) (running mc) (b # bs),
        sector_offset := 0, last_byte := last (b # bs), card_flag := ?f,
        card_changed := (card_changed mc \<or> ?put \<noteq> card_image mc), card_image := ?put\<rparr>"
      unfolding run by (rule memory_card.equality) (simp_all add: nz ne del: fun_upd_apply, use ch in blast)
    then show ?thesis unfolding step using t ne by (simp add: off [symmetric])
  qed
qed

section \<open>Whole commands\<close>

definition sector_address :: "u8 \<Rightarrow> u8 \<Rightarrow> u16" where
  "sector_address msb lsb = (push_bit 8 (ucast msb) OR ucast lsb) AND 0x3FF"

lemma address_loaded [simp]:
  "card_address (address_lsb lsb (address_msb msb mc)) = sector_address msb lsb"
proof -
  have m: "(0x00FF :: u16) = mask 8" "(0xFF00 :: u16) = push_bit 8 (mask 8)" "(0x3FF :: u16) = mask 10"
    by (simp_all add: mask_eq_exp_minus_1 push_bit_eq_mult)
  show ?thesis
    by (rule bit_word_eqI) (auto simp: address_lsb_def address_msb_def sector_address_def m bit_simps)
qed

lemma sector_address_range: "unat (sector_address msb lsb) < 1024"
  by (simp add: sector_address_def address_masked)

definition card_sector :: "card_data \<Rightarrow> u16 \<Rightarrow> u8 list" where
  "card_sector d a = map (\<lambda>i. d (unat a * FRAME_SIZE + i)) [0..<128]"

definition sector_sum :: "u16 \<Rightarrow> u8 list \<Rightarrow> u8" where
  "sector_sum a bs = foldl (XOR) (address_sum a) bs"

text \<open>The bytes a host sends to read and to write a sector; the \<open>x\<close> are ignored.\<close>

definition read_header :: "(nat \<Rightarrow> u8) \<Rightarrow> u8 \<Rightarrow> u8 \<Rightarrow> u8 list" where
  "read_header x msb lsb = [0x81, 0x52, x 0, x 1, msb, lsb, x 2, x 3, x 4, x 5]"

definition write_header :: "(nat \<Rightarrow> u8) \<Rightarrow> u8 \<Rightarrow> u8 \<Rightarrow> u8 list" where
  "write_header x msb lsb = [0x81, 0x57, x 0, x 1, msb, lsb]"

lemma read_header_session:
  fixes msb lsb
  assumes "card_state mc = MEMORY_CARD_STATE_IDLE"
  defines "a \<equiv> sector_address msb lsb"
  shows "card_session h (read_header x msb lsb) mc s = Some (map (Pair True)
       [0xFF, card_flag mc, 0x5A, 0x5D, 0, msb, 0x5C, 0x5D, ucast (drop_bit 8 a), ucast a],
     mc\<lparr>card_state := MEMORY_CARD_STATE_READ_DATA, card_address := a, sector_offset := 0,
        last_byte := x 5\<rparr>, s)"
  using assms(1) address_loaded [of lsb msb mc]
  by (simp add: read_header_def memory_card_transfer_def reply_def memory_card_command_def a_def
      address_msb_def address_lsb_def)

lemma write_header_session:
  assumes "card_state mc = MEMORY_CARD_STATE_IDLE"
  shows "card_session h (write_header x msb lsb) mc s = Some (map (Pair True)
       [0xFF, card_flag mc, 0x5A, 0x5D, 0, msb],
     mc\<lparr>card_state := MEMORY_CARD_STATE_WRITE_DATA, card_address := sector_address msb lsb,
        sector_offset := 0, last_byte := lsb\<rparr>, s)"
  using assms(1) address_loaded [of lsb msb mc]
  by (simp add: write_header_def memory_card_transfer_def reply_def memory_card_command_def
      address_msb_def address_lsb_def)

lemma read_sector_session:
  fixes msb lsb
  assumes st: "card_state mc = MEMORY_CARD_STATE_IDLE" and len: "length fill = 128"
  defines "a \<equiv> sector_address msb lsb"
  shows "card_session h (read_header x msb lsb @ fill @ [y, z]) mc s = Some (map (Pair True)
       ([0xFF, card_flag mc, 0x5A, 0x5D, 0, msb, 0x5C, 0x5D, ucast (drop_bit 8 a), ucast a] @
        card_sector (card_image mc) a @ [sector_sum a (card_sector (card_image mc) a), 0x47]),
     mc\<lparr>card_address := a, sector_offset := 0, last_byte := z,
        card_checksum := sector_sum a (card_sector (card_image mc) a)\<rparr>, memory_card_on_accessed h s)"
proof -
  let ?m = "mc\<lparr>card_state := MEMORY_CARD_STATE_READ_DATA, card_address := a, sector_offset := 0,
        last_byte := x 5\<rparr>"
  have "card_ok ?m" by (simp add: card_ok_def a_def sector_address_range)
  note r = read_rest [of ?m fill h s, OF _ this]
  have "card_session h fill ?m s = Some (map (Pair True) (card_sector (card_image mc) a),
     ?m\<lparr>card_state := MEMORY_CARD_STATE_READ_CHECKSUM,
        card_checksum := sector_sum a (card_sector (card_image mc) a), sector_offset := 0,
        last_byte := last fill\<rparr>, memory_card_on_accessed h s)"
    using r len
    by (simp add: card_sector_def sector_sum_def running_def sector_base_def accessed_if_def del: foldl_map upt_Suc)
  then show ?thesis
    using read_header_session [OF st, of h x msb lsb s, folded a_def] st
    by (simp add: card_session_append memory_card_transfer_def reply_def)
qed

lemma write_sector_session:
  fixes msb lsb
  assumes st: "card_state mc = MEMORY_CARD_STATE_IDLE" and len: "length bs = 128"
    and ok: "card_hooks_ok h" "has_queue s"
  defines "a \<equiv> sector_address msb lsb"
  defines "d \<equiv> put_bytes (unat a * FRAME_SIZE) bs (card_image mc)"
  shows "\<exists>t. card_session h (write_header x msb lsb @ bs @ [c, y, z, w]) mc s = Some (map (Pair True)
       ([0xFF, card_flag mc, 0x5A, 0x5D, 0, msb] @ (lsb # butlast bs) @ [sector_sum a bs, 0x5C, 0x5D]) @
       [(False, 0x47)],
     mc\<lparr>card_address := a, sector_offset := 0, last_byte := w, card_checksum := sector_sum a bs,
        card_flag := card_flag mc AND NOT MEMORY_CARD_FLAG_NO_WRITE_YET,
        card_changed := (card_changed mc \<or> d \<noteq> card_image mc), card_image := d\<rparr>, t) \<and> has_queue t"
proof -
  let ?m = "mc\<lparr>card_state := MEMORY_CARD_STATE_WRITE_DATA, card_address := a, sector_offset := 0,
        last_byte := lsb\<rparr>"
  have m: "card_ok ?m" by (simp add: card_ok_def a_def sector_address_range)
  have "\<exists>t. card_session h bs ?m s = Some (map (Pair True) (lsb # butlast bs),
     ?m\<lparr>card_state := MEMORY_CARD_STATE_WRITE_CHECKSUM, card_checksum := sector_sum a bs,
        sector_offset := 0, last_byte := last bs,
        card_flag := card_flag mc AND NOT MEMORY_CARD_FLAG_NO_WRITE_YET,
        card_changed := (card_changed mc \<or> d \<noteq> card_image mc), card_image := d\<rparr>, t) \<and> has_queue t"
    using write_rest [of ?m h s bs, OF _ m ok] len
    by (simp add: sector_sum_def running_def sector_base_def d_def)
  then obtain t where "card_session h bs ?m s = Some (map (Pair True) (lsb # butlast bs),
     ?m\<lparr>card_state := MEMORY_CARD_STATE_WRITE_CHECKSUM, card_checksum := sector_sum a bs,
        sector_offset := 0, last_byte := last bs,
        card_flag := card_flag mc AND NOT MEMORY_CARD_FLAG_NO_WRITE_YET,
        card_changed := (card_changed mc \<or> d \<noteq> card_image mc), card_image := d\<rparr>, t)" "has_queue t" by blast
  then show ?thesis
    using write_header_session [OF st, of h x msb lsb s, folded a_def] st
    by (simp add: card_session_append memory_card_transfer_def reply_def)
qed

lemma sector_put: "\<lbrakk>length bs = 128; b = a\<rbrakk> \<Longrightarrow> card_sector (put_bytes (unat a * FRAME_SIZE) bs d) b = bs"
  by (intro nth_equalityI) (auto simp: card_sector_def put_bytes_def)

lemma sector_put_other:
  assumes "length bs = 128" "b \<noteq> a"
  shows "card_sector (put_bytes (unat a * FRAME_SIZE) bs d) b = card_sector d b"
proof -
  have "unat b \<noteq> unat a" using assms(2) by (simp add: word_unat_eq_iff)
  then have "\<not> (unat a * 128 \<le> unat b * 128 + i \<and> unat b * 128 + i < unat a * 128 + 128)"
    if "i < 128" for i
    using that by (cases "unat b < unat a") auto
  then show ?thesis using assms(1) by (auto simp: card_sector_def put_bytes_def card_sizes)
qed

end
