(* ===== verification/Card_Spec.thy ===== *)
theory Card_Spec
  imports Card_Saves Card_Format Memory_Card_Props Power_On
begin

text \<open>The properties of the memory card and its file system, with their witnesses.\<close>

section \<open>The file system\<close>

text \<open>
  Formatting makes a valid, empty card out of anything: fifteen free blocks, no files, and
  a right checksum in every frame that has one.
\<close>

lemma formatted_card:
  "memory_card_image_is_valid (memory_card_image_format d) \<and>
   memory_card_image_get_free_block_count (memory_card_image_format d) = 15 \<and>
   memory_card_image_enumerate_files sjis (memory_card_image_format d) incl = Some [] \<and>
   list_all (\<lambda>fr. memory_card_image_format d (dir_ptr fr + 127) =
      frame_checksum (memory_card_image_format d) (dir_ptr fr)) (63 # [0..<36])"
  using formatted_valid formatted_empty formatted_checksums
  by (auto simp: free_block_count_length checksum_ok_def list_all_iff simp del: upt_Suc upt_rec_numeral)

text \<open>
  C20.  A save file that is written reads back as it was, padded with zeros to whole blocks: it
  is refused exactly when it is empty or does not fit, and then the card stays as it was;
  otherwise it takes as many free blocks as it needs, its directory frames have right
  checksums, and no other directory frame or block changes.
\<close>

theorem saved_file_reads_back:
  assumes "directory_ok d" "length buf < 2 ^ 32"
  shows "if buf = [] then memory_card_image_write_file name buf d = Some (Some EmptyBuffer, d)
    else if memory_card_image_get_free_block_count d < blocks_needed (length buf)
    then memory_card_image_write_file name buf d = Some (Some InsufficientBlocks, d)
    else \<exists>e bs. memory_card_image_write_file name buf d = Some (None, e) \<and>
      length bs = blocks_needed (length buf) \<and> set bs \<subseteq> {1..<16} \<and>
      memory_card_image_read_file e (file_at bs) = Some (Inr (padded (length bs) buf)) \<and>
      memory_card_image_get_free_block_count e + length bs = memory_card_image_get_free_block_count d \<and>
      Ball (set bs) (\<lambda>b. checksum_ok b e) \<and>
      Ball ({0..<64} - set bs) (\<lambda>fr. same_frame fr d e) \<and>
      Ball ({1..<16} - set bs) (\<lambda>b. same_block b d e)"
proof (cases "buf = [] \<or> length (free_blocks d) < blocks_needed (length buf)")
  case True
  then show ?thesis using write_file_refused by (auto simp: free_block_count_length)
next
  case False
  define bs where "bs = take (blocks_needed (length buf)) (free_blocks d)"
  have len: "length bs = blocks_needed (length buf)" using False by (simp add: bs_def)
  have ne: "buf \<noteq> []" and fits: "blocks_needed (length buf) \<le> length (free_blocks d)" using False by auto
  obtain e where e: "memory_card_image_write_file name buf d = Some (None, e)"
    "stored e bs (padded (length bs) buf)" "free_blocks e = drop (length bs) (free_blocks d)"
    "dir_entry e (hd bs) = (of_nat (length buf), name_field name (min (length name) FILE_TOTAL_LEN))"
    "\<forall>fr. fr < 64 \<and> fr \<notin> set bs \<longrightarrow> same_frame fr d e" "\<forall>b. 0 < b \<and> b \<notin> set bs \<longrightarrow> same_block b d e"
    by (rule write_file_stored [OF assms(1) ne assms(2) fits, where name = name, folded bs_def])
  have "set bs \<subseteq> {1..<16}" "Ball (set bs) (\<lambda>b. checksum_ok b e)"
    using e(2) by (auto simp: stored_def card_sizes)
  moreover have "memory_card_image_read_file e (file_at bs) = Some (Inr (padded (length bs) buf))"
    by (rule read_file_stored [OF e(2)]) (simp_all add: file_at_def)
  ultimately show ?thesis using False e len
    by (auto simp: free_block_count_length intro!: exI [of _ e] exI [of _ bs])
qed

theorem saved_file_reads_back_witness:
  "\<exists>e bs. memory_card_image_write_file [0x41] [1, 2, 3] (memory_card_image_format (\<lambda>_. 0)) = Some (None, e) \<and>
     length bs = 1 \<and> memory_card_image_read_file e (file_at bs) = Some (Inr (padded 1 [1, 2, 3])) \<and>
     memory_card_image_get_free_block_count e = 14"
proof -
  let ?d = "memory_card_image_format (\<lambda>_. 0)"
  have n: "blocks_needed (length [1 :: u8, 2, 3]) = 1" by (simp add: blocks_needed_def card_sizes)
  have c: "memory_card_image_get_free_block_count ?d = 15"
    by (simp add: free_block_count_length del: upt_rec_numeral)
  obtain e bs where "memory_card_image_write_file [0x41] [1, 2, 3] ?d = Some (None, e)" "length bs = 1"
    "memory_card_image_read_file e (file_at bs) = Some (Inr (padded (length bs) [1, 2, 3]))"
    "memory_card_image_get_free_block_count e + length bs = 15"
    using saved_file_reads_back [OF formatted_directory_ok, of "[1, 2, 3]" "[0x41]" "\<lambda>_. 0"] unfolding n c by auto
  then show ?thesis by (intro exI [of _ e] exI [of _ bs]) simp
qed

text \<open>
  C24.  Deleting a file makes all its blocks free again, and no others: the free count grows by
  the length of its chain, other directory frames and all data blocks stay, the links are
  cut, and the directory frames' checksums are right.
\<close>

theorem deletion_frees_blocks:
  assumes "stored d bs c" "fi_first_block fi = hd bs" "fi_num_blocks fi = length bs"
    and "e = memory_card_image_delete_file fi clear_sectors d"
  shows "memory_card_image_get_free_block_count e = memory_card_image_get_free_block_count d + length bs \<and>
    set (free_blocks e) = set (free_blocks d) \<union> set bs \<and>
    (\<forall>fr. fr \<notin> set bs \<longrightarrow> same_frame fr d e) \<and> (\<forall>b. 0 < b \<longrightarrow> same_block b d e) \<and>
    (\<forall>k < length bs. next_block_number e (bs ! k) = 0xFFFF \<and> checksum_ok (bs ! k) e \<and>
       block_allocation_state e (bs ! k) =
         (if clear_sectors then 0xA0 else deleted_state (length bs) k))"
  unfolding free_block_count_length assms(4)
  using delete_file_frees [OF assms(1-3), where cl = clear_sectors] by blast

text \<open>A file of one block on a formatted card.\<close>

lemma small_file:
  "\<exists>e bs. memory_card_image_write_file [0x41] (replicate 8192 7) (memory_card_image_format (\<lambda>_. 0)) = Some (None, e) \<and>
     stored e bs (replicate 8192 7) \<and> length bs = 1 \<and> free_blocks e = [2..<16] \<and>
     dir_entry e (hd bs) = (0x2000, name_field [0x41] 1)"
proof -
  let ?d = "memory_card_image_format (\<lambda>_. 0)" and ?buf = "replicate 8192 (7 :: u8)"
  have n: "blocks_needed (length ?buf) = 1" by (simp add: blocks_needed_def card_sizes)
  have w: "take 1 (free_blocks ?d) = [1]" "drop 1 (free_blocks ?d) = [2..<16]"
    by (simp_all add: upt_conv_Cons)
  have p: "padded 1 ?buf = ?buf" by (simp add: padded_def card_sizes)
  have fits: "blocks_needed (length ?buf) \<le> length (free_blocks ?d)"
    unfolding n by (simp del: upt_rec_numeral)
  have buf: "?buf \<noteq> []" "length ?buf < 2 ^ 32" by simp_all
  have l: "length [1 :: nat] = 1" "min (length [0x41 :: u8]) FILE_TOTAL_LEN = 1"
    "(of_nat (length ?buf) :: u32) = 0x2000" by (simp_all add: card_sizes)
  obtain e where "memory_card_image_write_file [0x41] ?buf ?d = Some (None, e)"
    "stored e [1] (padded (length [1 :: nat]) ?buf)" "free_blocks e = drop (length [1 :: nat]) (free_blocks ?d)"
    "dir_entry e (hd [1]) = (of_nat (length ?buf), name_field [0x41] (min (length [0x41 :: u8]) FILE_TOTAL_LEN))"
    by (rule write_file_stored [OF formatted_directory_ok buf fits, where name = "[0x41]", unfolded n w(1)])
  then have "memory_card_image_write_file [0x41] ?buf ?d = Some (None, e)" "stored e [1] ?buf"
    "free_blocks e = [2..<16]" "dir_entry e (hd [1]) = (0x2000, name_field [0x41] 1)"
    unfolding l p w(2) by simp_all
  then show ?thesis by (intro exI [of _ e] exI [of _ "[1]"]) (simp del: upt_rec_numeral)
qed

theorem deletion_frees_blocks_witness:
  "\<exists>d bs. stored d bs (replicate 8192 7) \<and> memory_card_image_get_free_block_count d = 14 \<and>
     memory_card_image_get_free_block_count (memory_card_image_delete_file (file_at bs) False d) = 15"
proof -
  obtain e bs where e: "stored e bs (replicate 8192 7)" "length bs = 1" "free_blocks e = [2..<16]"
    using small_file by blast
  have "fi_first_block (file_at bs) = hd bs" "fi_num_blocks (file_at bs) = length bs"
    by (simp_all add: file_at_def)
  from deletion_frees_blocks [OF e(1) this refl, of False] e show ?thesis
    by (intro exI [of _ e] exI [of _ bs]) (simp add: free_block_count_length del: upt_rec_numeral)
qed

text \<open>
  C23.  A save of whole blocks that is exported from one card and imported into another arrives
  with the same contents, size and name, provided it fits and the name is new there.
\<close>

theorem save_exported_imported:
  assumes "stored d bs c" "file_size d (hd bs) = of_nat (length c)"
    and "length (c_string (dir_filename d (hd bs))) \<le> FILE_TOTAL_LEN"
    and "directory_ok t" "length bs \<le> memory_card_image_get_free_block_count t"
    and "memory_card_image_enumerate_files sjis t True = Some fis"
      "Ball (set fis) (\<lambda>fi. fi_filename fi \<noteq> c_string (dir_filename d (hd bs)))"
  shows "\<exists>f e cs. memory_card_image_export_save (file_at bs) d = Some (Inr f) \<and>
    memory_card_image_import_save sjis ''save.MCS'' (Some f) t = Some (None, e) \<and>
    memory_card_image_read_file e (file_at cs) = Some (Inr c) \<and> length cs = length bs \<and>
    file_size e (hd cs) = file_size d (hd bs) \<and>
    c_string (dir_filename e (hd cs)) = c_string (dir_filename d (hd bs))"
proof -
  define f where "f = map (\<lambda>i. d (dir_ptr (hd bs) + i)) [0..<FRAME_SIZE] @ c"
  define cs where "cs = take (length bs) (free_blocks t)"
  have at: "fi_first_block (file_at bs) = hd bs" "fi_num_blocks (file_at bs) = length bs" for bs
    by (simp_all add: file_at_def)
  note free = assms(5) [unfolded free_block_count_length]
  obtain e where e: "import_save_with_directory_frame sjis f t = Some (None, e)" "stored e cs c"
    "file_size e (hd cs) = file_size d (hd bs)"
    "c_string (dir_filename e (hd cs)) = c_string (dir_filename d (hd bs))"
    by (rule import_exported [OF assms(1-4) free assms(6,7), folded f_def cs_def])
  have "memory_card_image_import_save sjis ''save.MCS'' (Some f) t = Some (None, e)"
    using e(1) by (simp add: memory_card_image_import_save_def f_def card_sizes path_get_extension_def
        equal_no_case_def lower_char_def Let_def del: upt_rec_numeral)
  moreover have "length cs = length bs" using free by (simp add: cs_def)
  ultimately show ?thesis
    using export_stored [OF assms(1) at, folded f_def] read_file_stored [OF e(2) at] e by blast
qed

theorem save_exported_imported_witness:
  "\<exists>d bs f e cs. memory_card_image_export_save (file_at bs) d = Some (Inr f) \<and>
    memory_card_image_import_save (\<lambda>_. None) ''save.MCS'' (Some f) (memory_card_image_format (\<lambda>_. 9)) = Some (None, e) \<and>
    memory_card_image_read_file e (file_at cs) = Some (Inr (replicate 8192 7))"
proof -
  obtain d bs where d: "stored d bs (replicate 8192 7)" "length bs = 1"
    "dir_entry d (hd bs) = (0x2000, name_field [0x41] 1)"
    using small_file by blast
  have n: "c_string (dir_filename d (hd bs)) = [0x41]"
    using d(3) c_string_name_field [of "[0x41]"] by (simp add: dir_entry_def card_sizes)
  have s: "file_size d (hd bs) = of_nat (length (replicate 8192 (7 :: u8)))" using d(3) by (simp add: dir_entry_def)
  have l: "length (c_string (dir_filename d (hd bs))) \<le> FILE_TOTAL_LEN" by (simp add: n card_sizes)
  have f: "length bs \<le> memory_card_image_get_free_block_count (memory_card_image_format (\<lambda>_. 9))"
    by (simp add: d free_block_count_length del: upt_rec_numeral)
  show ?thesis
    using save_exported_imported [OF d(1) s l formatted_directory_ok f formatted_empty, where sjis = "\<lambda>_. None"]
    by (simp del: upt_rec_numeral) blast
qed

section \<open>The protocol\<close>

text \<open>
  C22.  Whatever bytes the host sends, the card answers each one and stays within its image: the
  sector address is below 1024, the offset below 128, a byte is stored only in the data phase
  of a write and only at the current offset, and the acknowledgement depends on the state and the
  byte alone.
\<close>

theorem card_bytes_safe:
  assumes "card_hooks_ok h" "card_ok mc" "has_queue s"
  shows "\<exists>out mc' t. memory_card_transfer h b out0 mc s = Some (acknowledges (card_state mc) b, out, mc', t) \<and>
    card_ok mc' \<and> has_queue t \<and> data_offset mc < DATA_SIZE \<and>
    card_image mc' = (if card_state mc = MEMORY_CARD_STATE_WRITE_DATA
      then (card_image mc)(data_offset mc := b) else card_image mc)"
proof -
  obtain ack out mc' t where t: "memory_card_transfer h b out0 mc s = Some (ack, out, mc', t)"
    "card_ok mc'" "has_queue t"
    using transfer_returns [OF assms, of b out0] by blast
  note e = transfer_effect [OF t(1) assms(2)]
  show ?thesis using t(1) [unfolded e(2)] t(2,3) e(1) card_ok_offset [OF assms(2)] by blast
qed

definition host_silent :: "('a sched_sys_scheme) card_hooks" where
  "host_silent = \<lparr>system_get_ticks_per_second = None, system_on_memory_card_accessed = None,
     read_host_file = (\<lambda>_ _. None), write_host_file = (\<lambda>_ _ s. (True, s))\<rparr>"

definition blank_card :: memory_card where
  "blank_card = \<lparr>card_path = Some ''card.mcd'', card_index = 0, card_state = MEMORY_CARD_STATE_IDLE,
     card_flag = MEMORY_CARD_FLAG_NO_WRITE_YET, card_address = 0, sector_offset = 0, card_checksum = 0,
     last_byte = 0, card_changed = False, card_image = (\<lambda>_. 0)\<rparr>"

lemma host_silent_ok [simp]: "card_hooks_ok host_silent"
  by (simp add: card_hooks_ok_def host_silent_def memory_card_on_accessed_def)

lemma blank_card_ok [simp]: "card_ok blank_card" "card_state blank_card = MEMORY_CARD_STATE_IDLE"
  by (simp_all add: blank_card_def card_ok_def)

lemma machine_has_queue [simp]: "has_queue machine_zero"
  unfolding has_queue_def by (rule exI, rule machine_queue(1))

theorem card_bytes_safe_witness:
  "\<exists>out mc t. memory_card_transfer host_silent 0x81 0xFF blank_card machine_zero = Some (True, out, mc, t) \<and>
     card_ok mc \<and> card_image mc = (\<lambda>_. 0)"
  using card_bytes_safe [OF host_silent_ok blank_card_ok(1) machine_has_queue, of "0x81" "0xFF"]
  by (auto simp: acknowledges_def) (auto simp: blank_card_def)

text \<open>
  C21.  A sector written over the bus reads back over the bus: the write ends unacknowledged with
  the good-data byte, the read returns the 128 bytes, their checksum with the address and the
  end byte, the other sectors keep their contents, and the card knows it has been written.
\<close>

theorem sector_round_trip:
  assumes "card_hooks_ok h" "has_queue s" "card_state mc = MEMORY_CARD_STATE_IDLE"
    and "length bs = 128" "length fill = 128"
  shows "\<exists>rs mc' t. card_session h (write_header x msb lsb @ bs @ [chk, y, z, w]) mc s =
      Some (rs @ [(False, 0x47)], mc', t) \<and> list_all fst rs \<and>
    (\<exists>qs mc'' u. card_session h (read_header x msb lsb @ fill @ [y, z]) mc' t = Some (qs, mc'', u) \<and>
       list_all fst qs \<and>
       drop 10 (map snd qs) = bs @ [sector_sum (sector_address msb lsb) bs, 0x47] \<and>
       card_image mc'' = card_image mc') \<and>
    (\<forall>a. a \<noteq> sector_address msb lsb \<longrightarrow> card_sector (card_image mc') a = card_sector (card_image mc) a) \<and>
    card_flag mc' AND MEMORY_CARD_FLAG_NO_WRITE_YET = 0 \<and>
    card_changed mc' = (card_changed mc \<or> card_image mc' \<noteq> card_image mc)"
proof -
  let ?a = "sector_address msb lsb" and ?d = "put_bytes (unat (sector_address msb lsb) * FRAME_SIZE) bs (card_image mc)"
  let ?m = "mc\<lparr>card_address := ?a, sector_offset := 0, last_byte := w, card_checksum := sector_sum ?a bs,
        card_flag := card_flag mc AND NOT MEMORY_CARD_FLAG_NO_WRITE_YET,
        card_changed := (card_changed mc \<or> ?d \<noteq> card_image mc), card_image := ?d\<rparr>"
  obtain t where t: "card_session h (write_header x msb lsb @ bs @ [chk, y, z, w]) mc s = Some (map (Pair True)
       ([0xFF, card_flag mc, 0x5A, 0x5D, 0, msb] @ (lsb # butlast bs) @ [sector_sum ?a bs, 0x5C, 0x5D]) @
       [(False, 0x47)], ?m, t)"
    using write_sector_session [OF assms(3,4,1,2)] by blast
  have "card_state ?m = MEMORY_CARD_STATE_IDLE" using assms(3) by simp
  note r = read_sector_session [OF this assms(5), of h x msb lsb y z t]
  have sec: "card_sector ?d ?a = bs" by (rule sector_put [OF assms(4) refl])
  have others: "card_sector ?d a = card_sector (card_image mc) a" if "a \<noteq> ?a" for a
    by (rule sector_put_other [OF assms(4) that])
  have flag: "(card_flag mc AND NOT MEMORY_CARD_FLAG_NO_WRITE_YET) AND MEMORY_CARD_FLAG_NO_WRITE_YET = 0"
    by (rule bit_word_eqI) (auto simp: bit_simps)
  let ?rs = "map (Pair True) ([0xFF, card_flag mc, 0x5A, 0x5D, 0, msb] @ (lsb # butlast bs) @
      [sector_sum ?a bs, 0x5C, 0x5D])"
  have "list_all fst ?rs" by (simp add: list_all_iff)
  moreover have "\<exists>qs mc'' u. card_session h (read_header x msb lsb @ fill @ [y, z]) ?m t = Some (qs, mc'', u) \<and>
      list_all fst qs \<and> drop 10 (map snd qs) = bs @ [sector_sum ?a bs, 0x47] \<and> card_image mc'' = card_image ?m"
    unfolding r by (simp add: list_all_iff sec comp_def)
  moreover have "\<forall>a. a \<noteq> ?a \<longrightarrow> card_sector (card_image ?m) a = card_sector (card_image mc) a"
    using others by simp
  moreover have "card_flag ?m AND MEMORY_CARD_FLAG_NO_WRITE_YET = 0" using flag by simp
  moreover have "card_changed ?m = (card_changed mc \<or> card_image ?m \<noteq> card_image mc)" by simp
  ultimately show ?thesis using t by blast
qed

theorem sector_round_trip_witness:
  "\<exists>rs mc t. card_session host_silent (write_header (\<lambda>_. 0) 0x01 0x02 @ replicate 128 9 @ [0, 0, 0, 0])
     blank_card machine_zero = Some (rs @ [(False, 0x47)], mc, t) \<and> list_all fst rs"
  using sector_round_trip [OF host_silent_ok machine_has_queue blank_card_ok(2), of "replicate 128 9" "replicate 128 0"]
  by simp blast

end
