(* ===== verification/Controllers.thy ===== *)
theory Controllers
  imports Prelude Complex_Main
begin

text \<open>
  The controllers on the serial bus: \<^verbatim>\<open>src/core/input/controllers/controller.c\<close>, the
  digital pad of \<^verbatim>\<open>digital_controller.c\<close> and the DualShock of
  \<^verbatim>\<open>analog_controller.c\<close>.  Each answers a byte with a byte and an acknowledgement.

  Whether the running game allows analog mode is the parameter of the operations that ask; the
  host's vibration and its log are outputs that change nothing here.  The floating-point values
  the host binds to buttons are reals, they are only compared.
\<close>

section \<open>The digital pad\<close>

datatype digital_controller_transfer_state =
    DIGITAL_CONTROLLER_TRANSFER_IDLE
  | DIGITAL_CONTROLLER_TRANSFER_READY
  | DIGITAL_CONTROLLER_TRANSFER_ID_MSB
  | DIGITAL_CONTROLLER_TRANSFER_BUTTONS_LSB
  | DIGITAL_CONTROLLER_TRANSFER_BUTTONS_MSB

record digital_controller =
  dc_button_state :: u16
  dc_button_mask :: u16
  dc_transfer_state :: digital_controller_transfer_state

definition DIGITAL_CONTROLLER_ID :: u16 where "DIGITAL_CONTROLLER_ID = 0x5A41"
definition DIGITAL_CONTROLLER_BUTTON_COUNT :: nat where "DIGITAL_CONTROLLER_BUTTON_COUNT = 16"

text \<open>Right, down and left of a Pop'n controller are grounded.\<close>

definition POPN_BUTTON_MASK :: u16 where
  "POPN_BUTTON_MASK = NOT (push_bit 5 1 OR push_bit 6 1 OR push_bit 7 1)"

definition digital_controller_create :: "bool \<Rightarrow> digital_controller" where
  "digital_controller_create popn = \<lparr>dc_button_state = 0xFFFF,
     dc_button_mask = (if popn then POPN_BUTTON_MASK else 0xFFFF),
     dc_transfer_state = DIGITAL_CONTROLLER_TRANSFER_IDLE\<rparr>"

definition digital_controller_reset :: "digital_controller \<Rightarrow> digital_controller" where
  "digital_controller_reset dc = dc\<lparr>dc_transfer_state := DIGITAL_CONTROLLER_TRANSFER_IDLE\<rparr>"

definition digital_controller_reset_transfer_state :: "digital_controller \<Rightarrow> digital_controller" where
  "digital_controller_reset_transfer_state dc = dc\<lparr>dc_transfer_state := DIGITAL_CONTROLLER_TRANSFER_IDLE\<rparr>"

definition digital_controller_get_bind_state :: "nat \<Rightarrow> digital_controller \<Rightarrow> real" where
  "digital_controller_get_bind_state index dc =
     (if index < DIGITAL_CONTROLLER_BUTTON_COUNT then (if bit (dc_button_state dc) index then 0 else 1) else 0)"

definition digital_controller_set_bind_state :: "nat \<Rightarrow> real \<Rightarrow> digital_controller \<Rightarrow> digital_controller" where
  "digital_controller_set_bind_state index value dc =
     (if index \<ge> DIGITAL_CONTROLLER_BUTTON_COUNT then dc
      else if value \<ge> 1 / 2
      then dc\<lparr>dc_button_state := dc_button_state dc AND NOT (push_bit index 1)\<rparr>
      else dc\<lparr>dc_button_state := dc_button_state dc OR push_bit index 1\<rparr>)"

definition digital_controller_get_button_state_bits :: "digital_controller \<Rightarrow> u32" where
  "digital_controller_get_button_state_bits dc = ucast (dc_button_state dc) XOR 0xFFFF"

text \<open>The acknowledgement, the byte sent and the pad afterwards.\<close>

definition digital_controller_transfer ::
  "u8 \<Rightarrow> digital_controller \<Rightarrow> bool \<times> u8 \<times> digital_controller" where
  "digital_controller_transfer data_in dc =
     (let to = (\<lambda>st. dc\<lparr>dc_transfer_state := st\<rparr>); buttons = dc_button_state dc AND dc_button_mask dc
      in case dc_transfer_state dc of
        DIGITAL_CONTROLLER_TRANSFER_IDLE \<Rightarrow>
          if data_in = 0x01 then (True, 0xFF, to DIGITAL_CONTROLLER_TRANSFER_READY) else (False, 0xFF, dc)
      | DIGITAL_CONTROLLER_TRANSFER_READY \<Rightarrow>
          if data_in = 0x42
          then (True, ucast DIGITAL_CONTROLLER_ID, to DIGITAL_CONTROLLER_TRANSFER_ID_MSB) else (False, 0xFF, dc)
      | DIGITAL_CONTROLLER_TRANSFER_ID_MSB \<Rightarrow>
          (True, ucast (drop_bit 8 DIGITAL_CONTROLLER_ID), to DIGITAL_CONTROLLER_TRANSFER_BUTTONS_LSB)
      | DIGITAL_CONTROLLER_TRANSFER_BUTTONS_LSB \<Rightarrow>
          (True, ucast buttons, to DIGITAL_CONTROLLER_TRANSFER_BUTTONS_MSB)
      | DIGITAL_CONTROLLER_TRANSFER_BUTTONS_MSB \<Rightarrow>
          (False, ucast (drop_bit 8 buttons), to DIGITAL_CONTROLLER_TRANSFER_IDLE))"

section \<open>The analog pad\<close>

datatype analog_controller_command =
    ANALOG_CONTROLLER_CMD_IDLE
  | ANALOG_CONTROLLER_CMD_READY
  | ANALOG_CONTROLLER_CMD_READ_PAD
  | ANALOG_CONTROLLER_CMD_CONFIG_MODE_SET_MODE
  | ANALOG_CONTROLLER_CMD_SET_ANALOG_MODE
  | ANALOG_CONTROLLER_CMD_GET_ANALOG_MODE
  | ANALOG_CONTROLLER_CMD_46
  | ANALOG_CONTROLLER_CMD_47
  | ANALOG_CONTROLLER_CMD_4C
  | ANALOG_CONTROLLER_CMD_GET_SET_RUMBLE

record analog_controller =
  ac_command :: analog_controller_command
  command_step :: u8
  response_length :: u8
  rx_buffer :: "nat \<Rightarrow> u8"
  tx_buffer :: "nat \<Rightarrow> u8"
  button_deadzone :: real
  force_analog_on_reset :: bool
  analog_dpad_in_digital_mode :: bool
  analog_shoulder_buttons :: u8
  analog_trigger_buttons :: u8
  analog_mode :: bool
  analog_locked :: bool
  dualshock_enabled :: bool
  configuration_mode :: bool
  axis_state :: "nat \<Rightarrow> u8"
  rumble_config :: "nat \<Rightarrow> u8"
  analog_toggle_queued :: bool
  status_byte :: u8
  digital_mode_extra_halfwords :: u8
  ac_button_state :: u16
  motor_state :: "nat \<Rightarrow> u8"

definition SMALL_MOTOR :: nat where "SMALL_MOTOR = 0"
definition LARGE_MOTOR :: nat where "LARGE_MOTOR = 1"
definition ANALOG_CONTROLLER_RUMBLE_CONFIG_LEN :: nat where "ANALOG_CONTROLLER_RUMBLE_CONFIG_LEN = 6"
definition ANALOG_CONTROLLER_BUTTON_ANALOG :: nat where "ANALOG_CONTROLLER_BUTTON_ANALOG = 16"

lemmas analog_consts = SMALL_MOTOR_def LARGE_MOTOR_def ANALOG_CONTROLLER_RUMBLE_CONFIG_LEN_def
  ANALOG_CONTROLLER_BUTTON_ANALOG_def

definition analog_controller_create :: analog_controller where
  "analog_controller_create = \<lparr>ac_command = ANALOG_CONTROLLER_CMD_IDLE, command_step = 0,
     response_length = 0, rx_buffer = (\<lambda>_. 0), tx_buffer = (\<lambda>_. 0), button_deadzone = 1 / 4,
     force_analog_on_reset = True, analog_dpad_in_digital_mode = True, analog_shoulder_buttons = 0,
     analog_trigger_buttons = 0, analog_mode = False, analog_locked = False, dualshock_enabled = False,
     configuration_mode = False, axis_state = (\<lambda>_. 0x80), rumble_config = (\<lambda>_. 0xFF),
     analog_toggle_queued = False, status_byte = 0x5A, digital_mode_extra_halfwords = 0,
     ac_button_state = 0xFFFF, motor_state = (\<lambda>_. 0)\<rparr>"

definition set_motor_state :: "nat \<Rightarrow> u8 \<Rightarrow> analog_controller \<Rightarrow> analog_controller" where
  "set_motor_state motor v ac = (if motor_state ac motor \<noteq> v
     then ac\<lparr>motor_state := (motor_state ac)(motor := v)\<rparr> else ac)"

definition set_analog_mode :: "bool \<Rightarrow> analog_controller \<Rightarrow> analog_controller" where
  "set_analog_mode enabled ac = (if analog_mode ac = enabled then ac else ac\<lparr>analog_mode := enabled\<rparr>)"

definition reset_rumble_config :: "analog_controller \<Rightarrow> analog_controller" where
  "reset_rumble_config ac =
     (let ac = ac\<lparr>rumble_config := (\<lambda>i. if i < ANALOG_CONTROLLER_RUMBLE_CONFIG_LEN then 0xFF else rumble_config ac i)\<rparr>
      in set_motor_state LARGE_MOTOR 0 (set_motor_state SMALL_MOTOR 0 ac))"

definition analog_controller_reset :: "bool \<Rightarrow> analog_controller \<Rightarrow> analog_controller" where
  "analog_controller_reset can_start ac =
     (let ac = ac\<lparr>ac_command := ANALOG_CONTROLLER_CMD_IDLE, command_step := 0, rx_buffer := (\<lambda>_. 0),
            tx_buffer := (\<lambda>_. 0), analog_mode := False, configuration_mode := False\<rparr>;
          ac = (if motor_state ac 0 \<noteq> 0 then set_motor_state 0 0 ac else ac);
          ac = (if motor_state ac 1 \<noteq> 0 then set_motor_state 1 0 ac else ac);
          ac = (reset_rumble_config (ac\<lparr>dualshock_enabled := False\<rparr>))\<lparr>status_byte := 0x5A\<rparr>
      in if force_analog_on_reset ac \<and> can_start then set_analog_mode True ac else ac)"

definition process_analog_mode_toggle :: "bool \<Rightarrow> analog_controller \<Rightarrow> analog_controller" where
  "process_analog_mode_toggle can_start ac =
     (if analog_locked ac then ac
      else if \<not> analog_mode ac \<and> \<not> can_start then ac
      else let ac = reset_rumble_config (set_analog_mode (\<not> analog_mode ac) ac)
           in if dualshock_enabled ac
              then if \<not> analog_mode ac \<and> \<not> can_start
                   then ac\<lparr>configuration_mode := False, dualshock_enabled := False, status_byte := 0x5A\<rparr>
                   else ac\<lparr>status_byte := 0\<rparr>
              else ac)"

definition analog_controller_reset_transfer_state :: "bool \<Rightarrow> analog_controller \<Rightarrow> analog_controller" where
  "analog_controller_reset_transfer_state can_start ac =
     (let ac = (if analog_toggle_queued ac
            then (process_analog_mode_toggle can_start ac)\<lparr>analog_toggle_queued := False\<rparr> else ac)
      in ac\<lparr>ac_command := ANALOG_CONTROLLER_CMD_IDLE, command_step := 0\<rparr>)"

text \<open>The buttons of \<open>set_bind_state\<close>; the sticks' half axes are computed in floating point.\<close>

definition analog_controller_set_button :: "bool \<Rightarrow> nat \<Rightarrow> real \<Rightarrow> analog_controller \<Rightarrow> analog_controller" where
  "analog_controller_set_button can_start index value ac =
     (if index = ANALOG_CONTROLLER_BUTTON_ANALOG
      then if value \<ge> button_deadzone ac
           then if ac_command ac = ANALOG_CONTROLLER_CMD_IDLE then process_analog_mode_toggle can_start ac
                else ac\<lparr>analog_toggle_queued := True\<rparr>
           else ac
      else if value \<ge> button_deadzone ac
      then ac\<lparr>ac_button_state := ac_button_state ac AND NOT (push_bit index 1)\<rparr>
      else ac\<lparr>ac_button_state := ac_button_state ac OR push_bit index 1\<rparr>)"

definition analog_controller_get_analog_input_bytes :: "analog_controller \<Rightarrow> u32" where
  "analog_controller_get_analog_input_bytes ac = push_bit 24 (ucast (axis_state ac 1)) OR
     push_bit 16 (ucast (axis_state ac 0)) OR push_bit 8 (ucast (axis_state ac 3)) OR ucast (axis_state ac 2)"

text \<open>Button bits cleared by a stick that is pushed past half its travel.\<close>

definition button_bit :: "bool \<Rightarrow> nat \<Rightarrow> u16" where
  "button_bit b n = push_bit n (if b then 1 else 0)"

definition get_extra_button_mask :: "analog_controller \<Rightarrow> u16" where
  "get_extra_button_mask ac =
     (let low = (\<lambda>axis. axis_state ac axis \<le> 64); high = (\<lambda>axis. axis_state ac axis \<ge> 191);
          digital = (\<not> analog_mode ac \<and> \<not> configuration_mode ac);
          m = (if analog_dpad_in_digital_mode ac \<and> digital
               then NOT (button_bit (low 0) 7 OR button_bit (high 0) 5 OR button_bit (low 1) 4 OR button_bit (high 1) 6)
               else 0xFFFF);
          m = (if analog_shoulder_buttons ac = 2 \<or> (analog_shoulder_buttons ac = 1 \<and> digital)
               then m AND NOT (button_bit (low 2) 10 OR button_bit (high 2) 11) else m)
      in if analog_trigger_buttons ac = 2 \<or> (analog_trigger_buttons ac = 1 \<and> digital)
         then m AND NOT (button_bit (low 2) 8 OR button_bit (high 2) 9) else m)"

definition get_response_num_halfwords :: "analog_controller \<Rightarrow> u8" where
  "get_response_num_halfwords ac =
     (if configuration_mode ac \<or> analog_mode ac then 3 else 1 + digital_mode_extra_halfwords ac)"

definition get_mode_id :: "analog_controller \<Rightarrow> u8" where
  "get_mode_id ac = (if configuration_mode ac then 0xF else if analog_mode ac then 7 else 4)"

definition get_id_byte :: "analog_controller \<Rightarrow> u8" where
  "get_id_byte ac = push_bit 4 (get_mode_id ac) OR get_response_num_halfwords ac"

definition set_tx :: "u8 list \<Rightarrow> nat \<Rightarrow> analog_controller \<Rightarrow> analog_controller" where
  "set_tx bs off ac = ac\<lparr>tx_buffer := (\<lambda>i. if off \<le> i \<and> i < off + length bs then bs ! (i - off) else tx_buffer ac i)\<rparr>"

definition poll_state_into_tx :: "analog_controller \<Rightarrow> analog_controller" where
  "poll_state_into_tx ac =
     (let buttons = ac_button_state ac AND get_extra_button_mask ac; axes = axis_state ac
      in set_tx ([get_id_byte ac, status_byte ac, ucast buttons, ucast (drop_bit 8 buttons)] @
           (if analog_mode ac \<or> configuration_mode ac then [axes 2, axes 3, axes 0, axes 1] else [0, 0, 0, 0])) 0 ac)"

definition load_tx_pattern :: "u8 list \<Rightarrow> analog_controller \<Rightarrow> analog_controller" where
  "load_tx_pattern bs ac = set_tx ([get_id_byte ac, status_byte ac] @ bs) 0 ac"

text \<open>The command byte: \<open>None\<close> is a command the pad does not accept now.\<close>

definition begin_response :: "analog_controller_command \<Rightarrow> analog_controller \<Rightarrow> analog_controller" where
  "begin_response cmd ac = ac\<lparr>response_length := (get_response_num_halfwords ac + 1) * 2, ac_command := cmd\<rparr>"

definition accept_command :: "u8 \<Rightarrow> analog_controller \<Rightarrow> analog_controller option" where
  "accept_command b ac =
     (if b = 0x42 then Some (poll_state_into_tx (begin_response ANALOG_CONTROLLER_CMD_READ_PAD ac))
      else if b = 0x43
      then let ac = begin_response ANALOG_CONTROLLER_CMD_CONFIG_MODE_SET_MODE ac
           in Some (if \<not> configuration_mode ac then poll_state_into_tx ac else load_tx_pattern [0, 0, 0, 0, 0, 0] ac)
      else if \<not> configuration_mode ac then None
      else if b = 0x44
      then Some (reset_rumble_config (load_tx_pattern [0, 0, 0, 0, 0, 0]
             (begin_response ANALOG_CONTROLLER_CMD_SET_ANALOG_MODE ac)))
      else if b = 0x45
      then Some (load_tx_pattern [1, 2, if analog_mode ac then 1 else 0, 2, 1, 0]
             (begin_response ANALOG_CONTROLLER_CMD_GET_ANALOG_MODE ac))
      else if b = 0x46
      then Some (load_tx_pattern [0, 0, 0, 0, 0, 0] (begin_response ANALOG_CONTROLLER_CMD_46 ac))
      else if b = 0x47
      then Some (load_tx_pattern [0, 0, 2, 0, 1, 0] (begin_response ANALOG_CONTROLLER_CMD_47 ac))
      else if b = 0x4C
      then Some (load_tx_pattern [0, 0, 0, 0, 0, 0] (begin_response ANALOG_CONTROLLER_CMD_4C ac))
      else if b = 0x4D
      then Some (load_tx_pattern [0, 0, 0, 0, 0, 0] (begin_response ANALOG_CONTROLLER_CMD_GET_SET_RUMBLE ac))
      else None)"

definition read_pad_motors :: "u8 \<Rightarrow> analog_controller \<Rightarrow> analog_controller" where
  "read_pad_motors b ac =
     (let step = unat (command_step ac)
      in if dualshock_enabled ac
         then if 2 \<le> step \<and> step < 7
              then let motor = unat (rumble_config ac (step - 2))
                   in if motor \<le> LARGE_MOTOR then set_motor_state motor b ac else ac
              else ac
         else if step = 3
         then let on = (rx_buffer ac 2 AND 0xC0 = 0x40 \<and> rx_buffer ac 3 AND 1 \<noteq> 0)
              in set_motor_state SMALL_MOTOR (if on then 255 else 0) ac
         else ac)"

definition set_configuration_mode :: "analog_controller \<Rightarrow> analog_controller" where
  "set_configuration_mode ac =
     (if uint (command_step ac) = uint (response_length ac) - 1
      then let ac = ac\<lparr>configuration_mode := (rx_buffer ac 2 = 1)\<rparr>
           in if configuration_mode ac then ac\<lparr>dualshock_enabled := True, status_byte := 0x5A\<rparr> else ac
      else ac)"

definition get_set_rumble :: "u8 \<Rightarrow> analog_controller \<Rightarrow> analog_controller" where
  "get_set_rumble b ac =
     (let step = unat (command_step ac)
      in if 2 \<le> step \<and> step < 7
         then let idx = step - 2; ac = set_tx [rumble_config ac idx] step ac
              in ac\<lparr>rumble_config := (rumble_config ac)(idx := b)\<rparr>
         else if step = 7
         then let has = (\<lambda>m ac. \<exists>i < ANALOG_CONTROLLER_RUMBLE_CONFIG_LEN. unat (rumble_config ac i) = m);
                  ac = (if has SMALL_MOTOR ac then ac else set_motor_state SMALL_MOTOR 0 ac)
              in (if has LARGE_MOTOR ac then ac else set_motor_state LARGE_MOTOR 0 ac)
         else ac)"

text \<open>What a byte of a running command does before the reply byte goes out.\<close>

fun command_byte :: "analog_controller_command \<Rightarrow> u8 \<Rightarrow> analog_controller \<Rightarrow> analog_controller" where
  "command_byte ANALOG_CONTROLLER_CMD_READ_PAD b ac = read_pad_motors b ac"
| "command_byte ANALOG_CONTROLLER_CMD_CONFIG_MODE_SET_MODE b ac = set_configuration_mode ac"
| "command_byte ANALOG_CONTROLLER_CMD_SET_ANALOG_MODE b ac =
     (if command_step ac = 2
      then if b = 0 \<or> b = 1 then set_analog_mode (b = 1) ac else ac
      else if command_step ac = 3
      then if b = 2 \<or> b = 3 then ac\<lparr>analog_locked := (b = 3)\<rparr> else ac
      else ac)"
| "command_byte ANALOG_CONTROLLER_CMD_46 b ac =
     (if command_step ac = 2
      then if b = 0 then set_tx [1, 2, 0, 0x0A] 4 ac else if b = 1 then set_tx [1, 1, 1, 0x14] 4 ac else ac
      else ac)"
| "command_byte ANALOG_CONTROLLER_CMD_47 b ac =
     (if command_step ac = 2 \<and> b \<noteq> 0 then set_tx [0, 0, 0, 0] 4 ac else ac)"
| "command_byte ANALOG_CONTROLLER_CMD_4C b ac =
     (if command_step ac = 2
      then if b = 0 then set_tx [4] 5 ac else if b = 1 then set_tx [7] 5 ac else ac
      else ac)"
| "command_byte ANALOG_CONTROLLER_CMD_GET_SET_RUMBLE b ac = get_set_rumble b ac"
| "command_byte _ b ac = ac"

text \<open>The reply byte goes out and the step advances; after the last one the pad is idle.\<close>

definition send_response :: "analog_controller \<Rightarrow> bool \<times> u8 \<times> analog_controller" where
  "send_response ac =
     (let out = tx_buffer ac (unat (command_step ac));
          ac = ac\<lparr>command_step := of_nat ((unat (command_step ac) + 1) mod unat (response_length ac))\<rparr>
      in if command_step ac = 0
         then (False, out, ac\<lparr>ac_command := ANALOG_CONTROLLER_CMD_IDLE, rx_buffer := (\<lambda>_. 0), tx_buffer := (\<lambda>_. 0)\<rparr>)
         else (True, out, ac))"

definition analog_controller_transfer ::
  "u8 \<Rightarrow> analog_controller \<Rightarrow> bool \<times> u8 \<times> analog_controller" where
  "analog_controller_transfer data_in ac =
     (let ac = ac\<lparr>rx_buffer := (rx_buffer ac)(unat (command_step ac) := data_in)\<rparr>
      in if ac_command ac = ANALOG_CONTROLLER_CMD_IDLE
         then if data_in = 0x01 then (True, 0xFF, ac\<lparr>ac_command := ANALOG_CONTROLLER_CMD_READY\<rparr>)
              else (False, 0xFF, ac)
         else if ac_command ac = ANALOG_CONTROLLER_CMD_READY
         then case accept_command data_in ac of
             None \<Rightarrow> (False, 0xFF, ac)
           | Some ac \<Rightarrow> send_response ac
         else send_response (command_byte (ac_command ac) data_in ac))"

section \<open>A controller of either kind\<close>

datatype controller = Digital digital_controller | Analog analog_controller

definition controller_reset :: "bool \<Rightarrow> controller \<Rightarrow> controller" where
  "controller_reset can_start c = (case c of
     Digital d \<Rightarrow> Digital (digital_controller_reset d)
   | Analog a \<Rightarrow> Analog (analog_controller_reset can_start a))"

definition controller_reset_transfer_state :: "bool \<Rightarrow> controller \<Rightarrow> controller" where
  "controller_reset_transfer_state can_start c = (case c of
     Digital d \<Rightarrow> Digital (digital_controller_reset_transfer_state d)
   | Analog a \<Rightarrow> Analog (analog_controller_reset_transfer_state can_start a))"

definition controller_transfer :: "u8 \<Rightarrow> controller \<Rightarrow> bool \<times> u8 \<times> controller" where
  "controller_transfer b c = (case c of
     Digital d \<Rightarrow> map_prod id (map_prod id Digital) (digital_controller_transfer b d)
   | Analog a \<Rightarrow> map_prod id (map_prod id Analog) (analog_controller_transfer b a))"

text \<open>Slots: two ports with up to four slots each, in the order 1A 2A 1B 1C 1D 2B 2C 2D.\<close>

definition controller_convert_pad_to_port_and_slot :: "nat \<Rightarrow> nat \<times> nat" where
  "controller_convert_pad_to_port_and_slot index =
     (if index > 4 then (1, index - 4) else if index > 1 then (0, index - 1) else (index, 0))"

definition controller_convert_port_and_slot_to_pad :: "nat \<Rightarrow> nat \<Rightarrow> nat" where
  "controller_convert_port_and_slot_to_pad port slot =
     (if slot = 0 then port else if port = 0 then slot + 1 else slot + 4)"

definition controller_pad_is_multitap_slot :: "nat \<Rightarrow> bool" where
  "controller_pad_is_multitap_slot index \<longleftrightarrow> index \<ge> 2"

definition controller_port_and_slot_is_multitap :: "nat \<Rightarrow> nat \<Rightarrow> bool" where
  "controller_port_and_slot_is_multitap port slot \<longleftrightarrow> slot \<noteq> 0"

end
