(* ===== verification/Pad.thy ===== *)
theory Pad
  imports Controllers Memory_Card Mdec_Ops
begin

text \<open>
  The controller port, \<^verbatim>\<open>src/core/input/pad.c\<close>, and the multitap,
  \<^verbatim>\<open>src/core/input/multitap.c\<close>: the JOY registers, the byte transfer with its event,
  its acknowledgement and its interrupt, and the choice of the device that answers.

  A slot holds no device or a controller, and no or one memory card.  A byte the multitap would
  read or write past its 32-byte buffer is undefined: the operation is \<open>None\<close>.
  DebugAsserts, which release builds drop, are not modelled.
\<close>

section \<open>State\<close>

definition NUM_CONTROLLER_AND_CARD_PORTS :: nat where "NUM_CONTROLLER_AND_CARD_PORTS = 8"
definition NUM_MULTITAPS :: nat where "NUM_MULTITAPS = 2"
definition JOY_MODE_MASK :: u32 where "JOY_MODE_MASK = 0x013F"
definition IRQ_PAD :: nat where "IRQ_PAD = 7"
definition PAD_TRANSFER_EVENT :: nat where "PAD_TRANSFER_EVENT = 3"
definition MULTITAP_ID_BYTE :: u8 where "MULTITAP_ID_BYTE = 0x80"
definition MULTITAP_STATUS_BYTE :: u8 where "MULTITAP_STATUS_BYTE = 0x5A"

datatype multitap_transfer_state =
    MULTITAP_TRANSFER_IDLE
  | MULTITAP_TRANSFER_MEMORY_CARD
  | MULTITAP_TRANSFER_CONTROLLER_COMMAND
  | MULTITAP_TRANSFER_SINGLE_CONTROLLER
  | MULTITAP_TRANSFER_ALL_CONTROLLERS

record multitap =
  mt_transfer_state :: multitap_transfer_state
  selected_slot :: u8
  controller_transfer_step :: u32
  invalid_transfer_all_command :: bool
  transfer_all_controllers :: bool
  current_controller_done :: bool
  mt_buffer :: "nat \<Rightarrow> u8"
  base_index :: u32
  mt_enabled :: bool

datatype pad_state_t = PAD_STATE_IDLE | PAD_STATE_TRANSMITTING | PAD_STATE_WAITING_FOR_ACK

datatype pad_active_device =
  PAD_ACTIVE_NONE | PAD_ACTIVE_CONTROLLER | PAD_ACTIVE_MEMORY_CARD | PAD_ACTIVE_MULTITAP

record pad_state_struct =
  controllers :: "nat \<Rightarrow> controller option"
  memory_cards :: "nat \<Rightarrow> memory_card option"
  multitaps :: "nat \<Rightarrow> multitap"
  pad_state :: pad_state_t
  joy_stat :: u32
  joy_ctrl :: u16
  joy_mode :: u16
  joy_baud :: u16
  active_device :: pad_active_device
  receive_buffer :: u8
  transmit_buffer :: u8
  transmit_value :: u8
  receive_buffer_full :: bool
  transmit_buffer_full :: bool
  last_memory_card_transfer_frame :: u32

record pad_sys = mdec_sys +
  pad :: pad_state_struct

text \<open>What the port calls: the cards' host, and whether the game allows analog mode.\<close>

record 's pad_hooks =
  pad_card_hooks :: "'s card_hooks"
  controller_can_start_in_analog_mode :: bool

definition upd_pad :: "(pad_state_struct \<Rightarrow> pad_state_struct) \<Rightarrow> 'a pad_sys_scheme \<Rightarrow> 'a pad_sys_scheme" where
  "upd_pad f s = s\<lparr>pad := f (pad s)\<rparr>"

definition put_controller :: "nat \<Rightarrow> controller option \<Rightarrow> 'a pad_sys_scheme \<Rightarrow> 'a pad_sys_scheme" where
  "put_controller i c = upd_pad (\<lambda>p. p\<lparr>controllers := (controllers p)(i := c)\<rparr>)"

definition put_memory_card :: "nat \<Rightarrow> memory_card option \<Rightarrow> 'a pad_sys_scheme \<Rightarrow> 'a pad_sys_scheme" where
  "put_memory_card i c = upd_pad (\<lambda>p. p\<lparr>memory_cards := (memory_cards p)(i := c)\<rparr>)"

definition upd_multitap :: "nat \<Rightarrow> (multitap \<Rightarrow> multitap) \<Rightarrow> 'a pad_sys_scheme \<Rightarrow> 'a pad_sys_scheme" where
  "upd_multitap i f = upd_pad (\<lambda>p. p\<lparr>multitaps := (multitaps p)(i := f (multitaps p i))\<rparr>)"

definition joy_ctrl_txen :: "u16 \<Rightarrow> bool" where "joy_ctrl_txen v = bit v 0"
definition joy_ctrl_select :: "u16 \<Rightarrow> bool" where "joy_ctrl_select v = bit v 1"
definition joy_ctrl_ack :: "u16 \<Rightarrow> bool" where "joy_ctrl_ack v = bit v 4"
definition joy_ctrl_reset :: "u16 \<Rightarrow> bool" where "joy_ctrl_reset v = bit v 6"
definition joy_ctrl_txinten :: "u16 \<Rightarrow> bool" where "joy_ctrl_txinten v = bit v 10"
definition joy_ctrl_rxinten :: "u16 \<Rightarrow> bool" where "joy_ctrl_rxinten v = bit v 11"
definition joy_ctrl_ackinten :: "u16 \<Rightarrow> bool" where "joy_ctrl_ackinten v = bit v 12"
definition joy_ctrl_slot :: "u16 \<Rightarrow> nat" where "joy_ctrl_slot v = (if bit v 13 then 1 else 0)"

definition pad_get_ack_ticks :: "bool \<Rightarrow> tick_count" where
  "pad_get_ack_ticks memory_card = (if memory_card then 170 else 450)"

section \<open>The multitap\<close>

definition multitap_reset :: "multitap \<Rightarrow> multitap" where
  "multitap_reset m = m\<lparr>mt_transfer_state := MULTITAP_TRANSFER_IDLE, selected_slot := 0,
     controller_transfer_step := 0, transfer_all_controllers := False, invalid_transfer_all_command := False,
     current_controller_done := False, mt_buffer := (\<lambda>_. 0xFF)\<rparr>"

definition multitap_init :: multitap where
  "multitap_init = multitap_reset \<lparr>mt_transfer_state = MULTITAP_TRANSFER_IDLE, selected_slot = 0,
     controller_transfer_step = 0, invalid_transfer_all_command = False, transfer_all_controllers = False,
     current_controller_done = False, mt_buffer = (\<lambda>_. 0), base_index = 0, mt_enabled = False\<rparr>"

definition multitap_set_enable :: "bool \<Rightarrow> u32 \<Rightarrow> multitap \<Rightarrow> multitap" where
  "multitap_set_enable enable base m =
     (if mt_enabled m \<noteq> enable \<or> base_index m \<noteq> base
      then multitap_reset (m\<lparr>mt_enabled := enable, base_index := base\<rparr>) else m)"

definition multitap_reset_transfer_state :: "multitap \<Rightarrow> multitap" where
  "multitap_reset_transfer_state m = m\<lparr>mt_transfer_state := MULTITAP_TRANSFER_IDLE, selected_slot := 0,
     controller_transfer_step := 0, current_controller_done := False\<rparr>"

definition multitap_is_reading_memory_card :: "multitap \<Rightarrow> bool" where
  "multitap_is_reading_memory_card m \<longleftrightarrow> mt_enabled m \<and> mt_transfer_state m = MULTITAP_TRANSFER_MEMORY_CARD"

text \<open>The slot of the multitap \<open>m\<close> as an index of the port's devices.\<close>

definition multitap_pad_port :: "multitap \<Rightarrow> u8 \<Rightarrow> nat" where
  "multitap_pad_port m slot = controller_convert_port_and_slot_to_pad (unat (base_index m)) (unat slot)"

definition transfer_controller ::
  "nat \<Rightarrow> u8 \<Rightarrow> 'a pad_sys_scheme \<Rightarrow> bool \<times> u8 \<times> 'a pad_sys_scheme" where
  "transfer_controller i b s = (case controllers (pad s) i of
     None \<Rightarrow> (False, 0xFF, s)
   | Some c \<Rightarrow> let (ack, out, c) = controller_transfer b c in (ack, out, put_controller i (Some c) s))"

definition transfer_memory_card ::
  "('a pad_sys_scheme) pad_hooks \<Rightarrow> nat \<Rightarrow> u8 \<Rightarrow> u8 \<Rightarrow> 'a pad_sys_scheme \<Rightarrow>
     (bool \<times> u8 \<times> 'a pad_sys_scheme) option" where
  "transfer_memory_card h i b out s = (case memory_cards (pad s) i of
     None \<Rightarrow> Some (False, 0xFF, s)
   | Some mc \<Rightarrow> map_option (\<lambda>(ack, out, mc, s). (ack, out, put_memory_card i (Some mc) s))
       (memory_card_transfer (pad_card_hooks h) b out mc s))"

text \<open>The address byte that also goes to the other slots before all pads are read.\<close>

definition address_other_slots :: "nat \<Rightarrow> u8 \<Rightarrow> 'a pad_sys_scheme \<Rightarrow> 'a pad_sys_scheme" where
  "address_other_slots i selected s =
     fold (\<lambda>slot s. if slot \<noteq> selected
           then snd (snd (transfer_controller (multitap_pad_port (multitaps (pad s) i) slot) 0x01 s)) else s)
       [0, 1, 2, 3] s"

definition multitap_idle_byte ::
  "('a pad_sys_scheme) pad_hooks \<Rightarrow> nat \<Rightarrow> u8 \<Rightarrow> u8 \<Rightarrow> 'a pad_sys_scheme \<Rightarrow>
     (bool \<times> u8 \<times> 'a pad_sys_scheme) option" where
  "multitap_idle_byte h i b out s =
     (let port = (\<lambda>slot. multitap_pad_port (multitaps (pad s) i) slot) in
      if 0x81 \<le> b \<and> b \<le> 0x84
      then let slot = (b AND 0x0F) - 1
           in do {
             (ack, out, s) \<leftarrow> transfer_memory_card h (port slot) 0x81 out
                                (upd_multitap i (\<lambda>m. m\<lparr>selected_slot := slot\<rparr>) s);
             Some (ack, out, if ack
               then upd_multitap i (\<lambda>m. m\<lparr>mt_transfer_state := MULTITAP_TRANSFER_MEMORY_CARD\<rparr>) s else s) }
      else if 0x01 \<le> b \<and> b \<le> 0x04
      then let slot = b - 1;
               (ack, out, s) = transfer_controller (port slot) 0x01
                                 (upd_multitap i (\<lambda>m. m\<lparr>selected_slot := slot\<rparr>) s)
           in if ack
              then let s = upd_multitap i (\<lambda>m. m\<lparr>mt_transfer_state := MULTITAP_TRANSFER_CONTROLLER_COMMAND\<rparr>) s
                   in Some (True, out, if transfer_all_controllers (multitaps (pad s) i)
                        then address_other_slots i slot s else s)
              else Some (False, out, s)
      else Some (False, 0xFF, s))"

definition multitap_command_byte :: "nat \<Rightarrow> u8 \<Rightarrow> u8 \<Rightarrow> 'a pad_sys_scheme \<Rightarrow> bool \<times> u8 \<times> 'a pad_sys_scheme" where
  "multitap_command_byte i b out s =
     (let m = multitaps (pad s) i; port = multitap_pad_port m (selected_slot m) in
      if controller_transfer_step m = 0
      then let (ack, out, s) = (if transfer_all_controllers m
                 then (True, MULTITAP_ID_BYTE, upd_multitap i (\<lambda>m. m\<lparr>invalid_transfer_all_command := (b \<noteq> 0x42)\<rparr>) s)
                 else transfer_controller port b s)
           in (ack, out, upd_multitap i (\<lambda>m. m\<lparr>controller_transfer_step := controller_transfer_step m + 1\<rparr>) s)
      else if controller_transfer_step m = 1
      then let (ack, out, s) = (if transfer_all_controllers m
                 then (\<not> invalid_transfer_all_command m, MULTITAP_STATUS_BYTE,
                       upd_multitap i (\<lambda>m. m\<lparr>selected_slot := 0, mt_transfer_state := MULTITAP_TRANSFER_ALL_CONTROLLERS\<rparr>) s)
                 else let (ack, out, s) = transfer_controller port 0x00 s
                      in (ack, out, upd_multitap i (\<lambda>m. m\<lparr>mt_transfer_state := MULTITAP_TRANSFER_SINGLE_CONTROLLER\<rparr>) s))
           in (ack, out, upd_multitap i (\<lambda>m. m\<lparr>transfer_all_controllers := bit b 0, controller_transfer_step := 0\<rparr>) s)
      else (False, out, s))"

text \<open>Reading all four pads: each byte is the one the previous round stored.\<close>

definition multitap_all_byte :: "nat \<Rightarrow> u8 \<Rightarrow> 'a pad_sys_scheme \<Rightarrow> (bool \<times> u8 \<times> 'a pad_sys_scheme) option" where
  "multitap_all_byte i b s =
     (let m = multitaps (pad s) i; step = unat (controller_transfer_step m) in
      if 32 \<le> step then None
      else let out = mt_buffer m step;
               s = (if current_controller_done m
                    then upd_multitap i (\<lambda>m. m\<lparr>mt_buffer := (mt_buffer m)(step := 0xFF)\<rparr>) s
                    else let (ack, v, s) = transfer_controller (multitap_pad_port m (selected_slot m)) b s
                         in upd_multitap i (\<lambda>m. m\<lparr>mt_buffer := (mt_buffer m)(step := v),
                              current_controller_done := \<not> ack\<rparr>) s);
               s = upd_multitap i (\<lambda>m. m\<lparr>controller_transfer_step := controller_transfer_step m + 1\<rparr>) s
           in if (step + 1) mod 8 = 0
              then let s = upd_multitap i (\<lambda>m. m\<lparr>current_controller_done := False,
                         selected_slot := (selected_slot m + 1) mod 4\<rparr>) s
                   in Some (selected_slot (multitaps (pad s) i) \<noteq> 0, out, s)
              else Some (True, out, s))"

definition multitap_transfer ::
  "('a pad_sys_scheme) pad_hooks \<Rightarrow> nat \<Rightarrow> u8 \<Rightarrow> u8 \<Rightarrow> 'a pad_sys_scheme \<Rightarrow>
     (bool \<times> u8 \<times> 'a pad_sys_scheme) option" where
  "multitap_transfer h i b out s =
     (let m = multitaps (pad s) i; port = multitap_pad_port m (selected_slot m);
          to_idle = upd_multitap i (\<lambda>m. m\<lparr>mt_transfer_state := MULTITAP_TRANSFER_IDLE\<rparr>)
      in case mt_transfer_state m of
        MULTITAP_TRANSFER_IDLE \<Rightarrow> multitap_idle_byte h i b out s
      | MULTITAP_TRANSFER_MEMORY_CARD \<Rightarrow> do {
          (ack, out, s) \<leftarrow> transfer_memory_card h port b out s;
          Some (ack, out, if ack then s else to_idle s) }
      | MULTITAP_TRANSFER_CONTROLLER_COMMAND \<Rightarrow> Some (multitap_command_byte i b out s)
      | MULTITAP_TRANSFER_SINGLE_CONTROLLER \<Rightarrow>
          let (ack, out, s) = transfer_controller port b s in Some (ack, out, if ack then s else to_idle s)
      | MULTITAP_TRANSFER_ALL_CONTROLLERS \<Rightarrow> multitap_all_byte i b s)"

section \<open>The transfer\<close>

definition pad_is_transmitting :: "'a pad_sys_scheme \<Rightarrow> bool" where
  "pad_is_transmitting s \<longleftrightarrow> pad_state (pad s) \<noteq> PAD_STATE_IDLE"

definition pad_can_transfer :: "'a pad_sys_scheme \<Rightarrow> bool" where
  "pad_can_transfer s \<longleftrightarrow> transmit_buffer_full (pad s) \<and> joy_ctrl_select (joy_ctrl (pad s)) \<and>
     joy_ctrl_txen (joy_ctrl (pad s))"

definition pad_get_transfer_ticks :: "'a pad_sys_scheme \<Rightarrow> tick_count" where
  "pad_get_transfer_ticks s = to_s32 (uint (ucast (joy_baud (pad s)) * 8 :: u32))"

definition pad_trigger_irq :: "'a pad_sys_scheme \<Rightarrow> 'a pad_sys_scheme" where
  "pad_trigger_irq s = interrupt_controller_set_line_state IRQ_PAD True
     (upd_pad (\<lambda>p. p\<lparr>joy_stat := set_bit 9 (joy_stat p)\<rparr>) s)"

definition pad_update_joy_stat :: "'a pad_sys_scheme \<Rightarrow> 'a pad_sys_scheme" where
  "pad_update_joy_stat = upd_pad (\<lambda>p. p\<lparr>joy_stat :=
     flag_put 0 (\<not> transmit_buffer_full p)
       (flag_put 2 (\<not> transmit_buffer_full p \<and> pad_state p \<noteq> PAD_STATE_TRANSMITTING)
         (flag_put 1 (receive_buffer_full p) (joy_stat p)))\<rparr>)"

definition pad_begin_transfer :: "'a pad_sys_scheme \<Rightarrow> 'a pad_sys_scheme option" where
  "pad_begin_transfer s =
     (let s = upd_pad (\<lambda>p. p\<lparr>joy_ctrl := set_bit 2 (joy_ctrl p), transmit_value := transmit_buffer p,
                transmit_buffer_full := False, pad_state := PAD_STATE_TRANSMITTING\<rparr>) s
      in timing_event_set_period_and_schedule PAD_TRANSFER_EVENT (pad_get_transfer_ticks s) s)"

definition pad_end_transfer :: "'a pad_sys_scheme \<Rightarrow> 'a pad_sys_scheme option" where
  "pad_end_transfer s = timing_event_deactivate PAD_TRANSFER_EVENT (upd_pad (\<lambda>p. p\<lparr>pad_state := PAD_STATE_IDLE\<rparr>) s)"

definition set_active_device :: "pad_active_device \<Rightarrow> 'a pad_sys_scheme \<Rightarrow> 'a pad_sys_scheme" where
  "set_active_device d = upd_pad (\<lambda>p. p\<lparr>active_device := d\<rparr>)"

definition card_frame_seen :: "'a pad_sys_scheme \<Rightarrow> 'a pad_sys_scheme" where
  "card_frame_seen = upd_pad (\<lambda>p. p\<lparr>last_memory_card_transfer_frame := 0\<rparr>)"

text \<open>No device is active: the controller is asked first, then the card.\<close>

definition pad_select_device ::
  "('a pad_sys_scheme) pad_hooks \<Rightarrow> nat \<Rightarrow> u8 \<Rightarrow> 'a pad_sys_scheme \<Rightarrow>
     (bool \<times> u8 \<times> 'a pad_sys_scheme) option" where
  "pad_select_device h i b s =
     (let (ack, v, s) = transfer_controller i b s
      in if ack then Some (True, v, set_active_device PAD_ACTIVE_CONTROLLER s)
         else if memory_cards (pad s) i = None then Some (False, v, s)
         else do {
           (ack, v, s) \<leftarrow> transfer_memory_card h i b v s;
           Some (ack, v, if ack then card_frame_seen (set_active_device PAD_ACTIVE_MEMORY_CARD s) else s) })"

definition pad_exchange ::
  "('a pad_sys_scheme) pad_hooks \<Rightarrow> 'a pad_sys_scheme \<Rightarrow> (bool \<times> u8 \<times> 'a pad_sys_scheme) option" where
  "pad_exchange h s =
     (let slot = joy_ctrl_slot (joy_ctrl (pad s));
          i = (if mt_enabled (multitaps (pad s) 0) then 4 else slot);
          b = transmit_value (pad s)
      in case active_device (pad s) of
        PAD_ACTIVE_NONE \<Rightarrow>
          if mt_enabled (multitaps (pad s) slot)
          then do {
            (ack, v, s) \<leftarrow> multitap_transfer h slot b 0xFF s;
            Some (ack, v, if ack then set_active_device PAD_ACTIVE_MULTITAP s else s) }
          else pad_select_device h i b s
      | PAD_ACTIVE_CONTROLLER \<Rightarrow>
          Some (if controllers (pad s) i = None then (False, 0xFF, s) else transfer_controller i b s)
      | PAD_ACTIVE_MEMORY_CARD \<Rightarrow>
          if memory_cards (pad s) i = None then Some (False, 0xFF, s)
          else transfer_memory_card h i b 0xFF (card_frame_seen s)
      | PAD_ACTIVE_MULTITAP \<Rightarrow>
          if mt_enabled (multitaps (pad s) slot) then multitap_transfer h slot b 0xFF s
          else Some (False, 0xFF, s))"

definition pad_do_transfer ::
  "('a pad_sys_scheme) pad_hooks \<Rightarrow> tick_count \<Rightarrow> 'a pad_sys_scheme \<Rightarrow> 'a pad_sys_scheme option" where
  "pad_do_transfer h ticks_late s =
     (let slot = joy_ctrl_slot (joy_ctrl (pad s)) in do {
        (ack, v, s) \<leftarrow> pad_exchange h (upd_pad (\<lambda>p. p\<lparr>joy_ctrl := set_bit 2 (joy_ctrl p)\<rparr>) s);
        let s = upd_pad (\<lambda>p. p\<lparr>receive_buffer := v, receive_buffer_full := True\<rparr>) s;
        let s = (if joy_ctrl_rxinten (joy_ctrl (pad s)) then pad_trigger_irq s else s);
        s \<leftarrow> (if \<not> ack then pad_end_transfer (set_active_device PAD_ACTIVE_NONE s)
             else let card = (active_device (pad s) = PAD_ACTIVE_MEMORY_CARD \<or>
                        (active_device (pad s) = PAD_ACTIVE_MULTITAP \<and>
                         multitap_is_reading_memory_card (multitaps (pad s) slot)))
                  in timing_event_set_period_and_schedule PAD_TRANSFER_EVENT (pad_get_ack_ticks card)
                       (upd_pad (\<lambda>p. p\<lparr>pad_state := PAD_STATE_WAITING_FOR_ACK\<rparr>) s));
        Some (pad_update_joy_stat s) })"

definition pad_do_ack :: "'a pad_sys_scheme \<Rightarrow> 'a pad_sys_scheme option" where
  "pad_do_ack s =
     (let s = upd_pad (\<lambda>p. p\<lparr>joy_stat := set_bit 7 (joy_stat p)\<rparr>) s;
          s = (if joy_ctrl_ackinten (joy_ctrl (pad s)) then pad_trigger_irq s else s)
      in do {
        s \<leftarrow> pad_end_transfer s;
        let s = pad_update_joy_stat s;
        if pad_can_transfer s then pad_begin_transfer s else Some s })"

definition pad_transfer_event ::
  "('a pad_sys_scheme) pad_hooks \<Rightarrow> tick_count \<Rightarrow> tick_count \<Rightarrow> 'a pad_sys_scheme \<Rightarrow> 'a pad_sys_scheme option" where
  "pad_transfer_event h ticks ticks_late s =
     (if pad_state (pad s) = PAD_STATE_TRANSMITTING then pad_do_transfer h ticks_late s else pad_do_ack s)"

definition pad_invoke_early ::
  "('a pad_sys_scheme) pad_hooks \<Rightarrow> 'a pad_sys_scheme \<Rightarrow> 'a pad_sys_scheme option" where
  "pad_invoke_early h s = timing_event_invoke_early (\<lambda>e. pad_transfer_event h) PAD_TRANSFER_EVENT False s"

section \<open>Resets and registers\<close>

definition pad_reset_device_transfer_state ::
  "('a pad_sys_scheme) pad_hooks \<Rightarrow> 'a pad_sys_scheme \<Rightarrow> 'a pad_sys_scheme" where
  "pad_reset_device_transfer_state h = upd_pad (\<lambda>p. p\<lparr>
     controllers := (\<lambda>i. if i < NUM_CONTROLLER_AND_CARD_PORTS
       then map_option (controller_reset_transfer_state (controller_can_start_in_analog_mode h)) (controllers p i)
       else controllers p i),
     memory_cards := (\<lambda>i. if i < NUM_CONTROLLER_AND_CARD_PORTS
       then map_option memory_card_reset_transfer_state (memory_cards p i) else memory_cards p i),
     multitaps := (\<lambda>i. if i < NUM_MULTITAPS then multitap_reset_transfer_state (multitaps p i) else multitaps p i),
     active_device := PAD_ACTIVE_NONE\<rparr>)"

definition pad_soft_reset ::
  "('a pad_sys_scheme) pad_hooks \<Rightarrow> 'a pad_sys_scheme \<Rightarrow> 'a pad_sys_scheme option" where
  "pad_soft_reset h s = do {
     s \<leftarrow> (if pad_is_transmitting s then pad_end_transfer s else Some s);
     let s = upd_pad (\<lambda>p. p\<lparr>joy_ctrl := 0, joy_stat := 0, joy_mode := 0, receive_buffer := 0,
               receive_buffer_full := False, transmit_buffer := 0, transmit_buffer_full := False\<rparr>) s;
     Some (pad_update_joy_stat (pad_reset_device_transfer_state h s)) }"

definition reset_slot ::
  "('a pad_sys_scheme) pad_hooks \<Rightarrow> nat \<Rightarrow> 'a pad_sys_scheme \<Rightarrow> 'a pad_sys_scheme option" where
  "reset_slot h i s =
     (let s = put_controller i (map_option (controller_reset (controller_can_start_in_analog_mode h))
                (controllers (pad s) i)) s
      in case memory_cards (pad s) i of
           None \<Rightarrow> Some s
         | Some mc \<Rightarrow> map_option (\<lambda>(mc, s). put_memory_card i (Some mc) s) (memory_card_reset (pad_card_hooks h) mc s))"

fun reset_slots ::
  "('a pad_sys_scheme) pad_hooks \<Rightarrow> nat list \<Rightarrow> 'a pad_sys_scheme \<Rightarrow> 'a pad_sys_scheme option" where
  "reset_slots h [] s = Some s"
| "reset_slots h (i # is) s = Option.bind (reset_slot h i s) (reset_slots h is)"

definition pad_reset :: "('a pad_sys_scheme) pad_hooks \<Rightarrow> 'a pad_sys_scheme \<Rightarrow> 'a pad_sys_scheme option" where
  "pad_reset h s = do {
     s \<leftarrow> pad_soft_reset h s;
     s \<leftarrow> reset_slots h [0..<NUM_CONTROLLER_AND_CARD_PORTS] s;
     Some (fold (\<lambda>i. upd_multitap i multitap_reset) [0..<NUM_MULTITAPS] s) }"

definition pad_initialize :: "('a pad_sys_scheme) pad_hooks \<Rightarrow> 'a pad_sys_scheme \<Rightarrow> 'a pad_sys_scheme option" where
  "pad_initialize h s = pad_reset h
     (fold (\<lambda>i. upd_multitap i (\<lambda>_. multitap_init)) [0..<NUM_MULTITAPS] (timing_event_init PAD_TRANSFER_EVENT 1 1 s))"

definition pad_set_controller :: "nat \<Rightarrow> controller option \<Rightarrow> 'a pad_sys_scheme \<Rightarrow> 'a pad_sys_scheme" where
  "pad_set_controller slot dev = put_controller slot dev"

definition pad_set_memory_card ::
  "('a pad_sys_scheme) pad_hooks \<Rightarrow> nat \<Rightarrow> memory_card option \<Rightarrow> 'a pad_sys_scheme \<Rightarrow> 'a pad_sys_scheme option" where
  "pad_set_memory_card h slot dev s = do {
     s \<leftarrow> (case memory_cards (pad s) slot of
            None \<Rightarrow> Some s | Some mc \<Rightarrow> memory_card_destroy (pad_card_hooks h) mc s);
     Some (put_memory_card slot dev s) }"

definition pad_remove_memory_card ::
  "('a pad_sys_scheme) pad_hooks \<Rightarrow> nat \<Rightarrow> 'a pad_sys_scheme \<Rightarrow> (memory_card option \<times> 'a pad_sys_scheme) option" where
  "pad_remove_memory_card h slot s =
     (let ret = memory_cards (pad s) slot; s = put_memory_card slot None s
      in case ret of
           None \<Rightarrow> Some (None, s)
         | Some mc \<Rightarrow> map_option (\<lambda>(mc, s). (Some mc, s)) (memory_card_reset (pad_card_hooks h) mc s))"

fun destroy_slots ::
  "('a pad_sys_scheme) pad_hooks \<Rightarrow> nat list \<Rightarrow> 'a pad_sys_scheme \<Rightarrow> 'a pad_sys_scheme option" where
  "destroy_slots h [] s = Some s"
| "destroy_slots h (i # is) s =
     Option.bind (pad_set_memory_card h i None (put_controller i None s)) (destroy_slots h is)"

definition pad_shutdown :: "('a pad_sys_scheme) pad_hooks \<Rightarrow> 'a pad_sys_scheme \<Rightarrow> 'a pad_sys_scheme option" where
  "pad_shutdown h s = do {
     s \<leftarrow> (if active (timing_events s PAD_TRANSFER_EVENT) then timing_event_deactivate PAD_TRANSFER_EVENT s else Some s);
     destroy_slots h [0..<NUM_CONTROLLER_AND_CARD_PORTS] s }"

definition pad_read_register ::
  "('a pad_sys_scheme) pad_hooks \<Rightarrow> u32 \<Rightarrow> 'a pad_sys_scheme \<Rightarrow> (u32 \<times> 'a pad_sys_scheme) option" where
  "pad_read_register h offset s =
     (let sync = (\<lambda>s. if pad_is_transmitting s then pad_invoke_early h s else Some s) in
      if offset = 0x00 then do {
        s \<leftarrow> sync s;
        let v = (ucast (if receive_buffer_full (pad s) then receive_buffer (pad s) else 0xFF) :: u32);
        Some (v OR push_bit 8 v OR push_bit 16 v OR push_bit 24 v,
              pad_update_joy_stat (upd_pad (\<lambda>p. p\<lparr>receive_buffer_full := False\<rparr>) s)) }
      else if offset = 0x04 then do {
        s \<leftarrow> sync s;
        Some (joy_stat (pad s), upd_pad (\<lambda>p. p\<lparr>joy_stat := unset_bit 7 (joy_stat p)\<rparr>) s) }
      else if offset = 0x08 then Some (ucast (joy_mode (pad s)), s)
      else if offset = 0x0A then Some (ucast (joy_ctrl (pad s)), s)
      else if offset = 0x0E then Some (ucast (joy_baud (pad s)), s)
      else Some (0xFFFFFFFF, s))"

definition pad_write_data :: "u32 \<Rightarrow> 'a pad_sys_scheme \<Rightarrow> 'a pad_sys_scheme option" where
  "pad_write_data v s =
     (let s = upd_pad (\<lambda>p. p\<lparr>transmit_buffer := ucast v, transmit_buffer_full := True\<rparr>) s;
          s = (if joy_ctrl_txinten (joy_ctrl (pad s)) then pad_trigger_irq s else s)
      in if \<not> pad_is_transmitting s \<and> pad_can_transfer s then pad_begin_transfer s else Some s)"

definition pad_write_ctrl ::
  "('a pad_sys_scheme) pad_hooks \<Rightarrow> u32 \<Rightarrow> 'a pad_sys_scheme \<Rightarrow> 'a pad_sys_scheme option" where
  "pad_write_ctrl h v s = do {
     let s = upd_pad (\<lambda>p. p\<lparr>joy_ctrl := ucast v\<rparr>) s;
     s \<leftarrow> (if joy_ctrl_reset (joy_ctrl (pad s)) then pad_soft_reset h s else Some s);
     let s = (if joy_ctrl_ack (joy_ctrl (pad s))
              then interrupt_controller_set_line_state IRQ_PAD False
                     (upd_pad (\<lambda>p. p\<lparr>joy_stat := unset_bit 9 (joy_stat p)\<rparr>) s)
              else s);
     let s = (if joy_ctrl_select (joy_ctrl (pad s)) then s else pad_reset_device_transfer_state h s);
     s \<leftarrow> (if \<not> joy_ctrl_select (joy_ctrl (pad s)) \<or> \<not> joy_ctrl_txen (joy_ctrl (pad s))
          then if pad_is_transmitting s then pad_end_transfer s else Some s
          else if \<not> pad_is_transmitting s \<and> pad_can_transfer s then pad_begin_transfer s else Some s);
     Some (pad_update_joy_stat s) }"

definition pad_write_register ::
  "('a pad_sys_scheme) pad_hooks \<Rightarrow> u32 \<Rightarrow> u32 \<Rightarrow> 'a pad_sys_scheme \<Rightarrow> 'a pad_sys_scheme option" where
  "pad_write_register h offset v s =
     (if offset = 0x00 then pad_write_data v s
      else if offset = 0x0A then pad_write_ctrl h v s
      else if offset = 0x08 then Some (upd_pad (\<lambda>p. p\<lparr>joy_mode := ucast (v AND JOY_MODE_MASK)\<rparr>) s)
      else if offset = 0x0E then Some (upd_pad (\<lambda>p. p\<lparr>joy_baud := ucast v\<rparr>) s)
      else Some s)"

end
