(* ===== verification/Pad_Props.thy ===== *)
theory Pad_Props
  imports Pad Memory_Card_Props
begin

text \<open>
  The port against the scheduler and the interrupt controller: every operation returns and keeps
  \<open>pad_wf\<close>, in which the transfer event runs exactly while a transfer is in progress,
  and an interrupt shown in \<open>JOY_STAT\<close> holds the interrupt line.
\<close>

section \<open>Invariant\<close>

definition cards_sound :: "'a pad_sys_scheme \<Rightarrow> bool" where
  "cards_sound s \<longleftrightarrow> has_queue s \<and> (\<forall>i mc. memory_cards (pad s) i = Some mc \<longrightarrow> card_ok mc)"

definition pad_timer_active :: "'a pad_sys_scheme \<Rightarrow> bool" where
  "pad_timer_active s \<longleftrightarrow> active (timing_events s PAD_TRANSFER_EVENT)"

definition pad_wf :: "'a pad_sys_scheme \<Rightarrow> bool" where
  "pad_wf s \<longleftrightarrow> cards_sound s \<and> (pad_is_transmitting s \<longleftrightarrow> pad_timer_active s) \<and>
     (bit (joy_stat (pad s)) 9 \<longrightarrow> irq_line_high s IRQ_PAD)"

text \<open>What an exchange with a device leaves alone: the port's own state, its event and the lines.\<close>

definition port_view where
  "port_view s = (pad_state (pad s), joy_stat (pad s), joy_ctrl (pad s), pad_timer_active s,
     intc s, current_event (timing s))"

definition exch :: "'a pad_sys_scheme \<Rightarrow> 'a pad_sys_scheme \<Rightarrow> bool" where
  "exch s t \<longleftrightarrow> cards_sound t \<and> port_view t = port_view s"

lemma exch_refl: "cards_sound s \<Longrightarrow> exch s s"
  by (simp add: exch_def)

lemma exch_trans: "exch r s \<Longrightarrow> exch s t \<Longrightarrow> exch r t"
  by (simp add: exch_def)

lemma exch_sound: "exch s t \<Longrightarrow> cards_sound t"
  by (simp add: exch_def)

text \<open>Fields the updates leave alone.\<close>

lemma upd_pad_simps [simp]:
  "pad (upd_pad f s) = f (pad s)" "timing_events (upd_pad f s) = timing_events s"
  "timing (upd_pad f s) = timing s" "intc (upd_pad f s) = intc s" "cpu (upd_pad f s) = cpu s"
  by (simp_all add: upd_pad_def)

lemma sched_queue_fields:
  "\<lbrakk>timing_events s = timing_events t; timing s = timing t\<rbrakk> \<Longrightarrow> sched_queue s xs = sched_queue t xs"
  by (simp add: sched_queue_def sched_dll_def)

lemma has_queue_upd_pad [simp]: "has_queue (upd_pad f s) = has_queue s"
proof -
  have "sched_queue (upd_pad f s) xs = sched_queue s xs" for xs by (rule sched_queue_fields) simp_all
  then show ?thesis by (simp add: has_queue_def)
qed

lemma pad_timer_upd [simp]: "pad_timer_active (upd_pad f s) = pad_timer_active s"
  by (simp add: pad_timer_active_def)

lemma irq_line_upd_pad [simp]: "irq_line_high (upd_pad f s) n = irq_line_high s n"
  by (simp add: irq_line_high_def)

lemma exch_devices:
  assumes "cards_sound s" "\<And>p. pad_state (f p) = pad_state p" "\<And>p. joy_stat (f p) = joy_stat p"
    "\<And>p. joy_ctrl (f p) = joy_ctrl p"
    "\<And>i mc. memory_cards (f (pad s)) i = Some mc \<Longrightarrow> card_ok mc"
  shows "exch s (upd_pad f s)"
  using assms by (simp add: exch_def port_view_def cards_sound_def)

lemma exch_simple:
  assumes "cards_sound s"
  shows "exch s (put_controller i c s)" "exch s (upd_multitap i g s)" "exch s (set_active_device d s)"
    "exch s (card_frame_seen s)" "(\<And>mc. mco = Some mc \<Longrightarrow> card_ok mc) \<Longrightarrow> exch s (put_memory_card i mco s)"
  unfolding put_controller_def upd_multitap_def set_active_device_def card_frame_seen_def put_memory_card_def
  using assms by (auto intro!: exch_devices simp: cards_sound_def split: if_splits)

section \<open>The scheduler under the port\<close>

lemma more_pad: "sched_sys.more t = sched_sys.more s \<Longrightarrow> pad t = pad s"
  by (cases s, cases t) simp

lemma schedule_pad_event:
  assumes "has_queue s"
  shows "\<exists>t. timing_event_schedule e n s = Some t \<and> has_queue t \<and> pad t = pad s \<and> intc t = intc s \<and>
    current_event (timing t) = current_event (timing s) \<and>
    (\<forall>x. active (timing_events t x) \<longleftrightarrow> x = e \<or> active (timing_events s x)) \<and>
    period (timing_events t e) = period (timing_events s e)"
proof -
  obtain xs where q: "sched_queue s xs" using assms by (auto simp: has_queue_def)
  obtain t ys where t: "timing_event_schedule e n s = Some t" "sched_queue t ys" "set ys = insert e (set xs)"
    "sched_env s t"
    using schedule_refines [OF q, of e n] unfolding rescheduled_def by blast
  show ?thesis using t sched_queue_active [OF q] sched_queue_active [OF t(2)] more_pad [of t s]
    by (auto simp: has_queue_def sched_env_def)
qed

lemma deactivate_event:
  assumes "has_queue s"
  shows "\<exists>t. timing_event_deactivate e s = Some t \<and> has_queue t \<and> pad t = pad s \<and> intc t = intc s \<and>
    current_event (timing t) = current_event (timing s) \<and>
    (\<forall>x. active (timing_events t x) \<longleftrightarrow> x \<noteq> e \<and> active (timing_events s x))"
proof -
  obtain xs where q: "sched_queue s xs" using assms by (auto simp: has_queue_def)
  obtain t where t: "timing_event_deactivate e s = Some t" "sched_queue t (remove1 e xs)" "sched_env s t"
    using deactivate_queue [OF q, of e] by blast
  show ?thesis using t sched_queue_active [OF q] sched_queue_active [OF t(2)] more_pad [of t s]
      sched_queue_distinct [OF q]
    by (auto simp: has_queue_def sched_env_def)
qed

lemma sched_queue_period:
  assumes "\<And>v. f v = v\<lparr>period := g v\<rparr> \<or> f v = v\<lparr>interval := g v\<rparr>"
  shows "sched_queue (upd_event e f s) xs = sched_queue s xs"
proof -
  have f: "prev_event (f v) = prev_event v" "next_event (f v) = next_event v" "active (f v) = active v"
    "next_run_time (f v) = next_run_time v" for v
    using assms [of v] by auto
  have t: "ev_time (upd_event e f s) = ev_time s" by (rule ext) (simp add: f)
  have a: "active (timing_events (upd_event e f s) x) = active (timing_events s x)" for x by (simp add: f)
  have d: "sched_dll (upd_event e f s) xs = sched_dll s xs" by (rule sched_dll_upd) (simp_all add: f)
  show ?thesis unfolding sched_queue_def t d using a by simp
qed

lemma period_queue:
  fixes s :: "'a pad_sys_scheme"
  assumes "has_queue s" "u = timing_event_set_interval e n (timing_event_set_period e n s)"
  shows "has_queue u" "pad u = pad s" "intc u = intc s" "timing u = timing s"
    "active (timing_events u x) = active (timing_events s x)" "period (timing_events u e) = n"
proof -
  have "sched_queue (upd_event e (\<lambda>v. v\<lparr>period := n\<rparr>) v) xs = sched_queue v xs"
    "sched_queue (upd_event e (\<lambda>v. v\<lparr>interval := n\<rparr>) v) xs = sched_queue v xs" for v :: "'a pad_sys_scheme" and xs
    by (rule sched_queue_period [of _ "\<lambda>_. n"], simp)+
  then have "sched_queue u = sched_queue s"
    unfolding assms(2) timing_event_set_interval_def timing_event_set_period_def by (intro ext) simp
  then show "has_queue u" using assms(1) by (simp add: has_queue_def)
  show "pad u = pad s" "intc u = intc s" "timing u = timing s"
    "active (timing_events u x) = active (timing_events s x)" "period (timing_events u e) = n"
    by (simp_all add: assms(2) timing_event_set_interval_def timing_event_set_period_def upd_event_def)
qed

lemma set_period_schedule:
  assumes "has_queue s"
  shows "\<exists>t. timing_event_set_period_and_schedule e n s = Some t \<and> has_queue t \<and> pad t = pad s \<and>
    intc t = intc s \<and> current_event (timing t) = current_event (timing s) \<and>
    (\<forall>x. active (timing_events t x) \<longleftrightarrow> x = e \<or> active (timing_events s x)) \<and>
    period (timing_events t e) = n"
proof -
  note u = period_queue [OF assms refl [of "timing_event_set_interval e n (timing_event_set_period e n s)"]]
  show ?thesis using schedule_pad_event [OF u(1), of e n]
    by (simp add: timing_event_set_period_and_schedule_def u(2-6))
qed

text \<open>The same as steps of the port: another event, and the port's own.\<close>

lemma exch_schedule:
  assumes "cards_sound s" "e \<noteq> PAD_TRANSFER_EVENT"
  shows "\<exists>t. timing_event_schedule e n s = Some t \<and> exch s t"
    "\<exists>t. timing_event_deactivate e s = Some t \<and> exch s t"
  using schedule_pad_event [of s e n] deactivate_event [of s e] assms
  by (auto simp: cards_sound_def exch_def port_view_def pad_timer_active_def)

section \<open>The devices\<close>

text \<open>
  The host's functions may change the host's state, but nothing of the console's, and they leave
  the event queue sound.
\<close>

definition console_kept :: "'a pad_sys_scheme \<Rightarrow> 'a pad_sys_scheme \<Rightarrow> bool" where
  "console_kept s t \<longleftrightarrow> has_queue t \<and> pad t = pad s \<and> intc t = intc s \<and>
     pad_timer_active t = pad_timer_active s \<and> current_event (timing t) = current_event (timing s)"

definition pad_hooks_ok :: "('a pad_sys_scheme) pad_hooks \<Rightarrow> bool" where
  "pad_hooks_ok h \<longleftrightarrow> (\<forall>s. has_queue s \<longrightarrow>
     console_kept s (memory_card_on_accessed (pad_card_hooks h) s) \<and>
     (\<forall>p bs. console_kept s (snd (write_host_file (pad_card_hooks h) p bs s))))"

lemma pad_hooks_card: "pad_hooks_ok h \<Longrightarrow> card_hooks_ok (pad_card_hooks h)"
  unfolding pad_hooks_ok_def card_hooks_ok_def console_kept_def by blast

lemma kept_exch: "\<lbrakk>console_kept s t; cards_sound s\<rbrakk> \<Longrightarrow> exch s t"
  by (simp add: console_kept_def exch_def port_view_def cards_sound_def)

lemma hook_exch:
  assumes "pad_hooks_ok h" "cards_sound s"
  shows "exch s (memory_card_on_accessed (pad_card_hooks h) s)"
    "exch s (snd (write_host_file (pad_card_hooks h) p bs s))"
proof -
  have "has_queue s" using assms(2) by (simp add: cards_sound_def)
  then show "exch s (memory_card_on_accessed (pad_card_hooks h) s)"
    "exch s (snd (write_host_file (pad_card_hooks h) p bs s))"
    using assms(1) kept_exch [OF _ assms(2)] unfolding pad_hooks_ok_def by blast+
qed

lemma save_event_other: "save_event mc \<noteq> PAD_TRANSFER_EVENT"
  by (simp add: save_event_def MEMORY_CARD_SAVE_EVENT_def PAD_TRANSFER_EVENT_def)

lemma card_byte:
  assumes h: "pad_hooks_ok h" and ok: "card_ok mc" and s: "cards_sound s"
  shows "\<exists>ack out mc' t. memory_card_transfer (pad_card_hooks h) b out0 mc s = Some (ack, out, mc', t) \<and>
    card_ok mc' \<and> exch s t"
proof -
  let ?h = "pad_card_hooks h"
  have q: "has_queue s" using s by (simp add: cards_sound_def)
  obtain ack out mc' t where t: "memory_card_transfer ?h b out0 mc s = Some (ack, out, mc', t)" "card_ok mc'"
    using transfer_returns [OF pad_hooks_card [OF h] ok q, of b out0] by blast
  obtain m where m: "memory_card_switch (card_state mc) ?h b out0 mc s = Some (ack, out, m, t)"
    using t(1) by (auto simp: memory_card_transfer_def)
  have acc: "exch s (accessed_if ?h c s)" for c
    using hook_exch(1) [OF h s] exch_refl [OF s] by (simp add: accessed_if_def)
  have que: "exch s v" if "memory_card_queue_file_save ?h m' u = Some v" "exch s u" for m' u v
  proof (cases "v = u")
    case False
    then have v: "timing_event_schedule (save_event m') (memory_card_get_save_delay_in_ticks ?h) u = Some v"
      using that(1) by (auto simp: memory_card_queue_file_save_def split: if_splits)
    then have "exch u v"
      using exch_schedule(1) [OF exch_sound [OF that(2)] save_event_other, of m' "memory_card_get_save_delay_in_ticks ?h"]
      by simp
    then show ?thesis by (rule exch_trans [OF that(2)])
  qed (use that in simp)
  have "exch s t"
    using m acc [of "sector_offset mc = 0"] exch_refl [OF s] que
    by (cases "card_state mc")
      (auto simp: reply_def memory_card_command_def read_data_eq [OF ok] write_data_eq [OF ok] split: if_splits)
  then show ?thesis using t by blast
qed

lemma transfer_controller_exch:
  assumes "cards_sound s" "transfer_controller i b s = (ack, out, t)"
  shows "exch s t"
  using assms exch_simple(1) [OF assms(1)] exch_refl [OF assms(1)]
  by (auto simp: transfer_controller_def split: option.splits prod.splits)

lemma transfer_card_exch:
  assumes "pad_hooks_ok h" "cards_sound s"
  shows "\<exists>ack v t. transfer_memory_card h i b out s = Some (ack, v, t) \<and> exch s t"
proof (cases "memory_cards (pad s) i")
  case None
  then have "transfer_memory_card h i b out s = Some (False, 0xFF, s)" by (simp add: transfer_memory_card_def)
  then show ?thesis using exch_refl [OF assms(2)] by blast
next
  case (Some mc)
  then have ok: "card_ok mc" using assms(2) by (simp add: cards_sound_def)
  obtain ack v mc' t where t: "memory_card_transfer (pad_card_hooks h) b out mc s = Some (ack, v, mc', t)"
    "card_ok mc'" "exch s t"
    using card_byte [OF assms(1) ok assms(2)] by blast
  have "exch s (put_memory_card i (Some mc') t)"
    by (rule exch_trans [OF t(3) exch_simple(5)]) (use t(2) exch_sound [OF t(3)] in auto)
  then show ?thesis using Some t(1) by (simp add: transfer_memory_card_def)
qed

section \<open>The multitap\<close>

text \<open>
  The multitap reads its buffer at the step of the round.  The step stays below the 32 bytes of the
  buffer as long as the port is deselected after the last byte.
\<close>

definition multitap_in_buffer :: "multitap \<Rightarrow> bool" where
  "multitap_in_buffer m \<longleftrightarrow> mt_transfer_state m = MULTITAP_TRANSFER_ALL_CONTROLLERS \<longrightarrow>
     unat (controller_transfer_step m) < 32"

lemma exch_step: "\<lbrakk>exch r s; cards_sound s \<Longrightarrow> exch s t\<rbrakk> \<Longrightarrow> exch r t"
  by (rule exch_trans) (auto intro: exch_sound)

lemma address_others_exch: "cards_sound s \<Longrightarrow> exch s (address_other_slots i slot s)"
proof -
  have "exch s t \<Longrightarrow> exch s (fold (\<lambda>slot' t. if slot' \<noteq> slot
      then snd (snd (transfer_controller (multitap_pad_port (multitaps (pad t) i) slot') 0x01 t)) else t) xs t)"
    for xs :: "u8 list" and t
  proof (induction xs arbitrary: t)
    case (Cons x xs)
    have "exch t (snd (snd (transfer_controller j 0x01 t)))" for j
      using transfer_controller_exch [OF exch_sound [OF Cons.prems], of j "0x01"] by (metis prod.collapse)
    then show ?case using exch_trans [OF Cons.prems] Cons.prems by (simp add: Cons.IH)
  qed simp
  note all = this
  assume "cards_sound s"
  then show ?thesis unfolding address_other_slots_def by (intro all exch_refl)
qed

lemma multitap_idle_exch:
  assumes "pad_hooks_ok h" "cards_sound s"
  shows "\<exists>ack v t. multitap_idle_byte h i b out s = Some (ack, v, t) \<and> exch s t"
proof -
  let ?card = "0x81 \<le> b \<and> b \<le> 0x84" and ?pad = "0x01 \<le> b \<and> b \<le> 0x04"
  define sl where "sl = (if ?card then (b AND 0x0F) - 1 else b - 1)"
  define u where "u = upd_multitap i (\<lambda>m. m\<lparr>selected_slot := sl\<rparr>) s"
  have u: "exch s u" unfolding u_def by (rule exch_simple(2) [OF assms(2)])
  have up: "exch s t \<Longrightarrow> exch s (upd_multitap i g t)" for t g
    by (rule exch_step [OF _ exch_simple(2)])
  consider ?card | "\<not> ?card" ?pad | "\<not> ?card" "\<not> ?pad" by blast
  then show ?thesis
  proof cases
    case 1
    obtain ack v t where t: "transfer_memory_card h (multitap_pad_port (multitaps (pad s) i) sl) 0x81 out u = Some (ack, v, t)"
      "exch u t"
      using transfer_card_exch [OF assms(1) exch_sound [OF u]] by blast
    then show ?thesis using 1 up exch_trans [OF u t(2)]
      by (simp add: multitap_idle_byte_def sl_def u_def Let_def)
  next
    case 2
    obtain ack v t where t: "transfer_controller (multitap_pad_port (multitaps (pad s) i) sl) 0x01 u = (ack, v, t)"
      by (metis prod_cases3)
    have e: "exch s t" by (rule exch_trans [OF u transfer_controller_exch [OF exch_sound [OF u] t]])
    let ?t = "upd_multitap i (\<lambda>m. m\<lparr>mt_transfer_state := MULTITAP_TRANSFER_CONTROLLER_COMMAND\<rparr>) t"
    have "exch s (address_other_slots i sl ?t)" by (rule exch_step [OF up [OF e] address_others_exch])
    then show ?thesis using 2 t e up [OF e]
      by (cases ack) (auto simp: multitap_idle_byte_def sl_def u_def Let_def)
  next
    case 3
    then show ?thesis using exch_refl [OF assms(2)] by (auto simp: multitap_idle_byte_def Let_def)
  qed
qed

lemma multitap_command_exch:
  assumes "cards_sound s" "multitap_command_byte i b out s = (ack, v, t)"
  shows "exch s t"
proof -
  have up: "exch s u \<Longrightarrow> exch s (upd_multitap i g u)" for u g
    by (rule exch_step [OF _ exch_simple(2)])
  have con: "transfer_controller j c s = (a, w, u) \<Longrightarrow> exch s u" for j c a w u
    by (rule transfer_controller_exch [OF assms(1)])
  show ?thesis using assms(2) exch_refl [OF assms(1)]
    by (auto simp: multitap_command_byte_def Let_def intro!: up split: if_splits prod.splits dest: con)
qed

lemma multitap_all_exch:
  assumes "cards_sound s" "unat (controller_transfer_step (multitaps (pad s) i)) < 32"
  shows "\<exists>ack v t. multitap_all_byte i b s = Some (ack, v, t) \<and> exch s t"
proof -
  have up: "exch s u \<Longrightarrow> exch s (upd_multitap i g u)" for u g
    by (rule exch_step [OF _ exch_simple(2)])
  have con: "transfer_controller j c s = (a, w, u) \<Longrightarrow> exch s u" for j c a w u
    by (rule transfer_controller_exch [OF assms(1)])
  show ?thesis using assms(2) exch_refl [OF assms(1)]
    by (auto simp: multitap_all_byte_def Let_def split: prod.split intro!: up dest: con)
qed

lemma multitap_exch:
  assumes "pad_hooks_ok h" "cards_sound s" "multitap_in_buffer (multitaps (pad s) i)"
  shows "\<exists>ack v t. multitap_transfer h i b out s = Some (ack, v, t) \<and> exch s t"
proof -
  let ?m = "multitaps (pad s) i"
  have up: "exch s u \<Longrightarrow> exch s (upd_multitap i g u)" for u g
    by (rule exch_step [OF _ exch_simple(2)])
  show ?thesis
  proof (cases "mt_transfer_state ?m")
    case MULTITAP_TRANSFER_IDLE
    then show ?thesis using multitap_idle_exch [OF assms(1,2)] by (simp add: multitap_transfer_def Let_def)
  next
    case MULTITAP_TRANSFER_MEMORY_CARD
    obtain ack v t where "transfer_memory_card h (multitap_pad_port ?m (selected_slot ?m)) b out s = Some (ack, v, t)"
      "exch s t"
      using transfer_card_exch [OF assms(1,2)] by blast
    then show ?thesis using MULTITAP_TRANSFER_MEMORY_CARD up [of t] by (simp add: multitap_transfer_def Let_def)
  next
    case MULTITAP_TRANSFER_CONTROLLER_COMMAND
    obtain ack v t where t: "multitap_command_byte i b out s = (ack, v, t)" by (metis prod_cases3)
    then show ?thesis using MULTITAP_TRANSFER_CONTROLLER_COMMAND multitap_command_exch [OF assms(2) t]
      by (simp add: multitap_transfer_def Let_def)
  next
    case MULTITAP_TRANSFER_SINGLE_CONTROLLER
    obtain ack v t where t: "transfer_controller (multitap_pad_port ?m (selected_slot ?m)) b s = (ack, v, t)"
      by (metis prod_cases3)
    then show ?thesis using MULTITAP_TRANSFER_SINGLE_CONTROLLER transfer_controller_exch [OF assms(2) t] up [of t]
      by (simp add: multitap_transfer_def Let_def)
  next
    case MULTITAP_TRANSFER_ALL_CONTROLLERS
    then show ?thesis using multitap_all_exch [OF assms(2)] assms(3)
      by (simp add: multitap_transfer_def multitap_in_buffer_def Let_def)
  qed
qed

section \<open>The transfer\<close>

lemma set_device_exch: "exch s t \<Longrightarrow> exch s (if c then set_active_device d t else t)"
  using exch_trans [OF _ exch_simple(3) [OF exch_sound]] by auto

lemma select_device_exch:
  assumes "pad_hooks_ok h" "cards_sound s"
  shows "\<exists>ack v t. pad_select_device h i b s = Some (ack, v, t) \<and> exch s t"
proof -
  obtain ack v t where t: "transfer_controller i b s = (ack, v, t)" by (metis prod_cases3)
  have e: "exch s t" by (rule transfer_controller_exch [OF assms(2) t])
  consider "ack" | "\<not> ack" "memory_cards (pad t) i = None" | "\<not> ack" "memory_cards (pad t) i \<noteq> None" by blast
  then show ?thesis
  proof cases
    case 3
    obtain ack' v' u where u: "transfer_memory_card h i b v t = Some (ack', v', u)" "exch t u"
      using transfer_card_exch [OF assms(1) exch_sound [OF e]] by blast
    have su: "exch s u" by (rule exch_trans [OF e u(2)])
    have "exch s (card_frame_seen (set_active_device PAD_ACTIVE_MEMORY_CARD u))"
      by (rule exch_step [OF exch_step [OF su exch_simple(3)] exch_simple(4)])
    then show ?thesis using 3 t u(1) su by (auto simp: pad_select_device_def)
  qed (use t e exch_step [OF e exch_simple(3)] in \<open>auto simp: pad_select_device_def\<close>)
qed

lemma exchange_exch:
  assumes "pad_hooks_ok h" "cards_sound s" "\<And>i. multitap_in_buffer (multitaps (pad s) i)"
  shows "\<exists>ack v t. pad_exchange h s = Some (ack, v, t) \<and> exch s t"
proof -
  let ?slot = "joy_ctrl_slot (joy_ctrl (pad s))"
  let ?i = "if mt_enabled (multitaps (pad s) 0) then 4 else ?slot" and ?b = "transmit_value (pad s)"
  obtain ack v t where m: "multitap_transfer h ?slot ?b 0xFF s = Some (ack, v, t)" "exch s t"
    using multitap_exch [OF assms] by blast
  obtain a w u where c: "transfer_controller ?i ?b s = (a, w, u)" by (metis prod_cases3)
  have ce: "exch s u" by (rule transfer_controller_exch [OF assms(2) c])
  have f: "exch s (card_frame_seen s)" by (rule exch_simple(4) [OF assms(2)])
  obtain a' w' u' where k: "transfer_memory_card h ?i ?b 0xFF (card_frame_seen s) = Some (a', w', u')"
    "exch (card_frame_seen s) u'"
    using transfer_card_exch [OF assms(1) exch_sound [OF f]] by blast
  note r = exch_refl [OF assms(2)] and ke = exch_trans [OF f k(2)]
  show ?thesis
  proof (cases "active_device (pad s)")
    case PAD_ACTIVE_NONE
    then show ?thesis using m set_device_exch [OF m(2), of ack] select_device_exch [OF assms(1,2)]
      by (simp add: pad_exchange_def Let_def)
  next
    case PAD_ACTIVE_CONTROLLER
    then show ?thesis using c ce r by (auto simp: pad_exchange_def Let_def)
  next
    case PAD_ACTIVE_MEMORY_CARD
    then show ?thesis using k(1) ke r by (auto simp: pad_exchange_def Let_def)
  next
    case PAD_ACTIVE_MULTITAP
    then show ?thesis using m r by (auto simp: pad_exchange_def Let_def)
  qed
qed

text \<open>
  A step that returns keeps the invariant and the running event.  Steps compose.
\<close>

definition pad_returns :: "'a pad_sys_scheme \<Rightarrow> 'a pad_sys_scheme option \<Rightarrow> bool" where
  "pad_returns s r \<longleftrightarrow> (\<exists>t. r = Some t \<and> pad_wf t \<and> current_event (timing t) = current_event (timing s))"

lemma pad_returns_Some: "\<lbrakk>pad_wf t; current_event (timing t) = current_event (timing s)\<rbrakk> \<Longrightarrow> pad_returns s (Some t)"
  by (simp add: pad_returns_def)

lemma pad_returns_bind:
  assumes "pad_returns s r"
    and "\<And>t. \<lbrakk>r = Some t; pad_wf t; current_event (timing t) = current_event (timing s)\<rbrakk> \<Longrightarrow> pad_returns t (f t)"
  shows "pad_returns s (Option.bind r f)"
  using assms by (auto simp: pad_returns_def)

lemma pad_more_sched:
  fixes s t :: "'a pad_sys_scheme"
  assumes "sys_core.more t = sys_core.more s"
  shows "timing_events t = timing_events s" "timing t = timing s" "pad t = pad s"
  using assms by (cases s, cases t, simp)+

lemma line_pad [simp]:
  fixes s :: "'a pad_sys_scheme"
  shows "timing_events (interrupt_controller_set_line_state n b s) = timing_events s"
    "timing (interrupt_controller_set_line_state n b s) = timing s"
    "pad (interrupt_controller_set_line_state n b s) = pad s"
  by (rule pad_more_sched [OF set_line_state_more])+

lemma has_queue_line [simp]:
  "has_queue (interrupt_controller_set_line_state n b (s :: 'a pad_sys_scheme)) = has_queue s"
proof -
  have "sched_queue (interrupt_controller_set_line_state n b s) xs = sched_queue s xs" for xs
    by (rule sched_queue_fields) simp_all
  then show ?thesis by (simp add: has_queue_def)
qed

lemma irq_pad_range [simp]: "IRQ_PAD < 32" by (simp add: IRQ_PAD_def)

lemma trigger_fields [simp]:
  "pad (pad_trigger_irq s) = (pad s)\<lparr>joy_stat := set_bit 9 (joy_stat (pad s))\<rparr>"
  "timing (pad_trigger_irq s) = timing s" "timing_events (pad_trigger_irq s) = timing_events s"
  "has_queue (pad_trigger_irq s) = has_queue s" "irq_line_high (pad_trigger_irq s) IRQ_PAD"
  by (simp_all add: pad_trigger_irq_def set_line_state_line)

lemma trigger_wf: "pad_wf s \<Longrightarrow> pad_wf (pad_trigger_irq s)"
  by (simp add: pad_wf_def cards_sound_def pad_is_transmitting_def pad_timer_active_def)

lemma stat_wf:
  assumes "pad_wf s" "\<And>p. pad_state (f p) = pad_state p"
    "\<And>p. memory_cards (f p) = memory_cards p" "bit (joy_stat (f (pad s))) 9 \<Longrightarrow> bit (joy_stat (pad s)) 9"
  shows "pad_wf (upd_pad f s)"
  using assms by (auto simp: pad_wf_def cards_sound_def pad_is_transmitting_def)

lemma update_stat_fields [simp]:
  "timing (pad_update_joy_stat s) = timing s" "pad_state (pad (pad_update_joy_stat s)) = pad_state (pad s)"
  "pad_is_transmitting (pad_update_joy_stat s) = pad_is_transmitting s"
  by (simp_all add: pad_update_joy_stat_def pad_is_transmitting_def)

lemma update_stat_wf: "pad_wf s \<Longrightarrow> pad_wf (pad_update_joy_stat s)"
  unfolding pad_update_joy_stat_def by (rule stat_wf) (simp_all add: flag_put_def bit_simps split: if_splits)

text \<open>The invariant without the event: what holds while a transfer starts or stops.\<close>

definition pad_lines_ok :: "'a pad_sys_scheme \<Rightarrow> bool" where
  "pad_lines_ok s \<longleftrightarrow> cards_sound s \<and> (bit (joy_stat (pad s)) 9 \<longrightarrow> irq_line_high s IRQ_PAD)"

lemma wf_lines: "pad_wf s \<Longrightarrow> pad_lines_ok s"
  by (simp add: pad_wf_def pad_lines_ok_def)

lemma retime_wf:
  assumes "pad_lines_ok s" "pad_is_transmitting s"
  shows "pad_returns s (timing_event_set_period_and_schedule PAD_TRANSFER_EVENT n s)"
proof -
  have "has_queue s" using assms(1) by (simp add: pad_lines_ok_def cards_sound_def)
  then obtain t where t: "timing_event_set_period_and_schedule PAD_TRANSFER_EVENT n s = Some t" "has_queue t"
    "pad t = pad s" "intc t = intc s" "current_event (timing t) = current_event (timing s)"
    "active (timing_events t PAD_TRANSFER_EVENT)"
    using set_period_schedule [of s PAD_TRANSFER_EVENT n] by blast
  then show ?thesis using assms
    by (simp add: pad_returns_def pad_wf_def pad_lines_ok_def cards_sound_def pad_is_transmitting_def
        pad_timer_active_def irq_line_high_def)
qed

lemma begin_wf: "pad_lines_ok s \<Longrightarrow> pad_returns s (pad_begin_transfer s)"
proof -
  let ?u = "upd_pad (\<lambda>p. p\<lparr>joy_ctrl := set_bit 2 (joy_ctrl p), transmit_value := transmit_buffer p,
    transmit_buffer_full := False, pad_state := PAD_STATE_TRANSMITTING\<rparr>) s"
  assume "pad_lines_ok s"
  then have "pad_lines_ok ?u" "pad_is_transmitting ?u"
    by (simp_all add: pad_lines_ok_def cards_sound_def pad_is_transmitting_def)
  from retime_wf [OF this, of "pad_get_transfer_ticks ?u"] show ?thesis
    by (simp add: pad_begin_transfer_def pad_returns_def Let_def)
qed

lemma end_wf: "pad_lines_ok s \<Longrightarrow>
  \<exists>t. pad_end_transfer s = Some t \<and> pad_wf t \<and> \<not> pad_is_transmitting t \<and>
    current_event (timing t) = current_event (timing s) \<and> pad t = (pad s)\<lparr>pad_state := PAD_STATE_IDLE\<rparr>"
proof -
  let ?u = "upd_pad (\<lambda>p. p\<lparr>pad_state := PAD_STATE_IDLE\<rparr>) s"
  assume s: "pad_lines_ok s"
  then have "has_queue ?u" by (simp add: pad_lines_ok_def cards_sound_def)
  then obtain t where t: "timing_event_deactivate PAD_TRANSFER_EVENT ?u = Some t" "has_queue t"
    "pad t = pad ?u" "intc t = intc ?u" "current_event (timing t) = current_event (timing ?u)"
    "\<not> active (timing_events t PAD_TRANSFER_EVENT)"
    using deactivate_event [of ?u PAD_TRANSFER_EVENT] by blast
  then show ?thesis using s
    by (simp add: pad_end_transfer_def pad_wf_def pad_lines_ok_def cards_sound_def pad_is_transmitting_def
        pad_timer_active_def irq_line_high_def)
qed

lemma end_returns: "pad_lines_ok s \<Longrightarrow> pad_returns s (pad_end_transfer s)"
  using end_wf by (fastforce simp: pad_returns_def)

definition taps_in_buffer :: "'a pad_sys_scheme \<Rightarrow> bool" where
  "taps_in_buffer s \<longleftrightarrow> (\<forall>i. multitap_in_buffer (multitaps (pad s) i))"

lemma returns_update: "pad_returns s r \<Longrightarrow> pad_returns s (Option.bind r (\<lambda>t. Some (pad_update_joy_stat t)))"
  by (erule pad_returns_bind) (simp add: pad_returns_def update_stat_wf)

lemma returns_start: "\<lbrakk>pad_returns t r; current_event (timing t) = current_event (timing s)\<rbrakk> \<Longrightarrow> pad_returns s r"
  by (simp add: pad_returns_def)

lemma do_transfer_wf:
  assumes "pad_hooks_ok h" "pad_wf s" "pad_is_transmitting s" "taps_in_buffer s"
  shows "pad_returns s (pad_do_transfer h late s)"
proof -
  let ?u = "upd_pad (\<lambda>p. p\<lparr>joy_ctrl := set_bit 2 (joy_ctrl p)\<rparr>) s"
  have u: "cards_sound ?u" "\<And>i. multitap_in_buffer (multitaps (pad ?u) i)"
    using assms(2,4) by (simp_all add: pad_wf_def cards_sound_def taps_in_buffer_def)
  obtain ack v t where t: "pad_exchange h ?u = Some (ack, v, t)" "exch ?u t"
    using exchange_exch [OF assms(1) u] by blast
  define w where "w = upd_pad (\<lambda>p. p\<lparr>receive_buffer := v, receive_buffer_full := True\<rparr>) t"
  define x where "x = (if joy_ctrl_rxinten (joy_ctrl (pad w)) then pad_trigger_irq w else w)"
  have w: "pad_wf w" "pad_is_transmitting w" "current_event (timing w) = current_event (timing s)"
    using t(2) assms(2,3) by (simp_all add: w_def exch_def port_view_def pad_wf_def cards_sound_def
        pad_is_transmitting_def irq_line_high_def)
  then have x: "pad_wf x" "pad_is_transmitting x" "current_event (timing x) = current_event (timing s)"
    by (simp_all add: x_def trigger_wf pad_is_transmitting_def)
  let ?e = "set_active_device PAD_ACTIVE_NONE x" and ?y = "upd_pad (\<lambda>p. p\<lparr>pad_state := PAD_STATE_WAITING_FOR_ACK\<rparr>) x"
  have "pad_lines_ok ?e" "pad_lines_ok ?y" "pad_is_transmitting ?y"
    using wf_lines [OF x(1)]
    by (simp_all add: pad_lines_ok_def cards_sound_def set_active_device_def pad_is_transmitting_def)
  note k = this
  note e = end_returns [OF k(1)] and y = retime_wf [OF k(2,3)]
  have "pad_returns s (pad_end_transfer ?e)" by (rule returns_start [OF e]) (simp add: x(3) set_active_device_def)
  moreover have "pad_returns s (timing_event_set_period_and_schedule PAD_TRANSFER_EVENT n ?y)" for n
    by (rule returns_start [OF y]) (simp add: x(3))
  ultimately have "pad_returns s (pad_end_transfer ?e)"
    "pad_returns s (timing_event_set_period_and_schedule PAD_TRANSFER_EVENT n ?y)" for n by blast+
  note ends = this
  have "pad_do_transfer h late s = Option.bind (if \<not> ack then pad_end_transfer ?e
      else timing_event_set_period_and_schedule PAD_TRANSFER_EVENT (pad_get_ack_ticks
        (active_device (pad x) = PAD_ACTIVE_MEMORY_CARD \<or> (active_device (pad x) = PAD_ACTIVE_MULTITAP \<and>
           multitap_is_reading_memory_card (multitaps (pad x) (joy_ctrl_slot (joy_ctrl (pad s)))))))
        ?y) (\<lambda>s. Some (pad_update_joy_stat s))"
    by (simp add: pad_do_transfer_def Let_def t(1) w_def x_def)
  then show ?thesis using returns_update [OF ends(1)] returns_update [OF ends(2)] by (cases ack) simp_all
qed

lemma do_ack_wf:
  assumes "pad_wf s"
  shows "pad_returns s (pad_do_ack s)"
proof -
  let ?u = "upd_pad (\<lambda>p. p\<lparr>joy_stat := set_bit 7 (joy_stat p)\<rparr>) s"
  define v where "v = (if joy_ctrl_ackinten (joy_ctrl (pad ?u)) then pad_trigger_irq ?u else ?u)"
  have "pad_wf ?u" by (rule stat_wf [OF assms]) (simp_all add: bit_simps)
  then have v: "pad_wf v" "current_event (timing v) = current_event (timing s)"
    by (simp_all add: v_def trigger_wf)
  obtain t where t: "pad_end_transfer v = Some t" "pad_wf t" "current_event (timing t) = current_event (timing v)"
    using end_wf [OF wf_lines [OF v(1)]] by blast
  let ?t = "pad_update_joy_stat t"
  have "pad_wf ?t" by (rule update_stat_wf [OF t(2)])
  then have "pad_returns ?t (if pad_can_transfer ?t then pad_begin_transfer ?t else Some ?t)"
    using begin_wf [OF wf_lines, of ?t] by (cases "pad_can_transfer ?t") (simp_all add: pad_returns_Some)
  then have "pad_returns s (if pad_can_transfer ?t then pad_begin_transfer ?t else Some ?t)"
    by (rule returns_start) (simp add: t(3) v(2))
  then show ?thesis unfolding pad_do_ack_def Let_def v_def [symmetric] by (simp add: t(1))
qed

lemma event_wf:
  assumes "pad_hooks_ok h" "pad_wf s" "pad_is_transmitting s" "taps_in_buffer s"
  shows "pad_returns s (pad_transfer_event h ticks late s)"
  using do_transfer_wf [OF assms] do_ack_wf [OF assms(2)] by (simp add: pad_transfer_event_def)

lemma sync_wf:
  assumes "pad_hooks_ok h" "pad_wf s" "taps_in_buffer s" "current_event (timing s) \<noteq> Some PAD_TRANSFER_EVENT"
  shows "pad_returns s (if pad_is_transmitting s then pad_invoke_early h s else Some s)"
proof (cases "pad_is_transmitting s")
  case True
  obtain xs where q: "sched_queue s xs" using assms(2) by (auto simp: pad_wf_def cards_sound_def has_queue_def)
  let ?early = "timing_event_invoke_early (\<lambda>e. pad_transfer_event h) PAD_TRANSFER_EVENT False s"
  consider "?early = Some s" | r ys t where "?early = pad_transfer_event h t 0 r" "sched_queue r ys"
    "set ys = set xs" "sched_env s r"
    using invoke_early_cases [OF q assms(4), of "\<lambda>e. pad_transfer_event h" False] by blast
  then show ?thesis
  proof cases
    case 2
    have "\<And>x. active (timing_events r x) = active (timing_events s x)"
      using sched_queue_active [OF q] sched_queue_active [OF 2(2)] 2(3) by simp
    then have r: "pad_wf r" "pad_is_transmitting r" "taps_in_buffer r" "current_event (timing r) = current_event (timing s)"
      using assms(2,3) True 2(2,4) more_pad [of r s]
      by (auto simp: pad_wf_def cards_sound_def pad_is_transmitting_def pad_timer_active_def irq_line_high_def
          taps_in_buffer_def sched_env_def has_queue_def)
    show ?thesis using returns_start [OF event_wf [OF assms(1) r(1-3)] r(4)] True 2(1)
      by (simp add: pad_invoke_early_def)
  qed (use True assms(2) in \<open>simp add: pad_invoke_early_def pad_returns_def\<close>)
qed (use assms(2) in \<open>simp add: pad_returns_def\<close>)

section \<open>Resets and registers\<close>

lemma card_reset_transfer_ok [simp]: "card_ok (memory_card_reset_transfer_state mc)"
  by (simp add: card_ok_def memory_card_reset_transfer_state_def)

lemma reset_devices_wf: "pad_wf s \<Longrightarrow> pad_wf (pad_reset_device_transfer_state h s)"
  by (auto simp: pad_wf_def pad_reset_device_transfer_state_def cards_sound_def pad_is_transmitting_def
      split: if_splits)

lemma reset_devices_fields [simp]:
  "timing (pad_reset_device_transfer_state h s) = timing s"
  "joy_ctrl (pad (pad_reset_device_transfer_state h s)) = joy_ctrl (pad s)"
  "pad_is_transmitting (pad_reset_device_transfer_state h s) = pad_is_transmitting s"
  by (simp_all add: pad_reset_device_transfer_state_def pad_is_transmitting_def)

lemma stop_wf:
  assumes "pad_wf s"
  shows "pad_returns s (if pad_is_transmitting s then pad_end_transfer s else Some s)"
  using end_returns [OF wf_lines [OF assms]] assms by (simp add: pad_returns_def)

lemma soft_reset_wf:
  fixes s :: "'a pad_sys_scheme"
  assumes "pad_wf s"
  shows "pad_returns s (pad_soft_reset h s)"
  unfolding pad_soft_reset_def
proof (rule pad_returns_bind [OF stop_wf [OF assms]])
  fix t :: "'a pad_sys_scheme" assume "pad_wf t"
  then have "pad_wf (upd_pad (\<lambda>p. p\<lparr>joy_ctrl := 0, joy_stat := 0, joy_mode := 0, receive_buffer := 0,
      receive_buffer_full := False, transmit_buffer := 0, transmit_buffer_full := False\<rparr>) t)"
    by (rule stat_wf) simp_all
  from update_stat_wf [OF reset_devices_wf [OF this]] show "pad_returns t (let s = upd_pad (\<lambda>p. p\<lparr>joy_ctrl := 0,
      joy_stat := 0, joy_mode := 0, receive_buffer := 0, receive_buffer_full := False, transmit_buffer := 0,
      transmit_buffer_full := False\<rparr>) t in Some (pad_update_joy_stat (pad_reset_device_transfer_state h s)))"
    by (simp add: pad_returns_def)
qed

lemma write_data_wf:
  assumes "pad_wf s"
  shows "pad_returns s (pad_write_data v s)"
proof -
  let ?u = "upd_pad (\<lambda>p. p\<lparr>transmit_buffer := ucast v, transmit_buffer_full := True\<rparr>) s"
  define w where "w = (if joy_ctrl_txinten (joy_ctrl (pad ?u)) then pad_trigger_irq ?u else ?u)"
  have "pad_wf ?u" by (rule stat_wf [OF assms]) simp_all
  then have w: "pad_wf w" "current_event (timing w) = current_event (timing s)" by (simp_all add: w_def trigger_wf)
  have "pad_returns w (if \<not> pad_is_transmitting w \<and> pad_can_transfer w then pad_begin_transfer w else Some w)"
    using begin_wf [OF wf_lines [OF w(1)]] w(1) by (simp add: pad_returns_def)
  from returns_start [OF this w(2)] show ?thesis unfolding pad_write_data_def Let_def w_def .
qed

lemma ctrl_rest_wf:
  fixes t :: "'a pad_sys_scheme"
  assumes t: "pad_wf t"
  shows "pad_returns t (let
     s = (if joy_ctrl_ack (joy_ctrl (pad t))
          then interrupt_controller_set_line_state IRQ_PAD False
                 (upd_pad (\<lambda>p. p\<lparr>joy_stat := unset_bit 9 (joy_stat p)\<rparr>) t)
          else t);
     s = (if joy_ctrl_select (joy_ctrl (pad s)) then s else pad_reset_device_transfer_state h s) in do {
     s \<leftarrow> (if \<not> joy_ctrl_select (joy_ctrl (pad s)) \<or> \<not> joy_ctrl_txen (joy_ctrl (pad s))
          then if pad_is_transmitting s then pad_end_transfer s else Some s
          else if \<not> pad_is_transmitting s \<and> pad_can_transfer s then pad_begin_transfer s else Some s);
     Some (pad_update_joy_stat s) })"
proof -
  let ?a = "interrupt_controller_set_line_state IRQ_PAD False
      (upd_pad (\<lambda>p. p\<lparr>joy_stat := unset_bit 9 (joy_stat p)\<rparr>) t)"
  define w where "w = (if joy_ctrl_ack (joy_ctrl (pad t)) then ?a else t)"
  define x where "x = (if joy_ctrl_select (joy_ctrl (pad w)) then w else pad_reset_device_transfer_state h w)"
  have "pad_wf ?a" using t
    by (simp add: pad_wf_def cards_sound_def pad_is_transmitting_def pad_timer_active_def bit_simps)
  then have w: "pad_wf w" "timing w = timing t" using t by (simp_all add: w_def)
  then have x: "pad_wf x" "timing x = timing t" by (simp_all add: x_def reset_devices_wf)
  have "pad_returns x (if \<not> joy_ctrl_select (joy_ctrl (pad x)) \<or> \<not> joy_ctrl_txen (joy_ctrl (pad x))
        then if pad_is_transmitting x then pad_end_transfer x else Some x
        else if \<not> pad_is_transmitting x \<and> pad_can_transfer x then pad_begin_transfer x else Some x)"
    using stop_wf [OF x(1)] begin_wf [OF wf_lines [OF x(1)]] pad_returns_Some [OF x(1) refl] by presburger
  then have "pad_returns t (if \<not> joy_ctrl_select (joy_ctrl (pad x)) \<or> \<not> joy_ctrl_txen (joy_ctrl (pad x))
        then if pad_is_transmitting x then pad_end_transfer x else Some x
        else if \<not> pad_is_transmitting x \<and> pad_can_transfer x then pad_begin_transfer x else Some x)"
    by (rule returns_start) (simp add: x(2))
  from returns_update [OF this] show ?thesis unfolding Let_def x_def w_def .
qed

lemma write_ctrl_wf:
  assumes "pad_wf s"
  shows "pad_returns s (pad_write_ctrl h v s)"
proof -
  let ?u = "upd_pad (\<lambda>p. p\<lparr>joy_ctrl := ucast v\<rparr>) s"
  have u: "pad_wf ?u" by (rule stat_wf [OF assms]) simp_all
  have "pad_returns ?u (if joy_ctrl_reset (joy_ctrl (pad ?u)) then pad_soft_reset h ?u else Some ?u)"
    using soft_reset_wf [OF u] pad_returns_Some [OF u refl] by presburger
  then have "pad_returns s (if joy_ctrl_reset (joy_ctrl (pad ?u)) then pad_soft_reset h ?u else Some ?u)"
    by (rule returns_start) simp
  from pad_returns_bind [OF this ctrl_rest_wf] show ?thesis unfolding pad_write_ctrl_def Let_def .
qed

lemma pad_write_wf:
  assumes "pad_wf s"
  shows "pad_returns s (pad_write_register h offset v s)"
proof -
  have "pad_wf (upd_pad (\<lambda>p. p\<lparr>joy_mode := m\<rparr>) s)" "pad_wf (upd_pad (\<lambda>p. p\<lparr>joy_baud := m\<rparr>) s)" for m
    by (rule stat_wf [OF assms], simp_all)+
  then show ?thesis using write_data_wf [OF assms, of v] write_ctrl_wf [OF assms, of h v] assms
    by (simp add: pad_write_register_def pad_returns_def)
qed

lemma pad_read_wf:
  assumes "pad_hooks_ok h" "pad_wf s" "taps_in_buffer s" "current_event (timing s) \<noteq> Some PAD_TRANSFER_EVENT"
  shows "\<exists>v. pad_returns s (map_option snd (pad_read_register h offset s))"
proof -
  have sync: "pad_returns s (if pad_is_transmitting s then pad_invoke_early h s else Some s)"
    by (rule sync_wf [OF assms])
  then obtain t where t: "(if pad_is_transmitting s then pad_invoke_early h s else Some s) = Some t"
    "pad_wf t" "current_event (timing t) = current_event (timing s)"
    by (auto simp: pad_returns_def)
  have "pad_wf (upd_pad (\<lambda>p. p\<lparr>receive_buffer_full := False\<rparr>) t)" by (rule stat_wf [OF t(2)]) simp_all
  then have d: "pad_wf (pad_update_joy_stat (upd_pad (\<lambda>p. p\<lparr>receive_buffer_full := False\<rparr>) t))"
    by (rule update_stat_wf)
  have a: "pad_wf (upd_pad (\<lambda>p. p\<lparr>joy_stat := unset_bit 7 (joy_stat p)\<rparr>) t)"
    by (rule stat_wf [OF t(2)]) (simp_all add: bit_simps)
  show ?thesis using t(1,3) d a assms(2)
    by (simp add: pad_read_register_def pad_returns_def Let_def)
qed

lemma pad_event_wf:
  assumes "pad_hooks_ok h" "pad_wf s" "pad_timer_active s" "taps_in_buffer s"
  shows "pad_returns s (pad_transfer_event h ticks late s)"
  using event_wf [OF assms(1,2) _ assms(4)] assms(2,3) by (simp add: pad_wf_def)

end
