(* ===== verification/Controller_Props.thy ===== *)
theory Controller_Props
  imports Controllers
begin

text \<open>
  The controllers' protocol: what a whole poll answers, and the invariant that keeps the analog
  pad's accesses inside its 8-byte buffers.
\<close>

section \<open>Sessions\<close>

text \<open>The host sends the bytes one after the other; each is answered with an acknowledgement and a reply.\<close>

fun controller_session :: "u8 list \<Rightarrow> controller \<Rightarrow> (bool \<times> u8) list \<times> controller" where
  "controller_session [] c = ([], c)"
| "controller_session (b # bs) c =
     (case controller_transfer b c of
        (ack, out, c) \<Rightarrow> (case controller_session bs c of (rs, c) \<Rightarrow> ((ack, out) # rs, c)))"

lemma session_replies:
  "controller_transfer b c = (ack, out, d) \<Longrightarrow>
   fst (controller_session (b # bs) c) = (ack, out) # fst (controller_session bs d)"
  by (simp add: case_prod_unfold)

lemma digital_session:
  assumes "dc_transfer_state dc = DIGITAL_CONTROLLER_TRANSFER_IDLE" "b = dc_button_state dc AND dc_button_mask dc"
  shows "controller_session [0x01, 0x42, x, y, z] (Digital dc) =
    ([(True, 0xFF), (True, 0x41), (True, 0x5A), (True, ucast b), (False, ucast (drop_bit 8 b))], Digital dc)"
  using assms
  by (simp add: controller_transfer_def digital_controller_transfer_def DIGITAL_CONTROLLER_ID_def Let_def
      unsigned_ucast_eq)

section \<open>The analog pad\<close>

text \<open>The step of a running command is inside the reply, the reply inside the buffers.\<close>

definition analog_ok :: "analog_controller \<Rightarrow> bool" where
  "analog_ok ac \<longleftrightarrow> digital_mode_extra_halfwords ac = 0 \<and>
     (if ac_command ac = ANALOG_CONTROLLER_CMD_IDLE \<or> ac_command ac = ANALOG_CONTROLLER_CMD_READY
      then command_step ac = 0
      else 0 < unat (command_step ac) \<and> unat (command_step ac) < unat (response_length ac) \<and>
        unat (response_length ac) \<le> 8)"

text \<open>What a command's byte leaves alone: the command, its step and the length of the reply.\<close>

definition progress_of :: "analog_controller \<Rightarrow> analog_controller_command \<times> u8 \<times> u8 \<times> u8" where
  "progress_of ac = (ac_command ac, command_step ac, response_length ac, digital_mode_extra_halfwords ac)"

lemma set_motor_fields [simp]:
  "progress_of (set_motor_state m v ac) = progress_of ac" "tx_buffer (set_motor_state m v ac) = tx_buffer ac"
  by (simp_all add: set_motor_state_def progress_of_def)

lemma reset_rumble_fields [simp]:
  "progress_of (reset_rumble_config ac) = progress_of ac" "tx_buffer (reset_rumble_config ac) = tx_buffer ac"
  by (simp_all add: reset_rumble_config_def Let_def) (simp add: progress_of_def)

lemma set_tx_progress [simp]: "progress_of (set_tx bs off ac) = progress_of ac"
  by (simp add: set_tx_def progress_of_def)

lemma set_mode_progress [simp]: "progress_of (set_analog_mode b ac) = progress_of ac"
  by (simp add: set_analog_mode_def progress_of_def)

lemma command_byte_progress [simp]: "progress_of (command_byte cmd b ac) = progress_of ac"
proof (cases cmd)
  case ANALOG_CONTROLLER_CMD_GET_SET_RUMBLE
  have "progress_of (ac\<lparr>rumble_config := r\<rparr>) = progress_of ac" for r and ac by (simp add: progress_of_def)
  then show ?thesis using ANALOG_CONTROLLER_CMD_GET_SET_RUMBLE by (simp add: get_set_rumble_def Let_def)
next
  case ANALOG_CONTROLLER_CMD_CONFIG_MODE_SET_MODE
  then show ?thesis by (simp add: set_configuration_mode_def progress_of_def Let_def)
next
  case ANALOG_CONTROLLER_CMD_SET_ANALOG_MODE
  have "progress_of (ac\<lparr>analog_locked := l\<rparr>) = progress_of ac" for l by (simp add: progress_of_def)
  then show ?thesis using ANALOG_CONTROLLER_CMD_SET_ANALOG_MODE by simp
qed (simp_all add: read_pad_motors_def Let_def)

lemma halfwords_bound:
  assumes "digital_mode_extra_halfwords ac = 0"
  shows "unat ((get_response_num_halfwords ac + 1) * 2) = (if configuration_mode ac \<or> analog_mode ac then 8 else 4)"
  using assms by (simp add: get_response_num_halfwords_def)

lemma accept_progress:
  assumes "accept_command b ac = Some ac'"
  shows "\<exists>cmd. progress_of ac' = (cmd, command_step ac, (get_response_num_halfwords ac + 1) * 2,
      digital_mode_extra_halfwords ac) \<and> cmd \<noteq> ANALOG_CONTROLLER_CMD_IDLE \<and> cmd \<noteq> ANALOG_CONTROLLER_CMD_READY"
proof -
  have p: "progress_of (poll_state_into_tx a) = progress_of a" "progress_of (load_tx_pattern bs a) = progress_of a"
    for a bs
    by (simp_all add: poll_state_into_tx_def load_tx_pattern_def Let_def)
  have b: "progress_of (begin_response cmd ac) = (cmd, command_step ac, (get_response_num_halfwords ac + 1) * 2,
      digital_mode_extra_halfwords ac)" for cmd
    by (simp add: begin_response_def progress_of_def)
  show ?thesis using assms
    by (auto simp: accept_command_def p b Let_def split: if_splits)
qed

lemma send_ok:
  assumes "progress_of ac = (cmd, n, l, 0)" "unat n < unat l" "unat l \<le> 8"
    "cmd \<noteq> ANALOG_CONTROLLER_CMD_IDLE" "cmd \<noteq> ANALOG_CONTROLLER_CMD_READY"
    "send_response ac = (ack, out, ac')"
  shows "analog_ok ac'" "ack \<longleftrightarrow> unat n + 1 < unat l" "out = tx_buffer ac (unat n)"
    "\<not> ack \<Longrightarrow> ac_command ac' = ANALOG_CONTROLLER_CMD_IDLE"
proof -
  define k :: u8 where "k = of_nat ((unat n + 1) mod unat l)"
  have k: "unat k = (if unat n + 1 = unat l then 0 else unat n + 1)"
    using assms(2,3) by (simp add: k_def unat_of_nat mod_less)
  have f: "ac_command ac = cmd" "command_step ac = n" "response_length ac = l" "digital_mode_extra_halfwords ac = 0"
    using assms(1) by (simp_all add: progress_of_def)
  have sr: "send_response ac = (if k = 0
      then (False, tx_buffer ac (unat n), ac\<lparr>command_step := k, ac_command := ANALOG_CONTROLLER_CMD_IDLE,
        rx_buffer := (\<lambda>_. 0), tx_buffer := (\<lambda>_. 0)\<rparr>)
      else (True, tx_buffer ac (unat n), ac\<lparr>command_step := k\<rparr>))"
    unfolding send_response_def Let_def f k_def [symmetric] by simp
  have z: "k = 0 \<longleftrightarrow> unat n + 1 = unat l" using k assms(2) by (auto simp: word_unat_eq_iff)
  show "analog_ok ac'" "ack \<longleftrightarrow> unat n + 1 < unat l" "out = tx_buffer ac (unat n)"
    "\<not> ack \<Longrightarrow> ac_command ac' = ANALOG_CONTROLLER_CMD_IDLE"
    using assms(2-6) k z unfolding sr by (auto simp: f analog_ok_def split: if_splits)
qed

lemma analog_transfer_ok:
  assumes ok: "analog_ok ac" and t: "analog_controller_transfer b ac = (ack, out, ac')"
  shows "analog_ok ac'" "unat (command_step ac) < 8"
    "ack \<Longrightarrow> ac_command ac' \<noteq> ANALOG_CONTROLLER_CMD_IDLE"
    "\<not> ack \<Longrightarrow> ac_command ac' = ANALOG_CONTROLLER_CMD_IDLE \<or> ac_command ac' = ANALOG_CONTROLLER_CMD_READY"
proof -
  define r where "r = ac\<lparr>rx_buffer := (rx_buffer ac)(unat (command_step ac) := b)\<rparr>"
  have rp: "progress_of r = progress_of ac" by (simp add: r_def progress_of_def)
  have keep: "analog_ok a \<longleftrightarrow> analog_ok ac" if "progress_of a = progress_of ac" for a
    using that by (simp add: analog_ok_def progress_of_def)
  show "unat (command_step ac) < 8" using ok by (auto simp: analog_ok_def split: if_splits)
  consider (idle) "ac_command ac = ANALOG_CONTROLLER_CMD_IDLE" | (ready) "ac_command ac = ANALOG_CONTROLLER_CMD_READY"
    | (running) "ac_command ac \<noteq> ANALOG_CONTROLLER_CMD_IDLE" "ac_command ac \<noteq> ANALOG_CONTROLLER_CMD_READY" by blast
  then have "analog_ok ac' \<and> (ack \<longrightarrow> ac_command ac' \<noteq> ANALOG_CONTROLLER_CMD_IDLE) \<and>
    (\<not> ack \<longrightarrow> ac_command ac' = ANALOG_CONTROLLER_CMD_IDLE \<or> ac_command ac' = ANALOG_CONTROLLER_CMD_READY)"
  proof cases
    case idle
    then show ?thesis using t ok
      by (auto simp: analog_controller_transfer_def Let_def analog_ok_def split: if_splits)
  next
    case ready
    show ?thesis
    proof (cases "accept_command b r")
      case None
      then have "\<not> ack" "ac' = r" using t ready
        by (simp_all add: analog_controller_transfer_def Let_def r_def)
      moreover have "ac_command r = ANALOG_CONTROLLER_CMD_READY" using ready by (simp add: r_def)
      ultimately show ?thesis using ok keep [OF rp] by simp
    next
      case (Some a)
      have r0: "digital_mode_extra_halfwords r = 0" "command_step r = 0"
        using ok ready by (simp_all add: r_def analog_ok_def)
      obtain cmd where p: "progress_of a = (cmd, 0, (get_response_num_halfwords r + 1) * 2, 0)"
        "cmd \<noteq> ANALOG_CONTROLLER_CMD_IDLE" "cmd \<noteq> ANALOG_CONTROLLER_CMD_READY"
        using accept_progress [OF Some] by (auto simp: r0)
      have s: "send_response a = (ack, out, ac')" using t ready Some
        by (simp add: analog_controller_transfer_def Let_def r_def)
      note e = send_ok [OF p(1) _ _ p(2,3) s]
      have l: "unat (0 :: u8) < unat ((get_response_num_halfwords r + 1) * 2)"
        "unat ((get_response_num_halfwords r + 1) * 2) \<le> 8"
        "1 < unat ((get_response_num_halfwords r + 1) * 2)"
        using halfwords_bound [OF r0(1)] by simp_all
      have "ac_command ac' = cmd"
        using s p(1) e(2) [OF l(1,2)] l(3)
        by (auto simp: send_response_def Let_def progress_of_def split: if_splits)
      then show ?thesis using e(1,2) [OF l(1,2)] l(3) p(2) by simp
    qed
  next
    case running
    let ?c = "command_byte (ac_command ac) b r"
    have "progress_of ?c = progress_of ac" by (simp only: command_byte_progress rp)
    then have p: "progress_of ?c = (ac_command ac, command_step ac, response_length ac, 0)"
      using ok by (simp only:) (simp add: progress_of_def analog_ok_def)
    have s: "send_response ?c = (ack, out, ac')" using t running
      by (simp add: analog_controller_transfer_def Let_def r_def)
    have l: "unat (command_step ac) < unat (response_length ac)" "unat (response_length ac) \<le> 8"
      using ok running by (simp_all add: analog_ok_def)
    note e = send_ok [OF p l running s]
    have "ac_command ac' = ac_command ac" if ack
      using s p that by (auto simp: send_response_def Let_def progress_of_def split: if_splits)
    then show ?thesis using e(1,4) running by (cases ack) simp_all
  qed
  then show "analog_ok ac'" "ack \<Longrightarrow> ac_command ac' \<noteq> ANALOG_CONTROLLER_CMD_IDLE"
    "\<not> ack \<Longrightarrow> ac_command ac' = ANALOG_CONTROLLER_CMD_IDLE \<or> ac_command ac' = ANALOG_CONTROLLER_CMD_READY"
    by blast+
qed

text \<open>The report of a poll, and the bytes of a command whose replies stay as they were prepared.\<close>

definition analog_report :: "analog_controller \<Rightarrow> u8 list" where
  "analog_report ac =
     (let buttons = ac_button_state ac AND get_extra_button_mask ac; axes = axis_state ac
      in [get_id_byte ac, status_byte ac, ucast buttons, ucast (drop_bit 8 buttons)] @
           (if analog_mode ac \<or> configuration_mode ac then [axes 2, axes 3, axes 0, axes 1] else []))"

lemma send_steps:
  assumes "progress_of ac = (cmd, of_nat n, l, 0)" "n < unat l" "unat l \<le> 8"
    "cmd \<noteq> ANALOG_CONTROLLER_CMD_IDLE" "cmd \<noteq> ANALOG_CONTROLLER_CMD_READY"
  shows "send_response ac = (if Suc n = unat l
    then (False, tx_buffer ac n, ac\<lparr>command_step := 0, ac_command := ANALOG_CONTROLLER_CMD_IDLE,
        rx_buffer := (\<lambda>_. 0), tx_buffer := (\<lambda>_. 0)\<rparr>)
    else (True, tx_buffer ac n, ac\<lparr>command_step := of_nat (Suc n)\<rparr>))"
proof -
  have f: "command_step ac = of_nat n" "response_length ac = l" using assms(1) by (simp_all add: progress_of_def)
  have small: "unat (of_nat m :: u8) = m" if "m < 256" for m using that by (simp add: unat_of_nat)
  have u: "unat (of_nat n :: u8) = n" by (rule small) (use assms(2,3) in simp)
  define k :: u8 where "k = of_nat ((n + 1) mod unat l)"
  have k: "k = (if Suc n = unat l then 0 else of_nat (Suc n))" using assms(2) by (simp add: k_def)
  have "unat (of_nat (Suc n) :: u8) = Suc n" by (rule small) (use assms(2,3) in simp)
  then have z: "(of_nat (Suc n) :: u8) \<noteq> 0" by (metis unat_0 nat.distinct(1))
  show ?thesis unfolding send_response_def Let_def f u k_def [symmetric] using k z by simp
qed

lemma motors_fields:
  "progress_of (read_pad_motors b ac) = progress_of ac" "tx_buffer (read_pad_motors b ac) = tx_buffer ac"
  by (simp_all add: read_pad_motors_def Let_def)

lemma poll_rest:
  assumes "progress_of ac = (ANALOG_CONTROLLER_CMD_READ_PAD, of_nat n, l, 0)" "0 < n" "n < unat l" "unat l \<le> 8"
    "n + length bs = unat l"
  shows "fst (controller_session bs (Analog ac)) = map (\<lambda>i. (Suc i < unat l, tx_buffer ac i)) [n..<unat l]"
  using assms
proof (induction bs arbitrary: ac n)
  case (Cons b bs)
  define r where "r = ac\<lparr>rx_buffer := (rx_buffer ac)(unat (command_step ac) := b)\<rparr>"
  let ?c = "read_pad_motors b r"
  have r: "progress_of r = progress_of ac" "tx_buffer r = tx_buffer ac" by (simp_all add: r_def progress_of_def)
  have c: "progress_of ?c = (ANALOG_CONTROLLER_CMD_READ_PAD, of_nat n, l, 0)" "tx_buffer ?c = tx_buffer ac"
    using Cons.prems(1) by (simp_all only: motors_fields r)
  have t: "analog_controller_transfer b ac = send_response ?c"
    using Cons.prems(1) by (simp add: analog_controller_transfer_def r_def progress_of_def Let_def)
  note s = send_steps [OF c(1) Cons.prems(3,4)]
  have up: "[n..<unat l] = n # [Suc n..<unat l]" using Cons.prems(3) by (simp add: upt_conv_Cons)
  show ?case
  proof (cases "Suc n = unat l")
    case True
    have "length bs = 0" using Cons.prems(5) unfolding True [symmetric] by simp
    then have "bs = []" by simp
    then show ?thesis using True s up by (simp add: controller_transfer_def t c(2) split: prod.split)
  next
    case False
    let ?a = "?c\<lparr>command_step := of_nat (Suc n)\<rparr>"
    have "fst (controller_session bs (Analog ?a)) = map (\<lambda>i. (Suc i < unat l, tx_buffer ?a i)) [Suc n..<unat l]"
      by (rule Cons.IH) (use Cons.prems c(1) False in \<open>simp_all add: progress_of_def\<close>)
    moreover have "controller_transfer b (Analog ac) = (True, tx_buffer ac n, Analog ?a)"
      using False s by (simp add: controller_transfer_def t c(2))
    ultimately show ?thesis using False up Cons.prems(3) c(2)
      by (simp add: session_replies del: controller_session.simps)
  qed
qed simp

lemma tx_report:
  assumes "i < length (analog_report ac)"
  shows "tx_buffer (poll_state_into_tx ac) i = analog_report ac ! i"
  using assms by (auto simp: poll_state_into_tx_def analog_report_def set_tx_def Let_def nth_Cons')

lemma analog_session:
  assumes "ac_command ac = ANALOG_CONTROLLER_CMD_IDLE" "analog_ok ac" "Suc (length bs) = length (analog_report ac)"
  shows "fst (controller_session (0x01 # 0x42 # bs) (Analog ac)) = (True, 0xFF) #
    map (\<lambda>i. (Suc i < length (analog_report ac), analog_report ac ! i)) [0..<length (analog_report ac)]"
proof -
  define l where "l = (get_response_num_halfwords ac + 1) * 2"
  have z: "digital_mode_extra_halfwords ac = 0" "command_step ac = 0" using assms(1,2) by (simp_all add: analog_ok_def)
  have l: "unat l = length (analog_report ac)" "unat l \<le> 8" "0 < unat l" "1 < unat l"
    using halfwords_bound [OF z(1)] by (simp_all add: l_def analog_report_def Let_def)
  define r where "r = ac\<lparr>rx_buffer := (rx_buffer ac)(0 := 0x01), ac_command := ANALOG_CONTROLLER_CMD_READY\<rparr>"
  define r' where "r' = r\<lparr>rx_buffer := (rx_buffer r)(0 := 0x42)\<rparr>"
  define p where "p = poll_state_into_tx (begin_response ANALOG_CONTROLLER_CMD_READ_PAD r')"
  have rep: "analog_report (begin_response ANALOG_CONTROLLER_CMD_READ_PAD r') = analog_report ac"
    by (simp add: analog_report_def begin_response_def r'_def r_def get_id_byte_def get_mode_id_def
        get_response_num_halfwords_def get_extra_button_mask_def Let_def)
  have tx: "tx_buffer p i = analog_report ac ! i" if "i < unat l" for i
    unfolding p_def using that by (simp add: tx_report rep l(1))
  have pp: "progress_of p = (ANALOG_CONTROLLER_CMD_READ_PAD, of_nat 0, l, 0)"
    using z by (simp add: p_def poll_state_into_tx_def Let_def begin_response_def progress_of_def set_tx_def l_def
        r'_def r_def get_response_num_halfwords_def)
  note s = send_steps [OF pp l(3,2)]
  let ?a = "p\<lparr>command_step := of_nat (Suc 0)\<rparr>"
  have ap: "progress_of ?a = (ANALOG_CONTROLLER_CMD_READ_PAD, of_nat (Suc 0), l, 0)"
    using pp by (simp add: progress_of_def)
  have rest: "fst (controller_session bs (Analog ?a)) = map (\<lambda>i. (Suc i < unat l, tx_buffer ?a i)) [Suc 0..<unat l]"
    by (rule poll_rest [OF ap]) (use l assms(3) in simp_all)
  have first: "controller_transfer 0x01 (Analog ac) = (True, 0xFF, Analog r)"
    using assms(1) z by (simp add: controller_transfer_def analog_controller_transfer_def r_def Let_def)
  have second: "controller_transfer 0x42 (Analog r) = (True, tx_buffer p 0, Analog ?a)"
    using s l(4) z by (simp add: controller_transfer_def analog_controller_transfer_def accept_command_def
        p_def r'_def r_def Let_def)
  have up: "[0..<unat l] = 0 # [Suc 0..<unat l]" using l(3) by (simp add: upt_conv_Cons)
  have "fst (controller_session (0x01 # 0x42 # bs) (Analog ac)) =
    (True, 0xFF) # (True, tx_buffer p 0) # map (\<lambda>i. (Suc i < unat l, tx_buffer p i)) [Suc 0..<unat l]"
    unfolding session_replies [OF first] session_replies [OF second] rest by simp
  also have "\<dots> = (True, 0xFF) # map (\<lambda>i. (Suc i < unat l, tx_buffer p i)) [0..<unat l]"
    unfolding up using l(4) by simp
  also have "map (\<lambda>i. (Suc i < unat l, tx_buffer p i)) [0..<unat l] =
    map (\<lambda>i. (Suc i < unat l, analog_report ac ! i)) [0..<unat l]"
    by (rule map_cong [OF refl]) (simp add: tx)
  finally show ?thesis unfolding l(1) .
qed

text \<open>Entering configuration mode: command \<open>0x43\<close> with a one in its third byte.\<close>

lemma config_session:
  assumes "ac_command ac = ANALOG_CONTROLLER_CMD_IDLE" "analog_ok ac" "\<not> configuration_mode ac"
    "\<not> analog_mode ac"
  shows "\<exists>a. controller_session [0x01, 0x43, x, 0x01, y] (Analog ac) =
      ([(True, 0xFF), (True, 0x41), (True, status_byte ac),
        (True, ucast (ac_button_state ac AND get_extra_button_mask ac)),
        (False, ucast (drop_bit 8 (ac_button_state ac AND get_extra_button_mask ac)))], Analog a) \<and>
    a = ac\<lparr>configuration_mode := True, dualshock_enabled := True, status_byte := 0x5A,
      response_length := 4, rx_buffer := (\<lambda>_. 0), tx_buffer := (\<lambda>_. 0)\<rparr>"
proof -
  have z: "digital_mode_extra_halfwords ac = 0" "command_step ac = 0" using assms(1,2) by (simp_all add: analog_ok_def)
  have i: "get_id_byte (ac\<lparr>rx_buffer := r, response_length := l, ac_command := c\<rparr>) = 0x41"
    "get_extra_button_mask (ac\<lparr>rx_buffer := r, response_length := l, ac_command := c\<rparr>) = get_extra_button_mask ac"
    "get_response_num_halfwords (ac\<lparr>ac_command := c, rx_buffer := r\<rparr>) = 1" for c r l
    using assms z by (simp_all add: get_id_byte_def get_mode_id_def get_response_num_halfwords_def
        get_extra_button_mask_def Let_def)
  show ?thesis using assms z
    by (simp add: controller_transfer_def analog_controller_transfer_def accept_command_def begin_response_def
        poll_state_into_tx_def set_tx_def send_response_def set_configuration_mode_def i Let_def)
qed

section \<open>A device on the bus\<close>

text \<open>
  A device that is idle acknowledges its address and no other byte, and an unaddressed device stays
  idle: this is what lets several devices share the port.
\<close>

locale serial_device =
  fixes transfer :: "u8 \<Rightarrow> 's \<Rightarrow> bool \<times> u8 \<times> 's"
    and idle :: "'s \<Rightarrow> bool"
    and release :: "'s \<Rightarrow> 's"
    and address :: u8
  assumes release_idle: "idle (release s)"
    and addressed: "idle s \<Longrightarrow> fst (transfer address s) \<and> \<not> idle (snd (snd (transfer address s)))"
    and unaddressed: "\<lbrakk>idle s; b \<noteq> address\<rbrakk> \<Longrightarrow> \<not> fst (transfer b s) \<and> idle (snd (snd (transfer b s)))"
begin

primrec feed :: "u8 list \<Rightarrow> 's \<Rightarrow> 's" where
  "feed [] s = s"
| "feed (b # bs) s = feed bs (snd (snd (transfer b s)))"

lemma ack_iff: "idle s \<Longrightarrow> fst (transfer b s) \<longleftrightarrow> b = address"
  using addressed unaddressed by blast

lemma stays_idle: "\<lbrakk>idle s; address \<notin> set bs\<rbrakk> \<Longrightarrow> idle (feed bs s)"
  by (induction bs arbitrary: s) (use unaddressed in auto)

text \<open>After a release the first byte acknowledged is the first that is the address.\<close>

lemma released_answers: "address \<notin> set bs \<Longrightarrow> fst (transfer b (feed bs (release s))) \<longleftrightarrow> b = address"
  using ack_iff [OF stays_idle [OF release_idle]] .

end

definition digital_idle :: "digital_controller \<Rightarrow> bool" where
  "digital_idle dc \<longleftrightarrow> dc_transfer_state dc = DIGITAL_CONTROLLER_TRANSFER_IDLE"

definition analog_idle :: "analog_controller \<Rightarrow> bool" where
  "analog_idle ac \<longleftrightarrow> ac_command ac = ANALOG_CONTROLLER_CMD_IDLE"

definition controller_idle :: "controller \<Rightarrow> bool" where
  "controller_idle c = (case c of Digital d \<Rightarrow> digital_idle d | Analog a \<Rightarrow> analog_idle a)"

interpretation digital: serial_device digital_controller_transfer digital_idle
  digital_controller_reset_transfer_state "0x01"
  by unfold_locales (simp_all add: digital_idle_def digital_controller_transfer_def Let_def
      digital_controller_reset_transfer_state_def)

interpretation analog: serial_device analog_controller_transfer analog_idle
  "analog_controller_reset_transfer_state can_start" "0x01" for can_start
  by unfold_locales (simp_all add: analog_idle_def analog_controller_transfer_def Let_def
      analog_controller_reset_transfer_state_def)

interpretation ctl: serial_device controller_transfer controller_idle
  "controller_reset_transfer_state can_start" "0x01" for can_start
proof unfold_locales
  fix s :: controller and b :: u8
  show "controller_idle (controller_reset_transfer_state can_start s)"
    by (simp add: controller_idle_def controller_reset_transfer_state_def digital.release_idle analog.release_idle
        split: controller.split)
  show "fst (controller_transfer 0x01 s) \<and> \<not> controller_idle (snd (snd (controller_transfer 0x01 s)))"
    if "controller_idle s"
    using that digital.addressed analog.addressed
    by (auto simp: controller_idle_def controller_transfer_def split: controller.splits)
  show "\<not> fst (controller_transfer b s) \<and> controller_idle (snd (snd (controller_transfer b s)))"
    if "controller_idle s" "b \<noteq> 0x01"
    using that digital.unaddressed analog.unaddressed
    by (auto simp: controller_idle_def controller_transfer_def split: controller.splits)
qed

end
