(* ===== verification/Pad_Bus.thy ===== *)
theory Pad_Bus
  imports Pad_Props Controller_Props
begin

text \<open>
  The port and its devices together: which device an address byte selects, one byte from the
  write of \<open>JOY_DATA\<close> to its interrupt, and where the port goes wrong.
\<close>

section \<open>Selection\<close>

definition card_idle :: "memory_card \<Rightarrow> bool" where
  "card_idle mc \<longleftrightarrow> card_state mc = MEMORY_CARD_STATE_IDLE"

definition card_serial ::
  "('a sched_sys_scheme) card_hooks \<Rightarrow> u8 \<Rightarrow> memory_card \<times> 'a sched_sys_scheme \<Rightarrow>
     bool \<times> u8 \<times> memory_card \<times> 'a sched_sys_scheme" where
  "card_serial h b p = the (memory_card_transfer h b 0xFF (fst p) (snd p))"

lemma card_idle_transfer:
  "card_idle mc \<Longrightarrow> memory_card_transfer h b out mc s = Some (b = 0x81, if b = 0x81 then 0xFF else out,
     mc\<lparr>card_state := (if b = 0x81 then MEMORY_CARD_STATE_COMMAND else MEMORY_CARD_STATE_IDLE), last_byte := b\<rparr>, s)"
  by (cases mc) (simp add: card_idle_def memory_card_transfer_def reply_def)

interpretation card: serial_device "card_serial h" "\<lambda>p. card_idle (fst p)"
  "\<lambda>p. (memory_card_reset_transfer_state (fst p), snd p)" "0x81" for h
  by unfold_locales (simp_all add: card_serial_def card_idle_transfer,
      simp_all add: card_idle_def memory_card_reset_transfer_state_def)

text \<open>With both devices of a slot idle, the address byte decides.\<close>

lemma controller_put:
  "controllers (pad s) i = Some c \<Longrightarrow> controller_transfer b c = (ack, v, d) \<Longrightarrow>
   transfer_controller i b s = (ack, v, put_controller i (Some d) s)"
  by (simp add: transfer_controller_def)

lemma put_fields [simp]:
  "memory_cards (pad (put_controller i c s)) = memory_cards (pad s)"
  "active_device (pad (put_controller i c s)) = active_device (pad s)"
  "active_device (pad (put_memory_card i m s)) = active_device (pad s)"
  "controllers (pad (put_memory_card i m s)) = controllers (pad s)"
  "active_device (pad (set_active_device d s)) = d"
  "active_device (pad (card_frame_seen s)) = active_device (pad s)"
  "controllers (pad (set_active_device d s)) = controllers (pad s)"
  "controllers (pad (card_frame_seen s)) = controllers (pad s)"
  "memory_cards (pad (set_active_device d s)) = memory_cards (pad s)"
  "memory_cards (pad (card_frame_seen s)) = memory_cards (pad s)"
  "controllers (pad (put_controller i c s)) = (controllers (pad s))(i := c)"
  "memory_cards (pad (put_memory_card i m s)) = (memory_cards (pad s))(i := m)"
  by (simp_all add: put_controller_def put_memory_card_def set_active_device_def card_frame_seen_def)

lemma select_by_address:
  assumes c: "controllers (pad s) i = Some c" "controller_idle c"
    and m: "memory_cards (pad s) i = Some mc" "card_idle mc" and n: "active_device (pad s) = PAD_ACTIVE_NONE"
  shows "\<exists>v t. pad_select_device h i b s = Some (b = 0x01 \<or> b = 0x81, v, t) \<and>
    active_device (pad t) = (if b = 0x01 then PAD_ACTIVE_CONTROLLER
      else if b = 0x81 then PAD_ACTIVE_MEMORY_CARD else PAD_ACTIVE_NONE) \<and>
    (b \<noteq> 0x01 \<longrightarrow> (\<exists>c'. controllers (pad t) i = Some c' \<and> controller_idle c')) \<and>
    (b \<noteq> 0x81 \<longrightarrow> (\<exists>mc'. memory_cards (pad t) i = Some mc' \<and> card_idle mc'))"
proof -
  obtain ack v d where d: "controller_transfer b c = (ack, v, d)" by (metis prod_cases3)
  note t = controller_put [OF c(1) d]
  have ack: "ack \<longleftrightarrow> b = 0x01" using ctl.ack_iff [OF c(2), of b] d by simp
  have idle: "b \<noteq> 0x01 \<Longrightarrow> controller_idle d" using ctl.unaddressed [OF c(2), of b] d by simp
  show ?thesis
  proof (cases "b = 0x01")
    case True
    then show ?thesis using t ack m n by (simp add: pad_select_device_def)
  next
    case False
    then show ?thesis using t ack m n idle
      by (auto simp: pad_select_device_def transfer_memory_card_def card_idle_transfer [OF m(2)])
        (auto simp: card_idle_def)
  qed
qed

section \<open>One byte\<close>

lemma ctrl_bits [simp]:
  "joy_ctrl_slot (set_bit 2 w) = joy_ctrl_slot w" "joy_ctrl_select (set_bit 2 w) = joy_ctrl_select w"
  "joy_ctrl_txen (set_bit 2 w) = joy_ctrl_txen w" "joy_ctrl_ackinten (set_bit 2 w) = joy_ctrl_ackinten w"
  "joy_ctrl_rxinten (set_bit 2 w) = joy_ctrl_rxinten w"
  by (simp_all add: joy_ctrl_slot_def joy_ctrl_select_def joy_ctrl_txen_def joy_ctrl_ackinten_def
      joy_ctrl_rxinten_def bit_simps)

text \<open>The write of the byte, the byte's event, the acknowledgement's event and the read of the reply.\<close>

lemma start_byte:
  assumes "has_queue s" "\<not> pad_is_transmitting s" "joy_ctrl_select (joy_ctrl (pad s))" "joy_ctrl_txen (joy_ctrl (pad s))"
  shows "\<exists>t. pad_write_register h 0x00 w s = Some t \<and> has_queue t \<and> pad_state (pad t) = PAD_STATE_TRANSMITTING \<and>
    transmit_value (pad t) = ucast w \<and> \<not> transmit_buffer_full (pad t) \<and>
    joy_ctrl (pad t) = set_bit 2 (joy_ctrl (pad s)) \<and> active_device (pad t) = active_device (pad s) \<and>
    controllers (pad t) = controllers (pad s) \<and> multitaps (pad t) = multitaps (pad s) \<and>
    pad_timer_active t \<and> period (timing_events t PAD_TRANSFER_EVENT) = pad_get_transfer_ticks s"
proof -
  let ?u = "upd_pad (\<lambda>p. p\<lparr>transmit_buffer := ucast w, transmit_buffer_full := True\<rparr>) s"
  define v where "v = (if joy_ctrl_txinten (joy_ctrl (pad ?u)) then pad_trigger_irq ?u else ?u)"
  let ?b = "upd_pad (\<lambda>p. p\<lparr>joy_ctrl := set_bit 2 (joy_ctrl p), transmit_value := transmit_buffer p,
    transmit_buffer_full := False, pad_state := PAD_STATE_TRANSMITTING\<rparr>) v"
  have v: "has_queue v" "pad v = (pad s)\<lparr>transmit_buffer := ucast w, transmit_buffer_full := True,
      joy_stat := joy_stat (pad v)\<rparr>"
    using assms(1) by (simp_all add: v_def)
  have "pad_write_register h 0x00 w s = pad_begin_transfer v"
  proof -
    have "pad_can_transfer v" "\<not> pad_is_transmitting v"
      using assms(2-4) by (simp_all add: v_def pad_can_transfer_def pad_is_transmitting_def)
    then show ?thesis unfolding pad_write_register_def pad_write_data_def Let_def v_def by simp
  qed
  moreover have "has_queue ?b" using v(1) by simp
  moreover have "pad_get_transfer_ticks ?b = pad_get_transfer_ticks s" using v(2)
    by (simp add: pad_get_transfer_ticks_def v_def)
  ultimately show ?thesis
    using set_period_schedule [of ?b PAD_TRANSFER_EVENT "pad_get_transfer_ticks s"] v(2)
    by (auto simp: pad_begin_transfer_def Let_def pad_timer_active_def)
      (simp_all add: v_def split: if_splits)
qed

lemma reply_byte:
  assumes q: "has_queue s" and st: "pad_state (pad s) = PAD_STATE_TRANSMITTING"
    and n: "active_device (pad s) = PAD_ACTIVE_NONE"
    and mt: "\<not> mt_enabled (multitaps (pad s) 0)" "\<not> mt_enabled (multitaps (pad s) i)"
    and i: "i = joy_ctrl_slot (joy_ctrl (pad s))"
    and c: "controllers (pad s) i = Some c" "controller_transfer (transmit_value (pad s)) c = (True, v, d)"
  shows "\<exists>t. pad_transfer_event h ticks late s = Some t \<and> has_queue t \<and>
    pad_state (pad t) = PAD_STATE_WAITING_FOR_ACK \<and> receive_buffer (pad t) = v \<and> receive_buffer_full (pad t) \<and>
    transmit_buffer_full (pad t) = transmit_buffer_full (pad s) \<and> bit (joy_stat (pad t)) 1 \<and>
    joy_ctrl (pad t) = set_bit 2 (joy_ctrl (pad s)) \<and> active_device (pad t) = PAD_ACTIVE_CONTROLLER \<and>
    controllers (pad t) = (controllers (pad s))(i := Some d) \<and>
    period (timing_events t PAD_TRANSFER_EVENT) = 450"
proof -
  let ?u = "upd_pad (\<lambda>p. p\<lparr>joy_ctrl := set_bit 2 (joy_ctrl p)\<rparr>) s"
  define e where "e = set_active_device PAD_ACTIVE_CONTROLLER (put_controller i (Some d) ?u)"
  have x: "pad_exchange h ?u = Some (True, v, e)"
    using n mt c by (simp add: pad_exchange_def pad_select_device_def i [symmetric] transfer_controller_def e_def)
  define w where "w = upd_pad (\<lambda>p. p\<lparr>receive_buffer := v, receive_buffer_full := True\<rparr>) e"
  define y where "y = (if joy_ctrl_rxinten (joy_ctrl (pad w)) then pad_trigger_irq w else w)"
  let ?z = "upd_pad (\<lambda>p. p\<lparr>pad_state := PAD_STATE_WAITING_FOR_ACK\<rparr>) y"
  have w: "has_queue w" "pad w = (pad s)\<lparr>joy_ctrl := set_bit 2 (joy_ctrl (pad s)),
      controllers := (controllers (pad s))(i := Some d), active_device := PAD_ACTIVE_CONTROLLER, receive_buffer := v,
      receive_buffer_full := True\<rparr>"
    using q by (simp_all add: w_def e_def set_active_device_def put_controller_def)
  have y: "has_queue ?z" "pad y = (pad w)\<lparr>joy_stat := joy_stat (pad y)\<rparr>" using w(1) by (simp_all add: y_def)
  obtain t where t: "timing_event_set_period_and_schedule PAD_TRANSFER_EVENT (pad_get_ack_ticks False) ?z = Some t"
    "has_queue t" "pad t = pad ?z" "period (timing_events t PAD_TRANSFER_EVENT) = pad_get_ack_ticks False"
    using set_period_schedule [OF y(1)] by blast
  have dev: "active_device (pad y) = PAD_ACTIVE_CONTROLLER" using y(2) w(2) by (simp add: y_def)
  have "pad_transfer_event h ticks late s = Some (pad_update_joy_stat t)"
  proof -
    have "pad_do_transfer h late s = Option.bind (timing_event_set_period_and_schedule PAD_TRANSFER_EVENT
        (pad_get_ack_ticks (active_device (pad y) = PAD_ACTIVE_MEMORY_CARD \<or>
          (active_device (pad y) = PAD_ACTIVE_MULTITAP \<and>
           multitap_is_reading_memory_card (multitaps (pad y) (joy_ctrl_slot (joy_ctrl (pad s))))))) ?z)
        (\<lambda>s. Some (pad_update_joy_stat s))"
      by (simp add: pad_do_transfer_def Let_def x w_def y_def)
    then show ?thesis using st dev t(1) by (simp add: pad_transfer_event_def)
  qed
  moreover have "pad t = (pad s)\<lparr>joy_ctrl := set_bit 2 (joy_ctrl (pad s)), pad_state := PAD_STATE_WAITING_FOR_ACK,
      controllers := (controllers (pad s))(i := Some d), active_device := PAD_ACTIVE_CONTROLLER, receive_buffer := v,
      receive_buffer_full := True, joy_stat := joy_stat (pad y)\<rparr>"
    using t(3) w(2) by (simp add: y_def)
  ultimately show ?thesis using t(2,4)
    by (simp add: pad_update_joy_stat_def pad_get_ack_ticks_def)
qed

lemma acknowledge_byte:
  assumes q: "has_queue s" and st: "pad_state (pad s) = PAD_STATE_WAITING_FOR_ACK" and f: "\<not> transmit_buffer_full (pad s)"
  shows "\<exists>t. pad_transfer_event h ticks late s = Some t \<and> has_queue t \<and> \<not> pad_is_transmitting t \<and>
    \<not> pad_timer_active t \<and> bit (joy_stat (pad t)) 7 \<and>
    (joy_ctrl_ackinten (joy_ctrl (pad s)) \<longrightarrow> bit (joy_stat (pad t)) 9 \<and> irq_line_high t IRQ_PAD) \<and>
    receive_buffer (pad t) = receive_buffer (pad s) \<and> receive_buffer_full (pad t) = receive_buffer_full (pad s) \<and>
    active_device (pad t) = active_device (pad s) \<and> controllers (pad t) = controllers (pad s)"
proof -
  let ?u = "upd_pad (\<lambda>p. p\<lparr>joy_stat := set_bit 7 (joy_stat p)\<rparr>) s"
  define v where "v = (if joy_ctrl_ackinten (joy_ctrl (pad ?u)) then pad_trigger_irq ?u else ?u)"
  let ?e = "upd_pad (\<lambda>p. p\<lparr>pad_state := PAD_STATE_IDLE\<rparr>) v"
  have v: "has_queue ?e" "pad v = (pad s)\<lparr>joy_stat := joy_stat (pad v)\<rparr>" "bit (joy_stat (pad v)) 7"
    "joy_ctrl_ackinten (joy_ctrl (pad s)) \<longrightarrow> bit (joy_stat (pad v)) 9 \<and> irq_line_high v IRQ_PAD"
    using q by (simp_all add: v_def bit_simps)
  obtain t where t: "timing_event_deactivate PAD_TRANSFER_EVENT ?e = Some t" "has_queue t" "pad t = pad ?e"
    "intc t = intc ?e" "\<not> active (timing_events t PAD_TRANSFER_EVENT)"
    using deactivate_event [OF v(1), of PAD_TRANSFER_EVENT] by blast
  have p: "pad t = (pad s)\<lparr>joy_stat := joy_stat (pad v), pad_state := PAD_STATE_IDLE\<rparr>"
    using t(3) v(2) by (simp add: v_def)
  have "\<not> pad_can_transfer (pad_update_joy_stat t)"
    using f p by (simp add: pad_can_transfer_def pad_update_joy_stat_def)
  moreover have "pad_end_transfer v = Some t" using t(1) by (simp add: pad_end_transfer_def)
  ultimately have "pad_transfer_event h ticks late s = Some (pad_update_joy_stat t)"
    unfolding pad_transfer_event_def pad_do_ack_def Let_def v_def by (simp add: st)
  moreover have "irq_line_high t IRQ_PAD = irq_line_high v IRQ_PAD" using t(4) by (simp add: irq_line_high_def)
  moreover have "pad_timer_active t = False" using t(5) by (simp add: pad_timer_active_def)
  ultimately show ?thesis using p v(3,4) t(2)
    by (simp add: pad_update_joy_stat_def pad_is_transmitting_def)
qed

definition four_bytes :: "u8 \<Rightarrow> u32" where
  "four_bytes v = ucast v OR push_bit 8 (ucast v) OR push_bit 16 (ucast v) OR push_bit 24 (ucast v)"

lemma read_reply:
  assumes "\<not> pad_is_transmitting s"
  shows "pad_read_register h 0x00 s = Some (four_bytes (if receive_buffer_full (pad s) then receive_buffer (pad s) else 0xFF),
    pad_update_joy_stat (upd_pad (\<lambda>p. p\<lparr>receive_buffer_full := False\<rparr>) s))"
  using assms by (simp add: pad_read_register_def four_bytes_def Let_def)

section \<open>Two faults\<close>

text \<open>
  A round of the multitap over all pads ends after 32 bytes without an acknowledgement, but the
  multitap stays in the round: one more byte reads and writes past its buffer.
\<close>

lemma multitap_past_end:
  assumes "mt_transfer_state (multitaps (pad s) i) = MULTITAP_TRANSFER_ALL_CONTROLLERS"
    "controller_transfer_step (multitaps (pad s) i) = 31" "selected_slot (multitaps (pad s) i) = 3"
  shows "\<exists>out t. multitap_transfer h i b out0 s = Some (False, out, t) \<and>
    mt_transfer_state (multitaps (pad t) i) = MULTITAP_TRANSFER_ALL_CONTROLLERS \<and>
    (\<forall>h b out. multitap_transfer h i b out t = None)"
proof -
  have tc: "\<exists>ack v t. transfer_controller j b s = (ack, v, t) \<and> multitaps (pad t) = multitaps (pad s)" for j
    by (auto simp: transfer_controller_def put_controller_def split: option.split prod.split)
  obtain ack v t where t: "transfer_controller (multitap_pad_port (multitaps (pad s) i) 3) b s = (ack, v, t)"
    "multitaps (pad t) = multitaps (pad s)"
    using tc by blast
  show ?thesis using assms t
    by (cases "current_controller_done (multitaps (pad s) i)")
      (simp_all add: multitap_transfer_def multitap_all_byte_def upd_multitap_def Let_def)
qed

text \<open>
  A reset of the port clears the interrupt flag and leaves the line high: the next interrupt of the
  port is no edge, and the controller does not see it.
\<close>

lemma trigger_pending:
  "irq_pending (pad_trigger_irq s) IRQ_PAD \<longleftrightarrow> irq_pending s IRQ_PAD \<or> \<not> irq_line_high s IRQ_PAD"
  by (simp add: pad_trigger_irq_def set_line_state_pending) (simp add: irq_pending_def)

lemma reset_silences:
  assumes "pad_wf s" "\<not> pad_is_transmitting s" "irq_line_high s IRQ_PAD" "irq_pending s IRQ_PAD = False"
  shows "\<exists>t. pad_soft_reset h s = Some t \<and> \<not> bit (joy_stat (pad t)) 9 \<and> irq_line_high t IRQ_PAD \<and>
    \<not> irq_pending (pad_trigger_irq t) IRQ_PAD"
proof -
  let ?u = "upd_pad (\<lambda>p. p\<lparr>joy_ctrl := 0, joy_stat := 0, joy_mode := 0, receive_buffer := 0,
      receive_buffer_full := False, transmit_buffer := 0, transmit_buffer_full := False\<rparr>) s"
  let ?t = "pad_update_joy_stat (pad_reset_device_transfer_state h ?u)"
  have t: "pad_soft_reset h s = Some ?t" using assms(2) by (simp add: pad_soft_reset_def)
  have i: "intc ?t = intc s" by (simp add: pad_update_joy_stat_def pad_reset_device_transfer_state_def)
  have "\<not> bit (joy_stat (pad ?t)) 9"
    by (simp add: pad_update_joy_stat_def pad_reset_device_transfer_state_def)
  moreover have l: "irq_line_high ?t IRQ_PAD" using assms(3) i by (simp add: irq_line_high_def)
  moreover have "\<not> irq_pending (pad_trigger_irq ?t) IRQ_PAD"
    using l assms(4) i unfolding trigger_pending by (simp add: irq_pending_def)
  ultimately show ?thesis using t by blast
qed

section \<open>Slots\<close>

lemma slot_round_trip:
  assumes "n < NUM_CONTROLLER_AND_CARD_PORTS"
  shows "(case controller_convert_pad_to_port_and_slot n of
      (port, slot) \<Rightarrow> port < 2 \<and> slot < 4 \<and> controller_convert_port_and_slot_to_pad port slot = n \<and>
        controller_port_and_slot_is_multitap port slot = controller_pad_is_multitap_slot n)"
proof -
  have "n \<in> set [0..<8]" using assms by (simp add: NUM_CONTROLLER_AND_CARD_PORTS_def)
  then show ?thesis
    by (auto simp: controller_convert_pad_to_port_and_slot_def controller_convert_port_and_slot_to_pad_def
        controller_port_and_slot_is_multitap_def controller_pad_is_multitap_slot_def)
qed

lemma slot_round_trip':
  assumes "port < 2" "slot < 4"
  shows "controller_convert_pad_to_port_and_slot (controller_convert_port_and_slot_to_pad port slot) = (port, slot)"
  using assms
  by (auto simp: controller_convert_pad_to_port_and_slot_def controller_convert_port_and_slot_to_pad_def)

end
