(* ===== verification/Pad_Spec.thy ===== *)
theory Pad_Spec
  imports Pad_Bus Mdec_Spec Card_Spec
begin

text \<open>The properties of the controller port and its devices, with their witnesses.\<close>

section \<open>A machine with a digital pad and a memory card in the first slot\<close>

definition pad_zero :: pad_state_struct where
  "pad_zero = \<lparr>controllers = (\<lambda>_. None)(0 := Some (Digital (digital_controller_create False))),
     memory_cards = (\<lambda>_. None)(0 := Some blank_card), multitaps = (\<lambda>_. multitap_init),
     pad_state = PAD_STATE_IDLE, joy_stat = 0, joy_ctrl = set_bit 12 (set_bit 1 (set_bit 0 0)), joy_mode = 0, joy_baud = 0x88,
     active_device = PAD_ACTIVE_NONE, receive_buffer = 0, transmit_buffer = 0, transmit_value = 0,
     receive_buffer_full = False, transmit_buffer_full = False, last_memory_card_transfer_frame = 0\<rparr>"

definition pad_machine :: "pad_state_struct \<Rightarrow> pad_sys" where
  "pad_machine p = mdec_sys.extend (mdec_machine mdec_zero) (pad_sys.fields p)"

definition pad_hooks_silent :: "('a pad_sys_scheme) pad_hooks" where
  "pad_hooks_silent = \<lparr>pad_card_hooks = host_silent, controller_can_start_in_analog_mode = True\<rparr>"

lemma pad_machine_simps [simp]:
  "pad (pad_machine p) = p" "timing (pad_machine p) = timing_zero" "timing_events (pad_machine p) = (\<lambda>_. event_zero)"
  "intc (pad_machine p) = intc machine_zero"
  by (simp_all add: pad_machine_def mdec_sys.extend_def pad_sys.fields_def mdec_machine_def dma_sys.extend_def
      mdec_sys.fields_def dma_machine_def bus_sys.extend_def dma_sys.fields_def machine_zero_def)

lemma pad_machine_queue [simp]: "has_queue (pad_machine p)"
proof -
  have "sched_queue (pad_machine p) []"
    by (simp add: sched_queue_def sched_dll_def first_or_def last_or_def timing_zero_def event_zero_def)
  then show ?thesis by (auto simp: has_queue_def)
qed

lemma pad_silent_ok [simp]: "pad_hooks_ok pad_hooks_silent"
  by (simp add: pad_hooks_ok_def pad_hooks_silent_def host_silent_def memory_card_on_accessed_def console_kept_def)

lemma pad_zero_wf [simp]: "pad_wf (pad_machine pad_zero)" "taps_in_buffer (pad_machine pad_zero)"
  by (simp_all add: pad_wf_def cards_sound_def pad_is_transmitting_def pad_timer_active_def pad_zero_def
      event_zero_def taps_in_buffer_def multitap_in_buffer_def multitap_init_def multitap_reset_def)

section \<open>The port\<close>

text \<open>
  C25.  Every access to the port's registers returns and keeps the port's invariant: the transfer
  event is scheduled exactly while a transfer is in progress, an interrupt shown in \<open>JOY_STAT\<close>
  holds the interrupt line, the cards stay inside their images and the event queue stays sound.
  A multitap that has been sent more than a full round is excluded.
\<close>

theorem pad_accesses_return:
  assumes "pad_hooks_ok h" "pad_wf s" "taps_in_buffer s" "current_event (timing s) \<noteq> Some PAD_TRANSFER_EVENT"
  shows "(\<exists>v t. pad_read_register h offset s = Some (v, t) \<and> pad_wf t) \<and>
    (\<exists>t. pad_write_register h offset w s = Some t \<and> pad_wf t)"
  using pad_read_wf [OF assms, of offset] pad_write_wf [OF assms(2), of h offset w]
  by (auto simp: pad_returns_def)

theorem pad_accesses_return_witness:
  "\<exists>t. pad_write_register pad_hooks_silent 0x00 0x01 (pad_machine pad_zero) = Some t \<and> pad_wf t"
  using pad_accesses_return [OF pad_silent_ok pad_zero_wf, where offset = 0 and w = 1]
  by (simp add: timing_zero_def)



text \<open>
  With no device active, the first byte selects: \<open>0x01\<close> the controller of the
  slot, \<open>0x81\<close> its memory card, and nothing acknowledges any other byte.  The device that
  is not selected stays idle.
\<close>

lemma address_selects_device:
  assumes "controllers (pad s) i = Some c" "controller_idle c" "memory_cards (pad s) i = Some mc" "card_idle mc"
    and "active_device (pad s) = PAD_ACTIVE_NONE"
  shows "\<exists>v t. pad_select_device h i b s = Some (b = 0x01 \<or> b = 0x81, v, t) \<and>
    active_device (pad t) = (if b = 0x01 then PAD_ACTIVE_CONTROLLER
      else if b = 0x81 then PAD_ACTIVE_MEMORY_CARD else PAD_ACTIVE_NONE) \<and>
    (b \<noteq> 0x01 \<longrightarrow> (\<exists>c'. controllers (pad t) i = Some c' \<and> controller_idle c')) \<and>
    (b \<noteq> 0x81 \<longrightarrow> (\<exists>mc'. memory_cards (pad t) i = Some mc' \<and> card_idle mc'))"
  by (rule select_by_address [OF assms])

text \<open>
  C27.  A fault of the multitap: after the 32nd byte of a round over all pads, which it does not
  acknowledge, it is still in the round, and whatever the next byte is it accesses its 32-byte buffer
  past its end.
\<close>

theorem multitap_overrun:
  assumes "mt_transfer_state (multitaps (pad s) i) = MULTITAP_TRANSFER_ALL_CONTROLLERS"
    "controller_transfer_step (multitaps (pad s) i) = 31" "selected_slot (multitaps (pad s) i) = 3"
  shows "\<exists>out t. multitap_transfer h i b out0 s = Some (False, out, t) \<and>
    (\<forall>h b out. multitap_transfer h i b out t = None)"
  using multitap_past_end [OF assms] by blast

theorem multitap_overrun_witness:
  "\<exists>out t. multitap_transfer pad_hooks_silent 0 0 0xFF (pad_machine (pad_zero\<lparr>multitaps := (\<lambda>_. multitap_init\<lparr>
      mt_transfer_state := MULTITAP_TRANSFER_ALL_CONTROLLERS, controller_transfer_step := 31,
      selected_slot := 3\<rparr>)\<rparr>)) = Some (False, out, t) \<and>
    multitap_transfer pad_hooks_silent 0 0 0xFF t = None"
proof -
  let ?s = "pad_machine (pad_zero\<lparr>multitaps := (\<lambda>_. multitap_init\<lparr>
      mt_transfer_state := MULTITAP_TRANSFER_ALL_CONTROLLERS, controller_transfer_step := 31, selected_slot := 3\<rparr>)\<rparr>)"
  have "mt_transfer_state (multitaps (pad ?s) 0) = MULTITAP_TRANSFER_ALL_CONTROLLERS"
    "controller_transfer_step (multitaps (pad ?s) 0) = 31" "selected_slot (multitaps (pad ?s) 0) = 3" by simp_all
  from multitap_overrun [OF this, of pad_hooks_silent 0 "0xFF"] show ?thesis by blast
qed

text \<open>
  A fault of the port's reset: it clears the interrupt flag of \<open>JOY_STAT\<close> and
  leaves the interrupt line high, so that the next interrupt of the port makes no edge and is not
  seen.
\<close>

lemma pad_reset_silences_interrupt:
  assumes "pad_wf s" "\<not> pad_is_transmitting s" "irq_line_high s IRQ_PAD" "irq_pending s IRQ_PAD = False"
  shows "\<exists>t. pad_soft_reset h s = Some t \<and> \<not> bit (joy_stat (pad t)) 9 \<and> irq_line_high t IRQ_PAD \<and>
    \<not> irq_pending (pad_trigger_irq t) IRQ_PAD"
  by (rule reset_silences [OF assms])

section \<open>The controllers\<close>

text \<open>
  A poll of a digital pad: address, command, three bytes.  The replies are the
  identifier \<open>0x5A41\<close> and the buttons, low byte first, every byte but the last is
  acknowledged, and the pad is as before.
\<close>

lemma digital_pad_poll:
  assumes "dc_transfer_state dc = DIGITAL_CONTROLLER_TRANSFER_IDLE" "b = dc_button_state dc AND dc_button_mask dc"
  shows "controller_session [0x01, 0x42, x, y, z] (Digital dc) =
    ([(True, 0xFF), (True, 0x41), (True, 0x5A), (True, ucast b), (False, ucast (drop_bit 8 b))], Digital dc)"
  by (rule digital_session [OF assms])

text \<open>
  C28.  A poll of an analog pad answers with its report - identifier, status, buttons with
  the sticks mixed in, and in analog or configuration mode the four axes - and acknowledges every
  byte but the last.
\<close>

theorem analog_pad_poll:
  assumes "ac_command ac = ANALOG_CONTROLLER_CMD_IDLE" "analog_ok ac" "Suc (length bs) = length (analog_report ac)"
  shows "fst (controller_session (0x01 # 0x42 # bs) (Analog ac)) = (True, 0xFF) #
    map (\<lambda>i. (Suc i < length (analog_report ac), analog_report ac ! i)) [0..<length (analog_report ac)]"
  by (rule analog_session [OF assms])

theorem analog_pad_poll_witness:
  "fst (controller_session (0x01 # 0x42 # [0, 0, 0]) (Analog (analog_controller_create\<lparr>analog_dpad_in_digital_mode := False\<rparr>))) =
     [(True, 0xFF), (True, 0x41), (True, 0x5A), (True, 0xFF), (False, 0xFF)]"
proof -
  let ?a = "analog_controller_create\<lparr>analog_dpad_in_digital_mode := False\<rparr>"
  have r: "analog_report ?a = [0x41, 0x5A, 0xFF, 0xFF]"
    by (simp add: analog_report_def analog_controller_create_def get_id_byte_def get_mode_id_def
        get_response_num_halfwords_def get_extra_button_mask_def Let_def)
  have "ac_command ?a = ANALOG_CONTROLLER_CMD_IDLE" "analog_ok ?a"
    "Suc (length [0, 0, 0 :: u8]) = length (analog_report ?a)"
    by (simp_all add: r) (simp_all add: analog_controller_create_def analog_ok_def)
  from analog_pad_poll [OF this] show ?thesis unfolding r by simp
qed

text \<open>
  C29.  Whatever the host sends, the analog pad's accesses stay inside its 8-byte buffers, it
  answers within the length of its reply, and a byte it does not acknowledge leaves no command
  running.
\<close>

theorem analog_bytes_safe:
  assumes "analog_ok ac" "analog_controller_transfer b ac = (ack, out, ac')"
  shows "unat (command_step ac) < 8 \<and> analog_ok ac' \<and> (ack \<longrightarrow> ac_command ac' \<noteq> ANALOG_CONTROLLER_CMD_IDLE) \<and>
    (\<not> ack \<longrightarrow> ac_command ac' = ANALOG_CONTROLLER_CMD_IDLE \<or> ac_command ac' = ANALOG_CONTROLLER_CMD_READY)"
  using analog_transfer_ok [OF assms] by blast

theorem analog_bytes_safe_witness:
  "\<exists>ac. analog_controller_transfer 0x01 analog_controller_create = (True, 0xFF, ac) \<and> analog_ok ac"
proof -
  let ?t = "analog_controller_transfer 0x01 analog_controller_create"
  have "analog_ok analog_controller_create" by (simp add: analog_ok_def analog_controller_create_def)
  from analog_bytes_safe [OF this, of "0x01" True "0xFF" "snd (snd ?t)"] show ?thesis
    by (simp add: analog_controller_transfer_def analog_controller_create_def Let_def)
qed

text \<open>
  Command \<open>0x43\<close> with a one takes an analog pad out of digital mode into
  configuration mode: it answers as to a poll, then enters the mode, with the rumble motors
  unlocked.
\<close>

lemma analog_enters_configuration:
  assumes "ac_command ac = ANALOG_CONTROLLER_CMD_IDLE" "analog_ok ac" "\<not> configuration_mode ac" "\<not> analog_mode ac"
  shows "\<exists>a. controller_session [0x01, 0x43, x, 0x01, y] (Analog ac) =
      ([(True, 0xFF), (True, 0x41), (True, status_byte ac),
        (True, ucast (ac_button_state ac AND get_extra_button_mask ac)),
        (False, ucast (drop_bit 8 (ac_button_state ac AND get_extra_button_mask ac)))], Analog a) \<and>
    configuration_mode a \<and> dualshock_enabled a \<and> status_byte a = 0x5A \<and>
    ac_command a = ANALOG_CONTROLLER_CMD_IDLE \<and> analog_ok a"
  using config_session [OF assms, of x y] assms by (auto simp: analog_ok_def)

text \<open>
  The eight slots are two ports of four: the slot of an index and back is the index, and an
  index belongs to a multitap exactly when its slot is not the first.
\<close>

lemma slots_and_ports:
  assumes "n < NUM_CONTROLLER_AND_CARD_PORTS"
  shows "(case controller_convert_pad_to_port_and_slot n of
      (port, slot) \<Rightarrow> port < 2 \<and> slot < 4 \<and> controller_convert_port_and_slot_to_pad port slot = n \<and>
        controller_port_and_slot_is_multitap port slot = controller_pad_is_multitap_slot n)"
  by (rule slot_round_trip [OF assms])

end
