(* ===== verification/Spu_Voice.thy ===== *)
theory Spu_Voice
  imports Prelude
begin

text \<open>
  The voices of the sound processing unit, \<^verbatim>\<open>src/core/spu/spu.c\<close>: volume
  envelopes and sweeps, the ADSR phases, the ADPCM decoder and the Gaussian interpolation.
  Everything here acts on one voice alone.

  Signed samples and levels are integers.  The unions with bit-fields of the source are words read
  through \<open>bits_get\<close>.
\<close>

section \<open>Arithmetic\<close>

definition NUM_VOICES :: nat where "NUM_VOICES = 24"
definition NUM_SAMPLES_PER_ADPCM_BLOCK :: nat where "NUM_SAMPLES_PER_ADPCM_BLOCK = 28"
definition NUM_SAMPLES_FROM_LAST_ADPCM_BLOCK :: nat where "NUM_SAMPLES_FROM_LAST_ADPCM_BLOCK = 3"
definition VOLUME_ENVELOPE_MIN_VOLUME :: int where "VOLUME_ENVELOPE_MIN_VOLUME = - 32768"
definition VOLUME_ENVELOPE_MAX_VOLUME :: int where "VOLUME_ENVELOPE_MAX_VOLUME = 32767"

lemmas spu_sizes = NUM_VOICES_def NUM_SAMPLES_PER_ADPCM_BLOCK_def NUM_SAMPLES_FROM_LAST_ADPCM_BLOCK_def
lemmas volume_limits = VOLUME_ENVELOPE_MIN_VOLUME_def VOLUME_ENVELOPE_MAX_VOLUME_def

definition clamp16 :: "int \<Rightarrow> int" where
  "clamp16 v = (if v < - 0x8000 then - 0x8000 else if v > 0x7FFF then 0x7FFF else v)"

definition apply_volume :: "int \<Rightarrow> int \<Rightarrow> int" where
  "apply_volume sample volume = drop_bit 15 (sample * volume)"

definition clamp_s32 :: "int \<Rightarrow> int \<Rightarrow> int \<Rightarrow> int" where
  "clamp_s32 v lo hi = (if v < lo then lo else if v > hi then hi else v)"

section \<open>Envelopes and sweeps\<close>

record volume_envelope =
  env_counter :: u32
  counter_increment :: u16
  env_step :: int
  env_rate :: u8
  decreasing :: bool
  exponential :: bool
  phase_invert :: bool

definition volume_envelope_reset :: "u8 \<Rightarrow> u8 \<Rightarrow> bool \<Rightarrow> bool \<Rightarrow> bool \<Rightarrow> volume_envelope" where
  "volume_envelope_reset rate rate_mask dec ex pinv =
     (let base_step = to_s16 (7 - uint (rate AND 3));
          step = (if dec \<noteq> pinv \<or> (dec \<and> ex) then to_s16 (NOT base_step) else base_step);
          shift = unat (drop_bit 2 rate);
          step = (if rate < 44 then to_s16 (push_bit (11 - shift) step) else step);
          inc = (if rate < 48 then 0x8000 else drop_bit (shift - 11) 0x8000);
          inc = (if rate \<ge> 48 \<and> rate AND rate_mask \<noteq> rate_mask \<and> inc < 1 then 1 else inc)
      in \<lparr>env_counter = 0, counter_increment = inc, env_step = step, env_rate = rate, decreasing = dec,
          exponential = ex, phase_invert = (pinv \<and> \<not> (dec \<and> ex))\<rparr>)"

text \<open>The step and the increment of this tick.\<close>

definition envelope_rates :: "volume_envelope \<Rightarrow> int \<Rightarrow> int \<times> u32" where
  "envelope_rates e level =
     (let inc = ucast (counter_increment e); step = env_step e in
      if exponential e
      then if decreasing e then (drop_bit 15 (step * level), inc)
           else if level \<ge> 0x6000
           then if env_rate e < 40 then (drop_bit 2 step, inc)
                else if env_rate e \<ge> 44 then (step, drop_bit 2 inc)
                else (drop_bit 1 step, drop_bit 1 inc)
           else (step, inc)
      else (step, inc))"

text \<open>The result says whether the envelope goes on.\<close>

definition volume_envelope_tick :: "volume_envelope \<Rightarrow> int \<Rightarrow> bool \<times> volume_envelope \<times> int" where
  "volume_envelope_tick e level =
     (let (step, inc) = envelope_rates e level; e = e\<lparr>env_counter := env_counter e + inc\<rparr>
      in if env_counter e AND 0x8000 = 0 then (True, e, level)
         else let e = e\<lparr>env_counter := 0\<rparr>; new_level = level + step
              in if \<not> decreasing e
                 then let new_level = clamp_s32 new_level VOLUME_ENVELOPE_MIN_VOLUME VOLUME_ENVELOPE_MAX_VOLUME
                      in (new_level \<noteq> (if step < 0 then VOLUME_ENVELOPE_MIN_VOLUME else VOLUME_ENVELOPE_MAX_VOLUME),
                          e, to_s16 new_level)
                 else let new_level = (if phase_invert e then clamp_s32 new_level VOLUME_ENVELOPE_MIN_VOLUME 0
                            else if new_level > 0 then new_level else 0)
                      in (new_level = 0, e, to_s16 new_level))"

record volume_sweep =
  envelope :: volume_envelope
  current_level :: int
  envelope_active :: bool

definition envelope_zero :: volume_envelope where
  "envelope_zero = \<lparr>env_counter = 0, counter_increment = 0, env_step = 0, env_rate = 0, decreasing = False,
     exponential = False, phase_invert = False\<rparr>"

definition sweep_zero :: volume_sweep where
  "sweep_zero = \<lparr>envelope = envelope_zero, current_level = 0, envelope_active = False\<rparr>"

text \<open>A volume register: bit 15 chooses a sweep, otherwise 15 signed bits are half the volume.\<close>

definition volume_sweep_reset :: "u16 \<Rightarrow> volume_sweep \<Rightarrow> volume_sweep" where
  "volume_sweep_reset reg s =
     (if \<not> bit reg 15
      then s\<lparr>current_level := to_s16 (signed_take_bit 14 (uint reg) * 2), envelope_active := False\<rparr>
      else let e = volume_envelope_reset (ucast (bits_get reg 0 7)) 0x7F (bit reg 13) (bit reg 14) (bit reg 12)
           in s\<lparr>envelope := e, envelope_active := (counter_increment e > 0)\<rparr>)"

definition volume_sweep_tick :: "volume_sweep \<Rightarrow> volume_sweep" where
  "volume_sweep_tick s =
     (if \<not> envelope_active s then s
      else let (go, e, level) = volume_envelope_tick (envelope s) (current_level s)
           in s\<lparr>envelope := e, current_level := level, envelope_active := go\<rparr>)"

section \<open>A voice\<close>

datatype adsr_phase_t = ADSR_PHASE_OFF | ADSR_PHASE_ATTACK | ADSR_PHASE_DECAY | ADSR_PHASE_SUSTAIN | ADSR_PHASE_RELEASE

record voice_registers =
  volume_left :: u16
  volume_right :: u16
  adpcm_sample_rate :: u16
  adpcm_start_address :: u16
  adsr :: u32
  adsr_volume :: int
  adpcm_repeat_address :: u16

record spu_voice =
  voice_address :: u16
  voice_regs :: voice_registers
  voice_counter :: u32
  current_block_flags :: u8
  is_first_block :: bool
  current_block_samples :: "nat \<Rightarrow> int"
  adpcm_last_samples :: "int \<times> int"
  last_volume :: int
  left_volume :: volume_sweep
  right_volume :: volume_sweep
  adsr_envelope :: volume_envelope
  adsr_phase :: adsr_phase_t
  adsr_target :: int
  has_samples :: bool
  ignore_loop_address :: bool

definition voice_interpolation_index :: "u32 \<Rightarrow> nat" where
  "voice_interpolation_index c = unat (bits_get c 4 8)"

definition voice_sample_index :: "u32 \<Rightarrow> nat" where
  "voice_sample_index c = unat (bits_get c 12 5)"

definition voice_is_on :: "spu_voice \<Rightarrow> bool" where
  "voice_is_on v \<longleftrightarrow> adsr_phase v \<noteq> ADSR_PHASE_OFF"

text \<open>The register file as the array of half-words it is a union with.\<close>

definition voice_register :: "spu_voice \<Rightarrow> nat \<Rightarrow> u16" where
  "voice_register v i = (let r = voice_regs v in
     [volume_left r, volume_right r, adpcm_sample_rate r, adpcm_start_address r, ucast (adsr r),
      ucast (drop_bit 16 (adsr r)), word_of_int (adsr_volume r), adpcm_repeat_address r] ! i)"

section \<open>ADSR\<close>

definition get_next_adsr_phase :: "adsr_phase_t \<Rightarrow> adsr_phase_t" where
  "get_next_adsr_phase p = (case p of
     ADSR_PHASE_ATTACK \<Rightarrow> ADSR_PHASE_DECAY | ADSR_PHASE_DECAY \<Rightarrow> ADSR_PHASE_SUSTAIN
   | ADSR_PHASE_SUSTAIN \<Rightarrow> ADSR_PHASE_SUSTAIN | _ \<Rightarrow> ADSR_PHASE_OFF)"

definition adsr_rate :: "u32 \<Rightarrow> nat \<Rightarrow> nat \<Rightarrow> u8" where
  "adsr_rate r lo n = ucast (bits_get r lo n)"

definition voice_update_adsr_envelope :: "spu_voice \<Rightarrow> spu_voice" where
  "voice_update_adsr_envelope v =
     (let r = adsr (voice_regs v);
          set = (\<lambda>target e. v\<lparr>adsr_target := target, adsr_envelope := e\<rparr>)
      in case adsr_phase v of
        ADSR_PHASE_OFF \<Rightarrow> set 0 (volume_envelope_reset 0 0 False False False)
      | ADSR_PHASE_ATTACK \<Rightarrow> set 32767 (volume_envelope_reset (adsr_rate r 8 7) 0x7F False (bit r 15) False)
      | ADSR_PHASE_DECAY \<Rightarrow>
          let target = uint ((bits_get r 0 4 + 1) * 0x800)
          in set (to_s16 (if target > VOLUME_ENVELOPE_MAX_VOLUME then VOLUME_ENVELOPE_MAX_VOLUME else target))
               (volume_envelope_reset (push_bit 2 (adsr_rate r 4 4)) 0x7C True True False)
      | ADSR_PHASE_SUSTAIN \<Rightarrow>
          set 0 (volume_envelope_reset (adsr_rate r 22 7) 0x7F (bit r 30) (bit r 31) False)
      | ADSR_PHASE_RELEASE \<Rightarrow>
          set 0 (volume_envelope_reset (push_bit 2 (adsr_rate r 16 5)) 0x7C True (bit r 21) False))"

definition set_adsr_volume :: "int \<Rightarrow> spu_voice \<Rightarrow> spu_voice" where
  "set_adsr_volume n v = v\<lparr>voice_regs := (voice_regs v)\<lparr>adsr_volume := n\<rparr>\<rparr>"

definition voice_tick_adsr :: "spu_voice \<Rightarrow> spu_voice" where
  "voice_tick_adsr v =
     (let v = (if counter_increment (adsr_envelope v) > 0
            then let (go, e, level) = volume_envelope_tick (adsr_envelope v) (adsr_volume (voice_regs v))
                 in set_adsr_volume level (v\<lparr>adsr_envelope := e\<rparr>)
            else v);
          reached_target = (if decreasing (adsr_envelope v) then adsr_volume (voice_regs v) \<le> adsr_target v
            else adsr_volume (voice_regs v) \<ge> adsr_target v)
      in if adsr_phase v \<noteq> ADSR_PHASE_SUSTAIN \<and> reached_target
         then voice_update_adsr_envelope (v\<lparr>adsr_phase := get_next_adsr_phase (adsr_phase v)\<rparr>) else v)"

definition voice_key_on :: "spu_voice \<Rightarrow> spu_voice" where
  "voice_key_on v = voice_update_adsr_envelope (set_adsr_volume 0 (v\<lparr>
     voice_address := adpcm_start_address (voice_regs v) AND NOT 1, voice_counter := 0,
     adpcm_last_samples := (0, 0),
     current_block_samples := (current_block_samples v)(28 := 0, 29 := 0, 30 := 0),
     has_samples := False, is_first_block := True, ignore_loop_address := False,
     adsr_phase := ADSR_PHASE_ATTACK\<rparr>))"

definition voice_key_off :: "spu_voice \<Rightarrow> spu_voice" where
  "voice_key_off v =
     (if adsr_phase v = ADSR_PHASE_OFF \<or> adsr_phase v = ADSR_PHASE_RELEASE then v
      else voice_update_adsr_envelope (v\<lparr>adsr_phase := ADSR_PHASE_RELEASE\<rparr>))"

definition voice_force_off :: "spu_voice \<Rightarrow> spu_voice" where
  "voice_force_off v = (if adsr_phase v = ADSR_PHASE_OFF then v
     else (set_adsr_volume 0 v)\<lparr>adsr_phase := ADSR_PHASE_OFF\<rparr>)"

section \<open>ADPCM\<close>

record adpcm_block =
  shift_filter :: u8
  block_flags :: u8
  block_data :: "nat \<Rightarrow> u8"

definition adpcm_block_get_shift :: "adpcm_block \<Rightarrow> nat" where
  "adpcm_block_get_shift b = (let shift = unat (bits_get (shift_filter b) 0 4) in if shift > 12 then 9 else shift)"

definition adpcm_block_get_filter :: "adpcm_block \<Rightarrow> nat" where
  "adpcm_block_get_filter b = unat (bits_get (shift_filter b) 4 4)"

definition adpcm_block_get_nibble :: "adpcm_block \<Rightarrow> nat \<Rightarrow> u8" where
  "adpcm_block_get_nibble b i = drop_bit (i mod 2 * 4) (block_data b (i div 2)) AND 0x0F"

definition filter_table_pos :: "int list" where
  "filter_table_pos = [0, 60, 115, 98, 122, 0, 0, 0, 0, 0, 0, 0, 0, 0, 0, 0]"

definition filter_table_neg :: "int list" where
  "filter_table_neg = [0, 0, - 52, - 55, - 60, 0, 0, 0, 0, 0, 0, 0, 0, 0, 0, 0]"

text \<open>One sample from its nibble and the two before it.\<close>

definition adpcm_sample :: "adpcm_block \<Rightarrow> nat \<Rightarrow> int \<times> int \<Rightarrow> int" where
  "adpcm_sample b i prev =
     (let sample = drop_bit (adpcm_block_get_shift b) (to_s16 (push_bit 12 (uint (adpcm_block_get_nibble b i))));
          sample = sample + drop_bit 6 (fst prev * filter_table_pos ! adpcm_block_get_filter b);
          sample = sample + drop_bit 6 (snd prev * filter_table_neg ! adpcm_block_get_filter b)
      in clamp16 sample)"

definition decode_sample ::
  "adpcm_block \<Rightarrow> nat \<Rightarrow> (int \<times> int) \<times> (nat \<Rightarrow> int) \<Rightarrow> (int \<times> int) \<times> (nat \<Rightarrow> int)" where
  "decode_sample b i st = (case st of (prev, samples) \<Rightarrow>
     let x = to_s16 (adpcm_sample b i prev)
     in ((x, fst prev), samples(NUM_SAMPLES_FROM_LAST_ADPCM_BLOCK + i := x)))"

definition voice_decode_block :: "adpcm_block \<Rightarrow> spu_voice \<Rightarrow> spu_voice" where
  "voice_decode_block b v =
     (let old = current_block_samples v;
          (prev, samples) = fold (decode_sample b) [0..<NUM_SAMPLES_PER_ADPCM_BLOCK]
            (adpcm_last_samples v, old(2 := old 30, 1 := old 29, 0 := old 28))
      in v\<lparr>current_block_samples := samples, adpcm_last_samples := prev, current_block_flags := block_flags b\<rparr>)"

section \<open>Interpolation\<close>

definition gauss_table :: "int list" where
  "gauss_table = [
     -1, -1, -1, -1, -1, -1, -1, -1, -1, -1, -1, -1, -1, -1, -1, -1,
     0, 0, 0, 0, 0, 0, 0, 1, 1, 1, 1, 2, 2, 2, 3, 3,
     3, 4, 4, 5, 5, 6, 7, 7, 8, 9, 9, 10, 11, 12, 13, 14,
     15, 16, 17, 18, 19, 21, 22, 24, 25, 27, 28, 30, 32, 33, 35, 37,
     39, 41, 44, 46, 48, 51, 53, 56, 58, 61, 64, 67, 70, 73, 77, 80,
     84, 87, 91, 95, 99, 103, 107, 111, 116, 120, 125, 130, 135, 140, 145, 150,
     156, 161, 167, 173, 179, 186, 192, 199, 205, 212, 219, 227, 234, 242, 250, 257,
     266, 274, 283, 291, 300, 309, 319, 328, 338, 348, 358, 369, 379, 390, 401, 412,
     424, 436, 448, 460, 473, 485, 498, 512, 525, 539, 553, 567, 582, 597, 612, 627,
     643, 659, 675, 692, 708, 726, 743, 761, 779, 797, 816, 835, 854, 874, 894, 914,
     935, 956, 977, 999, 1020, 1043, 1066, 1089, 1112, 1136, 1160, 1184, 1209, 1234, 1260, 1286,
     1312, 1339, 1366, 1394, 1422, 1450, 1479, 1508, 1537, 1567, 1598, 1628, 1660, 1691, 1723, 1756,
     1789, 1822, 1856, 1890, 1924, 1959, 1995, 2031, 2067, 2104, 2141, 2179, 2217, 2256, 2295, 2334,
     2374, 2415, 2456, 2497, 2539, 2582, 2624, 2668, 2712, 2756, 2801, 2846, 2892, 2938, 2985, 3032,
     3079, 3128, 3176, 3225, 3275, 3325, 3376, 3427, 3479, 3531, 3584, 3637, 3691, 3745, 3799, 3855,
     3910, 3967, 4023, 4081, 4138, 4197, 4255, 4315, 4374, 4435, 4495, 4557, 4619, 4681, 4744, 4807,
     4871, 4935, 5000, 5065, 5131, 5197, 5264, 5332, 5399, 5468, 5536, 5606, 5676, 5746, 5817, 5888,
     5959, 6032, 6104, 6177, 6251, 6325, 6400, 6475, 6550, 6626, 6702, 6779, 6856, 6934, 7012, 7091,
     7170, 7249, 7329, 7409, 7490, 7571, 7653, 7735, 7817, 7900, 7983, 8066, 8150, 8234, 8319, 8404,
     8489, 8575, 8661, 8748, 8834, 8922, 9009, 9097, 9185, 9273, 9362, 9451, 9541, 9630, 9720, 9811,
     9901, 9992, 10083, 10174, 10266, 10358, 10450, 10542, 10635, 10727, 10820, 10913, 11007, 11100, 11194, 11288,
     11382, 11476, 11571, 11665, 11760, 11855, 11950, 12045, 12140, 12236, 12331, 12427, 12522, 12618, 12714, 12809,
     12905, 13001, 13097, 13193, 13289, 13385, 13481, 13577, 13673, 13769, 13865, 13961, 14056, 14152, 14248, 14343,
     14439, 14534, 14630, 14725, 14820, 14915, 15010, 15104, 15199, 15293, 15387, 15481, 15575, 15669, 15762, 15855,
     15948, 16041, 16133, 16226, 16317, 16409, 16500, 16592, 16682, 16773, 16863, 16953, 17042, 17131, 17220, 17308,
     17396, 17484, 17571, 17658, 17744, 17830, 17916, 18001, 18086, 18170, 18254, 18337, 18420, 18502, 18584, 18665,
     18746, 18826, 18905, 18985, 19063, 19141, 19219, 19295, 19372, 19447, 19522, 19597, 19671, 19744, 19816, 19888,
     19959, 20030, 20100, 20169, 20238, 20306, 20373, 20439, 20505, 20570, 20634, 20698, 20760, 20822, 20884, 20944,
     21004, 21063, 21121, 21178, 21235, 21290, 21345, 21399, 21452, 21505, 21556, 21607, 21657, 21706, 21754, 21801,
     21848, 21893, 21938, 21982, 22025, 22066, 22107, 22148, 22187, 22225, 22262, 22299, 22334, 22369, 22402, 22435,
     22467, 22498, 22527, 22556, 22584, 22611, 22637, 22662, 22686, 22709, 22731, 22752, 22772, 22791, 22809, 22826,
     22842, 22857, 22872, 22885, 22897, 22908, 22918, 22927, 22935, 22942, 22948, 22953, 22957, 22960, 22962, 22963]"

text \<open>The sum before its shift, and the sample.\<close>

definition gauss_sum :: "nat \<Rightarrow> int \<Rightarrow> int \<Rightarrow> int \<Rightarrow> int \<Rightarrow> int" where
  "gauss_sum i x3 x2 x1 x0 = gauss_table ! (0xFF - i) * x3 + gauss_table ! (0x1FF - i) * x2 +
     gauss_table ! (0x100 + i) * x1 + gauss_table ! i * x0"

definition voice_interpolate :: "spu_voice \<Rightarrow> int" where
  "voice_interpolate v =
     (let i = voice_interpolation_index (voice_counter v);
          s = NUM_SAMPLES_FROM_LAST_ADPCM_BLOCK + voice_sample_index (voice_counter v); x = current_block_samples v
      in drop_bit 15 (gauss_sum i (x (s - 3)) (x (s - 2)) (x (s - 1)) (x s)))"

section \<open>Noise\<close>

definition noise_wave_add :: "u32 list" where
  "noise_wave_add = [
     1, 0, 0, 1, 0, 1, 1, 0, 1, 0, 0, 1, 0, 1, 1, 0, 1, 0, 0, 1, 0, 1, 1, 0, 1, 0, 0, 1, 0, 1, 1, 0,
     0, 1, 1, 0, 1, 0, 0, 1, 0, 1, 1, 0, 1, 0, 0, 1, 0, 1, 1, 0, 1, 0, 0, 1, 0, 1, 1, 0, 1, 0, 0, 1]"

definition noise_freq_add :: "u32 list" where "noise_freq_add = [0, 84, 140, 180, 210]"

text \<open>The noise clock, the count and the level; the count and level afterwards.\<close>

definition noise_divisor :: "u32 \<Rightarrow> u32" where
  "noise_divisor noise_clock = push_bit 16 (drop_bit (unat (drop_bit 2 noise_clock)) 0x8000)"

definition noise_step :: "u32 \<Rightarrow> u32 \<Rightarrow> u32 \<Rightarrow> u32 \<times> u32" where
  "noise_step noise_clock count level =
     (let f = noise_freq_add ! unat (noise_clock AND 3);
          count = count + 0x10000 + f;
          count = (if count AND 0xFFFF \<ge> noise_freq_add ! 4 then count + 0x10000 - f else count)
      in if count < noise_divisor noise_clock then (count, level)
         else (count mod noise_divisor noise_clock,
               push_bit 1 level OR noise_wave_add ! unat (drop_bit 10 level AND 63)))"

end
