(* ===== verification/Spu.thy ===== *)
theory Spu
  imports Spu_Voice Pad
begin

text \<open>
  The sound processing unit, \<^verbatim>\<open>src/core/spu/spu.c\<close>: its RAM with the transfer FIFO
  and the address interrupt, the 24 voices, noise, capture buffers, reverb, the production of
  frames, the registers and the DMA port.

  Signed samples are integers; the source's 32-bit sums of them are exact (24 voices of at most
  17 bits).  The debug counters are left out.  The settings, the DMA controller's
  request line, the CD-ROM's audio and the host's audio stream are the parameter \<open>spu_hooks\<close>.
\<close>

section \<open>State\<close>

definition SPU_RAM_SIZE :: u32 where "SPU_RAM_SIZE = 0x80000"
definition SPU_RAM_MASK :: u32 where "SPU_RAM_MASK = SPU_RAM_SIZE - 1"
definition SYSCLK_TICKS_PER_SPU_TICK :: tick_count where "SYSCLK_TICKS_PER_SPU_TICK = 0x300"
definition CAPTURE_BUFFER_SIZE_PER_CHANNEL :: nat where "CAPTURE_BUFFER_SIZE_PER_CHANNEL = 0x400"
definition FIFO_SIZE_IN_HALFWORDS :: u32 where "FIFO_SIZE_IN_HALFWORDS = 32"
definition TRANSFER_TICKS_PER_HALFWORD :: tick_count where "TRANSFER_TICKS_PER_HALFWORD = 16"
definition SPU_DMA_CHANNEL_INDEX :: nat where "SPU_DMA_CHANNEL_INDEX = 4"
definition SPU_IRQ_INDEX :: nat where "SPU_IRQ_INDEX = 9"
definition SPU_TICK_EVENT :: nat where "SPU_TICK_EVENT = 4"

lemmas spu_consts = SPU_RAM_SIZE_def SPU_RAM_MASK_def SYSCLK_TICKS_PER_SPU_TICK_def
  CAPTURE_BUFFER_SIZE_PER_CHANNEL_def FIFO_SIZE_IN_HALFWORDS_def TRANSFER_TICKS_PER_HALFWORD_def

datatype ram_transfer_mode_t =
  RAM_TRANSFER_STOPPED | RAM_TRANSFER_MANUAL_WRITE | RAM_TRANSFER_DMA_WRITE | RAM_TRANSFER_DMA_READ

text \<open>The ring buffer has the fields of the motion decoder's, and shares its record.\<close>

type_synonym spu_fifo = "u16 mdec_fifo"

text \<open>The reverb registers by number, with the names the source gives them.\<close>

record reverb_registers =
  vLOUT :: int
  vROUT :: int
  mBASE :: u16
  rev :: "nat \<Rightarrow> u16"

definition rev_s16 :: "reverb_registers \<Rightarrow> nat \<Rightarrow> int" where
  "rev_s16 r i = sint (rev r i)"

definition FB_SRC_A :: nat where "FB_SRC_A = 0"
definition FB_SRC_B :: nat where "FB_SRC_B = 1"
definition IIR_ALPHA :: nat where "IIR_ALPHA = 2"
definition ACC_COEF_A :: nat where "ACC_COEF_A = 3"
definition ACC_COEF_B :: nat where "ACC_COEF_B = 4"
definition ACC_COEF_C :: nat where "ACC_COEF_C = 5"
definition ACC_COEF_D :: nat where "ACC_COEF_D = 6"
definition IIR_COEF :: nat where "IIR_COEF = 7"
definition FB_ALPHA :: nat where "FB_ALPHA = 8"
definition FB_X :: nat where "FB_X = 9"
definition IIR_DEST_A :: nat where "IIR_DEST_A = 10"
definition ACC_SRC_A :: nat where "ACC_SRC_A = 12"
definition ACC_SRC_B :: nat where "ACC_SRC_B = 14"
definition IIR_SRC_A :: nat where "IIR_SRC_A = 16"
definition IIR_DEST_B :: nat where "IIR_DEST_B = 18"
definition ACC_SRC_C :: nat where "ACC_SRC_C = 20"
definition ACC_SRC_D :: nat where "ACC_SRC_D = 22"
definition IIR_SRC_B :: nat where "IIR_SRC_B = 24"
definition MIX_DEST_A :: nat where "MIX_DEST_A = 26"
definition MIX_DEST_B :: nat where "MIX_DEST_B = 28"
definition IN_COEF :: nat where "IN_COEF = 30"

record spu_state =
  spu_ticks_carry :: tick_count
  cpu_ticks_per_spu_tick :: tick_count
  cpu_tick_divider :: tick_count
  transfer_ticks_carry :: tick_count
  transfer_event_active :: bool
  SPUCNT :: u16
  SPUSTAT :: u16
  spu_transfer_control :: u16
  transfer_address_reg :: u16
  transfer_address :: u32
  spu_irq_address :: u16
  capture_buffer_position :: u16
  main_volume_left_reg :: u16
  main_volume_right_reg :: u16
  main_volume_left :: volume_sweep
  main_volume_right :: volume_sweep
  cd_audio_volume_left :: int
  cd_audio_volume_right :: int
  external_volume_left :: int
  external_volume_right :: int
  key_on_register :: u32
  key_off_register :: u32
  endx_register :: u32
  pitch_modulation_enable_register :: u32
  noise_mode_register :: u32
  noise_count :: u32
  noise_level :: u32
  reverb_on_register :: u32
  reverb_base_address :: u32
  reverb_current_address :: u32
  reverb_regs :: reverb_registers
  reverb_downsample_buffer :: "nat \<Rightarrow> nat \<Rightarrow> int"
  reverb_upsample_buffer :: "nat \<Rightarrow> nat \<Rightarrow> int"
  reverb_resample_buffer_position :: int
  last_reverb_input :: "int \<times> int"
  last_reverb_output :: "int \<times> int"
  audio_output_muted :: bool
  voices :: "nat \<Rightarrow> spu_voice"
  transfer_fifo :: spu_fifo
  audio_stream :: bool
  spu_ram :: "nat \<Rightarrow> u8"

record spu_sys = pad_sys +
  spu :: spu_state

record spu_config =
  cpu_overclock_active :: bool
  cpu_overclock_numerator :: u32
  cpu_overclock_denominator :: u32

record 's spu_hooks =
  spu_dma_set_request :: "nat \<Rightarrow> bool \<Rightarrow> 's \<Rightarrow> 's option"
  cdrom_get_audio_frame :: "'s \<Rightarrow> (int \<times> int) \<times> 's"
  core_audio_stream_write :: "int \<Rightarrow> int \<Rightarrow> 's \<Rightarrow> 's"
  spu_settings :: spu_config

definition upd_spu :: "(spu_state \<Rightarrow> spu_state) \<Rightarrow> 'a spu_sys_scheme \<Rightarrow> 'a spu_sys_scheme" where
  "upd_spu f s = s\<lparr>spu := f (spu s)\<rparr>"

definition upd_voice :: "nat \<Rightarrow> (spu_voice \<Rightarrow> spu_voice) \<Rightarrow> spu_state \<Rightarrow> spu_state" where
  "upd_voice i f p = p\<lparr>voices := (voices p)(i := f (voices p i))\<rparr>"

text \<open>The bits of the two unions.\<close>

definition spucnt_cd_audio_enable :: "u16 \<Rightarrow> bool" where "spucnt_cd_audio_enable r = bit r 0"
definition spucnt_cd_audio_reverb :: "u16 \<Rightarrow> bool" where "spucnt_cd_audio_reverb r = bit r 2"
definition spucnt_irq9_enable :: "u16 \<Rightarrow> bool" where "spucnt_irq9_enable r = bit r 6"
definition spucnt_reverb_master_enable :: "u16 \<Rightarrow> bool" where "spucnt_reverb_master_enable r = bit r 7"
definition spucnt_noise_clock :: "u16 \<Rightarrow> u32" where "spucnt_noise_clock r = ucast (bits_get r 8 6)"
definition spucnt_mute_n :: "u16 \<Rightarrow> bool" where "spucnt_mute_n r = bit r 14"
definition spucnt_enable :: "u16 \<Rightarrow> bool" where "spucnt_enable r = bit r 15"

definition spucnt_transfer_mode :: "u16 \<Rightarrow> ram_transfer_mode_t" where
  "spucnt_transfer_mode r =
     (if bit r 5 then if bit r 4 then RAM_TRANSFER_DMA_READ else RAM_TRANSFER_DMA_WRITE
      else if bit r 4 then RAM_TRANSFER_MANUAL_WRITE else RAM_TRANSFER_STOPPED)"

definition transfer_mode :: "spu_state \<Rightarrow> ram_transfer_mode_t" where
  "transfer_mode p = spucnt_transfer_mode (SPUCNT p)"

definition put_stat :: "nat \<Rightarrow> bool \<Rightarrow> spu_state \<Rightarrow> spu_state" where
  "put_stat i b p = p\<lparr>SPUSTAT := flag_put i b (SPUSTAT p)\<rparr>"

section \<open>The transfer FIFO\<close>

definition spu_fifo_clear :: "spu_fifo \<Rightarrow> spu_fifo" where
  "spu_fifo_clear f = f\<lparr>fifo_head := 0, fifo_tail := 0, fifo_size := 0\<rparr>"

definition spu_fifo_empty :: "spu_fifo \<Rightarrow> bool" where "spu_fifo_empty f \<longleftrightarrow> fifo_size f = 0"
definition spu_fifo_full :: "spu_fifo \<Rightarrow> bool" where "spu_fifo_full f \<longleftrightarrow> fifo_size f = FIFO_SIZE_IN_HALFWORDS"
definition spu_fifo_space :: "spu_fifo \<Rightarrow> u32" where "spu_fifo_space f = FIFO_SIZE_IN_HALFWORDS - fifo_size f"

definition spu_fifo_push :: "spu_fifo \<Rightarrow> u16 \<Rightarrow> spu_fifo" where
  "spu_fifo_push f v = f\<lparr>fifo_buf := (fifo_buf f)(unat (fifo_tail f) := v),
     fifo_tail := (fifo_tail f + 1) mod FIFO_SIZE_IN_HALFWORDS, fifo_size := fifo_size f + 1\<rparr>"

definition spu_fifo_pop :: "spu_fifo \<Rightarrow> u16 \<times> spu_fifo" where
  "spu_fifo_pop f = (fifo_buf f (unat (fifo_head f)),
     f\<lparr>fifo_head := (fifo_head f + 1) mod FIFO_SIZE_IN_HALFWORDS, fifo_size := fifo_size f - 1\<rparr>)"

definition spu_fifo_push_range :: "spu_fifo \<Rightarrow> u16 list \<Rightarrow> spu_fifo" where
  "spu_fifo_push_range f vs = foldl spu_fifo_push f vs"

fun spu_fifo_pop_range :: "nat \<Rightarrow> spu_fifo \<Rightarrow> u16 list \<times> spu_fifo" where
  "spu_fifo_pop_range 0 f = ([], f)"
| "spu_fifo_pop_range (Suc n) f =
     (let (v, f) = spu_fifo_pop f; (vs, f) = spu_fifo_pop_range n f in (v # vs, f))"

section \<open>RAM and its interrupt\<close>

definition spu_load16 :: "(nat \<Rightarrow> u8) \<Rightarrow> u32 \<Rightarrow> u16" where
  "spu_load16 r a = ucast (r (unat a)) OR push_bit 8 (ucast (r (Suc (unat a))))"

definition spu_store16 :: "u32 \<Rightarrow> u16 \<Rightarrow> (nat \<Rightarrow> u8) \<Rightarrow> (nat \<Rightarrow> u8)" where
  "spu_store16 a v r = r(unat a := ucast v, Suc (unat a) := ucast (drop_bit 8 v))"

definition is_ram_irq_triggerable :: "spu_state \<Rightarrow> bool" where
  "is_ram_irq_triggerable p \<longleftrightarrow> spucnt_irq9_enable (SPUCNT p) \<and> \<not> bit (SPUSTAT p) 6"

definition check_ram_irq :: "spu_state \<Rightarrow> u32 \<Rightarrow> bool" where
  "check_ram_irq p address \<longleftrightarrow> ucast (spu_irq_address p) * 8 = address"

definition trigger_ram_irq :: "'a spu_sys_scheme \<Rightarrow> 'a spu_sys_scheme" where
  "trigger_ram_irq s = interrupt_controller_set_line_state SPU_IRQ_INDEX True (upd_spu (put_stat 6 True) s)"

text \<open>The test the source writes out wherever RAM is touched.\<close>

definition ram_irq_at :: "u32 \<Rightarrow> 'a spu_sys_scheme \<Rightarrow> 'a spu_sys_scheme" where
  "ram_irq_at address s =
     (if is_ram_irq_triggerable (spu s) \<and> check_ram_irq (spu s) address then trigger_ram_irq s else s)"

definition late_irq_voice :: "spu_state \<Rightarrow> spu_voice \<Rightarrow> bool" where
  "late_irq_voice p v \<longleftrightarrow> has_samples v \<and>
     (let address = ucast (voice_address v) * 8
      in check_ram_irq p address \<or> check_ram_irq p ((address + 8) AND SPU_RAM_MASK))"

definition check_for_late_ram_irqs :: "'a spu_sys_scheme \<Rightarrow> 'a spu_sys_scheme" where
  "check_for_late_ram_irqs s =
     (if check_ram_irq (spu s) (transfer_address (spu s)) \<or>
         (\<exists>i\<in>set [0..<NUM_VOICES]. late_irq_voice (spu s) (voices (spu s) i))
      then trigger_ram_irq s else s)"

definition advance_transfer_address :: "spu_state \<Rightarrow> spu_state" where
  "advance_transfer_address p = p\<lparr>transfer_address := (transfer_address p + 2) AND SPU_RAM_MASK\<rparr>"

definition fifo_read_step :: "'a spu_sys_scheme \<Rightarrow> 'a spu_sys_scheme" where
  "fifo_read_step s =
     (let s = upd_spu (\<lambda>p. advance_transfer_address (p\<lparr>transfer_fifo :=
            spu_fifo_push (transfer_fifo p) (spu_load16 (spu_ram p) (transfer_address p))\<rparr>)) s
      in ram_irq_at (transfer_address (spu s)) s)"

definition store_transfer :: "u16 \<Rightarrow> spu_state \<Rightarrow> spu_state" where
  "store_transfer v p = advance_transfer_address (p\<lparr>spu_ram := spu_store16 (transfer_address p) v (spu_ram p)\<rparr>)"

definition fifo_write_step :: "'a spu_sys_scheme \<Rightarrow> 'a spu_sys_scheme" where
  "fifo_write_step s =
     (let s = upd_spu (\<lambda>p. let (v, f) = spu_fifo_pop (transfer_fifo p) in store_transfer v (p\<lparr>transfer_fifo := f\<rparr>)) s
      in ram_irq_at (transfer_address (spu s)) s)"

function execute_fifo_read_from_ram :: "tick_count \<Rightarrow> 'a spu_sys_scheme \<Rightarrow> tick_count \<times> 'a spu_sys_scheme" where
  "execute_fifo_read_from_ram ticks s =
     (if ticks > 0 \<and> \<not> spu_fifo_full (transfer_fifo (spu s))
      then execute_fifo_read_from_ram (ticks - TRANSFER_TICKS_PER_HALFWORD) (fifo_read_step s)
      else (ticks, s))"
  by pat_completeness auto
termination
  by (relation "measure (\<lambda>(ticks, s). nat ticks)") (auto simp: TRANSFER_TICKS_PER_HALFWORD_def)

function execute_fifo_write_to_ram :: "tick_count \<Rightarrow> 'a spu_sys_scheme \<Rightarrow> tick_count \<times> 'a spu_sys_scheme" where
  "execute_fifo_write_to_ram ticks s =
     (if ticks > 0 \<and> \<not> spu_fifo_empty (transfer_fifo (spu s))
      then execute_fifo_write_to_ram (ticks - TRANSFER_TICKS_PER_HALFWORD) (fifo_write_step s)
      else (ticks, s))"
  by pat_completeness auto
termination
  by (relation "measure (\<lambda>(ticks, s). nat ticks)") (auto simp: TRANSFER_TICKS_PER_HALFWORD_def)

declare execute_fifo_read_from_ram.simps [simp del] execute_fifo_write_to_ram.simps [simp del]

section \<open>Voices\<close>

definition is_voice_reverb_enabled :: "spu_state \<Rightarrow> nat \<Rightarrow> bool" where
  "is_voice_reverb_enabled p i = bit (reverb_on_register p) i"

definition is_voice_noise_enabled :: "spu_state \<Rightarrow> nat \<Rightarrow> bool" where
  "is_voice_noise_enabled p i = bit (noise_mode_register p) i"

definition is_pitch_modulation_enabled :: "spu_state \<Rightarrow> nat \<Rightarrow> bool" where
  "is_pitch_modulation_enabled p i \<longleftrightarrow> i > 0 \<and> bit (pitch_modulation_enable_register p) i"

definition get_voice_noise_level :: "spu_state \<Rightarrow> int" where
  "get_voice_noise_level p = sint (ucast (noise_level p) :: u16)"

text \<open>The 16 bytes of a block, with the wrap at the end of RAM.\<close>

definition adpcm_block_at :: "(nat \<Rightarrow> u8) \<Rightarrow> u32 \<Rightarrow> adpcm_block" where
  "adpcm_block_at r a =
     (let byte = (\<lambda>i. r (unat ((a + of_nat i) AND SPU_RAM_MASK)))
      in \<lparr>shift_filter = byte 0, block_flags = byte 1, block_data = (\<lambda>i. byte (i + 2))\<rparr>)"

definition read_adpcm_block :: "u16 \<Rightarrow> 'a spu_sys_scheme \<Rightarrow> adpcm_block \<times> 'a spu_sys_scheme" where
  "read_adpcm_block address s =
     (let a = (ucast address * 8) AND SPU_RAM_MASK;
          s = (if is_ram_irq_triggerable (spu s) \<and>
                 (check_ram_irq (spu s) a \<or> check_ram_irq (spu s) ((a + 8) AND SPU_RAM_MASK))
               then trigger_ram_irq s else s)
      in (adpcm_block_at (spu_ram (spu s)) a, s))"

text \<open>A voice without samples decodes the block at its address.\<close>

definition block_decoded :: "adpcm_block \<Rightarrow> spu_voice \<Rightarrow> spu_voice" where
  "block_decoded b v =
     (let v = (voice_decode_block b v)\<lparr>has_samples := True\<rparr>
      in if bit (current_block_flags v) 2 \<and> \<not> ignore_loop_address v
         then v\<lparr>voice_regs := (voice_regs v)\<lparr>adpcm_repeat_address := voice_address v\<rparr>\<rparr> else v)"

definition voice_fetch_block :: "nat \<Rightarrow> 'a spu_sys_scheme \<Rightarrow> 'a spu_sys_scheme" where
  "voice_fetch_block i s =
     (if has_samples (voices (spu s) i) then s
      else let (b, s) = read_adpcm_block (voice_address (voices (spu s) i)) s
           in upd_spu (upd_voice i (block_decoded b)) s)"

definition voice_volume :: "spu_state \<Rightarrow> nat \<Rightarrow> int" where
  "voice_volume p i =
     (let v = voices p i in
      if adsr_volume (voice_regs v) \<noteq> 0
      then apply_volume (if is_voice_noise_enabled p i then get_voice_noise_level p else voice_interpolate v)
             (adsr_volume (voice_regs v))
      else 0)"

text \<open>
  The pitch, which the voice before may modulate.  \<open>SignExtend32\<close> of an unsigned half-word
  extends with zeros, and the product is one of unsigned words.
\<close>

definition voice_pitch :: "spu_state \<Rightarrow> nat \<Rightarrow> u16" where
  "voice_pitch p i =
     (let step = adpcm_sample_rate (voice_regs (voices p i));
          step = (if is_pitch_modulation_enabled p i
            then let m = clamp_s32 (last_volume (voices p (i - 1))) (- 0x8000) 0x7FFF + 0x8000
                 in ucast (drop_bit 15 ((ucast step :: u32) * word_of_int m))
            else step)
      in if step > 0x3FFF then 0x3FFF else step)"

text \<open>The voice when its counter has passed the end of the block.\<close>

definition voice_end_block :: "bool \<Rightarrow> spu_voice \<Rightarrow> spu_voice" where
  "voice_end_block noise v =
     (let c = voice_counter v;
          v = v\<lparr>voice_counter := bits_set c 12 5 (bits_get c 12 5 - 28), has_samples := False,
                is_first_block := False, voice_address := voice_address v + 2\<rparr>
      in if \<not> bit (current_block_flags v) 0 then v
         else let v = v\<lparr>voice_address := adpcm_repeat_address (voice_regs v) AND NOT 1\<rparr>
              in if \<not> bit (current_block_flags v) 1 \<and> \<not> noise then voice_force_off v else v)"

definition advance_voice :: "nat \<Rightarrow> u16 \<Rightarrow> spu_state \<Rightarrow> spu_state" where
  "advance_voice i step p =
     (let p = upd_voice i (\<lambda>v. v\<lparr>voice_counter := voice_counter v + ucast step\<rparr>) p
      in if voice_sample_index (voice_counter (voices p i)) \<ge> NUM_SAMPLES_PER_ADPCM_BLOCK
         then let p = (if bit (current_block_flags (voices p i)) 0
                       then p\<lparr>endx_register := set_bit i (endx_register p)\<rparr> else p)
              in upd_voice i (voice_end_block (is_voice_noise_enabled p i)) p
         else p)"

definition voice_sweeps_tick :: "spu_voice \<Rightarrow> spu_voice" where
  "voice_sweeps_tick v = v\<lparr>left_volume := volume_sweep_tick (left_volume v),
     right_volume := volume_sweep_tick (right_volume v)\<rparr>"

text \<open>The sample of a voice that has its block: volume, envelope, pitch, output.\<close>

definition play_voice :: "nat \<Rightarrow> spu_state \<Rightarrow> (int \<times> int) \<times> spu_state" where
  "play_voice i p =
     (let volume = voice_volume p i;
          p = upd_voice i (\<lambda>v. let v = v\<lparr>last_volume := volume\<rparr> in if voice_is_on v then voice_tick_adsr v else v) p;
          p = advance_voice i (voice_pitch p i) p;
          out = (apply_volume volume (current_level (left_volume (voices p i))),
                 apply_volume volume (current_level (right_volume (voices p i))))
      in (out, upd_voice i voice_sweeps_tick p))"

definition sample_voice :: "nat \<Rightarrow> 'a spu_sys_scheme \<Rightarrow> (int \<times> int) \<times> 'a spu_sys_scheme" where
  "sample_voice i s =
     (if \<not> voice_is_on (voices (spu s) i) \<and> \<not> spucnt_irq9_enable (SPUCNT (spu s))
      then ((0, 0), upd_spu (upd_voice i (\<lambda>v. v\<lparr>last_volume := 0\<rparr>)) s)
      else let s = voice_fetch_block i s; (out, p) = play_voice i (spu s)
           in (out, upd_spu (\<lambda>_. p) s))"

section \<open>Noise and capture\<close>

definition update_noise :: "spu_state \<Rightarrow> spu_state" where
  "update_noise p =
     (let (count, level) = noise_step (spucnt_noise_clock (SPUCNT p)) (noise_count p) (noise_level p)
      in p\<lparr>noise_count := count, noise_level := level\<rparr>)"

definition write_to_capture_buffer :: "u32 \<Rightarrow> int \<Rightarrow> 'a spu_sys_scheme \<Rightarrow> 'a spu_sys_scheme" where
  "write_to_capture_buffer i v s =
     (let a = (i * of_nat CAPTURE_BUFFER_SIZE_PER_CHANNEL) OR ucast (capture_buffer_position (spu s))
      in ram_irq_at a (upd_spu (\<lambda>p. p\<lparr>spu_ram := spu_store16 a (word_of_int v) (spu_ram p)\<rparr>) s))"

definition increment_capture_buffer_position :: "spu_state \<Rightarrow> spu_state" where
  "increment_capture_buffer_position p =
     (let pos = (capture_buffer_position p + 2) mod of_nat CAPTURE_BUFFER_SIZE_PER_CHANNEL
      in put_stat 11 (pos \<ge> of_nat CAPTURE_BUFFER_SIZE_PER_CHANNEL div 2) (p\<lparr>capture_buffer_position := pos\<rparr>))"

section \<open>Reverb\<close>

definition REVERB_MASK :: u32 where "REVERB_MASK = (SPU_RAM_SIZE - 1) div 2"

definition reverb_memory_address :: "spu_state \<Rightarrow> u32 \<Rightarrow> u32" where
  "reverb_memory_address p address =
     (let offset = reverb_current_address p + (address AND REVERB_MASK);
          offset = offset + (if bit offset 18 then reverb_base_address p else 0)
      in (offset AND REVERB_MASK) * 2)"

definition reverb_read :: "spu_state \<Rightarrow> u32 \<Rightarrow> int \<Rightarrow> int" where
  "reverb_read p address offset =
     sint (spu_load16 (spu_ram p) (reverb_memory_address p (push_bit 2 address + word_of_int offset)))"

definition reverb_write :: "u32 \<Rightarrow> int \<Rightarrow> spu_state \<Rightarrow> spu_state" where
  "reverb_write address v p =
     p\<lparr>spu_ram := spu_store16 (reverb_memory_address p (push_bit 2 address)) (word_of_int v) (spu_ram p)\<rparr>"

definition resample_coeff :: "int list" where
  "resample_coeff = [- 0x0001, 0x0002, - 0x000A, 0x0023, - 0x0067, 0x010A, - 0x0268, 0x0534, - 0x0B90, 0x2806,
     0x2806, - 0x0B90, 0x0534, - 0x0268, 0x010A, - 0x0067, 0x0023, - 0x000A, 0x0002, - 0x0001]"

definition downsample_taps :: "nat list" where
  "downsample_taps = [0, 1, 2, 3, 8, 9, 10, 11, 16, 17, 18, 19, 24, 25, 26, 27, 32, 33, 34, 35]"

definition fir_sum :: "nat list \<Rightarrow> (nat \<Rightarrow> int) \<Rightarrow> int" where
  "fir_sum taps src = sum_list (map2 (\<lambda>c t. c * src t) resample_coeff taps)"

definition reverb_downsample :: "(nat \<Rightarrow> int) \<Rightarrow> int \<Rightarrow> int" where
  "reverb_downsample buf pos =
     (let src = (\<lambda>t. buf (nat ((pos - 38) AND 0x3F) + t))
      in clamp16 (drop_bit 15 (fir_sum downsample_taps src + 0x4000 * src 19)))"

definition reverb_upsample :: "(nat \<Rightarrow> int) \<Rightarrow> int \<Rightarrow> int" where
  "reverb_upsample buf pos =
     (let src = (\<lambda>t. buf (nat ((drop_bit 1 pos - 19) AND 0x1F) + t))
      in clamp_s32 (drop_bit 14 (fir_sum [0..<20] src)) (- 32768) 32767)"

definition reverb_iiasm :: "reverb_registers \<Rightarrow> int \<Rightarrow> int" where
  "reverb_iiasm r insamp =
     (if rev_s16 r IIR_ALPHA = - 32768 then if insamp = - 32768 then 0 else insamp * - 65536
      else insamp * (32768 - rev_s16 r IIR_ALPHA))"

definition reverb_neg :: "int \<Rightarrow> int" where
  "reverb_neg v = (if v = - 32768 then 0x7FFF else - v)"

text \<open>The two input filters and the two comb filters of a channel, and its output.\<close>

definition reverb_reg_read :: "spu_state \<Rightarrow> nat \<Rightarrow> int" where
  "reverb_reg_read p i = reverb_read p (ucast (rev (reverb_regs p) i)) 0"

definition reverb_iir :: "spu_state \<Rightarrow> nat \<Rightarrow> nat \<Rightarrow> nat \<Rightarrow> int \<Rightarrow> int" where
  "reverb_iir p source dest channel downsampled =
     (let r = reverb_regs p;
          input = clamp16 (drop_bit 1 (drop_bit 14 (reverb_reg_read p source * rev_s16 r IIR_COEF) +
                    drop_bit 14 (downsampled * rev_s16 r (IN_COEF + channel))))
      in clamp16 (drop_bit 1 (drop_bit 14 (input * rev_s16 r IIR_ALPHA) +
           drop_bit 14 (reverb_iiasm r (reverb_read p (ucast (rev r dest)) (- 1))))))"

definition reverb_inputs :: "nat \<Rightarrow> int \<Rightarrow> spu_state \<Rightarrow> spu_state" where
  "reverb_inputs channel downsampled p =
     (if \<not> spucnt_reverb_master_enable (SPUCNT p) then p
      else let a = reverb_iir p (IIR_SRC_A + channel) (IIR_DEST_A + channel) channel downsampled;
               b = reverb_iir p (IIR_SRC_B + (1 - channel)) (IIR_DEST_B + channel) channel downsampled;
               dest = (\<lambda>i. ucast (rev (reverb_regs p) (i + channel)))
           in reverb_write (dest IIR_DEST_B) b (reverb_write (dest IIR_DEST_A) a p))"

definition reverb_mix :: "nat \<Rightarrow> spu_state \<Rightarrow> int \<times> int \<times> int" where
  "reverb_mix channel p =
     (let r = reverb_regs p;
          comb = (\<lambda>src coef. drop_bit 14 (reverb_reg_read p (src + channel) * rev_s16 r coef));
          acc = comb ACC_SRC_A ACC_COEF_A + comb ACC_SRC_B ACC_COEF_B + comb ACC_SRC_C ACC_COEF_C +
                comb ACC_SRC_D ACC_COEF_D;
          delayed = (\<lambda>dest src. reverb_read p (ucast (rev r (dest + channel)) - ucast (rev r src)) 0);
          fb_a = delayed MIX_DEST_A FB_SRC_A;
          fb_b = delayed MIX_DEST_B FB_SRC_B;
          mda = clamp16 (drop_bit 1 (acc + drop_bit 14 (fb_a * reverb_neg (rev_s16 r FB_ALPHA))));
          mdb = clamp16 (fb_a + drop_bit 1 (drop_bit 14 (mda * rev_s16 r FB_ALPHA) +
                  drop_bit 14 (fb_b * reverb_neg (rev_s16 r FB_X))))
      in (mda, mdb, clamp16 (fb_b + drop_bit 15 (mdb * rev_s16 r FB_X))))"

definition put_sample :: "nat \<Rightarrow> nat list \<Rightarrow> int \<Rightarrow> (nat \<Rightarrow> nat \<Rightarrow> int) \<Rightarrow> (nat \<Rightarrow> nat \<Rightarrow> int)" where
  "put_sample channel is v buf = buf(channel := fold (\<lambda>i b. b(i := v)) is (buf channel))"

definition reverb_channel :: "int \<Rightarrow> nat \<Rightarrow> int \<Rightarrow> spu_state \<Rightarrow> spu_state" where
  "reverb_channel pos channel downsampled p =
     (let p = reverb_inputs channel downsampled p;
          (mda, mdb, out) = reverb_mix channel p;
          half = drop_bit 1 pos;
          p = p\<lparr>reverb_upsample_buffer := put_sample channel [nat half, nat (half OR 0x20)] out (reverb_upsample_buffer p)\<rparr>;
          dest = (\<lambda>i. ucast (rev (reverb_regs p) (i + channel)))
      in if spucnt_reverb_master_enable (SPUCNT p)
         then reverb_write (dest MIX_DEST_B) mdb (reverb_write (dest MIX_DEST_A) mda p) else p)"

definition advance_reverb_address :: "spu_state \<Rightarrow> spu_state" where
  "advance_reverb_address p =
     (let a = (reverb_current_address p + 1) AND 0x3FFFF
      in p\<lparr>reverb_current_address := (if a = 0 then reverb_base_address p else a)\<rparr>)"

definition process_reverb :: "int \<Rightarrow> int \<Rightarrow> spu_state \<Rightarrow> (int \<times> int) \<times> spu_state" where
  "process_reverb left_in right_in p =
     (let pos = reverb_resample_buffer_position p; here = [nat pos, nat (pos OR 0x40)];
          l = to_s16 left_in; r = to_s16 right_in;
          p = p\<lparr>last_reverb_input := (l, r), reverb_downsample_buffer :=
                 put_sample 1 here r (put_sample 0 here l (reverb_downsample_buffer p))\<rparr>;
          (out, p) = (if odd pos
            then let down = (\<lambda>c. reverb_downsample (reverb_downsample_buffer p c) pos);
                     p = advance_reverb_address (reverb_channel pos 1 (down 1) (reverb_channel pos 0 (down 0) p))
                 in (\<lambda>c. reverb_upsample (reverb_upsample_buffer p c) pos, p)
            else (\<lambda>c. reverb_upsample_buffer p c (nat ((drop_bit 1 pos - 19) AND 0x1F) + 9), p));
          outputs = (apply_volume (out 0) (vLOUT (reverb_regs p)), apply_volume (out 1) (vROUT (reverb_regs p)))
      in (outputs, p\<lparr>reverb_resample_buffer_position := (pos + 1) AND 0x3F, last_reverb_output := outputs\<rparr>))"

section \<open>A frame\<close>

definition push_sample_to_stream ::
  "('a spu_sys_scheme) spu_hooks \<Rightarrow> int \<Rightarrow> int \<Rightarrow> 'a spu_sys_scheme \<Rightarrow> 'a spu_sys_scheme" where
  "push_sample_to_stream h left right s =
     (if audio_stream (spu s) then core_audio_stream_write h left right s else s)"

text \<open>The sums over the voices: the direct ones and those that go to the reverb.\<close>

definition mix_voice :: "nat \<Rightarrow> (int \<times> int) \<times> (int \<times> int) \<times> 'a spu_sys_scheme \<Rightarrow>
    (int \<times> int) \<times> (int \<times> int) \<times> 'a spu_sys_scheme" where
  "mix_voice i st = (case st of ((l, r), (rl, rr), s) \<Rightarrow>
     let ((vl, vr), s') = sample_voice i s
     in ((l + vl, r + vr), if is_voice_reverb_enabled (spu s) i then (rl + vl, rr + vr) else (rl, rr), s'))"

definition mix_voices :: "'a spu_sys_scheme \<Rightarrow> (int \<times> int) \<times> (int \<times> int) \<times> 'a spu_sys_scheme" where
  "mix_voices s = fold mix_voice [0..<NUM_VOICES] ((0, 0), (0, 0), s)"

definition key_voice :: "u32 \<Rightarrow> u32 \<Rightarrow> nat \<Rightarrow> spu_state \<Rightarrow> spu_state" where
  "key_voice on off i p =
     (let p = (if bit off i then upd_voice i voice_key_off p else p)
      in if bit on i then upd_voice i voice_key_on (p\<lparr>endx_register := unset_bit i (endx_register p)\<rparr>) else p)"

definition key_voices :: "spu_state \<Rightarrow> spu_state" where
  "key_voices p =
     (if key_off_register p = 0 \<and> key_on_register p = 0 then p
      else fold (key_voice (key_on_register p) (key_off_register p)) [0..<NUM_VOICES]
             (p\<lparr>key_off_register := 0, key_on_register := 0\<rparr>))"

definition write_captures :: "int \<times> int \<Rightarrow> 'a spu_sys_scheme \<Rightarrow> 'a spu_sys_scheme" where
  "write_captures cd s =
     (let capture = (\<lambda>i s. to_s16 (clamp16 (last_volume (voices (spu s) i))));
          s = write_to_capture_buffer 1 (snd cd) (write_to_capture_buffer 0 (fst cd) s);
          s = write_to_capture_buffer 2 (capture 1 s) s;
          s = write_to_capture_buffer 3 (capture 3 s) s
      in upd_spu increment_capture_buffer_position s)"

text \<open>The CD-ROM's part of the sums.\<close>

definition mix_cd :: "spu_state \<Rightarrow> int \<times> int \<Rightarrow> (int \<times> int) \<times> (int \<times> int) \<Rightarrow> (int \<times> int) \<times> (int \<times> int)" where
  "mix_cd p cd totals = (case (cd, totals) of ((cl, cr), (l, r), (rl, rr)) \<Rightarrow>
     if \<not> spucnt_cd_audio_enable (SPUCNT p) then totals
     else let vl = apply_volume cl (cd_audio_volume_left p); vr = apply_volume cr (cd_audio_volume_right p)
          in ((l + vl, r + vr), if spucnt_cd_audio_reverb (SPUCNT p) then (rl + vl, rr + vr) else (rl, rr)))"

definition output_frame :: "spu_state \<Rightarrow> int \<times> int \<Rightarrow> int \<times> int" where
  "output_frame p totals =
     (to_s16 (apply_volume (clamp16 (fst totals)) (current_level (main_volume_left p))),
      to_s16 (apply_volume (clamp16 (snd totals)) (current_level (main_volume_right p))))"

definition main_sweeps_tick :: "spu_state \<Rightarrow> spu_state" where
  "main_sweeps_tick p = p\<lparr>main_volume_left := volume_sweep_tick (main_volume_left p),
     main_volume_right := volume_sweep_tick (main_volume_right p)\<rparr>"

definition generate_one_frame :: "('a spu_sys_scheme) spu_hooks \<Rightarrow> bool \<Rightarrow> 'a spu_sys_scheme \<Rightarrow> 'a spu_sys_scheme" where
  "generate_one_frame h first_in_batch s =
     (let (totals, rev_in, s) = mix_voices s;
          (totals, rev_in) = (if spucnt_mute_n (SPUCNT (spu s)) then (totals, rev_in) else ((0, 0), (0, 0)));
          (cd, s) = cdrom_get_audio_frame h (upd_spu update_noise s);
          (totals, rev_in) = mix_cd (spu s) cd (totals, rev_in);
          (rev_out, p) = process_reverb (clamp16 (fst rev_in)) (clamp16 (snd rev_in)) (spu s);
          s = upd_spu (\<lambda>_. p) s;
          final = output_frame (spu s) (fst totals + fst rev_out, snd totals + snd rev_out);
          s = (if audio_output_muted (spu s) then s else push_sample_to_stream h (fst final) (snd final) s);
          s = write_captures cd (upd_spu main_sweeps_tick s)
      in if first_in_batch then upd_spu key_voices s else s)"

end
