(* ===== verification/Spu_Ops.thy ===== *)
theory Spu_Ops
  imports Spu
begin

text \<open>
  The sound processing unit, \<^verbatim>\<open>src/core/spu/spu.c\<close>, continued: transfers, the
  conversion of ticks into frames, the tick event, the registers and the DMA port.

  The request line of the DMA controller may start a transfer that comes back to the FIFO, so the
  loops around it are \<^theory_text>\<open>partial_function\<close>s.
\<close>

section \<open>Requests\<close>

definition update_dma_request :: "('a spu_sys_scheme) spu_hooks \<Rightarrow> 'a spu_sys_scheme \<Rightarrow> 'a spu_sys_scheme option" where
  "update_dma_request h s =
     (let f = transfer_fifo (spu s);
          rd = (transfer_mode (spu s) = RAM_TRANSFER_DMA_READ \<and> spu_fifo_full f);
          wr = (transfer_mode (spu s) = RAM_TRANSFER_DMA_WRITE \<and> spu_fifo_empty f)
      in spu_dma_set_request h SPU_DMA_CHANNEL_INDEX (rd \<or> wr)
           (upd_spu (put_stat 7 (rd \<or> wr) \<circ> put_stat 9 wr \<circ> put_stat 8 rd) s))"

definition transfer_pending :: "spu_state \<Rightarrow> bool" where
  "transfer_pending p = (case transfer_mode p of
     RAM_TRANSFER_STOPPED \<Rightarrow> False
   | RAM_TRANSFER_DMA_READ \<Rightarrow> \<not> spu_fifo_full (transfer_fifo p)
   | _ \<Rightarrow> \<not> spu_fifo_empty (transfer_fifo p))"

definition update_transfer_event :: "'a spu_sys_scheme \<Rightarrow> 'a spu_sys_scheme" where
  "update_transfer_event =
     upd_spu (\<lambda>p. put_stat 10 (transfer_pending p) (p\<lparr>transfer_event_active := transfer_pending p\<rparr>))"

definition update_event_interval :: "'a spu_sys_scheme \<Rightarrow> 'a spu_sys_scheme option" where
  "update_event_interval s =
     timing_event_set_interval_and_schedule SPU_TICK_EVENT (cpu_ticks_per_spu_tick (spu s) * 256) s"

section \<open>Transfers\<close>

partial_function (option) internal_generate_pending_samples ::
  "('a spu_sys_scheme) spu_hooks \<Rightarrow> 'a spu_sys_scheme \<Rightarrow> 'a spu_sys_scheme option" where
  "internal_generate_pending_samples h s =
     (let step = (if cpu_overclock_active (spu_settings h) then cpu_tick_divider (spu s) else SYSCLK_TICKS_PER_SPU_TICK)
      in if spu_ticks_carry (spu s) \<ge> step
         then internal_generate_pending_samples h
                (upd_spu (\<lambda>p. p\<lparr>spu_ticks_carry := spu_ticks_carry p - step\<rparr>) (generate_one_frame h False s))
         else Some s)"

partial_function (option) transfer_read_loop ::
  "('a spu_sys_scheme) spu_hooks \<Rightarrow> tick_count \<Rightarrow> 'a spu_sys_scheme \<Rightarrow> 'a spu_sys_scheme option" where
  "transfer_read_loop h ticks s =
     (if ticks > 0 \<and> \<not> spu_fifo_full (transfer_fifo (spu s))
      then Option.bind (update_dma_request h (snd (execute_fifo_read_from_ram ticks s)))
             (transfer_read_loop h (fst (execute_fifo_read_from_ram ticks s)))
      else Some s)"

partial_function (option) transfer_write_loop ::
  "('a spu_sys_scheme) spu_hooks \<Rightarrow> tick_count \<Rightarrow> 'a spu_sys_scheme \<Rightarrow> 'a spu_sys_scheme option" where
  "transfer_write_loop h ticks s =
     (if ticks > 0 \<and> \<not> spu_fifo_empty (transfer_fifo (spu s))
      then Option.bind (update_dma_request h (snd (execute_fifo_write_to_ram ticks s)))
             (transfer_write_loop h (fst (execute_fifo_write_to_ram ticks s)))
      else Some s)"

definition execute_transfer ::
  "('a spu_sys_scheme) spu_hooks \<Rightarrow> tick_count \<Rightarrow> 'a spu_sys_scheme \<Rightarrow> 'a spu_sys_scheme option" where
  "execute_transfer h ticks s =
     (let mode = transfer_mode (spu s) in
      if mode = RAM_TRANSFER_STOPPED
      then Some (upd_spu (\<lambda>p. put_stat 10 False (p\<lparr>transfer_event_active := False\<rparr>)) s)
      else do {
        s \<leftarrow> internal_generate_pending_samples h s;
        s \<leftarrow> (if mode = RAM_TRANSFER_DMA_READ then transfer_read_loop h ticks s else transfer_write_loop h ticks s);
        Some (update_transfer_event s) })"

definition INT32_MAX :: tick_count where "INT32_MAX = 2147483647"

definition manual_transfer_write ::
  "('a spu_sys_scheme) spu_hooks \<Rightarrow> u16 \<Rightarrow> 'a spu_sys_scheme \<Rightarrow> 'a spu_sys_scheme option" where
  "manual_transfer_write h value s = do {
     s \<leftarrow> (if \<not> spu_fifo_empty (transfer_fifo (spu s)) \<and>
              transfer_mode (spu s) \<in> {RAM_TRANSFER_MANUAL_WRITE, RAM_TRANSFER_DMA_WRITE}
           then execute_transfer h INT32_MAX s else Some s);
     let s = upd_spu (store_transfer value) s;
     Some (ram_irq_at (transfer_address (spu s)) s) }"

definition spu_halves_words :: "u16 list \<Rightarrow> nat \<Rightarrow> u32 list" where
  "spu_halves_words hs n = map (\<lambda>i. ucast (hs ! (2 * i)) OR push_bit 16 (ucast (hs ! (2 * i + 1)))) [0..<n]"

text \<open>The words the DMA controller gets; a short FIFO repeats its last half-word.\<close>

definition spu_dma_read ::
  "('a spu_sys_scheme) spu_hooks \<Rightarrow> nat \<Rightarrow> 'a spu_sys_scheme \<Rightarrow> (u32 list \<times> 'a spu_sys_scheme) option" where
  "spu_dma_read h word_count s =
     (let halfword_count = word_count * 2; size = unat (fifo_size (transfer_fifo (spu s)));
          (hs, f) = (if word_count > size
            then let (hs, f) = spu_fifo_pop_range size (transfer_fifo (spu s));
                     fill_value = (if size > 0 then hs ! (size - 1) else 0)
                 in (hs @ replicate (halfword_count - size) fill_value, f)
            else spu_fifo_pop_range halfword_count (transfer_fifo (spu s)))
      in do {
        s \<leftarrow> update_dma_request h (upd_spu (\<lambda>p. p\<lparr>transfer_fifo := f\<rparr>) s);
        Some (spu_halves_words hs word_count, update_transfer_event s) })"

definition spu_dma_write ::
  "('a spu_sys_scheme) spu_hooks \<Rightarrow> u32 list \<Rightarrow> 'a spu_sys_scheme \<Rightarrow> 'a spu_sys_scheme option" where
  "spu_dma_write h words s =
     (let f = transfer_fifo (spu s); hs = take (unat (spu_fifo_space f)) (word_halves words)
      in map_option update_transfer_event
           (update_dma_request h (upd_spu (\<lambda>p. p\<lparr>transfer_fifo := spu_fifo_push_range f hs\<rparr>) s)))"

section \<open>Ticks\<close>

definition system_scale_ticks_to_overclock :: "spu_config \<Rightarrow> tick_count \<Rightarrow> tick_count option" where
  "system_scale_ticks_to_overclock c ticks =
     (if \<not> cpu_overclock_active c then Some ticks
      else if cpu_overclock_denominator c = 0 then None
      else Some (to_s32 (uint ((ticks_u64 ticks * ucast (cpu_overclock_numerator c) +
             ucast (cpu_overclock_denominator c - 1)) div ucast (cpu_overclock_denominator c)))))"

text \<open>The frames a number of ticks is worth, and the carry; a zero divisor is a trap.\<close>

definition spu_frames :: "spu_config \<Rightarrow> tick_count \<Rightarrow> spu_state \<Rightarrow> (u32 \<times> tick_count) option" where
  "spu_frames c cpu_ticks p =
     (if cpu_overclock_active c
      then let num = ticks_u64 cpu_ticks * ucast (cpu_overclock_denominator c) + ticks_u64 (spu_ticks_carry p);
               d = ticks_u64 (cpu_tick_divider p)
           in if d = 0 then None else Some (ucast (num div d), to_s32 (uint (num mod d)))
      else let total = to_s32 (cpu_ticks + spu_ticks_carry p)
           in Some (word_of_int (total sdiv SYSCLK_TICKS_PER_SPU_TICK), total smod SYSCLK_TICKS_PER_SPU_TICK))"

partial_function (option) transfer_event_loop ::
  "('a spu_sys_scheme) spu_hooks \<Rightarrow> 'a spu_sys_scheme \<Rightarrow> 'a spu_sys_scheme option" where
  "transfer_event_loop h s =
     (let budget = transfer_ticks_carry (spu s) in
      if budget \<ge> TRANSFER_TICKS_PER_HALFWORD \<and> transfer_event_active (spu s)
      then Option.bind (execute_transfer h budget s)
             (\<lambda>s. transfer_event_loop h (upd_spu (\<lambda>p. p\<lparr>transfer_ticks_carry := budget\<rparr>) s))
      else Some s)"

fun generate_frames :: "('a spu_sys_scheme) spu_hooks \<Rightarrow> bool \<Rightarrow> nat \<Rightarrow> 'a spu_sys_scheme \<Rightarrow> 'a spu_sys_scheme" where
  "generate_frames h first 0 s = s"
| "generate_frames h first (Suc n) s = generate_frames h False n (generate_one_frame h first s)"

definition spu_execute ::
  "('a spu_sys_scheme) spu_hooks \<Rightarrow> tick_count \<Rightarrow> 'a spu_sys_scheme \<Rightarrow> 'a spu_sys_scheme option" where
  "spu_execute h cpu_ticks s = do {
     (remaining_frames, carry) \<leftarrow> spu_frames (spu_settings h) cpu_ticks (spu s);
     let s = upd_spu (\<lambda>p. p\<lparr>spu_ticks_carry := carry\<rparr>) s;
     s \<leftarrow> (if transfer_event_active (spu s)
           then transfer_event_loop h
                  (upd_spu (\<lambda>p. p\<lparr>transfer_ticks_carry := to_s32 (transfer_ticks_carry p + cpu_ticks)\<rparr>) s)
           else Some s);
     Some (generate_frames h True (unat remaining_frames) s) }"

definition spu_tick_trampoline :: "('a spu_sys_scheme) spu_hooks \<Rightarrow> 'a spu_sys_scheme callback" where
  "spu_tick_trampoline h e ticks ticks_late = spu_execute h ticks"

definition spu_generate_pending_samples ::
  "('a spu_sys_scheme) spu_hooks \<Rightarrow> 'a spu_sys_scheme \<Rightarrow> 'a spu_sys_scheme option" where
  "spu_generate_pending_samples h = timing_event_invoke_early (spu_tick_trampoline h) SPU_TICK_EVENT True"

definition spu_get_cpu_ticks_until_next_event :: "spu_state \<Rightarrow> tick_count" where
  "spu_get_cpu_ticks_until_next_event p =
     (let until = SYSCLK_TICKS_PER_SPU_TICK - spu_ticks_carry p in if until > 0 then until else 1)"

section \<open>Power\<close>

text \<open>A voice after a reset.\<close>

definition voice_initial :: spu_voice where
  "voice_initial = \<lparr>voice_address = 0,
     voice_regs = \<lparr>volume_left = 0, volume_right = 0, adpcm_sample_rate = 0, adpcm_start_address = 0, adsr = 0,
       adsr_volume = 0, adpcm_repeat_address = 0\<rparr>,
     voice_counter = 0, current_block_flags = 0, is_first_block = False, current_block_samples = (\<lambda>_. 0),
     adpcm_last_samples = (0, 0), last_volume = 0, left_volume = sweep_zero, right_volume = sweep_zero,
     adsr_envelope = volume_envelope_reset 0 0 False False False, adsr_phase = ADSR_PHASE_OFF, adsr_target = 0,
     has_samples = False, ignore_loop_address = False\<rparr>"

text \<open>The registers and buffers a reset clears; the transfer control, the stream and the mute stay.\<close>

definition spu_state_reset :: "spu_state \<Rightarrow> spu_state" where
  "spu_state_reset p = p\<lparr>spu_ticks_carry := 0, transfer_ticks_carry := 0, transfer_event_active := False,
     SPUCNT := 0, SPUSTAT := 0, transfer_address := 0, transfer_address_reg := 0, spu_irq_address := 0,
     capture_buffer_position := 0, main_volume_left_reg := 0, main_volume_right_reg := 0,
     main_volume_left := sweep_zero, main_volume_right := sweep_zero,
     cd_audio_volume_left := 0, cd_audio_volume_right := 0, external_volume_left := 0, external_volume_right := 0,
     key_on_register := 0, key_off_register := 0, endx_register := 0, pitch_modulation_enable_register := 0,
     noise_mode_register := 0, noise_count := 0, noise_level := 1, reverb_on_register := 0,
     reverb_regs := \<lparr>vLOUT = 0, vROUT = 0, mBASE = 0, rev = (\<lambda>_. 0)\<rparr>,
     reverb_base_address := 0, reverb_current_address := 0,
     reverb_downsample_buffer := (\<lambda>_ _. 0), reverb_upsample_buffer := (\<lambda>_ _. 0),
     reverb_resample_buffer_position := 0, voices := (\<lambda>_. voice_initial),
     transfer_fifo := spu_fifo_clear (transfer_fifo p), spu_ram := (\<lambda>_. 0)\<rparr>"

definition spu_reset :: "'a spu_sys_scheme \<Rightarrow> 'a spu_sys_scheme option" where
  "spu_reset s = Option.bind (timing_event_deactivate SPU_TICK_EVENT (upd_spu spu_state_reset s)) update_event_interval"

definition set_clock_ratio :: "spu_config \<Rightarrow> spu_state \<Rightarrow> spu_state option" where
  "set_clock_ratio c p = map_option
     (\<lambda>t. p\<lparr>cpu_ticks_per_spu_tick := t, cpu_tick_divider :=
            sint (cpu_overclock_numerator c * word_of_int SYSCLK_TICKS_PER_SPU_TICK)\<rparr>)
     (system_scale_ticks_to_overclock c SYSCLK_TICKS_PER_SPU_TICK)"

definition spu_initialize :: "('a spu_sys_scheme) spu_hooks \<Rightarrow> 'a spu_sys_scheme \<Rightarrow> 'a spu_sys_scheme option" where
  "spu_initialize h s = do {
     p \<leftarrow> set_clock_ratio (spu_settings h) (spu s);
     let s = upd_spu (\<lambda>_. p) s;
     let per = cpu_ticks_per_spu_tick p * 256;
     s \<leftarrow> timing_event_activate SPU_TICK_EVENT (timing_event_init SPU_TICK_EVENT per per s);
     spu_reset s }"

definition spu_cpu_clock_changed :: "('a spu_sys_scheme) spu_hooks \<Rightarrow> 'a spu_sys_scheme \<Rightarrow> 'a spu_sys_scheme option" where
  "spu_cpu_clock_changed h s = do {
     p \<leftarrow> set_clock_ratio (spu_settings h) (spu s);
     update_event_interval (upd_spu (\<lambda>_. p\<lparr>spu_ticks_carry := 0\<rparr>) s) }"

definition spu_set_audio_output_muted :: "bool \<Rightarrow> spu_state \<Rightarrow> spu_state" where
  "spu_set_audio_output_muted b p = p\<lparr>audio_output_muted := b\<rparr>"

definition spu_set_output_stream :: "bool \<Rightarrow> spu_state \<Rightarrow> spu_state" where
  "spu_set_output_stream b p = p\<lparr>audio_stream := b\<rparr>"

end
