(* ===== verification/Spu_Regs.thy ===== *)
theory Spu_Regs
  imports Spu_Ops
begin

text \<open>
  The register interface of the sound processing unit, \<^verbatim>\<open>src/core/spu/spu.c\<close>.
  Offsets are from \<open>SPU_BASE\<close>: the voices' registers below \<open>0x180\<close>, the control
  registers to \<open>0x1BF\<close>, the reverb's from \<open>0x1C0\<close> and the voices' current volumes
  from \<open>0x200\<close>.
\<close>

section \<open>A voice's registers\<close>

definition voice_live :: "spu_state \<Rightarrow> nat \<Rightarrow> bool" where
  "voice_live p i \<longleftrightarrow> voice_is_on (voices p i) \<or> bit (key_on_register p) i"

definition read_voice_register ::
  "('a spu_sys_scheme) spu_hooks \<Rightarrow> u32 \<Rightarrow> 'a spu_sys_scheme \<Rightarrow> (u16 \<times> 'a spu_sys_scheme) option" where
  "read_voice_register h offset s =
     (let reg_index = unat (offset mod 0x10) div 2; voice_index = unat (offset div 0x10) in
      if voice_index \<ge> NUM_VOICES then None
      else do {
        s \<leftarrow> (if reg_index \<ge> 6 \<and> voice_live (spu s) voice_index then spu_generate_pending_samples h s else Some s);
        Some (voice_register (voices (spu s) voice_index) reg_index, s) })"

definition set_voice_regs :: "(voice_registers \<Rightarrow> voice_registers) \<Rightarrow> spu_voice \<Rightarrow> spu_voice" where
  "set_voice_regs f v = v\<lparr>voice_regs := f (voice_regs v)\<rparr>"

definition envelope_if_on :: "spu_voice \<Rightarrow> spu_voice" where
  "envelope_if_on v = (if voice_is_on v then voice_update_adsr_envelope v else v)"

definition write_voice :: "u32 \<Rightarrow> u16 \<Rightarrow> spu_voice \<Rightarrow> spu_voice" where
  "write_voice reg value v =
     (if reg = 0x00 then set_voice_regs (\<lambda>r. r\<lparr>volume_left := value\<rparr>) v\<lparr>left_volume := volume_sweep_reset value (left_volume v)\<rparr>
      else if reg = 0x02 then set_voice_regs (\<lambda>r. r\<lparr>volume_right := value\<rparr>) v\<lparr>right_volume := volume_sweep_reset value (right_volume v)\<rparr>
      else if reg = 0x04 then set_voice_regs (\<lambda>r. r\<lparr>adpcm_sample_rate := value\<rparr>) v
      else if reg = 0x06 then set_voice_regs (\<lambda>r. r\<lparr>adpcm_start_address := value\<rparr>) v
      else if reg = 0x08 then envelope_if_on (set_voice_regs (\<lambda>r. r\<lparr>adsr := bits_set (adsr r) 0 16 (ucast value)\<rparr>) v)
      else if reg = 0x0A then envelope_if_on (set_voice_regs (\<lambda>r. r\<lparr>adsr := bits_set (adsr r) 16 16 (ucast value)\<rparr>) v)
      else if reg = 0x0C then set_voice_regs (\<lambda>r. r\<lparr>adsr_volume := sint value\<rparr>) v
      else if reg = 0x0E then (set_voice_regs (\<lambda>r. r\<lparr>adpcm_repeat_address := value\<rparr>) v)
             \<lparr>ignore_loop_address := (ignore_loop_address v \<or> \<not> voice_is_on v \<or> \<not> is_first_block v)\<rparr>
      else v)"

definition write_voice_register ::
  "('a spu_sys_scheme) spu_hooks \<Rightarrow> u32 \<Rightarrow> u16 \<Rightarrow> 'a spu_sys_scheme \<Rightarrow> 'a spu_sys_scheme option" where
  "write_voice_register h offset value s =
     (let voice_index = unat (offset div 0x10) in do {
        s \<leftarrow> (if voice_live (spu s) voice_index then spu_generate_pending_samples h s else Some s);
        Some (upd_spu (upd_voice voice_index (write_voice (offset mod 0x10) value)) s) })"

section \<open>Reads\<close>

definition low_half :: "u32 \<Rightarrow> u16" where "low_half w = ucast w"
definition high_half :: "u32 \<Rightarrow> u16" where "high_half w = ucast (drop_bit 16 w)"

text \<open>The registers whose value is kept as it is, by their addresses.\<close>

definition control_registers :: "spu_state \<Rightarrow> (u32 \<times> u16) list" where
  "control_registers p =
     [(0x180, main_volume_left_reg p), (0x182, main_volume_right_reg p),
      (0x184, word_of_int (vLOUT (reverb_regs p))), (0x186, word_of_int (vROUT (reverb_regs p))),
      (0x188, low_half (key_on_register p)), (0x18A, high_half (key_on_register p)),
      (0x18C, low_half (key_off_register p)), (0x18E, high_half (key_off_register p)),
      (0x190, low_half (pitch_modulation_enable_register p)), (0x192, high_half (pitch_modulation_enable_register p)),
      (0x194, low_half (noise_mode_register p)), (0x196, high_half (noise_mode_register p)),
      (0x198, low_half (reverb_on_register p)), (0x19A, high_half (reverb_on_register p)),
      (0x19C, low_half (endx_register p)), (0x19E, high_half (endx_register p)),
      (0x1A2, mBASE (reverb_regs p)), (0x1A4, spu_irq_address p), (0x1A6, transfer_address_reg p),
      (0x1A8, 0xFFFF), (0x1AA, SPUCNT p), (0x1AC, spu_transfer_control p),
      (0x1B0, word_of_int (cd_audio_volume_left p)), (0x1B2, word_of_int (cd_audio_volume_right p)),
      (0x1B4, word_of_int (external_volume_left p)), (0x1B6, word_of_int (external_volume_right p))]"

definition read_after_samples ::
  "('a spu_sys_scheme) spu_hooks \<Rightarrow> (spu_state \<Rightarrow> u16) \<Rightarrow> 'a spu_sys_scheme \<Rightarrow> (u16 \<times> 'a spu_sys_scheme) option" where
  "read_after_samples h f s = map_option (\<lambda>s. (f (spu s), s)) (spu_generate_pending_samples h s)"

definition current_volume :: "u32 \<Rightarrow> spu_state \<Rightarrow> u16" where
  "current_volume offset p =
     (let v = voices p (unat ((offset - 0x200) div 4))
      in word_of_int (current_level (if bit offset 1 then left_volume v else right_volume v)))"

definition spu_read_register ::
  "('a spu_sys_scheme) spu_hooks \<Rightarrow> u32 \<Rightarrow> 'a spu_sys_scheme \<Rightarrow> (u16 \<times> 'a spu_sys_scheme) option" where
  "spu_read_register h offset s =
     (case map_of (control_registers (spu s)) offset of
        Some v \<Rightarrow> Some (v, s)
      | None \<Rightarrow>
          if offset = 0x1AE then read_after_samples h SPUSTAT s
          else if offset = 0x1B8 then read_after_samples h (\<lambda>p. word_of_int (current_level (main_volume_left p))) s
          else if offset = 0x1BA then read_after_samples h (\<lambda>p. word_of_int (current_level (main_volume_right p))) s
          else if offset < 0x180 then read_voice_register h offset s
          else if 0x1C0 \<le> offset \<and> offset < 0x200
          then Some (rev (reverb_regs (spu s)) (unat ((offset - 0x1C0) div 2)), s)
          else if 0x200 \<le> offset \<and> offset < 0x260 then read_after_samples h (current_volume offset) s
          else Some (0xFFFF, s))"

section \<open>Writes\<close>

definition put_low :: "u16 \<Rightarrow> u32 \<Rightarrow> u32" where "put_low v w = (w AND 0xFFFF0000) OR ucast v"
definition put_high :: "u16 \<Rightarrow> u32 \<Rightarrow> u32" where "put_high v w = (w AND 0x0000FFFF) OR push_bit 16 (ucast v)"

text \<open>The registers that are written after the pending samples, and do nothing else.\<close>

definition sampled_registers :: "u16 \<Rightarrow> (u32 \<times> (spu_state \<Rightarrow> spu_state)) list" where
  "sampled_registers v =
     [(0x180, \<lambda>p. p\<lparr>main_volume_left_reg := v, main_volume_left := volume_sweep_reset v (main_volume_left p)\<rparr>),
      (0x182, \<lambda>p. p\<lparr>main_volume_right_reg := v, main_volume_right := volume_sweep_reset v (main_volume_right p)\<rparr>),
      (0x184, \<lambda>p. p\<lparr>reverb_regs := (reverb_regs p)\<lparr>vLOUT := sint v\<rparr>\<rparr>),
      (0x186, \<lambda>p. p\<lparr>reverb_regs := (reverb_regs p)\<lparr>vROUT := sint v\<rparr>\<rparr>),
      (0x188, \<lambda>p. p\<lparr>key_on_register := put_low v (key_on_register p)\<rparr>),
      (0x18A, \<lambda>p. p\<lparr>key_on_register := put_high v (key_on_register p)\<rparr>),
      (0x18C, \<lambda>p. p\<lparr>key_off_register := put_low v (key_off_register p)\<rparr>),
      (0x18E, \<lambda>p. p\<lparr>key_off_register := put_high v (key_off_register p)\<rparr>),
      (0x190, \<lambda>p. p\<lparr>pitch_modulation_enable_register := put_low v (pitch_modulation_enable_register p)\<rparr>),
      (0x192, \<lambda>p. p\<lparr>pitch_modulation_enable_register := put_high v (pitch_modulation_enable_register p)\<rparr>),
      (0x194, \<lambda>p. p\<lparr>noise_mode_register := put_low v (noise_mode_register p)\<rparr>),
      (0x196, \<lambda>p. p\<lparr>noise_mode_register := put_high v (noise_mode_register p)\<rparr>),
      (0x198, \<lambda>p. p\<lparr>reverb_on_register := put_low v (reverb_on_register p)\<rparr>),
      (0x19A, \<lambda>p. p\<lparr>reverb_on_register := put_high v (reverb_on_register p)\<rparr>),
      (0x1A2, \<lambda>p. let base = push_bit 2 (ucast v) AND 0x3FFFF
              in p\<lparr>reverb_regs := (reverb_regs p)\<lparr>mBASE := v\<rparr>, reverb_base_address := base, reverb_current_address := base\<rparr>),
      (0x1B0, \<lambda>p. p\<lparr>cd_audio_volume_left := sint v\<rparr>),
      (0x1B2, \<lambda>p. p\<lparr>cd_audio_volume_right := sint v\<rparr>),
      (0x1B8, \<lambda>p. p\<lparr>main_volume_left := (main_volume_left p)\<lparr>current_level := sint v\<rparr>\<rparr>),
      (0x1BA, \<lambda>p. p\<lparr>main_volume_right := (main_volume_right p)\<lparr>current_level := sint v\<rparr>\<rparr>)]"

definition write_irq_address ::
  "('a spu_sys_scheme) spu_hooks \<Rightarrow> u16 \<Rightarrow> 'a spu_sys_scheme \<Rightarrow> 'a spu_sys_scheme option" where
  "write_irq_address h value s =
     map_option (\<lambda>s. let s = upd_spu (\<lambda>p. p\<lparr>spu_irq_address := value\<rparr>) s
                     in if is_ram_irq_triggerable (spu s) then check_for_late_ram_irqs s else s)
       (spu_generate_pending_samples h s)"

definition write_transfer_address ::
  "('a spu_sys_scheme) spu_hooks \<Rightarrow> u16 \<Rightarrow> 'a spu_sys_scheme \<Rightarrow> 'a spu_sys_scheme option" where
  "write_transfer_address h value s =
     map_option (\<lambda>s. let s = upd_spu (\<lambda>p. p\<lparr>transfer_address_reg := value, transfer_address := ucast value * 8\<rparr>) s
                     in ram_irq_at (transfer_address (spu s)) s)
       (execute_transfer h INT32_MAX s)"

text \<open>A write that stops a transfer drains the FIFO of a DMA write and drops any other.\<close>

definition stop_transfer ::
  "('a spu_sys_scheme) spu_hooks \<Rightarrow> u16 \<Rightarrow> 'a spu_sys_scheme \<Rightarrow> 'a spu_sys_scheme option" where
  "stop_transfer h value s =
     (if spucnt_transfer_mode value \<noteq> transfer_mode (spu s) \<and> spucnt_transfer_mode value = RAM_TRANSFER_STOPPED \<and>
         \<not> spu_fifo_empty (transfer_fifo (spu s))
      then if transfer_mode (spu s) = RAM_TRANSFER_DMA_WRITE then execute_transfer h INT32_MAX s
           else Some (upd_spu (\<lambda>p. p\<lparr>transfer_fifo := spu_fifo_clear (transfer_fifo p)\<rparr>) s)
      else Some s)"

definition put_control :: "u16 \<Rightarrow> spu_state \<Rightarrow> spu_state" where
  "put_control value p =
     (let p = (if \<not> spucnt_enable value \<and> spucnt_enable (SPUCNT p)
               then p\<lparr>voices := (\<lambda>i. if i < NUM_VOICES then voice_force_off (voices p i) else voices p i)\<rparr> else p)
      in p\<lparr>SPUCNT := value, SPUSTAT := bits_set (SPUSTAT p) 0 6 value\<rparr>)"

definition control_irq :: "'a spu_sys_scheme \<Rightarrow> 'a spu_sys_scheme" where
  "control_irq s =
     (if \<not> spucnt_irq9_enable (SPUCNT (spu s))
      then interrupt_controller_set_line_state SPU_IRQ_INDEX False (upd_spu (put_stat 6 False) s)
      else if is_ram_irq_triggerable (spu s) then check_for_late_ram_irqs s else s)"

definition write_control ::
  "('a spu_sys_scheme) spu_hooks \<Rightarrow> u16 \<Rightarrow> 'a spu_sys_scheme \<Rightarrow> 'a spu_sys_scheme option" where
  "write_control h value s = do {
     s \<leftarrow> spu_generate_pending_samples h s;
     s \<leftarrow> stop_transfer h value s;
     s \<leftarrow> update_event_interval (control_irq (upd_spu (put_control value) s));
     s \<leftarrow> update_dma_request h s;
     Some (update_transfer_event s) }"

definition write_reverb_register ::
  "('a spu_sys_scheme) spu_hooks \<Rightarrow> nat \<Rightarrow> u16 \<Rightarrow> 'a spu_sys_scheme \<Rightarrow> 'a spu_sys_scheme option" where
  "write_reverb_register h reg value s =
     map_option (upd_spu (\<lambda>p. p\<lparr>reverb_regs := (reverb_regs p)\<lparr>rev := (rev (reverb_regs p))(reg := value)\<rparr>\<rparr>))
       (spu_generate_pending_samples h s)"

text \<open>Status, the two end flags and unknown offsets ignore writes.\<close>

definition spu_write_register ::
  "('a spu_sys_scheme) spu_hooks \<Rightarrow> u32 \<Rightarrow> u16 \<Rightarrow> 'a spu_sys_scheme \<Rightarrow> 'a spu_sys_scheme option" where
  "spu_write_register h offset value s =
     (case map_of (sampled_registers value) offset of
        Some f \<Rightarrow> map_option (upd_spu f) (spu_generate_pending_samples h s)
      | None \<Rightarrow>
          if offset = 0x1A4 then write_irq_address h value s
          else if offset = 0x1A6 then write_transfer_address h value s
          else if offset = 0x1A8 then manual_transfer_write h value s
          else if offset = 0x1AA then write_control h value s
          else if offset = 0x1AC then Some (upd_spu (\<lambda>p. p\<lparr>spu_transfer_control := value\<rparr>) s)
          else if offset = 0x1B4 then Some (upd_spu (\<lambda>p. p\<lparr>external_volume_left := sint value\<rparr>) s)
          else if offset = 0x1B6 then Some (upd_spu (\<lambda>p. p\<lparr>external_volume_right := sint value\<rparr>) s)
          else if offset \<in> {0x1AE, 0x19C, 0x19E} then Some s
          else if offset < 0x180 then write_voice_register h offset value s
          else if 0x1C0 \<le> offset \<and> offset < 0x200
          then write_reverb_register h (unat ((offset - 0x1C0) div 2)) value s
          else Some s)"

end
