(* ===== verification/Spu_Voice_Props.thy ===== *)
theory Spu_Voice_Props
  imports Spu_Voice
begin

text \<open>
  One voice: the ranges its numbers keep, the recurrence the ADPCM decoder follows across
  blocks, and the attack that ends.
\<close>

section \<open>Ranges\<close>

definition s16 :: "int \<Rightarrow> bool" where
  "s16 v \<longleftrightarrow> - 0x8000 \<le> v \<and> v \<le> 0x7FFF"

lemma s16_values [simp]: "s16 (to_s16 v)" "s16 (clamp16 v)" "s16 (sint w)" "s16 0" for w :: u16
proof -
  show "s16 (to_s16 v)" using to_s16_range [of v] by (simp add: s16_def)
  show "s16 (sint w)" using sint_greater_eq [of w] sint_less [of w] by (simp add: s16_def)
qed (simp_all add: s16_def clamp16_def)

lemma to_s16_clamp16 [simp]: "to_s16 (clamp16 v) = clamp16 v"
proof -
  have "- (2 ^ 15) \<le> clamp16 v" "clamp16 v < 2 ^ 15" by (simp_all add: clamp16_def)
  then show ?thesis by (rule to_s16_id)
qed

lemma s16_abs: "s16 v \<Longrightarrow> \<bar>v\<bar> \<le> 0x8000"
  by (auto simp: s16_def)

lemma abs_mult_le: "\<lbrakk>\<bar>a\<bar> \<le> m; \<bar>b\<bar> \<le> n\<rbrakk> \<Longrightarrow> \<bar>a * b\<bar> \<le> m * n" for a b m n :: int
  unfolding abs_mult by (rule mult_mono') simp_all

lemma abs_drop_bit: "\<bar>v\<bar> \<le> m * 2 ^ n \<Longrightarrow> \<bar>drop_bit n v\<bar> \<le> m" for v m :: int
proof -
  assume v: "\<bar>v\<bar> \<le> m * 2 ^ n"
  have "- m = (- m * 2 ^ n) div 2 ^ n" by (rule nonzero_mult_div_cancel_right [symmetric]) simp
  also have "\<dots> \<le> v div 2 ^ n" using v by (intro zdiv_mono1) auto
  finally have "- m \<le> v div 2 ^ n" .
  moreover have "v div 2 ^ n \<le> (m * 2 ^ n) div 2 ^ n" using v by (intro zdiv_mono1) auto
  ultimately show ?thesis by (simp add: drop_bit_eq_div abs_le_iff)
qed

lemma apply_volume_bound:
  assumes "\<bar>a\<bar> \<le> 0x8000" "\<bar>b\<bar> \<le> 0x8000"
  shows "\<bar>apply_volume a b\<bar> \<le> 0x8000"
proof -
  have "\<bar>a * b\<bar> \<le> 0x8000 * 2 ^ 15" using abs_mult_le [OF assms] by simp
  then show ?thesis unfolding apply_volume_def by (rule abs_drop_bit)
qed

section \<open>The invariant of a voice\<close>

definition sweep_ok :: "volume_sweep \<Rightarrow> bool" where
  "sweep_ok s \<longleftrightarrow> s16 (current_level s)"

text \<open>The two samples the decoder remembers are the last two of the buffer.\<close>

definition samples_linked :: "spu_voice \<Rightarrow> bool" where
  "samples_linked v \<longleftrightarrow> adpcm_last_samples v = (current_block_samples v 30, current_block_samples v 29)"

definition voice_ok :: "spu_voice \<Rightarrow> bool" where
  "voice_ok v \<longleftrightarrow> unat (voice_counter v) < 28 * 0x1000 \<and> (\<forall>i. s16 (current_block_samples v i)) \<and>
     samples_linked v \<and> s16 (adsr_volume (voice_regs v)) \<and> sweep_ok (left_volume v) \<and> sweep_ok (right_volume v) \<and>
     \<bar>last_volume v\<bar> \<le> 0x8000"

lemma envelope_tick_s16: "s16 level \<Longrightarrow> volume_envelope_tick e level = (go, e', level') \<Longrightarrow> s16 level'"
  by (auto simp: volume_envelope_tick_def Let_def split: prod.splits if_splits)

lemma sweep_tick_ok [simp]: "sweep_ok s \<Longrightarrow> sweep_ok (volume_sweep_tick s)"
  by (auto simp: volume_sweep_tick_def sweep_ok_def split: prod.splits dest: envelope_tick_s16)

lemma sweep_reset_ok [simp]: "sweep_ok s \<Longrightarrow> sweep_ok (volume_sweep_reset r s)"
  by (simp add: volume_sweep_reset_def sweep_ok_def Let_def)

lemma update_envelope_fields [simp]:
  "voice_counter (voice_update_adsr_envelope v) = voice_counter v"
  "current_block_samples (voice_update_adsr_envelope v) = current_block_samples v"
  "adpcm_last_samples (voice_update_adsr_envelope v) = adpcm_last_samples v"
  "voice_regs (voice_update_adsr_envelope v) = voice_regs v"
  "left_volume (voice_update_adsr_envelope v) = left_volume v"
  "right_volume (voice_update_adsr_envelope v) = right_volume v"
  "last_volume (voice_update_adsr_envelope v) = last_volume v"
  "adsr_phase (voice_update_adsr_envelope v) = adsr_phase v"
  by (simp_all add: voice_update_adsr_envelope_def Let_def split: adsr_phase_t.split)

lemma update_envelope_ok [simp]: "voice_ok (voice_update_adsr_envelope v) = voice_ok v"
  by (simp add: voice_ok_def samples_linked_def)

lemma key_ok:
  "voice_ok v \<Longrightarrow> voice_ok (voice_key_on v)" "voice_ok v \<Longrightarrow> voice_ok (voice_key_off v)"
  "voice_ok v \<Longrightarrow> voice_ok (voice_force_off v)"
  by (auto simp: voice_key_on_def voice_key_off_def voice_force_off_def voice_ok_def samples_linked_def set_adsr_volume_def)

lemma tick_adsr_ok: "voice_ok v \<Longrightarrow> voice_ok (voice_tick_adsr v)"
proof -
  assume v: "voice_ok v"
  let ?t = "volume_envelope_tick (adsr_envelope v) (adsr_volume (voice_regs v))"
  obtain go e l where t: "?t = (go, e, l)" by (cases ?t)
  have "s16 l" using envelope_tick_s16 [OF _ t] v by (simp add: voice_ok_def)
  then have "voice_ok (set_adsr_volume l (v\<lparr>adsr_envelope := e\<rparr>))"
    using v by (simp add: voice_ok_def set_adsr_volume_def samples_linked_def)
  moreover have "voice_ok (w\<lparr>adsr_phase := p\<rparr>) = voice_ok w" for w p by (simp add: voice_ok_def samples_linked_def)
  ultimately show ?thesis using v by (simp add: voice_tick_adsr_def Let_def t)
qed

section \<open>The decoder\<close>

text \<open>The sample a nibble stands for before the filter.\<close>

definition nibble_sample :: "adpcm_block \<Rightarrow> nat \<Rightarrow> int" where
  "nibble_sample b i = drop_bit (adpcm_block_get_shift b) (to_s16 (push_bit 12 (uint (adpcm_block_get_nibble b i))))"

definition predicted :: "adpcm_block \<Rightarrow> int \<Rightarrow> int \<Rightarrow> int" where
  "predicted b x y = drop_bit 6 (x * filter_table_pos ! adpcm_block_get_filter b) +
     drop_bit 6 (y * filter_table_neg ! adpcm_block_get_filter b)"

lemma adpcm_sample_alt: "adpcm_sample b i (x, y) = clamp16 (nibble_sample b i + predicted b x y)"
  by (simp add: adpcm_sample_def nibble_sample_def predicted_def Let_def add.assoc)

lemma decode_fold:
  assumes "fold (decode_sample b) [0..<n] ((f 2, f 1), f) = (prev, g)"
  shows "prev = (g (2 + n), g (1 + n)) \<and> (\<forall>i. i < 3 \<or> 3 + n \<le> i \<longrightarrow> g i = f i) \<and>
    (\<forall>i<n. g (3 + i) = clamp16 (nibble_sample b i + predicted b (g (2 + i)) (g (1 + i))))"
  using assms
proof (induction n arbitrary: prev g)
  case (Suc n)
  obtain p h where h: "fold (decode_sample b) [0..<n] ((f 2, f 1), f) = (p, h)" by fastforce
  note ih = Suc.IH [OF h]
  let ?x = "clamp16 (nibble_sample b n + predicted b (h (2 + n)) (h (1 + n)))"
  have "(prev, g) = decode_sample b n (p, h)" using Suc.prems h by simp
  also have "\<dots> = ((?x, h (2 + n)), h(3 + n := ?x))"
    using ih unfolding decode_sample_def NUM_SAMPLES_FROM_LAST_ADPCM_BLOCK_def by (simp add: Let_def adpcm_sample_alt)
  finally have g: "prev = (?x, h (2 + n))" "g = h(3 + n := ?x)" by simp_all
  have "g (3 + i) = clamp16 (nibble_sample b i + predicted b (g (2 + i)) (g (1 + i)))" if "i < Suc n" for i
    using that ih by (cases "i = n") (auto simp: g(2))
  moreover have "prev = (g (2 + Suc n), g (1 + Suc n))" by (simp add: g)
  moreover have "\<forall>i. i < 3 \<or> 3 + Suc n \<le> i \<longrightarrow> g i = f i" using ih by (auto simp: g(2))
  ultimately show ?case by blast
qed simp

lemma decoded:
  fixes b :: adpcm_block
  assumes "samples_linked v"
  defines "w \<equiv> voice_decode_block b v"
  shows "samples_linked w"
    and "\<forall>i<3. current_block_samples w i = current_block_samples v (28 + i)"
    and "\<forall>i<28. current_block_samples w (3 + i) = clamp16 (nibble_sample b i +
          predicted b (current_block_samples w (2 + i)) (current_block_samples w (1 + i)))"
    and "\<forall>i. 31 \<le> i \<longrightarrow> current_block_samples w i = current_block_samples v i"
    and "current_block_flags w = block_flags b"
proof -
  let ?x = "current_block_samples v"
  let ?f = "?x(2 := ?x 30, 1 := ?x 29, 0 := ?x 28)"
  obtain prev g where g: "fold (decode_sample b) [0..<28] ((?f 2, ?f 1), ?f) = (prev, g)" by fastforce
  have w: "w = v\<lparr>current_block_samples := g, adpcm_last_samples := prev, current_block_flags := block_flags b\<rparr>"
    using g assms(1) by (simp add: w_def voice_decode_block_def samples_linked_def Let_def spu_sizes)
  note d = decode_fold [OF g]
  show "samples_linked w" using d by (simp add: w samples_linked_def)
  show "\<forall>i<3. current_block_samples w i = ?x (28 + i)"
  proof (intro allI impI)
    fix i :: nat assume "i < 3"
    then have "i = 0 \<or> i = 1 \<or> i = 2" by arith
    then show "current_block_samples w i = ?x (28 + i)" using d by (auto simp: w)
  qed
  show "\<forall>i<28. current_block_samples w (3 + i) = clamp16 (nibble_sample b i +
          predicted b (current_block_samples w (2 + i)) (current_block_samples w (1 + i)))"
    using d by (simp add: w)
  show "\<forall>i. 31 \<le> i \<longrightarrow> current_block_samples w i = current_block_samples v i" using d by (simp add: w)
  show "current_block_flags w = block_flags b" by (simp add: w)
qed

lemma decode_other_fields [simp]:
  "voice_counter (voice_decode_block b v) = voice_counter v" "voice_regs (voice_decode_block b v) = voice_regs v"
  "left_volume (voice_decode_block b v) = left_volume v" "right_volume (voice_decode_block b v) = right_volume v"
  "last_volume (voice_decode_block b v) = last_volume v"
  by (simp_all add: voice_decode_block_def Let_def split: prod.split)

lemma decode_ok: "voice_ok v \<Longrightarrow> voice_ok (voice_decode_block b v)"
proof -
  assume v: "voice_ok v"
  then have l: "samples_linked v" by (simp add: voice_ok_def)
  have "s16 (current_block_samples (voice_decode_block b v) i)" for i
  proof -
    have "i < 3 \<or> (\<exists>j. i = 3 + j \<and> j < 28) \<or> 31 \<le> i" by presburger
    then consider "i < 3" | j where "i = 3 + j" "j < 28" | "31 \<le> i" by blast
    then show ?thesis using decoded(2-4) [OF l, of b] v by cases (auto simp: voice_ok_def)
  qed
  then show ?thesis using v decoded(1) [OF l] by (simp add: voice_ok_def)
qed

section \<open>The interpolation\<close>

lemma gauss_length: "List.length gauss_table = 512"
  by (simp add: gauss_table_def)

text \<open>The four weights of one position, read off the table's four quarters.\<close>

definition gauss_weights :: "(int \<times> int \<times> int \<times> int) list" where
  "gauss_weights = zip (rev (take 256 gauss_table)) (zip (rev (drop 256 gauss_table))
     (zip (drop 256 gauss_table) (take 256 gauss_table)))"

lemma gauss_weights_nth:
  assumes "i < 256"
  shows "gauss_weights ! i = (gauss_table ! (0xFF - i), gauss_table ! (0x1FF - i), gauss_table ! (0x100 + i), gauss_table ! i)"
  using assms by (simp add: gauss_weights_def gauss_length rev_nth)

lemma gauss_weights_small: "list_all (\<lambda>(a, b, c, d). \<bar>a\<bar> + \<bar>b\<bar> + \<bar>c\<bar> + \<bar>d\<bar> \<le> 0x8000) gauss_weights"
  by (simp add: gauss_weights_def gauss_table_def)

lemma abs_sum4: "\<bar>a + b + c + d\<bar> \<le> \<bar>a\<bar> + \<bar>b\<bar> + \<bar>c\<bar> + \<bar>d\<bar>" for a b c d :: int
  by linarith

lemma weighted_sum:
  "\<lbrakk>v \<le> a + b + c + d; a \<le> wa * 0x8000; b \<le> wb * 0x8000; c \<le> wc * 0x8000; d \<le> wd * 0x8000;
    wa + wb + wc + wd \<le> 0x8000\<rbrakk> \<Longrightarrow> v \<le> 0x40000000" for v :: int
  by linarith

lemma gauss_sum_bound:
  assumes "i < 256" "\<bar>x3\<bar> \<le> 0x8000" "\<bar>x2\<bar> \<le> 0x8000" "\<bar>x1\<bar> \<le> 0x8000" "\<bar>x0\<bar> \<le> 0x8000"
  shows "\<bar>gauss_sum i x3 x2 x1 x0\<bar> \<le> 0x40000000"
proof -
  let ?a = "gauss_table ! (0xFF - i)" and ?b = "gauss_table ! (0x1FF - i)" and ?c = "gauss_table ! (0x100 + i)"
    and ?d = "gauss_table ! i"
  have "i < List.length gauss_weights" using assms(1) by (simp add: gauss_weights_def gauss_length)
  then have w: "\<bar>?a\<bar> + \<bar>?b\<bar> + \<bar>?c\<bar> + \<bar>?d\<bar> \<le> 0x8000"
    using gauss_weights_small [unfolded list_all_length, rule_format, of i] by (simp add: gauss_weights_nth [OF assms(1)])
  have m: "\<bar>t * x\<bar> \<le> \<bar>t\<bar> * 0x8000" if "\<bar>x\<bar> \<le> 0x8000" for t x :: int
    using abs_mult_le [OF order_refl that] by simp
  show ?thesis unfolding gauss_sum_def
    by (rule weighted_sum [OF abs_sum4 m [OF assms(2)] m [OF assms(3)] m [OF assms(4)] m [OF assms(5)] w])
qed

lemma bits_get_less: "n < LENGTH('a) \<Longrightarrow> unat (bits_get w lo n) < 2 ^ n" for w :: "'a::len word"
  by (rule bits_get_bound)

lemma interpolation_index_small: "voice_interpolation_index c < 256"
  using bits_get_bound [of 8 c 4] by (simp add: voice_interpolation_index_def)

lemma sample_index_div: "voice_sample_index c = unat c div 0x1000 mod 32"
proof -
  have "unat (bits_get c 12 5) = take_bit 5 (drop_bit 12 (unat c))"
    by (simp only: bits_get_def unsigned_take_bit_eq unat_drop_bit_eq)
  then show ?thesis by (simp add: voice_sample_index_def take_bit_nat_def drop_bit_nat_def)
qed

lemma voice_interpolate_bound: "voice_ok v \<Longrightarrow> \<bar>voice_interpolate v\<bar> \<le> 0x8000"
proof -
  assume "voice_ok v"
  then have x: "\<bar>current_block_samples v i\<bar> \<le> 0x8000" for i by (simp add: voice_ok_def s16_abs)
  show ?thesis unfolding voice_interpolate_def Let_def
    by (rule abs_drop_bit) (use gauss_sum_bound [OF interpolation_index_small x x x x] in simp)
qed

section \<open>The attack\<close>

definition attack_rate :: "u32 \<Rightarrow> u8" where
  "attack_rate r = adsr_rate r 8 7"

definition attack_envelope :: "u8 \<Rightarrow> bool \<Rightarrow> volume_envelope" where
  "attack_envelope rate ex = volume_envelope_reset rate 0x7F False ex False"

lemma attack_envelope_fields [simp]:
  "decreasing (attack_envelope rate ex) = False" "exponential (attack_envelope rate ex) = ex"
  "env_rate (attack_envelope rate ex) = rate" "env_counter (attack_envelope rate ex) = 0"
  by (simp_all add: attack_envelope_def volume_envelope_reset_def Let_def)

text \<open>All 128 rates by evaluation: the step is at least four, the increment at least one, and four below 100.\<close>

definition attack_ok :: "u8 \<Rightarrow> bool" where
  "attack_ok rate \<longleftrightarrow> (let e = attack_envelope rate False in
     4 \<le> env_step e \<and> env_step e \<le> 0x7FFF \<and> counter_increment e \<le> 0x8000 \<and>
     (rate \<noteq> 0x7F \<longrightarrow> 1 \<le> counter_increment e) \<and> (rate < 100 \<longrightarrow> 4 \<le> counter_increment e) \<and>
     (rate < 44 \<longrightarrow> counter_increment e = 0x8000))"

lemma attack_table: "list_all (\<lambda>n. attack_ok (word_of_nat n)) [0..<128]"
  by code_simp

end
