(* ===== verification/Spu_Props.thy ===== *)
theory Spu_Props
  imports Spu_Regs Spu_Voice_Props Pad_Props Mdec_Fifo
begin

text \<open>
  The state of the sound processing unit: the invariant \<open>spu_ok\<close>, under which its
  accesses stay in their arrays and its sums in their types, kept by every step of a frame.
\<close>

section \<open>The FIFO\<close>

interpretation spu_ring: bounded_ring 32 "\<lambda>v f. spu_fifo_push f v" spu_fifo_pop
  by unfold_locales
    (simp_all add: spu_fifo_push_def spu_fifo_pop_def FIFO_SIZE_IN_HALFWORDS_def unat_mod unat_succ unat_pred)

lemma spu_pop_range:
  assumes "fifo_ok 32 f" "n \<le> unat (fifo_size f)"
  shows "fst (spu_fifo_pop_range n f) = take n (fifo_list 32 f)" "fifo_ok 32 (snd (spu_fifo_pop_range n f))"
    "fifo_list 32 (snd (spu_fifo_pop_range n f)) = drop n (fifo_list 32 f)"
  using spu_ring.pop_all_refines [OF _ _ assms, of spu_fifo_pop_range] by simp_all

lemma spu_push_range:
  assumes "fifo_ok 32 f" "unat (fifo_size f) + List.length vs \<le> 32"
  shows "fifo_ok 32 (spu_fifo_push_range f vs)" "fifo_list 32 (spu_fifo_push_range f vs) = fifo_list 32 f @ vs"
  using spu_ring.push_all_refines [OF assms] by (simp_all add: spu_fifo_push_range_def foldl_conv_fold)

lemma spu_clear_ok [simp]: "fifo_ok 32 (spu_fifo_clear f)" "fifo_list 32 (spu_fifo_clear f) = []"
  by (simp_all add: spu_fifo_clear_def fifo_ok_def fifo_list_def)

lemma spu_fifo_full_size: "spu_fifo_full f \<longleftrightarrow> unat (fifo_size f) = 32"
proof
  assume "unat (fifo_size f) = 32"
  then have "of_nat (unat (fifo_size f)) = (32 :: u32)" by simp
  then show "spu_fifo_full f" by (simp add: spu_fifo_full_def FIFO_SIZE_IN_HALFWORDS_def)
qed (simp add: spu_fifo_full_def FIFO_SIZE_IN_HALFWORDS_def)

lemma spu_fifo_empty_size: "spu_fifo_empty f \<longleftrightarrow> unat (fifo_size f) = 0"
  by (simp add: spu_fifo_empty_def unat_eq_0)

section \<open>The invariant\<close>

definition reverb_ok :: "spu_state \<Rightarrow> bool" where
  "reverb_ok p \<longleftrightarrow> 0 \<le> reverb_resample_buffer_position p \<and> reverb_resample_buffer_position p < 64 \<and>
     (\<forall>c i. s16 (reverb_downsample_buffer p c i)) \<and> (\<forall>c i. s16 (reverb_upsample_buffer p c i)) \<and>
     s16 (vLOUT (reverb_regs p)) \<and> s16 (vROUT (reverb_regs p))"

definition volumes_ok :: "spu_state \<Rightarrow> bool" where
  "volumes_ok p \<longleftrightarrow> sweep_ok (main_volume_left p) \<and> sweep_ok (main_volume_right p) \<and>
     s16 (cd_audio_volume_left p) \<and> s16 (cd_audio_volume_right p)"

definition addresses_ok :: "spu_state \<Rightarrow> bool" where
  "addresses_ok p \<longleftrightarrow> transfer_address p < SPU_RAM_SIZE \<and> even (unat (transfer_address p)) \<and>
     unat (capture_buffer_position p) < 0x400 \<and> even (unat (capture_buffer_position p))"

definition spu_ok :: "spu_state \<Rightarrow> bool" where
  "spu_ok p \<longleftrightarrow> (\<forall>i. voice_ok (voices p i)) \<and> reverb_ok p \<and> volumes_ok p \<and> addresses_ok p \<and>
     fifo_ok 32 (transfer_fifo p)"

lemmas spu_ok_defs = spu_ok_def reverb_ok_def volumes_ok_def addresses_ok_def

text \<open>What producing frames leaves alone.\<close>

definition kept where
  "kept p = (transfer_fifo p, transfer_address p, SPUCNT p, transfer_ticks_carry p, transfer_event_active p,
     cpu_tick_divider p, spu_ticks_carry p, cpu_ticks_per_spu_tick p)"

definition quiet :: "(spu_state \<Rightarrow> spu_state) \<Rightarrow> bool" where
  "quiet f \<longleftrightarrow> (\<forall>p. spu_ok p \<longrightarrow> spu_ok (f p) \<and> kept (f p) = kept p \<and> bit (SPUSTAT (f p)) 6 = bit (SPUSTAT p) 6)"

lemma quietD: "\<lbrakk>quiet f; spu_ok p\<rbrakk> \<Longrightarrow> spu_ok (f p)"
  by (simp add: quiet_def)

lemma quiet_comp: "\<lbrakk>quiet f; quiet g\<rbrakk> \<Longrightarrow> quiet (\<lambda>p. g (f p))"
  by (simp add: quiet_def)

lemma quiet_if: "\<lbrakk>quiet f; quiet g\<rbrakk> \<Longrightarrow> quiet (\<lambda>p. if c p then f p else g p)"
  by (simp add: quiet_def)

lemma quiet_dep: "(\<And>x. quiet (f x)) \<Longrightarrow> quiet (\<lambda>p. f (g p) p)"
  by (simp add: quiet_def)

lemma quiet_id: "quiet (\<lambda>p. p)"
  by (simp add: quiet_def)

lemma quiet_fold: "(\<And>x. quiet (f x)) \<Longrightarrow> quiet (fold f xs)"
  by (induction xs) (simp_all add: quiet_def)

lemma quiet_voice: "(\<And>v. voice_ok v \<Longrightarrow> voice_ok (g v)) \<Longrightarrow> quiet (upd_voice i g)"
  by (simp add: quiet_def upd_voice_def spu_ok_defs kept_def)

section \<open>A voice in its unit\<close>

lemma low_bits_less: "(\<And>n. k \<le> n \<Longrightarrow> \<not> bit w n) \<Longrightarrow> unat w < 2 ^ k" for w :: u32
proof -
  assume "\<And>n. k \<le> n \<Longrightarrow> \<not> bit w n"
  then have "take_bit k w = w" by (intro bit_word_eqI) (auto simp: bit_take_bit_iff, meson not_le)
  then have "take_bit k (unat w) = unat w" by (metis unsigned_take_bit_eq)
  then show ?thesis by (metis take_bit_nat_less_exp)
qed

lemma high_bit_clear: "unat w < 2 ^ k \<Longrightarrow> k \<le> n \<Longrightarrow> \<not> bit w n" for w :: "'a::len word"
proof -
  assume w: "unat w < 2 ^ k" "k \<le> n"
  then have "unat w < 2 ^ n" by (meson less_le_trans one_le_numeral power_increasing)
  then have "\<not> bit (unat w) n" by (simp add: bit_iff_odd)
  then show ?thesis by (simp add: bit_unsigned_iff)
qed

lemma counter_wraps:
  assumes "unat c < 2 ^ 17" "28 \<le> voice_sample_index c"
  shows "unat (bits_set c 12 5 (bits_get c 12 5 - 28)) < 2 ^ 14"
proof (rule low_bits_less)
  fix n :: nat assume n: "14 \<le> n"
  let ?i = "bits_get c 12 5"
  have i: "28 \<le> unat ?i" "unat ?i < 32"
    using assms(2) bits_get_bound [of 5 c 12] by (simp_all add: voice_sample_index_def)
  then have "unat (?i - 28) = unat ?i - 28" by (simp add: unat_sub word_le_nat_alt)
  then have s: "unat (?i - 28) < 2 ^ 2" using i by simp
  show "\<not> bit (bits_set c 12 5 (?i - 28)) n"
    using high_bit_clear [OF assms(1), of n] high_bit_clear [OF s, of "n - 12"] n by auto
qed

lemma pitch_small: "unat (voice_pitch p i) \<le> 0x3FFF"
  by (simp add: voice_pitch_def Let_def word_le_nat_alt [symmetric] not_less word_less_nat_alt)

lemma end_block_ok:
  assumes "voice_ok (v\<lparr>voice_counter := c\<rparr>)" "unat (bits_set c' 12 5 (bits_get c' 12 5 - 28)) < 28 * 0x1000"
    "voice_counter v = c'"
  shows "voice_ok (voice_end_block noise v)"
  using assms
  by (auto simp: voice_end_block_def Let_def voice_force_off_def set_adsr_volume_def voice_ok_def samples_linked_def)

lemma quiet_advance: "unat step \<le> 0x3FFF \<Longrightarrow> quiet (advance_voice i step)"
proof -
  assume step: "unat step \<le> 0x3FFF"
  have "spu_ok (advance_voice i step p) \<and> kept (advance_voice i step p) = kept p \<and>
      SPUSTAT (advance_voice i step p) = SPUSTAT p" if p: "spu_ok p" for p
  proof -
    let ?c = "voice_counter (voices p i) + ucast step"
    have v: "voice_ok (voices p i)" using p by (simp add: spu_ok_def)
    then have c: "unat (voice_counter (voices p i)) < 28 * 0x1000" by (simp add: voice_ok_def)
    have u: "unat (ucast step :: u32) = unat step"
    proof -
      have "unat step < 2 ^ 32" using step by simp
      then show ?thesis by (simp add: unsigned_ucast_eq take_bit_nat_eq_self)
    qed
    have n: "unat ?c = unat (voice_counter (voices p i)) + unat step"
      using c step u by (simp add: unat_word_ariths(1))
    then have n17: "unat ?c < 2 ^ 17" using c step by simp
    show ?thesis
    proof (cases "28 \<le> voice_sample_index ?c")
      case True
      have "unat (bits_set ?c 12 5 (bits_get ?c 12 5 - 28)) < 2 ^ 14" by (rule counter_wraps [OF n17 True])
      then have w: "unat (bits_set ?c 12 5 (bits_get ?c 12 5 - 28)) < 28 * 0x1000" by simp
      have "voice_ok (voice_end_block noise ((voices p i)\<lparr>voice_counter := ?c\<rparr>))" for noise
        by (rule end_block_ok [where c = "voice_counter (voices p i)", OF _ w]) (use v in simp_all)
      then show ?thesis using p True
        by (simp add: advance_voice_def upd_voice_def Let_def spu_sizes spu_ok_defs kept_def)
    next
      case False
      have "unat ?c div 0x1000 < 32" using n17 by (simp add: less_mult_imp_div_less)
      then have "unat ?c div 0x1000 < 28" using False by (simp add: sample_index_div)
      then have "unat ?c < 28 * 0x1000" by (simp add: div_less_iff_less_mult)
      then have "voice_ok ((voices p i)\<lparr>voice_counter := ?c\<rparr>)" using v by (simp add: voice_ok_def samples_linked_def)
      then show ?thesis using p False
        by (simp add: advance_voice_def upd_voice_def Let_def spu_sizes spu_ok_defs kept_def)
    qed
  qed
  then show ?thesis by (simp add: quiet_def)
qed

section \<open>RAM and addresses\<close>

text \<open>Functions that only touch RAM, registers outside the invariant or bits of the status.\<close>

lemma quiet_ram [simp]: "quiet (\<lambda>p. p\<lparr>spu_ram := r p\<rparr>)"
  by (simp add: quiet_def spu_ok_defs kept_def)

lemma bit_put_stat [simp]: "bit (SPUSTAT (put_stat i b p)) j \<longleftrightarrow> j < 16 \<and> (if j = i then b else bit (SPUSTAT p) j)"
  by (simp add: put_stat_def)

lemma put_stat_ok [simp]: "spu_ok (put_stat i b p) = spu_ok p" "kept (put_stat i b p) = kept p"
  by (simp_all add: put_stat_def spu_ok_defs kept_def)

lemma advance_address: "transfer_address p < SPU_RAM_SIZE \<Longrightarrow> even (unat (transfer_address p)) \<Longrightarrow>
    (transfer_address p + 2) AND SPU_RAM_MASK < SPU_RAM_SIZE \<and> even (unat ((transfer_address p + 2) AND SPU_RAM_MASK))"
proof -
  assume a: "transfer_address p < SPU_RAM_SIZE" "even (unat (transfer_address p))"
  have m: "(SPU_RAM_MASK :: u32) = mask 19" by (simp add: spu_consts mask_eq_exp_minus_1)
  have "unat (transfer_address p) < 0x80000" using a(1) by (simp add: spu_consts word_less_nat_alt)
  then have "unat (transfer_address p + 2) = unat (transfer_address p) + 2" by (simp add: unat_word_ariths(1))
  then have "unat ((transfer_address p + 2) AND SPU_RAM_MASK) = (unat (transfer_address p) + 2) mod 2 ^ 19"
    unfolding m unat_and_mask by simp
  then show ?thesis using a(2) by (simp add: spu_consts word_less_nat_alt dvd_mod)
qed

lemma advance_transfer_ok [simp]: "spu_ok p \<Longrightarrow> spu_ok (advance_transfer_address p)"
  using advance_address [of p] by (simp add: advance_transfer_address_def spu_ok_defs)

lemma store_transfer_ok [simp]: "spu_ok p \<Longrightarrow> spu_ok (store_transfer v p)"
proof -
  assume "spu_ok p"
  then have "spu_ok (p\<lparr>spu_ram := r\<rparr>)" for r by (simp add: spu_ok_defs)
  then show ?thesis by (simp add: store_transfer_def)
qed

lemma quiet_capture_position: "quiet increment_capture_buffer_position"
proof -
  have "spu_ok (p\<lparr>capture_buffer_position := (capture_buffer_position p + 2) mod 0x400\<rparr>)" if "spu_ok p" for p
  proof -
    have c: "unat (capture_buffer_position p) < 0x400" "even (unat (capture_buffer_position p))"
      using that by (simp_all add: spu_ok_def addresses_ok_def)
    then have "unat (capture_buffer_position p + 2) = unat (capture_buffer_position p) + 2"
      by (simp add: unat_word_ariths(1))
    then have "unat ((capture_buffer_position p + 2) mod 0x400) = (unat (capture_buffer_position p) + 2) mod 0x400"
      by (simp add: unat_mod)
    then show ?thesis using that c(2) by (simp add: spu_ok_defs dvd_mod)
  qed
  then have "quiet (\<lambda>p. p\<lparr>capture_buffer_position := (capture_buffer_position p + 2) mod 0x400\<rparr>)"
    by (simp add: quiet_def kept_def)
  then show ?thesis
    by (simp add: quiet_def increment_capture_buffer_position_def Let_def CAPTURE_BUFFER_SIZE_PER_CHANNEL_def)
qed

lemma noise_clock_divides: "noise_divisor (spucnt_noise_clock r) \<noteq> 0"
proof -
  let ?c = "spucnt_noise_clock r" and ?k = "unat (drop_bit 2 (spucnt_noise_clock r))"
  have "unat ?c = unat (bits_get r 8 6)"
  proof -
    have "unat (bits_get r 8 6) < 2 ^ LENGTH(16)" by (rule unsigned_less)
    then show ?thesis by (simp add: spucnt_noise_clock_def unsigned_ucast_eq take_bit_nat_eq_self)
  qed
  then have "unat ?c < 2 ^ 6" using bits_get_bound [of 6 r 8] by simp
  then have k: "?k \<le> 15" by (simp add: unat_drop_bit_eq drop_bit_nat_def)
  have "bit (push_bit 16 (drop_bit n (0x8000 :: u32))) (31 - n)" if "n \<le> 15" for n
  proof -
    have "31 - n < 32" "16 \<le> 31 - n" "31 - n - 16 + n = 15" using that by auto
    then show ?thesis by (simp add: bit_simps add.commute)
  qed
  from this [OF k] have "bit (noise_divisor ?c) (31 - ?k)" by (simp only: noise_divisor_def)
  then show ?thesis by auto
qed

lemma quiet_noise: "quiet update_noise"
  by (simp add: quiet_def update_noise_def spu_ok_defs kept_def Let_def split: prod.split)

lemma quiet_main_sweeps: "quiet main_sweeps_tick"
  by (simp add: quiet_def main_sweeps_tick_def spu_ok_defs kept_def)

lemma quiet_fields [simp]:
  "quiet (\<lambda>p. p\<lparr>endx_register := x p\<rparr>)" "quiet (\<lambda>p. p\<lparr>key_off_register := x p, key_on_register := y p\<rparr>)"
  by (simp_all add: quiet_def spu_ok_defs kept_def)

lemma quiet_key_voice: "quiet (key_voice on off i)"
proof -
  let ?on = "\<lambda>p. upd_voice i voice_key_on (p\<lparr>endx_register := unset_bit i (endx_register p)\<rparr>)"
  have "quiet (upd_voice i voice_key_on)" "quiet (upd_voice i voice_key_off)" by (simp_all add: quiet_voice key_ok)
  then have "quiet (\<lambda>p. if bit off i then upd_voice i voice_key_off p else p)" "quiet (\<lambda>p. if bit on i then ?on p else p)"
    by (intro quiet_if quiet_id quiet_comp [OF quiet_fields(1)]; simp)+
  from quiet_comp [OF this] show ?thesis unfolding key_voice_def Let_def .
qed

lemma quiet_keys: "quiet key_voices"
proof -
  have "quiet (\<lambda>p. fold (key_voice (key_on_register p) (key_off_register p)) [0..<NUM_VOICES]
      (p\<lparr>key_off_register := 0, key_on_register := 0\<rparr>))"
  proof -
    have "quiet (\<lambda>p. fold (key_voice on off) [0..<NUM_VOICES] (p\<lparr>key_off_register := 0, key_on_register := 0\<rparr>))" for on off
      by (rule quiet_comp [OF quiet_fields(2) quiet_fold [OF quiet_key_voice]])
    then show ?thesis by (simp add: quiet_def)
  qed
  from quiet_if [OF quiet_id this] show ?thesis unfolding key_voices_def .
qed

section \<open>Reverb\<close>

lemma reverb_address_ok:
  "unat (reverb_memory_address p a) < 0x80000" "even (unat (reverb_memory_address p a))"
proof -
  obtain w where w: "reverb_memory_address p a = (w AND REVERB_MASK) * 2"
    by (simp add: reverb_memory_address_def Let_def)
  have m: "REVERB_MASK = mask 18" by (simp add: REVERB_MASK_def spu_consts mask_eq_exp_minus_1)
  have "unat (w AND REVERB_MASK) = unat w mod 2 ^ 18" unfolding m by (rule unat_and_mask)
  then have n: "unat (w AND REVERB_MASK) < 0x40000" by simp
  then have "unat ((w AND REVERB_MASK) * 2) = unat (w AND REVERB_MASK) * 2" by (simp add: unat_word_ariths(2))
  then show "unat (reverb_memory_address p a) < 0x80000" "even (unat (reverb_memory_address p a))"
    using n by (simp_all add: w)
qed

lemma put_sample_s16: "(\<And>c i. s16 (b c i)) \<Longrightarrow> s16 v \<Longrightarrow> s16 (put_sample ch is v b c i)"
proof -
  assume b: "\<And>c i. s16 (b c i)" and v: "s16 v"
  have "s16 (fold (\<lambda>i b. b(i := v)) is f i)" if "\<And>i. s16 (f i)" for f
    using that v by (induction "is" arbitrary: f) auto
  then show ?thesis using b by (simp add: put_sample_def)
qed

lemma quiet_reverb_write: "quiet (reverb_write a v)"
  by (simp add: quiet_def reverb_write_def spu_ok_defs kept_def)

lemma quiet_reverb_inputs: "quiet (reverb_inputs c d)"
  using quiet_reverb_write by (simp add: quiet_def reverb_inputs_def Let_def)

lemma reverb_mix_s16: "reverb_mix c p = (a, b, out) \<Longrightarrow> s16 out"
  by (auto simp: reverb_mix_def Let_def)

lemma quiet_put_upsample:
  "s16 v \<Longrightarrow> quiet (\<lambda>p. p\<lparr>reverb_upsample_buffer := put_sample c is v (reverb_upsample_buffer p)\<rparr>)"
  by (simp add: quiet_def spu_ok_defs kept_def put_sample_s16)

lemma quiet_reverb_channel: "quiet (reverb_channel pos c d)"
proof -
  have "spu_ok (reverb_channel pos c d p) \<and> kept (reverb_channel pos c d p) = kept p \<and>
      bit (SPUSTAT (reverb_channel pos c d p)) 6 = bit (SPUSTAT p) 6" if p: "spu_ok p" for p
  proof -
    let ?q = "reverb_inputs c d p"
    obtain a b out where m: "reverb_mix c ?q = (a, b, out)" by (metis prod_cases3)
    have q: "spu_ok ?q \<and> kept ?q = kept p \<and> bit (SPUSTAT ?q) 6 = bit (SPUSTAT p) 6"
      using quiet_reverb_inputs p by (simp add: quiet_def)
    then show ?thesis
      using quiet_put_upsample [OF reverb_mix_s16 [OF m]] quiet_reverb_write
      by (simp add: reverb_channel_def m Let_def quiet_def)
  qed
  then show ?thesis by (simp add: quiet_def)
qed

lemma quiet_reverb_address: "quiet advance_reverb_address"
  by (simp add: quiet_def advance_reverb_address_def spu_ok_defs kept_def Let_def)

lemma process_reverb_pos: "0 \<le> pos \<Longrightarrow> pos < 64 \<Longrightarrow> 0 \<le> (pos + 1) AND 0x3F \<and> (pos + 1) AND 0x3F < 64" for pos :: int
proof -
  have "(pos + 1) AND 0x3F = (pos + 1) mod 64" using take_bit_eq_mask [of 6 "pos + 1"]
    by (simp add: take_bit_eq_mod mask_eq_exp_minus_1)
  then show ?thesis by simp
qed

lemma reverb_upsample_s16: "s16 (reverb_upsample b pos)"
  by (simp add: reverb_upsample_def Let_def clamp_s32_def s16_def)

lemma quiet_reverb_input:
  "\<lbrakk>s16 l; s16 r\<rbrakk> \<Longrightarrow> quiet (\<lambda>p. p\<lparr>last_reverb_input := (l, r), reverb_downsample_buffer :=
     put_sample 1 (is p) r (put_sample 0 (is p) l (reverb_downsample_buffer p))\<rparr>)"
  by (simp add: quiet_def spu_ok_defs kept_def put_sample_s16)

lemma s16_if: "s16 a \<Longrightarrow> s16 b \<Longrightarrow> s16 (if c then a else b)"
  by simp

lemma reverb_ok_parts:
  assumes "spu_ok p"
  shows "s16 (reverb_upsample_buffer p c i)" "s16 (reverb_downsample_buffer p c i)" "s16 (vLOUT (reverb_regs p))"
    "s16 (vROUT (reverb_regs p))"
  using assms by (simp_all add: spu_ok_def reverb_ok_def)

lemma process_reverb_ok:
  assumes p: "spu_ok p" and r: "process_reverb l r p = ((oll, orr), q)"
  shows "spu_ok q" "kept q = kept p" "bit (SPUSTAT q) 6 = bit (SPUSTAT p) 6" "\<bar>oll\<bar> \<le> 0x8000" "\<bar>orr\<bar> \<le> 0x8000"
proof -
  let ?pos = "reverb_resample_buffer_position p"
  let ?here = "[nat ?pos, nat (?pos OR 0x40)]"
  let ?a = "p\<lparr>last_reverb_input := (to_s16 l, to_s16 r), reverb_downsample_buffer :=
     put_sample 1 ?here (to_s16 r) (put_sample 0 ?here (to_s16 l) (reverb_downsample_buffer p))\<rparr>"
  have a: "spu_ok ?a \<and> kept ?a = kept p \<and> bit (SPUSTAT ?a) 6 = bit (SPUSTAT p) 6"
    using p quiet_reverb_input [of "to_s16 l" "to_s16 r" "\<lambda>p. [nat (reverb_resample_buffer_position p), nat (reverb_resample_buffer_position p OR 0x40)]"]
    by (simp add: quiet_def)
  let ?down = "\<lambda>c. reverb_downsample (reverb_downsample_buffer ?a c) ?pos"
  let ?b = "advance_reverb_address (reverb_channel ?pos 1 (?down 1) (reverb_channel ?pos 0 (?down 0) ?a))"
  let ?m = "if odd ?pos then ?b else ?a"
  have m: "spu_ok ?m \<and> kept ?m = kept p \<and> bit (SPUSTAT ?m) 6 = bit (SPUSTAT p) 6"
    using a quiet_comp [OF quiet_comp [OF quiet_reverb_channel quiet_reverb_channel] quiet_reverb_address]
    by (simp add: quiet_def)
  let ?up = "\<lambda>c. reverb_upsample (reverb_upsample_buffer ?m c) ?pos"
  let ?held = "\<lambda>c. reverb_upsample_buffer ?m c (nat ((drop_bit 1 ?pos - 19) AND 0x1F) + 9)"
  let ?out = "\<lambda>c. if odd ?pos then ?up c else ?held c"
  have mo: "spu_ok ?m" using m by (rule conjunct1)
  have out: "s16 (?out c)" for c
    by (rule s16_if [OF reverb_upsample_s16 reverb_ok_parts(1) [OF mo]])
  have e: "process_reverb l r p = ((apply_volume (?out 0) (vLOUT (reverb_regs ?m)), apply_volume (?out 1) (vROUT (reverb_regs ?m))),
      ?m\<lparr>reverb_resample_buffer_position := (?pos + 1) AND 0x3F, last_reverb_output :=
        (apply_volume (?out 0) (vLOUT (reverb_regs ?m)), apply_volume (?out 1) (vROUT (reverb_regs ?m)))\<rparr>)"
    by (simp add: process_reverb_def Let_def)
  have o: "oll = apply_volume (?out 0) (vLOUT (reverb_regs ?m))" "orr = apply_volume (?out 1) (vROUT (reverb_regs ?m))"
    and q: "q = ?m\<lparr>reverb_resample_buffer_position := (?pos + 1) AND 0x3F, last_reverb_output := (oll, orr)\<rparr>"
    using r unfolding e by blast+
  note v = reverb_ok_parts(3,4) [OF mo]
  show "\<bar>oll\<bar> \<le> 0x8000" "\<bar>orr\<bar> \<le> 0x8000" unfolding o by (intro apply_volume_bound s16_abs out v)+
  have "0 \<le> (?pos + 1) AND 0x3F \<and> (?pos + 1) AND 0x3F < 64"
    using p by (intro process_reverb_pos) (simp_all add: spu_ok_def reverb_ok_def)
  then have u: "spu_ok (x\<lparr>reverb_resample_buffer_position := (?pos + 1) AND 0x3F, last_reverb_output := y\<rparr>)" if "spu_ok x" for x y
    using that by (simp add: spu_ok_defs)
  show "spu_ok q" unfolding q by (rule u [OF mo])
  have "kept (x\<lparr>reverb_resample_buffer_position := z, last_reverb_output := y\<rparr>) = kept x" for x y z by (simp add: kept_def)
  then show "kept q = kept p" unfolding q using m by metis
  have "SPUSTAT (x\<lparr>reverb_resample_buffer_position := z, last_reverb_output := y\<rparr>) = SPUSTAT x" for x y z by simp
  then show "bit (SPUSTAT q) 6 = bit (SPUSTAT p) 6" unfolding q using m by metis
qed

end
