(* ===== verification/Spu_Frames.thy ===== *)
theory Spu_Frames
  imports Spu_Props
begin

text \<open>
  Frames on the machine: producing them keeps the unit's invariant, the queue of events, the
  transfer in progress, and the interrupt line under the flag of the status register.
\<close>

section \<open>The partners\<close>

text \<open>
  The CD-ROM's audio and the host's stream leave the unit, the DMA controller, the queue and the
  unit's interrupt line alone.  A request to the DMA controller may be noted, or start a transfer that
  pushes to or pops from the FIFO; then a measure of what the controller has still to do gets
  smaller.
\<close>

definition spu_host_kept :: "'a spu_sys_scheme \<Rightarrow> 'a spu_sys_scheme \<Rightarrow> bool" where
  "spu_host_kept s t \<longleftrightarrow> has_queue t \<and> spu t = spu s \<and> dma t = dma s \<and>
     irq_line_high t SPU_IRQ_INDEX = irq_line_high s SPU_IRQ_INDEX \<and>
     current_event (timing t) = current_event (timing s)"

definition fifo_served :: "spu_state \<Rightarrow> spu_state \<Rightarrow> bool" where
  "fifo_served p q \<longleftrightarrow> (\<exists>f a w. fifo_ok 32 f \<and> bit w 6 = bit (SPUSTAT p) 6 \<and>
     q = p\<lparr>transfer_fifo := f, transfer_event_active := a, SPUSTAT := w\<rparr>)"

definition request_served :: "(dma_state \<Rightarrow> nat) \<Rightarrow> 'a spu_sys_scheme \<Rightarrow> 'a spu_sys_scheme \<Rightarrow> bool" where
  "request_served \<mu> s t \<longleftrightarrow> has_queue t \<and>
     irq_line_high t SPU_IRQ_INDEX = irq_line_high s SPU_IRQ_INDEX \<and>
     current_event (timing t) = current_event (timing s) \<and>
     (spu t = spu s \<and> \<mu> (dma t) \<le> \<mu> (dma s) \<or> fifo_served (spu s) (spu t) \<and> \<mu> (dma t) < \<mu> (dma s))"

definition spu_hooks_ok :: "(dma_state \<Rightarrow> nat) \<Rightarrow> ('a spu_sys_scheme) spu_hooks \<Rightarrow> bool" where
  "spu_hooks_ok \<mu> h \<longleftrightarrow>
     (\<forall>s. has_queue s \<longrightarrow>
        (\<forall>ch b. \<exists>t. spu_dma_set_request h ch b s = Some t \<and> request_served \<mu> s t) \<and>
        (\<forall>l r t. cdrom_get_audio_frame h s = ((l, r), t) \<longrightarrow> s16 l \<and> s16 r \<and> spu_host_kept s t) \<and>
        (\<forall>l r. spu_host_kept s (core_audio_stream_write h l r s)))"

section \<open>The invariant of the machine\<close>

definition spu_sound :: "'a spu_sys_scheme \<Rightarrow> bool" where
  "spu_sound s \<longleftrightarrow> spu_ok (spu s) \<and> has_queue s \<and>
     (bit (SPUSTAT (spu s)) 6 \<longrightarrow> irq_line_high s SPU_IRQ_INDEX)"

definition frames :: "'a spu_sys_scheme \<Rightarrow> 'a spu_sys_scheme \<Rightarrow> bool" where
  "frames s t \<longleftrightarrow> spu_sound t \<and> dma t = dma s \<and> current_event (timing t) = current_event (timing s) \<and>
     kept (spu t) = kept (spu s)"

lemma frames_refl: "spu_sound s \<Longrightarrow> frames s s"
  by (simp add: frames_def)

lemma frames_trans: "frames r s \<Longrightarrow> frames s t \<Longrightarrow> frames r t"
  by (simp add: frames_def)

lemma frames_sound: "frames s t \<Longrightarrow> spu_sound t"
  by (simp add: frames_def)

lemma spu_sound_ok: "spu_sound s \<Longrightarrow> spu_ok (spu s)"
  by (simp add: spu_sound_def)

lemma upd_spu_simps [simp]:
  "spu (upd_spu f s) = f (spu s)" "timing_events (upd_spu f s) = timing_events s"
  "timing (upd_spu f s) = timing s" "intc (upd_spu f s) = intc s" "dma (upd_spu f s) = dma s" "cpu (upd_spu f s) = cpu s"
  by (simp_all add: upd_spu_def)

lemma has_queue_upd_spu [simp]: "has_queue (upd_spu f s) = has_queue s"
proof -
  have "sched_queue (upd_spu f s) xs = sched_queue s xs" for xs by (rule sched_queue_fields) simp_all
  then show ?thesis by (simp add: has_queue_def)
qed

lemma irq_line_upd_spu [simp]: "irq_line_high (upd_spu f s) n = irq_line_high s n"
  by (simp add: irq_line_high_def)

lemma spu_irq_range: "SPU_IRQ_INDEX < 32"
  by (simp add: SPU_IRQ_INDEX_def)

text \<open>Setting the line changes the interrupt controller and the CPU's request, nothing else.\<close>

lemma set_line_other [simp]:
  "sys_core.more (interrupt_controller_set_line_state irq b s) = sys_core.more s"
  by (simp add: interrupt_controller_set_line_state_def interrupt_controller_update_cpu_request_def Let_def)

lemma set_line_fields [simp]:
  fixes s :: "'a spu_sys_scheme"
  shows "spu (interrupt_controller_set_line_state irq b s) = spu s"
    "dma (interrupt_controller_set_line_state irq b s) = dma s"
    "timing (interrupt_controller_set_line_state irq b s) = timing s"
    "timing_events (interrupt_controller_set_line_state irq b s) = timing_events s"
  by (simp_all add: interrupt_controller_set_line_state_def interrupt_controller_update_cpu_request_def Let_def)

lemma set_line_queue [simp]:
  fixes s :: "'a spu_sys_scheme"
  shows "has_queue (interrupt_controller_set_line_state irq b s) = has_queue s"
proof -
  have "sched_queue (interrupt_controller_set_line_state irq b s) xs = sched_queue s xs" for xs
    by (rule sched_queue_fields) simp_all
  then show ?thesis by (simp add: has_queue_def)
qed

lemma quiet_frames: "\<lbrakk>spu_sound s; quiet f\<rbrakk> \<Longrightarrow> frames s (upd_spu f s)"
  by (simp add: frames_def spu_sound_def quiet_def)

lemma quiet_frames_at:
  "\<lbrakk>spu_sound s; spu_ok q; kept q = kept (spu s); bit (SPUSTAT q) 6 = bit (SPUSTAT (spu s)) 6\<rbrakk> \<Longrightarrow>
     frames s (upd_spu (\<lambda>_. q) s)"
  by (simp add: frames_def spu_sound_def)

lemma host_frames: "\<lbrakk>spu_sound s; spu_host_kept s t\<rbrakk> \<Longrightarrow> frames s t"
  by (simp add: frames_def spu_sound_def spu_host_kept_def)

lemma trigger_frames: "spu_sound s \<Longrightarrow> frames s (trigger_ram_irq s)"
  by (simp add: frames_def spu_sound_def trigger_ram_irq_def set_line_state_line spu_irq_range)

lemma irq_at_frames: "spu_sound s \<Longrightarrow> frames s (ram_irq_at a s)"
  by (simp add: ram_irq_at_def trigger_frames frames_refl)

lemma late_irq_frames: "spu_sound s \<Longrightarrow> frames s (check_for_late_ram_irqs s)"
  by (simp add: check_for_late_ram_irqs_def trigger_frames frames_refl)

section \<open>Voices\<close>

lemma block_decoded_ok: "voice_ok v \<Longrightarrow> voice_ok (block_decoded b v)"
proof -
  assume "voice_ok v"
  then have "voice_ok ((voice_decode_block b v)\<lparr>has_samples := True\<rparr>)"
    using decode_ok [of v b] by (simp add: voice_ok_def samples_linked_def)
  then show ?thesis by (simp add: block_decoded_def Let_def voice_ok_def samples_linked_def)
qed

lemma read_block_frames: "spu_sound s \<Longrightarrow> frames s (snd (read_adpcm_block a s))"
  by (simp add: read_adpcm_block_def Let_def trigger_frames frames_refl)

lemma fetch_frames: "spu_sound s \<Longrightarrow> frames s (voice_fetch_block i s)"
proof -
  assume s: "spu_sound s"
  obtain b t where t: "read_adpcm_block (voice_address (voices (spu s) i)) s = (b, t)" by fastforce
  have f: "frames s t" using read_block_frames [OF s, of "voice_address (voices (spu s) i)"] t by simp
  have "frames t (upd_spu (upd_voice i (block_decoded b)) t)"
    by (rule quiet_frames [OF frames_sound [OF f] quiet_voice [OF block_decoded_ok]])
  then show ?thesis using frames_trans [OF f] frames_refl [OF s] by (simp add: voice_fetch_block_def t)
qed

lemma voice_volume_bound: "spu_ok p \<Longrightarrow> \<bar>voice_volume p i\<bar> \<le> 0x8000"
proof -
  assume "spu_ok p"
  then have v: "voice_ok (voices p i)" by (simp add: spu_ok_def)
  have "\<bar>get_voice_noise_level p\<bar> \<le> 0x8000" by (intro s16_abs) (simp add: get_voice_noise_level_def)
  then have "\<bar>if is_voice_noise_enabled p i then get_voice_noise_level p else voice_interpolate (voices p i)\<bar> \<le> 0x8000"
    using voice_interpolate_bound [OF v] by simp
  moreover have "\<bar>adsr_volume (voice_regs (voices p i))\<bar> \<le> 0x8000" using v by (simp add: voice_ok_def s16_abs)
  ultimately show ?thesis
    unfolding voice_volume_def Let_def using apply_volume_bound by simp
qed

lemma quiet_step:
  "\<lbrakk>quiet f; spu_ok q \<and> kept q = kept p \<and> bit (SPUSTAT q) 6 = bit (SPUSTAT p) 6\<rbrakk> \<Longrightarrow>
     spu_ok (f q) \<and> kept (f q) = kept p \<and> bit (SPUSTAT (f q)) 6 = bit (SPUSTAT p) 6"
  by (simp add: quiet_def)

lemma play_voice_ok:
  assumes p: "spu_ok p" and r: "play_voice i p = ((l, r), q)"
  shows "spu_ok q" "kept q = kept p" "bit (SPUSTAT q) 6 = bit (SPUSTAT p) 6" "\<bar>l\<bar> \<le> 0x8000" "\<bar>r\<bar> \<le> 0x8000"
proof -
  let ?v = "voice_volume p i"
  let ?g = "\<lambda>v. let v = v\<lparr>last_volume := ?v\<rparr> in if voice_is_on v then voice_tick_adsr v else v"
  have g: "voice_ok (?g v)" if "voice_ok v" for v
  proof -
    have "voice_ok (v\<lparr>last_volume := ?v\<rparr>)" using that voice_volume_bound [OF p, of i] by (simp add: voice_ok_def samples_linked_def)
    then show ?thesis by (simp add: Let_def tick_adsr_ok)
  qed
  let ?a = "upd_voice i ?g p"
  have a: "spu_ok ?a \<and> kept ?a = kept p \<and> bit (SPUSTAT ?a) 6 = bit (SPUSTAT p) 6"
    by (rule quiet_step [OF quiet_voice [of ?g i, OF g]]) (use p in simp_all)
  let ?b = "advance_voice i (voice_pitch ?a i) ?a"
  have b: "spu_ok ?b \<and> kept ?b = kept p \<and> bit (SPUSTAT ?b) 6 = bit (SPUSTAT p) 6"
    by (rule quiet_step [OF quiet_advance [OF pitch_small] a])
  let ?c = "upd_voice i voice_sweeps_tick ?b"
  have "voice_ok v \<Longrightarrow> voice_ok (voice_sweeps_tick v)" for v
    by (simp add: voice_sweeps_tick_def voice_ok_def samples_linked_def)
  then have c: "spu_ok ?c \<and> kept ?c = kept p \<and> bit (SPUSTAT ?c) 6 = bit (SPUSTAT p) 6"
    by (intro quiet_step [OF quiet_voice b])
  have e: "q = ?c" "l = apply_volume ?v (current_level (left_volume (voices ?b i)))"
    "r = apply_volume ?v (current_level (right_volume (voices ?b i)))"
    using r unfolding play_voice_def Let_def by blast+
  have w: "voice_ok (voices ?b i)" using b unfolding spu_ok_def by blast
  then have lv: "\<bar>current_level (left_volume (voices ?b i))\<bar> \<le> 0x8000" "\<bar>current_level (right_volume (voices ?b i))\<bar> \<le> 0x8000"
    unfolding voice_ok_def sweep_ok_def by (blast intro: s16_abs)+
  show "\<bar>l\<bar> \<le> 0x8000" "\<bar>r\<bar> \<le> 0x8000"
    unfolding e by (rule apply_volume_bound [OF voice_volume_bound [OF p]], rule lv)+
  show "spu_ok q" "kept q = kept p" "bit (SPUSTAT q) 6 = bit (SPUSTAT p) 6" unfolding e(1) using c by blast+
qed

lemma sample_voice_frames:
  assumes s: "spu_sound s" and r: "sample_voice i s = ((l, r), t)"
  shows "frames s t" "\<bar>l\<bar> \<le> 0x8000" "\<bar>r\<bar> \<le> 0x8000"
proof -
  have "frames s t \<and> \<bar>l\<bar> \<le> 0x8000 \<and> \<bar>r\<bar> \<le> 0x8000"
  proof (cases "\<not> voice_is_on (voices (spu s) i) \<and> \<not> spucnt_irq9_enable (SPUCNT (spu s))")
    case True
    have "voice_ok v \<Longrightarrow> voice_ok (v\<lparr>last_volume := 0\<rparr>)" for v by (simp add: voice_ok_def samples_linked_def)
    then have "frames s (upd_spu (upd_voice i (\<lambda>v. v\<lparr>last_volume := 0\<rparr>)) s)" by (intro quiet_frames [OF s] quiet_voice)
    then show ?thesis using r True by (simp add: sample_voice_def)
  next
    case False
    let ?f = "voice_fetch_block i s"
    obtain x y q where q: "play_voice i (spu ?f) = ((x, y), q)" by (metis prod.exhaust)
    have f: "frames s ?f" by (rule fetch_frames [OF s])
    note o = play_voice_ok [OF spu_sound_ok [OF frames_sound [OF f]] q]
    have "frames ?f (upd_spu (\<lambda>_. q) ?f)" by (rule quiet_frames_at [OF frames_sound [OF f] o(1-3)])
    then have "frames s (upd_spu (\<lambda>_. q) ?f)" by (rule frames_trans [OF f])
    moreover have "t = upd_spu (\<lambda>_. q) ?f" "l = x" "r = y" using r False q by (auto simp: sample_voice_def Let_def)
    ultimately show ?thesis using o(4,5) by simp
  qed
  then show "frames s t" "\<bar>l\<bar> \<le> 0x8000" "\<bar>r\<bar> \<le> 0x8000" by blast+
qed

end
