(* ===== verification/Spu_Run.thy ===== *)
theory Spu_Run
  imports Spu_Frames
begin

text \<open>
  Whole frames and runs of them: the mixer's sums stay far inside 32 bits, and every operation of
  the unit that may produce frames or move the FIFO returns.
\<close>

section \<open>The mixer\<close>

lemma mix_step:
  assumes "spu_sound s" "mix_voice i ((l, r), (rl, rr), s) = ((l', r'), (rl', rr'), t)"
    "\<bar>l\<bar> \<le> m" "\<bar>r\<bar> \<le> m" "\<bar>rl\<bar> \<le> m" "\<bar>rr\<bar> \<le> m"
  shows "frames s t \<and> \<bar>l'\<bar> \<le> m + 0x8000 \<and> \<bar>r'\<bar> \<le> m + 0x8000 \<and> \<bar>rl'\<bar> \<le> m + 0x8000 \<and> \<bar>rr'\<bar> \<le> m + 0x8000"
proof -
  obtain vl vr u where u: "sample_voice i s = ((vl, vr), u)" by (metis prod.exhaust)
  note o = sample_voice_frames [OF assms(1) u]
  have "t = u" "l' = l + vl" "r' = r + vr" "(rl', rr') = (if is_voice_reverb_enabled (spu s) i then (rl + vl, rr + vr) else (rl, rr))"
    using assms(2) by (auto simp: mix_voice_def u)
  then show ?thesis using o assms(3-6) by (auto split: if_splits)
qed

lemma mix_fold:
  assumes "spu_sound s"
  shows "fold mix_voice is ((0, 0), (0, 0), s) = ((l, r), (rl, rr), t) \<Longrightarrow> frames s t \<and>
    \<bar>l\<bar> \<le> int (List.length is) * 0x8000 \<and> \<bar>r\<bar> \<le> int (List.length is) * 0x8000 \<and>
    \<bar>rl\<bar> \<le> int (List.length is) * 0x8000 \<and> \<bar>rr\<bar> \<le> int (List.length is) * 0x8000"
proof (induction "is" arbitrary: l r rl rr t rule: rev_induct)
  case Nil
  then show ?case using frames_refl [OF assms] by simp
next
  case (snoc i "is")
  obtain a b c d u where u: "fold mix_voice is ((0, 0), (0, 0), s) = ((a, b), (c, d), u)" by (metis prod.exhaust)
  have ih: "frames s u" "\<bar>a\<bar> \<le> int (List.length is) * 0x8000" "\<bar>b\<bar> \<le> int (List.length is) * 0x8000"
    "\<bar>c\<bar> \<le> int (List.length is) * 0x8000" "\<bar>d\<bar> \<le> int (List.length is) * 0x8000"
    using snoc.IH [OF u] by blast+
  have "mix_voice i ((a, b), (c, d), u) = ((l, r), (rl, rr), t)" using snoc.prems u by simp
  note m = mix_step [OF frames_sound [OF ih(1)] this ih(2-5)]
  have "int (List.length (is @ [i])) * 0x8000 = int (List.length is) * 0x8000 + 0x8000" by (simp add: algebra_simps)
  then show ?case using m frames_trans [OF ih(1)] by simp
qed

lemma mix_voices_bound:
  assumes "spu_sound s" "mix_voices s = ((l, r), (rl, rr), t)"
  shows "frames s t" "\<bar>l\<bar> \<le> 24 * 0x8000" "\<bar>r\<bar> \<le> 24 * 0x8000" "\<bar>rl\<bar> \<le> 24 * 0x8000" "\<bar>rr\<bar> \<le> 24 * 0x8000"
  using mix_fold [OF assms(1), of "[0..<NUM_VOICES]" l r rl rr t] assms(2) by (simp_all add: mix_voices_def NUM_VOICES_def)

text \<open>The stages of a frame after the voices.\<close>

lemma capture_frames: "spu_sound s \<Longrightarrow> frames s (write_to_capture_buffer i v s)"
proof -
  assume s: "spu_sound s"
  let ?a = "i * of_nat CAPTURE_BUFFER_SIZE_PER_CHANNEL OR ucast (capture_buffer_position (spu s))"
  have f: "frames s (upd_spu (\<lambda>p. p\<lparr>spu_ram := spu_store16 ?a (word_of_int v) (spu_ram p)\<rparr>) s)"
    by (rule quiet_frames [OF s quiet_ram])
  show ?thesis unfolding write_to_capture_buffer_def Let_def
    by (rule frames_trans [OF f irq_at_frames [OF frames_sound [OF f]]])
qed

lemma captures_frames: "spu_sound s \<Longrightarrow> frames s (write_captures cd s)"
proof -
  assume s: "spu_sound s"
  have step: "\<And>t i v. frames s t \<Longrightarrow> frames s (write_to_capture_buffer i v t)"
    by (blast intro: frames_trans capture_frames frames_sound)
  have pos: "\<And>t. frames s t \<Longrightarrow> frames s (upd_spu increment_capture_buffer_position t)"
    by (blast intro: frames_trans quiet_frames frames_sound quiet_capture_position)
  show ?thesis unfolding write_captures_def Let_def by (intro pos step frames_refl [OF s])
qed

lemma push_frames:
  assumes "spu_hooks_ok \<mu> h" "spu_sound s"
  shows "frames s (push_sample_to_stream h l r s)"
proof -
  have "has_queue s" using assms(2) by (simp add: spu_sound_def)
  then have "spu_host_kept s (core_audio_stream_write h l r s)" using assms(1) unfolding spu_hooks_ok_def by blast
  then show ?thesis using host_frames [OF assms(2)] frames_refl [OF assms(2)] by (simp add: push_sample_to_stream_def)
qed

lemma generate_frames_one:
  assumes h: "spu_hooks_ok \<mu> h" and s: "spu_sound s"
  shows "frames s (generate_one_frame h first s)"
proof -
  obtain l r rl rr a where a: "mix_voices s = ((l, r), (rl, rr), a)" by (metis prod.exhaust)
  have fa: "frames s a" by (rule mix_voices_bound [OF s a])
  let ?b = "upd_spu update_noise a"
  have fb: "frames s ?b" by (rule frames_trans [OF fa quiet_frames [OF frames_sound [OF fa] quiet_noise]])
  obtain cl cr c where c: "cdrom_get_audio_frame h ?b = ((cl, cr), c)" by (metis prod.exhaust)
  have "has_queue ?b" using frames_sound [OF fb] by (simp add: spu_sound_def)
  then have "spu_host_kept ?b c" using h c unfolding spu_hooks_ok_def by blast
  then have fc: "frames s c" by (rule frames_trans [OF fb host_frames [OF frames_sound [OF fb]]])
  let ?sums = "if spucnt_mute_n (SPUCNT (spu a)) then ((l, r), (rl, rr)) else ((0, 0), (0, 0))"
  obtain m n where mn: "mix_cd (spu c) (cl, cr) ?sums = (m, n)" by (metis prod.exhaust)
  obtain ol oor q where q: "process_reverb (clamp16 (fst n)) (clamp16 (snd n)) (spu c) = ((ol, oor), q)" by (metis prod.exhaust)
  let ?d = "upd_spu (\<lambda>_. q) c"
  note po = process_reverb_ok [OF spu_sound_ok [OF frames_sound [OF fc]] q]
  have fd: "frames s ?d" by (rule frames_trans [OF fc quiet_frames_at [OF frames_sound [OF fc] po(1-3)]])
  let ?fin = "output_frame (spu ?d) (fst m + ol, snd m + oor)"
  let ?e = "if audio_output_muted (spu ?d) then ?d else push_sample_to_stream h (fst ?fin) (snd ?fin) ?d"
  have fe: "frames s ?e" using fd frames_trans [OF fd push_frames [OF h frames_sound [OF fd]]] by simp
  have ff: "frames s (upd_spu main_sweeps_tick ?e)"
    by (rule frames_trans [OF fe quiet_frames [OF frames_sound [OF fe] quiet_main_sweeps]])
  let ?g = "write_captures (cl, cr) (upd_spu main_sweeps_tick ?e)"
  have fg: "frames s ?g" by (rule frames_trans [OF ff captures_frames [OF frames_sound [OF ff]]])
  have fk: "frames s (upd_spu key_voices ?g)" by (rule frames_trans [OF fg quiet_frames [OF frames_sound [OF fg] quiet_keys]])
  have "generate_one_frame h first s = (if first then upd_spu key_voices ?g else ?g)"
  proof (cases "spucnt_mute_n (SPUCNT (spu a))")
    case True
    then have "mix_cd (spu c) (cl, cr) ((l, r), (rl, rr)) = (m, n)" using mn by simp
    then show ?thesis unfolding generate_one_frame_def by (simp add: a c q True Let_def)
  next
    case False
    then have "mix_cd (spu c) (cl, cr) ((0, 0), (0, 0)) = (m, n)" using mn by simp
    then show ?thesis unfolding generate_one_frame_def by (simp add: a c q False Let_def)
  qed
  then show ?thesis using fg fk by simp
qed

lemma generate_frames_all: "spu_hooks_ok \<mu> h \<Longrightarrow> spu_sound s \<Longrightarrow> frames s (generate_frames h first n s)"
  by (induction n arbitrary: first s) (auto intro: frames_refl frames_trans dest: generate_frames_one [THEN frames_sound] generate_frames_one)

end
