(* ===== verification/Spu_Transfer.thy ===== *)
theory Spu_Transfer
  imports Spu_Run
begin

text \<open>
  Transfers between FIFO and RAM: both directions are instances of the locale
  \<open>transfer_loop\<close>, in which a loop that asks the DMA controller between its rounds
  returns.
\<close>

section \<open>What a transfer leaves alone\<close>

definition fixed where
  "fixed p = (SPUCNT p, transfer_ticks_carry p, cpu_tick_divider p, cpu_ticks_per_spu_tick p)"

definition clock_ok :: "('a spu_sys_scheme) spu_hooks \<Rightarrow> spu_state \<Rightarrow> bool" where
  "clock_ok h p \<longleftrightarrow> (cpu_overclock_active (spu_settings h) \<longrightarrow> 0 < cpu_tick_divider p)"

lemma clock_fixed: "fixed q = fixed p \<Longrightarrow> clock_ok h q = clock_ok h p"
  by (simp add: fixed_def clock_ok_def)

lemma mode_fixed: "fixed q = fixed p \<Longrightarrow> transfer_mode q = transfer_mode p"
  by (simp add: fixed_def transfer_mode_def)

text \<open>Half-words the transfer has still to move, and the measure of a machine in a transfer.\<close>

definition transfer_left :: "spu_state \<Rightarrow> nat" where
  "transfer_left p = (if transfer_mode p = RAM_TRANSFER_DMA_READ then 32 - unat (fifo_size (transfer_fifo p))
     else unat (fifo_size (transfer_fifo p)))"

definition transfer_measure :: "(dma_state \<Rightarrow> nat) \<Rightarrow> 'a spu_sys_scheme \<Rightarrow> nat" where
  "transfer_measure \<mu> s = \<mu> (dma s) * 33 + transfer_left (spu s)"

lemma transfer_left_bound: "spu_ok p \<Longrightarrow> transfer_left p \<le> 32"
  by (simp add: transfer_left_def spu_ok_def fifo_ok_def)

definition moved :: "(dma_state \<Rightarrow> nat) \<Rightarrow> 'a spu_sys_scheme \<Rightarrow> 'a spu_sys_scheme \<Rightarrow> bool" where
  "moved \<mu> s t \<longleftrightarrow> spu_sound t \<and> current_event (timing t) = current_event (timing s) \<and>
     fixed (spu t) = fixed (spu s) \<and> \<mu> (dma t) \<le> \<mu> (dma s) \<and> transfer_measure \<mu> t \<le> transfer_measure \<mu> s"

lemma moved_refl: "spu_sound s \<Longrightarrow> moved \<mu> s s"
  by (simp add: moved_def)

lemma moved_trans: "moved \<mu> r s \<Longrightarrow> moved \<mu> s t \<Longrightarrow> moved \<mu> r t"
  by (auto simp: moved_def)

lemma moved_sound: "moved \<mu> s t \<Longrightarrow> spu_sound t"
  by (simp add: moved_def)

lemma moved_clock: "moved \<mu> s t \<Longrightarrow> clock_ok h (spu t) = clock_ok h (spu s)"
  by (auto simp: moved_def dest: clock_fixed)

lemma moved_mode: "moved \<mu> s t \<Longrightarrow> transfer_mode (spu t) = transfer_mode (spu s)"
  by (auto simp: moved_def dest: mode_fixed)

lemma frames_moved: "frames s t \<Longrightarrow> moved \<mu> s t"
  by (simp add: frames_def moved_def kept_def fixed_def transfer_measure_def transfer_left_def transfer_mode_def)

text \<open>The request line.\<close>

lemma put_stat_fields [simp]:
  "transfer_fifo (put_stat i b p) = transfer_fifo p" "fixed (put_stat i b p) = fixed p"
  "transfer_left (put_stat i b p) = transfer_left p" "transfer_mode (put_stat i b p) = transfer_mode p"
  by (simp_all add: put_stat_def fixed_def transfer_left_def transfer_mode_def)

lemma stat_moved:
  assumes "spu_sound s" "\<And>p. spu_ok p \<Longrightarrow> spu_ok (f p)" "\<And>p. bit (SPUSTAT (f p)) 6 = bit (SPUSTAT p) 6"
    "\<And>p. fixed (f p) = fixed p" "\<And>p. transfer_fifo (f p) = transfer_fifo p"
  shows "moved \<mu> s (upd_spu f s)"
  using assms mode_fixed [OF assms(4)] by (simp add: moved_def spu_sound_def transfer_measure_def transfer_left_def)

lemma served_moved:
  assumes "spu_sound s" "request_served \<mu> s t"
  shows "moved \<mu> s t"
proof -
  consider "spu t = spu s" "\<mu> (dma t) \<le> \<mu> (dma s)" | "fifo_served (spu s) (spu t)" "\<mu> (dma t) < \<mu> (dma s)"
    using assms(2) by (auto simp: request_served_def)
  then show ?thesis
  proof cases
    case 1
    then show ?thesis using assms
      by (simp add: moved_def request_served_def spu_sound_def transfer_measure_def transfer_left_def)
  next
    case 2
    then obtain f a w where q: "fifo_ok 32 f" "bit w 6 = bit (SPUSTAT (spu s)) 6"
      "spu t = (spu s)\<lparr>transfer_fifo := f, transfer_event_active := a, SPUSTAT := w\<rparr>"
      by (auto simp: fifo_served_def)
    have ok: "spu_ok (spu t)" using assms(1) q(1) by (simp add: q(3) spu_sound_def spu_ok_defs)
    have fx: "fixed (spu t) = fixed (spu s)" by (simp add: q(3) fixed_def)
    have "(\<mu> (dma t) + 1) * 33 \<le> \<mu> (dma s) * 33" using 2(2) by (intro mult_le_mono1) simp
    then have "transfer_measure \<mu> t \<le> transfer_measure \<mu> s"
      using transfer_left_bound [OF ok] by (simp add: transfer_measure_def)
    then show ?thesis using assms ok fx q 2(2)
      by (simp add: moved_def request_served_def spu_sound_def)
  qed
qed

lemma update_request_returns:
  assumes h: "spu_hooks_ok \<mu> h" and s: "spu_sound s"
  shows "\<exists>t. update_dma_request h s = Some t \<and> moved \<mu> s t"
proof -
  let ?rd = "transfer_mode (spu s) = RAM_TRANSFER_DMA_READ \<and> spu_fifo_full (transfer_fifo (spu s))"
  let ?wr = "transfer_mode (spu s) = RAM_TRANSFER_DMA_WRITE \<and> spu_fifo_empty (transfer_fifo (spu s))"
  let ?u = "upd_spu (put_stat 7 (?rd \<or> ?wr) \<circ> put_stat 9 ?wr \<circ> put_stat 8 ?rd) s"
  have u: "moved \<mu> s ?u" by (rule stat_moved [OF s]) simp_all
  then have "has_queue ?u" using moved_sound [OF u] unfolding spu_sound_def by blast
  then obtain t where t: "spu_dma_set_request h SPU_DMA_CHANNEL_INDEX (?rd \<or> ?wr) ?u = Some t" "request_served \<mu> ?u t"
    using h unfolding spu_hooks_ok_def by blast
  show ?thesis
    using t(1) moved_trans [OF u served_moved [OF moved_sound [OF u] t(2)]] by (simp add: update_dma_request_def Let_def)
qed

lemma update_transfer_event_moved: "spu_sound s \<Longrightarrow> moved \<mu> s (update_transfer_event s)"
  unfolding update_transfer_event_def
  by (rule stat_moved) (simp_all add: put_stat_def fixed_def spu_ok_defs)

section \<open>One half-word\<close>

lemma trigger_irq_fields [simp]: "spu (trigger_ram_irq s) = put_stat 6 True (spu s)" "dma (trigger_ram_irq s) = dma s"
  by (simp_all add: trigger_ram_irq_def)

lemma irq_at_fields [simp]:
  "transfer_fifo (spu (ram_irq_at a s)) = transfer_fifo (spu s)" "spu_ram (spu (ram_irq_at a s)) = spu_ram (spu s)"
  "transfer_address (spu (ram_irq_at a s)) = transfer_address (spu s)" "SPUCNT (spu (ram_irq_at a s)) = SPUCNT (spu s)"
  "dma (ram_irq_at a s) = dma s"
  by (simp_all add: ram_irq_at_def put_stat_def)

text \<open>A step of a transfer: sound, with less left, and the controller not asked.\<close>

definition stepped :: "'a spu_sys_scheme \<Rightarrow> 'a spu_sys_scheme \<Rightarrow> bool" where
  "stepped s t \<longleftrightarrow> spu_sound t \<and> dma t = dma s \<and> current_event (timing t) = current_event (timing s) \<and>
     fixed (spu t) = fixed (spu s) \<and> transfer_left (spu t) < transfer_left (spu s)"

lemma stepped_moved: "stepped s t \<Longrightarrow> moved \<mu> s t \<and> transfer_measure \<mu> t < transfer_measure \<mu> s"
  by (simp add: stepped_def moved_def transfer_measure_def)

lemma stepped_at:
  assumes s: "spu_sound s" and p: "spu_ok p" "SPUSTAT p = SPUSTAT (spu s)" "fixed p = fixed (spu s)"
    "transfer_left p < transfer_left (spu s)"
  shows "stepped s (ram_irq_at a (upd_spu (\<lambda>_. p) s))"
proof -
  let ?u = "upd_spu (\<lambda>_. p) s"
  have u: "spu_sound ?u" using s p by (simp add: spu_sound_def)
  have f: "frames ?u (ram_irq_at a ?u)" by (rule irq_at_frames [OF u])
  then have "fixed (spu (ram_irq_at a ?u)) = fixed p" "transfer_left (spu (ram_irq_at a ?u)) = transfer_left p"
    by (simp_all add: frames_def kept_def fixed_def transfer_left_def transfer_mode_def)
  then show ?thesis using f p by (simp add: stepped_def frames_def)
qed

lemma read_step_stepped:
  assumes s: "spu_sound s" and m: "transfer_mode (spu s) = RAM_TRANSFER_DMA_READ" and n: "\<not> spu_fifo_full (transfer_fifo (spu s))"
  shows "stepped s (fifo_read_step s)"
proof -
  let ?p = "spu s"
  have f: "fifo_ok 32 (transfer_fifo ?p)" "unat (fifo_size (transfer_fifo ?p)) < 32"
    using s n by (auto simp: spu_sound_def spu_ok_def fifo_ok_def spu_fifo_full_size)
  let ?v = "spu_load16 (spu_ram ?p) (transfer_address ?p)"
  let ?q = "?p\<lparr>transfer_fifo := spu_fifo_push (transfer_fifo ?p) ?v\<rparr>"
  note push = spu_ring.push_refines [OF f, of ?v]
  have q: "spu_ok ?q" using s push(1) by (simp add: spu_sound_def spu_ok_defs)
  have l: "unat (fifo_size (spu_fifo_push (transfer_fifo ?p) ?v)) = unat (fifo_size (transfer_fifo ?p)) + 1"
    using push(2) length_fifo_list [of 32 "spu_fifo_push (transfer_fifo ?p) ?v"] by simp
  have "stepped s (ram_irq_at (transfer_address (advance_transfer_address ?q)) (upd_spu (\<lambda>_. advance_transfer_address ?q) s))"
  proof (rule stepped_at [OF s advance_transfer_ok [OF q]])
    show "transfer_left (advance_transfer_address ?q) < transfer_left ?p"
      using m l f(2) by (simp add: transfer_left_def advance_transfer_address_def transfer_mode_def)
  qed (simp_all add: advance_transfer_address_def fixed_def)
  moreover have "upd_spu (\<lambda>p. advance_transfer_address (p\<lparr>transfer_fifo :=
      spu_fifo_push (transfer_fifo p) (spu_load16 (spu_ram p) (transfer_address p))\<rparr>)) s = upd_spu (\<lambda>_. advance_transfer_address ?q) s"
    by (simp add: upd_spu_def)
  ultimately show ?thesis unfolding fifo_read_step_def Let_def by simp
qed

lemma write_step_stepped:
  assumes s: "spu_sound s" and m: "transfer_mode (spu s) \<noteq> RAM_TRANSFER_DMA_READ" and n: "\<not> spu_fifo_empty (transfer_fifo (spu s))"
  shows "stepped s (fifo_write_step s)"
proof -
  let ?p = "spu s"
  obtain v f where vf: "spu_fifo_pop (transfer_fifo ?p) = (v, f)" by fastforce
  have f: "fifo_ok 32 (transfer_fifo ?p)" "fifo_size (transfer_fifo ?p) \<noteq> 0"
    using s n by (auto simp: spu_sound_def spu_ok_def spu_fifo_empty_def)
  note pop = spu_ring.pop_refines [OF f]
  let ?q = "?p\<lparr>transfer_fifo := f\<rparr>"
  have q: "spu_ok ?q" using s pop(1) vf by (simp add: spu_sound_def spu_ok_defs)
  have l: "unat (fifo_size (transfer_fifo ?p)) = Suc (unat (fifo_size f))"
    using arg_cong [OF pop(2), of List.length] vf by simp
  have "stepped s (ram_irq_at (transfer_address (store_transfer v ?q)) (upd_spu (\<lambda>_. store_transfer v ?q) s))"
  proof (rule stepped_at [OF s store_transfer_ok [OF q]])
    show "transfer_left (store_transfer v ?q) < transfer_left ?p"
      using m l by (simp add: transfer_left_def store_transfer_def advance_transfer_address_def transfer_mode_def)
  qed (simp_all add: store_transfer_def advance_transfer_address_def fixed_def)
  moreover have "upd_spu (\<lambda>p. case spu_fifo_pop (transfer_fifo p) of (v, f) \<Rightarrow> store_transfer v (p\<lparr>transfer_fifo := f\<rparr>)) s =
      upd_spu (\<lambda>_. store_transfer v ?q) s"
    by (simp add: upd_spu_def vf)
  ultimately show ?thesis unfolding fifo_write_step_def Let_def by simp
qed

section \<open>The loops\<close>

locale transfer_loop =
  fixes stop :: "spu_fifo \<Rightarrow> bool"
    and goes :: "ram_transfer_mode_t \<Rightarrow> bool"
    and move :: "'a spu_sys_scheme \<Rightarrow> 'a spu_sys_scheme"
    and exec :: "tick_count \<Rightarrow> 'a spu_sys_scheme \<Rightarrow> tick_count \<times> 'a spu_sys_scheme"
    and run :: "('a spu_sys_scheme) spu_hooks \<Rightarrow> tick_count \<Rightarrow> 'a spu_sys_scheme \<Rightarrow> 'a spu_sys_scheme option"
  assumes exec_eq: "exec ticks s = (if ticks > 0 \<and> \<not> stop (transfer_fifo (spu s))
      then exec (ticks - 16) (move s) else (ticks, s))"
    and run_eq: "run h ticks s = (if ticks > 0 \<and> \<not> stop (transfer_fifo (spu s))
      then Option.bind (update_dma_request h (snd (exec ticks s))) (run h (fst (exec ticks s))) else Some s)"
    and move_stepped: "\<lbrakk>spu_sound s; goes (transfer_mode (spu s)); \<not> stop (transfer_fifo (spu s))\<rbrakk> \<Longrightarrow> stepped s (move s)"
    and stop_left: "\<lbrakk>goes (transfer_mode p); spu_ok p\<rbrakk> \<Longrightarrow> stop (transfer_fifo p) \<longleftrightarrow> transfer_left p = 0"
begin

lemma exec_moves:
  "\<lbrakk>spu_sound s; goes (transfer_mode (spu s))\<rbrakk> \<Longrightarrow>
     moved \<mu> s (snd (exec ticks s)) \<and> fst (exec ticks s) \<le> ticks \<and>
     (ticks > 0 \<and> \<not> stop (transfer_fifo (spu s)) \<longrightarrow>
        fst (exec ticks s) < ticks \<and> transfer_measure \<mu> (snd (exec ticks s)) < transfer_measure \<mu> s)"
proof (induction "nat ticks" arbitrary: ticks s rule: less_induct)
  case less
  show ?case
  proof (cases "ticks > 0 \<and> \<not> stop (transfer_fifo (spu s))")
    case True
    then have m: "stepped s (move s)" using less.prems move_stepped by blast
    note mm = stepped_moved [OF m, of \<mu>]
    have e: "exec ticks s = exec (ticks - 16) (move s)" using True exec_eq [of ticks s] by simp
    have "goes (transfer_mode (spu (move s)))" using moved_mode [of \<mu> s "move s"] mm less.prems(2) by simp
    then have ih: "moved \<mu> (move s) (snd (exec (ticks - 16) (move s))) \<and> fst (exec (ticks - 16) (move s)) \<le> ticks - 16"
      using less.hyps [of "ticks - 16" "move s"] True moved_sound [of \<mu> s "move s"] mm by simp
    then show ?thesis using mm moved_trans [of \<mu> s "move s"] unfolding e by (auto simp: moved_def)
  next
    case False
    then have "exec ticks s = (ticks, s)" using exec_eq [of ticks s] by auto
    then show ?thesis using moved_refl [OF less.prems(1)] False by auto
  qed
qed

lemma run_returns:
  "\<lbrakk>spu_hooks_ok \<mu> h; spu_sound s; goes (transfer_mode (spu s))\<rbrakk> \<Longrightarrow>
     \<exists>t. run h ticks s = Some t \<and> moved \<mu> s t \<and>
       (ticks > 0 \<and> transfer_left (spu s) > 0 \<longrightarrow> transfer_measure \<mu> t < transfer_measure \<mu> s)"
proof (induction "nat ticks" arbitrary: ticks s rule: less_induct)
  case less
  have ok: "spu_ok (spu s)" using less.prems(2) by (rule spu_sound_ok)
  show ?case
  proof (cases "ticks > 0 \<and> \<not> stop (transfer_fifo (spu s))")
    case True
    let ?k = "fst (exec ticks s)" and ?u = "snd (exec ticks s)"
    have x: "moved \<mu> s ?u" "?k < ticks" "transfer_measure \<mu> ?u < transfer_measure \<mu> s"
      using exec_moves [OF less.prems(2,3), of \<mu> ticks] True by auto
    obtain v where v: "update_dma_request h ?u = Some v" "moved \<mu> ?u v"
      using update_request_returns [OF less.prems(1) moved_sound [OF x(1)]] by blast
    have sv: "moved \<mu> s v" by (rule moved_trans [OF x(1) v(2)])
    have "goes (transfer_mode (spu v))" using moved_mode [OF sv] less.prems(3) by simp
    then obtain t where t: "run h ?k v = Some t" "moved \<mu> v t"
      using less.hyps [OF _ less.prems(1) moved_sound [OF sv], of ?k] x(2) True by auto
    have "run h ticks s = Some t" using run_eq [of h ticks s] True v(1) t(1) by simp
    moreover have "transfer_measure \<mu> t < transfer_measure \<mu> s" using x(3) v(2) t(2) by (simp add: moved_def)
    ultimately show ?thesis using moved_trans [OF sv t(2)] by blast
  next
    case False
    then have "run h ticks s = Some s" using run_eq [of h ticks s] by auto
    then show ?thesis using moved_refl [OF less.prems(2)] False stop_left [OF less.prems(3) ok] by auto
  qed
qed

end

interpretation reading: transfer_loop spu_fifo_full "\<lambda>m. m = RAM_TRANSFER_DMA_READ" fifo_read_step
    execute_fifo_read_from_ram transfer_read_loop
proof
  show "execute_fifo_read_from_ram ticks s = (if ticks > 0 \<and> \<not> spu_fifo_full (transfer_fifo (spu s))
      then execute_fifo_read_from_ram (ticks - 16) (fifo_read_step s) else (ticks, s))" for ticks and s :: "'a spu_sys_scheme"
    by (subst execute_fifo_read_from_ram.simps) (simp add: TRANSFER_TICKS_PER_HALFWORD_def)
  show "transfer_read_loop h ticks s = (if ticks > 0 \<and> \<not> spu_fifo_full (transfer_fifo (spu s))
      then Option.bind (update_dma_request h (snd (execute_fifo_read_from_ram ticks s)))
        (transfer_read_loop h (fst (execute_fifo_read_from_ram ticks s))) else Some s)" for h ticks and s :: "'a spu_sys_scheme"
    by (rule transfer_read_loop.simps)
  show "\<lbrakk>transfer_mode p = RAM_TRANSFER_DMA_READ; spu_ok p\<rbrakk> \<Longrightarrow> spu_fifo_full (transfer_fifo p) \<longleftrightarrow> transfer_left p = 0" for p
    by (auto simp: transfer_left_def spu_fifo_full_size spu_ok_def fifo_ok_def)
qed (rule read_step_stepped)

interpretation writing: transfer_loop spu_fifo_empty "\<lambda>m. m \<noteq> RAM_TRANSFER_DMA_READ" fifo_write_step
    execute_fifo_write_to_ram transfer_write_loop
proof
  show "execute_fifo_write_to_ram ticks s = (if ticks > 0 \<and> \<not> spu_fifo_empty (transfer_fifo (spu s))
      then execute_fifo_write_to_ram (ticks - 16) (fifo_write_step s) else (ticks, s))" for ticks and s :: "'a spu_sys_scheme"
    by (subst execute_fifo_write_to_ram.simps) (simp add: TRANSFER_TICKS_PER_HALFWORD_def)
  show "transfer_write_loop h ticks s = (if ticks > 0 \<and> \<not> spu_fifo_empty (transfer_fifo (spu s))
      then Option.bind (update_dma_request h (snd (execute_fifo_write_to_ram ticks s)))
        (transfer_write_loop h (fst (execute_fifo_write_to_ram ticks s))) else Some s)" for h ticks and s :: "'a spu_sys_scheme"
    by (rule transfer_write_loop.simps)
  show "\<lbrakk>transfer_mode p \<noteq> RAM_TRANSFER_DMA_READ; spu_ok p\<rbrakk> \<Longrightarrow> spu_fifo_empty (transfer_fifo p) \<longleftrightarrow> transfer_left p = 0" for p
    by (simp add: transfer_left_def spu_fifo_empty_size)
qed (rule write_step_stepped)

end
