(* ===== verification/Spu_Access.thy ===== *)
theory Spu_Access
  imports Spu_Transfer
begin

text \<open>
  Every access to the unit returns and leaves it sound: register reads and writes, both DMA
  directions, and the tick event with whatever transfer it finds.
\<close>

section \<open>Results\<close>

definition spu_ready :: "('a spu_sys_scheme) spu_hooks \<Rightarrow> 'a spu_sys_scheme \<Rightarrow> bool" where
  "spu_ready h s \<longleftrightarrow> spu_sound s \<and> (cpu_overclock_active (spu_settings h) \<longrightarrow>
     0 < cpu_tick_divider (spu s) \<and> cpu_tick_divider (spu s) < 2 ^ 31)"

definition accessed :: "('a spu_sys_scheme) spu_hooks \<Rightarrow> 'a spu_sys_scheme \<Rightarrow> 'a spu_sys_scheme \<Rightarrow> bool" where
  "accessed h s t \<longleftrightarrow> spu_ready h t \<and> current_event (timing t) = current_event (timing s)"

lemma accessed_refl: "spu_ready h s \<Longrightarrow> accessed h s s"
  by (simp add: accessed_def)

lemma accessed_trans: "accessed h r s \<Longrightarrow> accessed h s t \<Longrightarrow> accessed h r t"
  by (simp add: accessed_def)

lemma accessed_ready: "accessed h s t \<Longrightarrow> spu_ready h t"
  by (simp add: accessed_def)

lemma ready_sound: "spu_ready h s \<Longrightarrow> spu_sound s"
  by (simp add: spu_ready_def)

lemma ready_clock: "spu_ready h s \<Longrightarrow> clock_ok h (spu s)"
  by (simp add: spu_ready_def clock_ok_def)

lemma moved_accessed: "\<lbrakk>spu_ready h s; moved \<mu> s t\<rbrakk> \<Longrightarrow> accessed h s t"
  by (simp add: accessed_def moved_def spu_ready_def fixed_def)

text \<open>An update of the unit alone.\<close>

lemma upd_accessed:
  assumes "spu_ready h s" "spu_ok (f (spu s))" "bit (SPUSTAT (f (spu s))) 6 \<Longrightarrow> bit (SPUSTAT (spu s)) 6"
    "cpu_tick_divider (f (spu s)) = cpu_tick_divider (spu s)"
  shows "accessed h s (upd_spu f s)"
  using assms by (auto simp: accessed_def spu_ready_def spu_sound_def)

section \<open>Pending frames and transfers\<close>

lemma internal_returns:
  "\<lbrakk>spu_hooks_ok \<mu> h; spu_sound s; clock_ok h (spu s)\<rbrakk> \<Longrightarrow>
     \<exists>t. internal_generate_pending_samples h s = Some t \<and> moved \<mu> s t \<and> transfer_fifo (spu t) = transfer_fifo (spu s)"
proof (induction "nat (spu_ticks_carry (spu s))" arbitrary: s rule: less_induct)
  case less
  let ?step = "if cpu_overclock_active (spu_settings h) then cpu_tick_divider (spu s) else SYSCLK_TICKS_PER_SPU_TICK"
  have pos: "0 < ?step" using less.prems(3) by (simp add: clock_ok_def SYSCLK_TICKS_PER_SPU_TICK_def)
  note eq = internal_generate_pending_samples.simps [of h s, unfolded Let_def]
  show ?case
  proof (cases "spu_ticks_carry (spu s) \<ge> ?step")
    case True
    let ?g = "generate_one_frame h False s"
    let ?t = "upd_spu (\<lambda>p. p\<lparr>spu_ticks_carry := spu_ticks_carry p - ?step\<rparr>) ?g"
    have g: "frames s ?g" by (rule generate_frames_one [OF less.prems(1,2)])
    have "moved \<mu> ?g ?t" by (rule stat_moved [OF frames_sound [OF g]]) (simp_all add: spu_ok_defs fixed_def)
    then have t: "moved \<mu> s ?t" by (rule moved_trans [OF frames_moved [OF g]])
    have k: "spu_ticks_carry (spu ?g) = spu_ticks_carry (spu s)" "transfer_fifo (spu ?g) = transfer_fifo (spu s)"
      using g by (simp_all add: frames_def kept_def)
    then have c: "nat (spu_ticks_carry (spu ?t)) < nat (spu_ticks_carry (spu s))" using pos True by simp
    have "clock_ok h (spu ?t)" using moved_clock [OF t, of h] less.prems(3) by simp
    then obtain u where u: "internal_generate_pending_samples h ?t = Some u" "moved \<mu> ?t u"
      "transfer_fifo (spu u) = transfer_fifo (spu ?t)"
      using less.hyps [OF c less.prems(1) moved_sound [OF t]] by blast
    have "internal_generate_pending_samples h s = Some u" unfolding eq using True u(1) by simp
    moreover have "transfer_fifo (spu u) = transfer_fifo (spu s)" using u(3) k(2) by simp
    ultimately show ?thesis using moved_trans [OF t u(2)] by blast
  next
    case False
    then have "internal_generate_pending_samples h s = Some s" unfolding eq by simp
    then show ?thesis using moved_refl [OF less.prems(2)] by blast
  qed
qed

lemma transfer_pending_left:
  assumes "spu_ok p" "transfer_pending p"
  shows "0 < transfer_left p \<and> transfer_mode p \<noteq> RAM_TRANSFER_STOPPED"
proof -
  have s: "unat (fifo_size (transfer_fifo p)) \<le> 32" using assms(1) by (simp add: spu_ok_def fifo_ok_def)
  show ?thesis using assms(2) s
    by (cases "transfer_mode p") (auto simp: transfer_pending_def transfer_left_def spu_fifo_full_size spu_fifo_empty_size)
qed

lemma update_transfer_event_active:
  "transfer_event_active (spu (update_transfer_event s)) \<longleftrightarrow> transfer_pending (spu (update_transfer_event s))"
  by (cases "spucnt_transfer_mode (SPUCNT (spu s))")
    (simp_all add: update_transfer_event_def put_stat_def transfer_pending_def transfer_mode_def)

lemma execute_transfer_returns:
  assumes h: "spu_hooks_ok \<mu> h" and s: "spu_sound s" and c: "clock_ok h (spu s)"
  shows "\<exists>t. execute_transfer h ticks s = Some t \<and> moved \<mu> s t \<and>
    (ticks > 0 \<and> transfer_left (spu s) > 0 \<and> transfer_mode (spu s) \<noteq> RAM_TRANSFER_STOPPED \<longrightarrow>
       transfer_measure \<mu> t < transfer_measure \<mu> s) \<and>
    (transfer_event_active (spu t) \<longrightarrow> transfer_left (spu t) > 0 \<and> transfer_mode (spu t) \<noteq> RAM_TRANSFER_STOPPED)"
proof (cases "transfer_mode (spu s) = RAM_TRANSFER_STOPPED")
  case True
  let ?t = "upd_spu (\<lambda>p. put_stat 10 False (p\<lparr>transfer_event_active := False\<rparr>)) s"
  have "moved \<mu> s ?t" by (rule stat_moved [OF s]) (simp_all add: spu_ok_defs fixed_def put_stat_def)
  moreover have "\<not> transfer_event_active (spu ?t)" by (simp add: put_stat_def)
  ultimately show ?thesis using True by (simp add: execute_transfer_def Let_def)
next
  case False
  obtain a where a: "internal_generate_pending_samples h s = Some a" "moved \<mu> s a" "transfer_fifo (spu a) = transfer_fifo (spu s)"
    using internal_returns [OF h s c] by blast
  let ?rd = "transfer_mode (spu s) = RAM_TRANSFER_DMA_READ"
  have ma: "transfer_mode (spu a) = transfer_mode (spu s)" by (rule moved_mode [OF a(2)])
  have la: "transfer_left (spu a) = transfer_left (spu s)" using ma a(3) by (simp add: transfer_left_def)
  have "\<exists>b. (if ?rd then transfer_read_loop h ticks a else transfer_write_loop h ticks a) = Some b \<and> moved \<mu> a b \<and>
      (ticks > 0 \<and> transfer_left (spu a) > 0 \<longrightarrow> transfer_measure \<mu> b < transfer_measure \<mu> a)"
    using reading.run_returns [OF h moved_sound [OF a(2)], of ticks]
      writing.run_returns [OF h moved_sound [OF a(2)], of ticks] ma by auto
  then obtain b where b: "(if ?rd then transfer_read_loop h ticks a else transfer_write_loop h ticks a) = Some b"
    "moved \<mu> a b" "ticks > 0 \<and> transfer_left (spu a) > 0 \<longrightarrow> transfer_measure \<mu> b < transfer_measure \<mu> a" by blast
  let ?t = "update_transfer_event b"
  have t: "moved \<mu> b ?t" by (rule update_transfer_event_moved [OF moved_sound [OF b(2)]])
  have st: "moved \<mu> s ?t" by (rule moved_trans [OF moved_trans [OF a(2) b(2)] t])
  have "execute_transfer h ticks s = Some ?t" using False a(1) b(1) by (simp add: execute_transfer_def Let_def)
  moreover have "ticks > 0 \<and> transfer_left (spu s) > 0 \<longrightarrow> transfer_measure \<mu> ?t < transfer_measure \<mu> s"
    using b(3) la a(2) t unfolding moved_def by auto
  moreover have "transfer_event_active (spu ?t) \<longrightarrow> transfer_left (spu ?t) > 0 \<and> transfer_mode (spu ?t) \<noteq> RAM_TRANSFER_STOPPED"
    using transfer_pending_left [OF spu_sound_ok [OF moved_sound [OF t]]] update_transfer_event_active by blast
  ultimately show ?thesis using st by blast
qed

lemma measure_refilled:
  assumes "m * 33 + l \<le> n * 33" "0 < l" "l \<le> 32"
  shows "m * 33 + l < n * (33 :: nat)"
  using assms by presburger

lemma transfer_event_loop_returns:
  "\<lbrakk>spu_hooks_ok \<mu> h; spu_sound s; clock_ok h (spu s)\<rbrakk> \<Longrightarrow> \<exists>t. transfer_event_loop h s = Some t \<and> moved \<mu> s t"
proof (induction "transfer_measure \<mu> s" arbitrary: s rule: less_induct)
  case less
  let ?b = "transfer_ticks_carry (spu s)"
  note eq = transfer_event_loop.simps [of h s, unfolded Let_def]
  show ?case
  proof (cases "?b \<ge> TRANSFER_TICKS_PER_HALFWORD \<and> transfer_event_active (spu s)")
    case True
    obtain t where t: "execute_transfer h ?b s = Some t" "moved \<mu> s t"
      "?b > 0 \<and> transfer_left (spu s) > 0 \<and> transfer_mode (spu s) \<noteq> RAM_TRANSFER_STOPPED \<longrightarrow> transfer_measure \<mu> t < transfer_measure \<mu> s"
      "transfer_event_active (spu t) \<longrightarrow> transfer_left (spu t) > 0 \<and> transfer_mode (spu t) \<noteq> RAM_TRANSFER_STOPPED"
      using execute_transfer_returns [OF less.prems, of ?b] by blast
    have "transfer_ticks_carry (spu t) = ?b" using t(2) by (simp add: moved_def fixed_def)
    then have u: "upd_spu (\<lambda>p. p\<lparr>transfer_ticks_carry := ?b\<rparr>) t = t" by (simp add: upd_spu_def)
    have loop: "transfer_event_loop h s = transfer_event_loop h t" using True t(1) u unfolding eq by simp
    have ct: "clock_ok h (spu t)" using moved_clock [OF t(2), of h] less.prems(3) by simp
    show ?thesis
    proof (cases "transfer_event_active (spu t)")
      case act: True
      have "transfer_measure \<mu> t < transfer_measure \<mu> s"
      proof (cases "transfer_left (spu s) = 0")
        case z: True
        have "\<mu> (dma t) * 33 + transfer_left (spu t) \<le> \<mu> (dma s) * 33" using t(2) z by (simp add: moved_def transfer_measure_def)
        then have "\<mu> (dma t) * 33 + transfer_left (spu t) < \<mu> (dma s) * 33"
          using t(4) act transfer_left_bound [OF spu_sound_ok [OF moved_sound [OF t(2)]]] by (intro measure_refilled) auto
        then show ?thesis using z by (simp add: transfer_measure_def)
      next
        case nz: False
        have "0 < ?b" using True by (simp add: TRANSFER_TICKS_PER_HALFWORD_def)
        then show ?thesis using t(3,4) nz act moved_mode [OF t(2)] by simp
      qed
      then obtain v where "transfer_event_loop h t = Some v" "moved \<mu> t v"
        using less.hyps [OF _ less.prems(1) moved_sound [OF t(2)] ct] by blast
      then show ?thesis using loop moved_trans [OF t(2)] by auto
    next
      case False
      then have "transfer_event_loop h t = Some t" by (simp add: transfer_event_loop.simps [of h t] Let_def)
      then show ?thesis using loop t(2) by auto
    qed
  next
    case False
    then have "transfer_event_loop h s = Some s" unfolding eq by auto
    then show ?thesis using moved_refl [OF less.prems(2)] by blast
  qed
qed

section \<open>Ticks\<close>

lemma ticks_u64_pos: "0 < v \<Longrightarrow> v < 2 ^ 31 \<Longrightarrow> ticks_u64 v \<noteq> 0"
proof -
  assume v: "0 < v" "v < 2 ^ 31"
  have "uint (word_of_int v :: u32) = v" using v by (simp add: uint_word_of_int)
  then have "uint (ticks_u64 v) = v"
    using v by (simp add: ticks_u64_def unsigned_ucast_eq take_bit_int_eq_self)
  then show ?thesis using v by auto
qed

lemma spu_execute_returns:
  assumes h: "spu_hooks_ok \<mu> h" and s: "spu_ready h s"
  shows "\<exists>t. spu_execute h ticks s = Some t \<and> accessed h s t"
proof -
  have "spu_frames (spu_settings h) ticks (spu s) \<noteq> None"
    using s ticks_u64_pos [of "cpu_tick_divider (spu s)"] by (simp add: spu_frames_def spu_ready_def Let_def)
  then obtain n c where n: "spu_frames (spu_settings h) ticks (spu s) = Some (n, c)" by auto
  let ?a = "upd_spu (\<lambda>p. p\<lparr>spu_ticks_carry := c\<rparr>) s"
  let ?b = "upd_spu (\<lambda>p. p\<lparr>transfer_ticks_carry := to_s32 (transfer_ticks_carry p + ticks)\<rparr>) ?a"
  have ok: "spu_ok (spu s)" by (rule spu_sound_ok [OF ready_sound [OF s]])
  have a: "accessed h s ?a" by (rule upd_accessed [OF s]) (use ok in \<open>simp_all add: spu_ok_defs\<close>)
  have b: "accessed h ?a ?b" by (rule upd_accessed [OF accessed_ready [OF a]]) (use ok in \<open>simp_all add: spu_ok_defs\<close>)
  have rb: "spu_ready h ?b" by (rule accessed_ready [OF b])
  obtain v where v: "transfer_event_loop h ?b = Some v" "moved \<mu> ?b v"
    using transfer_event_loop_returns [OF h ready_sound [OF rb] ready_clock [OF rb]] by blast
  have bv: "accessed h ?a v" by (rule accessed_trans [OF b moved_accessed [OF rb v(2)]])
  obtain d where d: "(if transfer_event_active (spu ?a) then transfer_event_loop h ?b else Some ?a) = Some d" "accessed h ?a d"
    using bv v(1) accessed_refl [OF accessed_ready [OF a]] by (cases "transfer_event_active (spu ?a)") auto
  have f: "frames d (generate_frames h True (unat n) d)"
    by (rule generate_frames_all [OF h ready_sound [OF accessed_ready [OF d(2)]]])
  have "accessed h d (generate_frames h True (unat n) d)"
    by (rule moved_accessed [OF accessed_ready [OF d(2)] frames_moved [OF f]])
  moreover have "spu_execute h ticks s = Some (generate_frames h True (unat n) d)"
    using n d(1) by (simp add: spu_execute_def Let_def)
  ultimately show ?thesis using accessed_trans [OF accessed_trans [OF a d(2)]] by blast
qed

lemma more_spu: "sched_sys.more t = sched_sys.more s \<Longrightarrow> spu t = spu s \<and> dma t = dma s"
  by (cases s, cases t) simp

lemma env_accessed:
  assumes "spu_ready h s" "sched_env s t" "has_queue t"
  shows "accessed h s t"
  using assms more_spu [of t s]
  by (simp add: accessed_def spu_ready_def spu_sound_def sched_env_def irq_line_high_def)

lemma generate_pending_returns:
  assumes h: "spu_hooks_ok \<mu> h" and s: "spu_ready h s" and c: "current_event (timing s) \<noteq> Some SPU_TICK_EVENT"
  shows "\<exists>t. spu_generate_pending_samples h s = Some t \<and> accessed h s t"
proof -
  obtain xs where q: "sched_queue s xs" using s by (auto simp: spu_ready_def spu_sound_def has_queue_def)
  consider "spu_generate_pending_samples h s = Some s" | r ys t where "spu_generate_pending_samples h s = spu_execute h t r"
    "sched_queue r ys" "sched_env s r"
    using invoke_early_cases [OF q c, of "spu_tick_trampoline h" True]
    by (auto simp: spu_generate_pending_samples_def spu_tick_trampoline_def)
  then show ?thesis
  proof cases
    case 1
    then show ?thesis using accessed_refl [OF s] by simp
  next
    case 2
    have r: "accessed h s r" by (rule env_accessed [OF s 2(3)]) (use 2(2) in \<open>auto simp: has_queue_def\<close>)
    then show ?thesis using spu_execute_returns [OF h accessed_ready [OF r], of t] 2(1) accessed_trans by auto
  qed
qed

lemma event_interval_returns:
  assumes "spu_ready h s"
  shows "\<exists>t. update_event_interval s = Some t \<and> accessed h s t"
proof -
  let ?n = "cpu_ticks_per_spu_tick (spu s) * 256"
  let ?u = "timing_event_set_interval SPU_TICK_EVENT ?n s"
  obtain xs where "sched_queue s xs" using assms by (auto simp: spu_ready_def spu_sound_def has_queue_def)
  then have q: "sched_queue ?u xs"
    by (simp add: timing_event_set_interval_def sched_queue_period [of "\<lambda>v. v\<lparr>interval := ?n\<rparr>" "\<lambda>_. ?n"])
  have u: "accessed h s ?u"
  proof -
    have "spu ?u = spu s" "intc ?u = intc s" "timing ?u = timing s"
      by (simp_all add: timing_event_set_interval_def upd_event_def)
    then show ?thesis using assms q
      by (auto simp: accessed_def spu_ready_def spu_sound_def irq_line_high_def has_queue_def)
  qed
  obtain t ys where t: "timing_event_schedule SPU_TICK_EVENT ?n ?u = Some t" "sched_queue t ys" "sched_env ?u t"
    using schedule_refines [OF q, of SPU_TICK_EVENT ?n] unfolding rescheduled_def by blast
  have "accessed h ?u t" by (rule env_accessed [OF accessed_ready [OF u] t(3)]) (use t(2) in \<open>auto simp: has_queue_def\<close>)
  then show ?thesis using t(1) accessed_trans [OF u]
    by (auto simp: update_event_interval_def timing_event_set_interval_and_schedule_def)
qed

section \<open>The FIFO's ports\<close>

lemma transfer_accessed:
  assumes "spu_hooks_ok \<mu> h" "spu_ready h s"
  shows "\<exists>t. execute_transfer h ticks s = Some t \<and> accessed h s t"
  using execute_transfer_returns [OF assms(1) ready_sound [OF assms(2)] ready_clock [OF assms(2)], of ticks]
    moved_accessed [OF assms(2)] by blast

lemma irq_at_accessed: "spu_ready h s \<Longrightarrow> accessed h s (ram_irq_at a s)"
  by (rule moved_accessed [OF _ frames_moved [OF irq_at_frames]]) (simp_all add: ready_sound)

lemma late_irq_accessed: "spu_ready h s \<Longrightarrow> accessed h s (check_for_late_ram_irqs s)"
  by (rule moved_accessed [OF _ frames_moved [OF late_irq_frames]]) (simp_all add: ready_sound)

lemma ready_ok: "spu_ready h s \<Longrightarrow> spu_ok (spu s)"
  by (rule spu_sound_ok [OF ready_sound])

lemma manual_write_returns:
  assumes h: "spu_hooks_ok \<mu> h" and s: "spu_ready h s"
  shows "\<exists>t. manual_transfer_write h v s = Some t \<and> accessed h s t"
proof -
  let ?c = "\<not> spu_fifo_empty (transfer_fifo (spu s)) \<and>
    transfer_mode (spu s) \<in> {RAM_TRANSFER_MANUAL_WRITE, RAM_TRANSFER_DMA_WRITE}"
  obtain a where a: "(if ?c then execute_transfer h INT32_MAX s else Some s) = Some a" "accessed h s a"
    using transfer_accessed [OF h s, of INT32_MAX] accessed_refl [OF s] by (cases ?c) auto
  let ?b = "upd_spu (store_transfer v) a"
  have ok: "spu_ok (store_transfer v (spu a))" by (rule store_transfer_ok [OF ready_ok [OF accessed_ready [OF a(2)]]])
  have b: "accessed h a ?b"
    by (rule upd_accessed [OF accessed_ready [OF a(2)]])
      (use ok in \<open>simp_all add: store_transfer_def advance_transfer_address_def\<close>)
  have "manual_transfer_write h v s = Some (ram_irq_at (transfer_address (spu ?b)) ?b)"
    unfolding manual_transfer_write_def a(1) by (simp add: Let_def)
  then show ?thesis
    using accessed_trans [OF accessed_trans [OF a(2) b] irq_at_accessed [OF accessed_ready [OF b]]] by blast
qed

lemma request_then_event:
  assumes h: "spu_hooks_ok \<mu> h" and s: "spu_ready h s"
  shows "\<exists>t. update_dma_request h s = Some t \<and> accessed h s (update_transfer_event t)"
proof -
  obtain t where t: "update_dma_request h s = Some t" "moved \<mu> s t"
    using update_request_returns [OF h ready_sound [OF s]] by blast
  have "moved \<mu> s (update_transfer_event t)"
    by (rule moved_trans [OF t(2) update_transfer_event_moved [OF moved_sound [OF t(2)]]])
  then show ?thesis using t(1) moved_accessed [OF s] by blast
qed

lemma put_fifo_accessed: "\<lbrakk>spu_ready h s; fifo_ok 32 f\<rbrakk> \<Longrightarrow> accessed h s (upd_spu (\<lambda>p. p\<lparr>transfer_fifo := f\<rparr>) s)"
  by (rule upd_accessed) (auto dest: ready_ok simp: spu_ok_defs)

lemma dma_write_spu_returns:
  assumes h: "spu_hooks_ok \<mu> h" and s: "spu_ready h s"
  shows "\<exists>t. spu_dma_write h ws s = Some t \<and> accessed h s t"
proof -
  let ?f = "transfer_fifo (spu s)" and ?n = "unat (spu_fifo_space (transfer_fifo (spu s)))"
  have f: "fifo_ok 32 ?f" using ready_ok [OF s] by (simp add: spu_ok_def)
  then have sz: "unat (fifo_size ?f) \<le> 32" by (simp add: fifo_ok_def)
  have "?n = 32 - unat (fifo_size ?f)"
  proof -
    have "fifo_size ?f \<le> 32" using sz by (simp add: word_le_nat_alt)
    then show ?thesis by (simp add: spu_fifo_space_def FIFO_SIZE_IN_HALFWORDS_def unat_sub)
  qed
  then have "fifo_ok 32 (spu_fifo_push_range ?f (take ?n (word_halves ws)))" by (intro spu_push_range [OF f]) (use sz in simp)
  then have a: "accessed h s (upd_spu (\<lambda>p. p\<lparr>transfer_fifo := spu_fifo_push_range ?f (take ?n (word_halves ws))\<rparr>) s)"
    by (rule put_fifo_accessed [OF s])
  show ?thesis using request_then_event [OF h accessed_ready [OF a]] accessed_trans [OF a]
    by (auto simp: spu_dma_write_def Let_def)
qed

lemma dma_read_spu_returns:
  assumes h: "spu_hooks_ok \<mu> h" and s: "spu_ready h s"
    and n: "2 * n \<le> unat (fifo_size (transfer_fifo (spu s))) \<or> unat (fifo_size (transfer_fifo (spu s))) < n"
  shows "\<exists>ws t. spu_dma_read h n s = Some (ws, t) \<and> accessed h s t"
proof -
  let ?f = "transfer_fifo (spu s)" and ?k = "if n > unat (fifo_size (transfer_fifo (spu s)))
    then unat (fifo_size (transfer_fifo (spu s))) else n * 2"
  have f: "fifo_ok 32 ?f" using ready_ok [OF s] by (simp add: spu_ok_def)
  obtain hs g where g: "spu_fifo_pop_range ?k ?f = (hs, g)" by fastforce
  have "?k \<le> unat (fifo_size ?f)" using n by auto
  then have "fifo_ok 32 g" using spu_pop_range(2) [OF f] g by (metis snd_conv)
  then have a: "accessed h s (upd_spu (\<lambda>p. p\<lparr>transfer_fifo := g\<rparr>) s)" by (rule put_fifo_accessed [OF s])
  obtain t where t: "update_dma_request h (upd_spu (\<lambda>p. p\<lparr>transfer_fifo := g\<rparr>) s) = Some t"
    "accessed h (upd_spu (\<lambda>p. p\<lparr>transfer_fifo := g\<rparr>) s) (update_transfer_event t)"
    using request_then_event [OF h accessed_ready [OF a]] by blast
  then show ?thesis using g accessed_trans [OF a t(2)]
    by (cases "n > unat (fifo_size ?f)") (auto simp: spu_dma_read_def Let_def)
qed

end
