(* ===== verification/Spu_Registers.thy ===== *)
theory Spu_Registers
  imports Spu_Access
begin

text \<open>
  The register interface: every read and every write, at every offset, returns and leaves the unit
  sound.
\<close>

section \<open>Voices\<close>

lemma write_voice_ok: "voice_ok v \<Longrightarrow> voice_ok (write_voice reg x v)"
proof -
  assume v: "voice_ok v"
  have regs: "voice_ok (set_voice_regs f v)" if "\<And>r. adsr_volume (f r) = adsr_volume r \<or> s16 (adsr_volume (f r))" for f
    using v that [of "voice_regs v"] by (auto simp: set_voice_regs_def voice_ok_def samples_linked_def)
  have on: "voice_ok w \<Longrightarrow> voice_ok (envelope_if_on w)" for w by (simp add: envelope_if_on_def)
  have l: "voice_ok (w\<lparr>left_volume := volume_sweep_reset x (left_volume w)\<rparr>)"
    "voice_ok (w\<lparr>right_volume := volume_sweep_reset x (right_volume w)\<rparr>)" "voice_ok (w\<lparr>ignore_loop_address := b\<rparr>)"
    if "voice_ok w" for w b
    using that by (simp_all add: voice_ok_def samples_linked_def)
  have sl: "set_voice_regs f (v\<lparr>left_volume := y\<rparr>) = (set_voice_regs f v)\<lparr>left_volume := y\<rparr>"
    "set_voice_regs f (v\<lparr>right_volume := y\<rparr>) = (set_voice_regs f v)\<lparr>right_volume := y\<rparr>"
    "left_volume (set_voice_regs f v) = left_volume v" "right_volume (set_voice_regs f v) = right_volume v" for f y
    by (simp_all add: set_voice_regs_def)
  have l': "voice_ok ((set_voice_regs f v)\<lparr>left_volume := volume_sweep_reset x (left_volume v)\<rparr>)"
    "voice_ok ((set_voice_regs f v)\<lparr>right_volume := volume_sweep_reset x (right_volume v)\<rparr>)"
    if "voice_ok (set_voice_regs f v)" for f
    using l(1,2) [OF that] by (simp_all add: sl)
  show ?thesis unfolding write_voice_def sl(1,2)
    by (cases "reg = 0"; cases "reg = 2"; cases "reg = 4"; cases "reg = 6"; cases "reg = 8"; cases "reg = 0xA";
        cases "reg = 0xC"; cases "reg = 0xE"; simp add: on regs l(3) l' v)
qed

lemma upd_voice_accessed:
  assumes "spu_ready h s" "\<And>v. voice_ok v \<Longrightarrow> voice_ok (g v)"
  shows "accessed h s (upd_spu (upd_voice i g) s)"
  by (rule moved_accessed [OF assms(1) frames_moved [OF quiet_frames [OF ready_sound [OF assms(1)] quiet_voice]]])
    (rule assms(2))

lemma sampled_if:
  assumes "spu_hooks_ok \<mu> h" "spu_ready h s" "current_event (timing s) \<noteq> Some SPU_TICK_EVENT"
  shows "\<exists>t. (if c then spu_generate_pending_samples h s else Some s) = Some t \<and> accessed h s t"
  using generate_pending_returns [OF assms] accessed_refl [OF assms(2)] by (cases c) auto

lemma write_voice_register_returns:
  assumes "spu_hooks_ok \<mu> h" "spu_ready h s" "current_event (timing s) \<noteq> Some SPU_TICK_EVENT"
  shows "\<exists>t. write_voice_register h offset v s = Some t \<and> accessed h s t"
proof -
  let ?i = "unat (offset div 0x10)"
  obtain a where a: "(if voice_live (spu s) ?i then spu_generate_pending_samples h s else Some s) = Some a" "accessed h s a"
    using sampled_if [OF assms] by blast
  have "accessed h a (upd_spu (upd_voice ?i (write_voice (offset mod 0x10) v)) a)"
    by (rule upd_voice_accessed [OF accessed_ready [OF a(2)] write_voice_ok])
  then show ?thesis using a(1) accessed_trans [OF a(2)] by (auto simp: write_voice_register_def Let_def)
qed

lemma read_voice_register_returns:
  assumes "spu_hooks_ok \<mu> h" "spu_ready h s" "current_event (timing s) \<noteq> Some SPU_TICK_EVENT" "offset < 0x180"
  shows "\<exists>v t. read_voice_register h offset s = Some (v, t) \<and> accessed h s t"
proof -
  let ?i = "unat (offset div 0x10)" and ?r = "unat (offset mod 0x10) div 2"
  have "unat offset < 0x180" using assms(4) by (simp add: word_less_nat_alt)
  then have i: "\<not> NUM_VOICES \<le> ?i" by (simp add: NUM_VOICES_def unat_div less_mult_imp_div_less)
  obtain a where a: "(if ?r \<ge> 6 \<and> voice_live (spu s) ?i then spu_generate_pending_samples h s else Some s) = Some a"
    "accessed h s a"
    using sampled_if [OF assms(1-3)] by blast
  show ?thesis using a i by (simp add: read_voice_register_def Let_def)
qed

section \<open>Control\<close>

lemma stop_transfer_returns:
  assumes "spu_hooks_ok \<mu> h" "spu_ready h s"
  shows "\<exists>t. stop_transfer h v s = Some t \<and> accessed h s t"
proof -
  have "accessed h s (upd_spu (\<lambda>p. p\<lparr>transfer_fifo := spu_fifo_clear (transfer_fifo p)\<rparr>) s)"
    by (rule upd_accessed [OF assms(2)]) (use ready_ok [OF assms(2)] in \<open>simp_all add: spu_ok_defs\<close>)
  then show ?thesis using transfer_accessed [OF assms, of INT32_MAX] accessed_refl [OF assms(2)]
    by (auto simp: stop_transfer_def)
qed

lemma put_control_accessed: "spu_ready h s \<Longrightarrow> accessed h s (upd_spu (put_control v) s)"
proof (rule upd_accessed)
  assume s: "spu_ready h s"
  have "voice_ok (if i < NUM_VOICES then voice_force_off (voices (spu s) i) else voices (spu s) i)" for i
    using ready_ok [OF s] by (simp add: spu_ok_def key_ok)
  then show "spu_ok (put_control v (spu s))" using ready_ok [OF s] by (simp add: put_control_def Let_def spu_ok_defs)
  show "bit (SPUSTAT (put_control v (spu s))) 6 \<Longrightarrow> bit (SPUSTAT (spu s)) 6" by (simp add: put_control_def Let_def split: if_splits)
  show "cpu_tick_divider (put_control v (spu s)) = cpu_tick_divider (spu s)" by (simp add: put_control_def Let_def)
qed

lemma control_irq_accessed: "spu_ready h s \<Longrightarrow> accessed h s (control_irq s)"
proof -
  assume s: "spu_ready h s"
  have "spu_sound (interrupt_controller_set_line_state SPU_IRQ_INDEX False (upd_spu (put_stat 6 False) s))"
    using ready_sound [OF s] by (simp add: spu_sound_def)
  then have "accessed h s (interrupt_controller_set_line_state SPU_IRQ_INDEX False (upd_spu (put_stat 6 False) s))"
    using s by (simp add: accessed_def spu_ready_def put_stat_def)
  then show ?thesis using late_irq_accessed [OF s] accessed_refl [OF s] by (simp add: control_irq_def)
qed

lemma write_spu_control_returns:
  assumes h: "spu_hooks_ok \<mu> h" and s: "spu_ready h s" "current_event (timing s) \<noteq> Some SPU_TICK_EVENT"
  shows "\<exists>t. write_control h v s = Some t \<and> accessed h s t"
proof -
  obtain a where a: "spu_generate_pending_samples h s = Some a" "accessed h s a"
    using generate_pending_returns [OF h s] by blast
  obtain b where b: "stop_transfer h v a = Some b" "accessed h a b"
    using stop_transfer_returns [OF h accessed_ready [OF a(2)]] by blast
  let ?c = "upd_spu (put_control v) b"
  have c: "accessed h b ?c" by (rule put_control_accessed [OF accessed_ready [OF b(2)]])
  have d: "accessed h ?c (control_irq ?c)" by (rule control_irq_accessed [OF accessed_ready [OF c]])
  obtain e where e: "update_event_interval (control_irq ?c) = Some e" "accessed h (control_irq ?c) e"
    using event_interval_returns [OF accessed_ready [OF d]] by blast
  obtain f where f: "update_dma_request h e = Some f" "accessed h e (update_transfer_event f)"
    using request_then_event [OF h accessed_ready [OF e(2)]] by blast
  have "accessed h s (update_transfer_event f)"
    using a(2) b(2) c d e(2) f(2) by (blast intro: accessed_trans)
  moreover have "write_control h v s = Some (update_transfer_event f)"
    using a(1) b(1) e(1) f(1) by (simp add: write_control_def)
  ultimately show ?thesis by blast
qed

lemma irq_address_returns:
  assumes "spu_hooks_ok \<mu> h" "spu_ready h s" "current_event (timing s) \<noteq> Some SPU_TICK_EVENT"
  shows "\<exists>t. write_irq_address h v s = Some t \<and> accessed h s t"
proof -
  obtain a where a: "spu_generate_pending_samples h s = Some a" "accessed h s a"
    using generate_pending_returns [OF assms] by blast
  let ?b = "upd_spu (\<lambda>p. p\<lparr>spu_irq_address := v\<rparr>) a"
  have b: "accessed h a ?b"
    by (rule upd_accessed [OF accessed_ready [OF a(2)]]) (use ready_ok [OF accessed_ready [OF a(2)]] in \<open>simp_all add: spu_ok_defs\<close>)
  have sb: "accessed h s ?b" by (rule accessed_trans [OF a(2) b])
  show ?thesis using a(1) sb accessed_trans [OF sb late_irq_accessed [OF accessed_ready [OF b]]]
    by (simp add: write_irq_address_def Let_def)
qed

lemma transfer_address_range:
  fixes v :: u16
  shows "(ucast v * 8 :: u32) < SPU_RAM_SIZE \<and> even (unat (ucast v * 8 :: u32))"
proof -
  have v: "unat v < 2 ^ LENGTH(16)" by (rule unsigned_less)
  then have "unat (ucast v :: u32) = unat v" by (simp add: unsigned_ucast_eq take_bit_nat_eq_self)
  then have "unat (ucast v * 8 :: u32) = unat v * 8" using v by (simp add: unat_word_ariths(2))
  then show ?thesis using v by (simp add: SPU_RAM_SIZE_def word_less_nat_alt)
qed

lemma transfer_address_returns:
  assumes "spu_hooks_ok \<mu> h" "spu_ready h s"
  shows "\<exists>t. write_transfer_address h v s = Some t \<and> accessed h s t"
proof -
  obtain a where a: "execute_transfer h INT32_MAX s = Some a" "accessed h s a" using transfer_accessed [OF assms] by blast
  let ?b = "upd_spu (\<lambda>p. p\<lparr>transfer_address_reg := v, transfer_address := ucast v * 8\<rparr>) a"
  have b: "accessed h a ?b"
    by (rule upd_accessed [OF accessed_ready [OF a(2)]])
      (use ready_ok [OF accessed_ready [OF a(2)]] transfer_address_range [of v] in \<open>simp_all add: spu_ok_defs\<close>)
  have "accessed h s (ram_irq_at (transfer_address (spu ?b)) ?b)"
    by (rule accessed_trans [OF accessed_trans [OF a(2) b] irq_at_accessed [OF accessed_ready [OF b]]])
  then show ?thesis using a(1) by (simp add: write_transfer_address_def Let_def)
qed

section \<open>All registers\<close>

lemma then_update_returns:
  assumes "spu_hooks_ok \<mu> h" "spu_ready h s" "current_event (timing s) \<noteq> Some SPU_TICK_EVENT"
    and f: "\<And>p. spu_ok p \<Longrightarrow> spu_ok (f p)" "\<And>p. SPUSTAT (f p) = SPUSTAT p" "\<And>p. cpu_tick_divider (f p) = cpu_tick_divider p"
  shows "\<exists>t. map_option (upd_spu f) (spu_generate_pending_samples h s) = Some t \<and> accessed h s t"
proof -
  obtain a where a: "spu_generate_pending_samples h s = Some a" "accessed h s a"
    using generate_pending_returns [OF assms(1-3)] by blast
  have "accessed h a (upd_spu f a)"
    by (rule upd_accessed [OF accessed_ready [OF a(2)]]) (use f ready_ok [OF accessed_ready [OF a(2)]] in simp_all)
  then show ?thesis using a(1) accessed_trans [OF a(2)] by simp
qed

lemma sampled_register_ok:
  assumes "(a, f) \<in> set (sampled_registers v)"
  shows "(spu_ok p \<longrightarrow> spu_ok (f p)) \<and> SPUSTAT (f p) = SPUSTAT p \<and> cpu_tick_divider (f p) = cpu_tick_divider p"
  using assms unfolding sampled_registers_def
  by (auto simp: spu_ok_defs Let_def sweep_ok_def [of "_\<lparr>current_level := _\<rparr>"])

lemma spu_write_returns:
  assumes a: "spu_hooks_ok \<mu> h" "spu_ready h s" "current_event (timing s) \<noteq> Some SPU_TICK_EVENT"
  shows "\<exists>t. spu_write_register h offset v s = Some t \<and> accessed h s t"
proof (cases "map_of (sampled_registers v) offset")
  case (Some f)
  note ok = sampled_register_ok [OF map_of_SomeD [OF Some]]
  show ?thesis using then_update_returns [OF a, of f] ok Some by (simp add: spu_write_register_def)
next
  case None
  have u: "accessed h s (upd_spu f s)" if "\<And>p. spu_ok p \<Longrightarrow> spu_ok (f p)" "\<And>p. SPUSTAT (f p) = SPUSTAT p"
      "\<And>p. cpu_tick_divider (f p) = cpu_tick_divider p" for f
    by (rule upd_accessed [OF a(2)]) (use that ready_ok [OF a(2)] in simp_all)
  have plain: "accessed h s (upd_spu (\<lambda>p. p\<lparr>spu_transfer_control := v\<rparr>) s)"
    "accessed h s (upd_spu (\<lambda>p. p\<lparr>external_volume_left := sint v\<rparr>) s)"
    "accessed h s (upd_spu (\<lambda>p. p\<lparr>external_volume_right := sint v\<rparr>) s)"
    by (rule u; simp add: spu_ok_defs)+
  have rv: "\<exists>t. write_reverb_register h n v s = Some t \<and> accessed h s t" for n
    unfolding write_reverb_register_def by (rule then_update_returns [OF a]) (simp_all add: spu_ok_defs)
  note cs = irq_address_returns [OF a, of v] transfer_address_returns [OF a(1,2), of v] manual_write_returns [OF a(1,2), of v]
    write_spu_control_returns [OF a, of v] write_voice_register_returns [OF a, of offset v] rv accessed_refl [OF a(2)]
  consider "offset = 0x1A4" | "offset = 0x1A6" | "offset = 0x1A8" | "offset = 0x1AA" | "offset = 0x1AC"
    | "offset = 0x1B4" | "offset = 0x1B6" | "offset \<notin> {0x1A4, 0x1A6, 0x1A8, 0x1AA, 0x1AC, 0x1B4, 0x1B6}" by blast
  then show ?thesis using None plain cs by cases (simp_all add: spu_write_register_def)
qed

lemma read_after_returns:
  assumes "spu_hooks_ok \<mu> h" "spu_ready h s" "current_event (timing s) \<noteq> Some SPU_TICK_EVENT"
  shows "\<exists>v t. read_after_samples h f s = Some (v, t) \<and> accessed h s t"
  using generate_pending_returns [OF assms] by (auto simp: read_after_samples_def)

lemma spu_read_returns:
  assumes a: "spu_hooks_ok \<mu> h" "spu_ready h s" "current_event (timing s) \<noteq> Some SPU_TICK_EVENT"
  shows "\<exists>v t. spu_read_register h offset s = Some (v, t) \<and> accessed h s t"
proof (cases "map_of (control_registers (spu s)) offset")
  case None
  then show ?thesis
    using read_after_returns [OF a] read_voice_register_returns [OF a, of offset] accessed_refl [OF a(2)]
    by (simp add: spu_read_register_def)
qed (simp add: spu_read_register_def accessed_refl [OF a(2)])

text \<open>A reset makes any state a sound one, if the interrupt flag it clears was the line's.\<close>

lemma voice_initial_ok [simp]: "voice_ok voice_initial"
  by (simp add: voice_initial_def voice_ok_def samples_linked_def sweep_ok_def sweep_zero_def)

lemma spu_state_reset_ok: "spu_ok (spu_state_reset p)" "SPUSTAT (spu_state_reset p) = 0"
  "cpu_tick_divider (spu_state_reset p) = cpu_tick_divider p"
  by (simp_all add: spu_state_reset_def spu_ok_defs sweep_ok_def sweep_zero_def SPU_RAM_SIZE_def)

lemma spu_reset_returns:
  assumes "has_queue s" "cpu_overclock_active (spu_settings h) \<longrightarrow> 0 < cpu_tick_divider (spu s) \<and> cpu_tick_divider (spu s) < 2 ^ 31"
  shows "\<exists>t. spu_reset s = Some t \<and> accessed h s t"
proof -
  let ?a = "upd_spu spu_state_reset s"
  have a: "accessed h s ?a" using assms spu_state_reset_ok by (simp add: accessed_def spu_ready_def spu_sound_def)
  obtain xs where q: "sched_queue ?a xs" using accessed_ready [OF a] by (auto simp: spu_ready_def spu_sound_def has_queue_def)
  obtain b where b: "timing_event_deactivate SPU_TICK_EVENT ?a = Some b" "sched_queue b (remove1 SPU_TICK_EVENT xs)" "sched_env ?a b"
    using deactivate_queue [OF q, of SPU_TICK_EVENT] by blast
  have ab: "accessed h ?a b" by (rule env_accessed [OF accessed_ready [OF a] b(3)]) (use b(2) in \<open>auto simp: has_queue_def\<close>)
  show ?thesis using b(1) event_interval_returns [OF accessed_ready [OF ab]] accessed_trans [OF accessed_trans [OF a ab]]
    by (auto simp: spu_reset_def)
qed

end
