(* ===== verification/Spu_Memory.thy ===== *)
theory Spu_Memory
  imports Spu_Registers
begin

text \<open>
  What the unit's RAM holds after a transfer: half-words go to consecutive even addresses, with the
  wrap at the end of RAM, and come back from there.
\<close>

section \<open>Runs of half-words\<close>

definition next_halfword :: "u32 \<Rightarrow> u32" where
  "next_halfword a = (a + 2) AND SPU_RAM_MASK"

fun ram_stored :: "u32 \<Rightarrow> u16 list \<Rightarrow> (nat \<Rightarrow> u8) \<Rightarrow> (nat \<Rightarrow> u8)" where
  "ram_stored a [] r = r"
| "ram_stored a (v # vs) r = ram_stored (next_halfword a) vs (spu_store16 a v r)"

fun loaded :: "u32 \<Rightarrow> nat \<Rightarrow> (nat \<Rightarrow> u8) \<Rightarrow> u16 list" where
  "loaded a 0 r = []"
| "loaded a (Suc n) r = spu_load16 r a # loaded (next_halfword a) n r"

definition ram_address :: "u32 \<Rightarrow> bool" where
  "ram_address a \<longleftrightarrow> unat a < 0x80000 \<and> even (unat a)"

lemma next_halfword_address:
  assumes "ram_address a"
  shows "ram_address (next_halfword a)" "unat (next_halfword a) = (unat a + 2) mod 0x80000"
proof -
  have m: "SPU_RAM_MASK = mask 19" by (simp add: spu_consts mask_eq_exp_minus_1)
  have "unat (a + 2) = unat a + 2" using assms by (simp add: ram_address_def unat_word_ariths(1))
  then show n: "unat (next_halfword a) = (unat a + 2) mod 0x80000" unfolding next_halfword_def m unat_and_mask by simp
  show "ram_address (next_halfword a)" using assms by (simp add: ram_address_def n dvd_mod)
qed

lemma load_store_same: "spu_load16 (spu_store16 a v r) a = v"
proof (rule bit_word_eqI)
  fix n assume "n < LENGTH(16)"
  then show "bit (spu_load16 (spu_store16 a v r) a) n = bit v n"
    by (auto simp: spu_load16_def spu_store16_def bit_simps)
qed

lemma load_store_other:
  "\<lbrakk>ram_address a; ram_address b; a \<noteq> b\<rbrakk> \<Longrightarrow> spu_load16 (spu_store16 b v r) a = spu_load16 r a"
proof -
  assume ab: "ram_address a" "ram_address b" "a \<noteq> b"
  have "unat a \<noteq> unat b"
  proof
    assume "unat a = unat b"
    then have "of_nat (unat a) = (of_nat (unat b) :: u32)" by simp
    then show False using ab(3) by simp
  qed
  moreover have "unat a \<noteq> Suc (unat b)" "Suc (unat a) \<noteq> unat b"
    using ab(1,2) unfolding ram_address_def by (metis even_Suc)+
  ultimately show ?thesis by (simp add: spu_load16_def spu_store16_def)
qed

text \<open>The addresses of a run.\<close>

fun run_addresses :: "u32 \<Rightarrow> nat \<Rightarrow> u32 list" where
  "run_addresses a 0 = []"
| "run_addresses a (Suc n) = a # run_addresses (next_halfword a) n"

lemma run_address_nth:
  "\<lbrakk>ram_address a; i < n\<rbrakk> \<Longrightarrow> unat (run_addresses a n ! i) = (unat a + 2 * i) mod 0x80000 \<and> ram_address (run_addresses a n ! i)"
proof (induction n arbitrary: a i)
  case (Suc n)
  note na = next_halfword_address [OF Suc.prems(1)]
  show ?case
  proof (cases i)
    case 0
    then show ?thesis using Suc.prems(1) by (simp add: ram_address_def)
  next
    case (Suc j)
    then show ?thesis using Suc.IH [OF na(1), of j] Suc.prems(2) na(2) by (simp add: mod_simps)
  qed
qed simp

lemma run_length [simp]: "List.length (run_addresses a n) = n"
  by (induction n arbitrary: a) simp_all

lemma run_set: "ram_address a \<Longrightarrow> x \<in> set (run_addresses a n) \<Longrightarrow> ram_address x"
  using run_address_nth by (auto simp: in_set_conv_nth)

lemma run_distinct: "\<lbrakk>ram_address a; n \<le> 0x40000\<rbrakk> \<Longrightarrow> distinct (run_addresses a n)"
proof -
  assume a: "ram_address a" "n \<le> 0x40000"
  have "i = j" if ij: "i < n" "j < n" and e: "run_addresses a n ! i = run_addresses a n ! j" for i j
  proof -
    have "(unat a + 2 * i) mod 0x80000 = (unat a + 2 * j) mod 0x80000"
      using run_address_nth [OF a(1) ij(1)] run_address_nth [OF a(1) ij(2)] e by simp
    then have "(2 * i) mod 0x80000 = (2 * j) mod (0x80000 :: nat)" by (simp add: nat_mod_eq_iff)
    then show ?thesis using ij a(2) by simp
  qed
  then show ?thesis by (simp add: distinct_conv_nth) blast
qed

lemma stored_other:
  "\<lbrakk>ram_address a; ram_address b; b \<notin> set (run_addresses a (List.length vs))\<rbrakk> \<Longrightarrow>
     spu_load16 (ram_stored a vs r) b = spu_load16 r b"
proof (induction vs arbitrary: a r)
  case (Cons v vs)
  then show ?case using next_halfword_address(1) [OF Cons.prems(1)] by (simp add: load_store_other)
qed simp

lemma loaded_cong:
  "(\<And>x. x \<in> set (run_addresses a n) \<Longrightarrow> spu_load16 r x = spu_load16 q x) \<Longrightarrow> loaded a n r = loaded a n q"
  by (induction n arbitrary: a) simp_all

lemma stored_head:
  assumes "ram_address a" "List.length (v # vs) \<le> 0x40000"
  shows "spu_load16 (ram_stored a (v # vs) r) a = v"
proof -
  have "a \<notin> set (run_addresses (next_halfword a) (List.length vs))"
    using run_distinct [OF assms(1), of "Suc (List.length vs)"] assms(2) by simp
  then show ?thesis using stored_other [OF next_halfword_address(1) [OF assms(1)] assms(1)]
    by (simp add: load_store_same)
qed

lemma loaded_stored:
  "\<lbrakk>ram_address a; List.length vs \<le> 0x40000\<rbrakk> \<Longrightarrow> loaded a (List.length vs) (ram_stored a vs r) = vs"
proof (induction vs arbitrary: a r)
  case (Cons v vs)
  have "loaded (next_halfword a) (List.length vs) (ram_stored (next_halfword a) vs (spu_store16 a v r)) = vs"
    using Cons next_halfword_address(1) [OF Cons.prems(1)] by simp
  then show ?case using stored_head [OF Cons.prems] by simp
qed simp

lemma take_loaded: "k \<le> n \<Longrightarrow> take k (loaded a n r) = loaded a k r"
  by (induction k arbitrary: a n) (auto simp: Suc_le_eq gr0_conv_Suc Suc_le_D elim!: less_natE)

lemma length_loaded [simp]: "List.length (loaded a n r) = n"
  by (induction n arbitrary: a) simp_all

section \<open>The steps and their loops\<close>

text \<open>What a transfer reads and writes.\<close>

definition xfer where
  "xfer p = (spu_ram p, transfer_address p, transfer_fifo p, SPUCNT p, spu_ticks_carry p)"

lemma irq_at_xfer [simp]: "xfer (spu (ram_irq_at a s)) = xfer (spu s)"
  by (simp add: ram_irq_at_def xfer_def put_stat_def)

lemma xfer_fields:
  assumes "xfer p = (r, a, f, c, k)"
  shows "spu_ram p = r" "transfer_address p = a" "transfer_fifo p = f" "SPUCNT p = c" "spu_ticks_carry p = k"
  using assms by (simp_all add: xfer_def)

lemma spu_fifo_empty_list: "spu_fifo_empty f \<longleftrightarrow> fifo_list 32 f = []"
  by (simp add: spu_fifo_empty_def fifo_list_def unat_eq_0)

lemma write_step_xfer:
  assumes "xfer (spu s) = (r, a, f, c, k)" "spu_fifo_pop f = (v, g)"
  shows "xfer (spu (fifo_write_step s)) = (spu_store16 a v r, next_halfword a, g, c, k)"
  using assms by (simp add: fifo_write_step_def Let_def store_transfer_def advance_transfer_address_def next_halfword_def)
    (simp add: xfer_def)

lemma read_step_xfer:
  assumes "xfer (spu s) = (r, a, f, c, k)"
  shows "xfer (spu (fifo_read_step s)) = (r, next_halfword a, spu_fifo_push f (spu_load16 r a), c, k)"
  using assms by (simp add: fifo_read_step_def Let_def advance_transfer_address_def next_halfword_def)
    (simp add: xfer_def)

lemma exec_write_xfer:
  "\<lbrakk>xfer (spu s) = (r, a, f, c, k); fifo_ok 32 f; fifo_list 32 f = hs; 16 * int (List.length hs) \<le> ticks\<rbrakk> \<Longrightarrow>
     \<exists>b g. xfer (spu (snd (execute_fifo_write_to_ram ticks s))) = (ram_stored a hs r, b, g, c, k) \<and>
       fifo_ok 32 g \<and> fifo_list 32 g = []"
proof (induction hs arbitrary: s r a f ticks)
  case Nil
  then have "spu_fifo_empty (transfer_fifo (spu s))" using xfer_fields(3) [OF Nil.prems(1)]
    by (simp add: spu_fifo_empty_list)
  then have "execute_fifo_write_to_ram ticks s = (ticks, s)" using writing.exec_eq [of ticks s] by simp
  then show ?case using Nil.prems by simp
next
  case (Cons v hs)
  obtain w g where g: "spu_fifo_pop f = (w, g)" by fastforce
  have l: "unat (fifo_size f) = Suc (List.length hs)" using arg_cong [OF Cons.prems(3), of List.length] by simp
  then have ne: "fifo_size f \<noteq> 0" by auto
  note pop = spu_ring.pop_refines [OF Cons.prems(2) ne]
  have w: "w = v" "fifo_list 32 g = hs" "fifo_ok 32 g" using pop Cons.prems(3) g by simp_all
  have "\<not> spu_fifo_empty (transfer_fifo (spu s))" using xfer_fields(3) [OF Cons.prems(1)] ne by (simp add: spu_fifo_empty_def)
  then have e: "execute_fifo_write_to_ram ticks s = execute_fifo_write_to_ram (ticks - 16) (fifo_write_step s)"
    using writing.exec_eq [of ticks s] Cons.prems(4) by simp
  have "16 * int (List.length hs) \<le> ticks - 16" using Cons.prems(4) by simp
  from Cons.IH [OF write_step_xfer [OF Cons.prems(1) g] w(3,2) this] show ?case unfolding e by (simp add: w(1))
qed

lemma exec_read_xfer:
  "\<lbrakk>xfer (spu s) = (r, a, f, c, k); fifo_ok 32 f; List.length (fifo_list 32 f) + n = 32; 16 * int n \<le> ticks\<rbrakk> \<Longrightarrow>
     \<exists>b g. xfer (spu (snd (execute_fifo_read_from_ram ticks s))) = (r, b, g, c, k) \<and>
       fifo_ok 32 g \<and> fifo_list 32 g = fifo_list 32 f @ loaded a n r"
proof (induction n arbitrary: s a f ticks)
  case 0
  then have "spu_fifo_full (transfer_fifo (spu s))" using xfer_fields(3) [OF "0.prems"(1)] by (simp add: spu_fifo_full_size)
  then have "execute_fifo_read_from_ram ticks s = (ticks, s)" using reading.exec_eq [of ticks s] by simp
  then show ?case using "0.prems" by simp
next
  case (Suc n)
  have l: "unat (fifo_size f) < 32" using Suc.prems(3) by simp
  note push = spu_ring.push_refines [OF Suc.prems(2) l, of "spu_load16 r a"]
  have "\<not> spu_fifo_full (transfer_fifo (spu s))" using xfer_fields(3) [OF Suc.prems(1)] l by (simp add: spu_fifo_full_size)
  then have e: "execute_fifo_read_from_ram ticks s = execute_fifo_read_from_ram (ticks - 16) (fifo_read_step s)"
    using reading.exec_eq [of ticks s] Suc.prems(4) by simp
  have "List.length (fifo_list 32 (spu_fifo_push f (spu_load16 r a))) + n = 32" using push(2) Suc.prems(3) by simp
  moreover have "16 * int n \<le> ticks - 16" using Suc.prems(4) by simp
  ultimately show ?case using Suc.IH [OF read_step_xfer [OF Suc.prems(1)] push(1)] push(2) unfolding e by simp
qed

section \<open>Operations\<close>

text \<open>The controller only notes the request: its channel is not armed, or the CPU goes on first.\<close>

definition request_noted :: "('a spu_sys_scheme) spu_hooks \<Rightarrow> bool" where
  "request_noted h \<longleftrightarrow> (\<forall>ch b s. \<exists>t. spu_dma_set_request h ch b s = Some t \<and> spu t = spu s)"

lemma noted_update:
  assumes "request_noted h"
  shows "\<exists>t. update_dma_request h s = Some t \<and> xfer (spu t) = xfer (spu s)"
proof -
  let ?rd = "transfer_mode (spu s) = RAM_TRANSFER_DMA_READ \<and> spu_fifo_full (transfer_fifo (spu s))"
  let ?wr = "transfer_mode (spu s) = RAM_TRANSFER_DMA_WRITE \<and> spu_fifo_empty (transfer_fifo (spu s))"
  obtain t where t: "spu_dma_set_request h SPU_DMA_CHANNEL_INDEX (?rd \<or> ?wr)
      (upd_spu (put_stat 7 (?rd \<or> ?wr) \<circ> put_stat 9 ?wr \<circ> put_stat 8 ?rd) s) = Some t"
    "spu t = spu (upd_spu (put_stat 7 (?rd \<or> ?wr) \<circ> put_stat 9 ?wr \<circ> put_stat 8 ?rd) s)"
    using assms unfolding request_noted_def by blast
  have "xfer (spu t) = xfer (spu s)" unfolding t(2) by (simp add: xfer_def put_stat_def)
  then show ?thesis using t(1) by (simp add: update_dma_request_def Let_def)
qed

lemma event_xfer [simp]: "xfer (spu (update_transfer_event s)) = xfer (spu s)"
  by (simp add: update_transfer_event_def xfer_def put_stat_def)

lemma no_pending_frames:
  "\<lbrakk>\<not> cpu_overclock_active (spu_settings h); spu_ticks_carry (spu s) < SYSCLK_TICKS_PER_SPU_TICK\<rbrakk> \<Longrightarrow>
     internal_generate_pending_samples h s = Some s"
  by (simp add: internal_generate_pending_samples.simps [of h s])

lemma drain_fifo:
  assumes h: "request_noted h" "\<not> cpu_overclock_active (spu_settings h)" and k: "k < SYSCLK_TICKS_PER_SPU_TICK"
    and x: "xfer (spu s) = (r, a, f, c, k)" and f: "fifo_ok 32 f"
    and c: "spucnt_transfer_mode c \<in> {RAM_TRANSFER_MANUAL_WRITE, RAM_TRANSFER_DMA_WRITE}"
  shows "\<exists>t b g. execute_transfer h INT32_MAX s = Some t \<and> xfer (spu t) = (ram_stored a (fifo_list 32 f) r, b, g, c, k) \<and>
    fifo_ok 32 g \<and> fifo_list 32 g = []"
proof -
  note xf = xfer_fields [OF x]
  have m: "transfer_mode (spu s) \<noteq> RAM_TRANSFER_STOPPED" "transfer_mode (spu s) \<noteq> RAM_TRANSFER_DMA_READ"
    using c xf(4) by (auto simp: transfer_mode_def)
  have i: "internal_generate_pending_samples h s = Some s" using h(2) k xf(5) by (simp add: no_pending_frames)
  have "List.length (fifo_list 32 f) \<le> 32" using f by (simp add: fifo_ok_def)
  then have n: "16 * int (List.length (fifo_list 32 f)) \<le> INT32_MAX" unfolding INT32_MAX_def by linarith
  let ?e = "snd (execute_fifo_write_to_ram INT32_MAX s)"
  obtain b g where e: "xfer (spu ?e) = (ram_stored a (fifo_list 32 f) r, b, g, c, k)" "fifo_ok 32 g" "fifo_list 32 g = []"
    using exec_write_xfer [OF x f refl n] by blast
  obtain u where u: "update_dma_request h ?e = Some u" "xfer (spu u) = xfer (spu ?e)" using noted_update [OF h(1)] by blast
  have stop: "transfer_write_loop h j u = Some u" for j
  proof -
    have "spu_fifo_empty (transfer_fifo (spu u))"
      using u(2) e(1,3) xfer_fields(3) [of "spu u"] by (simp add: spu_fifo_empty_list)
    then show ?thesis using writing.run_eq [of h j u] by simp
  qed
  have "\<exists>v b g. transfer_write_loop h INT32_MAX s = Some v \<and>
      xfer (spu v) = (ram_stored a (fifo_list 32 f) r, b, g, c, k) \<and> fifo_ok 32 g \<and> fifo_list 32 g = []"
  proof (cases "spu_fifo_empty (transfer_fifo (spu s))")
    case True
    then have l: "fifo_list 32 f = []" using xf(3) by (simp add: spu_fifo_empty_list)
    have "transfer_write_loop h INT32_MAX s = Some s" using True writing.run_eq [of h INT32_MAX s] by simp
    then show ?thesis using x f l by (intro exI [of _ s] exI [of _ a] exI [of _ f]) simp
  next
    case False
    then have "transfer_write_loop h INT32_MAX s = Some u"
      using writing.run_eq [of h INT32_MAX s] u(1) stop by (simp add: INT32_MAX_def)
    then show ?thesis using u(2) e by (intro exI [of _ u] exI [of _ b] exI [of _ g]) simp
  qed
  then obtain v b' g' where v: "transfer_write_loop h INT32_MAX s = Some v"
    "xfer (spu v) = (ram_stored a (fifo_list 32 f) r, b', g', c, k)" "fifo_ok 32 g'" "fifo_list 32 g' = []" by blast
  then have "execute_transfer h INT32_MAX s = Some (update_transfer_event v)"
    using m i by (simp add: execute_transfer_def Let_def)
  then show ?thesis using v by (intro exI [of _ "update_transfer_event v"]) simp
qed

lemma fill_fifo:
  assumes h: "request_noted h" "\<not> cpu_overclock_active (spu_settings h)" and k: "k < SYSCLK_TICKS_PER_SPU_TICK"
    and x: "xfer (spu s) = (r, a, f, c, k)" and f: "fifo_ok 32 f" "fifo_list 32 f = []"
    and c: "spucnt_transfer_mode c = RAM_TRANSFER_DMA_READ"
  shows "\<exists>t b g. execute_transfer h INT32_MAX s = Some t \<and> xfer (spu t) = (r, b, g, c, k) \<and>
    fifo_ok 32 g \<and> fifo_list 32 g = loaded a 32 r"
proof -
  note xf = xfer_fields [OF x]
  have m: "transfer_mode (spu s) = RAM_TRANSFER_DMA_READ" using c xf(4) by (simp add: transfer_mode_def)
  have i: "internal_generate_pending_samples h s = Some s" using h(2) k xf(5) by (simp add: no_pending_frames)
  let ?e = "snd (execute_fifo_read_from_ram INT32_MAX s)"
  obtain b g where e: "xfer (spu ?e) = (r, b, g, c, k)" "fifo_ok 32 g" "fifo_list 32 g = loaded a 32 r"
    using exec_read_xfer [OF x f(1), of 32 INT32_MAX] f(2) by (auto simp: INT32_MAX_def)
  obtain u where u: "update_dma_request h ?e = Some u" "xfer (spu u) = xfer (spu ?e)" using noted_update [OF h(1)] by blast
  have "unat (fifo_size g) = 32" using arg_cong [OF e(3), of List.length] by simp
  then have full: "spu_fifo_full (transfer_fifo (spu u))" using u(2) e(1) xfer_fields(3) [of "spu u"] by (simp add: spu_fifo_full_size)
  have "unat (fifo_size f) = 0" using arg_cong [OF f(2), of List.length] by simp
  then have "\<not> spu_fifo_full (transfer_fifo (spu s))" using xf(3) by (simp add: spu_fifo_full_size)
  then have "transfer_read_loop h INT32_MAX s = Some u"
    using reading.run_eq [of h INT32_MAX s] reading.run_eq [of h _ u] u(1) full by (simp add: INT32_MAX_def)
  then have "execute_transfer h INT32_MAX s = Some (update_transfer_event u)" using m i by (simp add: execute_transfer_def Let_def)
  then show ?thesis using u(2) e by (intro exI [of _ "update_transfer_event u"]) simp
qed

section \<open>Words\<close>

lemma word_halves_nth:
  "i < List.length ws \<Longrightarrow> word_halves ws ! (2 * i) = ucast (ws ! i) \<and> word_halves ws ! (2 * i + 1) = ucast (drop_bit 16 (ws ! i))"
proof (induction ws arbitrary: i)
  case (Cons w ws)
  then show ?case by (cases i) (simp_all add: word_halves_def)
qed simp

lemma halves_join: "(ucast (ucast w :: u16) :: u32) OR push_bit 16 (ucast (ucast (drop_bit 16 w) :: u16)) = w"
  by (rule bit_word_eqI) (auto simp: bit_simps)

lemma word_halves_length: "List.length (word_halves ws) = 2 * List.length ws"
  by (induction ws) (simp_all add: word_halves_def)

lemma words_of_halves:
  assumes "take (2 * List.length ws) hs = word_halves ws" "List.length ws \<le> n"
  shows "take (List.length ws) (spu_halves_words hs n) = ws"
proof (rule nth_equalityI)
  show "List.length (take (List.length ws) (spu_halves_words hs n)) = List.length ws"
    using assms(2) by (simp add: spu_halves_words_def)
  fix i assume "i < List.length (take (List.length ws) (spu_halves_words hs n))"
  then have i: "i < List.length ws" by simp
  have "hs ! j = word_halves ws ! j" if "j < 2 * List.length ws" for j using that nth_take [of j "2 * List.length ws" hs] assms(1) by simp
  then have "hs ! (2 * i) = ucast (ws ! i)" "hs ! (2 * i + 1) = ucast (drop_bit 16 (ws ! i))"
    using word_halves_nth [OF i] i by simp_all
  then show "take (List.length ws) (spu_halves_words hs n) ! i = ws ! i"
    using i assms(2) halves_join [of "ws ! i"] by (simp add: spu_halves_words_def)
qed

lemma dma_round_trip_spu:
  assumes h: "request_noted h" "\<not> cpu_overclock_active (spu_settings h)"
    and s: "fifo_ok 32 (transfer_fifo (spu s))" "fifo_list 32 (transfer_fifo (spu s)) = []"
      "spu_ticks_carry (spu s) < SYSCLK_TICKS_PER_SPU_TICK" "transfer_mode (spu s) = RAM_TRANSFER_DMA_WRITE"
      "transfer_address (spu s) = ucast v * 8"
    and c: "spucnt_transfer_mode c = RAM_TRANSFER_DMA_READ" and n: "List.length ws \<le> 16"
  shows "\<exists>s1 s2 s3 rs s4. spu_dma_write h ws s = Some s1 \<and> write_transfer_address h v s1 = Some s2 \<and>
    execute_transfer h INT32_MAX (upd_spu (put_control c) s2) = Some s3 \<and>
    spu_dma_read h 16 s3 = Some (rs, s4) \<and> take (List.length ws) rs = ws"
proof -
  let ?p = "spu s" and ?f = "transfer_fifo (spu s)" and ?hs = "word_halves ws" and ?a = "ucast v * 8 :: u32"
  let ?r = "spu_ram ?p" and ?k = "spu_ticks_carry ?p"
  have z: "unat (fifo_size ?f) = 0" using arg_cong [OF s(2), of List.length] by simp
  then have "unat (spu_fifo_space ?f) = 32" by (simp add: spu_fifo_space_def FIFO_SIZE_IN_HALFWORDS_def unat_eq_0)
  then have tk: "take (unat (spu_fifo_space ?f)) ?hs = ?hs" using n by (simp add: word_halves_length)
  let ?f1 = "spu_fifo_push_range ?f ?hs"
  have f1: "fifo_ok 32 ?f1" "fifo_list 32 ?f1 = ?hs" using spu_push_range [OF s(1), of ?hs] z n s(2) by (simp_all add: word_halves_length)
  obtain t where t: "update_dma_request h (upd_spu (\<lambda>p. p\<lparr>transfer_fifo := ?f1\<rparr>) s) = Some t"
    "xfer (spu t) = xfer (?p\<lparr>transfer_fifo := ?f1\<rparr>)"
    using noted_update [OF h(1), of "upd_spu (\<lambda>p. p\<lparr>transfer_fifo := ?f1\<rparr>) s"] by auto
  let ?s1 = "update_transfer_event t"
  have s1: "spu_dma_write h ws s = Some ?s1" using t(1) tk by (simp add: spu_dma_write_def Let_def)
  have x1: "xfer (spu ?s1) = (?r, ?a, ?f1, SPUCNT ?p, ?k)" unfolding event_xfer t(2) by (simp add: xfer_def s(5))
  have m: "spucnt_transfer_mode (SPUCNT ?p) \<in> {RAM_TRANSFER_MANUAL_WRITE, RAM_TRANSFER_DMA_WRITE}"
    using s(4) by (simp add: transfer_mode_def)
  obtain t2 b g where t2: "execute_transfer h INT32_MAX ?s1 = Some t2"
    "xfer (spu t2) = (ram_stored ?a ?hs ?r, b, g, SPUCNT ?p, ?k)" "fifo_ok 32 g" "fifo_list 32 g = []"
    using drain_fifo [OF h s(3) x1 f1(1) m] f1(2) by auto
  let ?u = "upd_spu (\<lambda>p. p\<lparr>transfer_address_reg := v, transfer_address := ?a\<rparr>) t2"
  let ?s2 = "ram_irq_at (transfer_address (spu ?u)) ?u"
  have s2: "write_transfer_address h v ?s1 = Some ?s2" using t2(1) by (simp add: write_transfer_address_def Let_def)
  have "xfer (spu ?s2) = (ram_stored ?a ?hs ?r, ?a, g, SPUCNT ?p, ?k)" unfolding irq_at_xfer using t2(2) by (simp add: xfer_def)
  then have x2: "xfer (spu (upd_spu (put_control c) ?s2)) = (ram_stored ?a ?hs ?r, ?a, g, c, ?k)"
    using xfer_fields [of "spu ?s2"] by (simp add: xfer_def put_control_def Let_def)
  obtain s3 b' g' where s3: "execute_transfer h INT32_MAX (upd_spu (put_control c) ?s2) = Some s3"
    "xfer (spu s3) = (ram_stored ?a ?hs ?r, b', g', c, ?k)" "fifo_ok 32 g'" "fifo_list 32 g' = loaded ?a 32 (ram_stored ?a ?hs ?r)"
    using fill_fifo [OF h s(3) x2 t2(3,4) c] by blast
  have sz: "unat (fifo_size g') = 32" using arg_cong [OF s3(4), of List.length] by simp
  obtain hs' g2 where g2: "spu_fifo_pop_range 32 g' = (hs', g2)" by fastforce
  have hs': "hs' = loaded ?a 32 (ram_stored ?a ?hs ?r)"
    using spu_pop_range(1) [OF s3(3), of 32] g2 sz s3(4) by simp
  have a: "ram_address ?a" using transfer_address_range [of v] by (simp add: ram_address_def SPU_RAM_SIZE_def word_less_nat_alt)
  have "take (2 * List.length ws) hs' = loaded ?a (List.length ?hs) (ram_stored ?a ?hs ?r)"
    unfolding hs' using n by (simp add: take_loaded word_halves_length)
  also have "\<dots> = ?hs" using n by (intro loaded_stored [OF a]) (simp add: word_halves_length)
  finally have w: "take (List.length ws) (spu_halves_words hs' 16) = ws" using n by (intro words_of_halves)
  obtain t4 where t4: "update_dma_request h (upd_spu (\<lambda>p. p\<lparr>transfer_fifo := g2\<rparr>) s3) = Some t4"
    using noted_update [OF h(1)] by blast
  have "transfer_fifo (spu s3) = g'" using s3(2) by (rule xfer_fields)
  then have "spu_dma_read h 16 s3 = Some (spu_halves_words hs' 16, update_transfer_event t4)"
    using sz g2 t4 by (simp add: spu_dma_read_def Let_def)
  then show ?thesis using s1 s2 s3(1) w by blast
qed

section \<open>The read port past the end\<close>

lemma pop_range_count: "fifo_size (snd (spu_fifo_pop_range n f)) = fifo_size f - of_nat n"
proof (induction n arbitrary: f)
  case (Suc n)
  obtain vs g where "spu_fifo_pop_range n (snd (spu_fifo_pop f)) = (vs, g)" by fastforce
  then show ?case using Suc.IH [of "snd (spu_fifo_pop f)"] by (simp add: spu_fifo_pop_def algebra_simps)
qed simp

lemma negative_wraps: "\<lbrakk>0 < d; d \<le> 32\<rbrakk> \<Longrightarrow> 2 ^ 32 - 32 \<le> unat (- of_nat d :: u32)"
proof -
  assume d: "0 < d" "d \<le> 32"
  have "uint (of_nat d :: u32) = int d" using d(2) by (simp add: unsigned_of_nat take_bit_nat_eq_self)
  then have "int (unat (- of_nat d :: u32)) = (- int d) mod 2 ^ 32" by (simp add: uint_word_ariths)
  also have "\<dots> = 2 ^ 32 - int d" using d by (simp add: zmod_zminus1_eq_if mod_pos_pos_trivial)
  finally have "int (2 ^ 32 - 32) \<le> int (unat (- of_nat d :: u32))" using d(2) by simp
  then show ?thesis by (simp only: of_nat_le_iff)
qed

lemma dma_read_past_end:
  assumes "request_noted h" "n \<le> unat (fifo_size (transfer_fifo (spu s)))" "unat (fifo_size (transfer_fifo (spu s))) < 2 * n"
    "fifo_ok 32 (transfer_fifo (spu s))"
  shows "\<exists>ws t. spu_dma_read h n s = Some (ws, t) \<and> 2 ^ 32 - 32 \<le> unat (fifo_size (transfer_fifo (spu t)))"
proof -
  let ?f = "transfer_fifo (spu s)"
  obtain hs g where g: "spu_fifo_pop_range (n * 2) ?f = (hs, g)" by fastforce
  obtain t where t: "update_dma_request h (upd_spu (\<lambda>p. p\<lparr>transfer_fifo := g\<rparr>) s) = Some t"
    "xfer (spu t) = xfer (spu (upd_spu (\<lambda>p. p\<lparr>transfer_fifo := g\<rparr>) s))"
    using noted_update [OF assms(1)] by blast
  have sz: "unat (fifo_size ?f) \<le> 32" using assms(4) by (simp add: fifo_ok_def)
  have "fifo_size g = fifo_size ?f - of_nat (n * 2)" using pop_range_count [of "n * 2" ?f] g by simp
  moreover obtain d where d: "n * 2 = unat (fifo_size ?f) + d" "0 < d" "d \<le> 32"
  proof (rule that)
    show "n * 2 = unat (fifo_size ?f) + (n * 2 - unat (fifo_size ?f))" "0 < n * 2 - unat (fifo_size ?f)"
      "n * 2 - unat (fifo_size ?f) \<le> 32" using assms(2,3) sz by linarith+
  qed
  ultimately have "fifo_size g = - of_nat d" by simp
  then have "2 ^ 32 - 32 \<le> unat (fifo_size g)" using negative_wraps [OF d(2,3)] by simp
  moreover have "transfer_fifo (spu (update_transfer_event t)) = g"
    using t(2) event_xfer [of t] by (simp add: xfer_def)
  moreover have "spu_dma_read h n s = Some (spu_halves_words hs n, update_transfer_event t)"
    using assms(2) g t(1) by (simp add: spu_dma_read_def Let_def)
  ultimately show ?thesis by blast
qed

section \<open>The address interrupt\<close>

lemma manual_write_interrupts:
  assumes "spu_fifo_empty (transfer_fifo (spu s))" "is_ram_irq_triggerable (spu s)"
    "next_halfword (transfer_address (spu s)) = ucast (spu_irq_address (spu s)) * 8"
  shows "\<exists>t. manual_transfer_write h v s = Some t \<and> bit (SPUSTAT (spu t)) 6 \<and> irq_line_high t SPU_IRQ_INDEX \<and>
    (\<not> irq_line_high s SPU_IRQ_INDEX \<longrightarrow> irq_pending t SPU_IRQ_INDEX) \<and>
    spu_load16 (spu_ram (spu t)) (transfer_address (spu s)) = v"
proof -
  let ?u = "upd_spu (store_transfer v) s"
  let ?q = "store_transfer v (spu s)"
  have f: "transfer_address ?q = next_halfword (transfer_address (spu s))" "SPUCNT ?q = SPUCNT (spu s)"
    "SPUSTAT ?q = SPUSTAT (spu s)" "spu_irq_address ?q = spu_irq_address (spu s)"
    "spu_ram ?q = spu_store16 (transfer_address (spu s)) v (spu_ram (spu s))"
    by (simp_all add: store_transfer_def advance_transfer_address_def next_halfword_def)
  have c: "is_ram_irq_triggerable (spu ?u) \<and> check_ram_irq (spu ?u) (transfer_address (spu ?u))"
    using assms(2,3) by (simp add: is_ram_irq_triggerable_def check_ram_irq_def f)
  then have t: "manual_transfer_write h v s = Some (trigger_ram_irq ?u)"
    using assms(1) by (simp add: manual_transfer_write_def Let_def ram_irq_at_def)
  have "irq_line_high (trigger_ram_irq ?u) SPU_IRQ_INDEX"
    by (simp add: trigger_ram_irq_def set_line_state_line spu_irq_range)
  moreover have "irq_pending (trigger_ram_irq ?u) SPU_IRQ_INDEX" if "\<not> irq_line_high s SPU_IRQ_INDEX"
    using that by (simp add: trigger_ram_irq_def set_line_state_pending spu_irq_range)
  moreover have "spu_load16 (spu_ram (spu (trigger_ram_irq ?u))) (transfer_address (spu s)) = v"
    by (simp add: trigger_ram_irq_def put_stat_def f(5) load_store_same)
  ultimately show ?thesis using t by simp
qed

end
