(* ===== verification/Spu_Attack.thy ===== *)
theory Spu_Attack
  imports Spu_Voice_Props
begin

text \<open>
  A voice that is keyed on leaves its attack after finitely many samples, at full level, for every
  rate at which the envelope moves.
\<close>

lemma unat_widen: "unat (ucast w :: u32) = unat w" for w :: u16
proof -
  have "unat w < 2 ^ LENGTH(16)" by (rule unsigned_less)
  then have "unat w < 2 ^ 32" by simp
  then show ?thesis by (simp add: unsigned_ucast_eq take_bit_nat_eq_self)
qed

lemma lex_measure: "\<lbrakk>(a + 1) * k \<le> b * k; x < k\<rbrakk> \<Longrightarrow> a * k + x < b * k + y" for a b k x y :: nat
  by (simp add: add_mult_distrib)

section \<open>One tick\<close>

lemma attack_ok_rate: "rate < 0x80 \<Longrightarrow> attack_ok rate"
proof -
  assume "rate < 0x80"
  then have r: "unat rate < 128" by (simp add: word_less_nat_alt)
  have "\<forall>n<128. attack_ok (word_of_nat n)" using attack_table by (simp add: list_all_iff)
  from this [rule_format, OF r] show ?thesis by simp
qed

lemma attack_envelope_exponential: "attack_envelope rate ex = (attack_envelope rate False)\<lparr>exponential := ex\<rparr>"
  by (simp add: attack_envelope_def volume_envelope_reset_def Let_def)

text \<open>The rates that never stop: any but the last, and below 100 when exponential.\<close>

definition attack_moves :: "u8 \<Rightarrow> bool \<Rightarrow> bool" where
  "attack_moves rate ex \<longleftrightarrow> rate < 0x7F \<and> (ex \<longrightarrow> rate < 100)"

lemma attack_moves_rate: "attack_moves rate ex \<Longrightarrow> rate < 0x80 \<and> rate \<noteq> 0x7F"
  by (auto simp: attack_moves_def word_less_nat_alt)

lemma attack_rates:
  assumes "attack_moves rate ex"
  defines "e \<equiv> attack_envelope rate ex"
  shows "1 \<le> fst (envelope_rates (e\<lparr>env_counter := c\<rparr>) level)" "fst (envelope_rates (e\<lparr>env_counter := c\<rparr>) level) \<le> 0x7FFF"
    "1 \<le> snd (envelope_rates (e\<lparr>env_counter := c\<rparr>) level)" "snd (envelope_rates (e\<lparr>env_counter := c\<rparr>) level) \<le> 0x8000"
proof -
  note mv = attack_moves_rate [OF assms(1)]
  then have ok: "4 \<le> env_step e" "env_step e \<le> 0x7FFF" "counter_increment e \<le> 0x8000" "1 \<le> counter_increment e"
    "rate < 100 \<Longrightarrow> 4 \<le> counter_increment e" "rate < 44 \<Longrightarrow> counter_increment e = 0x8000"
    "env_rate e = rate" "exponential e = ex" "\<not> decreasing e"
    using attack_ok_rate [of rate] by (simp_all add: attack_ok_def Let_def e_def attack_envelope_exponential [of rate ex])
  have s: "1 \<le> drop_bit 2 (env_step e)" "1 \<le> drop_bit 1 (env_step e)" "drop_bit 2 (env_step e) \<le> 0x7FFF"
    "drop_bit 1 (env_step e) \<le> 0x7FFF" using ok(1,2) by (simp_all add: drop_bit_eq_div)
  have u: "unat (ucast (counter_increment e) :: u32) = unat (counter_increment e)" by (rule unat_widen)
  have u4: "unat (drop_bit 2 (ucast (counter_increment e) :: u32)) = unat (counter_increment e) div 4"
    "unat (drop_bit 1 (ucast (counter_increment e) :: u32)) = unat (counter_increment e) div 2"
    by (simp_all add: unat_drop_bit_eq drop_bit_nat_def unat_widen)
  have n: "unat (counter_increment e) \<le> 0x8000" "1 \<le> unat (counter_increment e)"
    "rate < 100 \<Longrightarrow> 4 \<le> unat (counter_increment e)" "rate < 44 \<Longrightarrow> unat (counter_increment e) = 0x8000"
    using ok(3-6) by (simp_all add: word_le_nat_alt)
  have m: "ex \<Longrightarrow> rate < 100" using assms(1) by (simp add: attack_moves_def)
  show "1 \<le> fst (envelope_rates (e\<lparr>env_counter := c\<rparr>) level)" "fst (envelope_rates (e\<lparr>env_counter := c\<rparr>) level) \<le> 0x7FFF"
    using ok(1,2,9) s by (simp_all add: envelope_rates_def Let_def)
  show "1 \<le> snd (envelope_rates (e\<lparr>env_counter := c\<rparr>) level)" "snd (envelope_rates (e\<lparr>env_counter := c\<rparr>) level) \<le> 0x8000"
    using n u u4 m ok(7-9) by (auto simp: envelope_rates_def Let_def word_le_nat_alt word_less_nat_alt)
qed

lemma counter_carry:
  assumes "unat c < 0x8000" "1 \<le> i" "i \<le> (0x8000 :: u32)"
  shows "unat (c + i) = unat c + unat i" "(c + i) AND 0x8000 = 0 \<longleftrightarrow> unat (c + i) < 0x8000"
proof -
  have i: "unat i \<le> 0x8000" using assms(3) by (simp add: word_le_nat_alt)
  then show n: "unat (c + i) = unat c + unat i" using assms(1) by (simp add: unat_word_ariths(1))
  have b: "bit (c + i) 15 \<longleftrightarrow> odd ((unat c + unat i) div 2 ^ 15)"
  proof -
    have "bit (c + i) 15 \<longleftrightarrow> bit (unat (c + i)) 15" by (simp add: bit_unsigned_iff)
    then show ?thesis unfolding n bit_iff_odd .
  qed
  have "(c + i) AND 0x8000 = 0 \<longleftrightarrow> \<not> bit (c + i) 15"
    by (simp add: and_exp_eq_0_iff_not_bit [symmetric, where n = 15])
  also have "\<dots> \<longleftrightarrow> even ((unat c + unat i) div 2 ^ 15)" by (simp add: b)
  also have "\<dots> \<longleftrightarrow> unat c + unat i < 0x8000"
  proof -
    have "unat c + unat i < 2 * 2 ^ 15" using assms(1) i by simp
    then have "(unat c + unat i) div 2 ^ 15 < 2" by (simp add: less_mult_imp_div_less)
    then have "even ((unat c + unat i) div 2 ^ 15) \<longleftrightarrow> (unat c + unat i) div 2 ^ 15 = 0" by auto
    then show ?thesis by (simp add: div_eq_0_iff)
  qed
  finally show "(c + i) AND 0x8000 = 0 \<longleftrightarrow> unat (c + i) < 0x8000" by (simp add: n)
qed

text \<open>A tick advances the counter or raises the level.\<close>

lemma attack_tick:
  assumes "attack_moves rate ex" "unat c < 0x8000" "0 \<le> level" "level < 0x7FFF"
  obtains go d l where
    "volume_envelope_tick ((attack_envelope rate ex)\<lparr>env_counter := c\<rparr>) level =
       (go, (attack_envelope rate ex)\<lparr>env_counter := d\<rparr>, l)"
    "unat d < 0x8000" "level \<le> l" "l \<le> 0x7FFF" "l = level \<Longrightarrow> unat c < unat d"
proof -
  let ?e = "(attack_envelope rate ex)\<lparr>env_counter := c\<rparr>"
  obtain step inc where r: "envelope_rates ?e level = (step, inc)" by fastforce
  then have s: "1 \<le> step" "step \<le> 0x7FFF" "1 \<le> inc" "inc \<le> 0x8000"
    using attack_rates [OF assms(1), of c level] by simp_all
  note cc = counter_carry [OF assms(2) s(3,4)]
  have i: "1 \<le> unat inc" using s(3) by (simp add: word_le_nat_alt)
  show ?thesis
  proof (cases "unat (c + inc) < 0x8000")
    case True
    then show ?thesis using r cc assms(3,4) i by (intro that [of True "c + inc" level]) (simp_all add: volume_envelope_tick_def)
  next
    case False
    let ?n = "clamp_s32 (level + step) VOLUME_ENVELOPE_MIN_VOLUME VOLUME_ENVELOPE_MAX_VOLUME"
    have n: "level < ?n" "?n \<le> 0x7FFF" using s(1) assms(3,4) by (auto simp: clamp_s32_def volume_limits)
    have "to_s16 ?n = ?n" using n assms(3) by (intro to_s16_id) simp_all
    then show ?thesis using r cc False n s(1)
      by (intro that [of "?n \<noteq> VOLUME_ENVELOPE_MAX_VOLUME" 0 ?n]) (simp_all add: volume_envelope_tick_def Let_def)
  qed
qed

section \<open>The whole attack\<close>

definition attacking :: "u8 \<Rightarrow> bool \<Rightarrow> u32 \<Rightarrow> int \<Rightarrow> spu_voice \<Rightarrow> bool" where
  "attacking rate ex c level v \<longleftrightarrow> adsr_phase v = ADSR_PHASE_ATTACK \<and> adsr_target v = 0x7FFF \<and>
     adsr_envelope v = (attack_envelope rate ex)\<lparr>env_counter := c\<rparr> \<and> adsr_volume (voice_regs v) = level"

lemma keyed_attacking:
  "attacking (attack_rate (adsr (voice_regs v))) (bit (adsr (voice_regs v)) 15) 0 0 (voice_key_on v)"
  by (simp add: attacking_def voice_key_on_def voice_update_adsr_envelope_def set_adsr_volume_def attack_rate_def
      attack_envelope_def volume_envelope_reset_def Let_def)

lemma attack_step:
  assumes "attacking rate ex c level v" "attack_moves rate ex" "unat c < 0x8000" "0 \<le> level" "level < 0x7FFF"
  obtains "adsr_phase (voice_tick_adsr v) = ADSR_PHASE_DECAY" "adsr_volume (voice_regs (voice_tick_adsr v)) = 0x7FFF"
  | d l where "attacking rate ex d l (voice_tick_adsr v)" "unat d < 0x8000" "level \<le> l" "l < 0x7FFF"
      "l = level \<Longrightarrow> unat c < unat d"
proof -
  obtain go d l where t: "volume_envelope_tick ((attack_envelope rate ex)\<lparr>env_counter := c\<rparr>) level =
       (go, (attack_envelope rate ex)\<lparr>env_counter := d\<rparr>, l)"
    "unat d < 0x8000" "level \<le> l" "l \<le> 0x7FFF" "l = level \<Longrightarrow> unat c < unat d"
    using attack_tick [OF assms(2-5)] by blast
  have i: "counter_increment (attack_envelope rate ex) > 0"
  proof -
    have "1 \<le> counter_increment (attack_envelope rate ex)" using attack_moves_rate [OF assms(2)] attack_ok_rate [of rate]
      by (simp add: attack_ok_def Let_def attack_envelope_exponential [of rate ex])
    then show ?thesis by (auto simp: word_le_nat_alt word_less_nat_alt)
  qed
  show ?thesis
  proof (cases "l = 0x7FFF")
    case True
    then show ?thesis using assms(1) t(1) i
      by (intro that(1)) (simp_all add: attacking_def voice_tick_adsr_def Let_def set_adsr_volume_def get_next_adsr_phase_def)
  next
    case False
    then show ?thesis using assms(1) t i
      by (intro that(2) [of d l]) (simp_all add: attacking_def voice_tick_adsr_def Let_def set_adsr_volume_def)
  qed
qed

lemma attack_ends:
  assumes "attack_moves rate ex"
  shows "attacking rate ex c level v \<Longrightarrow> unat c < 0x8000 \<Longrightarrow> 0 \<le> level \<Longrightarrow> level < 0x7FFF \<Longrightarrow>
    \<exists>n. adsr_phase ((voice_tick_adsr ^^ n) v) = ADSR_PHASE_DECAY \<and> adsr_volume (voice_regs ((voice_tick_adsr ^^ n) v)) = 0x7FFF \<and>
      (\<forall>k<n. adsr_phase ((voice_tick_adsr ^^ k) v) = ADSR_PHASE_ATTACK)"
proof (induction "nat (0x7FFF - level) * 0x8001 + (0x8000 - unat c)" arbitrary: c level v rule: less_induct)
  case less
  have a: "adsr_phase v = ADSR_PHASE_ATTACK" using less.prems(1) by (simp add: attacking_def)
  show ?case
  proof (rule attack_step [OF less.prems(1) assms less.prems(2-4)])
    assume "adsr_phase (voice_tick_adsr v) = ADSR_PHASE_DECAY" "adsr_volume (voice_regs (voice_tick_adsr v)) = 0x7FFF"
    then show ?thesis using a by (intro exI [of _ 1]) simp
  next
    fix d l assume s: "attacking rate ex d l (voice_tick_adsr v)" "unat d < 0x8000" "level \<le> l" "l < 0x7FFF"
      "l = level \<Longrightarrow> unat c < unat d"
    have "nat (0x7FFF - l) * 0x8001 + (0x8000 - unat d) < nat (0x7FFF - level) * 0x8001 + (0x8000 - unat c)"
    proof (cases "l = level")
      case False
      then have "nat (0x7FFF - l) + 1 \<le> nat (0x7FFF - level)" using s(3,4) by simp
      then have "(nat (0x7FFF - l) + 1) * 0x8001 \<le> nat (0x7FFF - level) * 0x8001" by (rule mult_le_mono1)
      then show ?thesis by (rule lex_measure) simp
    qed (use s(2,5) in auto)
    then obtain n where n: "adsr_phase ((voice_tick_adsr ^^ n) (voice_tick_adsr v)) = ADSR_PHASE_DECAY"
      "adsr_volume (voice_regs ((voice_tick_adsr ^^ n) (voice_tick_adsr v))) = 0x7FFF"
      "\<forall>k<n. adsr_phase ((voice_tick_adsr ^^ k) (voice_tick_adsr v)) = ADSR_PHASE_ATTACK"
      using less.hyps [OF _ s(1,2) _ s(4)] s(3) less.prems(3) by fastforce
    have "adsr_phase ((voice_tick_adsr ^^ k) v) = ADSR_PHASE_ATTACK" if "k < Suc n" for k
      using that n(3) a by (cases k) (simp_all add: funpow_swap1)
    then show ?thesis using n(1,2) by (intro exI [of _ "Suc n"]) (simp add: funpow_swap1)
  qed
qed

end
