(* ===== verification/Spu_Spec.thy ===== *)
theory Spu_Spec
  imports Spu_Memory Spu_Attack Pad_Spec
begin

text \<open>The properties of the sound processing unit, with their witnesses.\<close>

section \<open>A machine with a silent unit\<close>

definition spu_zero :: spu_state where
  "spu_zero = \<lparr>spu_ticks_carry = 0, cpu_ticks_per_spu_tick = SYSCLK_TICKS_PER_SPU_TICK, cpu_tick_divider = SYSCLK_TICKS_PER_SPU_TICK,
     transfer_ticks_carry = 0, transfer_event_active = False, SPUCNT = 0, SPUSTAT = 0, spu_transfer_control = 0,
     transfer_address_reg = 0, transfer_address = 0, spu_irq_address = 0, capture_buffer_position = 0,
     main_volume_left_reg = 0, main_volume_right_reg = 0, main_volume_left = sweep_zero, main_volume_right = sweep_zero,
     cd_audio_volume_left = 0, cd_audio_volume_right = 0, external_volume_left = 0, external_volume_right = 0,
     key_on_register = 0, key_off_register = 0, endx_register = 0, pitch_modulation_enable_register = 0,
     noise_mode_register = 0, noise_count = 0, noise_level = 1, reverb_on_register = 0,
     reverb_base_address = 0, reverb_current_address = 0,
     reverb_regs = \<lparr>vLOUT = 0, vROUT = 0, mBASE = 0, rev = (\<lambda>_. 0)\<rparr>,
     reverb_downsample_buffer = (\<lambda>_ _. 0), reverb_upsample_buffer = (\<lambda>_ _. 0), reverb_resample_buffer_position = 0,
     last_reverb_input = (0, 0), last_reverb_output = (0, 0), audio_output_muted = False, voices = (\<lambda>_. voice_initial),
     transfer_fifo = \<lparr>fifo_buf = (\<lambda>_. 0), fifo_head = 0, fifo_tail = 0, fifo_size = 0\<rparr>,
     audio_stream = False, spu_ram = (\<lambda>_. 0)\<rparr>"

definition spu_machine :: "spu_state \<Rightarrow> spu_sys" where
  "spu_machine p = pad_sys.extend (pad_machine pad_zero) (spu_sys.fields p)"

definition spu_silent :: "('a spu_sys_scheme) spu_hooks" where
  "spu_silent = \<lparr>spu_dma_set_request = (\<lambda>_ _ s. Some s), cdrom_get_audio_frame = (\<lambda>s. ((0, 0), s)),
     core_audio_stream_write = (\<lambda>_ _ s. s),
     spu_settings = \<lparr>cpu_overclock_active = False, cpu_overclock_numerator = 1, cpu_overclock_denominator = 1\<rparr>\<rparr>"

lemma spu_machine_simps [simp]:
  "spu (spu_machine p) = p" "timing (spu_machine p) = timing_zero" "timing_events (spu_machine p) = (\<lambda>_. event_zero)"
  "intc (spu_machine p) = intc machine_zero"
  by (simp_all add: spu_machine_def pad_sys.extend_def spu_sys.fields_def pad_machine_def mdec_sys.extend_def pad_sys.fields_def
      mdec_machine_def dma_sys.extend_def mdec_sys.fields_def dma_machine_def bus_sys.extend_def dma_sys.fields_def machine_zero_def)

lemma spu_machine_queue [simp]: "has_queue (spu_machine p)"
proof -
  have "sched_queue (spu_machine p) []"
    by (simp add: sched_queue_def sched_dll_def first_or_def last_or_def timing_zero_def event_zero_def)
  then show ?thesis by (auto simp: has_queue_def)
qed

lemma spu_silent_ok [simp]: "spu_hooks_ok \<mu> spu_silent" "request_noted spu_silent"
  by (simp_all add: spu_hooks_ok_def spu_silent_def request_served_def spu_host_kept_def request_noted_def)

lemma spu_zero_ok [simp]: "spu_ok spu_zero"
  by (simp add: spu_zero_def spu_ok_defs fifo_ok_def sweep_ok_def sweep_zero_def SPU_RAM_SIZE_def)

lemma spu_machine_ready:
  "spu_ok p \<Longrightarrow> \<not> bit (SPUSTAT p) 6 \<Longrightarrow> spu_ready spu_silent (spu_machine p)"
  by (simp add: spu_ready_def spu_sound_def spu_silent_def)

lemma spu_zero_ready: "spu_ready spu_silent (spu_machine spu_zero)"
  by (rule spu_machine_ready [OF spu_zero_ok]) (simp add: spu_zero_def)

section \<open>Accesses\<close>





section \<open>Transfers\<close>



text \<open>
  C36.  A fault of the read port: a block of more words than half the FIFO holds, but not more words
  than it holds half-words, is compared with the wrong count; the FIFO is popped past its end and its
  size wraps around.
\<close>

theorem spu_dma_read_underflow:
  assumes "request_noted h" "n \<le> unat (fifo_size (transfer_fifo (spu s)))" "unat (fifo_size (transfer_fifo (spu s))) < 2 * n"
    "fifo_ok 32 (transfer_fifo (spu s))"
  shows "\<exists>ws t. spu_dma_read h n s = Some (ws, t) \<and> 2 ^ 32 - 32 \<le> unat (fifo_size (transfer_fifo (spu t)))"
  by (rule dma_read_past_end [OF assms])

theorem spu_dma_read_underflow_witness:
  "\<exists>ws t. spu_dma_read spu_silent 1 (spu_machine (spu_zero\<lparr>transfer_fifo := spu_fifo_push (transfer_fifo spu_zero) 7\<rparr>)) = Some (ws, t) \<and>
     2 ^ 32 - 32 \<le> unat (fifo_size (transfer_fifo (spu t)))"
proof -
  let ?s = "spu_machine (spu_zero\<lparr>transfer_fifo := spu_fifo_push (transfer_fifo spu_zero) 7\<rparr>)"
  have p: "1 \<le> unat (fifo_size (transfer_fifo (spu ?s)))" "unat (fifo_size (transfer_fifo (spu ?s))) < 2 * 1"
    "fifo_ok 32 (transfer_fifo (spu ?s))"
    by (simp_all add: spu_zero_def spu_fifo_push_def fifo_ok_def FIFO_SIZE_IN_HALFWORDS_def)
  show ?thesis by (rule spu_dma_read_underflow [OF spu_silent_ok(2) p])
qed

text \<open>
  C35.  The address interrupt: when a word the program writes to the transfer port moves the
  transfer address to the interrupt address, the unit shows the interrupt in its status register and
  raises its line, and if the line was low the interrupt controller has it pending.
\<close>

theorem spu_address_interrupt:
  assumes "spu_fifo_empty (transfer_fifo (spu s))" "is_ram_irq_triggerable (spu s)"
    "next_halfword (transfer_address (spu s)) = ucast (spu_irq_address (spu s)) * 8"
  shows "\<exists>t. manual_transfer_write h v s = Some t \<and> bit (SPUSTAT (spu t)) 6 \<and> irq_line_high t SPU_IRQ_INDEX \<and>
    (\<not> irq_line_high s SPU_IRQ_INDEX \<longrightarrow> irq_pending t SPU_IRQ_INDEX) \<and>
    spu_load16 (spu_ram (spu t)) (transfer_address (spu s)) = v"
  by (rule manual_write_interrupts [OF assms])

theorem spu_address_interrupt_witness:
  "\<exists>t. manual_transfer_write spu_silent 0xABCD (spu_machine (spu_zero\<lparr>SPUCNT := set_bit 6 0, transfer_address := 0x7FFFE\<rparr>)) = Some t \<and>
     irq_pending t SPU_IRQ_INDEX"
proof -
  let ?s = "spu_machine (spu_zero\<lparr>SPUCNT := set_bit 6 0, transfer_address := 0x7FFFE\<rparr>)"
  have p: "spu_fifo_empty (transfer_fifo (spu ?s))" "is_ram_irq_triggerable (spu ?s)"
    "next_halfword (transfer_address (spu ?s)) = ucast (spu_irq_address (spu ?s)) * 8"
    by (simp_all add: spu_zero_def spu_fifo_empty_def is_ram_irq_triggerable_def spucnt_irq9_enable_def bit_simps
        next_halfword_def spu_consts)
  have "\<not> irq_line_high ?s SPU_IRQ_INDEX" by (simp add: irq_line_high_def machine_zero_def)
  then show ?thesis using spu_address_interrupt [OF p, of spu_silent "0xABCD"] by blast
qed

section \<open>Voices\<close>

text \<open>
  C32.  The decoder, block after block: the 28 samples of a block follow the recurrence of its
  filter, each from its nibble and the two samples before it in the voice's buffer, also across the block's
  start, where those are the last samples of the block before; and the decoder remembers the two
  it will need for the next block.
\<close>

theorem adpcm_recurrence:
  assumes "samples_linked v"
  shows "samples_linked (voice_decode_block b v) \<and>
    (\<forall>i<3. current_block_samples (voice_decode_block b v) i = current_block_samples v (28 + i)) \<and>
    (\<forall>i<28. current_block_samples (voice_decode_block b v) (3 + i) =
       clamp16 (nibble_sample b i + predicted b (current_block_samples (voice_decode_block b v) (2 + i))
                                              (current_block_samples (voice_decode_block b v) (1 + i))))"
  using decoded [OF assms] by blast

theorem adpcm_recurrence_witness:
  "current_block_samples (voice_decode_block \<lparr>shift_filter = 0x1C, block_flags = 0, block_data = (\<lambda>_. 0x17)\<rparr> voice_initial) 4 =
     clamp16 (1 + 60 * 7 div 64)"
proof -
  let ?b = "\<lparr>shift_filter = 0x1C, block_flags = 0, block_data = (\<lambda>_. 0x17)\<rparr>"
  have "samples_linked voice_initial" by (simp add: samples_linked_def voice_initial_def)
  from adpcm_recurrence [OF this, of ?b]
  have r: "\<forall>i<28. current_block_samples (voice_decode_block ?b voice_initial) (3 + i) =
       clamp16 (nibble_sample ?b i + predicted ?b (current_block_samples (voice_decode_block ?b voice_initial) (2 + i))
                                              (current_block_samples (voice_decode_block ?b voice_initial) (1 + i)))"
    and z: "\<forall>i<3. current_block_samples (voice_decode_block ?b voice_initial) i = 0"
    by (simp_all add: voice_initial_def)
  have n: "nibble_sample ?b 0 = 7" "nibble_sample ?b 1 = 1" by code_simp+
  have q: "predicted ?b 0 0 = 0" "predicted ?b 7 0 = 60 * 7 div 64" by code_simp+
  have "current_block_samples (voice_decode_block ?b voice_initial) 3 = 7"
    using r [rule_format, of 0] z [rule_format, of 2] z [rule_format, of 1] n(1) q(1) by (simp add: clamp16_def)
  then show ?thesis using r [rule_format, of 1] z [rule_format, of 2] n(2) q(2) by (simp add: numeral_eq_Suc)
qed

text \<open>
  C33.  A voice that is keyed on leaves its attack: for every attack rate but the last, and for
  every one below 100 when the attack is exponential, after finitely many samples it is at full level and
  enters its decay, and until then it stays in the attack.
\<close>

theorem attack_reaches_decay:
  assumes "attack_moves (attack_rate (adsr (voice_regs v))) (bit (adsr (voice_regs v)) 15)"
  shows "\<exists>n. adsr_phase ((voice_tick_adsr ^^ n) (voice_key_on v)) = ADSR_PHASE_DECAY \<and>
    adsr_volume (voice_regs ((voice_tick_adsr ^^ n) (voice_key_on v))) = 0x7FFF \<and>
    (\<forall>k<n. adsr_phase ((voice_tick_adsr ^^ k) (voice_key_on v)) = ADSR_PHASE_ATTACK)"
  using attack_ends [OF assms keyed_attacking] by simp

theorem attack_reaches_decay_witness:
  "\<exists>n. adsr_phase ((voice_tick_adsr ^^ n) (voice_key_on voice_initial)) = ADSR_PHASE_DECAY"
proof -
  have "attack_moves (attack_rate (adsr (voice_regs voice_initial))) (bit (adsr (voice_regs voice_initial)) 15)"
    by (simp add: voice_initial_def attack_rate_def adsr_rate_def attack_moves_def bits_get_def)
  from attack_reaches_decay [OF this] show ?thesis by blast
qed

end
