(* ===== verification/Sio.thy ===== *)
theory Sio
  imports Prelude
begin

text \<open>
  The serial port, \<^verbatim>\<open>src/core/serial/sio.c\<close>.  Nothing is attached to it: only
  its registers are kept.  The TTY of the emulator, to which a byte written may go, is a parameter
  of the write that acts on the rest of the system.
\<close>

definition SIO_CTRL_RESET_BIT :: u16 where "SIO_CTRL_RESET_BIT = push_bit 6 1"
definition SIO_MODE_MASK :: u32 where "SIO_MODE_MASK = 0x00FF"
definition SIO_STAT_TXRDY :: u32 where "SIO_STAT_TXRDY = push_bit 0 1"
definition SIO_STAT_TXDONE :: u32 where "SIO_STAT_TXDONE = push_bit 2 1"
definition SIO_STAT_DSR_INPUT_LEVEL :: u32 where "SIO_STAT_DSR_INPUT_LEVEL = push_bit 7 1"
definition SIO_STAT_CTS_INPUT_LEVEL :: u32 where "SIO_STAT_CTS_INPUT_LEVEL = push_bit 8 1"

lemmas sio_consts = SIO_CTRL_RESET_BIT_def SIO_MODE_MASK_def SIO_STAT_TXRDY_def SIO_STAT_TXDONE_def
  SIO_STAT_DSR_INPUT_LEVEL_def SIO_STAT_CTS_INPUT_LEVEL_def

record sio_state =
  s_sio_ctrl :: u16
  s_sio_stat :: u32
  s_sio_mode :: u16
  s_sio_baud :: u16

definition sio_soft_reset :: "sio_state \<Rightarrow> sio_state" where
  "sio_soft_reset s = s\<lparr>s_sio_ctrl := 0,
     s_sio_stat := SIO_STAT_DSR_INPUT_LEVEL OR SIO_STAT_CTS_INPUT_LEVEL OR SIO_STAT_TXDONE OR SIO_STAT_TXRDY,
     s_sio_mode := 0, s_sio_baud := 0xDC\<rparr>"

definition sio_reset :: "sio_state \<Rightarrow> sio_state" where
  "sio_reset s = sio_soft_reset s"

definition sio_initialize :: "sio_state \<Rightarrow> sio_state" where
  "sio_initialize s = sio_reset s"

definition sio_read_register :: "u32 \<Rightarrow> sio_state \<Rightarrow> u32" where
  "sio_read_register offset s =
     (if offset = 0x00 then let v = 0xFF in v OR push_bit 8 v OR push_bit 16 v OR push_bit 24 v
      else if offset = 0x04 then s_sio_stat s
      else if offset = 0x08 then ucast (s_sio_mode s)
      else if offset = 0x0A then ucast (s_sio_ctrl s)
      else if offset = 0x0E then ucast (s_sio_baud s)
      else 0xFFFFFFFF)"

text \<open>
  \<open>tty\<close> is \<open>bus_add_tty_character\<close>, absent when it is not linked or the
  redirection is off; \<open>r\<close> is what it acts on.
\<close>

definition sio_write_register ::
  "(u8 \<Rightarrow> 'r \<Rightarrow> 'r) option \<Rightarrow> u32 \<Rightarrow> u32 \<Rightarrow> sio_state \<times> 'r \<Rightarrow> sio_state \<times> 'r" where
  "sio_write_register tty offset v p = (case p of (s, r) \<Rightarrow>
     if offset = 0x00 then (s, case tty of Some f \<Rightarrow> f (ucast v) r | None \<Rightarrow> r)
     else if offset = 0x0A
     then let s = s\<lparr>s_sio_ctrl := ucast v\<rparr>
          in (if s_sio_ctrl s AND SIO_CTRL_RESET_BIT \<noteq> 0 then sio_soft_reset s else s, r)
     else if offset = 0x08 then (s\<lparr>s_sio_mode := ucast (v AND SIO_MODE_MASK)\<rparr>, r)
     else if offset = 0x0E then (s\<lparr>s_sio_baud := ucast v\<rparr>, r)
     else (s, r))"

text \<open>A program's writes, one after the other.\<close>

definition sio_writes ::
  "(u8 \<Rightarrow> 'r \<Rightarrow> 'r) option \<Rightarrow> (u32 \<times> u32) list \<Rightarrow> sio_state \<times> 'r \<Rightarrow> sio_state \<times> 'r" where
  "sio_writes tty ws p = fold (\<lambda>(a, v). sio_write_register tty a v) ws p"

lemma sio_write_stat:
  assumes "s_sio_stat (fst p) = 0x185"
  shows "s_sio_stat (fst (sio_write_register tty a v p)) = 0x185"
  using assms
  by (cases p) (simp add: sio_write_register_def sio_soft_reset_def sio_consts Let_def push_bit_eq_mult)

lemma sio_writes_stat:
  "s_sio_stat (fst p) = 0x185 \<Longrightarrow> s_sio_stat (fst (sio_writes tty ws p)) = 0x185"
proof (induction ws arbitrary: p)
  case (Cons w ws)
  then show ?case using Cons.IH [OF sio_write_stat [OF Cons.prems]]
    by (simp add: sio_writes_def case_prod_unfold)
qed (simp add: sio_writes_def)

lemma sio_mode_masked: "unat (ucast (v AND SIO_MODE_MASK) :: u16) < 256"
proof -
  have "v AND SIO_MODE_MASK = take_bit 8 v" by (simp add: SIO_MODE_MASK_def take_bit_eq_mask mask_eq_exp_minus_1)
  then have "unat (ucast (v AND SIO_MODE_MASK) :: u16) = take_bit 16 (take_bit 8 (unat v))"
    by (simp only: unsigned_ucast_eq unsigned_take_bit_eq) simp
  then show ?thesis by (simp add: take_bit_eq_mod)
qed

text \<open>The bytes sent, and the baud rate and mode last written, decide everything but the status.\<close>

lemma sio_writes_tty:
  "snd (sio_writes (Some f) ws p) = fold (\<lambda>(a, v). if a = 0 then f (ucast v) else id) ws (snd p)"
proof (induction ws arbitrary: p)
  case (Cons w ws)
  have "snd (sio_write_register (Some f) a v p) = (if a = 0 then f (ucast v) else id) (snd p)" for a v
    by (cases p) (simp add: sio_write_register_def Let_def)
  then show ?case using Cons.IH [of "sio_write_register (Some f) (fst w) (snd w) p"]
    by (simp add: sio_writes_def case_prod_unfold)
qed (simp add: sio_writes_def)

text \<open>
  Whatever a program writes to the serial port after a reset, its status reads as an idle
  line with nothing attached (transmitter ready and done, both input levels) and its data as ones, and
  the bytes written to the data register reach the terminal in order.
\<close>

lemma sio_status_idle:
  "sio_read_register 0x04 (fst (sio_writes tty ws (sio_reset s, r))) = 0x185 \<and>
   sio_read_register 0x00 (fst (sio_writes tty ws (sio_reset s, r))) = 0xFFFFFFFF \<and>
   snd (sio_writes (Some f) ws (sio_reset s, r)) = fold (\<lambda>(a, v). if a = 0 then f (ucast v) else id) ws r"
proof -
  have "s_sio_stat (fst (sio_reset s, r)) = 0x185"
    by (simp add: sio_reset_def sio_soft_reset_def sio_consts push_bit_eq_mult)
  then have "s_sio_stat (fst (sio_writes tty ws (sio_reset s, r))) = 0x185" by (rule sio_writes_stat)
  then show ?thesis by (simp add: sio_read_register_def Let_def push_bit_eq_mult sio_writes_tty)
qed

end
