(* ===== verification/Spec2Isabelle.thy ===== *)
theory Spec2Isabelle
  imports Cpu_Spec Insn_Spec Sched_Spec Timers_Spec Gte_Spec Bus_Spec Dma_Spec Mdec_Spec Card_Spec Pad_Spec
    Spu_Spec Sio
begin

text \<open>
  cupid-ps1: the core of a PlayStation emulator, \<^verbatim>\<open>src/core\<close>, as an
  Isabelle library.

  The program. \<^verbatim>\<open>cpu/\<close> interprets (or recompiles) the R3000A; it reaches memory and
  every device through the handler tables of \<^verbatim>\<open>memory/bus.c\<close>.  Devices schedule
  callbacks in the event queue of \<^verbatim>\<open>scheduler/timing_event.c\<close>; the queue's first time
  bounds how long the CPU runs before it commits its pending ticks and lets due events run.
  Devices raise lines of \<^verbatim>\<open>interrupts/interrupt_controller.c\<close>, which sets the request
  bit in the CPU's CAUSE register; the CPU looks at it between instructions.
  \<^verbatim>\<open>timers/timers.c\<close> is a device with an event, \<^verbatim>\<open>gte/gte.c\<close> the
  coprocessor the CPU calls.

  State.  Each file's statics are one record, and a machine state is a tower of extensions:
  \<open>sys_core\<close> (CPU, interrupt controller), \<open>sched_sys\<close> (events), \<open>timers_sys\<close>,
  \<open>bus_sys\<close>, \<open>dma_sys\<close>, \<open>mdec_sys\<close>, \<open>pad_sys\<close>, \<open>spu_sys\<close>.  The operations take the tower they need and leave the rest
  polymorphic, so a component's lemmas hold in every larger machine.  Pointers to events are
  names (\<open>event_id\<close>), \<open>prev\<close> and \<open>next\<close> fields a map to an optional name, so
  the aliasing of the intrusive list is in the model.  Integers have the width of the source;
  where the C arithmetic is exact it is \<open>int\<close>, with the truncation written where the source
  stores it.  A dereference of NULL, a division by zero and a loop that does not end are the
  value \<open>None\<close>.
\<close>

text \<open>
  Theories and source.

  \<^item> \<open>Prelude\<close>: widths of \<^verbatim>\<open>common/types.h\<close>, bit fields, truncation, single-bit
    updates, and the generic lemmas about them.
  \<^item> \<open>Cpu_State\<close>: \<^verbatim>\<open>cpu_state_t\<close>, tick counters, the interrupt test.
    \<open>Cpu_Memory\<close>: address segments, fetch, instruction cache, safe accesses.
    \<open>Cpu_Pipeline\<close>: registers and load delay, branches, exceptions, data accesses.
    \<open>Cpu_Exec\<close>: the interpreter's switch, one definition per group of cases, and interrupt
    dispatch.  \<open>Cpu_Decode\<close>: the classifiers and validity table of
    \<^verbatim>\<open>cpu_types.c\<close>.
  \<^item> \<open>Gte\<close>: registers, FLAG, saturation, divider and the 22 commands of
    \<^verbatim>\<open>gte.c\<close>.
  \<^item> \<open>Bus\<close>, \<open>Bus_Handlers\<close>: tables, code pages, access times; every memory handler
    and the hardware page of \<^verbatim>\<open>bus.c\<close>, with \<^verbatim>\<open>pio.c\<close>.
  \<^item> \<open>Interrupts\<close>, \<open>Scheduler\<close>, \<open>Timers\<close>: the files of those names.
  \<^item> \<open>Dma\<close>, \<open>Dma_Transfer\<close>: \<^verbatim>\<open>dma.c\<close>.  \<open>Mdec\<close>, \<open>Mdec_Ops\<close>:
    \<^verbatim>\<open>mdec.c\<close>, its data path and its control.
  \<^item> \<open>Card_Image\<close>, \<open>Card_Files\<close>: \<^verbatim>\<open>memory_card_image.c\<close>, blocks and
    files, and the host's side of them; \<open>Memory_Card\<close>: \<^verbatim>\<open>memory_card.c\<close>.
  \<^item> \<open>Controllers\<close>: \<^verbatim>\<open>digital_controller.c\<close>, \<^verbatim>\<open>analog_controller.c\<close> and the dispatch
    of \<^verbatim>\<open>controller.c\<close>; \<open>Pad\<close>: \<^verbatim>\<open>pad.c\<close> and \<^verbatim>\<open>multitap.c\<close>, which drive controllers and
    memory cards byte by byte; \<open>Sio\<close>: \<^verbatim>\<open>sio.c\<close>.
  \<^item> \<open>Spu_Voice\<close>: the pure part of \<^verbatim>\<open>spu.c\<close> (envelopes, ADPCM, interpolation,
    noise); \<open>Spu\<close>: its state, RAM, voices, reverb and the frame; \<open>Spu_Ops\<close>: transfers,
    ticks and DMA ports; \<open>Spu_Regs\<close>: registers.
  \<^item> \<open>Machine\<close>: the CPU on its bus and its runs, instruction by instruction with the
    devices' activity between; \<open>Power_On\<close>: the state the program starts in, used by the
    witnesses.

  Lemmas.

  \<^item> \<open>Cpu_Frame\<close> states what a memory handler may do to the CPU (locale
    \<open>cpu_bus\<close>), \<open>Bus_Frame\<close> proves that the handlers of the bus keep it and
    \<open>Machine\<close> interprets the locale; \<open>Cpu_Inv\<close> proves preservation through the whole
    interpreter once (locale \<open>core_step\<close>) and instantiates it by \<^verbatim>\<open>sublocale\<close> with
    the register invariant; \<open>Cpu_Control\<close> with the fetch stream.  \<open>Cpu_Arith\<close> has the
    arithmetic and the unaligned merges, \<open>Cpu_Icache\<close> the cache.
  \<^item> \<open>Scheduler_Queue\<close> refines the pointer list to a list of events with sorted times;
    \<open>Scheduler_Ops\<close> lifts this to the public operations (locale \<open>timed_queue\<close>);
    \<open>Scheduler_Loop\<close> shows that the event loop returns for callbacks that keep a contract
    (locale \<open>event_callbacks\<close>), and \<open>Timers_Inv\<close> that the timers' callback keeps it.
    \<open>Timers_Irq\<close> and \<open>Timers_Regs\<close>: counter values, interrupt times, registers.
  \<^item> \<open>Interrupts\<close> has the request's coherence over all sequences of operations (locale
    \<open>irq_line\<close>).  \<open>Gte_Props\<close>: the register image every command keeps;
    \<open>Gte_Num\<close>: its arithmetic.  \<open>Bus_Map\<close>: the tables against a decoder written as the
    memory map; \<open>Bus_Props\<close>: times, storage (locale \<open>byte_store\<close>), code pages.
  \<^item> \<open>Dma_Props\<close>: every entry of the DMA controller returns, whatever lists are in RAM, and
    keeps the interrupt line equal to the master flag; \<open>Dma_Words\<close>: the addresses a transfer
    visits, staged or not.
  \<^item> \<open>Mdec_Fifo\<close>: the ring buffers as lists (locale \<open>bounded_ring\<close>, interpreted for
    both); \<open>Mdec_Rle\<close>: run-length decoding against a decoder on lists; \<open>Mdec_Resume\<close>:
    data that comes in pieces; \<open>Mdec_Exec\<close>: the state machine's invariant and measure;
    \<open>Mdec_Props\<close>: packing, pixels, tables and the public operations.
  \<^item> \<open>Card_Props\<close>: a written file as a chain of blocks taken from the list of free ones;
    \<open>Card_Saves\<close>: whole files, deletion, export and import; \<open>Card_Format\<close>: the frames
    of a formatted card; \<open>Memory_Card_Props\<close>: what a session of bytes reads and writes.
  \<^item> \<open>Controller_Props\<close>: polls of the pads and the invariant of the analog pad's
    buffers (locale \<open>serial_device\<close>, interpreted for both pads and for the dispatch);
    \<open>Pad_Props\<close>: the port's invariant and that its accesses return; \<open>Pad_Bus\<close>: the
    memory card as a \<open>serial_device\<close>, selection by address, one byte from write to reply.
  \<^item> \<open>Spu_Voice_Props\<close>, \<open>Spu_Attack\<close>: sample ranges, the decoder's recurrence, the end of
    the attack; \<open>Spu_Props\<close>: the unit's invariant, its FIFO as a \<open>bounded_ring\<close>;
    \<open>Spu_Frames\<close>, \<open>Spu_Run\<close>: what a frame keeps, and the sums over voices;
    \<open>Spu_Transfer\<close>: the transfer loops return (locale \<open>transfer_loop\<close>, interpreted for both
    directions), although the DMA controller may answer a request in the middle of one;
    \<open>Spu_Access\<close>, \<open>Spu_Registers\<close>: ports, tick event and registers;
    \<open>Spu_Memory\<close>: what RAM holds after a transfer.
  \<^item> \<open>Cpu_Spec\<close>, \<open>Insn_Spec\<close>, \<open>Sched_Spec\<close>, \<open>Timers_Spec\<close>,
    \<open>Gte_Spec\<close>, \<open>Bus_Spec\<close>, \<open>Dma_Spec\<close>, \<open>Mdec_Spec\<close>,
    \<open>Card_Spec\<close>, \<open>Pad_Spec\<close>, \<open>Spu_Spec\<close>: the properties with their witnesses; this
    theory has those that span components.
\<close>

text \<open>
  Loops and bounds.  The walks over the event list, the event loop, the commit rounds and the
  code-page scan, the linked-list walk of the DMA, the decoder's command loop and the sound unit's transfers are
  \<^theory_text>\<open>partial_function (option)\<close>: a run that does not return is \<open>None\<close>, and
  the theorems about them prove that the result is \<open>Some\<close>.  All other loops are structural or
  run over fixed ranges.  There is no fuel.  The event loop's theorem bounds times by
  \<open>2 ^ 63\<close>, the range in which the unsigned clock differences the source compares do not
  wrap.

  Parameters.  \<open>bus_devices\<close> stands for the devices behind the hardware page that are not
  plugged in (GPU, CD-ROM, expansion ports; DMA, MDEC, pads, serial port and sound unit have
  models of their own, which take their partners the same way, as \<open>dma_hooks\<close>,
  \<open>mdec_hooks\<close>, \<open>pad_hooks\<close>, \<open>spu_hooks\<close> and the terminal of \<open>sio_writes\<close>);
  \<open>card_hooks\<close> for the host's files and clock as the memory cards see them;
  \<open>timers_hooks\<close> for the GPU's timing and the overclock scaling of the timers;
  \<open>gte_config\<close> for the settings the GTE reads.  The theorems name what they need of them
  (\<open>devices_ok\<close>, \<open>hooks_ok\<close>, \<open>rest_ok\<close>, \<open>gpu_hook_ok\<close>, \<open>spu_hooks_ok\<close>): a device does not
  write the CPU's registers, and a callback returns with the queue well-formed.

  Not modelled: save states; the recompiler, its block cache and thunks and the run-mode
  switch, which choose between interpreter and generated code; host memory mapping (fastmem),
  executable injection and TTY output in the bus; the kernel-call hooks of the interpreter,
  PGXP and all debugging aids; the pads other than the digital and the analog one, and the
  floating-point half axes of the latter; and the devices listed as parameters above.  The host side
  (\<^verbatim>\<open>src/util\<close>, \<^verbatim>\<open>src/frontend\<close>, \<^verbatim>\<open>src/common\<close>) and the libraries
  of \<^verbatim>\<open>dep\<close> are outside the emulated machine.
\<close>

section \<open>Across components\<close>

lemma irq_field_bit: "bit (0xFF00 :: u32) 10" by simp

lemma enabled_request_pending:
  assumes "bit (cause (cop0_regs c)) 10" "sr_IEc (sr (cop0_regs c))" "bit (sr (cop0_regs c)) 10"
  shows "cpu_has_pending_interrupt c"
  unfolding cpu_has_pending_interrupt_def word_and_nonzero_iff
  using assms irq_field_bit by (auto simp: bit_and_iff intro!: exI [of _ 10])

lemma irq_line_edge:
  assumes "irq < 32" "\<not> irq_line_high s irq" "irq_enabled s irq"
    and "sr_IEc (sr (cop0_regs (cpu s)))" "bit (sr (cop0_regs (cpu s))) 10"
  defines "t \<equiv> interrupt_controller_set_line_state irq True s"
  shows "cpu_has_pending_interrupt (cpu t)" "irq_cpu_line s \<or> downcount (cpu t) = 0"
proof -
  have p: "irq_pending t irq \<and> irq_enabled s irq" using assms by (simp add: set_line_state_pending)
  then have "(\<exists>n. irq_pending t n \<and> irq_enabled s n) = True" by blast
  then have c: "cpu t = cpu_set_irq_request True (cpu s)"
    using set_line_state_cpu [OF assms(1), of True s] assms(2) by (simp add: t_def)
  show "cpu_has_pending_interrupt (cpu t)"
    using assms(4,5) by (intro enabled_request_pending) (simp_all add: c cpu_set_irq_request_cause_bit)
  have "downcount (cpu t) = 0" if low: "\<not> irq_cpu_line s"
  proof -
    let ?o = "cause (cop0_regs (cpu s))"
    have "bit (?o XOR flag_put 10 True ?o) 10" using low by (simp add: irq_cpu_line_def bit_xor_iff)
    then have "?o XOR flag_put 10 True ?o \<noteq> 0" by auto
    moreover have "cpu_has_pending_interrupt
        ((cpu s)\<lparr>cop0_regs := (cop0_regs (cpu s))\<lparr>cause := flag_put 10 True ?o\<rparr>\<rparr>)"
      using assms(4,5) by (intro enabled_request_pending) simp_all
    ultimately show ?thesis
      by (simp add: c cpu_set_irq_request_def cpu_check_for_pending_interrupt_def Let_def)
  qed
  then show "irq_cpu_line s \<or> downcount (cpu t) = 0" by blast
qed

text \<open>
  C9.  From a device's line to the CPU: a pulse on a line the mask register enables, with
  interrupts and the hardware line enabled in the status register, leaves an interrupt pending
  in the CPU, and its downcount is zero, so the run loop looks at once, unless a request was
  already standing.
\<close>

theorem device_interrupt_reaches_cpu:
  assumes "n < 11" "irq_enabled s n" "sr_IEc (sr (cop0_regs (cpu s)))" "bit (sr (cop0_regs (cpu s))) 10"
    and "\<not> irq_line_high s n"
  shows "cpu_has_pending_interrupt (cpu (interrupt_controller_set_line_state n True s)) \<and>
    (if irq_cpu_line s then True
     else downcount (cpu (interrupt_controller_set_line_state n True s)) = 0)"
  using irq_line_edge [of n s] assms by auto

theorem device_interrupt_reaches_cpu_witness:
  "cpu_has_pending_interrupt (cpu (interrupt_controller_set_line_state 4 True
     (machine_zero\<lparr>cpu := cpu_zero\<lparr>cop0_regs := cop0_zero\<lparr>sr := 0x401\<rparr>\<rparr>,
       intc := (intc machine_zero)\<lparr>interrupt_mask_register := 0x10\<rparr>\<rparr>)))"
proof -
  let ?s = "machine_zero\<lparr>cpu := cpu_zero\<lparr>cop0_regs := cop0_zero\<lparr>sr := 0x401\<rparr>\<rparr>,
       intc := (intc machine_zero)\<lparr>interrupt_mask_register := 0x10\<rparr>\<rparr>"
  have "irq_enabled ?s 4" "sr_IEc (sr (cop0_regs (cpu ?s)))" "bit (sr (cop0_regs (cpu ?s))) 10"
    "\<not> irq_line_high ?s 4"
    by (simp_all add: irq_enabled_def irq_line_high_def sr_IEc_def power_on_defs)
  then show ?thesis using device_interrupt_reaches_cpu [of 4 ?s] by simp
qed

text \<open>
  From a store to the controller: a word stored to I_STAT, through any segment that
  reaches the hardware page, is exactly the controller's acknowledge; it clears the interrupts
  whose bits are zero and leaves the CPU's request line equal to "a pending interrupt is
  enabled".
\<close>

lemma store_acknowledges_interrupt:
  fixes d :: "('a bus_sys_scheme) bus_devices" and s :: "'a bus_sys_scheme" and a v :: u32 and swc :: bool
  assumes "bus_tables_ok (bus s)" "a \<in> {0x1F801070, 0x9F801070, 0xBF801070}"
  defines "t \<equiv> bus_write_handler d False swc MEMORY_ACCESS_SIZE_WORD a v s"
  shows "t = interrupt_controller_write_register 0 v s \<and>
    (\<forall>n. irq_pending t n \<longleftrightarrow> irq_pending s n \<and> bit v n \<and> n < 11) \<and>
    (irq_cpu_line t \<longleftrightarrow> (\<exists>n. irq_pending t n \<and> irq_enabled t n))"
proof -
  have n: "unat a < 2 ^ 32" using unsigned_less [of a] by simp
  have u: "unat a \<in> {0x1F801070, 0x9F801070, 0xBF801070}" using assms(2) by auto
  have m: "\<not> upper_ram k" "decode_address False k = HANDLER_HW"
    if "k \<in> {0x1F801070, 0x9F801070, 0xBF801070}" for k
    using that by (elim insertE; simp add: upper_ram_def decode_address_def decode_segment_def)+
  have h: "bus_get_memory_handlers False swc (bus s) (unat (drop_bit 12 a)) = HANDLER_HW"
    using assms(1) n m [OF u] unfolding page_of bus_get_memory_handlers_def bus_tables_ok_def by simp
  have i: "unat (drop_bit 4 a AND 0xFF) = 7" "a AND 0xF = 0" using assms(2) by auto
  have "build_hw_dispatch 7 = HW_INTC" by (simp add: hw_dispatch_decode hw_decode_def)
  then have t: "t = interrupt_controller_write_register 0 v s"
    unfolding t_def bus_write_handler_def h hardware_write_def i
    by (simp add: intc_write_common_def i device_write_word_def fixup_defs)
  show ?thesis unfolding t by (simp add: write_status_pending write_register_cpu_line)
qed

end
